(* ===== verification/Prelude.thy ===== *)
theory Prelude
  imports Complex_Main "HOL-Library.AList" "HOL-Library.Sublist" "HOL-Library.Word"
begin

text \<open>
  What every component shares: the error values of the Go code, its 64-bit integers, instants and
  durations, identifiers, keyed rows of a database table, and a locale for machines that are driven
  by events and keep an invariant. The collections below carry the component proofs:
  \<^item> \<open>tbl\<close>: how the row operations act on lookups and keys;
  \<^item> \<open>strs\<close>: facts on Go's string functions (theory \<open>Go_Strings\<close>).
\<close>

named_theorems tbl
named_theorems strs

section \<open>Errors, identifiers, time\<close>

text \<open>
  Go's \<open>error\<close>: a message, the two sentinel errors the code tests with \<open>errors.Is\<close>
  (\<open>gorm.ErrRecordNotFound\<close>, a context that is done), and a violated unique index.
\<close>

datatype goerr = ErrMsg string | ErrNotFound | ErrCtxDone | ErrUnique

type_synonym 'a result = "goerr + 'a"

fun err_text :: "goerr \<Rightarrow> string" where
  "err_text (ErrMsg s) = s"
| "err_text ErrNotFound = ''record not found''"
| "err_text ErrCtxDone = ''context canceled''"
| "err_text ErrUnique = ''duplicated key not allowed''"

text \<open>\<open>uuid.UUID\<close> is sixteen bytes; \<open>uuid.Nil\<close> is all zeros.\<close>

type_synonym uuid = "128 word"

definition uuid_nil :: uuid where
  "uuid_nil = 0"

text \<open>
  An instant is the number of nanoseconds since Go's zero time (\<open>Time.IsZero\<close> holds of 0 only),
  a duration a signed 64-bit number of nanoseconds. Products of durations wrap around, and the
  difference of two instants saturates, as in Go.
\<close>

type_synonym instant = int
type_synonym duration = int

definition wrap64 :: "int \<Rightarrow> int" where
  "wrap64 n = (n + 2 ^ 63) mod 2 ^ 64 - 2 ^ 63"

definition sat64 :: "int \<Rightarrow> int" where
  "sat64 n = max (- (2 ^ 63)) (min (2 ^ 63 - 1) n)"

definition dur_mul :: "int \<Rightarrow> duration \<Rightarrow> duration" where
  "dur_mul n d = wrap64 (n * d)"

definition time_sub :: "instant \<Rightarrow> instant \<Rightarrow> duration" where
  "time_sub a b = sat64 (a - b)"

definition second :: duration where
  "second = 1000000000"

definition minute :: duration where
  "minute = 60000000000"

lemma wrap64_id: "- (2 ^ 63) \<le> n \<Longrightarrow> n < 2 ^ 63 \<Longrightarrow> wrap64 n = n"
  by (simp add: wrap64_def)

lemma wrap64_range: "- (2 ^ 63) \<le> wrap64 n \<and> wrap64 n < 2 ^ 63"
proof -
  have "0 \<le> (n + 2 ^ 63) mod 2 ^ 64" and "(n + 2 ^ 63) mod 2 ^ 64 < 2 ^ 64"
    by simp_all
  then show ?thesis by (simp add: wrap64_def)
qed

lemma time_sub_less_iff:
  "- (2 ^ 63) < d \<Longrightarrow> d < 2 ^ 63 \<Longrightarrow> time_sub a b < d \<longleftrightarrow> a - b < d"
  by (auto simp: time_sub_def sat64_def min_def max_def)

lemma time_sub_le_iff:
  "- (2 ^ 63) \<le> d \<Longrightarrow> d < 2 ^ 63 - 1 \<Longrightarrow> time_sub a b \<le> d \<longleftrightarrow> a - b \<le> d"
  by (auto simp: time_sub_def sat64_def min_def max_def)

section \<open>Rows of a keyed table\<close>

text \<open>
  A table is the list of its rows; \<open>key\<close> is the column the table is unique on.
  \<open>row_get\<close> is \<open>First\<close> with a condition on the key, \<open>row_put\<close> is \<open>Create\<close>, which
  the unique index refuses when the key is taken, \<open>row_upd\<close> is \<open>Model().Where(key).Updates\<close>,
  which changes nothing when there is no such row.
\<close>

definition row_get :: "('r \<Rightarrow> 'k) \<Rightarrow> 'k \<Rightarrow> 'r list \<Rightarrow> 'r option" where
  "row_get key k rows = find (\<lambda>r. key r = k) rows"

definition row_put :: "('r \<Rightarrow> 'k) \<Rightarrow> 'r \<Rightarrow> 'r list \<Rightarrow> 'r list option" where
  "row_put key r rows = (if key r \<in> key ` set rows then None else Some (rows @ [r]))"

definition row_upd :: "('r \<Rightarrow> 'k) \<Rightarrow> 'k \<Rightarrow> ('r \<Rightarrow> 'r) \<Rightarrow> 'r list \<Rightarrow> 'r list" where
  "row_upd key k f rows = map (\<lambda>r. if key r = k then f r else r) rows"

definition keyed :: "('r \<Rightarrow> 'k) \<Rightarrow> 'r list \<Rightarrow> bool" where
  "keyed key rows \<longleftrightarrow> distinct (map key rows)"

lemma row_get_None: "row_get key k rows = None \<longleftrightarrow> k \<notin> key ` set rows"
  by (auto simp: row_get_def find_None_iff)

lemma row_get_absent: "k \<notin> key ` set rows \<Longrightarrow> row_get key k rows = None"
  by (simp add: row_get_None)

lemma row_get_SomeD: "row_get key k rows = Some r \<Longrightarrow> key r = k \<and> r \<in> set rows"
  by (auto simp: row_get_def find_Some_iff)

lemma row_get_Nil [simp]: "row_get key k [] = None"
  by (simp add: row_get_def)

lemma row_get_Cons [simp]:
  "row_get key k (r # rows) = (if key r = k then Some r else row_get key k rows)"
  by (simp add: row_get_def)

lemma row_get_append:
  "row_get key k (xs @ ys) = (case row_get key k xs of Some r \<Rightarrow> Some r | None \<Rightarrow> row_get key k ys)"
  by (induction xs) auto

lemma row_get_keyed: "keyed key rows \<Longrightarrow> r \<in> set rows \<Longrightarrow> row_get key (key r) rows = Some r"
  by (induction rows) (auto simp: keyed_def)

lemma keyed_filter: "keyed key rows \<Longrightarrow> r \<in> set rows \<Longrightarrow> filter (\<lambda>x. key x = key r) rows = [r]"
proof (induction rows)
  case (Cons x xs)
  show ?case
  proof (cases "x = r")
    case True
    with Cons.prems have "\<forall>y \<in> set xs. key y \<noteq> key r" unfolding keyed_def by (metis distinct.simps(2) image_eqI image_set list.simps(9))
    with True show ?thesis by (simp add: filter_empty_conv)
  next
    case False
    with Cons show ?thesis by (auto simp: keyed_def)
  qed
qed simp

lemma row_put_get [tbl]:
  "row_put key r rows = Some rows' \<Longrightarrow>
   row_get key k rows' = (if k = key r then Some r else row_get key k rows)"
  by (auto simp: row_put_def row_get_append row_get_absent split: if_splits option.splits)

lemma row_put_keyed [tbl]: "row_put key r rows = Some rows' \<Longrightarrow> keyed key rows \<Longrightarrow> keyed key rows'"
  by (auto simp: row_put_def keyed_def split: if_splits)

lemma row_upd_get [tbl]:
  "(\<And>r. key r = k \<Longrightarrow> key (f r) = k) \<Longrightarrow>
   row_get key k' (row_upd key k f rows) =
     (if k' = k then map_option f (row_get key k rows) else row_get key k' rows)"
  by (induction rows) (auto simp: row_upd_def)

lemma row_upd_keys [tbl]:
  "(\<And>r. key r = k \<Longrightarrow> key (f r) = k) \<Longrightarrow> map key (row_upd key k f rows) = map key rows"
  by (induction rows) (auto simp: row_upd_def)

lemma row_upd_keyed [tbl]:
  "(\<And>r. key r = k \<Longrightarrow> key (f r) = k) \<Longrightarrow> keyed key rows \<Longrightarrow> keyed key (row_upd key k f rows)"
  by (simp add: keyed_def row_upd_keys)

lemma row_upd_length [simp]: "length (row_upd key k f rows) = length rows"
  by (simp add: row_upd_def)

lemma set_row_upd: "set (row_upd key k f rows) = (\<lambda>r. if key r = k then f r else r) ` set rows"
  by (simp add: row_upd_def)

section \<open>Machines driven by events\<close>

text \<open>
  A component is a function from an event and a state to the next state. Its contract is an
  invariant that each event keeps; every run then keeps it.
\<close>

fun run :: "('e \<Rightarrow> 's \<Rightarrow> 's) \<Rightarrow> 'e list \<Rightarrow> 's \<Rightarrow> 's" where
  "run step [] s = s"
| "run step (e # es) s = run step es (step e s)"

lemma run_append: "run step (es @ fs) s = run step fs (run step es s)"
  by (induction es arbitrary: s) auto

locale invariant_machine =
  fixes step :: "'e \<Rightarrow> 's \<Rightarrow> 's"
    and inv :: "'s \<Rightarrow> bool"
  assumes step_inv: "inv s \<Longrightarrow> inv (step e s)"
begin

lemma run_inv: "inv s \<Longrightarrow> inv (run step es s)"
  by (induction es arbitrary: s) (auto intro: step_inv)

lemma run_prefix_inv: "inv s \<Longrightarrow> inv (run step (take n es) s)"
  by (rule run_inv)

end

end
