(* ===== verification/Go_Strings.thy ===== *)
theory Go_Strings
  imports Prelude
begin

text \<open>
  The functions of Go's \<open>strings\<close>, \<open>strconv\<close> and \<open>fmt\<close> packages that the modelled code
  calls. A Go string is its bytes, a \<open>char list\<close>. \<open>TrimSpace\<close> removes the 25 encodings of
  Unicode white space; \<open>ToLower\<close> and \<open>ToUpper\<close> map the ASCII letters and keep every other byte
  (they are exact on ASCII text, which is what the code compares them with); \<open>EqualFold\<close> is exact when one
  of its sides is ASCII.
\<close>

section \<open>White space\<close>

definition ascii_ws :: "char list" where
  "ascii_ws = [CHR 0x20, CHR 0x0A, CHR 0x09, CHR 0x0D, CHR 0x0B, CHR 0x0C]"

definition wide_ws :: "string list" where
  "wide_ws = [[CHR 0xC2, CHR 0x85], [CHR 0xC2, CHR 0xA0], [CHR 0xE1, CHR 0x9A, CHR 0x80],
     [CHR 0xE2, CHR 0x80, CHR 0x80], [CHR 0xE2, CHR 0x80, CHR 0x81], [CHR 0xE2, CHR 0x80, CHR 0x82],
     [CHR 0xE2, CHR 0x80, CHR 0x83], [CHR 0xE2, CHR 0x80, CHR 0x84], [CHR 0xE2, CHR 0x80, CHR 0x85],
     [CHR 0xE2, CHR 0x80, CHR 0x86], [CHR 0xE2, CHR 0x80, CHR 0x87], [CHR 0xE2, CHR 0x80, CHR 0x88],
     [CHR 0xE2, CHR 0x80, CHR 0x89], [CHR 0xE2, CHR 0x80, CHR 0x8A], [CHR 0xE2, CHR 0x80, CHR 0xA8],
     [CHR 0xE2, CHR 0x80, CHR 0xA9], [CHR 0xE2, CHR 0x80, CHR 0xAF], [CHR 0xE2, CHR 0x81, CHR 0x9F],
     [CHR 0xE3, CHR 0x80, CHR 0x80]]"

definition ws_runes :: "string list" where
  "ws_runes = map (\<lambda>c. [c]) ascii_ws @ wide_ws"

text \<open>The number of bytes of the white-space rune a string starts (ends) with, 0 for none.\<close>

definition lead_ws :: "string \<Rightarrow> nat" where
  "lead_ws s = (case find (\<lambda>w. prefix w s) ws_runes of None \<Rightarrow> 0 | Some w \<Rightarrow> length w)"

definition trail_ws :: "string \<Rightarrow> nat" where
  "trail_ws s = (case find (\<lambda>w. suffix w s) ws_runes of None \<Rightarrow> 0 | Some w \<Rightarrow> length w)"

lemma ws_runes_nonempty: "w \<in> set ws_runes \<Longrightarrow> w \<noteq> []"
  by (auto simp: ws_runes_def wide_ws_def)

lemma lead_ws_Nil [simp]: "lead_ws [] = 0"
  using ws_runes_nonempty by (auto simp: lead_ws_def find_Some_iff split: option.splits)

lemma trail_ws_Nil [simp]: "trail_ws [] = 0"
  using ws_runes_nonempty by (auto simp: trail_ws_def find_Some_iff split: option.splits)

lemma lead_ws_pos_iff: "0 < lead_ws s \<longleftrightarrow> (\<exists>w \<in> set ws_runes. prefix w s)"
proof (cases "find (\<lambda>w. prefix w s) ws_runes")
  case None
  then have "\<not> (\<exists>w \<in> set ws_runes. prefix w s)" by (auto simp: find_None_iff)
  with None show ?thesis by (simp add: lead_ws_def)
next
  case (Some w)
  then have "w \<in> set ws_runes" "prefix w s" by (auto simp: find_Some_iff)
  with Some ws_runes_nonempty show ?thesis by (auto simp: lead_ws_def)
qed

lemma trail_ws_pos_iff: "0 < trail_ws s \<longleftrightarrow> (\<exists>w \<in> set ws_runes. suffix w s)"
proof (cases "find (\<lambda>w. suffix w s) ws_runes")
  case None
  then have "\<not> (\<exists>w \<in> set ws_runes. suffix w s)" by (auto simp: find_None_iff)
  with None show ?thesis by (simp add: trail_ws_def)
next
  case (Some w)
  then have "w \<in> set ws_runes" "suffix w s" by (auto simp: find_Some_iff)
  with Some ws_runes_nonempty show ?thesis by (auto simp: trail_ws_def)
qed

lemma lead_ws_le: "lead_ws s \<le> length s"
  by (auto simp: lead_ws_def find_Some_iff prefix_length_le split: option.splits)

lemma trail_ws_le: "trail_ws s \<le> length s"
  by (auto simp: trail_ws_def find_Some_iff suffix_length_le split: option.splits)

function trim_left :: "string \<Rightarrow> string" where
  "trim_left s = (if lead_ws s = 0 then s else trim_left (drop (lead_ws s) s))"
  by pat_completeness auto
termination
proof (relation "measure length")
  fix s assume "lead_ws s \<noteq> 0"
  then have "s \<noteq> []" by auto
  with \<open>lead_ws s \<noteq> 0\<close> show "(drop (lead_ws s) s, s) \<in> measure length" by simp
qed simp

function trim_right :: "string \<Rightarrow> string" where
  "trim_right s = (if trail_ws s = 0 then s else trim_right (take (length s - trail_ws s) s))"
  by pat_completeness auto
termination
proof (relation "measure length")
  fix s assume "trail_ws s \<noteq> 0"
  then have "s \<noteq> []" by auto
  with \<open>trail_ws s \<noteq> 0\<close> show "(take (length s - trail_ws s) s, s) \<in> measure length" by simp
qed simp

declare trim_left.simps [simp del] trim_right.simps [simp del]

text \<open>\<open>strings.TrimSpace\<close>.\<close>

definition trim_space :: "string \<Rightarrow> string" where
  "trim_space s = trim_right (trim_left s)"

lemma trim_left_Nil [simp]: "trim_left [] = []"
  by (simp add: trim_left.simps)

lemma trim_right_Nil [simp]: "trim_right [] = []"
  by (simp add: trim_right.simps)

lemma trim_space_Nil [simp]: "trim_space [] = []"
  by (simp add: trim_space_def)

lemma trim_left_done: "lead_ws (trim_left s) = 0"
  by (induction s rule: trim_left.induct) (metis trim_left.simps)

lemma trim_right_done: "trail_ws (trim_right s) = 0"
  by (induction s rule: trim_right.induct) (metis trim_right.simps)

lemma trim_right_prefix: "prefix (trim_right s) s"
proof (induction s rule: trim_right.induct)
  case (1 s)
  show ?case
  proof (cases "trail_ws s = 0")
    case True
    then show ?thesis by (simp add: trim_right.simps)
  next
    case False
    with "1.IH" have "prefix (trim_right s) (take (length s - trail_ws s) s)"
      by (simp add: trim_right.simps [of s])
    then show ?thesis using prefix_order.trans take_is_prefix by blast
  qed
qed

lemma trim_left_suffix: "suffix (trim_left s) s"
proof (induction s rule: trim_left.induct)
  case (1 s)
  show ?case
  proof (cases "lead_ws s = 0")
    case True
    then show ?thesis by (simp add: trim_left.simps)
  next
    case False
    with "1.IH" have "suffix (trim_left s) (drop (lead_ws s) s)"
      by (simp add: trim_left.simps [of s])
    then show ?thesis using suffix_order.trans suffix_drop by blast
  qed
qed

lemma lead_ws_prefix: "prefix t s \<Longrightarrow> lead_ws s = 0 \<Longrightarrow> lead_ws t = 0"
  by (metis lead_ws_pos_iff neq0_conv prefix_order.trans)

lemma trim_space_lead [simp]: "lead_ws (trim_space s) = 0"
  by (metis trim_space_def trim_left_done trim_right_prefix lead_ws_prefix)

lemma trim_space_trail [simp]: "trail_ws (trim_space s) = 0"
  by (simp add: trim_space_def trim_right_done)

lemma trim_space_fix: "lead_ws s = 0 \<Longrightarrow> trail_ws s = 0 \<Longrightarrow> trim_space s = s"
  by (simp add: trim_space_def trim_left.simps trim_right.simps)

lemma trim_space_idem [simp, strs]: "trim_space (trim_space s) = trim_space s"
  by (rule trim_space_fix) simp_all

lemma trim_space_length: "length (trim_space s) \<le> length s"
  using trim_left_suffix trim_right_prefix
  by (metis prefix_length_le suffix_length_le le_trans trim_space_def)

lemma set_trim_space: "set (trim_space s) \<subseteq> set s"
  by (metis set_mono_prefix set_mono_suffix subset_trans trim_left_suffix trim_right_prefix
      trim_space_def)

text \<open>Text that starts and ends with one of these characters has nothing to trim.\<close>

definition plain_chars :: "char list" where
  "plain_chars = ''abcdefghijklmnopqrstuvwxyzABCDEFGHIJKLMNOPQRSTUVWXYZ0123456789-_./:|<>=()+*@%$[]{},;!?#&^~''"

lemma plain_chars_ws: "list_all (\<lambda>w. list_all (\<lambda>c. hd w \<noteq> c \<and> last w \<noteq> c) plain_chars) ws_runes"
  by code_simp

lemma trim_space_plain:
  assumes "s \<noteq> []" and "hd s \<in> set plain_chars" and "last s \<in> set plain_chars"
  shows "trim_space s = s"
proof (rule trim_space_fix)
  have "\<not> prefix w s \<and> \<not> suffix w s" if w: "w \<in> set ws_runes" for w
  proof -
    have ne: "w \<noteq> []" using w by (rule ws_runes_nonempty)
    have "hd w \<noteq> hd s" and "last w \<noteq> last s"
      using plain_chars_ws w assms(2,3) by (auto simp: list_all_iff)
    then show ?thesis using ne
      by (metis hd_append2 last_appendR prefix_def suffix_def)
  qed
  then show "lead_ws s = 0" and "trail_ws s = 0"
    using lead_ws_pos_iff trail_ws_pos_iff by blast+
qed

lemma trim_space_blank_iff: "trim_space s = [] \<longleftrightarrow> trim_left s = []"
proof
  assume "trim_space s = []"
  show "trim_left s = []"
  proof (rule ccontr)
    assume ne: "trim_left s \<noteq> []"
    have "lead_ws (trim_left s) = 0" by (rule trim_left_done)
    moreover have "trim_right (trim_left s) = []"
      using \<open>trim_space s = []\<close> by (simp add: trim_space_def)
    moreover have "trim_right t = [] \<Longrightarrow> t \<noteq> [] \<Longrightarrow> 0 < lead_ws t" for t
    proof (induction t rule: trim_right.induct)
      case (1 t)
      then have nz: "trail_ws t \<noteq> 0" by (metis trim_right.simps)
      let ?t = "take (length t - trail_ws t) t"
      from 1 nz have tr: "trim_right ?t = []" by (simp add: trim_right.simps [of t])
      show ?case
      proof (cases "?t = []")
        case True
        obtain w where "find (\<lambda>w. suffix w t) ws_runes = Some w" and "length w = trail_ws t"
          using nz by (auto simp: trail_ws_def split: option.splits)
        then have w: "w \<in> set ws_runes" "suffix w t" "length w = trail_ws t"
          by (auto simp: find_Some_iff)
        from True \<open>t \<noteq> []\<close> have "length t \<le> trail_ws t" by simp
        with w have "w = t" by (metis suffix_length_le suffix_order.antisym le_antisym
              suffix_def append_eq_append_conv append_Nil)
        with w(1) show ?thesis using lead_ws_pos_iff by blast
      next
        case False
        from "1.IH" [OF nz tr False] show ?thesis
          by (metis lead_ws_prefix neq0_conv take_is_prefix)
      qed
    qed
    ultimately show False using ne by (metis less_numeral_extra(3))
  qed
qed (simp add: trim_space_def)

section \<open>Case\<close>

definition lower_char :: "char \<Rightarrow> char" where
  "lower_char c =
     (case map_of (zip ''ABCDEFGHIJKLMNOPQRSTUVWXYZ'' ''abcdefghijklmnopqrstuvwxyz'') c of
        None \<Rightarrow> c | Some d \<Rightarrow> d)"

definition upper_char :: "char \<Rightarrow> char" where
  "upper_char c =
     (case map_of (zip ''abcdefghijklmnopqrstuvwxyz'' ''ABCDEFGHIJKLMNOPQRSTUVWXYZ'') c of
        None \<Rightarrow> c | Some d \<Rightarrow> d)"

definition to_lower :: "string \<Rightarrow> string" where
  "to_lower s = map lower_char s"

definition to_upper :: "string \<Rightarrow> string" where
  "to_upper s = map upper_char s"

lemma to_lower_Nil [simp]: "to_lower [] = []"
  by (simp add: to_lower_def)

lemma to_lower_eq_Nil [simp]: "to_lower s = [] \<longleftrightarrow> s = []"
  by (simp add: to_lower_def)

lemma lower_char_idem [simp]: "lower_char (lower_char c) = lower_char c"
proof (cases "map_of (zip ''ABCDEFGHIJKLMNOPQRSTUVWXYZ'' ''abcdefghijklmnopqrstuvwxyz'') c")
  case None
  then show ?thesis by (simp add: lower_char_def)
next
  case (Some d)
  then have "(c, d) \<in> set (zip ''ABCDEFGHIJKLMNOPQRSTUVWXYZ'' ''abcdefghijklmnopqrstuvwxyz'')"
    by (rule map_of_SomeD)
  then have "d \<in> set ''abcdefghijklmnopqrstuvwxyz''" by (rule set_zip_rightD)
  moreover have "list_all (\<lambda>d. lower_char d = d) ''abcdefghijklmnopqrstuvwxyz''" by code_simp
  ultimately have "lower_char d = d" by (simp only: list_all_iff)
  with Some show ?thesis by (simp add: lower_char_def)
qed

lemma to_lower_idem [simp, strs]: "to_lower (to_lower s) = to_lower s"
  by (simp add: to_lower_def)

lemma to_lower_append [strs]: "to_lower (a @ b) = to_lower a @ to_lower b"
  by (simp add: to_lower_def)

section \<open>Searching, splitting, joining, replacing\<close>

abbreviation has_prefix :: "string \<Rightarrow> string \<Rightarrow> bool" where
  "has_prefix s p \<equiv> prefix p s"

abbreviation has_suffix :: "string \<Rightarrow> string \<Rightarrow> bool" where
  "has_suffix s p \<equiv> suffix p s"

fun contains :: "string \<Rightarrow> string \<Rightarrow> bool" where
  "contains [] p = (p = [])"
| "contains (c # cs) p = (prefix p (c # cs) \<or> contains cs p)"

definition trim_prefix :: "string \<Rightarrow> string \<Rightarrow> string" where
  "trim_prefix s p = (if prefix p s then drop (length p) s else s)"

definition trim_suffix :: "string \<Rightarrow> string \<Rightarrow> string" where
  "trim_suffix s p = (if suffix p s then take (length s - length p) s else s)"

text \<open>\<open>strings.TrimRight\<close> and \<open>strings.TrimLeft\<close> with a cutset.\<close>

definition trim_right_cut :: "char list \<Rightarrow> string \<Rightarrow> string" where
  "trim_right_cut cs s = rev (dropWhile (\<lambda>c. c \<in> set cs) (rev s))"

text \<open>\<open>strings.Split\<close> on a separator of one byte.\<close>

fun split_on :: "char \<Rightarrow> string \<Rightarrow> string list" where
  "split_on c [] = [[]]"
| "split_on c (x # xs) =
     (if x = c then [] # split_on c xs
      else (case split_on c xs of [] \<Rightarrow> [[x]] | w # ws \<Rightarrow> (x # w) # ws))"

fun join :: "string \<Rightarrow> string list \<Rightarrow> string" where
  "join sep [] = []"
| "join sep [w] = w"
| "join sep (w # v # ws) = w @ sep @ join sep (v # ws)"

text \<open>\<open>strings.FieldsFunc\<close>: the maximal runs of bytes that do not satisfy \<open>f\<close>.\<close>

definition fields_func :: "(char \<Rightarrow> bool) \<Rightarrow> string \<Rightarrow> string list" where
  "fields_func f s = filter (\<lambda>w. w \<noteq> []) (split_on (CHR 0x00) (map (\<lambda>c. if f c then CHR 0x00 else c) s))"

text \<open>
  \<open>strings.NewReplacer\<close>: scan from the left, at each position the first pair whose (nonempty)
  old text starts there is replaced. \<open>strings.ReplaceAll\<close> is the case of one pair.
\<close>

function replacer :: "(string \<times> string) list \<Rightarrow> string \<Rightarrow> string" where
  "replacer ps [] = []"
| "replacer ps (c # cs) =
     (case find (\<lambda>(old, new). old \<noteq> [] \<and> prefix old (c # cs)) ps of
        None \<Rightarrow> c # replacer ps cs
      | Some (old, new) \<Rightarrow> new @ replacer ps (drop (length old - 1) cs))"
  by pat_completeness auto
termination
  by (relation "measure (\<lambda>(ps, s). length s)") auto

text \<open>
  \<open>strings.EqualFold\<close>: simple folding equates an ASCII letter with its other case, and beside it only \<open>s\<close>
  with the long s and \<open>k\<close> with the Kelvin sign. So the comparison is exact whenever one side is ASCII.
\<close>

definition fold_case :: "string \<Rightarrow> string" where
  "fold_case s = to_lower (replacer [([CHR 0xC5, CHR 0xBF], ''s''), ([CHR 0xE2, CHR 0x84, CHR 0xAA], ''k'')] s)"

definition equal_fold :: "string \<Rightarrow> string \<Rightarrow> bool" where
  "equal_fold a b \<longleftrightarrow> fold_case a = fold_case b"

lemma equal_fold_refl [simp]: "equal_fold a a"
  by (simp add: equal_fold_def)

definition replace_all :: "string \<Rightarrow> string \<Rightarrow> string \<Rightarrow> string" where
  "replace_all s old new = replacer [(old, new)] s"

lemma split_on_ne [simp]: "split_on c s \<noteq> []"
  by (induction s) (auto split: list.splits)

lemma join_Cons_Cons [simp]: "join sep ((x # w) # ws) = x # join sep (w # ws)"
  by (cases ws) auto

lemma join_split_on: "join [c] (split_on c s) = s"
proof (induction s)
  case (Cons x xs)
  then show ?case by (cases "split_on c xs") (auto elim: join.elims)
qed simp

lemma split_on_no_sep: "w \<in> set (split_on c s) \<Longrightarrow> c \<notin> set w"
proof (induction s arbitrary: w)
  case (Cons x xs)
  show ?case
  proof (cases "split_on c xs")
    case Nil
    then show ?thesis by (metis split_on_ne)
  next
    case (Cons v vs)
    with Cons.prems Cons.IH show ?thesis by (auto split: if_splits)
  qed
qed simp

lemma split_on_absent: "c \<notin> set s \<Longrightarrow> split_on c s = [s]"
  by (induction s) auto

lemma split_on_append_sep: "split_on c (a @ c # b) = split_on c a @ split_on c b"
proof (induction a)
  case (Cons x xs)
  then show ?case by (cases "split_on c xs") auto
qed simp

lemma set_split_on: "w \<in> set (split_on c s) \<Longrightarrow> set w \<subseteq> set s"
proof (induction s arbitrary: w)
  case (Cons x xs)
  then show ?case by (cases "split_on c xs") (fastforce split: if_splits)+
qed simp

lemma contains_prefix: "prefix p s \<Longrightarrow> contains s p"
  by (cases s) auto

lemma contains_append: "contains (a @ p @ b) p"
  by (induction a) (auto intro: contains_prefix)

section \<open>Numbers\<close>

text \<open>\<open>%d\<close> and \<open>strconv.Itoa\<close>.\<close>

definition digit_char :: "nat \<Rightarrow> char" where
  "digit_char d = ''0123456789'' ! d"

fun nat_text :: "nat \<Rightarrow> string" where
  "nat_text n = (if n < 10 then [digit_char n] else nat_text (n div 10) @ [digit_char (n mod 10)])"

declare nat_text.simps [simp del]

definition itoa :: "int \<Rightarrow> string" where
  "itoa n = (if n < 0 then ''-'' @ nat_text (nat (- n)) else nat_text (nat n))"

definition digit_val :: "char \<Rightarrow> nat option" where
  "digit_val c = map_of (zip ''0123456789'' [0..<10]) c"

fun digits_val :: "nat \<Rightarrow> string \<Rightarrow> nat option" where
  "digits_val acc [] = Some acc"
| "digits_val acc (c # cs) =
     (case digit_val c of None \<Rightarrow> None | Some d \<Rightarrow> digits_val (10 * acc + d) cs)"

text \<open>\<open>strconv.Atoi\<close> on a 64-bit \<open>int\<close>: \<open>None\<close> is an error (syntax or out of range).\<close>

definition atoi :: "string \<Rightarrow> int option" where
  "atoi s =
     (let neg = (s \<noteq> [] \<and> hd s = CHR ''-'');
          body = (if s \<noteq> [] \<and> (hd s = CHR ''-'' \<or> hd s = CHR ''+'') then tl s else s)
      in if body = [] then None
         else (case digits_val 0 body of
                 None \<Rightarrow> None
               | Some n \<Rightarrow>
                   let v = (if neg then - int n else int n)
                   in if - (2 ^ 63) \<le> v \<and> v < 2 ^ 63 then Some v else None))"

lemma digit_val_char: "d < 10 \<Longrightarrow> digit_val (digit_char d) = Some d"
proof -
  have "list_all (\<lambda>d. digit_val (digit_char d) = Some d) [0..<10]" by code_simp
  then show "d < 10 \<Longrightarrow> digit_val (digit_char d) = Some d" by (simp add: list_all_iff)
qed

lemma digits_val_append:
  "digits_val acc (s @ t) = (case digits_val acc s of None \<Rightarrow> None | Some n \<Rightarrow> digits_val n t)"
  by (induction s arbitrary: acc) (auto split: option.splits)

lemma digits_val_nat_text: "digits_val 0 (nat_text n) = Some n"
proof (induction n rule: nat_text.induct)
  case (1 n)
  show ?case
  proof (cases "n < 10")
    case True
    then show ?thesis by (simp add: nat_text.simps [of n] digit_val_char)
  next
    case False
    with 1 show ?thesis
      by (simp add: nat_text.simps [of n] digits_val_append digit_val_char)
  qed
qed

lemma nat_text_ne [simp]: "nat_text n \<noteq> []"
  by (subst nat_text.simps) simp

lemma set_nat_text: "set (nat_text n) \<subseteq> set ''0123456789''"
proof (induction n rule: nat_text.induct)
  case (1 n)
  have D: "d < 10 \<Longrightarrow> digit_char d \<in> set ''0123456789''" for d
    unfolding digit_char_def by (rule nth_mem) simp
  then show ?case using 1 by (subst nat_text.simps) auto
qed

text \<open>\<open>strconv.FormatFloat(x, 'f', p, 64)\<close>, as \<open>%.pf\<close> uses it.\<close>

datatype float64 = NaN | NegInf | Fin rat | PosInf

definition f64_ge :: "float64 \<Rightarrow> float64 \<Rightarrow> bool" where
  "f64_ge a b =
     (case a of
        NaN \<Rightarrow> False
      | PosInf \<Rightarrow> b \<noteq> NaN
      | NegInf \<Rightarrow> b = NegInf
      | Fin x \<Rightarrow> (case b of NaN \<Rightarrow> False | NegInf \<Rightarrow> True | PosInf \<Rightarrow> False | Fin y \<Rightarrow> y \<le> x))"

definition f64_pos :: "float64 \<Rightarrow> bool" where
  "f64_pos a = (case a of NaN \<Rightarrow> False | PosInf \<Rightarrow> True | NegInf \<Rightarrow> False | Fin x \<Rightarrow> 0 < x)"

text \<open>The nearest integer, an exact tie to the even one.\<close>

definition round_even :: "rat \<Rightarrow> int" where
  "round_even x =
     (let f = \<lfloor>x\<rfloor>; r = x - of_int f
      in if r < 1 / 2 then f else if 1 / 2 < r then f + 1 else if even f then f else f + 1)"

definition pad_zeros :: "nat \<Rightarrow> string \<Rightarrow> string" where
  "pad_zeros n s = replicate (n - length s) (CHR ''0'') @ s"

definition fmt_fixed :: "nat \<Rightarrow> float64 \<Rightarrow> string" where
  "fmt_fixed p a =
     (case a of
        NaN \<Rightarrow> ''NaN''
      | PosInf \<Rightarrow> ''+Inf''
      | NegInf \<Rightarrow> ''-Inf''
      | Fin x \<Rightarrow>
          let n = nat (round_even (\<bar>x\<bar> * 10 ^ p));
              ds = pad_zeros (p + 1) (nat_text n);
              k = length ds - p
          in (if x < 0 then ''-'' else []) @ take k ds @ (if p = 0 then [] else ''.'' @ drop k ds))"

end
