(* ===== verification/Uuid_Codec.thy ===== *)
theory Uuid_Codec
  imports Go_Strings
begin

text \<open>
  The interface of \<open>github.com/google/uuid\<close> that the code relies on: \<open>String\<close> and \<open>Parse\<close>.
  The package is not part of the repository, so the two operations are parameters of the model;
  \<open>uuid_codec\<close> states what its documentation promises. The canonical text form
  (8-4-4-4-12 lower-case hexadecimal digits) is an instance, so the promises can be kept.
\<close>

definition uuid_chars :: "char list" where
  "uuid_chars = ''0123456789abcdef-''"

locale uuid_codec =
  fixes str :: "uuid \<Rightarrow> string"
    and parse :: "string \<Rightarrow> uuid option"
  assumes parse_str: "parse (str u) = Some u"
    and length_str: "length (str u) = 36"
    and set_str: "set (str u) \<subseteq> set uuid_chars"
begin

lemma str_inject: "str u = str v \<longleftrightarrow> u = v"
  by (metis option.inject parse_str)

lemma str_ne: "str u \<noteq> []"
  using length_str [of u] by auto

lemma str_plain: "c \<in> set (str u) \<Longrightarrow> c \<in> set plain_chars"
proof -
  have "list_all (\<lambda>c. c \<in> set plain_chars) uuid_chars" by code_simp
  then show "c \<in> set (str u) \<Longrightarrow> c \<in> set plain_chars"
    using set_str by (auto simp: list_all_iff)
qed

lemma trim_str: "trim_space (str u) = str u"
  by (rule trim_space_plain) (rule str_ne str_plain [OF hd_in_set [OF str_ne]]
      str_plain [OF last_in_set [OF str_ne]])+

lemma str_no_char: "c \<notin> set uuid_chars \<Longrightarrow> c \<notin> set (str u)"
  using set_str by blast

lemma split_str: "c \<notin> set uuid_chars \<Longrightarrow> split_on c (str u) = [str u]"
  by (simp add: split_on_absent str_no_char)

end

section \<open>The canonical text form\<close>

definition hex_char :: "nat \<Rightarrow> char" where
  "hex_char d = ''0123456789abcdef'' ! d"

definition hex_val :: "char \<Rightarrow> nat option" where
  "hex_val c = map_of (zip ''0123456789abcdef'' [0..<16]) c"

fun hex_text :: "nat \<Rightarrow> nat \<Rightarrow> string" where
  "hex_text 0 n = []"
| "hex_text (Suc k) n = hex_text k (n div 16) @ [hex_char (n mod 16)]"

fun hex_read :: "nat \<Rightarrow> string \<Rightarrow> nat option" where
  "hex_read acc [] = Some acc"
| "hex_read acc (c # cs) =
     (case hex_val c of None \<Rightarrow> None | Some d \<Rightarrow> hex_read (16 * acc + d) cs)"

definition uuid_text :: "uuid \<Rightarrow> string" where
  "uuid_text u =
     (let h = hex_text 32 (unat u)
      in take 8 h @ ''-'' @ take 4 (drop 8 h) @ ''-'' @ take 4 (drop 12 h) @ ''-'' @
         take 4 (drop 16 h) @ ''-'' @ drop 20 h)"

definition uuid_read :: "string \<Rightarrow> uuid option" where
  "uuid_read s =
     (if length s = 36 \<and> s ! 8 = CHR ''-'' \<and> s ! 13 = CHR ''-'' \<and> s ! 18 = CHR ''-'' \<and> s ! 23 = CHR ''-''
      then map_option of_nat
             (hex_read 0 (take 8 s @ take 4 (drop 9 s) @ take 4 (drop 14 s) @ take 4 (drop 19 s) @ drop 24 s))
      else None)"

lemma hex_val_char: "d < 16 \<Longrightarrow> hex_val (hex_char d) = Some d"
proof -
  have "list_all (\<lambda>d. hex_val (hex_char d) = Some d) [0..<16]" by code_simp
  then show "d < 16 \<Longrightarrow> hex_val (hex_char d) = Some d" by (simp add: list_all_iff)
qed

lemma hex_read_append:
  "hex_read acc (s @ t) = (case hex_read acc s of None \<Rightarrow> None | Some n \<Rightarrow> hex_read n t)"
  by (induction s arbitrary: acc) (auto split: option.splits)

lemma length_hex_text [simp]: "length (hex_text k n) = k"
  by (induction k n rule: hex_text.induct) auto

lemma set_hex_text: "set (hex_text k n) \<subseteq> set ''0123456789abcdef''"
proof (induction k n rule: hex_text.induct)
  case (2 k n)
  have "hex_char (n mod 16) \<in> set ''0123456789abcdef''"
    unfolding hex_char_def by (rule nth_mem) simp
  with 2 show ?case by simp
qed simp

lemma hex_read_text: "n < 16 ^ k \<Longrightarrow> hex_read 0 (hex_text k n) = Some n"
proof (induction k arbitrary: n)
  case (Suc k)
  then have "n div 16 < 16 ^ k" by (simp add: less_mult_imp_div_less mult.commute)
  with Suc.IH show ?case by (simp add: hex_read_append hex_val_char)
qed simp

lemma uuid_text_split:
  assumes "length h = 32"
  defines "s \<equiv> take 8 h @ ''-'' @ take 4 (drop 8 h) @ ''-'' @ take 4 (drop 12 h) @ ''-'' @
         take 4 (drop 16 h) @ ''-'' @ drop 20 h"
  shows "take 8 s @ take 4 (drop 9 s) @ take 4 (drop 14 s) @ take 4 (drop 19 s) @ drop 24 s = h"
    and "length s = 36"
    and "s ! 8 = CHR ''-''" and "s ! 13 = CHR ''-''" and "s ! 18 = CHR ''-''" and "s ! 23 = CHR ''-''"
proof -
  have "take 4 (drop 16 h) @ drop 20 h = drop 16 h"
    using append_take_drop_id [of 4 "drop 16 h"] by simp
  moreover have "take 4 (drop 12 h) @ drop 16 h = drop 12 h"
    using append_take_drop_id [of 4 "drop 12 h"] by simp
  moreover have "take 4 (drop 8 h) @ drop 12 h = drop 8 h"
    using append_take_drop_id [of 4 "drop 8 h"] by simp
  ultimately have "take 8 h @ take 4 (drop 8 h) @ take 4 (drop 12 h) @ take 4 (drop 16 h) @ drop 20 h = h"
    by simp
  then show "take 8 s @ take 4 (drop 9 s) @ take 4 (drop 14 s) @ take 4 (drop 19 s) @ drop 24 s = h"
    using assms(1) by (simp add: s_def)
  show "length s = 36" using assms(1) by (simp add: s_def)
  show "s ! 8 = CHR ''-''" "s ! 13 = CHR ''-''" "s ! 18 = CHR ''-''" "s ! 23 = CHR ''-''"
    using assms(1) by (simp_all add: s_def nth_append)
qed

lemma hex_chars_uuid: "set ''0123456789abcdef'' \<subseteq> set uuid_chars"
proof -
  have "list_all (\<lambda>c. c \<in> set uuid_chars) ''0123456789abcdef''" by code_simp
  then show ?thesis unfolding list_all_iff by blast
qed

lemma set_uuid_pieces:
  "set h \<subseteq> X \<Longrightarrow> CHR ''-'' \<in> X \<Longrightarrow>
   set (take 8 h @ ''-'' @ take 4 (drop 8 h) @ ''-'' @ take 4 (drop 12 h) @ ''-'' @
        take 4 (drop 16 h) @ ''-'' @ drop 20 h) \<subseteq> X"
  by (auto dest!: in_set_takeD in_set_dropD)

interpretation uc: uuid_codec uuid_text uuid_read
proof unfold_locales
  fix u :: uuid
  let ?h = "hex_text 32 (unat u)"
  have "unat u < 16 ^ 32" using unsigned_less [of u] by simp
  then have "hex_read 0 ?h = Some (unat u)" by (rule hex_read_text)
  then show "uuid_read (uuid_text u) = Some u"
    using uuid_text_split [of ?h] by (simp add: uuid_text_def uuid_read_def Let_def)
  show "length (uuid_text u) = 36"
    using uuid_text_split(2) [of ?h] by (simp add: uuid_text_def Let_def)
  have "set ?h \<subseteq> set uuid_chars"
    using set_hex_text hex_chars_uuid by (rule subset_trans)
  moreover have "CHR ''-'' \<in> set uuid_chars" by (simp add: uuid_chars_def)
  ultimately show "set (uuid_text u) \<subseteq> set uuid_chars"
    unfolding uuid_text_def Let_def by (rule set_uuid_pieces)
qed

end
