(* ===== verification/Db_Models.thy ===== *)
theory Db_Models
  imports Uuid_Codec
begin

text \<open>
  The rows of \<open>internal/db/models.go\<close> the modelled operations read or write, one record per Go
  struct, a nullable column as an \<open>option\<close>. Of \<open>Node\<close> the columns that no modelled operation
  touches (tags, region, provider, panel secrets) are left out. The \<open>jsonb\<close> columns of message ids
  and of headers are kept as the value their text decodes to, if it decodes.
\<close>

record node =
  n_id :: uuid
  n_org_id :: "uuid option"
  n_name :: string
  n_kind :: string
  n_host :: string
  n_base_url :: string
  n_is_sandbox :: bool
  n_agent_enabled :: bool
  n_agent_url :: "string option"
  n_agent_installed :: bool
  n_agent_last_seen :: "instant option"
  n_is_enabled :: bool
  n_ssh_enabled :: bool
  n_ssh_host :: string
  n_ssh_port :: int
  n_allowed_roots :: "string list"
  n_agent_token_enc :: "string option"
  n_agent_version :: "string option"
  n_service_version :: "string option"
  n_versions_checked_at :: "instant option"
  n_runtime_version :: "string option"
  n_ssh_user :: string
  n_ssh_auth_method :: string
  n_ssh_key_enc :: string
  n_verify_tls :: bool

record service =
  sv_id :: uuid
  sv_org_id :: uuid
  sv_node_id :: "uuid option"
  sv_name :: string
  sv_kind :: string
  sv_url :: "string option"
  sv_host :: "string option"
  sv_port :: "int option"
  sv_tls_mode :: "string option"
  sv_health_path :: "string option"
  sv_expected_status :: "int list"
  sv_headers :: "(string \<times> string) list option"
  sv_auth_username :: "string option"
  sv_auth_password_enc :: "string option"
  sv_is_enabled :: bool

record bot =
  b_id :: uuid
  b_node_id :: uuid
  b_name :: string
  b_kind :: string
  b_docker_container :: "string option"
  b_systemd_unit :: "string option"
  b_health_url :: "string option"
  b_health_path :: "string option"
  b_expected_status :: "int list"
  b_is_enabled :: bool

record check =
  ck_id :: uuid
  ck_target_type :: string
  ck_target_id :: uuid
  ck_type :: string
  ck_fail_after_sec :: int
  ck_recover_after_ok :: int
  ck_mute_until :: "instant option"
  ck_enabled :: bool
  ck_interval_sec :: int
  ck_timeout_ms :: int
  ck_retries :: int
  ck_created_at :: instant

text \<open>
  \<open>alert_states.last_message_ids\<close>: the array of (chat id, message id) the code writes, the
  object of older rows, or text that decodes as neither.
\<close>

datatype ids_json = IdsArray "(string \<times> int) list" | IdsLegacy "(string \<times> int) list" | IdsInvalid

record alert_state =
  as_alert_id :: "uuid option"
  as_fingerprint :: string
  as_incident_id :: "uuid option"
  as_alert_type :: string
  as_node_id :: "uuid option"
  as_service_id :: "uuid option"
  as_bot_id :: "uuid option"
  as_check_type :: "string option"
  as_last_status :: "string option"
  as_first_seen :: instant
  as_last_seen :: instant
  as_occurrences :: int
  as_ok_streak :: int
  as_message_ids :: ids_json
  as_muted_until :: "instant option"
  as_updated_at :: instant

record incident =
  in_id :: uuid
  in_org_id :: "uuid option"
  in_fingerprint :: string
  in_alert_type :: string
  in_severity :: string
  in_status :: string
  in_node_id :: "uuid option"
  in_service_id :: "uuid option"
  in_bot_id :: "uuid option"
  in_check_id :: "uuid option"
  in_title :: string
  in_description :: "string option"
  in_first_seen :: instant
  in_last_seen :: instant
  in_acknowledged_at :: "instant option"
  in_acknowledged_by :: "string option"
  in_recovered_at :: "instant option"
  in_occurrences :: int
  in_last_error :: "string option"
  in_created_at :: instant
  in_updated_at :: instant

text \<open>
  The tables of the operation jobs. A \<open>jsonb\<close> column of parameters holds an object, as the list
  of its members, or anything else (\<open>None\<close>); of a member's value only what a struct field of
  type \<open>bool\<close>, \<open>int\<close>, \<open>int64\<close> or \<open>string\<close> can take is kept.
\<close>

datatype json = JNull | JBool bool | JInt int | JNum | JStr string | JNested

type_synonym jobj = "(string \<times> json) list"

record ops_job =
  oj_id :: uuid
  oj_type :: string
  oj_status :: string
  oj_actor :: string
  oj_parallelism :: int
  oj_targets :: "uuid list"
  oj_params :: "jobj option"
  oj_token_hash :: "string option"
  oj_error :: "string option"
  oj_created_at :: instant
  oj_started_at :: "instant option"
  oj_finished_at :: "instant option"

record ops_summary =
  os_total :: int
  os_queued :: int
  os_running :: int
  os_success :: int
  os_failed :: int

record ops_item =
  oi_id :: uuid
  oi_job_id :: uuid
  oi_node_id :: uuid
  oi_status :: string
  oi_log :: string
  oi_exit_code :: "int option"
  oi_error :: "string option"
  oi_started_at :: "instant option"
  oi_finished_at :: "instant option"

record metrics_row =
  mt_node_id :: uuid
  mt_collected_at :: instant
  mt_service_version :: "string option"

record telegram_row =
  tr_id :: uuid
  tr_org_id :: "uuid option"
  tr_bot_token_enc :: string
  tr_admin_chat_id :: string
  tr_alert_connection :: bool
  tr_alert_cpu :: bool
  tr_alert_memory :: bool
  tr_alert_disk :: bool
  tr_ack_mute_minutes :: int
  tr_mute_minutes :: int
  tr_created_at :: instant
  tr_updated_at :: instant

end
