(* ===== verification/Alert_Types.thy ===== *)
theory Alert_Types
  imports Db_Models
begin

text \<open>
  The values of \<open>internal/services/alerts/alert.go\<close>: alert types, severities, the \<open>Alert\<close> that
  travels through the service, the noise policy and the Telegram settings of an organisation.
\<close>

datatype alert_type =
    AlertCPU | AlertMemory | AlertDisk | AlertConnection | AlertTLS | AlertGeneric
  | AlertOther string

fun alert_type_text :: "alert_type \<Rightarrow> string" where
  "alert_type_text AlertCPU = ''cpu''"
| "alert_type_text AlertMemory = ''memory''"
| "alert_type_text AlertDisk = ''disk''"
| "alert_type_text AlertConnection = ''connection''"
| "alert_type_text AlertTLS = ''tls''"
| "alert_type_text AlertGeneric = ''generic''"
| "alert_type_text (AlertOther t) = t"

datatype severity = SeverityInfo | SeverityWarning | SeverityCritical | SeverityOther string

fun severity_text :: "severity \<Rightarrow> string" where
  "severity_text SeverityInfo = ''info''"
| "severity_text SeverityWarning = ''warning''"
| "severity_text SeverityCritical = ''critical''"
| "severity_text (SeverityOther t) = t"

record alert_metrics =
  m_load1 :: float64
  m_threshold :: float64
  m_used_pct :: float64
  m_free_pct :: float64
  m_latency_ms :: int
  m_status_code :: int

record alert =
  al_type :: alert_type
  al_org_id :: "uuid option"
  al_node_id :: uuid
  al_service_id :: uuid
  al_bot_id :: uuid
  al_check_id :: uuid
  al_node_name :: string
  al_service_kind :: string
  al_bot_kind :: string
  al_check_type :: string
  al_target :: string
  al_target_type :: string
  al_status :: string
  al_ts :: instant
  al_severity :: severity
  al_metrics :: alert_metrics
  al_panel_ok :: bool
  al_ssh_ok :: bool
  al_panel_url :: string
  al_ip :: string
  al_error :: string
  al_alert_id :: string
  al_incident_id :: string
  al_fingerprint :: string
  al_occurrences :: int
  al_fail_after_sec :: int
  al_recover_after_ok :: int
  al_mute_until :: "instant option"

text \<open>Go's zero values, which a composite literal gives to the fields it does not name.\<close>

definition zero_metrics :: alert_metrics where
  "zero_metrics = \<lparr>m_load1 = Fin 0, m_threshold = Fin 0, m_used_pct = Fin 0, m_free_pct = Fin 0,
     m_latency_ms = 0, m_status_code = 0\<rparr>"

definition zero_alert :: "alert_type \<Rightarrow> severity \<Rightarrow> alert" where
  "zero_alert ty sev = \<lparr>al_type = ty, al_org_id = None, al_node_id = uuid_nil,
     al_service_id = uuid_nil, al_bot_id = uuid_nil, al_check_id = uuid_nil, al_node_name = [],
     al_service_kind = [], al_bot_kind = [], al_check_type = [], al_target = [],
     al_target_type = [], al_status = [], al_ts = 0, al_severity = sev,
     al_metrics = zero_metrics, al_panel_ok = False, al_ssh_ok = False, al_panel_url = [],
     al_ip = [], al_error = [], al_alert_id = [], al_incident_id = [], al_fingerprint = [],
     al_occurrences = 0, al_fail_after_sec = 0, al_recover_after_ok = 0, al_mute_until = None\<rparr>"

section \<open>Policy and settings\<close>

record policy =
  p_cpu_load_threshold :: float64
  p_mem_percent_high :: float64
  p_disk_free_low :: float64
  p_offline_delay :: duration
  p_min_consecutive_fails :: int

definition default_policy :: policy where
  "default_policy = \<lparr>p_cpu_load_threshold = Fin 2, p_mem_percent_high = Fin 90,
     p_disk_free_low = Fin 10, p_offline_delay = dur_mul 5 minute, p_min_consecutive_fails = 2\<rparr>"

definition with_policy :: "policy \<Rightarrow> policy \<Rightarrow> policy" where
  "with_policy new old =
     (let p1 = (if f64_pos (p_cpu_load_threshold new)
                then old\<lparr>p_cpu_load_threshold := p_cpu_load_threshold new\<rparr> else old);
          p2 = (if f64_pos (p_mem_percent_high new)
                then p1\<lparr>p_mem_percent_high := p_mem_percent_high new\<rparr> else p1);
          p3 = (if f64_pos (p_disk_free_low new)
                then p2\<lparr>p_disk_free_low := p_disk_free_low new\<rparr> else p2);
          p4 = (if 0 \<le> p_offline_delay new
                then p3\<lparr>p_offline_delay := p_offline_delay new\<rparr> else p3)
      in if 0 < p_min_consecutive_fails new
         then p4\<lparr>p_min_consecutive_fails := p_min_consecutive_fails new\<rparr> else p4)"

record settings =
  s_bot_token :: string
  s_admin_chat_ids :: "string list"
  s_alert_connection :: bool
  s_alert_cpu :: bool
  s_alert_memory :: bool
  s_alert_disk :: bool
  s_ack_mute_minutes :: int
  s_mute_minutes :: int

definition default_ack_mute_minutes :: int where
  "default_ack_mute_minutes = 24 * 60"

definition default_button_mute_mins :: int where
  "default_button_mute_mins = 60"

definition max_policy_minutes :: int where
  "max_policy_minutes = 30 * 24 * 60"

definition normalize_policy_minutes :: "int \<Rightarrow> int \<Rightarrow> int \<times> int" where
  "normalize_policy_minutes ack_mute_minutes mute_minutes =
     (let ack0 = (if ack_mute_minutes \<le> 0 then default_ack_mute_minutes else ack_mute_minutes);
          ack = (if max_policy_minutes < ack0 then max_policy_minutes else ack0);
          mute0 = (if mute_minutes \<le> 0 then default_button_mute_mins else mute_minutes);
          mute = (if max_policy_minutes < mute0 then max_policy_minutes else mute0)
      in (ack, mute))"

text \<open>A policy that \<open>WithPolicy\<close> can reach: a usable threshold, delay and failure count.\<close>

definition policy_ok :: "policy \<Rightarrow> bool" where
  "policy_ok p \<longleftrightarrow> f64_pos (p_cpu_load_threshold p) \<and> f64_pos (p_mem_percent_high p) \<and>
     f64_pos (p_disk_free_low p) \<and> 0 \<le> p_offline_delay p \<and> 0 < p_min_consecutive_fails p"

lemma default_policy_ok: "policy_ok default_policy"
  by (simp add: policy_ok_def default_policy_def f64_pos_def dur_mul_def minute_def wrap64_def)

lemma with_policy_ok: "policy_ok old \<Longrightarrow> policy_ok (with_policy new old)"
  by (auto simp: policy_ok_def with_policy_def Let_def)

text \<open>\<open>splitChatIDs\<close>\<close>

definition chat_sep :: "char \<Rightarrow> bool" where
  "chat_sep c \<longleftrightarrow> c \<in> {CHR '','', CHR '';'', CHR '' '', CHR 0x0A, CHR 0x09}"

definition split_chat_ids :: "string \<Rightarrow> string list" where
  "split_chat_ids raw =
     (if trim_space raw = [] then []
      else filter (\<lambda>v. v \<noteq> []) (map trim_space (fields_func chat_sep raw)))"

lemma split_chat_ids_nonempty: "c \<in> set (split_chat_ids raw) \<Longrightarrow> c \<noteq> [] \<and> trim_space c = c"
  by (auto simp: split_chat_ids_def split: if_splits)

text \<open>
  \<open>messageIDsFromJSON\<close> and \<open>messageIDsToJSON\<close>. A Go map is an association list with distinct
  keys; assignment is \<open>AList.update\<close>. The order in which the code writes the entries of a map
  is not fixed by Go; here it is the order of insertion.
\<close>

type_synonym msg_ids = "(string \<times> int) list"

definition message_ids_from_json :: "ids_json \<Rightarrow> msg_ids" where
  "message_ids_from_json raw =
     (case raw of
        IdsInvalid \<Rightarrow> []
      | IdsLegacy m \<Rightarrow> m
      | IdsArray xs \<Rightarrow>
          fold (\<lambda>(chat, msg) out. if trim_space chat = [] \<or> msg = 0 then out
                                 else AList.update chat msg out) xs [])"

definition message_ids_to_json :: "msg_ids \<Rightarrow> ids_json" where
  "message_ids_to_json values =
     IdsArray (filter (\<lambda>(chat, msg). trim_space chat \<noteq> [] \<and> msg \<noteq> 0) values)"

definition message_ids_of :: "alert_state option \<Rightarrow> msg_ids" where
  "message_ids_of st =
     (case st of None \<Rightarrow> [] | Some r \<Rightarrow> message_ids_from_json (as_message_ids r))"

definition valid_id :: "string \<times> int \<Rightarrow> bool" where
  "valid_id e \<longleftrightarrow> trim_space (fst e) \<noteq> [] \<and> snd e \<noteq> 0"

lemma update_new: "k \<notin> fst ` set xs \<Longrightarrow> AList.update k v xs = xs @ [(k, v)]"
  by (induction xs) auto

lemma from_json_fold:
  "distinct (map fst (acc @ xs)) \<Longrightarrow> \<forall>e \<in> set xs. valid_id e \<Longrightarrow>
   fold (\<lambda>(chat, msg) out. if trim_space chat = [] \<or> msg = 0 then out
                          else AList.update chat msg out) xs acc = acc @ xs"
proof (induction xs arbitrary: acc)
  case (Cons e xs)
  obtain k v where e: "e = (k, v)" by (cases e)
  with Cons.prems have "AList.update k v acc = acc @ [(k, v)]"
    by (intro update_new) auto
  with Cons e show ?case by (auto simp: valid_id_def)
qed simp

lemma message_ids_roundtrip:
  assumes "distinct (map fst ids)"
  shows "message_ids_from_json (message_ids_to_json ids) = filter valid_id ids"
proof -
  have eq: "filter (\<lambda>(chat, msg). trim_space chat \<noteq> [] \<and> msg \<noteq> 0) ids = filter valid_id ids"
    by (rule filter_cong) (auto simp: valid_id_def)
  have "distinct (map fst (filter valid_id ids))"
    using assms by (simp add: distinct_map_filter)
  then show ?thesis
    by (simp add: message_ids_from_json_def message_ids_to_json_def eq from_json_fold [where acc = "[]", simplified])
qed

end
