(* ===== verification/Go_Time.thy ===== *)
theory Go_Time
  imports Go_Strings
begin

text \<open>
  Calendar time, as far as the code formats it: the civil date and the clock of an instant in a
  zone that is \<open>offset\<close> seconds east of UTC, on the proleptic Gregorian calendar. Instants
  before the year 1 are outside of what the code formats.
\<close>

definition is_leap :: "int \<Rightarrow> bool" where
  "is_leap y \<longleftrightarrow> y mod 4 = 0 \<and> (y mod 100 \<noteq> 0 \<or> y mod 400 = 0)"

definition month_lengths :: "int \<Rightarrow> int list" where
  "month_lengths y = [31, if is_leap y then 29 else 28, 31, 30, 31, 30, 31, 31, 30, 31, 30, 31]"

fun month_day :: "int \<Rightarrow> int list \<Rightarrow> int \<Rightarrow> int \<times> int" where
  "month_day m [] yday = (m, yday + 1)"
| "month_day m (l # ls) yday = (if yday < l then (m, yday + 1) else month_day (m + 1) ls (yday - l))"

text \<open>The number of whole years that end before day \<open>d\<close>, and the day of the year.\<close>

definition year_yday :: "int \<Rightarrow> int \<times> int" where
  "year_yday d =
     (let n400 = d div 146097; d1 = d mod 146097;
          n100 = min 3 (d1 div 36524); d2 = d1 - n100 * 36524;
          n4 = d2 div 1461; d3 = d2 mod 1461;
          n1 = min 3 (d3 div 365)
      in (400 * n400 + 100 * n100 + 4 * n4 + n1 + 1, d3 - n1 * 365))"

record civil =
  c_year :: int
  c_month :: int
  c_day :: int
  c_hour :: int
  c_min :: int
  c_sec :: int

definition civil_of :: "int \<Rightarrow> instant \<Rightarrow> civil" where
  "civil_of offset t =
     (let secs = t div 1000000000 + offset;
          d = secs div 86400; r = secs mod 86400;
          (y, yd) = year_yday d;
          (m, md) = month_day 1 (month_lengths y) yd
      in \<lparr>c_year = y, c_month = m, c_day = md,
          c_hour = r div 3600, c_min = r mod 3600 div 60, c_sec = r mod 60\<rparr>)"

definition pad_int :: "nat \<Rightarrow> int \<Rightarrow> string" where
  "pad_int n k = pad_zeros n (itoa k)"

text \<open>The layout \<open>RFC3339\<close> of a time in UTC.\<close>

definition rfc3339 :: "instant \<Rightarrow> string" where
  "rfc3339 t =
     (let c = civil_of 0 t
      in pad_int 4 (c_year c) @ ''-'' @ pad_int 2 (c_month c) @ ''-'' @ pad_int 2 (c_day c) @ ''T'' @
         pad_int 2 (c_hour c) @ '':'' @ pad_int 2 (c_min c) @ '':'' @ pad_int 2 (c_sec c) @ ''Z'')"

text \<open>The layout \<open>2006-01-02 15:04:05\<close>.\<close>

definition date_time_text :: "civil \<Rightarrow> string" where
  "date_time_text c =
     pad_int 4 (c_year c) @ ''-'' @ pad_int 2 (c_month c) @ ''-'' @ pad_int 2 (c_day c) @ '' '' @
     pad_int 2 (c_hour c) @ '':'' @ pad_int 2 (c_min c) @ '':'' @ pad_int 2 (c_sec c)"

lemma civil_of_clock:
  "0 \<le> c_hour (civil_of z t) \<and> c_hour (civil_of z t) < 24 \<and>
   0 \<le> c_min (civil_of z t) \<and> c_min (civil_of z t) < 60 \<and>
   0 \<le> c_sec (civil_of z t) \<and> c_sec (civil_of z t) < 60"
  by (auto simp: civil_of_def Let_def split: prod.splits)

lemma civil_of_epoch:
  "date_time_text (civil_of 0 0) = ''0001-01-01 00:00:00''"
  by code_simp

lemma civil_of_leap_day:
  "date_time_text (civil_of 3600 (63844847999 * 1000000000)) = ''2024-03-01 00:59:59''"
  by code_simp

end
