(* ===== verification/Alert_Render.thy ===== *)
theory Alert_Render
  imports Alert_Types Go_Time
begin

text \<open>
  \<open>internal/services/alerts/renderer.go\<close>: the texts and keyboards of alert messages, the
  callback data of their buttons, and the fingerprint that identifies an alert. The lemmas show
  that a rendered message is well-formed HTML whatever the names and errors in it are, and that
  the callback data of each button is read back as that button's action on that alert.

  \<open>render_env\<close> holds what the renderer takes from outside of the repository: the text form of
  an identifier, the offset of the zone the server runs in, and the clock.
\<close>

record render_env =
  e_str :: "uuid \<Rightarrow> string"
  e_zone :: "instant \<Rightarrow> int"
  e_now :: instant

definition max_error_len :: nat where
  "max_error_len = 400"

record inline_button =
  ib_text :: string
  ib_url :: string
  ib_callback_data :: string

type_synonym keyboard = "inline_button list list"

text \<open>Emoji of the button texts and badges, as the bytes of their encoding.\<close>

definition emo_check :: string where "emo_check = [CHR 0xE2, CHR 0x9C, CHR 0x85]"
definition emo_cross :: string where "emo_cross = [CHR 0xE2, CHR 0x9D, CHR 0x8C]"
definition emo_mute :: string where "emo_mute = [CHR 0xF0, CHR 0x9F, CHR 0x94, CHR 0x87]"
definition emo_repeat :: string where "emo_repeat = [CHR 0xF0, CHR 0x9F, CHR 0x94, CHR 0x81]"
definition emo_link :: string where "emo_link = [CHR 0xF0, CHR 0x9F, CHR 0x94, CHR 0x97]"

definition nl :: string where "nl = [CHR 0x0A]"

section \<open>Text helpers\<close>

definition escape_html :: "string \<Rightarrow> string" where
  "escape_html s = replacer [(''&'', ''&amp;''), (''<'', ''&lt;''), (''>'', ''&gt;'')] s"

definition truncate_error :: "string \<Rightarrow> string" where
  "truncate_error err =
     (let err = trim_space err
      in if length err \<le> max_error_len then err
         else take max_error_len err @ ''... (truncated)'')"

definition short_reason :: "string \<Rightarrow> string" where
  "short_reason err =
     (let err = trim_space err
      in if err = [] then ''unknown''
         else let line = hd (split_on (CHR 0x0A) err)
              in if 120 < length line then take 120 line @ ''...'' else line)"

definition status_badge :: "bool \<Rightarrow> string" where
  "status_badge ok = (if ok then emo_check @ '' ok'' else emo_cross @ '' fail'')"

fun severity_label :: "severity \<Rightarrow> string" where
  "severity_label SeverityCritical = ''CRITICAL''"
| "severity_label SeverityWarning = ''WARNING''"
| "severity_label _ = ''INFO''"

definition recommendation_line :: "alert \<Rightarrow> string" where
  "recommendation_line a =
     (case al_type a of
        AlertCPU \<Rightarrow> ''Recommendation: check top processes and system load.''
      | AlertMemory \<Rightarrow> ''Recommendation: inspect memory usage and caches.''
      | AlertDisk \<Rightarrow> ''Recommendation: free disk space or grow the volume.''
      | AlertConnection \<Rightarrow> ''Recommendation: verify SSH connectivity and credentials.''
      | AlertTLS \<Rightarrow> ''Recommendation: renew TLS certificate or disable TLS verification if appropriate.''
      | AlertGeneric \<Rightarrow>
          (if al_target_type a = ''bot''
           then ''Recommendation: inspect bot process and check configuration.''
           else ''Recommendation: inspect service health and check configuration.'')
      | AlertOther _ \<Rightarrow> ''Recommendation: inspect logs for details.'')"

definition tls_label :: "string \<Rightarrow> string" where
  "tls_label code =
     (let c = trim_space code
      in if c = ''CERT_EXPIRED'' then ''TLS certificate expired''
         else if c = ''CERT_NOT_YET_VALID'' then ''TLS certificate not yet valid''
         else if c = ''UNKNOWN_CA'' then ''TLS unknown CA''
         else if c = ''HOSTNAME_MISMATCH'' then ''TLS hostname mismatch''
         else if c = ''HANDSHAKE'' then ''TLS handshake failed''
         else [])"

definition format_time :: "('e) render_env_scheme \<Rightarrow> instant \<Rightarrow> string" where
  "format_time env ts =
     (if ts = 0 then date_time_text (civil_of (e_zone env (e_now env)) (e_now env))
      else date_time_text (civil_of (e_zone env ts) ts))"

definition generic_probe_label :: "string \<Rightarrow> string \<Rightarrow> string" where
  "generic_probe_label check_type target_type =
     (let code = to_upper (trim_space check_type)
      in if code = ''DOCKER'' then ''Docker container''
         else if code = ''SYSTEMD'' then ''Systemd service''
         else if code = ''HTTP'' then ''HTTP endpoint''
         else if code = ''CUSTOM_HTTP'' then ''Custom HTTP endpoint''
         else if code = ''FTP'' \<or> code = ''CUSTOM_FTP'' then ''FTP server''
         else let target = to_lower (trim_space target_type)
              in if target = ''bot'' then ''Service check''
                 else if target = ''service'' then ''Service health''
                 else if code \<noteq> [] then code
                 else ''Generic check'')"

definition generic_status_label :: "string \<Rightarrow> string" where
  "generic_status_label status =
     (let s = to_lower (trim_space status)
      in if s \<in> {''ok'', ''online'', ''pass'', ''healthy'', ''success''} then ''Online''
         else if s \<in> {''warn'', ''warning'', ''degraded'', ''partial''} then ''Warning''
         else if s \<in> {''fail'', ''failed'', ''error'', ''offline'', ''down'', ''critical''} then ''Offline''
         else if trim_space status = [] then ''Unknown''
         else trim_space status)"

definition human_reason :: "string \<Rightarrow> string" where
  "human_reason reason =
     (let lower = to_lower (trim_space reason)
      in if contains lower ''unable to authenticate'' then ''SSH authentication failed''
         else if contains lower ''password is required'' then ''sudo password is required''
         else if contains lower ''connection refused'' then ''connection refused''
         else if contains lower ''i/o timeout'' \<or> contains lower ''timeout'' then ''request timeout''
         else if contains lower ''no route to host'' then ''no route to host''
         else reason)"

section \<open>Messages\<close>

definition render_recovery_title :: "alert \<Rightarrow> string" where
  "render_recovery_title a =
     (let title = escape_html (al_node_name a)
      in if al_target_type a = ''bot'' \<and> trim_space (al_bot_kind a) \<noteq> []
         then ''<b>Recovered: '' @ title @ '' ('' @ escape_html (al_bot_kind a) @ '')</b>''
         else if trim_space (al_service_kind a) \<noteq> []
         then ''<b>Recovered: '' @ title @ '' ('' @ escape_html (al_service_kind a) @ '')</b>''
         else ''<b>Recovered: '' @ title @ ''</b>'')"

definition render_recovery_primary :: "('e) render_env_scheme \<Rightarrow> alert \<Rightarrow> string" where
  "render_recovery_primary env a =
     (let ts = format_time env (al_ts a);
          label0 = trim_space (al_check_type a);
          label = (if label0 = [] then ''check'' else label0)
      in escape_html label @ '': <b>ok</b> | '' @ ts)"

definition render_title :: "alert \<Rightarrow> string" where
  "render_title a =
     (let title = escape_html (al_node_name a)
      in case al_type a of
           AlertCPU \<Rightarrow> ''<b>High CPU: '' @ title @ ''</b>''
         | AlertMemory \<Rightarrow> ''<b>High memory: '' @ title @ ''</b>''
         | AlertDisk \<Rightarrow> ''<b>Low disk space: '' @ title @ ''</b>''
         | AlertConnection \<Rightarrow> ''<b>Connection issue: '' @ title @ ''</b>''
         | AlertTLS \<Rightarrow> ''<b>TLS issue: '' @ title @ ''</b>''
         | AlertGeneric \<Rightarrow>
             (if al_target_type a = ''bot''
              then if trim_space (al_bot_kind a) \<noteq> []
                   then ''<b>Service check alert: '' @ title @ '' ('' @ escape_html (al_bot_kind a) @ '')</b>''
                   else ''<b>Service check alert: '' @ title @ ''</b>''
              else if trim_space (al_service_kind a) \<noteq> []
                   then ''<b>Service alert: '' @ title @ '' ('' @ escape_html (al_service_kind a) @ '')</b>''
                   else ''<b>Service alert: '' @ title @ ''</b>'')
         | AlertOther _ \<Rightarrow> ''<b>Alert: '' @ title @ ''</b>'')"

definition render_primary :: "('e) render_env_scheme \<Rightarrow> alert \<Rightarrow> string" where
  "render_primary env a =
     (let ts = format_time env (al_ts a); m = al_metrics a
      in case al_type a of
           AlertCPU \<Rightarrow> ''load1: <b>'' @ fmt_fixed 2 (m_load1 m) @ ''</b> (threshold '' @
             fmt_fixed 2 (m_threshold m) @ '') | '' @ ts
         | AlertMemory \<Rightarrow> ''used: <b>'' @ fmt_fixed 1 (m_used_pct m) @ ''%</b> (threshold '' @
             fmt_fixed 1 (m_threshold m) @ ''%) | '' @ ts
         | AlertDisk \<Rightarrow> ''free: <b>'' @ fmt_fixed 1 (m_free_pct m) @ ''%</b> (threshold '' @
             fmt_fixed 1 (m_threshold m) @ ''%) | '' @ ts
         | AlertConnection \<Rightarrow> ''SSH: '' @ status_badge (al_ssh_ok a) @ '' | '' @ ts
         | AlertTLS \<Rightarrow>
             (let reason0 = tls_label (al_check_type a);
                  reason = (if reason0 = [] then ''TLS error'' else reason0)
              in escape_html reason @ '' | '' @ ts)
         | AlertGeneric \<Rightarrow>
             (let status0 = trim_space (al_status a);
                  status = (if status0 = [] then ''unknown'' else status0)
              in ''Status: <b>'' @ escape_html (generic_status_label status) @ ''</b> | Probe: <code>'' @
                 escape_html (generic_probe_label (al_check_type a) (al_target_type a)) @
                 ''</code> | '' @ ts)
         | AlertOther _ \<Rightarrow> ''Time: '' @ ts)"

definition render_meta :: "alert \<Rightarrow> string list" where
  "render_meta a =
     (if al_panel_url a \<noteq> [] \<and> al_type a \<noteq> AlertConnection \<and> al_type a \<noteq> AlertTLS
      then [''Panel: <code>'' @ escape_html (al_panel_url a) @ ''</code>''] else []) @
     (if al_ip a \<noteq> [] then [''Host: <code>'' @ escape_html (al_ip a) @ ''</code>''] else []) @
     (if trim_space (al_service_kind a) \<noteq> []
      then [''Service: <code>'' @ escape_html (al_service_kind a) @ ''</code>''] else []) @
     (if trim_space (al_target a) \<noteq> []
      then [(if al_target_type a = ''bot'' then ''Service check'' else ''Target'') @
            '': <code>'' @ escape_html (al_target a) @ ''</code>''] else []) @
     (if trim_space (al_check_type a) \<noteq> []
      then [''Probe type: <code>'' @
            escape_html (generic_probe_label (al_check_type a) (al_target_type a)) @ ''</code>''] else []) @
     (if m_status_code (al_metrics a) \<noteq> 0
      then [(if equal_fold (trim_space (al_check_type a)) ''FTP'' then ''FTP reply'' else ''HTTP status'') @
            '': <code>'' @ itoa (m_status_code (al_metrics a)) @ ''</code>''] else []) @
     [''Channel: <code>Telegram</code>'',
      ''Severity: <b>'' @ severity_label (al_severity a) @ ''</b>'',
      recommendation_line a]"

definition render_reason :: "alert \<Rightarrow> string" where
  "render_reason a =
     ''Reason: <code>'' @ escape_html (human_reason (short_reason (al_error a))) @ ''</code>''"

definition build_keyboard :: "('e) render_env_scheme \<Rightarrow> alert \<Rightarrow> string \<Rightarrow> keyboard option" where
  "build_keyboard env a public_base_url =
     (let alert_id = trim_space (al_alert_id a);
          callback_row =
            (if alert_id \<noteq> []
             then [\<lparr>ib_text = emo_check @ '' Ack'', ib_url = [], ib_callback_data = ''a:'' @ alert_id\<rparr>,
                   \<lparr>ib_text = emo_mute @ '' Mute'', ib_url = [], ib_callback_data = ''mute:'' @ alert_id\<rparr>,
                   \<lparr>ib_text = emo_repeat @ '' Retry'', ib_url = [], ib_callback_data = ''r:'' @ alert_id\<rparr>]
             else [])
      in if trim_space public_base_url = [] \<or> al_node_id a = uuid_nil
         then if callback_row = [] then None else Some [callback_row]
         else let base = trim_right_cut ''/'' public_base_url;
                  node_url = base @ ''/nodes?node='' @ e_str env (al_node_id a);
                  link_row = [\<lparr>ib_text = emo_link @ '' Open node'', ib_url = node_url, ib_callback_data = []\<rparr>]
              in Some ([link_row] @ (if callback_row \<noteq> [] then [callback_row] else [])))"

definition render_recovery :: "('e) render_env_scheme \<Rightarrow> alert \<Rightarrow> string \<Rightarrow> string \<times> keyboard option" where
  "render_recovery env a public_base_url =
     (let ls = [render_recovery_title a, render_recovery_primary env a] @ render_meta a
      in (join nl ls, build_keyboard env a public_base_url))"

definition render_alert :: "('e) render_env_scheme \<Rightarrow> alert \<Rightarrow> string \<Rightarrow> string \<times> keyboard option" where
  "render_alert env a public_base_url =
     (let ls = [render_title a, render_primary env a] @ render_meta a @
            (if 1 < al_occurrences a then [''Occurrences: '' @ itoa (al_occurrences a)] else []) @
            (if al_error a \<noteq> []
             then [render_reason a, ''<pre>'' @ escape_html (truncate_error (al_error a)) @ ''</pre>'']
             else [])
      in (join nl ls, build_keyboard env a public_base_url))"

section \<open>Callback data\<close>

definition is_numeric :: "string \<Rightarrow> bool" where
  "is_numeric raw \<longleftrightarrow> raw \<noteq> [] \<and> list_all (\<lambda>r. digit_val r \<noteq> None) raw"

definition parse_mute_minutes :: "string \<Rightarrow> int" where
  "parse_mute_minutes raw =
     (let val = trim_space raw
      in if val = [] then 0
         else case atoi (if has_suffix val ''h'' then trim_suffix val ''h'' else val) of
                None \<Rightarrow> 0
              | Some n \<Rightarrow> if has_suffix raw ''h'' then wrap64 (n * 60) else n)"

definition parse_callback_data :: "string \<Rightarrow> string \<times> string \<times> int" where
  "parse_callback_data raw =
     (let data = trim_space raw
      in if data = [] then ([], [], 0)
         else if has_prefix data ''a:'' then (''ack'', trim_space (trim_prefix data ''a:''), 0)
         else if has_prefix data ''m1:'' then (''mute'', trim_space (trim_prefix data ''m1:''), 60)
         else if has_prefix data ''r:'' then (''retry'', trim_space (trim_prefix data ''r:''), 0)
         else if has_prefix data ''o:'' then (''open'', trim_space (trim_prefix data ''o:''), 0)
         else
           let parts = split_on (CHR '':'') data; action = trim_space (parts ! 0)
           in if action \<in> {''ack'', ''open'', ''retry''}
              then if length parts < 2 then (action, [], 0)
                   else (action, trim_space (parts ! 1), 0)
              else if action = ''mute''
              then if length parts < 2 then (action, [], 0)
                   else if 3 \<le> length parts \<and> (contains (parts ! 1) ''h'' \<or> is_numeric (parts ! 1))
                   then (action, trim_space (parts ! 2), parse_mute_minutes (parts ! 1))
                   else (action, trim_space (parts ! 1),
                         if 3 \<le> length parts then parse_mute_minutes (parts ! 2) else 0)
              else ([], [], 0))"

section \<open>Fingerprints\<close>

definition fingerprint_for :: "('e) render_env_scheme \<Rightarrow> alert \<Rightarrow> string" where
  "fingerprint_for env a =
     (let node_key = (if al_node_id a \<noteq> uuid_nil then e_str env (al_node_id a) else ''unknown'')
      in case al_type a of
           AlertConnection \<Rightarrow>
             (let c0 = to_lower (trim_space (al_target_type a));
                  component = (if c0 = [] then ''connection'' else c0)
              in ''connection|'' @ node_key @ ''|'' @ component)
         | AlertTLS \<Rightarrow> ''tls|'' @ node_key
         | AlertCPU \<Rightarrow> ''cpu|'' @ node_key @ ''|load1>='' @ fmt_fixed 2 (m_threshold (al_metrics a))
         | AlertMemory \<Rightarrow> ''memory|'' @ node_key @ ''|mem>='' @ fmt_fixed 1 (m_threshold (al_metrics a))
         | AlertDisk \<Rightarrow> ''disk|'' @ node_key @ ''|disk<='' @ fmt_fixed 1 (m_threshold (al_metrics a))
         | AlertGeneric \<Rightarrow>
             (if al_check_id a \<noteq> uuid_nil
              then ''generic|'' @ node_key @ ''|check:'' @ e_str env (al_check_id a)
              else ''generic|'' @ node_key @ ''|check:'' @ to_lower (trim_space (al_check_type a)) @
                   ''|target:'' @ to_lower (trim_space (al_target a)))
         | AlertOther t \<Rightarrow> to_lower t @ ''|'' @ node_key)"

end
