(* ===== verification/Alert_Store.thy ===== *)
theory Alert_Store
  imports Alert_Render
begin

text \<open>
  The state the alert service works on, and the operations of
  \<open>internal/services/alerts/service.go\<close> that load and save it.

  \<^item> \<open>world\<close>: the rows of the tables, the in-memory mutes, the calls made to Telegram so far, the
    number of SQL statements and of identifiers used so far.
  \<^item> \<open>alert_env\<close>: what is outside of the repository. \<open>e_db_fail n\<close> says that the \<open>n\<close>-th SQL
    statement fails (a lost connection, a violated foreign key), \<open>e_tg n call\<close> is Telegram's
    answer to the \<open>n\<close>-th call, \<open>e_uuid n\<close> the \<open>n\<close>-th random identifier, \<open>e_decrypt\<close> the
    configured cipher. The clock stands still while one operation runs.
  \<^item> \<open>alert_svc\<close>: the fields of \<open>Service\<close> that do not change.

  Each operation returns its result and the world after it. A write goes through \<open>db_exec\<close>, a
  query through \<open>db_first\<close>; the unique indexes of the tables are checked where rows are
  written. GORM writes a column's default in place of a zero on \<open>Create\<close> and sets
  \<open>updated_at\<close> on every \<open>Updates\<close>.
\<close>

datatype tg_call =
    TgSend string string string "keyboard option"
  | TgEdit string string int string "keyboard option"
  | TgAnswer string string string

record alert_env = render_env +
  e_parse :: "string \<Rightarrow> uuid option"
  e_db_fail :: "nat \<Rightarrow> bool"
  e_tg :: "nat \<Rightarrow> tg_call \<Rightarrow> string + int"
  e_uuid :: "nat \<Rightarrow> uuid"
  e_decrypt :: "string \<Rightarrow> string result"

record alert_svc =
  a_has_db :: bool
  a_has_enc :: bool
  a_has_client :: bool
  a_public_base_url :: string
  a_policy :: policy

record world =
  w_states :: "alert_state list"
  w_incidents :: "incident list"
  w_settings :: "telegram_row list"
  w_nodes :: "node list"
  w_services :: "service list"
  w_bots :: "bot list"
  w_muted :: "string \<Rightarrow> instant option"
  w_outbox :: "tg_call list"
  w_dbn :: nat
  w_uid :: nat

definition new_service :: "bool \<Rightarrow> bool \<Rightarrow> string \<Rightarrow> policy list \<Rightarrow> alert_svc" where
  "new_service has_db has_enc public_base_url opts =
     \<lparr>a_has_db = has_db, a_has_enc = has_enc, a_has_client = True,
      a_public_base_url = trim_space public_base_url,
      a_policy = fold with_policy opts default_policy\<rparr>"

section \<open>Statements, identifiers and calls\<close>

definition db_tick :: "world \<Rightarrow> world" where
  "db_tick w = w\<lparr>w_dbn := Suc (w_dbn w)\<rparr>"

definition db_first :: "alert_env \<Rightarrow> 'r option \<Rightarrow> world \<Rightarrow> 'r result \<times> world" where
  "db_first env r w =
     (if e_db_fail env (w_dbn w) then Inl (ErrMsg ''database'')
      else case r of None \<Rightarrow> Inl ErrNotFound | Some v \<Rightarrow> Inr v, db_tick w)"

definition db_exec :: "alert_env \<Rightarrow> (world \<Rightarrow> world result) \<Rightarrow> world \<Rightarrow> goerr option \<times> world" where
  "db_exec env f w =
     (if e_db_fail env (w_dbn w) then (Some (ErrMsg ''database''), db_tick w)
      else case f (db_tick w) of Inl err \<Rightarrow> (Some err, db_tick w) | Inr w' \<Rightarrow> (None, w'))"

definition uuid_new :: "alert_env \<Rightarrow> world \<Rightarrow> uuid \<times> world" where
  "uuid_new env w = (e_uuid env (w_uid w), w\<lparr>w_uid := Suc (w_uid w)\<rparr>)"

definition tg_do :: "alert_env \<Rightarrow> tg_call \<Rightarrow> world \<Rightarrow> (string + int) \<times> world" where
  "tg_do env c w = (e_tg env (length (w_outbox w)) c, w\<lparr>w_outbox := w_outbox w @ [c]\<rparr>)"

definition gorm_default :: "int \<Rightarrow> int \<Rightarrow> int" where
  "gorm_default d v = (if v = 0 then d else v)"

section \<open>Small helpers\<close>

definition nullable_string :: "string \<Rightarrow> string option" where
  "nullable_string v = (if trim_space v = [] then None else Some (trim_space v))"

definition nullable_uuid :: "uuid \<Rightarrow> uuid option" where
  "nullable_uuid u = (if u = uuid_nil then None else Some u)"

definition max_int :: "int \<Rightarrow> int \<Rightarrow> int" where
  "max_int a b = (if b \<le> a then a else b)"

definition requires_offline_delay :: "alert_type \<Rightarrow> bool" where
  "requires_offline_delay t \<longleftrightarrow> t = AlertGeneric \<or> t = AlertConnection"

definition min_consecutive_fails :: "alert_svc \<Rightarrow> alert_type \<Rightarrow> int" where
  "min_consecutive_fails svc t =
     (if t \<noteq> AlertGeneric \<and> t \<noteq> AlertConnection \<and> t \<noteq> AlertTLS \<and> t \<noteq> AlertCPU \<and> t \<noteq> AlertMemory \<and>
         t \<noteq> AlertDisk then 1
      else let min_fails = (if 0 < p_min_consecutive_fails (a_policy svc)
                            then p_min_consecutive_fails (a_policy svc)
                            else p_min_consecutive_fails default_policy)
           in if min_fails < 1 then 1 else min_fails)"

fun default_recover_after_ok :: "alert_type \<Rightarrow> int" where
  "default_recover_after_ok AlertConnection = 3"
| "default_recover_after_ok AlertGeneric = 2"
| "default_recover_after_ok AlertTLS = 2"
| "default_recover_after_ok AlertCPU = 6"
| "default_recover_after_ok AlertMemory = 6"
| "default_recover_after_ok AlertDisk = 6"
| "default_recover_after_ok (AlertOther t) = 1"

definition has_thread_for_all :: "string list \<Rightarrow> msg_ids \<Rightarrow> bool" where
  "has_thread_for_all chat_ids ids \<longleftrightarrow>
     chat_ids \<noteq> [] \<and> ids \<noteq> [] \<and>
     list_all (\<lambda>chat. trim_space chat = [] \<or>
       (case map_of ids chat of None \<Rightarrow> False | Some m \<Rightarrow> 0 < m)) chat_ids"

definition incident_uuid_from_alert :: "alert_env \<Rightarrow> alert \<Rightarrow> uuid option" where
  "incident_uuid_from_alert env a =
     (if trim_space (al_incident_id a) = [] then None
      else case e_parse env (trim_space (al_incident_id a)) of
             None \<Rightarrow> None
           | Some u \<Rightarrow> if u = uuid_nil then None else Some u)"

section \<open>Settings\<close>

fun newest :: "telegram_row list \<Rightarrow> telegram_row option" where
  "newest [] = None"
| "newest (r # rs) =
     (case newest rs of
        None \<Rightarrow> Some r
      | Some q \<Rightarrow> if tr_created_at r < tr_created_at q then Some q else Some r)"

definition settings_from_row :: "alert_svc \<Rightarrow> alert_env \<Rightarrow> telegram_row \<Rightarrow> settings option result" where
  "settings_from_row svc env row =
     (if \<not> a_has_enc svc then Inr None
      else case e_decrypt env (tr_bot_token_enc row) of
        Inl err \<Rightarrow> Inl err
      | Inr t \<Rightarrow>
          let token = trim_space t
          in if token = [] \<or> trim_space (tr_admin_chat_id row) = [] then Inr None
             else let admin_ids = split_chat_ids (tr_admin_chat_id row)
                  in if admin_ids = [] then Inr None
                     else let (ack_mute, mute) =
                                normalize_policy_minutes (tr_ack_mute_minutes row) (tr_mute_minutes row)
                          in Inr (Some \<lparr>s_bot_token = token, s_admin_chat_ids = admin_ids,
                               s_alert_connection = tr_alert_connection row,
                               s_alert_cpu = tr_alert_cpu row, s_alert_memory = tr_alert_memory row,
                               s_alert_disk = tr_alert_disk row,
                               s_ack_mute_minutes = ack_mute, s_mute_minutes = mute\<rparr>))"

definition load_settings :: "alert_svc \<Rightarrow> alert_env \<Rightarrow> world \<Rightarrow> settings option result \<times> world" where
  "load_settings svc env w =
     (if \<not> a_has_db svc \<or> \<not> a_has_enc svc then (Inr None, w)
      else case db_first env (newest (w_settings w)) w of
        (Inl ErrNotFound, w1) \<Rightarrow> (Inr None, w1)
      | (Inl err, w1) \<Rightarrow> (Inl err, w1)
      | (Inr row, w1) \<Rightarrow> (settings_from_row svc env row, w1))"

definition load_settings_for_org ::
    "alert_svc \<Rightarrow> alert_env \<Rightarrow> uuid option \<Rightarrow> world \<Rightarrow> settings option result \<times> world" where
  "load_settings_for_org svc env org_id w =
     (if \<not> a_has_db svc \<or> \<not> a_has_enc svc \<or> org_id = None then (Inr None, w)
      else case db_first env (newest (filter (\<lambda>r. tr_org_id r = org_id) (w_settings w))) w of
        (Inl ErrNotFound, w1) \<Rightarrow> (Inr None, w1)
      | (Inl err, w1) \<Rightarrow> (Inl err, w1)
      | (Inr row, w1) \<Rightarrow> (settings_from_row svc env row, w1))"

section \<open>Alert states\<close>

definition load_state :: "alert_svc \<Rightarrow> alert_env \<Rightarrow> string \<Rightarrow> world \<Rightarrow> alert_state option \<times> world" where
  "load_state svc env fp w =
     (if \<not> a_has_db svc then (None, w)
      else case db_first env (row_get as_fingerprint fp (w_states w)) w of
        (Inl _, w1) \<Rightarrow> (None, w1)
      | (Inr st, w1) \<Rightarrow> (Some st, w1))"

definition load_state_by_alert_id ::
    "alert_svc \<Rightarrow> alert_env \<Rightarrow> string \<Rightarrow> world \<Rightarrow> alert_state option \<times> world" where
  "load_state_by_alert_id svc env alert_id w =
     (if \<not> a_has_db svc \<or> trim_space alert_id = [] then (None, w)
      else case e_parse env alert_id of
        None \<Rightarrow> (None, w)
      | Some u \<Rightarrow>
          (case db_first env (row_get as_alert_id (Some u) (w_states w)) w of
             (Inl _, w1) \<Rightarrow> (None, w1)
           | (Inr st, w1) \<Rightarrow> (Some st, w1)))"

definition alert_id_taken :: "uuid \<Rightarrow> string \<Rightarrow> world \<Rightarrow> bool" where
  "alert_id_taken u fp w \<longleftrightarrow>
     list_ex (\<lambda>r. as_alert_id r = Some u \<and> as_fingerprint r \<noteq> fp) (w_states w)"

definition upd_state_rows :: "string \<Rightarrow> (alert_state \<Rightarrow> alert_state) \<Rightarrow> world \<Rightarrow> world" where
  "upd_state_rows fp f w = w\<lparr>w_states := row_upd as_fingerprint fp f (w_states w)\<rparr>"

definition ensure_alert_id ::
    "alert_svc \<Rightarrow> alert_env \<Rightarrow> alert_state option \<Rightarrow> world \<Rightarrow> (string \<times> alert_state option) \<times> world" where
  "ensure_alert_id svc env state w =
     (case state of
        None \<Rightarrow> (let (u, w1) = uuid_new env w in ((e_str env u, None), w1))
      | Some st \<Rightarrow>
          (case as_alert_id st of
             Some u \<Rightarrow> ((e_str env u, Some st), w)
           | None \<Rightarrow>
               let (u, w1) = uuid_new env w
               in if \<not> a_has_db svc then ((e_str env u, Some st), w1)
                  else let (_, w2) = db_exec env (\<lambda>v.
                             if alert_id_taken u (as_fingerprint st) v then Inl ErrUnique
                             else Inr (upd_state_rows (as_fingerprint st)
                                    (\<lambda>r. r\<lparr>as_alert_id := Some u, as_updated_at := e_now env\<rparr>) v)) w1
                       in ((e_str env u, Some (st\<lparr>as_alert_id := Some u\<rparr>)), w2)))"

text \<open>The payload of \<open>updateState\<close> as a function on the row.\<close>

definition state_payload ::
    "alert_env \<Rightarrow> alert \<Rightarrow> alert_state \<Rightarrow> string \<Rightarrow> bool \<Rightarrow> msg_ids \<Rightarrow> int \<Rightarrow> uuid option
     \<Rightarrow> alert_state \<Rightarrow> alert_state" where
  "state_payload env a st status notified ids ok_streak incident_id r =
     (let now = e_now env;
          r1 = r\<lparr>as_alert_type := alert_type_text (al_type a),
                 as_node_id := nullable_uuid (al_node_id a),
                 as_service_id := nullable_uuid (al_service_id a),
                 as_bot_id := nullable_uuid (al_bot_id a),
                 as_check_type := nullable_string (al_check_type a),
                 as_last_status := Some status,
                 as_last_seen := now,
                 as_occurrences := al_occurrences a,
                 as_ok_streak := ok_streak,
                 as_updated_at := now\<rparr>;
          r2 = (case incident_id of
                  Some u \<Rightarrow> if u \<noteq> uuid_nil then r1\<lparr>as_incident_id := Some u\<rparr> else r1
                | None \<Rightarrow> r1);
          r3 = (if notified then r2\<lparr>as_message_ids := message_ids_to_json ids\<rparr> else r2);
          r4 = (if as_alert_id st = None \<and> trim_space (al_alert_id a) \<noteq> []
                then case e_parse env (al_alert_id a) of
                       Some u \<Rightarrow> r3\<lparr>as_alert_id := Some u\<rparr> | None \<Rightarrow> r3
                else r3);
          prev = (case as_last_status st of None \<Rightarrow> [] | Some s \<Rightarrow> to_lower (trim_space s))
      in if status = ''fail'' \<and> (prev \<noteq> ''fail'' \<or> 0 < as_ok_streak st)
         then r4\<lparr>as_first_seen := now\<rparr> else r4)"

definition new_state_row ::
    "alert_env \<Rightarrow> alert \<Rightarrow> uuid \<Rightarrow> string \<Rightarrow> msg_ids \<Rightarrow> int \<Rightarrow> uuid option \<Rightarrow> alert_state" where
  "new_state_row env a alert_id status ids ok_streak incident_id =
     \<lparr>as_alert_id = Some alert_id, as_fingerprint = al_fingerprint a, as_incident_id = incident_id,
      as_alert_type = alert_type_text (al_type a), as_node_id = nullable_uuid (al_node_id a),
      as_service_id = nullable_uuid (al_service_id a), as_bot_id = nullable_uuid (al_bot_id a),
      as_check_type = nullable_string (al_check_type a), as_last_status = Some status,
      as_first_seen = e_now env, as_last_seen = e_now env,
      as_occurrences = gorm_default 1 (al_occurrences a), as_ok_streak = ok_streak,
      as_message_ids = message_ids_to_json ids, as_muted_until = None, as_updated_at = e_now env\<rparr>"

definition put_state_row :: "alert_state \<Rightarrow> world \<Rightarrow> world result" where
  "put_state_row r w =
     (if as_alert_id r \<noteq> None \<and> as_alert_id r \<in> as_alert_id ` set (w_states w) then Inl ErrUnique
      else case row_put as_fingerprint r (w_states w) of
             None \<Rightarrow> Inl ErrUnique
           | Some rows \<Rightarrow> Inr (w\<lparr>w_states := rows\<rparr>))"

definition update_state ::
    "alert_svc \<Rightarrow> alert_env \<Rightarrow> alert \<Rightarrow> alert_state option \<Rightarrow> string \<Rightarrow> bool \<Rightarrow> msg_ids \<Rightarrow> int
     \<Rightarrow> uuid option \<Rightarrow> world \<Rightarrow> world" where
  "update_state svc env a state status notified ids ok_streak incident_id w =
     (if \<not> a_has_db svc then w
      else case state of
        Some st \<Rightarrow>
          snd (db_exec env (\<lambda>v.
            Inr (upd_state_rows (al_fingerprint a)
                   (state_payload env a st status notified ids ok_streak incident_id) v)) w)
      | None \<Rightarrow>
          (let parsed = (if trim_space (al_alert_id a) \<noteq> []
                         then case e_parse env (al_alert_id a) of Some u \<Rightarrow> u | None \<Rightarrow> uuid_nil
                         else uuid_nil);
               (alert_id, w1) = (if parsed = uuid_nil then uuid_new env w else (parsed, w))
           in snd (db_exec env
                (put_state_row (new_state_row env a alert_id status ids ok_streak incident_id)) w1)))"

section \<open>Incidents\<close>

definition new_incident :: "alert_env \<Rightarrow> alert \<Rightarrow> uuid \<Rightarrow> string \<Rightarrow> incident" where
  "new_incident env a u fp =
     (let desc = trim_space (al_error a); d = (if desc \<noteq> [] then Some desc else None)
      in \<lparr>in_id = u, in_org_id = al_org_id a, in_fingerprint = fp,
          in_alert_type = alert_type_text (al_type a), in_severity = severity_text (al_severity a),
          in_status = ''open'', in_node_id = nullable_uuid (al_node_id a),
          in_service_id = nullable_uuid (al_service_id a), in_bot_id = nullable_uuid (al_bot_id a),
          in_check_id = nullable_uuid (al_check_id a), in_title = trim_space (render_title a),
          in_description = d, in_first_seen = e_now env, in_last_seen = e_now env,
          in_acknowledged_at = None, in_acknowledged_by = None, in_recovered_at = None,
          in_occurrences = max_int (al_occurrences a) 1, in_last_error = d,
          in_created_at = e_now env, in_updated_at = e_now env\<rparr>)"

definition put_incident_row :: "incident \<Rightarrow> world \<Rightarrow> world result" where
  "put_incident_row r w =
     (if in_id r \<in> in_id ` set (w_incidents w) then Inl ErrUnique
      else case row_put in_fingerprint r (w_incidents w) of
             None \<Rightarrow> Inl ErrUnique
           | Some rows \<Rightarrow> Inr (w\<lparr>w_incidents := rows\<rparr>))"

definition incident_updates ::
    "alert_env \<Rightarrow> alert \<Rightarrow> incident \<Rightarrow> string \<Rightarrow> string \<Rightarrow> string \<Rightarrow> incident \<Rightarrow> incident" where
  "incident_updates env a loaded fp status prev_status r =
     (let now = e_now env;
          r1 = r\<lparr>in_last_seen := now, in_updated_at := now, in_org_id := al_org_id a,
                 in_alert_type := alert_type_text (al_type a),
                 in_severity := severity_text (al_severity a),
                 in_node_id := nullable_uuid (al_node_id a),
                 in_service_id := nullable_uuid (al_service_id a),
                 in_bot_id := nullable_uuid (al_bot_id a),
                 in_check_id := nullable_uuid (al_check_id a),
                 in_title := trim_space (render_title a),
                 in_description := Some (trim_space (al_error a)),
                 in_occurrences := max_int (al_occurrences a) (in_occurrences loaded),
                 in_last_error := Some (trim_space (al_error a)),
                 in_fingerprint := fp\<rparr>
      in if status = ''fail''
         then let r2 = r1\<lparr>in_status := ''open'', in_recovered_at := None\<rparr>
              in if prev_status \<noteq> ''fail'' \<or> in_status loaded = ''recovered''
                 then r2\<lparr>in_first_seen := now, in_acknowledged_at := None, in_acknowledged_by := None\<rparr>
                 else r2
         else if in_status loaded \<noteq> ''recovered''
              then r1\<lparr>in_status := ''recovered'', in_recovered_at := Some now\<rparr>
              else r1)"

definition upd_incident_rows :: "uuid \<Rightarrow> (incident \<Rightarrow> incident) \<Rightarrow> world \<Rightarrow> world" where
  "upd_incident_rows u f w = w\<lparr>w_incidents := row_upd in_id u f (w_incidents w)\<rparr>"

definition sync_incident ::
    "alert_svc \<Rightarrow> alert_env \<Rightarrow> alert \<Rightarrow> string \<Rightarrow> string \<Rightarrow> world \<Rightarrow> uuid option \<times> world" where
  "sync_incident svc env a status prev_status w =
     (if \<not> a_has_db svc then (None, w)
      else let fp = trim_space (al_fingerprint a)
           in if fp = [] then (None, w)
              else case db_first env (row_get in_fingerprint fp (w_incidents w)) w of
                (Inl ErrNotFound, w1) \<Rightarrow>
                  (if status \<noteq> ''fail'' then (None, w1)
                   else let (u, w2) = uuid_new env w1
                        in case db_exec env (put_incident_row (new_incident env a u fp)) w2 of
                             (Some _, w3) \<Rightarrow> (None, w3)
                           | (None, w3) \<Rightarrow> (Some u, w3))
              | (Inl _, w1) \<Rightarrow> (None, w1)
              | (Inr inc, w1) \<Rightarrow>
                  (case db_exec env (\<lambda>v. Inr (upd_incident_rows (in_id inc)
                          (incident_updates env a inc fp status prev_status) v)) w1 of
                     (Some _, w2) \<Rightarrow> (None, w2)
                   | (None, w2) \<Rightarrow> (Some (in_id inc), w2)))"

section \<open>Mutes\<close>

definition muted_in_db :: "alert_svc \<Rightarrow> alert_env \<Rightarrow> string \<Rightarrow> world \<Rightarrow> bool \<times> world" where
  "muted_in_db svc env fp w =
     (if \<not> a_has_db svc then (False, w)
      else case db_first env (find (\<lambda>r. as_fingerprint r = fp \<and>
                  (case as_muted_until r of None \<Rightarrow> False | Some m \<Rightarrow> e_now env < m)) (w_states w)) w of
        (Inl _, w1) \<Rightarrow> (False, w1)
      | (Inr st, w1) \<Rightarrow>
          (case as_muted_until st of
             None \<Rightarrow> (False, w1)
           | Some m \<Rightarrow> (True, w1\<lparr>w_muted := (w_muted w1)(fp \<mapsto> m)\<rparr>)))"

definition is_muted :: "alert_svc \<Rightarrow> alert_env \<Rightarrow> string \<Rightarrow> world \<Rightarrow> bool \<times> world" where
  "is_muted svc env fp w =
     (if trim_space fp = [] then (False, w)
      else case w_muted w fp of
        Some until \<Rightarrow>
          if e_now env < until then (True, w)
          else muted_in_db svc env fp (w\<lparr>w_muted := (w_muted w)(fp := None)\<rparr>)
      | None \<Rightarrow> muted_in_db svc env fp w)"

definition set_mute :: "alert_svc \<Rightarrow> alert_env \<Rightarrow> string \<Rightarrow> duration \<Rightarrow> world \<Rightarrow> world" where
  "set_mute svc env fp dur w =
     (if trim_space fp = [] then w
      else let until = e_now env + dur;
               w1 = w\<lparr>w_muted := (w_muted w)(fp \<mapsto> until)\<rparr>
           in if \<not> a_has_db svc then w1
              else snd (db_exec env (\<lambda>v. Inr (upd_state_rows fp
                     (\<lambda>r. r\<lparr>as_muted_until := Some until, as_updated_at := e_now env\<rparr>) v)) w1))"

end
