(* ===== verification/Alert_Engine.thy ===== *)
theory Alert_Engine
  imports Alert_Store
begin

text \<open>
  The notification path of \<open>internal/services/alerts/service.go\<close>: the \<open>Notify\<close> functions build
  an \<open>Alert\<close> from a sample, and \<open>maybeSendAlert\<close> decides from the stored state whether the
  sample is silent, is an alert or is a recovery, talks to Telegram, and saves the state and the
  incident. \<open>maybe_send_alert\<close> is composed of one definition per stage of the Go function:
  \<open>prepare\<close>, the mute of the check, the ok branch, the fail branch, and \<open>deliver\<close>.
\<close>

section \<open>Talking to Telegram\<close>

text \<open>One message per chat, the ids of those that were accepted.\<close>

fun send_all :: "alert_env \<Rightarrow> string \<Rightarrow> string \<Rightarrow> keyboard option \<Rightarrow> string list \<Rightarrow> msg_ids \<Rightarrow> world
     \<Rightarrow> msg_ids \<times> world" where
  "send_all env tok text kb [] ids w = (ids, w)"
| "send_all env tok text kb (chat # chats) ids w =
     (case tg_do env (TgSend tok chat text kb) w of
        (Inl _, w1) \<Rightarrow> send_all env tok text kb chats ids w1
      | (Inr msg, w1) \<Rightarrow> send_all env tok text kb chats (AList.update chat msg ids) w1)"

text \<open>The message of a chat is edited; where that is not possible a new one is sent.\<close>

fun edit_all :: "alert_env \<Rightarrow> string \<Rightarrow> string \<Rightarrow> keyboard option \<Rightarrow> msg_ids \<Rightarrow> string list \<Rightarrow> msg_ids
     \<Rightarrow> world \<Rightarrow> msg_ids \<times> world" where
  "edit_all env tok text kb old [] ids w = (ids, w)"
| "edit_all env tok text kb old (chat # chats) ids w =
     (let resend = (\<lambda>v. case tg_do env (TgSend tok chat text kb) v of
            (Inl _, w2) \<Rightarrow> (ids, w2)
          | (Inr msg, w2) \<Rightarrow> (AList.update chat msg ids, w2));
          (ids', w') =
            (case map_of old chat of
               Some m \<Rightarrow>
                 (if 0 < m then
                    (case tg_do env (TgEdit tok chat m text kb) w of
                       (Inr _, w1) \<Rightarrow> (AList.update chat m ids, w1)
                     | (Inl _, w1) \<Rightarrow> resend w1)
                  else resend w)
             | None \<Rightarrow> resend w)
      in edit_all env tok text kb old chats ids' w')"

definition send_recovery :: "alert_svc \<Rightarrow> alert_env \<Rightarrow> settings \<Rightarrow> alert \<Rightarrow> world \<Rightarrow> world" where
  "send_recovery svc env s a w =
     (let (text, kb) = render_recovery env a (a_public_base_url svc)
      in snd (send_all env (s_bot_token s) text kb (s_admin_chat_ids s) [] w))"

definition send_alert ::
    "alert_svc \<Rightarrow> alert_env \<Rightarrow> settings \<Rightarrow> alert \<Rightarrow> alert_state option \<Rightarrow> world \<Rightarrow> msg_ids \<times> world" where
  "send_alert svc env s a state w =
     (let ids = message_ids_of state; (text, kb) = render_alert env a (a_public_base_url svc)
      in if ids = [] then send_all env (s_bot_token s) text kb (s_admin_chat_ids s) [] w
         else edit_all env (s_bot_token s) text kb ids (s_admin_chat_ids s) [] w)"

section \<open>The decision\<close>

text \<open>What \<open>maybeSendAlert\<close> computes before its first branch.\<close>

record prepared =
  pr_alert :: alert
  pr_state :: "alert_state option"
  pr_status :: string
  pr_prev_status :: string
  pr_prev_ids :: msg_ids
  pr_prev_streak :: int
  pr_fail_delay :: duration
  pr_recover_after :: int

definition fail_delay :: "alert_svc \<Rightarrow> alert \<Rightarrow> duration" where
  "fail_delay svc a =
     (let d0 = p_offline_delay (a_policy svc);
          d1 = (if 0 < al_fail_after_sec a
                then let custom = dur_mul (al_fail_after_sec a) second
                     in if d0 < custom then custom else d0
                else d0)
      in if d1 < 0 then 0 else d1)"

definition recover_after :: "alert \<Rightarrow> int" where
  "recover_after a =
     (let r0 = (if al_recover_after_ok a < 1 then default_recover_after_ok (al_type a)
                else al_recover_after_ok a)
      in if r0 < 1 then 1 else r0)"

definition sample_status :: "bool \<Rightarrow> alert \<Rightarrow> string" where
  "sample_status active a =
     (let st = to_lower (trim_space (al_status a))
      in if st = [] then (if active then ''fail'' else ''ok'') else st)"

definition prev_status_of :: "alert_state option \<Rightarrow> string" where
  "prev_status_of state =
     (case state of None \<Rightarrow> []
      | Some st \<Rightarrow> (case as_last_status st of None \<Rightarrow> [] | Some s \<Rightarrow> to_lower (trim_space s)))"

definition prepare :: "alert_svc \<Rightarrow> alert_env \<Rightarrow> bool \<Rightarrow> alert \<Rightarrow> world \<Rightarrow> prepared \<times> world" where
  "prepare svc env active a0 w =
     (let status = sample_status active a0;
          a1 = a0\<lparr>al_status := status\<rparr>;
          a2 = a1\<lparr>al_fingerprint := fingerprint_for env a1\<rparr>;
          (state0, w1) = load_state svc env (al_fingerprint a2) w;
          ((alert_id, state), w2) = ensure_alert_id svc env state0 w1;
          a3 = a2\<lparr>al_alert_id := alert_id\<rparr>;
          a4 = (case state of
                  None \<Rightarrow> a3
                | Some st \<Rightarrow> (case as_incident_id st of
                                None \<Rightarrow> a3 | Some u \<Rightarrow> a3\<lparr>al_incident_id := e_str env u\<rparr>))
      in (\<lparr>pr_alert = a4, pr_state = state, pr_status = status,
           pr_prev_status = prev_status_of state,
           pr_prev_ids = message_ids_of state,
           pr_prev_streak = (case state of None \<Rightarrow> 0
                             | Some st \<Rightarrow> if 0 < as_ok_streak st then as_ok_streak st else 0),
           pr_fail_delay = fail_delay svc a4, pr_recover_after = recover_after a4\<rparr>, w2))"

definition check_muted :: "alert_env \<Rightarrow> alert \<Rightarrow> bool" where
  "check_muted env a = (case al_mute_until a of None \<Rightarrow> False | Some t \<Rightarrow> e_now env < t)"

text \<open>The mute of the check itself: the sample is recorded, nothing is sent.\<close>

definition handle_check_muted :: "alert_svc \<Rightarrow> alert_env \<Rightarrow> prepared \<Rightarrow> world \<Rightarrow> world" where
  "handle_check_muted svc env p w =
     (let w1 = update_state svc env (pr_alert p) (pr_state p) (pr_status p) False (pr_prev_ids p)
                 (pr_prev_streak p) (incident_uuid_from_alert env (pr_alert p)) w
      in snd (sync_incident svc env (pr_alert p) (pr_status p) (pr_prev_status p) w1))"

definition handle_ok :: "alert_svc \<Rightarrow> alert_env \<Rightarrow> settings \<Rightarrow> prepared \<Rightarrow> world \<Rightarrow> world" where
  "handle_ok svc env s p w =
     (case pr_state p of
        Some st \<Rightarrow>
          if pr_prev_status p = ''fail'' then
            let ok_streak = pr_prev_streak p + 1
            in if ok_streak < pr_recover_after p
               then let w1 = update_state svc env (pr_alert p) (pr_state p) ''fail'' False (pr_prev_ids p)
                               ok_streak (incident_uuid_from_alert env (pr_alert p)) w
                    in snd (sync_incident svc env (pr_alert p) ''fail'' (pr_prev_status p) w1)
               else if pr_prev_ids p = []
               then let a = (pr_alert p)\<lparr>al_occurrences := 0\<rparr>;
                        (inc, w1) = sync_incident svc env a ''ok'' (pr_prev_status p) w
                    in update_state svc env a (pr_state p) ''ok'' True [] 0 inc w1
               else let a = (pr_alert p)\<lparr>al_occurrences := as_occurrences st\<rparr>;
                        w1 = send_recovery svc env s a w;
                        (inc, w2) = sync_incident svc env a ''ok'' (pr_prev_status p) w1
                    in update_state svc env a (pr_state p) ''ok'' True [] 0 inc w2
          else let (inc, w1) = sync_incident svc env (pr_alert p) ''ok'' (pr_prev_status p) w
               in update_state svc env (pr_alert p) (pr_state p) ''ok'' False (message_ids_of (pr_state p)) 0 inc w1
      | None \<Rightarrow>
          let (inc, w1) = sync_incident svc env (pr_alert p) ''ok'' (pr_prev_status p) w
          in update_state svc env (pr_alert p) (pr_state p) ''ok'' False (message_ids_of (pr_state p)) 0 inc w1)"

text \<open>The end of each branch of the fail path: the incident, then the state.\<close>

definition save_fail ::
    "alert_svc \<Rightarrow> alert_env \<Rightarrow> prepared \<Rightarrow> alert \<Rightarrow> bool \<Rightarrow> msg_ids \<Rightarrow> world \<Rightarrow> world" where
  "save_fail svc env p a notified ids w =
     (let (inc, w1) = sync_incident svc env a (pr_status p) (pr_prev_status p) w
      in update_state svc env a (pr_state p) (pr_status p) notified ids 0 inc w1)"

definition fail_occurrences :: "prepared \<Rightarrow> int" where
  "fail_occurrences p =
     (case pr_state p of
        None \<Rightarrow> 1
      | Some st \<Rightarrow>
          if pr_prev_status p = ''fail''
          then let n = as_occurrences st + 1 in if n < 1 then 1 else n
          else 1)"

definition in_delay :: "alert_env \<Rightarrow> prepared \<Rightarrow> bool" where
  "in_delay env p \<longleftrightarrow>
     requires_offline_delay (al_type (pr_alert p)) \<and> pr_prev_ids p = [] \<and>
     (let now = e_now env;
          fail_started_at =
            (case pr_state p of
               None \<Rightarrow> now
             | Some st \<Rightarrow>
                 if pr_prev_status p = ''fail'' \<and> pr_prev_streak p = 0 \<and> as_first_seen st \<noteq> 0
                 then as_first_seen st else now)
      in time_sub now fail_started_at < pr_fail_delay p)"

definition repeated_fail :: "prepared \<Rightarrow> bool" where
  "repeated_fail p =
     (case pr_state p of None \<Rightarrow> False | Some st \<Rightarrow> as_last_status st = Some ''fail'')"

definition handle_fail :: "alert_svc \<Rightarrow> alert_env \<Rightarrow> settings \<Rightarrow> prepared \<Rightarrow> world \<Rightarrow> world" where
  "handle_fail svc env s p w =
     (let a = (pr_alert p)\<lparr>al_occurrences := fail_occurrences p\<rparr>
      in if in_delay env p then save_fail svc env p a False (pr_prev_ids p) w
         else if pr_prev_ids p = [] \<and> al_occurrences a < min_consecutive_fails svc (al_type a)
         then save_fail svc env p a False (pr_prev_ids p) w
         else if repeated_fail p \<and> message_ids_of (pr_state p) \<noteq> [] \<and>
                 has_thread_for_all (s_admin_chat_ids s) (message_ids_of (pr_state p))
         then save_fail svc env p a False (message_ids_of (pr_state p)) w
         else
           let a' = (case pr_state p of
                       Some st \<Rightarrow> if repeated_fail p \<and> al_occurrences a < as_occurrences st
                                  then a\<lparr>al_occurrences := as_occurrences st\<rparr> else a
                     | None \<Rightarrow> a);
               (muted, w1) = is_muted svc env (al_fingerprint a') w
           in if muted then save_fail svc env p a' False (message_ids_of (pr_state p)) w1
              else let (ids, w2) = send_alert svc env s a' (pr_state p) w1
                   in save_fail svc env p a' True ids w2)"

definition maybe_send_alert ::
    "alert_svc \<Rightarrow> alert_env \<Rightarrow> settings option \<Rightarrow> bool \<Rightarrow> alert \<Rightarrow> world \<Rightarrow> world" where
  "maybe_send_alert svc env settings active a0 w =
     (case settings of
        None \<Rightarrow> w
      | Some s \<Rightarrow>
          if \<not> a_has_client svc then w
          else let (p, w1) = prepare svc env active a0 w
               in if check_muted env (pr_alert p) then handle_check_muted svc env p w1
                  else if pr_status p = ''ok'' then handle_ok svc env s p w1
                  else handle_fail svc env s p w1)"

section \<open>Samples\<close>

definition node_label :: "alert_env \<Rightarrow> node option \<Rightarrow> string" where
  "node_label env n =
     (case n of
        None \<Rightarrow> ''unknown''
      | Some nd \<Rightarrow>
          if trim_space (n_name nd) \<noteq> [] then n_name nd
          else if n_id nd \<noteq> uuid_nil then e_str env (n_id nd)
          else ''unknown'')"

definition opt_trim :: "string option \<Rightarrow> string" where
  "opt_trim x = (case x of None \<Rightarrow> [] | Some s \<Rightarrow> trim_space s)"

definition service_target :: "node option \<Rightarrow> service option \<Rightarrow> string" where
  "service_target n sv =
     (case sv of
        None \<Rightarrow> []
      | Some sr \<Rightarrow>
          if opt_trim (sv_url sr) \<noteq> [] then opt_trim (sv_url sr)
          else
            let host0 = opt_trim (sv_host sr);
                host = (case n of
                          None \<Rightarrow> host0
                        | Some nd \<Rightarrow>
                            if host0 = []
                            then if trim_space (n_host nd) = [] then trim_space (n_ssh_host nd)
                                 else trim_space (n_host nd)
                            else host0)
            in if host = [] then []
               else let port = (case sv_port sr of None \<Rightarrow> 0 | Some q \<Rightarrow> q)
                    in if 0 < port then host @ '':'' @ itoa port else host)"

definition bot_target :: "bot option \<Rightarrow> string" where
  "bot_target bt =
     (case bt of
        None \<Rightarrow> []
      | Some br \<Rightarrow>
          let name = trim_space (b_name br);
              named = (\<lambda>x. if name \<noteq> [] then name @ '' ('' @ x @ '')'' else x)
          in if opt_trim (b_docker_container br) \<noteq> [] then named (opt_trim (b_docker_container br))
             else if opt_trim (b_systemd_unit br) \<noteq> [] then named (opt_trim (b_systemd_unit br))
             else if opt_trim (b_health_url br) \<noteq> [] then named (opt_trim (b_health_url br))
             else name)"

definition service_label :: "alert_env \<Rightarrow> service option \<Rightarrow> node option \<Rightarrow> string" where
  "service_label env sv n =
     (let from_node = (case n of None \<Rightarrow> ''service'' | Some nd \<Rightarrow> node_label env n)
      in case sv of
           None \<Rightarrow> from_node
         | Some sr \<Rightarrow>
             if trim_space (sv_name sr) \<noteq> [] then trim_space (sv_name sr)
             else if trim_space (service_target n sv) \<noteq> [] then trim_space (service_target n sv)
             else if sv_id sr \<noteq> uuid_nil then e_str env (sv_id sr)
             else from_node)"

definition service_org_id :: "service option \<Rightarrow> node option \<Rightarrow> uuid option" where
  "service_org_id sv n =
     (let from_node = (case n of
                         None \<Rightarrow> None
                       | Some nd \<Rightarrow> (case n_org_id nd of
                                       None \<Rightarrow> None
                                     | Some u \<Rightarrow> if u \<noteq> uuid_nil then Some u else None))
      in case sv of
           Some sr \<Rightarrow> if sv_org_id sr \<noteq> uuid_nil then Some (sv_org_id sr) else from_node
         | None \<Rightarrow> from_node)"

definition notify_connection ::
    "alert_svc \<Rightarrow> alert_env \<Rightarrow> settings option \<Rightarrow> node option \<Rightarrow> bool \<Rightarrow> bool \<Rightarrow> string option
     \<Rightarrow> world \<Rightarrow> world" where
  "notify_connection svc env settings n panel_ok ssh_ok ssh_err w =
     (case (settings, n) of
        (Some s, Some nd) \<Rightarrow>
          if \<not> s_alert_connection s then w
          else maybe_send_alert svc env settings (\<not> ssh_ok)
                 ((zero_alert AlertConnection SeverityCritical)
                    \<lparr>al_node_id := n_id nd, al_node_name := node_label env n, al_ts := e_now env,
                     al_panel_ok := panel_ok, al_ssh_ok := ssh_ok, al_panel_url := n_base_url nd,
                     al_ip := n_ssh_host nd, al_target_type := ''ssh'',
                     al_error := opt_trim ssh_err\<rparr>) w
      | _ \<Rightarrow> w)"

definition metric_alert :: "alert_env \<Rightarrow> alert_type \<Rightarrow> node \<Rightarrow> alert_metrics \<Rightarrow> alert" where
  "metric_alert env ty nd m =
     (zero_alert ty SeverityWarning)
       \<lparr>al_node_id := n_id nd, al_node_name := node_label env (Some nd), al_ts := e_now env,
        al_metrics := m, al_panel_url := n_base_url nd, al_ip := n_ssh_host nd\<rparr>"

definition notify_cpu ::
    "alert_svc \<Rightarrow> alert_env \<Rightarrow> settings option \<Rightarrow> node option \<Rightarrow> float64 \<Rightarrow> world \<Rightarrow> world" where
  "notify_cpu svc env settings n load1 w =
     (case (settings, n) of
        (Some s, Some nd) \<Rightarrow>
          if \<not> s_alert_cpu s then w
          else let threshold = p_cpu_load_threshold (a_policy svc)
               in maybe_send_alert svc env settings (f64_ge load1 threshold)
                    (metric_alert env AlertCPU nd
                       (zero_metrics\<lparr>m_load1 := load1, m_threshold := threshold\<rparr>)) w
      | _ \<Rightarrow> w)"

definition notify_memory ::
    "alert_svc \<Rightarrow> alert_env \<Rightarrow> settings option \<Rightarrow> node option \<Rightarrow> float64 \<Rightarrow> world \<Rightarrow> world" where
  "notify_memory svc env settings n used_percent w =
     (case (settings, n) of
        (Some s, Some nd) \<Rightarrow>
          if \<not> s_alert_memory s then w
          else let threshold = p_mem_percent_high (a_policy svc)
               in maybe_send_alert svc env settings (f64_ge used_percent threshold)
                    (metric_alert env AlertMemory nd
                       (zero_metrics\<lparr>m_used_pct := used_percent, m_threshold := threshold\<rparr>)) w
      | _ \<Rightarrow> w)"

definition notify_disk ::
    "alert_svc \<Rightarrow> alert_env \<Rightarrow> settings option \<Rightarrow> node option \<Rightarrow> float64 \<Rightarrow> world \<Rightarrow> world" where
  "notify_disk svc env settings n free_percent w =
     (case (settings, n) of
        (Some s, Some nd) \<Rightarrow>
          if \<not> s_alert_disk s then w
          else let threshold = p_disk_free_low (a_policy svc)
               in maybe_send_alert svc env settings (f64_ge threshold free_percent)
                    (metric_alert env AlertDisk nd
                       (zero_metrics\<lparr>m_free_pct := free_percent, m_threshold := threshold\<rparr>)) w
      | _ \<Rightarrow> w)"

text \<open>The settings a caller does not pass are those of the organisation; an error loads none.\<close>

definition settings_or_org ::
    "alert_svc \<Rightarrow> alert_env \<Rightarrow> settings option \<Rightarrow> uuid option \<Rightarrow> world \<Rightarrow> settings option \<times> world" where
  "settings_or_org svc env settings org_id w =
     (case settings of
        Some s \<Rightarrow> (Some s, w)
      | None \<Rightarrow>
          (case load_settings_for_org svc env org_id w of
             (Inr r, w1) \<Rightarrow> (r, w1) | (Inl _, w1) \<Rightarrow> (None, w1)))"

definition check_alert ::
    "alert_env \<Rightarrow> check \<Rightarrow> string \<Rightarrow> int \<Rightarrow> int \<Rightarrow> string option \<Rightarrow> alert" where
  "check_alert env ck status latency status_code err_msg =
     (zero_alert AlertGeneric SeverityCritical)
       \<lparr>al_ts := e_now env, al_check_type := trim_space (ck_type ck), al_status := status,
        al_fail_after_sec := ck_fail_after_sec ck, al_recover_after_ok := ck_recover_after_ok ck,
        al_mute_until := ck_mute_until ck, al_check_id := ck_id ck, al_error := opt_trim err_msg,
        al_metrics := zero_metrics\<lparr>m_latency_ms := latency, m_status_code := status_code\<rparr>\<rparr>"

definition notify_generic ::
    "alert_svc \<Rightarrow> alert_env \<Rightarrow> settings option \<Rightarrow> node option \<Rightarrow> service option \<Rightarrow> check option
     \<Rightarrow> string \<Rightarrow> int \<Rightarrow> int \<Rightarrow> string option \<Rightarrow> world \<Rightarrow> world" where
  "notify_generic svc env settings0 n sv ck status latency status_code err_msg w =
     (let org_id = service_org_id sv n;
          (settings, w1) = settings_or_org svc env settings0 org_id w
      in case (settings, ck) of
           (Some s, Some c) \<Rightarrow>
             (let active = (to_lower (trim_space status) \<noteq> ''ok'');
                  a0 = (check_alert env c status latency status_code err_msg)
                         \<lparr>al_org_id := org_id,
                          al_node_id := (case n of None \<Rightarrow> uuid_nil | Some nd \<Rightarrow> n_id nd),
                          al_node_name := (case n of None \<Rightarrow> service_label env sv n
                                           | Some nd \<Rightarrow> node_label env n),
                          al_target := service_target n sv, al_target_type := ''service'',
                          al_panel_url := (case n of None \<Rightarrow> [] | Some nd \<Rightarrow> n_base_url nd),
                          al_ip := (case n of None \<Rightarrow> [] | Some nd \<Rightarrow> n_ssh_host nd)\<rparr>;
                  a = (case sv of
                         None \<Rightarrow> a0
                       | Some sr \<Rightarrow> a0\<lparr>al_service_id := sv_id sr, al_service_kind := trim_space (sv_kind sr)\<rparr>)
              in maybe_send_alert svc env settings active a w1)
         | _ \<Rightarrow> w1)"

definition notify_generic_bot ::
    "alert_svc \<Rightarrow> alert_env \<Rightarrow> settings option \<Rightarrow> node option \<Rightarrow> bot option \<Rightarrow> check option
     \<Rightarrow> bool \<Rightarrow> int \<Rightarrow> int \<Rightarrow> string option \<Rightarrow> world \<Rightarrow> world" where
  "notify_generic_bot svc env settings0 n bt ck ok latency status_code err_msg w =
     (let (settings, w1) = (case n of
             None \<Rightarrow> (settings0, w)
           | Some nd \<Rightarrow> settings_or_org svc env settings0 (n_org_id nd) w)
      in case (settings, n, bt, ck) of
           (Some s, Some nd, Some br, Some c) \<Rightarrow>
             (let status = (if ok then ''ok'' else ''fail'');
                  a = (check_alert env c status latency status_code err_msg)
                        \<lparr>al_org_id := n_org_id nd, al_node_id := n_id nd, al_bot_id := b_id br,
                         al_node_name := node_label env n, al_bot_kind := trim_space (b_kind br),
                         al_target := bot_target bt, al_target_type := ''bot'',
                         al_panel_url := n_base_url nd, al_ip := n_ssh_host nd\<rparr>
              in maybe_send_alert svc env settings (status \<noteq> ''ok'') a w1)
         | _ \<Rightarrow> w1)"

end
