(* ===== verification/Alert_Callbacks.thy ===== *)
theory Alert_Callbacks
  imports Alert_Store
begin

text \<open>
  The other entry points of \<open>internal/services/alerts/service.go\<close>: test messages, the buttons of
  an alert (\<open>HandleCallback\<close> and what it calls), and the policy of the organisation an alert
  belongs to.
\<close>

section \<open>Messages outside of alerts\<close>

record send_result =
  sr_chat_id :: string
  sr_ok :: bool
  sr_error :: string

fun send_each_until :: "alert_env \<Rightarrow> string \<Rightarrow> string \<Rightarrow> string list \<Rightarrow> world \<Rightarrow> goerr option \<times> world" where
  "send_each_until env tok text [] w = (None, w)"
| "send_each_until env tok text (chat # chats) w =
     (case tg_do env (TgSend tok chat text None) w of
        (Inl err, w1) \<Rightarrow> (Some (ErrMsg err), w1)
      | (Inr _, w1) \<Rightarrow> send_each_until env tok text chats w1)"

definition send_test :: "alert_env \<Rightarrow> settings option \<Rightarrow> string \<Rightarrow> world \<Rightarrow> goerr option \<times> world" where
  "send_test env settings msg w =
     (case settings of
        None \<Rightarrow> (Some (ErrMsg ''telegram settings not configured''), w)
      | Some s \<Rightarrow>
          if trim_space (s_bot_token s) = [] \<or> s_admin_chat_ids s = []
          then (Some (ErrMsg ''telegram settings not configured''), w)
          else send_each_until env (s_bot_token s) (escape_html msg) (s_admin_chat_ids s) w)"

fun send_each :: "alert_env \<Rightarrow> string \<Rightarrow> string \<Rightarrow> string list \<Rightarrow> world \<Rightarrow> send_result list \<times> world" where
  "send_each env tok text [] w = ([], w)"
| "send_each env tok text (chat # chats) w =
     (let (r, w1) = tg_do env (TgSend tok chat text None) w;
          res = (case r of
                   Inl err \<Rightarrow> \<lparr>sr_chat_id = chat, sr_ok = False, sr_error = err\<rparr>
                 | Inr _ \<Rightarrow> \<lparr>sr_chat_id = chat, sr_ok = True, sr_error = []\<rparr>);
          (rest, w2) = send_each env tok text chats w1
      in (res # rest, w2))"

definition send_test_detailed ::
    "alert_env \<Rightarrow> settings option \<Rightarrow> string \<Rightarrow> world \<Rightarrow> send_result list \<times> world" where
  "send_test_detailed env settings msg w =
     (case settings of
        None \<Rightarrow> ([], w)
      | Some s \<Rightarrow> send_each env (s_bot_token s) (escape_html msg) (s_admin_chat_ids s) w)"

definition send_message ::
    "alert_svc \<Rightarrow> alert_env \<Rightarrow> string \<Rightarrow> string \<Rightarrow> string \<Rightarrow> world \<Rightarrow> goerr option \<times> world" where
  "send_message svc env tok chat_id text w =
     (if \<not> a_has_client svc then (Some (ErrMsg ''alerts service not configured''), w)
      else let t = trim_space tok; c = trim_space chat_id
           in if t = [] \<or> c = [] then (Some (ErrMsg ''token and chat id required''), w)
              else let msg0 = trim_space text;
                       msg = (if msg0 = [] then ''OK'' else msg0)
                   in case tg_do env (TgSend t c (escape_html msg) None) w of
                        (Inl err, w1) \<Rightarrow> (Some (ErrMsg err), w1)
                      | (Inr _, w1) \<Rightarrow> (None, w1))"

definition answer_callback ::
    "alert_svc \<Rightarrow> alert_env \<Rightarrow> string \<Rightarrow> string \<Rightarrow> string \<Rightarrow> world \<Rightarrow> goerr option \<times> world" where
  "answer_callback svc env tok callback_id text w =
     (if \<not> a_has_client svc then (None, w)
      else case tg_do env (TgAnswer tok callback_id text) w of
             (Inl err, w1) \<Rightarrow> (Some (ErrMsg err), w1)
           | (Inr _, w1) \<Rightarrow> (None, w1))"

section \<open>The organisation of an alert\<close>

text \<open>One lookup of \<open>orgIDForState\<close>: the organisation of the node with an id, if it has one.\<close>

definition node_org :: "alert_env \<Rightarrow> uuid option \<Rightarrow> world \<Rightarrow> uuid option \<times> world" where
  "node_org env u w =
     (case db_first env (case u of None \<Rightarrow> None | Some v \<Rightarrow> row_get n_id v (w_nodes w)) w of
        (Inr nd, w1) \<Rightarrow> (n_org_id nd, w1)
      | (Inl _, w1) \<Rightarrow> (None, w1))"

definition set_id :: "uuid option \<Rightarrow> bool" where
  "set_id u \<longleftrightarrow> (case u of None \<Rightarrow> False | Some v \<Rightarrow> v \<noteq> uuid_nil)"

definition incident_org :: "alert_env \<Rightarrow> uuid option \<Rightarrow> world \<Rightarrow> uuid option \<times> world" where
  "incident_org env u w =
     (if \<not> set_id u then (None, w)
      else case db_first env (row_get in_id (the u) (w_incidents w)) w of
             (Inr inc, v) \<Rightarrow> (in_org_id inc, v) | (Inl _, v) \<Rightarrow> (None, v))"

definition service_org :: "alert_env \<Rightarrow> uuid option \<Rightarrow> world \<Rightarrow> uuid option \<times> world" where
  "service_org env u w =
     (if \<not> set_id u then (None, w)
      else case db_first env (row_get sv_id (the u) (w_services w)) w of
             (Inr sr, v) \<Rightarrow> node_org env (sv_node_id sr) v | (Inl _, v) \<Rightarrow> (None, v))"

definition bot_org :: "alert_env \<Rightarrow> uuid option \<Rightarrow> world \<Rightarrow> uuid option \<times> world" where
  "bot_org env u w =
     (if \<not> set_id u then (None, w)
      else case db_first env (row_get b_id (the u) (w_bots w)) w of
             (Inr br, v) \<Rightarrow> node_org env (Some (b_node_id br)) v | (Inl _, v) \<Rightarrow> (None, v))"

text \<open>The next lookup is made only when the ones before it found nothing.\<close>

definition or_else ::
    "uuid option \<times> world \<Rightarrow> (world \<Rightarrow> uuid option \<times> world) \<Rightarrow> uuid option \<times> world" where
  "or_else r f = (case r of (Some u, w) \<Rightarrow> (Some u, w) | (None, w) \<Rightarrow> f w)"

definition org_id_for_state ::
    "alert_svc \<Rightarrow> alert_env \<Rightarrow> alert_state option \<Rightarrow> world \<Rightarrow> uuid option \<times> world" where
  "org_id_for_state svc env state w =
     (case state of
        None \<Rightarrow> (None, w)
      | Some st \<Rightarrow>
          if \<not> a_has_db svc then (None, w)
          else or_else (or_else (or_else
                 (incident_org env (as_incident_id st) w)
                 (\<lambda>v. if set_id (as_node_id st) then node_org env (as_node_id st) v else (None, v)))
                 (service_org env (as_service_id st)))
                 (bot_org env (as_bot_id st)))"

definition policy_for_state ::
    "alert_svc \<Rightarrow> alert_env \<Rightarrow> alert_state option \<Rightarrow> world \<Rightarrow> (int \<times> int) \<times> world" where
  "policy_for_state svc env state w =
     (if \<not> a_has_db svc \<or> state = None then (normalize_policy_minutes 0 0, w)
      else let (org_id, w1) = org_id_for_state svc env state w
           in if \<not> set_id org_id then (normalize_policy_minutes 0 0, w1)
              else case db_first env (newest (filter (\<lambda>r. tr_org_id r = org_id) (w_settings w1))) w1 of
                     (Inl _, w2) \<Rightarrow> (normalize_policy_minutes 0 0, w2)
                   | (Inr row, w2) \<Rightarrow>
                       (normalize_policy_minutes (tr_ack_mute_minutes row) (tr_mute_minutes row), w2))"

definition policy_for_alert_id ::
    "alert_svc \<Rightarrow> alert_env \<Rightarrow> string \<Rightarrow> world \<Rightarrow> (int \<times> int) \<times> world" where
  "policy_for_alert_id svc env alert_id w =
     (let (state, w1) = load_state_by_alert_id svc env alert_id w
      in policy_for_state svc env state w1)"

section \<open>Buttons\<close>

definition mute_fingerprint ::
    "alert_svc \<Rightarrow> alert_env \<Rightarrow> string \<Rightarrow> duration \<Rightarrow> world \<Rightarrow> goerr option \<times> world" where
  "mute_fingerprint svc env fp dur w =
     (if trim_space fp = [] then (Some (ErrMsg ''fingerprint required''), w)
      else (None, set_mute svc env fp dur w))"

definition mute_by_alert_id ::
    "alert_svc \<Rightarrow> alert_env \<Rightarrow> string \<Rightarrow> duration \<Rightarrow> world \<Rightarrow> goerr option \<times> world" where
  "mute_by_alert_id svc env alert_id dur w =
     (if trim_space alert_id = [] then (Some (ErrMsg ''alert_id required''), w)
      else case load_state_by_alert_id svc env alert_id w of
             (None, w1) \<Rightarrow> (Some (ErrMsg ''alert not found''), w1)
           | (Some st, w1) \<Rightarrow> (None, set_mute svc env (as_fingerprint st) dur w1))"

definition ack_by_alert_id :: "alert_svc \<Rightarrow> alert_env \<Rightarrow> string \<Rightarrow> world \<Rightarrow> goerr option \<times> world" where
  "ack_by_alert_id svc env alert_id w =
     (if \<not> a_has_db svc then (Some (ErrMsg ''alerts not configured''), w)
      else case load_state_by_alert_id svc env alert_id w of
        (None, w1) \<Rightarrow> (Some (ErrMsg ''alert not found''), w1)
      | (Some st, w1) \<Rightarrow>
          let ((ack_mute_minutes, _), w2) = policy_for_state svc env (Some st) w1;
              now = e_now env
          in case db_exec env (\<lambda>v. Inr (upd_state_rows (as_fingerprint st)
                    (\<lambda>r. r\<lparr>as_muted_until := Some (now + dur_mul ack_mute_minutes minute),
                          as_updated_at := now, as_last_seen := now\<rparr>) v)) w2 of
               (Some err, w3) \<Rightarrow> (Some err, w3)
             | (None, w3) \<Rightarrow>
                 (case as_incident_id st of
                    None \<Rightarrow> (None, w3)
                  | Some u \<Rightarrow>
                      (None, snd (db_exec env (\<lambda>v. Inr (upd_incident_rows u
                         (\<lambda>r. r\<lparr>in_status := ''acked'', in_acknowledged_at := Some now,
                               in_acknowledged_by := Some ''telegram'', in_updated_at := now\<rparr>) v)) w3))))"

definition open_url_for_alert :: "alert_svc \<Rightarrow> alert_env \<Rightarrow> string \<Rightarrow> world \<Rightarrow> string \<times> world" where
  "open_url_for_alert svc env alert_id w =
     (if \<not> a_has_db svc \<or> trim_space (a_public_base_url svc) = [] then ([], w)
      else let base = trim_right_cut ''/'' (a_public_base_url svc)
           in case load_state_by_alert_id svc env alert_id w of
                (None, w1) \<Rightarrow> (base, w1)
              | (Some st, w1) \<Rightarrow>
                  (case as_node_id st of
                     None \<Rightarrow> (base, w1)
                   | Some u \<Rightarrow> if u = uuid_nil then (base, w1)
                               else (base @ ''/nodes?node='' @ e_str env u, w1)))"

definition handle_callback ::
    "alert_svc \<Rightarrow> alert_env \<Rightarrow> string \<Rightarrow> world \<Rightarrow> (string \<times> goerr option) \<times> world" where
  "handle_callback svc env data w =
     (let (action, alert_id, minutes0) = parse_callback_data data
      in if action = ''mute'' then
           let (minutes, w1) =
                 (if minutes0 \<le> 0
                  then (let ((_, policy_mute), v) = policy_for_alert_id svc env alert_id w in (policy_mute, v))
                  else (minutes0, w));
               done_text = ''Muted for '' @ itoa minutes @ ''m''
           in case mute_by_alert_id svc env alert_id (dur_mul minutes minute) w1 of
                (Some err, w2) \<Rightarrow>
                  if trim_space alert_id \<noteq> []
                  then ((done_text, None), set_mute svc env alert_id (dur_mul minutes minute) w2)
                  else ((''Mute failed'', Some err), w2)
              | (None, w2) \<Rightarrow> ((done_text, None), w2)
         else if action = ''ack'' then
           case ack_by_alert_id svc env alert_id w of
             (Some err, w1) \<Rightarrow> ((''Ack failed'', Some err), w1)
           | (None, w1) \<Rightarrow> ((''Acknowledged'', None), w1)
         else if action = ''open'' then
           let (url, w1) = open_url_for_alert svc env alert_id w
           in if url \<noteq> [] then ((''Open: '' @ url, None), w1) else ((''Open in UI'', None), w1)
         else if action = ''retry'' then ((''Retry queued'', None), w)
         else ((''OK'', None), w))"

section \<open>Panel error codes\<close>

definition panel_tls_codes :: "string list" where
  "panel_tls_codes = [''CERT_EXPIRED'', ''CERT_NOT_YET_VALID'', ''UNKNOWN_CA'', ''HOSTNAME_MISMATCH'', ''HANDSHAKE'']"

definition panel_target_type :: "string option \<Rightarrow> string" where
  "panel_target_type code =
     (case code of
        None \<Rightarrow> ''panel''
      | Some c \<Rightarrow> if trim_space c \<in> set panel_tls_codes then ''tls''
                  else if trim_space c = ''GENERIC_HTTP_ERROR'' then ''http'' else ''panel'')"

definition tls_code_from_panel_code :: "string option \<Rightarrow> string" where
  "tls_code_from_panel_code code =
     (case code of
        None \<Rightarrow> []
      | Some c \<Rightarrow> if trim_space c \<in> set panel_tls_codes then trim_space c else [])"

end
