(* ===== verification/Alert_Frames.thy ===== *)
theory Alert_Frames
  imports Alert_Engine Alert_Callbacks
begin

text \<open>
  What each operation of the service leaves alone, with any database failures: the collection
  \<open>frame\<close>. The lemmas of the collection \<open>healthy\<close> say what an operation does when its SQL
  statements succeed.
\<close>

named_theorems frame
named_theorems healthy

lemma db_tick_sel [simp]:
  "w_states (db_tick w) = w_states w" "w_incidents (db_tick w) = w_incidents w"
  "w_settings (db_tick w) = w_settings w" "w_nodes (db_tick w) = w_nodes w"
  "w_services (db_tick w) = w_services w" "w_bots (db_tick w) = w_bots w"
  "w_muted (db_tick w) = w_muted w" "w_outbox (db_tick w) = w_outbox w" "w_uid (db_tick w) = w_uid w"
  by (simp_all add: db_tick_def)

lemma db_first_snd [simp]: "snd (db_first env r w) = db_tick w"
  by (simp add: db_first_def)

lemma db_firstD: "db_first env r w = (x, w') \<Longrightarrow> w' = db_tick w \<and> (\<forall>v. x = Inr v \<longrightarrow> r = Some v)"
  by (auto simp: db_first_def split: if_splits option.splits)

lemma db_first_healthy [healthy]:
  "\<not> e_db_fail env (w_dbn w) \<Longrightarrow>
   db_first env r w = (case r of None \<Rightarrow> Inl ErrNotFound | Some v \<Rightarrow> Inr v, db_tick w)"
  by (simp add: db_first_def)

lemma db_exec_healthy [healthy]:
  "\<not> e_db_fail env (w_dbn w) \<Longrightarrow>
   db_exec env f w = (case f (db_tick w) of Inl err \<Rightarrow> (Some err, db_tick w) | Inr w' \<Rightarrow> (None, w'))"
  by (simp add: db_exec_def)

text \<open>A field that a write keeps is kept by the statement, whether it succeeds or not.\<close>

lemma db_exec_keeps:
  assumes "\<And>v v'. f v = Inr v' \<Longrightarrow> g v' = g v" and "g (db_tick w) = g w"
  shows "g (snd (db_exec env f w)) = g w"
  using assms by (auto simp: db_exec_def split: sum.splits)

lemma upd_state_rows_sel [simp]:
  "w_incidents (upd_state_rows fp f w) = w_incidents w" "w_settings (upd_state_rows fp f w) = w_settings w"
  "w_nodes (upd_state_rows fp f w) = w_nodes w" "w_services (upd_state_rows fp f w) = w_services w"
  "w_bots (upd_state_rows fp f w) = w_bots w" "w_muted (upd_state_rows fp f w) = w_muted w"
  "w_outbox (upd_state_rows fp f w) = w_outbox w" "w_uid (upd_state_rows fp f w) = w_uid w"
  "w_states (upd_state_rows fp f w) = row_upd as_fingerprint fp f (w_states w)"
  by (simp_all add: upd_state_rows_def)

lemma upd_incident_rows_sel [simp]:
  "w_states (upd_incident_rows u f w) = w_states w" "w_settings (upd_incident_rows u f w) = w_settings w"
  "w_nodes (upd_incident_rows u f w) = w_nodes w" "w_services (upd_incident_rows u f w) = w_services w"
  "w_bots (upd_incident_rows u f w) = w_bots w" "w_muted (upd_incident_rows u f w) = w_muted w"
  "w_outbox (upd_incident_rows u f w) = w_outbox w" "w_uid (upd_incident_rows u f w) = w_uid w"
  "w_incidents (upd_incident_rows u f w) = row_upd in_id u f (w_incidents w)"
  by (simp_all add: upd_incident_rows_def)

lemma put_state_rowD:
  "put_state_row r w = Inr w' \<Longrightarrow>
   \<exists>rows. row_put as_fingerprint r (w_states w) = Some rows \<and> w' = w\<lparr>w_states := rows\<rparr> \<and>
     (as_alert_id r = None \<or> as_alert_id r \<notin> as_alert_id ` set (w_states w))"
  by (auto simp: put_state_row_def split: if_splits option.splits)

lemma put_incident_rowD:
  "put_incident_row r w = Inr w' \<Longrightarrow>
   \<exists>rows. row_put in_fingerprint r (w_incidents w) = Some rows \<and> w' = w\<lparr>w_incidents := rows\<rparr> \<and>
     in_id r \<notin> in_id ` set (w_incidents w)"
  by (auto simp: put_incident_row_def split: if_splits option.splits)

section \<open>Loading\<close>

lemma load_state_snd [frame]:
  "snd (load_state svc env fp w) = (if a_has_db svc then db_tick w else w)"
  by (auto simp: load_state_def db_first_def split: option.splits)

lemma load_state_Some:
  "load_state svc env fp w = (Some st, w') \<Longrightarrow> row_get as_fingerprint fp (w_states w) = Some st"
  by (auto simp: load_state_def split: if_splits sum.splits prod.splits dest!: db_firstD)

lemma load_by_alert_id_Some:
  "load_state_by_alert_id svc env aid w = (Some st, w') \<Longrightarrow>
   \<exists>u. e_parse env aid = Some u \<and> row_get as_alert_id (Some u) (w_states w) = Some st \<and> w' = db_tick w"
  by (auto simp: load_state_by_alert_id_def split: if_splits sum.splits prod.splits option.splits
      dest!: db_firstD)

lemma load_by_alert_id_snd [frame]:
  "snd (load_state_by_alert_id svc env aid w) = w \<or> snd (load_state_by_alert_id svc env aid w) = db_tick w"
  by (auto simp: load_state_by_alert_id_def db_first_def split: option.splits)

text \<open>The worlds that differ only in the statement and identifier counters.\<close>

definition same_data :: "world \<Rightarrow> world \<Rightarrow> bool" where
  "same_data w v \<longleftrightarrow>
     w_states v = w_states w \<and> w_incidents v = w_incidents w \<and> w_muted v = w_muted w \<and>
     w_outbox v = w_outbox w \<and> w_settings v = w_settings w \<and> w_nodes v = w_nodes w \<and>
     w_services v = w_services w \<and> w_bots v = w_bots w"

lemma same_data_refl [simp]: "same_data w w"
  by (simp add: same_data_def)

lemma same_data_tick [simp]: "same_data w (db_tick w)"
  by (simp add: same_data_def)

lemma same_data_trans: "same_data w v \<Longrightarrow> same_data v u \<Longrightarrow> same_data w u"
  by (simp add: same_data_def)

lemma db_first_same: "db_first env r w = (x, v) \<Longrightarrow> same_data w v"
  by (auto dest: db_firstD)

lemma node_org_same: "same_data w (snd (node_org env u w))"
  by (auto simp: node_org_def db_first_def split: option.splits)

lemma incident_org_same: "same_data w (snd (incident_org env u w))"
  by (auto simp: incident_org_def split: prod.splits sum.splits dest: db_first_same)

lemma service_org_same: "same_data w (snd (service_org env u w))"
  by (auto simp: service_org_def split: prod.splits sum.splits
      dest!: db_first_same intro: same_data_trans node_org_same)

lemma bot_org_same: "same_data w (snd (bot_org env u w))"
  by (auto simp: bot_org_def split: prod.splits sum.splits
      dest!: db_first_same intro: same_data_trans node_org_same)

lemma or_else_same:
  "same_data w (snd r) \<Longrightarrow> (\<And>v. same_data v (snd (f v))) \<Longrightarrow> same_data w (snd (or_else r f))"
  by (auto simp: or_else_def split: prod.splits option.splits intro: same_data_trans)

lemma org_id_same: "same_data w (snd (org_id_for_state svc env st w))"
  by (auto simp: org_id_for_state_def split: option.splits
      intro!: or_else_same incident_org_same service_org_same bot_org_same node_org_same)

lemma policy_same: "same_data w (snd (policy_for_state svc env st w))"
proof -
  have org: "org_id_for_state svc env s v = (x, v') \<Longrightarrow> same_data v v'" for s v x v'
    using org_id_same by (metis snd_conv)
  show ?thesis
    unfolding policy_for_state_def Let_def
    by (auto split: option.splits prod.splits sum.splits if_splits
        dest!: db_first_same org intro: same_data_trans)
qed

lemma policy_for_alert_id_same: "same_data w (snd (policy_for_alert_id svc env aid w))"
proof -
  have "same_data w (snd (load_state_by_alert_id svc env aid w))"
    using load_by_alert_id_snd [of svc env aid w] by auto
  then show ?thesis
    by (auto simp: policy_for_alert_id_def split: prod.splits intro: same_data_trans policy_same)
qed

section \<open>Saving\<close>

lemma put_state_row_frame:
  "put_state_row r w = Inr w' \<Longrightarrow> w_incidents w' = w_incidents w \<and> w_muted w' = w_muted w \<and>
     w_outbox w' = w_outbox w \<and> w_settings w' = w_settings w \<and> w_uid w' = w_uid w"
  by (auto dest: put_state_rowD)

lemma put_incident_row_frame:
  "put_incident_row r w = Inr w' \<Longrightarrow> w_states w' = w_states w \<and> w_muted w' = w_muted w \<and>
     w_outbox w' = w_outbox w \<and> w_settings w' = w_settings w \<and> w_uid w' = w_uid w"
  by (auto dest: put_incident_rowD)

lemma uuid_new_sel [simp]:
  "w_states (snd (uuid_new env w)) = w_states w" "w_incidents (snd (uuid_new env w)) = w_incidents w"
  "w_muted (snd (uuid_new env w)) = w_muted w" "w_outbox (snd (uuid_new env w)) = w_outbox w"
  "w_settings (snd (uuid_new env w)) = w_settings w" "w_dbn (snd (uuid_new env w)) = w_dbn w"
  "w_uid (snd (uuid_new env w)) = Suc (w_uid w)" "fst (uuid_new env w) = e_uuid env (w_uid w)"
  by (simp_all add: uuid_new_def)

lemma update_state_frame [frame]:
  fixes svc env a st status notified ids k inc w
  defines "v \<equiv> update_state svc env a st status notified ids k inc w"
  shows "w_incidents v = w_incidents w" and "w_muted v = w_muted w" and "w_outbox v = w_outbox w"
    and "w_settings v = w_settings w"
  unfolding v_def update_state_def
  by (auto simp: Let_def db_exec_def uuid_new_def split: option.splits sum.splits prod.splits if_splits
      dest!: put_state_row_frame)

lemma sync_incident_frame [frame]:
  fixes svc env a status prev w
  defines "v \<equiv> snd (sync_incident svc env a status prev w)"
  shows "w_states v = w_states w" and "w_muted v = w_muted w" and "w_outbox v = w_outbox w"
    and "w_settings v = w_settings w"
  unfolding v_def sync_incident_def
  by (auto simp: Let_def db_exec_def uuid_new_def db_first_def
      split: option.splits sum.splits prod.splits if_splits goerr.splits dest!: put_incident_row_frame)

lemma is_muted_frame [frame]:
  fixes svc env fp w
  defines "v \<equiv> snd (is_muted svc env fp w)"
  shows "w_states v = w_states w" and "w_incidents v = w_incidents w" and "w_outbox v = w_outbox w"
    and "w_uid v = w_uid w"
  unfolding v_def is_muted_def muted_in_db_def
  by (auto split: option.splits sum.splits prod.splits if_splits dest!: db_firstD)

lemma set_mute_frame [frame]:
  fixes svc env fp d w
  defines "v \<equiv> set_mute svc env fp d w"
  shows "w_incidents v = w_incidents w" and "w_outbox v = w_outbox w" and "w_settings v = w_settings w"
    and "w_uid v = w_uid w"
  unfolding v_def set_mute_def
  by (auto simp: Let_def db_exec_def)

lemma ensure_alert_id_frame [frame]:
  fixes svc env st w
  defines "v \<equiv> snd (ensure_alert_id svc env st w)"
  shows "w_incidents v = w_incidents w" and "w_muted v = w_muted w" and "w_outbox v = w_outbox w"
    and "w_settings v = w_settings w"
  unfolding v_def ensure_alert_id_def
  by (auto simp: Let_def db_exec_def uuid_new_def split: option.splits)

section \<open>Telegram\<close>

lemma tg_do_world: "tg_do env c w = (r, w') \<Longrightarrow> w' = w\<lparr>w_outbox := w_outbox w @ [c]\<rparr>"
  by (simp add: tg_do_def)

lemma send_all_world:
  "snd (send_all env tok text kb chats ids w) =
   w\<lparr>w_outbox := w_outbox w @ map (\<lambda>c. TgSend tok c text kb) chats\<rparr>"
  by (induction chats arbitrary: ids w) (auto split: prod.splits sum.splits dest!: tg_do_world)

lemma send_recovery_world [frame]:
  "send_recovery svc env s a w =
   w\<lparr>w_outbox := w_outbox w @
      map (\<lambda>c. TgSend (s_bot_token s) c (fst (render_recovery env a (a_public_base_url svc)))
                 (snd (render_recovery env a (a_public_base_url svc)))) (s_admin_chat_ids s)\<rparr>"
  by (simp add: send_recovery_def send_all_world split: prod.splits)

lemma send_all_distinct: "distinct (map fst ids) \<Longrightarrow>
  distinct (map fst (fst (send_all env tok text kb chats ids w)))"
  by (induction chats arbitrary: ids w) (auto simp: distinct_update split: prod.splits sum.splits)

text \<open>
  The ids that the answers to a list of calls give, when the first of them is call number \<open>n\<close>.
\<close>

fun replies :: "alert_env \<Rightarrow> nat \<Rightarrow> tg_call list \<Rightarrow> msg_ids \<Rightarrow> msg_ids" where
  "replies env n [] ids = ids"
| "replies env n (c # cs) ids =
     replies env (Suc n) cs
       (case e_tg env n c of
          Inl _ \<Rightarrow> ids
        | Inr msg \<Rightarrow>
            (case c of
               TgSend tok chat text kb \<Rightarrow> AList.update chat msg ids
             | TgEdit tok chat m text kb \<Rightarrow> AList.update chat m ids
             | TgAnswer tok q text \<Rightarrow> ids))"

lemma replies_append:
  "replies env n (cs @ ds) ids = replies env (n + length cs) ds (replies env n cs ids)"
  by (induction cs arbitrary: n ids) auto

lemma replies_distinct: "distinct (map fst ids) \<Longrightarrow> distinct (map fst (replies env n cs ids))"
  by (induction cs arbitrary: n ids) (auto simp: distinct_update split: sum.splits tg_call.splits)

lemma send_all_replies:
  "fst (send_all env tok text kb chats ids w) =
   replies env (length (w_outbox w)) (map (\<lambda>c. TgSend tok c text kb) chats) ids"
  by (induction chats arbitrary: ids w) (auto simp: tg_do_def split: prod.splits sum.splits)

text \<open>Chat and text of a message call.\<close>

fun call_chat :: "tg_call \<Rightarrow> string" where
  "call_chat (TgSend tok chat text kb) = chat"
| "call_chat (TgEdit tok chat m text kb) = chat"
| "call_chat (TgAnswer tok q text) = []"

fun call_text :: "tg_call \<Rightarrow> string" where
  "call_text (TgSend tok chat text kb) = text"
| "call_text (TgEdit tok chat m text kb) = text"
| "call_text (TgAnswer tok q text) = text"

text \<open>One chat costs an edit, a new message or both, all with the text of this alert.\<close>

definition round_calls :: "string \<Rightarrow> keyboard option \<Rightarrow> string \<Rightarrow> string list \<Rightarrow> tg_call list \<Rightarrow> bool" where
  "round_calls text kb tok chats cs \<longleftrightarrow>
     length chats \<le> length cs \<and> length cs \<le> 2 * length chats \<and>
     (\<forall>c \<in> set cs. call_chat c \<in> set chats \<and>
        (c = TgSend tok (call_chat c) text kb \<or> (\<exists>m > 0. c = TgEdit tok (call_chat c) m text kb)))"

lemma outbox_exI:
  "P cs \<Longrightarrow> \<exists>ds. w\<lparr>w_outbox := w_outbox w @ cs\<rparr> = w\<lparr>w_outbox := w_outbox w @ ds\<rparr> \<and> P ds"
  by blast

lemma edit_all_world:
  "\<exists>cs. snd (edit_all env tok text kb old chats ids w) = w\<lparr>w_outbox := w_outbox w @ cs\<rparr> \<and>
        round_calls text kb tok chats cs \<and>
        fst (edit_all env tok text kb old chats ids w) = replies env (length (w_outbox w)) cs ids"
proof (induction chats arbitrary: ids w)
  case Nil
  then show ?case by (simp add: round_calls_def)
next
  case (Cons chat chats)
  let ?step = "edit_all env tok text kb old [chat] ids w"
  obtain ids' w' where st: "?step = (ids', w')" by (cases ?step)
  have split: "edit_all env tok text kb old (chat # chats) ids w = edit_all env tok text kb old chats ids' w'"
    using st by (simp add: Let_def split: prod.splits)
  have one: "\<exists>cs. w' = w\<lparr>w_outbox := w_outbox w @ cs\<rparr> \<and> 1 \<le> length cs \<and> length cs \<le> 2 \<and>
     ids' = replies env (length (w_outbox w)) cs ids \<and> (\<forall>c \<in> set cs. call_chat c = chat \<and>
        (c = TgSend tok chat text kb \<or> (\<exists>m > 0. c = TgEdit tok chat m text kb)))"
    using st
    by (auto simp: Let_def tg_do_def split: option.splits if_splits sum.splits prod.splits)
       (rule outbox_exI, simp)+
  then obtain cs where cs: "w' = w\<lparr>w_outbox := w_outbox w @ cs\<rparr>" "1 \<le> length cs \<and> length cs \<le> 2"
    and r: "ids' = replies env (length (w_outbox w)) cs ids" and sh: "\<forall>c \<in> set cs. call_chat c = chat \<and>
        (c = TgSend tok chat text kb \<or> (\<exists>m > 0. c = TgEdit tok chat m text kb))" by blast
  obtain ds where ds: "snd (edit_all env tok text kb old chats ids' w') = w'\<lparr>w_outbox := w_outbox w' @ ds\<rparr>"
    "round_calls text kb tok chats ds"
    "fst (edit_all env tok text kb old chats ids' w') = replies env (length (w_outbox w')) ds ids'"
    using Cons.IH by blast
  have "round_calls text kb tok (chat # chats) (cs @ ds)"
    using cs(2) sh ds(2) by (fastforce simp: round_calls_def)
  moreover have "snd (edit_all env tok text kb old (chat # chats) ids w) =
      w\<lparr>w_outbox := w_outbox w @ (cs @ ds)\<rparr>"
    unfolding split using ds(1) cs(1) by simp
  moreover have "fst (edit_all env tok text kb old (chat # chats) ids w) =
      replies env (length (w_outbox w)) (cs @ ds) ids"
    unfolding split using ds(3) cs(1) r by (simp add: replies_append)
  ultimately show ?case by blast
qed

text \<open>
  What a delivery of an alert does: a message per chat when the alert has no thread yet, else the
  edits and the messages that replace failed edits.
\<close>

lemma send_alert_world:
  fixes svc env s a st w
  defines "text \<equiv> fst (render_alert env a (a_public_base_url svc))"
    and "kb \<equiv> snd (render_alert env a (a_public_base_url svc))"
  shows "\<exists>cs. snd (send_alert svc env s a st w) = w\<lparr>w_outbox := w_outbox w @ cs\<rparr> \<and>
     round_calls text kb (s_bot_token s) (s_admin_chat_ids s) cs \<and>
     (message_ids_of st = [] \<longrightarrow> cs = map (\<lambda>c. TgSend (s_bot_token s) c text kb) (s_admin_chat_ids s)) \<and>
     fst (send_alert svc env s a st w) = replies env (length (w_outbox w)) cs []"
proof (cases "message_ids_of st = []")
  case True
  then show ?thesis
    unfolding text_def kb_def
    by (simp add: send_alert_def send_all_world send_all_replies split: prod.splits)
       (intro allI impI outbox_exI, auto simp: round_calls_def)
next
  case False
  then show ?thesis
    unfolding text_def kb_def
    using edit_all_world by (simp add: send_alert_def Let_def split: prod.splits)
qed

end
