(* ===== verification/Alert_Identity.thy ===== *)
theory Alert_Identity
  imports Alert_Render
begin

text \<open>
  Telegram refuses a message whose HTML it cannot parse, and then the alert is lost.
  \<open>html_step\<close> is a scanner for the subset the service uses (the tags \<open>b\<close>, \<open>code\<close>, \<open>pre\<close>,
  not nested, and the entities \<open>amp\<close>, \<open>lt\<close>, \<open>gt\<close>); \<open>html_ok\<close> says a text is accepted. The
  lemmas of the collection \<open>html\<close> show it for every line of a message, so that it holds of
  the whole message with any names, targets and errors in it.
\<close>

named_theorems html

datatype html =
    HText "string option"
  | HTag "string option" string
  | HEnt "string option" string
  | HBad

fun html_step :: "html \<Rightarrow> char \<Rightarrow> html" where
  "html_step (HText t) c =
     (if c = CHR ''<'' then HTag t []
      else if c = CHR ''&'' then HEnt t []
      else if c = CHR ''>'' then HBad
      else HText t)"
| "html_step (HTag t n) c =
     (if c = CHR ''>'' then
        (case t of
           None \<Rightarrow> if n = ''b'' \<or> n = ''code'' \<or> n = ''pre'' then HText (Some n) else HBad
         | Some m \<Rightarrow> if n = ''/'' @ m then HText None else HBad)
      else HTag t (n @ [c]))"
| "html_step (HEnt t n) c =
     (if c = CHR '';'' then (if n = ''amp'' \<or> n = ''lt'' \<or> n = ''gt'' then HText t else HBad)
      else HEnt t (n @ [c]))"
| "html_step HBad c = HBad"

definition html_run :: "html \<Rightarrow> string \<Rightarrow> html" where
  "html_run h s = foldl html_step h s"

definition html_ok :: "string \<Rightarrow> bool" where
  "html_ok s \<longleftrightarrow> html_run (HText None) s = HText None"

text \<open>A piece of text that may stand inside a tag or outside.\<close>

definition inert :: "string \<Rightarrow> bool" where
  "inert s \<longleftrightarrow> (\<forall>t. html_run (HText t) s = HText t)"

lemma html_run_simps [simp]:
  "html_run h [] = h" "html_run h (c # s) = html_run (html_step h c) s"
  by (simp_all add: html_run_def)

lemma html_run_append [simp]: "html_run h (a @ b) = html_run (html_run h a) b"
  by (simp add: html_run_def)

lemma inert_ok [html]: "inert s \<Longrightarrow> html_ok s"
  by (simp add: inert_def html_ok_def)

lemma inert_append [html]: "inert a \<Longrightarrow> inert b \<Longrightarrow> inert (a @ b)"
  by (simp add: inert_def)

lemma ok_append [html]: "html_ok a \<Longrightarrow> html_ok b \<Longrightarrow> html_ok (a @ b)"
  by (simp add: html_ok_def)

lemma inert_Nil [html]: "inert []"
  by (simp add: inert_def)

definition plain_text :: "string \<Rightarrow> bool" where
  "plain_text s \<longleftrightarrow> list_all (\<lambda>c. c \<noteq> CHR ''<'' \<and> c \<noteq> CHR ''>'' \<and> c \<noteq> CHR ''&'') s"

lemma plain_Nil [simp]: "plain_text []"
  by (simp add: plain_text_def)

lemma plain_Cons [simp]:
  "plain_text (c # s) \<longleftrightarrow> c \<noteq> CHR ''<'' \<and> c \<noteq> CHR ''>'' \<and> c \<noteq> CHR ''&'' \<and> plain_text s"
  by (simp add: plain_text_def)

lemma plain_append [simp]: "plain_text (a @ b) \<longleftrightarrow> plain_text a \<and> plain_text b"
  by (simp add: plain_text_def)

lemma plain_take_drop: "plain_text s \<Longrightarrow> plain_text (take k s) \<and> plain_text (drop k s)"
  by (auto simp: plain_text_def list_all_iff dest: in_set_takeD in_set_dropD)

lemma plain_inert [html]: "plain_text s \<Longrightarrow> inert s"
  by (induction s) (auto simp: inert_def)

lemma plain_subset: "set s \<subseteq> set t \<Longrightarrow> plain_text t \<Longrightarrow> plain_text s"
  by (auto simp: plain_text_def list_all_iff)

lemma tagged_ok [html]:
  assumes "inert s"
  shows "html_ok (''<b>'' @ s @ ''</b>'')" and "html_ok (''<code>'' @ s @ ''</code>'')"
    and "html_ok (''<pre>'' @ s @ ''</pre>'')"
  using assms by (simp_all add: html_ok_def inert_def)

lemma ok_join: "inert sep \<Longrightarrow> \<forall>l \<in> set ls. html_ok l \<Longrightarrow> html_ok (join sep ls)"
  by (induction sep ls rule: join.induct) (auto intro: ok_append inert_ok inert_Nil)

section \<open>Escaping\<close>

definition escape_char :: "char \<Rightarrow> string" where
  "escape_char c =
     (if c = CHR ''&'' then ''&amp;'' else if c = CHR ''<'' then ''&lt;''
      else if c = CHR ''>'' then ''&gt;'' else [c])"

lemma escape_html_eq: "escape_html s = concat (map escape_char s)"
  unfolding escape_html_def
  by (induction s) (auto simp: escape_char_def)

text \<open>What a reader of the message sees again: the entities replaced by their characters.\<close>

definition unescape_html :: "string \<Rightarrow> string" where
  "unescape_html s = replacer [(''&amp;'', ''&''), (''&lt;'', ''<''), (''&gt;'', ''>'')] s"

lemma unescape_escape: "unescape_html (escape_html s) = s"
proof (induction s)
  case (Cons c s)
  have "unescape_html (escape_char c @ t) = c # unescape_html t" for t
    by (simp add: unescape_html_def escape_char_def)
  with Cons show ?case by (simp add: escape_html_eq)
qed (simp add: escape_html_def unescape_html_def)

lemma escape_inert [html]: "inert (escape_html s)"
  unfolding escape_html_eq inert_def
proof
  show "html_run (HText t) (concat (map escape_char s)) = HText t" for t
    by (induction s) (auto simp: escape_char_def)
qed

section \<open>The pieces of a message\<close>

lemma plain_nat_text: "plain_text (nat_text n)"
  by (rule plain_subset [OF set_nat_text]) simp

lemma plain_itoa [simp, html]: "plain_text (itoa n)"
  using plain_nat_text by (simp add: itoa_def)

lemma plain_pad: "plain_text s \<Longrightarrow> plain_text (pad_zeros n s)"
proof -
  have "plain_text (replicate k (CHR ''0''))" for k by (induction k) simp_all
  then show "plain_text s \<Longrightarrow> plain_text (pad_zeros n s)" by (simp add: pad_zeros_def)
qed

lemma plain_fmt [simp, html]: "plain_text (fmt_fixed p a)"
proof (cases a)
  case (Fin x)
  then show ?thesis
    by (simp add: fmt_fixed_def Let_def plain_pad plain_nat_text plain_take_drop)
qed (simp_all add: fmt_fixed_def)

lemma plain_time [simp, html]: "plain_text (format_time env t)"
  by (simp add: format_time_def date_time_text_def pad_int_def plain_pad)

lemma badge_inert [html]: "inert (status_badge b)"
  by (rule plain_inert) (simp add: status_badge_def emo_check_def emo_cross_def)

lemma severity_inert [html]: "inert (severity_label v)"
  by (rule plain_inert) (cases v; simp)

lemma recommendation_ok [html]: "html_ok (recommendation_line a)"
  by (rule inert_ok, rule plain_inert) (cases "al_type a"; simp add: recommendation_line_def)

section \<open>Whole messages\<close>

lemma escape_run [simp]: "html_run (HText t) (escape_html s) = HText t"
  using escape_inert by (simp add: inert_def)

lemma plain_run [simp]: "plain_text s \<Longrightarrow> html_run (HText t) s = HText t"
  using plain_inert by (simp add: inert_def)

lemma inert_run: "inert s \<Longrightarrow> html_run (HText t) s = HText t"
  by (simp add: inert_def)

lemmas piece_runs = inert_run [OF badge_inert] inert_run [OF severity_inert]

lemma title_ok [html]: "html_ok (render_title a)"
  by (cases "al_type a") (simp_all add: render_title_def html_ok_def Let_def)

lemma recovery_title_ok [html]: "html_ok (render_recovery_title a)"
  by (simp add: render_recovery_title_def html_ok_def Let_def)

lemma recovery_primary_ok [html]: "html_ok (render_recovery_primary env a)"
  by (simp add: render_recovery_primary_def html_ok_def Let_def)

lemma primary_ok [html]: "html_ok (render_primary env a)"
  by (cases "al_type a") (simp_all add: render_primary_def html_ok_def Let_def piece_runs)

lemma reason_ok [html]: "html_ok (render_reason a)"
  by (simp add: render_reason_def html_ok_def)

lemma severity_line_ok: "html_ok (''Severity: <b>'' @ severity_label v @ ''</b>'')"
  by (simp add: html_ok_def piece_runs)

lemma meta_ok [html]: "l \<in> set (render_meta a) \<Longrightarrow> html_ok l"
  using recommendation_ok [of a] severity_line_ok [of "al_severity a"]
  by (auto simp: render_meta_def html_ok_def split: if_splits)

lemma nl_inert: "inert nl"
  by (simp add: inert_def nl_def)

lemma alert_text_ok: "html_ok (fst (render_alert env a url))"
proof -
  have "html_ok (''Occurrences: '' @ itoa n)" for n
    by (rule inert_ok, rule plain_inert) simp
  moreover have "html_ok (''<pre>'' @ escape_html e @ ''</pre>'')" for e
    by (simp add: html_ok_def)
  ultimately show ?thesis
    unfolding render_alert_def Let_def fst_conv
    by (intro ok_join nl_inert) (auto simp: title_ok primary_ok reason_ok meta_ok)
qed

lemma recovery_text_ok: "html_ok (fst (render_recovery env a url))"
  unfolding render_recovery_def Let_def fst_conv
  by (intro ok_join nl_inert) (auto simp: recovery_title_ok recovery_primary_ok meta_ok)

section \<open>Bounds of the error texts\<close>

lemma truncate_error_bound: "length (truncate_error e) \<le> max_error_len + 15"
  by (simp add: truncate_error_def Let_def)

lemma short_reason_bound: "length (short_reason e) \<le> 123"
  by (simp add: short_reason_def Let_def)

section \<open>Buttons\<close>

lemma keyboard_callbacks:
  assumes "build_keyboard env a url = Some k" and "row \<in> set k" and "b \<in> set row"
    and "ib_callback_data b \<noteq> []"
  shows "trim_space (al_alert_id a) \<noteq> [] \<and>
    ib_callback_data b \<in> {''a:'' @ trim_space (al_alert_id a), ''mute:'' @ trim_space (al_alert_id a),
      ''r:'' @ trim_space (al_alert_id a)}"
  using assms by (auto simp: build_keyboard_def Let_def split: if_splits)

lemma callback_literal:
  assumes "p \<in> {''a:'', ''mute:'', ''r:''}" and "aid \<noteq> []" and "hd aid \<in> set plain_chars"
    and "last aid \<in> set plain_chars"
  shows "trim_space (p @ aid) = p @ aid"
proof (rule trim_space_plain)
  have "list_all (\<lambda>c. c \<in> set plain_chars) ''amr''" by code_simp
  then show "hd (p @ aid) \<in> set plain_chars" using assms(1) by auto
qed (use assms in auto)

lemma parse_callback_plain:
  assumes "aid \<noteq> []" and "hd aid \<in> set plain_chars" and "last aid \<in> set plain_chars"
    and "CHR '':'' \<notin> set aid"
  shows "parse_callback_data (''a:'' @ aid) = (''ack'', aid, 0)"
    and "parse_callback_data (''mute:'' @ aid) = (''mute'', aid, 0)"
    and "parse_callback_data (''r:'' @ aid) = (''retry'', aid, 0)"
proof -
  have t: "trim_space aid = aid" using assms(1-3) by (rule trim_space_plain)
  have m: "trim_space ''mute'' = ''mute''" by code_simp
  note l = callback_literal [OF _ assms(1-3)]
  show "parse_callback_data (''a:'' @ aid) = (''ack'', aid, 0)"
    using l [of "''a:''"] t by (simp add: parse_callback_data_def Let_def trim_prefix_def)
  show "parse_callback_data (''r:'' @ aid) = (''retry'', aid, 0)"
    using l [of "''r:''"] t by (simp add: parse_callback_data_def Let_def trim_prefix_def)
  show "parse_callback_data (''mute:'' @ aid) = (''mute'', aid, 0)"
    using l [of "''mute:''"] t m split_on_absent [OF assms(4)]
    by (simp add: parse_callback_data_def Let_def trim_prefix_def)
qed


text \<open>
  What a fingerprint identifies: the type of the alert, the node, and for a check alert the check.
  Rows of \<open>alert_states\<close> and incidents are keyed by it, so two streams of samples that could
  share one would overwrite each other's state.
\<close>

definition builtin_type :: "alert_type \<Rightarrow> bool" where
  "builtin_type t \<longleftrightarrow> t \<in> {AlertCPU, AlertMemory, AlertDisk, AlertConnection, AlertTLS, AlertGeneric}"

definition node_key :: "('e) render_env_scheme \<Rightarrow> alert \<Rightarrow> string" where
  "node_key env a = (if al_node_id a \<noteq> uuid_nil then e_str env (al_node_id a) else ''unknown'')"

lemma split_bar [simp]: "CHR ''|'' \<notin> set w \<Longrightarrow> split_on (CHR ''|'') (w @ CHR ''|'' # rest) = w # split_on (CHR ''|'') rest"
  by (simp add: split_on_append_sep split_on_absent)

lemma bar_not_uuid: "CHR ''|'' \<notin> set uuid_chars"
proof -
  have "list_all (\<lambda>c. c \<noteq> CHR ''|'') uuid_chars" by code_simp
  then show ?thesis by (auto simp: list_all_iff)
qed

lemma node_key_bar:
  assumes "uuid_codec (e_str env) parse"
  shows "CHR ''|'' \<notin> set (node_key env a)"
  using uuid_codec.str_no_char [OF assms bar_not_uuid] by (simp add: node_key_def)

lemma node_key_inject:
  assumes c: "uuid_codec (e_str env) parse" and k: "node_key env a = node_key env b"
  shows "al_node_id a = al_node_id b"
proof -
  have "e_str env u \<noteq> ''unknown''" for u
    using uuid_codec.length_str [OF c, of u] by auto
  with k show ?thesis
    using uuid_codec.str_inject [OF c] by (auto simp: node_key_def split: if_splits)
qed

text \<open>The parts of a fingerprint between the bars.\<close>

lemma fingerprint_parts:
  assumes c: "uuid_codec (e_str env) parse" and b: "builtin_type (al_type a)"
  shows "\<exists>rest. split_on (CHR ''|'') (fingerprint_for env a) =
    alert_type_text (al_type a) # node_key env a # rest"
proof -
  note n = node_key_bar [OF c, of a]
  have k: "(if al_node_id a \<noteq> uuid_nil then e_str env (al_node_id a) else ''unknown'') = node_key env a"
    by (simp add: node_key_def)
  show ?thesis
    using b n unfolding fingerprint_for_def k Let_def
    by (auto simp: builtin_type_def split_on_absent)
qed

lemma fingerprint_check_part:
  assumes c: "uuid_codec (e_str env) parse" and "al_type a = AlertGeneric" and "al_check_id a \<noteq> uuid_nil"
  shows "split_on (CHR ''|'') (fingerprint_for env a) =
    [''generic'', node_key env a, ''check:'' @ e_str env (al_check_id a)]"
proof -
  note n = node_key_bar [OF c, of a]
  have k: "(if al_node_id a \<noteq> uuid_nil then e_str env (al_node_id a) else ''unknown'') = node_key env a"
    by (simp add: node_key_def)
  have "CHR ''|'' \<notin> set (e_str env (al_check_id a))"
    using uuid_codec.str_no_char [OF c bar_not_uuid] .
  then show ?thesis
    using n assms(2,3) unfolding fingerprint_for_def k Let_def
    by (simp add: split_on_absent)
qed

lemma builtin_text_inject:
  "builtin_type s \<Longrightarrow> builtin_type t \<Longrightarrow> alert_type_text s = alert_type_text t \<Longrightarrow> s = t"
  by (auto simp: builtin_type_def)

lemma fingerprint_identity:
  assumes c: "uuid_codec (e_str env) parse"
    and a: "builtin_type (al_type a)" and b: "builtin_type (al_type b)"
    and eq: "fingerprint_for env a = fingerprint_for env b"
  shows "al_type a = al_type b" and "al_node_id a = al_node_id b"
    and "al_type a = AlertGeneric \<Longrightarrow> al_check_id a \<noteq> uuid_nil \<Longrightarrow> al_check_id b \<noteq> uuid_nil \<Longrightarrow>
         al_check_id a = al_check_id b"
proof -
  obtain ra rb where
    p: "alert_type_text (al_type a) # node_key env a # ra = alert_type_text (al_type b) # node_key env b # rb"
    using fingerprint_parts [OF c a] fingerprint_parts [OF c b] eq by metis
  then show t: "al_type a = al_type b" using builtin_text_inject [OF a b] by simp
  show "al_node_id a = al_node_id b" using p node_key_inject [OF c] by blast
  show "al_check_id a = al_check_id b"
    if "al_type a = AlertGeneric" "al_check_id a \<noteq> uuid_nil" "al_check_id b \<noteq> uuid_nil"
    using fingerprint_check_part [OF c, of a] fingerprint_check_part [OF c, of b] that t eq
      uuid_codec.str_inject [OF c] by auto
qed

end
