(* ===== verification/Alert_Watch.thy ===== *)
theory Alert_Watch
  imports Alert_Frames Alert_Identity
begin

text \<open>
  What the notification path promises for one fingerprint, without tables, identifiers, texts and
  incidents: \<open>watch_step\<close> maps what the last samples left (\<open>watch\<close>), the noise limits
  (\<open>watch_par\<close>) and a sample to an action and the next \<open>watch\<close>. The lemmas show that
  \<open>maybe_send_alert\<close> on a working database does just that to the row of the alert and to Telegram.
\<close>

record watch =
  wt_known :: bool
  wt_fail :: bool
  wt_since :: "instant option"
  wt_occ :: int
  wt_streak :: int
  wt_thread :: msg_ids

record watch_par =
  wp_delayed :: bool
  wp_delay :: duration
  wp_min :: int
  wp_recover :: int
  wp_chats :: "string list"

record sample =
  sm_now :: instant
  sm_ok :: bool
  sm_check_muted :: bool
  sm_muted :: bool
  sm_reply :: msg_ids

datatype action = Silent | Recover | Notify

definition watch0 :: watch where
  "watch0 = \<lparr>wt_known = False, wt_fail = False, wt_since = None, wt_occ = 0, wt_streak = 0, wt_thread = []\<rparr>"

definition start_of :: "instant \<Rightarrow> watch \<Rightarrow> instant" where
  "start_of now x = (case wt_since x of None \<Rightarrow> now | Some t \<Rightarrow> t)"

text \<open>A sample that a failing check's mute swallows still moves the state.\<close>

definition watch_muted :: "sample \<Rightarrow> watch \<Rightarrow> watch" where
  "watch_muted sm x =
     (if sm_ok sm then x\<lparr>wt_known := True, wt_fail := False, wt_since := None, wt_occ := 0\<rparr>
      else x\<lparr>wt_known := True, wt_fail := True,
             wt_since := (if wt_streak x = 0 then Some (if wt_fail x then start_of (sm_now sm) x else sm_now sm)
                          else None),
             wt_occ := (if wt_known x then 0 else 1)\<rparr>)"

definition watch_ok :: "watch_par \<Rightarrow> watch \<Rightarrow> action \<times> watch" where
  "watch_ok P x =
     (if wt_fail x \<and> wt_streak x + 1 < wp_recover P
      then (Silent, x\<lparr>wt_since := None, wt_occ := 0, wt_streak := wt_streak x + 1\<rparr>)
      else let y = x\<lparr>wt_known := True, wt_fail := False, wt_since := None, wt_occ := 0, wt_streak := 0\<rparr>
           in if wt_fail x
              then (if wt_thread x = [] then Silent else Recover, y\<lparr>wt_thread := []\<rparr>)
              else (Silent, y))"

definition watch_occ :: "watch \<Rightarrow> int" where
  "watch_occ x = (if wt_fail x then max 1 (wt_occ x + 1) else 1)"

definition watch_due :: "watch_par \<Rightarrow> instant \<Rightarrow> watch \<Rightarrow> bool" where
  "watch_due P now x \<longleftrightarrow>
     \<not> (wp_delayed P \<and> time_sub now (start_of now x) < wp_delay P) \<and> wp_min P \<le> watch_occ x"

definition watch_fail :: "watch_par \<Rightarrow> sample \<Rightarrow> watch \<Rightarrow> action \<times> watch" where
  "watch_fail P sm x =
     (let y = x\<lparr>wt_known := True, wt_fail := True, wt_since := Some (start_of (sm_now sm) x),
                wt_occ := watch_occ x, wt_streak := 0\<rparr>
      in if wt_thread x = [] \<and> \<not> watch_due P (sm_now sm) x then (Silent, y)
         else if wt_fail x \<and> has_thread_for_all (wp_chats P) (wt_thread x) then (Silent, y)
         else if sm_muted sm then (Silent, y)
         else (Notify, y\<lparr>wt_thread := filter valid_id (sm_reply sm)\<rparr>))"

definition watch_step :: "watch_par \<Rightarrow> sample \<Rightarrow> watch \<Rightarrow> action \<times> watch" where
  "watch_step P sm x =
     (if sm_check_muted sm then (Silent, watch_muted sm x)
      else if sm_ok sm then watch_ok P x
      else watch_fail P sm x)"

section \<open>The abstraction\<close>

definition failing :: "alert_state \<Rightarrow> bool" where
  "failing r \<longleftrightarrow> as_last_status r = Some ''fail''"

definition watch_of :: "alert_state option \<Rightarrow> watch" where
  "watch_of st =
     (case st of
        None \<Rightarrow> watch0
      | Some r \<Rightarrow>
          \<lparr>wt_known = True, wt_fail = failing r,
           wt_since = (if failing r \<and> as_ok_streak r = 0 then Some (as_first_seen r) else None),
           wt_occ = (if failing r then as_occurrences r else 0),
           wt_streak = as_ok_streak r, wt_thread = message_ids_of (Some r)\<rparr>)"

text \<open>The rows the service writes from samples whose status is ok or fail.\<close>

definition norm_row :: "alert_state \<Rightarrow> bool" where
  "norm_row r \<longleftrightarrow> (as_last_status r = Some ''ok'' \<or> as_last_status r = Some ''fail'') \<and>
     0 \<le> as_ok_streak r \<and> 0 < as_first_seen r"

definition par_of :: "alert_svc \<Rightarrow> settings \<Rightarrow> alert \<Rightarrow> watch_par" where
  "par_of svc s a =
     \<lparr>wp_delayed = requires_offline_delay (al_type a), wp_delay = fail_delay svc a,
      wp_min = min_consecutive_fails svc (al_type a), wp_recover = recover_after a,
      wp_chats = s_admin_chat_ids s\<rparr>"

text \<open>Whether a fingerprint is muted, in memory or in its row.\<close>

definition mute_active :: "alert_env \<Rightarrow> string \<Rightarrow> world \<Rightarrow> bool" where
  "mute_active env fp w \<longleftrightarrow>
     trim_space fp \<noteq> [] \<and>
     ((case w_muted w fp of None \<Rightarrow> False | Some t \<Rightarrow> e_now env < t) \<or>
      list_ex (\<lambda>r. as_fingerprint r = fp \<and>
        (case as_muted_until r of None \<Rightarrow> False | Some t \<Rightarrow> e_now env < t)) (w_states w))"

definition sample_of :: "alert_env \<Rightarrow> bool \<Rightarrow> alert \<Rightarrow> world \<Rightarrow> msg_ids \<Rightarrow> sample" where
  "sample_of env active a w reply =
     \<lparr>sm_now = e_now env, sm_ok = (sample_status active a = ''ok''),
      sm_check_muted = check_muted env a,
      sm_muted = mute_active env (fingerprint_for env a) w, sm_reply = reply\<rparr>"

text \<open>The calls an action makes.\<close>

definition action_calls :: "action \<Rightarrow> settings \<Rightarrow> msg_ids \<Rightarrow> tg_call list \<Rightarrow> bool" where
  "action_calls act s thread cs \<longleftrightarrow>
     (case act of
        Silent \<Rightarrow> cs = []
      | Recover \<Rightarrow> (\<exists>text kb. cs = map (\<lambda>c. TgSend (s_bot_token s) c text kb) (s_admin_chat_ids s))
      | Notify \<Rightarrow> (\<exists>text kb. round_calls text kb (s_bot_token s) (s_admin_chat_ids s) cs \<and>
          (thread = [] \<longrightarrow> cs = map (\<lambda>c. TgSend (s_bot_token s) c text kb) (s_admin_chat_ids s))))"

section \<open>A working environment\<close>

definition db_up :: "alert_svc \<Rightarrow> alert_env \<Rightarrow> bool" where
  "db_up svc env \<longleftrightarrow> a_has_db svc \<and> a_has_client svc \<and> (\<forall>n. \<not> e_db_fail env n)"

definition fresh_ids :: "alert_env \<Rightarrow> world \<Rightarrow> bool" where
  "fresh_ids env w \<longleftrightarrow> e_uuid env (w_uid w) \<noteq> uuid_nil \<and>
     Some (e_uuid env (w_uid w)) \<notin> as_alert_id ` set (w_states w)"

definition codec_ok :: "alert_env \<Rightarrow> bool" where
  "codec_ok env \<longleftrightarrow> uuid_codec (e_str env) (e_parse env)"

lemma codec_parse: "codec_ok env \<Longrightarrow> e_parse env (e_str env u) = Some u"
  by (simp add: codec_ok_def uuid_codec.parse_str)

lemma codec_trim: "codec_ok env \<Longrightarrow> trim_space (e_str env u) = e_str env u"
  by (simp add: codec_ok_def uuid_codec.trim_str)

lemma codec_ne: "codec_ok env \<Longrightarrow> e_str env u \<noteq> []"
  using uuid_codec.str_ne by (auto simp: codec_ok_def)

section \<open>Preparing\<close>

text \<open>The columns the decision reads.\<close>

definition same_core :: "alert_state \<Rightarrow> alert_state \<Rightarrow> bool" where
  "same_core r s \<longleftrightarrow> as_last_status r = as_last_status s \<and> as_first_seen r = as_first_seen s \<and>
     as_occurrences r = as_occurrences s \<and> as_ok_streak r = as_ok_streak s \<and>
     as_message_ids r = as_message_ids s \<and> as_muted_until r = as_muted_until s \<and>
     as_fingerprint r = as_fingerprint s"

lemma same_core_refl [simp]: "same_core r r"
  by (simp add: same_core_def)

lemma same_core_watch: "same_core r s \<Longrightarrow> watch_of (Some r) = watch_of (Some s)"
  by (simp add: same_core_def watch_of_def failing_def message_ids_of_def)

lemma fingerprint_status [simp]: "fingerprint_for env (a\<lparr>al_status := s\<rparr>) = fingerprint_for env a"
  by (cases "al_type a") (simp_all add: fingerprint_for_def Let_def)

definition rel_state :: "alert_state option \<Rightarrow> alert_state option \<Rightarrow> bool" where
  "rel_state = rel_option same_core"

lemma rel_state_refl [simp]: "rel_state x x"
  by (cases x) (simp_all add: rel_state_def)

text \<open>
  After \<open>prepare\<close> on a working database: the loaded state has the core of the row, which itself
  changed at most in its alert id.
\<close>

lemma ensure_healthy:
  assumes up: "db_up svc env" and st: "row_get as_fingerprint fp (w_states w) = state0"
    and fr: "\<forall>r. state0 = Some r \<longrightarrow> as_alert_id r = None \<Longrightarrow> fresh_ids env w"
    and e: "ensure_alert_id svc env state0 w = ((aid, state), w')"
  shows "rel_state state state0"
    and "rel_state (row_get as_fingerprint fp (w_states w')) state"
    and "\<exists>u. aid = e_str env u \<and> (state = None \<longrightarrow> u \<noteq> uuid_nil \<and> Some u \<notin> as_alert_id ` set (w_states w'))"
    and "\<forall>r. state = Some r \<longrightarrow> as_alert_id r \<noteq> None"
    and "w_uid w \<le> w_uid w'"
proof -
  have all: "rel_state state state0 \<and> rel_state (row_get as_fingerprint fp (w_states w')) state \<and>
    (\<exists>u. aid = e_str env u \<and> (state = None \<longrightarrow> u \<noteq> uuid_nil \<and> Some u \<notin> as_alert_id ` set (w_states w'))) \<and>
    (\<forall>r. state = Some r \<longrightarrow> as_alert_id r \<noteq> None) \<and> w_uid w \<le> w_uid w'"
  proof (cases state0)
    case None
    then have "fresh_ids env w" using fr by simp
    then show ?thesis
      using e st None by (auto simp: ensure_alert_id_def uuid_new_def rel_state_def fresh_ids_def
          intro!: exI [of _ "e_uuid env (w_uid w)"])
  next
    case (Some r)
    then have fp: "as_fingerprint r = fp" using st by (auto dest: row_get_SomeD)
    show ?thesis
    proof (cases "as_alert_id r")
      case None
      have "Some (e_uuid env (w_uid w)) \<notin> as_alert_id ` set (w_states w)"
        using fr None Some by (auto simp: fresh_ids_def)
      then have "\<not> alert_id_taken (e_uuid env (w_uid w)) fp (db_tick (snd (uuid_new env w)))"
        by (force simp: alert_id_taken_def list_ex_iff)
      moreover have "a_has_db svc" and "\<not> e_db_fail env (w_dbn w)"
        using up by (simp_all add: db_up_def)
      ultimately show ?thesis
        using e Some None fp st
        by (auto simp: ensure_alert_id_def healthy uuid_new_def rel_state_def row_upd_get same_core_def
            split: prod.splits)
    next
      case (Some u)
      then have "state = state0" "w' = w" "aid = e_str env u"
        using e \<open>state0 = Some r\<close> by (simp_all add: ensure_alert_id_def)
      then show ?thesis using st Some \<open>state0 = Some r\<close> by auto
    qed
  qed
  then show "rel_state state state0" "rel_state (row_get as_fingerprint fp (w_states w')) state"
    "\<exists>u. aid = e_str env u \<and> (state = None \<longrightarrow> u \<noteq> uuid_nil \<and> Some u \<notin> as_alert_id ` set (w_states w'))"
    "\<forall>r. state = Some r \<longrightarrow> as_alert_id r \<noteq> None" "w_uid w \<le> w_uid w'"
    by blast+
qed


lemma prepare_healthy:
  assumes up: "db_up svc env"
    and fr: "\<forall>r. row_get as_fingerprint (fingerprint_for env a0) (w_states w) = Some r \<longrightarrow>
      as_alert_id r = None \<Longrightarrow> fresh_ids env w"
    and p: "prepare svc env active a0 w = (p, w')"
  shows "pr_status p = sample_status active a0" and "al_type (pr_alert p) = al_type a0"
    and "al_occurrences (pr_alert p) = al_occurrences a0"
    and "al_fingerprint (pr_alert p) = fingerprint_for env a0"
    and "al_mute_until (pr_alert p) = al_mute_until a0"
    and "pr_fail_delay p = fail_delay svc a0" and "pr_recover_after p = recover_after a0"
    and "rel_state (pr_state p) (row_get as_fingerprint (fingerprint_for env a0) (w_states w))"
    and "rel_state (row_get as_fingerprint (fingerprint_for env a0) (w_states w')) (pr_state p)"
    and "\<exists>u. al_alert_id (pr_alert p) = e_str env u \<and>
          (pr_state p = None \<longrightarrow> u \<noteq> uuid_nil \<and> Some u \<notin> as_alert_id ` set (w_states w'))"
    and "\<forall>r. pr_state p = Some r \<longrightarrow> as_alert_id r \<noteq> None"
    and "w_outbox w' = w_outbox w" and "w_muted w' = w_muted w" and "w_uid w \<le> w_uid w'"
    and "pr_prev_status p = prev_status_of (pr_state p)"
    and "pr_prev_ids p = message_ids_of (pr_state p)"
    and "pr_prev_streak p = (case pr_state p of None \<Rightarrow> 0
           | Some st \<Rightarrow> if 0 < as_ok_streak st then as_ok_streak st else 0)"
proof -
  let ?fp = "fingerprint_for env a0" and ?r = "row_get as_fingerprint (fingerprint_for env a0) (w_states w)"
  have l: "load_state svc env ?fp w = (?r, db_tick w)"
    using up by (auto simp: load_state_def db_up_def healthy split: option.splits)
  obtain aid state v where e: "ensure_alert_id svc env ?r (db_tick w) = ((aid, state), v)"
    by (cases "ensure_alert_id svc env ?r (db_tick w)") auto
  have fr': "\<forall>r. ?r = Some r \<longrightarrow> as_alert_id r = None \<Longrightarrow> fresh_ids env (db_tick w)"
    and st': "row_get as_fingerprint ?fp (w_states (db_tick w)) = ?r"
    using fr by (simp_all add: fresh_ids_def)
  note E = ensure_healthy [OF up st' fr' e]
  have fd: "fail_delay svc (a\<lparr>al_incident_id := x\<rparr>) = fail_delay svc a"
    "recover_after (a\<lparr>al_incident_id := x\<rparr>) = recover_after a"
    "fail_delay svc (a\<lparr>al_status := x, al_fingerprint := y, al_alert_id := z\<rparr>) = fail_delay svc a"
    "recover_after (a\<lparr>al_status := x, al_fingerprint := y, al_alert_id := z\<rparr>) = recover_after a" for a x y z
    by (simp_all add: fail_delay_def recover_after_def Let_def)
  have w': "w' = v" and ps: "pr_state p = state" and pa: "al_alert_id (pr_alert p) = aid"
    using p e l by (auto simp: prepare_def Let_def split: option.splits)
  have fr: "w_outbox v = w_outbox w" "w_muted v = w_muted w"
    using ensure_alert_id_frame [of svc env ?r "db_tick w"] e by simp_all
  show "rel_state (pr_state p) ?r" "rel_state (row_get as_fingerprint ?fp (w_states w')) (pr_state p)"
    "\<exists>u. al_alert_id (pr_alert p) = e_str env u \<and>
          (pr_state p = None \<longrightarrow> u \<noteq> uuid_nil \<and> Some u \<notin> as_alert_id ` set (w_states w'))"
    "\<forall>r. pr_state p = Some r \<longrightarrow> as_alert_id r \<noteq> None" "w_uid w \<le> w_uid w'"
    "w_outbox w' = w_outbox w" "w_muted w' = w_muted w"
    using E fr unfolding w' ps pa by simp_all
  show "pr_status p = sample_status active a0" "al_type (pr_alert p) = al_type a0"
    "al_occurrences (pr_alert p) = al_occurrences a0"
    "al_fingerprint (pr_alert p) = fingerprint_for env a0"
    "al_mute_until (pr_alert p) = al_mute_until a0"
    "pr_fail_delay p = fail_delay svc a0" "pr_recover_after p = recover_after a0"
    "pr_prev_status p = prev_status_of (pr_state p)"
    "pr_prev_ids p = message_ids_of (pr_state p)"
    "pr_prev_streak p = (case pr_state p of None \<Rightarrow> 0
           | Some st \<Rightarrow> if 0 < as_ok_streak st then as_ok_streak st else 0)"
    using p e l by (auto simp: prepare_def Let_def fd split: option.splits)
qed

section \<open>Saving the state\<close>

text \<open>The row after \<open>updateState\<close>, column by column.\<close>

lemma update_healthy:
  assumes up: "db_up svc env" and c: "codec_ok env"
    and fp: "al_fingerprint a = fp" and row: "rel_state (row_get as_fingerprint fp (w_states w)) state"
    and aid: "al_alert_id a = e_str env u"
    and new: "state = None \<longrightarrow> u \<noteq> uuid_nil \<and> Some u \<notin> as_alert_id ` set (w_states w)"
  shows "\<exists>r. row_get as_fingerprint fp
        (w_states (update_state svc env a state status notified ids k inc w)) = Some r \<and>
      as_last_status r = Some status \<and> as_ok_streak r = k \<and>
      as_occurrences r = (if state = None then gorm_default 1 (al_occurrences a) else al_occurrences a) \<and>
      as_message_ids r = (if notified \<or> state = None then message_ids_to_json ids else as_message_ids (the state)) \<and>
      as_first_seen r = (case state of None \<Rightarrow> e_now env
         | Some st \<Rightarrow> if status = ''fail'' \<and> (prev_status_of state \<noteq> ''fail'' \<or> 0 < as_ok_streak st)
                     then e_now env else as_first_seen st)"
proof (cases state)
  case None
  then have ab: "row_get as_fingerprint fp (w_states w) = None"
    using row by (simp add: rel_state_def)
  let ?r = "new_state_row env a u status ids k inc"
  have pr: "e_parse env (al_alert_id a) = Some u" "trim_space (al_alert_id a) \<noteq> []"
    using c by (simp_all add: aid codec_parse codec_trim codec_ne)
  have "fp \<notin> as_fingerprint ` set (w_states w)"
    using ab by (simp add: row_get_None)
  moreover have "as_fingerprint ?r = fp" "as_alert_id ?r = Some u"
    by (simp_all add: new_state_row_def fp)
  ultimately have "put_state_row ?r (db_tick w) = Inr ((db_tick w)\<lparr>w_states := w_states w @ [?r]\<rparr>)"
    using new None by (simp add: put_state_row_def row_put_def)
  then have "update_state svc env a state status notified ids k inc w =
      (db_tick w)\<lparr>w_states := w_states w @ [?r]\<rparr>"
    using up None pr new by (simp add: update_state_def db_up_def healthy)
  then show ?thesis
    using ab None by (auto simp: row_get_append new_state_row_def fp)
next
  case (Some st)
  then obtain r where r: "row_get as_fingerprint fp (w_states w) = Some r" and core: "same_core r st"
    using row by (auto simp: rel_state_def option_rel_Some2)
  have key: "as_fingerprint (state_payload env a st status notified ids k inc q) = as_fingerprint q" for q
    by (simp add: state_payload_def Let_def split: option.splits)
  have "update_state svc env a state status notified ids k inc w =
      upd_state_rows fp (state_payload env a st status notified ids k inc) (db_tick w)"
    using up Some by (simp add: update_state_def db_up_def healthy fp)
  then have g: "row_get as_fingerprint fp
      (w_states (update_state svc env a state status notified ids k inc w)) =
      Some (state_payload env a st status notified ids k inc r)"
    by (simp add: row_upd_get key r)
  show ?thesis
    unfolding g using core Some
    by (auto simp: state_payload_def Let_def prev_status_of_def same_core_def split: option.splits)
qed

end
