(* ===== verification/Alert_Refine.thy ===== *)
theory Alert_Refine
  imports Alert_Watch
begin

text \<open>
  The refinement: each branch of \<open>maybe_send_alert\<close> leaves the row that the corresponding branch
  of \<open>watch_step\<close> describes, and makes the calls of its action.
\<close>

lemma is_muted_healthy:
  assumes "db_up svc env"
  shows "fst (is_muted svc env fp w) = mute_active env fp w"
proof -
  have up: "a_has_db svc" "\<not> e_db_fail env n" for n
    using assms by (simp_all add: db_up_def)
  let ?P = "\<lambda>r. as_fingerprint r = fp \<and> (case as_muted_until r of None \<Rightarrow> False | Some m \<Rightarrow> e_now env < m)"
  have db: "fst (muted_in_db svc env fp v) = list_ex ?P (w_states v)" for v
  proof (cases "find ?P (w_states v)")
    case None
    then have "\<not> list_ex ?P (w_states v)" by (auto simp: find_None_iff list_ex_iff)
    moreover have "fst (muted_in_db svc env fp v) = False"
      using up None by (simp add: muted_in_db_def healthy)
    ultimately show ?thesis by simp
  next
    case (Some r)
    then have r: "?P r" "r \<in> set (w_states v)" by (auto simp: find_Some_iff)
    then have "list_ex ?P (w_states v)" by (auto simp: list_ex_iff)
    moreover have "fst (muted_in_db svc env fp v) = True"
      using up Some r by (auto simp: muted_in_db_def healthy split: option.splits)
    ultimately show ?thesis by simp
  qed
  show ?thesis
    by (auto simp: is_muted_def mute_active_def db split: option.splits)
qed

lemma ensure_mute_active:
  "mute_active env fp (snd (ensure_alert_id svc env st w)) = mute_active env fp w"
proof -
  have upd: "list_ex (\<lambda>r. as_fingerprint r = fp \<and> (case as_muted_until r of None \<Rightarrow> False | Some t \<Rightarrow> e_now env < t))
      (row_upd as_fingerprint k (\<lambda>r. r\<lparr>as_alert_id := u, as_updated_at := t0\<rparr>) rows) =
    list_ex (\<lambda>r. as_fingerprint r = fp \<and> (case as_muted_until r of None \<Rightarrow> False | Some t \<Rightarrow> e_now env < t)) rows"
    for k u t0 rows
    by (induction rows) (auto simp: row_upd_def)
  show ?thesis
    by (auto simp: ensure_alert_id_def mute_active_def Let_def db_exec_def uuid_new_def upd split: option.splits)
qed

lemma prepare_mute_active:
  "prepare svc env active a0 w = (p, w') \<Longrightarrow> mute_active env fp w' = mute_active env fp w"
proof -
  assume p: "prepare svc env active a0 w = (p, w')"
  obtain st v where l: "load_state svc env (fingerprint_for env a0) w = (st, v)" by fastforce
  obtain aid state u where e: "ensure_alert_id svc env st v = ((aid, state), u)"
    by (cases "ensure_alert_id svc env st v") auto
  have "w' = u" using p l e by (auto simp: prepare_def Let_def split: option.splits)
  moreover have "mute_active env fp v = mute_active env fp w"
    using load_state_snd [of svc env "fingerprint_for env a0" w] l
    by (auto simp: mute_active_def split: if_splits)
  ultimately show ?thesis using ensure_mute_active [of env fp svc st v] e by simp
qed

text \<open>What the branches rely on after \<open>prepare\<close>; it depends on the world only by its states.\<close>

definition prep_ok :: "alert_env \<Rightarrow> prepared \<Rightarrow> world \<Rightarrow> bool" where
  "prep_ok env p w \<longleftrightarrow>
     rel_state (row_get as_fingerprint (al_fingerprint (pr_alert p)) (w_states w)) (pr_state p) \<and>
     (\<exists>u. al_alert_id (pr_alert p) = e_str env u \<and>
        (pr_state p = None \<longrightarrow> u \<noteq> uuid_nil \<and> Some u \<notin> as_alert_id ` set (w_states w))) \<and>
     pr_prev_status p = prev_status_of (pr_state p) \<and> pr_prev_ids p = message_ids_of (pr_state p) \<and>
     pr_prev_streak p = (case pr_state p of None \<Rightarrow> 0
        | Some st \<Rightarrow> if 0 < as_ok_streak st then as_ok_streak st else 0) \<and>
     (\<forall>r. pr_state p = Some r \<longrightarrow> norm_row r)"

lemma prep_ok_cong: "prep_ok env p w \<Longrightarrow> w_states v = w_states w \<Longrightarrow> prep_ok env p v"
  by (simp add: prep_ok_def)

definition saved_watch ::
    "alert_env \<Rightarrow> alert_state option \<Rightarrow> string \<Rightarrow> int \<Rightarrow> bool \<Rightarrow> msg_ids \<Rightarrow> int \<Rightarrow> watch" where
  "saved_watch env state status occ notified ids k =
     \<lparr>wt_known = True, wt_fail = (status = ''fail''),
      wt_since = (if status = ''fail'' \<and> k = 0 then
                    Some (case state of None \<Rightarrow> e_now env
                          | Some st \<Rightarrow> if prev_status_of state \<noteq> ''fail'' \<or> 0 < as_ok_streak st
                                      then e_now env else as_first_seen st)
                  else None),
      wt_occ = (if status = ''fail'' then (if state = None then gorm_default 1 occ else occ) else 0),
      wt_streak = k,
      wt_thread = (if notified \<or> state = None then filter valid_id ids else message_ids_of state)\<rparr>"

lemma save_watch:
  assumes up: "db_up svc env" and c: "codec_ok env" and ok: "prep_ok env p w"
    and a: "al_fingerprint a = al_fingerprint (pr_alert p)" "al_alert_id a = al_alert_id (pr_alert p)"
    and d: "notified \<or> pr_state p = None \<longrightarrow> distinct (map fst ids)"
  shows "watch_of (row_get as_fingerprint (al_fingerprint (pr_alert p))
      (w_states (update_state svc env a (pr_state p) status notified ids k inc w))) =
    saved_watch env (pr_state p) status (al_occurrences a) notified ids k"
proof -
  obtain u where u: "al_alert_id a = e_str env u"
    "pr_state p = None \<longrightarrow> u \<noteq> uuid_nil \<and> Some u \<notin> as_alert_id ` set (w_states w)"
    using ok a(2) by (auto simp: prep_ok_def)
  have row: "rel_state (row_get as_fingerprint (al_fingerprint (pr_alert p)) (w_states w)) (pr_state p)"
    using ok by (simp add: prep_ok_def)
  obtain r where r: "row_get as_fingerprint (al_fingerprint (pr_alert p))
        (w_states (update_state svc env a (pr_state p) status notified ids k inc w)) = Some r"
      "as_last_status r = Some status" "as_ok_streak r = k"
      "as_occurrences r = (if pr_state p = None then gorm_default 1 (al_occurrences a) else al_occurrences a)"
      "as_message_ids r = (if notified \<or> pr_state p = None then message_ids_to_json ids
         else as_message_ids (the (pr_state p)))"
      "as_first_seen r = (case pr_state p of None \<Rightarrow> e_now env
         | Some st \<Rightarrow> if status = ''fail'' \<and> (prev_status_of (pr_state p) \<noteq> ''fail'' \<or> 0 < as_ok_streak st)
                     then e_now env else as_first_seen st)"
    using update_healthy [OF up c a(1) row u] by blast
  have th: "message_ids_of (Some r) =
      (if notified \<or> pr_state p = None then filter valid_id ids else message_ids_of (pr_state p))"
    using r(5) by (auto simp: message_ids_of_def message_ids_roundtrip d)
  show ?thesis
    unfolding r(1) using r th
    by (auto simp: watch_of_def saved_watch_def failing_def split: option.splits)
qed

section \<open>The branches\<close>

lemma norm_prev_status:
  assumes "\<forall>r. state = Some r \<longrightarrow> norm_row r"
  shows "prev_status_of state = ''fail'' \<longleftrightarrow> (\<exists>r. state = Some r \<and> failing r)"
proof -
  have "to_lower (trim_space ''fail'') = ''fail''" "to_lower (trim_space ''ok'') = ''ok''" by code_simp+
  then show ?thesis
    using assms by (cases state) (auto simp: prev_status_of_def norm_row_def failing_def)
qed

lemma watch_of_Some [simp]:
  "wt_known (watch_of (Some r))" "wt_fail (watch_of (Some r)) = failing r"
  "wt_since (watch_of (Some r)) = (if failing r \<and> as_ok_streak r = 0 then Some (as_first_seen r) else None)"
  "wt_occ (watch_of (Some r)) = (if failing r then as_occurrences r else 0)"
  "wt_streak (watch_of (Some r)) = as_ok_streak r"
  "wt_thread (watch_of (Some r)) = message_ids_of (Some r)"
  by (simp_all add: watch_of_def)

lemma watch_of_None [simp]: "watch_of None = watch0"
  by (simp add: watch_of_def)

lemma watch_of_thread: "wt_thread (watch_of st) = message_ids_of st"
  by (cases st) (simp_all add: watch_of_def watch0_def message_ids_of_def)

lemma message_ids_None [simp]: "message_ids_of None = []"
  by (simp add: message_ids_of_def)

lemmas prep_facts = prep_ok_def norm_prev_status watch_of_thread

definition row_watch :: "prepared \<Rightarrow> world \<Rightarrow> watch" where
  "row_watch p w = watch_of (row_get as_fingerprint (al_fingerprint (pr_alert p)) (w_states w))"

lemma row_watch_cong: "w_states v = w_states w \<Longrightarrow> row_watch p v = row_watch p w"
  by (simp add: row_watch_def)

lemma saved_watch_muted:
  assumes "\<forall>r. st = Some r \<longrightarrow> norm_row r" and "status = ''ok'' \<or> status = ''fail''"
    and "sm_ok sm = (status = ''ok'')" and "sm_now sm = e_now env"
  shows "saved_watch env st status 0 False (message_ids_of st)
      (case st of None \<Rightarrow> 0 | Some r \<Rightarrow> if 0 < as_ok_streak r then as_ok_streak r else 0) =
    watch_muted sm (watch_of st)"
proof (cases st)
  case None
  then show ?thesis
    using assms(2-) by (auto simp: saved_watch_def watch_muted_def watch0_def gorm_default_def)
next
  case (Some r)
  then have n: "norm_row r" and k: "(if 0 < as_ok_streak r then as_ok_streak r else 0) = as_ok_streak r"
    using assms(1) by (auto simp: norm_row_def)
  have f: "prev_status_of (Some r) = ''fail'' \<longleftrightarrow> failing r"
    using norm_prev_status [of "Some r"] n by simp
  show ?thesis
    unfolding Some option.case k
    using assms(2-) n f
    by (auto simp: saved_watch_def watch_muted_def start_of_def norm_row_def watch_of_def)
qed

lemma check_muted_refines:
  assumes up: "db_up svc env" and c: "codec_ok env" and ok: "prep_ok env p w"
    and st: "pr_status p = ''ok'' \<or> pr_status p = ''fail''" and occ: "al_occurrences (pr_alert p) = 0"
    and sm: "sm_ok sm = (pr_status p = ''ok'')" "sm_now sm = e_now env"
  shows "row_watch p (handle_check_muted svc env p w) = watch_muted sm (watch_of (pr_state p))"
    and "w_outbox (handle_check_muted svc env p w) = w_outbox w"
proof -
  have n: "\<forall>r. pr_state p = Some r \<longrightarrow> norm_row r" and i: "pr_prev_ids p = message_ids_of (pr_state p)"
    and k: "pr_prev_streak p = (case pr_state p of None \<Rightarrow> 0
       | Some st \<Rightarrow> if 0 < as_ok_streak st then as_ok_streak st else 0)"
    using ok by (simp_all add: prep_ok_def)
  have d: "False \<or> pr_state p = None \<longrightarrow> distinct (map fst (pr_prev_ids p))" using i by auto
  show "row_watch p (handle_check_muted svc env p w) = watch_muted sm (watch_of (pr_state p))"
    unfolding handle_check_muted_def Let_def row_watch_def sync_incident_frame
    unfolding save_watch [OF up c ok refl refl d]
    unfolding occ i k
    by (rule saved_watch_muted [OF n st sm])
  show "w_outbox (handle_check_muted svc env p w) = w_outbox w"
    by (simp add: handle_check_muted_def Let_def frame)
qed

text \<open>The ok branch.\<close>

definition recover_calls :: "settings \<Rightarrow> world \<Rightarrow> world \<Rightarrow> bool" where
  "recover_calls s w v \<longleftrightarrow> (\<exists>text kb. w_outbox v = w_outbox w @
     map (\<lambda>c. TgSend (s_bot_token s) c text kb) (s_admin_chat_ids s))"

lemma save_watch_occ:
  assumes "db_up svc env" and "codec_ok env" and "prep_ok env p w"
    and "notified \<or> pr_state p = None \<longrightarrow> distinct (map fst ids)"
  shows "row_watch p (update_state svc env ((pr_alert p)\<lparr>al_occurrences := n\<rparr>) (pr_state p) status notified ids k inc w) =
    saved_watch env (pr_state p) status n notified ids k"
  using save_watch [OF assms(1-3) _ _ assms(4), of "(pr_alert p)\<lparr>al_occurrences := n\<rparr>"]
  by (simp add: row_watch_def)

lemma save_watch_same:
  assumes "db_up svc env" and "codec_ok env" and "prep_ok env p w"
    and "notified \<or> pr_state p = None \<longrightarrow> distinct (map fst ids)"
  shows "row_watch p (update_state svc env (pr_alert p) (pr_state p) status notified ids k inc w) =
    saved_watch env (pr_state p) status (al_occurrences (pr_alert p)) notified ids k"
  using save_watch [OF assms(1-3) refl refl assms(4)] by (simp add: row_watch_def)

lemma ok_refines:
  assumes up: "db_up svc env" and c: "codec_ok env" and ok: "prep_ok env p w"
    and occ: "al_occurrences (pr_alert p) = 0" and rec: "pr_recover_after p = wp_recover P"
    and step: "watch_ok P (watch_of (pr_state p)) = (act, x')"
  shows "row_watch p (handle_ok svc env s p w) = x'"
    and "if act = Recover then recover_calls s w (handle_ok svc env s p w)
         else act = Silent \<and> w_outbox (handle_ok svc env s p w) = w_outbox w"
proof -
  have n: "\<forall>r. pr_state p = Some r \<longrightarrow> norm_row r" and i: "pr_prev_ids p = message_ids_of (pr_state p)"
    and k: "pr_prev_streak p = (case pr_state p of None \<Rightarrow> 0
       | Some st \<Rightarrow> if 0 < as_ok_streak st then as_ok_streak st else 0)"
    and pv: "pr_prev_status p = prev_status_of (pr_state p)"
    using ok by (simp_all add: prep_ok_def)
  have all: "row_watch p (handle_ok svc env s p w) = x' \<and>
    (if act = Recover then recover_calls s w (handle_ok svc env s p w)
     else act = Silent \<and> w_outbox (handle_ok svc env s p w) = w_outbox w)"
  proof (cases "pr_state p")
    case None
    obtain inc v where y: "sync_incident svc env (pr_alert p) ''ok'' (pr_prev_status p) w = (inc, v)"
      by fastforce
    then have v: "w_states v = w_states w" "w_outbox v = w_outbox w"
      using sync_incident_frame [of svc env "pr_alert p" "''ok''" "pr_prev_status p" w] by simp_all
    have "handle_ok svc env s p w =
        update_state svc env (pr_alert p) (pr_state p) ''ok'' False (message_ids_of (pr_state p)) 0 inc v"
      using None y by (simp add: handle_ok_def)
    moreover have "x' = saved_watch env (pr_state p) ''ok'' 0 False (message_ids_of (pr_state p)) 0 \<and> act = Silent"
      using step None by (auto simp: watch_ok_def watch0_def saved_watch_def Let_def)
    ultimately show ?thesis
      using save_watch_same [OF up c prep_ok_cong [OF ok v(1)]] None occ v(2) by (simp add: frame)
  next
    case (Some r)
    then have nr: "norm_row r" and kr: "pr_prev_streak p = as_ok_streak r"
      using n k by (auto simp: norm_row_def)
    have f: "pr_prev_status p = ''fail'' \<longleftrightarrow> failing r"
      using norm_prev_status [OF n] Some pv by simp
    show ?thesis
    proof (cases "failing r")
      case False
      obtain inc v where y: "sync_incident svc env (pr_alert p) ''ok'' (pr_prev_status p) w = (inc, v)"
        by fastforce
      then have v: "w_states v = w_states w" "w_outbox v = w_outbox w"
        using sync_incident_frame [of svc env "pr_alert p" "''ok''" "pr_prev_status p" w] by simp_all
      have "handle_ok svc env s p w =
          update_state svc env (pr_alert p) (pr_state p) ''ok'' False (message_ids_of (pr_state p)) 0 inc v"
        using Some y f False by (simp add: handle_ok_def)
      moreover have "x' = saved_watch env (pr_state p) ''ok'' 0 False (message_ids_of (pr_state p)) 0 \<and> act = Silent"
        using step Some False by (auto simp: watch_ok_def saved_watch_def Let_def watch_of_def)
      ultimately show ?thesis
        using save_watch_same [OF up c prep_ok_cong [OF ok v(1)]] Some occ v(2) by (simp add: frame)
    next
      case True
      show ?thesis
      proof (cases "as_ok_streak r + 1 < wp_recover P")
        case less: True
        let ?v = "update_state svc env (pr_alert p) (pr_state p) ''fail'' False (pr_prev_ids p)
          (as_ok_streak r + 1) (incident_uuid_from_alert env (pr_alert p)) w"
        have h: "handle_ok svc env s p w = snd (sync_incident svc env (pr_alert p) ''fail'' (pr_prev_status p) ?v)"
          using Some f \<open>failing r\<close> less rec kr by (simp add: handle_ok_def Let_def)
        have x: "x' = saved_watch env (pr_state p) ''fail'' 0 False (message_ids_of (pr_state p)) (as_ok_streak r + 1)
            \<and> act = Silent"
          using step Some \<open>failing r\<close> less nr
          by (auto simp: watch_ok_def saved_watch_def Let_def norm_row_def watch_of_def)
        have rw: "row_watch p ?v = x'"
          using save_watch_same [OF up c ok, where notified = False and ids = "pr_prev_ids p"] Some occ x i by simp
        show ?thesis
          unfolding h using x rw row_watch_cong [OF sync_incident_frame(1)] by (simp add: frame)
      next
        case ge: False
        show ?thesis
        proof (cases "pr_prev_ids p = []")
          case True
          let ?a = "(pr_alert p)\<lparr>al_occurrences := 0\<rparr>"
          obtain inc v where y: "sync_incident svc env ?a ''ok'' (pr_prev_status p) w = (inc, v)"
            by fastforce
          then have v: "w_states v = w_states w" "w_outbox v = w_outbox w"
            using sync_incident_frame [of svc env ?a "''ok''" "pr_prev_status p" w] by simp_all
          have h: "handle_ok svc env s p w = update_state svc env ?a (pr_state p) ''ok'' True [] 0 inc v"
            using Some f \<open>failing r\<close> ge rec kr True y by (simp add: handle_ok_def Let_def)
          have x: "x' = saved_watch env (pr_state p) ''ok'' 0 True [] 0 \<and> act = Silent"
            using step Some \<open>failing r\<close> ge True i
            by (auto simp: watch_ok_def saved_watch_def Let_def watch_of_def)
          show ?thesis
            using save_watch_occ [OF up c prep_ok_cong [OF ok v(1)], where ids = "[]"] h x v(2) by (simp add: frame)
        next
          case False
          let ?a = "(pr_alert p)\<lparr>al_occurrences := as_occurrences r\<rparr>"
          let ?u = "send_recovery svc env s ?a w"
          obtain inc v where y: "sync_incident svc env ?a ''ok'' (pr_prev_status p) ?u = (inc, v)"
            by fastforce
          then have v: "w_states v = w_states w" "w_outbox v = w_outbox ?u"
            using sync_incident_frame [of svc env ?a "''ok''" "pr_prev_status p" ?u]
            by (simp_all add: send_recovery_world)
          have h: "handle_ok svc env s p w = update_state svc env ?a (pr_state p) ''ok'' True [] 0 inc v"
            using Some f \<open>failing r\<close> ge rec kr False y by (simp add: handle_ok_def Let_def)
          have x: "x' = saved_watch env (pr_state p) ''ok'' n True [] 0 \<and> act = Recover" for n
            using step Some \<open>failing r\<close> ge False i
            by (auto simp: watch_ok_def saved_watch_def Let_def watch_of_def)
          have "recover_calls s w (handle_ok svc env s p w)"
            unfolding recover_calls_def h using v(2) by (auto simp: frame send_recovery_world)
          then show ?thesis
            using save_watch_occ [OF up c prep_ok_cong [OF ok v(1)], where ids = "[]"] h x by simp
        qed
      qed
    qed
  qed
  then show "row_watch p (handle_ok svc env s p w) = x'"
    and "if act = Recover then recover_calls s w (handle_ok svc env s p w)
         else act = Silent \<and> w_outbox (handle_ok svc env s p w) = w_outbox w" by blast+
qed

text \<open>The fail branch.\<close>

lemma save_fail_watch:
  assumes up: "db_up svc env" and c: "codec_ok env" and ok: "prep_ok env p w"
    and st: "pr_status p = ''fail''"
    and a: "a = (pr_alert p)\<lparr>al_occurrences := n\<rparr>" and d: "notified \<or> pr_state p = None \<longrightarrow> distinct (map fst ids)"
  shows "row_watch p (save_fail svc env p a notified ids w) =
      saved_watch env (pr_state p) ''fail'' n notified ids 0"
    and "w_outbox (save_fail svc env p a notified ids w) = w_outbox w"
proof -
  obtain inc v where y: "sync_incident svc env a (pr_status p) (pr_prev_status p) w = (inc, v)"
    by fastforce
  then have v: "w_states v = w_states w" "w_outbox v = w_outbox w"
    using sync_incident_frame [of svc env a "pr_status p" "pr_prev_status p" w] by simp_all
  have h: "save_fail svc env p a notified ids w =
      update_state svc env a (pr_state p) (pr_status p) notified ids 0 inc v"
    using y by (simp add: save_fail_def)
  show "row_watch p (save_fail svc env p a notified ids w) =
      saved_watch env (pr_state p) ''fail'' n notified ids 0"
    unfolding h unfolding a st using save_watch_occ [OF up c prep_ok_cong [OF ok v(1)] d] by simp
  show "w_outbox (save_fail svc env p a notified ids w) = w_outbox w"
    unfolding h using v(2) by (simp add: frame)
qed

text \<open>The state a failing sample leaves when nothing is sent.\<close>

definition quiet_fail :: "sample \<Rightarrow> watch \<Rightarrow> watch" where
  "quiet_fail sm x = x\<lparr>wt_known := True, wt_fail := True, wt_since := Some (start_of (sm_now sm) x),
     wt_occ := watch_occ x, wt_streak := 0\<rparr>"

lemma saved_quiet_fail:
  assumes n: "\<forall>r. st = Some r \<longrightarrow> norm_row r" and now: "sm_now sm = e_now env"
  shows "saved_watch env st ''fail'' (watch_occ (watch_of st)) False (message_ids_of st) 0 =
      quiet_fail sm (watch_of st)"
    and "saved_watch env st ''fail'' (watch_occ (watch_of st)) True ids 0 =
      (quiet_fail sm (watch_of st))\<lparr>wt_thread := filter valid_id ids\<rparr>"
proof -
  have "watch_occ x \<noteq> 0" for x by (simp add: watch_occ_def max_def)
  moreover have "r \<in> set_option st \<Longrightarrow> prev_status_of st = ''fail'' \<longleftrightarrow> failing r" for r
    using norm_prev_status [OF n] by (cases st) auto
  ultimately show "saved_watch env st ''fail'' (watch_occ (watch_of st)) False (message_ids_of st) 0 =
      quiet_fail sm (watch_of st)"
    and "saved_watch env st ''fail'' (watch_occ (watch_of st)) True ids 0 =
      (quiet_fail sm (watch_of st))\<lparr>wt_thread := filter valid_id ids\<rparr>"
    using now n
    by (cases st; force simp: saved_watch_def quiet_fail_def start_of_def gorm_default_def watch0_def
        watch_of_def norm_row_def)+
qed

lemma fail_occurrences_watch:
  assumes "prep_ok env p w"
  shows "fail_occurrences p = watch_occ (watch_of (pr_state p))"
proof -
  have n: "\<forall>r. pr_state p = Some r \<longrightarrow> norm_row r" and pv: "pr_prev_status p = prev_status_of (pr_state p)"
    using assms by (simp_all add: prep_ok_def)
  show ?thesis
    using norm_prev_status [OF n] pv
    by (cases "pr_state p") (auto simp: fail_occurrences_def watch_occ_def watch0_def Let_def max_def)
qed

lemma in_delay_watch:
  assumes ok: "prep_ok env p w" and P: "wp_delayed P = requires_offline_delay (al_type (pr_alert p))"
    "wp_delay P = pr_fail_delay p"
  shows "in_delay env p \<longleftrightarrow> wt_thread (watch_of (pr_state p)) = [] \<and> wp_delayed P \<and>
    time_sub (e_now env) (start_of (e_now env) (watch_of (pr_state p))) < wp_delay P"
proof -
  have n: "\<forall>r. pr_state p = Some r \<longrightarrow> norm_row r" and i: "pr_prev_ids p = message_ids_of (pr_state p)"
    and k: "pr_prev_streak p = (case pr_state p of None \<Rightarrow> 0
       | Some st \<Rightarrow> if 0 < as_ok_streak st then as_ok_streak st else 0)"
    and pv: "pr_prev_status p = prev_status_of (pr_state p)"
    using ok by (simp_all add: prep_ok_def)
  show ?thesis
    using norm_prev_status [OF n] n
    by (cases "pr_state p")
       (auto simp: in_delay_def Let_def i k pv P start_of_def watch0_def norm_row_def watch_of_thread)
qed

lemma fail_refines:
  fixes s :: settings
  assumes up: "db_up svc env" and c: "codec_ok env" and ok: "prep_ok env p w"
    and st: "pr_status p = ''fail''"
    and P: "wp_delayed P = requires_offline_delay (al_type (pr_alert p))" "wp_delay P = pr_fail_delay p"
      "wp_min P = min_consecutive_fails svc (al_type (pr_alert p))" "wp_chats P = s_admin_chat_ids s"
    and sm: "sm_now sm = e_now env" "sm_muted sm = mute_active env (al_fingerprint (pr_alert p)) w"
  shows "\<exists>cs. w_outbox (handle_fail svc env s p w) = w_outbox w @ cs \<and>
     (let (act, x') = watch_fail P (sm\<lparr>sm_reply := replies env (length (w_outbox w)) cs []\<rparr>) (watch_of (pr_state p))
      in row_watch p (handle_fail svc env s p w) = x' \<and>
         action_calls act s (wt_thread (watch_of (pr_state p))) cs)"
proof -
  let ?x = "watch_of (pr_state p)"
  let ?a = "(pr_alert p)\<lparr>al_occurrences := fail_occurrences p\<rparr>"
  have n: "\<forall>r. pr_state p = Some r \<longrightarrow> norm_row r" and i: "pr_prev_ids p = message_ids_of (pr_state p)"
    and pv: "pr_prev_status p = prev_status_of (pr_state p)"
    using ok by (simp_all add: prep_ok_def)
  note dl = in_delay_watch [OF ok P(1,2)] and oc = fail_occurrences_watch [OF ok]
  have rf: "repeated_fail p \<longleftrightarrow> wt_fail ?x"
    by (cases "pr_state p") (auto simp: repeated_fail_def failing_def watch0_def)
  have th: "message_ids_of (pr_state p) = wt_thread ?x"
    by (simp add: watch_of_thread)
  have qf: "quiet_fail (sm\<lparr>sm_reply := ids\<rparr>) ?x = quiet_fail sm ?x" for ids
    by (simp add: quiet_fail_def)
  have quiet: "\<exists>cs. w_outbox v = w_outbox w @ cs \<and>
     (let (act, x') = watch_fail P (sm\<lparr>sm_reply := replies env (length (w_outbox w)) cs []\<rparr>) ?x
      in row_watch p v = x' \<and> action_calls act s (wt_thread ?x) cs)"
    if "v = save_fail svc env p ?a False (message_ids_of (pr_state p)) u" and "w_states u = w_states w"
      and "w_outbox u = w_outbox w"
      and "\<And>ids. watch_fail P (sm\<lparr>sm_reply := ids\<rparr>) ?x = (Silent, quiet_fail sm ?x)" for u v
  proof -
    have d: "False \<or> pr_state p = None \<longrightarrow> distinct (map fst (message_ids_of (pr_state p)))" by auto
    note S = save_fail_watch [OF up c prep_ok_cong [OF ok that(2)] st refl d, of "fail_occurrences p"]
    have "row_watch p v = quiet_fail sm ?x"
      using S(1) that(1) saved_quiet_fail(1) [OF n sm(1)] oc by simp
    moreover have "w_outbox v = w_outbox w @ []"
      using S(2) that(1,3) by simp
    ultimately show ?thesis using that(4) by (intro exI [of _ "[]"]) (simp add: action_calls_def)
  qed
  consider (wait) "in_delay env p" | (few) "\<not> in_delay env p" "pr_prev_ids p = []"
      "fail_occurrences p < min_consecutive_fails svc (al_type (pr_alert p))"
    | (thread) "\<not> in_delay env p" "\<not> (pr_prev_ids p = [] \<and>
        fail_occurrences p < min_consecutive_fails svc (al_type (pr_alert p)))"
        "repeated_fail p" "message_ids_of (pr_state p) \<noteq> []"
        "has_thread_for_all (s_admin_chat_ids s) (message_ids_of (pr_state p))"
    | (go) "\<not> in_delay env p" "\<not> (pr_prev_ids p = [] \<and>
        fail_occurrences p < min_consecutive_fails svc (al_type (pr_alert p)))"
        "\<not> (repeated_fail p \<and> message_ids_of (pr_state p) \<noteq> [] \<and>
           has_thread_for_all (s_admin_chat_ids s) (message_ids_of (pr_state p)))"
    by blast
  then show ?thesis
  proof cases
    case wait
    then show ?thesis
      using dl i by (intro quiet [OF _ refl refl])
        (auto simp: handle_fail_def Let_def watch_fail_def watch_due_def quiet_fail_def sm)
  next
    case few
    then show ?thesis
      using i oc P(3) th by (intro quiet [OF _ refl refl])
        (auto simp: handle_fail_def Let_def watch_fail_def watch_due_def quiet_fail_def sm)
  next
    case thread
    then show ?thesis
      using i th rf P(4) by (intro quiet [OF _ refl refl])
        (auto simp: handle_fail_def Let_def watch_fail_def quiet_fail_def sm)
  next
    case go
    have ht: "has_thread_for_all (wp_chats P) (wt_thread ?x) \<Longrightarrow> wt_thread ?x \<noteq> []"
      by (simp add: has_thread_for_all_def)
    have due: "\<not> (wt_thread ?x = [] \<and> \<not> watch_due P (sm_now sm) ?x)"
      using go(1,2) dl oc i th P(3) sm(1) by (auto simp: watch_due_def)
    have nt: "\<not> (wt_fail ?x \<and> has_thread_for_all (wp_chats P) (wt_thread ?x))"
      using go(3) rf th P(4) ht by auto
    have keep: "(case pr_state p of None \<Rightarrow> ?a
        | Some r \<Rightarrow> if repeated_fail p \<and> al_occurrences ?a < as_occurrences r
                   then ?a\<lparr>al_occurrences := as_occurrences r\<rparr> else ?a) = ?a"
      by (cases "pr_state p") (auto simp: repeated_fail_def oc watch_occ_def failing_def)
    obtain m u where mu: "is_muted svc env (al_fingerprint (pr_alert p)) w = (m, u)" by fastforce
    have m: "m = sm_muted sm" "w_states u = w_states w" "w_outbox u = w_outbox w"
      using is_muted_healthy [OF up, of "al_fingerprint (pr_alert p)" w] mu sm(2)
        is_muted_frame [of svc env "al_fingerprint (pr_alert p)" w] by simp_all
    have h: "handle_fail svc env s p w =
       (if m then save_fail svc env p ?a False (message_ids_of (pr_state p)) u
        else let (ids, v) = send_alert svc env s ?a (pr_state p) u in save_fail svc env p ?a True ids v)"
      using go mu unfolding handle_fail_def Let_def keep by auto
    show ?thesis
    proof (cases m)
      case True
      show ?thesis
        by (rule quiet [OF _ m(2,3)])
           (use h True due nt m in \<open>auto simp: watch_fail_def quiet_fail_def Let_def\<close>)
    next
      case False
      let ?r = "render_alert env ?a (a_public_base_url svc)"
      obtain cs where cs: "snd (send_alert svc env s ?a (pr_state p) u) = u\<lparr>w_outbox := w_outbox u @ cs\<rparr>"
        "round_calls (fst ?r) (snd ?r) (s_bot_token s) (s_admin_chat_ids s) cs"
        "message_ids_of (pr_state p) = [] \<longrightarrow>
           cs = map (\<lambda>ch. TgSend (s_bot_token s) ch (fst ?r) (snd ?r)) (s_admin_chat_ids s)"
        "fst (send_alert svc env s ?a (pr_state p) u) = replies env (length (w_outbox u)) cs []"
        using send_alert_world [of svc env s ?a "pr_state p" u] by blast
      let ?v = "u\<lparr>w_outbox := w_outbox u @ cs\<rparr>" and ?ids = "replies env (length (w_outbox w)) cs []"
      have sa: "send_alert svc env s ?a (pr_state p) u = (?ids, ?v)"
        using cs(1,4) m(3) by (simp add: prod_eq_iff)
      have hv: "handle_fail svc env s p w = save_fail svc env p ?a True ?ids ?v"
        using h False sa by simp
      have d: "True \<or> pr_state p = None \<longrightarrow> distinct (map fst ?ids)"
        by (simp add: replies_distinct)
      have sv: "w_states ?v = w_states w" using m(2) by simp
      note S = save_fail_watch [OF up c prep_ok_cong [OF ok sv] st refl d]
      have "row_watch p (handle_fail svc env s p w) = (quiet_fail sm ?x)\<lparr>wt_thread := filter valid_id ?ids\<rparr>"
        unfolding hv S(1) oc by (rule saved_quiet_fail(2) [OF n sm(1)])
      moreover have "watch_fail P (sm\<lparr>sm_reply := ?ids\<rparr>) ?x =
          (Notify, (quiet_fail sm ?x)\<lparr>wt_thread := filter valid_id ?ids\<rparr>)"
        using due nt False m(1) by (auto simp: watch_fail_def quiet_fail_def Let_def)
      moreover have "w_outbox (handle_fail svc env s p w) = w_outbox w @ cs"
        unfolding hv S(2) using m(3) by simp
      moreover have "action_calls Notify s (wt_thread ?x) cs"
        using cs(2,3) th by (auto simp: action_calls_def)
      ultimately show ?thesis by (intro exI [of _ cs]) simp
    qed
  qed
qed

end
