(* ===== verification/Alert_Invariant.thy ===== *)
theory Alert_Invariant
  imports Alert_Refine
begin

text \<open>
  What every operation of the alert service keeps, with any database failures and any answers of
  Telegram: the rows of \<open>alert_states\<close> are unique by fingerprint and by alert id, the rows of
  \<open>incidents\<close> by id and by fingerprint; and a sample touches only the rows of its fingerprint.
\<close>

definition store_ok :: "world \<Rightarrow> bool" where
  "store_ok w \<longleftrightarrow> keyed as_fingerprint (w_states w) \<and>
     distinct (filter (\<lambda>u. u \<noteq> None) (map as_alert_id (w_states w))) \<and>
     keyed in_id (w_incidents w) \<and> keyed in_fingerprint (w_incidents w)"

lemma store_ok_cong:
  "w_states v = w_states w \<Longrightarrow> w_incidents v = w_incidents w \<Longrightarrow> store_ok v = store_ok w"
  by (simp add: store_ok_def)

lemma db_exec_ok:
  assumes "store_ok w" and "\<And>v v'. w_states v = w_states w \<Longrightarrow> w_incidents v = w_incidents w \<Longrightarrow>
      f v = Inr v' \<Longrightarrow> store_ok v'"
  shows "store_ok (snd (db_exec env f w))"
proof -
  have t: "store_ok (db_tick w)" using assms(1) store_ok_cong [of "db_tick w" w] by simp
  have "store_ok v'" if "f (db_tick w) = Inr v'" for v'
    by (rule assms(2) [OF _ _ that]) simp_all
  then show ?thesis using t by (auto simp: db_exec_def split: sum.splits)
qed

lemma db_exec_keep:
  assumes w: "store_ok w" and f: "\<And>v v'. store_ok v \<Longrightarrow> f v = Inr v' \<Longrightarrow> store_ok v'"
  shows "store_ok (snd (db_exec env f w))"
proof (rule db_exec_ok [OF w])
  fix v v' assume "w_states v = w_states w" "w_incidents v = w_incidents w" and r: "f v = Inr v'"
  then have "store_ok v" using w store_ok_cong [of v w] by simp
  then show "store_ok v'" using r by (rule f)
qed

lemma upd_state_ok:
  assumes "store_ok w" and "\<And>r. as_fingerprint (f r) = as_fingerprint r"
    and "\<And>r. r \<in> set (w_states w) \<Longrightarrow> as_fingerprint r = fp \<Longrightarrow> as_alert_id (f r) = as_alert_id r"
  shows "store_ok (upd_state_rows fp f w)"
proof -
  have "map as_alert_id (row_upd as_fingerprint fp f (w_states w)) = map as_alert_id (w_states w)"
    using assms(3) by (auto simp: row_upd_def)
  then show ?thesis
    using assms(1,2) by (simp add: store_ok_def row_upd_keyed)
qed

lemma put_state_ok: "store_ok w \<Longrightarrow> put_state_row r w = Inr v \<Longrightarrow> store_ok v"
  by (auto dest!: put_state_rowD simp: store_ok_def row_put_keyed)
     (auto simp: row_put_def split: if_splits)

lemma put_incident_ok: "store_ok w \<Longrightarrow> put_incident_row r w = Inr v \<Longrightarrow> store_ok v"
  by (auto dest!: put_incident_rowD simp: store_ok_def row_put_keyed)
     (auto simp: row_put_def keyed_def split: if_splits)

text \<open>The row that gets a fresh alert id is the only one with its fingerprint.\<close>

lemma set_alert_id_distinct:
  assumes "keyed as_fingerprint rows" and "distinct (filter (\<lambda>u. u \<noteq> None) (map as_alert_id rows))"
    and "\<forall>r \<in> set rows. as_alert_id r = Some u \<longrightarrow> as_fingerprint r = fp"
    and "\<And>r. as_alert_id (f r) = Some u"
  shows "distinct (filter (\<lambda>u. u \<noteq> None) (map as_alert_id (row_upd as_fingerprint fp f rows)))"
  using assms
proof (induction rows)
  case (Cons r rows)
  have tl: "keyed as_fingerprint rows" using Cons.prems(1) by (simp add: keyed_def)
  have ids: "distinct (filter (\<lambda>u. u \<noteq> None) (map as_alert_id rows))"
    using Cons.prems(2) by (auto split: if_splits)
  have IH: "distinct (filter (\<lambda>u. u \<noteq> None) (map as_alert_id (row_upd as_fingerprint fp f rows)))"
    using Cons.IH [OF tl ids] Cons.prems(3,4) by auto
  show ?case
  proof (cases "as_fingerprint r = fp")
    case True
    then have nf: "fp \<notin> as_fingerprint ` set rows" using Cons.prems(1) by (auto simp: keyed_def)
    then have "row_upd as_fingerprint fp f rows = rows"
      unfolding row_upd_def by (intro map_idI) auto
    moreover have "Some u \<notin> as_alert_id ` set rows"
      using nf Cons.prems(3) by (metis image_iff list.set_intros(2))
    ultimately show ?thesis
      using True ids Cons.prems(4) by (auto simp: row_upd_def)
  next
    case False
    then have "as_alert_id r \<noteq> Some u" using Cons.prems(3) by auto
    moreover have "as_alert_id r \<noteq> None \<Longrightarrow> as_alert_id r \<notin> as_alert_id ` set rows"
      using Cons.prems(2) by auto
    ultimately show ?thesis
      using False IH Cons.prems(4) by (auto simp: row_upd_def image_iff split: if_splits)
  qed
qed (simp add: row_upd_def)

lemma ensure_ok:
  assumes "store_ok w"
  shows "store_ok (snd (ensure_alert_id svc env st w))"
proof -
  have gen: "store_ok (snd (db_exec env (\<lambda>v. if alert_id_taken u fp v then Inl ErrUnique
      else Inr (upd_state_rows fp (\<lambda>r. r\<lparr>as_alert_id := Some u, as_updated_at := t\<rparr>) v)) w1))"
    if "store_ok w1" for w1 u fp t
  proof (rule db_exec_ok [OF that], goal_cases)
    case (1 v v')
    then have "\<forall>r \<in> set (w_states v). as_alert_id r = Some u \<longrightarrow> as_fingerprint r = fp"
      by (auto simp: alert_id_taken_def list_ex_iff split: if_splits)
    then show ?case
      using 1 that set_alert_id_distinct [of "w_states v" u fp "\<lambda>r. r\<lparr>as_alert_id := Some u, as_updated_at := t\<rparr>"]
      by (auto simp: store_ok_def row_upd_keyed split: if_splits)
  qed
  obtain u w1 where u: "uuid_new env w = (u, w1)" by fastforce
  then have w1: "store_ok w1" using assms by (auto simp: uuid_new_def store_ok_def)
  show ?thesis
    using assms w1 by (simp add: ensure_alert_id_def u split: option.split) (auto simp: split_beta gen [OF w1])
qed

lemma update_ok:
  assumes "store_ok w" and "\<forall>r. st = Some r \<longrightarrow> a_has_db svc \<longrightarrow> as_alert_id r \<noteq> None"
  shows "store_ok (update_state svc env a st status notified ids k inc w)"
proof (cases st)
  case None
  have "store_ok (snd (db_exec env (put_state_row r) v))" if "store_ok v" for r v
    using that by (rule db_exec_keep) (rule put_state_ok)
  moreover have "store_ok (snd (uuid_new env w))" using assms by (simp add: store_ok_def)
  ultimately show ?thesis
    using None assms(1) by (simp add: update_state_def split_beta Let_def)
next
  case (Some r)
  show ?thesis
  proof (cases "a_has_db svc")
    case True
    have "as_fingerprint (state_payload env a r status notified ids k inc q) = as_fingerprint q"
      "as_alert_id (state_payload env a r status notified ids k inc q) = as_alert_id q" for q
      using assms(2) Some True by (auto simp: state_payload_def Let_def split: option.splits)
    then show ?thesis
      using assms(1) Some True
      by (auto simp: update_state_def intro!: db_exec_ok upd_state_ok) (auto simp: store_ok_def)
  qed (use Some assms in \<open>simp add: update_state_def\<close>)
qed

lemma incident_upd_ok:
  assumes "store_ok w" and "row_get in_fingerprint fp (w_incidents w) = Some inc"
    and "\<And>r. in_id (f r) = in_id r" and "\<And>r. in_fingerprint (f r) = fp"
  shows "store_ok (upd_incident_rows (in_id inc) f w)"
proof -
  have inc: "inc \<in> set (w_incidents w)" "in_fingerprint inc = fp"
    using row_get_SomeD [OF assms(2)] by auto
  have "r = inc" if "r \<in> set (w_incidents w)" "in_id r = in_id inc" for r
    using assms(1) that inc(1) by (auto simp: store_ok_def keyed_def distinct_map dest: inj_onD)
  then have "map in_fingerprint (row_upd in_id (in_id inc) f (w_incidents w)) = map in_fingerprint (w_incidents w)"
    using inc(2) assms(4) by (auto simp: row_upd_def)
  then show ?thesis
    using assms(1,3) by (simp add: store_ok_def keyed_def row_upd_keys)
qed

lemma sync_ok:
  assumes "store_ok w"
  shows "store_ok (snd (sync_incident svc env a status prev w))"
proof -
  let ?fp = "trim_space (al_fingerprint a)"
  have put: "store_ok (snd (db_exec env (put_incident_row r) v))" if "store_ok v" for r v
    using that by (rule db_exec_keep) (rule put_incident_ok)
  have t: "store_ok (db_tick w)" and u: "store_ok (snd (uuid_new env (db_tick w)))"
    using assms by (simp_all add: store_ok_def)
  have upd: "store_ok (snd (db_exec env (\<lambda>v. Inr (upd_incident_rows (in_id inc)
      (incident_updates env a inc ?fp status prev) v)) (db_tick w)))"
    if "row_get in_fingerprint ?fp (w_incidents w) = Some inc" for inc
  proof (rule db_exec_ok [OF t])
    fix v v' assume v: "w_states v = w_states (db_tick w)" "w_incidents v = w_incidents (db_tick w)"
      and r: "Inr (upd_incident_rows (in_id inc) (incident_updates env a inc ?fp status prev) v) = (Inr v' :: world result)"
    have k: "in_id (incident_updates env a inc ?fp status prev q) = in_id q"
      "in_fingerprint (incident_updates env a inc ?fp status prev q) = ?fp" for q
      by (simp_all add: incident_updates_def Let_def)
    have "store_ok v" using store_ok_cong [of v "db_tick w"] v t by simp
    then show "store_ok v'"
      using incident_upd_ok [of v ?fp inc, OF _ _ k] that v r by auto
  qed
  show ?thesis
  proof (cases "\<not> a_has_db svc \<or> ?fp = []")
    case False
    have f: "snd (db_first env r w) = db_tick w" for r :: "incident option" by simp
    obtain x where x: "db_first env (row_get in_fingerprint ?fp (w_incidents w)) w = (x, db_tick w)"
      by (metis f prod.collapse)
    show ?thesis
    proof (cases x)
      case (Inr inc)
      then have "row_get in_fingerprint ?fp (w_incidents w) = Some inc" using x by (auto dest: db_firstD)
      then show ?thesis using upd False x Inr
        by (simp add: sync_incident_def split_beta Let_def split: option.split)
    next
      case (Inl e)
      then show ?thesis using False x t put [OF u]
        by (cases e) (simp_all add: sync_incident_def split_beta Let_def split: option.split)
    qed
  qed (use assms in \<open>auto simp: sync_incident_def\<close>)
qed

section \<open>Laws of a sample\<close>

text \<open>
  What is kept by each operation that \<open>maybeSendAlert\<close> is made of is kept by a whole sample of the
  fingerprint \<open>fp\<close>, whose status is in \<open>S\<close>.
\<close>

locale sample_invariant =
  fixes svc :: alert_svc and env :: alert_env and fp :: string and S :: "string set"
    and I :: "world \<Rightarrow> bool"
  assumes tick: "I w \<Longrightarrow> I (db_tick w)"
    and ensure: "I w \<Longrightarrow> \<forall>r. st = Some r \<longrightarrow> as_fingerprint r = fp \<Longrightarrow>
      I (snd (ensure_alert_id svc env st w))"
    and update: "I w \<Longrightarrow> al_fingerprint a = fp \<Longrightarrow> status \<in> S \<Longrightarrow> 0 \<le> k \<Longrightarrow>
      \<forall>r. st = Some r \<longrightarrow> a_has_db svc \<longrightarrow> as_alert_id r \<noteq> None \<Longrightarrow>
      I (update_state svc env a st status notified ids k inc w)"
    and sync: "I w \<Longrightarrow> al_fingerprint a = fp \<Longrightarrow> I (snd (sync_incident svc env a status prev w))"
    and muted: "I w \<Longrightarrow> I (snd (is_muted svc env fp w))"
    and outbox: "I w \<Longrightarrow> I (w\<lparr>w_outbox := cs\<rparr>)"
begin

definition prepared_ok :: "prepared \<Rightarrow> bool" where
  "prepared_ok p \<longleftrightarrow> al_fingerprint (pr_alert p) = fp \<and> pr_status p \<in> S \<and> 0 \<le> pr_prev_streak p \<and>
     (\<forall>r. pr_state p = Some r \<longrightarrow> a_has_db svc \<longrightarrow> as_alert_id r \<noteq> None)"

lemma sync_upd:
  "I w \<Longrightarrow> al_fingerprint a = fp \<Longrightarrow> status' \<in> S \<Longrightarrow> 0 \<le> k \<Longrightarrow>
   \<forall>r. st = Some r \<longrightarrow> a_has_db svc \<longrightarrow> as_alert_id r \<noteq> None \<Longrightarrow>
   I (case sync_incident svc env a status prev w of
        (inc, v) \<Rightarrow> update_state svc env a st status' notified ids k inc v)"
  using sync [of w a status prev] by (auto split: prod.split intro!: update)

lemma keeps_check_muted: "I w \<Longrightarrow> prepared_ok p \<Longrightarrow> I (handle_check_muted svc env p w)"
  by (auto simp: handle_check_muted_def Let_def prepared_ok_def intro!: sync update)

lemma keeps_save: "I w \<Longrightarrow> prepared_ok p \<Longrightarrow> al_fingerprint a = fp \<Longrightarrow> I (save_fail svc env p a notified ids w)"
  unfolding save_fail_def Let_def by (rule sync_upd) (simp_all add: prepared_ok_def)

lemma keeps_ok:
  assumes "I w" and "prepared_ok p" and S: "''ok'' \<in> S" "''fail'' \<in> S"
  shows "I (handle_ok svc env s p w)"
proof -
  have fp: "al_fingerprint (pr_alert p) = fp" "\<And>n. al_fingerprint ((pr_alert p)\<lparr>al_occurrences := n\<rparr>) = fp"
    using assms(2) by (simp_all add: prepared_ok_def)
  have rec: "I (send_recovery svc env s a w)" for a
    unfolding send_recovery_world by (rule outbox [OF assms(1)])
  have id: "\<forall>r. pr_state p = Some r \<longrightarrow> a_has_db svc \<longrightarrow> as_alert_id r \<noteq> None"
    using assms(2) by (simp add: prepared_ok_def)
  show ?thesis
  proof (cases "pr_state p")
    case None
    then show ?thesis
      unfolding handle_ok_def Let_def by (auto intro!: sync_upd [OF assms(1) fp(1) S(1)])
  next
    case (Some r)
    then have id: "\<forall>q. Some r = Some q \<longrightarrow> a_has_db svc \<longrightarrow> as_alert_id q \<noteq> None"
      using id by simp
    have part: "I (update_state svc env (pr_alert p) (Some r) ''fail'' n ids (pr_prev_streak p + 1) inc w)"
      for n ids inc
      using assms(2) by (intro update [OF assms(1) fp(1) S(2) _ id]) (simp add: prepared_ok_def)
    show ?thesis
      unfolding handle_ok_def Let_def Some option.case
      by (auto intro!: sync_upd [OF assms(1) fp(1) S(1) _ id] sync_upd [OF assms(1) fp(2) S(1) _ id]
          sync_upd [OF rec fp(2) S(1) _ id] sync [OF part fp(1)])
  qed
qed

lemma keeps_fail:
  assumes "I w" and "prepared_ok p"
  shows "I (handle_fail svc env s p w)"
proof -
  let ?a = "(pr_alert p)\<lparr>al_occurrences := fail_occurrences p\<rparr>"
  let ?b = "case pr_state p of None \<Rightarrow> ?a
     | Some st \<Rightarrow> if repeated_fail p \<and> al_occurrences ?a < as_occurrences st
                 then ?a\<lparr>al_occurrences := as_occurrences st\<rparr> else ?a"
  have fp: "al_fingerprint ?a = fp" "al_fingerprint ?b = fp"
    using assms(2) by (auto simp: prepared_ok_def split: option.split)
  obtain m u where mu: "is_muted svc env fp w = (m, u)" by fastforce
  then have u: "I u" using muted [OF assms(1)] by (metis snd_conv)
  obtain ids v where sa: "send_alert svc env s ?b (pr_state p) u = (ids, v)" by fastforce
  then have v: "I v" using send_alert_world [of svc env s ?b "pr_state p" u] outbox [OF u] by auto
  show ?thesis
    unfolding handle_fail_def Let_def fp(2) mu prod.case sa
    by (simp add: keeps_save [OF _ assms(2) fp(1)] keeps_save [OF _ assms(2) fp(2)] assms(1) u v)
qed

lemma keeps_prepare:
  assumes "I w" and p: "prepare svc env active a0 w = (p, w')" and fp: "fp = fingerprint_for env a0"
    and "sample_status active a0 \<in> S"
  shows "I w' \<and> prepared_ok p"
proof -
  obtain st v where l: "load_state svc env fp w = (st, v)" by fastforce
  obtain aid state u where e: "ensure_alert_id svc env st v = ((aid, state), u)"
    by (cases "ensure_alert_id svc env st v") auto
  have v: "I v" using load_state_snd [of svc env fp w] l tick assms(1) by (auto split: if_splits)
  have stfp: "\<forall>r. st = Some r \<longrightarrow> as_fingerprint r = fp"
    using load_state_Some l by (fastforce dest: row_get_SomeD)
  have "I u" using ensure [OF v stfp] e by simp
  moreover have "w' = u" "al_fingerprint (pr_alert p) = fp" "pr_state p = state"
    "pr_status p = sample_status active a0" "0 \<le> pr_prev_streak p"
    using p l e fp by (auto simp: prepare_def Let_def split: option.splits)
  moreover have "\<forall>r. state = Some r \<longrightarrow> a_has_db svc \<longrightarrow> as_alert_id r \<noteq> None"
    using e by (auto simp: ensure_alert_id_def Let_def split: option.splits prod.splits if_splits)
  ultimately show ?thesis using assms(4) by (simp add: prepared_ok_def)
qed

theorem keeps_sample:
  assumes "I w" and "fp = fingerprint_for env a0" and S: "sample_status active a0 \<in> S" "''ok'' \<in> S" "''fail'' \<in> S"
  shows "I (maybe_send_alert svc env settings active a0 w)"
proof -
  obtain p v where p: "prepare svc env active a0 w = (p, v)" by fastforce
  have k: "I v" "prepared_ok p" using keeps_prepare [OF assms(1) p assms(2) S(1)] by simp_all
  show ?thesis
    unfolding maybe_send_alert_def p prod.case
    using assms(1) keeps_check_muted [OF k] keeps_ok [OF k S(2,3)] keeps_fail [OF k] by (simp split: option.split)
qed

end

lemma is_muted_store [simp]: "store_ok (snd (is_muted svc env fp w)) = store_ok w"
  by (rule store_ok_cong) (rule is_muted_frame)+

interpretation store: sample_invariant svc env fp UNIV store_ok for svc env fp
  by unfold_locales (simp_all add: ensure_ok update_ok sync_ok, simp_all add: store_ok_def)

section \<open>Other fingerprints\<close>

lemma row_upd_other:
  "fp' \<noteq> fp \<Longrightarrow> (\<And>r. key (f r) = key r) \<Longrightarrow> row_get key fp' (row_upd key fp f rows) = row_get key fp' rows"
  by (simp add: row_upd_get)

lemma db_exec_states:
  assumes "\<And>v v'. w_states v = w_states w \<Longrightarrow> f v = Inr v' \<Longrightarrow>
      row_get as_fingerprint fp' (w_states v') = row_get as_fingerprint fp' (w_states w)"
  shows "row_get as_fingerprint fp' (w_states (snd (db_exec env f w))) = row_get as_fingerprint fp' (w_states w)"
  using assms [of "db_tick w"] by (auto simp: db_exec_def split: sum.split)

lemma ensure_other:
  assumes "\<forall>r. st = Some r \<longrightarrow> as_fingerprint r = fp" and "fp' \<noteq> fp"
  shows "row_get as_fingerprint fp' (w_states (snd (ensure_alert_id svc env st w))) =
    row_get as_fingerprint fp' (w_states w)"
proof -
  obtain u w1 where u: "uuid_new env w = (u, w1)" by fastforce
  then have w1: "w_states w1 = w_states w" by (auto simp: uuid_new_def)
  have "row_get as_fingerprint fp' (w_states (snd (db_exec env (\<lambda>v. if alert_id_taken u fp v then Inl ErrUnique
      else Inr (upd_state_rows fp (\<lambda>r. r\<lparr>as_alert_id := Some u, as_updated_at := e_now env\<rparr>) v)) w1))) =
      row_get as_fingerprint fp' (w_states w1)"
    by (rule db_exec_states) (auto simp: row_upd_other [OF assms(2)] split: if_splits)
  then show ?thesis
    using assms(1) w1 by (simp add: ensure_alert_id_def u split: option.split) (auto simp: split_beta)
qed

lemma update_other:
  assumes "al_fingerprint a = fp" and "fp' \<noteq> fp"
  shows "row_get as_fingerprint fp' (w_states (update_state svc env a st status notified ids k inc w)) =
    row_get as_fingerprint fp' (w_states w)"
proof -
  have f: "as_fingerprint (state_payload env a r status notified ids k inc q) = as_fingerprint q" for r q
    by (simp add: state_payload_def Let_def split: option.splits)
  have n: "as_fingerprint (new_state_row env a u status ids k inc) = fp" for u
    using assms(1) by (simp add: new_state_row_def)
  have put: "row_get as_fingerprint fp' (w_states (snd (db_exec env (put_state_row (new_state_row env a u status ids k inc)) v))) =
      row_get as_fingerprint fp' (w_states v)" for u v
    using assms(2) n [of u] by (intro db_exec_states) (auto dest!: put_state_rowD simp: row_put_get)
  have upd: "row_get as_fingerprint fp' (w_states (snd (db_exec env (\<lambda>v. Inr (upd_state_rows fp
      (state_payload env a r status notified ids k inc) v)) w))) = row_get as_fingerprint fp' (w_states w)" for r
    by (rule db_exec_states) (auto simp: row_upd_other [where key = as_fingerprint, OF assms(2)] f)
  show ?thesis
    using upd by (simp add: update_state_def assms(1) split_beta Let_def put split: option.split)
qed

interpretation other_rows: sample_invariant svc env fp UNIV
    "\<lambda>v. fp' \<noteq> fp \<longrightarrow> row_get as_fingerprint fp' (w_states v) = x" for svc env fp fp' x
  by unfold_locales (simp_all add: update_other frame, metis ensure_other)

section \<open>The rows the service writes\<close>

text \<open>
  When the samples are ok or fail, every row has one of these two as its status, a start of the
  failure and an alert id.
\<close>

definition row_ok :: "alert_state \<Rightarrow> bool" where
  "row_ok r \<longleftrightarrow> norm_row r \<and> as_alert_id r \<noteq> None"

definition table_ok :: "world \<Rightarrow> bool" where
  "table_ok w \<longleftrightarrow> list_all row_ok (w_states w)"

lemma table_row: "table_ok w \<Longrightarrow> row_get as_fingerprint fp (w_states w) = Some r \<Longrightarrow> row_ok r"
  by (auto simp: table_ok_def list_all_iff dest: row_get_SomeD)

lemma upd_rows_table:
  "table_ok w \<Longrightarrow> (\<And>r. row_ok r \<Longrightarrow> row_ok (f r)) \<Longrightarrow> table_ok (upd_state_rows fp f w)"
  by (auto simp: table_ok_def list_all_iff set_row_upd)

lemma put_row_table: "table_ok w \<Longrightarrow> row_ok r \<Longrightarrow> put_state_row r w = Inr v \<Longrightarrow> table_ok v"
  by (auto dest!: put_state_rowD simp: table_ok_def row_put_def split: if_splits)

lemma table_ok_cong: "w_states v = w_states w \<Longrightarrow> table_ok v = table_ok w"
  by (simp add: table_ok_def)

lemma db_exec_table:
  assumes "table_ok w" and "\<And>v v'. table_ok v \<Longrightarrow> f v = Inr v' \<Longrightarrow> table_ok v'"
  shows "table_ok (snd (db_exec env f w))"
  using assms(2) [of "db_tick w"] assms(1) table_ok_cong [of "db_tick w" w]
  by (auto simp: db_exec_def split: sum.split)

lemma ensure_table:
  assumes "table_ok w"
  shows "table_ok (snd (ensure_alert_id svc env st w))"
proof -
  obtain u w1 where u: "uuid_new env w = (u, w1)" by fastforce
  then have w1: "table_ok w1" using assms by (auto simp: uuid_new_def table_ok_def)
  have "table_ok (snd (db_exec env (\<lambda>v. if alert_id_taken u fp v then Inl ErrUnique
      else Inr (upd_state_rows fp (\<lambda>r. r\<lparr>as_alert_id := Some u, as_updated_at := e_now env\<rparr>) v)) w1))" for fp
    using w1 by (rule db_exec_table)
      (auto split: if_splits intro!: upd_rows_table simp: row_ok_def norm_row_def)
  then show ?thesis
    using assms w1 by (simp add: ensure_alert_id_def u split: option.split) (auto simp: split_beta)
qed

lemma payload_norm:
  assumes "row_ok r" and "status = ''ok'' \<or> status = ''fail''" and "0 \<le> k"
    and "0 < e_now env"
  shows "row_ok (state_payload env a st status n ids k inc r)"
  using assms by (auto simp: row_ok_def state_payload_def Let_def norm_row_def split: option.split)

lemma update_table:
  assumes "table_ok w" and s: "status = ''ok'' \<or> status = ''fail''" "0 \<le> k" and now: "0 < e_now env"
  shows "table_ok (update_state svc env a st status n ids k inc w)"
proof -
  have new: "row_ok (new_state_row env a u status ids k inc)" for u
    using s now by (auto simp: row_ok_def norm_row_def new_state_row_def)
  have put: "table_ok (snd (db_exec env (put_state_row (new_state_row env a u status ids k inc)) v))" if "table_ok v" for u v
    using that by (rule db_exec_table) (rule put_row_table [OF _ new])
  have upd: "table_ok (snd (db_exec env (\<lambda>v. Inr (upd_state_rows (al_fingerprint a)
      (state_payload env a r status n ids k inc) v)) w))" for r
    using assms(1) by (rule db_exec_table) (auto intro!: upd_rows_table payload_norm [OF _ s now])
  have "table_ok (snd (uuid_new env w))" using assms(1) by (simp add: table_ok_def)
  then show ?thesis
    using upd put assms(1) by (simp add: update_state_def split_beta Let_def split: option.split)
qed

interpretation tbl_rows: sample_invariant svc env fp "{''ok'', ''fail''}"
    "\<lambda>v. 0 < e_now env \<longrightarrow> table_ok v" for svc env fp
proof unfold_locales
  fix w and a and cs :: "tg_call list" and status prev
  assume I: "0 < e_now env \<longrightarrow> table_ok w"
  show "0 < e_now env \<longrightarrow> table_ok (db_tick w)" "0 < e_now env \<longrightarrow> table_ok (w\<lparr>w_outbox := cs\<rparr>)"
    "0 < e_now env \<longrightarrow> table_ok (snd (is_muted svc env fp w))"
    "0 < e_now env \<longrightarrow> table_ok (snd (sync_incident svc env a status prev w))"
    using I by (auto simp: table_ok_def frame)
  show "0 < e_now env \<longrightarrow> table_ok (snd (ensure_alert_id svc env st w))" for st
    using I by (simp add: ensure_table)
  show "0 < e_now env \<longrightarrow> table_ok (update_state svc env a st status n ids k inc w)"
    if "status \<in> {''ok'', ''fail''}" "0 \<le> k" for st n ids k inc
    using I that by (auto intro!: update_table)
qed

section \<open>Samples do not mute\<close>

definition never_muted :: "world \<Rightarrow> bool" where
  "never_muted w \<longleftrightarrow> w_muted w = (\<lambda>_. None) \<and> list_all (\<lambda>r. as_muted_until r = None) (w_states w)"

lemma never_muted_inactive: "never_muted w \<Longrightarrow> \<not> mute_active env fp w"
  by (auto simp: never_muted_def mute_active_def list_all_iff list_ex_iff)

lemma never_muted_cong:
  "w_states v = w_states w \<Longrightarrow> w_muted v = w_muted w \<Longrightarrow> never_muted v = never_muted w"
  by (simp add: never_muted_def)

lemma db_exec_never:
  assumes "never_muted w" and "\<And>v v'. never_muted v \<Longrightarrow> f v = Inr v' \<Longrightarrow> never_muted v'"
  shows "never_muted (snd (db_exec env f w))"
  using assms(2) [of "db_tick w"] assms(1) never_muted_cong [of "db_tick w" w]
  by (auto simp: db_exec_def split: sum.split)

lemma upd_rows_never:
  "never_muted w \<Longrightarrow> (\<And>r. as_muted_until (f r) = as_muted_until r) \<Longrightarrow> never_muted (upd_state_rows fp f w)"
  by (auto simp: never_muted_def list_all_iff set_row_upd)

lemma put_row_never: "never_muted w \<Longrightarrow> as_muted_until r = None \<Longrightarrow> put_state_row r w = Inr v \<Longrightarrow> never_muted v"
  by (auto dest!: put_state_rowD simp: never_muted_def row_put_def split: if_splits)

lemma ensure_never:
  assumes "never_muted w"
  shows "never_muted (snd (ensure_alert_id svc env st w))"
proof -
  obtain u w1 where u: "uuid_new env w = (u, w1)" by fastforce
  then have w1: "never_muted w1" using assms by (auto simp: uuid_new_def never_muted_def)
  have "never_muted (snd (db_exec env (\<lambda>v. if alert_id_taken u fp v then Inl ErrUnique
      else Inr (upd_state_rows fp (\<lambda>r. r\<lparr>as_alert_id := Some u, as_updated_at := e_now env\<rparr>) v)) w1))" for fp
    using w1 by (rule db_exec_never) (auto split: if_splits intro!: upd_rows_never)
  then show ?thesis
    using assms w1 by (simp add: ensure_alert_id_def u split: option.split) (auto simp: split_beta)
qed

lemma update_never:
  assumes "never_muted w"
  shows "never_muted (update_state svc env a st status n ids k inc w)"
proof -
  have put: "never_muted (snd (db_exec env (put_state_row (new_state_row env a u status ids k inc)) v))" if "never_muted v" for u v
    using that by (rule db_exec_never) (erule (1) put_row_never [rotated 2], simp add: new_state_row_def)
  have "as_muted_until (state_payload env a r status n ids k inc q) = as_muted_until q" for r q
    by (simp add: state_payload_def Let_def split: option.splits)
  then have upd: "never_muted (snd (db_exec env (\<lambda>v. Inr (upd_state_rows (al_fingerprint a)
      (state_payload env a r status n ids k inc) v)) w))" for r
    using assms by (intro db_exec_never) (auto intro!: upd_rows_never)
  have "never_muted (snd (uuid_new env w))" using assms by (simp add: never_muted_def)
  then show ?thesis
    using upd put assms by (simp add: update_state_def split_beta Let_def split: option.split)
qed

lemma is_muted_never:
  assumes "never_muted w"
  shows "never_muted (snd (is_muted svc env fp w))"
proof -
  have "find (\<lambda>r. as_fingerprint r = fp \<and> (case as_muted_until r of None \<Rightarrow> False | Some m \<Rightarrow> e_now env < m)) (w_states w) = None"
    using assms by (auto simp: find_None_iff never_muted_def list_all_iff)
  then have "snd (muted_in_db svc env fp w) = w \<or> snd (muted_in_db svc env fp w) = db_tick w"
    by (auto simp: muted_in_db_def db_first_def)
  moreover have "never_muted (db_tick w)" using assms never_muted_cong [of "db_tick w" w] by simp
  ultimately show ?thesis using assms by (auto simp: is_muted_def never_muted_def)
qed

interpretation never: sample_invariant svc env fp UNIV never_muted for svc env fp
proof unfold_locales
  fix w a cs status prev assume I: "never_muted w"
  show "never_muted (db_tick w)" "never_muted (w\<lparr>w_outbox := cs\<rparr>)"
    "never_muted (snd (sync_incident svc env a status prev w))"
    using I by (auto simp: never_muted_def frame)
qed (simp_all add: ensure_never update_never is_muted_never)

end
