(* ===== verification/Alert_Machine.thy ===== *)
theory Alert_Machine
  imports Alert_Invariant
begin

text \<open>
  The alert service as a machine: one event per exported method of \<open>Service\<close>, each run in an
  environment of its own (the clock moves, the database may fail at any statement). The invariant
  of the tables is kept by every run.
\<close>

lemma same_data_ok: "same_data w v \<Longrightarrow> store_ok w \<Longrightarrow> store_ok v"
  by (simp add: same_data_def store_ok_def)

lemma set_mute_ok:
  assumes "store_ok w"
  shows "store_ok (set_mute svc env fp d w)"
proof -
  have w1: "store_ok (w\<lparr>w_muted := m\<rparr>)" for m using assms by (simp add: store_ok_def)
  show ?thesis
    using assms w1 by (auto simp: set_mute_def Let_def intro!: db_exec_keep upd_state_ok)
qed

lemma mute_by_alert_id_ok: "store_ok w \<Longrightarrow> store_ok (snd (mute_by_alert_id svc env aid d w))"
  using load_by_alert_id_snd [of svc env aid w] same_data_ok [of w "db_tick w"]
  by (auto simp: mute_by_alert_id_def split: prod.split option.split intro!: set_mute_ok)

lemma ack_ok:
  assumes "store_ok w"
  shows "store_ok (snd (ack_by_alert_id svc env aid w))"
proof (cases "a_has_db svc")
  case True
  obtain st w1 where l: "load_state_by_alert_id svc env aid w = (st, w1)" by fastforce
  have w1: "store_ok w1"
    using load_by_alert_id_snd [of svc env aid w] l assms same_data_ok [of w "db_tick w"] by auto
  show ?thesis
  proof (cases st)
    case (Some r)
    obtain q w2 where p: "policy_for_state svc env (Some r) w1 = (q, w2)" by fastforce
    then have w2: "store_ok w2"
      using policy_same [of w1 svc env "Some r"] same_data_ok [OF _ w1] by (metis snd_conv)
    let ?f = "\<lambda>v. Inr (upd_state_rows (as_fingerprint r)
       (\<lambda>r. r\<lparr>as_muted_until := Some (e_now env + dur_mul (fst q) minute),
             as_updated_at := e_now env, as_last_seen := e_now env\<rparr>) v) :: world result"
    obtain e w3 where e: "db_exec env ?f w2 = (e, w3)" by fastforce
    have "store_ok (snd (db_exec env ?f w2))"
      using w2 by (rule db_exec_keep) (auto intro!: upd_state_ok)
    then have w3: "store_ok w3" using e by simp
    have inc: "store_ok (snd (db_exec env (\<lambda>v. Inr (upd_incident_rows u
       (\<lambda>r. r\<lparr>in_status := ''acked'', in_acknowledged_at := Some (e_now env),
             in_acknowledged_by := Some ''telegram'', in_updated_at := e_now env\<rparr>) v)) w3))" for u
    proof (rule db_exec_keep [OF w3])
      fix v v' assume v: "store_ok v" and "Inr (upd_incident_rows u
       (\<lambda>r. r\<lparr>in_status := ''acked'', in_acknowledged_at := Some (e_now env),
             in_acknowledged_by := Some ''telegram'', in_updated_at := e_now env\<rparr>) v) = (Inr v' :: world result)"
      moreover have "map in_fingerprint (row_upd in_id u (\<lambda>r. r\<lparr>in_status := ''acked'',
         in_acknowledged_at := Some (e_now env), in_acknowledged_by := Some ''telegram'',
         in_updated_at := e_now env\<rparr>) (w_incidents v)) = map in_fingerprint (w_incidents v)"
        by (auto simp: row_upd_def)
      ultimately show "store_ok v'" by (auto simp: store_ok_def keyed_def row_upd_keys)
    qed
    obtain ack but where q: "q = (ack, but)" by fastforce
    show ?thesis
      using True e w3 inc unfolding q
      by (simp add: ack_by_alert_id_def l Some p q Let_def split: option.split)
  qed (use True l w1 in \<open>simp add: ack_by_alert_id_def\<close>)
qed (use assms in \<open>simp add: ack_by_alert_id_def\<close>)

lemma callback_mute_ok:
  assumes "store_ok v"
  shows "store_ok (snd (case mute_by_alert_id svc env aid d v of
        (None, w2) \<Rightarrow> (x, w2)
      | (Some err, w2) \<Rightarrow> if b then (x, set_mute svc env aid d w2) else (z err, w2)))"
proof -
  obtain r w2 where m: "mute_by_alert_id svc env aid d v = (r, w2)" by fastforce
  have "store_ok w2" using mute_by_alert_id_ok [OF assms, of svc env aid d] m by simp
  then show ?thesis by (simp add: m set_mute_ok split: option.split)
qed

lemma open_url_ok: "store_ok w \<Longrightarrow> store_ok (snd (open_url_for_alert svc env aid w))"
  using load_by_alert_id_snd [of svc env aid w] same_data_ok [of w "db_tick w"]
  by (auto simp: open_url_for_alert_def Let_def split: prod.split option.split)

lemma handle_callback_ok:
  assumes "store_ok w"
  shows "store_ok (snd (handle_callback svc env data w))"
proof -
  obtain action aid mins where p: "parse_callback_data data = (action, aid, mins)"
    by (cases "parse_callback_data data") auto
  obtain q w1 where pol: "policy_for_alert_id svc env aid w = (q, w1)" by fastforce
  then have w1: "store_ok w1"
    using policy_for_alert_id_same [of w svc env aid] assms same_data_ok by (metis snd_conv)
  obtain u w2 where opn: "open_url_for_alert svc env aid w = (u, w2)" by fastforce
  then have w2: "store_ok w2" using open_url_ok [OF assms, of svc env aid] by simp
  obtain e w3 where ack: "ack_by_alert_id svc env aid w = (e, w3)" by fastforce
  then have w3: "store_ok w3" using ack_ok [OF assms, of svc env aid] by simp
  obtain a b where q: "q = (a, b)" by fastforce
  note d = handle_callback_def p pol opn ack q
  show ?thesis
  proof (cases "action = ''mute''")
    case True
    show ?thesis
      by (cases "mins \<le> 0") (simp_all add: d True Let_def callback_mute_ok assms w1)
  next
    case False
    then show ?thesis
      using assms w2 w3 by (simp add: d split: option.split)
  qed
qed

lemma tg_do_ok: "tg_do env c w = (r, v) \<Longrightarrow> store_ok v = store_ok w"
  by (rule store_ok_cong) (auto simp: tg_do_def)

lemma settings_or_org_same: "same_data w (snd (settings_or_org svc env s org w))"
  by (auto simp: settings_or_org_def load_settings_for_org_def
      split: option.splits prod.splits sum.splits goerr.splits if_splits dest!: db_first_same)

section \<open>Events\<close>

datatype alert_event =
    EvConnection "settings option" "node option" bool bool "string option"
  | EvCPU "settings option" "node option" float64
  | EvMemory "settings option" "node option" float64
  | EvDisk "settings option" "node option" float64
  | EvGeneric "settings option" "node option" "service option" "check option" string int int "string option"
  | EvGenericBot "settings option" "node option" "bot option" "check option" bool int int "string option"
  | EvCallback string
  | EvMuteFingerprint string duration
  | EvSendMessage string string string
  | EvAnswer string string string

fun alert_step :: "alert_svc \<Rightarrow> alert_env \<times> alert_event \<Rightarrow> world \<Rightarrow> world" where
  "alert_step svc (env, EvConnection s n pok sok err) w = notify_connection svc env s n pok sok err w"
| "alert_step svc (env, EvCPU s n x) w = notify_cpu svc env s n x w"
| "alert_step svc (env, EvMemory s n x) w = notify_memory svc env s n x w"
| "alert_step svc (env, EvDisk s n x) w = notify_disk svc env s n x w"
| "alert_step svc (env, EvGeneric s n sv ck st lat code err) w = notify_generic svc env s n sv ck st lat code err w"
| "alert_step svc (env, EvGenericBot s n bt ck ok lat code err) w = notify_generic_bot svc env s n bt ck ok lat code err w"
| "alert_step svc (env, EvCallback data) w = snd (handle_callback svc env data w)"
| "alert_step svc (env, EvMuteFingerprint fp d) w = snd (mute_fingerprint svc env fp d w)"
| "alert_step svc (env, EvSendMessage tok chat text) w = snd (send_message svc env tok chat text w)"
| "alert_step svc (env, EvAnswer tok q text) w = snd (answer_callback svc env tok q text w)"

lemma sample_ok: "store_ok w \<Longrightarrow> store_ok (maybe_send_alert svc env s active a w)"
  by (rule store.keeps_sample [OF _ refl]) auto

lemma notify_generic_ok:
  assumes "store_ok w"
  shows "store_ok (notify_generic svc env s n sv ck st lat code err w)"
proof -
  obtain s' w1 where l: "settings_or_org svc env s (service_org_id sv n) w = (s', w1)" by fastforce
  then have "store_ok w1" using settings_or_org_same assms same_data_ok by (metis snd_conv)
  then show ?thesis
    by (simp add: notify_generic_def l Let_def sample_ok split: option.split)
qed

lemma notify_generic_bot_ok:
  assumes "store_ok w"
  shows "store_ok (notify_generic_bot svc env s n bt ck ok lat code err w)"
proof (cases n)
  case (Some nd)
  obtain s' w1 where l: "settings_or_org svc env s (n_org_id nd) w = (s', w1)" by fastforce
  then have "store_ok w1" using settings_or_org_same assms same_data_ok by (metis snd_conv)
  then show ?thesis
    by (simp add: notify_generic_bot_def Some l Let_def sample_ok split: option.split)
qed (use assms in \<open>simp add: notify_generic_bot_def split: option.split\<close>)

lemma notify_node_ok:
  assumes "store_ok w"
  shows "store_ok (notify_connection svc env s n pok sok err w)" and "store_ok (notify_cpu svc env s n x w)"
    and "store_ok (notify_memory svc env s n x w)" and "store_ok (notify_disk svc env s n x w)"
  using assms
  by (simp_all add: notify_connection_def notify_cpu_def notify_memory_def notify_disk_def sample_ok Let_def
      split: option.split)

lemma send_message_ok:
  assumes "store_ok w"
  shows "store_ok (snd (send_message svc env tok chat msg w))"
proof -
  have "store_ok (snd (case tg_do env c w of (Inl e, w1) \<Rightarrow> (Some (ErrMsg e), w1) | (Inr m, w1) \<Rightarrow> (None, w1)))" for c
    using assms by (auto split: prod.split sum.split dest: tg_do_ok)
  then show ?thesis using assms by (simp add: send_message_def Let_def)
qed

lemma answer_callback_ok:
  assumes "store_ok w"
  shows "store_ok (snd (answer_callback svc env tok q msg w))"
  using assms by (auto simp: answer_callback_def split: prod.split sum.split dest: tg_do_ok)

lemma alert_step_ok: "store_ok w \<Longrightarrow> store_ok (alert_step svc (env, e) w)"
  by (cases e) (simp_all add: notify_generic_ok notify_generic_bot_ok notify_node_ok send_message_ok
      answer_callback_ok handle_callback_ok mute_fingerprint_def set_mute_ok)

interpretation alerts: invariant_machine "alert_step svc" store_ok for svc
  by unfold_locales (metis alert_step_ok prod.collapse)

section \<open>Mutes\<close>

text \<open>What a mute makes true, until it ends, whatever the database does.\<close>

lemma set_mute_active:
  "trim_space fp \<noteq> [] \<Longrightarrow> e_now env2 < e_now env + d \<Longrightarrow> mute_active env2 fp (set_mute svc env fp d w)"
  by (auto simp: mute_active_def set_mute_def Let_def db_exec_def)

lemma is_muted_memory:
  "trim_space fp \<noteq> [] \<Longrightarrow> w_muted w fp = Some t \<Longrightarrow> e_now env < t \<Longrightarrow> is_muted svc env fp w = (True, w)"
  by (simp add: is_muted_def)

end
