(* ===== verification/Alert_Runs.thy ===== *)
theory Alert_Runs
  imports Alert_Machine
begin

text \<open>
  The refinement of a whole sample, and what follows for runs of samples of one fingerprint on a
  working database: when the first message is sent, when nothing is sent, when the recovery is.
\<close>

definition ready :: "alert_svc \<Rightarrow> alert_env \<Rightarrow> string \<Rightarrow> world \<Rightarrow> bool" where
  "ready svc env fp w \<longleftrightarrow> db_up svc env \<and> codec_ok env \<and> 0 < e_now env \<and> table_ok w \<and>
     (row_get as_fingerprint fp (w_states w) = None \<longrightarrow> fresh_ids env w)"

definition plain_sample :: "bool \<Rightarrow> alert \<Rightarrow> bool" where
  "plain_sample active a \<longleftrightarrow> sample_status active a \<in> {''ok'', ''fail''} \<and> al_occurrences a = 0"

definition watch_in :: "alert_env \<Rightarrow> alert \<Rightarrow> world \<Rightarrow> watch" where
  "watch_in env a w = watch_of (row_get as_fingerprint (fingerprint_for env a) (w_states w))"

lemma rel_state_watch: "rel_state s t \<Longrightarrow> watch_of s = watch_of t"
  by (cases s; cases t) (auto simp: rel_state_def dest: same_core_watch)

lemma same_core_norm: "same_core r q \<Longrightarrow> norm_row q \<Longrightarrow> norm_row r"
  by (simp add: same_core_def norm_row_def)

lemma prepared_ok_facts:
  assumes r: "ready svc env (fingerprint_for env a) w" and p: "prepare svc env active a w = (p, v)"
  shows "prep_ok env p v" and "watch_of (pr_state p) = watch_in env a w"
    and "al_fingerprint (pr_alert p) = fingerprint_for env a"
proof -
  have up: "db_up svc env" and t: "table_ok w" using r by (simp_all add: ready_def)
  have fr: "\<forall>r. row_get as_fingerprint (fingerprint_for env a) (w_states w) = Some r \<longrightarrow> as_alert_id r = None
      \<Longrightarrow> fresh_ids env w"
    using r table_row [OF t] by (auto simp: ready_def row_ok_def) (metis not_Some_eq)
  note P = prepare_healthy [OF up fr p]
  show fp: "al_fingerprint (pr_alert p) = fingerprint_for env a" by (rule P(4))
  show "watch_of (pr_state p) = watch_in env a w"
    using rel_state_watch [OF P(8)] by (simp add: watch_in_def)
  have "row_get as_fingerprint fp (w_states w) = Some q \<Longrightarrow> norm_row q" for fp q
    using table_row [OF t] by (simp add: row_ok_def)
  then have n: "\<forall>r. pr_state p = Some r \<longrightarrow> norm_row r"
    using P(8) same_core_norm by (auto simp: rel_state_def option_rel_Some1)
  show "prep_ok env p v"
    unfolding prep_ok_def fp using P(9,10,15,16,17) n by blast
qed

text \<open>One sample is one step of the specification.\<close>

lemma sample_refines:
  assumes r: "ready svc env (fingerprint_for env a) w" and pl: "plain_sample active a"
  shows "\<exists>cs. w_outbox (maybe_send_alert svc env (Some s) active a w) = w_outbox w @ cs \<and>
     (let (act, x') = watch_step (par_of svc s a)
            (sample_of env active a w (replies env (length (w_outbox w)) cs [])) (watch_in env a w)
      in watch_in env a (maybe_send_alert svc env (Some s) active a w) = x' \<and>
         action_calls act s (wt_thread (watch_in env a w)) cs)"
proof -
  have up: "db_up svc env" and c: "codec_ok env" and t: "table_ok w" using r by (simp_all add: ready_def)
  have fr: "\<forall>r. row_get as_fingerprint (fingerprint_for env a) (w_states w) = Some r \<longrightarrow> as_alert_id r = None
      \<Longrightarrow> fresh_ids env w"
    using r table_row [OF t] by (auto simp: ready_def row_ok_def) (metis not_Some_eq)
  obtain p v where p: "prepare svc env active a w = (p, v)" by fastforce
  note P = prepare_healthy [OF up fr p] and F = prepared_ok_facts [OF r p]
  have cm: "check_muted env (pr_alert p) = check_muted env a" by (simp add: check_muted_def P(5))
  have st: "pr_status p = ''ok'' \<or> pr_status p = ''fail''" using pl P(1) by (auto simp: plain_sample_def)
  have occ: "al_occurrences (pr_alert p) = 0" using pl P(3) by (simp add: plain_sample_def)
  have rw: "row_watch p u = watch_in env a u" for u by (simp add: row_watch_def watch_in_def F(3))
  let ?P = "par_of svc s a"
  have m: "maybe_send_alert svc env (Some s) active a w =
     (if check_muted env a then handle_check_muted svc env p v
      else if pr_status p = ''ok'' then handle_ok svc env s p v else handle_fail svc env s p v)"
    using up by (simp add: maybe_send_alert_def p cm db_up_def)
  show ?thesis
  proof (cases "check_muted env a")
    case True
    let ?sm = "sample_of env active a w (replies env (length (w_outbox w)) [] [])"
    have "sm_ok ?sm = (pr_status p = ''ok'')" "sm_now ?sm = e_now env"
      by (simp_all add: sample_of_def P(1))
    note M = check_muted_refines [OF up c F(1) st occ this]
    show ?thesis
      using M True P(12) unfolding m
      by (intro exI [of _ "[]"]) (simp add: rw F(2) watch_step_def sample_of_def action_calls_def)
  next
    case False
    show ?thesis
    proof (cases "pr_status p = ''ok''")
      case True
      obtain act x' where stp: "watch_ok ?P (watch_of (pr_state p)) = (act, x')" by fastforce
      have rec: "pr_recover_after p = wp_recover ?P" by (simp add: par_of_def P(7))
      note O = ok_refines [OF up c F(1) occ rec stp, where s = s]
      have ws: "watch_step ?P (sample_of env active a w ids) (watch_in env a w) = (act, x')" for ids
        using False True stp by (simp add: watch_step_def sample_of_def P(1) [symmetric] F(2))
      have nn: "act \<noteq> Notify" using stp by (auto simp: watch_ok_def Let_def split: if_splits)
      have "\<exists>cs. w_outbox (handle_ok svc env s p v) = w_outbox v @ cs \<and> action_calls act s (wt_thread (watch_in env a w)) cs"
      proof (cases "act = Recover")
        case True
        then show ?thesis using O(2) by (auto simp: recover_calls_def action_calls_def)
      next
        case False
        then show ?thesis using O(2) nn by (intro exI [of _ "[]"]) (cases act; simp add: action_calls_def)
      qed
      then show ?thesis
        using O(1) False True P(12) unfolding m by (auto simp: ws rw)
    next
      case False
      then have f: "pr_status p = ''fail''" using st by blast
      let ?sm = "sample_of env active a w []"
      have par: "wp_delayed ?P = requires_offline_delay (al_type (pr_alert p))" "wp_delay ?P = pr_fail_delay p"
        "wp_min ?P = min_consecutive_fails svc (al_type (pr_alert p))" "wp_chats ?P = s_admin_chat_ids s"
        by (simp_all add: par_of_def P)
      have sm: "sm_now ?sm = e_now env" "sm_muted ?sm = mute_active env (al_fingerprint (pr_alert p)) v"
        by (simp_all add: sample_of_def F(3) prepare_mute_active [OF p])
      obtain cs where cs: "w_outbox (handle_fail svc env s p v) = w_outbox v @ cs"
        "let (act, x') = watch_fail ?P (?sm\<lparr>sm_reply := replies env (length (w_outbox v)) cs []\<rparr>) (watch_of (pr_state p))
         in row_watch p (handle_fail svc env s p v) = x' \<and> action_calls act s (wt_thread (watch_of (pr_state p))) cs"
        using fail_refines [OF up c F(1) f par sm] by blast
      have ws: "watch_step ?P (sample_of env active a w ids) (watch_in env a w) =
          watch_fail ?P (?sm\<lparr>sm_reply := ids\<rparr>) (watch_of (pr_state p))" for ids
        using \<open>\<not> check_muted env a\<close> f by (simp add: watch_step_def sample_of_def P(1) [symmetric] F(2))
      show ?thesis
        using cs \<open>\<not> check_muted env a\<close> False P(12) unfolding m
        by (intro exI [of _ cs]) (simp add: ws rw F(2))
    qed
  qed
qed

lemma sample_cases:
  assumes "ready svc env (fingerprint_for env a) w" and "plain_sample active a"
  obtains cs act x' where
    "w_outbox (maybe_send_alert svc env (Some s) active a w) = w_outbox w @ cs"
    "watch_step (par_of svc s a) (sample_of env active a w (replies env (length (w_outbox w)) cs []))
       (watch_in env a w) = (act, x')"
    "watch_in env a (maybe_send_alert svc env (Some s) active a w) = x'"
    "action_calls act s (wt_thread (watch_in env a w)) cs"
proof -
  obtain cs where cs: "w_outbox (maybe_send_alert svc env (Some s) active a w) = w_outbox w @ cs"
    "let (act, x') = watch_step (par_of svc s a)
            (sample_of env active a w (replies env (length (w_outbox w)) cs [])) (watch_in env a w)
      in watch_in env a (maybe_send_alert svc env (Some s) active a w) = x' \<and>
         action_calls act s (wt_thread (watch_in env a w)) cs"
    using sample_refines [OF assms] by blast
  obtain act x' where w: "watch_step (par_of svc s a) (sample_of env active a w
      (replies env (length (w_outbox w)) cs [])) (watch_in env a w) = (act, x')" by fastforce
  show ?thesis using that [OF cs(1) w] cs(2) w by simp
qed

text \<open>A sample leaves the service ready for the next one.\<close>

lemma sample_table:
  assumes "0 < e_now env" and "table_ok w" and "plain_sample active a"
  shows "table_ok (maybe_send_alert svc env (Some s) active a w)"
  using tbl_rows.keeps_sample [of env w "fingerprint_for env a" a active svc "Some s"] assms
  by (simp add: plain_sample_def)

lemma watch_fail_known: "watch_fail P sm x = (act, x') \<Longrightarrow> wt_known x' \<and> wt_fail x' \<and> wt_streak x' = 0"
  by (auto simp: watch_fail_def Let_def split: if_splits)

lemma watch_step_known:
  assumes "watch_step P sm x = (act, x')" and "wt_known x \<or> \<not> wt_fail x"
  shows "wt_known x'"
  using assms watch_fail_known
  by (auto simp: watch_step_def watch_muted_def watch_ok_def Let_def split: if_splits dest!: watch_fail_known)

lemma sample_known:
  assumes "ready svc env (fingerprint_for env a) w" and "plain_sample active a"
  shows "row_get as_fingerprint (fingerprint_for env a) (w_states (maybe_send_alert svc env (Some s) active a w)) \<noteq> None"
proof -
  have "wt_known (watch_in env a w) \<or> \<not> wt_fail (watch_in env a w)"
    unfolding watch_in_def
    by (cases "row_get as_fingerprint (fingerprint_for env a) (w_states w)") (simp_all add: watch0_def)
  then have "wt_known (watch_in env a (maybe_send_alert svc env (Some s) active a w))"
    using sample_cases [OF assms, of s] watch_step_known by metis
  then show ?thesis by (intro notI) (simp add: watch_in_def watch0_def)
qed

section \<open>Runs\<close>

text \<open>Samples of one fingerprint, each at its time; the rest of the environment stays.\<close>

type_synonym timed_sample = "instant \<times> bool \<times> alert"

definition at_time :: "alert_env \<Rightarrow> instant \<Rightarrow> alert_env" where
  "at_time env t = env\<lparr>e_now := t\<rparr>"

fun sample_run :: "alert_svc \<Rightarrow> alert_env \<Rightarrow> settings \<Rightarrow> timed_sample list \<Rightarrow> world \<Rightarrow> world" where
  "sample_run svc env s [] w = w"
| "sample_run svc env s ((t, active, a) # es) w =
     sample_run svc env s es (maybe_send_alert svc (at_time env t) (Some s) active a w)"

lemma sample_run_append:
  "sample_run svc env s (es @ fs) w = sample_run svc env s fs (sample_run svc env s es w)"
  by (induction svc env s es w rule: sample_run.induct) auto

definition stream :: "alert_env \<Rightarrow> string \<Rightarrow> timed_sample list \<Rightarrow> bool" where
  "stream env fp es \<longleftrightarrow> list_all (\<lambda>(t, active, a). 0 < t \<and> plain_sample active a \<and> fingerprint_for env a = fp) es"

lemma at_time_fp [simp]: "fingerprint_for (at_time env t) a = fingerprint_for env a"
  by (cases "al_type a") (simp_all add: at_time_def fingerprint_for_def Let_def)

lemma at_time_sel [simp]: "e_now (at_time env t) = t" "e_tg (at_time env t) = e_tg env"
  by (simp_all add: at_time_def)

lemma watch_in_time [simp]: "watch_in (at_time env t) a = watch_in env a"
  by (rule ext) (simp add: watch_in_def)

lemma ready_time: "ready svc env fp w \<Longrightarrow> 0 < t \<Longrightarrow> ready svc (at_time env t) fp w"
  by (simp add: ready_def at_time_def db_up_def codec_ok_def fresh_ids_def)

lemma ready_step:
  assumes r: "ready svc env fp w" and t: "0 < t" and pl: "plain_sample active a" and fp: "fingerprint_for env a = fp"
  shows "ready svc env fp (maybe_send_alert svc (at_time env t) (Some s) active a w)"
proof -
  have r': "ready svc (at_time env t) (fingerprint_for (at_time env t) a) w"
    using ready_time [OF r t] fp by simp
  have "row_get as_fingerprint fp (w_states (maybe_send_alert svc (at_time env t) (Some s) active a w)) \<noteq> None"
    using sample_known [OF r' pl, of s] fp by simp
  moreover have "table_ok (maybe_send_alert svc (at_time env t) (Some s) active a w)"
    using r t by (intro sample_table [OF _ _ pl]) (simp_all add: ready_def)
  ultimately show ?thesis using r by (auto simp: ready_def)
qed

lemma ready_run: "ready svc env fp w \<Longrightarrow> stream env fp es \<Longrightarrow> ready svc env fp (sample_run svc env s es w)"
  by (induction svc env s es w rule: sample_run.induct) (auto simp: stream_def intro: ready_step)

lemma never_muted_run: "never_muted w \<Longrightarrow> never_muted (sample_run svc env s es w)"
  by (induction svc env s es w rule: sample_run.induct) (auto intro: never.keeps_sample)

section \<open>Until the first message\<close>

text \<open>A message to each chat, all with the same text.\<close>

definition broadcast :: "settings \<Rightarrow> tg_call list \<Rightarrow> bool" where
  "broadcast s cs \<longleftrightarrow> (\<exists>text kb. cs = map (\<lambda>c. TgSend (s_bot_token s) c text kb) (s_admin_chat_ids s))"

text \<open>Failing samples that no mute swallows.\<close>

definition loud_fails :: "alert_svc \<Rightarrow> alert_env \<Rightarrow> string \<Rightarrow> timed_sample list \<Rightarrow> bool" where
  "loud_fails svc env fp es \<longleftrightarrow> stream env fp es \<and>
     list_all (\<lambda>(t, active, a). sample_status active a = ''fail'' \<and> \<not> check_muted (at_time env t) a) es"

lemma fail_sample_cases:
  assumes r: "ready svc env fp w" and t: "0 < t" and pl: "plain_sample active a"
    and fp: "fingerprint_for env a = fp" and f: "sample_status active a = ''fail''"
    and m: "\<not> check_muted (at_time env t) a"
  obtains cs act x' sm where
    "w_outbox (maybe_send_alert svc (at_time env t) (Some s) active a w) = w_outbox w @ cs"
    "watch_fail (par_of svc s a) sm (watch_in env a w) = (act, x')"
    "sm_now sm = t" "sm_muted sm = mute_active (at_time env t) fp w"
    "sm_reply sm = replies (at_time env t) (length (w_outbox w)) cs []"
    "watch_in env a (maybe_send_alert svc (at_time env t) (Some s) active a w) = x'"
    "action_calls act s (wt_thread (watch_in env a w)) cs"
proof -
  have r': "ready svc (at_time env t) (fingerprint_for (at_time env t) a) w"
    using ready_time [OF r t] fp by simp
  show ?thesis
    by (rule sample_cases [OF r' pl, of s])
      (rule that, auto simp: watch_step_def sample_of_def f m fp)
qed

text \<open>
  The watch after \<open>n\<close> failing samples of which none was due: nothing sent, all counted, the
  failure dated from the first.
\<close>

definition waiting :: "nat \<Rightarrow> instant \<Rightarrow> watch \<Rightarrow> bool" where
  "waiting n t0 x \<longleftrightarrow> wt_thread x = [] \<and>
     (if n = 0 then \<not> wt_fail x \<and> wt_since x = None
      else wt_fail x \<and> wt_occ x = int n \<and> wt_streak x = 0 \<and> wt_since x = Some t0)"

lemma waiting_start: "waiting n t0 x \<Longrightarrow> start_of t x = (if n = 0 then t else t0)"
  by (auto simp: waiting_def start_of_def split: if_splits)

lemma waiting_occ: "waiting n t0 x \<Longrightarrow> watch_occ x = int n + 1"
  by (auto simp: waiting_def watch_occ_def split: if_splits)

lemma watch_fail_waiting:
  assumes w: "waiting n t0 x" and t0: "n = 0 \<Longrightarrow> sm_now sm = t0"
  shows "if watch_due P (sm_now sm) x then \<not> sm_muted sm \<longrightarrow> fst (watch_fail P sm x) = Notify
    else fst (watch_fail P sm x) = Silent \<and> waiting (Suc n) t0 (snd (watch_fail P sm x))"
  using w waiting_start [OF w] waiting_occ [OF w] t0
  by (auto simp: watch_fail_def Let_def waiting_def has_thread_for_all_def split: if_splits)

text \<open>The parameters that a sample contributes are those of its stream.\<close>

definition same_par :: "alert_svc \<Rightarrow> settings \<Rightarrow> watch_par \<Rightarrow> timed_sample list \<Rightarrow> bool" where
  "same_par svc s P es \<longleftrightarrow> list_all (\<lambda>(t, active, a). par_of svc s a = P) es"

definition due :: "watch_par \<Rightarrow> nat \<Rightarrow> instant \<Rightarrow> instant \<Rightarrow> bool" where
  "due P n t0 t \<longleftrightarrow> wp_min P \<le> int n + 1 \<and> \<not> (wp_delayed P \<and> time_sub t t0 < wp_delay P)"

text \<open>No failing sample is due: nothing is sent.\<close>

lemma quiet_run:
  assumes "ready svc env fp w" and "loud_fails svc env fp es" and "same_par svc s P es"
    and "waiting n t0 (watch_of (row_get as_fingerprint fp (w_states w)))"
    and "n = 0 \<Longrightarrow> es \<noteq> [] \<Longrightarrow> fst (hd es) = t0"
    and "\<And>i. i < length es \<Longrightarrow> \<not> due P (n + i) t0 (fst (es ! i))"
  shows "w_outbox (sample_run svc env s es w) = w_outbox w \<and>
    waiting (n + length es) t0 (watch_of (row_get as_fingerprint fp (w_states (sample_run svc env s es w)))) \<and>
    ready svc env fp (sample_run svc env s es w)"
  using assms
proof (induction es arbitrary: n w)
  case (Cons e es)
  obtain t active a where e: "e = (t, active, a)" by (cases e)
  have pl: "plain_sample active a" "fingerprint_for env a = fp" "0 < t" "sample_status active a = ''fail''"
    "\<not> check_muted (at_time env t) a" "par_of svc s a = P"
    using Cons.prems(2,3) by (auto simp: loud_fails_def stream_def same_par_def e)
  have wi: "watch_in env a v = watch_of (row_get as_fingerprint fp (w_states v))" for v
    by (simp add: watch_in_def pl(2))
  let ?w = "maybe_send_alert svc (at_time env t) (Some s) active a w"
  obtain cs act x' sm where S: "w_outbox ?w = w_outbox w @ cs"
    "watch_fail P sm (watch_in env a w) = (act, x')" "sm_now sm = t" "watch_in env a ?w = x'"
    "action_calls act s (wt_thread (watch_in env a w)) cs"
    using fail_sample_cases [OF Cons.prems(1) pl(3,1,2,4,5), of s] pl(6) by metis
  have wt: "waiting n t0 (watch_in env a w)" using Cons.prems(4) wi by simp
  have t0: "n = 0 \<Longrightarrow> t = t0" using Cons.prems(5) e by simp
  have "\<not> due P n t0 t" using Cons.prems(6) [of 0] e by simp
  then have "\<not> watch_due P t (watch_in env a w)"
    using waiting_start [OF wt] waiting_occ [OF wt] t0 by (auto simp: watch_due_def due_def)
  then have q: "act = Silent" "waiting (Suc n) t0 x'"
    using watch_fail_waiting [OF wt, of sm P] S(2,3) t0 by auto
  have out: "w_outbox ?w = w_outbox w" using S(1,5) q(1) by (simp add: action_calls_def)
  have rd: "ready svc env fp ?w" by (rule ready_step [OF Cons.prems(1) pl(3,1,2)])
  have nd: "i < length es \<Longrightarrow> \<not> due P (Suc n + i) t0 (fst (es ! i))" for i
    using Cons.prems(6) [of "Suc i"] by simp
  have "w_outbox (sample_run svc env s es ?w) = w_outbox ?w \<and>
    waiting (Suc n + length es) t0 (watch_of (row_get as_fingerprint fp (w_states (sample_run svc env s es ?w)))) \<and>
    ready svc env fp (sample_run svc env s es ?w)"
    using Cons.prems(2,3) nd q(2) S(4) wi
    by (intro Cons.IH [OF rd]) (auto simp: loud_fails_def stream_def same_par_def)
  then show ?case using e out by simp
qed simp

text \<open>The first due sample is sent, once to each chat, unless the alert is muted.\<close>

lemma due_sample:
  assumes r: "ready svc env fp w" and l: "loud_fails svc env fp [(t, active, a)]" and P: "par_of svc s a = P"
    and wt: "waiting n t0 (watch_of (row_get as_fingerprint fp (w_states w)))" and t0: "n = 0 \<Longrightarrow> t = t0"
    and d: "due P n t0 t" and m: "\<not> mute_active (at_time env t) fp w"
  shows "\<exists>cs. w_outbox (sample_run svc env s [(t, active, a)] w) = w_outbox w @ cs \<and> broadcast s cs"
proof -
  have pl: "plain_sample active a" "fingerprint_for env a = fp" "0 < t" "sample_status active a = ''fail''"
    "\<not> check_muted (at_time env t) a"
    using l by (auto simp: loud_fails_def stream_def)
  let ?w = "maybe_send_alert svc (at_time env t) (Some s) active a w"
  obtain cs act x' sm where S: "w_outbox ?w = w_outbox w @ cs"
    "watch_fail P sm (watch_in env a w) = (act, x')" "sm_now sm = t" "sm_muted sm = mute_active (at_time env t) fp w"
    "action_calls act s (wt_thread (watch_in env a w)) cs"
    using fail_sample_cases [OF r pl(3,1,2,4,5), of s] P by metis
  have wi: "waiting n t0 (watch_in env a w)" using wt by (simp add: watch_in_def pl(2))
  have "watch_due P t (watch_in env a w)"
    using waiting_start [OF wi] waiting_occ [OF wi] t0 d by (auto simp: watch_due_def due_def)
  then have "act = Notify" using watch_fail_waiting [OF wi, of sm P] S(2,3,4) t0 m by auto
  moreover have "wt_thread (watch_in env a w) = []" using wi by (simp add: waiting_def)
  ultimately show ?thesis using S(1,5) by (auto simp: action_calls_def broadcast_def)
qed

section \<open>After the first message\<close>

text \<open>While every chat has its message, failing samples are silent and the messages stay.\<close>

definition threaded :: "settings \<Rightarrow> watch \<Rightarrow> bool" where
  "threaded s x \<longleftrightarrow> wt_fail x \<and> has_thread_for_all (s_admin_chat_ids s) (wt_thread x)"

lemma threaded_run:
  assumes "ready svc env fp w" and "loud_fails svc env fp es"
    and "threaded s (watch_of (row_get as_fingerprint fp (w_states w)))"
  shows "w_outbox (sample_run svc env s es w) = w_outbox w \<and>
    threaded s (watch_of (row_get as_fingerprint fp (w_states (sample_run svc env s es w))))"
  using assms
proof (induction es arbitrary: w)
  case (Cons e es)
  obtain t active a where e: "e = (t, active, a)" by (cases e)
  have pl: "plain_sample active a" "fingerprint_for env a = fp" "0 < t" "sample_status active a = ''fail''"
    "\<not> check_muted (at_time env t) a"
    using Cons.prems(2) by (auto simp: loud_fails_def stream_def e)
  have wi: "watch_in env a v = watch_of (row_get as_fingerprint fp (w_states v))" for v
    by (simp add: watch_in_def pl(2))
  let ?w = "maybe_send_alert svc (at_time env t) (Some s) active a w"
  obtain cs act x' sm where S: "w_outbox ?w = w_outbox w @ cs"
    "watch_fail (par_of svc s a) sm (watch_in env a w) = (act, x')" "watch_in env a ?w = x'"
    "action_calls act s (wt_thread (watch_in env a w)) cs"
    using fail_sample_cases [OF Cons.prems(1) pl(3,1,2,4,5), of s] by metis
  have th: "threaded s (watch_in env a w)" using Cons.prems(3) wi by simp
  then have "wt_thread (watch_in env a w) \<noteq> []" by (auto simp: threaded_def has_thread_for_all_def)
  then have q: "act = Silent" "threaded s x'"
    using S(2) th by (auto simp: watch_fail_def threaded_def Let_def par_of_def)
  have out: "w_outbox ?w = w_outbox w" using S(1,4) q(1) by (simp add: action_calls_def)
  have rd: "ready svc env fp ?w" by (rule ready_step [OF Cons.prems(1) pl(3,1,2)])
  have "w_outbox (sample_run svc env s es ?w) = w_outbox ?w \<and>
    threaded s (watch_of (row_get as_fingerprint fp (w_states (sample_run svc env s es ?w))))"
    using Cons.prems(2) q(2) S(3) wi by (intro Cons.IH [OF rd]) (auto simp: loud_fails_def stream_def)
  then show ?case using e out by simp
qed simp

text \<open>Ok samples that no mute swallows, all with the same number of oks to recover.\<close>

definition loud_oks :: "alert_svc \<Rightarrow> alert_env \<Rightarrow> string \<Rightarrow> int \<Rightarrow> timed_sample list \<Rightarrow> bool" where
  "loud_oks svc env fp k es \<longleftrightarrow> stream env fp es \<and>
     list_all (\<lambda>(t, active, a). sample_status active a = ''ok'' \<and> \<not> check_muted (at_time env t) a \<and>
       recover_after a = k) es"

definition recovering :: "nat \<Rightarrow> watch \<Rightarrow> bool" where
  "recovering n x \<longleftrightarrow> wt_fail x \<and> wt_streak x = int n \<and> wt_thread x \<noteq> []"

definition settled :: "watch \<Rightarrow> bool" where
  "settled x \<longleftrightarrow> \<not> wt_fail x \<and> wt_thread x = [] \<and> wt_streak x = 0 \<and> wt_since x = None"

lemma ok_sample_cases:
  assumes r: "ready svc env fp w" and l: "loud_oks svc env fp k [(t, active, a)]"
  obtains cs act x' where
    "w_outbox (maybe_send_alert svc (at_time env t) (Some s) active a w) = w_outbox w @ cs"
    "watch_ok (par_of svc s a) (watch_in env a w) = (act, x')" "wp_recover (par_of svc s a) = k"
    "watch_in env a (maybe_send_alert svc (at_time env t) (Some s) active a w) = x'"
    "action_calls act s (wt_thread (watch_in env a w)) cs"
    "ready svc env fp (maybe_send_alert svc (at_time env t) (Some s) active a w)"
proof -
  have pl: "plain_sample active a" "fingerprint_for env a = fp" "0 < t" "sample_status active a = ''ok''"
    "\<not> check_muted (at_time env t) a" "recover_after a = k"
    using l by (auto simp: loud_oks_def stream_def)
  have r': "ready svc (at_time env t) (fingerprint_for (at_time env t) a) w"
    using ready_time [OF r pl(3)] pl(2) by simp
  have rd: "ready svc env fp (maybe_send_alert svc (at_time env t) (Some s) active a w)"
    by (rule ready_step [OF r pl(3,1,2)])
  show ?thesis
    by (rule sample_cases [OF r' pl(1), of s])
      (rule that, auto simp: watch_step_def sample_of_def par_of_def pl rd)
qed

lemma quiet_oks:
  assumes "ready svc env fp w" and "loud_oks svc env fp k es" and "int (n + length es) < k"
    and "recovering n (watch_of (row_get as_fingerprint fp (w_states w)))"
  shows "w_outbox (sample_run svc env s es w) = w_outbox w \<and>
    recovering (n + length es) (watch_of (row_get as_fingerprint fp (w_states (sample_run svc env s es w)))) \<and>
    ready svc env fp (sample_run svc env s es w)"
  using assms
proof (induction es arbitrary: n w)
  case (Cons e es)
  obtain t active a where e: "e = (t, active, a)" by (cases e)
  have one: "loud_oks svc env fp k [(t, active, a)]" and fp: "fingerprint_for env a = fp"
    using Cons.prems(2) by (auto simp: loud_oks_def stream_def e)
  have wi: "watch_in env a v = watch_of (row_get as_fingerprint fp (w_states v))" for v
    by (simp add: watch_in_def fp)
  let ?w = "maybe_send_alert svc (at_time env t) (Some s) active a w"
  obtain cs act x' where S: "w_outbox ?w = w_outbox w @ cs"
    "watch_ok (par_of svc s a) (watch_in env a w) = (act, x')" "wp_recover (par_of svc s a) = k"
    "watch_in env a ?w = x'" "action_calls act s (wt_thread (watch_in env a w)) cs" "ready svc env fp ?w"
    using ok_sample_cases [OF Cons.prems(1) one] by metis
  have "recovering n (watch_in env a w)" using Cons.prems(4) wi by simp
  then have q: "act = Silent" "recovering (Suc n) x'"
    using S(2,3) Cons.prems(3) by (auto simp: watch_ok_def recovering_def split: if_splits)
  have out: "w_outbox ?w = w_outbox w" using S(1,5) q(1) by (simp add: action_calls_def)
  have "w_outbox (sample_run svc env s es ?w) = w_outbox ?w \<and>
    recovering (Suc n + length es) (watch_of (row_get as_fingerprint fp (w_states (sample_run svc env s es ?w)))) \<and>
    ready svc env fp (sample_run svc env s es ?w)"
    using Cons.prems(2,3) q(2) S(4) wi by (intro Cons.IH [OF S(6)]) (auto simp: loud_oks_def stream_def)
  then show ?case using e out by simp
qed simp

lemma recover_sample:
  assumes r: "ready svc env fp w" and l: "loud_oks svc env fp k [(t, active, a)]" and k: "k \<le> int n + 1"
    and x: "recovering n (watch_of (row_get as_fingerprint fp (w_states w)))"
  shows "(\<exists>cs. w_outbox (sample_run svc env s [(t, active, a)] w) = w_outbox w @ cs \<and> broadcast s cs) \<and>
    settled (watch_of (row_get as_fingerprint fp (w_states (sample_run svc env s [(t, active, a)] w))))"
proof -
  have fp: "fingerprint_for env a = fp" using l by (auto simp: loud_oks_def stream_def)
  let ?w = "maybe_send_alert svc (at_time env t) (Some s) active a w"
  obtain cs act x' where S: "w_outbox ?w = w_outbox w @ cs"
    "watch_ok (par_of svc s a) (watch_in env a w) = (act, x')" "wp_recover (par_of svc s a) = k"
    "watch_in env a ?w = x'" "action_calls act s (wt_thread (watch_in env a w)) cs"
    using ok_sample_cases [OF r l] by metis
  have "recovering n (watch_in env a w)" using x by (simp add: watch_in_def fp)
  then have "act = Recover" "settled x'"
    using S(2,3) k by (auto simp: watch_ok_def recovering_def settled_def Let_def split: if_splits)
  then show ?thesis using S(1,4,5) by (auto simp: action_calls_def broadcast_def watch_in_def fp)
qed

end
