(* ===== verification/Alert_Buttons.thy ===== *)
theory Alert_Buttons
  imports Alert_Runs
begin

text \<open>
  What the buttons of an alert do: the data of a button reaches the row of its alert, a mute
  silences the samples that fail until it ends, an acknowledgement mutes and closes the incident.
\<close>

lemma prepare_frame:
  assumes "prepare svc env active a0 w = (p, v)"
  shows "w_outbox v = w_outbox w" and "w_muted v = w_muted w" and "w_incidents v = w_incidents w"
    and "al_fingerprint (pr_alert p) = fingerprint_for env a0" and "pr_status p = sample_status active a0"
    and "check_muted env (pr_alert p) = check_muted env a0"
proof -
  obtain st u where l: "load_state svc env (fingerprint_for env a0) w = (st, u)" by fastforce
  obtain aid state t where e: "ensure_alert_id svc env st u = ((aid, state), t)"
    by (cases "ensure_alert_id svc env st u") auto
  have u: "w_outbox u = w_outbox w" "w_muted u = w_muted w" "w_incidents u = w_incidents w"
    using load_state_snd [of svc env "fingerprint_for env a0" w] l by (auto split: if_splits)
  have t: "w_outbox t = w_outbox u" "w_muted t = w_muted u" "w_incidents t = w_incidents u"
    using ensure_alert_id_frame [of svc env st u] e by simp_all
  have "v = t" using assms l e by (auto simp: prepare_def Let_def split: option.splits)
  then show "w_outbox v = w_outbox w" "w_muted v = w_muted w" "w_incidents v = w_incidents w"
    using u t by simp_all
  show "al_fingerprint (pr_alert p) = fingerprint_for env a0" "pr_status p = sample_status active a0"
    "check_muted env (pr_alert p) = check_muted env a0"
    using assms l e by (auto simp: prepare_def Let_def check_muted_def split: option.splits)
qed

lemma save_fail_outbox: "w_outbox (save_fail svc env p a n ids w) = w_outbox w"
  using sync_incident_frame(3) [of svc env a "pr_status p" "pr_prev_status p" w]
  by (simp add: save_fail_def split_beta frame)

text \<open>With any database failures: a muted failing sample makes no call.\<close>

lemma muted_sample_silent:
  assumes "check_muted env a0 \<or>
    sample_status active a0 \<noteq> ''ok'' \<and> trim_space (fingerprint_for env a0) \<noteq> [] \<and>
    w_muted w (fingerprint_for env a0) = Some t \<and> e_now env < t"
  shows "w_outbox (maybe_send_alert svc env settings active a0 w) = w_outbox w"
proof (cases "settings = None \<or> \<not> a_has_client svc")
  case False
  then obtain s where s: "settings = Some s" "a_has_client svc" by auto
  obtain p v where p: "prepare svc env active a0 w = (p, v)" by fastforce
  note F = prepare_frame [OF p]
  show ?thesis
  proof (cases "check_muted env a0")
    case True
    then show ?thesis
      using s F(1,6) by (simp add: maybe_send_alert_def p handle_check_muted_def Let_def frame)
  next
    case nc: False
    then have m: "is_muted svc env (fingerprint_for env a0) v = (True, v)"
      using assms F(2) by (intro is_muted_memory) auto
    have "al_fingerprint (case pr_state p of None \<Rightarrow> (pr_alert p)\<lparr>al_occurrences := n\<rparr>
        | Some st \<Rightarrow> if b st then (pr_alert p)\<lparr>al_occurrences := n, al_occurrences := c st\<rparr>
                    else (pr_alert p)\<lparr>al_occurrences := n\<rparr>) = fingerprint_for env a0" for n b c
      using F(4) by (simp split: option.split)
    then have "w_outbox (handle_fail svc env s p v) = w_outbox v"
      by (simp add: handle_fail_def Let_def m save_fail_outbox)
    then show ?thesis
      using s nc assms F(1,5,6) by (simp add: maybe_send_alert_def p)
  qed
qed (auto simp: maybe_send_alert_def split: option.split)

lemma fingerprint_nonblank:
  assumes "builtin_type (al_type a)"
  shows "trim_space (fingerprint_for env a) \<noteq> []"
proof -
  have "list_all (\<lambda>w. list_all (\<lambda>c. hd w \<noteq> c) ''cmdtg'') ws_runes" by code_simp
  then have h: "hd w \<noteq> c" if "w \<in> set ws_runes" "c \<in> set ''cmdtg''" for w c
    using that unfolding list_all_iff by blast
  have "\<exists>c s. fingerprint_for env a = c # s \<and> c \<in> set ''cmdtg''"
    using assms by (cases "al_type a") (simp_all add: builtin_type_def fingerprint_for_def Let_def)
  then obtain c s where cs: "fingerprint_for env a = c # s" "c \<in> set ''cmdtg''" by blast
  have "\<not> prefix w (c # s)" if "w \<in> set ws_runes" for w
    using h [OF that cs(2)] ws_runes_nonempty [OF that] by (cases w) auto
  then have "lead_ws (c # s) = 0" using lead_ws_pos_iff by (metis neq0_conv)
  then show ?thesis by (simp add: cs(1) trim_space_blank_iff trim_left.simps)
qed

section \<open>Finding the alert of a button\<close>

definition alert_row :: "world \<Rightarrow> uuid \<Rightarrow> alert_state \<Rightarrow> bool" where
  "alert_row w u r \<longleftrightarrow> row_get as_alert_id (Some u) (w_states w) = Some r"

lemma load_by_id:
  assumes "db_up svc env" and "codec_ok env" and "alert_row w u r"
  shows "load_state_by_alert_id svc env (e_str env u) w = (Some r, db_tick w)"
  using assms codec_trim [of env u] codec_ne [of env u]
  by (simp add: load_state_by_alert_id_def codec_parse db_up_def healthy alert_row_def)

lemma codec_button:
  assumes "codec_ok env"
  shows "parse_callback_data (''a:'' @ e_str env u) = (''ack'', e_str env u, 0)"
    and "parse_callback_data (''mute:'' @ e_str env u) = (''mute'', e_str env u, 0)"
    and "parse_callback_data (''r:'' @ e_str env u) = (''retry'', e_str env u, 0)"
proof -
  have c: "uuid_codec (e_str env) (e_parse env)" using assms by (simp add: codec_ok_def)
  have ne: "e_str env u \<noteq> []" by (rule codec_ne [OF assms])
  have "list_all (\<lambda>x. x \<noteq> CHR '':'') uuid_chars" by code_simp
  then have "CHR '':'' \<notin> set uuid_chars" by (auto simp: list_all_iff)
  then have nc: "CHR '':'' \<notin> set (e_str env u)" by (rule uuid_codec.str_no_char [OF c])
  note P = parse_callback_plain [OF ne uuid_codec.str_plain [OF c hd_in_set [OF ne]]
      uuid_codec.str_plain [OF c last_in_set [OF ne]] nc]
  show "parse_callback_data (''a:'' @ e_str env u) = (''ack'', e_str env u, 0)"
    "parse_callback_data (''mute:'' @ e_str env u) = (''mute'', e_str env u, 0)"
    "parse_callback_data (''r:'' @ e_str env u) = (''retry'', e_str env u, 0)"
    by (rule P)+
qed

lemma normalize_range:
  "1 \<le> fst (normalize_policy_minutes a b) \<and> fst (normalize_policy_minutes a b) \<le> max_policy_minutes \<and>
   1 \<le> snd (normalize_policy_minutes a b) \<and> snd (normalize_policy_minutes a b) \<le> max_policy_minutes"
  by (simp add: normalize_policy_minutes_def Let_def max_policy_minutes_def default_ack_mute_minutes_def
      default_button_mute_mins_def)

lemma policy_range:
  assumes "policy_for_state svc env st w = ((a, b), v)"
  shows "1 \<le> a \<and> a \<le> max_policy_minutes \<and> 1 \<le> b \<and> b \<le> max_policy_minutes"
proof -
  have "\<exists>x y. fst (policy_for_state svc env st w) = normalize_policy_minutes x y"
    unfolding policy_for_state_def
    by (auto split: prod.split sum.split)
  then show ?thesis using assms normalize_range by (metis fst_conv snd_conv)
qed

lemma policy_minutes_dur: "1 \<le> m \<Longrightarrow> m \<le> max_policy_minutes \<Longrightarrow> dur_mul m minute = m * minute \<and> 0 < dur_mul m minute"
  by (simp add: dur_mul_def minute_def max_policy_minutes_def wrap64_id)

lemma set_mute_muted [simp]: "trim_space fp \<noteq> [] \<Longrightarrow> w_muted (set_mute svc env fp d w) fp = Some (e_now env + d)"
  by (simp add: set_mute_def Let_def db_exec_def)

text \<open>The minutes of the mute button, read off the tables: the organisation of the alert is that of the
  first of its incident, its node, its service's node and its bot's node to have one; the minutes
  are those of the newest settings of that organisation, an hour when there are none.\<close>

definition linked_org :: "uuid option \<Rightarrow> (uuid \<Rightarrow> uuid option) \<Rightarrow> uuid option" where
  "linked_org u find_org = (if set_id u then Option.bind u find_org else None)"

definition org_of_node :: "world \<Rightarrow> uuid \<Rightarrow> uuid option" where
  "org_of_node w u = Option.bind (row_get n_id u (w_nodes w)) n_org_id"

definition alert_orgs :: "world \<Rightarrow> alert_state \<Rightarrow> uuid option list" where
  "alert_orgs w r =
     [linked_org (as_incident_id r) (\<lambda>i. Option.bind (row_get in_id i (w_incidents w)) in_org_id),
      linked_org (as_node_id r) (org_of_node w),
      linked_org (as_service_id r)
        (\<lambda>i. Option.bind (Option.bind (row_get sv_id i (w_services w)) sv_node_id) (org_of_node w)),
      linked_org (as_bot_id r)
        (\<lambda>i. Option.bind (map_option b_node_id (row_get b_id i (w_bots w))) (org_of_node w))]"

definition alert_org :: "world \<Rightarrow> alert_state \<Rightarrow> uuid option" where
  "alert_org w r = Option.bind (find (\<lambda>u. u \<noteq> None) (alert_orgs w r)) id"

definition button_minutes :: "world \<Rightarrow> alert_state \<Rightarrow> int" where
  "button_minutes w r =
     (let org = alert_org w r in
      case newest (filter (\<lambda>q. set_id org \<and> tr_org_id q = org) (w_settings w)) of
        Some q \<Rightarrow> if tr_mute_minutes q \<le> 0 then 60 else min (tr_mute_minutes q) max_policy_minutes
      | None \<Rightarrow> 60)"

lemma button_minutes_range: "1 \<le> button_minutes w r \<and> button_minutes w r \<le> max_policy_minutes"
  by (simp add: button_minutes_def Let_def max_policy_minutes_def split: option.split)

lemma org_of_node_tick [simp]: "org_of_node (db_tick w) = org_of_node w"
  by (simp add: org_of_node_def fun_eq_iff)

lemma org_of_node_same: "same_data w v \<Longrightarrow> org_of_node v = org_of_node w"
  by (rule ext) (simp add: org_of_node_def same_data_def)

lemma fst_or_else: "fst (or_else q f) = (case fst q of None \<Rightarrow> fst (f (snd q)) | Some u \<Rightarrow> Some u)"
  by (auto simp: or_else_def split: prod.split option.split)

lemma or_else_data:
  "same_data w (snd q) \<Longrightarrow> (\<And>v. same_data v (snd (f v))) \<Longrightarrow> same_data w (snd (or_else q f))"
  by (cases q; cases "fst q") (auto simp: or_else_def intro: same_data_trans)

lemma alert_orgs_same: "same_data w v \<Longrightarrow> alert_orgs v r = alert_orgs w r"
  using org_of_node_same [of w v] by (simp add: alert_orgs_def same_data_def)

lemma org_lookups:
  assumes "db_up svc env"
  shows "alert_orgs w r =
    [fst (incident_org env (as_incident_id r) w),
     fst (if set_id (as_node_id r) then node_org env (as_node_id r) w else (None, w)),
     fst (service_org env (as_service_id r) w), fst (bot_org env (as_bot_id r) w)]"
proof -
  have up: "\<not> e_db_fail env n" for n using assms by (simp add: db_up_def)
  have n: "fst (node_org env u v) = Option.bind u (org_of_node v)" for u v
    using up by (cases u) (auto simp: node_org_def org_of_node_def healthy split: option.split)
  show ?thesis
    using up n
    by (auto simp: alert_orgs_def incident_org_def service_org_def bot_org_def linked_org_def set_id_def healthy
        split: option.split)
qed

lemma org_of_alert:
  assumes "db_up svc env"
  shows "fst (org_id_for_state svc env (Some r) w) = alert_org w r"
proof -
  define n where "n v = (if set_id (as_node_id r) then node_org env (as_node_id r) v else (None, v))" for v
  have up: "a_has_db svc" using assms by (simp add: db_up_def)
  have nd: "same_data v (snd (n v))" for v by (simp add: n_def node_org_same)
  let ?q1 = "incident_org env (as_incident_id r) w"
  let ?q2 = "or_else ?q1 n"
  let ?q3 = "or_else ?q2 (service_org env (as_service_id r))"
  have sd: "same_data w (snd ?q1)" "same_data w (snd ?q2)" "same_data w (snd ?q3)"
    by (auto intro!: or_else_data nd incident_org_same service_org_same)
  have L: "alert_orgs v r = [fst (incident_org env (as_incident_id r) v), fst (n v),
      fst (service_org env (as_service_id r) v), fst (bot_org env (as_bot_id r) v)]" for v
    using org_lookups [OF assms, of v r] by (simp add: n_def)
  have "fst (n v) = fst (n w) \<and> fst (service_org env (as_service_id r) v) = fst (service_org env (as_service_id r) w)
    \<and> fst (bot_org env (as_bot_id r) v) = fst (bot_org env (as_bot_id r) w)" if "same_data w v" for v
    using alert_orgs_same [OF that, of r] by (simp add: L)
  note E = this [OF sd(1)] this [OF sd(2)] this [OF sd(3)]
  show ?thesis
    using E up by (simp add: org_id_for_state_def fst_or_else alert_org_def L split: option.split flip: n_def)
qed

lemma policy_minutes_spec:
  assumes "db_up svc env" and "policy_for_state svc env (Some r) w = ((a, b), v)"
  shows "b = button_minutes w r"
proof -
  obtain org w1 where o: "org_id_for_state svc env (Some r) w = (org, w1)" by fastforce
  have org: "org = alert_org w r" using org_of_alert [OF assms(1), of r w] o by simp
  have sd: "w_settings w1 = w_settings w"
    using org_id_same [of w svc env "Some r"] o by (simp add: same_data_def)
  have up: "a_has_db svc" "\<not> e_db_fail env n" for n using assms(1) by (simp_all add: db_up_def)
  have none: "newest (filter (\<lambda>q. False) (w_settings w)) = None" by simp
  show ?thesis
    using assms(2) up none
    by (auto simp: policy_for_state_def o org sd healthy button_minutes_def normalize_policy_minutes_def
        default_button_mute_mins_def Let_def min_def max_policy_minutes_def split: if_splits option.splits)
qed

text \<open>The mute button.\<close>

lemma mute_button:
  assumes up: "db_up svc env" and c: "codec_ok env" and r: "alert_row w u r"
    and fp: "trim_space (as_fingerprint r) \<noteq> []"
  shows "\<exists>v. handle_callback svc env (''mute:'' @ e_str env u) w =
      ((''Muted for '' @ itoa (button_minutes w r) @ ''m'', None), v) \<and>
      w_muted v (as_fingerprint r) = Some (e_now env + button_minutes w r * minute) \<and> w_outbox v = w_outbox w"
proof -
  obtain q w1 where pol: "policy_for_alert_id svc env (e_str env u) w = (q, w1)" by fastforce
  obtain a b where q: "q = (a, b)" by fastforce
  have b: "b = button_minutes (db_tick w) r"
    using pol load_by_id [OF up c r] policy_minutes_spec [OF up] by (auto simp: policy_for_alert_id_def q)
  have bw: "button_minutes (db_tick w) r = button_minutes w r"
    by (simp add: button_minutes_def alert_org_def alert_orgs_same [OF same_data_tick])
  note rng = button_minutes_range [of "db_tick w" r, folded b]
  have sd: "same_data w w1" using policy_for_alert_id_same [of w svc env "e_str env u"] pol by simp
  have "alert_row w1 u r" using r sd by (simp add: alert_row_def same_data_def)
  then have m: "mute_by_alert_id svc env (e_str env u) d w1 = (None, set_mute svc env (as_fingerprint r) d (db_tick w1))" for d
    using codec_trim [OF c] codec_ne [OF c] load_by_id [OF up c] by (simp add: mute_by_alert_id_def)
  let ?v = "set_mute svc env (as_fingerprint r) (dur_mul b minute) (db_tick w1)"
  have "handle_callback svc env (''mute:'' @ e_str env u) w = ((''Muted for '' @ itoa b @ ''m'', None), ?v)"
    unfolding handle_callback_def codec_button(2) [OF c] prod.case by (simp add: pol q m)
  moreover have "w_muted ?v (as_fingerprint r) = Some (e_now env + b * minute)"
    using policy_minutes_dur rng fp by simp
  moreover have "w_outbox ?v = w_outbox w" using sd by (simp add: frame same_data_def)
  ultimately show ?thesis by (auto simp: b bw)
qed

text \<open>The acknowledge button: the row is muted, the incident acknowledged.\<close>

lemma ack_button:
  assumes up: "db_up svc env" and c: "codec_ok env" and r: "alert_row w u r"
    and i: "as_incident_id r = Some i" and inc: "row_get in_id i (w_incidents w) = Some q"
    and k: "keyed as_fingerprint (w_states w)"
  shows "\<exists>m v r' q'. handle_callback svc env (''a:'' @ e_str env u) w = ((''Acknowledged'', None), v) \<and>
      1 \<le> m \<and> m \<le> max_policy_minutes \<and>
      row_get as_fingerprint (as_fingerprint r) (w_states v) = Some r' \<and>
      as_muted_until r' = Some (e_now env + m * minute) \<and>
      row_get in_id i (w_incidents v) = Some q' \<and> in_status q' = ''acked'' \<and>
      in_acknowledged_at q' = Some (e_now env) \<and> in_acknowledged_by q' = Some ''telegram''"
proof -
  have l: "load_state_by_alert_id svc env (e_str env u) w = (Some r, db_tick w)"
    by (rule load_by_id [OF up c r])
  obtain a b w2 where pol: "policy_for_state svc env (Some r) (db_tick w) = ((a, b), w2)"
    by (cases "policy_for_state svc env (Some r) (db_tick w)") auto
  have rng: "1 \<le> a \<and> a \<le> max_policy_minutes" using policy_range [OF pol] by simp
  have sd: "same_data (db_tick w) w2" using policy_same [of "db_tick w" svc env "Some r"] pol by simp
  have up: "a_has_db svc" "\<not> e_db_fail env n" for n using up by (simp_all add: db_up_def)
  let ?f = "\<lambda>x. x\<lparr>as_muted_until := Some (e_now env + dur_mul a minute), as_updated_at := e_now env,
     as_last_seen := e_now env\<rparr>"
  let ?g = "\<lambda>x. x\<lparr>in_status := ''acked'', in_acknowledged_at := Some (e_now env),
     in_acknowledged_by := Some ''telegram'', in_updated_at := e_now env\<rparr>"
  let ?w3 = "upd_state_rows (as_fingerprint r) ?f (db_tick w2)"
  let ?v = "upd_incident_rows i ?g (db_tick ?w3)"
  have "ack_by_alert_id svc env (e_str env u) w = (None, ?v)"
    unfolding ack_by_alert_id_def l pol prod.case option.case Let_def i
    by (simp add: up healthy)
  then have h: "handle_callback svc env (''a:'' @ e_str env u) w = ((''Acknowledged'', None), ?v)"
    unfolding handle_callback_def codec_button(1) [OF c] prod.case by simp
  have "r \<in> set (w_states w)" using row_get_SomeD r by (fastforce simp: alert_row_def)
  then have "row_get as_fingerprint (as_fingerprint r) (w_states ?v) = Some (?f r)"
    using sd row_get_keyed [OF k] by (simp add: row_upd_get same_data_def)
  moreover have "row_get in_id i (w_incidents ?v) = Some (?g q)"
    using sd inc by (simp add: row_upd_get same_data_def)
  ultimately show ?thesis
    using h rng policy_minutes_dur by (intro exI [of _ a] exI [of _ ?v] exI) auto
qed

end
