(* ===== verification/Alert_Incidents.thy ===== *)
theory Alert_Incidents
  imports Alert_Buttons
begin

text \<open>
  The incident of an alert follows its row: after each sample on a working database it is open
  while the row says fail and recovered otherwise, and it keeps its identity over relapses.
\<close>

lemma upd_found:
  assumes "keyed in_id rows" and "row_get in_fingerprint fp rows = Some q" and "\<And>x. in_fingerprint (f x) = fp"
  shows "row_get in_fingerprint fp (row_upd in_id (in_id q) f rows) = Some (f q)"
  using assms
proof (induction rows)
  case (Cons x rows)
  show ?case
  proof (cases "in_fingerprint x = fp")
    case True
    then show ?thesis using Cons.prems by (simp add: row_upd_def)
  next
    case False
    then have g: "row_get in_fingerprint fp rows = Some q" using Cons.prems(2) by simp
    then have "q \<in> set rows" by (auto dest: row_get_SomeD)
    then have "in_id x \<noteq> in_id q" using Cons.prems(1) by (auto simp: keyed_def)
    then show ?thesis
      using False g Cons by (simp add: row_upd_def keyed_def)
  qed
qed simp

definition incident_status :: "world \<Rightarrow> string \<Rightarrow> string option" where
  "incident_status w fp = map_option in_status (row_get in_fingerprint (trim_space fp) (w_incidents w))"

text \<open>What \<open>syncIncident\<close> leaves, for the statuses it is called with.\<close>

lemma sync_outcome:
  assumes up: "db_up svc env" and ok: "store_ok w" and fp: "trim_space (al_fingerprint a) \<noteq> []"
    and fr: "e_uuid env (w_uid w) \<notin> in_id ` set (w_incidents w)"
  shows "incident_status (snd (sync_incident svc env a status prev w)) (al_fingerprint a) =
    (if status = ''fail'' then Some ''open''
     else map_option (\<lambda>_. ''recovered'') (incident_status w (al_fingerprint a)))"
    and "row_get in_fingerprint (trim_space (al_fingerprint a)) (w_incidents w) = Some q \<Longrightarrow>
      row_get in_fingerprint (trim_space (al_fingerprint a)) (w_incidents (snd (sync_incident svc env a status prev w))) =
        Some (incident_updates env a q (trim_space (al_fingerprint a)) status prev q)"
proof -
  let ?fp = "trim_space (al_fingerprint a)"
  have hd: "a_has_db svc" "\<not> e_db_fail env n" for n using up by (simp_all add: db_up_def)
  have k: "in_fingerprint (incident_updates env a x ?fp status prev y) = ?fp" for x y
    by (simp add: incident_updates_def Let_def)
  have upd: "row_get in_fingerprint ?fp (w_incidents (snd (sync_incident svc env a status prev w))) =
        Some (incident_updates env a x ?fp status prev x)"
    if "row_get in_fingerprint ?fp (w_incidents w) = Some x" for x
    using that ok fp upd_found [OF _ that, of "incident_updates env a x ?fp status prev"] k
    by (simp add: sync_incident_def hd healthy Let_def store_ok_def)
  then show "row_get in_fingerprint ?fp (w_incidents w) = Some q \<Longrightarrow>
      row_get in_fingerprint ?fp (w_incidents (snd (sync_incident svc env a status prev w))) =
        Some (incident_updates env a q ?fp status prev q)" .
  show "incident_status (snd (sync_incident svc env a status prev w)) (al_fingerprint a) =
    (if status = ''fail'' then Some ''open''
     else map_option (\<lambda>_. ''recovered'') (incident_status w (al_fingerprint a)))"
  proof (cases "row_get in_fingerprint ?fp (w_incidents w)")
    case (Some x)
    then show ?thesis using upd [OF Some]
      by (simp add: incident_status_def incident_updates_def Let_def)
  next
    case None
    let ?r = "new_incident env a (e_uuid env (w_uid w)) ?fp"
    have "in_id ?r \<notin> in_id ` set (w_incidents w)" "in_fingerprint ?r \<notin> in_fingerprint ` set (w_incidents w)"
      using fr None by (simp_all add: new_incident_def Let_def row_get_None)
    then have "put_incident_row ?r v = Inr (v\<lparr>w_incidents := w_incidents w @ [?r]\<rparr>)"
      if "w_incidents v = w_incidents w" for v
      using that by (simp add: put_incident_row_def row_put_def)
    then show ?thesis
      using None fp hd
      by (simp add: sync_incident_def healthy Let_def incident_status_def uuid_new_def row_get_append)
         (simp add: new_incident_def Let_def)
  qed
qed

section \<open>Samples\<close>

text \<open>The row and the incident of a fingerprint after a sample of status \<open>st\<close> has been saved.\<close>

definition saved_as :: "world \<Rightarrow> string \<Rightarrow> string \<Rightarrow> world \<Rightarrow> bool" where
  "saved_as w fp st v \<longleftrightarrow>
     map_option as_last_status (row_get as_fingerprint fp (w_states v)) = Some (Some st) \<and>
     incident_status v fp = (if st = ''fail'' then Some ''open''
       else map_option (\<lambda>_. ''recovered'') (incident_status w fp))"

lemma incident_status_cong: "w_incidents v = w_incidents w \<Longrightarrow> incident_status v fp = incident_status w fp"
  by (simp add: incident_status_def)

text \<open>What the branches need to know of the world in which they save.\<close>

definition can_save :: "alert_svc \<Rightarrow> alert_env \<Rightarrow> prepared \<Rightarrow> world \<Rightarrow> bool" where
  "can_save svc env p w \<longleftrightarrow> db_up svc env \<and> codec_ok env \<and> prep_ok env p w \<and> store_ok w \<and>
     (\<forall>r. pr_state p = Some r \<longrightarrow> as_alert_id r \<noteq> None) \<and>
     trim_space (al_fingerprint (pr_alert p)) \<noteq> [] \<and> e_uuid env (w_uid w) \<notin> in_id ` set (w_incidents w)"

lemma can_save_cong:
  "can_save svc env p w \<Longrightarrow> w_states v = w_states w \<Longrightarrow> w_incidents v = w_incidents w \<Longrightarrow>
   w_uid v = w_uid w \<Longrightarrow> can_save svc env p v"
  using store_ok_cong [of v w] prep_ok_cong [of env p w v] by (simp add: can_save_def)

lemma update_last_status:
  assumes "db_up svc env" and "codec_ok env" and ok: "prep_ok env p w"
    and a: "al_fingerprint a = al_fingerprint (pr_alert p)" "al_alert_id a = al_alert_id (pr_alert p)"
  shows "map_option as_last_status (row_get as_fingerprint (al_fingerprint (pr_alert p))
      (w_states (update_state svc env a (pr_state p) st n ids k inc w))) = Some (Some st)"
proof -
  obtain u where u: "al_alert_id a = e_str env u"
    "pr_state p = None \<longrightarrow> u \<noteq> uuid_nil \<and> Some u \<notin> as_alert_id ` set (w_states w)"
    using ok a(2) by (auto simp: prep_ok_def)
  have row: "rel_state (row_get as_fingerprint (al_fingerprint (pr_alert p)) (w_states w)) (pr_state p)"
    using ok by (simp add: prep_ok_def)
  then show ?thesis
    using update_healthy [OF assms(1,2) a(1) row u, of st n ids k inc] by auto
qed

lemma sync_then_update:
  assumes c: "can_save svc env p w"
    and a: "al_fingerprint a = al_fingerprint (pr_alert p)" "al_alert_id a = al_alert_id (pr_alert p)"
  shows "saved_as w (al_fingerprint (pr_alert p)) st
    (case sync_incident svc env a st prev w of (inc, v) \<Rightarrow> update_state svc env a (pr_state p) st n ids k inc v)"
proof -
  obtain inc v where y: "sync_incident svc env a st prev w = (inc, v)" by fastforce
  have v: "w_states v = w_states w" using sync_incident_frame(1) [of svc env a st prev w] y by simp
  have "prep_ok env p v" using c v prep_ok_cong [of env p w v] by (simp add: can_save_def)
  moreover have "incident_status v (al_fingerprint a) = (if st = ''fail'' then Some ''open''
     else map_option (\<lambda>_. ''recovered'') (incident_status w (al_fingerprint a)))"
    using sync_outcome(1) [of svc env w a st prev] c a(1) y by (simp add: can_save_def)
  ultimately show ?thesis
    using update_last_status [of svc env p v a st n ids k inc] c a
    by (simp add: y saved_as_def can_save_def incident_status_cong [OF update_state_frame(1)])
qed

lemma update_then_sync:
  assumes c: "can_save svc env p w"
  shows "saved_as w (al_fingerprint (pr_alert p)) st
    (snd (sync_incident svc env (pr_alert p) st prev (update_state svc env (pr_alert p) (pr_state p) st n ids k inc w)))"
proof -
  let ?v = "update_state svc env (pr_alert p) (pr_state p) st n ids k inc w"
  have up: "db_up svc env" "codec_ok env" "prep_ok env p w" "store_ok w" using c by (simp_all add: can_save_def)
  obtain u where u: "al_alert_id (pr_alert p) = e_str env u" "pr_state p = None \<longrightarrow> u \<noteq> uuid_nil"
    using up(3) by (auto simp: prep_ok_def)
  have uid: "w_uid ?v = w_uid w"
    using up(1) u codec_parse [OF up(2)] codec_trim [OF up(2)] codec_ne [OF up(2)]
    by (auto simp: update_state_def healthy db_up_def split: option.split sum.split dest: put_state_row_frame)
  have row: "rel_state (row_get as_fingerprint (al_fingerprint (pr_alert p)) (w_states w)) (pr_state p)"
    using up(3) by (simp add: prep_ok_def)
  have "store_ok ?v" using c by (intro update_ok) (simp_all add: can_save_def)
  then have "incident_status (snd (sync_incident svc env (pr_alert p) st prev ?v)) (al_fingerprint (pr_alert p)) =
      (if st = ''fail'' then Some ''open''
       else map_option (\<lambda>_. ''recovered'') (incident_status ?v (al_fingerprint (pr_alert p))))"
    using c uid by (intro sync_outcome(1)) (simp_all add: can_save_def update_state_frame)
  then show ?thesis
    using update_last_status [OF up(1-3) refl refl, of st n ids k inc]
    by (simp add: saved_as_def sync_incident_frame incident_status_cong [OF update_state_frame(1)])
qed

text \<open>Every branch saves the row and the incident with one status.\<close>

lemma check_muted_saves:
  "can_save svc env p w \<Longrightarrow> saved_as w (al_fingerprint (pr_alert p)) (pr_status p) (handle_check_muted svc env p w)"
  unfolding handle_check_muted_def Let_def by (rule update_then_sync)

lemma save_fail_saves:
  assumes "can_save svc env p w" and "al_fingerprint a = al_fingerprint (pr_alert p)" "al_alert_id a = al_alert_id (pr_alert p)"
  shows "saved_as w (al_fingerprint (pr_alert p)) (pr_status p) (save_fail svc env p a n ids w)"
  unfolding save_fail_def Let_def by (rule sync_then_update [OF assms])

lemma ok_saves:
  assumes c: "can_save svc env p w"
  shows "\<exists>st \<in> {''ok'', ''fail''}. saved_as w (al_fingerprint (pr_alert p)) st (handle_ok svc env s p w)"
proof -
  have rec: "can_save svc env p (send_recovery svc env s a w)" for a
    using can_save_cong [OF c] by (simp add: send_recovery_world)
  have cong: "incident_status (send_recovery svc env s a w) fp = incident_status w fp" for a fp
    by (simp add: incident_status_def send_recovery_world)
  have rs: "saved_as (send_recovery svc env s a w) fp st v \<Longrightarrow> saved_as w fp st v" for a fp st v
    by (simp add: saved_as_def cong)
  note S = sync_then_update [OF c refl refl] sync_then_update [OF c, of "(pr_alert p)\<lparr>al_occurrences := n\<rparr>" for n]
    update_then_sync [OF c]
    sync_then_update [OF rec, of "(pr_alert p)\<lparr>al_occurrences := n\<rparr>" for n, THEN rs]
  show ?thesis
  proof (cases "pr_state p")
    case None
    have "saved_as w (al_fingerprint (pr_alert p)) ''ok'' (handle_ok svc env s p w)"
      unfolding handle_ok_def Let_def None option.case using S(1) None by simp
    then show ?thesis by blast
  next
    case (Some r)
    have "saved_as w (al_fingerprint (pr_alert p))
        (if pr_prev_status p = ''fail'' \<and> pr_prev_streak p + 1 < pr_recover_after p then ''fail'' else ''ok'')
        (handle_ok svc env s p w)"
      unfolding handle_ok_def Let_def Some option.case
      using S [unfolded Some] by simp
    then show ?thesis by (auto split: if_splits)
  qed
qed

lemma fail_saves:
  assumes c: "can_save svc env p w"
  shows "saved_as w (al_fingerprint (pr_alert p)) (pr_status p) (handle_fail svc env s p w)"
proof -
  let ?a = "(pr_alert p)\<lparr>al_occurrences := fail_occurrences p\<rparr>"
  let ?b = "case pr_state p of None \<Rightarrow> ?a
     | Some st \<Rightarrow> if repeated_fail p \<and> al_occurrences ?a < as_occurrences st
                 then ?a\<lparr>al_occurrences := as_occurrences st\<rparr> else ?a"
  have ab: "al_fingerprint ?a = al_fingerprint (pr_alert p)" "al_alert_id ?a = al_alert_id (pr_alert p)"
    "al_fingerprint ?b = al_fingerprint (pr_alert p)" "al_alert_id ?b = al_alert_id (pr_alert p)"
    by (auto split: option.split)
  obtain m u where mu: "is_muted svc env (al_fingerprint (pr_alert p)) w = (m, u)" by fastforce
  have u: "w_states u = w_states w" "w_incidents u = w_incidents w" "w_uid u = w_uid w"
    using is_muted_frame [of svc env "al_fingerprint (pr_alert p)" w] mu by simp_all
  obtain ids v where sa: "send_alert svc env s ?b (pr_state p) u = (ids, v)" by fastforce
  then have v: "w_states v = w_states w" "w_incidents v = w_incidents w" "w_uid v = w_uid w"
    using send_alert_world [of svc env s ?b "pr_state p" u] u by auto
  have eq: "saved_as w = saved_as u" "saved_as w = saved_as v"
    by (intro ext; simp add: saved_as_def incident_status_cong [OF u(2)] incident_status_cong [OF v(2)])+
  have "saved_as w (al_fingerprint (pr_alert p)) (pr_status p) (save_fail svc env p ?b n i u)"
    "saved_as w (al_fingerprint (pr_alert p)) (pr_status p) (save_fail svc env p ?b n i v)" for n i
    using save_fail_saves [OF can_save_cong [OF c u] ab(3,4)] save_fail_saves [OF can_save_cong [OF c v] ab(3,4)] eq
    by simp_all
  then show ?thesis
    unfolding handle_fail_def Let_def ab(3) mu prod.case sa
    using save_fail_saves [OF c ab(1,2)] by simp
qed

lemma ensure_uid:
  "ensure_alert_id svc env st w = ((aid, st'), v) \<Longrightarrow> w_uid v = w_uid w \<or> w_uid v = Suc (w_uid w)"
  by (auto simp: ensure_alert_id_def uuid_new_def Let_def db_exec_def split: option.splits if_splits)

text \<open>The two identifiers a sample may use are new.\<close>

definition fresh_incidents :: "alert_env \<Rightarrow> world \<Rightarrow> bool" where
  "fresh_incidents env w \<longleftrightarrow> e_uuid env (w_uid w) \<notin> in_id ` set (w_incidents w) \<and>
     e_uuid env (Suc (w_uid w)) \<notin> in_id ` set (w_incidents w)"

lemma prepare_can_save:
  assumes r: "ready svc env (fingerprint_for env a) w" and ok: "store_ok w"
    and ty: "builtin_type (al_type a)" and fr: "fresh_incidents env w"
    and p: "prepare svc env active a w = (p, v)"
  shows "can_save svc env p v"
proof -
  note F = prepare_frame [OF p] and G = prepared_ok_facts [OF r p]
  have up: "db_up svc env" and c: "codec_ok env" using r by (simp_all add: ready_def)
  obtain st u where l: "load_state svc env (fingerprint_for env a) w = (st, u)" by fastforce
  obtain aid state x where e: "ensure_alert_id svc env st u = ((aid, state), x)"
    by (cases "ensure_alert_id svc env st u") auto
  have x: "v = x" "pr_state p = state" using p l e by (auto simp: prepare_def Let_def split: option.splits)
  have u: "w_uid u = w_uid w" "store_ok u"
    using load_state_snd [of svc env "fingerprint_for env a" w] l ok store_ok_cong [of "db_tick w" w]
    by (auto split: if_splits)
  have uid: "w_uid v = w_uid w \<or> w_uid v = Suc (w_uid w)" using ensure_uid [OF e] x u by simp
  have sv: "store_ok v" using ensure_ok [OF u(2), of svc env st] e x by simp
  have id: "\<forall>q. pr_state p = Some q \<longrightarrow> as_alert_id q \<noteq> None"
    using e x(2) up by (auto simp: ensure_alert_id_def Let_def db_up_def split: option.splits prod.splits if_splits)
  show ?thesis
    using up c G id sv fingerprint_nonblank [OF ty, of env] fr uid F(3)
    by (auto simp: can_save_def fresh_incidents_def)
qed

lemma sample_saves:
  assumes r: "ready svc env (fingerprint_for env a) w" and pl: "plain_sample active a" and ok: "store_ok w"
    and ty: "builtin_type (al_type a)" and fr: "fresh_incidents env w"
  shows "\<exists>st \<in> {''ok'', ''fail''}.
      saved_as w (fingerprint_for env a) st (maybe_send_alert svc env (Some s) active a w)"
    and "sample_status active a = ''fail'' \<Longrightarrow>
      saved_as w (fingerprint_for env a) ''fail'' (maybe_send_alert svc env (Some s) active a w)"
proof -
  obtain p v where p: "prepare svc env active a w = (p, v)" by fastforce
  note F = prepare_frame [OF p] and G = prepared_ok_facts [OF r p]
  have up: "a_has_client svc" using r by (simp add: ready_def db_up_def)
  have cs: "can_save svc env p v" by (rule prepare_can_save [OF r ok ty fr p])
  have st: "pr_status p \<in> {''ok'', ''fail''}" using pl F(5) by (simp add: plain_sample_def)
  have w: "saved_as v = saved_as w" by (intro ext) (simp add: saved_as_def incident_status_cong [OF F(3)])
  show "\<exists>st \<in> {''ok'', ''fail''}.
      saved_as w (fingerprint_for env a) st (maybe_send_alert svc env (Some s) active a w)"
    using check_muted_saves [OF cs] ok_saves [OF cs, of s] fail_saves [OF cs, of s] st up
    unfolding G(3) w by (auto simp: maybe_send_alert_def p)
  show "saved_as w (fingerprint_for env a) ''fail'' (maybe_send_alert svc env (Some s) active a w)"
    if "sample_status active a = ''fail''"
    using check_muted_saves [OF cs] fail_saves [OF cs, of s] that F(5) up
    unfolding G(3) w by (auto simp: maybe_send_alert_def p)
qed

end
