(* ===== verification/Alert_Examples.thy ===== *)
theory Alert_Examples
  imports Alert_Types Alert_Incidents
begin

text \<open>
  The deduplication of alerts, then the concrete environment and alerts the witnesses evaluate.

  \<open>internal/services/alerts/dedup.go\<close>: the in-memory deduplication of alerts by fingerprint.
  The state is the map of entries; each method, run under the mutex, is one function on it. The
  pointer to the entry that \<open>Track\<close> and \<open>UpdateAlert\<close> return is the entry's value here.
\<close>

record dedup_entry =
  de_last_sent :: instant
  de_last_seen :: instant
  de_occurrences :: int
  de_message_ids :: "msg_ids option"
  de_alert_id :: string
  de_alert :: alert

record deduper =
  dd_ttl :: duration
  dd_entries :: "string \<Rightarrow> dedup_entry option"

definition new_deduper :: "duration \<Rightarrow> deduper" where
  "new_deduper ttl = \<lparr>dd_ttl = ttl, dd_entries = \<lambda>_. None\<rparr>"

definition fresh_entry :: "alert \<Rightarrow> instant \<Rightarrow> dedup_entry" where
  "fresh_entry a now = \<lparr>de_last_sent = now, de_last_seen = now, de_occurrences = 1,
     de_message_ids = Some [], de_alert_id = al_alert_id a, de_alert = a\<rparr>"

definition track :: "alert \<Rightarrow> instant \<Rightarrow> deduper \<Rightarrow> (bool \<times> dedup_entry) \<times> deduper" where
  "track a now d =
     (let fp = al_fingerprint a
      in case dd_entries d fp of
           Some entry \<Rightarrow>
             (if dd_ttl d < time_sub now (de_last_sent entry)
              then ((True, fresh_entry a now), d\<lparr>dd_entries := (dd_entries d)(fp \<mapsto> fresh_entry a now)\<rparr>)
              else let entry' = entry\<lparr>de_occurrences := de_occurrences entry + 1, de_last_seen := now,
                                      de_alert := a\<rparr>
                   in ((False, entry'), d\<lparr>dd_entries := (dd_entries d)(fp \<mapsto> entry')\<rparr>))
         | None \<Rightarrow>
             ((True, fresh_entry a now), d\<lparr>dd_entries := (dd_entries d)(fp \<mapsto> fresh_entry a now)\<rparr>))"

definition record_send :: "string \<Rightarrow> msg_ids \<Rightarrow> deduper \<Rightarrow> deduper" where
  "record_send fp ids d =
     (case dd_entries d fp of
        None \<Rightarrow> d
      | Some entry \<Rightarrow>
          let old = (case de_message_ids entry of None \<Rightarrow> [] | Some m \<Rightarrow> m);
              new = fold (\<lambda>(chat, msg) m. AList.update chat msg m) ids old
          in d\<lparr>dd_entries := (dd_entries d)(fp \<mapsto> entry\<lparr>de_message_ids := Some new\<rparr>)\<rparr>)"

definition update_alert :: "string \<Rightarrow> alert \<Rightarrow> deduper \<Rightarrow> dedup_entry option \<times> deduper" where
  "update_alert fp a d =
     (case dd_entries d fp of
        None \<Rightarrow> (None, d)
      | Some entry \<Rightarrow>
          (Some (entry\<lparr>de_alert := a\<rparr>), d\<lparr>dd_entries := (dd_entries d)(fp \<mapsto> entry\<lparr>de_alert := a\<rparr>)\<rparr>))"

definition message_ids :: "string \<Rightarrow> deduper \<Rightarrow> msg_ids option" where
  "message_ids fp d =
     (case dd_entries d fp of
        None \<Rightarrow> None
      | Some entry \<Rightarrow> Some (case de_message_ids entry of None \<Rightarrow> [] | Some m \<Rightarrow> m))"

definition clear_by_prefix :: "string \<Rightarrow> deduper \<Rightarrow> deduper" where
  "clear_by_prefix p d =
     d\<lparr>dd_entries := (\<lambda>key. if has_prefix key p then None else dd_entries d key)\<rparr>"

section \<open>Runs\<close>

datatype dedup_event =
    EvTrack alert instant
  | EvRecord string msg_ids
  | EvUpdate string alert
  | EvClear string

fun dedup_step :: "dedup_event \<Rightarrow> deduper \<Rightarrow> deduper" where
  "dedup_step (EvTrack a now) d = snd (track a now d)"
| "dedup_step (EvRecord fp ids) d = record_send fp ids d"
| "dedup_step (EvUpdate fp a) d = snd (update_alert fp a d)"
| "dedup_step (EvClear p) d = clear_by_prefix p d"

text \<open>Every entry has been counted at least once and holds one message per chat.\<close>

definition dedup_inv :: "deduper \<Rightarrow> bool" where
  "dedup_inv d \<longleftrightarrow> (\<forall>fp e. dd_entries d fp = Some e \<longrightarrow>
     1 \<le> de_occurrences e \<and> (\<exists>m. de_message_ids e = Some m \<and> distinct (map fst m)))"

lemma distinct_fold_update:
  "distinct (map fst m) \<Longrightarrow> distinct (map fst (fold (\<lambda>(chat, msg) m. AList.update chat msg m) ids m))"
  by (induction ids arbitrary: m) (auto simp: distinct_update split: prod.splits)

interpretation dedup: invariant_machine dedup_step dedup_inv
proof
  fix d e assume inv: "dedup_inv d"
  show "dedup_inv (dedup_step e d)"
  proof (cases e)
    case (EvTrack a now)
    with inv show ?thesis
      by (fastforce simp: dedup_inv_def track_def fresh_entry_def Let_def split: option.splits if_splits)
  next
    case (EvRecord fp ids)
    show ?thesis
    proof (cases "dd_entries d fp")
      case (Some e1)
      with inv obtain m where "1 \<le> de_occurrences e1" "de_message_ids e1 = Some m" "distinct (map fst m)"
        unfolding dedup_inv_def by blast
      with inv EvRecord Some show ?thesis
        by (auto simp: dedup_inv_def record_send_def Let_def distinct_fold_update)
    qed (use inv EvRecord in \<open>simp add: record_send_def\<close>)
  next
    case (EvUpdate fp a)
    with inv show ?thesis
      by (auto simp: dedup_inv_def update_alert_def split: option.splits)
  next
    case (EvClear p)
    with inv show ?thesis by (auto simp: dedup_inv_def clear_by_prefix_def)
  qed
qed

text \<open>
  Events that neither clear the entry of \<open>fp\<close> nor track it when its window, opened at \<open>t\<close>, is
  over.
\<close>

fun in_window :: "string \<Rightarrow> instant \<Rightarrow> duration \<Rightarrow> dedup_event \<Rightarrow> bool" where
  "in_window fp t ttl (EvTrack a now) = (al_fingerprint a = fp \<longrightarrow> \<not> ttl < time_sub now t)"
| "in_window fp t ttl (EvClear p) = (\<not> has_prefix fp p)"
| "in_window fp t ttl _ = True"

fun tracks :: "string \<Rightarrow> dedup_event \<Rightarrow> bool" where
  "tracks fp (EvTrack a now) = (al_fingerprint a = fp)"
| "tracks fp _ = False"

definition entry_at :: "string \<Rightarrow> instant \<Rightarrow> int \<Rightarrow> deduper \<Rightarrow> bool" where
  "entry_at fp t n d \<longleftrightarrow>
     (\<exists>e. dd_entries d fp = Some e \<and> de_last_sent e = t \<and> de_occurrences e = n)"

lemma dedup_step_ttl [simp]: "dd_ttl (dedup_step e d) = dd_ttl d"
  by (cases e) (auto simp: track_def record_send_def update_alert_def clear_by_prefix_def Let_def
      split: option.splits)

lemma dedup_step_entry:
  assumes "entry_at fp t n d" and "in_window fp t (dd_ttl d) e"
  shows "entry_at fp t (if tracks fp e then n + 1 else n) (dedup_step e d)"
  using assms
  by (cases e) (auto simp: entry_at_def track_def record_send_def update_alert_def
      clear_by_prefix_def Let_def split: option.splits if_splits)

lemma dedup_run_entry:
  "entry_at fp t n d \<Longrightarrow> list_all (in_window fp t (dd_ttl d)) es \<Longrightarrow>
   entry_at fp t (n + int (length (filter (tracks fp) es))) (run dedup_step es d)"
proof (induction es arbitrary: n d)
  case (Cons e es)
  have "entry_at fp t (if tracks fp e then n + 1 else n) (dedup_step e d)"
    using Cons.prems by (intro dedup_step_entry) auto
  then show ?case using Cons.IH [of "if tracks fp e then n + 1 else n" "dedup_step e d"] Cons.prems
    by (auto simp: algebra_simps split: if_splits)
qed simp

lemma track_fresh_entry: "fst (fst (track a now d)) \<Longrightarrow> entry_at (al_fingerprint a) now 1 (snd (track a now d))"
  by (auto simp: track_def entry_at_def fresh_entry_def Let_def split: option.splits if_splits)

lemma track_in_window:
  "entry_at fp t n d \<Longrightarrow> al_fingerprint b = fp \<Longrightarrow> \<not> dd_ttl d < time_sub now t \<Longrightarrow>
   \<not> fst (fst (track b now d)) \<and> de_occurrences (snd (fst (track b now d))) = n + 1"
  by (auto simp: entry_at_def track_def Let_def)

lemma run_ttl [simp]: "dd_ttl (run dedup_step es d) = dd_ttl d"
  by (induction es arbitrary: d) auto

lemma track_ttl [simp]: "dd_ttl (snd (track a now d)) = dd_ttl d"
  by (auto simp: track_def Let_def split: option.splits)


text \<open>
  A concrete service with an empty database, two chats and a node, for the instances of the
  properties: the identifiers are the numbers from 1, written in the canonical text form.
\<close>

definition ex_env :: alert_env where
  "ex_env = \<lparr>e_str = uuid_text, e_zone = \<lambda>_. 0, e_now = 1000, e_parse = uuid_read,
     e_db_fail = \<lambda>_. False, e_tg = \<lambda>n c. Inr (int n + 1), e_uuid = \<lambda>n. of_nat (Suc n),
     e_decrypt = Inr\<rparr>"

definition ex_svc :: alert_svc where
  "ex_svc = new_service True True ''https://panel.example'' []"

definition ex_settings :: settings where
  "ex_settings = \<lparr>s_bot_token = ''t'', s_admin_chat_ids = [''11'', ''22''], s_alert_connection = True,
     s_alert_cpu = True, s_alert_memory = True, s_alert_disk = True, s_ack_mute_minutes = 60,
     s_mute_minutes = 60\<rparr>"

definition ex_world :: world where
  "ex_world = \<lparr>w_states = [], w_incidents = [], w_settings = [], w_nodes = [], w_services = [],
     w_bots = [], w_muted = \<lambda>_. None, w_outbox = [], w_dbn = 0, w_uid = 0\<rparr>"

definition ex_alert :: alert where
  "ex_alert = (zero_alert AlertCPU SeverityWarning)\<lparr>al_node_id := 7, al_node_name := ''n<1>''\<rparr>"

definition ex_fp :: string where
  "ex_fp = fingerprint_for ex_env ex_alert"

definition ex_state :: alert_state where
  "ex_state = \<lparr>as_alert_id = Some 5, as_fingerprint = ex_fp, as_incident_id = Some 6,
     as_alert_type = ''cpu'', as_node_id = Some 7, as_service_id = None, as_bot_id = None,
     as_check_type = None, as_last_status = Some ''fail'', as_first_seen = 10, as_last_seen = 20,
     as_occurrences = 3, as_ok_streak = 0, as_message_ids = IdsArray [(''11'', 1), (''22'', 2)],
     as_muted_until = None, as_updated_at = 20\<rparr>"

definition ex_incident :: incident where
  "ex_incident = new_incident ex_env ex_alert 6 (trim_space ex_fp)"

definition ex_failing :: world where
  "ex_failing = ex_world\<lparr>w_states := [ex_state], w_incidents := [ex_incident]\<rparr>"

lemma ex_svc_sel [simp]: "a_has_db ex_svc" "a_has_client ex_svc" "a_policy ex_svc = default_policy"
  by (simp_all add: ex_svc_def new_service_def)

lemma ex_env_sel [simp]: "e_now ex_env = 1000" "e_db_fail ex_env n = False" "e_str ex_env = uuid_text"
  "e_parse ex_env = uuid_read" "e_uuid ex_env n = of_nat (Suc n)" "e_tg ex_env n c = Inr (int n + 1)"
  by (simp_all add: ex_env_def)

lemma ex_world_sel [simp]: "w_states ex_world = []" "w_incidents ex_world = []" "w_outbox ex_world = []"
  "w_muted ex_world = (\<lambda>_. None)" "w_uid ex_world = 0"
  by (simp_all add: ex_world_def)

lemma ex_failing_sel [simp]: "w_states ex_failing = [ex_state]" "w_incidents ex_failing = [ex_incident]"
  "w_outbox ex_failing = []" "w_muted ex_failing = (\<lambda>_. None)" "w_uid ex_failing = 0"
  by (simp_all add: ex_failing_def)

lemma ex_state_sel [simp]: "as_fingerprint ex_state = ex_fp" "as_alert_id ex_state = Some 5"
  "as_incident_id ex_state = Some 6" "failing ex_state" "as_ok_streak ex_state = 0"
  "as_muted_until ex_state = None"
  by (simp_all add: ex_state_def failing_def)

lemma ex_alert_sel [simp]: "al_type ex_alert = AlertCPU" "al_occurrences ex_alert = 0"
  "al_mute_until ex_alert = None" "al_status ex_alert = []" "al_fail_after_sec ex_alert = 0"
  "al_recover_after_ok ex_alert = 0"
  by (simp_all add: ex_alert_def zero_alert_def)

lemma ex_codec: "codec_ok ex_env"
  using uc.uuid_codec_axioms by (simp add: codec_ok_def)

lemma ex_up: "db_up ex_svc ex_env"
  by (simp add: db_up_def)

lemma ex_ready: "ready ex_svc ex_env ex_fp ex_world"
  by (simp add: ready_def ex_up ex_codec table_ok_def fresh_ids_def uuid_nil_def)

lemma ex_ready_failing: "ready ex_svc ex_env ex_fp ex_failing"
  by (simp add: ready_def ex_up ex_codec table_ok_def row_ok_def norm_row_def ex_state_def)

lemma ex_store: "store_ok ex_world" "store_ok ex_failing"
  by (simp_all add: store_ok_def keyed_def)

lemma ex_builtin: "builtin_type (al_type ex_alert)"
  by (simp add: builtin_type_def)

lemma ex_fp_ne: "trim_space ex_fp \<noteq> []"
  unfolding ex_fp_def by (rule fingerprint_nonblank [OF ex_builtin])

lemma ex_fail: "sample_status True ex_alert = ''fail''" and ex_ok: "sample_status False ex_alert = ''ok''"
  by (simp_all add: sample_status_def)

lemma ex_plain: "plain_sample b ex_alert"
  by (cases b) (simp_all add: plain_sample_def ex_fail ex_ok)

lemma ex_not_muted: "\<not> check_muted e ex_alert"
  by (simp add: check_muted_def)

lemma ex_min: "min_consecutive_fails ex_svc AlertCPU = 2"
  by (simp add: min_consecutive_fails_def default_policy_def)

lemma ex_recover: "recover_after ex_alert = 6"
  by (simp add: recover_after_def)

lemma ex_fails: "list_all (\<lambda>(t, b, a). 0 < t \<and> b \<and> a = ex_alert) es \<Longrightarrow> loud_fails ex_svc ex_env ex_fp es"
  by (auto simp: loud_fails_def stream_def list_all_iff ex_plain ex_not_muted ex_fp_def ex_fail split: prod.splits)

lemma ex_oks: "list_all (\<lambda>(t, b, a). 0 < t \<and> \<not> b \<and> a = ex_alert) es \<Longrightarrow> loud_oks ex_svc ex_env ex_fp 6 es"
  by (auto simp: loud_oks_def stream_def list_all_iff ex_plain ex_not_muted ex_fp_def ex_ok ex_recover split: prod.splits)

lemma ex_threaded: "threaded ex_settings (watch_of (Some ex_state))"
proof -
  have "trim_space ''11'' = ''11''" "trim_space ''22'' = ''22''" by code_simp+
  then show ?thesis
    by (simp add: threaded_def has_thread_for_all_def message_ids_of_def message_ids_from_json_def
        ex_settings_def) (simp add: ex_state_def)
qed

lemma ex_fresh: "fresh_incidents ex_env ex_failing" "fresh_incidents ex_env ex_world"
  by (simp_all add: fresh_incidents_def ex_incident_def new_incident_def Let_def)

end
