(* ===== verification/Alert_Properties.thy ===== *)
theory Alert_Properties
  imports Alert_Examples
begin

text \<open>
  The properties of the alert service, each with an instance on the service of \<open>Alert_Examples\<close>.
\<close>

section \<open>The notification path\<close>

text \<open>C1: Refinement. On a working database one sample of an alert (a call of \<open>maybeSendAlert\<close>
  with status ok or fail) does to the stored row and to Telegram exactly what one step of the
  specification \<open>watch_step\<close> says: the row afterwards abstracts to the specified watch, with the
  message ids that Telegram answered, and the calls are those of the specified action (none, one
  recovery message per chat, or one round of alert messages).\<close>
theorem sample_refines_watch:
  assumes "ready svc env (fingerprint_for env a) w" and "plain_sample active a"
  shows "\<exists>cs. w_outbox (maybe_send_alert svc env (Some s) active a w) = w_outbox w @ cs \<and>
     (let (act, x') = watch_step (par_of svc s a)
            (sample_of env active a w (replies env (length (w_outbox w)) cs [])) (watch_in env a w)
      in watch_in env a (maybe_send_alert svc env (Some s) active a w) = x' \<and>
         action_calls act s (wt_thread (watch_in env a w)) cs)"
  using assms by (rule sample_refines)

lemma sample_refines_watch_witness:
  "\<exists>cs. w_outbox (maybe_send_alert ex_svc ex_env (Some ex_settings) True ex_alert ex_world) = [] @ cs \<and>
     (let (act, x') = watch_step (par_of ex_svc ex_settings ex_alert)
            (sample_of ex_env True ex_alert ex_world (replies ex_env 0 cs [])) (watch_in ex_env ex_alert ex_world)
      in watch_in ex_env ex_alert (maybe_send_alert ex_svc ex_env (Some ex_settings) True ex_alert ex_world) = x' \<and>
         action_calls act ex_settings (wt_thread (watch_in ex_env ex_alert ex_world)) cs)"
  using sample_refines_watch [OF ex_ready [unfolded ex_fp_def] ex_plain [of True], of ex_settings]
  unfolding ex_world_sel list.size .

text \<open>C11: The first message. From a state without failure and thread, failing samples of which
  none is due (too few consecutive ones, or the offline delay since the first is not over) send
  nothing; the first one that is due sends one message to each chat, unless its fingerprint is
  muted.\<close>
theorem first_message_when_due:
  assumes "ready svc env fp w" and "loud_fails svc env fp (es @ [(t, active, a)])"
    and "same_par svc s P (es @ [(t, active, a)])"
    and "waiting 0 t0 (watch_of (row_get as_fingerprint fp (w_states w)))"
    and "fst (hd (es @ [(t, active, a)])) = t0"
    and "\<forall>i < length es. \<not> due P i t0 (fst (es ! i))" and "due P (length es) t0 t"
    and "\<not> mute_active (at_time env t) fp (sample_run svc env s es w)"
  shows "w_outbox (sample_run svc env s es w) = w_outbox w \<and>
    (\<exists>cs. w_outbox (sample_run svc env s (es @ [(t, active, a)]) w) = w_outbox w @ cs \<and> broadcast s cs)"
proof -
  have l: "loud_fails svc env fp es" "loud_fails svc env fp [(t, active, a)]"
    using assms(2) by (auto simp: loud_fails_def stream_def)
  have P: "same_par svc s P es" "par_of svc s a = P" using assms(3) by (auto simp: same_par_def)
  have Q: "w_outbox (sample_run svc env s es w) = w_outbox w \<and>
    waiting (0 + length es) t0 (watch_of (row_get as_fingerprint fp (w_states (sample_run svc env s es w)))) \<and>
    ready svc env fp (sample_run svc env s es w)"
    using assms(5,6) by (intro quiet_run [OF assms(1) l(1) P(1) assms(4)]) (auto simp: hd_append)
  have "\<exists>cs. w_outbox (sample_run svc env s [(t, active, a)] (sample_run svc env s es w)) =
      w_outbox (sample_run svc env s es w) @ cs \<and> broadcast s cs"
    using Q assms(5,7,8) by (intro due_sample [OF _ l(2) P(2)]) auto
  then show ?thesis using Q by (simp add: sample_run_append)
qed

lemma first_message_when_due_witness:
  "w_outbox (sample_run ex_svc ex_env ex_settings [(1, True, ex_alert)] ex_world) = [] \<and>
   (\<exists>cs. w_outbox (sample_run ex_svc ex_env ex_settings ([(1, True, ex_alert)] @ [(2, True, ex_alert)]) ex_world) =
     [] @ cs \<and> broadcast ex_settings cs)"
proof -
  let ?P = "par_of ex_svc ex_settings ex_alert" and ?es = "[(1, True, ex_alert)]"
  have P: "\<not> wp_delayed ?P" "wp_min ?P = 2"
    by (simp_all add: par_of_def requires_offline_delay_def ex_min)
  have H: "loud_fails ex_svc ex_env ex_fp (?es @ [(2, True, ex_alert)])" by (rule ex_fails) simp
  have S: "same_par ex_svc ex_settings ?P (?es @ [(2, True, ex_alert)])" by (simp add: same_par_def)
  have W: "waiting 0 1 (watch_of (row_get as_fingerprint ex_fp (w_states ex_world)))"
    by (simp add: waiting_def watch0_def)
  have D: "\<forall>i < length ?es. \<not> due ?P i 1 (fst (?es ! i))" "due ?P (length ?es) 1 2"
    using P by (simp_all add: due_def)
  have "never_muted ex_world" by (simp add: never_muted_def)
  note m = never_muted_inactive [OF never_muted_run [OF this]]
  show ?thesis
    using first_message_when_due [OF ex_ready H S W _ D m] unfolding ex_world_sel by simp
qed

text \<open>No repeated messages. While an alert fails and each chat has its message, further
  failing samples send nothing, and the messages stay recorded.\<close>
theorem no_repeat_while_threaded:
  assumes "ready svc env fp w" and "loud_fails svc env fp es"
    and "threaded s (watch_of (row_get as_fingerprint fp (w_states w)))"
  shows "w_outbox (sample_run svc env s es w) = w_outbox w \<and>
    threaded s (watch_of (row_get as_fingerprint fp (w_states (sample_run svc env s es w))))"
  using assms by (rule threaded_run)

lemma no_repeat_while_threaded_witness:
  "w_outbox (sample_run ex_svc ex_env ex_settings [(30, True, ex_alert), (40, True, ex_alert)] ex_failing) = []"
proof -
  have "loud_fails ex_svc ex_env ex_fp [(30, True, ex_alert), (40, True, ex_alert)]" by (rule ex_fails) simp
  moreover have "threaded ex_settings (watch_of (row_get as_fingerprint ex_fp (w_states ex_failing)))"
    by (simp add: ex_threaded)
  ultimately have "w_outbox (sample_run ex_svc ex_env ex_settings [(30, True, ex_alert), (40, True, ex_alert)] ex_failing) =
      w_outbox ex_failing"
    using no_repeat_while_threaded [OF ex_ready_failing] by blast
  then show ?thesis by simp
qed

text \<open>C12: Recovery. An alert that was sent recovers with the \<open>k\<close>-th ok sample in a row, where
  \<open>k\<close> is the check's own number or the default of the alert type: the \<open>k - 1\<close> ok samples before
  it are silent, it sends one message to each chat, and the alert is then settled: not failing, no
  thread, so that the next failure is a new alert.\<close>
theorem recovery_on_last_ok:
  assumes "ready svc env fp w" and "loud_oks svc env fp k (es @ [(t, active, a)])"
    and "int (length es) + 1 = k" and "recovering 0 (watch_of (row_get as_fingerprint fp (w_states w)))"
  shows "w_outbox (sample_run svc env s es w) = w_outbox w \<and>
    (\<exists>cs. w_outbox (sample_run svc env s (es @ [(t, active, a)]) w) = w_outbox w @ cs \<and> broadcast s cs) \<and>
    settled (watch_of (row_get as_fingerprint fp (w_states (sample_run svc env s (es @ [(t, active, a)]) w))))"
proof -
  have l: "loud_oks svc env fp k es" "loud_oks svc env fp k [(t, active, a)]"
    using assms(2) by (auto simp: loud_oks_def stream_def)
  have Q: "w_outbox (sample_run svc env s es w) = w_outbox w \<and>
    recovering (0 + length es) (watch_of (row_get as_fingerprint fp (w_states (sample_run svc env s es w)))) \<and>
    ready svc env fp (sample_run svc env s es w)"
    using assms(3) by (intro quiet_oks [OF assms(1) l(1) _ assms(4)]) simp
  show ?thesis
    using recover_sample [OF _ l(2), of "sample_run svc env s es w" "length es" s] Q assms(3)
    by (simp add: sample_run_append)
qed

lemma recovery_on_last_ok_witness:
  "settled (watch_of (row_get as_fingerprint ex_fp (w_states (sample_run ex_svc ex_env ex_settings
     (replicate 5 (30, False, ex_alert) @ [(40, False, ex_alert)]) ex_failing))))"
proof -
  have "loud_oks ex_svc ex_env ex_fp 6 (replicate 5 (30, False, ex_alert) @ [(40, False, ex_alert)])"
    by (rule ex_oks) (simp add: list_all_iff)
  moreover have "recovering 0 (watch_of (row_get as_fingerprint ex_fp (w_states ex_failing)))"
    using ex_threaded by (auto simp: recovering_def threaded_def has_thread_for_all_def)
  ultimately show ?thesis
    using recovery_on_last_ok [OF ex_ready_failing, of 6 "replicate 5 (30, False, ex_alert)" 40 False ex_alert ex_settings]
    by simp
qed

text \<open>Mutes are silent. Whatever the database and Telegram do, a sample makes no call while the
  check is muted, and a sample that is not ok makes none while its fingerprint is muted in
  memory.\<close>
theorem muted_samples_make_no_call:
  assumes "check_muted env a \<or>
    sample_status active a \<noteq> ''ok'' \<and> builtin_type (al_type a) \<and>
    w_muted w (fingerprint_for env a) = Some t \<and> e_now env < t"
  shows "w_outbox (maybe_send_alert svc env settings active a w) = w_outbox w"
  using assms fingerprint_nonblank by (intro muted_sample_silent) blast

lemma muted_samples_make_no_call_witness:
  "w_outbox (maybe_send_alert ex_svc (ex_env\<lparr>e_db_fail := \<lambda>n. odd n\<rparr>) (Some ex_settings) True ex_alert
     (ex_failing\<lparr>w_muted := [ex_fp \<mapsto> 2000]\<rparr>)) = []"
proof -
  have fp: "fingerprint_for (ex_env\<lparr>e_db_fail := \<lambda>n. odd n\<rparr>) ex_alert = ex_fp"
    by (simp add: ex_fp_def fingerprint_for_def)
  show ?thesis
    using muted_samples_make_no_call [of "ex_env\<lparr>e_db_fail := \<lambda>n. odd n\<rparr>" ex_alert True
        "ex_failing\<lparr>w_muted := [ex_fp \<mapsto> 2000]\<rparr>" 2000 ex_svc "Some ex_settings"]
    by (simp add: ex_fail ex_builtin [simplified] fp)
qed

text \<open>The tables stay consistent. Every run of the service's methods, each with any database
  failures, any answers of Telegram and any clock, keeps the alert states unique by fingerprint and
  by alert id and the incidents unique by id and by fingerprint.\<close>
theorem every_run_keeps_tables:
  assumes "store_ok w"
  shows "store_ok (run (alert_step svc) es w)"
  using assms by (rule alerts.run_inv)

lemma every_run_keeps_tables_witness:
  "store_ok (run (alert_step ex_svc) [(ex_env, EvCallback ''mute:x:10''), (ex_env, EvCPU (Some ex_settings) None NaN)] ex_failing)"
  by (rule every_run_keeps_tables [OF ex_store(2)])

text \<open>Isolation. A sample changes the stored state of no other fingerprint, whatever fails.\<close>
theorem other_alerts_untouched:
  assumes "fp' \<noteq> fingerprint_for env a"
  shows "row_get as_fingerprint fp' (w_states (maybe_send_alert svc env settings active a w)) =
    row_get as_fingerprint fp' (w_states w)"
  using other_rows.keeps_sample [of fp' "fingerprint_for env a" w "row_get as_fingerprint fp' (w_states w)" env a
      active svc settings] assms by simp

lemma other_alerts_untouched_witness:
  "row_get as_fingerprint ex_fp (w_states (maybe_send_alert ex_svc ex_env (Some ex_settings) True
     (ex_alert\<lparr>al_type := AlertTLS\<rparr>) ex_failing)) = Some ex_state"
proof -
  have "fingerprint_for ex_env (ex_alert\<lparr>al_type := AlertTLS\<rparr>) \<noteq> ex_fp"
    by (simp add: ex_fp_def fingerprint_for_def ex_alert_def zero_alert_def Let_def)
  then show ?thesis
    using other_alerts_untouched [of ex_fp ex_env "ex_alert\<lparr>al_type := AlertTLS\<rparr>" ex_svc "Some ex_settings" True ex_failing]
    by simp
qed

text \<open>C29: The incident follows the alert. After a sample on a working database the row has status ok
  or fail, and the incident of the fingerprint is open when it is fail; when it is ok, the incident
  that existed is recovered and none is created. A failing sample always leaves it open.\<close>
theorem incident_follows_alert:
  assumes "ready svc env (fingerprint_for env a) w" and "plain_sample active a" and "store_ok w"
    and "builtin_type (al_type a)" and "fresh_incidents env w"
  shows "(\<exists>st \<in> {''ok'', ''fail''}.
      saved_as w (fingerprint_for env a) st (maybe_send_alert svc env (Some s) active a w)) \<and>
    (sample_status active a = ''fail'' \<longrightarrow>
      saved_as w (fingerprint_for env a) ''fail'' (maybe_send_alert svc env (Some s) active a w))"
  using sample_saves [OF assms] by blast

lemma incident_follows_alert_witness:
  "incident_status (maybe_send_alert ex_svc ex_env (Some ex_settings) True ex_alert ex_world) ex_fp = Some ''open''"
  using incident_follows_alert [OF ex_ready [unfolded ex_fp_def] ex_plain [of True] ex_store(1) ex_builtin ex_fresh(2),
      of ex_settings]
  by (simp add: ex_fail saved_as_def ex_fp_def)

end
