(* ===== verification/Message_Properties.thy ===== *)
theory Message_Properties
  imports Alert_Examples
begin

text \<open>
  The properties of the texts and buttons of alerts, of the mutes, of the deduplication, and what
  the model shows to go wrong when a check is muted while its alert is open.
\<close>

section \<open>Texts\<close>

text \<open>Every message is well-formed. Whatever the names, targets, errors and numbers of an alert
  are, the text of its alert message and of its recovery message is accepted by the HTML scanner:
  tags balanced, no stray angle bracket or ampersand.\<close>
theorem messages_well_formed:
  "html_ok (fst (render_alert env a url)) \<and> html_ok (fst (render_recovery env a url))"
  by (simp add: alert_text_ok recovery_text_ok)

text \<open>Escaping loses nothing: the reader sees the original text, and the escaped text has no
  angle bracket.\<close>
theorem escape_html_roundtrip:
  "unescape_html (escape_html s) = s \<and> CHR ''<'' \<notin> set (escape_html s) \<and> CHR ''>'' \<notin> set (escape_html s)"
  by (simp add: unescape_escape) (auto simp: escape_html_eq escape_char_def)

text \<open>The buttons of an alert can be sent and are understood. Telegram takes at most 64 bytes of
  callback data; each button that carries data has less, and \<open>ParseCallbackData\<close> reads it back as
  that button's action on that alert.\<close>
theorem buttons_roundtrip:
  assumes "codec_ok env" and "al_alert_id a = e_str env u" and "build_keyboard env a url = Some k"
    and "row \<in> set k" and "b \<in> set row" and "ib_callback_data b \<noteq> []"
  shows "length (ib_callback_data b) \<le> 64 \<and>
    (\<exists>action \<in> {''ack'', ''mute'', ''retry''}. parse_callback_data (ib_callback_data b) = (action, e_str env u, 0))"
proof -
  have d: "ib_callback_data b \<in> {''a:'' @ e_str env u, ''mute:'' @ e_str env u, ''r:'' @ e_str env u}"
    using keyboard_callbacks [OF assms(3-6)] codec_trim [OF assms(1), of u] assms(2) by auto
  have "length (e_str env u) = 36" using assms(1) by (simp add: codec_ok_def uuid_codec.length_str)
  then show ?thesis using d codec_button [OF assms(1), of u] by auto
qed

lemma buttons_roundtrip_witness:
  "length (''mute:'' @ uuid_text 5) \<le> 64 \<and>
   (\<exists>action \<in> {''ack'', ''mute'', ''retry''}. parse_callback_data (''mute:'' @ uuid_text 5) = (action, uuid_text 5, 0))"
proof -
  let ?a = "ex_alert\<lparr>al_alert_id := uuid_text 5\<rparr>"
  have "trim_space (uuid_text 5) = uuid_text 5" "uuid_text 5 \<noteq> []" by (rule uc.trim_str) (rule uc.str_ne)
  then show ?thesis
    using buttons_roundtrip [OF ex_codec, of ?a 5 "[]" _ _
        "\<lparr>ib_text = emo_mute @ '' Mute'', ib_url = [], ib_callback_data = ''mute:'' @ uuid_text 5\<rparr>"]
    by (simp add: build_keyboard_def Let_def)
qed

text \<open>Fingerprints identify alerts. Two alerts of the built-in types with one fingerprint have
  one type and one node, and two check alerts also one check.\<close>
theorem fingerprints_identify:
  assumes "codec_ok env" and "builtin_type (al_type a)" and "builtin_type (al_type b)"
    and "fingerprint_for env a = fingerprint_for env b"
  shows "al_type a = al_type b \<and> al_node_id a = al_node_id b \<and>
    (al_type a = AlertGeneric \<and> al_check_id a \<noteq> uuid_nil \<and> al_check_id b \<noteq> uuid_nil \<longrightarrow>
     al_check_id a = al_check_id b)"
  using fingerprint_identity [OF assms(1) [unfolded codec_ok_def] assms(2-4)] by blast

lemma fingerprints_identify_witness:
  "al_node_id ex_alert = al_node_id (ex_alert\<lparr>al_error := ''x''\<rparr>)"
proof -
  have f: "fingerprint_for ex_env ex_alert = fingerprint_for ex_env (ex_alert\<lparr>al_error := ''x''\<rparr>)"
    by (simp add: fingerprint_for_def)
  show ?thesis
    using fingerprints_identify [OF ex_codec ex_builtin _ f] ex_builtin by simp
qed

section \<open>Mutes and acknowledgements\<close>

text \<open>C13: The mute button works. On a working database, pressing the mute button of an alert mutes
  its fingerprint for exactly the button minutes of its organisation: those of the newest settings
  row of the organisation of its incident, its node, its service's node or its bot's node, in this
  order, cut to 30 days, an hour when there are none or they are not positive. The answer names
  them, no other call is made, and no sample of that alert that fails before the mute ends makes a
  call, even if the database fails by then.\<close>
theorem mute_button_silences:
  assumes "db_up svc env" and "codec_ok env" and "alert_row w u r" and "as_fingerprint r = fingerprint_for env a"
    and "builtin_type (al_type a)"
  shows "\<exists>v. handle_callback svc env (''mute:'' @ e_str env u) w =
      ((''Muted for '' @ itoa (button_minutes w r) @ ''m'', None), v) \<and>
    1 \<le> button_minutes w r \<and> button_minutes w r \<le> max_policy_minutes \<and>
    w_muted v (as_fingerprint r) = Some (e_now env + button_minutes w r * minute) \<and> w_outbox v = w_outbox w \<and>
    (\<forall>t < e_now env + button_minutes w r * minute. \<forall>fail settings active. sample_status active a \<noteq> ''ok'' \<longrightarrow>
       w_outbox (maybe_send_alert svc ((at_time env t)\<lparr>e_db_fail := fail\<rparr>) settings active a v) = w_outbox w)"
proof -
  let ?m = "button_minutes w r"
  have ne: "trim_space (as_fingerprint r) \<noteq> []" using assms(4,5) fingerprint_nonblank by metis
  obtain v where m: "handle_callback svc env (''mute:'' @ e_str env u) w = ((''Muted for '' @ itoa ?m @ ''m'', None), v)"
    "w_muted v (as_fingerprint r) = Some (e_now env + ?m * minute)" "w_outbox v = w_outbox w"
    using mute_button [OF assms(1-3) ne] by blast
  have fp: "fingerprint_for ((at_time env t)\<lparr>e_db_fail := fail\<rparr>) a = fingerprint_for env a" for t fail
    by (cases "al_type a") (simp_all add: at_time_def fingerprint_for_def Let_def)
  have "w_outbox (maybe_send_alert svc ((at_time env t)\<lparr>e_db_fail := fail\<rparr>) settings active a v) = w_outbox w"
    if "t < e_now env + ?m * minute" "sample_status active a \<noteq> ''ok''" for t fail settings active
    using muted_sample_silent [of "(at_time env t)\<lparr>e_db_fail := fail\<rparr>" a active v "e_now env + ?m * minute" svc settings]
      that m(2,3) ne assms(4) by (simp add: fp)
  then show ?thesis using m button_minutes_range by blast
qed

text \<open>The organisation of the example's incident mutes for 45 minutes; an older row of it and a newer row
  of another organisation do not count.\<close>

definition ex_minutes :: "uuid \<Rightarrow> int \<Rightarrow> instant \<Rightarrow> telegram_row" where
  "ex_minutes org m t =
     \<lparr>tr_id = 90, tr_org_id = Some org, tr_bot_token_enc = ''t'', tr_admin_chat_id = ''11'', tr_alert_connection = True,
      tr_alert_cpu = True, tr_alert_memory = True, tr_alert_disk = True, tr_ack_mute_minutes = 30,
      tr_mute_minutes = m, tr_created_at = t, tr_updated_at = t\<rparr>"

definition ex_muting :: world where
  "ex_muting = ex_failing\<lparr>w_incidents := [ex_incident\<lparr>in_org_id := Some 3\<rparr>],
     w_settings := [ex_minutes 3 20 1, ex_minutes 3 45 2, ex_minutes 4 90 3]\<rparr>"

lemma mute_button_silences_witness:
  "\<exists>v. handle_callback ex_svc ex_env (''mute:'' @ uuid_text 5) ex_muting = ((''Muted for 45m'', None), v) \<and>
    w_muted v ex_fp = Some (e_now ex_env + 45 * minute) \<and> w_outbox v = []"
proof -
  have m: "button_minutes ex_muting ex_state = 45" by code_simp
  have i: "itoa (45 :: int) = ''45''" by code_simp
  have r: "alert_row ex_muting 5 ex_state" by (simp add: ex_muting_def alert_row_def)
  have f: "as_fingerprint ex_state = fingerprint_for ex_env ex_alert" by (simp add: ex_fp_def)
  have o: "w_outbox ex_muting = []" by (simp add: ex_muting_def)
  show ?thesis
    using mute_button_silences [OF ex_up ex_codec r f ex_builtin] by (auto simp: m i o)
qed

text \<open>The acknowledge button works. On a working database, pressing it mutes the row of the alert
  for the policy's minutes and marks the incident acknowledged, by Telegram, now.\<close>
theorem ack_button_acknowledges:
  assumes "db_up svc env" and "codec_ok env" and "alert_row w u r" and "as_incident_id r = Some i"
    and "row_get in_id i (w_incidents w) = Some q" and "store_ok w"
  shows "\<exists>m v r' q'. handle_callback svc env (''a:'' @ e_str env u) w = ((''Acknowledged'', None), v) \<and>
      1 \<le> m \<and> m \<le> max_policy_minutes \<and>
      row_get as_fingerprint (as_fingerprint r) (w_states v) = Some r' \<and>
      as_muted_until r' = Some (e_now env + m * minute) \<and>
      row_get in_id i (w_incidents v) = Some q' \<and> in_status q' = ''acked'' \<and>
      in_acknowledged_at q' = Some (e_now env) \<and> in_acknowledged_by q' = Some ''telegram''"
  using assms by (intro ack_button) (simp_all add: store_ok_def)

lemma ack_button_acknowledges_witness:
  "\<exists>v. handle_callback ex_svc ex_env (''a:'' @ uuid_text 5) ex_failing = ((''Acknowledged'', None), v)"
  using ack_button_acknowledges [OF ex_up ex_codec, of ex_failing 5 ex_state 6 ex_incident] ex_store(2)
  by (auto simp: alert_row_def ex_incident_def new_incident_def Let_def)

text \<open>Policies stay usable. Every policy a service is built with has a positive failure count,
  a non-negative delay and usable thresholds, and the minutes of a mute are between 1 and 30 days
  whatever the settings row holds.\<close>
theorem policies_in_range:
  "policy_ok (a_policy (new_service has_db has_enc url opts)) \<and> 1 \<le> min_consecutive_fails svc ty \<and>
   1 \<le> fst (normalize_policy_minutes ack mute) \<and> fst (normalize_policy_minutes ack mute) \<le> max_policy_minutes \<and>
   1 \<le> snd (normalize_policy_minutes ack mute) \<and> snd (normalize_policy_minutes ack mute) \<le> max_policy_minutes"
proof -
  have "policy_ok p \<Longrightarrow> policy_ok (fold with_policy opts p)" for p
    by (induction opts arbitrary: p) (auto intro: with_policy_ok)
  then have "policy_ok (a_policy (new_service has_db has_enc url opts))"
    by (simp add: new_service_def default_policy_ok)
  moreover have "1 \<le> min_consecutive_fails svc ty"
    by (auto simp: min_consecutive_fails_def Let_def)
  ultimately show ?thesis using normalize_range by blast
qed

section \<open>Deduplication\<close>

text \<open>The deduplication window. After \<open>Track\<close> has said to send an alert at \<open>t\<close>, and however
  messages are recorded, entries updated, other prefixes cleared and other alerts tracked in
  between, a \<open>Track\<close> of the same fingerprint at most \<open>ttl\<close> later says not to send, and has counted
  every occurrence.\<close>
theorem dedup_window:
  assumes "fst (fst (track a t d))" and "list_all (in_window (al_fingerprint a) t (dd_ttl d)) es"
    and "al_fingerprint b = al_fingerprint a" and "\<not> dd_ttl d < time_sub now t"
  shows "\<not> fst (fst (track b now (run dedup_step es (snd (track a t d))))) \<and>
    de_occurrences (snd (fst (track b now (run dedup_step es (snd (track a t d)))))) =
      2 + int (length (filter (tracks (al_fingerprint a)) es))"
proof -
  let ?d = "run dedup_step es (snd (track a t d))"
  have "entry_at (al_fingerprint a) t (1 + int (length (filter (tracks (al_fingerprint a)) es))) ?d"
    using dedup_run_entry [OF track_fresh_entry [OF assms(1)]] assms(2) by simp
  then show ?thesis
    using track_in_window [OF _ assms(3), of t _ ?d now] assms(4) by simp
qed

lemma dedup_window_witness:
  "\<not> fst (fst (track ex_alert 9 (run dedup_step [EvRecord [] [(''11'', 3)], EvTrack ex_alert 7]
     (snd (track ex_alert 5 (new_deduper 10))))))"
  using dedup_window [of ex_alert 5 "new_deduper 10" "[EvRecord [] [(''11'', 3)], EvTrack ex_alert 7]" ex_alert 9]
  by (simp add: track_def new_deduper_def time_sub_def sat64_def)

section \<open>A recovery that the mute of a check hides\<close>

text \<open>A check that recovers while it is muted keeps its message thread, although a recovery is
  meant to clear it: the ok sample during the mute settles the row to ok without a recovery message,
  and the very next failing sample, with no failure counted and no delay passed, calls Telegram for
  every chat.\<close>
theorem muted_recovery_keeps_thread:
  assumes r: "ready svc env (fingerprint_for env a) w" and th: "threaded s (watch_in env a w)"
    and ok: "plain_sample okb a" "sample_status okb a = ''ok''" and t: "0 < t1" "0 < t2"
    and cm: "check_muted (at_time env t1) a"
    and b: "plain_sample True b" "sample_status True b = ''fail''" "fingerprint_for env b = fingerprint_for env a"
      "\<not> check_muted (at_time env t2) b"
    and m: "\<not> mute_active (at_time env t2) (fingerprint_for env a)
       (maybe_send_alert svc (at_time env t1) (Some s) okb a w)"
  shows "w_outbox (sample_run svc env s [(t1, okb, a)] w) = w_outbox w \<and>
    \<not> wt_fail (watch_in env a (sample_run svc env s [(t1, okb, a)] w)) \<and>
    (\<exists>cs. w_outbox (sample_run svc env s [(t1, okb, a), (t2, True, b)] w) = w_outbox w @ cs \<and>
       length (s_admin_chat_ids s) \<le> length cs)"
proof -
  let ?w1 = "maybe_send_alert svc (at_time env t1) (Some s) okb a w"
  let ?w2 = "maybe_send_alert svc (at_time env t2) (Some s) True b ?w1"
  have r1: "ready svc (at_time env t1) (fingerprint_for (at_time env t1) a) w"
    using ready_time [OF r t(1)] by simp
  obtain cs act x' where S: "w_outbox ?w1 = w_outbox w @ cs"
    "watch_step (par_of svc s a) (sample_of (at_time env t1) okb a w (replies (at_time env t1) (length (w_outbox w)) cs []))
       (watch_in env a w) = (act, x')" "watch_in env a ?w1 = x'" "action_calls act s (wt_thread (watch_in env a w)) cs"
    by (rule sample_cases [OF r1 ok(1), of s]) (unfold watch_in_time, rule that)
  have x: "act = Silent" "\<not> wt_fail x'" "wt_thread x' = wt_thread (watch_in env a w)"
    using S(2) cm ok(2) by (auto simp: watch_step_def sample_of_def watch_muted_def)
  have o1: "w_outbox ?w1 = w_outbox w" using S(1,4) x(1) by (simp add: action_calls_def)
  have ne: "wt_thread x' \<noteq> []" using th x(3) by (auto simp: threaded_def has_thread_for_all_def)
  have rd: "ready svc env (fingerprint_for env a) ?w1" by (rule ready_step [OF r t(1) ok(1) refl])
  obtain ds act2 x2 sm where T: "w_outbox ?w2 = w_outbox ?w1 @ ds"
    "watch_fail (par_of svc s b) sm (watch_in env b ?w1) = (act2, x2)"
    "sm_muted sm = mute_active (at_time env t2) (fingerprint_for env a) ?w1"
    "action_calls act2 s (wt_thread (watch_in env b ?w1)) ds"
    using fail_sample_cases [OF rd t(2) b(1,3,2,4), of s] by metis
  have wb: "watch_in env b ?w1 = x'" using S(3) b(3) by (simp add: watch_in_def)
  have "act2 = Notify" using T(2,3) wb ne x(2) m by (auto simp: watch_fail_def Let_def)
  then have "length (s_admin_chat_ids s) \<le> length ds"
    using T(4) by (auto simp: action_calls_def round_calls_def)
  then show ?thesis using T(1) o1 x(2) S(3) by simp
qed

lemma muted_recovery_keeps_thread_witness:
  "\<exists>cs. w_outbox (sample_run ex_svc ex_env ex_settings
      [(30, False, ex_alert\<lparr>al_mute_until := Some 35\<rparr>), (40, True, ex_alert)] ex_failing) = [] @ cs \<and>
    length (s_admin_chat_ids ex_settings) \<le> length cs"
proof -
  let ?a = "ex_alert\<lparr>al_mute_until := Some 35\<rparr>"
  have fp: "fingerprint_for ex_env ?a = ex_fp" by (simp add: ex_fp_def fingerprint_for_def)
  have ok: "sample_status False ?a = ''ok''" "plain_sample False ?a"
    by (simp_all add: sample_status_def plain_sample_def)
  have th: "threaded ex_settings (watch_in ex_env ?a ex_failing)"
    by (simp add: watch_in_def fp ex_threaded)
  have cm: "check_muted (at_time ex_env 30) ?a" by (simp add: check_muted_def)
  have "never_muted ex_failing" by (simp add: never_muted_def)
  then have m: "\<not> mute_active (at_time ex_env 40) (fingerprint_for ex_env ?a)
       (maybe_send_alert ex_svc (at_time ex_env 30) (Some ex_settings) False ?a ex_failing)"
    by (intro never_muted_inactive never.keeps_sample) auto
  have r: "ready ex_svc ex_env (fingerprint_for ex_env ?a) ex_failing"
    unfolding fp by (rule ex_ready_failing)
  have fb: "fingerprint_for ex_env ex_alert = fingerprint_for ex_env ?a"
    unfolding fp ex_fp_def ..
  have t: "(0::int) < 30" "(0::int) < 40" by simp_all
  show ?thesis
    using muted_recovery_keeps_thread [OF r th ok(2,1) t cm ex_plain ex_fail fb ex_not_muted m]
    unfolding ex_failing_sel by blast
qed

text \<open>An acknowledgement does not last. The next failing sample on a working database sets an
  acknowledged incident back to open, keeping the time and the author of the acknowledgement when
  the alert was failing before.\<close>
theorem failing_sample_reopens_acked:
  assumes "db_up svc env" and "store_ok w" and "trim_space (al_fingerprint a) \<noteq> []"
    and "e_uuid env (w_uid w) \<notin> in_id ` set (w_incidents w)"
    and "row_get in_fingerprint (trim_space (al_fingerprint a)) (w_incidents w) = Some q" and "in_status q = ''acked''"
  shows "\<exists>q'. row_get in_fingerprint (trim_space (al_fingerprint a))
        (w_incidents (snd (sync_incident svc env a ''fail'' ''fail'' w))) = Some q' \<and>
      in_status q' = ''open'' \<and> in_acknowledged_at q' = in_acknowledged_at q \<and>
      in_acknowledged_by q' = in_acknowledged_by q"
  using sync_outcome(2) [OF assms(1-5), of "''fail''" "''fail''"] assms(6)
  by (simp add: incident_updates_def Let_def)

lemma failing_sample_reopens_acked_witness:
  "\<exists>q'. row_get in_fingerprint (trim_space ex_fp) (w_incidents (snd (sync_incident ex_svc ex_env
        (ex_alert\<lparr>al_fingerprint := ex_fp\<rparr>) ''fail'' ''fail''
        (ex_failing\<lparr>w_incidents := [ex_incident\<lparr>in_status := ''acked''\<rparr>]\<rparr>)))) = Some q' \<and> in_status q' = ''open''"
proof -
  have k: "in_fingerprint ex_incident = trim_space ex_fp" "in_id ex_incident = 6"
    by (simp_all add: ex_incident_def new_incident_def Let_def)
  have "store_ok (ex_failing\<lparr>w_incidents := [ex_incident\<lparr>in_status := ''acked''\<rparr>]\<rparr>)"
    by (simp add: store_ok_def keyed_def)
  then show ?thesis
    using failing_sample_reopens_acked [OF ex_up, of "ex_failing\<lparr>w_incidents := [ex_incident\<lparr>in_status := ''acked''\<rparr>]\<rparr>"
        "ex_alert\<lparr>al_fingerprint := ex_fp\<rparr>"] ex_fp_ne k by auto
qed

end
