(* ===== verification/Go_Paths.thy ===== *)
theory Go_Paths
  imports Go_Strings
begin

text \<open>
  Go's package \<open>path\<close> on slash-separated paths: \<open>Clean\<close>, \<open>Join\<close>, \<open>Base\<close> and \<open>Dir\<close>, and the view
  of a rooted path as the list of its segments that the access rules are stated with.
\<close>

named_theorems paths

definition slash :: char where
  "slash = CHR ''/''"

fun clean_step :: "bool \<Rightarrow> string list \<Rightarrow> string \<Rightarrow> string list" where
  "clean_step rooted st w =
     (if w = [] \<or> w = ''.'' then st
      else if w = ''..''
      then (case st of
              [] \<Rightarrow> if rooted then [] else [''..'']
            | t # ts \<Rightarrow> if t = ''..'' then ''..'' # st else ts)
      else w # st)"

declare clean_step.simps [simp del]

lemma clean_step_skip [simp]: "clean_step r st [] = st" "clean_step r st ''.'' = st"
  by (simp_all add: clean_step.simps)

lemma clean_step_plain [simp]: "w \<noteq> [] \<Longrightarrow> w \<noteq> ''.'' \<Longrightarrow> w \<noteq> ''..'' \<Longrightarrow> clean_step r st w = w # st"
  by (simp add: clean_step.simps)

lemma set_clean_step: "set (clean_step r st w) \<subseteq> set st \<union> {w, ''..''}"
  by (auto simp: clean_step.simps split: list.splits)

definition clean_segs :: "bool \<Rightarrow> string \<Rightarrow> string list" where
  "clean_segs rooted s = rev (fold (\<lambda>w st. clean_step rooted st w) (split_on slash s) [])"

definition path_clean :: "string \<Rightarrow> string" where
  "path_clean s =
     (let rooted = prefix ''/'' s;
          out = (if rooted then ''/'' else []) @ join ''/'' (clean_segs rooted s)
      in if out = [] then ''.'' else out)"

definition path_join :: "string list \<Rightarrow> string" where
  "path_join ws =
     (let ne = filter (\<lambda>w. w \<noteq> []) ws in if ne = [] then [] else path_clean (join ''/'' ne))"

definition path_base :: "string \<Rightarrow> string" where
  "path_base s =
     (if s = [] then ''.''
      else let b = last (split_on slash (trim_right_cut [slash] s)) in if b = [] then ''/'' else b)"

text \<open>\<open>Dir\<close> cleans what precedes the last slash, the slash included.\<close>

definition path_dir :: "string \<Rightarrow> string" where
  "path_dir s = path_clean (rev (dropWhile (\<lambda>c. c \<noteq> slash) (rev s)))"

text \<open>The non-empty segments of a path.\<close>

definition segs :: "string \<Rightarrow> string list" where
  "segs s = filter (\<lambda>w. w \<noteq> []) (split_on slash s)"

section \<open>Segments\<close>

text \<open>A segment as it is left in a clean rooted path.\<close>

definition seg_ok :: "string \<Rightarrow> bool" where
  "seg_ok w \<longleftrightarrow> w \<noteq> [] \<and> w \<noteq> ''.'' \<and> w \<noteq> ''..'' \<and> slash \<notin> set w"

definition root_path :: "string list \<Rightarrow> string" where
  "root_path ws = slash # join ''/'' ws"

lemma split_on_join:
  "ws \<noteq> [] \<Longrightarrow> \<forall>w \<in> set ws. slash \<notin> set w \<Longrightarrow> split_on slash (join ''/'' ws) = ws"
proof (induction ws)
  case (Cons w ws)
  show ?case
  proof (cases ws)
    case Nil
    with Cons.prems show ?thesis by (simp add: split_on_absent)
  next
    case (Cons v vs)
    have "split_on slash (w @ slash # join ''/'' ws) = split_on slash w @ split_on slash (join ''/'' ws)"
      by (rule split_on_append_sep)
    moreover have "split_on slash w = [w]" using Cons.prems by (simp add: split_on_absent)
    moreover have "split_on slash (join ''/'' ws) = ws" using Cons.IH Cons.prems Cons by simp
    ultimately show ?thesis using Cons by (simp add: slash_def)
  qed
qed simp

lemma split_on_root_path:
  "\<forall>w \<in> set ws. seg_ok w \<Longrightarrow> split_on slash (root_path ws) = [] # (if ws = [] then [[]] else ws)"
  using split_on_join [of ws] by (auto simp: root_path_def seg_ok_def)

lemma segs_root_path [paths]: "\<forall>w \<in> set ws. seg_ok w \<Longrightarrow> segs (root_path ws) = ws"
  by (auto simp: segs_def split_on_root_path seg_ok_def intro: filter_True)

lemma root_path_inject:
  "\<forall>w \<in> set vs. seg_ok w \<Longrightarrow> \<forall>w \<in> set ws. seg_ok w \<Longrightarrow> root_path vs = root_path ws \<longleftrightarrow> vs = ws"
  by (metis segs_root_path)

lemma clean_step_ok: "slash \<notin> set w \<Longrightarrow> \<forall>t \<in> set st. seg_ok t \<Longrightarrow> \<forall>t \<in> set (clean_step True st w). seg_ok t"
  by (cases st) (auto simp: clean_step.simps seg_ok_def)

lemma clean_fold_ok:
  "\<forall>w \<in> set ws. slash \<notin> set w \<Longrightarrow> \<forall>t \<in> set st. seg_ok t \<Longrightarrow>
   \<forall>t \<in> set (fold (\<lambda>w st. clean_step True st w) ws st). seg_ok t"
  by (rule fold_invariant [where Q = "\<lambda>w. slash \<notin> set w"]) (auto intro: clean_step_ok [rule_format])

lemma clean_segs_ok: "w \<in> set (clean_segs True s) \<Longrightarrow> seg_ok w"
  using clean_fold_ok [of "split_on slash s" "[]"] by (auto simp: clean_segs_def dest: split_on_no_sep)

lemma clean_fold_plain:
  "\<forall>w \<in> set ws. w \<noteq> ''..'' \<Longrightarrow>
   fold (\<lambda>w st. clean_step r st w) ws st = rev (filter (\<lambda>w. w \<noteq> [] \<and> w \<noteq> ''.'') ws) @ st"
proof (induction ws arbitrary: st)
  case (Cons w ws)
  then show ?case by (cases "w = [] \<or> w = ''.''") auto
qed simp

text \<open>Without a \<open>..\<close> segment cleaning drops the empty and the \<open>.\<close> segments.\<close>

lemma clean_segs_plain:
  "''..'' \<notin> set (split_on slash s) \<Longrightarrow>
   clean_segs r s = filter (\<lambda>w. w \<noteq> [] \<and> w \<noteq> ''.'') (split_on slash s)"
proof -
  assume "''..'' \<notin> set (split_on slash s)"
  then have "\<forall>w \<in> set (split_on slash s). w \<noteq> ''..''" by metis
  from clean_fold_plain [OF this, of r "[]"] show ?thesis by (simp add: clean_segs_def)
qed

section \<open>Rooted paths\<close>

definition rooted :: "string \<Rightarrow> bool" where
  "rooted s \<longleftrightarrow> prefix ''/'' s"

lemma rooted_Cons [simp]: "rooted (c # s) \<longleftrightarrow> c = slash"
  by (auto simp: rooted_def slash_def)

lemma rooted_Nil [simp]: "\<not> rooted []"
  by (simp add: rooted_def)

lemma rooted_root_path [simp]: "rooted (root_path ws)"
  by (simp add: root_path_def)

lemma path_clean_rooted [paths]: "rooted s \<Longrightarrow> path_clean s = root_path (clean_segs True s)"
  by (simp add: path_clean_def rooted_def root_path_def slash_def)

lemma path_clean_not_rooted: "\<not> rooted s \<Longrightarrow> \<not> rooted (path_clean s)"
proof -
  have step: "v \<noteq> [] \<and> slash \<notin> set v"
    if v: "v \<in> set (clean_step False st w)" and w: "slash \<notin> set w"
      and st: "\<forall>v \<in> set st. v \<noteq> [] \<and> slash \<notin> set v" for v w st
  proof -
    consider "v \<in> set st" | "v = w" "w \<noteq> []" | "v = ''..''"
      using v set_clean_step [of False st w] by (cases "w = []") auto
    then show ?thesis
    proof cases
      case 1
      then show ?thesis using st by blast
    next
      case 2
      then show ?thesis using w by blast
    qed (simp add: slash_def)
  qed
  have "\<forall>w \<in> set (fold (\<lambda>w st. clean_step False st w) (split_on slash s) []). w \<noteq> [] \<and> slash \<notin> set w"
  proof (rule fold_invariant [where Q = "\<lambda>w. slash \<notin> set w" and P = "\<lambda>st. \<forall>w \<in> set st. w \<noteq> [] \<and> slash \<notin> set w"])
    show "slash \<notin> set w" if "w \<in> set (split_on slash s)" for w using that by (rule split_on_no_sep)
    show "\<forall>v \<in> set (clean_step False st w). v \<noteq> [] \<and> slash \<notin> set v"
      if "slash \<notin> set w" "\<forall>v \<in> set st. v \<noteq> [] \<and> slash \<notin> set v" for w st
      using step that by blast
  qed simp
  then have *: "\<forall>w \<in> set (clean_segs False s). w \<noteq> [] \<and> slash \<notin> set w"
    by (simp add: clean_segs_def)
  assume "\<not> rooted s"
  moreover have "\<not> rooted (join ''/'' ws)" if "\<forall>w \<in> set ws. w \<noteq> [] \<and> slash \<notin> set w" for ws
  proof (cases ws)
    case (Cons w vs)
    with that obtain c t where "w = c # t" "c \<noteq> slash" by (cases w) auto
    with Cons show ?thesis by simp
  qed simp
  ultimately show "\<not> rooted (path_clean s)"
    using * by (auto simp: path_clean_def rooted_def Let_def)
qed

lemma clean_segs_root_path:
  "\<forall>w \<in> set ws. seg_ok w \<Longrightarrow> clean_segs True (root_path ws) = ws"
  by (subst clean_segs_plain)
     (auto simp: split_on_root_path seg_ok_def intro: filter_True)

lemma path_clean_root_path [paths]: "\<forall>w \<in> set ws. seg_ok w \<Longrightarrow> path_clean (root_path ws) = root_path ws"
  by (simp add: path_clean_rooted clean_segs_root_path)

lemma path_clean_idem: "rooted s \<Longrightarrow> path_clean (path_clean s) = path_clean s"
  by (simp add: path_clean_rooted clean_segs_root_path clean_segs_ok)

lemma segs_path_clean [paths]: "rooted s \<Longrightarrow> segs (path_clean s) = clean_segs True s"
  by (simp add: path_clean_rooted segs_root_path clean_segs_ok)

lemma root_path_Nil [simp]: "root_path [] = ''/''"
  by (simp add: root_path_def slash_def)

lemma root_path_snoc: "ws \<noteq> [] \<Longrightarrow> root_path (ws @ [w]) = root_path ws @ slash # w"
proof -
  have "join ''/'' (ws @ [w]) = join ''/'' ws @ slash # w" if "ws \<noteq> []" for ws
    using that
  proof (induction ws)
    case (Cons v ws)
    then show ?case by (cases ws) (auto simp: slash_def)
  qed simp
  then show "ws \<noteq> [] \<Longrightarrow> ?thesis" by (simp add: root_path_def)
qed

lemma root_path_append:
  "ws \<noteq> [] \<Longrightarrow> vs \<noteq> [] \<Longrightarrow> root_path (ws @ vs) = root_path ws @ root_path vs"
proof -
  have "join ''/'' (ws @ vs) = join ''/'' ws @ slash # join ''/'' vs" if "ws \<noteq> []" "vs \<noteq> []" for ws vs
    using that
  proof (induction ws)
    case (Cons v ws)
    then show ?case by (cases ws; cases vs) (auto simp: slash_def)
  qed simp
  then show "ws \<noteq> [] \<Longrightarrow> vs \<noteq> [] \<Longrightarrow> ?thesis" by (simp add: root_path_def)
qed

text \<open>
  The test the code makes, equal or followed by a slash, is the prefix order on segments.
\<close>

lemma under_iff [paths]:
  assumes "\<forall>w \<in> set ws. seg_ok w" and "\<forall>w \<in> set vs. seg_ok w" and "ws \<noteq> []"
  shows "root_path vs = root_path ws \<or> prefix (root_path ws @ ''/'') (root_path vs) \<longleftrightarrow> prefix ws vs"
proof
  assume "prefix ws vs"
  then obtain us where us: "vs = ws @ us" by (auto simp: prefix_def)
  show "root_path vs = root_path ws \<or> prefix (root_path ws @ ''/'') (root_path vs)"
  proof (cases us)
    case Nil
    with us show ?thesis by simp
  next
    case Cons
    with us assms(3) have "root_path vs = root_path ws @ root_path us" by (simp add: root_path_append)
    then show ?thesis by (simp add: root_path_def slash_def)
  qed
next
  assume "root_path vs = root_path ws \<or> prefix (root_path ws @ ''/'') (root_path vs)"
  then show "prefix ws vs"
  proof
    assume "root_path vs = root_path ws"
    with assms(1,2) show ?thesis by (simp add: root_path_inject)
  next
    assume "prefix (root_path ws @ ''/'') (root_path vs)"
    then obtain t where "root_path vs = root_path ws @ slash # t" by (auto simp: prefix_def slash_def)
    then have "segs (root_path vs) = segs (root_path ws) @ segs t"
      by (simp add: segs_def split_on_append_sep)
    with assms(1,2) show ?thesis by (simp add: segs_root_path)
  qed
qed

lemma root_path_eq_slash: "\<forall>w \<in> set ws. seg_ok w \<Longrightarrow> root_path ws = ''/'' \<longleftrightarrow> ws = []"
  using root_path_inject [of ws "[]"] by simp

end
