(* ===== verification/Agent_FS.thy ===== *)
theory Agent_FS
  imports Go_Paths
begin

text \<open>
  The access rules of the node agent's file interface, \<open>internal/agentfs/fsops.go\<close>: which paths a
  request may name, where an upload is stored, which contents count as text.

  \<open>fs_env\<close> is the operating system and what the code takes from the standard library:
  \<open>filepath.EvalSymlinks\<close>, \<open>os.Stat\<close>, the contents of an opened file, the content sniffer
  \<open>http.DetectContentType\<close> and \<open>utf8.Valid\<close>.
\<close>

datatype fs_error = ErrInvalidPath | ErrForbiddenPath | ErrNotText | ErrTooLarge | ErrIO string

record fs_info =
  fi_name :: string
  fi_is_dir :: bool
  fi_size :: int
  fi_perm :: nat
  fi_mod_time :: instant
  fi_uid :: int
  fi_gid :: int

record fs_file =
  ff_info :: "string + fs_info"
  ff_data :: string
  ff_read_err :: "string option"

record fs_env =
  fe_eval_symlinks :: "string \<Rightarrow> string option"
  fe_stat :: "string \<Rightarrow> string + fs_info"
  fe_open :: "string \<Rightarrow> string + fs_file"
  fe_content_type :: "string \<Rightarrow> string"
  fe_utf8_valid :: "string \<Rightarrow> bool"

definition blocked_prefixes :: "string list" where
  "blocked_prefixes = [''/proc'', ''/sys'', ''/dev'']"

definition normalize_path :: "string \<Rightarrow> fs_error + string" where
  "normalize_path raw =
     (let value = trim_space raw
      in if value = [] then Inl ErrInvalidPath
         else if CHR 0x00 \<in> set value then Inl ErrInvalidPath
         else if CHR 0x5C \<in> set value then Inl ErrInvalidPath
         else if \<not> prefix ''/'' value then Inl ErrInvalidPath
         else if ''..'' \<in> set (split_on slash value) then Inl ErrInvalidPath
         else let clean = path_clean value
              in if clean = ''.'' \<or> clean = [] then Inl ErrInvalidPath
                 else if \<not> prefix ''/'' clean then Inl ErrInvalidPath
                 else Inr clean)"

definition is_blocked :: "string \<Rightarrow> bool" where
  "is_blocked p =
     (let clean = path_clean p
      in list_ex (\<lambda>pre. clean = pre \<or> prefix (pre @ ''/'') clean) blocked_prefixes)"

definition ensure_allowed :: "string \<Rightarrow> fs_error + string" where
  "ensure_allowed raw =
     (case normalize_path raw of
        Inl err \<Rightarrow> Inl err
      | Inr clean \<Rightarrow> if is_blocked clean then Inl ErrForbiddenPath else Inr clean)"

definition ensure_parent_allowed :: "string \<Rightarrow> fs_error + string" where
  "ensure_parent_allowed raw =
     (case ensure_allowed raw of
        Inl err \<Rightarrow> Inl err
      | Inr clean \<Rightarrow>
          let parent = path_dir clean;
              parent = (if parent = ''.'' \<or> parent = [] then ''/'' else parent)
          in if is_blocked parent then Inl ErrForbiddenPath else Inr clean)"

definition detect_text :: "fs_env \<Rightarrow> string \<Rightarrow> bool" where
  "detect_text env sample =
     (if sample = [] then True
      else if \<not> fe_utf8_valid env sample then False
      else let ctype = fe_content_type env sample
           in if prefix ''text/'' ctype then True
              else ctype = ''application/json'' \<or> ctype = ''application/x-yaml'' \<or> ctype = ''application/xml'')"

text \<open>The size is returned with some of the errors, too; callers use it on success only.\<close>

definition read_text_file :: "fs_env \<Rightarrow> string \<Rightarrow> int \<Rightarrow> fs_error + (string \<times> int)" where
  "read_text_file env p max_bytes =
     (case fe_open env p of
        Inl e \<Rightarrow> Inl (ErrIO e)
      | Inr f \<Rightarrow>
          (case ff_info f of
             Inl e \<Rightarrow> Inl (ErrIO e)
           | Inr info \<Rightarrow>
               if fi_is_dir info then Inl (ErrIO ''is_dir'')
               else if 0 < max_bytes \<and> max_bytes < fi_size info then Inl ErrTooLarge
               else if \<not> detect_text env (take 4096 (ff_data f)) then Inl ErrNotText
               else case ff_read_err f of
                      Some e \<Rightarrow> Inl (ErrIO e)
                    | None \<Rightarrow> Inr (ff_data f, fi_size info)))"

definition resolve_upload_target :: "fs_env \<Rightarrow> string \<Rightarrow> string \<Rightarrow> fs_error + string" where
  "resolve_upload_target env target filename =
     (case ensure_parent_allowed target of
        Inl err \<Rightarrow> Inl err
      | Inr clean \<Rightarrow>
          if suffix ''/'' target then Inr (path_join [clean, path_base filename])
          else case fe_stat env clean of
                 Inr info \<Rightarrow> if fi_is_dir info then Inr (path_join [clean, path_base filename]) else Inr clean
               | Inl e \<Rightarrow> Inr clean)"

definition limit_reader :: "string \<Rightarrow> int \<Rightarrow> string" where
  "limit_reader src mx = (if mx \<le> 0 then src else take (nat mx) src)"

definition real_path :: "fs_env \<Rightarrow> string \<Rightarrow> string" where
  "real_path env p = (case fe_eval_symlinks env p of None \<Rightarrow> p | Some r \<Rightarrow> r)"

section \<open>What is blocked\<close>

definition blocked_segs :: "string list" where
  "blocked_segs = [''proc'', ''sys'', ''dev'']"

lemma blocked_segs_ok: "b \<in> set blocked_segs \<Longrightarrow> seg_ok b"
  by (auto simp: blocked_segs_def seg_ok_def slash_def)

lemma blocked_prefixes_eq: "blocked_prefixes = map (\<lambda>b. root_path [b]) blocked_segs"
  by (simp add: blocked_prefixes_def blocked_segs_def root_path_def slash_def)

text \<open>A rooted path is blocked when its first segment is \<open>proc\<close>, \<open>sys\<close> or \<open>dev\<close>.\<close>

lemma is_blocked_root_path [paths]:
  assumes "\<forall>w \<in> set ws. seg_ok w"
  shows "is_blocked (root_path ws) \<longleftrightarrow> ws \<noteq> [] \<and> hd ws \<in> set blocked_segs"
proof -
  have "is_blocked (root_path ws) \<longleftrightarrow> (\<exists>b \<in> set blocked_segs. prefix [b] ws)"
    using under_iff [OF _ assms] blocked_segs_ok
    by (auto simp: is_blocked_def blocked_prefixes_eq path_clean_root_path assms list_ex_iff Let_def)
  also have "\<dots> \<longleftrightarrow> ws \<noteq> [] \<and> hd ws \<in> set blocked_segs" by (cases ws) auto
  finally show ?thesis .
qed

lemma is_blocked_rooted:
  "rooted p \<Longrightarrow> is_blocked p \<longleftrightarrow> clean_segs True p \<noteq> [] \<and> hd (clean_segs True p) \<in> set blocked_segs"
proof -
  assume p: "rooted p"
  then have "is_blocked p \<longleftrightarrow> is_blocked (path_clean p)" by (simp add: is_blocked_def path_clean_idem)
  with p show ?thesis by (simp add: path_clean_rooted is_blocked_root_path clean_segs_ok)
qed

section \<open>What is accepted\<close>

text \<open>A path the rules accept: rooted, clean, outside of the blocked directories.\<close>

definition fs_path_ok :: "string \<Rightarrow> bool" where
  "fs_path_ok p \<longleftrightarrow> (\<exists>ws. p = root_path ws \<and> (\<forall>w \<in> set ws. seg_ok w) \<and>
     (ws = [] \<or> hd ws \<notin> set blocked_segs))"

lemma normalize_path_Inr:
  assumes "normalize_path raw = Inr p"
  shows "p = root_path (filter (\<lambda>w. w \<noteq> [] \<and> w \<noteq> ''.'') (split_on slash (trim_space raw))) \<and>
    ''..'' \<notin> set (split_on slash (trim_space raw)) \<and> rooted (trim_space raw)"
  using assms
  by (auto simp: normalize_path_def Let_def path_clean_rooted rooted_def clean_segs_plain split: if_splits)

lemma normalize_path_segs:
  assumes "normalize_path raw = Inr p"
  obtains ws where "p = root_path ws" "\<forall>w \<in> set ws. seg_ok w"
proof (rule that)
  let ?ws = "filter (\<lambda>w. w \<noteq> [] \<and> w \<noteq> ''.'') (split_on slash (trim_space raw))"
  show "p = root_path ?ws" using normalize_path_Inr [OF assms] by simp
  show "\<forall>w \<in> set ?ws. seg_ok w"
    using normalize_path_Inr [OF assms] split_on_no_sep [of _ slash "trim_space raw"]
    by (auto simp: seg_ok_def)
qed

lemma ensure_allowed_ok:
  assumes "ensure_allowed raw = Inr p" shows "fs_path_ok p"
proof -
  from assms have n: "normalize_path raw = Inr p" and b: "\<not> is_blocked p"
    by (auto simp: ensure_allowed_def split: sum.splits if_splits)
  from normalize_path_segs [OF n] obtain ws where "p = root_path ws" "\<forall>w \<in> set ws. seg_ok w" .
  with b show ?thesis by (auto simp: fs_path_ok_def is_blocked_root_path)
qed

lemma ensure_parent_allowed_Inr: "ensure_parent_allowed raw = Inr p \<Longrightarrow> ensure_allowed raw = Inr p"
  by (auto simp: ensure_parent_allowed_def Let_def split: sum.splits if_splits)

lemma ensure_parent_allowed_ok: "ensure_parent_allowed raw = Inr p \<Longrightarrow> fs_path_ok p"
  by (rule ensure_allowed_ok [OF ensure_parent_allowed_Inr])

lemma fs_path_ok_not_blocked: "fs_path_ok p \<Longrightarrow> rooted p \<and> path_clean p = p \<and> \<not> is_blocked p"
proof -
  assume "fs_path_ok p"
  then obtain ws where "p = root_path ws" "\<forall>w \<in> set ws. seg_ok w" "ws = [] \<or> hd ws \<notin> set blocked_segs"
    by (auto simp: fs_path_ok_def)
  then show ?thesis by (auto simp: is_blocked_root_path path_clean_root_path simp del: root_path_Nil)
qed

end
