(* ===== verification/Agent_FS_Handlers.thy ===== *)
theory Agent_FS_Handlers
  imports Agent_FS
begin

text \<open>
  The handlers of \<open>cmd/node-agent/fs_handlers.go\<close>. A handler maps a request to the answer it
  writes and the list of the operating system calls it made on paths; \<open>ae_do\<close> says how such a call
  ends. The body of a request is given decoded (\<open>None\<close> when \<open>json.Decoder\<close> fails), a
  multipart body as the list of its parts.
\<close>

datatype fs_op =
    OsReadDir string
  | OsStat string
  | OsReadText string
  | OsOpenRead string
  | OsWriteFile string string nat
  | OsMkdirAll string
  | OsRename string string
  | OsRemove string
  | OsRemoveAll string
  | OsOpenTrunc string
  | OsWrite string string

record agent_env = fs_env +
  ae_read_dir :: "string \<Rightarrow> string + (string \<times> fs_info option) list"
  ae_do :: "fs_op \<Rightarrow> string option"

record agent_cfg =
  ac_fs_max_text_bytes :: int
  ac_fs_max_upload_bytes :: int

record fs_entry =
  fe_name :: string
  fe_path :: string
  fe_type :: string
  fe_size :: int
  fe_mode :: string
  fe_modified :: instant
  fe_uid :: int
  fe_gid :: int

datatype fs_body =
    BOk
  | BEntries string "fs_entry list"
  | BStat fs_entry
  | BRead string int string
  | BUploaded int string
  | BFile string string string
  | BError string string

type_synonym fs_answer = "int \<times> fs_body"

record fs_write_request =
  wr_content :: string
  wr_mode :: "string option"

record fs_rename_request =
  rn_from :: string
  rn_to :: string

record fs_delete_request =
  dl_path :: string
  dl_recursive :: bool

definition write_fs_error :: "int \<Rightarrow> string \<Rightarrow> string \<Rightarrow> fs_answer" where
  "write_fs_error status code msg = (status, BError code msg)"

fun map_fs_error :: "fs_error \<Rightarrow> string" where
  "map_fs_error ErrForbiddenPath = ''forbidden''"
| "map_fs_error ErrInvalidPath = ''invalid_path''"
| "map_fs_error ErrNotText = ''not_text''"
| "map_fs_error ErrTooLarge = ''too_large''"
| "map_fs_error (ErrIO e) = ''io_error''"

definition fs_max_text_bytes :: "agent_cfg option \<Rightarrow> int" where
  "fs_max_text_bytes s =
     (case s of None \<Rightarrow> 0
      | Some c \<Rightarrow> if 0 < ac_fs_max_text_bytes c then ac_fs_max_text_bytes c else 2 * 1024 * 1024)"

definition fs_max_upload_bytes :: "agent_cfg option \<Rightarrow> int" where
  "fs_max_upload_bytes s =
     (case s of None \<Rightarrow> 0
      | Some c \<Rightarrow> if 0 < ac_fs_max_upload_bytes c then ac_fs_max_upload_bytes c else 50 * 1024 * 1024)"

text \<open>\<open>fmt.Sprintf("%#o")\<close> of permission bits, and \<open>strconv.ParseUint(s, 8, 32)\<close>.\<close>

fun oct_text :: "nat \<Rightarrow> string" where
  "oct_text n = (if n < 8 then [digit_char n] else oct_text (n div 8) @ [digit_char (n mod 8)])"

declare oct_text.simps [simp del]

definition perm_text :: "nat \<Rightarrow> string" where
  "perm_text n = (if n = 0 then ''0'' else ''0'' @ oct_text n)"

fun oct_val :: "nat \<Rightarrow> string \<Rightarrow> nat option" where
  "oct_val acc [] = Some acc"
| "oct_val acc (c # cs) =
     (case digit_val c of
        None \<Rightarrow> None
      | Some d \<Rightarrow> if d < 8 then oct_val (8 * acc + d) cs else None)"

definition parse_oct32 :: "string \<Rightarrow> nat option" where
  "parse_oct32 s =
     (if s = [] then None
      else case oct_val 0 s of None \<Rightarrow> None | Some n \<Rightarrow> if n < 2 ^ 32 then Some n else None)"

definition info_type :: "fs_info \<Rightarrow> string" where
  "info_type info = (if fi_is_dir info then ''dir'' else ''file'')"

definition fs_entry_of :: "string \<Rightarrow> string \<Rightarrow> fs_info \<Rightarrow> fs_entry" where
  "fs_entry_of name p info =
     \<lparr>fe_name = name, fe_path = p, fe_type = info_type info, fe_size = fi_size info,
      fe_mode = perm_text (fi_perm info), fe_modified = fi_mod_time info,
      fe_uid = fi_uid info, fe_gid = fi_gid info\<rparr>"

text \<open>The guard that list, stat, read and download share.\<close>

definition fs_guard ::
    "('e fs_env_scheme) \<Rightarrow> string \<Rightarrow> (string \<Rightarrow> fs_answer \<times> fs_op list) \<Rightarrow> fs_answer \<times> fs_op list" where
  "fs_guard env query k =
     (case ensure_allowed (trim_space query) of
        Inl err \<Rightarrow> (write_fs_error 400 (map_fs_error err) ''invalid path'', [])
      | Inr clean \<Rightarrow>
          if is_blocked (real_path (fs_env.truncate env) clean)
          then (write_fs_error 403 ''forbidden'' ''path is forbidden'', [])
          else k clean)"

definition method_error :: "fs_answer \<times> fs_op list" where
  "method_error = (write_fs_error 405 ''method_not_allowed'' ''method not allowed'', [])"

definition payload_error :: "string \<Rightarrow> fs_answer \<times> fs_op list" where
  "payload_error msg = (write_fs_error 400 ''invalid_payload'' msg, [])"

definition fs_list_handler :: "agent_env \<Rightarrow> string \<Rightarrow> string \<Rightarrow> fs_answer \<times> fs_op list" where
  "fs_list_handler env meth query =
     (if meth \<noteq> ''GET'' then method_error
      else fs_guard env query (\<lambda>clean.
        (case ae_read_dir env clean of
           Inl e \<Rightarrow> write_fs_error 400 ''io_error'' e
         | Inr entries \<Rightarrow>
             (200, BEntries clean
               (concat (map (\<lambda>(name, info).
                  case info of None \<Rightarrow> [] | Some i \<Rightarrow> [fs_entry_of name (path_join [clean, name]) i]) entries))),
         [OsReadDir clean])))"

definition fs_stat_handler :: "agent_env \<Rightarrow> string \<Rightarrow> string \<Rightarrow> fs_answer \<times> fs_op list" where
  "fs_stat_handler env meth query =
     (if meth \<noteq> ''GET'' then method_error
      else fs_guard env query (\<lambda>clean.
        (case fe_stat env clean of
           Inl e \<Rightarrow> write_fs_error 400 ''not_found'' ''path not found''
         | Inr info \<Rightarrow> (200, BStat (fs_entry_of [] clean info)),
         [OsStat clean])))"

definition fs_read_handler ::
    "agent_env \<Rightarrow> agent_cfg option \<Rightarrow> string \<Rightarrow> string \<Rightarrow> fs_answer \<times> fs_op list" where
  "fs_read_handler env s meth query =
     (if meth \<noteq> ''GET'' then method_error
      else fs_guard env query (\<lambda>clean.
        (case read_text_file (fs_env.truncate env) clean (fs_max_text_bytes s) of
           Inl ErrTooLarge \<Rightarrow> write_fs_error 400 ''too_large'' ''file too large''
         | Inl ErrNotText \<Rightarrow> write_fs_error 400 ''not_text'' ''file is not text''
         | Inl (ErrIO e) \<Rightarrow> write_fs_error 400 ''io_error'' e
         | Inl ErrInvalidPath \<Rightarrow> write_fs_error 400 ''invalid_path'' ''invalid_path''
         | Inl ErrForbiddenPath \<Rightarrow> write_fs_error 400 ''forbidden'' ''forbidden''
         | Inr (content, sz) \<Rightarrow> (200, BRead clean sz content),
         [OsReadText clean])))"

definition do_op :: "agent_env \<Rightarrow> fs_op \<Rightarrow> fs_answer \<times> fs_op list" where
  "do_op env p =
     (case ae_do env p of
        Some e \<Rightarrow> (write_fs_error 400 ''io_error'' e, [p])
      | None \<Rightarrow> ((200, BOk), [p]))"

definition write_perm :: "string option \<Rightarrow> nat" where
  "write_perm mode =
     (case mode of
        None \<Rightarrow> 420
      | Some m \<Rightarrow> (case parse_oct32 (trim_space m) of Some v \<Rightarrow> v | None \<Rightarrow> 420))"

definition fs_write_handler ::
    "agent_env \<Rightarrow> agent_cfg option \<Rightarrow> string \<Rightarrow> fs_write_request option \<Rightarrow> string \<Rightarrow> fs_answer \<times> fs_op list" where
  "fs_write_handler env s meth body query =
     (if meth \<noteq> ''PUT'' then method_error
      else case body of
        None \<Rightarrow> payload_error ''invalid payload''
      | Some req \<Rightarrow>
          (case ensure_parent_allowed (trim_space query) of
             Inl err \<Rightarrow> (write_fs_error 400 (map_fs_error err) ''invalid path'', [])
           | Inr clean \<Rightarrow>
               if is_blocked (real_path (fs_env.truncate env) clean)
               then (write_fs_error 403 ''forbidden'' ''path is forbidden'', [])
               else if 0 < fs_max_text_bytes s \<and> fs_max_text_bytes s < int (length (wr_content req))
               then (write_fs_error 400 ''too_large'' ''file too large'', [])
               else if \<not> detect_text (fs_env.truncate env) (wr_content req)
               then (write_fs_error 400 ''not_text'' ''content is not text'', [])
               else do_op env (OsWriteFile clean (wr_content req) (write_perm (wr_mode req)))))"

definition fs_mkdir_handler :: "agent_env \<Rightarrow> string \<Rightarrow> string option \<Rightarrow> fs_answer \<times> fs_op list" where
  "fs_mkdir_handler env meth body =
     (if meth \<noteq> ''POST'' then method_error
      else case body of
        None \<Rightarrow> payload_error ''invalid payload''
      | Some p \<Rightarrow>
          (case ensure_parent_allowed p of
             Inl err \<Rightarrow> (write_fs_error 400 (map_fs_error err) ''invalid path'', [])
           | Inr clean \<Rightarrow> do_op env (OsMkdirAll clean)))"

definition fs_rename_handler ::
    "agent_env \<Rightarrow> string \<Rightarrow> fs_rename_request option \<Rightarrow> fs_answer \<times> fs_op list" where
  "fs_rename_handler env meth body =
     (if meth \<noteq> ''POST'' then method_error
      else case body of
        None \<Rightarrow> payload_error ''invalid payload''
      | Some req \<Rightarrow>
          (case ensure_allowed (rn_from req) of
             Inl err \<Rightarrow> (write_fs_error 400 (map_fs_error err) ''invalid path'', [])
           | Inr src \<Rightarrow>
               (case ensure_parent_allowed (rn_to req) of
                  Inl err \<Rightarrow> (write_fs_error 400 (map_fs_error err) ''invalid path'', [])
                | Inr dst \<Rightarrow> do_op env (OsRename src dst))))"

definition fs_delete_handler ::
    "agent_env \<Rightarrow> string \<Rightarrow> fs_delete_request option \<Rightarrow> fs_answer \<times> fs_op list" where
  "fs_delete_handler env meth body =
     (if meth \<noteq> ''POST'' then method_error
      else case body of
        None \<Rightarrow> payload_error ''invalid payload''
      | Some req \<Rightarrow>
          (case ensure_parent_allowed (dl_path req) of
             Inl err \<Rightarrow> (write_fs_error 400 (map_fs_error err) ''invalid path'', [])
           | Inr clean \<Rightarrow> do_op env (if dl_recursive req then OsRemoveAll clean else OsRemove clean)))"

text \<open>
  An upload. Of a part: its form name, file name, the bytes its reader delivers and how it ends.
  \<open>Multipart ps broken\<close> is a body whose parts are followed by the end, or by a read error.
\<close>

datatype part_end = PartEOF | PartTooLarge | PartBroken string

record upload_part =
  pt_form_name :: string
  pt_file_name :: string
  pt_data :: string
  pt_end :: part_end

datatype multipart = NotMultipart | Multipart "upload_part list" bool

definition store_part :: "agent_env \<Rightarrow> int \<Rightarrow> string \<Rightarrow> upload_part \<Rightarrow> fs_answer \<times> fs_op list" where
  "store_part env max_bytes target part =
     (case ae_do env (OsOpenTrunc target) of
        Some e \<Rightarrow> (write_fs_error 400 ''io_error'' e, [OsOpenTrunc target])
      | None \<Rightarrow>
          let data = limit_reader (pt_data part) max_bytes;
              at_end = (max_bytes \<le> 0 \<or> int (length (pt_data part)) < max_bytes);
              ops = [OsOpenTrunc target, OsWrite target data]
          in case ae_do env (OsWrite target data) of
               Some e \<Rightarrow> (write_fs_error 400 ''io_error'' e, ops)
             | None \<Rightarrow>
                 if at_end \<and> pt_end part = PartTooLarge
                 then (write_fs_error 400 ''too_large'' ''upload too large'', ops)
                 else (case pt_end part of
                         PartBroken e \<Rightarrow>
                           if at_end then (write_fs_error 400 ''io_error'' e, ops)
                           else ((200, BUploaded (int (length data)) target), ops)
                       | _ \<Rightarrow> ((200, BUploaded (int (length data)) target), ops)))"

fun upload_parts ::
    "agent_env \<Rightarrow> int \<Rightarrow> string \<Rightarrow> upload_part list \<Rightarrow> bool \<Rightarrow> fs_answer \<times> fs_op list" where
  "upload_parts env max_bytes target [] broken =
     payload_error (if broken then ''failed to read multipart'' else ''file required'')"
| "upload_parts env max_bytes target (part # ps) broken =
     (if pt_form_name part \<noteq> ''file'' then upload_parts env max_bytes target ps broken
      else if pt_file_name part = [] then payload_error ''file name required''
      else case resolve_upload_target (fs_env.truncate env) target (pt_file_name part) of
             Inl err \<Rightarrow> (write_fs_error 400 (map_fs_error err) ''invalid path'', [])
           | Inr p \<Rightarrow> store_part env max_bytes p part)"

definition fs_upload_handler ::
    "agent_env \<Rightarrow> agent_cfg option \<Rightarrow> string \<Rightarrow> string \<Rightarrow> multipart \<Rightarrow> fs_answer \<times> fs_op list" where
  "fs_upload_handler env s meth query body =
     (if meth \<noteq> ''POST'' then method_error
      else case body of
        NotMultipart \<Rightarrow> payload_error ''invalid multipart payload''
      | Multipart ps broken \<Rightarrow>
          upload_parts env (fs_max_upload_bytes s) (trim_space query) ps broken)"

definition fs_download_handler :: "agent_env \<Rightarrow> string \<Rightarrow> string \<Rightarrow> fs_answer \<times> fs_op list" where
  "fs_download_handler env meth query =
     (if meth \<noteq> ''GET'' then method_error
      else fs_guard env query (\<lambda>clean.
        (case fe_open env clean of
           Inl e \<Rightarrow> write_fs_error 400 ''not_found'' ''path not found''
         | Inr f \<Rightarrow>
             (case ff_info f of
                Inl e \<Rightarrow> write_fs_error 400 ''io_error'' e
              | Inr info \<Rightarrow>
                  if fi_is_dir info then write_fs_error 400 ''invalid_file'' ''path is a directory''
                  else (200, BFile (fe_content_type env (take 512 (ff_data f))) (path_base clean) (ff_data f))),
         [OsOpenRead clean])))"

section \<open>What the handlers touch\<close>

fun op_paths :: "fs_op \<Rightarrow> string list" where
  "op_paths (OsReadDir p) = [p]"
| "op_paths (OsStat p) = [p]"
| "op_paths (OsReadText p) = [p]"
| "op_paths (OsOpenRead p) = [p]"
| "op_paths (OsWriteFile p c m) = [p]"
| "op_paths (OsMkdirAll p) = [p]"
| "op_paths (OsRename p q) = [p, q]"
| "op_paths (OsRemove p) = [p]"
| "op_paths (OsRemoveAll p) = [p]"
| "op_paths (OsOpenTrunc p) = [p]"
| "op_paths (OsWrite p c) = [p]"

datatype fs_request =
    RList string string
  | RStat string string
  | RRead string string
  | RWrite string "fs_write_request option" string
  | RMkdir string "string option"
  | RRename string "fs_rename_request option"
  | RDelete string "fs_delete_request option"
  | RUpload string string multipart
  | RDownload string string

fun fs_handle :: "agent_env \<Rightarrow> agent_cfg option \<Rightarrow> fs_request \<Rightarrow> fs_answer \<times> fs_op list" where
  "fs_handle env s (RList m q) = fs_list_handler env m q"
| "fs_handle env s (RStat m q) = fs_stat_handler env m q"
| "fs_handle env s (RRead m q) = fs_read_handler env s m q"
| "fs_handle env s (RWrite m b q) = fs_write_handler env s m b q"
| "fs_handle env s (RMkdir m b) = fs_mkdir_handler env m b"
| "fs_handle env s (RRename m b) = fs_rename_handler env m b"
| "fs_handle env s (RDelete m b) = fs_delete_handler env m b"
| "fs_handle env s (RUpload m q b) = fs_upload_handler env s m q b"
| "fs_handle env s (RDownload m q) = fs_download_handler env m q"

definition touched :: "fs_answer \<times> fs_op list \<Rightarrow> string set" where
  "touched r = (\<Union>p \<in> set (snd r). set (op_paths p))"

lemma touched_Nil [simp]: "touched (a, []) = {}"
  by (simp add: touched_def)

lemma touched_one [simp]: "touched (a, [p]) = set (op_paths p)"
  by (simp add: touched_def)

lemma touched_errors [simp]: "touched method_error = {}" "touched (payload_error msg) = {}"
  by (simp_all add: method_error_def payload_error_def)

lemma touched_do_op [simp]: "touched (do_op env p) = set (op_paths p)"
  by (simp add: do_op_def split: option.splits)

lemma fs_guard_touched:
  assumes "p \<in> touched (fs_guard env q k)" and "\<And>clean. touched (k clean) = {clean}"
  shows "fs_path_ok p \<and> \<not> is_blocked (real_path (fs_env.truncate env) p)"
  using assms by (auto simp: fs_guard_def intro: ensure_allowed_ok split: sum.splits if_splits)

text \<open>A request that is no upload touches accepted paths only.\<close>

lemma handlers_touch_ok:
  assumes "\<forall>m q b. r \<noteq> RUpload m q b" and "p \<in> touched (fs_handle env s r)"
  shows "fs_path_ok p"
proof (cases r)
  case (RList m q)
  with assms(2) show ?thesis
    by (auto simp: fs_list_handler_def dest!: fs_guard_touched split: if_splits)
next
  case (RStat m q)
  with assms(2) show ?thesis
    by (auto simp: fs_stat_handler_def dest!: fs_guard_touched split: if_splits)
next
  case (RRead m q)
  with assms(2) show ?thesis
    by (auto simp: fs_read_handler_def dest!: fs_guard_touched split: if_splits)
next
  case (RDownload m q)
  with assms(2) show ?thesis
    by (auto simp: fs_download_handler_def dest!: fs_guard_touched split: if_splits)
next
  case (RWrite m b q)
  with assms(2) show ?thesis
    by (auto simp: fs_write_handler_def intro: ensure_parent_allowed_ok
        split: if_splits option.splits sum.splits)
next
  case (RMkdir m b)
  with assms(2) show ?thesis
    by (auto simp: fs_mkdir_handler_def intro: ensure_parent_allowed_ok
        split: if_splits option.splits sum.splits)
next
  case (RRename m b)
  with assms(2) show ?thesis
    by (auto simp: fs_rename_handler_def intro: ensure_parent_allowed_ok ensure_allowed_ok
        split: if_splits option.splits sum.splits)
next
  case (RDelete m b)
  with assms(2) show ?thesis
    by (auto simp: fs_delete_handler_def intro: ensure_parent_allowed_ok
        split: if_splits option.splits sum.splits)
qed (use assms in auto)

end
