(* ===== verification/File_Roots.thy ===== *)
theory File_Roots
  imports Go_Paths Db_Models
begin

text \<open>
  Which paths of a node a panel user may reach over SFTP: the rules of \<open>internal/http/files.go\<close>. A
  node lists its allowed roots, or the configured default roots apply; a root is a directory, or a
  pattern in which a segment \<open>*\<close> stands for any one segment. \<open>rpath\<close> is the SFTP client's
  \<open>RealPath\<close>.
\<close>

datatype path_error = PathInvalid string | PathRemote string | PathNotAllowed

definition normalize_sftp_path :: "string \<Rightarrow> path_error + string" where
  "normalize_sftp_path raw =
     (let clean = path_clean (trim_space raw)
      in if clean = [] \<or> clean = ''.'' then Inl (PathInvalid ''path required'')
         else if \<not> prefix ''/'' clean then Inl (PathInvalid ''path must be absolute'')
         else if ''..'' \<in> set (split_on slash raw) then Inl (PathInvalid ''path traversal not allowed'')
         else Inr clean)"

fun sanitize_roots :: "string list \<Rightarrow> string list" where
  "sanitize_roots [] = []"
| "sanitize_roots (r # roots) =
     (let item = trim_space r; clean = path_clean item
      in if item = [] then sanitize_roots roots
         else if \<not> prefix ''/'' clean then sanitize_roots roots
         else if contains clean ''..'' then sanitize_roots roots
         else (if clean \<noteq> ''/'' \<and> suffix ''/'' clean then trim_suffix clean ''/'' else clean)
              # sanitize_roots roots)"

definition split_path_segments :: "string \<Rightarrow> string list" where
  "split_path_segments p =
     (let trimmed = trim_prefix p ''/''
      in if trimmed = [] then [] else filter (\<lambda>w. w \<noteq> []) (split_on slash trimmed))"

definition match_root_pattern :: "string \<Rightarrow> string \<Rightarrow> bool" where
  "match_root_pattern target pattern =
     (let ts = split_path_segments target; ps = split_path_segments pattern
      in if length ts < length ps then False
         else list_all (\<lambda>i. ps ! i = ''*'' \<or> ps ! i = ts ! i) [0..<length ps])"

fun is_path_allowed_clean :: "string \<Rightarrow> string list \<Rightarrow> bool" where
  "is_path_allowed_clean target [] = False"
| "is_path_allowed_clean target (r # roots) =
     (if r = ''/'' then True
      else if CHR ''*'' \<in> set r
      then (if match_root_pattern target r then True else is_path_allowed_clean target roots)
      else if target = r then True
      else if prefix (r @ ''/'') target then True
      else is_path_allowed_clean target roots)"

definition is_path_allowed :: "string \<Rightarrow> string list \<Rightarrow> bool" where
  "is_path_allowed target roots = is_path_allowed_clean (path_clean target) roots"

definition allowed_roots_for_node :: "string list \<Rightarrow> node option \<Rightarrow> string list \<times> string" where
  "allowed_roots_for_node default_roots n =
     (case n of
        Some nd \<Rightarrow>
          if n_allowed_roots nd \<noteq> [] \<and> sanitize_roots (n_allowed_roots nd) \<noteq> []
          then (sanitize_roots (n_allowed_roots nd), ''node'')
          else (sanitize_roots default_roots, ''default'')
      | None \<Rightarrow> (sanitize_roots default_roots, ''default''))"

definition allowed_roots_list :: "string list \<Rightarrow> node option \<Rightarrow> string list" where
  "allowed_roots_list default_roots n = fst (allowed_roots_for_node default_roots n)"

definition resolve_existing_path ::
    "(string \<Rightarrow> string + string) \<Rightarrow> string list \<Rightarrow> node option \<Rightarrow> string \<Rightarrow> path_error + (string \<times> string)" where
  "resolve_existing_path rpath default_roots n raw =
     (case normalize_sftp_path raw of
        Inl e \<Rightarrow> Inl e
      | Inr clean \<Rightarrow>
          (case rpath clean of
             Inl e \<Rightarrow> Inl (PathRemote e)
           | Inr rp \<Rightarrow>
               if \<not> is_path_allowed rp (allowed_roots_list default_roots n) then Inl PathNotAllowed
               else Inr (clean, rp)))"

definition resolve_parent_allowed ::
    "(string \<Rightarrow> string + string) \<Rightarrow> string list \<Rightarrow> node option \<Rightarrow> string \<Rightarrow> path_error + string" where
  "resolve_parent_allowed rpath default_roots n raw =
     (case normalize_sftp_path raw of
        Inl e \<Rightarrow> Inl e
      | Inr clean \<Rightarrow>
          let b = path_base clean
          in if b = [] \<or> b = ''.'' \<or> b = ''..'' then Inl (PathInvalid ''invalid path'')
             else case rpath (path_dir clean) of
                    Inl e \<Rightarrow> Inl (PathRemote e)
                  | Inr rp \<Rightarrow>
                      if \<not> is_path_allowed rp (allowed_roots_list default_roots n) then Inl PathNotAllowed
                      else Inr clean)"

definition handle_path_error :: "path_error \<Rightarrow> int \<times> string \<times> string" where
  "handle_path_error e =
     (case e of
        PathNotAllowed \<Rightarrow> (403, ''PATH_NOT_ALLOWED'', ''path is not allowed'')
      | PathInvalid m \<Rightarrow> (400, ''INVALID_PATH'', m)
      | PathRemote m \<Rightarrow> (400, ''INVALID_PATH'', m))"

section \<open>The rule on segments\<close>

text \<open>A pattern covers a path: each of its segments is \<open>*\<close> or equal to the path's segment.\<close>

fun covers :: "string list \<Rightarrow> string list \<Rightarrow> bool" where
  "covers [] ts = True"
| "covers (p # ps) [] = False"
| "covers (p # ps) (t # ts) = ((p = ''*'' \<or> p = t) \<and> covers ps ts)"

lemma covers_iff:
  "covers ps ts \<longleftrightarrow> length ps \<le> length ts \<and> (\<forall>i < length ps. ps ! i = ''*'' \<or> ps ! i = ts ! i)"
proof (induction ps ts rule: covers.induct)
  case (3 p ps t ts)
  then show ?case by (auto simp: less_Suc_eq_0_disj)
qed auto

lemma covers_prefix: "''*'' \<notin> set ps \<Longrightarrow> covers ps ts \<longleftrightarrow> prefix ps ts"
  by (induction ps ts rule: covers.induct) auto

lemma split_path_segments_rooted [paths]: "rooted p \<Longrightarrow> split_path_segments p = segs p"
proof -
  assume "rooted p"
  then obtain t where "p = slash # t" by (auto simp: rooted_def prefix_def slash_def)
  then show ?thesis by (simp add: split_path_segments_def segs_def trim_prefix_def slash_def Let_def)
qed

lemma match_root_pattern_covers:
  "rooted target \<Longrightarrow> rooted pattern \<Longrightarrow> match_root_pattern target pattern \<longleftrightarrow> covers (segs pattern) (segs target)"
  by (auto simp: match_root_pattern_def Let_def split_path_segments_rooted covers_iff list_all_iff)

lemma sanitize_roots_shape:
  assumes "r \<in> set (sanitize_roots roots)"
  obtains ws where "r = root_path ws" "\<forall>w \<in> set ws. seg_ok w"
proof -
  have "\<exists>ws. r = root_path ws \<and> (\<forall>w \<in> set ws. seg_ok w)"
    using assms
  proof (induction roots)
    case (Cons a roots)
    let ?c = "path_clean (trim_space a)"
    have no_slash: "\<not> (?c \<noteq> ''/'' \<and> suffix ''/'' ?c)" if "rooted ?c"
    proof -
      have "rooted (trim_space a)" using that path_clean_not_rooted by blast
      then have c: "?c = root_path (clean_segs True (trim_space a))" by (rule path_clean_rooted)
      let ?ws = "clean_segs True (trim_space a)"
      show ?thesis
      proof (cases ?ws rule: rev_cases)
        case (snoc vs v)
        have "seg_ok v" using clean_segs_ok [of v "trim_space a"] snoc by simp
        then have v: "v \<noteq> []" "slash \<notin> set v" by (auto simp: seg_ok_def)
        have "last v \<in> set v" using v(1) by (rule last_in_set)
        with v(2) have l: "last v \<noteq> slash" by metis
        have "last (root_path (vs @ [v])) = last v"
          using v by (cases "vs = []") (simp_all add: root_path_snoc, simp add: root_path_def)
        then show ?thesis using c snoc l by (auto simp: suffix_def slash_def)
      qed (simp add: c)
    qed
    show ?case
    proof (cases "r \<in> set (sanitize_roots roots)")
      case False
      with Cons.prems have r: "rooted ?c" "r = (if ?c \<noteq> ''/'' \<and> suffix ''/'' ?c then trim_suffix ?c ''/'' else ?c)"
        by (auto simp: Let_def rooted_def split: if_splits)
      then have "r = ?c" "rooted (trim_space a)" using no_slash path_clean_not_rooted by auto
      then show ?thesis using clean_segs_ok by (auto simp: path_clean_rooted)
    qed (rule Cons.IH)
  qed simp
  with that show ?thesis by blast
qed

lemma is_path_allowed_covers:
  assumes "rooted target" and "\<forall>r \<in> set roots. \<exists>ws. r = root_path ws \<and> (\<forall>w \<in> set ws. seg_ok w)"
  shows "is_path_allowed target roots \<longleftrightarrow> (\<exists>r \<in> set roots. covers (segs r) (clean_segs True target))"
proof -
  let ?ts = "clean_segs True target"
  have t: "path_clean target = root_path ?ts" "\<forall>w \<in> set ?ts. seg_ok w"
    using assms(1) by (simp_all add: path_clean_rooted clean_segs_ok)
  have "is_path_allowed_clean (root_path ?ts) roots \<longleftrightarrow> (\<exists>r \<in> set roots. covers (segs r) ?ts)"
    using assms(2)
  proof (induction roots)
    case (Cons r roots)
    then obtain ws where ws: "r = root_path ws" "\<forall>w \<in> set ws. seg_ok w" by auto
    have seg: "segs r = ws" using ws by (simp add: segs_root_path)
    have m: "match_root_pattern (root_path ?ts) r \<longleftrightarrow> covers ws ?ts"
      using match_root_pattern_covers [of "root_path ?ts" r] t ws(1) seg by (simp add: segs_root_path)
    have u: "root_path ?ts = r \<or> prefix (r @ ''/'') (root_path ?ts) \<longleftrightarrow> covers ws ?ts"
      if "CHR ''*'' \<notin> set r" "ws \<noteq> []"
    proof -
      have "''*'' \<notin> set ws"
      proof
        assume "''*'' \<in> set ws"
        then have "''*'' \<in> set (split_on slash r)" using ws split_on_root_path by auto
        then have "CHR ''*'' \<in> set r" using set_split_on by fastforce
        with that show False by simp
      qed
      then show ?thesis using under_iff [OF ws(2) t(2) that(2)] ws(1) by (simp add: covers_prefix)
    qed
    have z: "r = ''/'' \<longleftrightarrow> ws = []" using ws root_path_eq_slash by simp
    have IH: "is_path_allowed_clean (root_path ?ts) roots \<longleftrightarrow> (\<exists>r \<in> set roots. covers (segs r) ?ts)"
      using Cons by simp
    show ?case
    proof (cases "ws = []")
      case True
      then show ?thesis using z seg by simp
    next
      case ne: False
      show ?thesis
      proof (cases "CHR ''*'' \<in> set r")
        case True
        then show ?thesis using z ne m seg IH by simp
      next
        case False
        then show ?thesis using z ne u [OF False ne] seg IH by auto
      qed
    qed
  qed simp
  then show ?thesis by (simp add: is_path_allowed_def t(1))
qed

lemma is_path_allowed_sanitized:
  "rooted target \<Longrightarrow> is_path_allowed target (sanitize_roots roots) \<longleftrightarrow>
   (\<exists>r \<in> set (sanitize_roots roots). covers (segs r) (clean_segs True target))"
  by (rule is_path_allowed_covers) (auto elim: sanitize_roots_shape)

end
