(* ===== verification/Path_Properties.thy ===== *)
theory Path_Properties
  imports Agent_FS_Handlers File_Roots
begin

text \<open>
  The properties of the file interfaces: what a request to the node agent can touch, what the roots
  of a node allow, and two inputs for which the rules let through what they mean to refuse.
\<close>

section \<open>Uploads\<close>

lemma path_join_segs:
  assumes "\<forall>w \<in> set ws. seg_ok w" and "seg_ok b"
  shows "path_join [root_path ws, b] = root_path (ws @ [b])"
proof -
  have b: "b \<noteq> []" "b \<noteq> ''.''" "b \<noteq> ''..''" "slash \<notin> set b" using assms(2) by (auto simp: seg_ok_def)
  have "path_join [root_path ws, b] = path_clean (root_path ws @ slash # b)"
    using b(1) by (simp add: path_join_def root_path_def slash_def)
  moreover have "split_on slash (root_path ws @ slash # b) = split_on slash (root_path ws) @ [b]"
    using b(4) by (simp add: split_on_append_sep split_on_absent)
  moreover from this have "clean_segs True (root_path ws @ slash # b) = ws @ [b]"
    using assms b by (subst clean_segs_plain) (auto simp: split_on_root_path seg_ok_def intro: filter_True)
  ultimately show ?thesis by (simp add: path_clean_rooted root_path_def)
qed

lemma resolve_upload_target_cases:
  assumes "resolve_upload_target env target fname = Inr p"
  obtains clean where "ensure_parent_allowed target = Inr clean" "p = clean \<or> p = path_join [clean, path_base fname]"
  using assms by (auto simp: resolve_upload_target_def split: sum.splits if_splits)

section \<open>Properties\<close>

text \<open>C14: Confinement of the agent's file interface. Whatever a request that is no upload asks for,
  the paths the handler passes to the operating system are rooted, clean and outside of \<open>/proc\<close>,
  \<open>/sys\<close> and \<open>/dev\<close>.\<close>
theorem agent_paths_confined:
  assumes "\<forall>m q b. r \<noteq> RUpload m q b" and "p \<in> touched (fs_handle env s r)"
  shows "rooted p \<and> path_clean p = p \<and> \<not> is_blocked p"
  by (rule fs_path_ok_not_blocked [OF handlers_touch_ok [OF assms]])

definition ex_agent :: agent_env where
  "ex_agent =
     \<lparr>fe_eval_symlinks = (\<lambda>p. None), fe_stat = (\<lambda>p. Inl ''no such file''), fe_open = (\<lambda>p. Inl ''no such file''),
      fe_content_type = (\<lambda>s. ''text/plain''), fe_utf8_valid = (\<lambda>s. True),
      ae_read_dir = (\<lambda>p. Inr []), ae_do = (\<lambda>p. None)\<rparr>"

lemma agent_paths_confined_witness:
  "rooted ''/srv/a'' \<and> path_clean ''/srv/a'' = ''/srv/a'' \<and> \<not> is_blocked ''/srv/a''"
proof (rule agent_paths_confined)
  show "\<forall>m q b. RMkdir ''POST'' (Some ''/srv//./a'') \<noteq> RUpload m q b" by simp
  have "ensure_parent_allowed ''/srv//./a'' = Inr ''/srv/a''" by code_simp
  then show "''/srv/a'' \<in> touched (fs_handle ex_agent None (RMkdir ''POST'' (Some ''/srv//./a'')))"
    by (simp add: fs_mkdir_handler_def)
qed

text \<open>Symbolic links. A file that is listed, examined, read or downloaded does not resolve to a
  blocked place: neither its own path nor the path its links lead to is in \<open>/proc\<close>, \<open>/sys\<close> or
  \<open>/dev\<close>.\<close>
theorem agent_reads_resolve_outside:
  assumes "r = RList m q \<or> r = RStat m q \<or> r = RRead m q \<or> r = RDownload m q"
    and "p \<in> touched (fs_handle env s r)"
  shows "\<not> is_blocked p \<and> \<not> is_blocked (real_path (fs_env.truncate env) p)"
proof -
  have "fs_path_ok p \<and> \<not> is_blocked (real_path (fs_env.truncate env) p)"
    using assms
    by (auto simp: fs_list_handler_def fs_stat_handler_def fs_read_handler_def fs_download_handler_def
        dest!: fs_guard_touched split: if_splits)
  then show ?thesis using fs_path_ok_not_blocked by blast
qed

lemma agent_reads_resolve_outside_witness:
  "\<not> is_blocked ''/etc/hosts'' \<and> \<not> is_blocked (real_path (fs_env.truncate ex_agent) ''/etc/hosts'')"
proof (rule agent_reads_resolve_outside)
  show "RStat ''GET'' ''/etc/hosts'' = RList ''GET'' ''/etc/hosts'' \<or>
    RStat ''GET'' ''/etc/hosts'' = RStat ''GET'' ''/etc/hosts'' \<or>
    RStat ''GET'' ''/etc/hosts'' = RRead ''GET'' ''/etc/hosts'' \<or>
    RStat ''GET'' ''/etc/hosts'' = RDownload ''GET'' ''/etc/hosts''" by simp
  have "trim_space ''/etc/hosts'' = ''/etc/hosts''" "ensure_allowed ''/etc/hosts'' = Inr ''/etc/hosts''"
    "\<not> is_blocked ''/etc/hosts''"
    by code_simp+
  then show "''/etc/hosts'' \<in> touched (fs_handle ex_agent None (RStat ''GET'' ''/etc/hosts''))"
    by (simp add: fs_stat_handler_def fs_guard_def real_path_def ex_agent_def fs_env.truncate_def)
qed

text \<open>C39: The roots of a node. A rooted path is allowed exactly when its segments start with the
  segments of one of the sanitised roots, where a segment \<open>*\<close> of a root matches any segment.\<close>
theorem allowed_iff_covered:
  assumes "rooted target"
  shows "is_path_allowed target (sanitize_roots roots) \<longleftrightarrow>
    (\<exists>r \<in> set (sanitize_roots roots). covers (segs r) (clean_segs True target))"
  using assms by (rule is_path_allowed_sanitized)

lemma allowed_iff_covered_witness:
  "is_path_allowed ''/opt/app1/logs/x'' (sanitize_roots ['' /opt/*/logs/ '']) \<and>
   \<not> is_path_allowed ''/opt/logs'' (sanitize_roots ['' /opt/*/logs/ ''])"
proof -
  have "covers (segs ''/opt/*/logs'') (clean_segs True ''/opt/app1/logs/x'')"
    "\<not> covers (segs ''/opt/*/logs'') (clean_segs True ''/opt/logs'')"
    "sanitize_roots ['' /opt/*/logs/ ''] = [''/opt/*/logs'']" "rooted ''/opt/app1/logs/x''" "rooted ''/opt/logs''"
    by code_simp+
  then show ?thesis
    using allowed_iff_covered [of "''/opt/app1/logs/x''" "['' /opt/*/logs/ '']"]
      allowed_iff_covered [of "''/opt/logs''" "['' /opt/*/logs/ '']"] by simp
qed

text \<open>Upload targets. When the name of an uploaded file is an ordinary file name and the target
  directory is not the root itself, the file is stored at an accepted path, outside of the blocked
  directories.\<close>
theorem uploads_confined:
  assumes "resolve_upload_target env target fname = Inr p" and "seg_ok (path_base fname)"
    and "ensure_parent_allowed target \<noteq> Inr ''/''"
  shows "rooted p \<and> path_clean p = p \<and> \<not> is_blocked p"
proof -
  from assms(1) obtain clean where c: "ensure_parent_allowed target = Inr clean"
    and p: "p = clean \<or> p = path_join [clean, path_base fname]"
    by (rule resolve_upload_target_cases)
  from ensure_parent_allowed_ok [OF c] obtain ws where ws: "clean = root_path ws" "\<forall>w \<in> set ws. seg_ok w"
    "ws = [] \<or> hd ws \<notin> set blocked_segs"
    by (auto simp: fs_path_ok_def)
  have "ws \<noteq> []" using c ws(1) assms(3) by auto
  with ws assms(2) have "fs_path_ok (root_path (ws @ [path_base fname]))"
    unfolding fs_path_ok_def by (intro exI [of _ "ws @ [path_base fname]"]) auto
  moreover have "fs_path_ok clean" by (rule ensure_parent_allowed_ok [OF c])
  ultimately have "fs_path_ok p" using p ws path_join_segs [OF ws(2) assms(2)] by auto
  then show ?thesis by (rule fs_path_ok_not_blocked)
qed

lemma uploads_confined_witness:
  "rooted ''/srv/a.txt'' \<and> path_clean ''/srv/a.txt'' = ''/srv/a.txt'' \<and> \<not> is_blocked ''/srv/a.txt''"
proof (rule uploads_confined)
  have c: "ensure_parent_allowed ''/srv/'' = Inr ''/srv''" "suffix ''/'' ''/srv/''"
    "path_join [''/srv'', path_base ''x/a.txt''] = ''/srv/a.txt''" by code_simp+
  then show "resolve_upload_target (fs_env.truncate ex_agent) ''/srv/'' ''x/a.txt'' = Inr ''/srv/a.txt''"
    by (simp add: resolve_upload_target_def)
  show "seg_ok (path_base ''x/a.txt'')" by code_simp
  show "ensure_parent_allowed ''/srv/'' \<noteq> Inr ''/''" using c by simp
qed

text \<open>An upload to the root directory may name a blocked directory: the stored path is not
  checked again, so a file called \<open>proc\<close> sent to \<open>/\<close> is opened at \<open>/proc\<close>.\<close>
theorem upload_reaches_blocked:
  "resolve_upload_target env ''/'' ''proc'' = Inr ''/proc'' \<and> is_blocked ''/proc''"
proof -
  have "ensure_parent_allowed ''/'' = Inr ''/''" "suffix ''/'' ''/''"
    "path_join [''/'', path_base ''proc''] = ''/proc''" "is_blocked ''/proc''" by code_simp+
  then show ?thesis by (simp add: resolve_upload_target_def)
qed

text \<open>The traversal check of the panel's SFTP paths looks at the text before it is trimmed: a
  path whose \<open>..\<close> is followed by a blank passes and names the parent directory.\<close>
theorem sftp_traversal_missed:
  "normalize_sftp_path ''/srv/data/.. '' = Inr ''/srv'' \<and>
   normalize_sftp_path ''/srv/data/..'' = Inl (PathInvalid ''path traversal not allowed'')"
  by code_simp

end
