(* ===== verification/Ops_Types.thy ===== *)
theory Ops_Types
  imports Db_Models "HOL-Library.Char_ord" "HOL-Library.List_Lexorder"
begin

text \<open>
  The data of \<open>internal/services/ops\<close>: job types and states, the parameters of a job, what the
  executors are given, and how a \<open>JobParams\<close> is read from the \<open>jsonb\<close> column.
\<close>

section \<open>Job types and states\<close>

definition job_queued :: string where "job_queued = ''queued''"
definition job_running :: string where "job_running = ''running''"
definition job_success :: string where "job_success = ''success''"
definition job_failed :: string where "job_failed = ''failed''"

definition jt_reboot :: string where "jt_reboot = ''reboot_nodes''"
definition jt_update :: string where "jt_update = ''update_nodes''"
definition jt_deploy :: string where "jt_deploy = ''deploy_agent''"
definition jt_install_vlf :: string where "jt_install_vlf = ''install_vlf_proto''"
definition jt_remna_install :: string where "jt_remna_install = ''remna_geodata_install''"
definition jt_remna_run :: string where "jt_remna_run = ''remna_geodata_run''"
definition jt_update_svc :: string where "jt_update_svc = ''update_services''"
definition jt_reboot_agent :: string where "jt_reboot_agent = ''reboot_node''"
definition jt_restart_svc :: string where "jt_restart_svc = ''restart_service''"

lemmas job_status_defs = job_queued_def job_running_def job_success_def job_failed_def

lemmas job_type_defs = jt_reboot_def jt_update_def jt_deploy_def jt_install_vlf_def
  jt_remna_install_def jt_remna_run_def jt_update_svc_def jt_reboot_agent_def jt_restart_svc_def

definition max_parallelism :: int where "max_parallelism = 10"
definition max_concurrent_jobs :: int where "max_concurrent_jobs = 3"
definition first_contact_timeout :: duration where "first_contact_timeout = 45 * second"
definition first_contact_poll :: duration where "first_contact_poll = second"

definition is_supported_job_type :: "string \<Rightarrow> bool" where
  "is_supported_job_type t \<longleftrightarrow>
     t \<in> {jt_reboot, jt_update, jt_deploy, jt_install_vlf, jt_remna_install, jt_remna_run,
          jt_update_svc, jt_reboot_agent, jt_restart_svc}"

definition is_agent_job_type :: "string \<Rightarrow> bool" where
  "is_agent_job_type t \<longleftrightarrow> t = jt_update_svc \<or> t = jt_reboot_agent \<or> t = jt_restart_svc"

section \<open>Reading parameters from JSON\<close>

text \<open>
  \<open>json.Unmarshal\<close> into a struct: a member goes to the field whose tag equals its key, or equals
  it up to letter case; a member that does not fit the field's type leaves the field as it is and
  decoding goes on with the next member; so does \<open>null\<close>. Folding takes the Kelvin sign and
  the long s to \<open>k\<close> and \<open>s\<close>. Of several members for one field the last wins.
\<close>

fun json_fold :: "string \<Rightarrow> string" where
  "json_fold [] = []"
| "json_fold (c # cs) =
     (case cs of
        d # ds \<Rightarrow>
          if c = CHR 0xC5 \<and> d = CHR 0xBF then CHR ''s'' # json_fold ds
          else (case ds of
                  e # es \<Rightarrow> if c = CHR 0xE2 \<and> d = CHR 0x84 \<and> e = CHR 0xAA then CHR ''k'' # json_fold es
                            else lower_char c # json_fold cs
                | [] \<Rightarrow> lower_char c # json_fold cs)
      | [] \<Rightarrow> lower_char c # json_fold cs)"

definition json_bool :: "jobj \<Rightarrow> string \<Rightarrow> bool" where
  "json_bool ms name =
     fold (\<lambda>(k, v) acc. if json_fold k = name then (case v of JBool b \<Rightarrow> b | _ \<Rightarrow> acc) else acc) ms False"

definition json_int :: "jobj \<Rightarrow> string \<Rightarrow> int" where
  "json_int ms name =
     fold (\<lambda>(k, v) acc. if json_fold k = name
             then (case v of JInt i \<Rightarrow> if - (2 ^ 63) \<le> i \<and> i < 2 ^ 63 then i else acc | _ \<Rightarrow> acc)
             else acc) ms 0"

definition json_str :: "jobj \<Rightarrow> string \<Rightarrow> string" where
  "json_str ms name =
     fold (\<lambda>(k, v) acc. if json_fold k = name then (case v of JStr s \<Rightarrow> s | _ \<Rightarrow> acc) else acc) ms []"

text \<open>\<open>rawMap[key]\<close>: the key as it is written.\<close>

definition json_has :: "jobj option \<Rightarrow> string \<Rightarrow> bool" where
  "json_has raw key = (case raw of None \<Rightarrow> False | Some ms \<Rightarrow> key \<in> fst ` set ms)"

record job_params =
  jp_dry_run :: bool
  jp_simulate_delay_ms :: int
  jp_confirm :: string
  jp_sandbox :: bool
  jp_force_redeploy :: bool
  jp_precheck_only :: bool
  jp_install_expect :: bool
  jp_agent_port :: int
  jp_agent_token_mode :: string
  jp_shared_agent_token :: string
  jp_allow_cidr :: string
  jp_stats_mode :: string
  jp_activity_log_path :: string
  jp_rate_limit_rps :: int
  jp_enable_ufw :: bool
  jp_health_check :: bool
  jp_metrics_require_auth :: bool
  jp_install_docker :: bool
  jp_restart_service :: string
  jp_inst_repo_url :: string
  jp_inst_ref :: string
  jp_inst_go_version :: string
  jp_inst_install_dir :: string
  jp_inst_port_tcp :: int
  jp_inst_port_udp :: int
  jp_inst_port_udp_alt :: int
  jp_inst_enable_metrics :: bool
  jp_inst_metrics_addr :: string
  jp_inst_metrics_port :: int
  jp_inst_enable_ufw :: bool
  jp_inst_domain :: string
  jp_inst_tls_server_name :: string
  jp_inst_client_id :: string
  jp_inst_secret :: string
  jp_inst_log_level :: string
  jp_inst_show_secrets :: bool
  jp_inst_force :: bool
  jp_remna_rules_repo :: string
  jp_remna_release_tag :: string
  jp_remna_geodata_dir :: string
  jp_remna_compose_path :: string
  jp_remna_compose_service :: string
  jp_remna_script_path :: string
  jp_remna_cron_schedule :: string
  jp_remna_log_path :: string
  jp_remna_lock_path :: string
  jp_remna_min_size_bytes :: int
  jp_remna_skip_sha256 :: bool
  jp_remna_force :: bool

definition job_params_of :: "jobj \<Rightarrow> job_params" where
  "job_params_of ms =
     \<lparr>jp_dry_run = json_bool ms ''dry_run'', jp_simulate_delay_ms = json_int ms ''simulate_delay_ms'',
      jp_confirm = json_str ms ''confirm'', jp_sandbox = json_bool ms ''sandbox'',
      jp_force_redeploy = json_bool ms ''force_redeploy'', jp_precheck_only = json_bool ms ''precheck_only'',
      jp_install_expect = json_bool ms ''install_expect'', jp_agent_port = json_int ms ''agent_port'',
      jp_agent_token_mode = json_str ms ''agent_token_mode'',
      jp_shared_agent_token = json_str ms ''shared_agent_token'', jp_allow_cidr = json_str ms ''allow_cidr'',
      jp_stats_mode = json_str ms ''stats_mode'', jp_activity_log_path = json_str ms ''activity_log_path'',
      jp_rate_limit_rps = json_int ms ''rate_limit_rps'', jp_enable_ufw = json_bool ms ''enable_ufw'',
      jp_health_check = json_bool ms ''health_check'',
      jp_metrics_require_auth = json_bool ms ''metrics_require_auth'',
      jp_install_docker = json_bool ms ''install_docker'', jp_restart_service = json_str ms ''restart_service'',
      jp_inst_repo_url = json_str ms ''installer_repo_url'', jp_inst_ref = json_str ms ''installer_ref'',
      jp_inst_go_version = json_str ms ''installer_go_version'',
      jp_inst_install_dir = json_str ms ''installer_install_dir'',
      jp_inst_port_tcp = json_int ms ''installer_port_tcp'', jp_inst_port_udp = json_int ms ''installer_port_udp'',
      jp_inst_port_udp_alt = json_int ms ''installer_port_udp_alt'',
      jp_inst_enable_metrics = json_bool ms ''installer_enable_metrics'',
      jp_inst_metrics_addr = json_str ms ''installer_metrics_addr'',
      jp_inst_metrics_port = json_int ms ''installer_metrics_port'',
      jp_inst_enable_ufw = json_bool ms ''installer_enable_ufw'', jp_inst_domain = json_str ms ''installer_domain'',
      jp_inst_tls_server_name = json_str ms ''installer_tls_server_name'',
      jp_inst_client_id = json_str ms ''installer_client_id'', jp_inst_secret = json_str ms ''installer_secret'',
      jp_inst_log_level = json_str ms ''installer_log_level'',
      jp_inst_show_secrets = json_bool ms ''installer_show_secrets'',
      jp_inst_force = json_bool ms ''installer_force'',
      jp_remna_rules_repo = json_str ms ''remna_rules_repo'', jp_remna_release_tag = json_str ms ''remna_release_tag'',
      jp_remna_geodata_dir = json_str ms ''remna_geodata_dir'',
      jp_remna_compose_path = json_str ms ''remna_compose_path'',
      jp_remna_compose_service = json_str ms ''remna_compose_service'',
      jp_remna_script_path = json_str ms ''remna_script_path'',
      jp_remna_cron_schedule = json_str ms ''remna_cron_schedule'', jp_remna_log_path = json_str ms ''remna_log_path'',
      jp_remna_lock_path = json_str ms ''remna_lock_path'',
      jp_remna_min_size_bytes = json_int ms ''remna_min_size_bytes'',
      jp_remna_skip_sha256 = json_bool ms ''remna_skip_sha256'', jp_remna_force = json_bool ms ''remna_force''\<rparr>"

text \<open>A text that is no object leaves the zero \<open>JobParams\<close>.\<close>

definition parse_job_params :: "jobj option \<Rightarrow> job_params" where
  "parse_job_params raw = job_params_of (case raw of None \<Rightarrow> [] | Some ms \<Rightarrow> ms)"

text \<open>The map of a request is written with its keys in order, and read back.\<close>

definition marshal_params :: "jobj \<Rightarrow> jobj option" where
  "marshal_params m = (if m = [] then None else Some (sort_key fst m))"

definition parse_job_params_from_map :: "jobj \<Rightarrow> job_params" where
  "parse_job_params_from_map m = (if m = [] then job_params_of [] else parse_job_params (marshal_params m))"

section \<open>Requests and executor parameters\<close>

record create_job_request =
  cr_type :: string
  cr_node_ids :: "string list"
  cr_all_nodes :: bool
  cr_parallelism :: int
  cr_params :: jobj
  cr_actor :: string

record update_params =
  up_precheck_only :: bool
  up_install_expect :: bool

record deploy_params =
  dp_binary_path :: string
  dp_service_content :: string
  dp_config_content :: string
  dp_agent_port :: int
  dp_allow_cidr :: string
  dp_token :: string
  dp_metrics_require_auth :: bool
  dp_enable_ufw :: bool
  dp_health_check :: bool
  dp_install_docker :: bool
  dp_sudo_passwords :: "string list"
  dp_node_host :: string
  dp_pre_log :: string

record vlf_params =
  vp_repo_url :: string
  vp_ref :: string
  vp_go_version :: string
  vp_install_dir :: string
  vp_port_tcp :: int
  vp_port_udp :: int
  vp_port_udp_alt :: int
  vp_enable_metrics :: bool
  vp_metrics_addr :: string
  vp_metrics_port :: int
  vp_enable_ufw :: bool
  vp_domain :: string
  vp_tls_server_name :: string
  vp_client_id :: string
  vp_secret :: string
  vp_log_level :: string
  vp_show_secrets :: bool
  vp_force :: bool
  vp_sudo_passwords :: "string list"

record remna_params =
  rp_rules_repo :: string
  rp_release_tag :: string
  rp_geodata_dir :: string
  rp_compose_path :: string
  rp_compose_service :: string
  rp_script_path :: string
  rp_cron_schedule :: string
  rp_log_path :: string
  rp_lock_path :: string
  rp_min_size_bytes :: int
  rp_skip_sha256 :: bool
  rp_force_reload :: bool
  rp_sudo_passwords :: "string list"

definition parse_update_params :: "jobj option \<Rightarrow> update_params" where
  "parse_update_params raw =
     (let p = parse_job_params raw
      in \<lparr>up_precheck_only = jp_precheck_only p, up_install_expect = jp_install_expect p\<rparr>)"

end
