(* ===== verification/Ops_Params.thy ===== *)
theory Ops_Params
  imports Uuid_Codec Ops_Types
begin

text \<open>
  Agent addresses first, then the parameters, logs and requests of jobs.

  How the panel reaches an agent on its own host from inside a container:
  \<open>internal/agent/agent_url.go\<close>. \<open>host_env\<close> holds the environment variables it reads, the lines
  of \<open>/proc/net/route\<close> (an ASCII file), and what it takes from \<open>net/url\<close> and \<open>net\<close>:
  \<open>he_url_host\<close> is the host name of a URL that parses and has a host, \<open>he_url_port\<close> its port,
  \<open>he_url_with_host u h\<close> the text of \<open>u\<close> with its host replaced, \<open>he_ipv4\<close> the four bytes of an
  address.
\<close>

record host_env =
  he_gateway_env :: string
  he_route :: "string list option"
  he_public_base_url :: string
  he_allow_cidr :: string
  he_url_host :: "string \<Rightarrow> string option"
  he_url_port :: "string \<Rightarrow> string"
  he_url_with_host :: "string \<Rightarrow> string \<Rightarrow> string"
  he_ipv4 :: "string \<Rightarrow> (nat \<times> nat \<times> nat \<times> nat) option"

fun hex_bytes :: "string \<Rightarrow> nat list option" where
  "hex_bytes [] = Some []"
| "hex_bytes [c] = None"
| "hex_bytes (c # d # cs) =
     (case (hex_val (lower_char c), hex_val (lower_char d), hex_bytes cs) of
        (Some a, Some b, Some bs) \<Rightarrow> Some ((16 * a + b) # bs)
      | _ \<Rightarrow> None)"

definition ipv4_text :: "nat \<Rightarrow> nat \<Rightarrow> nat \<Rightarrow> nat \<Rightarrow> string" where
  "ipv4_text a b c d = nat_text a @ ''.'' @ nat_text b @ ''.'' @ nat_text c @ ''.'' @ nat_text d"

text \<open>The route table holds the address with its bytes in reverse order.\<close>

definition parse_hex_gateway :: "string \<Rightarrow> string" where
  "parse_hex_gateway s = (case hex_bytes s of Some [a, b, c, d] \<Rightarrow> ipv4_text d c b a | _ \<Rightarrow> [])"

fun gateway_from_lines :: "string list \<Rightarrow> string" where
  "gateway_from_lines [] = []"
| "gateway_from_lines (l # ls) =
     (let fs = fields_func (\<lambda>c. c \<in> set ascii_ws) l
      in if length fs < 3 then gateway_from_lines ls
         else if fs ! 1 \<noteq> ''00000000'' then gateway_from_lines ls
         else if fs ! 2 = ''00000000'' then gateway_from_lines ls
         else let ip = parse_hex_gateway (fs ! 2)
              in if ip \<noteq> [] then ip else gateway_from_lines ls)"

definition detect_default_gateway :: "host_env \<Rightarrow> string" where
  "detect_default_gateway he = (case he_route he of None \<Rightarrow> [] | Some ls \<Rightarrow> gateway_from_lines ls)"

definition docker_gateway :: "host_env \<Rightarrow> string" where
  "docker_gateway he =
     (let raw = trim_space (he_gateway_env he)
      in if raw \<noteq> [] then raw
         else let gw = detect_default_gateway he in if gw \<noteq> [] then gw else ''172.17.0.1'')"

definition docker_subnet :: "host_env \<Rightarrow> string" where
  "docker_subnet he =
     (case he_ipv4 he (docker_gateway he) of
        None \<Rightarrow> []
      | Some (a, b, c, d) \<Rightarrow> ipv4_text a b 0 0 @ ''/16'')"

definition public_hosts :: "host_env \<Rightarrow> string list" where
  "public_hosts he =
     (let raw = trim_space (he_public_base_url he);
          url_part = (if raw = [] then []
                      else case he_url_host he raw of
                             None \<Rightarrow> []
                           | Some h \<Rightarrow> if trim_space h \<noteq> [] then [trim_space h] else []);
          cidr = trim_space (he_allow_cidr he);
          cidr_part = (if cidr = [] then []
                       else let h = trim_space (hd (split_on (CHR ''/'') cidr)) in if h \<noteq> [] then [h] else [])
      in url_part @ cidr_part)"

definition resolve_host :: "host_env \<Rightarrow> string \<Rightarrow> string" where
  "resolve_host he host =
     (let host = trim_space host; gw = docker_gateway he
      in if host = [] then host
         else if to_lower host = ''localhost'' \<or> host = ''127.0.0.1'' \<or> host = ''::1''
         then (if gw \<noteq> [] then gw else host)
         else if list_ex (\<lambda>p. p \<noteq> [] \<and> equal_fold p host) (public_hosts he)
         then (if gw \<noteq> [] then gw else host)
         else host)"

definition join_host_port :: "string \<Rightarrow> string \<Rightarrow> string" where
  "join_host_port host port =
     (if CHR '':'' \<in> set host then ''['' @ host @ '']:'' @ port else host @ '':'' @ port)"

definition resolve_url :: "host_env \<Rightarrow> string \<Rightarrow> string" where
  "resolve_url he raw =
     (let raw = trim_space raw
      in if raw = [] then raw
         else case he_url_host he raw of
                None \<Rightarrow> raw
              | Some host \<Rightarrow>
                  let resolved = resolve_host he host
                  in if resolved = [] \<or> equal_fold resolved host then raw
                     else let port = he_url_port he raw
                          in he_url_with_host he raw (if port \<noteq> [] then join_host_port resolved port else resolved))"

lemma docker_gateway_ne: "docker_gateway he \<noteq> []"
  by (simp add: docker_gateway_def Let_def)

text \<open>The reserved hosts, and only they, are replaced, always by the gateway.\<close>

lemma resolve_host_cases: "resolve_host he h = trim_space h \<or> resolve_host he h = docker_gateway he"
  by (auto simp: resolve_host_def Let_def)

lemma resolve_host_ne: "trim_space h \<noteq> [] \<Longrightarrow> resolve_host he h \<noteq> []"
  using docker_gateway_ne by (auto simp: resolve_host_def Let_def)

lemma parse_hex_gateway_example: "parse_hex_gateway ''010011AC'' = ''172.17.0.1''"
  by code_simp


text \<open>
  The pure part of \<open>internal/services/ops/service.go\<close>: defaults of the executor parameters, the
  log of an item, the agent's configuration file, the validation of requests.
\<close>

section \<open>Defaults of the installers\<close>

definition or_default :: "string \<Rightarrow> string \<Rightarrow> string" where
  "or_default d v = (if v = [] then d else v)"

definition or_default_int :: "int \<Rightarrow> int \<Rightarrow> int" where
  "or_default_int d v = (if v \<le> 0 then d else v)"

definition flag_or :: "jobj option \<Rightarrow> string \<Rightarrow> bool \<Rightarrow> bool \<Rightarrow> bool" where
  "flag_or raw key d v = (if json_has raw key then v else d)"

definition build_install_vlf_params :: "jobj option \<Rightarrow> vlf_params" where
  "build_install_vlf_params raw =
     (let p = parse_job_params raw
      in \<lparr>vp_repo_url = or_default ''https://github.com/skalover32-a11y/VLF-Proto.git'' (trim_space (jp_inst_repo_url p)),
          vp_ref = or_default ''main'' (trim_space (jp_inst_ref p)),
          vp_go_version = or_default ''1.25.1'' (trim_space (jp_inst_go_version p)),
          vp_install_dir = or_default ''/opt/vlf-proto'' (trim_space (jp_inst_install_dir p)),
          vp_port_tcp = or_default_int 443 (jp_inst_port_tcp p),
          vp_port_udp = or_default_int 443 (jp_inst_port_udp p),
          vp_port_udp_alt = or_default_int 8443 (jp_inst_port_udp_alt p),
          vp_enable_metrics = flag_or raw ''installer_enable_metrics'' True (jp_inst_enable_metrics p),
          vp_metrics_addr = or_default ''127.0.0.1'' (trim_space (jp_inst_metrics_addr p)),
          vp_metrics_port = or_default_int 8080 (jp_inst_metrics_port p),
          vp_enable_ufw = flag_or raw ''installer_enable_ufw'' False (jp_inst_enable_ufw p),
          vp_domain = trim_space (jp_inst_domain p),
          vp_tls_server_name = trim_space (jp_inst_tls_server_name p),
          vp_client_id = or_default ''gateway-client'' (trim_space (jp_inst_client_id p)),
          vp_secret = trim_space (jp_inst_secret p),
          vp_log_level = or_default ''info'' (trim_space (jp_inst_log_level p)),
          vp_show_secrets = flag_or raw ''installer_show_secrets'' False (jp_inst_show_secrets p),
          vp_force = flag_or raw ''installer_force'' True (jp_inst_force p),
          vp_sudo_passwords = []\<rparr>)"

definition build_remna_params :: "jobj option \<Rightarrow> remna_params" where
  "build_remna_params raw =
     (let p = parse_job_params raw
      in \<lparr>rp_rules_repo = or_default ''Loyalsoldier/v2ray-rules-dat'' (trim_space (jp_remna_rules_repo p)),
          rp_release_tag = or_default ''latest'' (trim_space (jp_remna_release_tag p)),
          rp_geodata_dir = or_default ''/opt/remnanode/geodata'' (trim_space (jp_remna_geodata_dir p)),
          rp_compose_path = or_default ''/opt/remnanode/docker-compose.yml'' (trim_space (jp_remna_compose_path p)),
          rp_compose_service = or_default ''remnanode'' (trim_space (jp_remna_compose_service p)),
          rp_script_path = or_default ''/opt/remnanode/bin/update-geodata.sh'' (trim_space (jp_remna_script_path p)),
          rp_cron_schedule = or_default ''20 4 * * *'' (trim_space (jp_remna_cron_schedule p)),
          rp_log_path = or_default ''/var/log/remnanode-geodata.log'' (trim_space (jp_remna_log_path p)),
          rp_lock_path = or_default ''/var/lock/remnanode-geodata.lock'' (trim_space (jp_remna_lock_path p)),
          rp_min_size_bytes = or_default_int (1024 * 1024) (jp_remna_min_size_bytes p),
          rp_skip_sha256 = flag_or raw ''remna_skip_sha256'' False (jp_remna_skip_sha256 p),
          rp_force_reload = flag_or raw ''remna_force'' False (jp_remna_force p),
          rp_sudo_passwords = []\<rparr>)"

section \<open>The log of an item\<close>

definition trim_log :: "string \<Rightarrow> nat \<Rightarrow> nat \<Rightarrow> string" where
  "trim_log input head_size tail_size =
     (if head_size = 0 \<and> tail_size = 0 then []
      else if length input \<le> head_size + tail_size \<or> tail_size = 0
      then (if head_size < length input \<and> 0 < head_size then take head_size input else input)
      else take head_size input @ [CHR 0x0A] @ ''...trimmed...'' @ [CHR 0x0A] @
           drop (length input - tail_size) input)"

definition append_pre_log :: "string \<Rightarrow> string \<Rightarrow> string" where
  "append_pre_log existing entry =
     (if entry = [] then existing
      else if existing = [] then entry
      else existing @ [CHR 0x0A] @ entry)"

text \<open>The last line with a version, searched from the end.\<close>

fun find_version_line :: "string list \<Rightarrow> string" where
  "find_version_line [] = []"
| "find_version_line (l # ls) =
     (let line = trim_space l
      in if prefix ''service_version:'' line then trim_space (trim_prefix line ''service_version:'')
         else if prefix ''service_version='' line then trim_space (trim_prefix line ''service_version='')
         else find_version_line ls)"

definition parse_panel_version :: "string \<Rightarrow> string" where
  "parse_panel_version log_text =
     (if trim_space log_text = [] then []
      else find_version_line (rev (split_on (CHR 0x0A) log_text)))"

definition describe_job_action :: "string \<Rightarrow> job_params \<Rightarrow> string" where
  "describe_job_action t p =
     (if t = jt_reboot then ''reboot (sudo /sbin/reboot)''
      else if t = jt_update
      then (if jp_precheck_only p then ''update_nodes precheck'' else ''update_nodes (ssh executor)'')
      else if t = jt_update_svc then ''update_services (agent)''
      else if t = jt_reboot_agent then ''reboot (agent)''
      else if t = jt_restart_svc
      then ''restart service '' @ trim_space (jp_restart_service p) @ '' (agent)''
      else if t = jt_install_vlf then ''install/update VLF-Proto (smart installer)''
      else if t = jt_remna_install then ''install Remnawave geodata updater''
      else if t = jt_remna_run then ''run Remnawave geodata update''
      else t)"

text \<open>\<open>rnd\<close> is the random number below 201 the code draws.\<close>

definition millisecond :: duration where
  "millisecond = 1000000"

text \<open>\<open>Duration.Milliseconds\<close>.\<close>

definition duration_ms :: "duration \<Rightarrow> int" where
  "duration_ms d = (if d < 0 then - (- d div millisecond) else d div millisecond)"

definition dry_run_delay :: "int \<Rightarrow> int \<Rightarrow> duration" where
  "dry_run_delay rnd ms = (if 0 < ms then dur_mul ms millisecond else dur_mul (100 + rnd) millisecond)"

section \<open>Allowed networks and the agent's configuration\<close>

fun first_nonempty_trim :: "string list \<Rightarrow> string" where
  "first_nonempty_trim [] = []"
| "first_nonempty_trim (w # ws) = (if trim_space w \<noteq> [] then trim_space w else first_nonempty_trim ws)"

definition normalize_allow_cidr :: "string \<Rightarrow> string" where
  "normalize_allow_cidr raw = first_nonempty_trim (split_on (CHR '','') raw)"

definition with_mask :: "string \<Rightarrow> string" where
  "with_mask t = (if CHR ''/'' \<in> set t then t else t @ ''/32'')"

fun collect_cidrs :: "string list \<Rightarrow> string list \<Rightarrow> string list" where
  "collect_cidrs out [] = out"
| "collect_cidrs out (w # ws) =
     (let t = trim_space w
      in if t = [] then collect_cidrs out ws
         else if with_mask t \<in> set out then collect_cidrs out ws
         else collect_cidrs (out @ [with_mask t]) ws)"

definition normalize_allow_cidrs :: "string \<Rightarrow> string list" where
  "normalize_allow_cidrs raw = collect_cidrs [] (split_on (CHR '','') raw)"

definition cidr_in_list :: "string list \<Rightarrow> string \<Rightarrow> bool" where
  "cidr_in_list l c = list_ex (\<lambda>item. item = c) l"

definition escape_yaml_string :: "string \<Rightarrow> string" where
  "escape_yaml_string v = replace_all v [CHR 0x22] [CHR 0x5C, CHR 0x22]"

text \<open>
  The verb \<open>%q\<close>, \<open>strconv.Quote\<close>: quotes and backslashes are escaped, control characters written
  out, and everything else, UTF-8 sequences of printable characters included, is kept.
\<close>

definition quote_char :: "char \<Rightarrow> string" where
  "quote_char c =
     (if c = CHR 0x22 then [CHR 0x5C, CHR 0x22]
      else if c = CHR 0x5C then [CHR 0x5C, CHR 0x5C]
      else case map_of [(CHR 0x07, CHR ''a''), (CHR 0x08, CHR ''b''), (CHR 0x0C, CHR ''f''), (CHR 0x0A, CHR ''n''),
                        (CHR 0x0D, CHR ''r''), (CHR 0x09, CHR ''t''), (CHR 0x0B, CHR ''v'')] c of
             Some e \<Rightarrow> [CHR 0x5C, e]
           | None \<Rightarrow>
               if of_char c < (32 :: nat) \<or> of_char c = (127 :: nat)
               then [CHR 0x5C, CHR ''x''] @ hex_text 2 (of_char c) else [c])"

definition go_quote :: "string \<Rightarrow> string" where
  "go_quote s = [CHR 0x22] @ concat (map quote_char s) @ [CHR 0x22]"

definition bool_text :: "bool \<Rightarrow> string" where
  "bool_text b = (if b then ''true'' else ''false'')"

definition build_agent_config ::
    "int \<Rightarrow> string \<Rightarrow> string list \<Rightarrow> string \<Rightarrow> string \<Rightarrow> int \<Rightarrow> bool \<Rightarrow> string" where
  "build_agent_config port token cidrs stats_mode access_log rate_limit metrics_auth =
     join [CHR 0x0A]
       ([''listen: '' @ [CHR 0x22] @ ''0.0.0.0:'' @ itoa port @ [CHR 0x22],
         ''token: '' @ go_quote (escape_yaml_string token),
         ''metrics_require_auth: '' @ bool_text metrics_auth,
         ''allow_cidrs:''] @
        map (\<lambda>c. ''  - '' @ go_quote (escape_yaml_string c)) cidrs @
        [''activity_log_path: '' @ go_quote (escape_yaml_string access_log),
         ''poll_window_seconds: '' @ itoa 60,
         ''stats_mode: '' @ go_quote (escape_yaml_string stats_mode),
         ''rate_limit_rps: '' @ itoa rate_limit]) @ [CHR 0x0A]"

section \<open>Validation\<close>

definition validate_restart_service :: "string \<Rightarrow> goerr option" where
  "validate_restart_service svc =
     (if to_lower (trim_space svc) \<in> {''service-manager'', ''docker'', ''adguard'', ''agent'', ''nginx'', ''postgresql''}
      then None else Some (ErrMsg (''unsupported service: '' @ svc)))"

text \<open>What a job on all nodes must be confirmed with; \<open>None\<close> when it needs no confirmation.\<close>

definition confirm_word :: "string \<Rightarrow> string option" where
  "confirm_word t =
     (if t = jt_reboot \<or> t = jt_update \<or> t = jt_update_svc \<or> t = jt_reboot_agent then Some ''REALLY_DO_IT''
      else if t = jt_deploy then Some ''DEPLOY_AGENT''
      else if t = jt_install_vlf then Some ''INSTALL_VLF_PROTO''
      else if t = jt_remna_install then Some ''REMNA_GEODATA_INSTALL''
      else if t = jt_remna_run then Some ''REMNA_GEODATA_RUN''
      else None)"

definition unconfirmed :: "string \<Rightarrow> bool \<Rightarrow> job_params \<Rightarrow> bool" where
  "unconfirmed t all_nodes p \<longleftrightarrow>
     all_nodes \<and> \<not> jp_dry_run p \<and>
     (case confirm_word t of None \<Rightarrow> False | Some w \<Rightarrow> trim_space (jp_confirm p) \<noteq> w)"

definition clamp_parallelism :: "int \<Rightarrow> int" where
  "clamp_parallelism n =
     (let n = (if n \<le> 0 then 5 else n) in if max_parallelism < n then max_parallelism else n)"

definition job_status_from_failures :: "nat \<Rightarrow> string \<times> string option" where
  "job_status_from_failures failed =
     (if 0 < failed then (job_failed, Some (itoa (int failed) @ '' items failed'')) else (job_success, None))"

section \<open>Facts\<close>

lemma trim_log_length:
  "length (trim_log s h t) \<le> h + t + 15 \<or> t = 0 \<or> h = 0"
  by (auto simp: trim_log_def)

lemma trim_log_bound: "0 < h \<Longrightarrow> 0 < t \<Longrightarrow> length (trim_log s h t) \<le> h + t + 15"
  using trim_log_length [of s h t] by auto

lemma trim_log_short: "length s \<le> h \<Longrightarrow> 0 < h \<Longrightarrow> trim_log s h t = s"
  by (simp add: trim_log_def)

lemma clamp_parallelism_range: "1 \<le> clamp_parallelism n \<and> clamp_parallelism n \<le> 10"
  by (simp add: clamp_parallelism_def max_parallelism_def Let_def)

lemma collect_cidrs_distinct: "distinct out \<Longrightarrow> distinct (collect_cidrs out ws)"
  by (induction ws arbitrary: out) (auto simp: Let_def)

lemma with_mask_slash: "CHR ''/'' \<in> set (with_mask t)"
  by (simp add: with_mask_def)

lemma collect_cidrs_masked:
  "\<forall>c \<in> set out. CHR ''/'' \<in> set c \<Longrightarrow> c \<in> set (collect_cidrs out ws) \<Longrightarrow> CHR ''/'' \<in> set c"
proof (induction ws arbitrary: out)
  case (Cons w ws)
  show ?case
  proof (cases "trim_space w = [] \<or> with_mask (trim_space w) \<in> set out")
    case True
    then have "c \<in> set (collect_cidrs out ws)" using Cons.prems(2) by (simp add: Let_def split: if_splits)
    then show ?thesis by (rule Cons.IH [OF Cons.prems(1)])
  next
    case False
    then have "c \<in> set (collect_cidrs (out @ [with_mask (trim_space w)]) ws)"
      using Cons.prems(2) by (simp add: Let_def)
    then show ?thesis using Cons.prems(1) with_mask_slash by (intro Cons.IH [of "out @ [with_mask (trim_space w)]"]) auto
  qed
qed simp

end
