(* ===== verification/Ops_Hub.thy ===== *)
theory Ops_Hub
  imports Ops_Types Go_Time
begin

text \<open>
  The event hub of \<open>internal/services/ops/stream.go\<close>: a job's subscribers each have a buffered
  channel; an event is sent to every channel without waiting, and a subscriber whose buffer is full
  is dropped and its channel closed.

  A channel is a number, its state the buffered events and whether it is closed. \<open>hb_panic\<close> records
  that a closed channel was closed again, which panics. Each operation that holds the lock is one
  step; \<open>Publish\<close> takes its list of channels under the lock and sends without it, so that its sends
  and removals are steps of their own, between which any other operation may happen (\<open>hub_step\<close>).
\<close>

datatype ev_value = EvNil | EvStr string | EvInt int

record event =
  ev_type :: string
  ev_job_id :: string
  ev_ts :: string
  ev_data :: "(string \<times> ev_value) list"

definition event_job_status :: string where "event_job_status = ''job_status''"
definition event_item_status :: string where "event_item_status = ''item_status''"
definition event_item_log_append :: string where "event_item_log_append = ''item_log_append''"
definition event_item_done :: string where "event_item_done = ''item_done''"

definition event_buffer_size :: nat where
  "event_buffer_size = 100"

definition format_time_ptr :: "instant option \<Rightarrow> ev_value" where
  "format_time_ptr t = (case t of None \<Rightarrow> EvNil | Some u \<Rightarrow> EvStr (rfc3339 u))"

definition new_event :: "instant \<Rightarrow> string \<Rightarrow> string \<Rightarrow> (string \<times> ev_value) list \<Rightarrow> event" where
  "new_event now job_id typ data =
     \<lparr>ev_type = typ, ev_job_id = job_id, ev_ts = rfc3339 now, ev_data = data\<rparr>"

section \<open>Operations\<close>

record chan =
  ch_buf :: "event list"
  ch_closed :: bool

record hub =
  hb_subs :: "string \<Rightarrow> nat list"
  hb_chans :: "nat \<Rightarrow> chan"
  hb_next :: nat
  hb_panic :: bool

definition new_hub :: hub where
  "new_hub = \<lparr>hb_subs = (\<lambda>j. []), hb_chans = (\<lambda>c. \<lparr>ch_buf = [], ch_closed = False\<rparr>),
     hb_next = 0, hb_panic = False\<rparr>"

definition subscribe :: "string \<Rightarrow> hub \<Rightarrow> nat \<times> hub" where
  "subscribe job h =
     (let c = hb_next h
      in (c, h\<lparr>hb_subs := (hb_subs h)(job := hb_subs h job @ [c]),
               hb_chans := (hb_chans h)(c := \<lparr>ch_buf = [], ch_closed = False\<rparr>),
               hb_next := Suc c\<rparr>))"

definition close_chan :: "nat \<Rightarrow> hub \<Rightarrow> hub" where
  "close_chan c h =
     (if ch_closed (hb_chans h c) then h\<lparr>hb_panic := True\<rparr>
      else h\<lparr>hb_chans := (hb_chans h)(c := (hb_chans h c)\<lparr>ch_closed := True\<rparr>)\<rparr>)"

definition unsubscribe :: "string \<Rightarrow> nat \<Rightarrow> hub \<Rightarrow> hub" where
  "unsubscribe job c h =
     (if c \<notin> set (hb_subs h job) then h
      else close_chan c (h\<lparr>hb_subs := (hb_subs h)(job := removeAll c (hb_subs h job))\<rparr>))"

definition try_send :: "nat \<Rightarrow> event \<Rightarrow> hub \<Rightarrow> bool \<times> hub" where
  "try_send c e h =
     (let ch = hb_chans h c
      in if ch_closed ch then (False, h)
         else if length (ch_buf ch) < event_buffer_size
         then (True, h\<lparr>hb_chans := (hb_chans h)(c := ch\<lparr>ch_buf := ch_buf ch @ [e]\<rparr>)\<rparr>)
         else (False, h))"

text \<open>A subscriber reads its channel; a closed channel still hands out what is buffered.\<close>

definition receive :: "nat \<Rightarrow> hub \<Rightarrow> event option \<times> hub" where
  "receive c h =
     (case ch_buf (hb_chans h c) of
        [] \<Rightarrow> (None, h)
      | e # es \<Rightarrow> (Some e, h\<lparr>hb_chans := (hb_chans h)(c := (hb_chans h c)\<lparr>ch_buf := es\<rparr>)\<rparr>))"

section \<open>Invariant\<close>

text \<open>
  No panic; a registered channel is open, registered once and for one job; buffers are bounded;
  a channel that was never handed out is empty and open.
\<close>

definition hub_inv :: "hub \<Rightarrow> bool" where
  "hub_inv h \<longleftrightarrow> \<not> hb_panic h \<and>
     (\<forall>job. distinct (hb_subs h job)) \<and>
     (\<forall>job. \<forall>c \<in> set (hb_subs h job). c < hb_next h \<and> \<not> ch_closed (hb_chans h c)) \<and>
     (\<forall>job job' c. c \<in> set (hb_subs h job) \<and> c \<in> set (hb_subs h job') \<longrightarrow> job = job') \<and>
     (\<forall>c. length (ch_buf (hb_chans h c)) \<le> event_buffer_size)"

lemma hub_invD:
  assumes "hub_inv h"
  shows "\<not> hb_panic h" and "distinct (hb_subs h job)"
    and "c \<in> set (hb_subs h job) \<Longrightarrow> c < hb_next h \<and> \<not> ch_closed (hb_chans h c)"
    and "c \<in> set (hb_subs h job) \<Longrightarrow> c \<in> set (hb_subs h job') \<Longrightarrow> job = job'"
    and "length (ch_buf (hb_chans h c)) \<le> event_buffer_size"
  using assms unfolding hub_inv_def by blast+

lemma new_hub_inv: "hub_inv new_hub"
  by (simp add: hub_inv_def new_hub_def)

lemma hub_invI:
  assumes "\<not> hb_panic h" and "\<And>job. distinct (hb_subs h job)"
    and "\<And>job c. c \<in> set (hb_subs h job) \<Longrightarrow> c < hb_next h"
    and "\<And>job c. c \<in> set (hb_subs h job) \<Longrightarrow> \<not> ch_closed (hb_chans h c)"
    and "\<And>job job' c. c \<in> set (hb_subs h job) \<Longrightarrow> c \<in> set (hb_subs h job') \<Longrightarrow> job = job'"
    and "\<And>c. length (ch_buf (hb_chans h c)) \<le> event_buffer_size"
  shows "hub_inv h"
  using assms unfolding hub_inv_def by blast

lemma subscribe_sel [simp]:
  "hb_subs (snd (subscribe job h)) j = (if j = job then hb_subs h job @ [hb_next h] else hb_subs h j)"
  "hb_chans (snd (subscribe job h)) c = (if c = hb_next h then \<lparr>ch_buf = [], ch_closed = False\<rparr> else hb_chans h c)"
  "hb_next (snd (subscribe job h)) = Suc (hb_next h)" "hb_panic (snd (subscribe job h)) = hb_panic h"
  "fst (subscribe job h) = hb_next h"
  by (simp_all add: subscribe_def Let_def)

lemma subscribe_inv: "hub_inv h \<Longrightarrow> hub_inv (snd (subscribe job h))"
proof -
  assume h: "hub_inv h"
  note less = hub_invD(3) [OF h, THEN conjunct1] and opn = hub_invD(3) [OF h, THEN conjunct2]
  show ?thesis
  proof (rule hub_invI)
    show "\<not> hb_panic (snd (subscribe job h))" using hub_invD(1) [OF h] by simp
    show "distinct (hb_subs (snd (subscribe job h)) j)" for j
      using hub_invD(2) [OF h] less by fastforce
    show "c < hb_next (snd (subscribe job h))" if "c \<in> set (hb_subs (snd (subscribe job h)) j)" for j c
      using that less [of c] by (auto simp: less_Suc_eq split: if_splits)
    show "\<not> ch_closed (hb_chans (snd (subscribe job h)) c)" if "c \<in> set (hb_subs (snd (subscribe job h)) j)" for j c
      using that opn [of c] by (auto split: if_splits)
    show "j = j'" if "c \<in> set (hb_subs (snd (subscribe job h)) j)" "c \<in> set (hb_subs (snd (subscribe job h)) j')" for j j' c
      using that less [of c j] less [of c j'] hub_invD(4) [OF h, of c] by (auto split: if_splits)
    show "length (ch_buf (hb_chans (snd (subscribe job h)) c)) \<le> event_buffer_size" for c
      using hub_invD(5) [OF h] by (simp add: event_buffer_size_def)
  qed
qed

text \<open>Changing the buffer of one channel keeps the rest.\<close>

lemma set_buf_inv:
  assumes "hub_inv h" and "length buf \<le> event_buffer_size"
  shows "hub_inv (h\<lparr>hb_chans := (hb_chans h)(c := (hb_chans h c)\<lparr>ch_buf := buf\<rparr>)\<rparr>)"
proof (rule hub_invI)
  show "\<not> ch_closed (hb_chans (h\<lparr>hb_chans := (hb_chans h)(c := (hb_chans h c)\<lparr>ch_buf := buf\<rparr>)\<rparr>) d)"
    if "d \<in> set (hb_subs (h\<lparr>hb_chans := (hb_chans h)(c := (hb_chans h c)\<lparr>ch_buf := buf\<rparr>)\<rparr>) job)" for job d
    using that hub_invD(3) [OF assms(1), of d job] by auto
  show "length (ch_buf (hb_chans (h\<lparr>hb_chans := (hb_chans h)(c := (hb_chans h c)\<lparr>ch_buf := buf\<rparr>)\<rparr>) d))
      \<le> event_buffer_size" for d
    using assms hub_invD(5) [OF assms(1)] by simp
qed (use hub_invD [OF assms(1)] in simp_all)

lemma unsubscribe_inv: "hub_inv h \<Longrightarrow> hub_inv (unsubscribe job c h)"
proof (cases "c \<in> set (hb_subs h job)")
  case True
  assume h: "hub_inv h"
  have opn: "\<not> ch_closed (hb_chans h c)" using hub_invD(3) [OF h True] by simp
  let ?h = "h\<lparr>hb_subs := (hb_subs h)(job := removeAll c (hb_subs h job)),
              hb_chans := (hb_chans h)(c := (hb_chans h c)\<lparr>ch_closed := True\<rparr>)\<rparr>"
  have eq: "unsubscribe job c h = ?h" using True opn by (simp add: unsubscribe_def close_chan_def)
  have sub: "d \<in> set (hb_subs ?h j) \<Longrightarrow> d \<in> set (hb_subs h j) \<and> (j = job \<longrightarrow> d \<noteq> c)" for d j
    by (auto split: if_splits)
  show ?thesis unfolding eq
  proof (rule hub_invI)
    show "\<not> hb_panic ?h" using hub_invD(1) [OF h] by simp
    show "distinct (hb_subs ?h j)" for j using hub_invD(2) [OF h] by (simp add: distinct_removeAll)
    show "d < hb_next ?h" if "d \<in> set (hb_subs ?h j)" for j d
      using sub [OF that] hub_invD(3) [OF h, of d j] by simp
    show "\<not> ch_closed (hb_chans ?h d)" if d: "d \<in> set (hb_subs ?h j)" for j d
    proof -
      have "d \<noteq> c" using sub [OF d] hub_invD(4) [OF h True, of j] by blast
      then show ?thesis using sub [OF d] hub_invD(3) [OF h, of d j] by simp
    qed
    show "j = j'" if "d \<in> set (hb_subs ?h j)" "d \<in> set (hb_subs ?h j')" for j j' d
      using sub [OF that(1)] sub [OF that(2)] hub_invD(4) [OF h] by blast
    show "length (ch_buf (hb_chans ?h d)) \<le> event_buffer_size" for d
      using hub_invD(5) [OF h] by simp
  qed
qed (simp add: unsubscribe_def)

lemma try_send_inv: "hub_inv h \<Longrightarrow> hub_inv (snd (try_send c e h))"
  by (simp add: try_send_def Let_def set_buf_inv)

lemma receive_inv: "hub_inv h \<Longrightarrow> hub_inv (snd (receive c h))"
proof (cases "ch_buf (hb_chans h c)")
  case (Cons e es)
  assume h: "hub_inv h"
  have "length es \<le> event_buffer_size" using hub_invD(5) [OF h, of c] Cons by simp
  with h Cons show ?thesis by (simp add: receive_def set_buf_inv)
qed (simp add: receive_def)

section \<open>Publications\<close>

text \<open>
  A call of \<open>Publish\<close> past its lock: the event, the channels it has still to send to, and the one whose send
  failed and that it unsubscribes before it goes on. Go ranges over a map in no fixed order; \<open>order\<close> is the one
  this call takes. A call without subscribers has nothing to do.
\<close>

record publication =
  pb_job :: string
  pb_event :: event
  pb_todo :: "nat list"
  pb_drop :: "nat option"

definition publish :: "string \<Rightarrow> event \<Rightarrow> nat list \<Rightarrow> hub \<Rightarrow> publication" where
  "publish job e order h =
     (let subs = hb_subs h job
      in \<lparr>pb_job = job, pb_event = e,
          pb_todo = (if distinct order \<and> set order = set subs then order else subs), pb_drop = None\<rparr>)"

definition publish_step :: "publication \<Rightarrow> hub \<Rightarrow> publication \<times> hub" where
  "publish_step p h =
     (case pb_drop p of
        Some c \<Rightarrow> (p\<lparr>pb_drop := None\<rparr>, unsubscribe (pb_job p) c h)
      | None \<Rightarrow>
          (case pb_todo p of
             [] \<Rightarrow> (p, h)
           | c # cs \<Rightarrow>
               (case try_send c (pb_event p) h of
                  (sent, h1) \<Rightarrow> (p\<lparr>pb_todo := cs, pb_drop := (if sent then None else Some c)\<rparr>, h1))))"

text \<open>The hub and the calls of \<open>Publish\<close> made so far, in the order they took the lock.\<close>

record hub_sys =
  hs_hub :: hub
  hs_pubs :: "publication list"

datatype hub_event =
    HubSubscribe string
  | HubUnsubscribe string nat
  | HubPublish string event "nat list"
  | HubStep nat
  | HubReceive nat

definition hub_step :: "hub_event \<Rightarrow> hub_sys \<Rightarrow> hub_sys" where
  "hub_step ev s =
     (case ev of
        HubSubscribe job \<Rightarrow> s\<lparr>hs_hub := snd (subscribe job (hs_hub s))\<rparr>
      | HubUnsubscribe job c \<Rightarrow> s\<lparr>hs_hub := unsubscribe job c (hs_hub s)\<rparr>
      | HubPublish job e order \<Rightarrow> s\<lparr>hs_pubs := hs_pubs s @ [publish job e order (hs_hub s)]\<rparr>
      | HubStep k \<Rightarrow>
          (if length (hs_pubs s) \<le> k then s
           else case publish_step (hs_pubs s ! k) (hs_hub s) of
                  (p, h) \<Rightarrow> s\<lparr>hs_hub := h, hs_pubs := (hs_pubs s)[k := p]\<rparr>)
      | HubReceive c \<Rightarrow> s\<lparr>hs_hub := snd (receive c (hs_hub s))\<rparr>)"

lemma publish_step_inv: "hub_inv h \<Longrightarrow> hub_inv (snd (publish_step p h))"
proof -
  assume h: "hub_inv h"
  show ?thesis
  proof (cases "pb_drop p")
    case None
    then show ?thesis using h try_send_inv [OF h] by (auto simp: publish_step_def case_prod_beta split: list.split)
  qed (simp add: publish_step_def unsubscribe_inv [OF h])
qed

lemma subs_next:
  "hb_next (unsubscribe job c h) = hb_next h" "hb_next (snd (try_send c e h)) = hb_next h"
  "hb_next (snd (receive c h)) = hb_next h" "hb_next (snd (publish_step p h)) = hb_next h"
proof -
  show u: "hb_next (unsubscribe job c h) = hb_next h" for job c h by (simp add: unsubscribe_def close_chan_def)
  show t: "hb_next (snd (try_send c e h)) = hb_next h" for c e h by (simp add: try_send_def Let_def)
  show "hb_next (snd (receive c h)) = hb_next h" by (simp add: receive_def split: list.split)
  show "hb_next (snd (publish_step p h)) = hb_next h"
    using u t by (simp add: publish_step_def case_prod_beta split: option.split list.split)
qed

text \<open>A publication sends to channels that were handed out, to each at most once.\<close>

definition pub_ok :: "nat \<Rightarrow> publication \<Rightarrow> bool" where
  "pub_ok n p \<longleftrightarrow> distinct (pb_todo p) \<and> (\<forall>c \<in> set (pb_todo p). c < n) \<and>
     (\<forall>c. pb_drop p = Some c \<longrightarrow> c < n \<and> c \<notin> set (pb_todo p))"

lemma pub_ok_mono: "pub_ok n p \<Longrightarrow> n \<le> m \<Longrightarrow> pub_ok m p"
  by (auto simp: pub_ok_def)

lemma publish_ok: "hub_inv h \<Longrightarrow> pub_ok (hb_next h) (publish job e order h)"
  using hub_invD(2,3) by (auto simp: pub_ok_def publish_def Let_def)

lemma publish_step_ok: "pub_ok n p \<Longrightarrow> pub_ok n (fst (publish_step p h))"
  by (auto simp: pub_ok_def publish_step_def case_prod_beta split: option.splits list.splits if_splits)

definition hub_sys_inv :: "hub_sys \<Rightarrow> bool" where
  "hub_sys_inv s \<longleftrightarrow> hub_inv (hs_hub s) \<and> (\<forall>p \<in> set (hs_pubs s). pub_ok (hb_next (hs_hub s)) p)"

lemma hub_step_inv: "hub_sys_inv s \<Longrightarrow> hub_sys_inv (hub_step ev s)"
proof -
  assume s: "hub_sys_inv s"
  then have h: "hub_inv (hs_hub s)" and p: "\<And>q. q \<in> set (hs_pubs s) \<Longrightarrow> pub_ok (hb_next (hs_hub s)) q"
    by (auto simp: hub_sys_inv_def)
  show ?thesis
  proof (cases ev)
    case (HubStep k)
    show ?thesis
    proof (cases "k < length (hs_pubs s)")
      case True
      let ?q = "publish_step (hs_pubs s ! k) (hs_hub s)"
      have "pub_ok (hb_next (hs_hub s)) (fst ?q)" using p True by (intro publish_step_ok) simp
      then have "\<forall>q \<in> set ((hs_pubs s)[k := fst ?q]). pub_ok (hb_next (hs_hub s)) q"
        using p set_update_subset_insert [of "hs_pubs s" k "fst ?q"] by blast
      then show ?thesis
        using True publish_step_inv [OF h] by (simp add: HubStep hub_step_def hub_sys_inv_def case_prod_beta subs_next)
    qed (use s HubStep in \<open>simp add: hub_step_def\<close>)
  qed (use s h p in \<open>auto simp: hub_step_def hub_sys_inv_def subs_next
        intro: subscribe_inv unsubscribe_inv receive_inv publish_ok pub_ok_mono [OF _ le_SucI [OF order_refl]]\<close>)
qed

interpretation hubs: invariant_machine hub_step hub_sys_inv
  by unfold_locales (rule hub_step_inv)

end
