(* ===== verification/Ops_Store.thy ===== *)
theory Ops_Store
  imports Ops_Params Ops_Hub
begin

text \<open>
  The state the operation jobs work on and the operations of \<open>internal/services/ops/service.go\<close> that
  read and write rows and publish events.

  \<^item> \<open>ops_world\<close>: the tables, the calls of \<open>Publish\<close> so far (job and event; what the hub does with them is
    \<open>Ops_Hub\<close>), the calls made to executors so far with their time limits, the number
    of SQL statements and of identifiers used so far.
  \<^item> \<open>ops_env\<close>: what is outside. \<open>oe_db_fail n\<close> says that the \<open>n\<close>-th statement fails, and every
    statement fails once the context is done (\<open>oe_cancelled\<close>); \<open>oe_exec n call\<close> is what the executor
    returns for the \<open>n\<close>-th call (output, exit code, error); \<open>oe_poll i\<close> the \<open>i\<close>-th answer of an
    agent's health endpoint. \<open>oe_tls_column\<close> says whether the table of nodes has a column
    \<open>agent_insecure_tls\<close>, which the update of the agent's settings names and no migration creates.
  \<^item> \<open>ops_svc\<close>: the fields of \<open>Service\<close> that do not change. Its two executors are configured.
\<close>

datatype exec_call =
    CallReboot node
  | CallUpdate node update_params
  | CallDeploy node deploy_params
  | CallInstallVLF node vlf_params
  | CallInstallRemna node remna_params
  | CallRunRemna node remna_params
  | CallProbe node int
  | AgentUpdate node update_params
  | AgentReboot node string
  | AgentRestart node string

record poll =
  pl_delay :: nat
  pl_status :: int
  pl_ok :: bool
  pl_version :: string
  pl_err :: bool
  pl_ctx_done :: bool

record ops_env = host_env +
  oe_now :: instant
  oe_db_fail :: "nat \<Rightarrow> bool"
  oe_cancelled :: bool
  oe_uuid_str :: "uuid \<Rightarrow> string"
  oe_parse :: "string \<Rightarrow> uuid option"
  oe_uuid :: "nat \<Rightarrow> uuid"
  oe_token :: "string result"
  oe_sha256_hex :: "string \<Rightarrow> string"
  oe_encrypt :: "string \<Rightarrow> string result"
  oe_random :: int
  oe_stat :: "string \<Rightarrow> (int \<times> bool) option"
  oe_read_file :: "string \<Rightarrow> string + string"
  oe_exec :: "nat \<Rightarrow> exec_call \<Rightarrow> string \<times> int \<times> goerr option"
  oe_probe :: "(node \<Rightarrow> int \<Rightarrow> bool \<times> string \<times> goerr option) option"
  oe_installer :: bool
  oe_poll :: "nat \<Rightarrow> poll"
  oe_tls_column :: bool

record ops_svc =
  osv_has_db :: bool
  osv_has_executor :: bool
  osv_has_agent_executor :: bool
  osv_has_encryptor :: bool
  osv_sudo_passwords :: "string list"
  osv_allow_cidr :: string
  osv_repo_path :: string
  osv_agent_binary :: string
  osv_has_hub :: bool

record ops_world =
  o_jobs :: "ops_job list"
  o_items :: "ops_item list"
  o_nodes :: "node list"
  o_metrics :: "metrics_row list"
  o_events :: "(string \<times> event) list"
  o_calls :: "(duration \<times> exec_call) list"
  o_dbn :: nat
  o_uid :: nat

definition new_ops :: "bool \<Rightarrow> bool \<Rightarrow> bool \<Rightarrow> bool \<Rightarrow> string list \<Rightarrow> string \<Rightarrow> string \<Rightarrow> ops_svc" where
  "new_ops has_db has_exec has_agent has_enc sudo_passwords allow_cidr repo_path =
     \<lparr>osv_has_db = has_db, osv_has_executor = has_exec, osv_has_agent_executor = has_agent,
      osv_has_encryptor = has_enc, osv_sudo_passwords = sudo_passwords, osv_allow_cidr = allow_cidr,
      osv_repo_path = (if repo_path = [] then ''/opt/vlf_aggregator'' else repo_path),
      osv_agent_binary = ''/app/bin/vlf-agent'', osv_has_hub = True\<rparr>"

section \<open>Statements\<close>

definition o_tick :: "ops_world \<Rightarrow> ops_world" where
  "o_tick w = w\<lparr>o_dbn := Suc (o_dbn w)\<rparr>"

definition stmt_fails :: "ops_env \<Rightarrow> ops_world \<Rightarrow> bool" where
  "stmt_fails env w \<longleftrightarrow> oe_cancelled env \<or> oe_db_fail env (o_dbn w)"

definition stmt_error :: "ops_env \<Rightarrow> goerr" where
  "stmt_error env = (if oe_cancelled env then ErrCtxDone else ErrMsg ''database'')"

definition o_query :: "ops_env \<Rightarrow> (ops_world \<Rightarrow> 'a) \<Rightarrow> ops_world \<Rightarrow> 'a result \<times> ops_world" where
  "o_query env f w = (if stmt_fails env w then Inl (stmt_error env) else Inr (f w), o_tick w)"

definition o_exec :: "ops_env \<Rightarrow> (ops_world \<Rightarrow> ops_world) \<Rightarrow> ops_world \<Rightarrow> goerr option \<times> ops_world" where
  "o_exec env f w =
     (if stmt_fails env w then (Some (stmt_error env), o_tick w) else (None, f (o_tick w)))"

text \<open>A statement whose error the code ignores.\<close>

definition o_exec_ignore :: "ops_env \<Rightarrow> (ops_world \<Rightarrow> ops_world) \<Rightarrow> ops_world \<Rightarrow> ops_world" where
  "o_exec_ignore env f w = snd (o_exec env f w)"

text \<open>A transaction whose body is \<open>n\<close> statements: begin, the body, commit.\<close>

definition o_tx :: "ops_env \<Rightarrow> nat \<Rightarrow> (ops_world \<Rightarrow> ops_world) \<Rightarrow> ops_world \<Rightarrow> goerr option \<times> ops_world" where
  "o_tx env n f w =
     (if oe_cancelled env \<or> list_ex (\<lambda>i. oe_db_fail env (o_dbn w + i)) [0..<n + 2]
      then (Some (stmt_error env), w\<lparr>o_dbn := o_dbn w + (n + 2)\<rparr>)
      else (None, f (w\<lparr>o_dbn := o_dbn w + (n + 2)\<rparr>)))"

definition save_job :: "ops_job \<Rightarrow> ops_world \<Rightarrow> ops_world" where
  "save_job j w = w\<lparr>o_jobs := row_upd oj_id (oj_id j) (\<lambda>r. j) (o_jobs w)\<rparr>"

definition upd_item :: "uuid \<Rightarrow> (ops_item \<Rightarrow> ops_item) \<Rightarrow> ops_world \<Rightarrow> ops_world" where
  "upd_item i f w = w\<lparr>o_items := row_upd oi_id i f (o_items w)\<rparr>"

definition upd_node :: "uuid \<Rightarrow> (node \<Rightarrow> node) \<Rightarrow> ops_world \<Rightarrow> ops_world" where
  "upd_node i f w = w\<lparr>o_nodes := row_upd n_id i f (o_nodes w)\<rparr>"

definition do_exec :: "ops_env \<Rightarrow> duration \<Rightarrow> exec_call \<Rightarrow> ops_world \<Rightarrow> (string \<times> int \<times> goerr option) \<times> ops_world" where
  "do_exec env timeout c w = (oe_exec env (length (o_calls w)) c, w\<lparr>o_calls := o_calls w @ [(timeout, c)]\<rparr>)"

section \<open>Events\<close>

definition hub_publish ::
    "ops_svc \<Rightarrow> ops_env \<Rightarrow> uuid \<Rightarrow> string \<Rightarrow> (string \<times> ev_value) list \<Rightarrow> ops_world \<Rightarrow> ops_world" where
  "hub_publish svc env job_id typ data w =
     (if \<not> osv_has_hub svc then w
      else let j = oe_uuid_str env job_id
           in w\<lparr>o_events := o_events w @ [(j, new_event (oe_now env) j typ data)]\<rparr>)"

definition publish_job_status :: "ops_svc \<Rightarrow> ops_env \<Rightarrow> ops_job \<Rightarrow> ops_world \<Rightarrow> ops_world" where
  "publish_job_status svc env job w =
     hub_publish svc env (oj_id job) event_job_status
       [(''status'', EvStr (oj_status job)), (''started_at'', format_time_ptr (oj_started_at job)),
        (''finished_at'', format_time_ptr (oj_finished_at job))] w"

definition publish_item_status ::
    "ops_svc \<Rightarrow> ops_env \<Rightarrow> uuid \<Rightarrow> uuid \<Rightarrow> uuid \<Rightarrow> string \<Rightarrow> instant option \<Rightarrow> instant option \<Rightarrow> ops_world \<Rightarrow> ops_world" where
  "publish_item_status svc env job_id item_id node_id status started finished w =
     hub_publish svc env job_id event_item_status
       [(''node_id'', EvStr (oe_uuid_str env node_id)), (''item_id'', EvStr (oe_uuid_str env item_id)),
        (''status'', EvStr status), (''started_at'', format_time_ptr started),
        (''finished_at'', format_time_ptr finished)] w"

definition publish_item_stage ::
    "ops_svc \<Rightarrow> ops_env \<Rightarrow> uuid \<Rightarrow> uuid \<Rightarrow> uuid \<Rightarrow> string \<Rightarrow> ops_world \<Rightarrow> ops_world" where
  "publish_item_stage svc env job_id item_id node_id stage w =
     (if trim_space stage = [] then w
      else hub_publish svc env job_id event_item_status
        [(''node_id'', EvStr (oe_uuid_str env node_id)), (''item_id'', EvStr (oe_uuid_str env item_id)),
         (''status'', EvStr job_running), (''stage'', EvStr stage)] w)"

definition publish_item_log ::
    "ops_svc \<Rightarrow> ops_env \<Rightarrow> uuid \<Rightarrow> uuid \<Rightarrow> uuid \<Rightarrow> string \<Rightarrow> ops_world \<Rightarrow> ops_world" where
  "publish_item_log svc env job_id item_id node_id chunk w =
     hub_publish svc env job_id event_item_log_append
       [(''node_id'', EvStr (oe_uuid_str env node_id)), (''item_id'', EvStr (oe_uuid_str env item_id)),
        (''chunk'', EvStr chunk)] w"

definition publish_item_done ::
    "ops_svc \<Rightarrow> ops_env \<Rightarrow> uuid \<Rightarrow> uuid \<Rightarrow> uuid \<Rightarrow> string \<Rightarrow> int \<Rightarrow> goerr option \<Rightarrow> ops_world \<Rightarrow> ops_world" where
  "publish_item_done svc env job_id item_id node_id status exit_code err w =
     hub_publish svc env job_id event_item_done
       [(''node_id'', EvStr (oe_uuid_str env node_id)), (''item_id'', EvStr (oe_uuid_str env item_id)),
        (''status'', EvStr status), (''exit_code'', EvInt exit_code),
        (''error'', (case err of None \<Rightarrow> EvNil | Some e \<Rightarrow> EvStr (err_text e)))] w"

section \<open>Reading and writing nodes\<close>

definition load_node :: "ops_env \<Rightarrow> uuid \<Rightarrow> ops_world \<Rightarrow> node result \<times> ops_world" where
  "load_node env i w =
     (case o_query env (\<lambda>v. row_get n_id i (o_nodes v)) w of
        (Inl e, w1) \<Rightarrow> (Inl e, w1)
      | (Inr None, w1) \<Rightarrow> (Inl ErrNotFound, w1)
      | (Inr (Some n), w1) \<Rightarrow> (Inr n, w1))"

definition node_address :: "string \<Rightarrow> node \<Rightarrow> string" where
  "node_address given n =
     (if trim_space given \<noteq> [] then trim_space given
      else if trim_space (n_ssh_host n) \<noteq> [] then trim_space (n_ssh_host n)
      else trim_space (n_host n))"

definition agent_version :: string where
  "agent_version = ''v1.16''"

definition persist_agent_settings ::
    "ops_svc \<Rightarrow> ops_env \<Rightarrow> node \<Rightarrow> deploy_params \<Rightarrow> ops_world \<Rightarrow> goerr option \<times> ops_world" where
  "persist_agent_settings svc env n params w =
     (if \<not> osv_has_db svc then (Some (ErrMsg ''db not configured''), w)
      else if \<not> osv_has_encryptor svc then (Some (ErrMsg ''encryptor missing''), w)
      else if dp_token params = [] then (Some (ErrMsg ''agent token missing''), w)
      else case oe_encrypt env (dp_token params) of
        Inl e \<Rightarrow> (Some e, w)
      | Inr enc \<Rightarrow>
          let host = node_address (dp_node_host params) n
          in if host = [] then (Some (ErrMsg ''node host missing for agent_url''), w)
             else if \<not> oe_tls_column env
             then (Some (ErrMsg ''column agent_insecure_tls of relation nodes does not exist''), o_tick w)
             else o_exec env (upd_node (n_id n) (\<lambda>r. r\<lparr>n_agent_enabled := True,
                    n_agent_url := Some (''http://'' @ host @ '':'' @ itoa (dp_agent_port params)),
                    n_agent_token_enc := Some enc, n_agent_version := Some agent_version\<rparr>)) w)"

definition persist_agent_contact ::
    "ops_svc \<Rightarrow> ops_env \<Rightarrow> uuid \<Rightarrow> instant \<Rightarrow> string \<Rightarrow> ops_world \<Rightarrow> goerr option \<times> ops_world" where
  "persist_agent_contact svc env i last_seen version w =
     (if \<not> osv_has_db svc then (Some (ErrMsg ''db not configured''), w)
      else o_exec env (upd_node i (\<lambda>r.
        let r1 = r\<lparr>n_agent_installed := True, n_agent_last_seen := Some last_seen\<rparr>
        in if trim_space version \<noteq> [] then r1\<lparr>n_agent_version := Some (trim_space version)\<rparr> else r1)) w)"

text \<open>\<open>INSERT ... ON CONFLICT (node_id) DO UPDATE\<close> of the version and the time.\<close>

definition put_metrics :: "uuid \<Rightarrow> instant \<Rightarrow> string \<Rightarrow> ops_world \<Rightarrow> ops_world" where
  "put_metrics i now version w =
     (case row_get mt_node_id i (o_metrics w) of
        None \<Rightarrow> w\<lparr>o_metrics := o_metrics w @
          [\<lparr>mt_node_id = i, mt_collected_at = now, mt_service_version = Some version\<rparr>]\<rparr>
      | Some r \<Rightarrow> w\<lparr>o_metrics := row_upd mt_node_id i
          (\<lambda>r. r\<lparr>mt_service_version := Some version, mt_collected_at := now\<rparr>) (o_metrics w)\<rparr>)"

definition persist_panel_version ::
    "ops_svc \<Rightarrow> ops_env \<Rightarrow> uuid \<Rightarrow> string \<Rightarrow> ops_world \<Rightarrow> goerr option \<times> ops_world" where
  "persist_panel_version svc env i version w =
     (if \<not> osv_has_db svc then (Some (ErrMsg ''db not configured''), w)
      else if trim_space version = [] then (None, w)
      else case o_exec env (upd_node i (\<lambda>r. r\<lparr>n_service_version := Some (trim_space version),
                  n_versions_checked_at := Some (oe_now env)\<rparr>)) w of
             (Some e, w1) \<Rightarrow> (Some e, w1)
           | (None, w1) \<Rightarrow> o_exec env (put_metrics i (oe_now env) (trim_space version)) w1)"

end
