(* ===== verification/Ops_Engine.thy ===== *)
theory Ops_Engine
  imports Ops_Store Go_Paths
begin

text \<open>
  The life of a job and of its items: \<open>CreateJob\<close>, \<open>pickAndRun\<close>, \<open>runJob\<close> and \<open>executeItem\<close> of
  \<open>internal/services/ops/service.go\<close>.

  \<open>executeItem\<close> is one definition per stage: \<open>begin_item\<close> marks the item as running,
  \<open>item_outcome\<close> does the work of the job's type, \<open>finish_item\<close> stores the result.
\<close>

section \<open>Deploying an agent\<close>

definition hash_file :: "ops_env \<Rightarrow> string \<Rightarrow> string + string" where
  "hash_file env p = (case oe_read_file env p of Inl e \<Rightarrow> Inl e | Inr data \<Rightarrow> Inr (oe_sha256_hex env data))"

definition ensure_agent_binary :: "ops_svc \<Rightarrow> ops_env \<Rightarrow> goerr + (string \<times> string)" where
  "ensure_agent_binary svc env =
     (let p = trim_space (osv_agent_binary svc); p = (if p = [] then ''/app/bin/vlf-agent'' else p)
      in case oe_stat env p of
           None \<Rightarrow> Inl (ErrMsg (''agent binary not found in container at '' @ p @ ''; rebuild backend image''))
         | Some (sz, exec) \<Rightarrow>
             if \<not> exec then Inl (ErrMsg (''agent binary not executable at '' @ p @ ''; rebuild backend image''))
             else case hash_file env p of
               Inl e \<Rightarrow> Inl (ErrMsg (''agent binary unreadable at '' @ p @ '': '' @ e))
             | Inr h \<Rightarrow> Inr (p, ''agent binary: '' @ p @ '' size='' @ itoa sz @ '' sha256='' @ h))"

text \<open>The first of the two places that can be read; the repository path is joined and cleaned.\<close>

definition template_paths :: "ops_svc \<Rightarrow> string list" where
  "template_paths svc =
     (let repo = trim_space (osv_repo_path svc); repo = (if repo = [] then ''/opt/vlf_aggregator'' else repo)
      in [path_join [''/app'', ''deploy'', ''agent'', ''vlf-agent.service''],
          path_join [repo, ''deploy'', ''agent'', ''vlf-agent.service'']])"

fun read_first :: "ops_env \<Rightarrow> string \<Rightarrow> string list \<Rightarrow> goerr + (string \<times> string)" where
  "read_first env err [] = Inl (ErrMsg (''read service template: '' @ err))"
| "read_first env err (p # ps) =
     (case oe_read_file env p of Inr data \<Rightarrow> Inr (data, p) | Inl e \<Rightarrow> read_first env e ps)"

definition load_agent_service_template :: "ops_svc \<Rightarrow> ops_env \<Rightarrow> goerr + (string \<times> string)" where
  "load_agent_service_template svc env = read_first env [] (template_paths svc)"

definition agent_token :: "ops_env \<Rightarrow> job_params \<Rightarrow> string result" where
  "agent_token env p =
     (let mode = or_default ''per-node'' (trim_space (jp_agent_token_mode p))
      in if mode = ''per-node'' then oe_token env
         else if mode = ''shared''
         then (if trim_space (jp_shared_agent_token p) = []
               then Inl (ErrMsg ''shared_agent_token required for shared mode'')
               else Inr (trim_space (jp_shared_agent_token p)))
         else Inl (ErrMsg (''unsupported agent_token_mode: '' @ mode)))"

definition deploy_cidrs :: "ops_env \<Rightarrow> string \<Rightarrow> string list \<Rightarrow> string list" where
  "deploy_cidrs env node_host cidrs =
     (let he = host_env.truncate env; resolved = resolve_host he node_host
      in if resolved \<noteq> [] \<and> \<not> equal_fold resolved node_host
         then (let d = docker_subnet he in if d \<noteq> [] \<and> \<not> cidr_in_list cidrs d then cidrs @ [d] else cidrs)
         else cidrs)"

definition build_deploy_params ::
    "ops_svc \<Rightarrow> ops_env \<Rightarrow> node \<Rightarrow> jobj option \<Rightarrow> deploy_params result" where
  "build_deploy_params svc env n raw =
     (let p = parse_job_params raw;
          agent_port = or_default_int 9191 (jp_agent_port p);
          raw_cidr = or_default (trim_space (osv_allow_cidr svc)) (trim_space (jp_allow_cidr p));
          cidrs = normalize_allow_cidrs raw_cidr
      in if cidrs = [] then Inl (ErrMsg ''allow_cidr is required'')
         else if osv_sudo_passwords svc = [] then Inl (ErrMsg ''sudo passwords not configured'')
         else let stats_mode = or_default ''log'' (trim_space (jp_stats_mode p));
                  log_path = or_default ''/var/log/vlf-agent/activity.log'' (trim_space (jp_activity_log_path p));
                  rate = or_default_int 5 (jp_rate_limit_rps p);
                  metrics_auth = flag_or raw ''metrics_require_auth'' False (jp_metrics_require_auth p);
                  health = flag_or raw ''health_check'' True (jp_health_check p);
                  ufw = flag_or raw ''enable_ufw'' False (jp_enable_ufw p)
              in case agent_token env p of
                Inl e \<Rightarrow> Inl e
              | Inr token \<Rightarrow>
                  (case ensure_agent_binary svc env of
                     Inl e \<Rightarrow> Inl e
                   | Inr (bin, pre1) \<Rightarrow>
                       (case load_agent_service_template svc env of
                          Inl e \<Rightarrow> Inl e
                        | Inr (unit_text, unit_path) \<Rightarrow>
                            let node_host = or_default (trim_space (n_host n)) (trim_space (n_ssh_host n));
                                all = deploy_cidrs env node_host cidrs;
                                pre2 = append_pre_log pre1 (''service template: '' @ unit_path);
                                pre3 = append_pre_log pre2 (''allow_cidrs: '' @ join '', '' all);
                                pre4 = append_pre_log pre3 (''agent desired version: '' @ agent_version)
                            in Inr \<lparr>dp_binary_path = bin, dp_service_content = unit_text,
                                 dp_config_content = build_agent_config agent_port token all stats_mode log_path rate metrics_auth,
                                 dp_agent_port = agent_port, dp_allow_cidr = hd cidrs, dp_token = token,
                                 dp_metrics_require_auth = metrics_auth, dp_enable_ufw = ufw,
                                 dp_health_check = health, dp_install_docker = jp_install_docker p,
                                 dp_sudo_passwords = osv_sudo_passwords svc, dp_node_host = node_host,
                                 dp_pre_log = pre4\<rparr>)))"

text \<open>
  Waiting for the agent's first answer. The \<open>i\<close>-th check runs after \<open>i\<close> ticks of a ticker of one
  second, \<open>pl_delay\<close> nanoseconds later at most; the loop ends at the latest at the 46th check, whose
  time is past the limit of 45 seconds.
\<close>

datatype contact = ContactOk instant string | ContactTimeout int | ContactCancelled

definition poll_time :: "ops_env \<Rightarrow> instant \<Rightarrow> nat \<Rightarrow> instant" where
  "poll_time env start i = start + int i * first_contact_poll + int (pl_delay (oe_poll env i))"

function contact_loop :: "ops_env \<Rightarrow> instant \<Rightarrow> nat \<Rightarrow> int \<Rightarrow> contact" where
  "contact_loop env start i last_status =
     (if start + first_contact_timeout < poll_time env start i then ContactTimeout last_status
      else let p = oe_poll env i
           in if \<not> pl_err p \<and> pl_status p = 200 \<and> pl_ok p
              then ContactOk (poll_time env start i) (pl_version p)
              else let l = (if pl_status p \<noteq> 0 then pl_status p else last_status)
                   in if pl_ctx_done p then ContactCancelled
                      else contact_loop env start (Suc i) l)"
  by pat_completeness auto
termination
proof (relation "measure (\<lambda>(env, start, i, l). 46 - i)")
  show "wf (measure (\<lambda>(env, start, i, l). 46 - i))" by simp
next
  fix env :: ops_env and start :: instant and i :: nat and l p l'
  assume "\<not> start + first_contact_timeout < poll_time env start i"
  then have "int i * first_contact_poll \<le> first_contact_timeout" by (simp add: poll_time_def)
  then have "i < 46" by (simp add: first_contact_poll_def first_contact_timeout_def second_def)
  then show "((env, start, Suc i, l'), env, start, i, l) \<in> measure (\<lambda>(env, start, i, l). 46 - i)" by simp
qed

declare contact_loop.simps [simp del]

definition wait_first_contact ::
    "ops_svc \<Rightarrow> ops_env \<Rightarrow> uuid \<Rightarrow> uuid \<Rightarrow> uuid \<Rightarrow> deploy_params \<Rightarrow> ops_world \<Rightarrow>
     (string \<times> goerr option) \<times> ops_world" where
  "wait_first_contact svc env job_id item_id node_id params w =
     (if dp_agent_port params \<le> 0 then ((''waiting_first_contact skipped: missing agent port'', None), w)
      else let host = resolve_host (host_env.truncate env) (dp_node_host params)
           in if host = [] then (([], Some (ErrMsg ''agent health check missing node host'')), w)
              else let url = ''http://'' @ host @ '':'' @ itoa (dp_agent_port params) @ ''/health'';
                       w1 = publish_item_stage svc env job_id item_id node_id ''waiting_first_contact'' w;
                       info = ''waiting_first_contact url='' @ url @ '' auth='' @ bool_text (trim_space (dp_token params) \<noteq> [])
                   in case contact_loop env (oe_now env) 0 0 of
                        ContactTimeout l \<Rightarrow>
                          ((if l \<noteq> 0
                            then (info @ '' status=timeout last_status='' @ itoa l,
                                  Some (ErrMsg (''agent first contact timeout (last status '' @ itoa l @ '')'')))
                            else (info @ '' status=timeout'', Some (ErrMsg ''agent first contact timeout''))), w1)
                      | ContactOk t version \<Rightarrow>
                          ((info @ '' status=ok'', None), snd (persist_agent_contact svc env node_id t version w1))
                      | ContactCancelled \<Rightarrow> ((info @ '' status=cancelled'', Some ErrCtxDone), w1))"

definition probe_agent_installed :: "ops_env \<Rightarrow> node \<Rightarrow> int \<Rightarrow> bool \<times> string \<times> goerr option" where
  "probe_agent_installed env n port =
     (case oe_probe env of
        None \<Rightarrow> (n_agent_installed n, ''probe unsupported'', None)
      | Some pr \<Rightarrow>
          (case pr n port of
             (installed, details, Some e) \<Rightarrow> (False, details, Some e)
           | (installed, details, None) \<Rightarrow> (installed, details, None)))"

section \<open>One item\<close>

definition begin_item :: "ops_svc \<Rightarrow> ops_env \<Rightarrow> ops_job \<Rightarrow> ops_item \<Rightarrow> ops_world \<Rightarrow> ops_world" where
  "begin_item svc env job item w =
     publish_item_status svc env (oj_id job) (oi_id item) (oi_node_id item) job_running (Some (oe_now env)) None
       (o_exec_ignore env (upd_item (oi_id item)
          (\<lambda>r. r\<lparr>oi_status := job_running, oi_started_at := Some (oe_now env)\<rparr>)) w)"

definition finish_item ::
    "ops_svc \<Rightarrow> ops_env \<Rightarrow> ops_job \<Rightarrow> ops_item \<Rightarrow> string \<Rightarrow> string \<Rightarrow> int \<Rightarrow> instant \<Rightarrow> goerr option \<Rightarrow>
     ops_world \<Rightarrow> ops_world" where
  "finish_item svc env job item status log_text exit_code started err w =
     (let w1 = o_exec_ignore env (upd_item (oi_id item)
                 (\<lambda>r. let r1 = r\<lparr>oi_status := status, oi_log := log_text,
                                oi_finished_at := Some (oe_now env), oi_exit_code := Some exit_code\<rparr>
                      in case err of None \<Rightarrow> r1 | Some e \<Rightarrow> r1\<lparr>oi_error := Some (err_text e)\<rparr>)) w;
          w2 = (if log_text \<noteq> []
                then publish_item_log svc env (oj_id job) (oi_id item) (oi_node_id item) log_text w1 else w1);
          w3 = publish_item_status svc env (oj_id job) (oi_id item) (oi_node_id item) status
                 (Some started) (Some (oe_now env)) w2
      in publish_item_done svc env (oj_id job) (oi_id item) (oi_node_id item) status exit_code err w3)"

definition item_timeout :: "string \<Rightarrow> duration" where
  "item_timeout t =
     (if t = jt_remna_run then 15 * minute
      else if t = jt_remna_install then 25 * minute
      else if t = jt_install_vlf then 20 * minute
      else if t = jt_reboot_agent then 5 * minute
      else if t = jt_update \<or> t = jt_update_svc then 15 * minute
      else 2 * minute)"

text \<open>The case of \<open>deploy_agent\<close>: install, wait for the agent, store its settings.\<close>

definition run_deploy ::
    "ops_svc \<Rightarrow> ops_env \<Rightarrow> ops_job \<Rightarrow> ops_item \<Rightarrow> node \<Rightarrow> duration \<Rightarrow> ops_world \<Rightarrow>
     (string \<times> int \<times> goerr option) \<times> ops_world" where
  "run_deploy svc env job item n timeout w =
     (case build_deploy_params svc env n (oj_params job) of
        Inl e \<Rightarrow> (([], 1, Some e), w)
      | Inr params \<Rightarrow>
          (case do_exec env timeout (CallDeploy n params) w of
             ((out, code, err), w1) \<Rightarrow>
               let out1 = (if dp_pre_log params \<noteq> []
                           then (if out \<noteq> [] then dp_pre_log params @ [CHR 0x0A] @ out else dp_pre_log params)
                           else out);
                   ((out2, code2, err2), w2) =
                     (if err = None \<and> dp_health_check params
                      then (case wait_first_contact svc env (oj_id job) (oi_id item) (oi_node_id item) params w1 of
                              ((info, werr), w') \<Rightarrow>
                                ((if info \<noteq> [] then (if out1 \<noteq> [] then out1 @ [CHR 0x0A] @ info else info) else out1,
                                  if werr = None then code else 1,
                                  if werr = None then err else werr), w'))
                      else ((out1, code, err), w1))
               in if err2 = None
                  then (case persist_agent_settings svc env n params w2 of
                          (None, w3) \<Rightarrow> ((out2, code2, None), w3)
                        | (Some e, w3) \<Rightarrow> ((out2, 1, Some e), w3))
                  else ((out2, code2, err2), w2)))"

definition run_call ::
    "ops_svc \<Rightarrow> ops_env \<Rightarrow> ops_job \<Rightarrow> ops_item \<Rightarrow> node \<Rightarrow> ops_world \<Rightarrow>
     (string \<times> int \<times> goerr option) \<times> ops_world" where
  "run_call svc env job item n w =
     (let t = oj_type job; raw = oj_params job; timeout = item_timeout t
      in if t = jt_reboot then do_exec env timeout (CallReboot n) w
         else if t = jt_update then do_exec env timeout (CallUpdate n (parse_update_params raw)) w
         else if t = jt_update_svc
         then do_exec env timeout (AgentUpdate n \<lparr>up_precheck_only = False, up_install_expect = False\<rparr>) w
         else if t = jt_reboot_agent
         then do_exec env timeout (AgentReboot n (jp_confirm (parse_job_params raw))) w
         else if t = jt_restart_svc
         then do_exec env timeout (AgentRestart n (jp_restart_service (parse_job_params raw))) w
         else if t = jt_deploy then run_deploy svc env job item n timeout w
         else if t = jt_install_vlf
         then (if \<not> oe_installer env
               then (([], 1, Some (ErrMsg ''vlf-proto installer is not supported by executor'')), w)
               else do_exec env timeout (CallInstallVLF n
                      ((build_install_vlf_params raw)\<lparr>vp_sudo_passwords := osv_sudo_passwords svc\<rparr>)) w)
         else if t = jt_remna_install
         then do_exec env timeout (CallInstallRemna n
                ((build_remna_params raw)\<lparr>rp_sudo_passwords := osv_sudo_passwords svc\<rparr>)) w
         else if t = jt_remna_run
         then do_exec env timeout (CallRunRemna n
                ((build_remna_params raw)\<lparr>rp_sudo_passwords := osv_sudo_passwords svc\<rparr>)) w
         else (([], 1, Some (ErrMsg ''unsupported job type'')), w))"

text \<open>After an update the version the log reports is stored, and the log says so.\<close>

definition store_version ::
    "ops_svc \<Rightarrow> ops_env \<Rightarrow> ops_job \<Rightarrow> node \<Rightarrow> string \<Rightarrow> goerr option \<Rightarrow> ops_world \<Rightarrow> string \<times> ops_world" where
  "store_version svc env job n out err w =
     (let v = parse_panel_version out
      in if oj_type job = jt_update_svc \<and> err = None \<and> v \<noteq> []
         then (case persist_panel_version svc env (n_id n) v w of
                 (Some e, w1) \<Rightarrow> (append_pre_log out (''service_version update failed: '' @ err_text e), w1)
               | (None, w1) \<Rightarrow> (append_pre_log out (''service_version stored: '' @ v), w1))
         else (out, w))"

text \<open>What \<open>executeItem\<close> does after the item is marked: the final state of the item, its log, exit
  code and error.\<close>

datatype outcome = Outcome string string int "goerr option"

definition item_outcome ::
    "ops_svc \<Rightarrow> ops_env \<Rightarrow> ops_job \<Rightarrow> ops_item \<Rightarrow> ops_world \<Rightarrow> outcome \<times> ops_world" where
  "item_outcome svc env job item w =
     (let p = parse_job_params (oj_params job)
      in if jp_dry_run p
         then let log_text = ''DRY_RUN: would execute '' @ describe_job_action (oj_type job) p @ '' on node '' @
                             oe_uuid_str env (oi_node_id item)
              in if oe_cancelled env then (Outcome job_failed log_text 1 (Some ErrCtxDone), w)
                 else (Outcome job_success log_text 0 None, w)
         else case load_node env (oi_node_id item) w of
           (Inl e, w1) \<Rightarrow> (Outcome job_failed [] 1 (Some e), w1)
         | (Inr n, w1) \<Rightarrow>
             if oj_type job = jt_update_svc \<and> (\<not> n_agent_enabled n \<or> \<not> n_agent_installed n)
             then (Outcome job_success ''SKIPPED: agent not installed'' 0 None, w1)
             else let (installed, details, perr) =
                        (if oj_type job = jt_deploy then probe_agent_installed env n (jp_agent_port p)
                         else (False, [], None))
                  in if installed \<and> \<not> jp_force_redeploy p \<and> \<not> jp_install_docker p
                     then (Outcome job_success (''ALREADY_INSTALLED: agent already installed'' @
                             (if trim_space details \<noteq> [] then '' ('' @ trim_space details @ '')'' else [])) 0 None, w1)
                     else case run_call svc env job item n w1 of
                       ((out, code, err), w2) \<Rightarrow>
                         (case store_version svc env job n out err w2 of
                            (out1, w3) \<Rightarrow>
                              let out2 = trim_log out1 4096 16384
                              in case err of
                                   Some e \<Rightarrow>
                                     (Outcome job_failed (if trim_space out2 = [] then err_text e else out2) code (Some e), w3)
                                 | None \<Rightarrow> (Outcome job_success out2 code None, w3)))"

definition end_item ::
    "ops_svc \<Rightarrow> ops_env \<Rightarrow> ops_job \<Rightarrow> ops_item \<Rightarrow> instant \<Rightarrow> ops_world \<Rightarrow> goerr option \<times> ops_world" where
  "end_item svc env job item started w =
     (case item_outcome svc env job item w of
        (Outcome status log_text code err, w1) \<Rightarrow>
          (err, finish_item svc env job item status log_text code started err w1))"

text \<open>The clock and the context may move between the two stages: \<open>env'\<close> is the second.\<close>

definition execute_item ::
    "ops_svc \<Rightarrow> ops_env \<Rightarrow> ops_env \<Rightarrow> ops_job \<Rightarrow> ops_item \<Rightarrow> ops_world \<Rightarrow> goerr option \<times> ops_world" where
  "execute_item svc env env' job item w =
     end_item svc env' job item (oe_now env) (begin_item svc env job item w)"

section \<open>Jobs\<close>

definition available_job_slots :: "ops_svc \<Rightarrow> ops_env \<Rightarrow> ops_world \<Rightarrow> int \<times> ops_world" where
  "available_job_slots svc env w =
     (if \<not> osv_has_db svc then (0, w)
      else case o_query env (\<lambda>v. length (filter (\<lambda>j. oj_status j = job_running) (o_jobs v))) w of
             (Inl e, w1) \<Rightarrow> (0, w1)
           | (Inr running, w1) \<Rightarrow>
               let slots = max_concurrent_jobs - int running in (if slots < 0 then 0 else slots, w1))"

text \<open>The queued job that was created first, ties in the order of the ids.\<close>

fun first_queued :: "ops_job list \<Rightarrow> ops_job option" where
  "first_queued [] = None"
| "first_queued (j # js) =
     (case first_queued js of
        None \<Rightarrow> if oj_status j = job_queued then Some j else None
      | Some k \<Rightarrow>
          if oj_status j = job_queued \<and>
             (oj_created_at j < oj_created_at k \<or> (oj_created_at j = oj_created_at k \<and> oj_id j \<le> oj_id k))
          then Some j else Some k)"

definition pick_queued_job :: "ops_env \<Rightarrow> ops_world \<Rightarrow> ops_job option \<times> ops_world" where
  "pick_queued_job env w =
     (case first_queued (o_jobs w) of
        None \<Rightarrow> (None, w\<lparr>o_dbn := o_dbn w + 2\<rparr>)
      | Some j \<Rightarrow>
          let j' = j\<lparr>oj_status := job_running, oj_started_at := Some (oe_now env)\<rparr>
          in case o_tx env 2 (save_job j') w of
               (Some e, w1) \<Rightarrow> (None, w1)
             | (None, w1) \<Rightarrow> (Some j', w1))"

fun pick_jobs :: "ops_svc \<Rightarrow> ops_env \<Rightarrow> nat \<Rightarrow> ops_world \<Rightarrow> ops_job list \<times> ops_world" where
  "pick_jobs svc env 0 w = ([], w)"
| "pick_jobs svc env (Suc slots) w =
     (case pick_queued_job env w of
        (None, w1) \<Rightarrow> ([], w1)
      | (Some j, w1) \<Rightarrow>
          (case pick_jobs svc env slots (publish_job_status svc env j w1) of (js, w2) \<Rightarrow> (j # js, w2)))"

text \<open>The jobs \<open>pickAndRun\<close> starts; each then runs on its own.\<close>

definition pick_and_run :: "ops_svc \<Rightarrow> ops_env \<Rightarrow> ops_world \<Rightarrow> ops_job list \<times> ops_world" where
  "pick_and_run svc env w =
     (case available_job_slots svc env w of
        (slots, w1) \<Rightarrow> if slots \<le> 0 then ([], w1) else pick_jobs svc env (nat slots) w1)"

definition finish_job :: "ops_svc \<Rightarrow> ops_env \<Rightarrow> ops_job \<Rightarrow> string \<Rightarrow> string option \<Rightarrow> ops_world \<Rightarrow> ops_job \<times> ops_world" where
  "finish_job svc env job status err w =
     (let job' = job\<lparr>oj_status := status, oj_error := err, oj_finished_at := Some (oe_now env)\<rparr>
      in (job', publish_job_status svc env job' (o_exec_ignore env (save_job job') w)))"

text \<open>
  \<open>runJob\<close> until its workers start: \<open>None\<close> when it returned already. A job without items is
  a success and keeps its error column.
\<close>

definition start_job :: "ops_svc \<Rightarrow> ops_env \<Rightarrow> ops_job \<Rightarrow> ops_world \<Rightarrow> ops_item list option \<times> ops_world" where
  "start_job svc env job w =
     (case o_query env (\<lambda>v. filter (\<lambda>i. oi_job_id i = oj_id job \<and> oi_status i = job_queued) (o_items v)) w of
        (Inl e, w1) \<Rightarrow> (None, w1)
      | (Inr items, w1) \<Rightarrow>
          if items = [] then (None, snd (finish_job svc env job job_success (oj_error job) w1))
          else (Some items, w1))"

definition workers_of :: "ops_job \<Rightarrow> nat" where
  "workers_of job = nat (if oj_parallelism job \<le> 0 then 5 else oj_parallelism job)"

definition end_job :: "ops_svc \<Rightarrow> ops_env \<Rightarrow> ops_job \<Rightarrow> nat \<Rightarrow> ops_world \<Rightarrow> ops_world" where
  "end_job svc env job failed w =
     (let (status, msg) = job_status_from_failures failed in snd (finish_job svc env job status msg w))"

end
