(* ===== verification/Ops_Create.thy ===== *)
theory Ops_Create
  imports Ops_Engine
begin

text \<open>
  \<open>CreateJob\<close> with its guards, and the queries on jobs: \<open>GetJob\<close>, \<open>GetJobSummary\<close> and
  \<open>ListJobItems\<close> of \<open>internal/services/ops/service.go\<close>. Identifiers are drawn by the database; one
  that is taken violates the primary key and the transaction fails.
\<close>

fun parse_ids :: "ops_env \<Rightarrow> string list \<Rightarrow> uuid list result" where
  "parse_ids env [] = Inr []"
| "parse_ids env (s # ss) =
     (case oe_parse env s of
        None \<Rightarrow> Inl (ErrMsg (''invalid node id: '' @ s))
      | Some u \<Rightarrow> (case parse_ids env ss of Inl e \<Rightarrow> Inl e | Inr us \<Rightarrow> Inr (u # us)))"

definition resolve_node_ids :: "ops_env \<Rightarrow> create_job_request \<Rightarrow> ops_world \<Rightarrow> uuid list result \<times> ops_world" where
  "resolve_node_ids env req w =
     (if cr_all_nodes req
      then o_query env (\<lambda>v. map n_id (o_nodes v)) w
      else if cr_node_ids req = [] then (Inl (ErrMsg ''node_ids required when all=false''), w)
      else (parse_ids env (cr_node_ids req), w))"

definition nodes_in :: "uuid list \<Rightarrow> ops_world \<Rightarrow> node list" where
  "nodes_in ids w = filter (\<lambda>n. n_id n \<in> set ids) (o_nodes w)"

definition ensure_sandbox_targets :: "ops_env \<Rightarrow> uuid list \<Rightarrow> ops_world \<Rightarrow> goerr option \<times> ops_world" where
  "ensure_sandbox_targets env ids w =
     (if ids = [] then (Some (ErrMsg ''no nodes selected''), w)
      else case o_query env (nodes_in ids) w of
             (Inl e, w1) \<Rightarrow> (Some e, w1)
           | (Inr ns, w1) \<Rightarrow>
               let bad = length (filter (\<lambda>n. \<not> n_is_sandbox n) ns)
               in if 0 < bad
                  then (Some (ErrMsg (''sandbox mode: '' @ itoa (int bad) @ '' non-sandbox nodes in targets'')), w1)
                  else (None, w1))"

definition agent_unset :: "node \<Rightarrow> bool" where
  "agent_unset n \<longleftrightarrow> \<not> n_agent_enabled n \<or>
     (case n_agent_url n of None \<Rightarrow> True | Some u \<Rightarrow> trim_space u = [])"

definition ensure_agent_targets :: "ops_env \<Rightarrow> uuid list \<Rightarrow> ops_world \<Rightarrow> goerr option \<times> ops_world" where
  "ensure_agent_targets env ids w =
     (if ids = [] then (Some (ErrMsg ''no nodes selected''), w)
      else case o_query env (nodes_in ids) w of
             (Inl e, w1) \<Rightarrow> (Some e, w1)
           | (Inr ns, w1) \<Rightarrow>
               let missing = length (filter agent_unset ns)
               in if 0 < missing
                  then (Some (ErrMsg (''agent not configured for '' @ itoa (int missing) @ '' nodes'')), w1)
                  else (None, w1))"

definition generate_public_token :: "ops_env \<Rightarrow> (string \<times> string) result" where
  "generate_public_token env =
     (case oe_token env of Inl e \<Rightarrow> Inl e | Inr t \<Rightarrow> Inr (t, oe_sha256_hex env t))"

definition hash_public_token :: "ops_env \<Rightarrow> string \<Rightarrow> string" where
  "hash_public_token env t = oe_sha256_hex env t"

definition new_job_row ::
    "ops_env \<Rightarrow> create_job_request \<Rightarrow> uuid list \<Rightarrow> string \<Rightarrow> uuid \<Rightarrow> ops_job" where
  "new_job_row env req ids token_hash i =
     \<lparr>oj_id = i, oj_type = trim_space (cr_type req), oj_status = job_queued,
      oj_actor = or_default ''admin'' (trim_space (cr_actor req)),
      oj_parallelism = clamp_parallelism (cr_parallelism req), oj_targets = ids,
      oj_params = marshal_params (cr_params req), oj_token_hash = Some token_hash, oj_error = None,
      oj_created_at = oe_now env, oj_started_at = None, oj_finished_at = None\<rparr>"

definition new_item_row :: "uuid \<Rightarrow> uuid \<Rightarrow> uuid \<Rightarrow> ops_item" where
  "new_item_row i job_id node_id =
     \<lparr>oi_id = i, oi_job_id = job_id, oi_node_id = node_id, oi_status = job_queued, oi_log = [],
      oi_exit_code = None, oi_error = None, oi_started_at = None, oi_finished_at = None\<rparr>"

definition new_item_rows :: "ops_env \<Rightarrow> nat \<Rightarrow> uuid \<Rightarrow> uuid list \<Rightarrow> ops_item list" where
  "new_item_rows env k job_id ids =
     map (\<lambda>(n, node_id). new_item_row (oe_uuid env (k + n)) job_id node_id) (zip [0..<length ids] ids)"

definition insert_job :: "ops_env \<Rightarrow> ops_job \<Rightarrow> ops_item list \<Rightarrow> ops_world \<Rightarrow> goerr option \<times> ops_world" where
  "insert_job env job items w =
     (if oj_id job \<in> oj_id ` set (o_jobs w) \<or> \<not> distinct (map oi_id items) \<or>
         (\<exists>i \<in> set items. oi_id i \<in> oi_id ` set (o_items w))
      then (Some ErrUnique, w\<lparr>o_dbn := o_dbn w + 4\<rparr>)
      else o_tx env 2 (\<lambda>v. v\<lparr>o_jobs := o_jobs v @ [job], o_items := o_items v @ items\<rparr>) w)"

text \<open>The guards on the request itself, before any query.\<close>

definition check_request :: "ops_svc \<Rightarrow> create_job_request \<Rightarrow> goerr option" where
  "check_request svc req =
     (let t = trim_space (cr_type req); p = parse_job_params_from_map (cr_params req)
      in if \<not> osv_has_db svc then Some (ErrMsg ''db not configured'')
         else if t = [] then Some (ErrMsg ''type required'')
         else if \<not> is_supported_job_type t then Some (ErrMsg ''unsupported job type'')
         else if is_agent_job_type t \<and> \<not> osv_has_agent_executor svc
         then Some (ErrMsg ''agent executor not configured'')
         else if unconfirmed t (cr_all_nodes req) p then Some (ErrMsg ''confirmation required'')
         else None)"

text \<open>The guards on the selected nodes.\<close>

definition check_targets :: "ops_env \<Rightarrow> create_job_request \<Rightarrow> uuid list \<Rightarrow> ops_world \<Rightarrow> goerr option \<times> ops_world" where
  "check_targets env req ids w =
     (let t = trim_space (cr_type req); p = parse_job_params_from_map (cr_params req)
      in if ids = [] then (Some (ErrMsg ''no nodes selected''), w)
         else case (if jp_sandbox p then ensure_sandbox_targets env ids w else (None, w)) of
                (Some e, w1) \<Rightarrow> (Some e, w1)
              | (None, w1) \<Rightarrow>
                  (case (if is_agent_job_type t then ensure_agent_targets env ids w1 else (None, w1)) of
                     (Some e, w2) \<Rightarrow> (Some e, w2)
                   | (None, w2) \<Rightarrow>
                       ((if t = jt_restart_svc then validate_restart_service (jp_restart_service p) else None), w2)))"

definition store_job ::
    "ops_env \<Rightarrow> create_job_request \<Rightarrow> uuid list \<Rightarrow> ops_world \<Rightarrow> (ops_job \<times> string) result \<times> ops_world" where
  "store_job env req ids w =
     (case generate_public_token env of
        Inl e \<Rightarrow> (Inl e, w)
      | Inr (token, token_hash) \<Rightarrow>
          let k = o_uid w; job_id = oe_uuid env k;
              job = new_job_row env req ids token_hash job_id;
              items = new_item_rows env (Suc k) job_id ids
          in case insert_job env job items (w\<lparr>o_uid := k + 1 + length ids\<rparr>) of
               (Some e, w1) \<Rightarrow> (Inl e, w1)
             | (None, w1) \<Rightarrow> (Inr (job, token), w1))"

definition create_job ::
    "ops_svc \<Rightarrow> ops_env \<Rightarrow> create_job_request \<Rightarrow> ops_world \<Rightarrow> (ops_job \<times> string) result \<times> ops_world" where
  "create_job svc env req w =
     (case check_request svc req of
        Some e \<Rightarrow> (Inl e, w)
      | None \<Rightarrow>
          (case resolve_node_ids env req w of
             (Inl e, w1) \<Rightarrow> (Inl e, w1)
           | (Inr ids, w1) \<Rightarrow>
               (case check_targets env req ids w1 of
                  (Some e, w2) \<Rightarrow> (Inl e, w2)
                | (None, w2) \<Rightarrow> store_job env req ids w2)))"

section \<open>Queries\<close>

definition get_job :: "ops_env \<Rightarrow> string \<Rightarrow> ops_world \<Rightarrow> ops_job result \<times> ops_world" where
  "get_job env i w =
     (case o_query env (\<lambda>v. find (\<lambda>j. oe_uuid_str env (oj_id j) = i) (o_jobs v)) w of
        (Inl e, w1) \<Rightarrow> (Inl e, w1)
      | (Inr None, w1) \<Rightarrow> (Inl ErrNotFound, w1)
      | (Inr (Some j), w1) \<Rightarrow> (Inr j, w1))"

definition list_job_items :: "ops_env \<Rightarrow> string \<Rightarrow> ops_world \<Rightarrow> ops_item list result \<times> ops_world" where
  "list_job_items env i w = o_query env (\<lambda>v. filter (\<lambda>r. oe_uuid_str env (oi_job_id r) = i) (o_items v)) w"

text \<open>\<open>GROUP BY status\<close>: each status that occurs, with its number of rows.\<close>

definition status_counts :: "ops_item list \<Rightarrow> (string \<times> int) list" where
  "status_counts items =
     map (\<lambda>s. (s, int (length (filter (\<lambda>r. oi_status r = s) items)))) (remdups (map oi_status items))"

fun add_count :: "string \<times> int \<Rightarrow> ops_summary \<Rightarrow> ops_summary" where
  "add_count (s, n) sm =
     (let sm1 = (if s = job_queued then sm\<lparr>os_queued := n\<rparr>
                 else if s = job_running then sm\<lparr>os_running := n\<rparr>
                 else if s = job_success then sm\<lparr>os_success := n\<rparr>
                 else if s = job_failed then sm\<lparr>os_failed := n\<rparr>
                 else sm)
      in sm1\<lparr>os_total := os_total sm1 + n\<rparr>)"

definition get_job_summary :: "ops_svc \<Rightarrow> ops_env \<Rightarrow> string \<Rightarrow> ops_world \<Rightarrow> ops_summary result \<times> ops_world" where
  "get_job_summary svc env i w =
     (if \<not> osv_has_db svc then (Inl (ErrMsg ''db not configured''), w)
      else case list_job_items env i w of
             (Inl e, w1) \<Rightarrow> (Inl e, w1)
           | (Inr items, w1) \<Rightarrow>
               (Inr (fold add_count (status_counts items)
                  \<lparr>os_total = 0, os_queued = 0, os_running = 0, os_success = 0, os_failed = 0\<rparr>), w1))"

section \<open>Facts\<close>

lemma check_request_None:
  assumes "check_request svc req = None"
  shows "osv_has_db svc" and "is_supported_job_type (trim_space (cr_type req))"
    and "is_agent_job_type (trim_space (cr_type req)) \<Longrightarrow> osv_has_agent_executor svc"
    and "\<not> unconfirmed (trim_space (cr_type req)) (cr_all_nodes req) (parse_job_params_from_map (cr_params req))"
  using assms by (auto simp: check_request_def Let_def split: if_splits)

lemma o_query_rows:
  "snd (o_query env f w) = o_tick w"
  "o_jobs (o_tick w) = o_jobs w" "o_items (o_tick w) = o_items w" "o_nodes (o_tick w) = o_nodes w"
  "o_events (o_tick w) = o_events w" "o_calls (o_tick w) = o_calls w" "o_metrics (o_tick w) = o_metrics w"
  by (simp_all add: o_query_def o_tick_def)

text \<open>The part of the world a query leaves alone.\<close>

definition same_rows :: "ops_world \<Rightarrow> ops_world \<Rightarrow> bool" where
  "same_rows w w' \<longleftrightarrow> o_jobs w' = o_jobs w \<and> o_items w' = o_items w \<and> o_nodes w' = o_nodes w \<and>
     o_metrics w' = o_metrics w \<and> o_events w' = o_events w \<and> o_calls w' = o_calls w"

lemma same_rows_refl [simp]: "same_rows w w"
  by (simp add: same_rows_def)

lemma same_rows_trans: "same_rows u v \<Longrightarrow> same_rows v w \<Longrightarrow> same_rows u w"
  by (simp add: same_rows_def)

lemma same_rows_query: "same_rows w (snd (o_query env f w))"
  by (simp add: same_rows_def o_query_rows)

lemma same_rows_counters [simp]: "same_rows w (w\<lparr>o_uid := n\<rparr>)" "same_rows w (w\<lparr>o_dbn := n\<rparr>)" "same_rows w (o_tick w)"
  by (simp_all add: same_rows_def o_tick_def)

lemma resolve_node_ids_rows: "same_rows w (snd (resolve_node_ids env req w))"
  by (simp add: resolve_node_ids_def same_rows_query)

lemma ensure_sandbox_rows: "same_rows w (snd (ensure_sandbox_targets env ids w))"
  using same_rows_query [of w env "nodes_in ids"]
  by (auto simp: ensure_sandbox_targets_def Let_def split: prod.splits sum.splits)

lemma ensure_agent_rows: "same_rows w (snd (ensure_agent_targets env ids w))"
  using same_rows_query [of w env "nodes_in ids"]
  by (auto simp: ensure_agent_targets_def Let_def split: prod.splits sum.splits)

lemma check_targets_rows: "same_rows w (snd (check_targets env req ids w))"
proof -
  let ?s = "jp_sandbox (parse_job_params_from_map (cr_params req))"
  let ?a = "is_agent_job_type (trim_space (cr_type req))"
  obtain r1 w1 where 1: "(if ?s then ensure_sandbox_targets env ids w else (None, w)) = (r1, w1)" by fastforce
  obtain r2 w2 where 2: "(if ?a then ensure_agent_targets env ids w1 else (None, w1)) = (r2, w2)" by fastforce
  have "same_rows w w1" using 1 ensure_sandbox_rows [of w env ids] by (auto split: if_splits)
  moreover have "same_rows w1 w2" using 2 ensure_agent_rows [of w1 env ids] by (auto split: if_splits)
  ultimately have "same_rows w w2" by (rule same_rows_trans)
  with \<open>same_rows w w1\<close> show ?thesis
    unfolding check_targets_def Let_def 1 prod.case 2 by (simp split: option.split)
qed

lemma o_tx_cases:
  assumes "o_tx env n f w = (r, w')"
  shows "(r \<noteq> None \<and> same_rows w w') \<or> (r = None \<and> w' = f (w\<lparr>o_dbn := o_dbn w + (n + 2)\<rparr>))"
  using assms by (auto simp: o_tx_def split: if_splits)

text \<open>A request that is refused changes no row; one that is accepted adds the job and its items.\<close>

lemma create_job_cases:
  obtains e w' where "create_job svc env req w = (Inl e, w')" "same_rows w w'"
  | ids token w1 w' where
      "check_request svc req = None" "fst (resolve_node_ids env req w) = Inr ids" "ids \<noteq> []"
      "fst (check_targets env req ids (snd (resolve_node_ids env req w))) = None"
      "same_rows w w1"
      "create_job svc env req w =
         (Inr (new_job_row env req ids (oe_sha256_hex env token) (oe_uuid env (o_uid w1)), token), w')"
      "o_jobs w' = o_jobs w @ [new_job_row env req ids (oe_sha256_hex env token) (oe_uuid env (o_uid w1))]"
      "o_items w' = o_items w @ new_item_rows env (Suc (o_uid w1)) (oe_uuid env (o_uid w1)) ids"
      "oe_uuid env (o_uid w1) \<notin> oj_id ` set (o_jobs w)"
      "distinct (map oi_id (new_item_rows env (Suc (o_uid w1)) (oe_uuid env (o_uid w1)) ids))"
      "\<forall>i \<in> set (new_item_rows env (Suc (o_uid w1)) (oe_uuid env (o_uid w1)) ids). oi_id i \<notin> oi_id ` set (o_items w)"
      "o_nodes w' = o_nodes w" "o_calls w' = o_calls w" "o_events w' = o_events w"
proof -
  obtain r1 w1 where 1: "resolve_node_ids env req w = (r1, w1)" by fastforce
  have s1: "same_rows w w1" using resolve_node_ids_rows [of w env req] 1 by simp
  show ?thesis
  proof (cases "check_request svc req")
    case (Some e)
    then show ?thesis using that(1) by (simp add: create_job_def)
  next
    case ok: None
    show ?thesis
    proof (cases r1)
      case (Inl e)
      then show ?thesis using that(1) ok 1 s1 by (simp add: create_job_def)
    next
      case (Inr ids)
      obtain r2 w2 where 2: "check_targets env req ids w1 = (r2, w2)" by fastforce
      have s2: "same_rows w w2" using check_targets_rows [of w1 env req ids] 2 s1 by (auto intro: same_rows_trans)
      show ?thesis
      proof (cases r2)
        case (Some e)
        then show ?thesis using that(1) ok 1 2 Inr s2 by (simp add: create_job_def)
      next
        case None
        have ids: "ids \<noteq> []" using 2 None by (auto simp: check_targets_def Let_def)
        have eq: "create_job svc env req w = store_job env req ids w2"
          using ok 1 2 Inr None by (simp add: create_job_def)
        show ?thesis
        proof (cases "oe_token env")
          case (Inl e)
          then show ?thesis using that(1) eq s2 by (simp add: store_job_def generate_public_token_def)
        next
          case tok: (Inr token)
          let ?i = "oe_uuid env (o_uid w2)"
          let ?job = "new_job_row env req ids (oe_sha256_hex env token) ?i"
          let ?items = "new_item_rows env (Suc (o_uid w2)) ?i ids"
          let ?w = "w2\<lparr>o_uid := o_uid w2 + 1 + length ids\<rparr>"
          have sw: "same_rows w ?w" using s2 by (simp add: same_rows_def)
          obtain r3 w3 where 3: "insert_job env ?job ?items ?w = (r3, w3)" by fastforce
          have eq': "create_job svc env req w = (case r3 of Some e \<Rightarrow> Inl e | None \<Rightarrow> Inr (?job, token), w3)"
            unfolding eq store_job_def generate_public_token_def tok Let_def
            using 3 by (simp split: option.split)
          show ?thesis
          proof (cases r3)
            case (Some e)
            have "same_rows w w3"
              using 3 Some sw o_tx_cases by (fastforce simp: insert_job_def same_rows_def split: if_splits)
            then show ?thesis using that(1) eq' Some by simp
          next
            case r3: None
            have fresh: "?i \<notin> oj_id ` set (o_jobs w)" "distinct (map oi_id ?items)"
              "\<forall>i \<in> set ?items. oi_id i \<notin> oi_id ` set (o_items w)"
              using 3 r3 sw by (auto simp: insert_job_def same_rows_def new_job_row_def split: if_splits)
            have "o_tx env 2 (\<lambda>v. v\<lparr>o_jobs := o_jobs v @ [?job], o_items := o_items v @ ?items\<rparr>) ?w = (None, w3)"
              using 3 r3 by (simp add: insert_job_def split: if_splits)
            from o_tx_cases [OF this]
            have w3: "o_jobs w3 = o_jobs w @ [?job]" "o_items w3 = o_items w @ ?items" "o_nodes w3 = o_nodes w"
              "o_calls w3 = o_calls w" "o_events w3 = o_events w"
              using s2 by (auto simp: same_rows_def)
            show ?thesis
              by (rule that(2) [OF ok _ ids _ s2 _ w3(1,2) fresh w3(3-5)]) (use 1 2 Inr None eq' r3 in simp_all)
          qed
        qed
      qed
    qed
  qed
qed

end
