(* ===== verification/Ops_Items.thy ===== *)
theory Ops_Items
  imports Ops_Create
begin

text \<open>
  What each operation on jobs leaves alone, and what it does to the rows it writes. The collection
  \<open>opsframe\<close> holds the equations for the tables.
\<close>

named_theorems opsframe

lemma hub_publish_frame [opsframe]:
  "o_jobs (hub_publish svc env j typ d w) = o_jobs w" "o_items (hub_publish svc env j typ d w) = o_items w"
  "o_nodes (hub_publish svc env j typ d w) = o_nodes w" "o_calls (hub_publish svc env j typ d w) = o_calls w"
  "o_metrics (hub_publish svc env j typ d w) = o_metrics w" "o_uid (hub_publish svc env j typ d w) = o_uid w"
  "o_dbn (hub_publish svc env j typ d w) = o_dbn w"
  by (simp_all add: hub_publish_def Let_def)

lemma publish_frame [opsframe]:
  "o_jobs (publish_job_status svc env job w) = o_jobs w" "o_items (publish_job_status svc env job w) = o_items w"
  "o_nodes (publish_job_status svc env job w) = o_nodes w" "o_calls (publish_job_status svc env job w) = o_calls w"
  "o_jobs (publish_item_status svc env j i n st a b w) = o_jobs w"
  "o_items (publish_item_status svc env j i n st a b w) = o_items w"
  "o_nodes (publish_item_status svc env j i n st a b w) = o_nodes w"
  "o_calls (publish_item_status svc env j i n st a b w) = o_calls w"
  "o_jobs (publish_item_stage svc env j i n sg w) = o_jobs w"
  "o_items (publish_item_stage svc env j i n sg w) = o_items w"
  "o_nodes (publish_item_stage svc env j i n sg w) = o_nodes w"
  "o_calls (publish_item_stage svc env j i n sg w) = o_calls w"
  "o_jobs (publish_item_log svc env j i n ch w) = o_jobs w"
  "o_items (publish_item_log svc env j i n ch w) = o_items w"
  "o_nodes (publish_item_log svc env j i n ch w) = o_nodes w"
  "o_calls (publish_item_log svc env j i n ch w) = o_calls w"
  "o_jobs (publish_item_done svc env j i n st c e w) = o_jobs w"
  "o_items (publish_item_done svc env j i n st c e w) = o_items w"
  "o_nodes (publish_item_done svc env j i n st c e w) = o_nodes w"
  "o_calls (publish_item_done svc env j i n st c e w) = o_calls w"
  by (simp_all add: publish_job_status_def publish_item_status_def publish_item_stage_def
      publish_item_log_def publish_item_done_def hub_publish_frame)

lemma o_tick_frame [opsframe]:
  "o_jobs (o_tick w) = o_jobs w" "o_items (o_tick w) = o_items w" "o_nodes (o_tick w) = o_nodes w"
  "o_calls (o_tick w) = o_calls w" "o_metrics (o_tick w) = o_metrics w" "o_uid (o_tick w) = o_uid w"
  by (simp_all add: o_tick_def)

lemma o_exec_ignore_eq:
  "o_exec_ignore env f w = (if stmt_fails env w then o_tick w else f (o_tick w))"
  by (simp add: o_exec_ignore_def o_exec_def)

lemma write_frame [opsframe]:
  "o_jobs (upd_item i f w) = o_jobs w" "o_nodes (upd_item i f w) = o_nodes w" "o_calls (upd_item i f w) = o_calls w"
  "o_jobs (upd_node n g w) = o_jobs w" "o_items (upd_node n g w) = o_items w" "o_calls (upd_node n g w) = o_calls w"
  "o_items (save_job j w) = o_items w" "o_nodes (save_job j w) = o_nodes w" "o_calls (save_job j w) = o_calls w"
  "o_items (upd_item i f w) = row_upd oi_id i f (o_items w)"
  "o_jobs (save_job j w) = row_upd oj_id (oj_id j) (\<lambda>r. j) (o_jobs w)"
  "o_nodes (upd_node n g w) = row_upd n_id n g (o_nodes w)"
  by (simp_all add: upd_item_def upd_node_def save_job_def)

lemma put_metrics_frame [opsframe]:
  "o_jobs (put_metrics i t v w) = o_jobs w" "o_items (put_metrics i t v w) = o_items w"
  "o_calls (put_metrics i t v w) = o_calls w" "o_nodes (put_metrics i t v w) = o_nodes w"
  by (simp_all add: put_metrics_def split: option.split)

lemma o_exec_frame:
  assumes "\<And>v. o_jobs (f v) = o_jobs v" and "\<And>v. o_items (f v) = o_items v" and "\<And>v. o_calls (f v) = o_calls v"
  shows "o_jobs (snd (o_exec env f w)) = o_jobs w" and "o_items (snd (o_exec env f w)) = o_items w"
    and "o_calls (snd (o_exec env f w)) = o_calls w"
  using assms by (simp_all add: o_exec_def opsframe)

section \<open>Stages of an item\<close>

definition begun :: "instant \<Rightarrow> ops_item \<Rightarrow> ops_item" where
  "begun t r = r\<lparr>oi_status := job_running, oi_started_at := Some t\<rparr>"

definition finished :: "instant \<Rightarrow> string \<Rightarrow> string \<Rightarrow> int \<Rightarrow> goerr option \<Rightarrow> ops_item \<Rightarrow> ops_item" where
  "finished t status log_text code err r =
     (let r1 = r\<lparr>oi_status := status, oi_log := log_text, oi_finished_at := Some t, oi_exit_code := Some code\<rparr>
      in case err of None \<Rightarrow> r1 | Some e \<Rightarrow> r1\<lparr>oi_error := Some (err_text e)\<rparr>)"

lemma begun_finished_id [simp]:
  "oi_id (begun t r) = oi_id r" "oi_job_id (begun t r) = oi_job_id r"
  "oi_id (finished t st l c err r) = oi_id r" "oi_status (finished t st l c err r) = st"
  "oi_log (finished t st l c err r) = l" "oi_exit_code (finished t st l c err r) = Some c"
  "oi_job_id (finished t st l c err r) = oi_job_id r" "oi_node_id (finished t st l c err r) = oi_node_id r"
  by (simp_all add: begun_def finished_def Let_def split: option.split)

lemma begin_item_frame [opsframe]:
  "o_jobs (begin_item svc env job item w) = o_jobs w" "o_nodes (begin_item svc env job item w) = o_nodes w"
  "o_calls (begin_item svc env job item w) = o_calls w"
  "o_items (begin_item svc env job item w) =
     (if stmt_fails env w then o_items w else row_upd oi_id (oi_id item) (begun (oe_now env)) (o_items w))"
  by (simp_all add: begin_item_def opsframe o_exec_ignore_eq begun_def [abs_def])

lemma finish_item_frame [opsframe]:
  "o_jobs (finish_item svc env job item st l c t err w) = o_jobs w"
  "o_nodes (finish_item svc env job item st l c t err w) = o_nodes w"
  "o_calls (finish_item svc env job item st l c t err w) = o_calls w"
  "o_items (finish_item svc env job item st l c t err w) =
     (if stmt_fails env w then o_items w
      else row_upd oi_id (oi_id item) (finished (oe_now env) st l c err) (o_items w))"
  by (simp_all add: finish_item_def opsframe o_exec_ignore_eq Let_def finished_def [abs_def])

lemma do_exec_frame [opsframe]:
  "o_jobs (snd (do_exec env t c w)) = o_jobs w" "o_items (snd (do_exec env t c w)) = o_items w"
  by (simp_all add: do_exec_def)

lemma persist_frame [opsframe]:
  "o_jobs (snd (persist_agent_settings svc env n p w)) = o_jobs w"
  "o_items (snd (persist_agent_settings svc env n p w)) = o_items w"
  "o_jobs (snd (persist_agent_contact svc env i t v w)) = o_jobs w"
  "o_items (snd (persist_agent_contact svc env i t v w)) = o_items w"
  by (simp_all add: persist_agent_settings_def persist_agent_contact_def Let_def o_exec_frame opsframe
      split: sum.split)

lemma persist_version_frame [opsframe]:
  "o_jobs (snd (persist_panel_version svc env i v w)) = o_jobs w"
  "o_items (snd (persist_panel_version svc env i v w)) = o_items w"
proof -
  have f: "o_jobs (snd (o_exec env (upd_node i g) w)) = o_jobs w" "o_items (snd (o_exec env (upd_node i g) w)) = o_items w"
    "o_jobs (snd (o_exec env (put_metrics i t u) w)) = o_jobs w" "o_items (snd (o_exec env (put_metrics i t u) w)) = o_items w"
    for g t u w
    by (simp_all add: o_exec_frame opsframe)
  show "o_jobs (snd (persist_panel_version svc env i v w)) = o_jobs w"
    "o_items (snd (persist_panel_version svc env i v w)) = o_items w"
    unfolding persist_panel_version_def
    by (simp_all split: prod.split option.split) (metis f snd_conv)+
qed

lemma wait_frame [opsframe]:
  "o_jobs (snd (wait_first_contact svc env j i n p w)) = o_jobs w"
  "o_items (snd (wait_first_contact svc env j i n p w)) = o_items w"
  by (simp_all add: wait_first_contact_def Let_def opsframe split: contact.split)

lemma run_deploy_frame [opsframe]:
  "o_jobs (snd (run_deploy svc env job item n t w)) = o_jobs w \<and>
   o_items (snd (run_deploy svc env job item n t w)) = o_items w"
proof (cases "build_deploy_params svc env n (oj_params job)")
  case (Inr p)
  obtain out code err w1 where 1: "do_exec env t (CallDeploy n p) w = ((out, code, err), w1)"
    by (metis prod.collapse)
  obtain info werr w2 where 2: "wait_first_contact svc env (oj_id job) (oi_id item) (oi_node_id item) p w1 = ((info, werr), w2)"
    by (metis prod.collapse)
  have w1: "o_jobs w1 = o_jobs w" "o_items w1 = o_items w" using do_exec_frame [of env t "CallDeploy n p" w] 1 by auto
  have w2: "o_jobs w2 = o_jobs w" "o_items w2 = o_items w"
    using wait_frame [of svc env "oj_id job" "oi_id item" "oi_node_id item" p w1] 2 w1 by auto
  have p: "o_jobs (snd (case persist_agent_settings svc env n p v of (None, w3) \<Rightarrow> ((x, y, None), w3) | (Some e, w3) \<Rightarrow> ((x, z, Some e), w3))) = o_jobs v"
    "o_items (snd (case persist_agent_settings svc env n p v of (None, w3) \<Rightarrow> ((x, y, None), w3) | (Some e, w3) \<Rightarrow> ((x, z, Some e), w3))) = o_items v"
    for v and x :: string and y z :: int
    using persist_frame(1,2) [of svc env n p v] by (cases "persist_agent_settings svc env n p v"; auto split: option.split)+
  show ?thesis
    unfolding run_deploy_def Inr sum.case 1 prod.case Let_def
    by (cases "err = None \<and> dp_health_check p") (simp_all add: 2 p w1 w2)
qed (simp add: run_deploy_def)

lemma run_call_frame [opsframe]:
  "o_jobs (snd (run_call svc env job item n w)) = o_jobs w" "o_items (snd (run_call svc env job item n w)) = o_items w"
  by (simp_all add: run_call_def Let_def opsframe)

lemma store_version_frame [opsframe]:
  "o_jobs (snd (store_version svc env job n out err w)) = o_jobs w"
  "o_items (snd (store_version svc env job n out err w)) = o_items w"
  using persist_version_frame [of svc env "n_id n" "parse_panel_version out" w]
  by (auto simp: store_version_def Let_def split: prod.split option.split)

lemma load_node_frame [opsframe]:
  "snd (load_node env i w) = o_tick w"
  by (auto simp: load_node_def o_query_def split: option.split)


text \<open>
  The execution of one item: what it reports agrees with what it stores, a dry run touches no node
  and calls no executor, and the wait for an agent ends in time.
\<close>

section \<open>Outcomes\<close>

fun outcome_ok :: "outcome \<Rightarrow> bool" where
  "outcome_ok (Outcome st l c err) \<longleftrightarrow> st = job_success \<and> err = None \<or> st = job_failed \<and> err \<noteq> None"

lemma outcome_split:
  fixes r :: "(string \<times> int \<times> goerr option) \<times> ops_world"
  obtains out code err w where "r = ((out, code, err), w)"
  by (metis prod.collapse)

lemma item_outcome_run:
  assumes "\<not> jp_dry_run (parse_job_params (oj_params job))" and "load_node env (oi_node_id item) w = (Inr n, w1)"
    and "\<not> (oj_type job = jt_update_svc \<and> (\<not> n_agent_enabled n \<or> \<not> n_agent_installed n))"
    and "(if oj_type job = jt_deploy then probe_agent_installed env n (jp_agent_port (parse_job_params (oj_params job)))
          else (False, [], None)) = (installed, details, perr)"
    and "\<not> (installed \<and> \<not> jp_force_redeploy (parse_job_params (oj_params job)) \<and>
             \<not> jp_install_docker (parse_job_params (oj_params job)))"
    and "run_call svc env job item n w1 = ((out, code, err), w2)"
    and "store_version svc env job n out err w2 = (out1, w3)"
  shows "item_outcome svc env job item w =
    (case err of
       Some e \<Rightarrow> (Outcome job_failed (if trim_space (trim_log out1 4096 16384) = [] then err_text e
                                       else trim_log out1 4096 16384) code (Some e), w3)
     | None \<Rightarrow> (Outcome job_success (trim_log out1 4096 16384) code None, w3))"
  unfolding item_outcome_def Let_def
  by (simp only: assms(1) if_False assms(2) prod.case sum.case assms(3-5) assms(6,7))

text \<open>The ways an item can end before its executor is called.\<close>

lemma item_outcome_cases:
  obtains (dry) st l c err where "item_outcome svc env job item w = (Outcome st l c err, w)"
      "jp_dry_run (parse_job_params (oj_params job))" "outcome_ok (Outcome st l c err)"
  | (early) st l c err where "item_outcome svc env job item w = (Outcome st l c err, o_tick w)"
      "outcome_ok (Outcome st l c err)"
  | (call) n out code err w2 out1 w3 where "load_node env (oi_node_id item) w = (Inr n, o_tick w)"
      "\<not> jp_dry_run (parse_job_params (oj_params job))"
      "run_call svc env job item n (o_tick w) = ((out, code, err), w2)"
      "store_version svc env job n out err w2 = (out1, w3)"
      "item_outcome svc env job item w =
        (case err of
           Some e \<Rightarrow> (Outcome job_failed (if trim_space (trim_log out1 4096 16384) = [] then err_text e
                                           else trim_log out1 4096 16384) code (Some e), w3)
         | None \<Rightarrow> (Outcome job_success (trim_log out1 4096 16384) code None, w3))"
proof -
  let ?p = "parse_job_params (oj_params job)"
  show ?thesis
  proof (cases "jp_dry_run ?p")
    case True
    then show ?thesis using dry by (cases "oe_cancelled env") (simp_all add: item_outcome_def Let_def)
  next
    case nodry: False
    obtain r w1 where 1: "load_node env (oi_node_id item) w = (r, w1)" by fastforce
    have w1: "w1 = o_tick w" using load_node_frame [of env "oi_node_id item" w] 1 by simp
    show ?thesis
    proof (cases r)
      case (Inl e)
      then have "item_outcome svc env job item w = (Outcome job_failed [] 1 (Some e), o_tick w)"
        using nodry 1 w1 by (simp add: item_outcome_def Let_def)
      then show ?thesis by (rule early) simp
    next
      case n: (Inr n)
      show ?thesis
      proof (cases "oj_type job = jt_update_svc \<and> (\<not> n_agent_enabled n \<or> \<not> n_agent_installed n)")
        case True
        then have "item_outcome svc env job item w = (Outcome job_success ''SKIPPED: agent not installed'' 0 None, o_tick w)"
          using nodry 1 w1 n by (simp add: item_outcome_def Let_def)
        then show ?thesis by (rule early) simp
      next
        case noskip: False
        obtain installed details perr where pr: "(if oj_type job = jt_deploy then probe_agent_installed env n (jp_agent_port ?p)
            else (False, [], None)) = (installed, details, perr)"
          by (metis prod.collapse)
        show ?thesis
        proof (cases "installed \<and> \<not> jp_force_redeploy ?p \<and> \<not> jp_install_docker ?p")
          case True
          have "item_outcome svc env job item w =
              (Outcome job_success (''ALREADY_INSTALLED: agent already installed'' @
                 (if trim_space details \<noteq> [] then '' ('' @ trim_space details @ '')'' else [])) 0 None, o_tick w)"
            unfolding item_outcome_def Let_def
            by (simp only: nodry if_False 1 w1 n prod.case sum.case noskip pr True if_True simp_thms)
          then show ?thesis by (rule early) simp
        next
          case False
          obtain out code err w2 where 2: "run_call svc env job item n w1 = ((out, code, err), w2)" by (rule outcome_split)
          obtain out1 w3 where 3: "store_version svc env job n out err w2 = (out1, w3)" by fastforce
          show ?thesis
            by (rule call [OF _ nodry _ 3 item_outcome_run [OF nodry _ noskip pr False 2 3]]) (use 1 2 n w1 in simp_all)
        qed
      qed
    qed
  qed
qed

lemma item_outcome_ok: "outcome_ok (fst (item_outcome svc env job item w))"
  by (cases rule: item_outcome_cases [of svc env job item w]) (auto split: option.split)

lemma item_outcome_frame [opsframe]:
  "o_jobs (snd (item_outcome svc env job item w)) = o_jobs w"
  "o_items (snd (item_outcome svc env job item w)) = o_items w"
proof -
  have "o_jobs (snd (item_outcome svc env job item w)) = o_jobs w \<and> o_items (snd (item_outcome svc env job item w)) = o_items w"
  proof (cases rule: item_outcome_cases [of svc env job item w])
    case (call n out code err w2 out1 w3)
    have "o_jobs w2 = o_jobs w" "o_items w2 = o_items w"
      using run_call_frame [of svc env job item n "o_tick w"] call(3) by (simp_all add: opsframe)
    then have "o_jobs w3 = o_jobs w" "o_items w3 = o_items w"
      using store_version_frame [of svc env job n out err w2] call(4) by simp_all
    then show ?thesis unfolding call(5) by (simp split: option.split)
  qed (simp_all add: opsframe)
  then show "o_jobs (snd (item_outcome svc env job item w)) = o_jobs w"
    "o_items (snd (item_outcome svc env job item w)) = o_items w" by auto
qed

lemma end_item_frame [opsframe]:
  "o_jobs (snd (end_item svc env job item t w)) = o_jobs w"
proof -
  obtain oc w1 where 1: "item_outcome svc env job item w = (oc, w1)" by fastforce
  obtain st l c err where oc: "oc = Outcome st l c err" by (cases oc)
  show ?thesis using item_outcome_frame(1) [of svc env job item w] 1 oc by (simp add: end_item_def opsframe)
qed

text \<open>An item's error is reported exactly when its row ends as failed.\<close>

lemma end_item_rows:
  obtains st l c err where
    "fst (end_item svc env job item t w) = err" "outcome_ok (Outcome st l c err)"
    "o_items (snd (end_item svc env job item t w)) =
       (if stmt_fails env (snd (item_outcome svc env job item w)) then o_items w
        else row_upd oi_id (oi_id item) (finished (oe_now env) st l c err) (o_items w))"
proof -
  obtain oc w1 where 1: "item_outcome svc env job item w = (oc, w1)" by fastforce
  obtain st l c err where oc: "oc = Outcome st l c err" by (cases oc)
  show ?thesis
  proof (rule that [of err st l c])
    show "outcome_ok (Outcome st l c err)" using item_outcome_ok [of svc env job item w] 1 oc by simp
  qed (use item_outcome_frame(2) [of svc env job item w] 1 oc in \<open>simp_all add: end_item_def opsframe\<close>)
qed

lemma execute_item_rows:
  assumes "\<And>n. \<not> oe_db_fail env n" "\<And>n. \<not> oe_db_fail env' n" "\<not> oe_cancelled env" "\<not> oe_cancelled env'"
    and "keyed oi_id (o_items w)" and "row_get oi_id (oi_id item) (o_items w) = Some r"
  obtains r' where
    "row_get oi_id (oi_id item) (o_items (snd (execute_item svc env env' job item w))) = Some r'"
    "oi_status r' = (if fst (execute_item svc env env' job item w) = None then job_success else job_failed)"
    "oi_started_at r' = Some (oe_now env)" "oi_finished_at r' = Some (oe_now env')" "oi_exit_code r' \<noteq> None"
proof -
  let ?w1 = "begin_item svc env job item w"
  have ok: "\<not> stmt_fails env v" "\<not> stmt_fails env' v" for v using assms(1-4) by (simp_all add: stmt_fails_def)
  have 1: "row_get oi_id (oi_id item) (o_items ?w1) = Some (begun (oe_now env) r)"
    using assms(6) ok by (simp add: opsframe row_upd_get)
  obtain st l c err where e: "fst (end_item svc env' job item (oe_now env) ?w1) = err"
    "outcome_ok (Outcome st l c err)"
    "o_items (snd (end_item svc env' job item (oe_now env) ?w1)) =
       row_upd oi_id (oi_id item) (finished (oe_now env') st l c err) (o_items ?w1)"
    by (rule end_item_rows [of svc env' job item "oe_now env" ?w1]) (use ok in simp)
  let ?r = "finished (oe_now env') st l c err (begun (oe_now env) r)"
  have "row_get oi_id (oi_id item) (o_items (snd (execute_item svc env env' job item w))) = Some ?r"
    using 1 e(3) by (simp add: execute_item_def row_upd_get)
  moreover have "oi_status ?r = (if fst (execute_item svc env env' job item w) = None then job_success else job_failed)"
    using e(1,2) by (auto simp: execute_item_def)
  ultimately show ?thesis
    by (rule that) (simp_all add: finished_def begun_def Let_def split: option.split)
qed

section \<open>Dry runs\<close>

lemma dry_run_frame:
  assumes "jp_dry_run (parse_job_params (oj_params job))"
  shows "o_nodes (snd (execute_item svc env env' job item w)) = o_nodes w \<and>
    o_calls (snd (execute_item svc env env' job item w)) = o_calls w"
proof -
  have "\<exists>oc. item_outcome svc env' job item v = (oc, v)" for v
    using assms by (cases "oe_cancelled env'") (simp_all add: item_outcome_def Let_def)
  then obtain oc where oc: "item_outcome svc env' job item (begin_item svc env job item w) = (oc, begin_item svc env job item w)"
    by blast
  obtain st l c err where "oc = Outcome st l c err" by (cases oc)
  with oc show ?thesis by (simp add: execute_item_def end_item_def opsframe)
qed

section \<open>Waiting for an agent\<close>

lemma poll_time_first: "start \<le> poll_time env start 0"
  by (simp add: poll_time_def)

text \<open>
  The wait finds the agent when one of its checks within the limit is answered well, none before it
  is, and the context is not done before.
\<close>

lemma contact_loop_found:
  assumes "i \<le> k"
    and "\<forall>j. i \<le> j \<and> j \<le> k \<longrightarrow> poll_time env start j \<le> start + first_contact_timeout"
    and "\<forall>j. i \<le> j \<and> j < k \<longrightarrow> \<not> pl_ctx_done (oe_poll env j) \<and>
           (pl_err (oe_poll env j) \<or> pl_status (oe_poll env j) \<noteq> 200 \<or> \<not> pl_ok (oe_poll env j))"
    and "\<not> pl_err (oe_poll env k)" "pl_status (oe_poll env k) = 200" "pl_ok (oe_poll env k)"
  shows "contact_loop env start i l = ContactOk (poll_time env start k) (pl_version (oe_poll env k))"
  using assms
proof (induction "k - i" arbitrary: i l)
  case 0
  then have "i = k" by simp
  moreover have "\<not> start + first_contact_timeout < poll_time env start k" using 0 by (simp add: not_less)
  ultimately show ?case using 0 by (subst contact_loop.simps) (simp add: Let_def)
next
  case (Suc d)
  then have lt: "i < k" by simp
  let ?l = "if pl_status (oe_poll env i) \<noteq> 0 then pl_status (oe_poll env i) else l"
  have t: "\<not> start + first_contact_timeout < poll_time env start i" using Suc.prems lt by (simp add: not_less)
  have n: "\<not> pl_ctx_done (oe_poll env i)"
    "\<not> (\<not> pl_err (oe_poll env i) \<and> pl_status (oe_poll env i) = 200 \<and> pl_ok (oe_poll env i))"
    using Suc.prems(3) lt by auto
  have "contact_loop env start i l = contact_loop env start (Suc i) ?l"
    by (subst contact_loop.simps) (simp only: t n if_False Let_def)
  also have "\<dots> = ContactOk (poll_time env start k) (pl_version (oe_poll env k))"
    by (rule Suc.hyps(1)) (use Suc.hyps(2) Suc.prems lt in auto)
  finally show ?case .
qed

text \<open>Conversely it reports an agent only when one of its checks within the limit was answered well.\<close>

lemma contact_loop_sound:
  "contact_loop env start i l = ContactOk t v \<Longrightarrow>
   \<exists>k \<ge> i. t = poll_time env start k \<and> t \<le> start + first_contact_timeout \<and> v = pl_version (oe_poll env k) \<and>
     \<not> pl_err (oe_poll env k) \<and> pl_status (oe_poll env k) = 200 \<and> pl_ok (oe_poll env k)"
proof (induction env start i l rule: contact_loop.induct)
  case (1 env start i l)
  let ?p = "oe_poll env i"
  show ?case
  proof (cases "start + first_contact_timeout < poll_time env start i")
    case True
    then show ?thesis using 1(2) by (subst (asm) contact_loop.simps) simp
  next
    case t: False
    show ?thesis
    proof (cases "\<not> pl_err ?p \<and> pl_status ?p = 200 \<and> pl_ok ?p")
      case True
      then have "contact_loop env start i l = ContactOk (poll_time env start i) (pl_version ?p)"
        using t by (subst contact_loop.simps) (simp add: Let_def)
      then show ?thesis using 1(2) t True by (intro exI [of _ i]) auto
    next
      case n: False
      let ?l = "if pl_status ?p \<noteq> 0 then pl_status ?p else l"
      have eq: "contact_loop env start i l = (if pl_ctx_done ?p then ContactCancelled else contact_loop env start (Suc i) ?l)"
        by (subst contact_loop.simps) (simp only: t n if_False Let_def)
      then have c: "\<not> pl_ctx_done ?p" "contact_loop env start (Suc i) ?l = ContactOk t v"
        using 1(2) by (auto split: if_splits)
      from 1(1) [OF t refl n refl c] obtain k where
        "Suc i \<le> k" "t = poll_time env start k \<and> t \<le> start + first_contact_timeout \<and> v = pl_version (oe_poll env k) \<and>
         \<not> pl_err (oe_poll env k) \<and> pl_status (oe_poll env k) = 200 \<and> pl_ok (oe_poll env k)" by blast
      then show ?thesis by (intro exI [of _ k]) simp
    qed
  qed
qed

end
