(* ===== verification/Ops_Machine.thy ===== *)
theory Ops_Machine
  imports Ops_Items "HOL-Library.Multiset"
begin

text \<open>
  All of the service at work: requests, ticks of the loop, and the workers of the jobs that run. The
  workers of a job take items from one channel; an item's execution is two steps (marked as running,
  then the rest), between which any other step may happen. A job ends when its channel is drained and
  its workers are idle.

  \<open>job_run\<close> is a call of \<open>runJob\<close> past its start: \<open>jr_items\<close> are the items it loaded,
  \<open>jr_todo\<close> those not taken yet, \<open>jr_busy\<close> those in execution with the time they were marked,
  \<open>jr_failed\<close> the counter; \<open>jr_done\<close> records the finished ones and whether they failed.
\<close>

record job_run =
  jr_job :: ops_job
  jr_items :: "ops_item list"
  jr_todo :: "ops_item list"
  jr_busy :: "(ops_item \<times> instant) list"
  jr_failed :: nat
  jr_done :: "(ops_item \<times> bool) list"

definition new_run :: "ops_job \<Rightarrow> ops_item list \<Rightarrow> job_run" where
  "new_run job items =
     \<lparr>jr_job = job, jr_items = items, jr_todo = items, jr_busy = [], jr_failed = 0, jr_done = []\<rparr>"

definition remove_nth :: "nat \<Rightarrow> 'a list \<Rightarrow> 'a list" where
  "remove_nth k xs = take k xs @ drop (Suc k) xs"

text \<open>An idle worker receives the next item.\<close>

definition run_take :: "ops_svc \<Rightarrow> ops_env \<Rightarrow> job_run \<Rightarrow> ops_world \<Rightarrow> job_run \<times> ops_world" where
  "run_take svc env r w =
     (case jr_todo r of
        [] \<Rightarrow> (r, w)
      | item # todo \<Rightarrow>
          if workers_of (jr_job r) \<le> length (jr_busy r) then (r, w)
          else (r\<lparr>jr_todo := todo, jr_busy := jr_busy r @ [(item, oe_now env)]\<rparr>,
                begin_item svc env (jr_job r) item w))"

definition run_done :: "ops_svc \<Rightarrow> ops_env \<Rightarrow> nat \<Rightarrow> job_run \<Rightarrow> ops_world \<Rightarrow> job_run \<times> ops_world" where
  "run_done svc env k r w =
     (if length (jr_busy r) \<le> k then (r, w)
      else case jr_busy r ! k of
        (item, started) \<Rightarrow>
          (case end_item svc env (jr_job r) item started w of
             (err, w1) \<Rightarrow>
               (r\<lparr>jr_busy := remove_nth k (jr_busy r),
                  jr_failed := (if err \<noteq> None then Suc (jr_failed r) else jr_failed r),
                  jr_done := jr_done r @ [(item, err \<noteq> None)]\<rparr>, w1)))"

definition run_over :: "job_run \<Rightarrow> bool" where
  "run_over r \<longleftrightarrow> jr_todo r = [] \<and> jr_busy r = []"

record ops_sys =
  sy_world :: ops_world
  sy_picked :: "ops_job list"
  sy_runs :: "job_run list"

datatype ops_event =
    OpsCreate create_job_request
  | OpsTick
  | OpsStart nat
  | OpsTake nat
  | OpsDone nat nat
  | OpsFinish nat

definition ops_step :: "ops_svc \<Rightarrow> ops_env \<times> ops_event \<Rightarrow> ops_sys \<Rightarrow> ops_sys" where
  "ops_step svc = (\<lambda>(env, ev) s.
     (case ev of
        OpsCreate req \<Rightarrow> s\<lparr>sy_world := snd (create_job svc env req (sy_world s))\<rparr>
      | OpsTick \<Rightarrow>
          (case pick_and_run svc env (sy_world s) of
             (js, w) \<Rightarrow> s\<lparr>sy_world := w, sy_picked := sy_picked s @ js\<rparr>)
      | OpsStart k \<Rightarrow>
          (if length (sy_picked s) \<le> k then s
           else let job = sy_picked s ! k
                in case start_job svc env job (sy_world s) of
                     (res, w) \<Rightarrow>
                       s\<lparr>sy_world := w, sy_picked := remove_nth k (sy_picked s),
                         sy_runs := (case res of None \<Rightarrow> sy_runs s | Some items \<Rightarrow> sy_runs s @ [new_run job items])\<rparr>)
      | OpsTake r \<Rightarrow>
          (if length (sy_runs s) \<le> r then s
           else case run_take svc env (sy_runs s ! r) (sy_world s) of
                  (r', w) \<Rightarrow> s\<lparr>sy_world := w, sy_runs := (sy_runs s)[r := r']\<rparr>)
      | OpsDone r k \<Rightarrow>
          (if length (sy_runs s) \<le> r then s
           else case run_done svc env k (sy_runs s ! r) (sy_world s) of
                  (r', w) \<Rightarrow> s\<lparr>sy_world := w, sy_runs := (sy_runs s)[r := r']\<rparr>)
      | OpsFinish r \<Rightarrow>
          (if length (sy_runs s) \<le> r then s
           else let run = sy_runs s ! r
                in if run_over run
                   then s\<lparr>sy_world := end_job svc env (jr_job run) (jr_failed run) (sy_world s),
                          sy_runs := remove_nth r (sy_runs s)\<rparr>
                   else s)))"

section \<open>One run\<close>

text \<open>No more items are in execution than there are workers, and no item is lost or run twice.\<close>

definition run_ok :: "job_run \<Rightarrow> bool" where
  "run_ok r \<longleftrightarrow> length (jr_busy r) \<le> workers_of (jr_job r) \<and>
     mset (jr_items r) = mset (jr_todo r) + mset (map fst (jr_busy r)) + mset (map fst (jr_done r)) \<and>
     jr_failed r = length (filter snd (jr_done r))"

lemma set_remove_nth: "set (remove_nth k xs) \<subseteq> set xs"
  unfolding remove_nth_def by (auto dest: in_set_takeD in_set_dropD)

lemma length_remove_nth: "length (remove_nth k xs) \<le> length xs"
  by (simp add: remove_nth_def)

lemma mset_remove_nth: "k < length xs \<Longrightarrow> mset xs = mset (remove_nth k xs) + {#xs ! k#}"
  by (subst id_take_nth_drop [of k xs]) (simp_all add: remove_nth_def)

lemma new_run_ok: "run_ok (new_run job items)"
  by (simp add: run_ok_def new_run_def)

lemma run_take_ok: "run_ok r \<Longrightarrow> run_ok (fst (run_take svc env r w))"
  by (auto simp: run_take_def run_ok_def split: list.split)

lemma run_done_ok: "run_ok r \<Longrightarrow> run_ok (fst (run_done svc env k r w))"
proof (cases "k < length (jr_busy r)")
  case True
  assume r: "run_ok r"
  obtain item t where b: "jr_busy r ! k = (item, t)" by fastforce
  obtain err w1 where e: "end_item svc env (jr_job r) item t w = (err, w1)" by fastforce
  have "mset (map fst (jr_busy r)) = mset (map fst (remove_nth k (jr_busy r))) + {#item#}"
    using arg_cong [OF mset_remove_nth [OF True], of "image_mset fst"] b by simp
  with r True show ?thesis
    using length_remove_nth [of k "jr_busy r"] by (auto simp: run_done_def b e run_ok_def)
qed (simp add: run_done_def)

lemma run_take_job [simp]: "jr_job (fst (run_take svc env r w)) = jr_job r"
  by (simp add: run_take_def split: list.split)

lemma run_done_job [simp]: "jr_job (fst (run_done svc env k r w)) = jr_job r"
  by (simp add: run_done_def split: prod.split)

text \<open>Progress: a run that is not over can take an item or finish one, and each such step lowers the
  work that is left, so that a run of \<open>n\<close> items is over after \<open>2 * n\<close> of them.\<close>

definition work_left :: "job_run \<Rightarrow> nat" where
  "work_left r = 2 * length (jr_todo r) + length (jr_busy r)"

lemma work_left_new [simp]: "work_left (new_run job items) = 2 * length items"
  by (simp add: work_left_def new_run_def)

lemma work_left_over: "work_left r = 0 \<longleftrightarrow> run_over r"
  by (simp add: work_left_def run_over_def)

lemma run_take_work:
  "jr_todo r \<noteq> [] \<Longrightarrow> length (jr_busy r) < workers_of (jr_job r) \<Longrightarrow>
   work_left (fst (run_take svc env r w)) + 1 = work_left r"
  by (cases "jr_todo r") (simp_all add: run_take_def work_left_def)

lemma run_done_work:
  assumes "k < length (jr_busy r)"
  shows "work_left (fst (run_done svc env k r w)) + 1 = work_left r"
proof -
  obtain item t where b: "jr_busy r ! k = (item, t)" by fastforce
  obtain err w1 where e: "end_item svc env (jr_job r) item t w = (err, w1)" by fastforce
  show ?thesis using assms by (simp add: run_done_def b e work_left_def remove_nth_def)
qed

lemma workers_pos: "0 < workers_of job"
  by (auto simp: workers_of_def)

lemma run_progress:
  "\<not> run_over r \<Longrightarrow> (jr_todo r \<noteq> [] \<and> length (jr_busy r) < workers_of (jr_job r)) \<or> 0 < length (jr_busy r)"
  using workers_pos [of "jr_job r"] by (auto simp: run_over_def)

section \<open>The number of running jobs\<close>

definition running_jobs :: "ops_world \<Rightarrow> nat" where
  "running_jobs w = length (filter (\<lambda>j. oj_status j = job_running) (o_jobs w))"

lemma row_upd_absent: "k \<notin> key ` set rows \<Longrightarrow> row_upd key k f rows = rows"
  by (induction rows) (auto simp: row_upd_def)

lemma count_save:
  assumes "distinct (map oj_id js)"
  shows "length (filter (\<lambda>j. oj_status j = job_running) (row_upd oj_id (oj_id j) (\<lambda>r. j) js))
    \<le> length (filter (\<lambda>j. oj_status j = job_running) js) + (if oj_status j = job_running then 1 else 0)"
  using assms
proof (induction js)
  case (Cons k js)
  show ?case
  proof (cases "oj_id k = oj_id j")
    case True
    then have "oj_id j \<notin> oj_id ` set js" using Cons.prems by auto
    from row_upd_absent [OF this, of "\<lambda>r. j"] True show ?thesis by (simp add: row_upd_def)
  next
    case False
    with Cons show ?thesis by (auto simp: row_upd_def)
  qed
qed (simp add: row_upd_def)

lemma running_save:
  "keyed oj_id (o_jobs w) \<Longrightarrow> running_jobs (save_job j w) \<le> running_jobs w + (if oj_status j = job_running then 1 else 0)"
  using count_save [of "o_jobs w" j] by (simp add: running_jobs_def keyed_def opsframe)

lemma save_job_keyed: "keyed oj_id (o_jobs w) \<Longrightarrow> keyed oj_id (o_jobs (save_job j w))"
  by (simp add: opsframe row_upd_keyed)

lemma same_jobs: "o_jobs w' = o_jobs w \<Longrightarrow> running_jobs w' = running_jobs w"
  by (simp add: running_jobs_def)

section \<open>The invariant\<close>

definition jobs_ok :: "ops_world \<Rightarrow> bool" where
  "jobs_ok w \<longleftrightarrow> keyed oj_id (o_jobs w) \<and> keyed oi_id (o_items w) \<and>
     (\<forall>j \<in> set (o_jobs w). 1 \<le> oj_parallelism j \<and> oj_parallelism j \<le> 10)"

definition ops_inv :: "ops_sys \<Rightarrow> bool" where
  "ops_inv s \<longleftrightarrow> jobs_ok (sy_world s) \<and> running_jobs (sy_world s) \<le> 3 \<and>
     (\<forall>j \<in> set (sy_picked s). 1 \<le> oj_parallelism j \<and> oj_parallelism j \<le> 10) \<and>
     (\<forall>r \<in> set (sy_runs s). run_ok r \<and> 1 \<le> oj_parallelism (jr_job r) \<and> oj_parallelism (jr_job r) \<le> 10)"

lemma new_items_keyed:
  assumes "keyed oi_id items" "distinct (map oi_id new)" "\<forall>i \<in> set new. oi_id i \<notin> oi_id ` set items"
  shows "keyed oi_id (items @ new)"
proof -
  have "x \<notin> set (map oi_id new)" if "x \<in> set (map oi_id items)" for x
  proof
    assume "x \<in> set (map oi_id new)"
    then obtain i where "i \<in> set new" "x = oi_id i" by auto
    with assms(3) that show False by simp
  qed
  then have "set (map oi_id items) \<inter> set (map oi_id new) = {}" by blast
  with assms(1,2) show ?thesis by (simp only: keyed_def map_append distinct_append simp_thms)
qed

lemma create_job_ok:
  assumes "jobs_ok w"
  shows "jobs_ok (snd (create_job svc env req w)) \<and> running_jobs (snd (create_job svc env req w)) = running_jobs w"
proof (cases rule: create_job_cases [of svc env req w])
  case (1 e w')
  with assms show ?thesis by (simp add: jobs_ok_def same_rows_def running_jobs_def)
next
  case (2 ids token w1 w')
  let ?i = "oe_uuid env (o_uid w1)"
  let ?j = "new_job_row env req ids (oe_sha256_hex env token) ?i"
  have s: "snd (create_job svc env req w) = w'" using 2(6) by simp
  have "keyed oj_id (o_jobs w')" using assms 2(7,9) by (auto simp: jobs_ok_def keyed_def new_job_row_def)
  moreover have "keyed oi_id (o_items w')"
    unfolding 2(8) by (rule new_items_keyed) (use assms 2(10,11) in \<open>simp_all add: jobs_ok_def\<close>)
  moreover have "1 \<le> oj_parallelism ?j \<and> oj_parallelism ?j \<le> 10"
    using clamp_parallelism_range by (simp add: new_job_row_def)
  moreover have "oj_status ?j \<noteq> job_running" by (simp add: new_job_row_def job_status_defs)
  ultimately show ?thesis
    unfolding s using assms 2(7) by (auto simp: jobs_ok_def running_jobs_def)
qed

lemma first_queued_mem: "first_queued js = Some j \<Longrightarrow> j \<in> set js \<and> oj_status j = job_queued"
  by (induction js arbitrary: j) (auto split: option.splits if_splits)

lemma jobs_ok_save:
  assumes "jobs_ok w" "1 \<le> oj_parallelism j" "oj_parallelism j \<le> 10"
  shows "jobs_ok (save_job j w)"
  using assms by (auto simp: jobs_ok_def opsframe row_upd_keyed set_row_upd)

lemma jobs_ok_same: "o_jobs w' = o_jobs w \<Longrightarrow> o_items w' = o_items w \<Longrightarrow> jobs_ok w' = jobs_ok w"
  by (simp add: jobs_ok_def)

lemma pick_queued_job_ok:
  assumes "jobs_ok w" and "pick_queued_job env w = (r, w')"
  shows "jobs_ok w' \<and>
    (case r of None \<Rightarrow> running_jobs w' = running_jobs w
     | Some j \<Rightarrow> running_jobs w' \<le> running_jobs w + 1 \<and> 1 \<le> oj_parallelism j \<and> oj_parallelism j \<le> 10)"
proof (cases "first_queued (o_jobs w)")
  case None
  with assms show ?thesis by (auto simp: pick_queued_job_def jobs_ok_def running_jobs_def)
next
  case (Some j)
  let ?j = "j\<lparr>oj_status := job_running, oj_started_at := Some (oe_now env)\<rparr>"
  have j: "1 \<le> oj_parallelism ?j" "oj_parallelism ?j \<le> 10"
    using first_queued_mem [OF Some] assms(1) by (auto simp: jobs_ok_def)
  obtain e w1 where t: "o_tx env 2 (save_job ?j) w = (e, w1)" by fastforce
  show ?thesis
  proof (cases e)
    case (Some x)
    then have "same_rows w w1" using o_tx_cases [OF t] by auto
    then show ?thesis using assms t Some \<open>first_queued (o_jobs w) = Some j\<close>
      by (auto simp: pick_queued_job_def Let_def same_rows_def jobs_ok_def running_jobs_def)
  next
    case None
    let ?w = "w\<lparr>o_dbn := o_dbn w + (2 + 2)\<rparr>"
    have w1: "w1 = save_job ?j ?w" using o_tx_cases [OF t] None by auto
    have ok: "jobs_ok ?w" "running_jobs ?w = running_jobs w"
      using assms(1) by (simp_all add: jobs_ok_def running_jobs_def)
    have "running_jobs w1 \<le> running_jobs w + 1"
      using running_save [of ?w ?j] ok by (simp add: w1 jobs_ok_def)
    moreover have "jobs_ok w1" unfolding w1 by (rule jobs_ok_save [OF ok(1) j])
    moreover have "r = Some ?j" "w' = w1"
      using assms(2) Some t None by (simp_all add: pick_queued_job_def Let_def)
    ultimately show ?thesis using j by simp
  qed
qed

lemma publish_job_ok:
  "jobs_ok (publish_job_status svc env j w) = jobs_ok w"
  "running_jobs (publish_job_status svc env j w) = running_jobs w"
  by (simp_all add: jobs_ok_def running_jobs_def opsframe)

lemma pick_jobs_ok:
  "jobs_ok w \<Longrightarrow> pick_jobs svc env n w = (js, w') \<Longrightarrow>
   jobs_ok w' \<and> running_jobs w' \<le> running_jobs w + n \<and>
   (\<forall>j \<in> set js. 1 \<le> oj_parallelism j \<and> oj_parallelism j \<le> 10)"
proof (induction n arbitrary: w js w')
  case (Suc n)
  obtain r w1 where 1: "pick_queued_job env w = (r, w1)" by fastforce
  note p = pick_queued_job_ok [OF Suc.prems(1) 1]
  show ?case
  proof (cases r)
    case None
    then show ?thesis using p Suc.prems(2) 1 by auto
  next
    case (Some j)
    let ?w = "publish_job_status svc env j w1"
    obtain ks w2 where 2: "pick_jobs svc env n ?w = (ks, w2)" by fastforce
    have "jobs_ok ?w" using p by (simp add: publish_job_ok)
    from Suc.IH [OF this 2] p Some Suc.prems(2) 1 2 show ?thesis
      by (auto simp: publish_job_ok)
  qed
qed simp

lemma pick_and_run_ok:
  assumes "jobs_ok w" "running_jobs w \<le> 3" "pick_and_run svc env w = (js, w')"
  shows "jobs_ok w' \<and> running_jobs w' \<le> 3 \<and> (\<forall>j \<in> set js. 1 \<le> oj_parallelism j \<and> oj_parallelism j \<le> 10)"
proof -
  obtain slots w1 where 1: "available_job_slots svc env w = (slots, w1)" by fastforce
  have w1: "jobs_ok w1" "running_jobs w1 = running_jobs w" "slots \<le> 3 - int (running_jobs w)"
    using 1 assms(1,2)
    by (auto simp: available_job_slots_def o_query_def jobs_ok_def running_jobs_def opsframe
        max_concurrent_jobs_def Let_def split: if_splits)
  show ?thesis
  proof (cases "slots \<le> 0")
    case True
    then show ?thesis using assms 1 w1 by (auto simp: pick_and_run_def)
  next
    case False
    then have "pick_jobs svc env (nat slots) w1 = (js, w')" using assms(3) 1 by (simp add: pick_and_run_def)
    from pick_jobs_ok [OF w1(1) this] w1 False show ?thesis by auto
  qed
qed

lemma finish_job_ok:
  assumes "jobs_ok w" "st \<noteq> job_running" "1 \<le> oj_parallelism job" "oj_parallelism job \<le> 10"
  shows "jobs_ok (snd (finish_job svc env job st err w)) \<and>
    running_jobs (snd (finish_job svc env job st err w)) \<le> running_jobs w"
proof -
  let ?j = "job\<lparr>oj_status := st, oj_error := err, oj_finished_at := Some (oe_now env)\<rparr>"
  have t: "jobs_ok (o_tick w)" "running_jobs (o_tick w) = running_jobs w"
    using assms(1) by (simp_all add: jobs_ok_def running_jobs_def opsframe)
  have "jobs_ok (save_job ?j (o_tick w))" using t(1) assms by (intro jobs_ok_save) simp_all
  moreover have "running_jobs (save_job ?j (o_tick w)) \<le> running_jobs w"
    using running_save [of "o_tick w" ?j] t assms(2) by (simp add: jobs_ok_def)
  ultimately show ?thesis
    using t by (simp add: finish_job_def Let_def o_exec_ignore_eq publish_job_ok)
qed

lemma status_ne: "job_success \<noteq> job_running" "job_failed \<noteq> job_running" "job_queued \<noteq> job_running"
  by (simp_all add: job_status_defs)

lemma start_job_ok:
  assumes "jobs_ok w" "1 \<le> oj_parallelism job" "oj_parallelism job \<le> 10"
  shows "jobs_ok (snd (start_job svc env job w)) \<and> running_jobs (snd (start_job svc env job w)) \<le> running_jobs w"
proof -
  have t: "jobs_ok (o_tick w)" "running_jobs (o_tick w) = running_jobs w"
    using assms(1) by (simp_all add: jobs_ok_def running_jobs_def opsframe)
  show ?thesis
    using t finish_job_ok [OF t(1) status_ne(1) assms(2,3)]
    by (auto simp: start_job_def o_query_def)
qed

lemma end_job_ok:
  assumes "jobs_ok w" "1 \<le> oj_parallelism job" "oj_parallelism job \<le> 10"
  shows "jobs_ok (end_job svc env job n w) \<and> running_jobs (end_job svc env job n w) \<le> running_jobs w"
  using finish_job_ok [OF assms(1) status_ne(1) assms(2,3)] finish_job_ok [OF assms(1) status_ne(2) assms(2,3)]
  by (simp add: end_job_def job_status_from_failures_def)

lemma row_upd_item_keyed:
  "keyed oi_id rows \<Longrightarrow> keyed oi_id (row_upd oi_id i (begun t) rows)"
  "keyed oi_id rows \<Longrightarrow> keyed oi_id (row_upd oi_id i (finished t st l c err) rows)"
  by (simp_all add: row_upd_keyed)

lemma begin_item_ok: "jobs_ok w \<Longrightarrow> jobs_ok (begin_item svc env job item w)"
  by (simp add: jobs_ok_def opsframe row_upd_item_keyed)

lemma end_item_ok: "jobs_ok w \<Longrightarrow> jobs_ok (snd (end_item svc env job item t w))"
  by (rule end_item_rows [of svc env job item t w]) (simp add: jobs_ok_def end_item_frame row_upd_item_keyed)

lemma run_take_world:
  "jobs_ok w \<Longrightarrow> jobs_ok (snd (run_take svc env r w)) \<and> running_jobs (snd (run_take svc env r w)) = running_jobs w"
  by (auto simp: run_take_def begin_item_ok running_jobs_def opsframe split: list.split)

lemma run_done_world:
  "jobs_ok w \<Longrightarrow> jobs_ok (snd (run_done svc env k r w)) \<and> running_jobs (snd (run_done svc env k r w)) = running_jobs w"
proof (cases "k < length (jr_busy r)")
  case True
  assume w: "jobs_ok w"
  obtain item t where b: "jr_busy r ! k = (item, t)" by fastforce
  have "snd (run_done svc env k r w) = snd (end_item svc env (jr_job r) item t w)"
    using True b by (simp add: run_done_def split: prod.split)
  then show ?thesis using end_item_ok [OF w] by (simp add: running_jobs_def end_item_frame)
qed (simp add: run_done_def)

lemma nth_update_all: "\<forall>x \<in> set xs. P x \<Longrightarrow> P y \<Longrightarrow> \<forall>x \<in> set (xs[i := y]). P x"
  using set_update_subset_insert [of xs i y] by blast

lemma ops_step_inv: "ops_inv s \<Longrightarrow> ops_inv (ops_step svc e s)"
proof -
  assume s: "ops_inv s"
  obtain env ev where e: "e = (env, ev)" by fastforce
  have w: "jobs_ok (sy_world s)" "running_jobs (sy_world s) \<le> 3" using s by (auto simp: ops_inv_def)
  show ?thesis
  proof (cases ev)
    case (OpsCreate req)
    then show ?thesis using s create_job_ok [OF w(1), of svc env req] by (simp add: e ops_step_def ops_inv_def)
  next
    case OpsTick
    obtain js w' where p: "pick_and_run svc env (sy_world s) = (js, w')" by fastforce
    show ?thesis using s pick_and_run_ok [OF w p] OpsTick by (auto simp: e ops_step_def ops_inv_def p)
  next
    case (OpsStart k)
    show ?thesis
    proof (cases "k < length (sy_picked s)")
      case True
      let ?job = "sy_picked s ! k"
      have j: "1 \<le> oj_parallelism ?job" "oj_parallelism ?job \<le> 10" using s True by (auto simp: ops_inv_def)
      obtain res w' where p: "start_job svc env ?job (sy_world s) = (res, w')" by fastforce
      have w': "jobs_ok w'" "running_jobs w' \<le> 3" using start_job_ok [OF w(1) j, of svc env] p w(2) by auto
      have step: "ops_step svc e s = s\<lparr>sy_world := w', sy_picked := remove_nth k (sy_picked s),
          sy_runs := (case res of None \<Rightarrow> sy_runs s | Some items \<Rightarrow> sy_runs s @ [new_run ?job items])\<rparr>"
        using True OpsStart by (simp add: e ops_step_def p)
      have "\<forall>j \<in> set (remove_nth k (sy_picked s)). 1 \<le> oj_parallelism j \<and> oj_parallelism j \<le> 10"
        using s set_remove_nth [of k "sy_picked s"] by (auto simp: ops_inv_def)
      moreover have "\<forall>r \<in> set (case res of None \<Rightarrow> sy_runs s | Some items \<Rightarrow> sy_runs s @ [new_run ?job items]).
          run_ok r \<and> 1 \<le> oj_parallelism (jr_job r) \<and> oj_parallelism (jr_job r) \<le> 10"
        using s j new_run_ok by (cases res) (auto simp: ops_inv_def new_run_def)
      ultimately show ?thesis unfolding step ops_inv_def using w' by simp
    qed (use s OpsStart in \<open>simp add: e ops_step_def\<close>)
  next
    case (OpsTake r)
    show ?thesis
    proof (cases "r < length (sy_runs s)")
      case True
      obtain r' w' where p: "run_take svc env (sy_runs s ! r) (sy_world s) = (r', w')" by fastforce
      have r: "run_ok (sy_runs s ! r)" "1 \<le> oj_parallelism (jr_job (sy_runs s ! r))"
        "oj_parallelism (jr_job (sy_runs s ! r)) \<le> 10"
        using s True by (auto simp: ops_inv_def)
      have "run_ok r' \<and> 1 \<le> oj_parallelism (jr_job r') \<and> oj_parallelism (jr_job r') \<le> 10"
        using run_take_ok [OF r(1), of svc env "sy_world s"] run_take_job [of svc env "sy_runs s ! r" "sy_world s"] r p by simp
      with s have "\<forall>x \<in> set ((sy_runs s)[r := r']). run_ok x \<and> 1 \<le> oj_parallelism (jr_job x) \<and> oj_parallelism (jr_job x) \<le> 10"
        by (intro nth_update_all) (simp_all add: ops_inv_def)
      moreover have "jobs_ok w'" "running_jobs w' \<le> 3"
        using run_take_world [OF w(1), of svc env "sy_runs s ! r"] p w(2) by auto
      ultimately show ?thesis using s True OpsTake by (simp add: e ops_step_def p ops_inv_def)
    qed (use s OpsTake in \<open>simp add: e ops_step_def\<close>)
  next
    case (OpsDone r k)
    show ?thesis
    proof (cases "r < length (sy_runs s)")
      case True
      obtain r' w' where p: "run_done svc env k (sy_runs s ! r) (sy_world s) = (r', w')" by fastforce
      have r: "run_ok (sy_runs s ! r)" "1 \<le> oj_parallelism (jr_job (sy_runs s ! r))"
        "oj_parallelism (jr_job (sy_runs s ! r)) \<le> 10"
        using s True by (auto simp: ops_inv_def)
      have "run_ok r' \<and> 1 \<le> oj_parallelism (jr_job r') \<and> oj_parallelism (jr_job r') \<le> 10"
        using run_done_ok [OF r(1), of svc env k "sy_world s"] run_done_job [of svc env k "sy_runs s ! r" "sy_world s"] r p by simp
      with s have "\<forall>x \<in> set ((sy_runs s)[r := r']). run_ok x \<and> 1 \<le> oj_parallelism (jr_job x) \<and> oj_parallelism (jr_job x) \<le> 10"
        by (intro nth_update_all) (simp_all add: ops_inv_def)
      moreover have "jobs_ok w'" "running_jobs w' \<le> 3"
        using run_done_world [OF w(1), of svc env k "sy_runs s ! r"] p w(2) by auto
      ultimately show ?thesis using s True OpsDone by (simp add: e ops_step_def p ops_inv_def)
    qed (use s OpsDone in \<open>simp add: e ops_step_def\<close>)
  next
    case (OpsFinish r)
    show ?thesis
    proof (cases "r < length (sy_runs s) \<and> run_over (sy_runs s ! r)")
      case True
      let ?run = "sy_runs s ! r"
      have j: "1 \<le> oj_parallelism (jr_job ?run)" "oj_parallelism (jr_job ?run) \<le> 10"
        using s True by (auto simp: ops_inv_def)
      have "\<forall>x \<in> set (remove_nth r (sy_runs s)). run_ok x \<and> 1 \<le> oj_parallelism (jr_job x) \<and> oj_parallelism (jr_job x) \<le> 10"
        using s set_remove_nth [of r "sy_runs s"] by (auto simp: ops_inv_def)
      then show ?thesis
        using s True OpsFinish end_job_ok [OF w(1) j, of svc env "jr_failed ?run"] w(2)
        by (simp add: e ops_step_def Let_def ops_inv_def)
    qed (use s OpsFinish in \<open>auto simp: e ops_step_def Let_def\<close>)
  qed
qed

interpretation ops: invariant_machine "ops_step svc" ops_inv
  by unfold_locales (rule ops_step_inv)

end
