(* ===== verification/Ops_Jobs.thy ===== *)
theory Ops_Jobs
  imports Ops_Machine
begin

text \<open>
  \<open>runJob\<close> under one schedule of its workers: as long as a worker is idle and an item is left it is
  taken, then the item that is longest in execution finishes. On a working database the job's row
  ends with the state its items call for.
\<close>

function drive_run :: "ops_svc \<Rightarrow> ops_env \<Rightarrow> job_run \<Rightarrow> ops_world \<Rightarrow> job_run \<times> ops_world" where
  "drive_run svc env r w =
     (if run_over r then (r, w)
      else if jr_todo r \<noteq> [] \<and> length (jr_busy r) < workers_of (jr_job r)
      then drive_run svc env (fst (run_take svc env r w)) (snd (run_take svc env r w))
      else drive_run svc env (fst (run_done svc env 0 r w)) (snd (run_done svc env 0 r w)))"
  by pat_completeness auto
termination
proof (relation "measure (\<lambda>(svc, env, r, w). work_left r)")
  show "wf (measure (\<lambda>(svc :: ops_svc, env :: ops_env, r, w :: ops_world). work_left r))" by simp
next
  fix svc :: ops_svc and env :: ops_env and r :: job_run and w :: ops_world
  assume "jr_todo r \<noteq> [] \<and> length (jr_busy r) < workers_of (jr_job r)"
  then show "((svc, env, fst (run_take svc env r w), snd (run_take svc env r w)), svc, env, r, w)
      \<in> measure (\<lambda>(svc, env, r, w). work_left r)"
    using run_take_work [of r svc env w] by (simp add: case_prod_beta)
next
  fix svc :: ops_svc and env :: ops_env and r :: job_run and w :: ops_world
  assume "\<not> run_over r" "\<not> (jr_todo r \<noteq> [] \<and> length (jr_busy r) < workers_of (jr_job r))"
  then have "0 < length (jr_busy r)" using run_progress [of r] by blast
  then show "((svc, env, fst (run_done svc env 0 r w), snd (run_done svc env 0 r w)), svc, env, r, w)
      \<in> measure (\<lambda>(svc, env, r, w). work_left r)"
    using run_done_work [of 0 r svc env w] by (simp add: case_prod_beta)
qed

declare drive_run.simps [simp del]

definition run_job :: "ops_svc \<Rightarrow> ops_env \<Rightarrow> ops_job \<Rightarrow> ops_world \<Rightarrow> ops_world" where
  "run_job svc env job w =
     (case start_job svc env job w of
        (None, w1) \<Rightarrow> w1
      | (Some items, w1) \<Rightarrow>
          (case drive_run svc env (new_run job items) w1 of
             (r, w2) \<Rightarrow> end_job svc env job (jr_failed r) w2))"

text \<open>A property of a run and the world that taking and finishing items keep holds at the end.\<close>

lemma drive_run_inv:
  assumes "I r w"
    and "\<And>r w. I r w \<Longrightarrow> jr_todo r \<noteq> [] \<Longrightarrow> length (jr_busy r) < workers_of (jr_job r) \<Longrightarrow>
           I (fst (run_take svc env r w)) (snd (run_take svc env r w))"
    and "\<And>r w. I r w \<Longrightarrow> jr_busy r \<noteq> [] \<Longrightarrow> I (fst (run_done svc env 0 r w)) (snd (run_done svc env 0 r w))"
  shows "I (fst (drive_run svc env r w)) (snd (drive_run svc env r w)) \<and> run_over (fst (drive_run svc env r w))"
  using assms(1)
proof (induction "work_left r" arbitrary: r w rule: less_induct)
  case less
  show ?case
  proof (cases "run_over r")
    case True
    then show ?thesis using less.prems by (simp add: drive_run.simps [of svc env r w])
  next
    case over: False
    show ?thesis
    proof (cases "jr_todo r \<noteq> [] \<and> length (jr_busy r) < workers_of (jr_job r)")
      case True
      then have eq: "drive_run svc env r w = drive_run svc env (fst (run_take svc env r w)) (snd (run_take svc env r w))"
        using over by (subst drive_run.simps) simp
      show ?thesis unfolding eq
        by (rule less.hyps) (use True run_take_work [of r svc env w] assms(2) [OF less.prems] in simp_all)
    next
      case False
      then have b: "jr_busy r \<noteq> []" using run_progress [OF over] by auto
      have eq: "drive_run svc env r w = drive_run svc env (fst (run_done svc env 0 r w)) (snd (run_done svc env 0 r w))"
        using over False by (subst drive_run.simps) auto
      show ?thesis unfolding eq
        by (rule less.hyps) (use b run_done_work [of 0 r svc env w] assms(3) [OF less.prems] in simp_all)
    qed
  qed
qed

section \<open>The rows of a run on a working database\<close>

definition healthy_ops :: "ops_env \<Rightarrow> bool" where
  "healthy_ops env \<longleftrightarrow> (\<forall>n. \<not> oe_db_fail env n) \<and> \<not> oe_cancelled env"

lemma healthy_stmt [simp]: "healthy_ops env \<Longrightarrow> \<not> stmt_fails env w"
  by (simp add: healthy_ops_def stmt_fails_def)

text \<open>The items of a run have rows, the finished ones rows in the state they are recorded with.\<close>

definition item_status_is :: "string \<Rightarrow> ops_item \<Rightarrow> ops_world \<Rightarrow> bool" where
  "item_status_is st i w \<longleftrightarrow> (\<exists>r. row_get oi_id (oi_id i) (o_items w) = Some r \<and> oi_status r = st)"

definition has_row :: "ops_item \<Rightarrow> ops_world \<Rightarrow> bool" where
  "has_row i w \<longleftrightarrow> (\<exists>r. row_get oi_id (oi_id i) (o_items w) = Some r)"

definition ended_ok :: "ops_world \<Rightarrow> ops_item \<times> bool \<Rightarrow> bool" where
  "ended_ok w d \<longleftrightarrow> item_status_is (if snd d then job_failed else job_success) (fst d) w"

definition rows_ok :: "job_run \<Rightarrow> ops_world \<Rightarrow> bool" where
  "rows_ok r w \<longleftrightarrow> run_ok r \<and> distinct (map oi_id (jr_items r)) \<and>
     (\<forall>i \<in> set (jr_items r). has_row i w) \<and>
     (\<forall>d \<in> set (jr_done r). ended_ok w d)"

lemma row_upd_has:
  assumes "\<And>r. oi_id (f r) = oi_id r" and "o_items w' = row_upd oi_id k f (o_items w)"
  shows "has_row i w' = has_row i w" and "oi_id i \<noteq> k \<Longrightarrow> item_status_is st i w' = item_status_is st i w"
  using assms by (simp_all add: has_row_def item_status_is_def row_upd_get)

lemma run_parts:
  assumes "run_ok r" "distinct (map oi_id (jr_items r))"
  shows "distinct (map oi_id (jr_todo r) @ map (\<lambda>b. oi_id (fst b)) (jr_busy r) @ map (\<lambda>d. oi_id (fst d)) (jr_done r))"
    and "set (jr_items r) = set (jr_todo r) \<union> fst ` set (jr_busy r) \<union> fst ` set (jr_done r)"
proof -
  have m: "mset (jr_items r) = mset (jr_todo r @ map fst (jr_busy r) @ map fst (jr_done r))"
    using assms(1) by (simp add: run_ok_def)
  from arg_cong [OF this, of "image_mset oi_id"]
  have "mset (map oi_id (jr_items r)) =
      mset (map oi_id (jr_todo r) @ map (\<lambda>b. oi_id (fst b)) (jr_busy r) @ map (\<lambda>d. oi_id (fst d)) (jr_done r))"
    by (simp add: multiset.map_comp comp_def)
  then show "distinct (map oi_id (jr_todo r) @ map (\<lambda>b. oi_id (fst b)) (jr_busy r) @ map (\<lambda>d. oi_id (fst d)) (jr_done r))"
    using assms(2) mset_eq_imp_distinct_iff by blast
  from mset_eq_setD [OF m] show "set (jr_items r) = set (jr_todo r) \<union> fst ` set (jr_busy r) \<union> fst ` set (jr_done r)"
    by auto
qed

text \<open>An item that is taken or in execution is none of the finished ones.\<close>

lemma run_parts_ne:
  assumes "run_ok r" "distinct (map oi_id (jr_items r))" "(j, f) \<in> set (jr_done r)"
    and "i \<in> set (jr_todo r) \<or> i \<in> fst ` set (jr_busy r)"
  shows "oi_id j \<noteq> oi_id i"
proof -
  let ?A = "map oi_id (jr_todo r)" and ?B = "map (\<lambda>b. oi_id (fst b)) (jr_busy r)"
    and ?C = "map (\<lambda>d. oi_id (fst d)) (jr_done r)"
  have "oi_id j = (\<lambda>d. oi_id (fst d)) (j, f)" by simp
  then have C: "oi_id j \<in> set ?C" using assms(3) unfolding set_map by (rule image_eqI)
  have D: "set ?A \<inter> set ?C = {}" "set ?B \<inter> set ?C = {}"
    using run_parts(1) [OF assms(1,2)] by (simp_all only: distinct_append set_append Int_Un_distrib Un_empty)
  from assms(4) show ?thesis
  proof
    assume "i \<in> set (jr_todo r)"
    then have "oi_id i \<in> set ?A" by simp
    with C D(1) show ?thesis by (metis disjoint_iff)
  next
    assume "i \<in> fst ` set (jr_busy r)"
    then have "oi_id i \<in> set ?B" by auto
    with C D(2) show ?thesis by (metis disjoint_iff)
  qed
qed

lemma rows_ok_take:
  assumes "rows_ok r w" "jr_todo r \<noteq> []" "length (jr_busy r) < workers_of (jr_job r)" "healthy_ops env"
  shows "rows_ok (fst (run_take svc env r w)) (snd (run_take svc env r w))"
proof -
  obtain i todo where t: "jr_todo r = i # todo" using assms(2) by (cases "jr_todo r") auto
  let ?r = "r\<lparr>jr_todo := todo, jr_busy := jr_busy r @ [(i, oe_now env)]\<rparr>"
  let ?w = "begin_item svc env (jr_job r) i w"
  have eq: "run_take svc env r w = (?r, ?w)" using t assms(3) by (simp add: run_take_def)
  have r: "run_ok r" "distinct (map oi_id (jr_items r))" using assms(1) by (auto simp: rows_ok_def)
  have items: "o_items ?w = row_upd oi_id (oi_id i) (begun (oe_now env)) (o_items w)"
    using assms(4) by (simp add: opsframe)
  note u = row_upd_has [OF _ items, simplified]
  have ne: "oi_id (fst d) \<noteq> oi_id i" if "d \<in> set (jr_done r)" for d
    by (rule run_parts_ne [OF r, of "fst d" "snd d"]) (simp_all add: t that)
  have ok: "run_ok ?r" using run_take_ok [OF r(1), of svc env w] eq by simp
  have rows: "\<forall>j \<in> set (jr_items ?r). has_row j ?w" using assms(1) u(1) by (simp add: rows_ok_def)
  have fin: "ended_ok ?w d" if "d \<in> set (jr_done r)" for d
    using assms(1) that u(2) [OF ne [OF that]] by (simp add: rows_ok_def ended_ok_def)
  show ?thesis unfolding eq fst_conv snd_conv rows_ok_def
    using ok rows r(2) fin by simp
qed

lemma rows_ok_done:
  assumes "rows_ok r w" "jr_busy r \<noteq> []" "healthy_ops env"
  shows "rows_ok (fst (run_done svc env 0 r w)) (snd (run_done svc env 0 r w))"
proof -
  obtain i t bs where b: "jr_busy r = (i, t) # bs" using assms(2) by (cases "jr_busy r") auto
  obtain st l c err where e: "fst (end_item svc env (jr_job r) i t w) = err" "outcome_ok (Outcome st l c err)"
    "o_items (snd (end_item svc env (jr_job r) i t w)) = row_upd oi_id (oi_id i) (finished (oe_now env) st l c err) (o_items w)"
    by (rule end_item_rows [of svc env "jr_job r" i t w]) (use assms(3) in simp)
  let ?r = "fst (run_done svc env 0 r w)" and ?w = "snd (run_done svc env 0 r w)"
  have eq: "jr_items ?r = jr_items r" "jr_done ?r = jr_done r @ [(i, err \<noteq> None)]"
    "?w = snd (end_item svc env (jr_job r) i t w)"
    using b e(1) by (auto simp: run_done_def split: prod.splits)
  have r: "run_ok r" "distinct (map oi_id (jr_items r))" using assms(1) by (auto simp: rows_ok_def)
  have items: "o_items ?w = row_upd oi_id (oi_id i) (finished (oe_now env) st l c err) (o_items w)"
    using e(3) eq(3) by simp
  note u = row_upd_has [OF _ items, simplified]
  have ne: "oi_id (fst d) \<noteq> oi_id i" if "d \<in> set (jr_done r)" for d
    by (rule run_parts_ne [OF r, of "fst d" "snd d"]) (simp_all add: b that)
  have "i \<in> set (jr_items r)" using run_parts(2) [OF r] b by auto
  then have "has_row i w" using assms(1) by (simp add: rows_ok_def)
  then have "item_status_is st i ?w" unfolding has_row_def item_status_is_def items by (auto simp: row_upd_get)
  moreover have "st = (if err \<noteq> None then job_failed else job_success)" using e(2) by auto
  ultimately have new: "ended_ok ?w (i, err \<noteq> None)" by (simp add: ended_ok_def)
  have old: "ended_ok ?w d" if "d \<in> set (jr_done r)" for d
    using assms(1) that u(2) [OF ne [OF that]] by (simp add: rows_ok_def ended_ok_def)
  have "\<forall>d \<in> set (jr_done ?r). ended_ok ?w d"
    using old new unfolding eq(2) by simp
  moreover have "\<forall>j \<in> set (jr_items ?r). has_row j ?w" using assms(1) u(1) by (simp add: rows_ok_def eq(1))
  moreover have "distinct (map oi_id (jr_items ?r))" using r(2) by (simp add: eq(1))
  ultimately show ?thesis using run_done_ok [OF r(1), of svc env 0 w] unfolding rows_ok_def by blast
qed

lemma run_take_jobs: "o_jobs (snd (run_take svc env r w)) = o_jobs w"
  by (simp add: run_take_def opsframe split: list.split)

lemma run_done_jobs: "o_jobs (snd (run_done svc env k r w)) = o_jobs w"
proof (cases "k < length (jr_busy r)")
  case True
  obtain item t where b: "jr_busy r ! k = (item, t)" by fastforce
  have "snd (run_done svc env k r w) = snd (end_item svc env (jr_job r) item t w)"
    using True b by (simp add: run_done_def split: prod.split)
  then show ?thesis by (simp add: end_item_frame)
qed (simp add: run_done_def)

lemma drive_run_jobs: "o_jobs (snd (drive_run svc env r w)) = o_jobs w"
proof -
  have "o_jobs (snd (drive_run svc env r w)) = o_jobs w \<and> run_over (fst (drive_run svc env r w))"
    by (rule drive_run_inv [where I = "\<lambda>r v. o_jobs v = o_jobs w"])
       (simp_all add: run_take_jobs run_done_jobs)
  then show ?thesis by simp
qed

text \<open>The job and all its items end; the job is a success exactly when every item is.\<close>

lemma run_job_ends:
  assumes "healthy_ops env" "keyed oj_id (o_jobs w)" "keyed oi_id (o_items w)"
    and "row_get oj_id (oj_id job) (o_jobs w) = Some j0"
    and "items = filter (\<lambda>i. oi_job_id i = oj_id job \<and> oi_status i = job_queued) (o_items w)" "items \<noteq> []"
  obtains j' where "row_get oj_id (oj_id job) (o_jobs (run_job svc env job w)) = Some j'"
    "oj_finished_at j' = Some (oe_now env)"
    "\<forall>i \<in> set items. item_status_is job_success i (run_job svc env job w) \<or> item_status_is job_failed i (run_job svc env job w)"
    "oj_status j' = (if \<forall>i \<in> set items. item_status_is job_success i (run_job svc env job w) then job_success else job_failed)"
proof -
  let ?w1 = "o_tick w"
  have s: "start_job svc env job w = (Some items, ?w1)"
    using assms(1,5,6) by (simp add: start_job_def o_query_def)
  obtain r w2 where d: "drive_run svc env (new_run job items) ?w1 = (r, w2)" by fastforce
  have keyed: "distinct (map oi_id items)"
    using assms(3,5) by (simp add: keyed_def distinct_map_filter)
  have "has_row i ?w1" if "i \<in> set items" for i
    using row_get_keyed [OF assms(3)] that assms(5) by (auto simp: has_row_def opsframe)
  then have "rows_ok (new_run job items) ?w1"
    using new_run_ok keyed by (simp add: rows_ok_def new_run_def)
  then have "rows_ok (fst (drive_run svc env (new_run job items) ?w1)) (snd (drive_run svc env (new_run job items) ?w1)) \<and>
      run_over (fst (drive_run svc env (new_run job items) ?w1))"
    by (rule drive_run_inv) (auto intro: rows_ok_take rows_ok_done assms(1))
  then have r: "rows_ok r w2" "run_over r" using d by simp_all
  have it: "jr_items r = items"
  proof -
    have "jr_items (fst (drive_run svc env (new_run job items) ?w1)) = items \<and>
        run_over (fst (drive_run svc env (new_run job items) ?w1))"
      by (rule drive_run_inv [where I = "\<lambda>r v. jr_items r = items"])
         (auto simp: new_run_def run_take_def run_done_def split: list.split prod.split)
    then show ?thesis using d by simp
  qed
  let ?w' = "run_job svc env job w"
  have fin: "?w' = end_job svc env job (jr_failed r) w2" by (simp add: run_job_def s d)
  obtain sts msg where msg: "job_status_from_failures (jr_failed r) = (sts, msg)" by fastforce
  let ?j = "job\<lparr>oj_status := sts, oj_error := msg, oj_finished_at := Some (oe_now env)\<rparr>"
  have rows: "o_jobs ?w' = row_upd oj_id (oj_id job) (\<lambda>r. ?j) (o_jobs w2)" "o_items ?w' = o_items w2"
    unfolding fin end_job_def msg prod.case
    using assms(1) by (simp_all add: finish_job_def Let_def opsframe o_exec_ignore_eq)
  have "o_jobs w2 = o_jobs w" using drive_run_jobs [of svc env "new_run job items" ?w1] d by (simp add: opsframe)
  then have j': "row_get oj_id (oj_id job) (o_jobs ?w') = Some ?j"
    using assms(4) rows(1) by (simp add: row_upd_get)
  have st: "item_status_is st i ?w' = item_status_is st i w2" for st i by (simp add: item_status_is_def rows(2))
  have ok: "run_ok r" using r(1) by (simp add: rows_ok_def)
  have "set items = fst ` set (jr_done r)"
    using run_parts(2) [OF ok] r it by (simp add: rows_ok_def run_over_def)
  then have each: "\<exists>f. (i, f) \<in> set (jr_done r)" if "i \<in> set items" for i using that by force
  have ended: "(i, f) \<in> set (jr_done r) \<Longrightarrow> item_status_is (if f then job_failed else job_success) i ?w'" for i f
  proof -
    assume "(i, f) \<in> set (jr_done r)"
    with r(1) have "ended_ok w2 (i, f)" by (simp add: rows_ok_def)
    then show ?thesis using st by (simp add: ended_ok_def)
  qed
  have excl: "\<not> (item_status_is job_success i v \<and> item_status_is job_failed i v)" for i v
    by (auto simp: item_status_is_def job_status_defs)
  have all: "(\<forall>i \<in> set items. item_status_is job_success i ?w') \<longleftrightarrow> jr_failed r = 0"
  proof
    assume a: "\<forall>i \<in> set items. item_status_is job_success i ?w'"
    have "\<not> f" if "(i, f) \<in> set (jr_done r)" for i f
    proof
      assume f
      then have "item_status_is job_failed i ?w'" using ended [OF that] by simp
      moreover have "i \<in> set items" using \<open>set items = fst ` set (jr_done r)\<close> that by force
      ultimately show False using a excl by blast
    qed
    then have "\<not> snd d" if "d \<in> set (jr_done r)" for d using that by (metis prod.collapse)
    then have "filter snd (jr_done r) = []" by (simp add: filter_empty_conv)
    then show "jr_failed r = 0" using ok by (simp add: run_ok_def)
  next
    assume "jr_failed r = 0"
    then have "filter snd (jr_done r) = []" using ok by (simp add: run_ok_def)
    then have nf: "\<not> f" if "(i, f) \<in> set (jr_done r)" for i f using that by (auto simp: filter_empty_conv)
    show "\<forall>i \<in> set items. item_status_is job_success i ?w'"
    proof
      fix i assume "i \<in> set items"
      then obtain f where f: "(i, f) \<in> set (jr_done r)" using each by blast
      with ended [OF f] nf [OF f] show "item_status_is job_success i ?w'" by simp
    qed
  qed
  show ?thesis
  proof (rule that [OF j'])
    show "\<forall>i \<in> set items. item_status_is job_success i ?w' \<or> item_status_is job_failed i ?w'"
      using each ended by (metis (full_types))
    show "oj_status ?j = (if \<forall>i \<in> set items. item_status_is job_success i ?w' then job_success else job_failed)"
      unfolding all using msg by (auto simp: job_status_from_failures_def split: if_splits)
  qed simp
qed

text \<open>
  What executions leave behind: the events they publish and the calls of executors they make.
\<close>

section \<open>Events and calls\<close>

definition call_node :: "exec_call \<Rightarrow> node" where
  "call_node c =
     (case c of CallReboot n \<Rightarrow> n | CallUpdate n p \<Rightarrow> n | CallDeploy n p \<Rightarrow> n | CallInstallVLF n p \<Rightarrow> n
      | CallInstallRemna n p \<Rightarrow> n | CallRunRemna n p \<Rightarrow> n | CallProbe n p \<Rightarrow> n | AgentUpdate n p \<Rightarrow> n
      | AgentReboot n s \<Rightarrow> n | AgentRestart n s \<Rightarrow> n)"

definition done_event :: "string \<Rightarrow> string \<times> event \<Rightarrow> bool" where
  "done_event i e \<longleftrightarrow> ev_type (snd e) = event_item_done \<and> map_of (ev_data (snd e)) ''item_id'' = Some (EvStr i)"

text \<open>No call of an executor, and no event that an item is done.\<close>

definition quiet :: "ops_world \<Rightarrow> ops_world \<Rightarrow> bool" where
  "quiet w w' \<longleftrightarrow> o_calls w' = o_calls w \<and> filter (\<lambda>e. ev_type (snd e) = event_item_done) (o_events w') =
     filter (\<lambda>e. ev_type (snd e) = event_item_done) (o_events w)"

lemma quiet_refl [simp]: "quiet w w"
  by (simp add: quiet_def)

lemma quiet_trans [trans]: "quiet u v \<Longrightarrow> quiet v w \<Longrightarrow> quiet u w"
  by (simp add: quiet_def)

lemma quiet_done: "quiet w w' \<Longrightarrow> filter (done_event i) (o_events w') = filter (done_event i) (o_events w)"
proof -
  assume "quiet w w'"
  then have "filter (done_event i) (filter (\<lambda>e. ev_type (snd e) = event_item_done) (o_events w')) =
      filter (done_event i) (filter (\<lambda>e. ev_type (snd e) = event_item_done) (o_events w))" by (simp add: quiet_def)
  moreover have "done_event i = (\<lambda>e. done_event i e \<and> ev_type (snd e) = event_item_done)" by (auto simp: done_event_def)
  ultimately show ?thesis by (metis (no_types, lifting) filter_filter filter_cong)
qed

lemma event_types [simp]:
  "event_item_status \<noteq> event_item_done" "event_job_status \<noteq> event_item_done" "event_item_log_append \<noteq> event_item_done"
  by (simp_all add: event_item_status_def event_job_status_def event_item_log_append_def event_item_done_def)

lemma quiet_writes [simp]:
  "quiet w (o_tick v) = quiet w v" "quiet w (save_job j v) = quiet w v" "quiet w (upd_item i f v) = quiet w v"
  "quiet w (upd_node n g v) = quiet w v" "quiet w (put_metrics n t x v) = quiet w v"
  by (simp_all add: quiet_def o_tick_def save_job_def upd_item_def upd_node_def put_metrics_def split: option.split)

lemma quiet_publish [simp]:
  "quiet w (publish_job_status svc env j v) = quiet w v" "quiet w (publish_item_status svc env jb i n st a b v) = quiet w v"
  "quiet w (publish_item_stage svc env jb i n sg v) = quiet w v" "quiet w (publish_item_log svc env jb i n ch v) = quiet w v"
  by (simp_all add: quiet_def publish_job_status_def publish_item_status_def publish_item_stage_def
      publish_item_log_def hub_publish_def Let_def new_event_def)

lemma quiet_exec: "(\<And>v. quiet w (f v) = quiet w v) \<Longrightarrow> quiet w (snd (o_exec env f v)) = quiet w v"
  by (simp add: o_exec_def)

lemma quiet_ignore: "(\<And>v. quiet w (f v) = quiet w v) \<Longrightarrow> quiet w (o_exec_ignore env f v) = quiet w v"
  by (simp add: o_exec_ignore_def quiet_exec)

lemma quiet_persist:
  "quiet w (snd (persist_agent_settings svc env n p v)) = quiet w v"
  "quiet w (snd (persist_agent_contact svc env i t x v)) = quiet w v"
  by (simp_all add: persist_agent_settings_def persist_agent_contact_def Let_def quiet_exec split: sum.split)

lemma quiet_version: "quiet w (snd (persist_panel_version svc env i x v)) = quiet w v"
  using quiet_exec [of w "upd_node i g" env for g] quiet_exec [of w "put_metrics i t x'" env for t x']
  by (simp add: persist_panel_version_def split: prod.split option.split) (metis quiet_writes(4,5) snd_conv)

lemma quiet_store: "quiet w (snd (store_version svc env job n out err v)) = quiet w v"
  using quiet_version [of w svc env "n_id n" "parse_panel_version out" v]
  by (auto simp: store_version_def Let_def split: prod.split option.split)

lemma quiet_wait: "quiet w (snd (wait_first_contact svc env j i n p v)) = quiet w v"
  by (simp add: wait_first_contact_def Let_def quiet_persist split: contact.split)

lemma quiet_same: "same_rows w w' \<Longrightarrow> quiet w w'"
  by (simp add: quiet_def same_rows_def)

lemma begin_item_quiet: "quiet w (begin_item svc env job item w)"
  by (simp add: begin_item_def quiet_ignore)

section \<open>One execution\<close>

text \<open>The calls that one execution adds: at most one, to the node.\<close>

definition calls_added :: "node \<Rightarrow> ops_world \<Rightarrow> (duration \<times> exec_call) list \<Rightarrow> ops_world \<Rightarrow> bool" where
  "calls_added n w cs w' \<longleftrightarrow> (\<exists>v. quiet w v \<and> quiet (v\<lparr>o_calls := o_calls v @ cs\<rparr>) w') \<and>
     length cs \<le> 1 \<and> (\<forall>c \<in> set cs. call_node (snd c) = n)"

lemma calls_added_none: "quiet w w' \<Longrightarrow> calls_added n w [] w'"
  by (auto simp: calls_added_def)

lemma calls_added_quiet: "calls_added n w cs v \<Longrightarrow> quiet v w' \<Longrightarrow> calls_added n w cs w'"
  by (auto simp: calls_added_def intro: quiet_trans)

lemma do_exec_added: "call_node c = n \<Longrightarrow> calls_added n w [(t, c)] (snd (do_exec env t c w))"
  by (auto simp: calls_added_def do_exec_def intro!: exI [where x = w])

lemma run_deploy_added: "\<exists>cs. calls_added n w cs (snd (run_deploy svc env job item n t w))"
proof (cases "build_deploy_params svc env n (oj_params job)")
  case (Inl e)
  then show ?thesis by (intro exI [where x = "[]"]) (simp add: run_deploy_def calls_added_none)
next
  case (Inr p)
  obtain out code err w1 where 1: "do_exec env t (CallDeploy n p) w = ((out, code, err), w1)"
    by (metis prod.collapse)
  obtain info werr w2 where 2: "wait_first_contact svc env (oj_id job) (oi_id item) (oi_node_id item) p w1 = ((info, werr), w2)"
    by (metis prod.collapse)
  have a: "calls_added n w [(t, CallDeploy n p)] w1" using do_exec_added [of "CallDeploy n p" n w t env] 1 by (simp add: call_node_def)
  have q2: "quiet w1 w2" using quiet_wait [of w1 svc env "oj_id job" "oi_id item" "oi_node_id item" p w1] 2 by simp
  have p: "quiet w1 (snd (case persist_agent_settings svc env n p v of (None, w3) \<Rightarrow> ((x, y, None), w3) | (Some e, w3) \<Rightarrow> ((x, z, Some e), w3)))"
    if "quiet w1 v" for v and x :: string and y z :: int
    using quiet_persist(1) [of w1 svc env n p v] that by (cases "persist_agent_settings svc env n p v"; auto split: option.split)+
  have "quiet w1 (snd (run_deploy svc env job item n t w))"
    unfolding run_deploy_def Inr sum.case 1 prod.case Let_def
    by (cases "err = None \<and> dp_health_check p") (simp_all add: 2 p q2)
  then show ?thesis using calls_added_quiet [OF a] by blast
qed

text \<open>A job whose executions call an executor whenever they succeed: agents may be installed already, nodes without
  an agent are skipped, and a dry run calls nobody.\<close>

definition must_call :: "ops_job \<Rightarrow> bool" where
  "must_call j \<longleftrightarrow> \<not> jp_dry_run (parse_job_params (oj_params j)) \<and> oj_type j \<noteq> jt_update_svc \<and> oj_type j \<noteq> jt_deploy"

lemma jt_ne: "jt_reboot \<noteq> jt_deploy" "jt_update \<noteq> jt_deploy" "jt_update_svc \<noteq> jt_deploy" "jt_reboot_agent \<noteq> jt_deploy"
  "jt_restart_svc \<noteq> jt_deploy"
  by (simp_all add: jt_reboot_def jt_deploy_def jt_update_def jt_update_svc_def jt_reboot_agent_def jt_restart_svc_def)

definition call_made :: "ops_job \<Rightarrow> node \<Rightarrow> ops_world \<Rightarrow> (string \<times> int \<times> goerr option) \<times> ops_world \<Rightarrow> bool" where
  "call_made job n w r \<longleftrightarrow> (\<exists>cs. calls_added n w cs (snd r) \<and> (oj_type job \<noteq> jt_deploy \<and> snd (snd (fst r)) = None \<longrightarrow> cs \<noteq> []))"

lemma call_made_if: "(b \<Longrightarrow> call_made job n w x) \<Longrightarrow> (\<not> b \<Longrightarrow> call_made job n w y) \<Longrightarrow> call_made job n w (if b then x else y)"
  by simp

lemma do_exec_made: "call_node c = n \<Longrightarrow> call_made job n w (do_exec env t c w)"
  unfolding call_made_def using do_exec_added by blast

lemma run_call_made: "call_made job n w (run_call svc env job item n w)"
proof -
  have d: "call_made job n w (run_deploy svc env job item n t w)" if "oj_type job = jt_deploy" for t
    using run_deploy_added that by (auto simp: call_made_def)
  have z: "call_made job n w (([], 1, Some e), w)" for e
    unfolding call_made_def by (rule exI [where x = "[]"]) (simp add: calls_added_none)
  show ?thesis
    unfolding run_call_def Let_def by (intro call_made_if do_exec_made d z) (simp_all add: call_node_def)
qed

text \<open>What the outcome of an item adds.\<close>

definition exec_made :: "ops_job \<Rightarrow> ops_item \<Rightarrow> ops_world \<Rightarrow> string \<Rightarrow> ops_world \<Rightarrow> bool" where
  "exec_made job item w st w' \<longleftrightarrow>
     (\<exists>n cs. n_id n = oi_node_id item \<and> calls_added n w cs w' \<and> (must_call job \<and> st = job_success \<longrightarrow> cs \<noteq> []))"

lemma load_node_id: "load_node env i w = (Inr n, w') \<Longrightarrow> n_id n = i"
  using row_get_SomeD by (fastforce simp: load_node_def o_query_def split: option.splits if_splits)

lemma exec_made_none: "quiet w w' \<Longrightarrow> \<not> (must_call job \<and> st = job_success) \<Longrightarrow> exec_made job item w st w'"
proof -
  assume q: "quiet w w'" "\<not> (must_call job \<and> st = job_success)"
  obtain n :: node where "n_id n = oi_node_id item" by (metis node.select_convs(1))
  with q show ?thesis unfolding exec_made_def by (intro exI [where x = n] exI [where x = "[]"]) (simp add: calls_added_none)
qed

lemma item_outcome_made:
  assumes "item_outcome svc env job item w = (Outcome st l c err, w')"
  shows "exec_made job item w st w'"
proof -
  let ?p = "parse_job_params (oj_params job)"
  consider (dry) "jp_dry_run ?p" | (miss) e where "\<not> jp_dry_run ?p" "fst (load_node env (oi_node_id item) w) = Inl e"
    | (node) n where "\<not> jp_dry_run ?p" "fst (load_node env (oi_node_id item) w) = Inr n"
    by (cases "fst (load_node env (oi_node_id item) w)") auto
  then show ?thesis
  proof cases
    case dry
    then have "w' = w" "\<not> must_call job"
      using assms by (cases "oe_cancelled env"; simp add: item_outcome_def Let_def must_call_def)+
    then show ?thesis by (simp add: exec_made_none)
  next
    case miss
    obtain v where "load_node env (oi_node_id item) w = (Inl e, v)" using miss(2) by (metis prod.collapse)
    moreover from this have "v = o_tick w" using load_node_frame [of env "oi_node_id item" w] by simp
    ultimately have "w' = o_tick w" "st = job_failed" using assms miss(1) by (auto simp: item_outcome_def Let_def)
    then show ?thesis by (intro exec_made_none) (simp_all add: job_status_defs)
  next
    case node
    have l: "load_node env (oi_node_id item) w = (Inr n, o_tick w)"
      using node(2) load_node_frame [of env "oi_node_id item" w] by (metis prod.collapse)
    obtain installed details perr where pr: "(if oj_type job = jt_deploy then probe_agent_installed env n (jp_agent_port ?p)
        else (False, [], None)) = (installed, details, perr)"
      by (metis prod.collapse)
    show ?thesis
    proof (cases "oj_type job = jt_update_svc \<and> (\<not> n_agent_enabled n \<or> \<not> n_agent_installed n) \<or>
        installed \<and> \<not> jp_force_redeploy ?p \<and> \<not> jp_install_docker ?p")
      case True
      then have "w' = o_tick w"
        using assms unfolding item_outcome_def Let_def by (auto simp: node(1) l pr split: if_splits)
      moreover have "\<not> must_call job" using True pr by (auto simp: must_call_def split: if_splits)
      ultimately show ?thesis by (simp add: exec_made_none)
    next
      case False
      obtain out code e w2 where 2: "run_call svc env job item n (o_tick w) = ((out, code, e), w2)" by (rule outcome_split)
      obtain out1 w3 where 3: "store_version svc env job n out e w2 = (out1, w3)" by fastforce
      have "item_outcome svc env job item w =
        (case e of
           Some x \<Rightarrow> (Outcome job_failed (if trim_space (trim_log out1 4096 16384) = [] then err_text x
                                           else trim_log out1 4096 16384) code (Some x), w3)
         | None \<Rightarrow> (Outcome job_success (trim_log out1 4096 16384) code None, w3))"
        by (rule item_outcome_run [OF node(1) l _ pr _ 2 3]) (use False in auto)
      then have r: "w' = w3" "st = job_success \<Longrightarrow> e = None"
        using assms by (auto simp: job_status_defs split: option.splits)
      obtain cs where cs: "calls_added n (o_tick w) cs w2" "oj_type job \<noteq> jt_deploy \<Longrightarrow> e = None \<Longrightarrow> cs \<noteq> []"
        using run_call_made [of job n "o_tick w" svc env item] by (auto simp: call_made_def 2)
      have "quiet w2 w3" using quiet_store [of w2 svc env job n out e w2] 3 by simp
      then have "calls_added n (o_tick w) cs w3" by (rule calls_added_quiet [OF cs(1)])
      moreover have "quiet w (o_tick w)" by simp
      ultimately have "calls_added n w cs w3" unfolding calls_added_def by (meson quiet_trans)
      then show ?thesis
        unfolding exec_made_def using load_node_id [OF l] r cs(2) by (intro exI [where x = n] exI [where x = cs]) (auto simp: must_call_def)
    qed
  qed
qed

text \<open>The whole of an execution's second part on a working database.\<close>

definition ops_up :: "(uuid \<Rightarrow> string) \<Rightarrow> ops_env \<Rightarrow> bool" where
  "ops_up str env \<longleftrightarrow> healthy_ops env \<and> oe_uuid_str env = str"

lemma end_item_effect:
  assumes e: "end_item svc env job item t w = (err, w')" and up: "ops_up str env" and hub: "osv_has_hub svc"
  obtains st l c cs n where "outcome_ok (Outcome st l c err)" "o_jobs w' = o_jobs w"
    "o_items w' = row_upd oi_id (oi_id item) (finished (oe_now env) st l c err) (o_items w)"
    "o_calls w' = o_calls w @ cs" "length cs \<le> 1" "n_id n = oi_node_id item" "\<forall>c \<in> set cs. call_node (snd c) = n"
    "must_call job \<and> st = job_success \<longrightarrow> cs \<noteq> []"
    "\<forall>i. length (filter (done_event i) (o_events w')) =
       length (filter (done_event i) (o_events w)) + (if i = str (oi_id item) then 1 else 0)"
proof -
  obtain oc w1 where 1: "item_outcome svc env job item w = (oc, w1)" by fastforce
  obtain st l c err' where oc: "oc = Outcome st l c err'" by (cases oc)
  have r: "err = err'" "w' = finish_item svc env job item st l c t err w1" using e by (auto simp: end_item_def 1 oc)
  obtain n cs where m: "n_id n = oi_node_id item" "calls_added n w cs w1" "must_call job \<and> st = job_success \<longrightarrow> cs \<noteq> []"
    using item_outcome_made [OF 1 [unfolded oc]] by (auto simp: exec_made_def)
  obtain v where v: "quiet w v" "quiet (v\<lparr>o_calls := o_calls v @ cs\<rparr>) w1" "length cs \<le> 1" "\<forall>c \<in> set cs. call_node (snd c) = n"
    using m(2) by (auto simp: calls_added_def)
  have ev1: "filter (done_event i) (o_events w1) = filter (done_event i) (o_events w)" for i
    using quiet_done [OF v(1), of i] quiet_done [OF v(2), of i] by simp
  let ?u = "publish_item_status svc env (oj_id job) (oi_id item) (oi_node_id item) st (Some t) (Some (oe_now env))
    (let w1 = o_exec_ignore env (upd_item (oi_id item) (finished (oe_now env) st l c err)) w1
     in if l \<noteq> [] then publish_item_log svc env (oj_id job) (oi_id item) (oi_node_id item) l w1 else w1)"
  have w': "w' = publish_item_done svc env (oj_id job) (oi_id item) (oi_node_id item) st c err ?u"
    unfolding r(2) finish_item_def Let_def finished_def [abs_def] ..
  have "quiet w1 ?u" by (simp add: Let_def quiet_ignore)
  then have u: "filter (done_event i) (o_events ?u) = filter (done_event i) (o_events w)" for i
    using quiet_done ev1 by metis
  have "o_events w' = o_events ?u @ [(str (oj_id job), new_event (oe_now env) (str (oj_id job)) event_item_done
       [(''node_id'', EvStr (str (oi_node_id item))), (''item_id'', EvStr (str (oi_id item))),
        (''status'', EvStr st), (''exit_code'', EvInt c),
        (''error'', (case err of None \<Rightarrow> EvNil | Some e \<Rightarrow> EvStr (err_text e)))])]"
    using hub up by (simp add: w' publish_item_done_def hub_publish_def Let_def ops_up_def)
  then have ev: "length (filter (done_event i) (o_events w')) =
       length (filter (done_event i) (o_events w)) + (if i = str (oi_id item) then 1 else 0)" for i
    using u [of i] by (simp add: done_event_def new_event_def)
  have it: "o_items w' = row_upd oi_id (oi_id item) (finished (oe_now env) st l c err) (o_items w)" "o_jobs w' = o_jobs w"
    using item_outcome_frame [of svc env job item w] up 1 r(2) by (simp_all add: opsframe ops_up_def)
  have "o_calls w' = o_calls w @ cs" using v(1,2) r(2) by (simp add: quiet_def opsframe)
  with it ev m(1,3) v(3,4) item_outcome_ok [of svc env job item w] show ?thesis
    by (intro that [of st l c cs n]) (simp_all add: 1 oc r(1))
qed

section \<open>Rows and counts\<close>

definition job_items :: "uuid \<Rightarrow> ops_world \<Rightarrow> ops_item list" where
  "job_items j w = filter (\<lambda>x. oi_job_id x = j) (o_items w)"

definition item_ended :: "ops_item \<Rightarrow> bool" where
  "item_ended x \<longleftrightarrow> oi_status x = job_success \<or> oi_status x = job_failed"

lemma count_row_upd:
  assumes "keyed key rows" and "row_get key k rows = Some r"
  shows "length (filter P (row_upd key k f rows)) + (if P r then 1 else 0) = length (filter P rows) + (if P (f r) then 1 else 0)"
  using assms
proof (induction rows)
  case (Cons x rows)
  show ?case
  proof (cases "key x = k")
    case True
    then have "k \<notin> key ` set rows" using Cons.prems(1) by (auto simp: keyed_def)
    from row_upd_absent [OF this] True Cons.prems(2) show ?thesis by (simp add: row_upd_def)
  next
    case False
    with Cons show ?thesis by (auto simp: row_upd_def keyed_def)
  qed
qed simp

lemma job_items_upd:
  assumes "\<And>x. oi_job_id (f x) = oi_job_id x" and "o_items w' = row_upd oi_id k f (o_items w)"
  shows "job_items j w' = row_upd oi_id k f (job_items j w)"
  unfolding job_items_def assms(2) row_upd_def filter_map o_def
  by (rule arg_cong [where f = "map (\<lambda>r. if oi_id r = k then f r else r)"], rule filter_cong) (simp_all add: assms(1))

lemma job_items_keyed: "keyed oi_id (o_items w) \<Longrightarrow> keyed oi_id (job_items j w)"
  by (simp add: job_items_def keyed_def distinct_map_filter)

lemma job_items_other:
  assumes "keyed oi_id (o_items w)" and "x \<in> set (job_items j w)" and "i \<noteq> j"
  shows "oi_id x \<notin> oi_id ` set (job_items i w)"
proof
  assume "oi_id x \<in> oi_id ` set (job_items i w)"
  then obtain y where y: "y \<in> set (o_items w)" "oi_job_id y = i" "oi_id y = oi_id x" by (auto simp: job_items_def)
  have "x \<in> set (o_items w)" "oi_job_id x = j" using assms(2) by (auto simp: job_items_def)
  then have "y = x" using y assms(1) unfolding keyed_def distinct_map by (metis inj_onD)
  with y(2) \<open>oi_job_id x = j\<close> assms(3) show False by simp
qed

definition calls_on :: "uuid \<Rightarrow> ops_world \<Rightarrow> nat" where
  "calls_on n w = length (filter (\<lambda>c. n_id (call_node (snd c)) = n) (o_calls w))"

definition ended_on :: "uuid set \<Rightarrow> uuid \<Rightarrow> ops_world \<Rightarrow> nat" where
  "ended_on old n w = length (filter (\<lambda>x. oi_node_id x = n \<and> item_ended x \<and> oi_job_id x \<notin> old) (o_items w))"

definition caller :: "uuid \<Rightarrow> ops_world \<Rightarrow> bool" where
  "caller i w \<longleftrightarrow> (\<exists>j \<in> set (o_jobs w). oj_id j = i \<and> must_call j)"

definition due_on :: "uuid set \<Rightarrow> uuid \<Rightarrow> ops_world \<Rightarrow> nat" where
  "due_on old n w =
     length (filter (\<lambda>x. oi_node_id x = n \<and> oi_status x = job_success \<and> oi_job_id x \<notin> old \<and> caller (oi_job_id x) w) (o_items w))"

definition done_events :: "(uuid \<Rightarrow> string) \<Rightarrow> uuid \<Rightarrow> ops_world \<Rightarrow> nat" where
  "done_events str i w = length (filter (done_event (str i)) (o_events w))"

definition ended_rows :: "uuid set \<Rightarrow> uuid \<Rightarrow> ops_world \<Rightarrow> nat" where
  "ended_rows old i w = length (filter (\<lambda>x. oi_id x = i \<and> item_ended x \<and> oi_job_id x \<notin> old) (o_items w))"

definition counts_ok :: "uuid set \<Rightarrow> (uuid \<Rightarrow> string) \<Rightarrow> ops_world \<Rightarrow> bool" where
  "counts_ok old str w \<longleftrightarrow>
     (\<forall>i. done_events str i w = ended_rows old i w) \<and> (\<forall>n. due_on old n w \<le> calls_on n w \<and> calls_on n w \<le> ended_on old n w)"

lemma quiet_calls: "quiet w w' \<Longrightarrow> calls_on n w' = calls_on n w"
  by (simp add: quiet_def calls_on_def)

lemma quiet_events: "quiet w w' \<Longrightarrow> done_events str i w' = done_events str i w"
  using quiet_done by (simp add: done_events_def)

lemma counts_quiet:
  assumes "counts_ok old str w" and "quiet w w'" and "o_items w' = o_items w"
    and "\<And>x. x \<in> set (o_items w) \<Longrightarrow> caller (oi_job_id x) w' = caller (oi_job_id x) w"
  shows "counts_ok old str w'"
proof -
  have "due_on old n w' = due_on old n w" for n
    unfolding due_on_def assms(3) by (rule arg_cong [where f = length], rule filter_cong) (simp_all add: assms(4))
  with assms(1) show ?thesis
    by (simp add: counts_ok_def quiet_calls [OF assms(2)] quiet_events [OF assms(2)] ended_rows_def ended_on_def assms(3))
qed

text \<open>A row that was not ended and is not ended afterwards, and one that ends.\<close>

lemma counts_begin:
  assumes c: "counts_ok old str w" and q: "quiet w w'" and j: "o_jobs w' = o_jobs w" and k: "keyed oi_id (o_items w)"
    and x: "row_get oi_id i (o_items w) = Some x" "\<not> item_ended x"
    and i: "o_items w' = row_upd oi_id i (begun t) (o_items w)"
  shows "counts_ok old str w'"
proof -
  have b: "oi_node_id (begun t x) = oi_node_id x" "oi_job_id (begun t x) = oi_job_id x" "\<not> item_ended (begun t x)"
    "oi_status (begun t x) \<noteq> job_success" "oi_status x \<noteq> job_success"
    using x(2) by (simp_all add: begun_def item_ended_def job_status_defs)
  have cal: "caller y w' = caller y w" for y by (simp add: caller_def j)
  have "ended_rows old y w' = ended_rows old y w" "ended_on old y w' = ended_on old y w" "due_on old y w' = due_on old y w" for y
    using count_row_upd [OF k x(1), of "\<lambda>x. oi_id x = y \<and> item_ended x \<and> oi_job_id x \<notin> old" "begun t"]
      count_row_upd [OF k x(1), of "\<lambda>x. oi_node_id x = y \<and> item_ended x \<and> oi_job_id x \<notin> old" "begun t"]
      count_row_upd [OF k x(1), of "\<lambda>x. oi_node_id x = y \<and> oi_status x = job_success \<and> oi_job_id x \<notin> old \<and> caller (oi_job_id x) w" "begun t"]
    by (simp_all add: ended_rows_def ended_on_def due_on_def cal i b x(2))
  then show ?thesis using c by (simp add: counts_ok_def quiet_calls [OF q] quiet_events [OF q])
qed

lemma counts_end:
  assumes c: "counts_ok old str w" and k: "keyed oi_id (o_items w)" and str: "inj str"
    and x: "row_get oi_id (oi_id item) (o_items w) = Some x" "\<not> item_ended x" "oi_job_id x \<notin> old" "oi_node_id x = oi_node_id item"
    and cal: "caller (oi_job_id x) w \<longleftrightarrow> must_call job"
    and e: "end_item svc env job item t w = (err, w')" and up: "ops_up str env" and hub: "osv_has_hub svc"
  shows "counts_ok old str w'"
proof -
  obtain st l cd cs n where f: "outcome_ok (Outcome st l cd err)" "o_jobs w' = o_jobs w"
    "o_items w' = row_upd oi_id (oi_id item) (finished (oe_now env) st l cd err) (o_items w)"
    "o_calls w' = o_calls w @ cs" "length cs \<le> 1" "n_id n = oi_node_id item" "\<forall>c \<in> set cs. call_node (snd c) = n"
    "must_call job \<and> st = job_success \<longrightarrow> cs \<noteq> []"
    "\<forall>i. length (filter (done_event i) (o_events w')) =
       length (filter (done_event i) (o_events w)) + (if i = str (oi_id item) then 1 else 0)"
    using end_item_effect [OF e up hub] by metis
  let ?f = "finished (oe_now env) st l cd err"
  have st: "item_ended (?f x)" "oi_status x \<noteq> job_success"
    using f(1) x(2) by (auto simp: item_ended_def)
  have cj: "caller y w' = caller y w" for y by (simp add: caller_def f(2))
  have id: "oi_id x = oi_id item" using row_get_SomeD [OF x(1)] by simp
  have ev: "done_events str i w' = done_events str i w + (if i = oi_id item then 1 else 0)" for i
    using f(9) injD [OF str, of i "oi_id item"] by (auto simp: done_events_def)
  have rows: "ended_rows old i w' = ended_rows old i w + (if i = oi_id item then 1 else 0)" for i
    using count_row_upd [OF k x(1), of "\<lambda>x. oi_id x = i \<and> item_ended x \<and> oi_job_id x \<notin> old" ?f]
    by (auto simp: ended_rows_def f(3) st x(2,3) id)
  have on: "ended_on old y w' = ended_on old y w + (if y = oi_node_id item then 1 else 0)" for y
    using count_row_upd [OF k x(1), of "\<lambda>x. oi_node_id x = y \<and> item_ended x \<and> oi_job_id x \<notin> old" ?f]
    by (auto simp: ended_on_def f(3) st x(2-4))
  have due: "due_on old y w' = due_on old y w + (if y = oi_node_id item \<and> st = job_success \<and> must_call job then 1 else 0)" for y
    using count_row_upd [OF k x(1), of "\<lambda>x. oi_node_id x = y \<and> oi_status x = job_success \<and> oi_job_id x \<notin> old \<and> caller (oi_job_id x) w" ?f]
    by (auto simp: due_on_def f(3) st x(3,4) cj cal)
  have calls: "calls_on y w' = calls_on y w + (if y = oi_node_id item then length cs else 0)" for y
    using f(6,7) by (auto simp: calls_on_def f(4) filter_empty_conv)
  have one: "st = job_success \<and> must_call job \<longrightarrow> length cs = 1" using f(5,8) by (cases cs) auto
  have "due_on old y w' \<le> calls_on y w' \<and> calls_on y w' \<le> ended_on old y w'" for y
  proof -
    have "due_on old y w \<le> calls_on y w" "calls_on y w \<le> ended_on old y w" using c by (simp_all add: counts_ok_def)
    then show ?thesis using one f(5) unfolding due on calls by auto
  qed
  then show ?thesis using c by (simp add: counts_ok_def ev rows)
qed

section \<open>The invariant\<close>

text \<open>The rows of a run's items, in the state the run has them in.\<close>

definition run_items :: "job_run \<Rightarrow> ops_item list \<Rightarrow> bool" where
  "run_items r its \<longleftrightarrow>
     run_ok r \<and> map oi_id its = map oi_id (jr_items r) \<and> map oi_node_id its = map oi_node_id (jr_items r) \<and>
     distinct (map oi_id (jr_items r)) \<and>
     (\<forall>i \<in> set (jr_todo r). \<exists>x \<in> set its. oi_id x = oi_id i \<and> oi_status x = job_queued) \<and>
     (\<forall>b \<in> set (jr_busy r). \<exists>x \<in> set its. oi_id x = oi_id (fst b) \<and> oi_status x = job_running) \<and>
     (\<forall>d \<in> set (jr_done r). \<exists>x \<in> set its. oi_id x = oi_id (fst d) \<and> oi_status x = (if snd d then job_failed else job_success))"

text \<open>The state of a job's row: queued and untouched, running, or ended as its items call for.\<close>

definition job_state :: "uuid set \<Rightarrow> ops_world \<Rightarrow> ops_job \<Rightarrow> bool" where
  "job_state act w j \<longleftrightarrow>
     (let its = job_items (oj_id j) w
      in oj_status j = job_queued \<and> oj_id j \<notin> act \<and> (\<forall>x \<in> set its. oi_status x = job_queued) \<or>
         oj_status j = job_running \<and> oj_id j \<in> act \<or>
         (oj_status j = job_success \<or> oj_status j = job_failed) \<and> oj_id j \<notin> act \<and> (\<forall>x \<in> set its. item_ended x) \<and>
           (oj_status j = job_success \<longleftrightarrow> (\<forall>x \<in> set its. oi_status x = job_success)))"

definition tables :: "uuid set \<Rightarrow> (uuid \<Rightarrow> string) \<Rightarrow> ops_world \<Rightarrow> bool" where
  "tables old str w \<longleftrightarrow> jobs_ok w \<and> (\<forall>x \<in> set (o_items w). oi_job_id x \<in> oj_id ` set (o_jobs w)) \<and>
     old \<subseteq> oj_id ` set (o_jobs w) \<and> (\<forall>j \<in> set (o_jobs w). oj_status j = job_queued \<longrightarrow> oj_id j \<notin> old) \<and>
     counts_ok old str w"

definition at_work :: "uuid set \<Rightarrow> ops_job list \<Rightarrow> job_run list \<Rightarrow> ops_world \<Rightarrow> bool" where
  "at_work old ps rs w \<longleftrightarrow>
     (let act = ps @ map jr_job rs
      in distinct (map oj_id act) \<and> (\<forall>j \<in> set act. j \<in> set (o_jobs w) \<and> oj_id j \<notin> old) \<and>
         (\<forall>j \<in> set ps. \<forall>x \<in> set (job_items (oj_id j) w). oi_status x = job_queued) \<and>
         (\<forall>r \<in> set rs. run_items r (job_items (oj_id (jr_job r)) w)) \<and>
         (\<forall>j \<in> set (o_jobs w). oj_id j \<notin> old \<longrightarrow> job_state (oj_id ` set act) w j))"

definition all_once :: "uuid set \<Rightarrow> (uuid \<Rightarrow> string) \<Rightarrow> ops_sys \<Rightarrow> bool" where
  "all_once old str s \<longleftrightarrow> tables old str (sy_world s) \<and> at_work old (sy_picked s) (sy_runs s) (sy_world s)"

lemma at_workD:
  assumes "at_work old ps rs w"
  shows "distinct (map oj_id (ps @ map jr_job rs))"
    and "\<And>j. j \<in> set ps \<or> j \<in> jr_job ` set rs \<Longrightarrow> j \<in> set (o_jobs w) \<and> oj_id j \<notin> old"
    and "\<And>j x. j \<in> set ps \<Longrightarrow> x \<in> set (job_items (oj_id j) w) \<Longrightarrow> oi_status x = job_queued"
    and "\<And>r. r \<in> set rs \<Longrightarrow> run_items r (job_items (oj_id (jr_job r)) w)"
    and "\<And>j. j \<in> set (o_jobs w) \<Longrightarrow> oj_id j \<notin> old \<Longrightarrow> job_state (oj_id ` set (ps @ map jr_job rs)) w j"
  using assms unfolding at_work_def Let_def by auto

lemma at_workI:
  assumes "distinct (map oj_id (ps @ map jr_job rs))"
    and "\<And>j. j \<in> set ps \<or> j \<in> jr_job ` set rs \<Longrightarrow> j \<in> set (o_jobs w) \<and> oj_id j \<notin> old"
    and "\<And>j x. j \<in> set ps \<Longrightarrow> x \<in> set (job_items (oj_id j) w) \<Longrightarrow> oi_status x = job_queued"
    and "\<And>r. r \<in> set rs \<Longrightarrow> run_items r (job_items (oj_id (jr_job r)) w)"
    and "\<And>j. j \<in> set (o_jobs w) \<Longrightarrow> oj_id j \<notin> old \<Longrightarrow> job_state (oj_id ` set (ps @ map jr_job rs)) w j"
  shows "at_work old ps rs w"
  using assms unfolding at_work_def Let_def by auto

lemma job_items_same: "o_items w' = o_items w \<Longrightarrow> job_items j w' = job_items j w"
  by (simp add: job_items_def)

lemma all_once_quiet:
  assumes "all_once old str s" and "quiet (sy_world s) w'" and "o_jobs w' = o_jobs (sy_world s)" "o_items w' = o_items (sy_world s)"
  shows "all_once old str (s\<lparr>sy_world := w'\<rparr>)"
proof -
  note i = job_items_same [OF assms(4)]
  have "counts_ok old str w'"
    by (rule counts_quiet [OF _ assms(2,4)]) (use assms(1,3) in \<open>simp_all add: all_once_def tables_def caller_def\<close>)
  then have "tables old str w'" using assms(1) by (simp add: all_once_def tables_def assms(3,4) jobs_ok_same [OF assms(3,4)])
  moreover have "at_work old (sy_picked s) (sy_runs s) w'"
    using assms(1) by (simp add: all_once_def at_work_def job_state_def assms(3) i)
  ultimately show ?thesis by (simp add: all_once_def)
qed

section \<open>Requests\<close>

lemma create_once:
  assumes "all_once old str s"
  shows "all_once old str (s\<lparr>sy_world := snd (create_job svc env req (sy_world s))\<rparr>)"
proof (cases rule: create_job_cases [of svc env req "sy_world s"])
  case (1 e w')
  have "quiet (sy_world s) w'" "o_jobs w' = o_jobs (sy_world s)" "o_items w' = o_items (sy_world s)"
    using 1(2) by (auto simp: same_rows_def quiet_same)
  from all_once_quiet [OF assms this] show ?thesis using 1(1) by simp
next
  case (2 ids token w1 w')
  let ?w = "sy_world s" and ?i = "oe_uuid env (o_uid w1)"
  let ?j = "new_job_row env req ids (oe_sha256_hex env token) ?i" and ?new = "new_item_rows env (Suc (o_uid w1)) ?i ids"
  have T: "tables old str ?w" and A: "at_work old (sy_picked s) (sy_runs s) ?w" using assms by (simp_all add: all_once_def)
  have s: "snd (create_job svc env req ?w) = w'" using 2(6) by simp
  have new: "oi_job_id x = ?i" "oi_status x = job_queued" if "x \<in> set ?new" for x
    using that by (auto simp: new_item_rows_def new_item_row_def)
  have fresh: "oi_job_id x \<noteq> ?i" if "x \<in> set (o_items ?w)" for x
  proof -
    have "oi_job_id x \<in> oj_id ` set (o_jobs ?w)" using T that by (simp add: tables_def)
    then show ?thesis using 2(9) by metis
  qed
  have j: "oj_id ?j = ?i" "oj_status ?j = job_queued" by (simp_all add: new_job_row_def)
  have old: "?i \<notin> old" using T 2(9) by (auto simp: tables_def)
  have qu: "quiet ?w w'" using 2(13,14) by (simp add: quiet_def)
  have its: "job_items i w' = (if i = ?i then ?new else job_items i ?w)" for i
    using new(1) fresh by (auto simp: job_items_def 2(8) filter_empty_conv filter_id_conv)
  have ne: "\<not> item_ended x" "oi_status x \<noteq> job_success" if "x \<in> set ?new" for x
    using new(2) [OF that] by (simp_all add: item_ended_def job_status_defs)
  have cal: "caller (oi_job_id x) w' = caller (oi_job_id x) ?w" if "x \<in> set (o_items ?w)" for x
    using fresh [OF that] by (simp add: caller_def 2(7) j)
  have drop: "filter P (o_items w') = filter P (o_items ?w)" if "\<And>x. x \<in> set ?new \<Longrightarrow> \<not> P x" for P
    using that by (simp add: 2(8) filter_empty_conv)
  have "ended_rows old i w' = ended_rows old i ?w" "ended_on old i w' = ended_on old i ?w" for i
    using ne by (simp_all add: ended_rows_def ended_on_def drop)
  moreover have "due_on old n w' = due_on old n ?w" for n
  proof -
    have "due_on old n w' = length (filter (\<lambda>x. oi_node_id x = n \<and> oi_status x = job_success \<and> oi_job_id x \<notin> old \<and>
        caller (oi_job_id x) w') (o_items ?w))"
      unfolding due_on_def by (rule arg_cong [where f = length], rule drop) (simp add: ne)
    also have "\<dots> = due_on old n ?w"
      unfolding due_on_def by (rule arg_cong [where f = length], rule filter_cong) (simp_all add: cal)
    finally show ?thesis .
  qed
  ultimately have counts: "counts_ok old str w'"
    using T by (simp add: tables_def counts_ok_def quiet_calls [OF qu] quiet_events [OF qu])
  have "tables old str w'"
    using T counts create_job_ok [of ?w svc env req] new(1) old unfolding tables_def s by (auto simp: 2(7,8) j)
  moreover have "at_work old (sy_picked s) (sy_runs s) w'"
  proof (rule at_workI)
    note A = at_workD [OF A]
    have ne: "oj_id j' \<noteq> ?i" if "j' \<in> set (sy_picked s) \<or> j' \<in> jr_job ` set (sy_runs s)" for j'
      using A(2) [OF that] 2(9) by (metis image_eqI)
    show "distinct (map oj_id (sy_picked s @ map jr_job (sy_runs s)))" by (rule A(1))
    show "j' \<in> set (o_jobs w') \<and> oj_id j' \<notin> old" if "j' \<in> set (sy_picked s) \<or> j' \<in> jr_job ` set (sy_runs s)" for j'
      using A(2) [OF that] by (simp add: 2(7))
    show "oi_status x = job_queued" if "j' \<in> set (sy_picked s)" "x \<in> set (job_items (oj_id j') w')" for j' x
      using A(3) that ne by (simp add: its)
    show "run_items r (job_items (oj_id (jr_job r)) w')" if "r \<in> set (sy_runs s)" for r
      using A(4) [OF that] ne [of "jr_job r"] that by (simp add: its)
    show "job_state (oj_id ` set (sy_picked s @ map jr_job (sy_runs s))) w' j'" if "j' \<in> set (o_jobs w')" "oj_id j' \<notin> old" for j'
    proof (cases "j' = ?j")
      case True
      have "?i \<notin> oj_id ` set (sy_picked s @ map jr_job (sy_runs s))"
      proof
        assume "?i \<in> oj_id ` set (sy_picked s @ map jr_job (sy_runs s))"
        then obtain y where y: "?i = oj_id y" "y \<in> set (sy_picked s @ map jr_job (sy_runs s))" by (rule imageE)
        from y(2) have "y \<in> set (sy_picked s) \<or> y \<in> jr_job ` set (sy_runs s)" by simp
        from ne [OF this] y(1) show False by simp
      qed
      then show ?thesis using new(2) unfolding True job_state_def j its Let_def by simp
    next
      case False
      then have m: "j' \<in> set (o_jobs ?w)" using that by (auto simp: 2(7))
      then have "oj_id j' \<noteq> ?i" using 2(9) by (metis image_eqI)
      with A(5) [OF m that(2)] show ?thesis by (simp add: job_state_def its)
    qed
  qed
  ultimately show ?thesis by (simp add: all_once_def s)
qed

section \<open>Saving a job\<close>

lemma set_save:
  assumes "keyed oj_id js" and "j \<in> set js" and "oj_id k = oj_id j"
  shows "set (row_upd oj_id (oj_id k) (\<lambda>r. k) js) = insert k {x \<in> set js. oj_id x \<noteq> oj_id j}"
  using assms(2,3) by (auto simp: row_upd_def)

lemma save_tables:
  assumes t: "tables old str w" and j: "j \<in> set (o_jobs w)" "oj_id j \<notin> old"
    and k: "oj_id k = oj_id j" "oj_type k = oj_type j" "oj_params k = oj_params j" "oj_parallelism k = oj_parallelism j"
    and w': "o_jobs w' = row_upd oj_id (oj_id k) (\<lambda>r. k) (o_jobs w)" "o_items w' = o_items w" "quiet w w'"
  shows "tables old str w'"
proof -
  have jk: "keyed oj_id (o_jobs w)" using t by (simp add: tables_def jobs_ok_def)
  note set = set_save [OF jk j(1) k(1)]
  have only: "x = j" if "x \<in> set (o_jobs w)" "oj_id x = oj_id j" for x
    using jk j(1) that unfolding keyed_def distinct_map by (metis inj_onD)
  have ids: "oj_id ` set (o_jobs w') = oj_id ` set (o_jobs w)"
    unfolding w'(1) set using j(1) k(1) by (auto simp: image_iff)
  have must: "must_call k = must_call j" by (simp add: must_call_def k)
  have cal: "caller i w' = caller i w" for i
    unfolding caller_def w'(1) set using only j(1) must k(1) by auto
  have "counts_ok old str w'" by (rule counts_quiet [OF _ w'(3,2)]) (use t cal in \<open>simp_all add: tables_def\<close>)
  moreover have "jobs_ok w'"
  proof -
    have "keyed oj_id (o_jobs w')" unfolding w'(1) by (rule row_upd_keyed) (use jk in simp_all)
    moreover have "\<forall>x \<in> set (o_jobs w'). 1 \<le> oj_parallelism x \<and> oj_parallelism x \<le> 10"
      unfolding w'(1) set using t j(1) by (auto simp: tables_def jobs_ok_def k(4))
    ultimately show ?thesis using t by (simp add: tables_def jobs_ok_def w'(2))
  qed
  moreover have "oj_id x \<notin> old" if "x \<in> set (o_jobs w')" "oj_status x = job_queued" for x
    using that t j(2) k(1) unfolding w'(1) set by (auto simp: tables_def)
  ultimately show ?thesis using t unfolding tables_def ids w'(2) by blast
qed

lemma save_at_work:
  assumes a: "at_work old ps rs w" and jk: "keyed oj_id (o_jobs w)" and j: "j \<in> set (o_jobs w)" "oj_id j \<notin> old"
    and k: "oj_id k = oj_id j" and w': "o_jobs w' = row_upd oj_id (oj_id k) (\<lambda>r. k) (o_jobs w)" "o_items w' = o_items w"
    and d: "distinct (map oj_id (ps' @ map jr_job rs'))"
    and sub: "\<And>x. x \<in> set ps' \<or> x \<in> jr_job ` set rs' \<Longrightarrow> x = k \<or> (x \<in> set ps \<or> x \<in> jr_job ` set rs) \<and> oj_id x \<noteq> oj_id j"
      "set rs' \<subseteq> set rs" "set ps' \<subseteq> insert k (set ps)"
    and kq: "k \<in> set ps' \<Longrightarrow> \<forall>x \<in> set (job_items (oj_id j) w). oi_status x = job_queued"
    and ids: "\<And>i. i \<noteq> oj_id j \<Longrightarrow> i \<in> oj_id ` set (ps' @ map jr_job rs') \<longleftrightarrow> i \<in> oj_id ` set (ps @ map jr_job rs)"
    and st: "job_state (oj_id ` set (ps' @ map jr_job rs')) w k"
  shows "at_work old ps' rs' w'"
proof (rule at_workI [OF d])
  note A = at_workD [OF a]
  note set = set_save [OF jk j(1) k] and its = job_items_same [OF w'(2)]
  show "x \<in> set (o_jobs w') \<and> oj_id x \<notin> old" if "x \<in> set ps' \<or> x \<in> jr_job ` set rs'" for x
    using sub(1) [OF that] A(2) [of x] j(2) k unfolding w'(1) set by auto
  show "oi_status y = job_queued" if "x \<in> set ps'" "y \<in> set (job_items (oj_id x) w')" for x y
    using that sub(3) A(3) [of x y] kq by (cases "x = k") (auto simp: its k)
  show "run_items r (job_items (oj_id (jr_job r)) w')" if "r \<in> set rs'" for r
    using A(4) [of r] sub(2) that by (auto simp: its)
  show "job_state (oj_id ` set (ps' @ map jr_job rs')) w' x" if "x \<in> set (o_jobs w')" "oj_id x \<notin> old" for x
  proof (cases "x = k")
    case True
    then show ?thesis using st by (simp add: job_state_def its)
  next
    case False
    then have x: "x \<in> set (o_jobs w)" "oj_id x \<noteq> oj_id j" using that(1) unfolding w'(1) set by auto
    from A(5) [OF x(1) that(2)] ids [OF x(2)] show ?thesis by (simp add: job_state_def its)
  qed
qed

lemma job_status_ne [simp]:
  "job_queued \<noteq> job_running" "job_queued \<noteq> job_success" "job_queued \<noteq> job_failed"
  "job_running \<noteq> job_success" "job_running \<noteq> job_failed" "job_success \<noteq> job_failed"
  "job_running \<noteq> job_queued" "job_success \<noteq> job_queued" "job_failed \<noteq> job_queued"
  "job_success \<noteq> job_running" "job_failed \<noteq> job_running" "job_failed \<noteq> job_success"
  by (simp_all add: job_status_defs)

section \<open>The queue\<close>

lemma pick_one_once:
  assumes a: "all_once old str s" and p: "pick_queued_job env (sy_world s) = (Some k, w1)"
  shows "all_once old str (s\<lparr>sy_world := publish_job_status svc env k w1, sy_picked := sy_picked s @ [k]\<rparr>)"
proof -
  let ?w = "sy_world s"
  have T: "tables old str ?w" and A: "at_work old (sy_picked s) (sy_runs s) ?w" using a by (simp_all add: all_once_def)
  obtain j where j: "first_queued (o_jobs ?w) = Some j" using p by (auto simp: pick_queued_job_def split: option.splits)
  obtain e v where t: "o_tx env 2 (save_job (j\<lparr>oj_status := job_running, oj_started_at := Some (oe_now env)\<rparr>)) ?w = (e, v)"
    by fastforce
  have e: "e = None" "k = j\<lparr>oj_status := job_running, oj_started_at := Some (oe_now env)\<rparr>" "v = w1"
    using p t j by (auto simp: pick_queued_job_def Let_def split: option.splits)
  have w1: "w1 = save_job k (?w\<lparr>o_dbn := o_dbn ?w + (2 + 2)\<rparr>)"
    using o_tx_cases [OF t] e by auto
  have mem: "j \<in> set (o_jobs ?w)" "oj_status j = job_queued" using first_queued_mem [OF j] by auto
  have old: "oj_id j \<notin> old" using T mem by (simp add: tables_def)
  let ?v = "publish_job_status svc env k w1"
  have w': "o_jobs ?v = row_upd oj_id (oj_id k) (\<lambda>r. k) (o_jobs ?w)" "o_items ?v = o_items ?w" "quiet ?w ?v"
    by (simp_all add: w1 opsframe) (simp add: quiet_def)
  have k: "oj_id k = oj_id j" "oj_type k = oj_type j" "oj_params k = oj_params j" "oj_parallelism k = oj_parallelism j"
    "oj_status k = job_running" by (simp_all add: e(2))
  note A' = at_workD [OF A]
  have q: "oj_id j \<notin> oj_id ` set (sy_picked s @ map jr_job (sy_runs s))"
    "\<forall>x \<in> set (job_items (oj_id j) ?w). oi_status x = job_queued"
    using A'(5) [OF mem(1) old] by (simp_all add: job_state_def mem(2))
  have "at_work old (sy_picked s @ [k]) (sy_runs s) ?v"
  proof (rule save_at_work [OF A _ mem(1) old k(1) w'(1,2)])
    show "keyed oj_id (o_jobs ?w)" using T by (simp add: tables_def jobs_ok_def)
    show "distinct (map oj_id ((sy_picked s @ [k]) @ map jr_job (sy_runs s)))" using A'(1) q(1) by (auto simp: k(1))
    show "x = k \<or> (x \<in> set (sy_picked s) \<or> x \<in> jr_job ` set (sy_runs s)) \<and> oj_id x \<noteq> oj_id j"
      if "x \<in> set (sy_picked s @ [k]) \<or> x \<in> jr_job ` set (sy_runs s)" for x
    proof -
      have "oj_id y \<noteq> oj_id j" if "y \<in> set (sy_picked s @ map jr_job (sy_runs s))" for y using q(1) that by (metis image_eqI)
      then show ?thesis using that by auto
    qed
    show "job_state (oj_id ` set ((sy_picked s @ [k]) @ map jr_job (sy_runs s))) ?w k" by (simp add: job_state_def k Let_def)
  qed (use q(2) k(1) in auto)
  with save_tables [OF T mem(1) old k(1-4) w'] show ?thesis by (simp add: all_once_def)
qed

lemma pick_none_once:
  assumes a: "all_once old str s" and p: "pick_queued_job env (sy_world s) = (None, w1)"
  shows "all_once old str (s\<lparr>sy_world := w1\<rparr>)"
proof (rule all_once_quiet [OF a])
  have s: "same_rows (sy_world s) w1"
    using p o_tx_cases by (fastforce simp: pick_queued_job_def Let_def split: option.splits prod.splits)
  then show "quiet (sy_world s) w1" "o_jobs w1 = o_jobs (sy_world s)" "o_items w1 = o_items (sy_world s)"
    by (auto simp: quiet_same same_rows_def)
qed

lemma pick_jobs_once:
  "all_once old str s \<Longrightarrow> pick_jobs svc env n (sy_world s) = (js, w') \<Longrightarrow>
   all_once old str (s\<lparr>sy_world := w', sy_picked := sy_picked s @ js\<rparr>)"
proof (induction n arbitrary: s js w')
  case 0
  then show ?case by auto
next
  case (Suc n)
  obtain r w1 where 1: "pick_queued_job env (sy_world s) = (r, w1)" by fastforce
  show ?case
  proof (cases r)
    case None
    then show ?thesis using pick_none_once [OF Suc.prems(1)] 1 Suc.prems(2) by simp
  next
    case (Some k)
    let ?w = "publish_job_status svc env k w1"
    obtain ks w2 where 2: "pick_jobs svc env n ?w = (ks, w2)" by fastforce
    have js: "js = k # ks" "w' = w2" using Suc.prems(2) 1 2 Some by auto
    from Suc.IH [OF pick_one_once [OF Suc.prems(1) 1 [unfolded Some]], of svc ks w2] 2 show ?thesis by (simp add: js)
  qed
qed

lemma tick_once:
  assumes a: "all_once old str s" and p: "pick_and_run svc env (sy_world s) = (js, w')"
  shows "all_once old str (s\<lparr>sy_world := w', sy_picked := sy_picked s @ js\<rparr>)"
proof -
  obtain slots w1 where 1: "available_job_slots svc env (sy_world s) = (slots, w1)" by fastforce
  have s: "same_rows (sy_world s) w1"
    using 1 by (auto simp: available_job_slots_def o_query_def Let_def split: if_splits)
  have b: "all_once old str (s\<lparr>sy_world := w1\<rparr>)"
    by (rule all_once_quiet [OF a]) (use s in \<open>auto simp: quiet_same same_rows_def\<close>)
  show ?thesis
  proof (cases "slots \<le> 0")
    case True
    then show ?thesis using p 1 b by (auto simp: pick_and_run_def)
  next
    case False
    then have "pick_jobs svc env (nat slots) (sy_world (s\<lparr>sy_world := w1\<rparr>)) = (js, w')" using p 1 by (simp add: pick_and_run_def)
    from pick_jobs_once [OF b this] show ?thesis by simp
  qed
qed

section \<open>The end of a job\<close>

text \<open>A job that leaves the active ones with a state its items call for.\<close>

lemma finish_once:
  assumes T: "tables old str w" and A: "at_work old ps rs w" and job: "job \<in> set ps \<or> job \<in> jr_job ` set rs"
    and ms: "mset (ps @ map jr_job rs) = add_mset job (mset (ps' @ map jr_job rs'))" "set ps' \<subseteq> set ps" "set rs' \<subseteq> set rs"
    and st: "st = job_success \<or> st = job_failed" "\<forall>x \<in> set (job_items (oj_id job) w). item_ended x"
      "st = job_success \<longleftrightarrow> (\<forall>x \<in> set (job_items (oj_id job) w). oi_status x = job_success)"
    and env: "healthy_ops env" and w': "w' = snd (finish_job svc env job st err w)"
  shows "tables old str w' \<and> at_work old ps' rs' w'"
proof -
  let ?k = "job\<lparr>oj_status := st, oj_error := err, oj_finished_at := Some (oe_now env)\<rparr>"
  have eq: "o_jobs w' = row_upd oj_id (oj_id ?k) (\<lambda>r. ?k) (o_jobs w)" "o_items w' = o_items w" "quiet w w'"
    using env by (simp_all add: w' finish_job_def Let_def o_exec_ignore_eq opsframe)
  note A' = at_workD [OF A]
  have j: "job \<in> set (o_jobs w)" "oj_id job \<notin> old" using A'(2) [OF job] by auto
  have ids: "mset (map oj_id (ps @ map jr_job rs)) = add_mset (oj_id job) (mset (map oj_id (ps' @ map jr_job rs')))"
    using arg_cong [OF ms(1), of "image_mset oj_id"] by (simp add: multiset.map_comp comp_def)
  then have d: "distinct (oj_id job # map oj_id (ps' @ map jr_job rs'))"
    using A'(1) by (metis mset.simps(2) mset_eq_imp_distinct_iff)
  have notin: "oj_id job \<notin> oj_id ` set (ps' @ map jr_job rs')" using d by (simp only: distinct.simps set_map simp_thms)
  have gone: "oj_id x \<noteq> oj_id job" if "x \<in> set ps' \<or> x \<in> jr_job ` set rs'" for x
  proof -
    have "x \<in> set (ps' @ map jr_job rs')" using that by auto
    then show ?thesis using notin by (metis imageI)
  qed
  have idset: "oj_id ` set (ps @ map jr_job rs) = insert (oj_id job) (oj_id ` set (ps' @ map jr_job rs'))"
    using arg_cong [OF ids, of set_mset] by (simp add: image_Un image_image)
  have k: "oj_id ?k = oj_id job" "oj_type ?k = oj_type job" "oj_params ?k = oj_params job"
    "oj_parallelism ?k = oj_parallelism job" "oj_status ?k = st" by simp_all
  have "at_work old ps' rs' w'"
  proof (rule save_at_work [OF A _ j k(1) eq(1,2)])
    show "keyed oj_id (o_jobs w)" using T by (simp add: tables_def jobs_ok_def)
    show "distinct (map oj_id (ps' @ map jr_job rs'))" using d by simp
    show "x = ?k \<or> (x \<in> set ps \<or> x \<in> jr_job ` set rs) \<and> oj_id x \<noteq> oj_id job" if "x \<in> set ps' \<or> x \<in> jr_job ` set rs'" for x
      using that gone [OF that] ms(2,3) by blast
    show "i \<in> oj_id ` set (ps' @ map jr_job rs') \<longleftrightarrow> i \<in> oj_id ` set (ps @ map jr_job rs)" if "i \<noteq> oj_id job" for i
      unfolding idset using that by simp
    show "job_state (oj_id ` set (ps' @ map jr_job rs')) w ?k"
      using notin st unfolding job_state_def Let_def k by blast
    show "\<forall>x \<in> set (job_items (oj_id job) w). oi_status x = job_queued" if "?k \<in> set ps'"
      using gone [of ?k] that by simp
    show "set rs' \<subseteq> set rs" by (rule ms(3))
    show "set ps' \<subseteq> insert ?k (set ps)" using ms(2) by blast
  qed
  moreover have "tables old str w'" by (rule save_tables [OF T j k(1-4) eq])
  ultimately show ?thesis by blast
qed

lemma mset_remove_at:
  assumes "k < length xs" shows "mset xs = add_mset (xs ! k) (mset (remove_nth k xs))"
  using mset_remove_nth [OF assms] by simp

lemma start_once:
  assumes a: "all_once old str s" and k: "k < length (sy_picked s)" and env: "healthy_ops env"
    and p: "start_job svc env (sy_picked s ! k) (sy_world s) = (res, w')"
  shows "all_once old str (s\<lparr>sy_world := w', sy_picked := remove_nth k (sy_picked s),
      sy_runs := (case res of None \<Rightarrow> sy_runs s | Some items \<Rightarrow> sy_runs s @ [new_run (sy_picked s ! k) items])\<rparr>)"
proof -
  let ?w = "sy_world s" and ?job = "sy_picked s ! k" and ?ps = "remove_nth k (sy_picked s)"
  have T: "tables old str ?w" and A: "at_work old (sy_picked s) (sy_runs s) ?w" using a by (simp_all add: all_once_def)
  note A' = at_workD [OF A]
  let ?items = "job_items (oj_id ?job) ?w"
  have q: "oi_status x = job_queued" if "x \<in> set ?items" for x
    using A'(3) [OF nth_mem [OF k] that] .
  then have f: "filter (\<lambda>i. oi_job_id i = oj_id ?job \<and> oi_status i = job_queued) (o_items ?w) = ?items"
    by (auto simp: job_items_def intro: filter_cong)
  have T1: "tables old str (o_tick ?w)" "at_work old (sy_picked s) (sy_runs s) (o_tick ?w)"
    using all_once_quiet [OF a, of "o_tick ?w"] by (simp_all add: all_once_def opsframe)
  have its: "job_items j (o_tick ?w) = job_items j ?w" for j by (simp add: job_items_def opsframe)
  show ?thesis
  proof (cases "?items = []")
    case True
    have r: "res = None" "w' = snd (finish_job svc env ?job job_success (oj_error ?job) (o_tick ?w))"
      using p env True by (simp_all add: start_job_def o_query_def f)
    have "tables old str w' \<and> at_work old ?ps (sy_runs s) w'"
    proof (rule finish_once [OF T1 _ _ _ _ _ _ _ env r(2)])
      show "?job \<in> set (sy_picked s) \<or> ?job \<in> jr_job ` set (sy_runs s)" using k by simp
      show "mset (sy_picked s @ map jr_job (sy_runs s)) = add_mset ?job (mset (?ps @ map jr_job (sy_runs s)))"
        using mset_remove_at [OF k] by simp
    qed (use True its set_remove_nth [of k "sy_picked s"] in auto)
    then show ?thesis by (simp add: all_once_def r(1))
  next
    case False
    have r: "res = Some ?items" "w' = o_tick ?w" using p env False by (simp_all add: start_job_def o_query_def f)
    let ?r = "new_run ?job ?items"
    have "keyed oi_id ?items" using T by (intro job_items_keyed) (simp add: tables_def jobs_ok_def)
    then have run: "run_items ?r ?items" using q new_run_ok [of ?job ?items] by (auto simp: run_items_def new_run_def keyed_def)
    have "at_work old ?ps (sy_runs s @ [?r]) (o_tick ?w)"
    proof (rule at_workI)
      note B = at_workD [OF T1(2)]
      have ms: "mset (?ps @ map jr_job (sy_runs s @ [?r])) = mset (sy_picked s @ map jr_job (sy_runs s))"
        using mset_remove_at [OF k] by (simp add: new_run_def)
      have st: "set (?ps @ map jr_job (sy_runs s @ [?r])) = set (sy_picked s @ map jr_job (sy_runs s))"
        using mset_eq_setD [OF ms] .
      show "distinct (map oj_id (?ps @ map jr_job (sy_runs s @ [?r])))"
        using B(1) mset_eq_imp_distinct_iff arg_cong [OF ms, of "image_mset oj_id"] by (metis mset_map)
      show "x \<in> set (o_jobs (o_tick ?w)) \<and> oj_id x \<notin> old" if "x \<in> set ?ps \<or> x \<in> jr_job ` set (sy_runs s @ [?r])" for x
        using B(2) [of x] that st by auto
      show "oi_status x = job_queued" if "j \<in> set ?ps" "x \<in> set (job_items (oj_id j) (o_tick ?w))" for j x
        using B(3) that set_remove_nth [of k "sy_picked s"] by blast
      show "run_items x (job_items (oj_id (jr_job x)) (o_tick ?w))" if "x \<in> set (sy_runs s @ [?r])" for x
        using that B(4) [of x] run by (auto simp: its new_run_def)
      show "job_state (oj_id ` set (?ps @ map jr_job (sy_runs s @ [?r]))) (o_tick ?w) j"
        if "j \<in> set (o_jobs (o_tick ?w))" "oj_id j \<notin> old" for j
        unfolding st using B(5) that by blast
    qed
    then show ?thesis using T1(1) by (simp add: all_once_def r)
  qed
qed

text \<open>When a run is over its rows have ended, all as successes exactly when no failure was counted.\<close>

lemma run_over_ended:
  assumes r: "run_items r its" and o: "run_over r"
  shows "\<forall>x \<in> set its. item_ended x" "jr_failed r = 0 \<longleftrightarrow> (\<forall>x \<in> set its. oi_status x = job_success)"
proof -
  have ok: "run_ok r" "distinct (map oi_id its)" using r unfolding run_items_def by metis+
  have ms: "mset (jr_items r) = mset (map fst (jr_done r))" and fl: "jr_failed r = length (filter snd (jr_done r))"
    using ok(1) o by (simp_all add: run_ok_def run_over_def)
  have row: "oi_status x = (if snd d then job_failed else job_success)"
    if x: "x \<in> set its" and d: "d \<in> set (jr_done r)" and i: "oi_id x = oi_id (fst d)" for x d
  proof -
    obtain y where "y \<in> set its" "oi_id y = oi_id (fst d)" "oi_status y = (if snd d then job_failed else job_success)"
      using r d unfolding run_items_def by blast
    with x i ok(2) show ?thesis unfolding distinct_map by (metis inj_onD)
  qed
  have ex: "\<exists>d \<in> set (jr_done r). oi_id x = oi_id (fst d)" if "x \<in> set its" for x
  proof -
    have "oi_id x \<in> oi_id ` set (jr_items r)" using r that unfolding run_items_def by (metis image_eqI list.set_map)
    then show ?thesis using mset_eq_setD [OF ms] by auto
  qed
  show "\<forall>x \<in> set its. item_ended x" using row ex unfolding item_ended_def by (metis (full_types))
  show "jr_failed r = 0 \<longleftrightarrow> (\<forall>x \<in> set its. oi_status x = job_success)"
  proof
    assume "jr_failed r = 0"
    then have "\<And>d. d \<in> set (jr_done r) \<Longrightarrow> \<not> snd d" using fl by (auto simp: filter_empty_conv)
    then show "\<forall>x \<in> set its. oi_status x = job_success" using row ex by (metis (full_types))
  next
    assume s: "\<forall>x \<in> set its. oi_status x = job_success"
    have "\<not> snd d" if d: "d \<in> set (jr_done r)" for d
    proof -
      obtain y where "y \<in> set its" "oi_status y = (if snd d then job_failed else job_success)"
        using r d unfolding run_items_def by blast
      with s show ?thesis by (auto split: if_splits)
    qed
    then show "jr_failed r = 0" using fl by (auto simp: filter_empty_conv)
  qed
qed

lemma end_once:
  assumes a: "all_once old str s" and k: "k < length (sy_runs s)" and env: "healthy_ops env" and o: "run_over (sy_runs s ! k)"
  shows "all_once old str (s\<lparr>sy_world := end_job svc env (jr_job (sy_runs s ! k)) (jr_failed (sy_runs s ! k)) (sy_world s),
      sy_runs := remove_nth k (sy_runs s)\<rparr>)"
proof -
  let ?w = "sy_world s" and ?r = "sy_runs s ! k" and ?rs = "remove_nth k (sy_runs s)"
  let ?job = "jr_job ?r"
  have T: "tables old str ?w" and A: "at_work old (sy_picked s) (sy_runs s) ?w" using a by (simp_all add: all_once_def)
  obtain st msg where m: "job_status_from_failures (jr_failed ?r) = (st, msg)" by fastforce
  have st: "st = (if jr_failed ?r = 0 then job_success else job_failed)" using m by (auto simp: job_status_from_failures_def split: if_splits)
  have w': "end_job svc env ?job (jr_failed ?r) ?w = snd (finish_job svc env ?job st msg ?w)" by (simp add: end_job_def m)
  have run: "run_items ?r (job_items (oj_id ?job) ?w)" using at_workD(4) [OF A] k by simp
  note e = run_over_ended [OF run o]
  have "tables old str (end_job svc env ?job (jr_failed ?r) ?w) \<and> at_work old (sy_picked s) ?rs (end_job svc env ?job (jr_failed ?r) ?w)"
  proof (rule finish_once [OF T A _ _ _ _ _ e(1) _ env w'])
    show "?job \<in> set (sy_picked s) \<or> ?job \<in> jr_job ` set (sy_runs s)" using k by simp
    have "mset (map jr_job (sy_runs s)) = add_mset ?job (mset (map jr_job ?rs))"
      using arg_cong [OF mset_remove_at [OF k], of "image_mset jr_job"] by simp
    then show "mset (sy_picked s @ map jr_job (sy_runs s)) = add_mset ?job (mset (sy_picked s @ map jr_job ?rs))" by simp
    show "st = job_success \<longleftrightarrow> (\<forall>x \<in> set (job_items (oj_id ?job) ?w). oi_status x = job_success)" using e(2) st by simp
  qed (use st set_remove_nth [of k "sy_runs s"] in auto)
  then show ?thesis by (simp add: all_once_def)
qed

section \<open>Taking and finishing items\<close>

lemma in_row_upd:
  "x \<in> set xs \<Longrightarrow> key x \<noteq> k \<Longrightarrow> x \<in> set (row_upd key k f xs)" "x \<in> set xs \<Longrightarrow> key x = k \<Longrightarrow> f x \<in> set (row_upd key k f xs)"
  by (force simp: row_upd_def)+

lemma row_upd_maps:
  "(\<And>x. g (f x) = g x) \<Longrightarrow> map g (row_upd key k f xs) = map g xs"
  by (simp add: row_upd_def)

lemma update_once:
  assumes a: "all_once old str s" and k: "k < length (sy_runs s)"
    and x: "x \<in> set (job_items (oj_id (jr_job (sy_runs s ! k))) (sy_world s))"
    and f: "\<And>y. oi_id (f y) = oi_id y" "\<And>y. oi_job_id (f y) = oi_job_id y"
    and w': "o_jobs w' = o_jobs (sy_world s)" "o_items w' = row_upd oi_id (oi_id x) f (o_items (sy_world s))"
    and r': "jr_job r' = jr_job (sy_runs s ! k)"
      "run_items r' (row_upd oi_id (oi_id x) f (job_items (oj_id (jr_job (sy_runs s ! k))) (sy_world s)))"
    and c: "counts_ok old str w'"
  shows "all_once old str (s\<lparr>sy_world := w', sy_runs := (sy_runs s)[k := r']\<rparr>)"
proof -
  let ?w = "sy_world s" and ?J = "oj_id (jr_job (sy_runs s ! k))" and ?rs = "(sy_runs s)[k := r']"
  have T: "tables old str ?w" and A: "at_work old (sy_picked s) (sy_runs s) ?w" using a by (simp_all add: all_once_def)
  note A' = at_workD [OF A]
  have ik: "keyed oi_id (o_items ?w)" using T by (simp add: tables_def jobs_ok_def)
  have its: "job_items i w' = (if i = ?J then row_upd oi_id (oi_id x) f (job_items i ?w) else job_items i ?w)" for i
    unfolding job_items_upd [OF f(2) w'(2)] using row_upd_absent [OF job_items_other [OF ik x]] by simp
  have jobs: "map jr_job ?rs = map jr_job (sy_runs s)"
    using k r'(1) by (simp add: map_update list_update_same_conv)
  have other: "oj_id j \<noteq> ?J" if "j \<in> set (sy_picked s)" for j
  proof -
    have "distinct (map oj_id (sy_picked s) @ map (\<lambda>r. oj_id (jr_job r)) (sy_runs s))" using A'(1) by (simp add: comp_def)
    then have "set (map oj_id (sy_picked s)) \<inter> set (map (\<lambda>r. oj_id (jr_job r)) (sy_runs s)) = {}"
      unfolding distinct_append by blast
    moreover have "oj_id j \<in> set (map oj_id (sy_picked s))" using that by simp
    moreover have "?J \<in> set (map (\<lambda>r. oj_id (jr_job r)) (sy_runs s))" using k by simp
    ultimately show ?thesis by (metis (no_types, lifting) IntI empty_iff)
  qed
  have "keyed oi_id (o_items w')" unfolding w'(2) by (rule row_upd_keyed [OF _ ik]) (simp add: f(1))
  moreover have "\<forall>y \<in> set (o_items w'). oi_job_id y \<in> oj_id ` set (o_jobs ?w)"
    using T f(2) by (auto simp: w'(2) row_upd_def tables_def)
  ultimately have "tables old str w'" using T c by (simp add: tables_def jobs_ok_def w'(1))
  moreover have "at_work old (sy_picked s) ?rs w'"
  proof (rule at_workI)
    show "distinct (map oj_id (sy_picked s @ map jr_job ?rs))" unfolding jobs by (rule A'(1))
    show "j \<in> set (o_jobs w') \<and> oj_id j \<notin> old" if "j \<in> set (sy_picked s) \<or> j \<in> jr_job ` set ?rs" for j
      using A'(2) [of j] that jobs unfolding w'(1) by (metis list.set_map)
    show "oi_status y = job_queued" if "j \<in> set (sy_picked s)" "y \<in> set (job_items (oj_id j) w')" for j y
      using A'(3) that other by (simp add: its)
    show "run_items r (job_items (oj_id (jr_job r)) w')" if r: "r \<in> set ?rs" for r
    proof -
      obtain i where i: "i < length (sy_runs s)" "r = ?rs ! i" using r by (auto simp: in_set_conv_nth)
      show ?thesis
      proof (cases "i = k")
        case True
        then show ?thesis using r' i k by (simp add: its)
      next
        case False
        have "distinct (map (\<lambda>r. oj_id (jr_job r)) (sy_runs s))" using A'(1) by (simp add: comp_def)
        then have "map (\<lambda>r. oj_id (jr_job r)) (sy_runs s) ! i \<noteq> map (\<lambda>r. oj_id (jr_job r)) (sy_runs s) ! k"
          using False i(1) k by (simp add: nth_eq_iff_index_eq del: nth_map)
        then show ?thesis using A'(4) [of r] i k False by (simp add: its)
      qed
    qed
    show "job_state (oj_id ` set (sy_picked s @ map jr_job ?rs)) w' j" if "j \<in> set (o_jobs w')" "oj_id j \<notin> old" for j
    proof (cases "oj_id j = ?J")
      case True
      have "jr_job (sy_runs s ! k) \<in> set (sy_picked s @ map jr_job (sy_runs s))" using k by simp
      then have m: "oj_id j \<in> oj_id ` set (sy_picked s @ map jr_job (sy_runs s))" using True by (metis imageI)
      have "oj_status j = job_running"
        using A'(5) [of j] that m unfolding w'(1) job_state_def Let_def by blast
      then show ?thesis unfolding jobs using m by (simp add: job_state_def Let_def)
    next
      case False
      then show ?thesis using A'(5) [of j] that unfolding w'(1) jobs by (simp add: job_state_def its)
    qed
  qed
  ultimately show ?thesis by (simp add: all_once_def)
qed

lemma run_row:
  assumes a: "all_once old str s" and k: "k < length (sy_runs s)"
    and x: "x \<in> set (job_items (oj_id (jr_job (sy_runs s ! k))) (sy_world s))"
  shows "row_get oi_id (oi_id x) (o_items (sy_world s)) = Some x" "oi_job_id x = oj_id (jr_job (sy_runs s ! k))"
    "oi_job_id x \<notin> old" "caller (oi_job_id x) (sy_world s) \<longleftrightarrow> must_call (jr_job (sy_runs s ! k))"
proof -
  let ?w = "sy_world s" and ?j = "jr_job (sy_runs s ! k)"
  have T: "tables old str ?w" and A: "at_work old (sy_picked s) (sy_runs s) ?w" using a by (simp_all add: all_once_def)
  have ik: "keyed oi_id (o_items ?w)" "keyed oj_id (o_jobs ?w)" using T by (simp_all add: tables_def jobs_ok_def)
  have "x \<in> set (o_items ?w)" using x by (simp add: job_items_def)
  from row_get_keyed [OF ik(1) this] show "row_get oi_id (oi_id x) (o_items ?w) = Some x" .
  show j: "oi_job_id x = oj_id ?j" using x by (simp add: job_items_def)
  have m: "?j \<in> set (o_jobs ?w)" "oj_id ?j \<notin> old" using at_workD(2) [OF A, of ?j] k by auto
  then show "oi_job_id x \<notin> old" by (simp add: j)
  have "i = ?j" if "i \<in> set (o_jobs ?w)" "oj_id i = oj_id ?j" for i
    using ik(2) m(1) that unfolding keyed_def distinct_map by (metis inj_onD)
  then show "caller (oi_job_id x) ?w \<longleftrightarrow> must_call ?j" using m(1) by (auto simp: caller_def j)
qed

text \<open>Of two items of a run with one id there is one row.\<close>

lemma run_item_row:
  assumes r: "run_items r its" and i: "i \<in> set (jr_items r)" and x: "x \<in> set its" "oi_id x = oi_id i"
  shows "oi_node_id x = oi_node_id i"
proof -
  have m: "map oi_id its = map oi_id (jr_items r)" "map oi_node_id its = map oi_node_id (jr_items r)" "distinct (map oi_id (jr_items r))"
    using r unfolding run_items_def by metis+
  obtain a where a: "a < length its" "its ! a = x" using x(1) by (metis in_set_conv_nth)
  obtain b where b: "b < length (jr_items r)" "jr_items r ! b = i" using i by (metis in_set_conv_nth)
  have len: "length its = length (jr_items r)" using m(1) by (metis length_map)
  have "map oi_id (jr_items r) ! a = map oi_id (jr_items r) ! b"
    using a b x(2) m(1) len by (metis nth_map)
  then have "a = b" using m(3) a b len by (metis length_map nth_eq_iff_index_eq)
  then show ?thesis using a b m(2) by (metis nth_map)
qed

lemma take_once:
  assumes a: "all_once old str s" and k: "k < length (sy_runs s)" and up: "ops_up str env"
    and p: "run_take svc env (sy_runs s ! k) (sy_world s) = (r', w')"
  shows "all_once old str (s\<lparr>sy_world := w', sy_runs := (sy_runs s)[k := r']\<rparr>)"
proof -
  let ?r = "sy_runs s ! k" and ?w = "sy_world s"
  let ?its = "job_items (oj_id (jr_job ?r)) ?w"
  have A: "at_work old (sy_picked s) (sy_runs s) ?w" and T: "tables old str ?w" using a by (simp_all add: all_once_def)
  have run: "run_items ?r ?its" using at_workD(4) [OF A] k by simp
  consider (same) "r' = ?r" "w' = ?w" | (take) i todo where "jr_todo ?r = i # todo"
      "r' = ?r\<lparr>jr_todo := todo, jr_busy := jr_busy ?r @ [(i, oe_now env)]\<rparr>" "w' = begin_item svc env (jr_job ?r) i ?w"
    using p by (auto simp: run_take_def split: list.splits if_splits)
  then show ?thesis
  proof cases
    case same
    then show ?thesis using a by simp
  next
    case take
    let ?f = "begun (oe_now env)"
    obtain x where x: "x \<in> set ?its" "oi_id x = oi_id i" "oi_status x = job_queued"
      using run take(1) by (auto simp: run_items_def)
    note row = run_row [OF a k x(1)]
    have items: "o_items w' = row_upd oi_id (oi_id x) ?f (o_items ?w)" "o_jobs w' = o_jobs ?w"
      using up by (simp_all add: take(3) opsframe x(2) ops_up_def)
    have node: "oi_node_id (?f y) = oi_node_id y" for y by (simp add: begun_def)
    have ok: "run_ok ?r" "distinct (map oi_id (jr_items ?r))" using run by (simp_all add: run_items_def)
    have ne: "oi_id j \<noteq> oi_id x" if "j \<in> set todo \<or> j \<in> fst ` set (jr_busy ?r) \<or> j \<in> fst ` set (jr_done ?r)" for j
      using run_parts(1) [OF ok] that by (auto simp: take(1) x(2) image_iff)
    have "run_items r' (row_upd oi_id (oi_id x) ?f ?its)"
      unfolding run_items_def
    proof (intro conjI ballI)
      show "run_ok r'" using run_take_ok [OF ok(1), of svc env ?w] p by simp
      show "map oi_id (row_upd oi_id (oi_id x) ?f ?its) = map oi_id (jr_items r')"
        "map oi_node_id (row_upd oi_id (oi_id x) ?f ?its) = map oi_node_id (jr_items r')" "distinct (map oi_id (jr_items r'))"
        using run by (simp_all add: row_upd_maps node take(2) run_items_def)
      show "\<exists>y \<in> set (row_upd oi_id (oi_id x) ?f ?its). oi_id y = oi_id j \<and> oi_status y = job_queued" if "j \<in> set (jr_todo r')" for j
      proof -
        have j: "j \<in> set todo" using that by (simp add: take(2))
        then obtain y where "y \<in> set ?its" "oi_id y = oi_id j" "oi_status y = job_queued"
          using run take(1) by (auto simp: run_items_def)
        then show ?thesis using ne [of j] j in_row_upd(1) by metis
      qed
      show "\<exists>y \<in> set (row_upd oi_id (oi_id x) ?f ?its). oi_id y = oi_id (fst b) \<and> oi_status y = job_running"
        if "b \<in> set (jr_busy r')" for b
      proof (cases "b = (i, oe_now env)")
        case True
        have "oi_status (?f x) = job_running" by (simp add: begun_def)
        then show ?thesis using in_row_upd(2) [where key = oi_id and f = ?f, OF x(1) refl] by (intro bexI [where x = "?f x"]) (simp_all add: True x(2))
      next
        case False
        then have b: "b \<in> set (jr_busy ?r)" using that by (simp add: take(2))
        then obtain y where "y \<in> set ?its" "oi_id y = oi_id (fst b)" "oi_status y = job_running"
          using run by (auto simp: run_items_def)
        then show ?thesis using ne [of "fst b"] b in_row_upd(1) by (metis imageI)
      qed
      show "\<exists>y \<in> set (row_upd oi_id (oi_id x) ?f ?its). oi_id y = oi_id (fst d) \<and> oi_status y = (if snd d then job_failed else job_success)"
        if "d \<in> set (jr_done r')" for d
      proof -
        have d: "d \<in> set (jr_done ?r)" using that by (simp add: take(2))
        then obtain y where "y \<in> set ?its" "oi_id y = oi_id (fst d)" "oi_status y = (if snd d then job_failed else job_success)"
          using run unfolding run_items_def by blast
        then show ?thesis using ne [of "fst d"] d in_row_upd(1) by (metis imageI)
      qed
    qed
    moreover have "counts_ok old str w'"
    proof (rule counts_begin [OF _ _ items(2) _ row(1) _ items(1)])
      show "\<not> item_ended x" by (simp add: item_ended_def x(3))
      show "quiet ?w w'" by (simp add: take(3) begin_item_quiet)
    qed (use T in \<open>simp_all add: tables_def jobs_ok_def\<close>)
    ultimately show ?thesis
      by (intro update_once [OF a k x(1) _ _ items(2,1)]) (simp_all add: take(2))
  qed
qed

lemma in_remove_nth: "x \<in> set (remove_nth k xs) \<Longrightarrow> x \<in> set xs"
  using set_remove_nth by (metis subsetD)

lemma done_once:
  assumes a: "all_once old str s" and k: "k < length (sy_runs s)" and up: "ops_up str env" and str: "inj str"
    and hub: "osv_has_hub svc" and p: "run_done svc env n (sy_runs s ! k) (sy_world s) = (r', w')"
  shows "all_once old str (s\<lparr>sy_world := w', sy_runs := (sy_runs s)[k := r']\<rparr>)"
proof (cases "n < length (jr_busy (sy_runs s ! k))")
  case False
  then show ?thesis using a p by (auto simp: run_done_def)
next
  case n: True
  let ?r = "sy_runs s ! k" and ?w = "sy_world s"
  let ?its = "job_items (oj_id (jr_job ?r)) ?w"
  have A: "at_work old (sy_picked s) (sy_runs s) ?w" and T: "tables old str ?w" using a by (simp_all add: all_once_def)
  have run: "run_items ?r ?its" using at_workD(4) [OF A] k by simp
  obtain i t where b: "jr_busy ?r ! n = (i, t)" by fastforce
  obtain err where e: "end_item svc env (jr_job ?r) i t ?w = (err, w')"
    and r': "r' = ?r\<lparr>jr_busy := remove_nth n (jr_busy ?r), jr_failed := (if err \<noteq> None then Suc (jr_failed ?r) else jr_failed ?r),
                jr_done := jr_done ?r @ [(i, err \<noteq> None)]\<rparr>"
    using p n b by (auto simp: run_done_def split: prod.splits)
  have bi: "(i, t) \<in> set (jr_busy ?r)" using n b by (metis nth_mem)
  obtain x where x: "x \<in> set ?its" "oi_id x = oi_id i" "oi_status x = job_running"
    using run bi by (force simp: run_items_def)
  note row = run_row [OF a k x(1)]
  obtain st l c cs nd where f: "outcome_ok (Outcome st l c err)" "o_jobs w' = o_jobs ?w"
    "o_items w' = row_upd oi_id (oi_id i) (finished (oe_now env) st l c err) (o_items ?w)"
    using end_item_effect [OF e up hub] by metis
  let ?f = "finished (oe_now env) st l c err"
  have st: "st = (if err \<noteq> None then job_failed else job_success)" using f(1) by auto
  have ok: "run_ok ?r" "distinct (map oi_id (jr_items ?r))" using run by (simp_all add: run_items_def)
  have ms: "mset (jr_busy ?r) = add_mset (i, t) (mset (remove_nth n (jr_busy ?r)))"
    using mset_remove_at [OF n] b by simp
  have ne: "oi_id j \<noteq> oi_id x"
    if "j \<in> set (jr_todo ?r) \<or> j \<in> fst ` set (remove_nth n (jr_busy ?r)) \<or> j \<in> fst ` set (jr_done ?r)" for j
  proof -
    let ?B = "map (\<lambda>b. oi_id (fst b)) (remove_nth n (jr_busy ?r))"
    have "mset (map (\<lambda>b. oi_id (fst b)) (jr_busy ?r)) = mset (oi_id i # ?B)"
      using arg_cong [OF ms, of "image_mset (\<lambda>b. oi_id (fst b))"] by simp
    then have "mset (map oi_id (jr_todo ?r) @ map (\<lambda>b. oi_id (fst b)) (jr_busy ?r) @ map (\<lambda>d. oi_id (fst d)) (jr_done ?r)) =
        mset (map oi_id (jr_todo ?r) @ (oi_id i # ?B) @ map (\<lambda>d. oi_id (fst d)) (jr_done ?r))" by simp
    with run_parts(1) [OF ok] have d: "distinct (map oi_id (jr_todo ?r) @ (oi_id i # ?B) @ map (\<lambda>d. oi_id (fst d)) (jr_done ?r))"
      using mset_eq_imp_distinct_iff by blast
    then have "oi_id i \<notin> set (map oi_id (jr_todo ?r))" "oi_id i \<notin> set ?B" "oi_id i \<notin> set (map (\<lambda>d. oi_id (fst d)) (jr_done ?r))"
      by auto
    moreover have "oi_id j \<in> set (map oi_id (jr_todo ?r)) \<union> set ?B \<union> set (map (\<lambda>d. oi_id (fst d)) (jr_done ?r))"
      using that by auto
    ultimately show ?thesis unfolding x(2) by (metis Un_iff)
  qed
  have "run_items r' (row_upd oi_id (oi_id x) ?f ?its)"
    unfolding run_items_def
  proof (intro conjI ballI)
    show "run_ok r'" using run_done_ok [OF ok(1), of svc env n ?w] p by simp
    show "map oi_id (row_upd oi_id (oi_id x) ?f ?its) = map oi_id (jr_items r')"
      "map oi_node_id (row_upd oi_id (oi_id x) ?f ?its) = map oi_node_id (jr_items r')" "distinct (map oi_id (jr_items r'))"
      using run by (simp_all add: row_upd_maps r' run_items_def)
    show "\<exists>y \<in> set (row_upd oi_id (oi_id x) ?f ?its). oi_id y = oi_id j \<and> oi_status y = job_queued" if "j \<in> set (jr_todo r')" for j
    proof -
      have j: "j \<in> set (jr_todo ?r)" using that by (simp add: r')
      then obtain y where "y \<in> set ?its" "oi_id y = oi_id j" "oi_status y = job_queued"
        using run unfolding run_items_def by blast
      then show ?thesis using ne [of j] j in_row_upd(1) by metis
    qed
    show "\<exists>y \<in> set (row_upd oi_id (oi_id x) ?f ?its). oi_id y = oi_id (fst d) \<and> oi_status y = job_running"
      if "d \<in> set (jr_busy r')" for d
    proof -
      have d: "d \<in> set (remove_nth n (jr_busy ?r))" using that by (simp add: r')
      obtain y where "y \<in> set ?its" "oi_id y = oi_id (fst d)" "oi_status y = job_running"
        using run in_remove_nth [OF d] unfolding run_items_def by blast
      then show ?thesis using ne [of "fst d"] d in_row_upd(1) by (metis imageI)
    qed
    show "\<exists>y \<in> set (row_upd oi_id (oi_id x) ?f ?its). oi_id y = oi_id (fst d) \<and> oi_status y = (if snd d then job_failed else job_success)"
      if "d \<in> set (jr_done r')" for d
    proof (cases "d = (i, err \<noteq> None)")
      case True
      then show ?thesis using in_row_upd(2) [where key = oi_id and f = ?f, OF x(1) refl] by (intro bexI [where x = "?f x"]) (simp_all add: x(2) st)
    next
      case False
      then have d: "d \<in> set (jr_done ?r)" using that by (auto simp: r')
      then obtain y where "y \<in> set ?its" "oi_id y = oi_id (fst d)" "oi_status y = (if snd d then job_failed else job_success)"
        using run unfolding run_items_def by blast
      then show ?thesis using ne [of "fst d"] d in_row_upd(1) by (metis imageI)
    qed
  qed
  moreover have "counts_ok old str w'"
  proof (rule counts_end [OF _ _ str row(1) [unfolded x(2)] _ row(3) _ row(4) e up hub])
    show "\<not> item_ended x" by (simp add: item_ended_def x(3))
    have "i \<in> set (jr_items ?r)" using run_parts(2) [OF ok] bi by force
    then show "oi_node_id x = oi_node_id i" using run_item_row [OF run _ x(1,2)] by blast
  qed (use T in \<open>simp_all add: tables_def jobs_ok_def\<close>)
  ultimately show ?thesis
    by (intro update_once [OF a k x(1) _ _ f(2) f(3) [folded x(2)]]) (simp_all add: r')
qed

section \<open>All runs\<close>

lemma step_once:
  assumes a: "all_once old str s" and up: "ops_up str env" and str: "inj str" and hub: "osv_has_hub svc"
  shows "all_once old str (ops_step svc (env, ev) s)"
proof (cases ev)
  case (OpsCreate req)
  then show ?thesis using create_once [OF a] by (simp add: ops_step_def)
next
  case OpsTick
  obtain js w where "pick_and_run svc env (sy_world s) = (js, w)" by fastforce
  with tick_once [OF a this] show ?thesis by (simp add: ops_step_def OpsTick)
next
  case (OpsStart k)
  obtain res w where p: "start_job svc env (sy_picked s ! k) (sy_world s) = (res, w)" by fastforce
  have h: "healthy_ops env" using up by (simp add: ops_up_def)
  show ?thesis using start_once [OF a _ h p] a by (simp add: ops_step_def OpsStart p)
next
  case (OpsTake r)
  obtain r' w where p: "run_take svc env (sy_runs s ! r) (sy_world s) = (r', w)" by fastforce
  show ?thesis using take_once [OF a _ up p] a by (simp add: ops_step_def OpsTake p)
next
  case (OpsDone r n)
  obtain r' w where p: "run_done svc env n (sy_runs s ! r) (sy_world s) = (r', w)" by fastforce
  show ?thesis using done_once [OF a _ up str hub p] a by (simp add: ops_step_def OpsDone p)
next
  case (OpsFinish r)
  have h: "healthy_ops env" using up by (simp add: ops_up_def)
  show ?thesis using end_once [OF a _ h] a by (auto simp: ops_step_def OpsFinish Let_def)
qed

lemma run_once:
  "all_once old str s \<Longrightarrow> inj str \<Longrightarrow> osv_has_hub svc \<Longrightarrow> \<forall>(env, ev) \<in> set es. ops_up str env \<Longrightarrow>
   all_once old str (run (ops_step svc) es s)"
proof (induction es arbitrary: s)
  case (Cons e es)
  obtain env ev where e: "e = (env, ev)" by fastforce
  have "all_once old str (ops_step svc e s)" using step_once [OF Cons.prems(1) _ Cons.prems(2,3)] Cons.prems(4) e by simp
  then show ?case using Cons by simp
qed simp

text \<open>The service has just started: nothing is running, and jobs that wait have their items untouched. Rows of jobs that
  are not waiting, for instance those a former process left marked as running, may be in any state.\<close>

definition just_started :: "ops_sys \<Rightarrow> bool" where
  "just_started s \<longleftrightarrow>
     jobs_ok (sy_world s) \<and> sy_picked s = [] \<and> sy_runs s = [] \<and> o_calls (sy_world s) = [] \<and> o_events (sy_world s) = [] \<and>
     (\<forall>x \<in> set (o_items (sy_world s)). \<exists>j \<in> set (o_jobs (sy_world s)). oj_id j = oi_job_id x \<and>
        (oj_status j = job_queued \<longrightarrow> oi_status x = job_queued))"

definition not_waiting :: "ops_world \<Rightarrow> uuid set" where
  "not_waiting w = oj_id ` {j \<in> set (o_jobs w). oj_status j \<noteq> job_queued}"

lemma started_once:
  assumes "just_started s"
  shows "all_once (not_waiting (sy_world s)) str s"
proof -
  let ?w = "sy_world s" and ?old = "not_waiting (sy_world s)"
  have s: "jobs_ok ?w" "sy_picked s = []" "sy_runs s = []" "o_calls ?w = []" "o_events ?w = []"
    "\<And>x. x \<in> set (o_items ?w) \<Longrightarrow> \<exists>j \<in> set (o_jobs ?w). oj_id j = oi_job_id x \<and> (oj_status j = job_queued \<longrightarrow> oi_status x = job_queued)"
    using assms by (auto simp: just_started_def)
  have jk: "i = j" if "i \<in> set (o_jobs ?w)" "j \<in> set (o_jobs ?w)" "oj_id i = oj_id j" for i j
    using s(1) that unfolding jobs_ok_def keyed_def distinct_map by (metis inj_onD)
  have q: "oj_status j = job_queued \<longleftrightarrow> oj_id j \<notin> ?old" if "j \<in> set (o_jobs ?w)" for j
    using jk that unfolding not_waiting_def by blast
  have iq: "oi_status x = job_queued" if "x \<in> set (o_items ?w)" "oi_job_id x \<notin> ?old" for x
    using s(6) [OF that(1)] that(2) q by metis
  have "oi_status x \<noteq> job_success \<and> \<not> item_ended x" if "x \<in> set (o_items ?w)" "oi_job_id x \<notin> ?old" for x
    using iq [OF that] by (simp add: item_ended_def)
  then have "counts_ok ?old str ?w"
    by (auto simp: counts_ok_def done_events_def ended_rows_def due_on_def calls_on_def ended_on_def s(4,5) filter_empty_conv)
  moreover have "\<forall>x \<in> set (o_items ?w). oi_job_id x \<in> oj_id ` set (o_jobs ?w)" using s(6) by (metis imageI)
  moreover have "?old \<subseteq> oj_id ` set (o_jobs ?w)" by (auto simp: not_waiting_def)
  ultimately have "tables ?old str ?w" using s(1) q by (simp add: tables_def)
  moreover have "at_work ?old (sy_picked s) (sy_runs s) ?w"
    using q iq by (auto simp: at_work_def s(2,3) job_state_def job_items_def)
  ultimately show ?thesis by (simp add: all_once_def)
qed

end
