(* ===== verification/Hub_Delivery.thy ===== *)
theory Hub_Delivery
  imports Ops_Hub
begin

text \<open>
  What a subscriber of a job sees while publications run next to each other. \<open>received c es s\<close> are the
  events that the reads of channel \<open>c\<close> in \<open>es\<close> return, \<open>deliveries c es s\<close> the publications (their
  numbers in \<open>hs_pubs\<close>) whose send to \<open>c\<close> succeeds in \<open>es\<close>, in that order.
\<close>

definition op_received :: "nat \<Rightarrow> hub_event \<Rightarrow> hub_sys \<Rightarrow> event list" where
  "op_received c ev s =
     (case ev of
        HubReceive d \<Rightarrow> (if d = c then (case fst (receive d (hs_hub s)) of None \<Rightarrow> [] | Some e \<Rightarrow> [e]) else [])
      | _ \<Rightarrow> [])"

fun received :: "nat \<Rightarrow> hub_event list \<Rightarrow> hub_sys \<Rightarrow> event list" where
  "received c [] s = []"
| "received c (ev # es) s = op_received c ev s @ received c es (hub_step ev s)"

definition sends_to :: "nat \<Rightarrow> publication \<Rightarrow> hub \<Rightarrow> bool" where
  "sends_to c p h \<longleftrightarrow> pb_drop p = None \<and> pb_todo p \<noteq> [] \<and> hd (pb_todo p) = c \<and> fst (try_send c (pb_event p) h)"

definition op_deliveries :: "nat \<Rightarrow> hub_event \<Rightarrow> hub_sys \<Rightarrow> nat list" where
  "op_deliveries c ev s =
     (case ev of
        HubStep k \<Rightarrow> (if k < length (hs_pubs s) \<and> sends_to c (hs_pubs s ! k) (hs_hub s) then [k] else [])
      | _ \<Rightarrow> [])"

fun deliveries :: "nat \<Rightarrow> hub_event list \<Rightarrow> hub_sys \<Rightarrow> nat list" where
  "deliveries c [] s = []"
| "deliveries c (ev # es) s = op_deliveries c ev s @ deliveries c es (hub_step ev s)"

lemma deliveries_append: "deliveries c (es @ fs) s = deliveries c es s @ deliveries c fs (run hub_step es s)"
  by (induction es arbitrary: s) simp_all

section \<open>One channel under each operation\<close>

definition member :: "string \<Rightarrow> nat \<Rightarrow> hub \<Rightarrow> bool" where
  "member j c h \<longleftrightarrow> c \<in> set (hb_subs h j)"

definition buf :: "nat \<Rightarrow> hub \<Rightarrow> event list" where
  "buf c h = ch_buf (hb_chans h c)"

text \<open>The publication still has to deal with the channel: it has not come to it, or has to unsubscribe it.\<close>

definition pending :: "nat \<Rightarrow> publication \<Rightarrow> bool" where
  "pending c p \<longleftrightarrow> c \<in> set (pb_todo p) \<or> pb_drop p = Some c"

lemma close_chan_sel [simp]:
  "member j c (close_chan d h) = member j c h" "buf c (close_chan d h) = buf c h"
  by (simp_all add: close_chan_def member_def buf_def)

lemma unsubscribe_sel [simp]:
  "buf c (unsubscribe j d h) = buf c h"
  "member j' c (unsubscribe j d h) \<longleftrightarrow> member j' c h \<and> \<not> (j' = j \<and> c = d)"
proof -
  show "buf c (unsubscribe j d h) = buf c h" by (simp add: unsubscribe_def, simp add: buf_def)
  show "member j' c (unsubscribe j d h) \<longleftrightarrow> member j' c h \<and> \<not> (j' = j \<and> c = d)"
    by (auto simp: unsubscribe_def, auto simp: member_def split: if_splits)
qed

lemma try_send_sel [simp]:
  "member j c (snd (try_send d e h)) = member j c h"
  "buf c (snd (try_send d e h)) = buf c h @ (if c = d \<and> fst (try_send d e h) then [e] else [])"
  by (auto simp: try_send_def Let_def member_def buf_def)

lemma receive_buf:
  "op_received c (HubReceive d) s @ buf c (snd (receive d (hs_hub s))) = buf c (hs_hub s)"
  "member j c (snd (receive d h)) = member j c h"
  by (auto simp: op_received_def receive_def buf_def member_def split: list.splits)

lemma subscribe_track:
  "c < hb_next h \<Longrightarrow> buf c (snd (subscribe i h)) = buf c h" "c < hb_next h \<Longrightarrow> member j c (snd (subscribe i h)) = member j c h"
  by (auto simp: buf_def member_def)

lemma publish_sel [simp]:
  "pb_job (publish i e order h) = i" "pending c (publish i e order h) = member i c h" "pb_event (publish i e order h) = e"
  by (auto simp: publish_def Let_def pending_def member_def)

lemma publish_step_sel [simp]:
  "pb_job (fst (publish_step p h)) = pb_job p" "pb_event (fst (publish_step p h)) = pb_event p"
  by (simp_all add: publish_step_def case_prod_beta split: option.split list.split)

lemma publish_step_buf:
  "buf c (snd (publish_step p h)) = buf c h @ (if sends_to c p h then [pb_event p] else [])"
  by (auto simp: publish_step_def sends_to_def case_prod_beta split: option.split list.split)

lemma publish_step_member:
  "member j c (snd (publish_step p h)) \<longleftrightarrow> member j c h \<and> \<not> (pb_drop p = Some c \<and> pb_job p = j)"
  by (auto simp: publish_step_def case_prod_beta split: option.split list.split)

text \<open>A step of a publication is over with a channel only when its send succeeds or when it unsubscribes it.\<close>

lemma publish_step_pending:
  assumes "pub_ok n p"
  shows "pending c (fst (publish_step p h)) \<longleftrightarrow> pending c p \<and> \<not> sends_to c p h \<and> pb_drop p \<noteq> Some c"
  using assms
  by (auto simp: publish_step_def pending_def sends_to_def pub_ok_def case_prod_beta split: option.splits list.splits if_splits)

lemma sends_pending: "sends_to c p h \<Longrightarrow> pending c p"
  by (auto simp: sends_to_def pending_def)

section \<open>The history of one subscriber\<close>

text \<open>
  \<open>c\<close> is a channel of job \<open>j\<close> that was handed out when \<open>n\<close> publications had begun; \<open>got\<close> are the events the
  subscriber has read, \<open>ks\<close> the publications that have sent to it.
\<close>

definition tracks :: "string \<Rightarrow> nat \<Rightarrow> nat \<Rightarrow> event list \<Rightarrow> nat list \<Rightarrow> hub_sys \<Rightarrow> bool" where
  "tracks j c n got ks s \<longleftrightarrow>
     hub_sys_inv s \<and> c < hb_next (hs_hub s) \<and> n \<le> length (hs_pubs s) \<and> (\<forall>i. i \<noteq> j \<longrightarrow> \<not> member i c (hs_hub s)) \<and>
     got @ buf c (hs_hub s) = map (\<lambda>k. pb_event (hs_pubs s ! k)) ks \<and> distinct ks \<and>
     (\<forall>k < length (hs_pubs s). pending c (hs_pubs s ! k) \<longrightarrow> n \<le> k \<and> pb_job (hs_pubs s ! k) = j) \<and>
     (\<forall>k \<in> set ks. n \<le> k \<and> k < length (hs_pubs s) \<and> pb_job (hs_pubs s ! k) = j \<and> \<not> pending c (hs_pubs s ! k)) \<and>
     (member j c (hs_hub s) \<longrightarrow>
        (\<forall>k < length (hs_pubs s). n \<le> k \<and> pb_job (hs_pubs s ! k) = j \<longrightarrow> k \<in> set ks \<or> pending c (hs_pubs s ! k)))"

lemma tracksI:
  assumes "hub_sys_inv s" "c < hb_next (hs_hub s)" "n \<le> length (hs_pubs s)"
    and "\<And>i. i \<noteq> j \<Longrightarrow> \<not> member i c (hs_hub s)"
    and "got @ buf c (hs_hub s) = map (\<lambda>k. pb_event (hs_pubs s ! k)) ks" and "distinct ks"
    and "\<And>k. k < length (hs_pubs s) \<Longrightarrow> pending c (hs_pubs s ! k) \<Longrightarrow> n \<le> k \<and> pb_job (hs_pubs s ! k) = j"
    and "\<And>k. k \<in> set ks \<Longrightarrow> n \<le> k \<and> k < length (hs_pubs s) \<and> pb_job (hs_pubs s ! k) = j \<and> \<not> pending c (hs_pubs s ! k)"
    and "\<And>k. member j c (hs_hub s) \<Longrightarrow> k < length (hs_pubs s) \<Longrightarrow> n \<le> k \<Longrightarrow> pb_job (hs_pubs s ! k) = j \<Longrightarrow>
       k \<in> set ks \<or> pending c (hs_pubs s ! k)"
  shows "tracks j c n got ks s"
  unfolding tracks_def using assms by simp

lemma tracksD:
  assumes "tracks j c n got ks s"
  shows "hub_sys_inv s" "c < hb_next (hs_hub s)" "n \<le> length (hs_pubs s)" "\<And>i. i \<noteq> j \<Longrightarrow> \<not> member i c (hs_hub s)"
    "got @ buf c (hs_hub s) = map (\<lambda>k. pb_event (hs_pubs s ! k)) ks" "distinct ks"
    "\<And>k. k < length (hs_pubs s) \<Longrightarrow> pending c (hs_pubs s ! k) \<Longrightarrow> n \<le> k \<and> pb_job (hs_pubs s ! k) = j"
    "\<And>k. k \<in> set ks \<Longrightarrow> n \<le> k \<and> k < length (hs_pubs s) \<and> pb_job (hs_pubs s ! k) = j \<and> \<not> pending c (hs_pubs s ! k)"
    "\<And>k. member j c (hs_hub s) \<Longrightarrow> k < length (hs_pubs s) \<Longrightarrow> n \<le> k \<Longrightarrow> pb_job (hs_pubs s ! k) = j \<Longrightarrow>
       k \<in> set ks \<or> pending c (hs_pubs s ! k)"
  using assms unfolding tracks_def by auto

lemma tracks_same_pubs:
  assumes "tracks j c n got ks s" and "hs_pubs t = hs_pubs s" and "hub_sys_inv t" and "hb_next (hs_hub s) \<le> hb_next (hs_hub t)"
    and "got' @ buf c (hs_hub t) = got @ buf c (hs_hub s)" and "\<And>i. member i c (hs_hub t) \<Longrightarrow> member i c (hs_hub s)"
  shows "tracks j c n got' ks t"
  by (rule tracksI) (use assms tracksD [OF assms(1)] in auto)

lemma tracks_publish:
  assumes "tracks j c n got ks s"
  shows "tracks j c n got ks (hub_step (HubPublish i e order) s)"
proof -
  let ?t = "hub_step (HubPublish i e order) s" and ?p = "publish i e order (hs_hub s)"
  have t: "hs_hub ?t = hs_hub s" "hs_pubs ?t = hs_pubs s @ [?p]" by (simp_all add: hub_step_def)
  note A = tracksD [OF assms]
  have at: "hs_pubs ?t ! k = (if k < length (hs_pubs s) then hs_pubs s ! k else ?p)"
    if "k < length (hs_pubs ?t)" for k
    using that by (simp add: t(2) nth_append)
  have old: "hs_pubs ?t ! k = hs_pubs s ! k" if "k < length (hs_pubs s)" for k using that by (simp add: t(2) nth_append)
  have lt: "k < length (hs_pubs ?t) \<longleftrightarrow> k < length (hs_pubs s) \<or> k = length (hs_pubs s)" for k by (auto simp: t(2))
  show ?thesis
  proof (rule tracksI [OF hub_step_inv [OF A(1)]])
    show "c < hb_next (hs_hub ?t)" "n \<le> length (hs_pubs ?t)" "distinct ks" using A(2,3,6) by (simp_all add: t)
    show "\<not> member i' c (hs_hub ?t)" if "i' \<noteq> j" for i' using A(4) [OF that] by (simp add: t)
    show "got @ buf c (hs_hub ?t) = map (\<lambda>k. pb_event (hs_pubs ?t ! k)) ks"
      using A(5,8) old by (simp add: t(1))
    show "n \<le> k \<and> pb_job (hs_pubs ?t ! k) = j" if "k < length (hs_pubs ?t)" "pending c (hs_pubs ?t ! k)" for k
      using that(2) A(3,4) A(7) [of k] that(1) by (auto simp: at [OF that(1)] lt split: if_splits)
    show "n \<le> k \<and> k < length (hs_pubs ?t) \<and> pb_job (hs_pubs ?t ! k) = j \<and> \<not> pending c (hs_pubs ?t ! k)" if "k \<in> set ks" for k
      using A(8) [OF that] old by (simp add: lt)
    show "k \<in> set ks \<or> pending c (hs_pubs ?t ! k)"
      if "member j c (hs_hub ?t)" "k < length (hs_pubs ?t)" "n \<le> k" "pb_job (hs_pubs ?t ! k) = j" for k
      using that A(9) [of k] by (auto simp: at [OF that(2)] t(1) lt split: if_splits)
  qed
qed

lemma tracks_pub_step:
  assumes "tracks j c n got ks s"
  shows "tracks j c n got (ks @ op_deliveries c (HubStep k) s) (hub_step (HubStep k) s)"
proof (cases "k < length (hs_pubs s)")
  case False
  then show ?thesis using assms by (simp add: op_deliveries_def hub_step_def)
next
  case k: True
  let ?p = "hs_pubs s ! k" and ?h = "hs_hub s" and ?t = "hub_step (HubStep k) s"
  let ?q = "fst (publish_step ?p ?h)"
  have t: "hs_hub ?t = snd (publish_step ?p ?h)" "hs_pubs ?t = (hs_pubs s)[k := ?q]"
    using k by (simp_all add: hub_step_def case_prod_beta)
  have at: "hs_pubs ?t ! i = (if i = k then ?q else hs_pubs s ! i)" "length (hs_pubs ?t) = length (hs_pubs s)" for i
    using k by (simp_all add: t)
  have inv: "hub_sys_inv s" "hub_sys_inv ?t" using assms hub_step_inv by (auto simp: tracks_def)
  have ok: "pub_ok (hb_next ?h) ?p" using inv(1) k by (simp add: hub_sys_inv_def)
  note pend = publish_step_pending [OF ok, of c ?h]
  have ev: "pb_event (hs_pubs ?t ! i) = pb_event (hs_pubs s ! i)" "pb_job (hs_pubs ?t ! i) = pb_job (hs_pubs s ! i)" for i
    by (simp_all add: at)
  have le: "pending c (hs_pubs ?t ! i) \<Longrightarrow> pending c (hs_pubs s ! i)" for i using pend by (simp add: at split: if_splits)
  have mem: "member i c (hs_hub ?t) \<longleftrightarrow> member i c ?h \<and> \<not> (pb_drop ?p = Some c \<and> pb_job ?p = i)" for i
    by (simp add: t publish_step_member)
  have d: "op_deliveries c (HubStep k) s = (if sends_to c ?p ?h then [k] else [])" using k by (simp add: op_deliveries_def)
  note A = tracksD(2-) [OF assms]
  have dropped: "pb_job ?p = j" if "pb_drop ?p = Some c" using A(6) [OF k] that by (simp add: pending_def)
  have ks: "i \<noteq> k" if "i \<in> set ks" "sends_to c ?p ?h" for i using A(7) [OF that(1)] sends_pending [OF that(2)] by blast
  have pk: "n \<le> k \<and> pb_job ?p = j \<and> \<not> pending c ?q" if "sends_to c ?p ?h"
    using A(6) [OF k sends_pending [OF that]] pend that by simp
  show ?thesis
  proof (rule tracksI [OF inv(2)])
    show "c < hb_next (hs_hub ?t)" using A(1) by (simp add: t(1) subs_next)
    show "n \<le> length (hs_pubs ?t)" using A(2) by (simp add: at(2))
    show "\<not> member i c (hs_hub ?t)" if "i \<noteq> j" for i using A(3) [OF that] mem by simp
    show "got @ buf c (hs_hub ?t) = map (\<lambda>i. pb_event (hs_pubs ?t ! i)) (ks @ op_deliveries c (HubStep k) s)"
      using A(4) by (simp add: t(1) publish_step_buf ev d flip: append_assoc)
    show "distinct (ks @ op_deliveries c (HubStep k) s)" using A(5) ks by (auto simp: d)
    show "n \<le> i \<and> pb_job (hs_pubs ?t ! i) = j" if "i < length (hs_pubs ?t)" "pending c (hs_pubs ?t ! i)" for i
      using A(6) [of i] le that by (simp add: at(2) ev)
    show "n \<le> i \<and> i < length (hs_pubs ?t) \<and> pb_job (hs_pubs ?t ! i) = j \<and> \<not> pending c (hs_pubs ?t ! i)"
      if "i \<in> set (ks @ op_deliveries c (HubStep k) s)" for i
      using that A(7) [of i] le [of i] pk k by (auto simp: at(2) ev d at(1) split: if_splits)
    show "i \<in> set (ks @ op_deliveries c (HubStep k) s) \<or> pending c (hs_pubs ?t ! i)"
      if "member j c (hs_hub ?t)" "i < length (hs_pubs ?t)" "n \<le> i" "pb_job (hs_pubs ?t ! i) = j" for i
      using A(8) [of i] that mem dropped pend by (auto simp: at(2) ev d at(1))
  qed
qed

lemma tracks_step:
  assumes "tracks j c n got ks s"
  shows "tracks j c n (got @ op_received c ev s) (ks @ op_deliveries c ev s) (hub_step ev s)"
proof -
  have inv: "hub_sys_inv (hub_step ev s)" and c: "c < hb_next (hs_hub s)" using assms hub_step_inv by (auto simp: tracks_def)
  show ?thesis
  proof (cases ev)
    case (HubPublish i e order)
    then show ?thesis using tracks_publish [OF assms] by (simp add: op_received_def op_deliveries_def)
  next
    case (HubStep k)
    then show ?thesis using tracks_pub_step [OF assms, of k] by (simp add: op_received_def)
  next
    case (HubReceive d)
    have "tracks j c n (got @ op_received c ev s) ks (hub_step ev s)"
      by (rule tracks_same_pubs [OF assms _ inv])
         (use receive_buf(1) [of c d s] in \<open>simp_all add: HubReceive hub_step_def subs_next receive_buf(2)\<close>)
    then show ?thesis by (simp add: HubReceive op_deliveries_def)
  next
    case (HubSubscribe i)
    have "tracks j c n got ks (hub_step ev s)"
      by (rule tracks_same_pubs [OF assms _ inv]) (use c in \<open>simp_all add: HubSubscribe hub_step_def subscribe_track\<close>)
    then show ?thesis by (simp add: HubSubscribe op_received_def op_deliveries_def)
  next
    case (HubUnsubscribe i d)
    have "tracks j c n got ks (hub_step ev s)"
      by (rule tracks_same_pubs [OF assms _ inv]) (simp_all add: HubUnsubscribe hub_step_def subs_next)
    then show ?thesis by (simp add: HubUnsubscribe op_received_def op_deliveries_def)
  qed
qed

lemma tracks_run:
  "tracks j c n got ks s \<Longrightarrow> tracks j c n (got @ received c es s) (ks @ deliveries c es s) (run hub_step es s)"
proof (induction es arbitrary: got ks s)
  case (Cons ev es)
  from Cons.IH [OF tracks_step [OF Cons.prems, of ev]] show ?case by simp
qed simp

lemma tracks_subscribe:
  assumes "hub_sys_inv s"
  shows "tracks j (hb_next (hs_hub s)) (length (hs_pubs s)) [] [] (hub_step (HubSubscribe j) s)"
proof -
  have h: "hub_inv (hs_hub s)" using assms by (simp add: hub_sys_inv_def)
  have "hb_next (hs_hub s) \<notin> set (hb_subs (hs_hub s) i)" for i using hub_invD(3) [OF h, of "hb_next (hs_hub s)" i] by auto
  moreover have "\<not> pending (hb_next (hs_hub s)) p" if "p \<in> set (hs_pubs s)" for p
    using assms that by (fastforce simp: hub_sys_inv_def pub_ok_def pending_def)
  ultimately show ?thesis
    using hub_step_inv [OF assms, of "HubSubscribe j"]
    by (auto simp: tracks_def hub_step_def member_def buf_def)
qed

text \<open>A publication that is over sends no more; one that has not begun has not sent.\<close>

lemma deliveries_from:
  "hub_sys_inv s \<Longrightarrow> k \<in> set (deliveries c es s) \<Longrightarrow> k < length (hs_pubs s) \<Longrightarrow> pending c (hs_pubs s ! k)"
proof (induction es arbitrary: s)
  case (Cons ev es)
  show ?case
  proof (cases "k \<in> set (op_deliveries c ev s)")
    case True
    then show ?thesis by (auto simp: op_deliveries_def sends_pending split: hub_event.splits if_splits)
  next
    case False
    with Cons.prems have k: "k \<in> set (deliveries c es (hub_step ev s))" by simp
    have len: "k < length (hs_pubs (hub_step ev s))"
      using Cons.prems(3) by (auto simp: hub_step_def case_prod_beta split: hub_event.split)
    have p: "pending c (hs_pubs (hub_step ev s) ! k)"
      by (rule Cons.IH [OF hub_step_inv [OF Cons.prems(1)] k len])
    show ?thesis
    proof (cases ev)
      case (HubStep i)
      show ?thesis
      proof (cases "i = k")
        case True
        have "pub_ok (hb_next (hs_hub s)) (hs_pubs s ! k)" using Cons.prems(1,3) by (simp add: hub_sys_inv_def)
        from publish_step_pending [OF this] p show ?thesis
          using Cons.prems(3) HubStep True by (simp add: hub_step_def case_prod_beta)
      next
        case ne: False
        then show ?thesis using p HubStep by (simp add: hub_step_def case_prod_beta split: if_splits)
      qed
    qed (use p Cons.prems(3) in \<open>simp_all add: hub_step_def nth_append\<close>)
  qed
qed simp

lemma hub_step_grows: "length (hs_pubs s) \<le> length (hs_pubs (hub_step ev s))"
  by (simp add: hub_step_def case_prod_beta split: hub_event.split)

lemma hub_run_grows: "length (hs_pubs s) \<le> length (hs_pubs (run hub_step es s))"
proof (induction es arbitrary: s)
  case (Cons ev es)
  show ?case using le_trans [OF hub_step_grows Cons.IH, of s ev] by simp
qed simp

lemma deliveries_before:
  "hub_sys_inv s \<Longrightarrow> k \<in> set (deliveries c es s) \<Longrightarrow> k < length (hs_pubs (run hub_step es s))"
proof (induction es arbitrary: s)
  case (Cons ev es)
  show ?case
  proof (cases "k \<in> set (op_deliveries c ev s)")
    case True
    then have "k < length (hs_pubs (hub_step ev s))"
      by (auto simp: op_deliveries_def hub_step_def case_prod_beta split: hub_event.splits if_splits)
    then show ?thesis using hub_run_grows [of "hub_step ev s" es] by simp
  next
    case False
    then show ?thesis using Cons hub_step_inv by simp
  qed
qed simp

end
