(* ===== verification/Ops_Properties.thy ===== *)
theory Ops_Properties
  imports Ops_Jobs Hub_Delivery
begin

text \<open>
  The properties of the operation jobs and of the event hub, each with a concrete instance.
\<close>

section \<open>A concrete service\<close>

definition ex_ops_env :: ops_env where
  "ex_ops_env =
     \<lparr>he_gateway_env = [], he_route = None, he_public_base_url = [], he_allow_cidr = [],
      he_url_host = (\<lambda>u. None), he_url_port = (\<lambda>u. []), he_url_with_host = (\<lambda>u h. u), he_ipv4 = (\<lambda>a. None),
      oe_now = 1000, oe_db_fail = (\<lambda>n. False), oe_cancelled = False, oe_uuid_str = uuid_text,
      oe_parse = (\<lambda>s. None), oe_uuid = (\<lambda>n. of_nat (n + 100)), oe_token = Inr ''tok'',
      oe_sha256_hex = (\<lambda>s. s), oe_encrypt = (\<lambda>s. Inr s), oe_random = 0, oe_stat = (\<lambda>p. Some (1, True)),
      oe_read_file = (\<lambda>p. Inr ''data''), oe_exec = (\<lambda>n c. (''done'', 0, None)), oe_probe = None,
      oe_installer = False,
      oe_poll = (\<lambda>i. \<lparr>pl_delay = 0, pl_status = (if i = 2 then 200 else 0), pl_ok = (i = 2), pl_version = ''v1'',
                     pl_err = (i \<noteq> 2), pl_ctx_done = False\<rparr>),
      oe_tls_column = False\<rparr>"

definition ex_ops :: ops_svc where
  "ex_ops = new_ops True True True True [''pw''] ''10.0.0.0/8'' []"

definition ex_node :: node where
  "ex_node =
     \<lparr>n_id = 7, n_org_id = None, n_name = ''a'', n_kind = ''PANEL'', n_host = ''a.example'', n_base_url = [],
      n_is_sandbox = True, n_agent_enabled = False, n_agent_url = None, n_agent_installed = False,
      n_agent_last_seen = None, n_is_enabled = True, n_ssh_enabled = True, n_ssh_host = ''a.example'',
      n_ssh_port = 22, n_allowed_roots = [], n_agent_token_enc = None, n_agent_version = None,
      n_service_version = None, n_versions_checked_at = None,
      n_runtime_version = None, n_ssh_user = ''root'', n_ssh_auth_method = ''key'', n_ssh_key_enc = ''k'', n_verify_tls = True\<rparr>"

definition ex_job :: ops_job where
  "ex_job =
     \<lparr>oj_id = 1, oj_type = jt_reboot, oj_status = job_running, oj_actor = ''admin'', oj_parallelism = 5,
      oj_targets = [7], oj_params = Some [(''dry_run'', JBool True)], oj_token_hash = None, oj_error = None,
      oj_created_at = 10, oj_started_at = Some 20, oj_finished_at = None\<rparr>"

definition ex_item :: ops_item where
  "ex_item = new_item_row 2 1 7"

definition ex_ops_world :: ops_world where
  "ex_ops_world = \<lparr>o_jobs = [ex_job], o_items = [ex_item], o_nodes = [ex_node], o_metrics = [],
     o_events = [], o_calls = [], o_dbn = 0, o_uid = 0\<rparr>"

definition ex_ops_sys :: ops_sys where
  "ex_ops_sys = \<lparr>sy_world = ex_ops_world, sy_picked = [], sy_runs = []\<rparr>"

lemma ex_ops_healthy: "healthy_ops ex_ops_env"
  by (simp add: healthy_ops_def ex_ops_env_def)

lemma ex_ops_rows:
  "keyed oj_id (o_jobs ex_ops_world)" "keyed oi_id (o_items ex_ops_world)"
  "row_get oj_id (oj_id ex_job) (o_jobs ex_ops_world) = Some ex_job"
  "filter (\<lambda>i. oi_job_id i = oj_id ex_job \<and> oi_status i = job_queued) (o_items ex_ops_world) = [ex_item]"
  "row_get oi_id (oi_id ex_item) (o_items ex_ops_world) = Some ex_item"
  by (simp_all add: ex_ops_world_def keyed_def ex_item_def new_item_row_def ex_job_def)

lemma ex_ops_inv: "ops_inv ex_ops_sys"
  by (simp add: ops_inv_def ex_ops_sys_def jobs_ok_def running_jobs_def ex_ops_world_def keyed_def ex_job_def)

section \<open>Creating jobs\<close>

text \<open>C16: Accepted jobs. When a request is accepted, its type is supported, a job that would act on all
  nodes for real was confirmed with the word of its type, in sandbox mode every selected node is a
  sandbox, and an agent job's nodes have an agent; a queued job and one queued item for each selected
  node are added, and nothing else changes.\<close>
theorem accepted_jobs_are_checked:
  assumes "create_job svc env req w = (Inr (job, token), w')"
  shows "is_supported_job_type (oj_type job) \<and>
    (let p = parse_job_params_from_map (cr_params req)
     in (cr_all_nodes req \<and> \<not> jp_dry_run p \<longrightarrow>
          (case confirm_word (oj_type job) of None \<Rightarrow> True | Some c \<Rightarrow> trim_space (jp_confirm p) = c)) \<and>
        (jp_sandbox p \<longrightarrow> (\<forall>n \<in> set (o_nodes w). n_id n \<in> set (oj_targets job) \<longrightarrow> n_is_sandbox n)) \<and>
        (is_agent_job_type (oj_type job) \<longrightarrow>
          (\<forall>n \<in> set (o_nodes w). n_id n \<in> set (oj_targets job) \<longrightarrow> \<not> agent_unset n))) \<and>
    oj_status job = job_queued \<and> 1 \<le> oj_parallelism job \<and> oj_parallelism job \<le> 10 \<and> oj_targets job \<noteq> [] \<and>
    o_jobs w' = o_jobs w @ [job] \<and>
    (\<exists>items. o_items w' = o_items w @ items \<and> map oi_node_id items = oj_targets job \<and>
       (\<forall>i \<in> set items. oi_job_id i = oj_id job \<and> oi_status i = job_queued)) \<and>
    o_nodes w' = o_nodes w \<and> o_calls w' = o_calls w"
proof (cases rule: create_job_cases [of svc env req w])
  case (1 e w'')
  with assms show ?thesis by simp
next
  case (2 ids tok w1 w'')
  let ?i = "oe_uuid env (o_uid w1)" and ?p = "parse_job_params_from_map (cr_params req)"
  have job: "job = new_job_row env req ids (oe_sha256_hex env tok) ?i" and w'': "w'' = w'"
    using assms 2(6) by auto
  obtain r0 v where v: "resolve_node_ids env req w = (r0, v)" by fastforce
  have nodes: "o_nodes v = o_nodes w" using resolve_node_ids_rows [of w env req] v by (simp add: same_rows_def)
  obtain v2 where t: "check_targets env req ids v = (None, v2)" using 2(4) v by (metis prod.collapse snd_conv)
  have sb: "n_is_sandbox n" if "jp_sandbox ?p" "n \<in> set (o_nodes w)" "n_id n \<in> set ids" for n
  proof -
    obtain r3 v3 where 3: "ensure_sandbox_targets env ids v = (r3, v3)" by fastforce
    have "r3 = None" using t that(1) 2(3) unfolding check_targets_def Let_def by (cases r3) (simp_all add: 3)
    with 3 show ?thesis
      using that(2,3) nodes
      by (auto simp: ensure_sandbox_targets_def o_query_def nodes_in_def Let_def filter_empty_conv split: if_splits)
  qed
  have ag: "\<not> agent_unset n"
    if a: "is_agent_job_type (trim_space (cr_type req))" and n: "n \<in> set (o_nodes w)" "n_id n \<in> set ids" for n
  proof -
    obtain r3 v3 where 3: "(if jp_sandbox ?p then ensure_sandbox_targets env ids v else (None, v)) = (r3, v3)" by fastforce
    have n3: "o_nodes v3 = o_nodes w"
      using 3 ensure_sandbox_rows [of v env ids] nodes by (auto simp: same_rows_def split: if_splits)
    obtain v4 where "ensure_agent_targets env ids v3 = (None, v4)"
      using t a 2(3) unfolding check_targets_def Let_def 3 prod.case
      by (auto split: option.splits prod.splits if_splits)
    then show ?thesis
      using n n3 by (auto simp: ensure_agent_targets_def o_query_def nodes_in_def Let_def filter_empty_conv split: if_splits)
  qed
  have cf: "\<not> unconfirmed (trim_space (cr_type req)) (cr_all_nodes req) ?p" by (rule check_request_None(4) [OF 2(1)])
  have "map oi_node_id (new_item_rows env k j ids) = ids" for k j
    by (simp add: new_item_rows_def new_item_row_def comp_def case_prod_beta)
  moreover have "\<forall>i \<in> set (new_item_rows env k j ids). oi_job_id i = j \<and> oi_status i = job_queued" for k j
    by (auto simp: new_item_rows_def new_item_row_def)
  ultimately have items: "\<exists>items. o_items w' = o_items w @ items \<and> map oi_node_id items = ids \<and>
       (\<forall>i \<in> set items. oi_job_id i = ?i \<and> oi_status i = job_queued)"
    using 2(8) w'' by blast
  have sel: "oj_type job = trim_space (cr_type req)" "oj_targets job = ids" "oj_status job = job_queued" "oj_id job = ?i"
    "oj_parallelism job = clamp_parallelism (cr_parallelism req)"
    by (simp_all add: job new_job_row_def)
  show ?thesis
    unfolding sel Let_def
    using check_request_None(2) [OF 2(1)] cf sb ag items 2(3,7,12,13) w'' clamp_parallelism_range job
    by (auto simp: unconfirmed_def split: option.splits)
qed

definition ex_req :: create_job_request where
  "ex_req = \<lparr>cr_type = jt_reboot, cr_node_ids = [], cr_all_nodes = True, cr_parallelism = 50,
     cr_params = [(''dry_run'', JBool True)], cr_actor = []\<rparr>"

lemma ex_params: "jp_dry_run (parse_job_params (Some [(''dry_run'', JBool True)]))"
  "\<not> jp_sandbox (parse_job_params (Some [(''dry_run'', JBool True)]))"
  by (simp_all add: parse_job_params_def job_params_of_def json_bool_def, code_simp+)

lemma ex_create: "\<exists>job w'. create_job ex_ops ex_ops_env ex_req ex_ops_world = (Inr (job, ''tok''), w')"
proof -
  have t: "trim_space jt_reboot = jt_reboot" "jt_reboot \<noteq> []" "is_supported_job_type jt_reboot"
    "\<not> is_agent_job_type jt_reboot" "jt_reboot \<noteq> jt_restart_svc"
    by code_simp+
  have p: "parse_job_params_from_map (cr_params ex_req) = parse_job_params (Some [(''dry_run'', JBool True)])"
    by (simp add: parse_job_params_from_map_def marshal_params_def ex_req_def)
  have sel: "cr_type ex_req = jt_reboot" "cr_all_nodes ex_req = True" by (simp_all add: ex_req_def)
  have c: "check_request ex_ops ex_req = None"
    unfolding check_request_def Let_def p sel t(1)
    using t ex_params by (simp add: unconfirmed_def ex_ops_def new_ops_def)
  have r: "resolve_node_ids ex_ops_env ex_req ex_ops_world = (Inr [7], o_tick ex_ops_world)"
    by (simp add: resolve_node_ids_def sel o_query_def ex_ops_healthy) (simp add: ex_ops_world_def ex_node_def)
  have k: "check_targets ex_ops_env ex_req [7] (o_tick ex_ops_world) = (None, o_tick ex_ops_world)"
    unfolding check_targets_def Let_def p sel t(1) using t ex_params by simp
  have tok: "generate_public_token ex_ops_env = Inr (''tok'', ''tok'')"
    by (simp add: generate_public_token_def ex_ops_env_def)
  show ?thesis
    unfolding create_job_def c r option.case prod.case sum.case k store_job_def tok Let_def
    by (simp add: new_item_rows_def ex_ops_env_def new_job_row_def ex_ops_world_def o_tick_def insert_job_def
        o_tx_def ex_job_def ex_item_def new_item_row_def list_ex_iff)
qed

lemma accepted_jobs_are_checked_witness:
  "\<exists>job (w' :: ops_world). o_jobs w' = [ex_job, job] \<and> oj_status job = job_queued \<and> oj_parallelism job \<le> 10"
proof -
  from ex_create obtain job w' where c: "create_job ex_ops ex_ops_env ex_req ex_ops_world = (Inr (job, ''tok''), w')"
    by blast
  have "o_jobs w' = o_jobs ex_ops_world @ [job] \<and> oj_status job = job_queued \<and> oj_parallelism job \<le> 10"
    using accepted_jobs_are_checked [OF c] by blast
  then have "o_jobs w' = [ex_job, job] \<and> oj_status job = job_queued \<and> oj_parallelism job \<le> 10"
    by (simp add: ex_ops_world_def)
  then show ?thesis by blast
qed

text \<open>Refused requests. A request that is refused leaves all tables as they are and makes no call,
  even when the database fails in the middle of the transaction.\<close>
theorem refused_jobs_change_nothing:
  assumes "create_job svc env req w = (Inl e, w')"
  shows "o_jobs w' = o_jobs w \<and> o_items w' = o_items w \<and> o_nodes w' = o_nodes w \<and> o_calls w' = o_calls w"
  using assms by (cases rule: create_job_cases [of svc env req w]) (auto simp: same_rows_def)

lemma refused_jobs_change_nothing_witness:
  "o_jobs (snd (create_job ex_ops ex_ops_env (ex_req\<lparr>cr_type := ''nothing''\<rparr>) ex_ops_world)) = [ex_job]"
proof -
  have "trim_space ''nothing'' = ''nothing''" "\<not> is_supported_job_type ''nothing''" by code_simp+
  then have "check_request ex_ops (ex_req\<lparr>cr_type := ''nothing''\<rparr>) = Some (ErrMsg ''unsupported job type'')"
    by (simp add: check_request_def Let_def ex_ops_def new_ops_def)
  then have "create_job ex_ops ex_ops_env (ex_req\<lparr>cr_type := ''nothing''\<rparr>) ex_ops_world =
      (Inl (ErrMsg ''unsupported job type''), ex_ops_world)"
    by (simp add: create_job_def)
  from refused_jobs_change_nothing [OF this] this show ?thesis by (simp add: ex_ops_world_def)
qed

section \<open>Running jobs\<close>

text \<open>C40: Bounded concurrency. Whatever requests, ticks and worker steps happen in whatever order, and
  whatever fails, at most three jobs are marked as running, and no job has more than ten items in
  execution.\<close>
theorem at_most_three_jobs:
  assumes "ops_inv s"
  shows "running_jobs (sy_world (run (ops_step svc) es s)) \<le> 3 \<and>
    (\<forall>r \<in> set (sy_runs (run (ops_step svc) es s)). length (jr_busy r) \<le> 10)"
proof -
  have i: "ops_inv (run (ops_step svc) es s)" by (rule ops.run_inv [OF assms])
  have "length (jr_busy r) \<le> 10" if "r \<in> set (sy_runs (run (ops_step svc) es s))" for r
  proof -
    have "length (jr_busy r) \<le> workers_of (jr_job r)" "1 \<le> oj_parallelism (jr_job r)" "oj_parallelism (jr_job r) \<le> 10"
      using i that by (auto simp: ops_inv_def run_ok_def)
    then show ?thesis by (simp add: workers_of_def)
  qed
  with i show ?thesis by (simp add: ops_inv_def)
qed

lemma at_most_three_jobs_witness:
  "running_jobs (sy_world (run (ops_step ex_ops) [(ex_ops_env, OpsCreate ex_req), (ex_ops_env, OpsTick)] ex_ops_sys)) \<le> 3"
  using at_most_three_jobs [OF ex_ops_inv] by blast







text \<open>The result of a job. On a working database \<open>runJob\<close> finishes the job's row; each of the items
  it loaded ends as a success or as failed, and the job is a success exactly when all of them are.\<close>
theorem job_result:
  assumes "healthy_ops env" "keyed oj_id (o_jobs w)" "keyed oi_id (o_items w)"
    and "row_get oj_id (oj_id job) (o_jobs w) = Some j0"
    and "items = filter (\<lambda>i. oi_job_id i = oj_id job \<and> oi_status i = job_queued) (o_items w)" "items \<noteq> []"
  shows "\<exists>j'. row_get oj_id (oj_id job) (o_jobs (run_job svc env job w)) = Some j' \<and>
    oj_finished_at j' = Some (oe_now env) \<and>
    (\<forall>i \<in> set items. item_status_is job_success i (run_job svc env job w) \<or>
       item_status_is job_failed i (run_job svc env job w)) \<and>
    oj_status j' = (if \<forall>i \<in> set items. item_status_is job_success i (run_job svc env job w)
                    then job_success else job_failed)"
  by (rule run_job_ends [OF assms, of svc]) blast

lemma job_result_witness:
  "\<exists>j'. row_get oj_id 1 (o_jobs (run_job ex_ops ex_ops_env ex_job ex_ops_world)) = Some j' \<and>
     oj_finished_at j' = Some 1000"
proof -
  have "oj_id ex_job = 1" "oe_now ex_ops_env = 1000" by (simp_all add: ex_job_def ex_ops_env_def)
  then show ?thesis
    using job_result [OF ex_ops_healthy ex_ops_rows(1-3) ex_ops_rows(4) [symmetric], of ex_ops] by auto
qed

text \<open>The result of an item. On a working database the row of an executed item has its times and
  exit code, and its state is failed exactly when the execution reports an error to the job.\<close>
theorem item_result:
  assumes "healthy_ops env" "healthy_ops env'" "keyed oi_id (o_items w)"
    and "row_get oi_id (oi_id item) (o_items w) = Some r"
  shows "\<exists>r'. row_get oi_id (oi_id item) (o_items (snd (execute_item svc env env' job item w))) = Some r' \<and>
    oi_status r' = (if fst (execute_item svc env env' job item w) = None then job_success else job_failed) \<and>
    oi_started_at r' = Some (oe_now env) \<and> oi_finished_at r' = Some (oe_now env') \<and> oi_exit_code r' \<noteq> None"
proof -
  have h: "\<And>n. \<not> oe_db_fail env n" "\<And>n. \<not> oe_db_fail env' n" "\<not> oe_cancelled env" "\<not> oe_cancelled env'"
    using assms(1,2) by (simp_all add: healthy_ops_def)
  show ?thesis by (rule execute_item_rows [OF h assms(3,4), of svc job]) blast
qed

lemma item_result_witness:
  "\<exists>r'. row_get oi_id 2 (o_items (snd (execute_item ex_ops ex_ops_env ex_ops_env ex_job ex_item ex_ops_world))) = Some r' \<and>
     oi_started_at r' = Some 1000"
proof -
  have "oi_id ex_item = 2" "oe_now ex_ops_env = 1000" by (simp_all add: ex_item_def new_item_row_def ex_ops_env_def)
  then show ?thesis using item_result [OF ex_ops_healthy ex_ops_healthy ex_ops_rows(2,5), of ex_ops ex_job] by auto
qed

text \<open>Dry runs. Executing an item of a dry-run job changes no node and calls no executor, whatever
  the type of the job is and whatever fails.\<close>
theorem dry_runs_are_dry:
  assumes "jp_dry_run (parse_job_params (oj_params job))"
  shows "o_nodes (snd (execute_item svc env env' job item w)) = o_nodes w \<and>
    o_calls (snd (execute_item svc env env' job item w)) = o_calls w"
  using assms by (rule dry_run_frame)

lemma dry_runs_are_dry_witness:
  "o_calls (snd (execute_item ex_ops ex_ops_env ex_ops_env ex_job ex_item ex_ops_world)) = []"
proof -
  have "jp_dry_run (parse_job_params (oj_params ex_job))" using ex_params by (simp add: ex_job_def)
  from dry_runs_are_dry [OF this] show ?thesis by (simp add: ex_ops_world_def)
qed

text \<open>Waiting for an agent. When a check within the limit of 45 seconds is answered well, none before
  it is, and the context is not done before, the wait reports the agent as found by this check.\<close>
theorem first_contact:
  assumes "\<forall>j \<le> k. poll_time env start j \<le> start + first_contact_timeout"
    and "\<forall>j < k. \<not> pl_ctx_done (oe_poll env j) \<and>
           (pl_err (oe_poll env j) \<or> pl_status (oe_poll env j) \<noteq> 200 \<or> \<not> pl_ok (oe_poll env j))"
    and "\<not> pl_err (oe_poll env k)" "pl_status (oe_poll env k) = 200" "pl_ok (oe_poll env k)"
  shows "contact_loop env start 0 l = ContactOk (poll_time env start k) (pl_version (oe_poll env k))"
  by (rule contact_loop_found) (use assms in auto)

lemma first_contact_witness: "contact_loop ex_ops_env 0 0 0 = ContactOk 2000000000 ''v1''"
proof -
  have "contact_loop ex_ops_env 0 0 0 = ContactOk (poll_time ex_ops_env 0 2) (pl_version (oe_poll ex_ops_env 2))"
  proof (rule first_contact)
    show "\<forall>j \<le> 2. poll_time ex_ops_env 0 j \<le> 0 + first_contact_timeout"
      by (auto simp: poll_time_def ex_ops_env_def first_contact_poll_def first_contact_timeout_def second_def)
  qed (auto simp: ex_ops_env_def)
  then show ?thesis by (simp add: poll_time_def ex_ops_env_def first_contact_poll_def second_def)
qed

end
