(* ===== verification/Ops_Limits.thy ===== *)
theory Ops_Limits
  imports Ops_Properties
begin

text \<open>
  Properties of the hub and of the queries, and inputs on which the jobs do not do what they mean
  to: deployments that cannot be stored, logs that lose their end, a queue that stands still.
\<close>

section \<open>The hub\<close>

text \<open>The publications to a job that have begun since \<open>n\<close> had.\<close>

definition begun_since :: "nat \<Rightarrow> string \<Rightarrow> hub_sys \<Rightarrow> nat \<Rightarrow> bool" where
  "begun_since n j s k \<longleftrightarrow> n \<le> k \<and> k < length (hs_pubs s) \<and> pb_job (hs_pubs s ! k) = j"

text \<open>C30: No event is lost or repeated while publications run next to each other. What a subscriber has read and
  what waits in its buffer are the events of the publications that have sent to it, each once, in the order of
  the sends; they are publications to its job that began after it subscribed. While it is registered, every such
  publication has sent to it, or has not come to it yet, or is about to unsubscribe it. And the sends of
  publications that are done with it come before those of publications that begin later.\<close>
theorem subscribers_see_no_gaps:
  assumes "hub_sys_inv s"
  shows "let c = hb_next (hs_hub s); n = length (hs_pubs s); s0 = hub_step (HubSubscribe j) s; s1 = run hub_step es s0;
       ks = deliveries c es s0
     in received c es s0 @ buf c (hs_hub s1) = map (\<lambda>k. pb_event (hs_pubs s1 ! k)) ks \<and>
        distinct ks \<and> (\<forall>k \<in> set ks. begun_since n j s1 k) \<and>
        (member j c (hs_hub s1) \<longrightarrow>
           (\<forall>k. begun_since n j s1 k \<longrightarrow> k \<in> set ks \<or> pending c (hs_pubs s1 ! k))) \<and>
        (\<forall>es1 es2. es = es1 @ es2 \<longrightarrow>
           (let s' = run hub_step es1 s0
            in \<exists>xs ys. ks = xs @ ys \<and> (\<forall>k \<in> set xs. k < length (hs_pubs s')) \<and>
                 (\<forall>k \<in> set ys. k < length (hs_pubs s') \<longrightarrow> pending c (hs_pubs s' ! k))))"
proof -
  let ?c = "hb_next (hs_hub s)" and ?s0 = "hub_step (HubSubscribe j) s"
  have inv: "hub_sys_inv ?s0" by (rule hub_step_inv [OF assms])
  from tracks_run [OF tracks_subscribe [OF assms, of j], of es]
  have t: "tracks j ?c (length (hs_pubs s)) (received ?c es ?s0) (deliveries ?c es ?s0) (run hub_step es ?s0)" by simp
  have "\<exists>xs ys. deliveries ?c (es1 @ es2) ?s0 = xs @ ys \<and> (\<forall>k \<in> set xs. k < length (hs_pubs (run hub_step es1 ?s0))) \<and>
      (\<forall>k \<in> set ys. k < length (hs_pubs (run hub_step es1 ?s0)) \<longrightarrow> pending ?c (hs_pubs (run hub_step es1 ?s0) ! k))"
    for es1 es2
    using deliveries_before [OF inv] deliveries_from [OF hubs.run_inv [OF inv]]
    by (intro exI [where x = "deliveries ?c es1 ?s0"] exI [where x = "deliveries ?c es2 (run hub_step es1 ?s0)"])
       (simp add: deliveries_append)
  with tracksD(5,6,8,9) [OF t] show ?thesis
    unfolding Let_def begun_since_def by simp
qed

definition ex_event :: "string \<Rightarrow> event" where
  "ex_event t = new_event 0 ''j'' t []"

text \<open>Two publications at once; the second overtakes the first at the only subscriber.\<close>

definition ex_hub_events :: "hub_event list" where
  "ex_hub_events = [HubPublish ''j'' (ex_event ''a'') [0], HubPublish ''j'' (ex_event ''b'') [0], HubStep 1, HubReceive 0, HubStep 0]"

definition ex_hub :: hub_sys where
  "ex_hub = \<lparr>hs_hub = new_hub, hs_pubs = []\<rparr>"

lemma ex_hub_inv: "hub_sys_inv ex_hub"
  by (simp add: ex_hub_def hub_sys_inv_def new_hub_inv)

lemma ex_hub_next: "hb_next (hs_hub ex_hub) = 0"
  by (simp add: ex_hub_def new_hub_def)

lemma ex_hub_run: "deliveries 0 ex_hub_events (hub_step (HubSubscribe ''j'') ex_hub) = [1, 0]"
  by code_simp

lemma ex_hub_sent:
  "map (\<lambda>k. pb_event (hs_pubs (run hub_step ex_hub_events (hub_step (HubSubscribe ''j'') ex_hub)) ! k)) [1, 0] =
     [ex_event ''b'', ex_event ''a'']"
  by code_simp

lemma subscribers_see_no_gaps_witness:
  "received 0 ex_hub_events (hub_step (HubSubscribe ''j'') ex_hub) @
     buf 0 (hs_hub (run hub_step ex_hub_events (hub_step (HubSubscribe ''j'') ex_hub))) = [ex_event ''b'', ex_event ''a'']"
  using subscribers_see_no_gaps [OF ex_hub_inv, of "''j''" ex_hub_events, unfolded Let_def ex_hub_next ex_hub_run,
      THEN conjunct1]
  unfolding ex_hub_sent .

text \<open>A slow subscriber with two publishers. Its buffer is full, so a send fails; before that publication takes the
  lock to unsubscribe it, the subscriber reads, and the send of another publication succeeds: the subscriber is
  handed a later event without the one that failed.\<close>

definition full_hub :: hub_sys where
  "full_hub = \<lparr>hs_hub = (snd (subscribe ''j'' new_hub))
     \<lparr>hb_chans := (\<lambda>c. \<lparr>ch_buf = replicate 100 (ex_event ''x''), ch_closed = False\<rparr>)\<rparr>, hs_pubs = []\<rparr>"

theorem slow_subscriber_misses_an_event:
  "let s = run hub_step [HubPublish ''j'' (ex_event ''a'') [0], HubPublish ''j'' (ex_event ''b'') [0], HubStep 0,
      HubReceive 0, HubStep 1] full_hub
   in buf 0 (hs_hub s) = replicate 99 (ex_event ''x'') @ [ex_event ''b''] \<and> member ''j'' 0 (hs_hub s)"
proof -
  have r: "replicate 100 x = x # replicate 99 x" for x :: event
    by (simp add: numeral_eq_Suc)
  have p: "publish ''j'' e [0] (hs_hub full_hub) = \<lparr>pb_job = ''j'', pb_event = e, pb_todo = [0], pb_drop = None\<rparr>" for e
    by (simp add: publish_def full_hub_def new_hub_def)
  have h: "hs_pubs full_hub = []" "hb_subs (hs_hub full_hub) ''j'' = [0]"
    "hb_chans (hs_hub full_hub) 0 = \<lparr>ch_buf = ex_event ''x'' # replicate 99 (ex_event ''x''), ch_closed = False\<rparr>"
    by (simp_all add: full_hub_def new_hub_def r)
  show ?thesis
    by (simp add: hub_step_def p h publish_step_def try_send_def receive_def Let_def event_buffer_size_def buf_def member_def)
qed

text \<open>No panic. However the single sends of publications and their removals of full subscribers
  interleave with subscriptions and cancellations, no closed channel is closed again, every
  registered channel is open, and no buffer exceeds one hundred events.\<close>
theorem hub_never_panics:
  assumes "hub_sys_inv s"
  shows "let h = hs_hub (run hub_step es s)
     in \<not> hb_panic h \<and> (\<forall>j. \<forall>c \<in> set (hb_subs h j). \<not> ch_closed (hb_chans h c)) \<and>
        (\<forall>c. length (ch_buf (hb_chans h c)) \<le> 100)"
proof -
  have "hub_inv (hs_hub (run hub_step es s))"
    using hubs.run_inv [OF assms] by (simp add: hub_sys_inv_def)
  from hub_invD [OF this] show ?thesis by (simp add: Let_def event_buffer_size_def)
qed

lemma hub_never_panics_witness:
  "\<not> hb_panic (hs_hub (run hub_step
      [HubSubscribe ''j'', HubPublish ''j'' (ex_event ''a'') [0], HubUnsubscribe ''j'' 0, HubStep 0, HubStep 0] ex_hub))"
  using hub_never_panics [OF ex_hub_inv] unfolding Let_def by blast

section \<open>Summaries\<close>

definition summary_of :: "ops_item list \<Rightarrow> ops_summary" where
  "summary_of items =
     (let n = (\<lambda>s. int (length (filter (\<lambda>r. oi_status r = s) items)))
      in \<lparr>os_total = int (length items), os_queued = n job_queued, os_running = n job_running,
          os_success = n job_success, os_failed = n job_failed\<rparr>)"

lemma add_count_sel:
  "os_total (add_count (s, n) sm) = os_total sm + n"
  "os_queued (add_count (s, n) sm) = (if s = job_queued then n else os_queued sm)"
  "os_running (add_count (s, n) sm) = (if s = job_running then n else os_running sm)"
  "os_success (add_count (s, n) sm) = (if s = job_success then n else os_success sm)"
  "os_failed (add_count (s, n) sm) = (if s = job_failed then n else os_failed sm)"
  by (simp_all add: Let_def job_status_defs)

lemma fold_add_total: "os_total (fold add_count cs sm) = os_total sm + sum_list (map snd cs)"
  by (induction cs arbitrary: sm) (auto simp: add_count_sel simp del: add_count.simps)

lemma fold_add_field:
  assumes "\<And>s n sm. sel (add_count (s, n) sm) = (if s = k then n else sel sm)"
  shows "distinct (map fst cs) \<Longrightarrow> sel (fold add_count cs sm) = (case map_of cs k of None \<Rightarrow> sel sm | Some n \<Rightarrow> n)"
proof (induction cs arbitrary: sm)
  case (Cons c cs)
  obtain s n where c: "c = (s, n)" by fastforce
  have "map_of cs s = None" using Cons.prems c by (simp add: map_of_eq_None_iff)
  then show ?case
    using Cons.IH [of "add_count c sm"] Cons.prems assms [of s n sm] unfolding c
    by (cases "s = k") (simp_all del: add_count.simps cong: option.case_cong)
qed simp

lemmas fold_add_count = fold_add_field [OF add_count_sel(2)] fold_add_field [OF add_count_sel(3)]
  fold_add_field [OF add_count_sel(4)] fold_add_field [OF add_count_sel(5)]

lemma map_of_counts:
  "map_of (map (\<lambda>s. (s, f s)) xs) k = (if k \<in> set xs then Some (f k) else None)"
  by (induction xs) auto

lemma sum_counts:
  assumes "distinct ss" and "set (map g xs) \<subseteq> set ss"
  shows "sum_list (map (\<lambda>s. int (length (filter (\<lambda>r. g r = s) xs))) ss) = int (length xs)"
  using assms(2)
proof (induction xs)
  case (Cons x xs)
  have "sum_list (map (\<lambda>s. int (length (filter (\<lambda>r. g r = s) (x # xs)))) ss) =
      sum_list (map (\<lambda>s. int (length (filter (\<lambda>r. g r = s) xs)) + (if s = g x then 1 else 0)) ss)"
    by (rule arg_cong [where f = sum_list], rule map_cong) auto
  also have "\<dots> = sum_list (map (\<lambda>s. int (length (filter (\<lambda>r. g r = s) xs))) ss) +
      sum_list (map (\<lambda>s. if s = g x then 1 else 0) ss)"
    by (rule sum_list_addf)
  also have "sum_list (map (\<lambda>s. if s = g x then 1 else 0 :: int) ss) = 1"
  proof -
    have "sum_list (map (\<lambda>s. if s = y then 1 else 0 :: int) ss) = (if y \<in> set ss then 1 else 0)" for y
      using assms(1) by (induction ss) auto
    then show ?thesis using Cons.prems by simp
  qed
  finally show ?case using Cons by simp
qed simp

lemma status_counts_summary:
  "fold add_count (status_counts items)
     \<lparr>os_total = 0, os_queued = 0, os_running = 0, os_success = 0, os_failed = 0\<rparr> = summary_of items"
proof -
  let ?f = "\<lambda>s. int (length (filter (\<lambda>r. oi_status r = s) items))"
  have d: "distinct (map fst (status_counts items))" by (simp add: status_counts_def comp_def)
  have t: "sum_list (map snd (status_counts items)) = int (length items)"
    using sum_counts [of "remdups (map oi_status items)" oi_status items]
    by (simp add: status_counts_def comp_def)
  have m: "(case map_of (status_counts items) k of None \<Rightarrow> 0 | Some n \<Rightarrow> n) = ?f k" for k
    by (auto simp: status_counts_def map_of_counts filter_empty_conv)
  show ?thesis
    by (intro ops_summary.equality)
       (simp_all add: fold_add_count [OF d] fold_add_total t m summary_of_def Let_def cong: option.case_cong)
qed

text \<open>Summaries. The summary of a job counts its items by state, and its total is their number.\<close>
theorem summary_counts_items:
  assumes "healthy_ops env" and "osv_has_db svc"
  shows "fst (get_job_summary svc env i w) =
    Inr (summary_of (filter (\<lambda>r. oe_uuid_str env (oi_job_id r) = i) (o_items w)))"
  using assms by (simp add: get_job_summary_def list_job_items_def o_query_def status_counts_summary)

lemma summary_counts_items_witness:
  "\<exists>sm. fst (get_job_summary ex_ops ex_ops_env (uuid_text 1) ex_ops_world) = Inr sm \<and> os_total sm = 1 \<and> os_queued sm = 1"
proof -
  have "osv_has_db ex_ops" by (simp add: ex_ops_def new_ops_def)
  from summary_counts_items [OF ex_ops_healthy this, of "uuid_text 1" ex_ops_world]
  show ?thesis
    by (simp add: ex_ops_env_def ex_ops_world_def ex_item_def new_item_row_def summary_of_def Let_def)
qed

section \<open>Where the jobs fall short\<close>

text \<open>Deployments. The update of the agent's settings names a column the migrations do not create;
  without it a deployment reports an error whatever the executor did, also after the agent was
  installed and answered.\<close>
theorem deployments_fail_without_column:
  assumes "\<not> oe_tls_column env"
  shows "snd (snd (fst (run_deploy svc env job item n timeout w))) \<noteq> None"
proof (cases "build_deploy_params svc env n (oj_params job)")
  case (Inr p)
  obtain out code err w1 where 1: "do_exec env timeout (CallDeploy n p) w = ((out, code, err), w1)"
    by (rule outcome_split)
  obtain info werr w2 where 2: "wait_first_contact svc env (oj_id job) (oi_id item) (oi_node_id item) p w1 = ((info, werr), w2)"
    by (metis prod.collapse)
  have pe: "\<exists>e v'. persist_agent_settings svc env n p v = (Some e, v')" for v
    using assms by (auto simp: persist_agent_settings_def Let_def split: sum.split)
  have p: "snd (snd (fst (case persist_agent_settings svc env n p v of (None, w3) \<Rightarrow> ((x, y, None), w3) | (Some e, w3) \<Rightarrow> ((x, z, Some e), w3)))) \<noteq> None"
    for v and x :: string and y z :: int
    using pe [of v] by auto
  show ?thesis
    unfolding run_deploy_def Inr sum.case 1 prod.case Let_def
    by (cases "err = None \<and> dp_health_check p"; cases "werr = None") (simp_all add: 2 p [simplified])
qed (simp add: run_deploy_def)

lemma deployments_fail_without_column_witness:
  "snd (snd (fst (run_deploy ex_ops ex_ops_env (ex_job\<lparr>oj_type := jt_deploy\<rparr>) ex_item ex_node minute ex_ops_world))) \<noteq> None"
  by (rule deployments_fail_without_column) (simp add: ex_ops_env_def)

text \<open>Logs. A log of more than 4096 and at most 20480 bytes is cut to its first 4096 bytes without a
  mark, although a longer log keeps its last 16384 bytes: the end of the output, with the reason of
  a failure, is lost.\<close>
theorem medium_logs_lose_their_end:
  assumes "4096 < length s" "length s \<le> 20480"
  shows "trim_log s 4096 16384 = take 4096 s"
  using assms by (simp add: trim_log_def)

lemma medium_logs_lose_their_end_witness:
  "trim_log (replicate 5000 (CHR ''x'')) 4096 16384 = replicate 4096 (CHR ''x'')"
  using medium_logs_lose_their_end [of "replicate 5000 (CHR ''x'')"] by simp

text \<open>A queue that stands still. The slots are counted by the rows that are marked as running; three
  rows left so by a process that ended keep every queued job from ever being picked.\<close>
theorem stale_rows_stop_the_queue:
  assumes "3 \<le> running_jobs w"
  shows "fst (pick_and_run svc env w) = [] \<and> o_jobs (snd (pick_and_run svc env w)) = o_jobs w"
  using assms
  by (auto simp: pick_and_run_def available_job_slots_def o_query_def running_jobs_def max_concurrent_jobs_def
      Let_def opsframe)

lemma stale_rows_stop_the_queue_witness:
  "fst (pick_and_run ex_ops ex_ops_env (ex_ops_world\<lparr>o_jobs :=
      [ex_job, ex_job\<lparr>oj_id := 2\<rparr>, ex_job\<lparr>oj_id := 3\<rparr>, ex_job\<lparr>oj_id := 4, oj_status := job_queued\<rparr>]\<rparr>)) = []"
proof -
  let ?w = "ex_ops_world\<lparr>o_jobs :=
      [ex_job, ex_job\<lparr>oj_id := 2\<rparr>, ex_job\<lparr>oj_id := 3\<rparr>, ex_job\<lparr>oj_id := 4, oj_status := job_queued\<rparr>]\<rparr>"
  have "3 \<le> running_jobs ?w" by (simp add: running_jobs_def ex_job_def)
  from stale_rows_stop_the_queue [OF this] show ?thesis by simp
qed

end
