(* ===== verification/Secrets.thy ===== *)
theory Secrets
  imports Go_Strings
begin

text \<open>
  Secrets as text: package \<open>encoding/base64\<close> as the code uses it, and \<open>internal/security/crypto.go\<close>.

  A Go string is a list of bytes, and so is a list of characters here. An encoding is given by its
  alphabet and whether it pads: \<open>StdEncoding\<close> does, \<open>RawURLEncoding\<close> does not. Decoding is as lenient as
  Go's: line breaks are skipped, and the bits of the last character that belong to no byte are ignored.
  AES in Galois/counter mode is given by \<open>gcm\<close>: sealing and opening with a key and a nonce of 12
  bytes.
\<close>

section \<open>Base64\<close>

definition b64_std :: string where
  "b64_std = ''ABCDEFGHIJKLMNOPQRSTUVWXYZabcdefghijklmnopqrstuvwxyz0123456789+/''"

definition b64_url :: string where
  "b64_url = ''ABCDEFGHIJKLMNOPQRSTUVWXYZabcdefghijklmnopqrstuvwxyz0123456789-_''"

definition byte_of :: "nat \<Rightarrow> char" where
  "byte_of n = char_of n"

definition b64_val :: "string \<Rightarrow> char \<Rightarrow> nat option" where
  "b64_val al c = map_of (zip al [0..<64]) c"

fun b64_enc :: "string \<Rightarrow> bool \<Rightarrow> string \<Rightarrow> string" where
  "b64_enc al pad [] = []"
| "b64_enc al pad [a] =
     (let x = of_char a in [al ! (x div 4), al ! (x mod 4 * 16)] @ (if pad then ''=='' else []))"
| "b64_enc al pad [a, b] =
     (let x = of_char a; y = of_char b
      in [al ! (x div 4), al ! (x mod 4 * 16 + y div 16), al ! (y mod 16 * 4)] @ (if pad then ''='' else []))"
| "b64_enc al pad (a # b # c # s) =
     (let x = of_char a; y = of_char b; z = of_char c
      in [al ! (x div 4), al ! (x mod 4 * 16 + y div 16), al ! (y mod 16 * 4 + z div 64), al ! (z mod 64)] @
         b64_enc al pad s)"

text \<open>The bytes that two, three or four characters stand for.\<close>

definition b64_one :: "string \<Rightarrow> char \<Rightarrow> char \<Rightarrow> string option" where
  "b64_one al p q =
     (case (b64_val al p, b64_val al q) of
        (Some a, Some b) \<Rightarrow> Some [byte_of (a * 4 + b div 16)]
      | _ \<Rightarrow> None)"

definition b64_two :: "string \<Rightarrow> char \<Rightarrow> char \<Rightarrow> char \<Rightarrow> string option" where
  "b64_two al p q r =
     (case (b64_val al p, b64_val al q, b64_val al r) of
        (Some a, Some b, Some c) \<Rightarrow> Some [byte_of (a * 4 + b div 16), byte_of (b mod 16 * 16 + c div 4)]
      | _ \<Rightarrow> None)"

definition b64_three :: "string \<Rightarrow> char \<Rightarrow> char \<Rightarrow> char \<Rightarrow> char \<Rightarrow> string option" where
  "b64_three al p q r s =
     (case (b64_val al p, b64_val al q, b64_val al r, b64_val al s) of
        (Some a, Some b, Some c, Some d) \<Rightarrow>
          Some [byte_of (a * 4 + b div 16), byte_of (b mod 16 * 16 + c div 4), byte_of (c mod 4 * 64 + d)]
      | _ \<Rightarrow> None)"

fun b64_dec :: "string \<Rightarrow> bool \<Rightarrow> string \<Rightarrow> string option" where
  "b64_dec al pad [] = Some []"
| "b64_dec al pad [p] = None"
| "b64_dec al pad [p, q] = (if pad then None else b64_one al p q)"
| "b64_dec al pad [p, q, r] = (if pad then None else b64_two al p q r)"
| "b64_dec al pad (p # q # r # s # t) =
     (if pad \<and> t = [] \<and> r = CHR ''='' \<and> s = CHR ''='' then b64_one al p q
      else if pad \<and> t = [] \<and> s = CHR ''='' then b64_two al p q r
      else case b64_three al p q r s of
             None \<Rightarrow> None
           | Some bs \<Rightarrow> map_option (\<lambda>u. bs @ u) (b64_dec al pad t))"

definition b64_skip :: "string \<Rightarrow> string" where
  "b64_skip s = filter (\<lambda>c. c \<noteq> CHR 0x0D \<and> c \<noteq> CHR 0x0A) s"

definition raw_url_encode :: "string \<Rightarrow> string" where
  "raw_url_encode s = b64_enc b64_url False s"

definition raw_url_decode :: "string \<Rightarrow> string option" where
  "raw_url_decode s = b64_dec b64_url False (b64_skip s)"

definition std_encode :: "string \<Rightarrow> string" where
  "std_encode s = b64_enc b64_std True s"

definition std_decode :: "string \<Rightarrow> string option" where
  "std_decode s = b64_dec b64_std True (b64_skip s)"

section \<open>Encodings that can be read back\<close>

text \<open>
  An encoding and its decoder on the byte strings that are \<open>ok\<close>. The normal form of a text is the
  encoding of what it decodes to, and the empty text when it does not decode.
\<close>

locale byte_coding =
  fixes enc :: "string \<Rightarrow> string"
    and dec :: "string \<Rightarrow> string option"
    and ok :: "string \<Rightarrow> bool"
  assumes dec_enc: "ok s \<Longrightarrow> dec (enc s) = Some s"
begin

lemma enc_inject: "ok s \<Longrightarrow> ok t \<Longrightarrow> enc s = enc t \<longleftrightarrow> s = t"
  by (metis dec_enc option.inject)

definition normal :: "string \<Rightarrow> string" where
  "normal s = (case dec s of None \<Rightarrow> [] | Some b \<Rightarrow> enc b)"

lemma normal_enc: "ok b \<Longrightarrow> normal (enc b) = enc b"
  by (simp add: normal_def dec_enc)

lemma normal_normal: "(\<And>b. dec s = Some b \<Longrightarrow> ok b) \<Longrightarrow> normal s \<noteq> [] \<Longrightarrow> normal (normal s) = normal s"
  unfolding normal_def [of s] by (cases "dec s") (use normal_enc in auto)

end

definition b64_alphabet :: "string \<Rightarrow> bool" where
  "b64_alphabet al \<longleftrightarrow> length al = 64 \<and> distinct al \<and>
     CHR ''='' \<notin> set al \<and> CHR 0x0D \<notin> set al \<and> CHR 0x0A \<notin> set al"

lemma b64_alphabets: "b64_alphabet b64_std" "b64_alphabet b64_url"
  by code_simp+

lemma b64_val_nth: "b64_alphabet al \<Longrightarrow> n < 64 \<Longrightarrow> b64_val al (al ! n) = Some n"
  unfolding b64_val_def b64_alphabet_def by (simp add: map_of_zip_nth)

lemma b64_nth_pad: "b64_alphabet al \<Longrightarrow> n < 64 \<Longrightarrow> al ! n \<noteq> CHR ''=''"
  unfolding b64_alphabet_def by (metis nth_mem)

lemma of_char_less: "(of_char c :: nat) < 256"
  using range_nat_of_char by (metis atLeastLessThan_iff rangeI)

lemma byte_of_char [simp]: "byte_of (of_char c) = c"
  by (simp add: byte_of_def)

text \<open>The bits of three bytes, cut into four parts and put together again.\<close>

lemma join_first: "(y :: nat) < 256 \<Longrightarrow> x div 4 * 4 + (x mod 4 * 16 + y div 16) div 16 = x"
  by simp

lemma join_second: "(y :: nat) < 256 \<Longrightarrow> z < 256 \<Longrightarrow>
    (x mod 4 * 16 + y div 16) mod 16 * 16 + (y mod 16 * 4 + z div 64) div 4 = y"
  by simp

lemma join_third: "(z :: nat) < 256 \<Longrightarrow> (y mod 16 * 4 + z div 64) mod 4 * 64 + z mod 64 = z"
  by simp

lemma enc_parts:
  "(of_char c :: nat) div 4 < 64" "(of_char c :: nat) mod 4 * 16 + of_char d div 16 < 64"
  "(of_char c :: nat) mod 4 * 16 < 64" "(of_char c :: nat) mod 16 * 4 < 64" "(of_char c :: nat) mod 64 < 64"
  "(of_char c :: nat) mod 16 * 4 + of_char d div 64 < 64"
proof -
  have "x div 4 < 64" "x mod 4 * 16 + y div 16 < 64" "x mod 16 * 4 + y div 64 < 64" if "x < 256" "y < 256" for x y :: nat
  proof -
    have "x mod 4 < 4" "x mod 16 < 16" "x div 4 < 64" "y div 16 < 16" "y div 64 < 4"
      using that by (simp_all add: less_mult_imp_div_less)
    then show "x div 4 < 64" "x mod 4 * 16 + y div 16 < 64" "x mod 16 * 4 + y div 64 < 64" by linarith+
  qed
  from this [OF of_char_less of_char_less]
  show "(of_char c :: nat) div 4 < 64" "(of_char c :: nat) mod 4 * 16 + of_char d div 16 < 64"
    "(of_char c :: nat) mod 16 * 4 + of_char d div 64 < 64" .
qed simp_all

lemma b64_dec_enc: "b64_alphabet al \<Longrightarrow> b64_dec al pad (b64_enc al pad s) = Some s"
proof (induction al pad s rule: b64_enc.induct)
  case (4 al pad a b c s)
  have "al ! (of_char c mod 64) \<noteq> CHR ''=''" by (rule b64_nth_pad) (rule 4, simp)
  moreover have "byte_of (of_char a div 4 * 4 + (of_char a mod 4 * 16 + of_char b div 16) div 16) = a"
    "byte_of ((of_char a mod 4 * 16 + of_char b div 16) mod 16 * 16 + (of_char b mod 16 * 4 + of_char c div 64) div 4) = b"
    "byte_of ((of_char b mod 16 * 4 + of_char c div 64) mod 4 * 64 + of_char c mod 64) = c"
    by (simp_all only: join_first join_second join_third of_char_less byte_of_char)
  ultimately show ?case
    using 4 by (simp add: Let_def b64_three_def b64_val_nth enc_parts del: of_char_mod_256)
next
  case (2 al pad a)
  have "byte_of (of_char a div 4 * 4 + of_char a mod 4 * 16 div 16) = a" by simp
  with 2 show ?case by (simp add: Let_def b64_one_def b64_val_nth enc_parts)
next
  case (3 al pad a b)
  have "al ! (of_char b mod 16 * 4) \<noteq> CHR ''=''" by (rule b64_nth_pad [OF 3 enc_parts(4)])
  moreover have "byte_of (of_char a div 4 * 4 + (of_char a mod 4 * 16 + of_char b div 16) div 16) = a"
    "byte_of ((of_char a mod 4 * 16 + of_char b div 16) mod 16 * 16 + of_char b mod 16 * 4 div 4) = b"
    using join_second [of "of_char b" 0 "of_char a"]
    by (simp_all only: join_first of_char_less byte_of_char) simp
  ultimately show ?case using 3 by (simp add: Let_def b64_two_def b64_val_nth enc_parts)
qed simp

lemma set_b64_enc: "b64_alphabet al \<Longrightarrow> set (b64_enc al pad s) \<subseteq> insert CHR ''='' (set al)"
proof (induction al pad s rule: b64_enc.induct)
  case (4 al pad a b c s)
  then have "length al = 64" by (simp add: b64_alphabet_def)
  with 4 enc_parts show ?case by (simp add: Let_def)
qed (use enc_parts in \<open>auto simp: Let_def b64_alphabet_def\<close>)

lemma b64_skip_enc: "b64_alphabet al \<Longrightarrow> b64_skip (b64_enc al pad s) = b64_enc al pad s"
  unfolding b64_skip_def using set_b64_enc [of al pad s]
  by (intro filter_True) (auto simp: b64_alphabet_def)

lemma b64_enc_Nil [simp]: "b64_enc al pad s = [] \<longleftrightarrow> s = []"
  by (cases "(al, pad, s)" rule: b64_enc.cases) (simp_all add: Let_def)

interpretation url: byte_coding raw_url_encode raw_url_decode "\<lambda>s. True"
  by unfold_locales (simp add: raw_url_encode_def raw_url_decode_def b64_skip_enc b64_dec_enc b64_alphabets)

interpretation std: byte_coding std_encode std_decode "\<lambda>s. True"
  by unfold_locales (simp add: std_encode_def std_decode_def b64_skip_enc b64_dec_enc b64_alphabets)

lemma trim_raw_url [simp]: "trim_space (raw_url_encode s) = raw_url_encode s"
proof (cases "s = []")
  case False
  have "list_all (\<lambda>c. c \<in> set plain_chars) (CHR ''='' # b64_url)" by code_simp
  then have "set (raw_url_encode s) \<subseteq> set plain_chars"
    using set_b64_enc [OF b64_alphabets(2), of False s] by (auto simp: raw_url_encode_def list_all_iff)
  moreover have "raw_url_encode s \<noteq> []" using False by (simp add: raw_url_encode_def)
  ultimately show ?thesis by (intro trim_space_plain) auto
qed (simp add: raw_url_encode_def)

section \<open>The cipher for stored secrets\<close>

record gcm =
  gc_seal :: "string \<Rightarrow> string \<Rightarrow> string \<Rightarrow> string"
  gc_open :: "string \<Rightarrow> string \<Rightarrow> string \<Rightarrow> string option"

definition enc_prefix :: string where
  "enc_prefix = ''v1:''"

definition nonce_size :: nat where
  "nonce_size = 12"

definition new_encryptor :: "string \<Rightarrow> string result" where
  "new_encryptor master_key =
     (case std_decode master_key of
        None \<Rightarrow> Inl (ErrMsg ''decode master key: illegal base64 data'')
      | Some key \<Rightarrow>
          if length key \<noteq> 32 then Inl (ErrMsg ''master key must be 32 bytes after base64 decode'') else Inr key)"

text \<open>\<open>nonce\<close> is what the random source gives, \<open>None\<close> when it fails.\<close>

definition encrypt_string :: "gcm \<Rightarrow> string \<Rightarrow> string option \<Rightarrow> string \<Rightarrow> string result" where
  "encrypt_string g key nonce plain =
     (case nonce of
        None \<Rightarrow> Inl (ErrMsg ''rand'')
      | Some n \<Rightarrow> Inr (enc_prefix @ std_encode (n @ gc_seal g key n plain)))"

definition decrypt_string :: "gcm \<Rightarrow> string \<Rightarrow> string \<Rightarrow> string result" where
  "decrypt_string g key enc =
     (if \<not> prefix enc_prefix enc then Inl (ErrMsg ''unknown ciphertext format'')
      else case std_decode (trim_prefix enc enc_prefix) of
        None \<Rightarrow> Inl (ErrMsg ''illegal base64 data'')
      | Some raw \<Rightarrow>
          if length raw < nonce_size then Inl (ErrMsg ''ciphertext too short'')
          else case gc_open g key (take nonce_size raw) (drop nonce_size raw) of
            None \<Rightarrow> Inl (ErrMsg ''cipher: message authentication failed'')
          | Some plain \<Rightarrow> Inr plain)"

text \<open>What is sealed can be opened with the same key and nonce.\<close>

definition gcm_opens :: "gcm \<Rightarrow> bool" where
  "gcm_opens g \<longleftrightarrow> (\<forall>key n s. gc_open g key n (gc_seal g key n s) = Some s)"

lemma decrypt_encrypt:
  assumes "gcm_opens g" and "encrypt_string g key nonce s = Inr enc" and "\<And>n. nonce = Some n \<Longrightarrow> length n = nonce_size"
  shows "decrypt_string g key enc = Inr s"
  using assms by (cases nonce)
    (auto simp: encrypt_string_def decrypt_string_def trim_prefix_def std.dec_enc gcm_opens_def)

end
