(* ===== verification/Web_Base.thy ===== *)
theory Web_Base
  imports Db_Models Secrets
begin

text \<open>
  What the HTTP handlers of accounts, organisations and tokens share (\<open>internal/http/handler.go\<close>,
  \<open>response.go\<close>): the account rows of \<open>internal/db/models.go\<close>, the tables, statements that may
  fail, and the context of a request.

  \<^item> \<open>web_env\<close> is what is outside of the program: the clock, which statements fail
    (\<open>we_fail n\<close>, the \<open>n\<close>-th), identifiers drawn by the database or \<open>uuid.New\<close>, random bytes
    in their text form, \<open>sha256\<close> in hexadecimal, \<open>bcrypt\<close> and its comparison (\<open>we_bcrypt_ok hash
    password\<close>), one-time passwords (\<open>we_totp code secret now\<close>, new secrets with their address, the QR code
    of an address), the cipher with its key and nonces, PostgreSQL's \<open>lower\<close>, the claims of a valid JSON web token, \<open>net.ParseIP\<close> (whether the address is a loopback address)
    and \<open>net.ParseCIDR\<close> (the addresses of the block), and the fields of \<open>Handler\<close> that do not change.
  \<^item> \<open>web\<close> is the database with the number of statements, identifiers and random draws so far, and the
    field \<open>RefreshTTL\<close> of the handler, which the code writes.
  \<^item> \<open>ctx\<close> is the part of \<open>gin.Context\<close> the handlers write: the keys set by middleware, whether
    the chain is aborted, and the answers written so far. A second answer is appended to the first.
\<close>

record user =
  u_id :: uuid
  u_username :: string
  u_password_hash :: string
  u_role :: string
  u_totp_secret :: "string option"
  u_totp_enabled :: bool
  u_recovery_hash :: "string option"
  u_recovery_exp :: "instant option"
  u_created_at :: instant
  u_updated_at :: instant

record organization =
  og_id :: uuid
  og_name :: string
  og_owner :: uuid
  og_created_at :: instant

record org_member =
  om_org_id :: uuid
  om_user_id :: uuid
  om_role :: string
  om_created_at :: instant

record invite =
  iv_id :: uuid
  iv_code :: string
  iv_created_by :: uuid
  iv_target_org :: "uuid option"
  iv_mode :: string
  iv_role :: string
  iv_org_name :: "string option"
  iv_expires_at :: instant
  iv_used_at :: "instant option"
  iv_used_by :: "uuid option"
  iv_created_at :: instant

record refresh_token =
  rf_id :: uuid
  rf_user_id :: string
  rf_token_hash :: string
  rf_created_at :: instant
  rf_expires_at :: instant
  rf_last_used :: "instant option"
  rf_revoked_at :: "instant option"
  rf_user_agent :: "string option"
  rf_ip :: "string option"

record reg_token =
  rg_id :: uuid
  rg_node_id :: uuid
  rg_token_hash :: string
  rg_expires_at :: instant
  rg_used_at :: "instant option"

record agent_cred =
  cr_node_id :: uuid
  cr_token_hash :: string
  cr_created_at :: instant
  cr_last_seen :: "instant option"
  cr_revoked_at :: "instant option"

record passkey =
  pk_id :: uuid
  pk_user_id :: string
  pk_credential_id :: string
  pk_public_key :: string
  pk_sign_count :: int
  pk_transports :: "string list"
  pk_aaguid :: "string option"
  pk_created_at :: instant
  pk_last_used :: "instant option"

record challenge =
  wc_id :: uuid
  wc_user_id :: string
  wc_type :: string
  wc_challenge :: string
  wc_session :: string
  wc_options :: string
  wc_created_at :: instant
  wc_expires_at :: instant

record audit_row =
  au_ts :: instant
  au_actor :: string
  au_action :: string
  au_status :: string
  au_payload :: "(string \<times> string) list"

record claims =
  cl_user :: string
  cl_role :: string
  cl_subject :: string

record web_env =
  we_now :: instant
  we_fail :: "nat \<Rightarrow> bool"
  we_parse :: "string \<Rightarrow> uuid option"
  we_text :: "uuid \<Rightarrow> string"
  we_uuid :: "nat \<Rightarrow> uuid"
  we_random :: "nat \<Rightarrow> string option"
  we_sha_hex :: "string \<Rightarrow> string"
  we_bcrypt :: "string \<Rightarrow> string option"
  we_lower :: "string \<Rightarrow> string"
  we_jwt :: "string \<Rightarrow> claims option"
  we_sign :: "claims \<Rightarrow> instant \<Rightarrow> string option"
  we_admin_user :: string
  we_admin_pass :: string
  we_jwt_expiry :: duration
  we_master_key :: string
  we_allow_cidr :: string
  we_token_salt :: string
  we_public_base_url :: string
  we_has_audit :: bool
  we_parse_ip :: "string \<Rightarrow> bool option"
  we_parse_cidr :: "string \<Rightarrow> (string \<Rightarrow> bool) option"
  we_bcrypt_ok :: "string \<Rightarrow> string \<Rightarrow> bool"
  we_totp :: "string \<Rightarrow> string \<Rightarrow> instant \<Rightarrow> bool"
  we_totp_key :: "nat \<Rightarrow> string \<Rightarrow> (string \<times> string) option"
  we_qr :: "string \<Rightarrow> string option"
  we_rand32 :: "nat \<Rightarrow> 32 word option"
  we_gcm :: gcm
  we_key :: string
  we_nonce :: "nat \<Rightarrow> string option"

record request =
  rq_header :: "string \<Rightarrow> string"
  rq_query :: "string \<Rightarrow> string"
  rq_param :: "string \<Rightarrow> string"
  rq_client_ip :: string
  rq_host :: string
  rq_cookie :: "string option"

record web =
  wb_users :: "user list"
  wb_orgs :: "organization list"
  wb_members :: "org_member list"
  wb_invites :: "invite list"
  wb_refresh :: "refresh_token list"
  wb_regs :: "reg_token list"
  wb_creds :: "agent_cred list"
  wb_nodes :: "node list"
  wb_services :: "service list"
  wb_bots :: "bot list"
  wb_checks :: "check list"
  wb_audit :: "audit_row list"
  wb_passkeys :: "passkey list"
  wb_challenges :: "challenge list"
  wb_refresh_ttl :: duration
  wb_dbn :: nat
  wb_uid :: nat
  wb_rnd :: nat

datatype answer =
    AError string string
  | AOk
  | ALogin string string string
  | AInvite invite
  | AInvites "invite list"
  | AUser user
  | AUsers "user list"
  | AOrg uuid string string instant
  | AOrgs "(uuid \<times> string \<times> string \<times> instant) list"
  | AOrgUser string string string instant
  | AOrgUsers "(string \<times> string \<times> string \<times> instant) list"
  | AAgent string uuid "uuid option" string
  | ANode node
  | ANodes "node list"
  | ACookie string int bool
  | ATotpStatus bool bool bool
  | ATotpSetup string string string
  | ASent bool nat nat
  | AOptions string string
  | APasskeys "passkey list"
  | AJob ops_job "ops_summary option"
  | ACreatedJob ops_job string
  | AJobItems "ops_item list"
  | APublicJob ops_job "ops_item list"
  | AAlerts "alert_state list"
  | AIncidents "incident list"
  | AMuted int
  | AAcked int instant
  | AChecked uuid instant string "(string \<times> int) list" "string option" "int option"
  | ATelegram bool string "string list" bool bool bool bool int int bool string
  | ASentTo bool nat nat "(string \<times> bool \<times> string) list"
  | AHook bool
  | AOther string

record ctx =
  cx_actor :: string
  cx_role :: string
  cx_org_id :: string
  cx_org_role :: string
  cx_agent_node :: "uuid option"
  cx_master :: bool
  cx_aborted :: bool
  cx_out :: "(int \<times> answer) list"

type_synonym 'w handler = "ctx \<Rightarrow> 'w \<Rightarrow> ctx \<times> 'w"

definition new_ctx :: ctx where
  "new_ctx = \<lparr>cx_actor = [], cx_role = [], cx_org_id = [], cx_org_role = [], cx_agent_node = None,
     cx_master = False, cx_aborted = False, cx_out = []\<rparr>"

section \<open>Answers\<close>

definition respond_status :: "int \<Rightarrow> answer \<Rightarrow> ctx \<Rightarrow> ctx" where
  "respond_status status a c = c\<lparr>cx_out := cx_out c @ [(status, a)]\<rparr>"

definition respond_error :: "int \<Rightarrow> string \<Rightarrow> string \<Rightarrow> ctx \<Rightarrow> ctx" where
  "respond_error status code msg c = respond_status status (AError code msg) c"

definition abort :: "ctx \<Rightarrow> ctx" where
  "abort c = c\<lparr>cx_aborted := True\<rparr>"

definition get_actor :: "ctx \<Rightarrow> string" where
  "get_actor c = (if cx_actor c = [] then ''admin'' else cx_actor c)"

text \<open>A cookie is a header; it is noted among the answers, with 0 for the status.\<close>

definition set_cookie :: "string \<Rightarrow> int \<Rightarrow> bool \<Rightarrow> ctx \<Rightarrow> ctx" where
  "set_cookie token max_age secure c = c\<lparr>cx_out := cx_out c @ [(0, ACookie token max_age secure)]\<rparr>"

text \<open>The body of a request decoded into the handler's type, or the decoder's message.\<close>

definition parse_json_body :: "string + 'b \<Rightarrow> ctx \<Rightarrow> ctx + 'b" where
  "parse_json_body body c =
     (case body of
        Inl msg \<Rightarrow> Inl (respond_error 400 ''INVALID_JSON'' (''invalid json: '' @ msg) c)
      | Inr b \<Rightarrow> Inr b)"

section \<open>The chain of handlers\<close>

text \<open>
  gin calls the handlers of a route in order until one of them has aborted the context; a handler that
  returns without aborting does not stop it. \<open>gin_runs\<close> says so of the function \<open>go\<close> that stands
  for the framework; the middleware of this program calls \<open>Next\<close> last, which is the same as to
  return.
\<close>

definition gin_runs :: "('w handler list \<Rightarrow> 'w handler) \<Rightarrow> bool" where
  "gin_runs go \<longleftrightarrow> (\<forall>c w. go [] c w = (c, w)) \<and>
     (\<forall>h hs c w. go (h # hs) c w =
        (case h c w of (c1, w1) \<Rightarrow> if cx_aborted c1 then (c1, w1) else go hs c1 w1))"

section \<open>Statements\<close>

definition wb_tick :: "web \<Rightarrow> web" where
  "wb_tick w = w\<lparr>wb_dbn := Suc (wb_dbn w)\<rparr>"

definition db_query :: "web_env \<Rightarrow> (web \<Rightarrow> 'a) \<Rightarrow> web \<Rightarrow> 'a result \<times> web" where
  "db_query env f w = (if we_fail env (wb_dbn w) then Inl (ErrMsg ''database'') else Inr (f w), wb_tick w)"

text \<open>\<open>First\<close>: the first row that meets the condition.\<close>

definition db_first_row :: "web_env \<Rightarrow> (web \<Rightarrow> 'r list) \<Rightarrow> ('r \<Rightarrow> bool) \<Rightarrow> web \<Rightarrow> 'r result \<times> web" where
  "db_first_row env tab p w =
     (case db_query env (\<lambda>v. find p (tab v)) w of
        (Inl e, w1) \<Rightarrow> (Inl e, w1)
      | (Inr None, w1) \<Rightarrow> (Inl ErrNotFound, w1)
      | (Inr (Some r), w1) \<Rightarrow> (Inr r, w1))"

text \<open>A writing statement; \<open>f\<close> refuses when an index or a type of a column does.\<close>

definition db_write :: "web_env \<Rightarrow> (web \<Rightarrow> goerr + web) \<Rightarrow> web \<Rightarrow> goerr option \<times> web" where
  "db_write env f w =
     (if we_fail env (wb_dbn w) then (Some (ErrMsg ''database''), wb_tick w)
      else case f (wb_tick w) of
             Inl e \<Rightarrow> (Some e, wb_tick w)
           | Inr w1 \<Rightarrow> (None, w1))"

text \<open>
  A transaction: begin, the body, commit. When the body reports an error, or begin or commit fails,
  the tables are as before; the statements are counted all the same.
\<close>

definition rollback :: "web \<Rightarrow> web \<Rightarrow> web" where
  "rollback w w1 = w\<lparr>wb_dbn := wb_dbn w1, wb_uid := wb_uid w1, wb_rnd := wb_rnd w1\<rparr>"

definition db_tx :: "web_env \<Rightarrow> (web \<Rightarrow> 'a result \<times> web) \<Rightarrow> web \<Rightarrow> 'a result \<times> web" where
  "db_tx env body w =
     (if we_fail env (wb_dbn w) then (Inl (ErrMsg ''database''), wb_tick w)
      else case body (wb_tick w) of
             (Inl e, w1) \<Rightarrow> (Inl e, rollback w w1)
           | (Inr x, w1) \<Rightarrow>
               if we_fail env (wb_dbn w1) then (Inl (ErrMsg ''database''), wb_tick (rollback w w1))
               else (Inr x, wb_tick w1))"

text \<open>A column of type \<open>org_role\<close> takes three values.\<close>

definition org_role_values :: "string list" where
  "org_role_values = [''owner'', ''admin'', ''viewer'']"

definition new_uuid :: "web_env \<Rightarrow> web \<Rightarrow> uuid \<times> web" where
  "new_uuid env w = (we_uuid env (wb_uid w), w\<lparr>wb_uid := Suc (wb_uid w)\<rparr>)"

definition draw :: "web_env \<Rightarrow> web \<Rightarrow> string option \<times> web" where
  "draw env w = (we_random env (wb_rnd w), w\<lparr>wb_rnd := Suc (wb_rnd w)\<rparr>)"

text \<open>Inserts: users are unique on the lower-case name, members on both keys.\<close>

definition insert_user :: "web_env \<Rightarrow> user \<Rightarrow> web \<Rightarrow> goerr + web" where
  "insert_user env u w =
     (if u_id u \<in> u_id ` set (wb_users w) \<or>
         we_lower env (u_username u) \<in> (\<lambda>v. we_lower env (u_username v)) ` set (wb_users w)
      then Inl ErrUnique else Inr (w\<lparr>wb_users := wb_users w @ [u]\<rparr>))"

definition insert_org :: "organization \<Rightarrow> web \<Rightarrow> goerr + web" where
  "insert_org g w =
     (if og_id g \<in> og_id ` set (wb_orgs w) then Inl ErrUnique
      else Inr (w\<lparr>wb_orgs := wb_orgs w @ [g]\<rparr>))"

definition insert_member :: "org_member \<Rightarrow> web \<Rightarrow> goerr + web" where
  "insert_member m w =
     (if om_role m \<notin> set org_role_values then Inl (ErrMsg ''invalid input value for enum org_role'')
      else if om_org_id m \<notin> og_id ` set (wb_orgs w) then Inl (ErrMsg ''violates foreign key constraint'')
      else if (om_org_id m, om_user_id m) \<in> (\<lambda>r. (om_org_id r, om_user_id r)) ` set (wb_members w)
      then Inl ErrUnique
      else Inr (w\<lparr>wb_members := wb_members w @ [m]\<rparr>))"

definition insert_invite :: "invite \<Rightarrow> web \<Rightarrow> goerr + web" where
  "insert_invite i w =
     (if iv_role i \<notin> set org_role_values then Inl (ErrMsg ''invalid input value for enum org_role'')
      else if (case iv_target_org i of None \<Rightarrow> False | Some g \<Rightarrow> g \<notin> og_id ` set (wb_orgs w))
      then Inl (ErrMsg ''violates foreign key constraint'')
      else if iv_id i \<in> iv_id ` set (wb_invites w) \<or> iv_code i \<in> iv_code ` set (wb_invites w)
      then Inl ErrUnique
      else Inr (w\<lparr>wb_invites := wb_invites w @ [i]\<rparr>))"

text \<open>An entry of the audit log; its failure is ignored.\<close>

definition audit_event ::
    "web_env \<Rightarrow> ctx \<Rightarrow> string \<Rightarrow> string \<Rightarrow> (string \<times> string) list \<Rightarrow> web \<Rightarrow> web" where
  "audit_event env c action status payload w =
     (if \<not> we_has_audit env then w
      else snd (db_write env (\<lambda>v. Inr (v\<lparr>wb_audit := wb_audit v @
             [\<lparr>au_ts = we_now env, au_actor = get_actor c, au_action = action, au_status = status,
               au_payload = payload\<rparr>]\<rparr>)) w))"

text \<open>Updates of rows by their keys.\<close>

definition save_user :: "user \<Rightarrow> web \<Rightarrow> goerr + web" where
  "save_user u w = Inr (w\<lparr>wb_users := row_upd u_id (u_id u) (\<lambda>r. u) (wb_users w)\<rparr>)"

definition update_user_row :: "uuid \<Rightarrow> (user \<Rightarrow> user) \<Rightarrow> web \<Rightarrow> goerr + web" where
  "update_user_row i f w = Inr (w\<lparr>wb_users := row_upd u_id i f (wb_users w)\<rparr>)"

definition update_member_role :: "uuid \<Rightarrow> uuid \<Rightarrow> string \<Rightarrow> web \<Rightarrow> goerr + web" where
  "update_member_role org usr role w =
     (if role \<notin> set org_role_values then Inl (ErrMsg ''invalid input value for enum org_role'')
      else Inr (w\<lparr>wb_members := map (\<lambda>m. if om_org_id m = org \<and> om_user_id m = usr
                                        then m\<lparr>om_role := role\<rparr> else m) (wb_members w)\<rparr>))"

end
