(* ===== verification/Web_Roles.thy ===== *)
theory Web_Roles
  imports Web_Base
begin

text \<open>
  Who may do what: \<open>internal/services/agentauth/token.go\<close>, the middleware of
  \<open>internal/http/middleware\<close> (\<open>auth.go\<close>, \<open>roles.go\<close>, \<open>org.go\<close>) and
  \<open>internal/http/ops_auth.go\<close>.
\<close>

section \<open>Ranks and tokens\<close>

definition role_rank :: "string \<Rightarrow> int" where
  "role_rank role =
     (if role = ''owner'' then 3 else if role = ''admin'' then 2 else if role = ''viewer'' then 1 else 0)"

definition has_min_role :: "string \<Rightarrow> string \<Rightarrow> bool" where
  "has_min_role role least \<longleftrightarrow> role_rank least \<le> role_rank role"

definition generate_token :: "web_env \<Rightarrow> string \<Rightarrow> web \<Rightarrow> string option \<times> web" where
  "generate_token env pre w =
     (case draw env w of
        (None, w1) \<Rightarrow> (None, w1)
      | (Some r, w1) \<Rightarrow> (Some (trim_space pre @ r), w1))"

definition hash_token :: "web_env \<Rightarrow> string \<Rightarrow> string" where
  "hash_token env token = we_sha_hex env (trim_space (we_token_salt env) @ token)"

section \<open>Middleware\<close>

definition respond_unauthorized :: "ctx \<Rightarrow> ctx" where
  "respond_unauthorized c = abort (respond_error 401 ''UNAUTHORIZED'' ''unauthorized'' c)"

definition forbid :: "ctx \<Rightarrow> ctx" where
  "forbid c = abort (respond_error 403 ''FORBIDDEN'' ''forbidden'' c)"

definition claims_actor :: "claims \<Rightarrow> string" where
  "claims_actor cl =
     (let actor = (if cl_user cl = [] then cl_subject cl else cl_user cl)
      in if actor = [] then ''admin'' else actor)"

definition login_claims :: "claims \<Rightarrow> ctx \<Rightarrow> ctx" where
  "login_claims cl c = c\<lparr>cx_actor := claims_actor cl, cx_role := cl_role cl\<rparr>"

definition jwt_auth :: "web_env \<Rightarrow> request \<Rightarrow> 'w handler" where
  "jwt_auth env rq c w =
     (let auth = rq_header rq ''Authorization''
      in if \<not> prefix ''Bearer '' auth then (respond_unauthorized c, w)
         else case we_jwt env (trim_prefix auth ''Bearer '') of
                None \<Rightarrow> (respond_unauthorized c, w)
              | Some cl \<Rightarrow> (login_claims cl c, w))"

definition jwt_auth_with_query :: "web_env \<Rightarrow> string \<Rightarrow> request \<Rightarrow> 'w handler" where
  "jwt_auth_with_query env param rq c w =
     (let auth = rq_header rq ''Authorization'';
          t = (if prefix ''Bearer '' auth then trim_prefix auth ''Bearer '' else []);
          token = (if t = [] \<and> param \<noteq> [] then trim_space (rq_query rq param) else t)
      in if token = [] then (respond_unauthorized c, w)
         else case we_jwt env token of
                None \<Rightarrow> (respond_unauthorized c, w)
              | Some cl \<Rightarrow> (login_claims cl c, w))"

definition role_admin :: string where "role_admin = ''admin''"
definition role_operator :: string where "role_operator = ''operator''"
definition role_viewer :: string where "role_viewer = ''viewer''"

definition require_roles :: "string list \<Rightarrow> 'w handler" where
  "require_roles roles c w =
     (if cx_role c = [] then (respond_unauthorized c, w)
      else if cx_role c \<notin> set roles then (forbid c, w)
      else (c, w))"

definition same_username :: "web_env \<Rightarrow> string \<Rightarrow> user \<Rightarrow> bool" where
  "same_username env name u \<longleftrightarrow> we_lower env (u_username u) = we_lower env name"

definition find_member :: "web_env \<Rightarrow> uuid \<Rightarrow> uuid \<Rightarrow> web \<Rightarrow> org_member result \<times> web" where
  "find_member env org usr w =
     db_first_row env wb_members (\<lambda>m. om_org_id m = org \<and> om_user_id m = usr) w"

definition require_org_role :: "web_env \<Rightarrow> string \<Rightarrow> request \<Rightarrow> web handler" where
  "require_org_role env least rq c w =
     (case we_parse env (trim_space (rq_param rq ''orgId'')) of
        None \<Rightarrow> (abort (respond_error 400 ''INVALID_ORG'' ''invalid org id'' c), w)
      | Some org \<Rightarrow>
          if cx_actor c = [] then (respond_unauthorized c, w)
          else case db_first_row env wb_users (same_username env (cx_actor c)) w of
            (Inl ErrNotFound, w1) \<Rightarrow> (forbid c, w1)
          | (Inl e, w1) \<Rightarrow> (abort (respond_error 500 ''DB_READ'' ''failed to read user'' c), w1)
          | (Inr u, w1) \<Rightarrow>
              (case find_member env org (u_id u) w1 of
                 (Inl ErrNotFound, w2) \<Rightarrow> (forbid c, w2)
               | (Inl e, w2) \<Rightarrow> (abort (respond_error 500 ''DB_READ'' ''failed to read membership'' c), w2)
               | (Inr m, w2) \<Rightarrow>
                   if \<not> has_min_role (om_role m) least then (forbid c, w2)
                   else (c\<lparr>cx_org_id := we_text env org, cx_org_role := om_role m\<rparr>, w2)))"

section \<open>The routes of jobs\<close>

definition master_key_enabled :: "web_env \<Rightarrow> bool" where
  "master_key_enabled env \<longleftrightarrow> trim_space (we_master_key env) \<noteq> []"

definition allow_master_ip :: "web_env \<Rightarrow> string \<Rightarrow> bool" where
  "allow_master_ip env ip =
     (if ip = [] then False
      else case we_parse_ip env ip of
             None \<Rightarrow> False
           | Some loopback \<Rightarrow>
               if loopback then True
               else let allow = trim_space (we_allow_cidr env)
                    in if allow = [] then False
                       else list_ex (\<lambda>part. let cidr = trim_space part in cidr \<noteq> [] \<and>
                              (case we_parse_cidr env cidr of None \<Rightarrow> False | Some block \<Rightarrow> block ip))
                            (split_on (CHR '','') allow))"

definition check_master_auth :: "web_env \<Rightarrow> request \<Rightarrow> bool \<times> string" where
  "check_master_auth env rq =
     (let key = trim_space (rq_header rq ''X-Agg-Master-Key'')
      in if key = [] then (False, [])
         else if key \<noteq> trim_space (we_master_key env) then (False, ''invalid master key'')
         else if \<not> allow_master_ip env (rq_client_ip rq) then (False, ''master auth not allowed from this IP'')
         else (True, []))"

definition parse_jwt_auth :: "web_env \<Rightarrow> request \<Rightarrow> (string \<times> string) option" where
  "parse_jwt_auth env rq =
     (let auth = rq_header rq ''Authorization''
      in if \<not> prefix ''Bearer '' auth then None
         else map_option (\<lambda>cl. (cl_role cl, claims_actor cl)) (we_jwt env (trim_prefix auth ''Bearer '')))"

text \<open>Its refusals write an answer and return; they do not abort the context.\<close>

definition ops_read_auth :: "web_env \<Rightarrow> request \<Rightarrow> 'w handler" where
  "ops_read_auth env rq c w =
     (let (ok, reason) = (if master_key_enabled env then check_master_auth env rq else (False, []))
      in if ok then (c\<lparr>cx_actor := ''master'', cx_role := role_admin, cx_master := True\<rparr>, w)
         else if reason \<noteq> [] then (respond_error 403 ''FORBIDDEN'' reason c, w)
         else case parse_jwt_auth env rq of
                None \<Rightarrow> (respond_error 401 ''UNAUTHORIZED'' ''unauthorized'' c, w)
              | Some (role, actor) \<Rightarrow>
                  if role \<notin> {role_admin, role_operator, role_viewer}
                  then (respond_error 403 ''FORBIDDEN'' ''forbidden'' c, w)
                  else (c\<lparr>cx_role := role, cx_actor := (if actor \<noteq> [] then actor else cx_actor c)\<rparr>, w))"

section \<open>Facts\<close>

named_theorems web

lemma respond_sel [web]:
  "cx_aborted (respond_error s k m c) = cx_aborted c" "cx_aborted (respond_status s a c) = cx_aborted c"
  "cx_aborted (abort c)" "cx_aborted (respond_unauthorized c)" "cx_aborted (forbid c)"
  by (simp_all add: respond_error_def respond_status_def abort_def respond_unauthorized_def forbid_def)

lemma has_min_role_trans: "has_min_role a b \<Longrightarrow> has_min_role b c \<Longrightarrow> has_min_role a c"
  by (simp add: has_min_role_def)

lemma db_first_rowD:
  assumes "db_first_row env tab p w = (Inr r, w1)"
  shows "r \<in> set (tab w) \<and> p r \<and> w1 = wb_tick w"
  using assms by (auto simp: db_first_row_def db_query_def find_Some_iff split: option.splits if_splits)

lemma db_first_row_world [web]: "snd (db_first_row env tab p w) = wb_tick w"
  by (simp add: db_first_row_def db_query_def split: option.splits)

end
