(* ===== verification/Web_Scope.thy ===== *)
theory Web_Scope
  imports Web_Roles
begin

text \<open>
  The rows a request may see: \<open>internal/http/org_scope.go\<close>, and the root organisation of the
  configured administrator, \<open>internal/http/org_root.go\<close>. A row is reached through the memberships
  of the acting user; the header \<open>X-Org-ID\<close> narrows the search to one organisation.
\<close>

definition root_org_name :: string where
  "root_org_name = ''VLF Root''"

text \<open>The row that comes first in the order \<open>le\<close>, as \<open>ORDER BY ... LIMIT 1\<close> returns it.\<close>

fun least_row :: "('r \<Rightarrow> 'r \<Rightarrow> bool) \<Rightarrow> 'r list \<Rightarrow> 'r option" where
  "least_row le [] = None"
| "least_row le (r # rs) =
     (case least_row le rs of None \<Rightarrow> Some r | Some s \<Rightarrow> if le r s then Some r else Some s)"

definition db_least_row ::
    "web_env \<Rightarrow> (web \<Rightarrow> 'r list) \<Rightarrow> ('r \<Rightarrow> bool) \<Rightarrow> ('r \<Rightarrow> 'r \<Rightarrow> bool) \<Rightarrow> web \<Rightarrow> 'r result \<times> web" where
  "db_least_row env tab p le w =
     (case db_query env (\<lambda>v. least_row le (filter p (tab v))) w of
        (Inl e, w1) \<Rightarrow> (Inl e, w1)
      | (Inr None, w1) \<Rightarrow> (Inl ErrNotFound, w1)
      | (Inr (Some r), w1) \<Rightarrow> (Inr r, w1))"

section \<open>The root organisation\<close>

definition ensure_admin :: "web_env \<Rightarrow> web \<Rightarrow> uuid result \<times> web" where
  "ensure_admin env w =
     (let name = trim_space (we_admin_user env)
      in case db_first_row env wb_users (same_username env name) w of
           (Inl ErrNotFound, w1) \<Rightarrow>
             (case we_bcrypt env (we_admin_pass env) of
                None \<Rightarrow> (Inl (ErrMsg ''bcrypt''), w1)
              | Some h \<Rightarrow>
                  (case new_uuid env w1 of
                     (i, w2) \<Rightarrow>
                       (case db_write env (insert_user env \<lparr>u_id = i, u_username = name, u_password_hash = h,
                                u_role = role_admin, u_totp_secret = None, u_totp_enabled = False, u_recovery_hash = None, u_recovery_exp = None,
                                u_created_at = we_now env, u_updated_at = we_now env\<rparr>) w2 of
                          (Some e, w3) \<Rightarrow> (Inl e, w3)
                        | (None, w3) \<Rightarrow> (Inr i, w3))))
         | (Inl e, w1) \<Rightarrow> (Inl e, w1)
         | (Inr u, w1) \<Rightarrow>
             if u_role u \<noteq> role_admin
             then (Inr (u_id u), snd (db_write env (\<lambda>v. Inr (v\<lparr>wb_users :=
                     row_upd u_id (u_id u) (\<lambda>r. r\<lparr>u_role := role_admin, u_updated_at := we_now env\<rparr>) (wb_users v)\<rparr>)) w1))
             else (Inr (u_id u), w1))"

definition ensure_org :: "web_env \<Rightarrow> uuid \<Rightarrow> web \<Rightarrow> uuid result \<times> web" where
  "ensure_org env admin w =
     (case db_least_row env wb_orgs (\<lambda>g. og_name g = root_org_name) (\<lambda>a b. og_id a \<le> og_id b) w of
        (Inl ErrNotFound, w1) \<Rightarrow>
          (case new_uuid env w1 of
             (i, w2) \<Rightarrow>
               (case db_write env (insert_org \<lparr>og_id = i, og_name = root_org_name, og_owner = admin,
                        og_created_at = we_now env\<rparr>) w2 of
                  (Some e, w3) \<Rightarrow> (Inl e, w3)
                | (None, w3) \<Rightarrow> (Inr i, w3)))
      | (Inl e, w1) \<Rightarrow> (Inl e, w1)
      | (Inr g, w1) \<Rightarrow> (Inr (og_id g), w1))"

definition ensure_member :: "web_env \<Rightarrow> uuid \<Rightarrow> uuid \<Rightarrow> web \<Rightarrow> goerr option \<times> web" where
  "ensure_member env org usr w =
     (case find_member env org usr w of
        (Inl ErrNotFound, w1) \<Rightarrow>
          db_write env (insert_member \<lparr>om_org_id = org, om_user_id = usr, om_role = ''owner'',
            om_created_at = we_now env\<rparr>) w1
      | (Inl e, w1) \<Rightarrow> (Some e, w1)
      | (Inr m, w1) \<Rightarrow> (None, w1))"

definition adopt_nodes :: "uuid \<Rightarrow> web \<Rightarrow> web" where
  "adopt_nodes org w =
     w\<lparr>wb_nodes := map (\<lambda>n. if n_org_id n = None then n\<lparr>n_org_id := Some org\<rparr> else n) (wb_nodes w)\<rparr>"

definition ensure_root_org :: "web_env \<Rightarrow> web \<Rightarrow> uuid result \<times> web" where
  "ensure_root_org env w =
     (if trim_space (we_admin_user env) = [] then (Inl (ErrMsg ''admin user not configured''), w)
      else case ensure_admin env w of
        (Inl e, w1) \<Rightarrow> (Inl e, w1)
      | (Inr admin, w1) \<Rightarrow>
          (case ensure_org env admin w1 of
             (Inl e, w2) \<Rightarrow> (Inl e, w2)
           | (Inr org, w2) \<Rightarrow>
               (case ensure_member env org admin w2 of
                  (Some e, w3) \<Rightarrow> (Inl e, w3)
                | (None, w3) \<Rightarrow>
                    (case db_write env (\<lambda>v. Inr (adopt_nodes org v)) w3 of
                       (Some e, w4) \<Rightarrow> (Inl e, w4)
                     | (None, w4) \<Rightarrow> (Inr org, w4)))))"

section \<open>The acting user and organisation\<close>

definition actor_is_global_admin :: "web_env \<Rightarrow> ctx \<Rightarrow> bool" where
  "actor_is_global_admin env c \<longleftrightarrow> we_admin_user env \<noteq> [] \<and> equal_fold (get_actor c) (we_admin_user env)"

definition actor_user :: "web_env \<Rightarrow> ctx \<Rightarrow> web \<Rightarrow> user result \<times> web" where
  "actor_user env c w =
     (let actor = get_actor c
      in if actor = [] then (Inl (ErrMsg ''missing actor''), w)
         else case db_first_row env wb_users (same_username env actor) w of
           (Inl e, w1) \<Rightarrow>
             if e = ErrNotFound \<and> actor_is_global_admin env c
             then (case ensure_root_org env w1 of
                     (Inl e', w2) \<Rightarrow> (Inl e, w2)
                   | (Inr org, w2) \<Rightarrow>
                       (case db_first_row env wb_users (same_username env actor) w2 of
                          (Inl e'', w3) \<Rightarrow> (Inl e, w3)
                        | (Inr u, w3) \<Rightarrow> (Inr u, w3)))
             else (Inl e, w1)
         | (Inr u, w1) \<Rightarrow> (Inr u, w1))"

definition first_org_for_user :: "web_env \<Rightarrow> uuid \<Rightarrow> web \<Rightarrow> uuid result \<times> web" where
  "first_org_for_user env usr w =
     (case db_least_row env wb_members (\<lambda>m. om_user_id m = usr)
             (\<lambda>a b. om_created_at a < om_created_at b \<or>
                (om_created_at a = om_created_at b \<and> om_org_id a \<le> om_org_id b)) w of
        (Inl e, w1) \<Rightarrow> (Inl e, w1)
      | (Inr m, w1) \<Rightarrow> (Inr (om_org_id m), w1))"

definition fallback_org :: "web_env \<Rightarrow> uuid \<Rightarrow> web \<Rightarrow> uuid option result \<times> web" where
  "fallback_org env usr w =
     (case first_org_for_user env usr w of
        (Inl ErrNotFound, w1) \<Rightarrow> (Inr None, w1)
      | (Inl e, w1) \<Rightarrow> (Inl e, w1)
      | (Inr org, w1) \<Rightarrow> (Inr (Some org), w1))"

definition requested_org :: "request \<Rightarrow> string" where
  "requested_org rq =
     (let h = trim_space (rq_header rq ''X-Org-ID'')
      in if h = [] then trim_space (rq_query rq ''org_id'') else h)"

definition org_id_from_request :: "web_env \<Rightarrow> request \<Rightarrow> uuid \<Rightarrow> web \<Rightarrow> uuid option result \<times> web" where
  "org_id_from_request env rq usr w =
     (let raw = requested_org rq
      in if raw = [] then fallback_org env usr w
         else case we_parse env raw of
                None \<Rightarrow> fallback_org env usr w
              | Some org \<Rightarrow>
                  (case find_member env org usr w of
                     (Inr m, w1) \<Rightarrow> (Inr (Some org), w1)
                   | (Inl ErrNotFound, w1) \<Rightarrow> fallback_org env usr w1
                   | (Inl e, w1) \<Rightarrow> (Inl e, w1)))"

text \<open>The user and the organisation a scoped query is made for.\<close>

definition actor_scope :: "web_env \<Rightarrow> request \<Rightarrow> ctx \<Rightarrow> web \<Rightarrow> (uuid \<times> uuid option) result \<times> web" where
  "actor_scope env rq c w =
     (case actor_user env c w of
        (Inl e, w1) \<Rightarrow> (Inl e, w1)
      | (Inr u, w1) \<Rightarrow>
          (case org_id_from_request env rq (u_id u) w1 of
             (Inl e, w2) \<Rightarrow> (Inl e, w2)
           | (Inr org, w2) \<Rightarrow> (Inr (u_id u, org), w2)))"

text \<open>The join with the memberships of a user, and the organisation when there is one.\<close>

definition in_scope :: "web \<Rightarrow> uuid \<times> uuid option \<Rightarrow> uuid \<Rightarrow> bool" where
  "in_scope w sc org \<longleftrightarrow>
     list_ex (\<lambda>m. om_org_id m = org \<and> om_user_id m = fst sc) (wb_members w) \<and>
     (case snd sc of None \<Rightarrow> True | Some g \<Rightarrow> org = g)"

definition node_in_scope :: "web \<Rightarrow> uuid \<times> uuid option \<Rightarrow> node \<Rightarrow> bool" where
  "node_in_scope w sc n \<longleftrightarrow> (case n_org_id n of None \<Rightarrow> False | Some org \<Rightarrow> in_scope w sc org)"

definition bot_in_scope :: "web \<Rightarrow> uuid \<times> uuid option \<Rightarrow> bot \<Rightarrow> bool" where
  "bot_in_scope w sc b \<longleftrightarrow> list_ex (\<lambda>n. n_id n = b_node_id b \<and> node_in_scope w sc n) (wb_nodes w)"

definition get_node_for_actor :: "web_env \<Rightarrow> request \<Rightarrow> ctx \<Rightarrow> string \<Rightarrow> web \<Rightarrow> node result \<times> web" where
  "get_node_for_actor env rq c id_str w =
     (case we_parse env id_str of
        None \<Rightarrow> (Inl (ErrMsg ''invalid UUID''), w)
      | Some i \<Rightarrow>
          (case actor_scope env rq c w of
             (Inl e, w1) \<Rightarrow> (Inl e, w1)
           | (Inr sc, w1) \<Rightarrow> db_first_row env wb_nodes (\<lambda>n. node_in_scope w1 sc n \<and> n_id n = i) w1))"

definition get_service_for_actor :: "web_env \<Rightarrow> request \<Rightarrow> ctx \<Rightarrow> string \<Rightarrow> web \<Rightarrow> service result \<times> web" where
  "get_service_for_actor env rq c id_str w =
     (case we_parse env id_str of
        None \<Rightarrow> (Inl (ErrMsg ''invalid UUID''), w)
      | Some i \<Rightarrow>
          (case actor_scope env rq c w of
             (Inl e, w1) \<Rightarrow> (Inl e, w1)
           | (Inr sc, w1) \<Rightarrow> db_first_row env wb_services (\<lambda>s. in_scope w1 sc (sv_org_id s) \<and> sv_id s = i) w1))"

definition get_bot_for_actor :: "web_env \<Rightarrow> request \<Rightarrow> ctx \<Rightarrow> string \<Rightarrow> web \<Rightarrow> bot result \<times> web" where
  "get_bot_for_actor env rq c id_str w =
     (case we_parse env id_str of
        None \<Rightarrow> (Inl (ErrMsg ''invalid UUID''), w)
      | Some i \<Rightarrow>
          (case actor_scope env rq c w of
             (Inl e, w1) \<Rightarrow> (Inl e, w1)
           | (Inr sc, w1) \<Rightarrow> db_first_row env wb_bots (\<lambda>b. bot_in_scope w1 sc b \<and> b_id b = i) w1))"

definition get_check_for_actor :: "web_env \<Rightarrow> request \<Rightarrow> ctx \<Rightarrow> string \<Rightarrow> web \<Rightarrow> check result \<times> web" where
  "get_check_for_actor env rq c id_str w =
     (case we_parse env id_str of
        None \<Rightarrow> (Inl (ErrMsg ''invalid UUID''), w)
      | Some i \<Rightarrow>
          (case db_first_row env wb_checks (\<lambda>k. ck_id k = i) w of
             (Inl e, w1) \<Rightarrow> (Inl e, w1)
           | (Inr k, w1) \<Rightarrow>
               let target = we_text env (ck_target_id k); t = ck_target_type k
               in if t = ''node''
                  then (case get_node_for_actor env rq c target w1 of
                          (Inl e, w2) \<Rightarrow> (Inl e, w2) | (Inr n, w2) \<Rightarrow> (Inr k, w2))
                  else if t = ''service''
                  then (case get_service_for_actor env rq c target w1 of
                          (Inl e, w2) \<Rightarrow> (Inl e, w2) | (Inr s, w2) \<Rightarrow> (Inr k, w2))
                  else if t = ''bot''
                  then (case get_bot_for_actor env rq c target w1 of
                          (Inl e, w2) \<Rightarrow> (Inl e, w2) | (Inr b, w2) \<Rightarrow> (Inr k, w2))
                  else (Inl ErrNotFound, w1)))"

definition accessible_node_ids :: "web_env \<Rightarrow> request \<Rightarrow> ctx \<Rightarrow> web \<Rightarrow> uuid list result \<times> web" where
  "accessible_node_ids env rq c w =
     (case actor_scope env rq c w of
        (Inl e, w1) \<Rightarrow> (Inl e, w1)
      | (Inr sc, w1) \<Rightarrow> db_query env (\<lambda>v. map n_id (filter (node_in_scope v sc) (wb_nodes v))) w1)"

section \<open>Facts\<close>

lemma least_row_mem: "least_row le rs = Some r \<Longrightarrow> r \<in> set rs"
  by (induction rs) (auto split: option.splits if_splits)

lemma db_least_rowD:
  assumes "db_least_row env tab p le w = (Inr r, w1)"
  shows "r \<in> set (tab w) \<and> p r \<and> w1 = wb_tick w"
  using assms least_row_mem [of le "filter p (tab w)" r]
  by (auto simp: db_least_row_def db_query_def split: option.splits if_splits)

lemma db_least_row_world [web]: "snd (db_least_row env tab p le w) = wb_tick w"
  by (simp add: db_least_row_def db_query_def split: option.splits)

text \<open>Queries change the number of statements only.\<close>

definition only_counts :: "web \<Rightarrow> web \<Rightarrow> bool" where
  "only_counts w w' \<longleftrightarrow> (\<exists>n. w' = w\<lparr>wb_dbn := n\<rparr>)"

lemma only_counts_tables:
  assumes "only_counts w w'"
  shows "wb_users w' = wb_users w" "wb_members w' = wb_members w" "wb_nodes w' = wb_nodes w"
    "wb_orgs w' = wb_orgs w"
  using assms by (auto simp: only_counts_def)

lemma only_counts_intros [web]:
  "only_counts w w" "only_counts w (wb_tick w)"
  "only_counts u v \<Longrightarrow> only_counts v w \<Longrightarrow> only_counts u w"
  "only_counts w (w\<lparr>wb_dbn := n\<rparr>)"
proof -
  show "only_counts w w" unfolding only_counts_def by (rule exI [of _ "wb_dbn w"]) simp
  show "only_counts w (wb_tick w)" unfolding only_counts_def wb_tick_def by (rule exI) (rule refl)
  show "only_counts u v \<Longrightarrow> only_counts v w \<Longrightarrow> only_counts u w" unfolding only_counts_def by auto
  show "only_counts w (w\<lparr>wb_dbn := n\<rparr>)" unfolding only_counts_def by (rule exI) (rule refl)
qed

lemma fallback_org_facts:
  assumes "fallback_org env usr w = (r, w1)"
  shows "only_counts w w1" and "r = Inr (Some g) \<Longrightarrow> \<exists>m \<in> set (wb_members w). om_org_id m = g \<and> om_user_id m = usr"
proof -
  define le :: "org_member \<Rightarrow> org_member \<Rightarrow> bool" where "le = (\<lambda>a b. om_created_at a < om_created_at b \<or>
     (om_created_at a = om_created_at b \<and> om_org_id a \<le> om_org_id b))"
  obtain y v where y: "db_least_row env wb_members (\<lambda>m. om_user_id m = usr) le w = (y, v)" by fastforce
  have v: "v = wb_tick w" using db_least_row_world [of env wb_members "\<lambda>m. om_user_id m = usr" le w] y by simp
  have first: "first_org_for_user env usr w = (case y of Inl e \<Rightarrow> (Inl e, v) | Inr m \<Rightarrow> (Inr (om_org_id m), v))"
    using y unfolding first_org_for_user_def le_def by (simp split: sum.split)
  have "w1 = v \<and> (r = Inr (Some g) \<longrightarrow> (\<exists>m. y = Inr m \<and> om_org_id m = g))"
  proof (cases y)
    case (Inl e)
    with first assms show ?thesis by (cases e) (auto simp: fallback_org_def)
  next
    case (Inr m)
    with first assms show ?thesis by (auto simp: fallback_org_def)
  qed
  then have w1: "w1 = v" and r: "r = Inr (Some g) \<Longrightarrow> \<exists>m. y = Inr m \<and> om_org_id m = g" by auto
  show "only_counts w w1" using w1 v by (simp add: only_counts_intros(2))
  assume "r = Inr (Some g)"
  then obtain m where m: "y = Inr m" "om_org_id m = g" using r by blast
  from db_least_rowD [OF y [unfolded m(1)]] m(2)
  show "\<exists>m \<in> set (wb_members w). om_org_id m = g \<and> om_user_id m = usr" by blast
qed

lemma find_member_facts:
  assumes "find_member env org usr w = (r, w1)"
  shows "only_counts w w1" "r = Inr m \<Longrightarrow> m \<in> set (wb_members w) \<and> om_org_id m = org \<and> om_user_id m = usr"
    "r = Inl ErrNotFound \<Longrightarrow> \<forall>m \<in> set (wb_members w). \<not> (om_org_id m = org \<and> om_user_id m = usr)"
proof -
  have fr: "db_first_row env wb_members (\<lambda>m. om_org_id m = org \<and> om_user_id m = usr) w = (r, w1)"
    using assms by (simp add: find_member_def)
  have "w1 = wb_tick w"
    using db_first_row_world [of env wb_members "\<lambda>m. om_org_id m = org \<and> om_user_id m = usr" w] fr by simp
  then show "only_counts w w1" by (simp add: web)
  show "r = Inr m \<Longrightarrow> m \<in> set (wb_members w) \<and> om_org_id m = org \<and> om_user_id m = usr"
    using db_first_rowD [of env wb_members "\<lambda>m. om_org_id m = org \<and> om_user_id m = usr" w m w1] fr by simp
  show "r = Inl ErrNotFound \<Longrightarrow> \<forall>m \<in> set (wb_members w). \<not> (om_org_id m = org \<and> om_user_id m = usr)"
    using assms by (auto simp: find_member_def db_first_row_def db_query_def find_None_iff split: option.splits if_splits)
qed

lemma org_id_facts:
  assumes "org_id_from_request env rq usr w = (r, w1)"
  shows "only_counts w w1" and "r = Inr (Some g) \<Longrightarrow> \<exists>m \<in> set (wb_members w). om_org_id m = g \<and> om_user_id m = usr"
    and "r = Inr o1 \<Longrightarrow> we_parse env (requested_org rq) = Some g \<Longrightarrow> requested_org rq \<noteq> [] \<Longrightarrow>
      \<exists>m \<in> set (wb_members w). om_org_id m = g \<and> om_user_id m = usr \<Longrightarrow> o1 = Some g"
proof -
  obtain org x v where member: "the (we_parse env (requested_org rq)) = org" "find_member env org usr w = (x, v)"
    by fastforce
  consider (fb) "fallback_org env usr w = (r, w1)" "requested_org rq = [] \<or> we_parse env (requested_org rq) = None"
    | (org) "requested_org rq \<noteq> []" "we_parse env (requested_org rq) = Some org"
        "find_member env org usr w = (x, v)"
        "(case x of Inr m \<Rightarrow> (Inr (Some org), v) | Inl ErrNotFound \<Rightarrow> fallback_org env usr v | Inl e \<Rightarrow> (Inl e, v)) = (r, w1)"
  proof (cases "requested_org rq = [] \<or> we_parse env (requested_org rq) = None")
    case True
    with assms show ?thesis by (intro that(1)) (auto simp: org_id_from_request_def Let_def split: if_splits)
  next
    case False
    with member have p: "we_parse env (requested_org rq) = Some org" by auto
    show ?thesis
    proof (rule that(2) [OF _ p member(2)])
      show "requested_org rq \<noteq> []" using False by simp
      show "(case x of Inr m \<Rightarrow> (Inr (Some org), v) | Inl ErrNotFound \<Rightarrow> fallback_org env usr v | Inl e \<Rightarrow> (Inl e, v)) = (r, w1)"
        using assms False p member(2) by (simp add: org_id_from_request_def split: sum.splits goerr.splits)
    qed
  qed
  then have "only_counts w w1 \<and>
      (r = Inr (Some g) \<longrightarrow> (\<exists>m \<in> set (wb_members w). om_org_id m = g \<and> om_user_id m = usr)) \<and>
      (r = Inr o1 \<longrightarrow> we_parse env (requested_org rq) = Some g \<longrightarrow> requested_org rq \<noteq> [] \<longrightarrow>
        (\<exists>m \<in> set (wb_members w). om_org_id m = g \<and> om_user_id m = usr) \<longrightarrow> o1 = Some g)"
  proof cases
    case fb
    then show ?thesis using fallback_org_facts [OF fb(1)] by auto
  next
    case org
    note f = find_member_facts [OF org(3)]
    show ?thesis
    proof (cases x)
      case (Inr m)
      then show ?thesis using org f by auto
    next
      case (Inl e)
      show ?thesis
      proof (cases "e = ErrNotFound")
        case True
        with org Inl have fb: "fallback_org env usr v = (r, w1)" by simp
        have "only_counts w w1" using f(1) fallback_org_facts(1) [OF fb] by (rule only_counts_intros(3))
        moreover have "wb_members v = wb_members w" using only_counts_tables [OF f(1)] by simp
        ultimately show ?thesis
          using fallback_org_facts(2) [OF fb] f(3) True Inl org(2) by auto
      next
        case False
        with org Inl have "r = Inl e" "w1 = v" by (cases e; simp)+
        then show ?thesis using f(1) by simp
      qed
    qed
  qed
  then show "only_counts w w1" and "r = Inr (Some g) \<Longrightarrow> \<exists>m \<in> set (wb_members w). om_org_id m = g \<and> om_user_id m = usr"
    and "r = Inr o1 \<Longrightarrow> we_parse env (requested_org rq) = Some g \<Longrightarrow> requested_org rq \<noteq> [] \<Longrightarrow>
      \<exists>m \<in> set (wb_members w). om_org_id m = g \<and> om_user_id m = usr \<Longrightarrow> o1 = Some g"
    by blast+
qed

lemma actor_user_mem:
  assumes "actor_user env c w = (Inr u, w1)"
  shows "u \<in> set (wb_users w1) \<and> same_username env (get_actor c) u"
proof -
  obtain x v where x: "db_first_row env wb_users (same_username env (get_actor c)) w = (x, v)" by fastforce
  have ne: "get_actor c \<noteq> []" by (simp add: get_actor_def)
  show ?thesis
  proof (cases x)
    case (Inr u')
    with x have fr: "db_first_row env wb_users (same_username env (get_actor c)) w = (Inr u', v)" by simp
    have "u = u'" "w1 = v" using assms fr ne by (simp_all add: actor_user_def)
    with db_first_rowD [OF fr] show ?thesis by (auto simp: wb_tick_def)
  next
    case (Inl e)
    with assms x ne obtain org w2 where e: "e = ErrNotFound" and er: "ensure_root_org env v = (Inr org, w2)"
      and fr: "db_first_row env wb_users (same_username env (get_actor c)) w2 = (Inr u, w1)"
      by (auto simp: actor_user_def split: if_splits sum.splits prod.splits)
    from db_first_rowD [OF fr] show ?thesis by (auto simp: wb_tick_def)
  qed
qed

text \<open>A scope belongs to the acting user; its organisation is one the user is a member of.\<close>

definition scope_of :: "web_env \<Rightarrow> request \<Rightarrow> ctx \<Rightarrow> web \<Rightarrow> uuid \<times> uuid option \<Rightarrow> bool" where
  "scope_of env rq c w sc \<longleftrightarrow>
     (\<exists>u \<in> set (wb_users w). same_username env (get_actor c) u \<and> u_id u = fst sc) \<and>
     (\<forall>g. snd sc = Some g \<longrightarrow> (\<exists>m \<in> set (wb_members w). om_org_id m = g \<and> om_user_id m = fst sc)) \<and>
     (\<forall>g. we_parse env (requested_org rq) = Some g \<and> requested_org rq \<noteq> [] \<and>
        (\<exists>m \<in> set (wb_members w). om_org_id m = g \<and> om_user_id m = fst sc) \<longrightarrow> snd sc = Some g)"

lemma actor_scope_of:
  assumes "actor_scope env rq c w = (Inr sc, w1)"
  shows "scope_of env rq c w1 sc"
proof -
  obtain u v org where u: "actor_user env c w = (Inr u, v)"
    and org: "org_id_from_request env rq (u_id u) v = (Inr org, w1)" and sc: "sc = (u_id u, org)"
    using assms by (auto simp: actor_scope_def split: sum.splits prod.splits)
  note f = org_id_facts [OF org]
  have same: "wb_users w1 = wb_users v" "wb_members w1 = wb_members v" using only_counts_tables [OF f(1)] by simp_all
  show ?thesis
    unfolding scope_of_def using actor_user_mem [OF u] f(2,3) sc by (auto simp: same)
qed

end
