(* ===== verification/Web_Tokens.thy ===== *)
theory Web_Tokens
  imports Web_Scope
begin

text \<open>
  Sessions and agents' credentials: the refresh tokens of \<open>internal/http/auth_tokens.go\<close> and
  \<open>auth_refresh.go\<close>, and the registration and authentication of agents, \<open>agent_auth.go\<close>.
\<close>

section \<open>Refresh tokens\<close>

definition hour :: duration where
  "hour = 60 * minute"

definition issue_access_token :: "web_env \<Rightarrow> string \<Rightarrow> string \<Rightarrow> string option" where
  "issue_access_token env username role =
     (let expiry = (if we_jwt_expiry env = 0 then 24 * hour else we_jwt_expiry env)
      in we_sign env \<lparr>cl_user = username, cl_role = role, cl_subject = username\<rparr> (we_now env + expiry))"

definition resolve_role :: "web_env \<Rightarrow> string \<Rightarrow> web \<Rightarrow> string result \<times> web" where
  "resolve_role env username w =
     (if username = we_admin_user env then (Inr role_admin, w)
      else case db_first_row env wb_users (same_username env username) w of
             (Inl e, w1) \<Rightarrow> (Inl e, w1)
           | (Inr u, w1) \<Rightarrow> (Inr (u_role u), w1))"

definition hash_refresh_token :: "web_env \<Rightarrow> string \<Rightarrow> string" where
  "hash_refresh_token env raw = we_sha_hex env raw"

definition ttl_or_default :: "duration \<Rightarrow> duration" where
  "ttl_or_default ttl = (if ttl \<le> 0 then 720 * hour else ttl)"

definition nonempty :: "string \<Rightarrow> string option" where
  "nonempty s = (if s = [] then None else Some s)"

definition insert_refresh :: "refresh_token \<Rightarrow> web \<Rightarrow> goerr + web" where
  "insert_refresh r w =
     (if rf_id r \<in> rf_id ` set (wb_refresh w) \<or> rf_token_hash r \<in> rf_token_hash ` set (wb_refresh w)
      then Inl ErrUnique else Inr (w\<lparr>wb_refresh := wb_refresh w @ [r]\<rparr>))"

definition issue_refresh_token :: "web_env \<Rightarrow> request \<Rightarrow> string \<Rightarrow> web \<Rightarrow> string result \<times> web" where
  "issue_refresh_token env rq username w =
     (case draw env (w\<lparr>wb_refresh_ttl := ttl_or_default (wb_refresh_ttl w)\<rparr>) of
        (None, w1) \<Rightarrow> (Inl (ErrMsg ''rand''), w1)
      | (Some raw, w1) \<Rightarrow>
          (case new_uuid env w1 of
             (i, w2) \<Rightarrow>
               (case db_write env (insert_refresh
                    \<lparr>rf_id = i, rf_user_id = username, rf_token_hash = hash_refresh_token env raw,
                     rf_created_at = we_now env, rf_expires_at = we_now env + wb_refresh_ttl w1,
                     rf_last_used = None, rf_revoked_at = None,
                     rf_user_agent = nonempty (trim_space (rq_header rq ''User-Agent'')),
                     rf_ip = nonempty (trim_space (rq_client_ip rq))\<rparr>) w2 of
                  (Some e, w3) \<Rightarrow> (Inl e, w3)
                | (None, w3) \<Rightarrow> (Inr raw, w3))))"

definition cookie_secure :: "request \<Rightarrow> bool" where
  "cookie_secure rq =
     (let host = to_lower (rq_host rq); proto = to_lower (trim_space (rq_header rq ''X-Forwarded-Proto''))
      in if proto \<noteq> [] then proto = ''https''
         else \<not> (contains host ''localhost'' \<or> prefix ''127.0.0.1'' host))"

definition set_refresh_cookie :: "request \<Rightarrow> string \<Rightarrow> duration \<Rightarrow> ctx \<Rightarrow> ctx" where
  "set_refresh_cookie rq token ttl c = set_cookie token (ttl_or_default ttl div second) (cookie_secure rq) c"

definition clear_refresh_cookie :: "request \<Rightarrow> ctx \<Rightarrow> ctx" where
  "clear_refresh_cookie rq c = set_cookie [] (- 1) (cookie_secure rq) c"

definition read_refresh_cookie :: "request \<Rightarrow> string" where
  "read_refresh_cookie rq = (case rq_cookie rq of None \<Rightarrow> [] | Some v \<Rightarrow> trim_space v)"

definition require_xhr :: "request \<Rightarrow> bool" where
  "require_xhr rq = equal_fold (trim_space (rq_header rq ''X-Requested-With'')) ''XMLHttpRequest''"

definition live_token :: "web_env \<Rightarrow> string \<Rightarrow> refresh_token \<Rightarrow> bool" where
  "live_token env h r \<longleftrightarrow> rf_token_hash r = h \<and> rf_revoked_at r = None \<and> we_now env < rf_expires_at r"

definition touch_token :: "web_env \<Rightarrow> uuid \<Rightarrow> web \<Rightarrow> web" where
  "touch_token env i w =
     w\<lparr>wb_refresh := row_upd rf_id i (\<lambda>r. r\<lparr>rf_last_used := Some (we_now env),
         rf_expires_at := we_now env + wb_refresh_ttl w\<rparr>) (wb_refresh w)\<rparr>"

definition refresh_answer :: "web_env \<Rightarrow> request \<Rightarrow> string \<Rightarrow> refresh_token \<Rightarrow> string \<Rightarrow> web handler" where
  "refresh_answer env rq raw row role c w =
     (case issue_access_token env (rf_user_id row) role of
        None \<Rightarrow> (respond_error 500 ''TOKEN_SIGN'' ''failed to sign token'' c, w)
      | Some token \<Rightarrow>
          (respond_status 200 (ALogin token (rf_user_id row) role) (set_refresh_cookie rq raw (wb_refresh_ttl w) c),
           snd (db_write env (\<lambda>v. Inr (touch_token env (rf_id row) v)) w)))"

definition refresh :: "web_env \<Rightarrow> request \<Rightarrow> web handler" where
  "refresh env rq c w =
     (if \<not> require_xhr rq then (respond_error 400 ''CSRF_REQUIRED'' ''missing csrf header'' c, w)
      else let raw = read_refresh_cookie rq
        in if raw = [] then (respond_error 401 ''UNAUTHORIZED'' ''missing refresh token'' c, w)
           else case db_first_row env wb_refresh (live_token env (hash_refresh_token env raw)) w of
             (Inl ErrNotFound, w1) \<Rightarrow> (respond_error 401 ''UNAUTHORIZED'' ''invalid refresh token'' c, w1)
           | (Inl e, w1) \<Rightarrow> (respond_error 500 ''DB_READ'' ''failed to read refresh token'' c, w1)
           | (Inr row, w1) \<Rightarrow>
               (case resolve_role env (rf_user_id row) w1 of
                  (Inl e, w2) \<Rightarrow> (respond_error 401 ''UNAUTHORIZED'' ''unknown user'' c, w2)
                | (Inr role, w2) \<Rightarrow>
                    if equal_fold (rf_user_id row) (we_admin_user env)
                    then (case ensure_root_org env w2 of
                            (Inl e, w3) \<Rightarrow>
                              (respond_error 500 ''ROOT_ORG'' ''failed to initialize admin workspace'' c, w3)
                          | (Inr org, w3) \<Rightarrow> refresh_answer env rq raw row role c w3)
                    else refresh_answer env rq raw row role c w2))"

definition revoke_token :: "web_env \<Rightarrow> string \<Rightarrow> web \<Rightarrow> web" where
  "revoke_token env h w =
     w\<lparr>wb_refresh := map (\<lambda>r. if rf_token_hash r = h \<and> rf_revoked_at r = None
                              then r\<lparr>rf_revoked_at := Some (we_now env)\<rparr> else r) (wb_refresh w)\<rparr>"

definition logout :: "web_env \<Rightarrow> request \<Rightarrow> web handler" where
  "logout env rq c w =
     (if \<not> require_xhr rq then (respond_error 400 ''CSRF_REQUIRED'' ''missing csrf header'' c, w)
      else let raw = read_refresh_cookie rq
        in (respond_status 200 AOk (clear_refresh_cookie rq c),
            if raw = [] then w
            else snd (db_write env (\<lambda>v. Inr (revoke_token env (hash_refresh_token env raw) v)) w)))"

section \<open>Agents\<close>

record register_body =
  rb_node_id :: string
  rb_token :: string

definition use_reg_token :: "web_env \<Rightarrow> uuid \<Rightarrow> web \<Rightarrow> web" where
  "use_reg_token env i w =
     w\<lparr>wb_regs := map (\<lambda>r. if rg_id r = i \<and> rg_used_at r = None
                           then r\<lparr>rg_used_at := Some (we_now env)\<rparr> else r) (wb_regs w)\<rparr>"

text \<open>\<open>INSERT ... ON CONFLICT (node_id) DO UPDATE\<close>.\<close>

definition put_cred :: "web_env \<Rightarrow> uuid \<Rightarrow> string \<Rightarrow> web \<Rightarrow> web" where
  "put_cred env node h w =
     (case row_get cr_node_id node (wb_creds w) of
        None \<Rightarrow> w\<lparr>wb_creds := wb_creds w @ [\<lparr>cr_node_id = node, cr_token_hash = h, cr_created_at = we_now env,
                  cr_last_seen = Some (we_now env), cr_revoked_at = None\<rparr>]\<rparr>
      | Some r \<Rightarrow> w\<lparr>wb_creds := row_upd cr_node_id node (\<lambda>r. r\<lparr>cr_token_hash := h, cr_revoked_at := None,
                  cr_last_seen := Some (we_now env)\<rparr>) (wb_creds w)\<rparr>)"

definition seen_node :: "web_env \<Rightarrow> uuid \<Rightarrow> web \<Rightarrow> web" where
  "seen_node env i w =
     w\<lparr>wb_nodes := row_upd n_id i (\<lambda>n. n\<lparr>n_agent_last_seen := Some (we_now env)\<rparr>) (wb_nodes w)\<rparr>"

definition register_tx :: "web_env \<Rightarrow> reg_token \<Rightarrow> uuid \<Rightarrow> string \<Rightarrow> web \<Rightarrow> unit result \<times> web" where
  "register_tx env reg node h w =
     (case db_write env (\<lambda>v. Inr (use_reg_token env (rg_id reg) v)) w of
        (Some e, w1) \<Rightarrow> (Inl e, w1)
      | (None, w1) \<Rightarrow>
          (case db_write env (\<lambda>v. Inr (put_cred env node h v)) w1 of
             (Some e, w2) \<Rightarrow> (Inl e, w2)
           | (None, w2) \<Rightarrow> (Inr (), w2)))"

text \<open>
  A registration: \<open>find_reg\<close> checks the token, \<open>finish_register\<close> stores the credential.
\<close>

definition find_reg ::
    "web_env \<Rightarrow> string + register_body \<Rightarrow> ctx \<Rightarrow> web \<Rightarrow> (ctx + (reg_token \<times> uuid)) \<times> web" where
  "find_reg env body c w =
     (case parse_json_body body c of
        Inl c1 \<Rightarrow> (Inl c1, w)
      | Inr b \<Rightarrow>
          (case we_parse env (trim_space (rb_node_id b)) of
             None \<Rightarrow> (Inl (respond_error 400 ''INVALID_NODE'' ''invalid node id'' c), w)
           | Some node \<Rightarrow>
               let t = trim_space (rb_token b)
               in if t = [] then (Inl (respond_error 400 ''INVALID_TOKEN'' ''registration token required'' c), w)
                  else case db_least_row env wb_regs
                              (\<lambda>r. rg_node_id r = node \<and> rg_token_hash r = hash_token env t)
                              (\<lambda>a b. rg_id a \<le> rg_id b) w of
                    (Inl ErrNotFound, w1) \<Rightarrow>
                      (Inl (respond_error 401 ''REG_TOKEN_INVALID'' ''invalid registration token'' c), w1)
                  | (Inl e, w1) \<Rightarrow> (Inl (respond_error 500 ''DB_READ'' ''failed to read registration token'' c), w1)
                  | (Inr reg, w1) \<Rightarrow>
                      if rg_used_at reg \<noteq> None
                      then (Inl (respond_error 401 ''REG_TOKEN_USED'' ''registration token already used'' c), w1)
                      else if rg_expires_at reg < we_now env
                      then (Inl (respond_error 401 ''REG_TOKEN_EXPIRED'' ''registration token expired'' c), w1)
                      else (Inr (reg, node), w1)))"

definition finish_register :: "web_env \<Rightarrow> reg_token \<Rightarrow> uuid \<Rightarrow> web handler" where
  "finish_register env reg node c w =
     (case db_first_row env wb_nodes (\<lambda>n. n_id n = node) w of
        (Inl e, w1) \<Rightarrow> (respond_error 404 ''NOT_FOUND'' ''node not found'' c, w1)
      | (Inr n, w1) \<Rightarrow>
          (case generate_token env ''AGENT_'' w1 of
             (None, w2) \<Rightarrow> (respond_error 500 ''TOKEN_GEN'' ''failed to generate agent token'' c, w2)
           | (Some token, w2) \<Rightarrow>
               (case db_tx env (register_tx env reg node (hash_token env token)) w2 of
                  (Inl e, w3) \<Rightarrow> (respond_error 500 ''DB_UPDATE'' ''failed to register agent'' c, w3)
                | (Inr _, w3) \<Rightarrow>
                    (respond_status 200 (AAgent token (n_id n) (n_org_id n) (n_name n)) c,
                     snd (db_write env (\<lambda>v. Inr (seen_node env node v)) w3)))))"

definition agent_register :: "web_env \<Rightarrow> string + register_body \<Rightarrow> web handler" where
  "agent_register env body c w =
     (case find_reg env body c w of
        (Inl c1, w1) \<Rightarrow> (c1, w1)
      | (Inr (reg, node), w1) \<Rightarrow> finish_register env reg node c w1)"

definition agent_auth :: "web_env \<Rightarrow> request \<Rightarrow> web handler" where
  "agent_auth env rq c w =
     (let auth = rq_header rq ''Authorization''
      in if \<not> prefix ''Bearer '' auth then (respond_unauthorized c, w)
         else let token = trim_space (trim_prefix auth ''Bearer '')
           in if token = [] then (respond_unauthorized c, w)
              else case db_least_row env wb_creds
                          (\<lambda>r. cr_token_hash r = hash_token env token \<and> cr_revoked_at r = None)
                          (\<lambda>a b. cr_node_id a \<le> cr_node_id b) w of
                (Inl ErrNotFound, w1) \<Rightarrow> (respond_unauthorized c, w1)
              | (Inl e, w1) \<Rightarrow> (abort (respond_error 500 ''DB_READ'' ''failed to read agent credentials'' c), w1)
              | (Inr r, w1) \<Rightarrow> (c\<lparr>cx_agent_node := Some (cr_node_id r)\<rparr>, w1))"

definition seen_cred :: "web_env \<Rightarrow> uuid \<Rightarrow> web \<Rightarrow> web" where
  "seen_cred env i w =
     w\<lparr>wb_creds := map (\<lambda>r. if cr_node_id r = i \<and> cr_revoked_at r = None
                            then r\<lparr>cr_last_seen := Some (we_now env)\<rparr> else r) (wb_creds w)\<rparr>"

definition agent_heartbeat :: "web_env \<Rightarrow> web handler" where
  "agent_heartbeat env c w =
     (case cx_agent_node c of
        None \<Rightarrow> (respond_error 401 ''UNAUTHORIZED'' ''unauthorized'' c, w)
      | Some i \<Rightarrow>
          (case db_write env (\<lambda>v. Inr (seen_cred env i v)) w of
             (Some e, w1) \<Rightarrow> (respond_error 500 ''DB_UPDATE'' ''failed to update heartbeat'' c, w1)
           | (None, w1) \<Rightarrow>
               (respond_status 200 AOk c, snd (db_write env (\<lambda>v. Inr (seen_node env i v)) w1))))"

end
