(* ===== verification/Web_Orgs.thy ===== *)
theory Web_Orgs
  imports Web_Scope
begin

text \<open>
  Organisations and their users (\<open>internal/http/orgs.go\<close>) and the accounts of the panel
  (\<open>internal/http/users.go\<close>). The creation of a node with its many columns is left out.
\<close>

record user_body =
  ub_username :: string
  ub_password :: string
  ub_role :: string

record user_patch =
  up_password :: "string option"
  up_role :: "string option"

text \<open>The organisation the middleware stored in the context.\<close>

definition with_org :: "web_env \<Rightarrow> (uuid \<Rightarrow> web handler) \<Rightarrow> web handler" where
  "with_org env k c w =
     (if cx_org_id c = [] then (respond_error 400 ''INVALID_ORG'' ''invalid org'' c, w)
      else case we_parse env (cx_org_id c) of
             None \<Rightarrow> (respond_error 400 ''INVALID_ORG'' ''invalid org'' c, w)
           | Some org \<Rightarrow> k org c w)"

definition with_param_id :: "web_env \<Rightarrow> request \<Rightarrow> string \<Rightarrow> string \<Rightarrow> string \<Rightarrow> (uuid \<Rightarrow> web handler) \<Rightarrow> web handler" where
  "with_param_id env rq name code msg k c w =
     (case we_parse env (rq_param rq name) of
        None \<Rightarrow> (respond_error 400 code msg c, w)
      | Some i \<Rightarrow> k i c w)"

definition map_org_role_to_user_role :: "string \<Rightarrow> string" where
  "map_org_role_to_user_role role =
     (if role = ''owner'' \<or> role = ''admin'' then ''admin''
      else if role = ''operator'' then ''operator'' else ''viewer'')"

definition find_user_by_actor :: "web_env \<Rightarrow> string \<Rightarrow> web \<Rightarrow> user result \<times> web" where
  "find_user_by_actor env actor w =
     (if trim_space actor = [] then (Inl ErrNotFound, w)
      else db_first_row env wb_users (same_username env actor) w)"

section \<open>Organisations\<close>

text \<open>Newest first: the order of the listings.\<close>

definition newest :: "('r \<Rightarrow> instant) \<Rightarrow> 'r list \<Rightarrow> 'r list" where
  "newest t rs = sort_key (\<lambda>r. - t r) rs"

definition user_error :: "goerr \<Rightarrow> ctx \<Rightarrow> ctx" where
  "user_error e c =
     (if e = ErrNotFound then respond_error 403 ''FORBIDDEN'' ''forbidden'' c
      else respond_error 500 ''DB_READ'' ''failed to read user'' c)"

definition org_rows :: "web \<Rightarrow> uuid \<Rightarrow> (uuid \<times> string \<times> string \<times> instant) list" where
  "org_rows w usr =
     concat (map (\<lambda>g. map (\<lambda>m. (og_id g, og_name g, om_role m, og_created_at g))
                   (filter (\<lambda>m. om_org_id m = og_id g \<and> om_user_id m = usr) (wb_members w)))
                 (newest og_created_at (wb_orgs w)))"

definition list_orgs :: "web_env \<Rightarrow> web handler" where
  "list_orgs env c w =
     (case find_user_by_actor env (get_actor c) w of
        (Inl e, w1) \<Rightarrow> (user_error e c, w1)
      | (Inr u, w1) \<Rightarrow>
          (case db_query env (\<lambda>v. org_rows v (u_id u)) w1 of
             (Inl e, w2) \<Rightarrow> (respond_error 500 ''DB_LIST'' ''failed to list orgs'' c, w2)
           | (Inr rows, w2) \<Rightarrow> (respond_status 200 (AOrgs rows) c, w2)))"

definition create_org_rows :: "web_env \<Rightarrow> string \<Rightarrow> user \<Rightarrow> web \<Rightarrow> uuid result \<times> web" where
  "create_org_rows env name u w =
     (case new_uuid env w of
        (i, w1) \<Rightarrow>
          (case db_write env (insert_org \<lparr>og_id = i, og_name = name, og_owner = u_id u, og_created_at = we_now env\<rparr>) w1 of
             (Some e, w2) \<Rightarrow> (Inl e, w2)
           | (None, w2) \<Rightarrow>
               (case db_write env (insert_member \<lparr>om_org_id = i, om_user_id = u_id u, om_role = ''owner'',
                        om_created_at = we_now env\<rparr>) w2 of
                  (Some e, w3) \<Rightarrow> (Inl e, w3)
                | (None, w3) \<Rightarrow> (Inr i, w3))))"

definition create_org :: "web_env \<Rightarrow> string + string \<Rightarrow> web handler" where
  "create_org env body c w =
     (if \<not> actor_is_global_admin env c then (respond_error 403 ''FORBIDDEN'' ''forbidden'' c, w)
      else case parse_json_body body c of
        Inl c1 \<Rightarrow> (c1, w)
      | Inr raw \<Rightarrow>
          let name = trim_space raw
          in if name = [] then (respond_error 400 ''ORG_NAME'' ''name required'' c, w)
             else case find_user_by_actor env (get_actor c) w of
               (Inl e, w1) \<Rightarrow> (user_error e c, w1)
             | (Inr u, w1) \<Rightarrow>
                 (case db_tx env (create_org_rows env name u) w1 of
                    (Inl e, w2) \<Rightarrow> (respond_error 500 ''DB_CREATE'' ''failed to create org'' c, w2)
                  | (Inr i, w2) \<Rightarrow> (respond_status 201 (AOrg i name ''owner'' (we_now env)) c, w2)))"

definition list_org_nodes :: "web_env \<Rightarrow> web handler" where
  "list_org_nodes env = with_org env (\<lambda>org c w.
     (case db_query env (\<lambda>v. filter (\<lambda>n. n_org_id n = Some org) (wb_nodes v)) w of
        (Inl e, w1) \<Rightarrow> (respond_error 500 ''DB_LIST'' ''failed to list nodes'' c, w1)
      | (Inr ns, w1) \<Rightarrow> (respond_status 200 (ANodes ns) c, w1)))"

definition ensure_node_in_org :: "web_env \<Rightarrow> uuid \<Rightarrow> uuid \<Rightarrow> web \<Rightarrow> node result \<times> web" where
  "ensure_node_in_org env org i w = db_first_row env wb_nodes (\<lambda>n. n_id n = i \<and> n_org_id n = Some org) w"

definition get_org_node :: "web_env \<Rightarrow> request \<Rightarrow> web handler" where
  "get_org_node env rq = with_org env (\<lambda>org. with_param_id env rq ''nodeId'' ''INVALID_NODE'' ''invalid node id'' (\<lambda>i c w.
     (case ensure_node_in_org env org i w of
        (Inl e, w1) \<Rightarrow> (respond_error 404 ''NOT_FOUND'' ''node not found'' c, w1)
      | (Inr n, w1) \<Rightarrow> (respond_status 200 (ANode n) c, w1))))"

text \<open>Deleting a node also deletes its credential and registration tokens (\<open>ON DELETE CASCADE\<close>).\<close>

definition remove_nodes :: "(node \<Rightarrow> bool) \<Rightarrow> web \<Rightarrow> web" where
  "remove_nodes p w =
     (let dead = map n_id (filter p (wb_nodes w))
      in w\<lparr>wb_nodes := filter (\<lambda>n. \<not> p n) (wb_nodes w),
           wb_creds := filter (\<lambda>r. cr_node_id r \<notin> set dead) (wb_creds w),
           wb_regs := filter (\<lambda>r. rg_node_id r \<notin> set dead) (wb_regs w)\<rparr>)"

definition delete_org_node :: "web_env \<Rightarrow> request \<Rightarrow> web handler" where
  "delete_org_node env rq = with_org env (\<lambda>org. with_param_id env rq ''nodeId'' ''INVALID_NODE'' ''invalid node id'' (\<lambda>i c w.
     (case db_write env (\<lambda>v. Inr (remove_nodes (\<lambda>n. n_id n = i \<and> n_org_id n = Some org) v)) w of
        (Some e, w1) \<Rightarrow> (respond_error 500 ''DB_DELETE'' ''failed to delete node'' c, w1)
      | (None, w1) \<Rightarrow> (respond_status 200 AOk c, w1))))"

definition revoke_cred :: "web_env \<Rightarrow> uuid \<Rightarrow> web \<Rightarrow> web" where
  "revoke_cred env i w =
     w\<lparr>wb_creds := map (\<lambda>r. if cr_node_id r = i \<and> cr_revoked_at r = None
                            then r\<lparr>cr_revoked_at := Some (we_now env)\<rparr> else r) (wb_creds w)\<rparr>"

definition revoke_agent :: "web_env \<Rightarrow> request \<Rightarrow> web handler" where
  "revoke_agent env rq = with_org env (\<lambda>org. with_param_id env rq ''nodeId'' ''INVALID_NODE'' ''invalid node id'' (\<lambda>i c w.
     (case ensure_node_in_org env org i w of
        (Inl e, w1) \<Rightarrow> (respond_error 404 ''NOT_FOUND'' ''node not found'' c, w1)
      | (Inr n, w1) \<Rightarrow>
          (case db_write env (\<lambda>v. Inr (revoke_cred env i v)) w1 of
             (Some e, w2) \<Rightarrow> (respond_error 500 ''DB_UPDATE'' ''failed to revoke agent'' c, w2)
           | (None, w2) \<Rightarrow> (respond_status 200 AOk c, w2)))))"

section \<open>Users of an organisation\<close>

definition org_user_rows :: "web_env \<Rightarrow> web \<Rightarrow> uuid \<Rightarrow> (string \<times> string \<times> string \<times> instant) list" where
  "org_user_rows env w org =
     concat (map (\<lambda>m. map (\<lambda>u. (we_text env (u_id u), u_username u, om_role m, om_created_at m))
                   (filter (\<lambda>u. u_id u = om_user_id m) (wb_users w)))
                 (newest om_created_at (filter (\<lambda>m. om_org_id m = org) (wb_members w))))"

definition list_org_users :: "web_env \<Rightarrow> web handler" where
  "list_org_users env = with_org env (\<lambda>org c w.
     (case db_query env (\<lambda>v. org_user_rows env v org) w of
        (Inl e, w1) \<Rightarrow> (respond_error 500 ''DB_LIST'' ''failed to list users'' c, w1)
      | (Inr rows, w1) \<Rightarrow> (respond_status 200 (AOrgUsers rows) c, w1)))"

definition org_user_role_ok :: "string \<Rightarrow> bool" where
  "org_user_role_ok role \<longleftrightarrow> role = ''owner'' \<or> role = ''admin'' \<or> role = ''viewer'' \<or> role = ''operator''"

text \<open>The user of that name with the new password and role, or a new user.\<close>

definition put_org_user :: "web_env \<Rightarrow> string \<Rightarrow> string \<Rightarrow> string \<Rightarrow> web \<Rightarrow> user result \<times> web" where
  "put_org_user env username password role w =
     (case db_first_row env wb_users (same_username env username) w of
        (Inl ErrNotFound, w1) \<Rightarrow>
          (case we_bcrypt env password of
             None \<Rightarrow> (Inl (ErrMsg ''bcrypt''), w1)
           | Some h \<Rightarrow>
               (case new_uuid env w1 of
                  (i, w2) \<Rightarrow>
                    let u = \<lparr>u_id = i, u_username = username, u_password_hash = h,
                             u_role = map_org_role_to_user_role role, u_totp_secret = None, u_totp_enabled = False, u_recovery_hash = None, u_recovery_exp = None,
                             u_created_at = we_now env, u_updated_at = we_now env\<rparr>
                    in case db_write env (insert_user env u) w2 of
                         (Some e, w3) \<Rightarrow> (Inl e, w3)
                       | (None, w3) \<Rightarrow> (Inr u, w3)))
      | (Inl e, w1) \<Rightarrow> (Inl e, w1)
      | (Inr u, w1) \<Rightarrow>
          if trim_space password \<noteq> []
          then (case we_bcrypt env password of
                  None \<Rightarrow> (Inl (ErrMsg ''bcrypt''), w1)
                | Some h \<Rightarrow>
                    let u1 = u\<lparr>u_password_hash := h, u_role := map_org_role_to_user_role role,
                               u_updated_at := we_now env\<rparr>
                    in case db_write env (save_user u1) w1 of
                         (Some e, w2) \<Rightarrow> (Inl e, w2)
                       | (None, w2) \<Rightarrow> (Inr u1, w2))
          else (Inr u, w1))"

definition put_org_member :: "web_env \<Rightarrow> uuid \<Rightarrow> uuid \<Rightarrow> string \<Rightarrow> web \<Rightarrow> goerr option \<times> web" where
  "put_org_member env org usr role w =
     (case find_member env org usr w of
        (Inl ErrNotFound, w1) \<Rightarrow>
          db_write env (insert_member \<lparr>om_org_id = org, om_user_id = usr, om_role = role,
            om_created_at = we_now env\<rparr>) w1
      | (Inl e, w1) \<Rightarrow> (Some e, w1)
      | (Inr m, w1) \<Rightarrow> db_write env (update_member_role org usr role) w1)"

definition org_user_rows_tx :: "web_env \<Rightarrow> uuid \<Rightarrow> string \<Rightarrow> string \<Rightarrow> string \<Rightarrow> web \<Rightarrow> user result \<times> web" where
  "org_user_rows_tx env org username password role w =
     (case put_org_user env username password role w of
        (Inl e, w1) \<Rightarrow> (Inl e, w1)
      | (Inr u, w1) \<Rightarrow>
          (case put_org_member env org (u_id u) role w1 of
             (Some e, w2) \<Rightarrow> (Inl e, w2)
           | (None, w2) \<Rightarrow> (Inr u, w2)))"

definition create_org_user :: "web_env \<Rightarrow> string + user_body \<Rightarrow> web handler" where
  "create_org_user env body = with_org env (\<lambda>org c w.
     (case parse_json_body body c of
        Inl c1 \<Rightarrow> (c1, w)
      | Inr b \<Rightarrow>
          let username = trim_space (ub_username b);
              r = to_lower (trim_space (ub_role b));
              role = (if r = [] then ''viewer'' else r)
          in if username = [] then (respond_error 400 ''USER_NAME'' ''username required'' c, w)
             else if \<not> org_user_role_ok role then (respond_error 400 ''USER_ROLE'' ''invalid role'' c, w)
             else if role = ''owner'' \<and> cx_org_role c \<noteq> ''owner''
             then (respond_error 403 ''FORBIDDEN'' ''owner role required'' c, w)
             else if trim_space (ub_password b) = []
             then (respond_error 400 ''USER_PASSWORD'' ''password required'' c, w)
             else case db_tx env (org_user_rows_tx env org username (ub_password b) role) w of
                    (Inl e, w1) \<Rightarrow> (respond_error 500 ''DB_CREATE'' ''failed to create user'' c, w1)
                  | (Inr u, w1) \<Rightarrow>
                      (respond_status 201 (AOrgUser (we_text env (u_id u)) (u_username u) role (we_now env)) c, w1)))"

definition org_user_patch_tx :: "web_env \<Rightarrow> uuid \<Rightarrow> uuid \<Rightarrow> string \<Rightarrow> string option \<Rightarrow> web \<Rightarrow> unit result \<times> web" where
  "org_user_patch_tx env org usr role password w =
     (case find_member env org usr w of
        (Inl e, w1) \<Rightarrow> (Inl e, w1)
      | (Inr m, w1) \<Rightarrow>
          (case (if role = [] then (None, w1)
                 else case db_write env (update_member_role org usr role) w1 of
                        (Some e, w2) \<Rightarrow> (Some e, w2)
                      | (None, w2) \<Rightarrow> db_write env (update_user_row usr
                          (\<lambda>u. u\<lparr>u_role := map_org_role_to_user_role role, u_updated_at := we_now env\<rparr>)) w2) of
             (Some e, w3) \<Rightarrow> (Inl e, w3)
           | (None, w3) \<Rightarrow>
               (case password of
                  None \<Rightarrow> (Inr (), w3)
                | Some p \<Rightarrow>
                    if trim_space p = [] then (Inr (), w3)
                    else case we_bcrypt env p of
                           None \<Rightarrow> (Inl (ErrMsg ''bcrypt''), w3)
                         | Some h \<Rightarrow>
                             (case db_write env (update_user_row usr
                                      (\<lambda>u. u\<lparr>u_password_hash := h, u_updated_at := we_now env\<rparr>)) w3 of
                                (Some e, w4) \<Rightarrow> (Inl e, w4)
                              | (None, w4) \<Rightarrow> (Inr (), w4)))))"

definition update_org_user :: "web_env \<Rightarrow> request \<Rightarrow> string + user_patch \<Rightarrow> web handler" where
  "update_org_user env rq body = with_org env (\<lambda>org. with_param_id env rq ''userId'' ''USER_ID'' ''invalid user id'' (\<lambda>usr c w.
     (case parse_json_body body c of
        Inl c1 \<Rightarrow> (c1, w)
      | Inr b \<Rightarrow>
          let role = (case up_role b of None \<Rightarrow> [] | Some r \<Rightarrow> to_lower (trim_space r))
          in if up_role b \<noteq> None \<and> \<not> org_user_role_ok role
             then (respond_error 400 ''USER_ROLE'' ''invalid role'' c, w)
             else if role = ''owner'' \<and> cx_org_role c \<noteq> ''owner''
             then (respond_error 403 ''FORBIDDEN'' ''owner role required'' c, w)
             else case db_tx env (org_user_patch_tx env org usr role (up_password b)) w of
                    (Inl e, w1) \<Rightarrow> (respond_error 500 ''DB_UPDATE'' ''failed to update user'' c, w1)
                  | (Inr _, w1) \<Rightarrow> (respond_status 200 AOk c, w1))))"

definition delete_org_user :: "web_env \<Rightarrow> request \<Rightarrow> web handler" where
  "delete_org_user env rq = with_org env (\<lambda>org. with_param_id env rq ''userId'' ''USER_ID'' ''invalid user id'' (\<lambda>usr c w.
     (case db_write env (\<lambda>v. Inr (v\<lparr>wb_members :=
                filter (\<lambda>m. \<not> (om_org_id m = org \<and> om_user_id m = usr)) (wb_members v)\<rparr>)) w of
        (Some e, w1) \<Rightarrow> (respond_error 500 ''DB_DELETE'' ''failed to remove user'' c, w1)
      | (None, w1) \<Rightarrow> (respond_status 200 AOk c, w1))))"

section \<open>Accounts\<close>

definition normalize_role :: "string \<Rightarrow> string" where
  "normalize_role role =
     (let r = to_lower (trim_space role)
      in if r = role_admin then role_admin else if r = role_operator then role_operator
         else if r = role_viewer then role_viewer else [])"

definition global_admin_only :: "web_env \<Rightarrow> web handler \<Rightarrow> web handler" where
  "global_admin_only env h c w =
     (if \<not> actor_is_global_admin env c then (respond_error 403 ''FORBIDDEN'' ''forbidden'' c, w) else h c w)"

definition list_users :: "web_env \<Rightarrow> web handler" where
  "list_users env = global_admin_only env (\<lambda>c w.
     (case db_query env (\<lambda>v. newest u_created_at (wb_users v)) w of
        (Inl e, w1) \<Rightarrow> (respond_error 500 ''DB_LIST'' ''failed to list users'' c, w1)
      | (Inr us, w1) \<Rightarrow> (respond_status 200 (AUsers us) c, w1)))"

definition create_user :: "web_env \<Rightarrow> string + user_body \<Rightarrow> web handler" where
  "create_user env body = global_admin_only env (\<lambda>c w.
     (case parse_json_body body c of
        Inl c1 \<Rightarrow> (c1, w)
      | Inr b \<Rightarrow>
          let username = trim_space (ub_username b); role = normalize_role (ub_role b)
          in if username = [] then (respond_error 400 ''USER_NAME'' ''username required'' c, w)
             else if ub_password b = [] then (respond_error 400 ''USER_PASSWORD'' ''password required'' c, w)
             else if role = [] then (respond_error 400 ''USER_ROLE'' ''invalid role'' c, w)
             else case we_bcrypt env (ub_password b) of
               None \<Rightarrow> (respond_error 500 ''USER_PASSWORD'' ''failed to hash password'' c, w)
             | Some h \<Rightarrow>
                 (case new_uuid env w of
                    (i, w1) \<Rightarrow>
                      let u = \<lparr>u_id = i, u_username = username, u_password_hash = h, u_role = role,
                               u_totp_secret = None, u_totp_enabled = False, u_recovery_hash = None, u_recovery_exp = None,
     u_created_at = we_now env, u_updated_at = we_now env\<rparr>
                      in case db_write env (insert_user env u) w1 of
                           (Some e, w2) \<Rightarrow> (respond_error 400 ''USER_CREATE'' ''failed to create user'' c, w2)
                         | (None, w2) \<Rightarrow>
                             (respond_status 201 (AUser u) c,
                              audit_event env c ''USER_CREATE'' ''ok''
                                [(''username'', username), (''role'', role)] w2))))"

definition find_user_row :: "web_env \<Rightarrow> uuid \<Rightarrow> (user \<Rightarrow> web handler) \<Rightarrow> web handler" where
  "find_user_row env i k c w =
     (case db_first_row env wb_users (\<lambda>u. u_id u = i) w of
        (Inl ErrNotFound, w1) \<Rightarrow> (respond_error 404 ''NOT_FOUND'' ''user not found'' c, w1)
      | (Inl e, w1) \<Rightarrow> (respond_error 500 ''DB_READ'' ''failed to read user'' c, w1)
      | (Inr u, w1) \<Rightarrow> k u c w1)"

definition update_user :: "web_env \<Rightarrow> request \<Rightarrow> string + user_patch \<Rightarrow> web handler" where
  "update_user env rq body = global_admin_only env (with_param_id env rq ''id'' ''USER_ID'' ''invalid user id''
     (\<lambda>i. find_user_row env i (\<lambda>u c w.
       (case parse_json_body body c of
          Inl c1 \<Rightarrow> (c1, w)
        | Inr b \<Rightarrow>
            let role = (case up_role b of None \<Rightarrow> u_role u | Some r \<Rightarrow> normalize_role r)
            in if up_role b \<noteq> None \<and> role = [] then (respond_error 400 ''USER_ROLE'' ''invalid role'' c, w)
               else case (case up_password b of
                            None \<Rightarrow> Some (u_password_hash u)
                          | Some p \<Rightarrow> if trim_space p = [] then Some (u_password_hash u) else we_bcrypt env p) of
                 None \<Rightarrow> (respond_error 500 ''USER_PASSWORD'' ''failed to hash password'' c, w)
               | Some h \<Rightarrow>
                   let u1 = u\<lparr>u_role := role, u_password_hash := h, u_updated_at := we_now env\<rparr>
                   in case db_write env (save_user u1) w of
                        (Some e, w1) \<Rightarrow> (respond_error 500 ''USER_UPDATE'' ''failed to update user'' c, w1)
                      | (None, w1) \<Rightarrow>
                          (respond_status 200 (AUser u1) c,
                           audit_event env c ''USER_UPDATE'' ''ok''
                             [(''username'', u_username u1), (''role'', u_role u1)] w1)))))"

definition delete_user :: "web_env \<Rightarrow> request \<Rightarrow> web handler" where
  "delete_user env rq = global_admin_only env (with_param_id env rq ''id'' ''USER_ID'' ''invalid user id''
     (\<lambda>i. find_user_row env i (\<lambda>u c w.
       (case db_write env (\<lambda>v. Inr (v\<lparr>wb_users := filter (\<lambda>r. u_id r \<noteq> i) (wb_users v)\<rparr>)) w of
          (Some e, w1) \<Rightarrow> (respond_error 500 ''USER_DELETE'' ''failed to delete user'' c, w1)
        | (None, w1) \<Rightarrow>
            (respond_status 200 AOk c,
             audit_event env c ''USER_DELETE'' ''ok'' [(''username'', u_username u)] w1)))))"

end
