(* ===== verification/Web_Invites.thy ===== *)
theory Web_Invites
  imports Web_Tokens Web_Orgs
begin

text \<open>
  Invites: the limiter of sign-ups, \<open>Signup\<close>, and the creation, listing and revocation of invites
  by the administrator and by organisations (\<open>internal/http/invites.go\<close>).
\<close>

section \<open>The limiter\<close>

record rate_entry =
  re_count :: int
  re_reset_at :: instant

record rate_limiter =
  rl_window :: duration
  rl_limit :: int
  rl_entries :: "string \<rightharpoonup> rate_entry"

definition new_signup_limiter :: "int \<Rightarrow> duration \<Rightarrow> rate_limiter" where
  "new_signup_limiter limit window = \<lparr>rl_window = window, rl_limit = limit, rl_entries = Map.empty\<rparr>"

definition allow :: "instant \<Rightarrow> string \<Rightarrow> rate_limiter \<Rightarrow> bool \<times> rate_limiter" where
  "allow now key l =
     (let fresh = l\<lparr>rl_entries := (rl_entries l)(key \<mapsto> \<lparr>re_count = 1, re_reset_at = now + rl_window l\<rparr>)\<rparr>
      in case rl_entries l key of
           None \<Rightarrow> (True, fresh)
         | Some e \<Rightarrow>
             if re_reset_at e < now then (True, fresh)
             else if rl_limit l \<le> re_count e then (False, l)
             else (True, l\<lparr>rl_entries := (rl_entries l)(key \<mapsto> e\<lparr>re_count := re_count e + 1\<rparr>)\<rparr>))"

definition limiter_reset :: "rate_limiter \<Rightarrow> rate_limiter" where
  "limiter_reset l = l\<lparr>rl_entries := Map.empty\<rparr>"

definition signup_limiter :: rate_limiter where
  "signup_limiter = new_signup_limiter 5 (10 * minute)"

section \<open>Signing up\<close>

record signup_body =
  sb_invite_code :: string
  sb_username :: string
  sb_password :: string

definition is_org_role :: "string \<Rightarrow> bool" where
  "is_org_role role \<longleftrightarrow> to_lower (trim_space role) \<in> {''owner'', ''admin'', ''viewer''}"

fun is_unique_violation :: "goerr \<Rightarrow> bool" where
  "is_unique_violation ErrUnique = True"
| "is_unique_violation (ErrMsg m) = (contains (to_lower m) ''duplicate key'' \<or> contains (to_lower m) ''unique'')"
| "is_unique_violation _ = False"

definition invite_org_role :: "invite \<Rightarrow> string" where
  "invite_org_role iv =
     (let r = trim_space (iv_role iv); r = (if r = [] then ''owner'' else r)
      in if is_org_role r then r else ''owner'')"

definition invite_mode :: "invite \<Rightarrow> string" where
  "invite_mode iv = (let m = trim_space (iv_mode iv) in if m = [] then ''create_private_stack'' else m)"

definition invite_org_title :: "invite \<Rightarrow> string" where
  "invite_org_title iv =
     (case iv_org_name iv of
        None \<Rightarrow> ''Personal''
      | Some n \<Rightarrow> if trim_space n = [] then ''Personal'' else trim_space n)"

definition invite_user_role :: "invite \<Rightarrow> string" where
  "invite_user_role iv =
     (if invite_mode iv = ''create_private_stack'' \<or> invite_org_role iv = ''owner'' \<or> invite_org_role iv = ''admin''
      then role_admin else role_viewer)"

definition use_invite :: "web_env \<Rightarrow> uuid \<Rightarrow> uuid \<Rightarrow> web \<Rightarrow> web" where
  "use_invite env i usr w =
     w\<lparr>wb_invites := map (\<lambda>v. if iv_id v = i \<and> iv_used_at v = None
                              then v\<lparr>iv_used_at := Some (we_now env), iv_used_by := Some usr\<rparr> else v) (wb_invites w)\<rparr>"

text \<open>The membership of the new user: an organisation of its own, or the invite's.\<close>

definition join_org :: "web_env \<Rightarrow> invite \<Rightarrow> uuid \<Rightarrow> web \<Rightarrow> goerr option \<times> web" where
  "join_org env iv usr w =
     (if invite_mode iv = ''create_private_stack''
      then (case new_uuid env w of
              (g, w1) \<Rightarrow>
                (case db_write env (insert_org \<lparr>og_id = g, og_name = invite_org_title iv, og_owner = usr,
                         og_created_at = we_now env\<rparr>) w1 of
                   (Some e, w2) \<Rightarrow> (Some e, w2)
                 | (None, w2) \<Rightarrow> db_write env (insert_member \<lparr>om_org_id = g, om_user_id = usr,
                     om_role = ''owner'', om_created_at = we_now env\<rparr>) w2))
      else if invite_mode iv = ''join_root_stack'' \<or> invite_mode iv = ''join_existing_stack''
      then (case iv_target_org iv of
              None \<Rightarrow> (Some (ErrMsg ''invite target org missing''), w)
            | Some g \<Rightarrow> db_write env (insert_member \<lparr>om_org_id = g, om_user_id = usr,
                om_role = invite_org_role iv, om_created_at = we_now env\<rparr>) w)
      else (Some (ErrMsg ''invalid invite mode''), w))"

definition signup_tx :: "web_env \<Rightarrow> invite \<Rightarrow> user \<Rightarrow> web \<Rightarrow> unit result \<times> web" where
  "signup_tx env iv u w =
     (case db_write env (insert_user env u) w of
        (Some e, w1) \<Rightarrow> (Inl e, w1)
      | (None, w1) \<Rightarrow>
          (case join_org env iv (u_id u) w1 of
             (Some e, w2) \<Rightarrow> (Inl e, w2)
           | (None, w2) \<Rightarrow>
               (case db_write env (\<lambda>v. Inr (use_invite env (iv_id iv) (u_id u) v)) w2 of
                  (Some e, w3) \<Rightarrow> (Inl e, w3)
                | (None, w3) \<Rightarrow> (Inr (), w3))))"

text \<open>
  A sign-up is two steps: \<open>signup_check\<close> reads the invite and the users, \<open>signup_commit\<close> creates
  the rows. Other requests may run in between.
\<close>

definition signup_check ::
    "web_env \<Rightarrow> request \<Rightarrow> string + signup_body \<Rightarrow> ctx \<Rightarrow> rate_limiter \<Rightarrow> web \<Rightarrow>
     (ctx + (invite \<times> string \<times> string)) \<times> rate_limiter \<times> web" where
  "signup_check env rq body c l w =
     (case parse_json_body body c of
        Inl c1 \<Rightarrow> (Inl c1, l, w)
      | Inr b \<Rightarrow>
          let username = trim_space (sb_username b); password = sb_password b; code = trim_space (sb_invite_code b)
          in if length username < 3 \<or> length password < 8 \<or> code = []
             then (Inl (respond_error 400 ''INVALID_PAYLOAD'' ''invalid payload'' c), l, w)
             else case allow (we_now env) (to_lower (rq_client_ip rq @ ''|'' @ username)) l of
               (False, l1) \<Rightarrow> (Inl (respond_error 429 ''RATE_LIMIT'' ''too many requests'' c), l1, w)
             | (True, l1) \<Rightarrow>
                 (case db_first_row env wb_invites (\<lambda>v. iv_code v = code) w of
                    (Inl ErrNotFound, w1) \<Rightarrow> (Inl (respond_error 403 ''INVITE_INVALID'' ''invite invalid'' c), l1, w1)
                  | (Inl e, w1) \<Rightarrow> (Inl (respond_error 500 ''DB_READ'' ''failed to read invite'' c), l1, w1)
                  | (Inr iv, w1) \<Rightarrow>
                      if iv_used_at iv \<noteq> None
                      then (Inl (respond_error 403 ''INVITE_USED'' ''invite already used'' c), l1, w1)
                      else if iv_expires_at iv < we_now env
                      then (Inl (respond_error 403 ''INVITE_EXPIRED'' ''invite expired'' c), l1, w1)
                      else case db_first_row env wb_users (same_username env username) w1 of
                        (Inr u, w2) \<Rightarrow> (Inl (respond_error 409 ''USER_EXISTS'' ''username already exists'' c), l1, w2)
                      | (Inl ErrNotFound, w2) \<Rightarrow> (Inr (iv, username, password), l1, w2)
                      | (Inl e, w2) \<Rightarrow> (Inl (respond_error 500 ''DB_READ'' ''failed to read user'' c), l1, w2)))"

definition login_new_user :: "web_env \<Rightarrow> request \<Rightarrow> user \<Rightarrow> web handler" where
  "login_new_user env rq u c w =
     (case issue_access_token env (u_username u) (u_role u) of
        None \<Rightarrow> (respond_error 500 ''TOKEN_SIGN'' ''failed to sign token'' c, w)
      | Some token \<Rightarrow>
          (case issue_refresh_token env rq (u_username u) w of
             (Inl e, w1) \<Rightarrow> (respond_error 500 ''REFRESH_TOKEN'' ''failed to issue refresh token'' c, w1)
           | (Inr raw, w1) \<Rightarrow>
               (respond_status 201 (ALogin token (u_username u) (u_role u))
                  (set_refresh_cookie rq raw (wb_refresh_ttl w1) c), w1)))"

definition signup_commit :: "web_env \<Rightarrow> request \<Rightarrow> invite \<Rightarrow> string \<Rightarrow> string \<Rightarrow> web handler" where
  "signup_commit env rq iv username password c w =
     (case we_bcrypt env password of
        None \<Rightarrow> (respond_error 500 ''USER_PASSWORD'' ''failed to hash password'' c, w)
      | Some h \<Rightarrow>
          (case new_uuid env w of
             (i, w1) \<Rightarrow>
               let u = \<lparr>u_id = i, u_username = username, u_password_hash = h, u_role = invite_user_role iv,
                        u_totp_secret = None, u_totp_enabled = False, u_recovery_hash = None, u_recovery_exp = None,
     u_created_at = we_now env, u_updated_at = we_now env\<rparr>
               in case db_tx env (signup_tx env iv u) w1 of
                    (Inl e, w2) \<Rightarrow>
                      (if is_unique_violation e then respond_error 409 ''USER_EXISTS'' ''username already exists'' c
                       else respond_error 500 ''DB_CREATE'' ''failed to create user'' c, w2)
                  | (Inr _, w2) \<Rightarrow> login_new_user env rq u c w2))"

definition signup ::
    "web_env \<Rightarrow> request \<Rightarrow> string + signup_body \<Rightarrow> ctx \<Rightarrow> rate_limiter \<Rightarrow> web \<Rightarrow> ctx \<times> rate_limiter \<times> web" where
  "signup env rq body c l w =
     (case signup_check env rq body c l w of
        (Inl c1, l1, w1) \<Rightarrow> (c1, l1, w1)
      | (Inr (iv, username, password), l1, w1) \<Rightarrow>
          (case signup_commit env rq iv username password c w1 of (c1, w2) \<Rightarrow> (c1, l1, w2)))"

section \<open>Creating invites\<close>

record invite_body =
  vb_expires_in_hours :: int
  vb_org_name :: "string option"
  vb_mode :: string
  vb_role :: string

definition generate_invite_code :: "web_env \<Rightarrow> web \<Rightarrow> string option \<times> web" where
  "generate_invite_code env w =
     (case draw env w of (None, w1) \<Rightarrow> (None, w1) | (Some r, w1) \<Rightarrow> (Some (''INV_'' @ r), w1))"

definition expires_hours :: "int \<Rightarrow> int" where
  "expires_hours n = (if n \<le> 0 then 168 else n)"

text \<open>Up to five attempts, each with a new code; \<open>mk\<close> is the row for a code and an identifier.\<close>

fun insert_invite_loop ::
    "web_env \<Rightarrow> (string \<Rightarrow> uuid \<Rightarrow> invite) \<Rightarrow> nat \<Rightarrow> web handler" where
  "insert_invite_loop env mk 0 c w = (respond_error 500 ''INVITE_CODE'' ''failed to generate invite'' c, w)"
| "insert_invite_loop env mk (Suc n) c w =
     (case generate_invite_code env w of
        (None, w1) \<Rightarrow> (respond_error 500 ''INVITE_CODE'' ''failed to generate invite'' c, w1)
      | (Some code, w1) \<Rightarrow>
          (case new_uuid env w1 of
             (i, w2) \<Rightarrow>
               (case db_write env (insert_invite (mk code i)) w2 of
                  (Some e, w3) \<Rightarrow>
                    (if is_unique_violation e then insert_invite_loop env mk n c w3
                     else (respond_error 500 ''DB_CREATE'' ''failed to create invite'' c, w3))
                | (None, w3) \<Rightarrow> (respond_status 201 (AInvite (mk code i)) c, w3))))"

definition new_invite ::
    "web_env \<Rightarrow> uuid \<Rightarrow> uuid option \<Rightarrow> string \<Rightarrow> string \<Rightarrow> string option \<Rightarrow> int \<Rightarrow> string \<Rightarrow> uuid \<Rightarrow> invite" where
  "new_invite env creator target mode role org_name hours code i =
     \<lparr>iv_id = i, iv_code = code, iv_created_by = creator, iv_target_org = target, iv_mode = mode,
      iv_role = role, iv_org_name = org_name, iv_expires_at = we_now env + dur_mul hours hour,
      iv_used_at = None, iv_used_by = None, iv_created_at = we_now env\<rparr>"

definition admin_create_invite :: "web_env \<Rightarrow> string + invite_body \<Rightarrow> web handler" where
  "admin_create_invite env body = global_admin_only env (\<lambda>c w.
     (case parse_json_body body c of
        Inl c1 \<Rightarrow> (c1, w)
      | Inr b \<Rightarrow>
          let hours = expires_hours (vb_expires_in_hours b);
              r = trim_space (vb_role b);
              role = (if r = [] then ''owner'' else if is_org_role r then r else ''owner'');
              m = trim_space (vb_mode b);
              mode = (if m = [] then ''create_private_stack'' else m)
          in if mode \<noteq> ''create_private_stack'' \<and> mode \<noteq> ''join_root_stack''
             then (respond_error 400 ''INVITE_MODE'' ''invalid invite mode'' c, w)
             else case find_user_by_actor env (get_actor c) w of
               (Inl e, w1) \<Rightarrow> (respond_error 403 ''FORBIDDEN'' ''forbidden'' c, w1)
             | (Inr u, w1) \<Rightarrow>
                 (case (if mode = ''join_root_stack''
                        then (case ensure_root_org env w1 of
                                (Inl e, w2) \<Rightarrow> (Inl e, w2) | (Inr g, w2) \<Rightarrow> (Inr (Some g), w2))
                        else (Inr None, w1)) of
                    (Inl e, w2) \<Rightarrow> (respond_error 500 ''ROOT_ORG'' ''failed to ensure root org'' c, w2)
                  | (Inr target, w2) \<Rightarrow>
                      insert_invite_loop env (new_invite env (u_id u) target mode role (vb_org_name b) hours) 5 c w2)))"

definition org_create_invite :: "web_env \<Rightarrow> string + invite_body \<Rightarrow> web handler" where
  "org_create_invite env body = with_org env (\<lambda>org c w.
     (case parse_json_body body c of
        Inl c1 \<Rightarrow> (c1, w)
      | Inr b \<Rightarrow>
          let hours = expires_hours (vb_expires_in_hours b);
              r = trim_space (vb_role b);
              role = (if r = [] then ''viewer'' else r)
          in if role \<noteq> ''admin'' \<and> role \<noteq> ''viewer'' \<and> role \<noteq> ''owner''
             then (respond_error 400 ''INVALID_ROLE'' ''invalid role'' c, w)
             else case find_user_by_actor env (get_actor c) w of
               (Inl e, w1) \<Rightarrow> (respond_error 403 ''FORBIDDEN'' ''forbidden'' c, w1)
             | (Inr u, w1) \<Rightarrow>
                 insert_invite_loop env
                   (new_invite env (u_id u) (Some org) ''join_existing_stack'' role None hours) 5 c w1))"

section \<open>Listing and revoking\<close>

definition active_invite :: "web_env \<Rightarrow> invite \<Rightarrow> bool" where
  "active_invite env v \<longleftrightarrow> iv_used_at v = None \<and> we_now env < iv_expires_at v"

definition invite_list :: "web_env \<Rightarrow> request \<Rightarrow> (invite \<Rightarrow> bool) \<Rightarrow> web handler" where
  "invite_list env rq p c w =
     (let active = (trim_space (rq_query rq ''active'') = ''1'')
      in case db_query env (\<lambda>v. newest iv_created_at
                (filter (\<lambda>i. p i \<and> (active \<longrightarrow> active_invite env i)) (wb_invites v))) w of
           (Inl e, w1) \<Rightarrow> (respond_error 500 ''DB_LIST'' ''failed to list invites'' c, w1)
         | (Inr is, w1) \<Rightarrow> (respond_status 200 (AInvites is) c, w1))"

definition admin_list_invites :: "web_env \<Rightarrow> request \<Rightarrow> web handler" where
  "admin_list_invites env rq = global_admin_only env (invite_list env rq (\<lambda>v. True))"

definition org_list_invites :: "web_env \<Rightarrow> request \<Rightarrow> web handler" where
  "org_list_invites env rq = with_org env (\<lambda>org. invite_list env rq (\<lambda>v. iv_target_org v = Some org))"

definition revoke_invites :: "web_env \<Rightarrow> (invite \<Rightarrow> bool) \<Rightarrow> web \<Rightarrow> web" where
  "revoke_invites env p w =
     w\<lparr>wb_invites := map (\<lambda>v. if p v \<and> iv_used_at v = None then v\<lparr>iv_used_at := Some (we_now env)\<rparr> else v)
        (wb_invites w)\<rparr>"

definition org_revoke_invite :: "web_env \<Rightarrow> request \<Rightarrow> web handler" where
  "org_revoke_invite env rq = with_org env (\<lambda>org.
     with_param_id env rq ''id'' ''INVALID_INVITE'' ''invalid invite id'' (\<lambda>i c w.
       let p = (\<lambda>v. iv_id v = i \<and> iv_target_org v = Some org)
       in case db_write env (\<lambda>v. Inr (revoke_invites env p v)) w of
            (Some e, w1) \<Rightarrow> (respond_error 500 ''DB_UPDATE'' ''failed to revoke invite'' c, w1)
          | (None, w1) \<Rightarrow>
              (if list_ex (\<lambda>v. p v \<and> iv_used_at v = None) (wb_invites w)
               then respond_status 200 AOk c
               else respond_error 404 ''NOT_FOUND'' ''invite not found'' c, w1)))"

definition admin_revoke_invite :: "web_env \<Rightarrow> request \<Rightarrow> web handler" where
  "admin_revoke_invite env rq = global_admin_only env (\<lambda>c w.
     (case we_parse env (trim_space (rq_param rq ''id'')) of
        None \<Rightarrow> (respond_error 400 ''INVALID_ID'' ''invalid invite id'' c, w)
      | Some i \<Rightarrow>
          (case db_write env (\<lambda>v. Inr (revoke_invites env (\<lambda>r. iv_id r = i) v)) w of
             (Some e, w1) \<Rightarrow> (respond_error 500 ''DB_UPDATE'' ''failed to revoke invite'' c, w1)
           | (None, w1) \<Rightarrow> (respond_status 200 AOk c, w1))))"

end
