(* ===== verification/Access_Guards.thy ===== *)
theory Access_Guards
  imports Web_Roles Ops_Create Web_Invites
begin

text \<open>
  The handlers of jobs first, then the contract of the guards of a route with its interpretations.

  The routes of jobs, \<open>internal/http/ops.go\<close>: creating a job of each type, reading a job with its
  summary and its items, and the public view that needs the token of the job only. The handlers work on
  the state of the job service; \<open>svc\<close> is \<open>None\<close> when it is not configured.
\<close>

record job_body =
  jb_type :: string
  jb_node_ids :: "string list"
  jb_all :: bool
  jb_parallelism :: int
  jb_params :: jobj

definition ops_disabled :: "ctx \<Rightarrow> ctx" where
  "ops_disabled c = respond_error 503 ''OPS_DISABLED'' ''ops service not configured'' c"

definition create_typed_job ::
    "ops_svc option \<Rightarrow> ops_env \<Rightarrow> (job_body \<Rightarrow> string) \<Rightarrow> string + job_body \<Rightarrow> ops_world handler" where
  "create_typed_job svc env typ body c w =
     (case svc of
        None \<Rightarrow> (ops_disabled c, w)
      | Some s \<Rightarrow>
          (case parse_json_body body c of
             Inl c1 \<Rightarrow> (c1, w)
           | Inr b \<Rightarrow>
               (case create_job s env \<lparr>cr_type = typ b, cr_node_ids = jb_node_ids b, cr_all_nodes = jb_all b,
                        cr_parallelism = jb_parallelism b, cr_params = jb_params b, cr_actor = get_actor c\<rparr> w of
                  (Inl e, w1) \<Rightarrow> (respond_error 400 ''JOB_CREATE'' (err_text e) c, w1)
                | (Inr (job, token), w1) \<Rightarrow> (respond_status 201 (ACreatedJob job token) c, w1))))"

definition create_ops_job :: "ops_svc option \<Rightarrow> ops_env \<Rightarrow> string + job_body \<Rightarrow> ops_world handler" where
  "create_ops_job svc env = create_typed_job svc env (\<lambda>b. trim_space (jb_type b))"

definition create_deploy_agent :: "ops_svc option \<Rightarrow> ops_env \<Rightarrow> string + job_body \<Rightarrow> ops_world handler" where
  "create_deploy_agent svc env = create_typed_job svc env (\<lambda>b. jt_deploy)"

definition create_install_vlf :: "ops_svc option \<Rightarrow> ops_env \<Rightarrow> string + job_body \<Rightarrow> ops_world handler" where
  "create_install_vlf svc env = create_typed_job svc env (\<lambda>b. jt_install_vlf)"

definition create_remna_install :: "ops_svc option \<Rightarrow> ops_env \<Rightarrow> string + job_body \<Rightarrow> ops_world handler" where
  "create_remna_install svc env = create_typed_job svc env (\<lambda>b. jt_remna_install)"

definition create_remna_run :: "ops_svc option \<Rightarrow> ops_env \<Rightarrow> string + job_body \<Rightarrow> ops_world handler" where
  "create_remna_run svc env = create_typed_job svc env (\<lambda>b. jt_remna_run)"

definition job_not_found :: "ctx \<Rightarrow> ctx" where
  "job_not_found c = respond_error 404 ''NOT_FOUND'' ''job not found'' c"

definition get_ops_job :: "ops_svc option \<Rightarrow> ops_env \<Rightarrow> request \<Rightarrow> ops_world handler" where
  "get_ops_job svc env rq c w =
     (case svc of
        None \<Rightarrow> (ops_disabled c, w)
      | Some s \<Rightarrow>
          (case get_job env (rq_param rq ''id'') w of
             (Inl e, w1) \<Rightarrow> (job_not_found c, w1)
           | (Inr job, w1) \<Rightarrow>
               (case get_job_summary s env (rq_param rq ''id'') w1 of
                  (Inl e, w2) \<Rightarrow> (respond_status 200 (AJob job None) c, w2)
                | (Inr sm, w2) \<Rightarrow> (respond_status 200 (AJob job (Some sm)) c, w2))))"

definition get_ops_job_items :: "ops_svc option \<Rightarrow> ops_env \<Rightarrow> request \<Rightarrow> ops_world handler" where
  "get_ops_job_items svc env rq c w =
     (case svc of
        None \<Rightarrow> (ops_disabled c, w)
      | Some s \<Rightarrow>
          (case get_job env (rq_param rq ''id'') w of
             (Inl e, w1) \<Rightarrow> (job_not_found c, w1)
           | (Inr job, w1) \<Rightarrow>
               (case list_job_items env (rq_param rq ''id'') w1 of
                  (Inl e, w2) \<Rightarrow> (job_not_found c, w2)
                | (Inr items, w2) \<Rightarrow> (respond_status 200 (AJobItems items) c, w2))))"

definition job_token :: "request \<Rightarrow> string" where
  "job_token rq =
     (let h = trim_space (rq_header rq ''X-Job-Token'')
      in if h = [] then trim_space (rq_query rq ''token'') else h)"

definition get_ops_job_public :: "ops_svc option \<Rightarrow> ops_env \<Rightarrow> request \<Rightarrow> ops_world handler" where
  "get_ops_job_public svc env rq c w =
     (case svc of
        None \<Rightarrow> (ops_disabled c, w)
      | Some s \<Rightarrow>
          let token = job_token rq
          in if token = [] then (respond_error 401 ''UNAUTHORIZED'' ''missing job token'' c, w)
             else case get_job env (rq_param rq ''id'') w of
               (Inl e, w1) \<Rightarrow> (job_not_found c, w1)
             | (Inr job, w1) \<Rightarrow>
                 (case oj_token_hash job of
                    None \<Rightarrow> (respond_error 401 ''UNAUTHORIZED'' ''job token not configured'' c, w1)
                  | Some h \<Rightarrow>
                      if h = [] then (respond_error 401 ''UNAUTHORIZED'' ''job token not configured'' c, w1)
                      else if oe_sha256_hex env token \<noteq> h
                      then (respond_error 401 ''UNAUTHORIZED'' ''invalid job token'' c, w1)
                      else case list_job_items env (rq_param rq ''id'') w1 of
                        (Inl e, w2) \<Rightarrow> (job_not_found c, w2)
                      | (Inr items, w2) \<Rightarrow> (respond_status 200 (APublicJob job items) c, w2)))"


text \<open>
  What a guard in a chain of handlers promises: unless the caller may pass, the chain ends with the
  guard's refusal, the tables are as before and no later handler runs. The guards of
  \<open>middleware\<close> and \<open>agent_auth.go\<close> keep the promise.
\<close>

definition refused :: "int set \<Rightarrow> ctx \<Rightarrow> ctx \<Rightarrow> bool" where
  "refused statuses c c' \<longleftrightarrow> cx_aborted c' \<and>
     (\<exists>s k m. s \<in> statuses \<and> cx_out c' = cx_out c @ [(s, AError k m)])"

locale guard =
  fixes g :: "ctx \<Rightarrow> 'w \<Rightarrow> ctx \<times> 'w"
    and may_pass :: "ctx \<Rightarrow> 'w \<Rightarrow> bool"
    and statuses :: "int set"
    and same :: "'w \<Rightarrow> 'w \<Rightarrow> bool"
  assumes stops: "\<not> may_pass c w \<Longrightarrow> refused statuses c (fst (g c w))"
    and keeps: "same w (snd (g c w))"
begin

lemma chain_stops:
  assumes "gin_runs go" and "\<not> may_pass c w"
  shows "go (g # hs) c w = g c w"
  using assms stops [of c w] by (auto simp: gin_runs_def refused_def split: prod.splits)

lemma chain_cases:
  assumes "gin_runs go"
  shows "(refused statuses c (fst (go (g # hs) c w)) \<and> same w (snd (go (g # hs) c w))) \<or> may_pass c w"
  using chain_stops [OF assms, of c w hs] stops [of c w] keeps [of w c] by auto

end

lemma refused_simps [web]:
  "s \<in> S \<Longrightarrow> refused S c (abort (respond_error s k m c))"
  "401 \<in> S \<Longrightarrow> refused S c (respond_unauthorized c)"
  "403 \<in> S \<Longrightarrow> refused S c (forbid c)"
  by (auto simp: refused_def abort_def respond_error_def respond_status_def respond_unauthorized_def forbid_def)

section \<open>The guards\<close>

definition bearer_claims :: "web_env \<Rightarrow> request \<Rightarrow> claims option" where
  "bearer_claims env rq =
     (let auth = rq_header rq ''Authorization''
      in if prefix ''Bearer '' auth then we_jwt env (trim_prefix auth ''Bearer '') else None)"

lemma jwt_auth_eq:
  "jwt_auth env rq c w =
     (case bearer_claims env rq of None \<Rightarrow> (respond_unauthorized c, w) | Some cl \<Rightarrow> (login_claims cl c, w))"
  by (simp add: jwt_auth_def bearer_claims_def Let_def)

interpretation jwt: guard "jwt_auth env rq" "\<lambda>c w. bearer_claims env rq \<noteq> None" "{401}" "(=)" for env rq
  by unfold_locales (auto simp: jwt_auth_eq web split: option.split)

interpretation roles: guard "require_roles rs" "\<lambda>c w. cx_role c \<noteq> [] \<and> cx_role c \<in> set rs" "{401, 403}" "(=)" for rs
  by unfold_locales (auto simp: require_roles_def web)

text \<open>The acting user is a member of the organisation the route names, with a sufficient rank.\<close>

definition acts_in_org :: "web_env \<Rightarrow> string \<Rightarrow> string \<Rightarrow> uuid \<Rightarrow> org_member \<Rightarrow> web \<Rightarrow> bool" where
  "acts_in_org env actor least org m w \<longleftrightarrow>
     m \<in> set (wb_members w) \<and> om_org_id m = org \<and> has_min_role (om_role m) least \<and>
     (\<exists>u \<in> set (wb_users w). same_username env actor u \<and> u_id u = om_user_id m)"

lemma require_org_role_cases:
  obtains (refuse) "refused {400, 401, 403, 500} c (fst (require_org_role env least rq c w))"
      "only_counts w (snd (require_org_role env least rq c w))"
    | (pass) org m where "we_parse env (trim_space (rq_param rq ''orgId'')) = Some org"
      "acts_in_org env (cx_actor c) least org m w"
      "require_org_role env least rq c w =
         (c\<lparr>cx_org_id := we_text env org, cx_org_role := om_role m\<rparr>, wb_tick (wb_tick w))"
proof (cases "we_parse env (trim_space (rq_param rq ''orgId''))")
  case None
  then show ?thesis by (intro refuse) (simp_all add: require_org_role_def web)
next
  case (Some org)
  note parsed = this
  show ?thesis
  proof (cases "cx_actor c = []")
    case True
    with parsed show ?thesis by (intro refuse) (simp_all add: require_org_role_def web)
  next
    case actor: False
    obtain ru v1 where u: "db_first_row env wb_users (same_username env (cx_actor c)) w = (ru, v1)" by fastforce
    have v1: "v1 = wb_tick w" using db_first_row_world [of env wb_users "same_username env (cx_actor c)" w] u by simp
    show ?thesis
    proof (cases ru)
      case (Inl e)
      with parsed actor u v1 show ?thesis
        by (cases e; intro refuse) (simp_all add: require_org_role_def web)
    next
      case (Inr x)
      obtain rm v2 where m: "find_member env org (u_id x) v1 = (rm, v2)" by fastforce
      have v2: "v2 = wb_tick v1"
        using db_first_row_world [of env wb_members "\<lambda>m. om_org_id m = org \<and> om_user_id m = u_id x" v1] m
        by (simp add: find_member_def)
      have c2: "only_counts w v2" unfolding v2 v1 by (rule only_counts_intros(3)) (rule only_counts_intros(2))+
      show ?thesis
      proof (cases rm)
        case (Inl e)
        with parsed actor u Inr m c2 show ?thesis
          by (cases e; intro refuse) (simp_all add: require_org_role_def web)
      next
        case (Inr y)
        show ?thesis
        proof (cases "has_min_role (om_role y) least")
          case False
          with parsed actor u \<open>ru = Inr x\<close> m Inr c2 show ?thesis
            by (intro refuse) (simp_all add: require_org_role_def web)
        next
          case True
          from db_first_rowD [OF u [unfolded \<open>ru = Inr x\<close>]]
          have "x \<in> set (wb_users w)" "same_username env (cx_actor c) x" by auto
          moreover from find_member_facts(2) [OF m Inr]
          have "y \<in> set (wb_members w)" "om_org_id y = org" "om_user_id y = u_id x" by (auto simp: v1 wb_tick_def)
          ultimately have "acts_in_org env (cx_actor c) least org y w" using True by (force simp: acts_in_org_def)
          with parsed show ?thesis
            using actor u \<open>ru = Inr x\<close> m Inr True v1 v2 by (intro pass) (simp_all add: require_org_role_def)
        qed
      qed
    qed
  qed
qed

interpretation org: guard "require_org_role env least rq"
  "\<lambda>c w. \<exists>org m. we_parse env (trim_space (rq_param rq ''orgId'')) = Some org \<and>
     acts_in_org env (cx_actor c) least org m w" "{400, 401, 403, 500}" only_counts for env least rq
proof
  show "refused {400, 401, 403, 500} c (fst (require_org_role env least rq c w))"
    if "\<not> (\<exists>org m. we_parse env (trim_space (rq_param rq ''orgId'')) = Some org \<and>
      acts_in_org env (cx_actor c) least org m w)" for c w
    using that by (cases rule: require_org_role_cases [of c env least rq w]) auto
  show "only_counts w (snd (require_org_role env least rq c w))" for c w
  proof (cases rule: require_org_role_cases [of c env least rq w])
    case (pass org m)
    have "only_counts w (wb_tick (wb_tick w))" by (rule only_counts_intros(3)) (rule only_counts_intros(2))+
    with pass show ?thesis by simp
  qed
qed

text \<open>An agent that may pass presents a token whose hash is that of a credential in force.\<close>

definition agent_token_of :: "request \<Rightarrow> string" where
  "agent_token_of rq = trim_space (trim_prefix (rq_header rq ''Authorization'') ''Bearer '')"

definition agent_known :: "web_env \<Rightarrow> request \<Rightarrow> web \<Rightarrow> bool" where
  "agent_known env rq w \<longleftrightarrow> prefix ''Bearer '' (rq_header rq ''Authorization'') \<and> agent_token_of rq \<noteq> [] \<and>
     (\<exists>r \<in> set (wb_creds w). cr_token_hash r = hash_token env (agent_token_of rq) \<and> cr_revoked_at r = None)"

interpretation agent: guard "agent_auth env rq" "\<lambda>c w. agent_known env rq w" "{401, 500}" only_counts for env rq
proof -
  define p :: "agent_cred \<Rightarrow> bool" where "p = (\<lambda>r. cr_token_hash r = hash_token env (agent_token_of rq) \<and> cr_revoked_at r = None)"
  define le :: "agent_cred \<Rightarrow> agent_cred \<Rightarrow> bool" where "le = (\<lambda>a b. cr_node_id a \<le> cr_node_id b)"
  have eq: "agent_auth env rq c w =
      (if \<not> prefix ''Bearer '' (rq_header rq ''Authorization'') \<or> agent_token_of rq = [] then (respond_unauthorized c, w)
       else case db_least_row env wb_creds p le w of
          (Inl ErrNotFound, w1) \<Rightarrow> (respond_unauthorized c, w1)
        | (Inl e, w1) \<Rightarrow> (abort (respond_error 500 ''DB_READ'' ''failed to read agent credentials'' c), w1)
        | (Inr r, w1) \<Rightarrow> (c\<lparr>cx_agent_node := Some (cr_node_id r)\<rparr>, w1))" for c w
    unfolding agent_auth_def Let_def p_def le_def agent_token_of_def by simp
  show "guard (agent_auth env rq) (\<lambda>c w. agent_known env rq w) {401, 500} only_counts"
  proof
    fix c w
    obtain x v where x: "db_least_row env wb_creds p le w = (x, v)" by fastforce
    have v: "v = wb_tick w" using db_least_row_world [of env wb_creds p le w] x by simp
    show "only_counts w (snd (agent_auth env rq c w))"
    proof (cases x)
      case (Inl e)
      then show ?thesis by (cases e) (simp_all add: eq x v web)
    next
      case (Inr r)
      then show ?thesis by (simp add: eq x v web)
    qed
    assume no: "\<not> agent_known env rq w"
    show "refused {401, 500} c (fst (agent_auth env rq c w))"
    proof (cases x)
      case (Inl e)
      then show ?thesis by (cases e) (simp_all add: eq x v web)
    next
      case (Inr r)
      from db_least_rowD [OF x [unfolded Inr]] no show ?thesis
        by (auto simp: eq x Inr web agent_known_def p_def)
    qed
  qed
qed

end
