(* ===== verification/Access_Accounts.thy ===== *)
theory Access_Accounts
  imports Access_Guards
begin

text \<open>
  What the account operations do on a working database: sign-ups, the users an organisation's
  administrator creates, registrations of agents and revoked sessions; and the bound of the limiter.
\<close>

definition healthy_web :: "web_env \<Rightarrow> bool" where
  "healthy_web env \<longleftrightarrow> (\<forall>n. \<not> we_fail env n)"

lemma healthy_query: "healthy_web env \<Longrightarrow> db_query env f w = (Inr (f w), wb_tick w)"
  by (simp add: db_query_def healthy_web_def)

lemma healthy_first:
  "healthy_web env \<Longrightarrow> db_first_row env tab p w =
     (case find p (tab w) of None \<Rightarrow> Inl ErrNotFound | Some r \<Rightarrow> Inr r, wb_tick w)"
  by (simp add: db_first_row_def healthy_query split: option.split)

lemma healthy_least:
  "healthy_web env \<Longrightarrow> db_least_row env tab p le w =
     (case least_row le (filter p (tab w)) of None \<Rightarrow> Inl ErrNotFound | Some r \<Rightarrow> Inr r, wb_tick w)"
  by (simp add: db_least_row_def healthy_query split: option.split)

lemma healthy_write:
  "healthy_web env \<Longrightarrow> db_write env f w =
     (case f (wb_tick w) of Inl e \<Rightarrow> (Some e, wb_tick w) | Inr w1 \<Rightarrow> (None, w1))"
  by (simp add: db_write_def healthy_web_def split: sum.split)

lemma healthy_tx:
  "healthy_web env \<Longrightarrow> db_tx env body w =
     (case body (wb_tick w) of (Inl e, w1) \<Rightarrow> (Inl e, rollback w w1) | (Inr x, w1) \<Rightarrow> (Inr x, wb_tick w1))"
  by (simp add: db_tx_def healthy_web_def split: sum.split prod.split)

lemmas healthy_web_simps = healthy_query healthy_first healthy_least healthy_write healthy_tx

lemma wb_tick_sel [simp]:
  "wb_users (wb_tick w) = wb_users w" "wb_orgs (wb_tick w) = wb_orgs w" "wb_members (wb_tick w) = wb_members w"
  "wb_invites (wb_tick w) = wb_invites w" "wb_refresh (wb_tick w) = wb_refresh w" "wb_regs (wb_tick w) = wb_regs w"
  "wb_creds (wb_tick w) = wb_creds w" "wb_nodes (wb_tick w) = wb_nodes w"
  "wb_services (wb_tick w) = wb_services w" "wb_bots (wb_tick w) = wb_bots w" "wb_checks (wb_tick w) = wb_checks w" "wb_uid (wb_tick w) = wb_uid w"
  "wb_rnd (wb_tick w) = wb_rnd w" "wb_refresh_ttl (wb_tick w) = wb_refresh_ttl w"
  by (simp_all add: wb_tick_def)

lemma find_unique:
  assumes "x \<in> set xs" "p x" "\<And>y. y \<in> set xs \<Longrightarrow> p y \<Longrightarrow> y = x"
  shows "find p xs = Some x"
  using assms
proof (induction xs)
  case (Cons a xs)
  show ?case
  proof (cases "p a")
    case True
    then show ?thesis using Cons.prems(3) [of a] by simp
  next
    case False
    have "find p xs = Some x"
    proof (rule Cons.IH)
      show "x \<in> set xs" "p x" using Cons.prems(1,2) False by auto
      show "y \<in> set xs \<Longrightarrow> p y \<Longrightarrow> y = x" for y using Cons.prems(3) [of y] by simp
    qed
    with False show ?thesis by simp
  qed
qed simp

section \<open>Transactions\<close>

text \<open>A transaction that reports an error leaves the tables as they were.\<close>

definition same_accounts :: "web \<Rightarrow> web \<Rightarrow> bool" where
  "same_accounts w w' \<longleftrightarrow> wb_users w' = wb_users w \<and> wb_orgs w' = wb_orgs w \<and> wb_members w' = wb_members w \<and>
     wb_invites w' = wb_invites w \<and> wb_regs w' = wb_regs w \<and> wb_creds w' = wb_creds w \<and> wb_refresh w' = wb_refresh w"

lemma same_accounts_refl [simp]: "same_accounts w w" "same_accounts w (wb_tick w)" "same_accounts w (snd (new_uuid env w))"
  by (simp_all add: same_accounts_def new_uuid_def)

lemma same_accounts_trans: "same_accounts u v \<Longrightarrow> same_accounts v w \<Longrightarrow> same_accounts u w"
  by (simp add: same_accounts_def)

lemma rollback_same [simp]: "same_accounts w (rollback w w1)" "same_accounts w (wb_tick (rollback w w1))"
  by (simp_all add: same_accounts_def rollback_def)

lemma db_tx_cases:
  obtains (failed) e w' where "db_tx env body w = (Inl e, w')" "same_accounts w w'"
    | (ok) x w1 where "body (wb_tick w) = (Inr x, w1)" "db_tx env body w = (Inr x, wb_tick w1)"
proof (cases "we_fail env (wb_dbn w)")
  case True
  then show ?thesis by (intro failed [of "ErrMsg ''database''" "wb_tick w"]) (simp_all add: db_tx_def)
next
  case False
  obtain r w1 where b: "body (wb_tick w) = (r, w1)" by fastforce
  show ?thesis
  proof (cases r)
    case (Inl e)
    with False b show ?thesis by (intro failed [of e "rollback w w1"]) (simp_all add: db_tx_def)
  next
    case (Inr x)
    show ?thesis
    proof (cases "we_fail env (wb_dbn w1)")
      case True
      with False b Inr show ?thesis
        by (intro failed [of "ErrMsg ''database''" "wb_tick (rollback w w1)"]) (simp_all add: db_tx_def)
    next
      case c: False
      with False b Inr show ?thesis by (intro ok [of x w1]) (simp_all add: db_tx_def)
    qed
  qed
qed

lemma db_write_cases:
  obtains (failed) e where "db_write env f w = (Some e, wb_tick w)"
    | (ok) w1 where "f (wb_tick w) = Inr w1" "db_write env f w = (None, w1)"
proof (cases "we_fail env (wb_dbn w)")
  case True
  then show ?thesis by (intro failed) (simp add: db_write_def)
next
  case False
  show ?thesis
  proof (cases "f (wb_tick w)")
    case (Inl e)
    with False show ?thesis by (intro failed) (simp add: db_write_def)
  next
    case (Inr w1)
    with False show ?thesis by (intro ok) (simp_all add: db_write_def)
  qed
qed

section \<open>Sign-ups\<close>

lemma insert_user_Inr:
  "insert_user env u w = Inr w1 \<longleftrightarrow>
     u_id u \<notin> u_id ` set (wb_users w) \<and>
     we_lower env (u_username u) \<notin> (\<lambda>v. we_lower env (u_username v)) ` set (wb_users w) \<and>
     w1 = w\<lparr>wb_users := wb_users w @ [u]\<rparr>"
  by (auto simp: insert_user_def)

lemma insert_member_Inr:
  "insert_member m w = Inr w1 \<longleftrightarrow>
     om_role m \<in> set org_role_values \<and> om_org_id m \<in> og_id ` set (wb_orgs w) \<and>
     (om_org_id m, om_user_id m) \<notin> (\<lambda>r. (om_org_id r, om_user_id r)) ` set (wb_members w) \<and>
     w1 = w\<lparr>wb_members := wb_members w @ [m]\<rparr>"
  by (auto simp: insert_member_def)

lemma insert_org_Inr:
  "insert_org g w = Inr w1 \<longleftrightarrow> og_id g \<notin> og_id ` set (wb_orgs w) \<and> w1 = w\<lparr>wb_orgs := wb_orgs w @ [g]\<rparr>"
  by (auto simp: insert_org_def)

text \<open>The membership a sign-up creates.\<close>

definition joined :: "invite \<Rightarrow> uuid \<Rightarrow> web \<Rightarrow> org_member \<Rightarrow> bool" where
  "joined iv usr w m \<longleftrightarrow> om_user_id m = usr \<and>
     (if invite_mode iv = ''create_private_stack''
      then om_role m = ''owner'' \<and> om_org_id m \<notin> og_id ` set (wb_orgs w)
      else iv_target_org iv = Some (om_org_id m) \<and> om_role m = invite_org_role iv)"

lemma join_org_None:
  assumes "join_org env iv usr w = (None, w1)"
  shows "\<exists>m. joined iv usr w m \<and> wb_members w1 = wb_members w @ [m] \<and> wb_users w1 = wb_users w \<and>
    wb_invites w1 = wb_invites w"
proof (cases "invite_mode iv = ''create_private_stack''")
  case True
  let ?g = "\<lparr>og_id = we_uuid env (wb_uid w), og_name = invite_org_title iv, og_owner = usr, og_created_at = we_now env\<rparr>"
  let ?m = "\<lparr>om_org_id = we_uuid env (wb_uid w), om_user_id = usr, om_role = ''owner'', om_created_at = we_now env\<rparr>"
  let ?w1 = "w\<lparr>wb_uid := Suc (wb_uid w)\<rparr>"
  show ?thesis
  proof (cases rule: db_write_cases [of env "insert_org ?g" ?w1])
    case (failed e)
    with True assms show ?thesis by (simp add: join_org_def new_uuid_def)
  next
    case (ok v)
    from ok(1) have g: "og_id ?g \<notin> og_id ` set (wb_orgs w)" and v: "v = (wb_tick ?w1)\<lparr>wb_orgs := wb_orgs w @ [?g]\<rparr>"
      unfolding insert_org_Inr by simp_all
    have "db_write env (insert_member ?m) v = (None, w1)"
      using True assms ok(2) by (simp add: join_org_def new_uuid_def)
    then show ?thesis
    proof (cases rule: db_write_cases [of env "insert_member ?m" v])
      case (ok v1)
      from ok(1) have "v1 = (wb_tick v)\<lparr>wb_members := wb_members w @ [?m]\<rparr>"
        unfolding insert_member_Inr v by simp
      moreover have "w1 = v1" using ok(2) \<open>db_write env (insert_member ?m) v = (None, w1)\<close> by simp
      ultimately have "wb_members w1 = wb_members w @ [?m]" "wb_users w1 = wb_users v" "wb_invites w1 = wb_invites v"
        by simp_all
      then show ?thesis using True g by (intro exI [of _ ?m]) (simp add: joined_def v)
    qed simp
  qed
next
  case False
  with assms obtain g where g: "iv_target_org iv = Some g"
    and wr: "db_write env (insert_member \<lparr>om_org_id = g, om_user_id = usr, om_role = invite_org_role iv,
        om_created_at = we_now env\<rparr>) w = (None, w1)"
    by (auto simp: join_org_def split: if_splits option.splits)
  let ?m = "\<lparr>om_org_id = g, om_user_id = usr, om_role = invite_org_role iv, om_created_at = we_now env\<rparr>"
  from wr show ?thesis
  proof (cases rule: db_write_cases [of env "insert_member ?m" w])
    case (ok v1)
    from ok(1) have "v1 = (wb_tick w)\<lparr>wb_members := wb_members w @ [?m]\<rparr>" unfolding insert_member_Inr by simp
    with ok(2) wr False g show ?thesis by (intro exI [of _ ?m]) (simp add: joined_def)
  qed simp
qed

lemma signup_tx_Inr:
  assumes "signup_tx env iv u w = (Inr x, w1)"
  shows "\<exists>m. joined iv (u_id u) w m \<and> wb_users w1 = wb_users w @ [u] \<and> wb_members w1 = wb_members w @ [m] \<and>
    wb_invites w1 = map (\<lambda>v. if iv_id v = iv_id iv \<and> iv_used_at v = None
       then v\<lparr>iv_used_at := Some (we_now env), iv_used_by := Some (u_id u)\<rparr> else v) (wb_invites w)"
proof (cases rule: db_write_cases [of env "insert_user env u" w])
  case (failed e)
  with assms show ?thesis by (simp add: signup_tx_def)
next
  case (ok v)
  from ok(1) have v: "v = (wb_tick w)\<lparr>wb_users := wb_users w @ [u]\<rparr>" unfolding insert_user_Inr by simp
  obtain r v2 where j: "join_org env iv (u_id u) v = (r, v2)" by fastforce
  with assms ok(2) have r: "r = None" by (cases r) (simp_all add: signup_tx_def)
  from join_org_None [OF j [unfolded r]] obtain m where m: "joined iv (u_id u) v m"
    "wb_members v2 = wb_members v @ [m]" "wb_users v2 = wb_users v" "wb_invites v2 = wb_invites v" by blast
  show ?thesis
  proof (cases rule: db_write_cases [of env "\<lambda>v. Inr (use_invite env (iv_id iv) (u_id u) v)" v2])
    case (failed e)
    with assms ok(2) j r show ?thesis by (simp add: signup_tx_def)
  next
    case (ok v3)
    then have "v3 = use_invite env (iv_id iv) (u_id u) (wb_tick v2)" "w1 = v3"
      using assms \<open>db_write env (insert_user env u) w = (None, v)\<close> j r by (simp_all add: signup_tx_def)
    moreover have "joined iv (u_id u) w m" using m(1) by (simp add: joined_def v split: if_splits)
    ultimately show ?thesis using m v by (intro exI [of _ m]) (simp add: use_invite_def)
  qed
qed

lemma login_new_user_same:
  "wb_users (snd (login_new_user env rq u c w)) = wb_users w" "wb_members (snd (login_new_user env rq u c w)) = wb_members w"
  "wb_invites (snd (login_new_user env rq u c w)) = wb_invites w"
proof -
  have "wb_users w1 = wb_users w \<and> wb_members w1 = wb_members w \<and> wb_invites w1 = wb_invites w"
    if "issue_refresh_token env rq name w = (r, w1)" for name r w1
  proof -
    have *: "insert_refresh t v = Inr v1 \<Longrightarrow> v1 = v\<lparr>wb_refresh := wb_refresh v @ [t]\<rparr>" for t v v1
      by (auto simp: insert_refresh_def split: if_splits)
    from that show ?thesis
      by (auto simp: issue_refresh_token_def draw_def new_uuid_def db_write_def split: option.splits sum.splits
          if_splits dest!: *)
  qed
  then show "wb_users (snd (login_new_user env rq u c w)) = wb_users w"
    "wb_members (snd (login_new_user env rq u c w)) = wb_members w"
    "wb_invites (snd (login_new_user env rq u c w)) = wb_invites w"
    by (auto simp: login_new_user_def split: option.splits sum.splits prod.splits)
qed

section \<open>Users an organisation's administrator creates\<close>

definition reset_user :: "web_env \<Rightarrow> string \<Rightarrow> string \<Rightarrow> user \<Rightarrow> user" where
  "reset_user env h role u =
     u\<lparr>u_password_hash := h, u_role := map_org_role_to_user_role role, u_updated_at := we_now env\<rparr>"

lemma put_org_user_existing:
  assumes "healthy_web env" and "x \<in> set (wb_users w)" and "same_username env name x"
    and "\<And>y. y \<in> set (wb_users w) \<Longrightarrow> same_username env name y \<Longrightarrow> y = x"
    and "trim_space p \<noteq> []" and "we_bcrypt env p = Some h"
  shows "put_org_user env name p role w = (Inr (reset_user env h role x),
    (wb_tick (wb_tick w))\<lparr>wb_users := row_upd u_id (u_id x) (\<lambda>r. reset_user env h role x) (wb_users w)\<rparr>)"
proof -
  have "find (same_username env name) (wb_users w) = Some x" by (rule find_unique [of x]) (rule assms(2-4))+
  then show ?thesis
    using assms(1,5,6) by (simp add: put_org_user_def healthy_web_simps save_user_def reset_user_def Let_def)
qed

lemma put_org_member_ok:
  assumes "healthy_web env" and "role \<in> set org_role_values" and "org \<in> og_id ` set (wb_orgs w)"
  shows "\<exists>w1. put_org_member env org usr role w = (None, w1) \<and> wb_users w1 = wb_users w \<and>
    (\<exists>m \<in> set (wb_members w1). om_org_id m = org \<and> om_user_id m = usr \<and> om_role m = role)"
proof (cases "find (\<lambda>m. om_org_id m = org \<and> om_user_id m = usr) (wb_members w)")
  case None
  then have "(org, usr) \<notin> (\<lambda>r. (om_org_id r, om_user_id r)) ` set (wb_members w)"
    by (auto simp: find_None_iff)
  with None assms show ?thesis
    by (simp add: put_org_member_def find_member_def healthy_web_simps insert_member_def)
next
  case (Some m)
  then have m: "m \<in> set (wb_members w)" "om_org_id m = org" "om_user_id m = usr" by (auto simp: find_Some_iff)
  let ?f = "\<lambda>m. if om_org_id m = org \<and> om_user_id m = usr then m\<lparr>om_role := role\<rparr> else m"
  have "?f m \<in> set (map ?f (wb_members w))" using m(1) unfolding set_map by (rule imageI)
  then have mem: "m\<lparr>om_role := role\<rparr> \<in> set (map ?f (wb_members w))" using m(2,3) by simp
  let ?w = "(wb_tick (wb_tick w))\<lparr>wb_members := map ?f (wb_members w)\<rparr>"
  have "put_org_member env org usr role w = (None, ?w)"
    using Some assms by (simp add: put_org_member_def find_member_def healthy_web_simps update_member_role_def)
  moreover have "m\<lparr>om_role := role\<rparr> \<in> set (wb_members ?w)" using mem by simp
  ultimately show ?thesis
    using m(2,3) by (intro exI [of _ ?w] conjI bexI [of _ "m\<lparr>om_role := role\<rparr>"]) simp_all
qed

end
