(* ===== verification/Access_Routes.thy ===== *)
theory Access_Routes
  imports Web_Tokens Access_Guards
begin

text \<open>
  The routes of \<open>internal/http/router.go\<close>: the method, the path, the guards put before the handler,
  and the name of the handler. \<open>auth.Use\<close> and \<open>dbAuth.Use\<close> put the check of the JSON web token
  before the check of a route or of its group.
\<close>

datatype access =
    Open
  | Agent
  | OpsRead
  | Roles "string list"
  | QueryRoles "string list"
  | Org string

record route =
  rt_method :: string
  rt_path :: string
  rt_access :: access
  rt_handler :: string

fun guard_chain :: "web_env \<Rightarrow> request \<Rightarrow> access \<Rightarrow> web handler list" where
  "guard_chain env rq Open = []"
| "guard_chain env rq Agent = [agent_auth env rq]"
| "guard_chain env rq OpsRead = [ops_read_auth env rq]"
| "guard_chain env rq (Roles rs) = [jwt_auth env rq, require_roles rs]"
| "guard_chain env rq (QueryRoles rs) = [jwt_auth_with_query env ''token'' rq, require_roles rs]"
| "guard_chain env rq (Org least) = [jwt_auth env rq, require_org_role env least rq]"

section \<open>The groups of routes\<close>

definition api :: "string \<Rightarrow> string \<Rightarrow> access \<Rightarrow> string \<Rightarrow> route" where
  "api method path a h = \<lparr>rt_method = method, rt_path = ''/api'' @ path, rt_access = a, rt_handler = h\<rparr>"

definition auth :: "string \<Rightarrow> string \<Rightarrow> string list \<Rightarrow> string \<Rightarrow> route" where
  "auth method path rs h = api method path (Roles rs) h"

definition db_auth :: "string \<Rightarrow> string \<Rightarrow> string list \<Rightarrow> string \<Rightarrow> route" where
  "db_auth method path rs h = api method path (QueryRoles rs) h"

definition orgs_read :: "string \<Rightarrow> string \<Rightarrow> string \<Rightarrow> route" where
  "orgs_read method path h = api method (''/orgs/:orgId'' @ path) (Org ''viewer'') h"

definition orgs_write :: "string \<Rightarrow> string \<Rightarrow> string \<Rightarrow> route" where
  "orgs_write method path h = api method (''/orgs/:orgId'' @ path) (Org ''admin'') h"

definition read_roles :: "string list" where
  "read_roles = [role_admin, role_operator, role_viewer]"

definition write_roles :: "string list" where
  "write_roles = [role_admin, role_operator]"

section \<open>The table\<close>

definition public_routes :: "route list" where
  "public_routes = [
    \<lparr>rt_method = ''GET'', rt_path = ''/metrics'', rt_access = Open, rt_handler = ''promhttp.Handler''\<rparr>,
    api ''POST'' ''/auth/login'' Open ''Login'',
    api ''POST'' ''/auth/refresh'' Open ''Refresh'',
    api ''POST'' ''/auth/logout'' Open ''Logout'',
    api ''POST'' ''/signup'' Open ''Signup'',
    api ''POST'' ''/auth/2fa/recovery'' Open ''SendRecoveryCode'',
    api ''POST'' ''/auth/webauthn/login/options'' Open ''WebAuthnLoginOptions'',
    api ''POST'' ''/auth/webauthn/login/verify'' Open ''WebAuthnLoginVerify'',
    api ''GET'' ''/nodes/:id/ssh'' Open ''SSHWebsocket'',
    api ''POST'' ''/telegram/webhook'' Open ''TelegramWebhook'',
    api ''GET'' ''/healthz'' Open ''Healthz'',
    api ''GET'' ''/settings/public'' Open ''GetPublicSettings'',
    api ''GET'' ''/dashboard/stream'' Open ''DashboardStream'',
    api ''GET'' ''/agent/ping'' Open ''AgentPing'',
    api ''POST'' ''/agent/register'' Open ''AgentRegister'',
    api ''POST'' ''/agent/heartbeat'' Agent ''AgentHeartbeat'',
    api ''GET'' ''/ops/jobs/:id/public'' Open ''GetOpsJobPublic'',
    api ''GET'' ''/ops/jobs/:id'' OpsRead ''GetOpsJob'',
    api ''GET'' ''/ops/jobs/:id/items'' OpsRead ''GetOpsJobItems'']"

definition org_routes :: "route list" where
  "org_routes = [
    auth ''GET'' ''/orgs'' read_roles ''ListOrgs'',
    auth ''POST'' ''/orgs'' write_roles ''CreateOrg'',
    orgs_read ''GET'' ''/nodes'' ''ListOrgNodes'',
    orgs_read ''GET'' ''/nodes/:nodeId'' ''GetOrgNode'',
    orgs_read ''GET'' ''/invites'' ''OrgListInvites'',
    orgs_read ''GET'' ''/users'' ''ListOrgUsers'',
    orgs_read ''GET'' ''/keys'' ''ListOrgKeys'',
    orgs_read ''GET'' ''/keys/:keyId/download'' ''DownloadOrgKey'',
    orgs_read ''GET'' ''/observability/prom/settings'' ''GetPromObservabilitySettings'',
    orgs_read ''GET'' ''/observability/prom/targets'' ''ListPromObservabilityTargets'',
    orgs_read ''GET'' ''/backup/storage-targets'' ''ListBackupStorageTargets'',
    orgs_read ''GET'' ''/backup/storage-targets/:targetId'' ''GetBackupStorageTarget'',
    orgs_read ''GET'' ''/backup/jobs'' ''ListBackupJobs'',
    orgs_read ''GET'' ''/backup/jobs/:jobId'' ''GetBackupJob'',
    orgs_read ''GET'' ''/backup/runs'' ''ListBackupRuns'',
    orgs_read ''GET'' ''/backup/runs/:runId'' ''GetBackupRun'',
    orgs_read ''GET'' ''/backup/runs/:runId/log'' ''GetBackupRunLog'',
    orgs_read ''GET'' ''/backup/jobs/:jobId/runs'' ''ListBackupJobRuns'',
    orgs_read ''GET'' ''/backup/templates'' ''ListBackupTemplates'',
    orgs_read ''GET'' ''/backup/catalog/docker/containers'' ''BackupCatalogDockerContainers'',
    orgs_read ''GET'' ''/backup/catalog/docker/volumes'' ''BackupCatalogDockerVolumes'',
    orgs_read ''GET'' ''/backup/catalog/common-paths'' ''BackupCatalogCommonPaths'',
    orgs_read ''GET'' ''/backup/catalog/system-detected'' ''BackupCatalogSystemDetected'',
    orgs_read ''GET'' ''/backup/catalog/postgres-containers'' ''BackupCatalogPostgresContainers'',
    orgs_write ''GET'' ''/export'' ''ExportOrgConfig'',
    orgs_write ''POST'' ''/nodes'' ''CreateOrgNode'',
    orgs_write ''DELETE'' ''/nodes/:nodeId'' ''DeleteOrgNode'',
    orgs_write ''POST'' ''/nodes/:nodeId/agent/revoke'' ''RevokeAgent'',
    orgs_write ''POST'' ''/users'' ''CreateOrgUser'',
    orgs_write ''PATCH'' ''/users/:userId'' ''UpdateOrgUser'',
    orgs_write ''DELETE'' ''/users/:userId'' ''DeleteOrgUser'',
    orgs_write ''POST'' ''/keys'' ''UploadOrgKey'',
    orgs_write ''PATCH'' ''/keys/:keyId'' ''UpdateOrgKey'',
    orgs_write ''DELETE'' ''/keys/:keyId'' ''DeleteOrgKey'',
    orgs_write ''POST'' ''/invites'' ''OrgCreateInvite'',
    orgs_write ''POST'' ''/invites/:id/revoke'' ''OrgRevokeInvite'',
    orgs_write ''POST'' ''/import'' ''ImportOrgConfig'',
    orgs_write ''PUT'' ''/observability/prom/settings'' ''UpdatePromObservabilitySettings'',
    orgs_write ''POST'' ''/observability/prom/targets'' ''CreatePromObservabilityTarget'',
    orgs_write ''PATCH'' ''/observability/prom/targets/:targetId'' ''UpdatePromObservabilityTarget'',
    orgs_write ''DELETE'' ''/observability/prom/targets/:targetId'' ''DeletePromObservabilityTarget'',
    orgs_write ''POST'' ''/observability/prom/targets/test'' ''TestPromObservabilityTarget'',
    orgs_write ''POST'' ''/observability/prom/reload'' ''ReloadPromObservability'',
    orgs_write ''GET'' ''/observability/prom/sd'' ''GetPromObservabilitySD'',
    orgs_write ''POST'' ''/backup/storage-targets'' ''CreateBackupStorageTarget'',
    orgs_write ''PATCH'' ''/backup/storage-targets/:targetId'' ''UpdateBackupStorageTarget'',
    orgs_write ''DELETE'' ''/backup/storage-targets/:targetId'' ''DeleteBackupStorageTarget'',
    orgs_write ''POST'' ''/backup/storage-targets/:targetId/test'' ''TestBackupStorageTarget'',
    orgs_write ''POST'' ''/backup/jobs'' ''CreateBackupJob'',
    orgs_write ''PATCH'' ''/backup/jobs/:jobId'' ''UpdateBackupJob'',
    orgs_write ''DELETE'' ''/backup/jobs/:jobId'' ''DeleteBackupJob'',
    orgs_write ''POST'' ''/backup/jobs/:jobId/run'' ''RunBackupJob'',
    orgs_write ''POST'' ''/backup/jobs/:jobId/enable'' ''EnableBackupJob'',
    orgs_write ''POST'' ''/backup/jobs/:jobId/disable'' ''DisableBackupJob'',
    orgs_write ''POST'' ''/backup/jobs/:jobId/sources'' ''CreateBackupSource'',
    orgs_write ''PATCH'' ''/backup/sources/:sourceId'' ''UpdateBackupSource'',
    orgs_write ''DELETE'' ''/backup/sources/:sourceId'' ''DeleteBackupSource'',
    orgs_write ''POST'' ''/backup/jobs/:jobId/sources/reorder'' ''ReorderBackupSources'',
    orgs_write ''POST'' ''/backup/runs/:runId/retry'' ''RetryBackupRun'',
    orgs_write ''POST'' ''/backup/runs/:runId/cancel'' ''CancelBackupRun'',
    orgs_write ''POST'' ''/backup/jobs/from-template'' ''CreateBackupJobFromTemplate'']"

definition node_routes :: "route list" where
  "node_routes = [
    auth ''GET'' ''/nodes'' read_roles ''ListNodes'',
    auth ''GET'' ''/nodes/:id'' read_roles ''GetNode'',
    auth ''GET'' ''/nodes/:id/diagnostics'' read_roles ''GetNodeDiagnostics'',
    auth ''GET'' ''/nodes/:id/status'' read_roles ''GetNodeStatus'',
    auth ''GET'' ''/nodes/:id/uptime'' read_roles ''GetNodeUptime'',
    auth ''GET'' ''/nodes/:id/metrics'' read_roles ''GetNodeMetrics'',
    auth ''GET'' ''/nodes/:id/files/roots'' read_roles ''ListFileRoots'',
    auth ''GET'' ''/nodes/:id/files/list'' read_roles ''ListFiles'',
    auth ''GET'' ''/nodes/:id/files/read'' read_roles ''ReadFileChunk'',
    auth ''GET'' ''/nodes/:id/files/tail'' read_roles ''TailFile'',
    auth ''GET'' ''/nodes/:id/files/download'' read_roles ''DownloadFile'',
    auth ''POST'' ''/nodes/:id/files/upload'' write_roles ''UploadFile'',
    auth ''POST'' ''/nodes/:id/files/mkdir'' write_roles ''Mkdir'',
    auth ''POST'' ''/nodes/:id/files/rename'' write_roles ''RenamePath'',
    auth ''POST'' ''/nodes/:id/files/delete'' write_roles ''DeletePath'',
    auth ''GET'' ''/nodes/:id/fs/list'' [role_admin, role_operator] ''FSList'',
    auth ''GET'' ''/nodes/:id/fs/stat'' [role_admin, role_operator] ''FSStat'',
    auth ''GET'' ''/nodes/:id/fs/read'' [role_admin, role_operator] ''FSRead'',
    auth ''GET'' ''/nodes/:id/fs/download'' [role_admin, role_operator] ''FSDownload'',
    auth ''PUT'' ''/nodes/:id/fs/write'' [role_admin] ''FSWrite'',
    auth ''POST'' ''/nodes/:id/fs/mkdir'' [role_admin] ''FSMkdir'',
    auth ''POST'' ''/nodes/:id/fs/rename'' [role_admin] ''FSRename'',
    auth ''POST'' ''/nodes/:id/fs/delete'' [role_admin] ''FSDelete'',
    auth ''POST'' ''/nodes/:id/fs/upload'' [role_admin] ''FSUpload'',
    db_auth ''GET'' ''/nodes/:id/db/sqlite/list'' [role_admin] ''ListNodeSqlite'',
    db_auth ''POST'' ''/nodes/:id/db/sqlite/start'' [role_admin] ''StartNodeSqlite'',
    db_auth ''POST'' ''/nodes/:id/db/adminer/start'' [role_admin] ''StartNodeAdminer'',
    db_auth ''ANY'' ''/nodes/:id/db/sqlite/ui/*path'' [role_admin] ''ProxyNodeSqlite'',
    db_auth ''ANY'' ''/nodes/:id/db/adminer/ui/*path'' [role_admin] ''ProxyNodeAdminer'']"

definition service_routes :: "route list" where
  "service_routes = [
    auth ''GET'' ''/nodes/:id/services'' read_roles ''ListServices'',
    auth ''POST'' ''/nodes/:id/services'' write_roles ''CreateService'',
    auth ''GET'' ''/nodes/:id/bots'' read_roles ''ListBots'',
    auth ''POST'' ''/nodes/:id/bots'' write_roles ''CreateBot'',
    auth ''GET'' ''/services'' read_roles ''ListAllServices'',
    auth ''POST'' ''/services'' write_roles ''CreateServiceGlobal'',
    auth ''PATCH'' ''/nodes/:id/services/:serviceId'' write_roles ''UpdateService'',
    auth ''DELETE'' ''/nodes/:id/services/:serviceId'' write_roles ''DeleteService'',
    auth ''PUT'' ''/services/:service_id'' write_roles ''UpdateService'',
    auth ''DELETE'' ''/services/:service_id'' write_roles ''DeleteService'',
    auth ''POST'' ''/services/:service_id/run'' write_roles ''RunServiceCheck'',
    auth ''GET'' ''/services/:service_id/results'' read_roles ''ListServiceResults'',
    auth ''GET'' ''/bots/:bot_id'' read_roles ''GetBot'',
    auth ''PUT'' ''/bots/:bot_id'' write_roles ''UpdateBot'',
    auth ''DELETE'' ''/bots/:bot_id'' write_roles ''DeleteBot'',
    auth ''POST'' ''/bots/:bot_id/run-now'' write_roles ''RunBotCheck'',
    auth ''GET'' ''/bots/:bot_id/results'' read_roles ''ListBotResults'',
    auth ''GET'' ''/nodes/:id/checks'' read_roles ''ListNodeChecks'',
    auth ''POST'' ''/nodes/:id/checks'' write_roles ''CreateNodeCheck'',
    auth ''GET'' ''/services/:service_id/checks'' read_roles ''ListServiceChecks'',
    auth ''POST'' ''/services/:service_id/checks'' write_roles ''CreateServiceCheck'',
    auth ''PATCH'' ''/checks/:id'' write_roles ''UpdateCheck'',
    auth ''DELETE'' ''/checks/:id'' write_roles ''DeleteCheck'',
    auth ''GET'' ''/checks/:id/results'' read_roles ''ListCheckResults'',
    auth ''POST'' ''/nodes'' write_roles ''CreateNode'',
    auth ''PATCH'' ''/nodes/:id'' write_roles ''UpdateNode'',
    auth ''POST'' ''/nodes/:id/test'' write_roles ''TestNode'',
    auth ''POST'' ''/validate/node'' write_roles ''ValidateNode'',
    auth ''POST'' ''/utils/convert-ssh-key'' write_roles ''ConvertSSHKey'',
    auth ''DELETE'' ''/nodes/:id'' [role_admin] ''DeleteNode'',
    auth ''POST'' ''/nodes/:id/actions/reboot'' write_roles ''RebootServer'',
    auth ''POST'' ''/nodes/:id/actions/:action/plan'' write_roles ''PlanNodeAction'',
    auth ''POST'' ''/nodes/:id/actions/:action/run'' write_roles ''RunNodeAction'']"

definition account_routes :: "route list" where
  "account_routes = [
    auth ''GET'' ''/audit'' [role_admin] ''ListAuditLogs'',
    auth ''GET'' ''/alerts'' read_roles ''ListAlerts'',
    auth ''GET'' ''/incidents'' read_roles ''ListIncidents'',
    auth ''POST'' ''/incidents/:id/ack'' write_roles ''AckIncident'',
    auth ''GET'' ''/telegram/settings'' [role_admin] ''GetTelegramSettings'',
    auth ''PUT'' ''/telegram/settings'' [role_admin] ''UpdateTelegramSettings'',
    auth ''POST'' ''/telegram/test'' [role_admin] ''SendTelegramTest'',
    auth ''GET'' ''/prometheus/settings'' [role_admin] ''GetPrometheusSettings'',
    auth ''PUT'' ''/prometheus/settings'' [role_admin] ''UpdatePrometheusSettings'',
    auth ''POST'' ''/prometheus/test'' [role_admin] ''TestPrometheusConnection'',
    auth ''POST'' ''/prometheus/query'' read_roles ''QueryPrometheus'',
    auth ''POST'' ''/alerts/:fingerprint/mute'' write_roles ''MuteAlert'',
    auth ''POST'' ''/alerts/:fingerprint/retry'' write_roles ''RetryAlert'',
    auth ''POST'' ''/ops/jobs'' write_roles ''CreateOpsJob'',
    auth ''POST'' ''/ops/deploy-agent'' write_roles ''CreateDeployAgent'',
    auth ''POST'' ''/ops/install-vlf-proto'' write_roles ''CreateInstallVLFProto'',
    auth ''POST'' ''/ops/remna-geodata/install'' write_roles ''CreateRemnaGeodataInstall'',
    auth ''POST'' ''/ops/remna-geodata/run'' write_roles ''CreateRemnaGeodataRun'',
    auth ''POST'' ''/tasks/bulk'' write_roles ''CreateTaskBulk'',
    auth ''GET'' ''/ops/jobs/:id/stream'' read_roles ''OpsJobStream'',
    auth ''GET'' ''/tasks/:id'' read_roles ''GetTask'',
    auth ''GET'' ''/tasks/:id/items'' read_roles ''GetTaskItems'',
    auth ''GET'' ''/settings/agent-deploy-defaults'' read_roles ''GetAgentDeployDefaults'',
    auth ''GET'' ''/dashboard/summary'' read_roles ''GetDashboardSummary'',
    auth ''GET'' ''/dashboard/active-users'' read_roles ''GetDashboardActiveUsers'',
    auth ''GET'' ''/system/status'' read_roles ''GetSystemStatus'',
    auth ''GET'' ''/users'' [role_admin] ''ListUsers'',
    auth ''POST'' ''/users'' [role_admin] ''CreateUser'',
    auth ''PATCH'' ''/users/:id'' [role_admin] ''UpdateUser'',
    auth ''DELETE'' ''/users/:id'' [role_admin] ''DeleteUser'',
    auth ''POST'' ''/admin/invites'' [role_admin] ''AdminCreateInvite'',
    auth ''GET'' ''/admin/invites'' [role_admin] ''AdminListInvites'',
    auth ''POST'' ''/admin/invites/:id/revoke'' [role_admin] ''AdminRevokeInvite'',
    auth ''GET'' ''/auth/2fa/status'' read_roles ''GetTOTPStatus'',
    auth ''POST'' ''/auth/2fa/setup'' write_roles ''SetupTOTP'',
    auth ''POST'' ''/auth/2fa/verify'' write_roles ''VerifyTOTP'',
    auth ''POST'' ''/auth/2fa/disable'' write_roles ''DisableTOTP'',
    auth ''POST'' ''/auth/webauthn/register/options'' write_roles ''WebAuthnRegisterOptions'',
    auth ''POST'' ''/auth/webauthn/register/verify'' write_roles ''WebAuthnRegisterVerify'',
    auth ''GET'' ''/auth/webauthn/credentials'' read_roles ''ListWebAuthnCredentials'',
    auth ''DELETE'' ''/auth/webauthn/credentials/:id'' write_roles ''DeleteWebAuthnCredential'']"

definition routes :: "route list" where
  "routes = public_routes @ org_routes @ node_routes @ service_routes @ account_routes"


text \<open>
  Who may enter a route: what each kind of guard asks of a request, and that a chain of guards refuses
  every other request before the handler of the route runs.
\<close>

definition query_claims :: "web_env \<Rightarrow> string \<Rightarrow> request \<Rightarrow> claims option" where
  "query_claims env param rq =
     (let h = rq_header rq ''Authorization'';
          t = (if prefix ''Bearer '' h then trim_prefix h ''Bearer '' else []);
          token = (if t = [] \<and> param \<noteq> [] then trim_space (rq_query rq param) else t)
      in if token = [] then None else we_jwt env token)"

definition ops_reader :: "web_env \<Rightarrow> request \<Rightarrow> bool" where
  "ops_reader env rq \<longleftrightarrow>
     (master_key_enabled env \<and> check_master_auth env rq = (True, [])) \<or>
     (\<exists>cl. bearer_claims env rq = Some cl \<and> cl_role cl \<in> {role_admin, role_operator, role_viewer})"

fun entitled :: "web_env \<Rightarrow> request \<Rightarrow> access \<Rightarrow> web \<Rightarrow> bool" where
  "entitled env rq Open w \<longleftrightarrow> True"
| "entitled env rq Agent w \<longleftrightarrow> agent_known env rq w"
| "entitled env rq OpsRead w \<longleftrightarrow> ops_reader env rq"
| "entitled env rq (Roles rs) w \<longleftrightarrow>
     (\<exists>cl. bearer_claims env rq = Some cl \<and> cl_role cl \<noteq> [] \<and> cl_role cl \<in> set rs)"
| "entitled env rq (QueryRoles rs) w \<longleftrightarrow>
     (\<exists>cl. query_claims env ''token'' rq = Some cl \<and> cl_role cl \<noteq> [] \<and> cl_role cl \<in> set rs)"
| "entitled env rq (Org least) w \<longleftrightarrow>
     (\<exists>cl org m. bearer_claims env rq = Some cl \<and>
        we_parse env (trim_space (rq_param rq ''orgId'')) = Some org \<and> acts_in_org env (claims_actor cl) least org m w)"

lemma jwt_query_eq:
  "jwt_auth_with_query env param rq c w =
     (case query_claims env param rq of None \<Rightarrow> (respond_unauthorized c, w) | Some cl \<Rightarrow> (login_claims cl c, w))"
  by (simp add: jwt_auth_with_query_def query_claims_def Let_def)

interpretation jwt_query: guard "jwt_auth_with_query env param rq"
  "\<lambda>c w. query_claims env param rq \<noteq> None" "{401}" "(=)" for env param rq
  by unfold_locales (auto simp: jwt_query_eq web split: option.split)

text \<open>After the first guard has let a request pass, the second one decides.\<close>

lemma go_pass:
  assumes "gin_runs go" and "h c w = (c1, w1)" and "\<not> cx_aborted c1"
  shows "go (h # hs) c w = go hs c1 w1"
  using assms by (simp add: gin_runs_def)

lemma go_one: "gin_runs go \<Longrightarrow> h c w = (c1, w1) \<Longrightarrow> go [h] c w = (c1, w1)"
  unfolding gin_runs_def by simp

lemma refused_mono: "refused S c c' \<Longrightarrow> S \<subseteq> T \<Longrightarrow> refused T c c'"
  by (auto simp: refused_def)

lemma refused_out: "refused S c1 c' \<Longrightarrow> cx_out c1 = cx_out c \<Longrightarrow> refused S c c'"
  by (simp add: refused_def)

lemma login_claims_sel [web]:
  "cx_out (login_claims cl c) = cx_out c" "cx_aborted (login_claims cl c) = cx_aborted c"
  "cx_role (login_claims cl c) = cl_role cl" "cx_actor (login_claims cl c) = claims_actor cl"
  by (simp_all add: login_claims_def)

text \<open>A check of a token followed by a guard \<open>g\<close> that asks for more than the token.\<close>

lemma token_then_guard:
  assumes run: "gin_runs go" and c: "\<not> cx_aborted c"
    and tok: "\<And>c w. h c w = (case tok of None \<Rightarrow> (respond_unauthorized c, w) | Some cl \<Rightarrow> (login_claims cl c, w))"
    and g: "guard g pass S same"
    and S: "S \<subseteq> T" "401 \<in> T"
    and no: "\<And>cl. tok = Some cl \<Longrightarrow> \<not> pass (login_claims cl c) w"
    and rf: "same w w"
  shows "refused T c (fst (go (h # g # hs) c w)) \<and> same w (snd (go (h # g # hs) c w))"
proof (cases tok)
  case None
  then have "h c w = (respond_unauthorized c, w)" by (simp add: tok)
  moreover from this have "go (h # g # hs) c w = (respond_unauthorized c, w)"
    using run by (simp add: gin_runs_def web)
  ultimately show ?thesis using S rf by (simp add: web)
next
  case (Some cl)
  let ?c = "login_claims cl c"
  have "go (h # g # hs) c w = go (g # hs) ?c w"
    by (rule go_pass [OF run]) (simp_all add: tok Some web c)
  also have "\<dots> = g ?c w" by (rule guard.chain_stops [OF g run no [OF Some]])
  finally have eq: "go (h # g # hs) c w = g ?c w" .
  have "refused S ?c (fst (g ?c w))" by (rule guard.stops [OF g no [OF Some]])
  then have "refused T c (fst (g ?c w))"
    using S(1) refused_out [of T ?c "fst (g ?c w)" c] refused_mono [of S ?c "fst (g ?c w)" T] by (simp add: web)
  then show ?thesis using guard.keeps [OF g, of w ?c] by (simp add: eq)
qed

lemma chain_refuses:
  assumes "gin_runs go" and "\<not> cx_aborted c" and "a \<noteq> OpsRead" and "\<not> entitled env rq a w"
  shows "refused {400, 401, 403, 500} c (fst (go (guard_chain env rq a @ hs) c w)) \<and>
    only_counts w (snd (go (guard_chain env rq a @ hs) c w))"
proof (cases a)
  case Agent
  have no: "\<not> agent_known env rq w" using assms(4) Agent by simp
  have "go (agent_auth env rq # hs) c w = agent_auth env rq c w"
    by (rule agent.chain_stops [OF assms(1) no])
  then show ?thesis
    using agent.stops [OF no, of c] agent.keeps [of w env rq c] Agent
      refused_mono [of "{401, 500}" c "fst (agent_auth env rq c w)" "{400, 401, 403, 500}"] by simp
next
  case (Roles rs)
  have "refused {400, 401, 403, 500} c (fst (go (jwt_auth env rq # require_roles rs # hs) c w)) \<and>
      w = snd (go (jwt_auth env rq # require_roles rs # hs) c w)"
    by (rule token_then_guard [OF assms(1,2) jwt_auth_eq roles.guard_axioms])
      (use assms(4) Roles in \<open>auto simp: web\<close>)
  then show ?thesis using Roles only_counts_intros(1) [of w] by auto
next
  case (QueryRoles rs)
  have "refused {400, 401, 403, 500} c (fst (go (jwt_auth_with_query env ''token'' rq # require_roles rs # hs) c w)) \<and>
      w = snd (go (jwt_auth_with_query env ''token'' rq # require_roles rs # hs) c w)"
    by (rule token_then_guard [OF assms(1,2) jwt_query_eq roles.guard_axioms])
      (use assms(4) QueryRoles in \<open>auto simp: web\<close>)
  then show ?thesis using QueryRoles only_counts_intros(1) [of w] by auto
next
  case (Org least)
  have "refused {400, 401, 403, 500} c (fst (go (jwt_auth env rq # require_org_role env least rq # hs) c w)) \<and>
      only_counts w (snd (go (jwt_auth env rq # require_org_role env least rq # hs) c w))"
    by (rule token_then_guard [OF assms(1,2) jwt_auth_eq org.guard_axioms])
      (use assms(4) Org in \<open>auto simp: web\<close>)
  then show ?thesis using Org by simp
qed (use assms in auto)

text \<open>The guard of the job routes writes its refusal and leaves the chain running.\<close>

lemma ops_read_auth_refuses:
  assumes "\<not> ops_reader env rq"
  shows "\<exists>s k m. s \<in> {401, 403} \<and> ops_read_auth env rq c w = (respond_error s k m c, w)"
proof -
  obtain ok reason where k: "(if master_key_enabled env then check_master_auth env rq else (False, [])) = (ok, reason)"
    by fastforce
  have nok: "\<not> ok"
  proof
    assume "ok"
    then have "master_key_enabled env" "check_master_auth env rq = (True, reason)" using k by (simp_all split: if_splits)
    moreover from this have "reason = []" by (simp add: check_master_auth_def Let_def split: if_splits)
    ultimately show False using assms by (simp add: ops_reader_def)
  qed
  have j: "parse_jwt_auth env rq = map_option (\<lambda>cl. (cl_role cl, claims_actor cl)) (bearer_claims env rq)"
    by (simp add: parse_jwt_auth_def bearer_claims_def Let_def)
  show ?thesis
  proof (cases "reason = []")
    case False
    with nok k show ?thesis by (intro exI [of _ 403]) (auto simp: ops_read_auth_def)
  next
    case True
    show ?thesis
    proof (cases "bearer_claims env rq")
      case None
      with True nok k j show ?thesis by (intro exI [of _ 401]) (auto simp: ops_read_auth_def)
    next
      case (Some cl)
      with assms have "cl_role cl \<notin> {role_admin, role_operator, role_viewer}" by (auto simp: ops_reader_def)
      with Some True nok k j show ?thesis by (intro exI [of _ 403]) (auto simp: ops_read_auth_def)
    qed
  qed
qed

lemma get_ops_job_found:
  assumes "get_job oe (rq_param rq ''id'') w = (Inr job, w1)"
  shows "\<exists>sm w2. get_ops_job (Some svc) oe rq c w = (respond_status 200 (AJob job sm) c, w2)"
proof -
  obtain r w2 where r: "get_job_summary svc oe (rq_param rq ''id'') w1 = (r, w2)" by fastforce
  with assms show ?thesis by (cases r) (auto simp: get_ops_job_def)
qed

text \<open>The handlers that are reached without a guard.\<close>

definition open_handlers :: "string list" where
  "open_handlers = [''promhttp.Handler'', ''Login'', ''Refresh'', ''Logout'', ''Signup'', ''SendRecoveryCode'',
     ''WebAuthnLoginOptions'', ''WebAuthnLoginVerify'', ''SSHWebsocket'', ''TelegramWebhook'', ''Healthz'',
     ''GetPublicSettings'', ''DashboardStream'', ''AgentPing'', ''AgentRegister'', ''GetOpsJobPublic'']"

definition open_route :: "route \<Rightarrow> bool" where
  "open_route r \<longleftrightarrow> rt_handler r \<in> set open_handlers"

fun is_open :: "access \<Rightarrow> bool" where
  "is_open Open = True"
| "is_open a = False"

fun is_ops_read :: "access \<Rightarrow> bool" where
  "is_ops_read OpsRead = True"
| "is_ops_read a = False"

text \<open>A guard that no token of the role \<open>viewer\<close> passes unless its user administers an organisation.\<close>

fun guards_writes :: "access \<Rightarrow> bool" where
  "guards_writes (Roles rs) = (role_viewer \<notin> set rs)"
| "guards_writes (QueryRoles rs) = (role_viewer \<notin> set rs)"
| "guards_writes (Org least) = (least = ''admin'')"
| "guards_writes a = False"

lemmas route_tables = public_routes_def org_routes_def node_routes_def service_routes_def account_routes_def
lemmas route_groups = api_def auth_def db_auth_def orgs_read_def orgs_write_def

lemma open_routes_listed: "list_all (\<lambda>r. is_open (rt_access r) \<longleftrightarrow> open_route r) routes"
  by code_simp

lemma ops_reads_listed:
  "list_all (\<lambda>r. is_ops_read (rt_access r) \<longleftrightarrow> rt_handler r \<in> {''GetOpsJob'', ''GetOpsJobItems''}) routes"
  by code_simp

lemma writes_listed:
  "list_all (\<lambda>r. rt_method r = ''GET'' \<or> guards_writes (rt_access r) \<or> open_route r \<or>
     rt_handler r \<in> {''QueryPrometheus'', ''AgentHeartbeat''}) routes"
  by code_simp

end
