(* ===== verification/Ssh_Sessions.thy ===== *)
theory Ssh_Sessions
  imports Prelude
begin

text \<open>
  The limit on terminal sessions, \<open>internal/services/sshws/manager.go\<close>, and the idle timer,
  \<open>idle.go\<close>. \<open>TryAcquire\<close> returns a function that gives the slot back; it keeps a flag of its own
  so that a second call does nothing. \<open>sm_released h\<close> is the flag of the \<open>h\<close>-th such function
  (\<open>None\<close> as long as it was not handed out). The mutex makes each operation one step.
\<close>

record ssh_manager =
  sm_max :: int
  sm_active :: int
  sm_released :: "bool list"

definition new_manager :: "int \<Rightarrow> ssh_manager" where
  "new_manager mx = \<lparr>sm_max = (if mx \<le> 0 then 1 else mx), sm_active = 0, sm_released = []\<rparr>"

text \<open>The number of the release function, or \<open>None\<close> when the limit is reached.\<close>

definition try_acquire :: "ssh_manager \<Rightarrow> nat option \<times> ssh_manager" where
  "try_acquire m =
     (if sm_max m \<le> sm_active m then (None, m)
      else (Some (length (sm_released m)),
            m\<lparr>sm_active := sm_active m + 1, sm_released := sm_released m @ [False]\<rparr>))"

definition release :: "nat \<Rightarrow> ssh_manager \<Rightarrow> ssh_manager" where
  "release h m =
     (if length (sm_released m) \<le> h then m
      else if sm_released m ! h then m
      else m\<lparr>sm_active := (if 0 < sm_active m then sm_active m - 1 else sm_active m),
             sm_released := (sm_released m)[h := True]\<rparr>)"

definition active_sessions :: "ssh_manager \<Rightarrow> int" where
  "active_sessions m = sm_active m"

definition max_sessions :: "ssh_manager \<Rightarrow> int" where
  "max_sessions m = sm_max m"

datatype ssh_event = TryAcquire | Release nat

fun ssh_step :: "ssh_event \<Rightarrow> ssh_manager \<Rightarrow> ssh_manager" where
  "ssh_step TryAcquire m = snd (try_acquire m)"
| "ssh_step (Release h) m = release h m"

text \<open>The slots in use are the functions that were handed out and not called yet.\<close>

definition ssh_inv :: "ssh_manager \<Rightarrow> bool" where
  "ssh_inv m \<longleftrightarrow> 0 < sm_max m \<and> sm_active m = int (length (filter Not (sm_released m))) \<and> sm_active m \<le> sm_max m"

lemma new_manager_inv: "ssh_inv (new_manager mx)"
  by (simp add: ssh_inv_def new_manager_def)

lemma filter_update_True:
  "h < length bs \<Longrightarrow> \<not> bs ! h \<Longrightarrow> Suc (length (filter Not (bs[h := True]))) = length (filter Not bs)"
proof (induction bs arbitrary: h)
  case (Cons b bs)
  then show ?case by (cases h) auto
qed simp

lemma release_inv:
  assumes "ssh_inv m"
  shows "ssh_inv (release h m)"
proof (cases "h < length (sm_released m) \<and> \<not> sm_released m ! h")
  case True
  then have "Suc (length (filter Not ((sm_released m)[h := True]))) = length (filter Not (sm_released m))"
    by (intro filter_update_True) auto
  with assms True show ?thesis by (auto simp: ssh_inv_def release_def)
next
  case False
  with assms show ?thesis by (auto simp: release_def)
qed

lemma acquire_inv: "ssh_inv m \<Longrightarrow> ssh_inv (snd (try_acquire m))"
  by (simp add: ssh_inv_def try_acquire_def)

interpretation ssh: invariant_machine ssh_step ssh_inv
proof
  show "ssh_inv m \<Longrightarrow> ssh_inv (ssh_step e m)" for m e
    by (cases e) (simp_all add: acquire_inv release_inv)
qed

text \<open>The timer: the time its callback is due, \<open>None\<close> once it is stopped or has fired.\<close>

record idle_timer =
  it_timeout :: duration
  it_due :: "instant option"

definition new_idle_timer :: "instant \<Rightarrow> duration \<Rightarrow> idle_timer" where
  "new_idle_timer now timeout =
     (let t = (if timeout \<le> 0 then minute else timeout) in \<lparr>it_timeout = t, it_due = Some (now + t)\<rparr>)"

definition idle_reset :: "instant \<Rightarrow> idle_timer \<Rightarrow> idle_timer" where
  "idle_reset now t = t\<lparr>it_due := Some (now + it_timeout t)\<rparr>"

definition idle_stop :: "idle_timer \<Rightarrow> idle_timer" where
  "idle_stop t = t\<lparr>it_due := None\<rparr>"

end
