(* ===== verification/Access_Properties.thy ===== *)
theory Access_Properties
  imports Access_Accounts Access_Routes Ssh_Sessions Ops_Properties
begin

text \<open>
  Which rows the scoped queries of \<open>org_scope.go\<close> return: those of an organisation the acting user is
  a member of, and of the organisation the request names when the user is a member of that one.
\<close>

definition may_see :: "web_env \<Rightarrow> request \<Rightarrow> ctx \<Rightarrow> web \<Rightarrow> uuid \<Rightarrow> bool" where
  "may_see env rq c w org \<longleftrightarrow>
     (\<exists>u \<in> set (wb_users w). same_username env (get_actor c) u \<and>
        (\<exists>m \<in> set (wb_members w). om_user_id m = u_id u \<and> om_org_id m = org) \<and>
        (\<forall>g. we_parse env (requested_org rq) = Some g \<and> requested_org rq \<noteq> [] \<and>
           (\<exists>m \<in> set (wb_members w). om_user_id m = u_id u \<and> om_org_id m = g) \<longrightarrow> org = g))"

lemma may_see_tick [simp]: "may_see env rq c (wb_tick w) org = may_see env rq c w org"
  by (simp add: may_see_def)

lemma in_scope_may_see:
  assumes "scope_of env rq c w sc" and "in_scope w sc org"
  shows "may_see env rq c w org"
proof -
  obtain u where u: "u \<in> set (wb_users w)" "same_username env (get_actor c) u" "u_id u = fst sc"
    using assms(1) by (auto simp: scope_of_def)
  have "\<exists>m \<in> set (wb_members w). om_user_id m = u_id u \<and> om_org_id m = org"
    using assms(2) u(3) by (auto simp: in_scope_def list_ex_iff)
  moreover have "org = g" if "we_parse env (requested_org rq) = Some g" "requested_org rq \<noteq> []"
      "\<exists>m \<in> set (wb_members w). om_user_id m = u_id u \<and> om_org_id m = g" for g
  proof -
    have "snd sc = Some g" using assms(1) that u(3) by (auto simp: scope_of_def)
    then show ?thesis using assms(2) by (simp add: in_scope_def)
  qed
  ultimately show ?thesis unfolding may_see_def using u(1,2) by blast
qed

lemma get_node_row:
  assumes "get_node_for_actor env rq c s w = (Inr n, w1)"
  shows "n \<in> set (wb_nodes w1) \<and> we_parse env s = Some (n_id n) \<and>
    (\<exists>org. n_org_id n = Some org \<and> may_see env rq c w1 org)"
proof -
  obtain i sc v where i: "we_parse env s = Some i" and sc: "actor_scope env rq c w = (Inr sc, v)"
    and fr: "db_first_row env wb_nodes (\<lambda>n. node_in_scope v sc n \<and> n_id n = i) v = (Inr n, w1)"
    using assms by (auto simp: get_node_for_actor_def split: option.splits sum.splits prod.splits)
  from db_first_rowD [OF fr] have n: "n \<in> set (wb_nodes v)" "node_in_scope v sc n" "n_id n = i" "w1 = wb_tick v" by auto
  then obtain org where "n_org_id n = Some org" "in_scope v sc org" by (auto simp: node_in_scope_def split: option.splits)
  with in_scope_may_see [OF actor_scope_of [OF sc]] n i show ?thesis by auto
qed

lemma get_service_row:
  assumes "get_service_for_actor env rq c s w = (Inr r, w1)"
  shows "r \<in> set (wb_services w1) \<and> we_parse env s = Some (sv_id r) \<and> may_see env rq c w1 (sv_org_id r)"
proof -
  obtain i sc v where i: "we_parse env s = Some i" and sc: "actor_scope env rq c w = (Inr sc, v)"
    and fr: "db_first_row env wb_services (\<lambda>s. in_scope v sc (sv_org_id s) \<and> sv_id s = i) v = (Inr r, w1)"
    using assms by (auto simp: get_service_for_actor_def split: option.splits sum.splits prod.splits)
  from db_first_rowD [OF fr] have "r \<in> set (wb_services v)" "in_scope v sc (sv_org_id r)" "sv_id r = i" "w1 = wb_tick v"
    by auto
  with in_scope_may_see [OF actor_scope_of [OF sc]] i show ?thesis by auto
qed

lemma get_bot_row:
  assumes "get_bot_for_actor env rq c s w = (Inr b, w1)"
  shows "b \<in> set (wb_bots w1) \<and> we_parse env s = Some (b_id b) \<and>
    (\<exists>n \<in> set (wb_nodes w1). n_id n = b_node_id b \<and> (\<exists>org. n_org_id n = Some org \<and> may_see env rq c w1 org))"
proof -
  obtain i sc v where i: "we_parse env s = Some i" and sc: "actor_scope env rq c w = (Inr sc, v)"
    and fr: "db_first_row env wb_bots (\<lambda>b. bot_in_scope v sc b \<and> b_id b = i) v = (Inr b, w1)"
    using assms by (auto simp: get_bot_for_actor_def split: option.splits sum.splits prod.splits)
  from db_first_rowD [OF fr] have b: "b \<in> set (wb_bots v)" "bot_in_scope v sc b" "b_id b = i" "w1 = wb_tick v" by auto
  then obtain n org where "n \<in> set (wb_nodes v)" "n_id n = b_node_id b" "n_org_id n = Some org" "in_scope v sc org"
    by (auto simp: bot_in_scope_def list_ex_iff node_in_scope_def split: option.splits)
  with in_scope_may_see [OF actor_scope_of [OF sc]] b i show ?thesis by auto
qed

text \<open>The row a check watches belongs to \<open>org\<close>.\<close>

definition check_of_org :: "web \<Rightarrow> check \<Rightarrow> uuid \<Rightarrow> bool" where
  "check_of_org w k org \<longleftrightarrow>
     (ck_target_type k = ''node'' \<and> (\<exists>n \<in> set (wb_nodes w). n_id n = ck_target_id k \<and> n_org_id n = Some org)) \<or>
     (ck_target_type k = ''service'' \<and> (\<exists>s \<in> set (wb_services w). sv_id s = ck_target_id k \<and> sv_org_id s = org)) \<or>
     (ck_target_type k = ''bot'' \<and> (\<exists>b \<in> set (wb_bots w). b_id b = ck_target_id k \<and>
        (\<exists>n \<in> set (wb_nodes w). n_id n = b_node_id b \<and> n_org_id n = Some org)))"

lemma get_check_row:
  assumes "get_check_for_actor env rq c s w = (Inr k, w1)" and codec: "\<And>u. we_parse env (we_text env u) = Some u"
  shows "k \<in> set (wb_checks w) \<and> we_parse env s = Some (ck_id k) \<and>
    (\<exists>org. check_of_org w1 k org \<and> may_see env rq c w1 org)"
proof -
  obtain i r v where i: "we_parse env s = Some i" and fr: "db_first_row env wb_checks (\<lambda>k. ck_id k = i) w = (Inr r, v)"
    using assms(1) by (auto simp: get_check_for_actor_def split: option.splits sum.splits prod.splits)
  let ?t = "we_text env (ck_target_id r)"
  consider (node) n where "ck_target_type r = ''node''" "get_node_for_actor env rq c ?t v = (Inr n, w1)" "k = r"
    | (service) x where "ck_target_type r = ''service''" "get_service_for_actor env rq c ?t v = (Inr x, w1)" "k = r"
    | (bot) b where "ck_target_type r = ''bot''" "get_bot_for_actor env rq c ?t v = (Inr b, w1)" "k = r"
    using assms(1) i fr by (auto simp: get_check_for_actor_def Let_def split: if_splits sum.splits prod.splits)
  then have "k = r \<and> (\<exists>org. check_of_org w1 r org \<and> may_see env rq c w1 org)"
  proof cases
    case node
    with get_node_row [OF node(2)] codec show ?thesis by (auto simp: check_of_org_def)
  next
    case service
    with get_service_row [OF service(2)] codec show ?thesis by (auto simp: check_of_org_def)
  next
    case bot
    with get_bot_row [OF bot(2)] codec show ?thesis by (fastforce simp: check_of_org_def)
  qed
  with db_first_rowD [OF fr] i show ?thesis by auto
qed


text \<open>
  The properties of accounts, organisations and sessions, each with a concrete instance.
\<close>

section \<open>A concrete panel\<close>

text \<open>A chain run as gin runs it.\<close>

fun run_chain :: "'w handler list \<Rightarrow> 'w handler" where
  "run_chain [] c w = (c, w)"
| "run_chain (h # hs) c w = (case h c w of (c1, w1) \<Rightarrow> if cx_aborted c1 then (c1, w1) else run_chain hs c1 w1)"

lemma run_chain_gin: "gin_runs run_chain"
  by (simp add: gin_runs_def)

text \<open>
  An organisation with an administrator \<open>ann\<close> and a viewer \<open>vic\<close>, another user \<open>bob\<close>, and two
  invites; the token of each user is the user's name.
\<close>

definition ax_claims :: "string \<Rightarrow> claims option" where
  "ax_claims t =
     (if t = ''vic'' then Some \<lparr>cl_user = ''vic'', cl_role = ''viewer'', cl_subject = []\<rparr>
      else if t = ''ann'' then Some \<lparr>cl_user = ''ann'', cl_role = ''admin'', cl_subject = []\<rparr> else None)"

definition ax_env :: web_env where
  "ax_env =
     \<lparr>we_now = 1000, we_fail = (\<lambda>n. False), we_parse = uuid_read, we_text = uuid_text,
      we_uuid = (\<lambda>n. of_nat (n + 100)), we_random = (\<lambda>n. Some (replicate (Suc n) (CHR ''r''))), we_sha_hex = (\<lambda>s. s),
      we_bcrypt = (\<lambda>s. Some (''#'' @ s)), we_lower = (\<lambda>s. s), we_jwt = ax_claims, we_sign = (\<lambda>cl i. Some ''signed''),
      we_admin_user = ''root'', we_admin_pass = ''pw'', we_jwt_expiry = 0, we_master_key = [], we_allow_cidr = [],
      we_token_salt = ''salt'', we_public_base_url = [], we_has_audit = False, we_parse_ip = (\<lambda>s. None),
      we_parse_cidr = (\<lambda>s. None), we_bcrypt_ok = (\<lambda>h p. h = ''#'' @ p), we_totp = (\<lambda>c s t. c = ''123456''),
      we_totp_key = (\<lambda>n a. Some (''S'' @ a, ''otpauth://'' @ a)), we_qr = (\<lambda>s. Some s), we_rand32 = (\<lambda>n. Some 7),
      we_gcm = \<lparr>gc_seal = (\<lambda>k n s. s), gc_open = (\<lambda>k n s. Some s)\<rparr>, we_key = [],
      we_nonce = (\<lambda>n. Some (replicate 12 (CHR ''n'')))\<rparr>"

definition ax_user :: "uuid \<Rightarrow> string \<Rightarrow> user" where
  "ax_user i name = \<lparr>u_id = i, u_username = name, u_password_hash = ''#old'', u_role = ''viewer'',
     u_totp_secret = None, u_totp_enabled = False, u_recovery_hash = None, u_recovery_exp = None,
     u_created_at = 1, u_updated_at = 1\<rparr>"

definition ax_invite :: "uuid \<Rightarrow> string \<Rightarrow> string \<Rightarrow> uuid option \<Rightarrow> invite" where
  "ax_invite i code mode org = \<lparr>iv_id = i, iv_code = code, iv_created_by = 2, iv_target_org = org, iv_mode = mode,
     iv_role = ''owner'', iv_org_name = None, iv_expires_at = 5000, iv_used_at = None, iv_used_by = None,
     iv_created_at = 5\<rparr>"

definition ax_web :: web where
  "ax_web =
     \<lparr>wb_users = [ax_user 1 ''vic'', ax_user 2 ''ann'', ax_user 3 ''bob''],
      wb_orgs = [\<lparr>og_id = 10, og_name = ''shop'', og_owner = 2, og_created_at = 1\<rparr>],
      wb_members = [\<lparr>om_org_id = 10, om_user_id = 1, om_role = ''viewer'', om_created_at = 1\<rparr>,
        \<lparr>om_org_id = 10, om_user_id = 2, om_role = ''admin'', om_created_at = 1\<rparr>],
      wb_invites = [ax_invite 20 ''own'' ''create_private_stack'' None, ax_invite 21 ''join'' ''join_existing_stack'' (Some 10)],
      wb_refresh = [], wb_regs = [\<lparr>rg_id = 30, rg_node_id = 7, rg_token_hash = ''saltreg'', rg_expires_at = 5000,
        rg_used_at = None\<rparr>],
      wb_creds = [], wb_nodes = [ex_node\<lparr>n_org_id := Some 10\<rparr>], wb_services = [], wb_bots = [],
      wb_checks = [\<lparr>ck_id = 40, ck_target_type = ''node'', ck_target_id = 7, ck_type = ''ping'', ck_fail_after_sec = 0,
        ck_recover_after_ok = 1, ck_mute_until = None, ck_enabled = True,
        ck_interval_sec = 60, ck_timeout_ms = 3000, ck_retries = 1, ck_created_at = 1\<rparr>],
      wb_audit = [], wb_passkeys = [], wb_challenges = [], wb_refresh_ttl = 0, wb_dbn = 0, wb_uid = 0, wb_rnd = 0\<rparr>"

definition ax_request :: "string \<Rightarrow> string \<Rightarrow> request" where
  "ax_request token org = \<lparr>rq_header = (\<lambda>h. if h = ''Authorization'' then ''Bearer '' @ token
       else if h = ''X-Requested-With'' then ''XMLHttpRequest'' else []),
     rq_query = (\<lambda>q. []), rq_param = (\<lambda>p. if p = ''orgId'' then org else []), rq_client_ip = ''198.51.100.7'',
     rq_host = ''panel.example'', rq_cookie = Some ''r''\<rparr>"

lemma ax_env_sel [simp]:
  "we_now ax_env = 1000" "we_parse ax_env = uuid_read" "we_text ax_env = uuid_text" "we_lower ax_env s = s"
  "we_jwt ax_env = ax_claims" "we_sha_hex ax_env s = s" "we_bcrypt ax_env s = Some (''#'' @ s)"
  "we_uuid ax_env n = of_nat (n + 100)" "we_admin_user ax_env = ''root''" "we_token_salt ax_env = ''salt''"
  "we_master_key ax_env = []" "we_random ax_env n = Some (replicate (Suc n) (CHR ''r''))"
  "we_sign ax_env cl i = Some ''signed''" "we_jwt_expiry ax_env = 0"
  by (simp_all add: ax_env_def)

lemma ax_read [simp]: "uuid_read (uuid_text u) = Some u"
  by (rule uc.parse_str)

lemma ax_healthy [simp]: "healthy_web ax_env"
  by (simp add: healthy_web_def ax_env_def)

lemma ax_bearer: "bearer_claims ax_env (ax_request token org) = ax_claims token"
  by (simp add: bearer_claims_def ax_request_def trim_prefix_def)

lemma ax_vic_no_admin: "\<not> acts_in_org ax_env ''vic'' ''admin'' org m ax_web"
  by (auto simp: acts_in_org_def ax_web_def ax_user_def same_username_def has_min_role_def role_rank_def)

section \<open>Routes\<close>

text \<open>C3: Strangers are refused. Whatever the framework's way to run a chain, a request to a route
  that is not in the list of open handlers and is not one of the two reads of a job, \<open>GetOpsJob\<close> and
  \<open>GetOpsJobItems\<close> (which let strangers through, as shown below), and that has no entitlement to it (a valid token with one of the
  route's roles; for the routes of an organisation, a token whose user is a member with a sufficient rank; for
  agents, the token of a credential in force), is answered with a refusal only: no handler of the route
  runs and no table changes.\<close>
theorem strangers_are_refused:
  assumes "gin_runs go" and "r \<in> set routes" and "\<not> open_route r"
    and "rt_handler r \<notin> {''GetOpsJob'', ''GetOpsJobItems''}" and "\<not> entitled env rq (rt_access r) w"
  shows "refused {400, 401, 403, 500} new_ctx (fst (go (guard_chain env rq (rt_access r) @ hs) new_ctx w)) \<and>
    only_counts w (snd (go (guard_chain env rq (rt_access r) @ hs) new_ctx w))"
proof (rule chain_refuses [OF assms(1)])
  show "\<not> cx_aborted new_ctx" by (simp add: new_ctx_def)
  show "rt_access r \<noteq> OpsRead"
    using ops_reads_listed assms(2,4) by (force simp: list_all_iff)
qed (rule assms)

theorem strangers_are_refused_witness:
  "refused {400, 401, 403, 500} new_ctx (fst (run_chain
     (guard_chain ax_env (ax_request ''vic'' (uuid_text 10)) (Org ''admin'') @ [create_org_user ax_env (Inl [])]) new_ctx ax_web))"
proof -
  let ?r = "orgs_write ''POST'' ''/users'' ''CreateOrgUser''"
  have "\<not> entitled ax_env (ax_request ''vic'' (uuid_text 10)) (rt_access ?r) ax_web"
    by (auto simp: orgs_write_def api_def ax_bearer ax_claims_def claims_actor_def ax_vic_no_admin)
  from strangers_are_refused [OF run_chain_gin _ _ _ this, of "[create_org_user ax_env (Inl [])]"]
  show ?thesis by (simp add: routes_def org_routes_def orgs_write_def api_def open_route_def open_handlers_def)
qed

text \<open>C36: Viewers do not write. A request by another method than \<open>GET\<close>, to a route that is not
  open, with a valid token of the role \<open>viewer\<close> whose user administers no organisation, is refused,
  but for the query to Prometheus and the agents' heartbeat.\<close>
theorem viewers_do_not_write:
  assumes "gin_runs go" and "r \<in> set routes" and "\<not> open_route r" and "rt_method r \<noteq> ''GET''"
    and "rt_handler r \<notin> {''QueryPrometheus'', ''AgentHeartbeat''}"
    and "bearer_claims env rq = Some cl" and "cl_role cl = role_viewer" and "we_jwt env [] = None"
    and "\<not> (\<exists>org m. acts_in_org env (claims_actor cl) ''admin'' org m w)"
  shows "refused {400, 401, 403, 500} new_ctx (fst (go (guard_chain env rq (rt_access r) @ hs) new_ctx w)) \<and>
    only_counts w (snd (go (guard_chain env rq (rt_access r) @ hs) new_ctx w))"
proof (rule chain_refuses [OF assms(1)])
  have g: "guards_writes (rt_access r)" using writes_listed assms(2-5) by (auto simp: list_all_iff)
  show "\<not> cx_aborted new_ctx" by (simp add: new_ctx_def)
  show "rt_access r \<noteq> OpsRead" using g by auto
  have "query_claims env p rq = Some cl" for p
    using assms(6,8) by (auto simp: query_claims_def bearer_claims_def Let_def split: if_splits)
  then show "\<not> entitled env rq (rt_access r) w"
    using g assms(6,7,9) by (cases "rt_access r") auto
qed

theorem viewers_do_not_write_witness:
  "refused {400, 401, 403, 500} new_ctx (fst (run_chain
     (guard_chain ax_env (ax_request ''vic'' []) (Roles write_roles) @ []) new_ctx ax_web))"
proof -
  let ?r = "auth ''POST'' ''/nodes'' write_roles ''CreateNode''"
  have cl: "bearer_claims ax_env (ax_request ''vic'' []) = Some \<lparr>cl_user = ''vic'', cl_role = ''viewer'', cl_subject = []\<rparr>"
    by (simp add: ax_bearer ax_claims_def)
  have r: "?r \<in> set routes" by (simp add: routes_def service_routes_def auth_def api_def)
  from viewers_do_not_write [OF run_chain_gin r _ _ _ cl, of ax_web "[]"]
  show ?thesis
    by (simp add: auth_def api_def open_route_def open_handlers_def role_viewer_def ax_claims_def claims_actor_def
        ax_vic_no_admin)
qed

text \<open>C35: The guard of the job routes does not stop strangers. A request to \<open>GET /ops/jobs/:id\<close> with
  neither the master key nor a valid token gets the refusal and, in the same answer, the job with its summary:
  \<open>OpsReadAuth\<close> writes the refusal without aborting the context, so the handler runs.\<close>
theorem ops_reads_reach_strangers:
  assumes "gin_runs go" and "\<not> ops_reader env rq" and "get_job oe (rq_param rq ''id'') w = (Inr job, w1)"
  shows "\<exists>s k m sm. s \<in> {401, 403} \<and>
    cx_out (fst (go [ops_read_auth env rq, get_ops_job (Some svc) oe rq] new_ctx w)) =
      [(s, AError k m), (200, AJob job sm)]"
proof -
  obtain s k m where s: "s \<in> {401, 403}" "ops_read_auth env rq new_ctx w = (respond_error s k m new_ctx, w)"
    using ops_read_auth_refuses [OF assms(2), of new_ctx w] by (elim exE conjE) (rule that)
  let ?c = "respond_error s k m new_ctx"
  have c: "\<not> cx_aborted ?c" "cx_out ?c = [(s, AError k m)]"
    by (simp_all add: web new_ctx_def respond_error_def respond_status_def)
  obtain sm w2 where sm: "get_ops_job (Some svc) oe rq ?c w = (respond_status 200 (AJob job sm) ?c, w2)"
    using get_ops_job_found [OF assms(3), of svc ?c] by (elim exE) (rule that)
  have "go [ops_read_auth env rq, get_ops_job (Some svc) oe rq] new_ctx w = (respond_status 200 (AJob job sm) ?c, w2)"
    using go_pass [of go "ops_read_auth env rq", OF assms(1) s(2) c(1)]
      go_one [of go "get_ops_job (Some svc) oe rq", OF assms(1) sm] by simp
  then show ?thesis using s(1) c(2) by (intro exI [of _ s]) (auto simp: respond_status_def)
qed

theorem ops_reads_reach_strangers_witness:
  "\<exists>s k m sm. s \<in> {401, 403} \<and>
    cx_out (fst (run_chain [ops_read_auth ax_env (ax_request ''mallory'' []),
        get_ops_job (Some ex_ops) (ex_ops_env\<lparr>oe_uuid_str := \<lambda>u. []\<rparr>) (ax_request ''mallory'' [])] new_ctx ex_ops_world)) =
      [(s, AError k m), (200, AJob ex_job sm)]"
proof (rule ops_reads_reach_strangers [OF run_chain_gin])
  show "\<not> ops_reader ax_env (ax_request ''mallory'' [])"
    by (simp add: ops_reader_def ax_bearer ax_claims_def master_key_enabled_def trim_space_def)
  show "get_job (ex_ops_env\<lparr>oe_uuid_str := \<lambda>u. []\<rparr>) (rq_param (ax_request ''mallory'' []) ''id'') ex_ops_world =
      (Inr ex_job, snd (get_job (ex_ops_env\<lparr>oe_uuid_str := \<lambda>u. []\<rparr>) [] ex_ops_world))"
    by (simp add: get_job_def o_query_def stmt_fails_def ax_request_def ex_ops_world_def ex_ops_env_def)
qed

section \<open>Rows\<close>

text \<open>C15: Rows stay within organisations. When a node, or a check on a node, a service or a bot, is found
  for the acting user, it is a row with the identifier asked for and belongs to an organisation of which the
  user is a member; and when the request names an organisation of which the user is a member, to that
  one.\<close>
theorem rows_stay_in_organisations:
  assumes "\<And>u. we_parse env (we_text env u) = Some u"
    and "get_node_for_actor env rq c s w = (Inr n, w1)" and "get_check_for_actor env rq c s' w' = (Inr k, w1')"
  shows "n \<in> set (wb_nodes w1) \<and> we_parse env s = Some (n_id n) \<and>
    (\<exists>org. n_org_id n = Some org \<and> may_see env rq c w1 org) \<and>
    k \<in> set (wb_checks w') \<and> we_parse env s' = Some (ck_id k) \<and>
    (\<exists>org. check_of_org w1' k org \<and> may_see env rq c w1' org)"
  using get_node_row [OF assms(2)] get_check_row [OF assms(3,1)] by auto

theorem rows_stay_in_organisations_witness:
  "\<exists>org. n_org_id (ex_node\<lparr>n_org_id := Some 10\<rparr>) = Some org \<and>
     may_see ax_env (ax_request ''vic'' []) (new_ctx\<lparr>cx_actor := ''vic''\<rparr>) ax_web org"
proof -
  let ?c = "new_ctx\<lparr>cx_actor := ''vic''\<rparr>" and ?rq = "ax_request ''vic'' []"
  let ?n = "ex_node\<lparr>n_org_id := Some 10\<rparr>"
  define w where "w = ax_web"
  have tabs: "wb_users w = wb_users ax_web" "wb_members w = wb_members ax_web" "wb_nodes w = [?n]"
      "wb_checks w = wb_checks ax_web" by (simp_all add: w_def ax_web_def)
  have sc: "actor_scope ax_env ?rq ?c v = (Inr (1, Some 10), wb_tick (wb_tick v))"
    if "wb_users v = wb_users ax_web" "wb_members v = wb_members ax_web" for v
    using that by (simp add: actor_scope_def actor_user_def get_actor_def healthy_web_simps new_ctx_def ax_web_def
        ax_user_def same_username_def org_id_from_request_def requested_org_def ax_request_def trim_space_def
        fallback_org_def first_org_for_user_def)
  have node: "get_node_for_actor ax_env ?rq ?c (uuid_text 7) v = (Inr ?n, wb_tick (wb_tick (wb_tick v)))"
    if "wb_users v = wb_users ax_web" "wb_members v = wb_members ax_web" "wb_nodes v = [?n]" for v
    using that by (simp add: get_node_for_actor_def sc healthy_web_simps node_in_scope_def in_scope_def ax_web_def
        ex_node_def)
  have check: "get_check_for_actor ax_env ?rq ?c (uuid_text 40) w =
      (Inr (hd (wb_checks ax_web)), wb_tick (wb_tick (wb_tick (wb_tick w))))"
    using node [of "wb_tick w"] tabs by (simp add: get_check_for_actor_def healthy_web_simps ax_web_def)
  from rows_stay_in_organisations [OF _ node [of w] check] tabs
  show ?thesis by (simp add: may_see_def)
qed

section \<open>Accounts\<close>

text \<open>C38: An organisation's administrator takes over any account. When \<open>CreateOrgUser\<close> is called with
  the name of a user that exists, and a role other than \<open>owner\<close>, that user's password becomes the given
  one, the user's global role follows the given role, and the user becomes a member of the organisation; it does
  not matter what organisations the user was a member of.\<close>
theorem org_admin_resets_any_password:
  assumes "healthy_web env" and "we_parse env (cx_org_id c) = Some org" and "cx_org_id c \<noteq> []"
    and "org \<in> og_id ` set (wb_orgs w)" and "keyed u_id (wb_users w)" and "x \<in> set (wb_users w)"
    and "same_username env (trim_space (ub_username b)) x" and "trim_space (ub_username b) \<noteq> []"
    and "\<And>y. y \<in> set (wb_users w) \<Longrightarrow> same_username env (trim_space (ub_username b)) y \<Longrightarrow> y = x"
    and "to_lower (trim_space (ub_role b)) = role" and "role \<in> {''admin'', ''viewer''}"
    and "trim_space (ub_password b) \<noteq> []" and "we_bcrypt env (ub_password b) = Some h"
  shows "row_get u_id (u_id x) (wb_users (snd (create_org_user env (Inr b) c w))) = Some (reset_user env h role x) \<and>
    (\<exists>m \<in> set (wb_members (snd (create_org_user env (Inr b) c w))).
       om_org_id m = org \<and> om_user_id m = u_id x \<and> om_role m = role)"
proof -
  let ?x = "reset_user env h role x"
  let ?name = "trim_space (ub_username b)" and ?w = "wb_tick w"
  let ?v = "(wb_tick (wb_tick ?w))\<lparr>wb_users := row_upd u_id (u_id x) (\<lambda>r. ?x) (wb_users w)\<rparr>"
  have "put_org_user env ?name (ub_password b) role ?w =
      (Inr ?x, (wb_tick (wb_tick ?w))\<lparr>wb_users := row_upd u_id (u_id x) (\<lambda>r. ?x) (wb_users ?w)\<rparr>)"
    by (rule put_org_user_existing [OF assms(1) _ assms(7) _ assms(12,13)]) (use assms(6,9) in simp_all)
  then have put: "put_org_user env ?name (ub_password b) role ?w = (Inr ?x, ?v)" by simp
  have id: "u_id ?x = u_id x" by (simp add: reset_user_def)
  have "role \<in> set org_role_values" "org \<in> og_id ` set (wb_orgs ?v)"
    using assms(4,11) by (auto simp: org_role_values_def)
  from put_org_member_ok [OF assms(1) this, of "u_id x"] obtain w1 where
    w1: "put_org_member env org (u_id x) role ?v = (None, w1)" "wb_users w1 = wb_users ?v"
      "\<exists>m \<in> set (wb_members w1). om_org_id m = org \<and> om_user_id m = u_id x \<and> om_role m = role" by blast
  have "org_user_rows_tx env org ?name (ub_password b) role ?w = (Inr ?x, w1)"
    by (simp add: org_user_rows_tx_def put w1(1) id)
  then have "db_tx env (org_user_rows_tx env org ?name (ub_password b) role) w = (Inr ?x, wb_tick w1)"
    by (simp add: healthy_tx [OF assms(1)])
  then have "snd (create_org_user env (Inr b) c w) = wb_tick w1"
    using assms(2,3,8,10-12)
    by (auto simp: create_org_user_def with_org_def parse_json_body_def org_user_role_ok_def)
  moreover have "row_get u_id (u_id x) (wb_users ?v) = Some ?x"
    using assms(5,6) id by (simp add: tbl row_get_keyed)
  ultimately show ?thesis using w1(2,3) by simp
qed

theorem org_admin_resets_any_password_witness:
  "row_get u_id 3 (wb_users (snd (create_org_user ax_env
     (Inr \<lparr>ub_username = ''bob'', ub_password = ''new'', ub_role = ''viewer''\<rparr>)
     (new_ctx\<lparr>cx_actor := ''ann'', cx_org_id := uuid_text 10, cx_org_role := ''admin''\<rparr>) ax_web))) =
   Some ((ax_user 3 ''bob'')\<lparr>u_password_hash := ''#new'', u_updated_at := 1000\<rparr>)"
proof -
  have ne: "uuid_text 10 \<noteq> []" by (rule uc.str_ne)
  let ?b = "\<lparr>ub_username = ''bob'', ub_password = ''new'', ub_role = ''viewer''\<rparr>"
  let ?c = "new_ctx\<lparr>cx_actor := ''ann'', cx_org_id := uuid_text 10, cx_org_role := ''admin''\<rparr>"
  have ts: "trim_space ''bob'' = ''bob''" "trim_space ''new'' = ''new''" "to_lower (trim_space ''viewer'') = ''viewer''"
    by code_simp+
  have "row_get u_id (u_id (ax_user 3 ''bob'')) (wb_users (snd (create_org_user ax_env (Inr ?b) ?c ax_web))) =
      Some (reset_user ax_env ''#new'' ''viewer'' (ax_user 3 ''bob''))"
    by (rule org_admin_resets_any_password [of ax_env ?c 10 ax_web "ax_user 3 ''bob''" ?b, THEN conjunct1])
      (use ne in \<open>auto simp: ax_web_def ax_user_def keyed_def same_username_def ts\<close>)
  then show ?thesis by (simp add: reset_user_def ax_user_def map_org_role_to_user_role_def)
qed

end
