(* ===== verification/Access_Signup.thy ===== *)
theory Access_Signup
  imports Access_Accounts
begin

text \<open>
  The two steps of a sign-up: what \<open>signup_check\<close> establishes, what \<open>signup_commit\<close> creates, and
  the bound of the limiter.
\<close>

lemma same_accounts_first:
  "db_first_row env tab p w = (r, w1) \<Longrightarrow> same_accounts w w1"
  using db_first_row_world [of env tab p w] same_accounts_refl(2) [of w] by simp

lemma signup_check_Inr:
  assumes "signup_check env rq (Inr b) c l w = (Inr (iv, name, pw), l1, w1)"
  shows "iv \<in> set (wb_invites w) \<and> iv_code iv = trim_space (sb_invite_code b) \<and> iv_used_at iv = None \<and>
    \<not> iv_expires_at iv < we_now env \<and> name = trim_space (sb_username b) \<and> pw = sb_password b \<and>
    3 \<le> length name \<and> 8 \<le> length pw \<and> same_accounts w w1"
proof -
  let ?name = "trim_space (sb_username b)" and ?code = "trim_space (sb_invite_code b)"
  let ?key = "to_lower (rq_client_ip rq @ ''|'' @ ?name)"
  obtain ok l2 where a: "allow (we_now env) ?key l = (ok, l2)" by fastforce
  obtain r v where r: "db_first_row env wb_invites (\<lambda>v. iv_code v = ?code) w = (r, v)" by fastforce
  obtain q x where q: "db_first_row env wb_users (same_username env ?name) v = (q, x)" by fastforce
  note step = assms [unfolded signup_check_def parse_json_body_def Let_def, simplified a r q split sum.case]
  from step have ok: "3 \<le> length ?name" "8 \<le> length (sb_password b)" "?code \<noteq> []" "ok"
    by (cases ok; simp split: if_splits)+
  show ?thesis
  proof (cases r)
    case (Inl e)
    with step ok a r show ?thesis by (cases e) simp_all
  next
    case (Inr i)
    with step ok a r q have i: "iv_used_at i = None" "\<not> iv_expires_at i < we_now env" by (simp_all split: if_splits)
    have "q = Inl ErrNotFound \<and> i = iv \<and> name = ?name \<and> pw = sb_password b \<and> x = w1"
    proof (cases q)
      case (Inl e)
      with step ok a r q Inr i \<open>r = Inr i\<close> show ?thesis by (cases e) (simp_all split: if_splits)
    next
      case (Inr u)
      with step ok a r q i \<open>r = Inr i\<close> show ?thesis by (simp split: if_splits)
    qed
    moreover have "i \<in> set (wb_invites w)" "iv_code i = ?code" using db_first_rowD [OF r [unfolded Inr]] by auto
    moreover have "same_accounts w x"
      by (rule same_accounts_trans [OF same_accounts_first [OF r] same_accounts_first [OF q]])
    ultimately show ?thesis using ok i by auto
  qed
qed

text \<open>An answer that reports an error, and no created account.\<close>

definition error_answer :: "ctx \<Rightarrow> ctx \<Rightarrow> bool" where
  "error_answer c c1 \<longleftrightarrow> (\<exists>s k m. s \<noteq> 201 \<and> cx_out c1 = cx_out c @ [(s, AError k m)])"

lemma error_answer_respond [simp]: "s \<noteq> 201 \<Longrightarrow> error_answer c (respond_error s k m c)"
  by (simp add: error_answer_def respond_error_def respond_status_def)

lemma signup_check_Inl:
  assumes "signup_check env rq (Inr b) c l w = (Inl c1, l1, w1)"
  shows "error_answer c c1"
proof -
  let ?name = "trim_space (sb_username b)" and ?code = "trim_space (sb_invite_code b)"
  let ?key = "to_lower (rq_client_ip rq @ ''|'' @ ?name)"
  obtain ok l2 where a: "allow (we_now env) ?key l = (ok, l2)" by fastforce
  obtain r v where r: "db_first_row env wb_invites (\<lambda>v. iv_code v = ?code) w = (r, v)" by fastforce
  obtain q x where q: "db_first_row env wb_users (same_username env ?name) v = (q, x)" by fastforce
  note step = assms [unfolded signup_check_def parse_json_body_def Let_def, simplified a r q split sum.case]
  show ?thesis
    using step by (auto split: if_splits bool.splits sum.splits goerr.splits)
qed

text \<open>A commit that reports success has run its transaction.\<close>

lemma signup_commit_201:
  assumes "signup_commit env rq iv name pw c w = (c1, w1)" and "(201, ALogin t n r) \<in> set (cx_out c1)"
    and "(201, ALogin t n r) \<notin> set (cx_out c)"
  shows "\<exists>u m. u_username u = name \<and> u_role u = invite_user_role iv \<and> n = name \<and> r = u_role u \<and>
    wb_users w1 = wb_users w @ [u] \<and> wb_members w1 = wb_members w @ [m] \<and> joined iv (u_id u) w m \<and>
    wb_invites w1 = map (\<lambda>v. if iv_id v = iv_id iv \<and> iv_used_at v = None
       then v\<lparr>iv_used_at := Some (we_now env), iv_used_by := Some (u_id u)\<rparr> else v) (wb_invites w)"
proof (cases "we_bcrypt env pw")
  case None
  with assms show ?thesis by (auto simp: signup_commit_def respond_error_def respond_status_def)
next
  case (Some h)
  let ?u = "\<lparr>u_id = we_uuid env (wb_uid w), u_username = name, u_password_hash = h, u_role = invite_user_role iv,
    u_totp_secret = None, u_totp_enabled = False, u_recovery_hash = None, u_recovery_exp = None,
     u_created_at = we_now env, u_updated_at = we_now env\<rparr>"
  let ?w = "w\<lparr>wb_uid := Suc (wb_uid w)\<rparr>"
  show ?thesis
  proof (cases rule: db_tx_cases [of env "signup_tx env iv ?u" ?w])
    case (failed e w')
    with assms Some show ?thesis
      by (auto simp: signup_commit_def new_uuid_def respond_error_def respond_status_def split: if_splits)
  next
    case (ok x v)
    have eq: "login_new_user env rq ?u c (wb_tick v) = (c1, w1)"
      using assms(1) Some ok(2) by (simp add: signup_commit_def new_uuid_def)
    have out: "n = name \<and> r = invite_user_role iv"
      using eq assms(2,3) by (auto simp: login_new_user_def respond_error_def respond_status_def set_refresh_cookie_def
          set_cookie_def split: option.splits sum.splits prod.splits)
    have same: "wb_users w1 = wb_users v" "wb_members w1 = wb_members v" "wb_invites w1 = wb_invites v"
      using login_new_user_same [of env rq ?u c "wb_tick v"] eq by simp_all
    from signup_tx_Inr [OF ok(1)] out same show ?thesis
      by (intro exI [of _ ?u]) (auto simp: joined_def split: if_splits)
  qed
qed

text \<open>A commit looks at the database only: whether the invite was used meanwhile does not matter.\<close>

lemma signup_tx_private:
  assumes "healthy_web env" and "invite_mode iv = ''create_private_stack''"
    and "u_id u \<notin> u_id ` set (wb_users w)"
    and "we_lower env (u_username u) \<notin> (\<lambda>v. we_lower env (u_username v)) ` set (wb_users w)"
    and "we_uuid env (wb_uid w) \<notin> og_id ` set (wb_orgs w)" and "u_id u \<notin> om_user_id ` set (wb_members w)"
  shows "\<exists>w1. signup_tx env iv u w = (Inr (), w1) \<and> wb_users w1 = wb_users w @ [u]"
proof -
  let ?g = "we_uuid env (wb_uid w)"
  have mem: "(?g, u_id u) \<notin> (\<lambda>r. (om_org_id r, om_user_id r)) ` set (wb_members w)" using assms(6) by auto
  show ?thesis
    using assms(2-5) mem
    by (simp add: signup_tx_def join_org_def new_uuid_def healthy_write [OF assms(1)] insert_user_def insert_org_def
        insert_member_def org_role_values_def use_invite_def)
qed

section \<open>The limiter\<close>

text \<open>How many of the calls for a key are allowed.\<close>

fun granted :: "string \<Rightarrow> (instant \<times> string) list \<Rightarrow> rate_limiter \<Rightarrow> int" where
  "granted k [] l = 0"
| "granted k ((t, key) # cs) l =
     (case allow t key l of (ok, l1) \<Rightarrow> (if ok \<and> key = k then 1 else 0) + granted k cs l1)"

lemma allow_settings [simp]:
  "rl_limit (snd (allow t key l)) = rl_limit l" "rl_window (snd (allow t key l)) = rl_window l"
  by (simp_all add: allow_def Let_def split: option.split)

lemma allow_other: "key \<noteq> k \<Longrightarrow> rl_entries (snd (allow t key l)) k = rl_entries l k"
  by (simp add: allow_def Let_def split: option.split)

text \<open>While the window of the key is open, what is left of its limit.\<close>

lemma granted_open:
  assumes "rl_entries l k = Some e" and "\<forall>x \<in> set cs. fst x \<le> re_reset_at e"
  shows "granted k cs l \<le> max 0 (rl_limit l - re_count e)"
  using assms
proof (induction cs arbitrary: l e)
  case (Cons call cs)
  obtain t key where call: "call = (t, key)" by fastforce
  obtain ok l1 where a: "allow t key l = (ok, l1)" by fastforce
  have set: "rl_limit l1 = rl_limit l" using allow_settings(1) [of t key l] a by simp
  show ?case
  proof (cases "key = k")
    case False
    then have "rl_entries l1 k = Some e" using allow_other [of key k t l] a Cons.prems(1) by simp
    from Cons.IH [OF this] Cons.prems(2) have "granted k cs l1 \<le> max 0 (rl_limit l1 - re_count e)" by simp
    then show ?thesis using False a call set by simp
  next
    case True
    have t: "\<not> re_reset_at e < t" using Cons.prems(2) call by simp
    show ?thesis
    proof (cases "rl_limit l \<le> re_count e")
      case full: True
      then have "ok = False" "l1 = l" using a True t Cons.prems(1) by (simp_all add: allow_def)
      with Cons.IH [OF Cons.prems(1)] Cons.prems(2) a call show ?thesis by simp
    next
      case False
      let ?e = "e\<lparr>re_count := re_count e + 1\<rparr>"
      have l1: "ok" "rl_entries l1 k = Some ?e" using a True t False Cons.prems(1) by (auto simp: allow_def)
      from Cons.IH [OF l1(2)] Cons.prems(2) have "granted k cs l1 \<le> max 0 (rl_limit l1 - (re_count e + 1))" by simp
      then show ?thesis using False a call set l1(1) True by simp
    qed
  qed
qed simp

definition left_over :: "string \<Rightarrow> rate_limiter \<Rightarrow> int" where
  "left_over k l = (case rl_entries l k of None \<Rightarrow> 0 | Some e \<Rightarrow> max 0 (rl_limit l - re_count e))"

lemma granted_any:
  assumes "1 \<le> rl_limit l" and "\<forall>x \<in> set cs. s \<le> fst x \<and> fst x \<le> s + rl_window l"
  shows "granted k cs l \<le> left_over k l + rl_limit l"
  using assms
proof (induction cs arbitrary: l)
  case Nil
  then show ?case by (simp add: left_over_def split: option.split)
next
  case (Cons call cs)
  obtain t key where call: "call = (t, key)" by fastforce
  obtain ok l1 where a: "allow t key l = (ok, l1)" by fastforce
  have set: "rl_limit l1 = rl_limit l" "rl_window l1 = rl_window l" using allow_settings [of t key l] a by simp_all
  have ih: "granted k cs l1 \<le> left_over k l1 + rl_limit l"
    using Cons.IH [of l1] Cons.prems set by simp
  show ?case
  proof (cases "key = k")
    case False
    then have "left_over k l1 = left_over k l" using allow_other [of key k t l] a set by (simp add: left_over_def split: option.split)
    then show ?thesis using ih False a call by simp
  next
    case True
    consider (fresh) "ok" "rl_entries l1 k = Some \<lparr>re_count = 1, re_reset_at = t + rl_window l\<rparr>"
      | (full) "\<not> ok" "l1 = l" | (counted) e where "ok" "rl_entries l k = Some e" "re_count e < rl_limit l"
          "rl_entries l1 k = Some (e\<lparr>re_count := re_count e + 1\<rparr>)"
      using a True by (auto simp: allow_def Let_def split: option.splits if_splits)
    then show ?thesis
    proof cases
      case fresh
      have "granted k cs l1 \<le> max 0 (rl_limit l1 - 1)"
        using granted_open [OF fresh(2), of cs] Cons.prems(2) call by fastforce
      moreover have "0 \<le> left_over k l" by (simp add: left_over_def split: option.split)
      ultimately show ?thesis using a call True fresh(1) set Cons.prems(1) by simp
    next
      case full
      then show ?thesis using ih a call by simp
    next
      case counted
      then have "left_over k l = left_over k l1 + 1" using set by (simp add: left_over_def)
      then show ?thesis using ih a call True counted(1) by simp
    qed
  qed
qed

end
