(* ===== verification/Session_Properties.thy ===== *)
theory Session_Properties
  imports Access_Properties Access_Signup
begin

text \<open>
  The properties of sign-ups, sessions and agents' credentials, each with a concrete instance.
\<close>

section \<open>Sign-ups\<close>

text \<open>C4: A sign-up follows its invite. When \<open>Signup\<close> answers with a session, there is an invite with
  the given code that was unused and had not expired; one user with the requested name and the invite's role
  and one membership are added, in a new organisation of which the user is the owner or in the invite's
  organisation with the invite's role; and the invite is used afterwards.\<close>
theorem signups_follow_invites:
  assumes "signup env rq (Inr b) new_ctx l w = (c1, l1, w1)" and "(201, ALogin t n r) \<in> set (cx_out c1)"
  shows "\<exists>iv u m. iv \<in> set (wb_invites w) \<and> iv_code iv = trim_space (sb_invite_code b) \<and> iv_used_at iv = None \<and>
    \<not> iv_expires_at iv < we_now env \<and> u_username u = trim_space (sb_username b) \<and> u_role u = invite_user_role iv \<and>
    n = u_username u \<and> r = u_role u \<and> wb_users w1 = wb_users w @ [u] \<and> wb_members w1 = wb_members w @ [m] \<and>
    joined iv (u_id u) w m \<and> list_all (\<lambda>v. iv_id v = iv_id iv \<longrightarrow> iv_used_at v \<noteq> None) (wb_invites w1)"
proof -
  have none: "(201, ALogin t n r) \<notin> set (cx_out new_ctx)" by (simp add: new_ctx_def)
  obtain x v l2 where x: "signup_check env rq (Inr b) new_ctx l w = (x, l2, v)" using prod_cases3 by blast
  show ?thesis
  proof (cases x)
    case (Inl c2)
    with x assms(1) have "c1 = c2" by (simp add: signup_def)
    with signup_check_Inl [OF x [unfolded Inl]] assms(2) none show ?thesis by (auto simp: error_answer_def)
  next
    case (Inr y)
    obtain iv name pw where y: "y = (iv, name, pw)" using prod_cases3 by blast
    obtain c2 v2 where com: "signup_commit env rq iv name pw new_ctx v = (c2, v2)" by fastforce
    have eq: "c1 = c2" "w1 = v2" using assms(1) x Inr y com by (simp_all add: signup_def)
    note chk = signup_check_Inr [OF x [unfolded Inr y]]
    from signup_commit_201 [OF com assms(2) [unfolded eq(1)] none] obtain u m where
      u: "u_username u = name" "u_role u = invite_user_role iv" "n = name" "r = u_role u"
      "wb_users v2 = wb_users v @ [u]" "wb_members v2 = wb_members v @ [m]" "joined iv (u_id u) v m"
      "wb_invites v2 = map (\<lambda>v. if iv_id v = iv_id iv \<and> iv_used_at v = None
         then v\<lparr>iv_used_at := Some (we_now env), iv_used_by := Some (u_id u)\<rparr> else v) (wb_invites v)" by blast
    have tabs: "wb_users v = wb_users w" "wb_members v = wb_members w" "wb_orgs v = wb_orgs w"
      using chk by (simp_all add: same_accounts_def)
    have "joined iv (u_id u) w m" using u(7) tabs by (simp add: joined_def split: if_splits)
    moreover have "list_all (\<lambda>v. iv_id v = iv_id iv \<longrightarrow> iv_used_at v \<noteq> None) (wb_invites v2)"
      unfolding u(8) by (auto simp: list_all_iff)
    ultimately show ?thesis
      using chk u(1-6) tabs eq(2) by (intro exI [of _ iv] exI [of _ u] exI [of _ m]) simp
  qed
qed

definition ax_signup :: "string \<Rightarrow> string \<Rightarrow> signup_body" where
  "ax_signup code name = \<lparr>sb_invite_code = code, sb_username = name, sb_password = ''secret-12''\<rparr>"

lemma ax_text [simp]:
  "trim_space ''own'' = ''own''" "trim_space ''dora'' = ''dora''" "trim_space ''emil'' = ''emil''"
  "trim_space ''create_private_stack'' = ''create_private_stack''" "trim_space ''owner'' = ''owner''"
  "to_lower ''owner'' = ''owner''" "trim_space ''198.51.100.7'' = ''198.51.100.7''"
  by code_simp+

text \<open>What the check finds for a new name and the code of the first invite.\<close>

lemma ax_signup_check:
  assumes "name \<in> {''dora'', ''emil''}" and "wb_invites w = wb_invites ax_web" and "wb_users w = wb_users ax_web"
    and "fst (allow 1000 (to_lower (''198.51.100.7|'' @ name)) l) = True"
  shows "signup_check ax_env (ax_request tok []) (Inr (ax_signup ''own'' name)) c l w =
    (Inr (ax_invite 20 ''own'' ''create_private_stack'' None, name, ''secret-12''),
     snd (allow 1000 (to_lower (''198.51.100.7|'' @ name)) l), wb_tick (wb_tick w))"
proof -
  obtain l2 where a: "allow 1000 (to_lower (''198.51.100.7|'' @ name)) l = (True, l2)"
    using assms(4) by (metis prod.collapse)
  have n: "trim_space name = name" "3 \<le> length name" using assms(1) by auto
  have u: "find (same_username ax_env name) (wb_users (wb_tick w)) = None"
    using assms(1,3) by (auto simp: ax_web_def ax_user_def same_username_def)
  show ?thesis
    using n a u assms(2) by (simp add: signup_check_def parse_json_body_def ax_signup_def healthy_web_simps
        ax_request_def ax_web_def ax_invite_def)
qed

lemma ax_signup_commit:
  fixes tok
  defines "res \<equiv> signup_commit ax_env (ax_request tok []) (ax_invite 20 ''own'' ''create_private_stack'' None) ''dora''
     ''secret-12'' new_ctx (wb_tick (wb_tick ax_web))"
  shows "cx_out (fst res) = [(0, ACookie ''r'' 2592000 True), (201, ALogin ''signed'' ''dora'' ''admin'')]"
    "wb_uid (snd res) = 3" "map u_username (wb_users (snd res)) = [''vic'', ''ann'', ''bob'', ''dora'']"
    "map u_id (wb_users (snd res)) = [1, 2, 3, 100]" "map om_user_id (wb_members (snd res)) = [1, 2, 100]"
    "map og_id (wb_orgs (snd res)) = [10, 101]"
proof -
  have host: "\<not> contains (to_lower ''panel.example'') ''localhost''" "\<not> prefix ''127.0.0.1'' (to_lower ''panel.example'')"
    "equal_fold [] ''https'' = False" "trim_space [] = []" "to_lower [] = []"
    by code_simp+
  show "cx_out (fst res) = [(0, ACookie ''r'' 2592000 True), (201, ALogin ''signed'' ''dora'' ''admin'')]"
    "wb_uid (snd res) = 3" "map u_username (wb_users (snd res)) = [''vic'', ''ann'', ''bob'', ''dora'']"
    "map u_id (wb_users (snd res)) = [1, 2, 3, 100]" "map om_user_id (wb_members (snd res)) = [1, 2, 100]"
    "map og_id (wb_orgs (snd res)) = [10, 101]"
    by (simp_all add: res_def signup_commit_def new_uuid_def healthy_web_simps signup_tx_def insert_user_def ax_web_def ax_user_def
        ax_invite_def invite_mode_def invite_user_role_def join_org_def insert_org_def insert_member_def
        org_role_values_def use_invite_def login_new_user_def issue_access_token_def issue_refresh_token_def draw_def
        insert_refresh_def ttl_or_default_def hour_def minute_def second_def set_refresh_cookie_def set_cookie_def
        cookie_secure_def ax_request_def host new_ctx_def respond_status_def role_admin_def same_username_def)
qed

lemma ax_allow: "allow 1000 key signup_limiter =
    (True, signup_limiter\<lparr>rl_entries := [key \<mapsto> \<lparr>re_count = 1, re_reset_at = 1000 + 600000000000\<rparr>]\<rparr>)"
  by (simp add: allow_def signup_limiter_def new_signup_limiter_def minute_def)

theorem signups_follow_invites_witness:
  "\<exists>u. u_username u = ''dora'' \<and>
     wb_users (snd (snd (signup ax_env (ax_request ''vic'' []) (Inr (ax_signup ''own'' ''dora'')) new_ctx signup_limiter ax_web))) =
     wb_users ax_web @ [u]"
proof -
  let ?rq = "ax_request ''vic'' []" and ?b = "ax_signup ''own'' ''dora''"
  have chk: "signup_check ax_env ?rq (Inr ?b) new_ctx signup_limiter ax_web =
      (Inr (ax_invite 20 ''own'' ''create_private_stack'' None, ''dora'', ''secret-12''),
       snd (allow 1000 (to_lower (''198.51.100.7|'' @ ''dora'')) signup_limiter), wb_tick (wb_tick ax_web))"
    by (rule ax_signup_check) (simp_all add: ax_allow)
  obtain c1 w1 where com: "signup_commit ax_env ?rq (ax_invite 20 ''own'' ''create_private_stack'' None) ''dora'' ''secret-12''
      new_ctx (wb_tick (wb_tick ax_web)) = (c1, w1)" by fastforce
  have s: "signup ax_env ?rq (Inr ?b) new_ctx signup_limiter ax_web =
      (c1, snd (allow 1000 (to_lower (''198.51.100.7|'' @ ''dora'')) signup_limiter), w1)"
    by (simp add: signup_def chk com)
  have "(201, ALogin ''signed'' ''dora'' ''admin'') \<in> set (cx_out c1)" using ax_signup_commit(1) [of "''vic''"] com by simp
  from signups_follow_invites [OF s this] obtain u where
    "u_username u = trim_space (sb_username ?b)" "wb_users w1 = wb_users ax_web @ [u]" by blast
  moreover from this have "u_username u = ''dora''" by (simp add: ax_signup_def)
  ultimately show ?thesis by (intro exI [of _ u]) (simp add: s)
qed

text \<open>An invite is redeemed more than once. When a request has read an unused invite for a
  private stack, and another request with the same invite commits its sign-up before this one writes, this one
  still gets an account with the role \<open>admin\<close>: the update of \<open>used_at\<close> is conditional, but the number
  of updated rows is not looked at.\<close>
theorem invites_are_redeemed_twice:
  assumes "healthy_web env" and "signup_check env rq (Inr b) c l w = (Inr (iv, name, pw), l1, w1)"
    and "invite_mode iv = ''create_private_stack''" and "we_bcrypt env pw = Some h"
    and "signup_commit env rq' iv name' pw' c' w1 = (c2, w2)"
    and "we_lower env name \<notin> (\<lambda>v. we_lower env (u_username v)) ` set (wb_users w2)"
    and "we_uuid env (wb_uid w2) \<notin> u_id ` set (wb_users w2) \<union> om_user_id ` set (wb_members w2)"
    and "we_uuid env (Suc (wb_uid w2)) \<notin> og_id ` set (wb_orgs w2)"
  shows "\<exists>u. u_username u = name \<and> u_role u = role_admin \<and>
    wb_users (snd (signup_commit env rq iv name pw c w2)) = wb_users w2 @ [u]"
proof -
  let ?u = "\<lparr>u_id = we_uuid env (wb_uid w2), u_username = name, u_password_hash = h, u_role = invite_user_role iv,
    u_totp_secret = None, u_totp_enabled = False, u_recovery_hash = None, u_recovery_exp = None,
     u_created_at = we_now env, u_updated_at = we_now env\<rparr>"
  let ?w = "wb_tick (w2\<lparr>wb_uid := Suc (wb_uid w2)\<rparr>)"
  obtain w3 where w3: "signup_tx env iv ?u ?w = (Inr (), w3)" "wb_users w3 = wb_users ?w @ [?u]"
    using signup_tx_private [OF assms(1,3), of ?u ?w] assms(6-8) by auto
  then have "db_tx env (signup_tx env iv ?u) (w2\<lparr>wb_uid := Suc (wb_uid w2)\<rparr>) = (Inr (), wb_tick w3)"
    by (simp add: healthy_tx [OF assms(1)])
  then have "snd (signup_commit env rq iv name pw c w2) = snd (login_new_user env rq ?u c (wb_tick w3))"
    using assms(4) by (simp add: signup_commit_def new_uuid_def)
  then have "wb_users (snd (signup_commit env rq iv name pw c w2)) = wb_users w2 @ [?u]"
    using w3(2) by (simp add: login_new_user_same)
  then show ?thesis using assms(3) by (intro exI [of _ ?u]) (simp add: invite_user_role_def)
qed

theorem invites_are_redeemed_twice_witness:
  "\<exists>u. u_username u = ''emil'' \<and> u_role u = role_admin \<and>
     wb_users (snd (signup_commit ax_env (ax_request ''vic'' []) (ax_invite 20 ''own'' ''create_private_stack'' None)
       ''emil'' ''secret-12'' new_ctx
       (snd (signup_commit ax_env (ax_request ''ann'' []) (ax_invite 20 ''own'' ''create_private_stack'' None) ''dora''
          ''secret-12'' new_ctx (wb_tick (wb_tick ax_web)))))) =
     wb_users (snd (signup_commit ax_env (ax_request ''ann'' []) (ax_invite 20 ''own'' ''create_private_stack'' None) ''dora''
          ''secret-12'' new_ctx (wb_tick (wb_tick ax_web)))) @ [u]"
proof -
  let ?iv = "ax_invite 20 ''own'' ''create_private_stack'' None" and ?w1 = "wb_tick (wb_tick ax_web)"
  obtain c2 w2 where com: "signup_commit ax_env (ax_request ''ann'' []) ?iv ''dora'' ''secret-12'' new_ctx ?w1 = (c2, w2)"
    by fastforce
  have chk: "signup_check ax_env (ax_request ''vic'' []) (Inr (ax_signup ''own'' ''emil'')) new_ctx signup_limiter ax_web =
      (Inr (?iv, ''emil'', ''secret-12''), snd (allow 1000 (to_lower (''198.51.100.7|'' @ ''emil'')) signup_limiter), ?w1)"
    by (rule ax_signup_check) (simp_all add: ax_allow)
  note st = ax_signup_commit [of "''ann''", unfolded com]
  have names: "''emil'' \<notin> u_username ` set (wb_users w2)" using arg_cong [OF st(3), of set] by auto
  have ids: "103 \<notin> u_id ` set (wb_users w2) \<union> om_user_id ` set (wb_members w2)" "104 \<notin> og_id ` set (wb_orgs w2)"
    using arg_cong [OF st(4), of set] arg_cong [OF st(5), of set] arg_cong [OF st(6), of set] by auto
  have uid: "wb_uid w2 = 3" using st(2) by simp
  have "\<exists>u. u_username u = ''emil'' \<and> u_role u = role_admin \<and>
      wb_users (snd (signup_commit ax_env (ax_request ''vic'' []) ?iv ''emil'' ''secret-12'' new_ctx w2)) = wb_users w2 @ [u]"
    by (rule invites_are_redeemed_twice [OF ax_healthy chk _ _ com])
      (use names ids in \<open>simp_all add: uid ax_invite_def invite_mode_def\<close>)
  then show ?thesis by (simp add: com)
qed

text \<open>The limiter. Of the requests with one key that arrive within a span as long as the window, fewer
  than twice the limit are allowed, whatever happened before and whatever other keys do; for a key without an
  entry at most the limit.\<close>
theorem limiter_bounds_attempts:
  assumes "1 \<le> rl_limit l" and "\<forall>x \<in> set cs. s \<le> fst x \<and> fst x \<le> s + rl_window l"
    and "\<And>e. rl_entries l k = Some e \<Longrightarrow> 1 \<le> re_count e"
  shows "granted k cs l < 2 * rl_limit l \<and> (k \<in> dom (rl_entries l) \<or> granted k cs l \<le> rl_limit l)"
proof -
  have "left_over k l < rl_limit l" using assms(1,3) by (auto simp: left_over_def split: option.split)
  moreover have "k \<notin> dom (rl_entries l) \<Longrightarrow> left_over k l = 0"
    by (auto simp: left_over_def split: option.split)
  ultimately show ?thesis using granted_any [OF assms(1,2), of k] by fastforce
qed

theorem limiter_bounds_attempts_witness:
  "granted ''a'' [(1, ''a''), (2, ''a''), (2, ''b''), (3, ''a''), (4, ''a''), (5, ''a''), (6, ''a''), (7, ''a'')] signup_limiter < 10"
proof -
  have l: "rl_limit signup_limiter = 5" "rl_window signup_limiter = 600000000000" "rl_entries signup_limiter = Map.empty"
    by (simp_all add: signup_limiter_def new_signup_limiter_def minute_def)
  show ?thesis
    using limiter_bounds_attempts [of signup_limiter "[(1, ''a''), (2, ''a''), (2, ''b''), (3, ''a''), (4, ''a''),
      (5, ''a''), (6, ''a''), (7, ''a'')]" 0 "''a''"] by (simp only: l) simp
qed


text \<open>
  The properties of sessions, of agents' credentials and of what members may read, each with a concrete
  instance.
\<close>

section \<open>Agents\<close>

lemma put_cred_rows:
  "\<exists>r \<in> set (wb_creds (put_cred env node h w)). cr_node_id r = node \<and> cr_token_hash r = h \<and> cr_revoked_at r = None"
  "r \<in> set (wb_creds (put_cred env node h w)) \<Longrightarrow> cr_node_id r = node \<or> r \<in> set (wb_creds w)"
proof -
  show "\<exists>r \<in> set (wb_creds (put_cred env node h w)). cr_node_id r = node \<and> cr_token_hash r = h \<and> cr_revoked_at r = None"
  proof (cases "row_get cr_node_id node (wb_creds w)")
    case (Some r)
    then have r: "r \<in> set (wb_creds w)" "cr_node_id r = node" by (auto dest: row_get_SomeD)
    let ?f = "\<lambda>r. r\<lparr>cr_token_hash := h, cr_revoked_at := None, cr_last_seen := Some (we_now env)\<rparr>"
    have "?f r \<in> set (row_upd cr_node_id node ?f (wb_creds w))"
      unfolding row_upd_def set_map using r by (intro image_eqI [of _ _ r]) simp_all
    then show ?thesis using Some r by (intro bexI [of _ "?f r"]) (simp_all add: put_cred_def)
  qed (simp add: put_cred_def)
  show "r \<in> set (wb_creds (put_cred env node h w)) \<Longrightarrow> cr_node_id r = node \<or> r \<in> set (wb_creds w)"
    by (auto simp: put_cred_def row_upd_def split: option.splits if_splits)
qed

lemma register_tx_creds:
  assumes "register_tx env reg node h w = (Inr x, w1)"
  shows "\<exists>v. wb_creds v = wb_creds w \<and> wb_creds w1 = wb_creds (put_cred env node h v) \<and>
    wb_regs w1 = wb_regs (use_reg_token env (rg_id reg) w)"
proof (cases rule: db_write_cases [of env "\<lambda>v. Inr (use_reg_token env (rg_id reg) v)" w])
  case (failed e)
  with assms show ?thesis by (simp add: register_tx_def)
next
  case (ok v)
  note first = this
  show ?thesis
  proof (cases rule: db_write_cases [of env "\<lambda>v. Inr (put_cred env node h v)" v])
    case (failed e)
    with assms first show ?thesis by (simp add: register_tx_def)
  next
    case (ok v2)
    with assms first have "w1 = put_cred env node h (wb_tick v)" "v = use_reg_token env (rg_id reg) (wb_tick w)"
      by (simp_all add: register_tx_def)
    then show ?thesis
      by (intro exI [of _ "wb_tick v"]) (simp add: use_reg_token_def put_cred_def split: option.split)
  qed
qed

lemma least_row_ex: "rs \<noteq> [] \<Longrightarrow> \<exists>r. least_row le rs = Some r"
  by (cases rs) (simp_all split: option.split)

text \<open>A registration that is answered with a token has stored its hash for the node.\<close>

lemma agent_register_200:
  assumes "agent_register env (Inr b) new_ctx w = (c1, w1)" and "(200, AAgent token i org name) \<in> set (cx_out c1)"
  shows "(\<exists>v. wb_creds v = wb_creds w \<and> wb_creds w1 = wb_creds (put_cred env i (hash_token env token) v)) \<and>
    (\<exists>reg \<in> set (wb_regs w). rg_node_id reg = i \<and> rg_token_hash reg = hash_token env (trim_space (rb_token b)) \<and>
       rg_used_at reg = None \<and> \<not> rg_expires_at reg < we_now env \<and>
       wb_regs w1 = wb_regs (use_reg_token env (rg_id reg) w))"
proof -
  define p :: "reg_token \<Rightarrow> bool" where
    "p = (\<lambda>r. rg_node_id r = the (we_parse env (trim_space (rb_node_id b))) \<and>
       rg_token_hash r = hash_token env (trim_space (rb_token b)))"
  define le :: "reg_token \<Rightarrow> reg_token \<Rightarrow> bool" where "le = (\<lambda>a b. rg_id a \<le> rg_id b)"
  obtain x v where x: "find_reg env (Inr b) new_ctx w = (x, v)" by fastforce
  obtain q y where q: "db_least_row env wb_regs p le w = (q, y)" by fastforce
  have y: "y = wb_tick w" using db_least_row_world [of env wb_regs p le w] q by simp
  show ?thesis
  proof (cases x)
    case (Inl c2)
    have "(200, AAgent token i org name) \<notin> set (cx_out c2)"
      using x Inl q by (auto simp: find_reg_def parse_json_body_def Let_def p_def le_def new_ctx_def respond_error_def
          respond_status_def split: option.splits if_splits sum.splits goerr.splits prod.splits)
    then show ?thesis using assms x Inl by (simp add: agent_register_def)
  next
    case (Inr z)
    obtain reg node where z: "z = (reg, node)" by fastforce
    have fr: "we_parse env (trim_space (rb_node_id b)) = Some node \<and> q = Inr reg \<and> v = y \<and> rg_used_at reg = None \<and>
        \<not> rg_expires_at reg < we_now env"
      using x Inr z q by (auto simp: find_reg_def parse_json_body_def Let_def p_def le_def
          split: option.splits if_splits sum.splits goerr.splits prod.splits)
    then have reg: "reg \<in> set (wb_regs w)" "rg_node_id reg = node"
        "rg_token_hash reg = hash_token env (trim_space (rb_token b))"
      using db_least_rowD [of env wb_regs p le w reg y] q by (auto simp: p_def)
    have fin: "finish_register env reg node new_ctx v = (c1, w1)" using assms(1) x Inr z by (simp add: agent_register_def)
    obtain r v1 where n: "db_first_row env wb_nodes (\<lambda>n. n_id n = node) v = (r, v1)" by fastforce
    have v1: "v1 = wb_tick v" using db_first_row_world [of env wb_nodes "\<lambda>n. n_id n = node" v] n by simp
    obtain g v2 where g: "generate_token env ''AGENT_'' v1 = (g, v2)" by fastforce
    have v2: "wb_creds v2 = wb_creds v1 \<and> wb_regs v2 = wb_regs v1"
      using g by (auto simp: generate_token_def draw_def split: option.splits)
    from fin assms(2) n g obtain nd t where r: "r = Inr nd" "g = Some t"
      by (cases r; cases g) (auto simp: finish_register_def respond_error_def respond_status_def new_ctx_def)
    have nd: "n_id nd = node" using db_first_rowD [OF n [unfolded r(1)]] by simp
    show ?thesis
    proof (cases rule: db_tx_cases [of env "register_tx env reg node (hash_token env t)" v2])
      case (failed e v3)
      with fin assms(2) n g r show ?thesis
        by (auto simp: finish_register_def respond_error_def respond_status_def new_ctx_def)
    next
      case (ok u v3)
      with fin n g r have c1: "c1 = respond_status 200 (AAgent t (n_id nd) (n_org_id nd) (n_name nd)) new_ctx"
          "w1 = snd (db_write env (\<lambda>v. Inr (seen_node env node v)) (wb_tick v3))"
        by (simp_all add: finish_register_def)
      have ti: "t = token" "i = node" using c1(1) assms(2) nd by (simp_all add: respond_status_def new_ctx_def)
      have w1: "wb_creds w1 = wb_creds v3" "wb_regs w1 = wb_regs v3"
        unfolding c1(2) by (simp_all add: db_write_def seen_node_def)
      from register_tx_creds [OF ok(1)] obtain v4 where
        "wb_creds v4 = wb_creds v2" "wb_creds v3 = wb_creds (put_cred env node (hash_token env t) v4)"
        "wb_regs v3 = wb_regs (use_reg_token env (rg_id reg) (wb_tick v2))" by auto
      then show ?thesis using w1 v2 v1 fr y reg ti by (auto simp: use_reg_token_def)
    qed
  qed
qed

text \<open>C37: An agent gets in with the token it was given. When a registration is answered with a token for a
  node, the registration token was one of that node, unused and not expired, and is used now; and a request that
  carries the token passes \<open>AgentAuth\<close> as that node, as long as no other node's credential has the
  same hash.\<close>
theorem registered_agents_get_in:
  assumes "healthy_web env" and "agent_register env (Inr b) new_ctx w = (c1, w1)"
    and "(200, AAgent token i org name) \<in> set (cx_out c1)"
    and "rq_header rq ''Authorization'' = ''Bearer '' @ token" and "trim_space token = token" and "token \<noteq> []"
    and "\<And>r. r \<in> set (wb_creds w) \<Longrightarrow> cr_token_hash r = hash_token env token \<Longrightarrow> cr_node_id r = i"
  shows "agent_auth env rq c w1 = (c\<lparr>cx_agent_node := Some i\<rparr>, wb_tick w1) \<and>
    (\<exists>reg \<in> set (wb_regs w). rg_node_id reg = i \<and> rg_token_hash reg = hash_token env (trim_space (rb_token b)) \<and>
       rg_used_at reg = None \<and> \<not> rg_expires_at reg < we_now env \<and>
       list_all (\<lambda>r. rg_id r = rg_id reg \<longrightarrow> rg_used_at r \<noteq> None) (wb_regs w1))"
proof -
  let ?h = "hash_token env token"
  define p :: "agent_cred \<Rightarrow> bool" where "p = (\<lambda>r. cr_token_hash r = ?h \<and> cr_revoked_at r = None)"
  define le :: "agent_cred \<Rightarrow> agent_cred \<Rightarrow> bool" where "le = (\<lambda>a b. cr_node_id a \<le> cr_node_id b)"
  note reg = agent_register_200 [OF assms(2,3)]
  then obtain v where v: "wb_creds v = wb_creds w" "wb_creds w1 = wb_creds (put_cred env i ?h v)" by blast
  have all: "cr_node_id r = i" if "r \<in> set (wb_creds w1)" "p r" for r
    using that put_cred_rows(2) [of r env i ?h v] v assms(7) by (auto simp: p_def)
  obtain r0 where "r0 \<in> set (wb_creds w1)" "p r0" using put_cred_rows(1) [of env i ?h v] v by (auto simp: p_def)
  then have "filter p (wb_creds w1) \<noteq> []" by (auto simp: filter_empty_conv)
  then obtain r where r: "least_row le (filter p (wb_creds w1)) = Some r"
    using least_row_ex by blast
  then have "r \<in> set (wb_creds w1)" "p r" using least_row_mem [OF r] by auto
  then have ri: "cr_node_id r = i" by (rule all)
  have "db_least_row env wb_creds p le w1 = (Inr r, wb_tick w1)" by (simp add: healthy_least [OF assms(1)] r)
  then have "agent_auth env rq c w1 = (c\<lparr>cx_agent_node := Some i\<rparr>, wb_tick w1)"
    using assms(4-6) ri by (simp add: agent_auth_def trim_prefix_def Let_def p_def le_def)
  moreover obtain g where g: "g \<in> set (wb_regs w)" "rg_node_id g = i"
      "rg_token_hash g = hash_token env (trim_space (rb_token b))" "rg_used_at g = None" "\<not> rg_expires_at g < we_now env"
      "wb_regs w1 = wb_regs (use_reg_token env (rg_id g) w)" using reg by blast
  moreover have "list_all (\<lambda>r. rg_id r = rg_id g \<longrightarrow> rg_used_at r \<noteq> None) (wb_regs w1)"
    unfolding g(6) by (auto simp: use_reg_token_def list_all_iff)
  ultimately show ?thesis by (intro conjI bexI [of _ g]) simp_all
qed

definition ax_agent_token :: string where
  "ax_agent_token = ''AGENT_r''"

theorem registered_agents_get_in_witness:
  "fst (agent_auth ax_env (ax_request ax_agent_token []) new_ctx
     (snd (agent_register ax_env (Inr \<lparr>rb_node_id = uuid_text 7, rb_token = ''reg''\<rparr>) new_ctx ax_web))) =
   new_ctx\<lparr>cx_agent_node := Some 7\<rparr>"
proof -
  have ts: "trim_space ''reg'' = ''reg''" "trim_space ''AGENT_'' = ''AGENT_''" "trim_space ''salt'' = ''salt''"
    "trim_space ax_agent_token = ax_agent_token" "trim_space (uuid_text 7) = uuid_text 7"
    by (code_simp, code_simp, code_simp, code_simp, rule uc.trim_str)
  let ?b = "\<lparr>rb_node_id = uuid_text 7, rb_token = ''reg''\<rparr>"
  obtain c1 w1 where reg: "agent_register ax_env (Inr ?b) new_ctx ax_web = (c1, w1)" by fastforce
  have "(200, AAgent ax_agent_token 7 (Some 10) ''a'') \<in> set (cx_out (fst (agent_register ax_env (Inr ?b) new_ctx ax_web)))"
    by (simp add: Let_def agent_register_def find_reg_def parse_json_body_def ts healthy_web_simps hash_token_def
        finish_register_def ax_web_def ex_node_def generate_token_def draw_def register_tx_def use_reg_token_def
        put_cred_def respond_status_def new_ctx_def ax_agent_token_def)
  then have out: "(200, AAgent ax_agent_token 7 (Some 10) ''a'') \<in> set (cx_out c1)" by (simp add: reg)
  have "agent_auth ax_env (ax_request ax_agent_token []) new_ctx w1 = (new_ctx\<lparr>cx_agent_node := Some 7\<rparr>, wb_tick w1)"
    by (rule registered_agents_get_in [OF ax_healthy reg out, THEN conjunct1])
      (simp_all add: ts, simp_all add: ax_request_def ax_agent_token_def ax_web_def)
  then show ?thesis by (simp add: reg)
qed

section \<open>Sessions\<close>

text \<open>A logout ends the session. After a logout with a refresh token, a refresh with the same token is
  answered with 401 and nothing else, however many rows have its hash and whenever they expire.\<close>
theorem logout_ends_session:
  assumes "healthy_web env" and "require_xhr rq" and "require_xhr rq'"
    and "read_refresh_cookie rq = raw" and "read_refresh_cookie rq' = raw" and "raw \<noteq> []"
    and "logout env rq c w = (c1, w1)"
  shows "refresh env rq' new_ctx w1 =
    (respond_error 401 ''UNAUTHORIZED'' ''invalid refresh token'' new_ctx, wb_tick w1)"
proof -
  have "w1 = revoke_token env (hash_refresh_token env raw) (wb_tick w)"
    using assms by (simp add: logout_def Let_def healthy_write)
  then have "find (live_token env (hash_refresh_token env raw)) (wb_refresh w1) = None"
    by (auto simp: find_None_iff live_token_def revoke_token_def)
  then show ?thesis using assms(3,5,6) by (simp add: refresh_def Let_def healthy_first [OF assms(1)])
qed

theorem logout_ends_session_witness:
  "fst (refresh ax_env (ax_request [] []) new_ctx (snd (logout ax_env (ax_request [] []) new_ctx ax_web))) =
   respond_error 401 ''UNAUTHORIZED'' ''invalid refresh token'' new_ctx"
proof -
  have rq: "require_xhr (ax_request [] [])" "read_refresh_cookie (ax_request [] []) = ''r''"
    by (simp_all add: require_xhr_def read_refresh_cookie_def ax_request_def) code_simp+
  obtain c1 w1 where "logout ax_env (ax_request [] []) new_ctx ax_web = (c1, w1)" by fastforce
  with logout_ends_session [OF ax_healthy rq(1) rq(1) rq(2) rq(2) _ this] show ?thesis by simp
qed

section \<open>What members and strangers may read\<close>

text \<open>A viewer reads the codes of the organisation's invites. The route that lists invites asks for the
  rank of a viewer only, and the list has the code of every invite, those that make their user an owner included.\<close>
theorem viewers_read_invite_codes:
  assumes "gin_runs go" and "healthy_web env" and "bearer_claims env rq = Some cl"
    and "we_parse env (trim_space (rq_param rq ''orgId'')) = Some org" and "we_parse env (we_text env org) = Some org"
    and "we_text env org \<noteq> []" and "u \<in> set (wb_users w)" and "same_username env (claims_actor cl) u"
    and "\<And>y. y \<in> set (wb_users w) \<Longrightarrow> same_username env (claims_actor cl) y \<Longrightarrow> y = u"
    and "m \<in> set (wb_members w)" and "om_org_id m = org" and "om_user_id m = u_id u" and "om_role m = ''viewer''"
    and "\<And>y. y \<in> set (wb_members w) \<Longrightarrow> om_org_id y = org \<and> om_user_id y = u_id u \<Longrightarrow> y = m"
    and "iv \<in> set (wb_invites w)" and "iv_target_org iv = Some org" and "active_invite env iv"
  shows "\<exists>ivs. cx_out (fst (go (guard_chain env rq (Org ''viewer'') @ [org_list_invites env rq]) new_ctx w)) =
    [(200, AInvites ivs)] \<and> iv \<in> set ivs"
proof -
  let ?c1 = "login_claims cl new_ctx"
  let ?c2 = "?c1\<lparr>cx_org_id := we_text env org, cx_org_role := ''viewer''\<rparr>" and ?w2 = "wb_tick (wb_tick w)"
  have "find (same_username env (claims_actor cl)) (wb_users w) = Some u"
    by (rule find_unique [of u]) (rule assms(7-9))+
  moreover have "find (\<lambda>m. om_org_id m = org \<and> om_user_id m = u_id u) (wb_members w) = Some m"
    by (rule find_unique [of m]) (use assms(10-12) in simp_all, rule assms(14))
  moreover have "cx_actor ?c1 \<noteq> []" by (simp add: web claims_actor_def Let_def)
  ultimately have org: "require_org_role env ''viewer'' rq ?c1 w = (?c2, ?w2)"
    using assms(4,13) by (simp add: require_org_role_def find_member_def healthy_first [OF assms(2)] web has_min_role_def)
  have jwt: "jwt_auth env rq new_ctx w = (?c1, w)" by (simp add: jwt_auth_eq assms(3))
  let ?ivs = "newest iv_created_at (filter (\<lambda>i. iv_target_org i = Some org \<and>
    (trim_space (rq_query rq ''active'') = ''1'' \<longrightarrow> active_invite env i)) (wb_invites ?w2))"
  have list: "org_list_invites env rq ?c2 ?w2 = (respond_status 200 (AInvites ?ivs) ?c2, wb_tick ?w2)"
    using assms(5,6) by (simp add: org_list_invites_def with_org_def invite_list_def Let_def healthy_query [OF assms(2)])
  have ab: "\<not> cx_aborted ?c1" "\<not> cx_aborted ?c2" by (simp_all add: web new_ctx_def)
  have "go (guard_chain env rq (Org ''viewer'') @ [org_list_invites env rq]) new_ctx w =
      go [org_list_invites env rq] ?c2 ?w2"
    using go_pass [of go "jwt_auth env rq", OF assms(1) jwt ab(1)]
      go_pass [of go "require_org_role env ''viewer'' rq", OF assms(1) org ab(2)] by simp
  also have "\<dots> = (respond_status 200 (AInvites ?ivs) ?c2, wb_tick ?w2)"
    by (rule go_one [of go "org_list_invites env rq", OF assms(1) list])
  finally have "cx_out (fst (go (guard_chain env rq (Org ''viewer'') @ [org_list_invites env rq]) new_ctx w)) =
      [(200, AInvites ?ivs)]"
    by (simp add: respond_status_def web new_ctx_def)
  moreover have "iv \<in> set ?ivs" using assms(15-17) by (simp add: newest_def)
  ultimately show ?thesis by blast
qed

theorem viewers_read_invite_codes_witness:
  "\<exists>ivs. cx_out (fst (run_chain (guard_chain ax_env (ax_request ''vic'' (uuid_text 10)) (Org ''viewer'') @
       [org_list_invites ax_env (ax_request ''vic'' (uuid_text 10))]) new_ctx ax_web)) = [(200, AInvites ivs)] \<and>
     ax_invite 21 ''join'' ''join_existing_stack'' (Some 10) \<in> set ivs"
proof -
  have ts: "trim_space (uuid_text 10) = uuid_text 10" "uuid_text 10 \<noteq> []" by (rule uc.trim_str) (rule uc.str_ne)
  have rq: "rq_param (ax_request ''vic'' (uuid_text 10)) ''orgId'' = uuid_text 10" by (simp add: ax_request_def)
  let ?cl = "\<lparr>cl_user = ''vic'', cl_role = ''viewer'', cl_subject = []\<rparr>"
  show ?thesis
    by (rule viewers_read_invite_codes [of run_chain ax_env _ ?cl 10 "ax_user 1 ''vic''" _
          "\<lparr>om_org_id = 10, om_user_id = 1, om_role = ''viewer'', om_created_at = 1\<rparr>"])
      (use run_chain_gin ts rq in \<open>auto simp: ax_bearer ax_claims_def claims_actor_def same_username_def ax_user_def
        ax_web_def active_invite_def ax_invite_def\<close>)
qed

text \<open>The public view of a job needs the job's token. A job is shown without a session only when it has
  the hash of a token, and the request carries a token with this hash.\<close>
theorem public_jobs_need_their_token:
  assumes "(200, APublicJob job items) \<in> set (cx_out (fst (get_ops_job_public svc oe rq new_ctx w)))"
  shows "job \<in> set (o_jobs w) \<and> oe_uuid_str oe (oj_id job) = rq_param rq ''id'' \<and> job_token rq \<noteq> [] \<and>
    oj_token_hash job = Some (oe_sha256_hex oe (job_token rq)) \<and> oe_sha256_hex oe (job_token rq) \<noteq> []"
proof -
  obtain s where s: "svc = Some s"
    using assms by (cases svc) (auto simp: get_ops_job_public_def ops_disabled_def respond_error_def respond_status_def new_ctx_def)
  obtain r w1 where r: "get_job oe (rq_param rq ''id'') w = (r, w1)" by fastforce
  obtain q w2 where q: "list_job_items oe (rq_param rq ''id'') w1 = (q, w2)" by fastforce
  have *: "job_token rq \<noteq> [] \<and> r = Inr job \<and> oj_token_hash job = Some (oe_sha256_hex oe (job_token rq)) \<and>
      oe_sha256_hex oe (job_token rq) \<noteq> []"
    using assms by (auto simp: s get_ops_job_public_def r q job_not_found_def respond_error_def respond_status_def
        new_ctx_def Let_def split: if_splits sum.splits option.splits)
  moreover have "job \<in> set (o_jobs w) \<and> oe_uuid_str oe (oj_id job) = rq_param rq ''id''"
    using r * by (auto simp: get_job_def o_query_def find_Some_iff split: if_splits option.splits)
  ultimately show ?thesis by blast
qed

theorem public_jobs_need_their_token_witness:
  "oj_token_hash (ex_job\<lparr>oj_token_hash := Some ''t''\<rparr>) =
     Some (oe_sha256_hex ex_ops_env (job_token \<lparr>rq_header = (\<lambda>h. []), rq_query = (\<lambda>q. ''t''),
       rq_param = (\<lambda>p. uuid_text 1), rq_client_ip = [], rq_host = [], rq_cookie = None\<rparr>))"
proof -
  let ?rq = "\<lparr>rq_header = (\<lambda>h. []), rq_query = (\<lambda>q. ''t''), rq_param = (\<lambda>p. uuid_text 1), rq_client_ip = [],
    rq_host = [], rq_cookie = None\<rparr>"
  let ?job = "ex_job\<lparr>oj_token_hash := Some ''t''\<rparr>" and ?w = "ex_ops_world\<lparr>o_jobs := [ex_job\<lparr>oj_token_hash := Some ''t''\<rparr>]\<rparr>"
  have ts: "trim_space [] = []" "trim_space ''t'' = ''t''" by code_simp+
  have "(200, APublicJob ?job [ex_item]) \<in> set (cx_out (fst (get_ops_job_public (Some ex_ops) ex_ops_env ?rq new_ctx ?w)))"
    by (simp add: get_ops_job_public_def job_token_def ts get_job_def list_job_items_def o_query_def o_tick_def stmt_fails_def
        ex_ops_env_def ex_ops_world_def ex_job_def ex_item_def new_item_row_def respond_status_def new_ctx_def Let_def)
  from public_jobs_need_their_token [OF this] show ?thesis by blast
qed

section \<open>Terminal sessions\<close>

text \<open>The limit on terminal sessions. After any sequence of attempts to open a session and calls of the
  functions that end one, twice or out of order, the number of active sessions is the number of sessions opened and
  not ended, at most the limit; an attempt is refused exactly when the limit is reached; and a second call
  of the function that ends a session does nothing.\<close>
theorem terminal_sessions_are_limited:
  "let m = run ssh_step es (new_manager mx)
   in active_sessions m = int (length (filter Not (sm_released m))) \<and> active_sessions m \<le> max_sessions m \<and>
      max_sessions m = (if mx \<le> 0 then 1 else mx) \<and>
      (fst (try_acquire m) = None) = (active_sessions m = max_sessions m) \<and>
      release h (release h m) = release h m"
proof -
  let ?m = "run ssh_step es (new_manager mx)"
  have inv: "ssh_inv ?m" by (rule ssh.run_inv [OF new_manager_inv])
  have step: "sm_max (ssh_step e m) = sm_max m" for e m
    by (cases e) (simp_all add: try_acquire_def release_def)
  have "sm_max (run ssh_step es m) = sm_max m" for m
    by (induction es arbitrary: m) (simp_all add: step)
  then have "sm_max ?m = (if mx \<le> 0 then 1 else mx)" by (simp add: new_manager_def)
  moreover have "release h (release h ?m) = release h ?m" by (simp add: release_def)
  ultimately show ?thesis
    using inv by (auto simp: Let_def ssh_inv_def active_sessions_def max_sessions_def try_acquire_def)
qed

end
