(* ===== verification/Web_Login.thy ===== *)
theory Web_Login
  imports Web_Tokens Alert_Callbacks
begin

text \<open>
  Login with a password and a second factor: \<open>internal/http/auth.go\<close> and \<open>auth_2fa.go\<close>. One-time
  passwords and \<open>bcrypt\<close> are functions of the environment; the recovery code travels through the alert
  service's Telegram client, so the handler that sends it works on the tables of both.
\<close>

record login_body =
  lb_username :: string
  lb_password :: string
  lb_otp :: string
  lb_recovery :: string

definition invalid_credentials :: "ctx \<Rightarrow> ctx" where
  "invalid_credentials c = respond_error 401 ''INVALID_CREDENTIALS'' ''invalid credentials'' c"

section \<open>The second factor\<close>

definition encrypt :: "web_env \<Rightarrow> string \<Rightarrow> web \<Rightarrow> string result \<times> web" where
  "encrypt env s w =
     (encrypt_string (we_gcm env) (we_key env) (we_nonce env (wb_rnd w)) s, w\<lparr>wb_rnd := Suc (wb_rnd w)\<rparr>)"

definition verify_totp_code :: "web_env \<Rightarrow> user \<Rightarrow> string \<Rightarrow> bool" where
  "verify_totp_code env u code =
     (case u_totp_secret u of
        None \<Rightarrow> False
      | Some enc \<Rightarrow>
          if trim_space enc = [] then False
          else case decrypt_string (we_gcm env) (we_key env) enc of
                 Inl e \<Rightarrow> False
               | Inr dec \<Rightarrow> we_totp env (trim_space code) (trim_space dec) (we_now env))"

definition verify_recovery_code :: "web_env \<Rightarrow> user \<Rightarrow> string \<Rightarrow> bool" where
  "verify_recovery_code env u code =
     (case (u_recovery_hash u, u_recovery_exp u) of
        (Some h, Some till) \<Rightarrow>
          if trim_space h = [] then False
          else if till < we_now env then False
          else we_bcrypt_ok env h (trim_space code)
      | _ \<Rightarrow> False)"

definition without_totp :: "web_env \<Rightarrow> user \<Rightarrow> user" where
  "without_totp env u = u\<lparr>u_totp_enabled := False, u_totp_secret := None, u_recovery_hash := None,
     u_recovery_exp := None, u_updated_at := we_now env\<rparr>"

definition disable_user_totp :: "web_env \<Rightarrow> user \<Rightarrow> web \<Rightarrow> goerr option \<times> web" where
  "disable_user_totp env u w = db_write env (save_user (without_totp env u)) w"

text \<open>
  What a login asks for beside the password; \<open>Some\<close> is the answer that ends it. An account that turned
  one-time passwords on needs one, or a recovery code, which turns them off again; one that did not must
  have no passkey.
\<close>

definition totp_factor :: "web_env \<Rightarrow> login_body \<Rightarrow> user \<Rightarrow> ctx \<Rightarrow> web \<Rightarrow> ctx option \<times> web" where
  "totp_factor env b u c w =
     (if trim_space (lb_otp b) = [] \<and> trim_space (lb_recovery b) = []
      then (Some (respond_error 401 ''TOTP_REQUIRED'' ''otp required'' c), w)
      else if trim_space (lb_recovery b) \<noteq> []
      then (if \<not> verify_recovery_code env u (lb_recovery b)
            then (Some (respond_error 401 ''RECOVERY_INVALID'' ''recovery code invalid'' c), w)
            else case disable_user_totp env u w of
                   (Some e, w1) \<Rightarrow> (Some (respond_error 500 ''TOTP_DISABLE'' ''failed to reset 2fa'' c), w1)
                 | (None, w1) \<Rightarrow> (None, w1))
      else if \<not> verify_totp_code env u (lb_otp b)
      then (Some (respond_error 401 ''TOTP_INVALID'' ''invalid otp'' c), w)
      else (None, w))"

definition passkeys_of :: "string \<Rightarrow> web \<Rightarrow> passkey list" where
  "passkeys_of name w = filter (\<lambda>k. pk_user_id k = name) (wb_passkeys w)"

definition passkey_factor :: "web_env \<Rightarrow> user \<Rightarrow> ctx \<Rightarrow> web \<Rightarrow> ctx option \<times> web" where
  "passkey_factor env u c w =
     (case db_query env (\<lambda>v. length (passkeys_of (u_username u) v)) w of
        (Inl e, w1) \<Rightarrow> (Some (respond_error 500 ''DB_READ'' ''failed to read passkeys'' c), w1)
      | (Inr n, w1) \<Rightarrow>
          if 0 < n then (Some (respond_error 401 ''PASSKEY_REQUIRED'' ''passkey required'' c), w1) else (None, w1))"

definition second_factor ::
    "web_env \<Rightarrow> login_body \<Rightarrow> user option \<Rightarrow> string \<Rightarrow> ctx \<Rightarrow> web \<Rightarrow> ctx option \<times> web" where
  "second_factor env b login_user role c w =
     (case login_user of
        None \<Rightarrow> (None, w)
      | Some u \<Rightarrow>
          if role \<noteq> role_admin \<and> role \<noteq> role_operator then (None, w)
          else if u_totp_enabled u then totp_factor env b u c w
          else passkey_factor env u c w)"

section \<open>The login\<close>

text \<open>
  The account a login is for, with its name and role: \<open>Inl\<close> is the answer that ends it. The configured
  administrator is known by the password of the configuration; when its row cannot be read the login goes
  on without one.
\<close>

definition login_account ::
    "web_env \<Rightarrow> login_body \<Rightarrow> ctx \<Rightarrow> web \<Rightarrow> (ctx + (user option \<times> string \<times> string)) \<times> web" where
  "login_account env b c w =
     (let username = trim_space (lb_username b)
      in if equal_fold username (we_admin_user env)
         then (if lb_password b \<noteq> we_admin_pass env then (Inl (invalid_credentials c), w)
               else case ensure_root_org env w of
                 (Inl e, w1) \<Rightarrow>
                   (Inl (respond_error 500 ''ROOT_ORG'' ''failed to initialize admin workspace'' c), w1)
               | (Inr org, w1) \<Rightarrow>
                   (case db_first_row env wb_users (same_username env (we_admin_user env)) w1 of
                      (Inl e, w2) \<Rightarrow> (Inr (None, we_admin_user env, role_admin), w2)
                    | (Inr u, w2) \<Rightarrow> (Inr (Some u, u_username u, u_role u), w2)))
         else case db_first_row env wb_users (same_username env username) w of
                (Inl ErrNotFound, w1) \<Rightarrow> (Inl (invalid_credentials c), w1)
              | (Inl e, w1) \<Rightarrow> (Inl (respond_error 500 ''DB_READ'' ''failed to read user'' c), w1)
              | (Inr u, w1) \<Rightarrow>
                  if \<not> we_bcrypt_ok env (u_password_hash u) (lb_password b)
                  then (Inl (invalid_credentials c), w1)
                  else (Inr (Some u, u_username u, u_role u), w1))"

definition open_session :: "web_env \<Rightarrow> request \<Rightarrow> string \<Rightarrow> string \<Rightarrow> web handler" where
  "open_session env rq username role c w =
     (case issue_access_token env username role of
        None \<Rightarrow> (respond_error 500 ''TOKEN_SIGN'' ''failed to sign token'' c, w)
      | Some token \<Rightarrow>
          (case issue_refresh_token env rq username w of
             (Inl e, w1) \<Rightarrow> (respond_error 500 ''REFRESH_TOKEN'' ''failed to issue refresh token'' c, w1)
           | (Inr raw, w1) \<Rightarrow>
               (respond_status 200 (ALogin token username role) (set_refresh_cookie rq raw (wb_refresh_ttl w1) c), w1)))"

definition login :: "web_env \<Rightarrow> request \<Rightarrow> string + login_body \<Rightarrow> web handler" where
  "login env rq body c w =
     (case parse_json_body body c of
        Inl c1 \<Rightarrow> (c1, w)
      | Inr b \<Rightarrow>
          (case login_account env b c w of
             (Inl c1, w1) \<Rightarrow> (c1, w1)
           | (Inr (login_user, username, role), w1) \<Rightarrow>
               (case second_factor env b login_user role c w1 of
                  (Some c1, w2) \<Rightarrow> (c1, w2)
                | (None, w2) \<Rightarrow> open_session env rq username role c w2)))"

section \<open>One-time passwords of an account\<close>

text \<open>The acting account; \<open>Inr None\<close> is the configured administrator.\<close>

definition current_user :: "web_env \<Rightarrow> ctx \<Rightarrow> web \<Rightarrow> user option result \<times> web" where
  "current_user env c w =
     (if cx_actor c = [] then (Inl (ErrMsg ''missing actor''), w)
      else if cx_actor c = we_admin_user env then (Inr None, w)
      else case db_first_row env wb_users (same_username env (cx_actor c)) w of
             (Inl e, w1) \<Rightarrow> (Inl e, w1)
           | (Inr u, w1) \<Rightarrow> (Inr (Some u), w1))"

definition with_account :: "web_env \<Rightarrow> (user \<Rightarrow> web handler) \<Rightarrow> web handler" where
  "with_account env k c w =
     (case current_user env c w of
        (Inl e, w1) \<Rightarrow> (respond_error 500 ''USER_READ'' ''failed to read user'' c, w1)
      | (Inr None, w1) \<Rightarrow> (respond_error 400 ''TOTP_ENV_ADMIN'' ''2fa not available for env admin'' c, w1)
      | (Inr (Some u), w1) \<Rightarrow> k u c w1)"

definition get_totp_status :: "web_env \<Rightarrow> web handler" where
  "get_totp_status env c w =
     (case current_user env c w of
        (Inl e, w1) \<Rightarrow> (respond_error 500 ''USER_READ'' ''failed to read user'' c, w1)
      | (Inr None, w1) \<Rightarrow> (respond_status 200 (ATotpStatus False False False) c, w1)
      | (Inr (Some u), w1) \<Rightarrow>
          (respond_status 200 (ATotpStatus (u_totp_enabled u) (u_role u = role_admin \<or> u_role u = role_operator)
             (case u_totp_secret u of None \<Rightarrow> False | Some s \<Rightarrow> trim_space s \<noteq> [])) c, w1))"

definition setup_totp :: "web_env \<Rightarrow> web handler" where
  "setup_totp env = with_account env (\<lambda>u c w.
     (if u_role u \<noteq> role_admin \<and> u_role u \<noteq> role_operator
      then (respond_error 403 ''FORBIDDEN'' ''2fa not allowed for this role'' c, w)
      else case we_totp_key env (wb_rnd w) (u_username u) of
        None \<Rightarrow> (respond_error 500 ''TOTP_SETUP'' ''failed to generate secret'' c, w)
      | Some (secret, url) \<Rightarrow>
          (case encrypt env secret w of
             (Inl e, w1) \<Rightarrow> (respond_error 500 ''TOTP_SECRET'' ''failed to encrypt secret'' c, w1)
           | (Inr enc, w1) \<Rightarrow>
               (case db_write env (save_user (u\<lparr>u_totp_secret := Some enc, u_totp_enabled := False,
                        u_updated_at := we_now env\<rparr>)) w1 of
                  (Some e, w2) \<Rightarrow> (respond_error 500 ''TOTP_SAVE'' ''failed to save secret'' c, w2)
                | (None, w2) \<Rightarrow>
                    (case we_qr env url of
                       None \<Rightarrow> (respond_error 500 ''TOTP_QR'' ''failed to build qr'' c, w2)
                     | Some png \<Rightarrow>
                         (respond_status 200 (ATotpSetup secret url (''data:image/png;base64,'' @ std_encode png)) c,
                          audit_event env c ''TOTP_SETUP'' ''ok'' [(''user'', u_username u)] w2))))))"

definition verify_totp :: "web_env \<Rightarrow> string + string \<Rightarrow> web handler" where
  "verify_totp env body = with_account env (\<lambda>u c w.
     (case parse_json_body body c of
        Inl c1 \<Rightarrow> (c1, w)
      | Inr raw \<Rightarrow>
          let code = trim_space raw
          in if code = [] then (respond_error 400 ''TOTP_CODE'' ''code required'' c, w)
             else if \<not> verify_totp_code env u code
             then (respond_error 401 ''TOTP_INVALID'' ''invalid otp'' c, w)
             else case db_write env (save_user (u\<lparr>u_totp_enabled := True, u_updated_at := we_now env\<rparr>)) w of
               (Some e, w1) \<Rightarrow> (respond_error 500 ''TOTP_SAVE'' ''failed to enable 2fa'' c, w1)
             | (None, w1) \<Rightarrow>
                 (respond_status 200 AOk c, audit_event env c ''TOTP_ENABLE'' ''ok'' [(''user'', u_username u)] w1)))"

text \<open>The body is the code and the recovery code.\<close>

definition disable_totp :: "web_env \<Rightarrow> string + string \<times> string \<Rightarrow> web handler" where
  "disable_totp env body = with_account env (\<lambda>u c w.
     (case parse_json_body body c of
        Inl c1 \<Rightarrow> (c1, w)
      | Inr (raw_code, raw_recovery) \<Rightarrow>
          let code = trim_space raw_code; recovery = trim_space raw_recovery
          in if code = [] \<and> recovery = [] then (respond_error 400 ''TOTP_CODE'' ''code required'' c, w)
             else if code \<noteq> [] \<and> \<not> verify_totp_code env u code
             then (respond_error 401 ''TOTP_INVALID'' ''invalid otp'' c, w)
             else if code = [] \<and> \<not> verify_recovery_code env u recovery
             then (respond_error 401 ''RECOVERY_INVALID'' ''recovery code invalid'' c, w)
             else case disable_user_totp env u w of
               (Some e, w1) \<Rightarrow> (respond_error 500 ''TOTP_DISABLE'' ''failed to disable 2fa'' c, w1)
             | (None, w1) \<Rightarrow>
                 (respond_status 200 AOk c, audit_event env c ''TOTP_DISABLE'' ''ok'' [(''user'', u_username u)] w1)))"

section \<open>Recovery codes\<close>

definition generate_recovery_code :: "web_env \<Rightarrow> web \<Rightarrow> (string \<times> string) option \<times> web" where
  "generate_recovery_code env w =
     (let w1 = w\<lparr>wb_rnd := Suc (wb_rnd w)\<rparr>
      in case we_rand32 env (wb_rnd w) of
           None \<Rightarrow> (None, w1)
         | Some v \<Rightarrow>
             let code = pad_zeros 8 (nat_text (unat (v mod 100000000)))
             in (case we_bcrypt env code of None \<Rightarrow> (None, w1) | Some h \<Rightarrow> (Some (code, h), w1)))"

text \<open>\<open>splitChatIDs\<close> of \<open>telegram.go\<close>.\<close>

definition http_split_chat_ids :: "string \<Rightarrow> string list" where
  "http_split_chat_ids raw = filter (\<lambda>v. v \<noteq> []) (map trim_space (fields_func chat_sep raw))"

definition get_telegram_row :: "alert_env \<Rightarrow> uuid \<Rightarrow> world \<Rightarrow> telegram_row result \<times> world" where
  "get_telegram_row aenv org a =
     db_first aenv (Alert_Store.newest (filter (\<lambda>r. tr_org_id r = Some org) (w_settings a))) a"

definition send_telegram_message ::
    "alert_env \<Rightarrow> string \<Rightarrow> string list \<Rightarrow> string \<Rightarrow> world \<Rightarrow> send_result list \<times> world" where
  "send_telegram_message aenv token chat_ids msg a =
     send_test_detailed aenv (Some \<lparr>s_bot_token = token, s_admin_chat_ids = chat_ids, s_alert_connection = False,
       s_alert_cpu = False, s_alert_memory = False, s_alert_disk = False, s_ack_mute_minutes = 0,
       s_mute_minutes = 0\<rparr>) msg a"

text \<open>The account a code is asked for; \<open>Inl\<close> is the answer that ends the request.\<close>

definition recovery_account ::
    "web_env \<Rightarrow> string \<Rightarrow> string \<Rightarrow> ctx \<Rightarrow> web \<Rightarrow> (ctx + user) \<times> web" where
  "recovery_account env username password c w =
     (if username = [] \<or> password = []
      then (Inl (respond_error 400 ''INVALID_CREDENTIALS'' ''username and password required'' c), w)
      else if username = we_admin_user env
      then (Inl (respond_error 400 ''TOTP_ENV_ADMIN'' ''2fa not available for env admin'' c), w)
      else case db_first_row env wb_users (same_username env username) w of
             (Inl ErrNotFound, w1) \<Rightarrow> (Inl (invalid_credentials c), w1)
           | (Inl e, w1) \<Rightarrow> (Inl (respond_error 500 ''DB_READ'' ''failed to read user'' c), w1)
           | (Inr u, w1) \<Rightarrow>
               if \<not> we_bcrypt_ok env (u_password_hash u) password then (Inl (invalid_credentials c), w1)
               else if u_role u \<noteq> role_admin \<and> u_role u \<noteq> role_operator
               then (Inl (respond_error 403 ''FORBIDDEN'' ''2fa not available for this role'' c), w1)
               else (Inr u, w1))"

text \<open>Where the code goes: the token of the bot and the chats of the first organisation of the user.\<close>

definition recovery_chats ::
    "web_env \<Rightarrow> alert_env \<Rightarrow> user \<Rightarrow> ctx \<Rightarrow> web \<times> world \<Rightarrow> (ctx + string \<times> string list) \<times> web \<times> world" where
  "recovery_chats env aenv u c wa =
     (case wa of
        (w, a) \<Rightarrow>
          (case first_org_for_user env (u_id u) w of
             (Inl e, w1) \<Rightarrow> (Inl (respond_error 400 ''TELEGRAM_SETTINGS'' ''organization not found'' c), w1, a)
           | (Inr org, w1) \<Rightarrow>
               (case get_telegram_row aenv org a of
                  (r, a1) \<Rightarrow>
                    let ids = (case r of Inl e \<Rightarrow> [] | Inr row \<Rightarrow> http_split_chat_ids (tr_admin_chat_id row));
                        enc = (case r of Inl e \<Rightarrow> [] | Inr row \<Rightarrow> tr_bot_token_enc row)
                    in if ids = []
                       then (Inl (respond_error 400 ''TELEGRAM_SETTINGS'' ''admin chat ids missing'' c), w1, a1)
                       else if enc = []
                       then (Inl (respond_error 400 ''TELEGRAM_SETTINGS'' ''bot token missing'' c), w1, a1)
                       else case decrypt_string (we_gcm env) (we_key env) enc of
                         Inl e \<Rightarrow> (Inl (respond_error 500 ''TELEGRAM_TOKEN'' ''failed to decrypt token'' c), w1, a1)
                       | Inr token \<Rightarrow> (Inr (token, ids), w1, a1))))"

definition recovery_message :: "user \<Rightarrow> string \<Rightarrow> string" where
  "recovery_message u code = ''Recovery code for user '' @ u_username u @ '': '' @ code @ '' (valid 10 minutes)''"

definition with_recovery :: "web_env \<Rightarrow> string \<Rightarrow> user \<Rightarrow> user" where
  "with_recovery env h u = u\<lparr>u_recovery_hash := Some h, u_recovery_exp := Some (we_now env + 10 * minute),
     u_updated_at := we_now env\<rparr>"

definition send_recovery_code ::
    "web_env \<Rightarrow> alert_env \<Rightarrow> string + string \<times> string \<Rightarrow> (web \<times> world) handler" where
  "send_recovery_code env aenv body c wa =
     (case wa of
        (w, a) \<Rightarrow>
          (case parse_json_body body c of
             Inl c1 \<Rightarrow> (c1, w, a)
           | Inr (raw_name, password) \<Rightarrow>
               (case recovery_account env (trim_space raw_name) password c w of
                  (Inl c1, w1) \<Rightarrow> (c1, w1, a)
                | (Inr u, w1) \<Rightarrow>
                    (case recovery_chats env aenv u c (w1, a) of
                       (Inl c1, w2, a1) \<Rightarrow> (c1, w2, a1)
                     | (Inr (token, ids), w2, a1) \<Rightarrow>
                         (case generate_recovery_code env w2 of
                            (None, w3) \<Rightarrow>
                              (respond_error 500 ''RECOVERY_CODE'' ''failed to generate recovery code'' c, w3, a1)
                          | (Some (code, h), w3) \<Rightarrow>
                              (case db_write env (save_user (with_recovery env h u)) w3 of
                                 (Some e, w4) \<Rightarrow>
                                   (respond_error 500 ''RECOVERY_SAVE'' ''failed to save recovery code'' c, w4, a1)
                               | (None, w4) \<Rightarrow>
                                   (case send_telegram_message aenv (trim_space token) ids (recovery_message u code) a1 of
                                      (results, a2) \<Rightarrow>
                                        let ok = length (filter sr_ok results)
                                        in (respond_status 200 (ASent (ok = length results) ok (length results)) c,
                                            audit_event env c ''TOTP_RECOVERY_SENT'' ''ok'' [(''user'', u_username u)] w4,
                                            a2))))))))"

end
