(* ===== verification/Web_Passkeys.thy ===== *)
theory Web_Passkeys
  imports Web_Login
begin

text \<open>
  Passkeys: \<open>internal/http/webauthn.go\<close>.

  \<open>passkey_lib\<close> holds what the code asks of the library \<open>go-webauthn\<close> and of \<open>encoding/json\<close>:
  beginning a registration or a login (the options as JSON, and the session), parsing and checking what
  the browser sends back, the signature of an assertion (\<open>pl_verify\<close>), the counter of an authenticator, the
  metadata service when one is configured, and the JSON of a session. The fields \<open>pl_register_ttl\<close> and
  \<open>pl_login_ttl\<close> are those of \<open>Handler\<close>. A handler is given \<open>None\<close> when passkeys are not configured.
  Byte strings are strings.
\<close>

section \<open>What the library knows\<close>

datatype wa_error = WaErr string string | WaOther string

record credential =
  cd_id :: string
  cd_public_key :: string
  cd_attestation :: string
  cd_transport :: "string list"
  cd_flags :: "bool \<times> bool \<times> bool \<times> bool"
  cd_sign_count :: "32 word"
  cd_aaguid :: string

record wa_user =
  wu_id :: string
  wu_name :: string
  wu_display_name :: string
  wu_creds :: "credential list"

record wa_session =
  se_challenge :: string
  se_rp_id :: string
  se_user_id :: string
  se_allowed :: "string list"
  se_expires :: "instant option"
  se_verification :: string
  se_extensions :: string

text \<open>The flags are user present, user verified, backup eligible and backup state.\<close>

record assertion =
  pa_id :: string
  pa_raw_id :: string
  pa_user_handle :: string
  pa_counter :: "32 word"
  pa_flags :: "bool \<times> bool \<times> bool \<times> bool"
  pa_signed :: string

record verify_body =
  vb_username :: string
  vb_challenge :: string
  vb_credential :: string

record passkey_lib =
  pl_begin_registration :: "nat \<Rightarrow> wa_user \<Rightarrow> wa_error + (string \<times> wa_session)"
  pl_parse_creation :: "string \<Rightarrow> bool"
  pl_create_credential :: "wa_user \<Rightarrow> wa_session \<Rightarrow> string \<Rightarrow> wa_error + credential"
  pl_begin_login :: "nat \<Rightarrow> wa_user \<Rightarrow> wa_error + (string \<times> wa_session)"
  pl_parse_assertion :: "string \<Rightarrow> wa_error + assertion"
  pl_app_id :: "assertion \<Rightarrow> string \<Rightarrow> string \<Rightarrow> wa_error + string"
  pl_verify :: "assertion \<Rightarrow> string \<Rightarrow> string \<Rightarrow> bool \<Rightarrow> string \<Rightarrow> wa_error option"
  pl_update_counter :: "32 word \<Rightarrow> 32 word \<Rightarrow> 32 word"
  pl_has_config :: bool
  pl_uuid_bytes :: "string \<Rightarrow> uuid option"
  pl_metadata :: "(uuid \<Rightarrow> wa_error option) option"
  pl_wrapper :: "string \<Rightarrow> verify_body option"
  pl_session_json :: "wa_session \<Rightarrow> string"
  pl_session_read :: "string \<Rightarrow> wa_session option"
  pl_object_size :: "string \<Rightarrow> nat option"
  pl_register_ttl :: duration
  pl_login_ttl :: duration

section \<open>Identifiers of credentials\<close>

definition decode_credential_id :: "string \<Rightarrow> string option" where
  "decode_credential_id v =
     (if v = [] then None
      else case raw_url_decode v of Some b \<Rightarrow> Some b | None \<Rightarrow> std_decode v)"

definition normalize_credential_id :: "string \<Rightarrow> string" where
  "normalize_credential_id v =
     (let raw = trim_space v
      in if raw = [] then []
         else case decode_credential_id raw of None \<Rightarrow> [] | Some b \<Rightarrow> raw_url_encode b)"

section \<open>Rows\<close>

definition insert_passkey :: "passkey \<Rightarrow> web \<Rightarrow> goerr + web" where
  "insert_passkey k w =
     (if pk_id k \<in> pk_id ` set (wb_passkeys w) \<or> pk_credential_id k \<in> pk_credential_id ` set (wb_passkeys w)
      then Inl ErrUnique else Inr (w\<lparr>wb_passkeys := wb_passkeys w @ [k]\<rparr>))"

definition insert_challenge :: "challenge \<Rightarrow> web \<Rightarrow> goerr + web" where
  "insert_challenge r w =
     (if wc_id r \<in> wc_id ` set (wb_challenges w) then Inl ErrUnique
      else Inr (w\<lparr>wb_challenges := wb_challenges w @ [r]\<rparr>))"

definition newest_challenge :: "challenge \<Rightarrow> challenge \<Rightarrow> bool" where
  "newest_challenge a b \<longleftrightarrow> wc_created_at b < wc_created_at a \<or>
     (wc_created_at a = wc_created_at b \<and> wc_id a \<le> wc_id b)"

definition trimmed :: "string list \<Rightarrow> string list" where
  "trimmed ts = filter (\<lambda>t. t \<noteq> []) (map trim_space ts)"

definition row_aaguid :: "passkey \<Rightarrow> string" where
  "row_aaguid k =
     (case pk_aaguid k of
        None \<Rightarrow> []
      | Some a \<Rightarrow> if trim_space a = [] then []
                  else case raw_url_decode (trim_space a) of None \<Rightarrow> [] | Some b \<Rightarrow> b)"

definition row_credential :: "passkey \<Rightarrow> credential option" where
  "row_credential k =
     (case decode_credential_id (normalize_credential_id (pk_credential_id k)) of
        None \<Rightarrow> None
      | Some i \<Rightarrow> Some \<lparr>cd_id = i, cd_public_key = pk_public_key k, cd_attestation = [],
           cd_transport = trimmed (pk_transports k), cd_flags = (False, False, False, False),
           cd_sign_count = word_of_int (pk_sign_count k), cd_aaguid = row_aaguid k\<rparr>)"

definition load_webauthn_user :: "web_env \<Rightarrow> string \<Rightarrow> web \<Rightarrow> wa_user result \<times> web" where
  "load_webauthn_user env username w =
     (case db_query env (passkeys_of username) w of
        (Inl e, w1) \<Rightarrow> (Inl e, w1)
      | (Inr rows, w1) \<Rightarrow>
          (Inr \<lparr>wu_id = username, wu_name = username, wu_display_name = username,
             wu_creds = List.map_filter row_credential rows\<rparr>, w1))"

text \<open>A session is always at hand where the code stores one.\<close>

definition save_challenge ::
    "web_env \<Rightarrow> passkey_lib \<Rightarrow> string \<Rightarrow> string \<Rightarrow> wa_session \<Rightarrow> instant \<Rightarrow> string \<Rightarrow> web \<Rightarrow> string result \<times> web" where
  "save_challenge env pl username typ session till options w =
     (case new_uuid env w of
        (i, w1) \<Rightarrow>
          (case db_write env (insert_challenge \<lparr>wc_id = i, wc_user_id = username, wc_type = typ,
                 wc_challenge = se_challenge session, wc_session = pl_session_json pl (session\<lparr>se_expires := Some till\<rparr>),
                 wc_options = options, wc_created_at = we_now env, wc_expires_at = till\<rparr>) w1 of
             (Some e, w2) \<Rightarrow> (Inl e, w2)
           | (None, w2) \<Rightarrow> (Inr (we_text env i), w2)))"

text \<open>A challenge that cannot be used: it has expired, or there is none.\<close>

datatype challenge_error = ChallengeExpired | ChallengeMissing

definition open_challenge :: "web_env \<Rightarrow> passkey_lib \<Rightarrow> challenge \<Rightarrow> challenge_error + wa_session" where
  "open_challenge env pl row =
     (if wc_expires_at row < we_now env then Inl ChallengeExpired
      else case pl_session_read pl (wc_session row) of
             None \<Rightarrow> Inl ChallengeMissing
           | Some s \<Rightarrow> Inr s)"

definition load_challenge ::
    "web_env \<Rightarrow> passkey_lib \<Rightarrow> string \<Rightarrow> string \<Rightarrow> web \<Rightarrow> (challenge_error + wa_session \<times> string) \<times> web" where
  "load_challenge env pl username typ w =
     (case db_least_row env wb_challenges (\<lambda>r. wc_user_id r = username \<and> wc_type r = typ) newest_challenge w of
        (Inl e, w1) \<Rightarrow> (Inl ChallengeMissing, w1)
      | (Inr row, w1) \<Rightarrow>
          (case open_challenge env pl row of
             Inl e \<Rightarrow> (Inl e, w1)
           | Inr s \<Rightarrow> (Inr (s, we_text env (wc_id row)), w1)))"

definition load_challenge_by_id ::
    "web_env \<Rightarrow> passkey_lib \<Rightarrow> string \<Rightarrow> string \<Rightarrow> web \<Rightarrow> (challenge_error + wa_session) \<times> web" where
  "load_challenge_by_id env pl username i w =
     (if trim_space i = [] then (Inl ChallengeMissing, w)
      else case db_first_row env wb_challenges (\<lambda>r. we_text env (wc_id r) = i) w of
        (Inl e, w1) \<Rightarrow> (Inl ChallengeMissing, w1)
      | (Inr row, w1) \<Rightarrow>
          if trim_space (wc_user_id row) \<noteq> [] \<and> trim_space username \<noteq> [] \<and> wc_user_id row \<noteq> username
          then (Inl ChallengeMissing, w1)
          else (open_challenge env pl row, w1))"

definition delete_challenge :: "web_env \<Rightarrow> string \<Rightarrow> web \<Rightarrow> goerr option \<times> web" where
  "delete_challenge env i w =
     db_write env (\<lambda>v. Inr (v\<lparr>wb_challenges := filter (\<lambda>r. we_text env (wc_id r) \<noteq> i) (wb_challenges v)\<rparr>)) w"

text \<open>
  An open challenge of the user, with its options when they are an object with members; every failure
  counts as none.
\<close>

definition load_active_challenge ::
    "web_env \<Rightarrow> passkey_lib \<Rightarrow> string \<Rightarrow> string \<Rightarrow> web \<Rightarrow> (challenge \<times> string) option \<times> web" where
  "load_active_challenge env pl username typ w =
     (case db_least_row env wb_challenges
             (\<lambda>r. wc_user_id r = username \<and> wc_type r = typ \<and> we_now env < wc_expires_at r) newest_challenge w of
        (Inl e, w1) \<Rightarrow> (None, w1)
      | (Inr row, w1) \<Rightarrow>
          (case (pl_session_read pl (wc_session row), pl_object_size pl (wc_options row)) of
             (Some s, Some (Suc n)) \<Rightarrow> if wc_options row = [] then (None, w1) else (Some (row, wc_options row), w1)
           | _ \<Rightarrow> (None, w1)))"

definition cleanup_challenges :: "web_env \<Rightarrow> web \<Rightarrow> web" where
  "cleanup_challenges env w =
     snd (db_write env (\<lambda>v. Inr (v\<lparr>wb_challenges := filter (\<lambda>r. \<not> wc_expires_at r < we_now env) (wb_challenges v)\<rparr>)) w)"

definition register_ttl :: "passkey_lib \<Rightarrow> duration" where
  "register_ttl pl = (if 0 < pl_register_ttl pl then pl_register_ttl pl else 5 * minute)"

definition login_ttl :: "passkey_lib \<Rightarrow> duration" where
  "login_ttl pl = (if 0 < pl_login_ttl pl then pl_login_ttl pl else 3 * minute)"

definition credential_id_of :: "credential \<Rightarrow> string" where
  "credential_id_of cred = normalize_credential_id (raw_url_encode (cd_id cred))"

definition store_credential :: "web_env \<Rightarrow> string \<Rightarrow> credential \<Rightarrow> web \<Rightarrow> goerr option \<times> web" where
  "store_credential env username cred w =
     (case new_uuid env w of
        (i, w1) \<Rightarrow> db_write env (insert_passkey \<lparr>pk_id = i, pk_user_id = username,
            pk_credential_id = credential_id_of cred, pk_public_key = cd_public_key cred,
            pk_sign_count = uint (cd_sign_count cred), pk_transports = trimmed (cd_transport cred),
            pk_aaguid = (if cd_aaguid cred = [] then None else Some (raw_url_encode (cd_aaguid cred))),
            pk_created_at = we_now env, pk_last_used = None\<rparr>) w1)"

definition touch_credential :: "web_env \<Rightarrow> string \<Rightarrow> credential \<Rightarrow> web \<Rightarrow> goerr option \<times> web" where
  "touch_credential env username cred w =
     db_write env (\<lambda>v. Inr (v\<lparr>wb_passkeys := map (\<lambda>k.
       if pk_user_id k = username \<and> pk_credential_id k = credential_id_of cred
       then k\<lparr>pk_sign_count := uint (cd_sign_count cred), pk_last_used := Some (we_now env)\<rparr> else k) (wb_passkeys v)\<rparr>)) w"

definition credential_exists :: "web_env \<Rightarrow> string \<Rightarrow> string \<Rightarrow> web \<Rightarrow> bool \<times> web" where
  "credential_exists env username i w =
     (case db_query env (\<lambda>v. length (filter (\<lambda>k. pk_credential_id k = i) (passkeys_of username v))) w of
        (Inl e, w1) \<Rightarrow> (False, w1)
      | (Inr n, w1) \<Rightarrow> (0 < n, w1))"

section \<open>Checking an assertion\<close>

definition bad_request :: "string \<Rightarrow> wa_error + 'a" where
  "bad_request details = Inl (WaErr details [])"

fun error_message :: "wa_error \<Rightarrow> string" where
  "error_message (WaErr details info) = to_lower (details @ '' '' @ info)"
| "error_message (WaOther text) = to_lower text"

definition classify_error :: "wa_error \<Rightarrow> string \<times> string" where
  "classify_error e =
     (let msg = error_message e
      in if contains msg ''rp hash mismatch'' \<or> contains msg ''rp id'' then (''WEBAUTHN_RP_MISMATCH'', ''rp mismatch'')
         else if contains msg ''origin'' then (''WEBAUTHN_ORIGIN_MISMATCH'', ''origin mismatch'')
         else (''WEBAUTHN_ASSERTION_INVALID'', ''assertion invalid''))"

text \<open>The session and the user belong together, and the credential is one the session allows.\<close>

definition session_admits :: "web_env \<Rightarrow> wa_user \<Rightarrow> wa_session \<Rightarrow> assertion \<Rightarrow> wa_error + unit" where
  "session_admits env usr s a =
     (if wu_id usr \<noteq> se_user_id s then bad_request ''ID mismatch for User and Session''
      else if (case se_expires s of None \<Rightarrow> False | Some t \<Rightarrow> t < we_now env) then bad_request ''Session has Expired''
      else if se_allowed s \<noteq> [] \<and> \<not> list_all (\<lambda>i. i \<in> cd_id ` set (wu_creds usr)) (se_allowed s)
      then bad_request ''User does not own all credentials from the allowedCredentialList''
      else if se_allowed s \<noteq> [] \<and> pa_raw_id a \<notin> set (se_allowed s)
      then bad_request ''User does not own the credential returned''
      else if pa_user_handle a \<noteq> [] \<and> pa_user_handle a \<noteq> wu_id usr
      then bad_request ''userHandle and User ID do not match''
      else Inr ())"

definition metadata_admits :: "passkey_lib \<Rightarrow> credential \<Rightarrow> wa_error + unit" where
  "metadata_admits pl cred =
     (case pl_metadata pl of
        None \<Rightarrow> Inr ()
      | Some validate \<Rightarrow>
          (case pl_uuid_bytes pl (cd_aaguid cred) of
             None \<Rightarrow> Inl (WaErr ''Failed to decode AAGUID'' ''Error occurred decoding AAGUID from the credential record'')
           | Some u \<Rightarrow>
               (case validate u of
                  None \<Rightarrow> Inr ()
                | Some e \<Rightarrow> Inl (WaErr ''Failed to validate credential record metadata''
                    ''Error occurred validating authenticator metadata from the credential record''))))"

definition check_signature ::
    "passkey_lib \<Rightarrow> wa_session \<Rightarrow> assertion \<Rightarrow> credential \<Rightarrow> wa_error + credential" where
  "check_signature pl s a cred =
     (case pl_app_id pl a (se_extensions s) (cd_attestation cred) of
        Inl e \<Rightarrow> Inl e
      | Inr app \<Rightarrow>
          (case pl_verify pl a (se_challenge s) app (se_verification s = ''required'') (cd_public_key cred) of
             Some e \<Rightarrow> Inl e
           | None \<Rightarrow>
               (case pa_flags a of
                  (up, uv, be, bs) \<Rightarrow>
                    if \<not> be \<and> bs then bad_request ''Invalid flag combination: BE=0 and BS=1''
                    else Inr (cred\<lparr>cd_sign_count := pl_update_counter pl (cd_sign_count cred) (pa_counter a),
                           cd_flags := (up, uv, be, bs)\<rparr>))))"

definition validate_login_relaxed ::
    "web_env \<Rightarrow> passkey_lib \<Rightarrow> wa_user \<Rightarrow> wa_session \<Rightarrow> assertion \<Rightarrow> wa_error + credential" where
  "validate_login_relaxed env pl usr s a =
     (case session_admits env usr s a of
        Inl e \<Rightarrow> Inl e
      | Inr _ \<Rightarrow>
          (case find (\<lambda>cred. cd_id cred = pa_raw_id a) (wu_creds usr) of
             None \<Rightarrow> bad_request ''Unable to find the credential for the returned credential ID''
           | Some cred \<Rightarrow>
               if \<not> pl_has_config pl then bad_request ''webauthn config missing''
               else case metadata_admits pl cred of
                      Inl e \<Rightarrow> Inl e
                    | Inr _ \<Rightarrow> check_signature pl s a cred))"

section \<open>Registering a passkey\<close>

definition with_passkeys :: "passkey_lib option \<Rightarrow> (passkey_lib \<Rightarrow> web handler) \<Rightarrow> web handler" where
  "with_passkeys lib k c w =
     (case lib of
        None \<Rightarrow> (respond_error 503 ''WEBAUTHN_DISABLED'' ''webauthn not configured'' c, w)
      | Some pl \<Rightarrow> k pl c w)"

text \<open>A body that may be left out: \<open>None\<close> when it does not decode.\<close>

definition optional_body :: "string option \<Rightarrow> (string \<Rightarrow> web handler) \<Rightarrow> web handler" where
  "optional_body body k c w =
     (case body of None \<Rightarrow> (respond_error 400 ''INVALID_JSON'' ''invalid json'' c, w) | Some s \<Rightarrow> k s c w)"

text \<open>The answer to a request for options: an open challenge again, or a new one.\<close>

definition offer_challenge ::
    "web_env \<Rightarrow> passkey_lib \<Rightarrow> string \<Rightarrow> string \<Rightarrow> duration \<Rightarrow>
       (nat \<Rightarrow> wa_error + (string \<times> wa_session)) \<Rightarrow> web handler" where
  "offer_challenge env pl username typ ttl start c w =
     (case load_active_challenge env pl username typ w of
        (Some (row, options), w1) \<Rightarrow> (respond_status 200 (AOptions options (we_text env (wc_id row))) c, w1)
      | (None, w1) \<Rightarrow>
          (case start (wb_rnd w1) of
             Inl e \<Rightarrow> (respond_error 500 ''WEBAUTHN_OPTIONS'' ''failed to create options'' c, w1)
           | Inr (options, session) \<Rightarrow>
               (case save_challenge env pl username typ session (we_now env + ttl) options
                       (w1\<lparr>wb_rnd := Suc (wb_rnd w1)\<rparr>) of
                  (Inl e, w2) \<Rightarrow> (respond_error 500 ''WEBAUTHN_CHALLENGE'' ''failed to store challenge'' c, w2)
                | (Inr i, w2) \<Rightarrow> (respond_status 200 (AOptions options i) c, w2))))"

definition load_failed :: "ctx \<Rightarrow> ctx" where
  "load_failed c = respond_error 500 ''WEBAUTHN_USER'' ''failed to load user'' c"

definition register_options :: "web_env \<Rightarrow> passkey_lib option \<Rightarrow> string option \<Rightarrow> web handler" where
  "register_options env lib body = with_passkeys lib (\<lambda>pl. optional_body body (\<lambda>otp c w.
     (case current_user env c w of
        (Inl e, w1) \<Rightarrow> (respond_error 401 ''UNAUTHORIZED'' ''unauthorized'' c, w1)
      | (Inr usr, w1) \<Rightarrow>
          (case (case usr of
                   None \<Rightarrow> None
                 | Some u \<Rightarrow>
                     if \<not> u_totp_enabled u then None
                     else if trim_space otp = [] then Some (''TOTP_REQUIRED'', ''otp required'')
                     else if \<not> verify_totp_code env u otp then Some (''TOTP_INVALID'', ''invalid otp'')
                     else None) of
             Some (code, msg) \<Rightarrow> (respond_error 401 code msg c, w1)
           | None \<Rightarrow>
               let username = (case usr of None \<Rightarrow> we_admin_user env | Some u \<Rightarrow> u_username u)
               in (case load_webauthn_user env username w1 of
                     (Inl e, w2) \<Rightarrow> (load_failed c, w2)
                   | (Inr auth, w2) \<Rightarrow>
                       offer_challenge env pl username ''register'' (register_ttl pl)
                         (\<lambda>n. pl_begin_registration pl n auth) c w2)))))"

definition challenge_refused :: "challenge_error \<Rightarrow> ctx \<Rightarrow> ctx" where
  "challenge_refused e c =
     (case e of
        ChallengeExpired \<Rightarrow> respond_error 400 ''WEBAUTHN_CHALLENGE_EXPIRED'' ''challenge expired'' c
      | ChallengeMissing \<Rightarrow> respond_error 400 ''WEBAUTHN_CHALLENGE_NOT_FOUND'' ''challenge not found'' c)"

text \<open>The body as it came, \<open>None\<close> when it cannot be read; the credential may be wrapped.\<close>

definition wrapped :: "passkey_lib \<Rightarrow> string \<Rightarrow> verify_body" where
  "wrapped pl raw =
     (case pl_wrapper pl raw of
        Some b \<Rightarrow> if vb_credential b \<noteq> [] then b else \<lparr>vb_username = [], vb_challenge = [], vb_credential = raw\<rparr>
      | None \<Rightarrow> \<lparr>vb_username = [], vb_challenge = [], vb_credential = raw\<rparr>)"

definition register_verify :: "web_env \<Rightarrow> passkey_lib option \<Rightarrow> string option \<Rightarrow> web handler" where
  "register_verify env lib body = with_passkeys lib (\<lambda>pl. optional_body body (\<lambda>raw c w.
     (let username = get_actor c; payload = vb_credential (wrapped pl raw)
      in case load_webauthn_user env username w of
           (Inl e, w1) \<Rightarrow> (load_failed c, w1)
         | (Inr auth, w1) \<Rightarrow>
             (case load_challenge env pl username ''register'' w1 of
                (Inl e, w2) \<Rightarrow> (challenge_refused e c, w2)
              | (Inr (session, i), w2) \<Rightarrow>
                  if \<not> pl_parse_creation pl payload
                  then (respond_error 400 ''WEBAUTHN_PARSE'' ''invalid credential'' c, w2)
                  else (case pl_create_credential pl auth session payload of
                     Inl e \<Rightarrow> (respond_error 400 ''WEBAUTHN_VERIFY'' ''credential verify failed'' c, w2)
                   | Inr cred \<Rightarrow>
                       (case store_credential env username cred w2 of
                          (Some e, w3) \<Rightarrow> (respond_error 500 ''WEBAUTHN_SAVE'' ''failed to store credential'' c, w3)
                        | (None, w3) \<Rightarrow> (respond_status 200 AOk c, snd (delete_challenge env i w3))))))))"

section \<open>Login with a passkey\<close>

definition passkey_login_options :: "web_env \<Rightarrow> passkey_lib option \<Rightarrow> string option \<Rightarrow> web handler" where
  "passkey_login_options env lib body = with_passkeys lib (\<lambda>pl. optional_body body (\<lambda>raw c w.
     (let username = (if trim_space raw = [] then we_admin_user env else trim_space raw)
      in case load_webauthn_user env username w of
           (Inl e, w1) \<Rightarrow> (load_failed c, w1)
         | (Inr auth, w1) \<Rightarrow>
             if wu_creds auth = []
             then (respond_error 404 ''NO_CREDENTIALS'' ''no credentials registered'' c, w1)
             else offer_challenge env pl username ''login'' (login_ttl pl)
                    (\<lambda>n. pl_begin_login pl n auth) c w1)))"

definition assertion_credential_id :: "assertion \<Rightarrow> string" where
  "assertion_credential_id a =
     (let i = normalize_credential_id (pa_id a)
      in if i = [] \<and> pa_raw_id a \<noteq> [] then normalize_credential_id (raw_url_encode (pa_raw_id a)) else i)"

text \<open>From the accepted assertion on: the counter is stored and a session is opened.\<close>

definition passkey_session :: "web_env \<Rightarrow> request \<Rightarrow> string \<Rightarrow> credential \<Rightarrow> web handler" where
  "passkey_session env rq username cred c w =
     (case touch_credential env username cred w of
        (Some e, w1) \<Rightarrow> (respond_error 500 ''WEBAUTHN_SAVE'' ''failed to update credential'' c, w1)
      | (None, w1) \<Rightarrow>
          (case resolve_role env username w1 of
             (Inl e, w2) \<Rightarrow> (respond_error 401 ''UNAUTHORIZED'' ''unknown user'' c, w2)
           | (Inr role, w2) \<Rightarrow>
               if equal_fold username (we_admin_user env)
               then (case ensure_root_org env w2 of
                       (Inl e, w3) \<Rightarrow>
                         (respond_error 500 ''ROOT_ORG'' ''failed to initialize admin workspace'' c, w3)
                     | (Inr org, w3) \<Rightarrow> open_session env rq username role c w3)
               else open_session env rq username role c w2))"

definition check_assertion ::
    "web_env \<Rightarrow> passkey_lib \<Rightarrow> request \<Rightarrow> string \<Rightarrow> string \<Rightarrow> wa_user \<Rightarrow> wa_session \<Rightarrow> web handler" where
  "check_assertion env pl rq payload username auth session c w =
     (case pl_parse_assertion pl payload of
        Inl e \<Rightarrow> (respond_error 400 ''WEBAUTHN_ASSERTION_INVALID'' ''invalid credential'' c, w)
      | Inr a \<Rightarrow>
          let i = assertion_credential_id a
          in if i = [] then (respond_error 400 ''WEBAUTHN_CREDENTIAL_NOT_FOUND'' ''credential id missing'' c, w)
             else case credential_exists env username i w of
               (False, w1) \<Rightarrow> (respond_error 401 ''WEBAUTHN_CREDENTIAL_NOT_FOUND'' ''credential not found'' c, w1)
             | (True, w1) \<Rightarrow>
                 (case validate_login_relaxed env pl auth session a of
                    Inl e \<Rightarrow> (respond_error 401 (fst (classify_error e)) (snd (classify_error e)) c, w1)
                  | Inr cred \<Rightarrow> passkey_session env rq username cred c w1))"

text \<open>The challenge is deleted when the handler returns, whatever it answers.\<close>

definition passkey_login_verify ::
    "web_env \<Rightarrow> passkey_lib option \<Rightarrow> request \<Rightarrow> string option \<Rightarrow> web handler" where
  "passkey_login_verify env lib rq body = with_passkeys lib (\<lambda>pl. optional_body body (\<lambda>raw c w.
     (let b = wrapped pl raw;
          username = (if trim_space (vb_username b) = [] then we_admin_user env else trim_space (vb_username b));
          i = trim_space (vb_challenge b)
      in if i = [] then (respond_error 400 ''WEBAUTHN_CHALLENGE_NOT_FOUND'' ''missing challenge_id'' c, w)
         else case load_webauthn_user env username w of
           (Inl e, w1) \<Rightarrow> (load_failed c, w1)
         | (Inr auth, w1) \<Rightarrow>
             (case load_challenge_by_id env pl username i w1 of
                (Inl e, w2) \<Rightarrow> (challenge_refused e c, w2)
              | (Inr session, w2) \<Rightarrow>
                  (case check_assertion env pl rq (vb_credential b) username auth session c w2 of
                     (c1, w3) \<Rightarrow> (c1, snd (delete_challenge env i w3)))))))"

section \<open>The passkeys of an account\<close>

definition list_passkeys :: "web_env \<Rightarrow> web handler" where
  "list_passkeys env c w =
     (case db_query env (\<lambda>v. sort_key (\<lambda>k. - pk_created_at k) (passkeys_of (get_actor c) v)) w of
        (Inl e, w1) \<Rightarrow> (respond_error 500 ''DB_READ'' ''failed to read credentials'' c, w1)
      | (Inr rows, w1) \<Rightarrow>
          (respond_status 200 (APasskeys (map (\<lambda>k. k\<lparr>pk_transports :=
             filter (\<lambda>t. trim_space t \<noteq> []) (pk_transports k)\<rparr>) rows)) c, w1))"

definition delete_passkey :: "web_env \<Rightarrow> request \<Rightarrow> web handler" where
  "delete_passkey env rq c w =
     (let i = trim_space (rq_param rq ''id'')
      in if i = [] then (respond_error 400 ''INVALID_ID'' ''missing credential id'' c, w)
         else case db_write env (\<lambda>v. Inr (v\<lparr>wb_passkeys :=
                     filter (\<lambda>k. \<not> (pk_user_id k = get_actor c \<and> we_text env (pk_id k) = i)) (wb_passkeys v)\<rparr>)) w of
           (Some e, w1) \<Rightarrow> (respond_error 500 ''DB_DELETE'' ''failed to delete credential'' c, w1)
         | (None, w1) \<Rightarrow> (respond_status 200 AOk c, w1))"

end
