(* ===== verification/Login_Properties.thy ===== *)
theory Login_Properties
  imports Web_Passkeys Access_Properties Alert_Examples
begin

text \<open>
  The properties of logins with a second factor and with passkeys, each with a concrete instance.
\<close>

section \<open>Answers\<close>

text \<open>The answers that open a session.\<close>

definition opened :: "ctx \<Rightarrow> (string \<times> string \<times> string) set" where
  "opened c = {(t, name, role). (200, ALogin t name role) \<in> set (cx_out c)}"

lemma opened_new [simp]: "opened new_ctx = {}"
  by (simp add: opened_def new_ctx_def)

lemma opened_error [simp]: "opened (respond_error s code msg c) = opened c"
  by (simp add: opened_def respond_error_def respond_status_def)

lemma opened_more [simp]:
  "opened (invalid_credentials c) = opened c" "opened (load_failed c) = opened c" "opened (challenge_refused e c) = opened c"
  by (simp_all add: invalid_credentials_def load_failed_def challenge_refused_def split: challenge_error.split)

lemma out_simps [simp]:
  "cx_out new_ctx = []" "cx_out (respond_error s code msg c) = cx_out c @ [(s, AError code msg)]"
  "cx_out (invalid_credentials c) = cx_out c @ [(401, AError ''INVALID_CREDENTIALS'' ''invalid credentials'')]"
  by (simp_all add: new_ctx_def respond_error_def respond_status_def invalid_credentials_def)

lemma opened_session:
  "(t, n, r) \<in> opened (fst (open_session env rq name role c w)) \<Longrightarrow> opened c = {} \<Longrightarrow>
     n = name \<and> r = role \<and> issue_access_token env name role = Some t"
  by (auto simp: open_session_def opened_def respond_error_def respond_status_def set_refresh_cookie_def set_cookie_def
      split: option.splits sum.splits prod.splits)

lemma first_row_Inr:
  "db_first_row env tab p w = (Inr r, w1) \<longleftrightarrow> \<not> we_fail env (wb_dbn w) \<and> find p (tab w) = Some r \<and> w1 = wb_tick w"
  by (auto simp: db_first_row_def db_query_def split: option.splits)

lemma find_set: "find p xs = Some x \<Longrightarrow> x \<in> set xs \<and> p x"
  by (auto simp: find_Some_iff)

text \<open>The only row of its name and of its key.\<close>

definition sole_account :: "web_env \<Rightarrow> user \<Rightarrow> web \<Rightarrow> bool" where
  "sole_account env u w \<longleftrightarrow> u \<in> set (wb_users w) \<and>
     (\<forall>v \<in> set (wb_users w). same_username env (u_username u) v \<or> u_id v = u_id u \<longrightarrow> v = u)"

section \<open>Instances\<close>

text \<open>
  An administrator \<open>ann\<close> with one-time passwords, the same with a passkey and an open challenge, and a
  library that accepts the signatures of one key.
\<close>

definition lg_user :: user where
  "lg_user = (ax_user 2 ''ann'')\<lparr>u_role := role_admin, u_totp_enabled := True,
     u_totp_secret := Some (''v1:'' @ std_encode (replicate 12 (CHR ''n'') @ ''S''))\<rparr>"

definition lg_web :: web where
  "lg_web = ax_web\<lparr>wb_users := [lg_user]\<rparr>"

definition lg_body :: "string \<Rightarrow> string \<Rightarrow> login_body" where
  "lg_body otp recovery = \<lparr>lb_username = ''ann'', lb_password = ''old'', lb_otp = otp, lb_recovery = recovery\<rparr>"

definition lg_passkey :: "string \<Rightarrow> passkey" where
  "lg_passkey name = \<lparr>pk_id = 60, pk_user_id = name, pk_credential_id = ''QQ'', pk_public_key = ''pub'', pk_sign_count = 1,
     pk_transports = [], pk_aaguid = None, pk_created_at = 1, pk_last_used = None\<rparr>"

definition lg_session :: wa_session where
  "lg_session = \<lparr>se_challenge = ''ch'', se_rp_id = [], se_user_id = ''ann'', se_allowed = [''A''], se_expires = Some 2000,
     se_verification = [], se_extensions = []\<rparr>"

definition lg_lib :: passkey_lib where
  "lg_lib = \<lparr>pl_begin_registration = (\<lambda>n u. Inr (''{}'', lg_session)), pl_parse_creation = (\<lambda>s. True),
     pl_create_credential = (\<lambda>u s p. Inl (WaOther [])), pl_begin_login = (\<lambda>n u. Inr (''{}'', lg_session)),
     pl_parse_assertion = (\<lambda>s. Inr \<lparr>pa_id = ''QQ'', pa_raw_id = ''A'', pa_user_handle = [], pa_counter = 2,
       pa_flags = (True, False, False, False), pa_signed = s\<rparr>),
     pl_app_id = (\<lambda>a x y. Inr []),
     pl_verify = (\<lambda>a ch app uv key. if ch = ''ch'' \<and> key = ''pub'' then None else Some (WaOther ''signature'')),
     pl_update_counter = (\<lambda>a b. b), pl_has_config = True, pl_uuid_bytes = (\<lambda>s. None), pl_metadata = None,
     pl_wrapper = (\<lambda>raw. Some \<lparr>vb_username = ''ann'', vb_challenge = ''70'', vb_credential = raw\<rparr>),
     pl_session_json = (\<lambda>s. ''{}''), pl_session_read = (\<lambda>s. Some lg_session), pl_object_size = (\<lambda>s. Some 1),
     pl_register_ttl = 0, pl_login_ttl = 0\<rparr>"

lemma lg_lib_sel: "pl_session_read lg_lib s = Some lg_session"
  by (simp add: lg_lib_def)

definition lg_env :: web_env where
  "lg_env = ax_env\<lparr>we_text := (\<lambda>u. nat_text (unat u))\<rparr>"

lemma lg_healthy: "healthy_web lg_env"
  by (simp add: lg_env_def ax_env_def healthy_web_def)

definition lg_passkey_web :: web where
  "lg_passkey_web = lg_web\<lparr>wb_passkeys := [lg_passkey ''ann''],
     wb_challenges := [\<lparr>wc_id = 70, wc_user_id = ''ann'', wc_type = ''login'', wc_challenge = ''ch'', wc_session = ''{}'',
       wc_options = ''{}'', wc_created_at = 1, wc_expires_at = 2000\<rparr>]\<rparr>"

lemma lg_env_sel [simp]:
  "we_bcrypt_ok ax_env h p = (h = ''#'' @ p)" "we_totp ax_env c d t = (c = ''123456'')"
  "we_totp_key ax_env n a = Some (''S'' @ a, ''otpauth://'' @ a)" "we_qr ax_env q = Some q"
  "we_nonce ax_env n = Some (replicate 12 (CHR ''n''))" "we_admin_pass ax_env = ''pw''"
  by (simp_all add: ax_env_def)

lemma lg_web_sel [simp]:
  "wb_users lg_web = [lg_user]" "wb_passkeys lg_web = []" "wb_rnd lg_web = 0"
  by (simp_all add: lg_web_def ax_web_def)

lemma lg_sole: "sole_account ax_env lg_user lg_web"
  by (simp add: sole_account_def)

lemma lg_facts:
  "u_username lg_user = ''ann''" "u_role lg_user = role_admin" "u_totp_enabled lg_user" "u_password_hash lg_user = ''#old''"
  "trim_space ''ann'' = ''ann''" "\<not> equal_fold ''ann'' ''root''"
  by (simp_all add: lg_user_def ax_user_def) code_simp+

section \<open>The second factor of a password login\<close>

text \<open>What an account with a role that may write has to show beside the password.\<close>

definition factor_shown :: "web_env \<Rightarrow> login_body \<Rightarrow> user \<Rightarrow> web \<Rightarrow> bool" where
  "factor_shown env b u w \<longleftrightarrow>
     (if u_role u \<noteq> role_admin \<and> u_role u \<noteq> role_operator then True
      else if \<not> u_totp_enabled u then passkeys_of (u_username u) w = []
      else if trim_space (lb_recovery b) = [] then verify_totp_code env u (lb_otp b)
      else verify_recovery_code env u (lb_recovery b))"

lemma second_factor_passed:
  assumes "second_factor env b (Some u) (u_role u) c w = (None, w1)"
  shows "factor_shown env b u w"
  using assms by (auto simp: second_factor_def totp_factor_def passkey_factor_def db_query_def factor_shown_def
      split: if_splits sum.splits)

lemma second_factor_opened:
  "second_factor env b u r c w = (Some c1, w1) \<Longrightarrow> opened c1 = opened c"
  by (auto simp: second_factor_def totp_factor_def passkey_factor_def split: option.splits if_splits sum.splits prod.splits)

lemma login_account_opened:
  "login_account env b c w = (Inl c1, w1) \<Longrightarrow> opened c1 = opened c"
  by (auto simp: login_account_def Let_def split: if_splits sum.splits prod.splits goerr.splits)

lemma passkeys_tick [simp]: "passkeys_of n (wb_tick w) = passkeys_of n w"
  by (simp add: passkeys_of_def wb_tick_def)

lemma factor_shown_tick [simp]: "factor_shown env b u (wb_tick w) = factor_shown env b u w"
  by (simp add: factor_shown_def)

text \<open>C5: A password opens a session only with its second factor. When \<open>Login\<close> answers with a token, the
  token is signed for the name and the role in the answer; the password is the one of the account (for the configured
  administrator, the configured one); and an account that may write has shown a one-time password, or a
  recovery code in force, if it turned them on, and has no passkey if it did not. For the administrator
  this holds of the row in its table, if the statement that reads it finds it.\<close>
theorem password_login_needs_the_second_factor:
  assumes "(200, ALogin t name role) \<in> set (cx_out (fst (login env rq body new_ctx w)))"
  shows "issue_access_token env name role = Some t \<and>
    (\<exists>b. body = Inr b \<and>
       (if equal_fold (trim_space (lb_username b)) (we_admin_user env)
        then lb_password b = we_admin_pass env \<and>
          (\<exists>org w1. ensure_root_org env w = (Inr org, w1) \<and>
             (we_fail env (wb_dbn w1) \<or> find (same_username env (we_admin_user env)) (wb_users w1) = None \<or>
              (\<exists>u \<in> set (wb_users w1). same_username env (we_admin_user env) u \<and> name = u_username u \<and>
                 role = u_role u \<and> factor_shown env b u w1)))
        else \<exists>u \<in> set (wb_users w). same_username env (trim_space (lb_username b)) u \<and> name = u_username u \<and>
          role = u_role u \<and> we_bcrypt_ok env (u_password_hash u) (lb_password b) \<and> factor_shown env b u w))"
proof -
  have op: "(t, name, role) \<in> opened (fst (login env rq body new_ctx w))"
    using assms by (simp add: opened_def)
  obtain b where b: "body = Inr b"
    using op by (cases body) (simp_all add: login_def parse_json_body_def)
  obtain x w1 where x: "login_account env b new_ctx w = (x, w1)" by fastforce
  have "x \<noteq> Inl c" for c
    using op x login_account_opened by (fastforce simp: login_def parse_json_body_def b)
  then obtain lu n r where a: "login_account env b new_ctx w = (Inr (lu, n, r), w1)"
    using x by (cases x) auto
  obtain w2 where f: "second_factor env b lu r new_ctx w1 = (None, w2)"
    and o: "(t, name, role) \<in> opened (fst (open_session env rq n r new_ctx w2))"
    using op second_factor_opened [of env b lu r new_ctx w1]
    by (auto simp: login_def parse_json_body_def b a split: option.splits prod.splits)
  from opened_session [OF o opened_new] have n: "name = n" "role = r" "issue_access_token env name role = Some t"
    by auto
  show ?thesis
  proof (cases "equal_fold (trim_space (lb_username b)) (we_admin_user env)")
    case True
    with a obtain org v where pw: "lb_password b = we_admin_pass env" and e: "ensure_root_org env w = (Inr org, v)"
      by (auto simp: login_account_def Let_def split: if_splits sum.splits prod.splits)
    obtain y z where y: "db_first_row env wb_users (same_username env (we_admin_user env)) v = (y, z)" by fastforce
    show ?thesis
    proof (cases y)
      case (Inl err)
      then have "we_fail env (wb_dbn v) \<or> find (same_username env (we_admin_user env)) (wb_users v) = None"
        using y by (auto simp: db_first_row_def db_query_def split: if_splits option.splits)
      then show ?thesis using True pw e n(3) b by auto
    next
      case (Inr u)
      with y have u: "db_first_row env wb_users (same_username env (we_admin_user env)) v = (Inr u, z)" by simp
      then have z: "find (same_username env (we_admin_user env)) (wb_users v) = Some u" "z = wb_tick v"
        by (simp_all add: first_row_Inr)
      from a True pw e u have "lu = Some u" "n = u_username u" "r = u_role u" "w1 = z"
        by (simp_all add: login_account_def Let_def)
      with second_factor_passed [of env b u new_ctx w1 w2] f z(2) have "factor_shown env b u v" by simp
      then show ?thesis
        using True pw e n b find_set [OF z(1)] \<open>n = u_username u\<close> \<open>r = u_role u\<close> by auto
    qed
  next
    case False
    with a obtain u where u: "db_first_row env wb_users (same_username env (trim_space (lb_username b))) w = (Inr u, w1)"
      and "we_bcrypt_ok env (u_password_hash u) (lb_password b)" "lu = Some u" "n = u_username u" "r = u_role u"
      by (auto simp: login_account_def Let_def split: if_splits sum.splits prod.splits goerr.splits)
    moreover have "find (same_username env (trim_space (lb_username b))) (wb_users w) = Some u" "w1 = wb_tick w"
      using u by (simp_all add: first_row_Inr)
    moreover have "factor_shown env b u w"
      using second_factor_passed [of env b u new_ctx w1 w2] f \<open>lu = Some u\<close> \<open>r = u_role u\<close> \<open>w1 = wb_tick w\<close> by simp
    ultimately show ?thesis using False n b find_set by fastforce
  qed
qed

theorem password_login_needs_the_second_factor_witness:
  "factor_shown ax_env (lg_body ''123456'' []) lg_user lg_web"
proof -
  have "(200, ALogin ''signed'' ''ann'' role_admin) \<in>
      set (cx_out (fst (login ax_env (ax_request ''ann'' []) (Inr (lg_body ''123456'' [])) new_ctx lg_web)))"
    by code_simp
  from password_login_needs_the_second_factor [OF this] show ?thesis
    using lg_facts by (auto simp: lg_body_def lg_web_def)
qed

text \<open>C28: One failing statement is enough to skip the second factor of the administrator. When the statement
  that reads the configured administrator's row fails, the configured password opens a session, whatever
  passkeys and one-time passwords the row asks for.\<close>
theorem admin_login_fails_open:
  assumes "equal_fold (trim_space (lb_username b)) (we_admin_user env)" and "lb_password b = we_admin_pass env"
    and "ensure_root_org env w = (Inr org, w1)" and "we_fail env (wb_dbn w1)"
    and "issue_access_token env (we_admin_user env) role_admin = Some t"
    and "issue_refresh_token env rq (we_admin_user env) (wb_tick w1) = (Inr raw, w2)"
  shows "(200, ALogin t (we_admin_user env) role_admin) \<in> set (cx_out (fst (login env rq (Inr b) new_ctx w)))"
proof -
  have "login_account env b new_ctx w = (Inr (None, we_admin_user env, role_admin), wb_tick w1)"
    using assms(1-4) by (simp add: login_account_def Let_def db_first_row_def db_query_def)
  then show ?thesis
    using assms(5,6) by (simp add: login_def parse_json_body_def second_factor_def open_session_def respond_status_def)
qed

text \<open>The seventh statement is the one that reads the row.\<close>

definition lg_failing :: web_env where
  "lg_failing = ax_env\<lparr>we_fail := (\<lambda>n. n = 7)\<rparr>"

definition lg_admin_web :: web where
  "lg_admin_web = ax_web\<lparr>wb_passkeys := [lg_passkey ''root'']\<rparr>"

theorem admin_login_fails_open_witness:
  "(let b = \<lparr>lb_username = ''root'', lb_password = ''pw'', lb_otp = [], lb_recovery = []\<rparr>; rq = ax_request ''ann'' []
    in (200, ALogin ''signed'' ''root'' role_admin) \<in> set (cx_out (fst (login lg_failing rq (Inr b) new_ctx lg_admin_web))) \<and>
       cx_out (fst (login ax_env rq (Inr b) new_ctx lg_admin_web)) =
         [(401, AError ''PASSKEY_REQUIRED'' ''passkey required'')])"
proof -
  let ?b = "\<lparr>lb_username = ''root'', lb_password = ''pw'', lb_otp = [], lb_recovery = []\<rparr>"
  let ?rq = "ax_request ''ann'' []"
  obtain x w1 where x: "ensure_root_org lg_failing lg_admin_web = (x, w1)" by fastforce
  have "\<not> isl (fst (ensure_root_org lg_failing lg_admin_web)) \<and>
      we_fail lg_failing (wb_dbn (snd (ensure_root_org lg_failing lg_admin_web)))"
    by code_simp
  then obtain org where org: "ensure_root_org lg_failing lg_admin_web = (Inr org, w1)" and f: "we_fail lg_failing (wb_dbn w1)"
    using x by (cases x) auto
  have "\<not> isl (fst (issue_refresh_token lg_failing ?rq ''root'' (wb_tick (snd (ensure_root_org lg_failing lg_admin_web)))))"
    by code_simp
  then obtain raw w2 where raw: "issue_refresh_token lg_failing ?rq ''root'' (wb_tick w1) = (Inr raw, w2)"
    using x by (metis isl_def obj_sumE prod.collapse snd_conv)
  have adm: "we_admin_user lg_failing = ''root''" "we_admin_pass lg_failing = ''pw''" by (simp_all add: lg_failing_def ax_env_def)
  have "issue_access_token lg_failing ''root'' role_admin = Some ''signed''" "trim_space ''root'' = ''root''" by code_simp+
  then have "(200, ALogin ''signed'' ''root'' role_admin) \<in> set (cx_out (fst (login lg_failing ?rq (Inr ?b) new_ctx lg_admin_web)))"
    using admin_login_fails_open [of ?b lg_failing lg_admin_web org w1 "''signed''" ?rq raw w2] org f raw adm by simp
  moreover have "cx_out (fst (login ax_env ?rq (Inr ?b) new_ctx lg_admin_web)) =
      [(401, AError ''PASSKEY_REQUIRED'' ''passkey required'')]"
    by code_simp
  ultimately show ?thesis by (simp add: Let_def)
qed

section \<open>One-time passwords can be dropped without one\<close>

lemma sole_find: "sole_account env u w \<Longrightarrow> find (same_username env (u_username u)) (wb_users w) = Some u"
  by (rule find_unique [of u]) (auto simp: sole_account_def same_username_def)

lemma sole_users: "wb_users w' = wb_users w \<Longrightarrow> sole_account env u w' = sole_account env u w"
  by (simp add: sole_account_def)

lemma sole_tick [simp]: "sole_account env u (wb_tick w) = sole_account env u w"
  by (rule sole_users) simp

lemma audit_same [simp]:
  "wb_users (audit_event env c x s p w) = wb_users w" "passkeys_of n (audit_event env c x s p w) = passkeys_of n w"
  by (auto simp: audit_event_def db_write_def wb_tick_def passkeys_of_def)

text \<open>A saved row takes the place of the old one.\<close>

definition saved :: "user \<Rightarrow> web \<Rightarrow> web" where
  "saved u w = (wb_tick w)\<lparr>wb_users := row_upd u_id (u_id u) (\<lambda>_. u) (wb_users w)\<rparr>"

lemma healthy_save: "healthy_web env \<Longrightarrow> db_write env (save_user u) w = (None, saved u w)"
  by (simp add: healthy_write save_user_def saved_def)

lemma saved_passkeys [simp]: "passkeys_of n (saved u w) = passkeys_of n w"
  by (simp add: passkeys_of_def saved_def wb_tick_def)

lemma passkeys_rnd [simp]: "passkeys_of n (w\<lparr>wb_rnd := r\<rparr>) = passkeys_of n w"
  by (simp add: passkeys_of_def)

lemma sole_saved:
  assumes "sole_account env u w" and "u_id u' = u_id u" and "u_username u' = u_username u"
  shows "sole_account env u' (saved u' w)"
  using assms by (auto simp: sole_account_def saved_def row_upd_def same_username_def)

lemma with_account_user:
  assumes "healthy_web env" and "sole_account env u w" and "cx_actor c = u_username u" and "u_username u \<noteq> []"
    and "u_username u \<noteq> we_admin_user env"
  shows "with_account env k c w = k u c (wb_tick w)"
  using assms sole_find [OF assms(2)] by (simp add: with_account_def current_user_def healthy_first)

lemma login_user:
  assumes "healthy_web env" and "sole_account env u w" and "trim_space (lb_username b) = u_username u"
    and "\<not> equal_fold (u_username u) (we_admin_user env)" and "we_bcrypt_ok env (u_password_hash u) (lb_password b)"
  shows "login env rq (Inr b) new_ctx w =
    (case second_factor env b (Some u) (u_role u) new_ctx (wb_tick w) of
       (Some c1, w2) \<Rightarrow> (c1, w2)
     | (None, w2) \<Rightarrow> open_session env rq (u_username u) (u_role u) new_ctx w2)"
proof -
  have "login_account env b new_ctx w = (Inr (Some u, u_username u, u_role u), wb_tick w)"
    using assms sole_find [OF assms(2)] by (simp add: login_account_def healthy_first)
  then show ?thesis by (simp add: login_def parse_json_body_def)
qed

text \<open>C27: A session is enough to drop the one-time passwords of an account. \<open>SetupTOTP\<close> asks for no code: called in
  a session of an account that has them on, it stores a new secret and turns them off. Before, a login with the
  password alone is asked for a code, whether the account has passkeys or not; after, it is not: it opens a
  session when the account has no passkey, and is sent to the passkey login when it has one.\<close>
theorem setup_drops_the_second_factor:
  assumes "healthy_web env" and "sole_account env u w" and "u_username u \<noteq> []"
    and "\<not> equal_fold (u_username u) (we_admin_user env)" and "u_role u = role_admin \<or> u_role u = role_operator"
    and "u_totp_enabled u" and "cx_actor c = u_username u" and "we_totp_key env (wb_rnd w) (u_username u) = Some (secret, url)"
    and "we_nonce env (wb_rnd w) \<noteq> None" and "we_qr env url \<noteq> None"
    and "trim_space (lb_username b) = u_username u" and "we_bcrypt_ok env (u_password_hash u) (lb_password b)"
    and "trim_space (lb_otp b) = []" and "trim_space (lb_recovery b) = []"
  shows "cx_out (fst (login env rq (Inr b) new_ctx w)) = [(401, AError ''TOTP_REQUIRED'' ''otp required'')] \<and>
    (\<exists>c1 w1. setup_totp env c w = (c1, w1) \<and> fst (last (cx_out c1)) = 200 \<and>
      (if passkeys_of (u_username u) w = []
       then \<exists>w2. login env rq (Inr b) new_ctx w1 = open_session env rq (u_username u) (u_role u) new_ctx w2
       else cx_out (fst (login env rq (Inr b) new_ctx w1)) = [(401, AError ''PASSKEY_REQUIRED'' ''passkey required'')]))"
proof -
  have asked: "cx_out (fst (login env rq (Inr b) new_ctx w)) = [(401, AError ''TOTP_REQUIRED'' ''otp required'')]"
    using assms(5,6,13,14) login_user [OF assms(1,2,11,4,12), of rq]
    by (auto simp: second_factor_def totp_factor_def respond_error_def respond_status_def new_ctx_def)
  have adm: "u_username u \<noteq> we_admin_user env" using assms(4) by auto
  obtain n png where n: "we_nonce env (wb_rnd w) = Some n" and png: "we_qr env url = Some png"
    using assms(9,10) by auto
  let ?enc = "enc_prefix @ std_encode (n @ gc_seal (we_gcm env) (we_key env) n secret)"
  let ?u = "u\<lparr>u_totp_secret := Some ?enc, u_totp_enabled := False, u_updated_at := we_now env\<rparr>"
  let ?w = "(wb_tick w)\<lparr>wb_rnd := Suc (wb_rnd w)\<rparr>"
  let ?c1 = "respond_status 200 (ATotpSetup secret url (''data:image/png;base64,'' @ std_encode png)) c"
  let ?w1 = "audit_event env c ''TOTP_SETUP'' ''ok'' [(''user'', u_username u)] (saved ?u ?w)"
  have "encrypt env secret (wb_tick w) = (Inr ?enc, ?w)"
    by (simp add: encrypt_def encrypt_string_def n)
  then have made: "setup_totp env c w = (?c1, ?w1)"
    unfolding setup_totp_def with_account_user [OF assms(1,2,7,3) adm]
    using assms(5,8) png by (auto simp: healthy_save [OF assms(1)])
  have "sole_account env u ?w" using assms(2) by (simp add: sole_account_def)
  then have "sole_account env ?u (saved ?u ?w)" by (rule sole_saved) simp_all
  then have sole: "sole_account env ?u ?w1" by (simp add: sole_account_def)
  have factor: "second_factor env b (Some ?u) (u_role ?u) new_ctx (wb_tick ?w1) =
      (if passkeys_of (u_username u) w = [] then None
       else Some (respond_error 401 ''PASSKEY_REQUIRED'' ''passkey required'' new_ctx), wb_tick (wb_tick ?w1))"
    using assms(5) by (auto simp: second_factor_def passkey_factor_def healthy_query [OF assms(1)])
  have "login env rq (Inr b) new_ctx ?w1 =
      (case second_factor env b (Some ?u) (u_role ?u) new_ctx (wb_tick ?w1) of
         (Some c1, w2) \<Rightarrow> (c1, w2)
       | (None, w2) \<Rightarrow> open_session env rq (u_username ?u) (u_role ?u) new_ctx w2)"
    by (rule login_user [OF assms(1) sole]) (use assms(4,11,12) in simp_all)
  then have after: "login env rq (Inr b) new_ctx ?w1 =
      (if passkeys_of (u_username u) w = []
       then open_session env rq (u_username u) (u_role u) new_ctx (wb_tick (wb_tick ?w1))
       else (respond_error 401 ''PASSKEY_REQUIRED'' ''passkey required'' new_ctx, wb_tick (wb_tick ?w1)))"
    unfolding factor by simp
  have "fst (last (cx_out ?c1)) = 200" by (simp add: respond_status_def)
  moreover have "if passkeys_of (u_username u) w = []
      then \<exists>w2. login env rq (Inr b) new_ctx ?w1 = open_session env rq (u_username u) (u_role u) new_ctx w2
      else cx_out (fst (login env rq (Inr b) new_ctx ?w1)) = [(401, AError ''PASSKEY_REQUIRED'' ''passkey required'')]"
    using after by (auto simp: respond_error_def respond_status_def new_ctx_def)
  ultimately show ?thesis using asked made by blast
qed

text \<open>The account of the example without a passkey, and with one.\<close>

definition lg_both :: web where
  "lg_both = lg_web\<lparr>wb_passkeys := [lg_passkey ''ann'']\<rparr>"

theorem setup_drops_the_second_factor_witness:
  "(\<exists>c1 w1 w2. setup_totp ax_env (new_ctx\<lparr>cx_actor := ''ann''\<rparr>) lg_web = (c1, w1) \<and> fst (last (cx_out c1)) = 200 \<and>
     login ax_env (ax_request [] []) (Inr (lg_body [] [])) new_ctx w1 =
       open_session ax_env (ax_request [] []) ''ann'' role_admin new_ctx w2) \<and>
   (\<exists>c1 w1. setup_totp ax_env (new_ctx\<lparr>cx_actor := ''ann''\<rparr>) lg_both = (c1, w1) \<and> fst (last (cx_out c1)) = 200 \<and>
     cx_out (fst (login ax_env (ax_request [] []) (Inr (lg_body [] [])) new_ctx w1)) =
       [(401, AError ''PASSKEY_REQUIRED'' ''passkey required'')])"
proof -
  have run: "\<exists>c1 w1. setup_totp ax_env (new_ctx\<lparr>cx_actor := ''ann''\<rparr>) w = (c1, w1) \<and> fst (last (cx_out c1)) = 200 \<and>
      (if passkeys_of ''ann'' w = []
       then \<exists>w2. login ax_env (ax_request [] []) (Inr (lg_body [] [])) new_ctx w1 =
              open_session ax_env (ax_request [] []) ''ann'' role_admin new_ctx w2
       else cx_out (fst (login ax_env (ax_request [] []) (Inr (lg_body [] [])) new_ctx w1)) =
              [(401, AError ''PASSKEY_REQUIRED'' ''passkey required'')])"
    if sole: "sole_account ax_env lg_user w" for w
  proof (rule setup_drops_the_second_factor [of ax_env lg_user w, unfolded lg_facts, THEN conjunct2])
    show "we_bcrypt_ok ax_env ''#old'' (lb_password (lg_body [] []))" by (simp add: lg_body_def)
  qed (use sole lg_facts in \<open>simp_all add: lg_body_def\<close>)
  have keys: "passkeys_of ''ann'' lg_web = []" "passkeys_of ''ann'' lg_both \<noteq> []" by code_simp+
  have both: "sole_account ax_env lg_user lg_both" using lg_sole by (simp add: sole_account_def lg_both_def)
  show ?thesis using run [OF lg_sole] run [OF both] keys by (auto split: if_splits)
qed

section \<open>Recovery codes\<close>

definition clock_at :: "instant \<Rightarrow> web_env \<Rightarrow> web_env" where
  "clock_at t env = env\<lparr>we_now := t\<rparr>"

lemma clock_at_simps [simp]:
  "healthy_web (clock_at t env) = healthy_web env" "sole_account (clock_at t env) u w = sole_account env u w"
  "we_now (clock_at t env) = t" "we_admin_user (clock_at t env) = we_admin_user env"
  "we_bcrypt_ok (clock_at t env) = we_bcrypt_ok env" "we_text (clock_at t env) = we_text env"
  by (simp_all add: clock_at_def healthy_web_def sole_account_def same_username_def)

lemma send_each_outbox:
  "send_each env tok text chats a = (rs, a1) \<Longrightarrow>
     w_outbox a1 = w_outbox a @ map (\<lambda>chat. TgSend tok chat text None) chats \<and> length rs = length chats"
proof (induction chats arbitrary: a rs a1)
  case (Cons chat chats)
  then show ?case by (fastforce simp: tg_do_def Let_def split: prod.splits)
qed simp

lemma send_telegram_outbox:
  "send_telegram_message env tok chats msg a = (rs, a1) \<Longrightarrow>
     w_outbox a1 = w_outbox a @ map (\<lambda>chat. TgSend tok chat (escape_html msg) None) chats"
  using send_each_outbox by (auto simp: send_telegram_message_def send_test_detailed_def)

lemma recovery_chats_Inr:
  assumes "recovery_chats env aenv u c (w, a) = (Inr (token, ids), w1, a1)"
  shows "wb_users w1 = wb_users w" "wb_passkeys w1 = wb_passkeys w" "w_outbox a1 = w_outbox a" "ids \<noteq> []"
proof -
  obtain org where org: "first_org_for_user env (u_id u) w = (Inr org, w1)"
    using assms by (auto simp: recovery_chats_def Let_def split: sum.splits prod.splits if_splits)
  then have "w1 = wb_tick w"
    by (auto simp: first_org_for_user_def db_least_row_def db_query_def split: sum.splits prod.splits option.splits if_splits)
  then show "wb_users w1 = wb_users w" "wb_passkeys w1 = wb_passkeys w" by (simp_all add: wb_tick_def)
  have "w_outbox (snd (get_telegram_row aenv org a)) = w_outbox a"
    by (simp add: get_telegram_row_def db_first_def db_tick_def)
  then show "w_outbox a1 = w_outbox a" "ids \<noteq> []"
    using assms org by (auto simp: recovery_chats_def Let_def split: sum.splits prod.splits if_splits)
qed

lemma generate_recovery_code_Some:
  assumes "generate_recovery_code env w = (Some (code, h), w1)"
  shows "we_bcrypt env code = Some h" "wb_users w1 = wb_users w" "\<exists>n < 100000000. code = pad_zeros 8 (nat_text n)"
proof -
  obtain v where v: "code = pad_zeros 8 (nat_text (unat (v mod (100000000 :: 32 word))))"
    and "we_bcrypt env code = Some h" "wb_users w1 = wb_users w"
    using assms by (auto simp: generate_recovery_code_def Let_def split: option.splits)
  moreover have "unat (v mod (100000000 :: 32 word)) < 100000000"
    by (simp add: unat_mod)
  ultimately show "we_bcrypt env code = Some h" "wb_users w1 = wb_users w"
    "\<exists>n < 100000000. code = pad_zeros 8 (nat_text n)" by blast+
qed

lemma trim_code [simp]: "trim_space (pad_zeros k (nat_text n)) = pad_zeros k (nat_text n)"
proof -
  have "list_all (\<lambda>c. c \<in> set plain_chars) ''0123456789''" by code_simp
  then have "set (pad_zeros k (nat_text n)) \<subseteq> set plain_chars"
    using set_nat_text [of n] by (auto simp: pad_zeros_def list_all_iff)
  moreover have "pad_zeros k (nat_text n) \<noteq> []" by (simp add: pad_zeros_def)
  ultimately show ?thesis by (intro trim_space_plain) auto
qed

text \<open>What \<open>SendRecoveryCode\<close> does when it answers that the code was sent.\<close>

lemma send_recovery_code_sent:
  assumes "healthy_web env" and "sole_account env u w" and "trim_space name = u_username u"
    and "send_recovery_code env aenv (Inr (name, pw)) new_ctx (w, a) = (c1, w1, a1)"
    and "cx_out c1 = [(200, ASent ok m k)]"
  shows "\<exists>code h token chats w3 w2. (\<exists>n < 100000000. code = pad_zeros 8 (nat_text n)) \<and> we_bcrypt env code = Some h \<and>
    chats \<noteq> [] \<and> w_outbox a1 = w_outbox a @
      map (\<lambda>chat. TgSend token chat (escape_html (recovery_message u code)) None) chats \<and>
    wb_users w3 = wb_users w \<and> w2 = saved (with_recovery env h u) w3 \<and>
    wb_users w1 = wb_users w2"
proof -
  obtain x v where x: "recovery_account env (trim_space name) pw new_ctx w = (x, v)" by fastforce
  have "\<exists>y. x = Inr y"
  proof (cases x)
    case (Inl c2)
    have "cx_out c2 \<noteq> [(200, ASent ok m k)]"
      using x sole_find [OF assms(2)] assms(3) unfolding Inl recovery_account_def healthy_first [OF assms(1)]
      by (auto split: if_splits)
    then show ?thesis using assms(4,5) x Inl by (simp add: send_recovery_code_def parse_json_body_def)
  qed simp
  with x have u: "x = Inr u" and v: "v = wb_tick w"
    using sole_find [OF assms(2)] assms(3)
    by (auto simp: recovery_account_def healthy_first [OF assms(1)] split: if_splits)
  obtain y w2 a2 where y: "recovery_chats env aenv u new_ctx (v, a) = (y, w2, a2)" by (metis prod_cases3)
  have "\<exists>token ids. y = Inr (token, ids)"
  proof (cases y)
    case (Inl c2)
    have "cx_out c2 \<noteq> [(200, ASent ok m k)]"
      using y unfolding Inl by (auto simp: recovery_chats_def Let_def split: if_splits sum.splits prod.splits)
    then show ?thesis using assms(4,5) x u y Inl by (simp add: send_recovery_code_def parse_json_body_def)
  qed auto
  then obtain token ids where ids: "recovery_chats env aenv u new_ctx (v, a) = (Inr (token, ids), w2, a2)" using y by auto
  obtain z w3 where z: "generate_recovery_code env w2 = (z, w3)" by fastforce
  have "z \<noteq> None"
    using assms(4,5) x u ids z by (cases z) (auto simp: send_recovery_code_def parse_json_body_def)
  then obtain code h where code: "generate_recovery_code env w2 = (Some (code, h), w3)" using z by auto
  obtain rs a3 where rs: "send_telegram_message aenv (trim_space token) ids (recovery_message u code) a2 = (rs, a3)"
    by fastforce
  have "w1 = audit_event env new_ctx ''TOTP_RECOVERY_SENT'' ''ok'' [(''user'', u_username u)] (saved (with_recovery env h u) w3)"
    and "a1 = a3"
    using assms(4) x u ids code rs
    by (simp_all add: send_recovery_code_def parse_json_body_def healthy_save [OF assms(1)] Let_def)
  moreover have "wb_users w3 = wb_users w" using generate_recovery_code_Some(2) [OF code] recovery_chats_Inr(1) [OF ids] v by simp
  moreover have "w_outbox a3 = w_outbox a @
      map (\<lambda>chat. TgSend (trim_space token) chat (escape_html (recovery_message u code)) None) ids"
    using send_telegram_outbox [OF rs] recovery_chats_Inr(3) [OF ids] by simp
  ultimately show ?thesis
    using generate_recovery_code_Some(1,3) [OF code] recovery_chats_Inr(4) [OF ids]
    by (intro exI [of _ code] exI [of _ h] exI [of _ "trim_space token"] exI [of _ ids] exI [of _ w3]
      exI [of _ "saved (with_recovery env h u) w3"] conjI) simp_all
qed

text \<open>C26: A recovery code opens one session and ends the second factor. When \<open>SendRecoveryCode\<close> answers that
  it was sent, a code of at most eight digits went to at least one chat; a login with the password and this
  code, at any time within ten minutes, opens a session, and then the account has no one-time passwords and
  no recovery code is valid for it.\<close>
theorem recovery_code_opens_once:
  assumes "healthy_web env" and "sole_account env u w" and "\<not> equal_fold (u_username u) (we_admin_user env)"
    and "u_role u = role_admin \<or> u_role u = role_operator" and "u_totp_enabled u"
    and "trim_space name = u_username u" and "we_bcrypt_ok env (u_password_hash u) pw"
    and "\<And>p h. we_bcrypt env p = Some h \<Longrightarrow> trim_space h \<noteq> [] \<and> we_bcrypt_ok env h p"
    and "send_recovery_code env aenv (Inr (name, pw)) new_ctx (w, a) = (c1, w1, a1)"
    and "cx_out c1 = [(200, ASent ok m k)]"
  shows "\<exists>code token chats. (\<exists>n < 100000000. code = pad_zeros 8 (nat_text n)) \<and> chats \<noteq> [] \<and>
    w_outbox a1 = w_outbox a @ map (\<lambda>chat. TgSend token chat (escape_html (recovery_message u code)) None) chats \<and>
    (\<forall>t rq otp. we_now env \<le> t \<and> t \<le> we_now env + 10 * minute \<longrightarrow>
       (\<exists>w2 u2. login (clock_at t env) rq
            (Inr \<lparr>lb_username = name, lb_password = pw, lb_otp = otp, lb_recovery = code\<rparr>) new_ctx w1 =
          open_session (clock_at t env) rq (u_username u) (u_role u) new_ctx w2 \<and>
        sole_account env u2 w2 \<and> u_username u2 = u_username u \<and> \<not> u_totp_enabled u2 \<and>
        (\<forall>t code. \<not> verify_recovery_code (clock_at t env) u2 code)))"
proof -
  obtain code h token chats w3 where code: "\<exists>n < 100000000. code = pad_zeros 8 (nat_text n)" "we_bcrypt env code = Some h"
    and sent: "chats \<noteq> []" "w_outbox a1 = w_outbox a @
      map (\<lambda>chat. TgSend token chat (escape_html (recovery_message u code)) None) chats"
    and w3: "wb_users w3 = wb_users w" and w1: "wb_users w1 = wb_users (saved (with_recovery env h u) w3)"
    using send_recovery_code_sent [OF assms(1,2,6,9,10)] by blast
  let ?u = "with_recovery env h u"
  have "sole_account env u w3" using assms(2) sole_users [OF w3] by simp
  then have "sole_account env ?u (saved ?u w3)" by (rule sole_saved) (simp_all add: with_recovery_def)
  then have sole: "sole_account env ?u w1" using sole_users [OF w1] by simp
  have login: "\<exists>w2 u2. login (clock_at t env) rq (Inr b) new_ctx w1 =
        open_session (clock_at t env) rq (u_username u) (u_role u) new_ctx w2 \<and>
      sole_account env u2 w2 \<and> u_username u2 = u_username u \<and> \<not> u_totp_enabled u2 \<and>
      (\<forall>t code. \<not> verify_recovery_code (clock_at t env) u2 code)"
    if t: "we_now env \<le> t" "t \<le> we_now env + 10 * minute"
      and b: "b = \<lparr>lb_username = name, lb_password = pw, lb_otp = otp, lb_recovery = code\<rparr>" for t rq otp b
  proof -
    let ?env = "clock_at t env"
    let ?u2 = "without_totp ?env ?u"
    have "trim_space code = code" using code(1) by auto
    moreover have "code \<noteq> []" using code(1) by (auto simp: pad_zeros_def)
    moreover have "verify_recovery_code ?env ?u code"
      using assms(8) [OF code(2)] t \<open>trim_space code = code\<close> by (simp add: verify_recovery_code_def with_recovery_def)
    ultimately have f: "second_factor ?env b (Some ?u) (u_role ?u) new_ctx (wb_tick w1) =
        (None, saved ?u2 (wb_tick w1))"
      using assms(1,4,5) b by (auto simp: second_factor_def totp_factor_def disable_user_totp_def healthy_save with_recovery_def)
    have "login ?env rq (Inr b) new_ctx w1 =
        (case second_factor ?env b (Some ?u) (u_role ?u) new_ctx (wb_tick w1) of
           (Some c1, w2) \<Rightarrow> (c1, w2)
         | (None, w2) \<Rightarrow> open_session ?env rq (u_username ?u) (u_role ?u) new_ctx w2)"
      by (rule login_user) (use assms(1,3,6,7) sole b in \<open>simp_all add: with_recovery_def\<close>)
    then have "login ?env rq (Inr b) new_ctx w1 =
        open_session ?env rq (u_username u) (u_role u) new_ctx (saved ?u2 (wb_tick w1))"
      unfolding f by (simp add: with_recovery_def)
    moreover have "sole_account env ?u2 (saved ?u2 (wb_tick w1))"
      by (rule sole_saved [of env ?u]) (use sole in \<open>simp_all add: without_totp_def\<close>)
    ultimately show ?thesis
      by (intro exI [of _ "saved ?u2 (wb_tick w1)"] exI [of _ ?u2])
        (simp add: without_totp_def with_recovery_def verify_recovery_code_def)
  qed
  show ?thesis
    by (intro exI [of _ code] exI [of _ token] exI [of _ chats] conjI allI impI)
      (rule code(1), rule sent(1), rule sent(2), rule login [OF _ _ refl], simp_all)
qed

definition lg_world :: world where
  "lg_world = ex_world\<lparr>w_settings := [\<lparr>tr_id = 90, tr_org_id = Some 10,
     tr_bot_token_enc = ''v1:'' @ std_encode (replicate 12 (CHR ''n'') @ ''t''), tr_admin_chat_id = ''11'',
     tr_alert_connection = True, tr_alert_cpu = True, tr_alert_memory = True, tr_alert_disk = True,
     tr_ack_mute_minutes = 60, tr_mute_minutes = 60, tr_created_at = 1, tr_updated_at = 1\<rparr>]\<rparr>"

theorem recovery_code_opens_once_witness:
  "\<exists>code w2 u2. login (clock_at 2000 ax_env) (ax_request [] []) (Inr (lg_body [] code)) new_ctx
       (fst (snd (send_recovery_code ax_env ex_env (Inr (''ann'', ''old'')) new_ctx (lg_web, lg_world)))) =
     open_session (clock_at 2000 ax_env) (ax_request [] []) ''ann'' role_admin new_ctx w2 \<and>
     sole_account ax_env u2 w2 \<and> \<not> u_totp_enabled u2"
proof -
  obtain c1 w1 a1 where s: "send_recovery_code ax_env ex_env (Inr (''ann'', ''old'')) new_ctx (lg_web, lg_world) = (c1, w1, a1)"
    by (metis prod_cases3)
  have "cx_out (fst (send_recovery_code ax_env ex_env (Inr (''ann'', ''old'')) new_ctx (lg_web, lg_world))) =
      [(200, ASent True 1 1)]"
    by code_simp
  with s have out: "cx_out c1 = [(200, ASent True 1 1)]" by simp
  have hash: "trim_space (''#'' @ q) \<noteq> []" for q
  proof -
    have "list_all (\<lambda>r. hd r \<noteq> CHR ''#'') ws_runes" by code_simp
    then have "\<not> prefix r (''#'' @ q)" if "r \<in> set ws_runes" for r
      using that ws_runes_nonempty [OF that] by (cases r) (auto simp: list_all_iff)
    then have "lead_ws (''#'' @ q) = 0" using lead_ws_pos_iff by blast
    then have "trim_left (''#'' @ q) = ''#'' @ q" by (subst trim_left.simps) simp
    then show ?thesis by (simp only: trim_space_blank_iff) simp
  qed
  have late: "(1000::int) \<le> 2000 \<and> (2000::int) \<le> 1000 + 10 * minute" by code_simp
  obtain code where code: "\<forall>t rq otp. we_now ax_env \<le> t \<and> t \<le> we_now ax_env + 10 * minute \<longrightarrow>
       (\<exists>w2 u2. login (clock_at t ax_env) rq
            (Inr \<lparr>lb_username = ''ann'', lb_password = ''old'', lb_otp = otp, lb_recovery = code\<rparr>) new_ctx w1 =
          open_session (clock_at t ax_env) rq (u_username lg_user) (u_role lg_user) new_ctx w2 \<and>
        sole_account ax_env u2 w2 \<and> u_username u2 = u_username lg_user \<and> \<not> u_totp_enabled u2 \<and>
        (\<forall>t code. \<not> verify_recovery_code (clock_at t ax_env) u2 code))"
    using recovery_code_opens_once [OF ax_healthy lg_sole _ _ _ _ _ _ s out] lg_facts hash by auto
  have "\<exists>w2 u2. login (clock_at 2000 ax_env) (ax_request [] [])
            (Inr \<lparr>lb_username = ''ann'', lb_password = ''old'', lb_otp = [], lb_recovery = code\<rparr>) new_ctx w1 =
          open_session (clock_at 2000 ax_env) (ax_request [] []) (u_username lg_user) (u_role lg_user) new_ctx w2 \<and>
        sole_account ax_env u2 w2 \<and> \<not> u_totp_enabled u2"
    using code [rule_format, of 2000 "ax_request [] []" "[]"] late by auto
  then show ?thesis unfolding lg_body_def s lg_facts by auto
qed

section \<open>Logins with a passkey\<close>

lemma validate_login_Inr:
  assumes "validate_login_relaxed env pl usr s a = Inr cred'"
  shows "wu_id usr = se_user_id s \<and> (\<forall>t. se_expires s = Some t \<longrightarrow> we_now env \<le> t) \<and>
    (se_allowed s \<noteq> [] \<longrightarrow> pa_raw_id a \<in> set (se_allowed s)) \<and>
    (pa_user_handle a = [] \<or> pa_user_handle a = wu_id usr) \<and>
    (\<exists>cred \<in> set (wu_creds usr). cd_id cred = pa_raw_id a \<and>
       (\<exists>app. pl_verify pl a (se_challenge s) app (se_verification s = ''required'') (cd_public_key cred) = None))"
proof -
  have s: "session_admits env usr s a = Inr ()"
    using assms by (auto simp: validate_login_relaxed_def split: sum.splits)
  then obtain cred where c: "find (\<lambda>cred. cd_id cred = pa_raw_id a) (wu_creds usr) = Some cred"
    using assms by (auto simp: validate_login_relaxed_def bad_request_def split: option.splits)
  have "check_signature pl s a cred = Inr cred'"
    using assms s c by (auto simp: validate_login_relaxed_def bad_request_def split: if_splits sum.splits)
  then have "\<exists>app. pl_verify pl a (se_challenge s) app (se_verification s = ''required'') (cd_public_key cred) = None"
    by (auto simp: check_signature_def split: sum.splits option.splits)
  moreover have "cred \<in> set (wu_creds usr)" "cd_id cred = pa_raw_id a" using find_set [OF c] by auto
  moreover have "wu_id usr = se_user_id s" "\<forall>t. se_expires s = Some t \<longrightarrow> we_now env \<le> t"
    "se_allowed s \<noteq> [] \<longrightarrow> pa_raw_id a \<in> set (se_allowed s)" "pa_user_handle a = [] \<or> pa_user_handle a = wu_id usr"
    using s by (auto simp: session_admits_def bad_request_def split: if_splits option.splits)
  ultimately show ?thesis by blast
qed

lemma passkey_session_opened:
  "(t, n, r) \<in> opened (fst (passkey_session env rq name cred c w)) \<Longrightarrow> opened c = {} \<Longrightarrow>
     n = name \<and> issue_access_token env name r = Some t"
  by (auto simp: passkey_session_def split: option.splits sum.splits prod.splits if_splits dest!: opened_session)

lemma check_assertion_opened:
  assumes "(t, n, r) \<in> opened (fst (check_assertion env pl rq payload name who s c w))" and "opened c = {}"
  shows "n = name \<and> issue_access_token env name r = Some t \<and>
    (\<exists>a cred. pl_parse_assertion pl payload = Inr a \<and> validate_login_relaxed env pl who s a = Inr cred)"
  using assms by (auto simp: check_assertion_def Let_def split: sum.splits prod.splits bool.splits if_splits
      dest!: passkey_session_opened)

lemma load_user_creds:
  assumes "load_webauthn_user env name w = (Inr who, w1)"
  shows "wu_id who = name" "w1 = wb_tick w"
    "cred \<in> set (wu_creds who) \<Longrightarrow> \<exists>k \<in> set (wb_passkeys w). pk_user_id k = name \<and> row_credential k = Some cred"
  using assms by (auto simp: load_webauthn_user_def db_query_def passkeys_of_def List.map_filter_def split: if_splits) blast

lemma row_credential_key: "row_credential k = Some cred \<Longrightarrow> cd_public_key cred = pk_public_key k"
  by (auto simp: row_credential_def split: option.splits)

lemma wb_challenges_tick [simp]: "wb_challenges (wb_tick w) = wb_challenges w"
  by (simp add: wb_tick_def)

lemma load_challenge_by_id_Inr:
  assumes "load_challenge_by_id env pl name i w = (Inr s, w1)"
  shows "\<exists>row \<in> set (wb_challenges w). we_text env (wc_id row) = i \<and>
    (trim_space (wc_user_id row) = [] \<or> trim_space name = [] \<or> wc_user_id row = name) \<and>
    we_now env \<le> wc_expires_at row \<and> pl_session_read pl (wc_session row) = Some s"
proof -
  obtain row v where row: "db_first_row env wb_challenges (\<lambda>r. we_text env (wc_id r) = i) w = (Inr row, v)"
    and "open_challenge env pl row = Inr s"
    and "trim_space (wc_user_id row) = [] \<or> trim_space name = [] \<or> wc_user_id row = name"
    using assms by (auto simp: load_challenge_by_id_def split: if_splits sum.splits prod.splits)
  moreover have "find (\<lambda>r. we_text env (wc_id r) = i) (wb_challenges w) = Some row"
    using row by (simp add: first_row_Inr)
  ultimately show ?thesis using find_set by (fastforce simp: open_challenge_def split: if_splits option.splits)
qed

text \<open>C6: A passkey opens a session only with a signature over a stored challenge. When the login with a passkey
  answers with a token, it is signed for the user of the answer; the request names a stored challenge that has
  not expired and whose session is this user's; and the assertion is by a passkey registered for this user,
  allowed by the session, and its signature over the challenge was accepted under the registered public key.\<close>
theorem passkey_login_needs_a_signature:
  assumes "(200, ALogin t name role) \<in> set (cx_out (fst (passkey_login_verify env lib rq body new_ctx w)))"
  shows "issue_access_token env name role = Some t \<and>
    (\<exists>pl raw row s k cred a app. lib = Some pl \<and> body = Some raw \<and>
       row \<in> set (wb_challenges w) \<and> we_text env (wc_id row) = trim_space (vb_challenge (wrapped pl raw)) \<and>
       we_now env \<le> wc_expires_at row \<and> pl_session_read pl (wc_session row) = Some s \<and> se_user_id s = name \<and>
       k \<in> set (wb_passkeys w) \<and> pk_user_id k = name \<and> row_credential k = Some cred \<and>
       pl_parse_assertion pl (vb_credential (wrapped pl raw)) = Inr a \<and> cd_id cred = pa_raw_id a \<and>
       (se_allowed s = [] \<or> pa_raw_id a \<in> set (se_allowed s)) \<and>
       pl_verify pl a (se_challenge s) app (se_verification s = ''required'') (pk_public_key k) = None)"
proof -
  have op: "(t, name, role) \<in> opened (fst (passkey_login_verify env lib rq body new_ctx w))"
    using assms by (simp add: opened_def)
  obtain pl raw where lib: "lib = Some pl" and body: "body = Some raw"
    using op by (cases lib; cases body) (simp_all add: passkey_login_verify_def with_passkeys_def optional_body_def)
  let ?b = "wrapped pl raw"
  let ?i = "trim_space (vb_challenge ?b)"
  obtain usr who s w1 w2 where who: "load_webauthn_user env usr w = (Inr who, w1)"
    and s: "load_challenge_by_id env pl usr ?i w1 = (Inr s, w2)"
    and ok: "(t, name, role) \<in> opened (fst (check_assertion env pl rq (vb_credential ?b) usr who s new_ctx w2))"
    using op by (auto simp: passkey_login_verify_def with_passkeys_def optional_body_def lib body Let_def
        split: if_splits sum.splits prod.splits)
  obtain a cred' where a: "pl_parse_assertion pl (vb_credential ?b) = Inr a"
    and v: "validate_login_relaxed env pl who s a = Inr cred'" and name: "name = usr"
    and tok: "issue_access_token env usr role = Some t"
    using check_assertion_opened [OF ok opened_new] by auto
  obtain cred app where cred: "cred \<in> set (wu_creds who)" "cd_id cred = pa_raw_id a"
    "pl_verify pl a (se_challenge s) app (se_verification s = ''required'') (cd_public_key cred) = None"
    using validate_login_Inr [OF v] by blast
  obtain k where k: "k \<in> set (wb_passkeys w)" "pk_user_id k = usr" "row_credential k = Some cred"
    using load_user_creds(3) [OF who cred(1)] by blast
  obtain row where "row \<in> set (wb_challenges w)" "we_text env (wc_id row) = ?i" "we_now env \<le> wc_expires_at row"
    "pl_session_read pl (wc_session row) = Some s"
    using load_challenge_by_id_Inr [OF s] load_user_creds(2) [OF who] by auto
  moreover have "se_user_id s = usr" "se_allowed s = [] \<or> pa_raw_id a \<in> set (se_allowed s)"
    using validate_login_Inr [OF v] load_user_creds(1) [OF who] by auto
  ultimately show ?thesis
    using lib body a cred(2,3) k name tok unfolding row_credential_key [OF k(3)]
    by (intro conjI exI [of _ pl] exI [of _ raw] exI [of _ row] exI [of _ s] exI [of _ k] exI [of _ cred]
      exI [of _ a] exI [of _ app]) simp_all
qed

theorem passkey_login_needs_a_signature_witness:
  "\<exists>k a app. k \<in> set (wb_passkeys lg_passkey_web) \<and> pk_user_id k = ''ann'' \<and>
     pl_verify lg_lib a (se_challenge lg_session) app (se_verification lg_session = ''required'') (pk_public_key k) = None"
proof -
  have "(200, ALogin ''signed'' ''ann'' role_admin) \<in>
      set (cx_out (fst (passkey_login_verify lg_env (Some lg_lib) (ax_request [] []) (Some ''x'') new_ctx lg_passkey_web)))"
    by code_simp
  from passkey_login_needs_a_signature [OF this] show ?thesis
    by (auto simp: lg_lib_sel)
qed

lemma load_user_healthy:
  "healthy_web env \<Longrightarrow> load_webauthn_user env name w =
     (Inr \<lparr>wu_id = name, wu_name = name, wu_display_name = name,
        wu_creds = List.map_filter row_credential (passkeys_of name w)\<rparr>, wb_tick w)"
  by (simp add: load_webauthn_user_def healthy_query)

text \<open>C25: A challenge serves for one attempt. Whatever a login with a passkey is answered, except that its
  challenge is missing or has expired, the challenge is gone afterwards: as long as no challenge with its
  identifier is stored again, every later request that names it, at any time and for any user, is answered that it
  is not found.\<close>
theorem passkey_challenges_are_used_once:
  assumes "healthy_web env" and "trim_space (vb_challenge (wrapped pl raw)) \<noteq> []"
    and "passkey_login_verify env (Some pl) rq (Some raw) new_ctx w = (c1, w1)"
    and "cx_out c1 \<noteq> [(400, AError ''WEBAUTHN_CHALLENGE_NOT_FOUND'' ''challenge not found'')]"
    and "cx_out c1 \<noteq> [(400, AError ''WEBAUTHN_CHALLENGE_EXPIRED'' ''challenge expired'')]"
    and "\<And>r. r \<in> set (wb_challenges w2) \<Longrightarrow> r \<in> set (wb_challenges w1) \<or>
      we_text env (wc_id r) \<noteq> trim_space (vb_challenge (wrapped pl raw))"
    and "trim_space (vb_challenge (wrapped pl raw')) = trim_space (vb_challenge (wrapped pl raw))"
  shows "cx_out (fst (passkey_login_verify (clock_at t env) (Some pl) rq' (Some raw') new_ctx w2)) =
    [(400, AError ''WEBAUTHN_CHALLENGE_NOT_FOUND'' ''challenge not found'')]"
proof -
  let ?i = "trim_space (vb_challenge (wrapped pl raw))"
  have "we_text env (wc_id r) \<noteq> ?i" if "r \<in> set (wb_challenges w1)" for r
  proof -
    let ?usr = "if trim_space (vb_username (wrapped pl raw)) = [] then we_admin_user env
      else trim_space (vb_username (wrapped pl raw))"
    obtain who where who: "load_webauthn_user env ?usr w = (Inr who, wb_tick w)"
      using load_user_healthy [OF assms(1)] by blast
    obtain x v where x: "load_challenge_by_id env pl ?usr ?i (wb_tick w) = (x, v)" by fastforce
    have "x \<noteq> Inl e" for e
      using assms(2-5) who x by (cases e)
        (auto simp: passkey_login_verify_def with_passkeys_def optional_body_def challenge_refused_def Let_def)
    then obtain s where "load_challenge_by_id env pl ?usr ?i (wb_tick w) = (Inr s, v)" using x by (cases x) auto
    then obtain v' where "w1 = snd (delete_challenge env ?i v')"
      using assms(2,3) who
      by (auto simp: passkey_login_verify_def with_passkeys_def optional_body_def Let_def split: prod.splits)
    then show ?thesis using that by (auto simp: delete_challenge_def healthy_write [OF assms(1)])
  qed
  then have "we_text env (wc_id r) \<noteq> ?i" if "r \<in> set (wb_challenges w2)" for r
    using assms(6) [OF that] by blast
  then have none: "find (\<lambda>r. we_text env (wc_id r) = ?i) (wb_challenges w2) = None"
    by (simp add: find_None_iff)
  have h: "healthy_web (clock_at t env)" using assms(1) by simp
  have "load_challenge_by_id (clock_at t env) pl n ?i (wb_tick w2) = (Inl ChallengeMissing, wb_tick (wb_tick w2))" for n
    using none assms(2) by (simp add: load_challenge_by_id_def healthy_first [OF h])
  then show ?thesis
    using assms(2,7) load_user_healthy [OF h]
    by (simp add: passkey_login_verify_def with_passkeys_def optional_body_def challenge_refused_def Let_def)
qed

theorem passkey_challenges_are_used_once_witness:
  "cx_out (fst (passkey_login_verify (clock_at 1500 lg_env) (Some lg_lib) (ax_request [] []) (Some ''y'') new_ctx
     (snd (passkey_login_verify lg_env (Some lg_lib) (ax_request [] []) (Some ''x'') new_ctx lg_passkey_web)))) =
   [(400, AError ''WEBAUTHN_CHALLENGE_NOT_FOUND'' ''challenge not found'')]"
proof (rule passkey_challenges_are_used_once [OF lg_healthy _ prod.collapse [symmetric], where raw = "''x''"])
  let ?out = "cx_out (fst (passkey_login_verify lg_env (Some lg_lib) (ax_request [] []) (Some ''x'') new_ctx lg_passkey_web))"
  show "trim_space (vb_challenge (wrapped lg_lib ''x'')) \<noteq> []" by code_simp
  have "fst (last ?out) = 200" by code_simp
  then show "?out \<noteq> [(400, AError ''WEBAUTHN_CHALLENGE_NOT_FOUND'' ''challenge not found'')]"
    "?out \<noteq> [(400, AError ''WEBAUTHN_CHALLENGE_EXPIRED'' ''challenge expired'')]"
    by auto
  show "trim_space (vb_challenge (wrapped lg_lib ''y'')) = trim_space (vb_challenge (wrapped lg_lib ''x''))" by code_simp
qed simp

section \<open>Registered passkeys\<close>

lemma raw_url_Nil [simp]: "raw_url_encode b = [] \<longleftrightarrow> b = []"
  by (simp add: raw_url_encode_def)

lemma decode_raw_url: "b \<noteq> [] \<Longrightarrow> decode_credential_id (raw_url_encode b) = Some b"
  by (simp add: decode_credential_id_def url.dec_enc)

lemma normalize_raw_url: "b \<noteq> [] \<Longrightarrow> normalize_credential_id (raw_url_encode b) = raw_url_encode b"
  by (simp add: normalize_credential_id_def decode_raw_url Let_def)

text \<open>A registered passkey is found at login. After a credential is stored, the identifier its browser sends
  is known for the user, in either base64 alphabet, with padding or without, in any text that decodes to its bytes; and
  the user is loaded with a credential of the same bytes, public key, counter and authenticator model.\<close>
theorem registered_passkeys_are_found:
  assumes "healthy_web env" and "store_credential env name cred w = (None, w1)" and "cd_id cred \<noteq> []"
    and "decode_credential_id (trim_space v) = Some (cd_id cred)"
  shows "fst (credential_exists env name (normalize_credential_id v) w1) \<and>
    (\<exists>who w2 k. load_webauthn_user env name w1 = (Inr who, w2) \<and> k \<in> set (wu_creds who) \<and>
       cd_id k = cd_id cred \<and> cd_public_key k = cd_public_key cred \<and> cd_sign_count k = cd_sign_count cred \<and>
       cd_aaguid k = cd_aaguid cred)"
proof -
  have i: "credential_id_of cred = raw_url_encode (cd_id cred)"
    using assms(3) by (simp add: credential_id_of_def normalize_raw_url)
  let ?k = "\<lparr>pk_id = we_uuid env (wb_uid w), pk_user_id = name, pk_credential_id = raw_url_encode (cd_id cred),
    pk_public_key = cd_public_key cred, pk_sign_count = uint (cd_sign_count cred),
    pk_transports = trimmed (cd_transport cred),
    pk_aaguid = (if cd_aaguid cred = [] then None else Some (raw_url_encode (cd_aaguid cred))),
    pk_created_at = we_now env, pk_last_used = None\<rparr>"
  have "w1 = (wb_tick (w\<lparr>wb_uid := Suc (wb_uid w)\<rparr>))\<lparr>wb_passkeys := wb_passkeys w @ [?k]\<rparr>"
    using assms(2) by (auto simp: store_credential_def new_uuid_def healthy_write [OF assms(1)] i insert_passkey_def
        wb_tick_def split: if_splits)
  then have k: "?k \<in> set (passkeys_of name w1)" by (simp add: passkeys_of_def)
  have "trim_space v \<noteq> []" using assms(4) by (auto simp: decode_credential_id_def)
  then have n: "normalize_credential_id v = raw_url_encode (cd_id cred)"
    using assms(4) by (simp add: normalize_credential_id_def Let_def)
  have "?k \<in> set (filter (\<lambda>k. pk_credential_id k = raw_url_encode (cd_id cred)) (passkeys_of name w1))" using k by simp
  then have "0 < length (filter (\<lambda>k. pk_credential_id k = raw_url_encode (cd_id cred)) (passkeys_of name w1))"
    by (metis length_greater_0_conv list.set(1) empty_iff)
  then have found: "fst (credential_exists env name (normalize_credential_id v) w1)"
    by (simp add: credential_exists_def healthy_query [OF assms(1)] n)
  let ?c = "\<lparr>cd_id = cd_id cred, cd_public_key = cd_public_key cred, cd_attestation = [],
    cd_transport = trimmed (trimmed (cd_transport cred)), cd_flags = (False, False, False, False),
    cd_sign_count = cd_sign_count cred, cd_aaguid = cd_aaguid cred\<rparr>"
  have "row_aaguid ?k = cd_aaguid cred" by (simp add: row_aaguid_def url.dec_enc)
  then have c: "row_credential ?k = Some ?c"
    using assms(3) by (simp add: row_credential_def normalize_raw_url decode_raw_url)
  have "?c \<in> set (List.map_filter row_credential (passkeys_of name w1))"
    using k c unfolding List.map_filter_def by (force intro: image_eqI [of _ _ ?k])
  then show ?thesis using found load_user_healthy [OF assms(1), of name w1] by fastforce
qed

theorem registered_passkeys_are_found_witness:
  "fst (credential_exists ax_env ''ann'' (normalize_credential_id ''QQ=='')
     (snd (store_credential ax_env ''ann'' \<lparr>cd_id = ''A'', cd_public_key = ''pub'', cd_attestation = [], cd_transport = [],
        cd_flags = (True, True, False, False), cd_sign_count = 1, cd_aaguid = []\<rparr> lg_web)))"
proof -
  let ?cred = "\<lparr>cd_id = ''A'', cd_public_key = ''pub'', cd_attestation = [], cd_transport = [],
    cd_flags = (True, True, False, False), cd_sign_count = 1, cd_aaguid = []\<rparr>"
  have "fst (store_credential ax_env ''ann'' ?cred lg_web) = None" "decode_credential_id (trim_space ''QQ=='') = Some ''A''"
    by code_simp+
  then show ?thesis
    using registered_passkeys_are_found [of ax_env "''ann''" ?cred lg_web "snd (store_credential ax_env ''ann'' ?cred lg_web)" "''QQ==''"]
    by (simp add: prod_eq_iff)
qed

section \<open>Passkeys of deleted accounts\<close>

lemma delete_user_passkeys: "passkeys_of n (snd (delete_user env rq c w)) = passkeys_of n w"
proof -
  have first: "passkeys_of n w1 = passkeys_of n v"
    if "db_first_row env wb_users p v = (r, w1)" for p r v w1
    using that by (auto simp: db_first_row_def db_query_def split: if_splits option.splits)
  have del: "passkeys_of n w1 = passkeys_of n v"
    if "db_write env (\<lambda>v. Inr (v\<lparr>wb_users := f (wb_users v)\<rparr>)) v = (r, w1)" for f r v w1
    using that by (auto simp: db_write_def passkeys_of_def wb_tick_def split: if_splits)
  show ?thesis
    by (auto simp: delete_user_def global_admin_only_def with_param_id_def find_user_row_def
        split: option.splits sum.splits goerr.splits prod.splits dest!: first del)
qed

lemma delete_user_deleted:
  assumes "healthy_web env" and "delete_user env rq c w = (c1, w1)" and "cx_out c = []" and "cx_out c1 = [(200, AOk)]"
    and "we_parse env (rq_param rq ''id'') = Some i"
  shows "i \<notin> u_id ` set (wb_users w1)"
  using assms(2-5)
  by (auto simp: delete_user_def global_admin_only_def with_param_id_def find_user_row_def healthy_first [OF assms(1)]
      healthy_write [OF assms(1)] split: if_splits option.splits)

lemma create_user_created:
  assumes "healthy_web env" and "create_user env (Inr ub) c w = (c1, w1)" and "cx_out c = []"
    and "cx_out c1 = [(201, AUser v)]"
  shows "u_username v = trim_space (ub_username ub)" "u_role v = normalize_role (ub_role ub)" "\<not> u_totp_enabled v"
    "we_bcrypt env (ub_password ub) = Some (u_password_hash v)"
    "find (same_username env (u_username v)) (wb_users w1) = Some v" "passkeys_of n w1 = passkeys_of n w"
proof -
  obtain h where adm: "actor_is_global_admin env c" and h: "we_bcrypt env (ub_password ub) = Some h"
    and ne: "trim_space (ub_username ub) \<noteq> []" "ub_password ub \<noteq> []" "normalize_role (ub_role ub) \<noteq> []"
    using assms(2-4) by (auto simp: create_user_def global_admin_only_def parse_json_body_def Let_def
        split: if_splits option.splits prod.splits)
  let ?v = "\<lparr>u_id = we_uuid env (wb_uid w), u_username = trim_space (ub_username ub), u_password_hash = h,
    u_role = normalize_role (ub_role ub), u_totp_secret = None, u_totp_enabled = False, u_recovery_hash = None,
    u_recovery_exp = None, u_created_at = we_now env, u_updated_at = we_now env\<rparr>"
  let ?w = "wb_tick (w\<lparr>wb_uid := Suc (wb_uid w)\<rparr>)"
  have new: "insert_user env ?v ?w = Inr (?w\<lparr>wb_users := wb_users w @ [?v]\<rparr>)"
    using assms(2-4) adm h ne
    by (auto simp: create_user_def global_admin_only_def parse_json_body_def new_uuid_def Let_def
        healthy_write [OF assms(1)] insert_user_def split: if_splits)
  then have v: "v = ?v" and w1: "wb_users w1 = wb_users w @ [?v]" and "passkeys_of n w1 = passkeys_of n w"
    using assms(2-4) adm h ne
    by (auto simp: create_user_def global_admin_only_def parse_json_body_def new_uuid_def Let_def
        healthy_write [OF assms(1)] respond_status_def) (simp add: passkeys_of_def wb_tick_def)
  have "find (same_username env (u_username ?v)) (wb_users w @ [?v]) = Some ?v"
    by (rule find_unique) (use new in \<open>auto simp: insert_user_Inr same_username_def image_iff\<close>)
  then show "u_username v = trim_space (ub_username ub)" "u_role v = normalize_role (ub_role ub)" "\<not> u_totp_enabled v"
    "we_bcrypt env (ub_password ub) = Some (u_password_hash v)"
    "find (same_username env (u_username v)) (wb_users w1) = Some v" "passkeys_of n w1 = passkeys_of n w"
    using v w1 h \<open>passkeys_of n w1 = passkeys_of n w\<close> by simp_all
qed

text \<open>Passkeys outlive their account. \<open>DeleteUser\<close> leaves the passkeys of the account; when an account that may
  write is created under the same name, a login with its password is refused, as it asks for a passkey of the
  account that is gone.\<close>
theorem passkeys_outlive_their_account:
  assumes "healthy_web env" and "passkeys_of (u_username u) w \<noteq> []"
    and "\<not> equal_fold (u_username u) (we_admin_user env)"
    and "we_parse env (rq_param rq ''id'') = Some (u_id u)" and "cx_out c = []"
    and "delete_user env rq c w = (c1, w1)" and "cx_out c1 = [(200, AOk)]"
    and "create_user env (Inr ub) c w1 = (c2, w2)" and "cx_out c2 = [(201, AUser v)]"
    and "trim_space (ub_username ub) = u_username u" and "normalize_role (ub_role ub) \<in> {role_admin, role_operator}"
    and "\<And>p h. we_bcrypt env p = Some h \<Longrightarrow> we_bcrypt_ok env h p"
    and "trim_space (lb_username b) = u_username u" and "lb_password b = ub_password ub"
  shows "u_id u \<notin> u_id ` set (wb_users w1) \<and>
    cx_out (fst (login env rq' (Inr b) new_ctx w2)) = [(401, AError ''PASSKEY_REQUIRED'' ''passkey required'')]"
proof -
  note v = create_user_created [OF assms(1,8,5,9)]
  have pk: "passkeys_of (u_username u) w2 \<noteq> []"
    using v(6) [of "u_username u"] delete_user_passkeys [of "u_username u" env rq c w] assms(2,6) by simp
  have "we_bcrypt_ok env (u_password_hash v) (lb_password b)" using v(4) assms(12,14) by simp
  then have "login_account env b new_ctx w2 = (Inr (Some v, u_username u, u_role v), wb_tick w2)"
    using v(1,5) assms(3,10,13) by (simp add: login_account_def healthy_first [OF assms(1)])
  then show ?thesis
    using v(1-3) pk assms(10,11) delete_user_deleted [OF assms(1,6,5,7,4)]
    by (auto simp: login_def parse_json_body_def second_factor_def passkey_factor_def healthy_query [OF assms(1)])
qed

theorem passkeys_outlive_their_account_witness:
  "let c = new_ctx\<lparr>cx_actor := ''root''\<rparr>; rq = (ax_request [] [])\<lparr>rq_param := (\<lambda>p. uuid_text 2)\<rparr>;
       ub = \<lparr>ub_username = ''ann'', ub_password = ''new'', ub_role = ''admin''\<rparr>
   in cx_out (fst (login ax_env rq (Inr \<lparr>lb_username = ''ann'', lb_password = ''new'', lb_otp = [], lb_recovery = []\<rparr>) new_ctx
        (snd (create_user ax_env (Inr ub) c (snd (delete_user ax_env rq c lg_passkey_web)))))) =
      [(401, AError ''PASSKEY_REQUIRED'' ''passkey required'')]"
proof -
  let ?c = "new_ctx\<lparr>cx_actor := ''root''\<rparr>" and ?rq = "(ax_request [] [])\<lparr>rq_param := (\<lambda>p. uuid_text 2)\<rparr>"
  let ?ub = "\<lparr>ub_username = ''ann'', ub_password = ''new'', ub_role = ''admin''\<rparr>"
  let ?b = "\<lparr>lb_username = ''ann'', lb_password = ''new'', lb_otp = [], lb_recovery = []\<rparr>"
  obtain c1 w1 where d: "delete_user ax_env ?rq ?c lg_passkey_web = (c1, w1)" by fastforce
  have "cx_out (fst (delete_user ax_env ?rq ?c lg_passkey_web)) = [(200, AOk)]" by code_simp
  then have out1: "cx_out c1 = [(200, AOk)]" using d by simp
  obtain c2 w2 where e: "create_user ax_env (Inr ?ub) ?c w1 = (c2, w2)" by fastforce
  have "(case cx_out (fst (create_user ax_env (Inr ?ub) ?c (snd (delete_user ax_env ?rq ?c lg_passkey_web)))) of
      [(s, AUser v)] \<Rightarrow> s = 201 | _ \<Rightarrow> False)"
    by code_simp
  then obtain v where out2: "cx_out c2 = [(201, AUser v)]"
    using d e by (auto split: list.splits prod.splits answer.splits)
  have "normalize_role ''admin'' = role_admin" by code_simp
  then have "cx_out (fst (login ax_env ?rq (Inr ?b) new_ctx w2)) = [(401, AError ''PASSKEY_REQUIRED'' ''passkey required'')]"
    using passkeys_outlive_their_account [OF ax_healthy _ _ _ _ d out1 e out2, of lg_user ?b ?rq] lg_facts
    by (simp add: lg_passkey_web_def lg_passkey_def passkeys_of_def new_ctx_def lg_user_def ax_user_def)
  then show ?thesis using d e by simp
qed

end
