(* ===== verification/Backup_Validate.thy ===== *)
theory Backup_Validate
  imports Ops_Params Go_Time Go_Paths
begin

text \<open>
  The data of the backup centre, \<open>internal/services/backup/types.go\<close> and the backup rows of
  \<open>internal/db/models.go\<close>. The configuration of a source is a JSON object; it is kept as the list of its
  members and decoded where the code decodes it.
\<close>

section \<open>Statuses and kinds\<close>

definition bk_idle :: string where "bk_idle = ''idle''"
definition bk_scheduled :: string where "bk_scheduled = ''scheduled''"
definition bk_queued :: string where "bk_queued = ''queued''"
definition bk_running :: string where "bk_running = ''running''"
definition bk_success :: string where "bk_success = ''success''"
definition bk_failed :: string where "bk_failed = ''failed''"
definition bk_partial :: string where "bk_partial = ''partial_success''"
definition bk_cancelled :: string where "bk_cancelled = ''cancelled''"

lemmas bk_status_defs = bk_idle_def bk_scheduled_def bk_queued_def bk_running_def bk_success_def bk_failed_def
  bk_partial_def bk_cancelled_def

definition trigger_manual :: string where "trigger_manual = ''manual''"
definition trigger_scheduled :: string where "trigger_scheduled = ''scheduled''"
definition trigger_retry :: string where "trigger_retry = ''retry''"

definition phase_pending :: string where "phase_pending = ''pending''"
definition phase_done :: string where "phase_done = ''done''"
definition phase_failed :: string where "phase_failed = ''failed''"

definition src_file :: string where "src_file = ''file_path''"
definition src_dir :: string where "src_dir = ''directory_path''"
definition src_volume :: string where "src_volume = ''docker_volume''"
definition src_pg_container :: string where "src_pg_container = ''postgres_container_dump''"
definition src_pg_manual :: string where "src_pg_manual = ''postgres_manual_dump''"
definition src_my_container :: string where "src_my_container = ''mysql_container_dump''"
definition src_my_manual :: string where "src_my_manual = ''mysql_manual_dump''"
definition src_nginx :: string where "src_nginx = ''nginx_snapshot''"
definition src_cron :: string where "src_cron = ''cron_snapshot''"
definition src_inventory :: string where "src_inventory = ''docker_inventory_snapshot''"
definition src_system :: string where "src_system = ''system_snapshot''"
definition src_custom :: string where "src_custom = ''custom_command''"

lemmas src_defs = src_file_def src_dir_def src_volume_def src_pg_container_def src_pg_manual_def src_my_container_def
  src_my_manual_def src_nginx_def src_cron_def src_inventory_def src_system_def src_custom_def

definition supported_source_types :: "string list" where
  "supported_source_types = [src_file, src_dir, src_volume, src_pg_container, src_pg_manual, src_my_container,
     src_my_manual, src_nginx, src_cron, src_inventory, src_system, src_custom]"

definition supported_storage_types :: "string list" where
  "supported_storage_types = [''ftp'', ''ftps'', ''sftp'', ''webdav'', ''s3'', ''local'']"

definition is_supported_source_type :: "string \<Rightarrow> bool" where
  "is_supported_source_type v \<longleftrightarrow> trim_space v \<in> set supported_source_types"

definition is_supported_storage_type :: "string \<Rightarrow> bool" where
  "is_supported_storage_type v \<longleftrightarrow> trim_space v \<in> set supported_storage_types"

definition trigger_label :: "string \<Rightarrow> string" where
  "trigger_label t =
     (let t = trim_space t
      in if t = trigger_manual then ''Manual'' else if t = trigger_retry then ''Retry''
         else if t = trigger_scheduled then ''Scheduled'' else t)"

section \<open>Storage targets\<close>

record storage_config =
  sc_host :: string
  sc_port :: int
  sc_username :: string
  sc_password :: string
  sc_base_path :: string
  sc_timeout_sec :: int
  sc_passive_mode :: bool
  sc_insecure_skip_verify :: bool
  sc_auth_method :: string
  sc_private_key_pem :: string
  sc_url :: string
  sc_bucket :: string
  sc_region :: string
  sc_access_key :: string
  sc_secret_key :: string
  sc_use_ssl :: bool
  sc_path_style :: bool
  sc_local_path :: string

definition zero_storage :: storage_config where
  "zero_storage = \<lparr>sc_host = [], sc_port = 0, sc_username = [], sc_password = [], sc_base_path = [], sc_timeout_sec = 0,
     sc_passive_mode = False, sc_insecure_skip_verify = False, sc_auth_method = [], sc_private_key_pem = [], sc_url = [],
     sc_bucket = [], sc_region = [], sc_access_key = [], sc_secret_key = [], sc_use_ssl = False, sc_path_style = False,
     sc_local_path = []\<rparr>"

definition default_storage_config :: "string \<Rightarrow> storage_config" where
  "default_storage_config t =
     (if t = ''ftp'' \<or> t = ''ftps'' then zero_storage\<lparr>sc_port := 21, sc_timeout_sec := 30, sc_passive_mode := True\<rparr>
      else if t = ''sftp'' then zero_storage\<lparr>sc_port := 22, sc_timeout_sec := 30, sc_auth_method := ''password''\<rparr>
      else if t = ''webdav'' then zero_storage\<lparr>sc_timeout_sec := 30\<rparr>
      else if t = ''s3'' then zero_storage\<lparr>sc_use_ssl := True, sc_timeout_sec := 30\<rparr>
      else if t = ''local'' then zero_storage\<lparr>sc_local_path := ''./data/backups/export''\<rparr>
      else zero_storage\<lparr>sc_timeout_sec := 30\<rparr>)"

section \<open>Texts\<close>

definition ensure_leading_slash :: "string \<Rightarrow> string" where
  "ensure_leading_slash v =
     (let t = trim_space v in if t = [] then ''/'' else if prefix ''/'' t then t else ''/'' @ t)"

definition make_artifact_name :: "string \<Rightarrow> string \<Rightarrow> string" where
  "make_artifact_name base sfx =
     (let b = trim_space (to_lower base);
          b = (if b = [] then ''artifact'' else b);
          b = replacer [('' '', ''-''), (''/'', ''-''), ([CHR 0x5C], ''-''), ('':'', ''-''), (''..'', ''-'')] b
      in if sfx = [] then b else b @ ''-'' @ sfx)"

definition first_non_empty :: "string list \<Rightarrow> string" where
  "first_non_empty vs = (case find (\<lambda>v. v \<noteq> []) (map trim_space vs) of None \<Rightarrow> [] | Some v \<Rightarrow> v)"

text \<open>The stamp of a run, in UTC.\<close>

definition stamp_text :: "instant \<Rightarrow> string" where
  "stamp_text t =
     (let c = civil_of 0 t
      in pad_int 4 (c_year c) @ pad_int 2 (c_month c) @ pad_int 2 (c_day c) @ ''T'' @
         pad_int 2 (c_hour c) @ pad_int 2 (c_min c) @ pad_int 2 (c_sec c) @ ''Z'')"

section \<open>Configurations of sources\<close>

text \<open>
  \<open>json.Unmarshal\<close> of an object into a struct fails when a member has a value that does not fit the field
  its key selects; \<open>null\<close> fits every field and leaves it as it is.
\<close>

datatype jkind = KBool | KInt | KStr

fun json_fits :: "jkind \<Rightarrow> json \<Rightarrow> bool" where
  "json_fits k JNull = True"
| "json_fits KBool (JBool b) = True"
| "json_fits KInt (JInt i) = (- (2 ^ 63) \<le> i \<and> i < 2 ^ 63)"
| "json_fits KStr (JStr s) = True"
| "json_fits k v = False"

definition json_struct :: "(string \<times> jkind) list \<Rightarrow> jobj \<Rightarrow> bool" where
  "json_struct flds ms \<longleftrightarrow>
     list_all (\<lambda>(k, v). list_all (\<lambda>(name, kind). json_fold k = name \<longrightarrow> json_fits kind v) flds) ms"

text \<open>The bytes of a configuration: none, \<open>null\<close>, an object, or something else.\<close>

datatype raw_json = RawNone | RawNull | RawObj jobj | RawBad

definition unmarshal :: "(string \<times> jkind) list \<Rightarrow> (jobj \<Rightarrow> 'c) \<Rightarrow> raw_json \<Rightarrow> 'c option" where
  "unmarshal flds mk raw =
     (case raw of
        RawNone \<Rightarrow> None
      | RawNull \<Rightarrow> Some (mk [])
      | RawObj ms \<Rightarrow> if json_struct flds ms then Some (mk ms) else None
      | RawBad \<Rightarrow> None)"

definition omit_empty :: "string \<Rightarrow> string \<Rightarrow> jobj" where
  "omit_empty name s = (if s = [] then [] else [(name, JStr s)])"

record path_config =
  pc_path :: string
  pc_archive :: bool

definition path_config_of :: "raw_json \<Rightarrow> path_config option" where
  "path_config_of = unmarshal [(''path'', KStr), (''archive'', KBool)]
     (\<lambda>ms. \<lparr>pc_path = json_str ms ''path'', pc_archive = json_bool ms ''archive''\<rparr>)"

definition path_config_json :: "path_config \<Rightarrow> jobj" where
  "path_config_json c = [(''path'', JStr (pc_path c)), (''archive'', JBool (pc_archive c))]"

record volume_config =
  vc_volume_name :: string
  vc_archive :: bool

definition volume_config_of :: "raw_json \<Rightarrow> volume_config option" where
  "volume_config_of = unmarshal [(''volume_name'', KStr), (''archive'', KBool)]
     (\<lambda>ms. \<lparr>vc_volume_name = json_str ms ''volume_name'', vc_archive = json_bool ms ''archive''\<rparr>)"

definition volume_config_json :: "volume_config \<Rightarrow> jobj" where
  "volume_config_json c = [(''volume_name'', JStr (vc_volume_name c)), (''archive'', JBool (vc_archive c))]"

record pg_container_config =
  pgc_container_name :: string
  pgc_db_name :: string
  pgc_db_user :: string
  pgc_db_password :: string
  pgc_auto_detect :: bool
  pgc_dump_args :: string

definition pg_container_config_of :: "raw_json \<Rightarrow> pg_container_config option" where
  "pg_container_config_of = unmarshal [(''container_name'', KStr), (''db_name'', KStr), (''db_user'', KStr),
       (''db_password'', KStr), (''auto_detect_from_env'', KBool), (''dump_args'', KStr)]
     (\<lambda>ms. \<lparr>pgc_container_name = json_str ms ''container_name'', pgc_db_name = json_str ms ''db_name'',
        pgc_db_user = json_str ms ''db_user'', pgc_db_password = json_str ms ''db_password'',
        pgc_auto_detect = json_bool ms ''auto_detect_from_env'', pgc_dump_args = json_str ms ''dump_args''\<rparr>)"

definition pg_container_config_json :: "pg_container_config \<Rightarrow> jobj" where
  "pg_container_config_json c = [(''container_name'', JStr (pgc_container_name c))] @ omit_empty ''db_name'' (pgc_db_name c) @
     omit_empty ''db_user'' (pgc_db_user c) @ omit_empty ''db_password'' (pgc_db_password c) @
     [(''auto_detect_from_env'', JBool (pgc_auto_detect c))] @ omit_empty ''dump_args'' (pgc_dump_args c)"

record pg_manual_config =
  pgm_host :: string
  pgm_port :: int
  pgm_db_name :: string
  pgm_db_user :: string
  pgm_db_password :: string
  pgm_dump_args :: string

definition pg_manual_config_of :: "raw_json \<Rightarrow> pg_manual_config option" where
  "pg_manual_config_of = unmarshal [(''host'', KStr), (''port'', KInt), (''db_name'', KStr), (''db_user'', KStr),
       (''db_password'', KStr), (''dump_args'', KStr)]
     (\<lambda>ms. \<lparr>pgm_host = json_str ms ''host'', pgm_port = json_int ms ''port'', pgm_db_name = json_str ms ''db_name'',
        pgm_db_user = json_str ms ''db_user'', pgm_db_password = json_str ms ''db_password'',
        pgm_dump_args = json_str ms ''dump_args''\<rparr>)"

definition pg_manual_config_json :: "pg_manual_config \<Rightarrow> jobj" where
  "pg_manual_config_json c = [(''host'', JStr (pgm_host c)), (''port'', JInt (pgm_port c)),
     (''db_name'', JStr (pgm_db_name c)), (''db_user'', JStr (pgm_db_user c)), (''db_password'', JStr (pgm_db_password c))] @
     omit_empty ''dump_args'' (pgm_dump_args c)"

record nginx_config =
  nx_command :: string
  nx_output_name :: string

definition nginx_config_of :: "raw_json \<Rightarrow> nginx_config option" where
  "nginx_config_of = unmarshal [(''command'', KStr), (''output_name'', KStr)]
     (\<lambda>ms. \<lparr>nx_command = json_str ms ''command'', nx_output_name = json_str ms ''output_name''\<rparr>)"

definition nginx_config_json :: "nginx_config \<Rightarrow> jobj" where
  "nginx_config_json c = omit_empty ''command'' (nx_command c) @ omit_empty ''output_name'' (nx_output_name c)"

record cron_config =
  cn_include_system :: bool
  cn_output_name :: string

definition cron_config_of :: "raw_json \<Rightarrow> cron_config option" where
  "cron_config_of = unmarshal [(''include_system'', KBool), (''output_name'', KStr)]
     (\<lambda>ms. \<lparr>cn_include_system = json_bool ms ''include_system'', cn_output_name = json_str ms ''output_name''\<rparr>)"

definition cron_config_json :: "cron_config \<Rightarrow> jobj" where
  "cron_config_json c = [(''include_system'', JBool (cn_include_system c))] @ omit_empty ''output_name'' (cn_output_name c)"

text \<open>\<open>DockerInventorySourceConfig\<close> and \<open>SystemSnapshotSourceConfig\<close> have the one field \<open>OutputName\<close>.\<close>

definition output_name_of :: "raw_json \<Rightarrow> string option" where
  "output_name_of = unmarshal [(''output_name'', KStr)] (\<lambda>ms. json_str ms ''output_name'')"

record custom_config =
  cu_command :: string
  cu_output_name :: string
  cu_allow_untrusted :: bool

definition custom_config_of :: "raw_json \<Rightarrow> custom_config option" where
  "custom_config_of = unmarshal [(''command'', KStr), (''output_name'', KStr), (''allow_untrusted_command'', KBool)]
     (\<lambda>ms. \<lparr>cu_command = json_str ms ''command'', cu_output_name = json_str ms ''output_name'',
        cu_allow_untrusted = json_bool ms ''allow_untrusted_command''\<rparr>)"

definition custom_config_json :: "custom_config \<Rightarrow> jobj" where
  "custom_config_json c = [(''command'', JStr (cu_command c))] @ omit_empty ''output_name'' (cu_output_name c) @
     [(''allow_untrusted_command'', JBool (cu_allow_untrusted c))]"


text \<open>
  \<open>internal/services/backup/validation.go\<close> and \<open>NormalizeTimezone\<close> of \<open>types.go\<close>: what a job, a source
  and a storage target must look like to be stored.

  \<open>bk_lib\<close> holds what the checks ask of libraries: the text of a decoding error of \<open>encoding/json\<close>, the
  parser of cron expressions (an error text, or \<open>Schedule.Next\<close> in a given time zone), and whether
  \<open>time.LoadLocation\<close> knows a time zone.
\<close>

record bk_lib =
  bl_json_text :: "raw_json \<Rightarrow> string"
  bl_cron :: "string \<Rightarrow> string + (string \<Rightarrow> instant \<Rightarrow> instant)"
  bl_zone :: "string \<Rightarrow> bool"

section \<open>Jobs\<close>

record job_input =
  ji_name :: string
  ji_description :: string
  ji_node_id :: "uuid option"
  ji_enabled :: bool
  ji_timezone :: string
  ji_cron :: string
  ji_retention_days :: int
  ji_storage_target_id :: uuid
  ji_compression_enabled :: bool
  ji_compression_level :: "int option"
  ji_upload_concurrency :: int

definition normalize_timezone :: "'a bk_lib_scheme \<Rightarrow> string \<Rightarrow> string" where
  "normalize_timezone lib v =
     (let t = trim_space v in if t = [] then ''UTC'' else if \<not> bl_zone lib t then ''UTC'' else t)"

definition validate_job_input :: "'a bk_lib_scheme \<Rightarrow> job_input \<Rightarrow> job_input result" where
  "validate_job_input lib i0 =
     (let i = i0\<lparr>ji_name := trim_space (ji_name i0)\<rparr>
      in if ji_name i = [] then Inl (ErrMsg ''name is required'')
         else
           let cr = trim_space (ji_cron i); cr = (if cr = [] then ''0 3 * * *'' else cr);
               i = i\<lparr>ji_description := trim_space (ji_description i),
                     ji_timezone := normalize_timezone lib (ji_timezone i), ji_cron := cr\<rparr>
           in case bl_cron lib cr of
                Inl e \<Rightarrow> Inl (ErrMsg (''invalid cron expression: '' @ e))
              | Inr _ \<Rightarrow>
                  let i = (if ji_retention_days i \<le> 0 then i\<lparr>ji_retention_days := 14\<rparr> else i)
                  in if 3650 < ji_retention_days i then Inl (ErrMsg ''retention_days is too large'')
                     else if ji_storage_target_id i = uuid_nil then Inl (ErrMsg ''storage_target_id is required'')
                     else
                       let i = (if ji_upload_concurrency i \<le> 0 then i\<lparr>ji_upload_concurrency := 2\<rparr> else i)
                       in if 8 < ji_upload_concurrency i then Inl (ErrMsg ''upload_concurrency must be <= 8'')
                          else (case ji_compression_level i of
                                  None \<Rightarrow> Inr i
                                | Some v \<Rightarrow> if v < 1 \<or> 9 < v then Inl (ErrMsg ''compression_level must be between 1 and 9'')
                                            else Inr i))"

section \<open>Paths and names\<close>

definition is_alnum :: "char \<Rightarrow> bool" where
  "is_alnum c \<longleftrightarrow> c \<in> set ''ABCDEFGHIJKLMNOPQRSTUVWXYZabcdefghijklmnopqrstuvwxyz0123456789''"

text \<open>The pattern \<open>allowedSourcePath\<close>: a slash, then one or more of the listed characters.\<close>

definition allowed_source_path :: "string \<Rightarrow> bool" where
  "allowed_source_path s \<longleftrightarrow>
     (case s of [] \<Rightarrow> False
      | c # cs \<Rightarrow> c = CHR ''/'' \<and> cs \<noteq> [] \<and> list_all (\<lambda>x. is_alnum x \<or> x \<in> set ''-_./@'') cs)"

definition validate_unix_path :: "string \<Rightarrow> goerr option" where
  "validate_unix_path v0 =
     (let v = trim_space v0
      in if v = [] then Some (ErrMsg ''path is required'')
         else if \<not> allowed_source_path v then Some (ErrMsg ''path contains unsupported characters'')
         else if ''..'' \<in> set (split_on CHR ''/'' (replace_all v [CHR 0x5C] ''/''))
              then Some (ErrMsg ''path traversal is not allowed'')
         else
           let cleaned = path_clean v
           in if cleaned = ''.'' \<or> \<not> has_prefix cleaned ''/'' then Some (ErrMsg ''path must be absolute'')
              else if contains cleaned ''../'' \<or> has_suffix cleaned ''/..''
                   then Some (ErrMsg ''path traversal is not allowed'')
              else None)"

text \<open>The pattern of volume names, and \<open>s3BucketPattern\<close>.\<close>

definition volume_name_ok :: "string \<Rightarrow> bool" where
  "volume_name_ok s \<longleftrightarrow>
     (case s of [] \<Rightarrow> False
      | c # cs \<Rightarrow> is_alnum c \<and> cs \<noteq> [] \<and> list_all (\<lambda>x. is_alnum x \<or> x \<in> set ''_.-'') cs)"

definition s3_bucket_ok :: "string \<Rightarrow> bool" where
  "s3_bucket_ok s \<longleftrightarrow>
     (let edge = (\<lambda>c. c \<in> set ''abcdefghijklmnopqrstuvwxyz0123456789'')
      in 3 \<le> length s \<and> length s \<le> 63 \<and> edge (hd s) \<and> edge (last s) \<and>
         list_all (\<lambda>c. edge c \<or> c \<in> set ''.-'') (butlast (tl s)))"

definition normalize_base_path :: "string \<Rightarrow> string" where
  "normalize_base_path v0 =
     (let v = trim_space v0
      in if v = [] then ''/''
         else if has_prefix v ''/'' then trim_right_cut ''/'' v
         else ''/'' @ trim_right_cut ''/'' v)"

definition parse_masked_int :: "string \<Rightarrow> int \<Rightarrow> int" where
  "parse_masked_int v fallback =
     (case atoi (trim_space v) of None \<Rightarrow> fallback | Some n \<Rightarrow> if n \<le> 0 then fallback else n)"

section \<open>Sources\<close>

definition bad_config :: "'a bk_lib_scheme \<Rightarrow> string \<Rightarrow> raw_json \<Rightarrow> 'c result" where
  "bad_config lib what raw = Inl (ErrMsg (''invalid '' @ what @ '' config: '' @ bl_json_text lib raw))"

definition validate_path_source :: "'a bk_lib_scheme \<Rightarrow> string \<Rightarrow> raw_json \<Rightarrow> raw_json result" where
  "validate_path_source lib t raw =
     (case path_config_of raw of
        None \<Rightarrow> bad_config lib ''path'' raw
      | Some c0 \<Rightarrow>
          let c = c0\<lparr>pc_path := trim_space (pc_path c0)\<rparr>
          in case validate_unix_path (pc_path c) of
               Some e \<Rightarrow> Inl e
             | None \<Rightarrow> Inr (RawObj (path_config_json (if t = src_dir then c\<lparr>pc_archive := True\<rparr> else c))))"

definition validate_volume_source :: "'a bk_lib_scheme \<Rightarrow> raw_json \<Rightarrow> raw_json result" where
  "validate_volume_source lib raw =
     (case volume_config_of raw of
        None \<Rightarrow> bad_config lib ''docker volume'' raw
      | Some c0 \<Rightarrow>
          let c = c0\<lparr>vc_volume_name := trim_space (vc_volume_name c0)\<rparr>
          in if vc_volume_name c = [] then Inl (ErrMsg ''volume_name is required'')
             else if \<not> volume_name_ok (vc_volume_name c) then Inl (ErrMsg ''volume_name contains unsupported characters'')
             else Inr (RawObj (volume_config_json (c\<lparr>vc_archive := True\<rparr>))))"

definition validate_pg_container :: "'a bk_lib_scheme \<Rightarrow> raw_json \<Rightarrow> raw_json result" where
  "validate_pg_container lib raw =
     (case pg_container_config_of raw of
        None \<Rightarrow> bad_config lib ''postgres container'' raw
      | Some c0 \<Rightarrow>
          let c = c0\<lparr>pgc_container_name := trim_space (pgc_container_name c0), pgc_db_name := trim_space (pgc_db_name c0),
                     pgc_db_user := trim_space (pgc_db_user c0), pgc_db_password := trim_space (pgc_db_password c0),
                     pgc_dump_args := trim_space (pgc_dump_args c0)\<rparr>
          in if pgc_container_name c = [] then Inl (ErrMsg ''container_name is required'')
             else if \<not> pgc_auto_detect c \<and> (pgc_db_name c = [] \<or> pgc_db_user c = [])
                  then Inl (ErrMsg ''db_name and db_user are required when auto detection is disabled'')
             else Inr (RawObj (pg_container_config_json c)))"

definition validate_pg_manual :: "'a bk_lib_scheme \<Rightarrow> raw_json \<Rightarrow> raw_json result" where
  "validate_pg_manual lib raw =
     (case pg_manual_config_of raw of
        None \<Rightarrow> bad_config lib ''postgres manual'' raw
      | Some c0 \<Rightarrow>
          let c = c0\<lparr>pgm_host := trim_space (pgm_host c0), pgm_db_name := trim_space (pgm_db_name c0),
                     pgm_db_user := trim_space (pgm_db_user c0), pgm_db_password := trim_space (pgm_db_password c0),
                     pgm_dump_args := trim_space (pgm_dump_args c0)\<rparr>
          in if pgm_host c = [] \<or> pgm_db_name c = [] \<or> pgm_db_user c = []
             then Inl (ErrMsg ''host, db_name and db_user are required'')
             else Inr (RawObj (pg_manual_config_json (if pgm_port c \<le> 0 then c\<lparr>pgm_port := 5432\<rparr> else c))))"

definition validate_nginx_source :: "'a bk_lib_scheme \<Rightarrow> raw_json \<Rightarrow> raw_json result" where
  "validate_nginx_source lib raw =
     (case nginx_config_of raw of
        None \<Rightarrow> bad_config lib ''nginx snapshot'' raw
      | Some c \<Rightarrow>
          let c = (if trim_space (nx_command c) = [] then c\<lparr>nx_command := ''nginx -T''\<rparr> else c);
              c = (if trim_space (nx_output_name c) = [] then c\<lparr>nx_output_name := ''nginx-full-config''\<rparr> else c)
          in Inr (RawObj (nginx_config_json c)))"

definition validate_cron_source :: "'a bk_lib_scheme \<Rightarrow> raw_json \<Rightarrow> raw_json result" where
  "validate_cron_source lib raw =
     (case cron_config_of raw of
        None \<Rightarrow> bad_config lib ''cron snapshot'' raw
      | Some c \<Rightarrow>
          let c = (if trim_space (cn_output_name c) = [] then c\<lparr>cn_output_name := ''cron-snapshot''\<rparr> else c)
          in Inr (RawObj (cron_config_json c)))"

text \<open>The inventory of Docker and the snapshot of the system have a file name and no more.\<close>

definition validate_output_name :: "'a bk_lib_scheme \<Rightarrow> string \<Rightarrow> string \<Rightarrow> raw_json \<Rightarrow> raw_json result" where
  "validate_output_name lib what dflt raw =
     (case output_name_of raw of
        None \<Rightarrow> bad_config lib what raw
      | Some o1 \<Rightarrow> Inr (RawObj (omit_empty ''output_name'' (if trim_space o1 = [] then dflt else o1))))"

definition validate_custom_source :: "'a bk_lib_scheme \<Rightarrow> raw_json \<Rightarrow> bool \<Rightarrow> raw_json result" where
  "validate_custom_source lib raw allow_unsafe =
     (case custom_config_of raw of
        None \<Rightarrow> bad_config lib ''custom command'' raw
      | Some c0 \<Rightarrow>
          let c = c0\<lparr>cu_command := trim_space (cu_command c0), cu_output_name := trim_space (cu_output_name c0)\<rparr>
          in if cu_command c = [] then Inl (ErrMsg ''command is required'')
             else if \<not> allow_unsafe \<or> \<not> cu_allow_untrusted c
                  then Inl (ErrMsg ''custom commands require explicit unsafe enablement'')
             else Inr (RawObj (custom_config_json
                    (if cu_output_name c = [] then c\<lparr>cu_output_name := ''custom-command''\<rparr> else c))))"

definition validate_source_config :: "'a bk_lib_scheme \<Rightarrow> string \<Rightarrow> raw_json \<Rightarrow> bool \<Rightarrow> raw_json result" where
  "validate_source_config lib t0 raw0 allow_unsafe =
     (let t = trim_space t0;
          raw = (if raw0 = RawNone then RawObj [] else raw0)
      in if \<not> is_supported_source_type t then Inl (ErrMsg ''unsupported source type'')
         else if t = src_file \<or> t = src_dir then validate_path_source lib t raw
         else if t = src_volume then validate_volume_source lib raw
         else if t = src_pg_container then validate_pg_container lib raw
         else if t = src_pg_manual then validate_pg_manual lib raw
         else if t = src_nginx then validate_nginx_source lib raw
         else if t = src_cron then validate_cron_source lib raw
         else if t = src_inventory then validate_output_name lib ''docker inventory'' ''docker-inventory'' raw
         else if t = src_system then validate_output_name lib ''system snapshot'' ''system-snapshot'' raw
         else if t = src_custom then validate_custom_source lib raw allow_unsafe
         else if t = src_my_container \<or> t = src_my_manual then Inl (ErrMsg ''mysql sources are not implemented yet'')
         else Inl (ErrMsg ''unsupported source type''))"

section \<open>Storage targets\<close>

definition need :: "bool \<Rightarrow> string \<Rightarrow> 'c result \<Rightarrow> 'c result" where
  "need missing msg k = (if missing then Inl (ErrMsg msg) else k)"

definition storage_defaults :: "string \<Rightarrow> storage_config \<Rightarrow> storage_config" where
  "storage_defaults t c =
     (let d = default_storage_config t;
          c = (if sc_port c = 0 then c\<lparr>sc_port := sc_port d\<rparr> else c);
          c = (if sc_timeout_sec c \<le> 0 then c\<lparr>sc_timeout_sec := sc_timeout_sec d\<rparr> else c)
      in c\<lparr>sc_base_path := normalize_base_path (sc_base_path c),
           sc_auth_method := trim_space (to_lower (sc_auth_method c)), sc_host := trim_space (sc_host c),
           sc_username := trim_space (sc_username c), sc_url := trim_space (sc_url c), sc_bucket := trim_space (sc_bucket c),
           sc_region := trim_space (sc_region c), sc_access_key := trim_space (sc_access_key c),
           sc_local_path := trim_space (sc_local_path c)\<rparr>)"

definition validate_storage_config :: "string \<Rightarrow> storage_config \<Rightarrow> storage_config result" where
  "validate_storage_config t0 c0 =
     (let t = trim_space t0
      in if \<not> is_supported_storage_type t then Inl (ErrMsg ''unsupported storage target type'')
         else
           let c = storage_defaults t c0
           in if t = ''ftp'' \<or> t = ''ftps'' then
                need (sc_host c = []) ''host is required'' (need (sc_username c = []) ''username is required''
                  (need (sc_password c = []) ''password is required'' (Inr c)))
              else if t = ''sftp'' then
                let c' = (if sc_auth_method c = [] then c\<lparr>sc_auth_method := sc_auth_method (default_storage_config t)\<rparr> else c)
                in need (sc_host c = []) ''host is required'' (need (sc_username c = []) ''username is required''
                     (need (sc_auth_method c' \<noteq> ''password'' \<and> sc_auth_method c' \<noteq> ''key'') ''auth_method must be password or key''
                       (need (sc_auth_method c' = ''password'' \<and> sc_password c' = []) ''password is required''
                         (need (sc_auth_method c' = ''key'' \<and> trim_space (sc_private_key_pem c') = []) ''private_key_pem is required''
                           (Inr c')))))
              else if t = ''webdav'' then
                need (sc_url c = []) ''url is required'' (need (sc_username c = []) ''username is required''
                  (need (sc_password c = []) ''password is required'' (Inr c)))
              else if t = ''s3'' then
                need (sc_host c = []) ''endpoint host is required'' (need (\<not> s3_bucket_ok (sc_bucket c)) ''bucket is invalid''
                  (need (sc_access_key c = [] \<or> sc_secret_key c = []) ''access_key and secret_key are required'' (Inr c)))
              else need (sc_local_path c = []) ''local_path is required'' (Inr c))"

end
