(* ===== verification/Backup_Store.thy ===== *)
theory Backup_Store
  imports Backup_Validate Ops_Store
begin

text \<open>
  The state of the backup centre and the statements on it.

  \<^item> Rows: the backup tables of \<open>internal/db/models.go\<close>, without the columns \<open>updated_at\<close>, which no code
    reads. Foreign keys and unique indexes are those of migration \<open>0046_backup_center\<close>.
  \<^item> \<open>bk\<close>: the tables, the map \<open>running\<close> of the service (\<open>bk_live\<close>), the runs whose context is cancelled
    (\<open>bk_stopped\<close>), the goroutines started (\<open>bk_started\<close>), the calls to the outside made by the execution
    under consideration with their errors, the last lines of its log, and the numbers of calls and of identifiers used so far.
  \<^item> \<open>bk_env\<close>: what is outside. Statements and calls are numbered: \<open>be_fail n\<close> is the error of the \<open>n\<close>-th,
    \<open>be_now n\<close> the clock before it, and \<open>be_other n\<close> is what other requests and runs do to the state before
    it takes effect. So a theorem on all environments is one on all interleavings at the level of single
    statements. \<open>be_rank\<close> is the order of texts in the database's
    collation, \<open>be_json\<close> decodes a JSON object. \<open>be_upserts\<close> and \<open>be_zero_defaults\<close> are two features of the database library: \<open>Save\<close> of a row
    that is no longer there creates it, and \<open>Create\<close> replaces a zero value by the default of the field's tag.
\<close>

record bk_target =
  bt_id :: uuid
  bt_org_id :: uuid
  bt_name :: string
  bt_type :: string
  bt_config_enc :: string
  bt_enabled :: bool
  bt_last_tested_at :: "instant option"
  bt_last_test_status :: "string option"
  bt_last_test_error :: "string option"
  bt_created_at :: instant

record bk_job =
  bj_id :: uuid
  bj_org_id :: uuid
  bj_node_id :: "uuid option"
  bj_name :: string
  bj_description :: string
  bj_enabled :: bool
  bj_timezone :: string
  bj_cron :: string
  bj_retention_days :: int
  bj_target_id :: uuid
  bj_compression_enabled :: bool
  bj_compression_level :: "int option"
  bj_upload_concurrency :: int
  bj_last_run_at :: "instant option"
  bj_last_success_at :: "instant option"
  bj_last_status :: string
  bj_last_error :: "string option"
  bj_last_size :: int
  bj_created_at :: instant

record bk_source =
  bs_id :: uuid
  bs_job_id :: uuid
  bs_type :: string
  bs_name :: string
  bs_enabled :: bool
  bs_order :: int
  bs_config :: raw_json
  bs_created_at :: instant

record bk_run =
  br_id :: uuid
  br_org_id :: uuid
  br_job_id :: uuid
  br_status :: string
  br_trigger :: string
  br_initiated_by :: "uuid option"
  br_local_workdir :: "string option"
  br_remote_workdir :: "string option"
  br_remote_path :: "string option"
  br_total_size :: int
  br_uploaded_size :: int
  br_file_count :: int
  br_checksum_status :: string
  br_cleanup_status :: string
  br_error_summary :: "string option"
  br_log_excerpt :: "string option"
  br_log_path :: "string option"
  br_started_at :: instant
  br_finished_at :: "instant option"
  br_duration_ms :: int
  br_cancel_requested_at :: "instant option"
  br_created_at :: instant

record bk_item =
  bi_id :: uuid
  bi_run_id :: uuid
  bi_source_id :: "uuid option"
  bi_item_type :: string
  bi_logical_name :: string
  bi_output_name :: string
  bi_remote_path :: "string option"
  bi_size :: int
  bi_checksum :: "string option"
  bi_status :: string
  bi_started_at :: "instant option"
  bi_finished_at :: "instant option"
  bi_error :: "string option"
  bi_extra :: string

record tpl_source =
  ts_name :: string
  ts_type :: string
  ts_order :: int
  ts_enabled :: bool
  ts_config :: raw_json

text \<open>The definition of a template is a JSON text; it is kept as the sources it lists, if it can be decoded.\<close>

record bk_template =
  bp_id :: uuid
  bp_slug :: string
  bp_name :: string
  bp_description :: string
  bp_sources :: "goerr + tpl_source list"

record object_info =
  oi_path :: string
  oi_name :: string
  oi_bytes :: int
  oi_modified :: "instant option"

datatype bk_call =
    CallMkdir string
  | CallCreateLog string
  | CallWriteFile string string
  | CallReadFile string
  | CallStatFile string
  | CallDial uuid
  | CallRemote string
  | CallPut string string
  | CallFetch string string
  | CallRemoteStat string
  | CallStorageTest
  | CallUpload string string
  | CallListObjects string
  | CallDeleteObject string

record bk =
  bk_nodes :: "node list"
  bk_targets :: "bk_target list"
  bk_jobs :: "bk_job list"
  bk_sources :: "bk_source list"
  bk_runs :: "bk_run list"
  bk_items :: "bk_item list"
  bk_templates :: "bk_template list"
  bk_live :: "uuid list"
  bk_stopped :: "uuid list"
  bk_started :: "uuid list"
  bk_trace :: "(bk_call \<times> goerr option) list"
  bk_log :: "string list"
  bk_n :: nat
  bk_uid :: nat

record bk_env = bk_lib +
  be_now :: "nat \<Rightarrow> instant"
  be_fail :: "nat \<Rightarrow> goerr option"
  be_text :: "nat \<Rightarrow> string"
  be_int :: "nat \<Rightarrow> int"
  be_objects :: "nat \<Rightarrow> object_info list"
  be_other :: "nat \<Rightarrow> bk \<Rightarrow> bk"
  be_uuid :: "nat \<Rightarrow> uuid"
  be_uuid_text :: "uuid \<Rightarrow> string"
  be_lower :: "string \<Rightarrow> string"
  be_rank :: "string \<Rightarrow> nat"
  be_json :: "string \<Rightarrow> jobj option"
  be_marshal :: "storage_config \<Rightarrow> string"
  be_unmarshal :: "string \<Rightarrow> storage_config \<times> goerr option"
  be_encrypt :: "string \<Rightarrow> string result"
  be_decrypt :: "string \<Rightarrow> string result"
  be_upserts :: bool
  be_zero_defaults :: bool

record bk_svc =
  bsv_has_encryptor :: bool
  bsv_data_dir :: string
  bsv_sudo_passwords :: "string list"
  bsv_allow_unsafe :: bool

definition new_backup :: "bool \<Rightarrow> string \<Rightarrow> string list \<Rightarrow> bk_svc" where
  "new_backup has_enc data_dir sudo_passwords =
     \<lparr>bsv_has_encryptor = has_enc, bsv_data_dir = (if trim_space data_dir = [] then ''./data'' else data_dir),
      bsv_sudo_passwords = sudo_passwords, bsv_allow_unsafe = False\<rparr>"

section \<open>Calls\<close>

text \<open>The context of a request or of the process, and that of a run, which \<open>CancelRun\<close> cancels.\<close>

datatype bctx = Background | RunCtx uuid

definition ctx_done :: "bctx \<Rightarrow> bk \<Rightarrow> bool" where
  "ctx_done cx w = (case cx of Background \<Rightarrow> False | RunCtx r \<Rightarrow> r \<in> set (bk_stopped w))"

definition bk_meet :: "bk_env \<Rightarrow> bk \<Rightarrow> bk" where
  "bk_meet env w = (be_other env (bk_n w) w)\<lparr>bk_trace := bk_trace w, bk_log := bk_log w, bk_n := Suc (bk_n w)\<rparr>"

definition bk_clock :: "bk_env \<Rightarrow> bk \<Rightarrow> instant \<times> bk" where
  "bk_clock env w = (be_now env (bk_n w), w)"

text \<open>A statement: it fails when its context is done, or when the database says so.\<close>

definition bk_stmt :: "bk_env \<Rightarrow> bctx \<Rightarrow> (bk \<Rightarrow> 'a result \<times> bk) \<Rightarrow> bk \<Rightarrow> 'a result \<times> bk" where
  "bk_stmt env cx f w =
     (let w1 = bk_meet env w
      in if ctx_done cx w1 then (Inl ErrCtxDone, w1)
         else case be_fail env (bk_n w) of Some e \<Rightarrow> (Inl e, w1) | None \<Rightarrow> f w1)"

definition bk_query :: "bk_env \<Rightarrow> bctx \<Rightarrow> (bk \<Rightarrow> 'a) \<Rightarrow> bk \<Rightarrow> 'a result \<times> bk" where
  "bk_query env cx g = bk_stmt env cx (\<lambda>v. (Inr (g v), v))"

definition bk_first :: "bk_env \<Rightarrow> bctx \<Rightarrow> (bk \<Rightarrow> 'r list) \<Rightarrow> ('r \<Rightarrow> bool) \<Rightarrow> bk \<Rightarrow> 'r result \<times> bk" where
  "bk_first env cx tab p =
     bk_stmt env cx (\<lambda>v. (case find p (tab v) of None \<Rightarrow> Inl ErrNotFound | Some r \<Rightarrow> Inr r, v))"

definition bk_write :: "bk_env \<Rightarrow> bctx \<Rightarrow> (bk \<Rightarrow> goerr + bk) \<Rightarrow> bk \<Rightarrow> goerr option \<times> bk" where
  "bk_write env cx f w =
     (case bk_stmt env cx (\<lambda>v. case f v of Inl e \<Rightarrow> (Inl e, v) | Inr v1 \<Rightarrow> (Inr (), v1)) w of
        (Inl e, w1) \<Rightarrow> (Some e, w1)
      | (Inr _, w1) \<Rightarrow> (None, w1))"

text \<open>
  A call that is not a statement: files, the remote host, the storage target. A context that is done
  makes it fail or not, depending on when the call notices; its error is the environment's answer.
\<close>

definition bk_outside :: "bk_env \<Rightarrow> bk_call \<Rightarrow> bk \<Rightarrow> goerr option \<times> bk" where
  "bk_outside env c w =
     (let e = be_fail env (bk_n w); w1 = bk_meet env w
      in (e, w1\<lparr>bk_trace := bk_trace w1 @ [(c, e)]\<rparr>))"

definition bk_new_uuid :: "bk_env \<Rightarrow> bk \<Rightarrow> uuid \<times> bk" where
  "bk_new_uuid env w = (be_uuid env (bk_uid w), w\<lparr>bk_uid := Suc (bk_uid w)\<rparr>)"

section \<open>Sequencing\<close>

text \<open>
  \<open>bk_then m k\<close> runs \<open>m\<close> and then \<open>k\<close> on its value; \<open>bk_try\<close> returns at an error, as
  \<open>if err != nil { return err }\<close> does, and \<open>bk_check\<close> does so for calls that return an error only.
\<close>

definition bk_ret :: "'a \<Rightarrow> bk \<Rightarrow> 'a \<times> bk" where
  "bk_ret x w = (x, w)"

definition bk_then :: "(bk \<Rightarrow> 'a \<times> bk) \<Rightarrow> ('a \<Rightarrow> bk \<Rightarrow> 'b \<times> bk) \<Rightarrow> bk \<Rightarrow> 'b \<times> bk" where
  "bk_then m k w = (case m w of (x, w1) \<Rightarrow> k x w1)"

definition bk_try :: "(bk \<Rightarrow> 'a result \<times> bk) \<Rightarrow> ('a \<Rightarrow> bk \<Rightarrow> 'b result \<times> bk) \<Rightarrow> bk \<Rightarrow> 'b result \<times> bk" where
  "bk_try m k = bk_then m (\<lambda>r. case r of Inl e \<Rightarrow> bk_ret (Inl e) | Inr x \<Rightarrow> k x)"

definition bk_check :: "(bk \<Rightarrow> goerr option \<times> bk) \<Rightarrow> (bk \<Rightarrow> 'b result \<times> bk) \<Rightarrow> bk \<Rightarrow> 'b result \<times> bk" where
  "bk_check m k = bk_then m (\<lambda>r. case r of Some e \<Rightarrow> bk_ret (Inl e) | None \<Rightarrow> k)"

definition bk_drop :: "(bk \<Rightarrow> 'a \<times> bk) \<Rightarrow> (bk \<Rightarrow> 'b \<times> bk) \<Rightarrow> bk \<Rightarrow> 'b \<times> bk" where
  "bk_drop m k = bk_then m (\<lambda>_. k)"

definition bk_lift :: "'a result \<Rightarrow> ('a \<Rightarrow> bk \<Rightarrow> 'b result \<times> bk) \<Rightarrow> bk \<Rightarrow> 'b result \<times> bk" where
  "bk_lift r k = (case r of Inl e \<Rightarrow> bk_ret (Inl e) | Inr x \<Rightarrow> k x)"

section \<open>Writes\<close>

text \<open>\<open>Save\<close>: update every column; when there is no such row, create it.\<close>

definition save_row :: "bk_env \<Rightarrow> ('r \<Rightarrow> uuid) \<Rightarrow> 'r \<Rightarrow> 'r list \<Rightarrow> 'r list" where
  "save_row env key r rows =
     (if key r \<in> key ` set rows then row_upd key (key r) (\<lambda>_. r) rows
      else if be_upserts env then rows @ [r] else rows)"

definition err_foreign :: goerr where
  "err_foreign = ErrMsg ''violates foreign key constraint''"

definition same_name :: "bk_env \<Rightarrow> ('r \<Rightarrow> uuid) \<Rightarrow> ('r \<Rightarrow> uuid) \<Rightarrow> ('r \<Rightarrow> string) \<Rightarrow> 'r \<Rightarrow> 'r list \<Rightarrow> bool" where
  "same_name env key org name r rows \<longleftrightarrow>
     list_ex (\<lambda>x. key x \<noteq> key r \<and> org x = org r \<and> be_lower env (name x) = be_lower env (name r)) rows"

definition put_target :: "bk_env \<Rightarrow> bk_target \<Rightarrow> bk \<Rightarrow> goerr + bk" where
  "put_target env r v =
     (if same_name env bt_id bt_org_id bt_name r (bk_targets v) then Inl ErrUnique
      else case row_put bt_id (if be_zero_defaults env then r\<lparr>bt_enabled := True\<rparr> else r) (bk_targets v) of
             None \<Rightarrow> Inl ErrUnique
           | Some rows \<Rightarrow> Inr (v\<lparr>bk_targets := rows\<rparr>))"

definition save_target :: "bk_env \<Rightarrow> bk_target \<Rightarrow> bk \<Rightarrow> goerr + bk" where
  "save_target env r v =
     (if same_name env bt_id bt_org_id bt_name r (bk_targets v) then Inl ErrUnique
      else Inr (v\<lparr>bk_targets := save_row env bt_id r (bk_targets v)\<rparr>))"

definition delete_target :: "uuid \<Rightarrow> uuid \<Rightarrow> bk \<Rightarrow> goerr + bk" where
  "delete_target org i v =
     (let gone = (\<lambda>t. bt_org_id t = org \<and> bt_id t = i)
      in if list_ex gone (bk_targets v) \<and> list_ex (\<lambda>j. bj_target_id j = i) (bk_jobs v) then Inl err_foreign
         else Inr (v\<lparr>bk_targets := filter (\<lambda>t. \<not> gone t) (bk_targets v)\<rparr>))"

definition job_refs_ok :: "bk_job \<Rightarrow> bk \<Rightarrow> bool" where
  "job_refs_ok r v \<longleftrightarrow> list_ex (\<lambda>t. bt_id t = bj_target_id r) (bk_targets v)"

definition zero_job_defaults :: "bk_env \<Rightarrow> bk_job \<Rightarrow> bk_job" where
  "zero_job_defaults env r = (if be_zero_defaults env then r\<lparr>bj_enabled := True, bj_compression_enabled := True\<rparr> else r)"

definition put_job :: "bk_env \<Rightarrow> bk_job \<Rightarrow> bk \<Rightarrow> goerr + bk" where
  "put_job env r v =
     (if \<not> job_refs_ok r v then Inl err_foreign
      else if same_name env bj_id bj_org_id bj_name r (bk_jobs v) then Inl ErrUnique
      else case row_put bj_id (zero_job_defaults env r) (bk_jobs v) of
             None \<Rightarrow> Inl ErrUnique
           | Some rows \<Rightarrow> Inr (v\<lparr>bk_jobs := rows\<rparr>))"

definition save_bk_job :: "bk_env \<Rightarrow> bk_job \<Rightarrow> bk \<Rightarrow> goerr + bk" where
  "save_bk_job env r v =
     (if \<not> job_refs_ok r v then Inl err_foreign
      else if same_name env bj_id bj_org_id bj_name r (bk_jobs v) then Inl ErrUnique
      else Inr (v\<lparr>bk_jobs := save_row env bj_id r (bk_jobs v)\<rparr>))"

text \<open>Deleting a job deletes its sources and its runs, and with the runs their items.\<close>

definition delete_bk_job :: "uuid \<Rightarrow> uuid \<Rightarrow> bk \<Rightarrow> goerr + bk" where
  "delete_bk_job org i v =
     (if \<not> list_ex (\<lambda>j. bj_org_id j = org \<and> bj_id j = i) (bk_jobs v) then Inr v
      else
        let runs = map br_id (filter (\<lambda>r. br_job_id r = i) (bk_runs v))
        in Inr (v\<lparr>bk_jobs := filter (\<lambda>j. \<not> (bj_org_id j = org \<and> bj_id j = i)) (bk_jobs v),
                  bk_sources := filter (\<lambda>s. bs_job_id s \<noteq> i) (bk_sources v),
                  bk_runs := filter (\<lambda>r. br_job_id r \<noteq> i) (bk_runs v),
                  bk_items := filter (\<lambda>t. bi_run_id t \<notin> set runs) (bk_items v)\<rparr>))"

definition has_job :: "uuid \<Rightarrow> bk \<Rightarrow> bool" where
  "has_job i v \<longleftrightarrow> list_ex (\<lambda>j. bj_id j = i) (bk_jobs v)"

definition put_source :: "bk_env \<Rightarrow> bk_source \<Rightarrow> bk \<Rightarrow> goerr + bk" where
  "put_source env r v =
     (if \<not> has_job (bs_job_id r) v then Inl err_foreign
      else case row_put bs_id (if be_zero_defaults env then r\<lparr>bs_enabled := True\<rparr> else r) (bk_sources v) of
             None \<Rightarrow> Inl ErrUnique
           | Some rows \<Rightarrow> Inr (v\<lparr>bk_sources := rows\<rparr>))"

definition save_source :: "bk_env \<Rightarrow> bk_source \<Rightarrow> bk \<Rightarrow> goerr + bk" where
  "save_source env r v =
     (if \<not> has_job (bs_job_id r) v then Inl err_foreign
      else Inr (v\<lparr>bk_sources := save_row env bs_id r (bk_sources v)\<rparr>))"

definition put_run :: "bk_run \<Rightarrow> bk \<Rightarrow> goerr + bk" where
  "put_run r v =
     (if \<not> has_job (br_job_id r) v then Inl err_foreign
      else case row_put br_id r (bk_runs v) of
             None \<Rightarrow> Inl ErrUnique
           | Some rows \<Rightarrow> Inr (v\<lparr>bk_runs := rows\<rparr>))"

definition save_run :: "bk_env \<Rightarrow> bk_run \<Rightarrow> bk \<Rightarrow> goerr + bk" where
  "save_run env r v =
     (if \<not> has_job (br_job_id r) v then Inl err_foreign
      else Inr (v\<lparr>bk_runs := save_row env br_id r (bk_runs v)\<rparr>))"

definition update_run :: "uuid \<Rightarrow> (bk_run \<Rightarrow> bk_run) \<Rightarrow> bk \<Rightarrow> goerr + bk" where
  "update_run i f v = Inr (v\<lparr>bk_runs := row_upd br_id i f (bk_runs v)\<rparr>)"

definition has_run :: "uuid \<Rightarrow> bk \<Rightarrow> bool" where
  "has_run i v \<longleftrightarrow> list_ex (\<lambda>r. br_id r = i) (bk_runs v)"

definition put_item :: "bk_item \<Rightarrow> bk \<Rightarrow> goerr + bk" where
  "put_item r v =
     (if \<not> has_run (bi_run_id r) v then Inl err_foreign
      else case row_put bi_id r (bk_items v) of
             None \<Rightarrow> Inl ErrUnique
           | Some rows \<Rightarrow> Inr (v\<lparr>bk_items := rows\<rparr>))"

definition save_item :: "bk_env \<Rightarrow> bk_item \<Rightarrow> bk \<Rightarrow> goerr + bk" where
  "save_item env r v =
     (if \<not> has_run (bi_run_id r) v then Inl err_foreign
      else Inr (v\<lparr>bk_items := save_row env bi_id r (bk_items v)\<rparr>))"

end
