(* ===== verification/Backup_Service.thy ===== *)
theory Backup_Service
  imports Backup_Store
begin

text \<open>
  \<open>internal/services/backup/service.go\<close>: storage targets, jobs, sources, templates and the plan of a job.
  All functions take the context their statements run under where runs call them too.
\<close>

section \<open>Storage targets\<close>

definition decrypt_storage_config :: "bk_env \<Rightarrow> string \<Rightarrow> storage_config \<times> goerr option" where
  "decrypt_storage_config env v =
     (if trim_space v = [] then (zero_storage, None)
      else case be_decrypt env v of
             Inl e \<Rightarrow> (zero_storage, Some e)
           | Inr raw \<Rightarrow> be_unmarshal env raw)"

definition encrypt_storage_config :: "bk_env \<Rightarrow> storage_config \<Rightarrow> string result" where
  "encrypt_storage_config env c = be_encrypt env (be_marshal env c)"

definition list_storage_targets :: "bk_env \<Rightarrow> uuid \<Rightarrow> bk \<Rightarrow> bk_target list result \<times> bk" where
  "list_storage_targets env org =
     bk_query env Background (\<lambda>v. sort_key (\<lambda>t. - bt_created_at t) (filter (\<lambda>t. bt_org_id t = org) (bk_targets v)))"

definition get_storage_target ::
    "bk_env \<Rightarrow> bctx \<Rightarrow> uuid \<Rightarrow> uuid \<Rightarrow> bk \<Rightarrow> (bk_target \<times> storage_config) result \<times> bk" where
  "get_storage_target env cx org i =
     bk_try (bk_first env cx bk_targets (\<lambda>t. bt_org_id t = org \<and> bt_id t = i))
       (\<lambda>row. case decrypt_storage_config env (bt_config_enc row) of
                (c, None) \<Rightarrow> bk_ret (Inr (row, c))
              | (c, Some e) \<Rightarrow> bk_ret (Inl e))"

record target_input =
  ti_name :: string
  ti_type :: string
  ti_enabled :: bool
  ti_config :: storage_config

definition create_storage_target :: "bk_svc \<Rightarrow> bk_env \<Rightarrow> uuid \<Rightarrow> target_input \<Rightarrow> bk \<Rightarrow> bk_target result \<times> bk" where
  "create_storage_target svc env org i0 =
     (if \<not> bsv_has_encryptor svc then bk_ret (Inl (ErrMsg ''backup service not configured''))
      else
        let i = i0\<lparr>ti_name := trim_space (ti_name i0), ti_type := trim_space (to_lower (ti_type i0))\<rparr>
        in if ti_name i = [] then bk_ret (Inl (ErrMsg ''name is required''))
           else bk_lift (validate_storage_config (ti_type i) (ti_config i)) (\<lambda>c.
             bk_lift (encrypt_storage_config env c) (\<lambda>enc.
               bk_then (bk_new_uuid env) (\<lambda>u. bk_then (bk_clock env) (\<lambda>now.
                 let row = \<lparr>bt_id = u, bt_org_id = org, bt_name = ti_name i, bt_type = ti_type i, bt_config_enc = enc,
                            bt_enabled = ti_enabled i, bt_last_tested_at = None, bt_last_test_status = None,
                            bt_last_test_error = None, bt_created_at = now\<rparr>
                 in bk_check (bk_write env Background (put_target env row)) (bk_ret (Inr row)))))))"

text \<open>A new value replaces the old one where it is not blank; the flags are always replaced.\<close>

definition keep_blank :: "string \<Rightarrow> string \<Rightarrow> string" where
  "keep_blank old new = (if trim_space new = [] then old else trim_space new)"

definition merge_storage_config :: "storage_config \<Rightarrow> storage_config \<Rightarrow> storage_config" where
  "merge_storage_config e u =
     e\<lparr>sc_host := keep_blank (sc_host e) (sc_host u),
       sc_port := (if 0 < sc_port u then sc_port u else sc_port e),
       sc_username := keep_blank (sc_username e) (sc_username u),
       sc_password := (if sc_password u = [] then sc_password e else sc_password u),
       sc_base_path := keep_blank (sc_base_path e) (sc_base_path u),
       sc_timeout_sec := (if 0 < sc_timeout_sec u then sc_timeout_sec u else sc_timeout_sec e),
       sc_passive_mode := sc_passive_mode u,
       sc_insecure_skip_verify := sc_insecure_skip_verify u,
       sc_auth_method := keep_blank (sc_auth_method e) (sc_auth_method u),
       sc_private_key_pem := keep_blank (sc_private_key_pem e) (sc_private_key_pem u),
       sc_url := keep_blank (sc_url e) (sc_url u),
       sc_bucket := keep_blank (sc_bucket e) (sc_bucket u),
       sc_region := keep_blank (sc_region e) (sc_region u),
       sc_access_key := keep_blank (sc_access_key e) (sc_access_key u),
       sc_secret_key := keep_blank (sc_secret_key e) (sc_secret_key u),
       sc_use_ssl := sc_use_ssl u,
       sc_path_style := sc_path_style u,
       sc_local_path := keep_blank (sc_local_path e) (sc_local_path u)\<rparr>"

definition update_storage_target :: "bk_env \<Rightarrow> uuid \<Rightarrow> uuid \<Rightarrow> target_input \<Rightarrow> bk \<Rightarrow> bk_target result \<times> bk" where
  "update_storage_target env org i inp =
     bk_try (get_storage_target env Background org i) (\<lambda>(row0, existing).
       let nm = trim_space (ti_name inp); ty = trim_space (to_lower (ti_type inp));
           row1 = (if nm = [] then row0 else row0\<lparr>bt_name := nm\<rparr>);
           row2 = (if ty = [] then row1 else row1\<lparr>bt_type := ty\<rparr>)
       in bk_lift (validate_storage_config (bt_type row2) (merge_storage_config existing (ti_config inp))) (\<lambda>c.
            bk_lift (encrypt_storage_config env c) (\<lambda>enc.
              let row = row2\<lparr>bt_config_enc := enc, bt_enabled := ti_enabled inp\<rparr>
              in bk_check (bk_write env Background (save_target env row)) (bk_ret (Inr row)))))"

definition delete_storage_target :: "bk_env \<Rightarrow> uuid \<Rightarrow> uuid \<Rightarrow> bk \<Rightarrow> unit result \<times> bk" where
  "delete_storage_target env org i =
     bk_try (bk_query env Background (\<lambda>v. length (filter (\<lambda>j. bj_org_id j = org \<and> bj_target_id j = i) (bk_jobs v)))) (\<lambda>n.
       if 0 < n then bk_ret (Inl (ErrMsg ''storage target is used by backup jobs''))
       else bk_check (bk_write env Background (delete_target org i)) (bk_ret (Inr ())))"

text \<open>What an answer shows of a storage target.\<close>

datatype mask_value = MStr string | MInt int | MBool bool

definition mask_storage_config :: "storage_config \<Rightarrow> (string \<times> mask_value) list" where
  "mask_storage_config c =
     [(''host'', MStr (sc_host c)), (''port'', MInt (sc_port c)), (''username'', MStr (sc_username c)),
      (''base_path'', MStr (sc_base_path c)), (''timeout_sec'', MInt (sc_timeout_sec c)),
      (''passive_mode'', MBool (sc_passive_mode c)), (''insecure_skip_verify'', MBool (sc_insecure_skip_verify c)),
      (''auth_method'', MStr (sc_auth_method c)), (''url'', MStr (sc_url c)), (''bucket'', MStr (sc_bucket c)),
      (''region'', MStr (sc_region c)), (''use_ssl'', MBool (sc_use_ssl c)), (''path_style'', MBool (sc_path_style c)),
      (''local_path'', MStr (sc_local_path c)), (''password_set'', MBool (trim_space (sc_password c) \<noteq> [])),
      (''private_key_set'', MBool (trim_space (sc_private_key_pem c) \<noteq> [])),
      (''secret_key_set'', MBool (trim_space (sc_secret_key c) \<noteq> [])), (''access_key'', MStr (sc_access_key c))]"

section \<open>Jobs\<close>

definition refresh_job_enabled_metric :: "bk_env \<Rightarrow> bk \<Rightarrow> nat result \<times> bk" where
  "refresh_job_enabled_metric env = bk_query env Background (\<lambda>v. length (filter bj_enabled (bk_jobs v)))"

definition list_backup_jobs :: "bk_env \<Rightarrow> uuid \<Rightarrow> bk \<Rightarrow> bk_job list result \<times> bk" where
  "list_backup_jobs env org =
     bk_query env Background (\<lambda>v. sort_key (\<lambda>j. - bj_created_at j) (filter (\<lambda>j. bj_org_id j = org) (bk_jobs v)))"

definition count_sources_by_job :: "bk_env \<Rightarrow> uuid list \<Rightarrow> bk \<Rightarrow> (uuid \<times> nat) list result \<times> bk" where
  "count_sources_by_job env ids =
     (if ids = [] then bk_ret (Inr [])
      else bk_query env Background (\<lambda>v.
        let of_jobs = filter (\<lambda>s. bs_job_id s \<in> set ids) (bk_sources v)
        in map (\<lambda>j. (j, length (filter (\<lambda>s. bs_job_id s = j) of_jobs))) (remdups (map bs_job_id of_jobs))))"

definition sources_of :: "uuid \<Rightarrow> bk \<Rightarrow> bk_source list" where
  "sources_of job v = sort_key bs_order (sort_key bs_created_at (filter (\<lambda>s. bs_job_id s = job) (bk_sources v)))"

definition get_backup_job :: "bk_env \<Rightarrow> bctx \<Rightarrow> uuid \<Rightarrow> uuid \<Rightarrow> bk \<Rightarrow> (bk_job \<times> bk_source list) result \<times> bk" where
  "get_backup_job env cx org i =
     bk_try (bk_first env cx bk_jobs (\<lambda>j. bj_org_id j = org \<and> bj_id j = i)) (\<lambda>job.
       bk_try (bk_query env cx (sources_of i)) (\<lambda>srcs. bk_ret (Inr (job, srcs))))"

text \<open>
  \<open>fmt.Errorf("storage target: %w", err)\<close>: the sentinel errors are still recognised by \<open>errors.Is\<close>.
\<close>

definition wrap_err :: "string \<Rightarrow> goerr \<Rightarrow> goerr" where
  "wrap_err what e = (case e of ErrMsg s \<Rightarrow> ErrMsg (what @ '': '' @ s) | _ \<Rightarrow> e)"

definition bk_wrap :: "string \<Rightarrow> (bk \<Rightarrow> 'a result \<times> bk) \<Rightarrow> bk \<Rightarrow> 'a result \<times> bk" where
  "bk_wrap what m =
     bk_then m (\<lambda>r. bk_ret (case r of Inl e \<Rightarrow> Inl (wrap_err what e) | Inr x \<Rightarrow> Inr x))"

definition create_backup_job :: "bk_env \<Rightarrow> uuid \<Rightarrow> job_input \<Rightarrow> bk \<Rightarrow> bk_job result \<times> bk" where
  "create_backup_job env org i0 =
     bk_lift (validate_job_input env i0) (\<lambda>i.
       bk_try (bk_wrap ''storage target'' (get_storage_target env Background org (ji_storage_target_id i))) (\<lambda>(target, _).
         if \<not> bt_enabled target then bk_ret (Inl (ErrMsg ''storage target is disabled''))
         else bk_then (bk_new_uuid env) (\<lambda>u. bk_then (bk_clock env) (\<lambda>now.
           let row = \<lparr>bj_id = u, bj_org_id = org, bj_node_id = ji_node_id i, bj_name = ji_name i,
                      bj_description = ji_description i, bj_enabled = ji_enabled i, bj_timezone = ji_timezone i,
                      bj_cron = ji_cron i, bj_retention_days = ji_retention_days i,
                      bj_target_id = ji_storage_target_id i, bj_compression_enabled = ji_compression_enabled i,
                      bj_compression_level = ji_compression_level i, bj_upload_concurrency = ji_upload_concurrency i,
                      bj_last_run_at = None, bj_last_success_at = None, bj_last_status = bk_idle, bj_last_error = None,
                      bj_last_size = 0, bj_created_at = now\<rparr>
           in bk_check (bk_write env Background (put_job env row))
                (bk_drop (refresh_job_enabled_metric env) (bk_ret (Inr (zero_job_defaults env row))))))))"

definition update_backup_job :: "bk_env \<Rightarrow> uuid \<Rightarrow> uuid \<Rightarrow> job_input \<Rightarrow> bk \<Rightarrow> bk_job result \<times> bk" where
  "update_backup_job env org k i0 =
     bk_lift (validate_job_input env i0) (\<lambda>i.
       bk_try (get_backup_job env Background org k) (\<lambda>(job, _).
         bk_try (bk_wrap ''storage target'' (get_storage_target env Background org (ji_storage_target_id i))) (\<lambda>_.
           let row = job\<lparr>bj_node_id := ji_node_id i, bj_name := ji_name i, bj_description := ji_description i,
                         bj_enabled := ji_enabled i, bj_timezone := ji_timezone i, bj_cron := ji_cron i,
                         bj_retention_days := ji_retention_days i, bj_target_id := ji_storage_target_id i,
                         bj_compression_enabled := ji_compression_enabled i,
                         bj_compression_level := ji_compression_level i,
                         bj_upload_concurrency := ji_upload_concurrency i\<rparr>
           in bk_check (bk_write env Background (save_bk_job env row))
                (bk_drop (refresh_job_enabled_metric env) (bk_ret (Inr row))))))"

definition delete_backup_job :: "bk_env \<Rightarrow> uuid \<Rightarrow> uuid \<Rightarrow> bk \<Rightarrow> unit result \<times> bk" where
  "delete_backup_job env org i =
     bk_check (bk_write env Background (delete_bk_job org i))
       (bk_drop (refresh_job_enabled_metric env) (bk_ret (Inr ())))"

definition set_job_enabled :: "bk_env \<Rightarrow> uuid \<Rightarrow> uuid \<Rightarrow> bool \<Rightarrow> bk \<Rightarrow> bk_job result \<times> bk" where
  "set_job_enabled env org i enabled =
     bk_try (get_backup_job env Background org i) (\<lambda>(job0, _).
       let job1 = job0\<lparr>bj_enabled := enabled\<rparr>;
           job = (if \<not> enabled \<and> bj_last_status job1 = bk_scheduled then job1\<lparr>bj_last_status := bk_idle\<rparr> else job1)
       in bk_check (bk_write env Background (save_bk_job env job))
            (bk_drop (refresh_job_enabled_metric env) (bk_ret (Inr job))))"

section \<open>Sources\<close>

record source_input =
  si_name :: string
  si_type :: string
  si_enabled :: bool
  si_order :: int
  si_config :: raw_json
  si_allow_unsafe :: bool

definition add_source :: "bk_svc \<Rightarrow> bk_env \<Rightarrow> uuid \<Rightarrow> uuid \<Rightarrow> source_input \<Rightarrow> bk \<Rightarrow> bk_source result \<times> bk" where
  "add_source svc env org job_id i =
     bk_try (get_backup_job env Background org job_id) (\<lambda>_.
       bk_lift (validate_source_config env (si_type i) (si_config i) (si_allow_unsafe i \<and> bsv_allow_unsafe svc)) (\<lambda>cfg.
         let nm = trim_space (si_name i); nm = (if nm = [] then replace_all (si_type i) ''_'' '' '' else nm)
         in bk_then (bk_new_uuid env) (\<lambda>u. bk_then (bk_clock env) (\<lambda>now.
              let row = \<lparr>bs_id = u, bs_job_id = job_id, bs_type = trim_space (si_type i), bs_name = nm,
                         bs_enabled = si_enabled i, bs_order = si_order i, bs_config = cfg, bs_created_at = now\<rparr>
              in bk_check (bk_write env Background (put_source env row)) (bk_ret (Inr row))))))"

definition source_in_org :: "bk \<Rightarrow> uuid \<Rightarrow> bk_source \<Rightarrow> bool" where
  "source_in_org v org s \<longleftrightarrow> list_ex (\<lambda>j. bj_id j = bs_job_id s \<and> bj_org_id j = org) (bk_jobs v)"

definition update_source :: "bk_svc \<Rightarrow> bk_env \<Rightarrow> uuid \<Rightarrow> uuid \<Rightarrow> source_input \<Rightarrow> bk \<Rightarrow> bk_source result \<times> bk" where
  "update_source svc env org k i =
     bk_try (bk_stmt env Background (\<lambda>v.
         (case find (\<lambda>s. source_in_org v org s \<and> bs_id s = k) (bk_sources v) of
            None \<Rightarrow> Inl ErrNotFound | Some s \<Rightarrow> Inr s, v))) (\<lambda>row0.
       let nm = trim_space (si_name i); ty = trim_space (si_type i);
           row1 = (if nm = [] then row0 else row0\<lparr>bs_name := nm\<rparr>);
           row2 = (if ty = [] then row1 else row1\<lparr>bs_type := ty\<rparr>)
       in bk_lift (if si_config i = RawNone then Inr row2
                   else case validate_source_config env (bs_type row2) (si_config i)
                               (si_allow_unsafe i \<and> bsv_allow_unsafe svc) of
                          Inl e \<Rightarrow> Inl e
                        | Inr cfg \<Rightarrow> Inr (row2\<lparr>bs_config := cfg\<rparr>)) (\<lambda>row3.
            let row = row3\<lparr>bs_enabled := si_enabled i, bs_order := si_order i\<rparr>
            in bk_check (bk_write env Background (save_source env row)) (bk_ret (Inr row))))"

definition delete_source :: "bk_env \<Rightarrow> uuid \<Rightarrow> uuid \<Rightarrow> bk \<Rightarrow> goerr option \<times> bk" where
  "delete_source env org k =
     bk_write env Background (\<lambda>v. Inr (v\<lparr>bk_sources := filter (\<lambda>s. \<not> (source_in_org v org s \<and> bs_id s = k)) (bk_sources v)\<rparr>))"

text \<open>
  The updates of a transaction take effect at its commit; the statements of the body can only fail.
\<close>

primrec reorder_stmts :: "bk_env \<Rightarrow> uuid list \<Rightarrow> bk \<Rightarrow> unit result \<times> bk" where
  "reorder_stmts env [] = bk_ret (Inr ())"
| "reorder_stmts env (i # is) = bk_check (bk_write env Background Inr) (reorder_stmts env is)"

definition reorder_rows :: "uuid \<Rightarrow> uuid list \<Rightarrow> bk_source list \<Rightarrow> bk_source list" where
  "reorder_rows job ids rows =
     fold (\<lambda>(n, i). map (\<lambda>s. if bs_id s = i \<and> bs_job_id s = job then s\<lparr>bs_order := int n\<rparr> else s))
       (zip [0..<length ids] ids) rows"

definition reorder_sources :: "bk_env \<Rightarrow> uuid \<Rightarrow> uuid \<Rightarrow> uuid list \<Rightarrow> bk \<Rightarrow> unit result \<times> bk" where
  "reorder_sources env org job ids =
     bk_try (get_backup_job env Background org job) (\<lambda>_.
       bk_check (bk_write env Background Inr)
         (bk_try (reorder_stmts env ids) (\<lambda>_.
            bk_check (bk_write env Background (\<lambda>v. Inr (v\<lparr>bk_sources := reorder_rows job ids (bk_sources v)\<rparr>)))
              (bk_ret (Inr ())))))"

section \<open>Runs\<close>

record run_list_options =
  ro_job :: "uuid option"
  ro_status :: string
  ro_limit :: int
  ro_offset :: int
  ro_desc :: bool

definition list_runs :: "bk_env \<Rightarrow> uuid \<Rightarrow> run_list_options \<Rightarrow> bk \<Rightarrow> bk_run list result \<times> bk" where
  "list_runs env org opts =
     (let st = trim_space (ro_status opts);
          lim = (if ro_limit opts \<le> 0 \<or> 200 < ro_limit opts then 50 else ro_limit opts)
      in bk_query env Background (\<lambda>v.
           let rows = filter (\<lambda>r. br_org_id r = org \<and>
                         (case ro_job opts of None \<Rightarrow> True | Some j \<Rightarrow> j = uuid_nil \<or> br_job_id r = j) \<and>
                         (st = [] \<or> br_status r = st)) (bk_runs v);
               rows = sort_key (\<lambda>r. if ro_desc opts then - br_started_at r else br_started_at r) rows
           in take (nat lim) (drop (nat (ro_offset opts)) rows)))"

text \<open>Ordered by the start, items without one last, then by name.\<close>

definition items_of :: "bk_env \<Rightarrow> uuid \<Rightarrow> bk \<Rightarrow> bk_item list" where
  "items_of env i v =
     (let named = sort_key (\<lambda>t. be_rank env (bi_logical_name t)) (filter (\<lambda>t. bi_run_id t = i) (bk_items v));
          started = filter (\<lambda>t. bi_started_at t \<noteq> None) named
      in sort_key (\<lambda>t. the (bi_started_at t)) started @ filter (\<lambda>t. bi_started_at t = None) named)"

definition get_run :: "bk_env \<Rightarrow> uuid \<Rightarrow> uuid \<Rightarrow> bk \<Rightarrow> (bk_run \<times> bk_item list) result \<times> bk" where
  "get_run env org i =
     bk_try (bk_first env Background bk_runs (\<lambda>r. br_org_id r = org \<and> br_id r = i)) (\<lambda>run.
       bk_try (bk_query env Background (items_of env i)) (\<lambda>items.
         bk_ret (Inr (run, items))))"

definition get_run_log :: "bk_env \<Rightarrow> uuid \<Rightarrow> uuid \<Rightarrow> bk \<Rightarrow> string result \<times> bk" where
  "get_run_log env org i =
     bk_try (get_run env org i) (\<lambda>(run, _).
       let excerpt = (case br_log_excerpt run of None \<Rightarrow> [] | Some e \<Rightarrow> e)
       in case br_log_path run of
            None \<Rightarrow> bk_ret (Inr excerpt)
          | Some p \<Rightarrow>
              if trim_space p = [] then bk_ret (Inr excerpt)
              else (\<lambda>w. case bk_outside env (CallReadFile p) w of
                          (None, w1) \<Rightarrow> (Inr (be_text env (bk_n w)), w1)
                        | (Some e, w1) \<Rightarrow>
                            (case br_log_excerpt run of None \<Rightarrow> Inl e | Some x \<Rightarrow> Inr x, w1)))"

section \<open>Templates and plans\<close>

definition list_templates :: "bk_env \<Rightarrow> bk \<Rightarrow> bk_template list result \<times> bk" where
  "list_templates env = bk_query env Background (\<lambda>v. sort_key (\<lambda>t. be_rank env (bp_name t)) (bk_templates v))"

primrec add_template_sources ::
    "bk_svc \<Rightarrow> bk_env \<Rightarrow> uuid \<Rightarrow> uuid \<Rightarrow> tpl_source list \<Rightarrow> bk \<Rightarrow> bk_source list result \<times> bk" where
  "add_template_sources svc env org job [] = bk_ret (Inr [])"
| "add_template_sources svc env org job (t # ts) =
     bk_try (add_source svc env org job
               \<lparr>si_name = ts_name t, si_type = ts_type t, si_enabled = ts_enabled t, si_order = ts_order t,
                si_config = ts_config t, si_allow_unsafe = False\<rparr>) (\<lambda>s.
       bk_try (add_template_sources svc env org job ts) (\<lambda>ss. bk_ret (Inr (s # ss))))"

definition create_job_from_template ::
    "bk_svc \<Rightarrow> bk_env \<Rightarrow> uuid \<Rightarrow> uuid \<Rightarrow> job_input \<Rightarrow> bk \<Rightarrow> (bk_job \<times> bk_source list) result \<times> bk" where
  "create_job_from_template svc env org tpl i =
     bk_try (bk_first env Background bk_templates (\<lambda>t. bp_id t = tpl)) (\<lambda>t.
       bk_try (create_backup_job env org i) (\<lambda>job.
         bk_lift (bp_sources t) (\<lambda>srcs.
           bk_try (add_template_sources svc env org (bj_id job) srcs) (\<lambda>created. bk_ret (Inr (job, created))))))"

record plan_item =
  pi_source_id :: uuid
  pi_name :: string
  pi_type :: string
  pi_logical_name :: string
  pi_config :: raw_json

record execution_plan =
  ep_job_id :: uuid
  ep_node_id :: "uuid option"
  ep_target_id :: uuid
  ep_timezone :: string
  ep_cron :: string
  ep_retention_days :: int
  ep_compression_enabled :: bool
  ep_compression_level :: "int option"
  ep_upload_concurrency :: int
  ep_storage_type :: string
  ep_storage_summary :: "(string \<times> mask_value) list"
  ep_sources :: "plan_item list"

definition build_execution_plan :: "bk_env \<Rightarrow> uuid \<Rightarrow> uuid \<Rightarrow> bk \<Rightarrow> execution_plan result \<times> bk" where
  "build_execution_plan env org i =
     bk_try (get_backup_job env Background org i) (\<lambda>(job, srcs).
       bk_try (get_storage_target env Background org (bj_target_id job)) (\<lambda>(target, c).
         bk_ret (Inr \<lparr>ep_job_id = bj_id job, ep_node_id = bj_node_id job, ep_target_id = bj_target_id job,
           ep_timezone = bj_timezone job, ep_cron = bj_cron job, ep_retention_days = bj_retention_days job,
           ep_compression_enabled = bj_compression_enabled job, ep_compression_level = bj_compression_level job,
           ep_upload_concurrency = bj_upload_concurrency job, ep_storage_type = bt_type target,
           ep_storage_summary = mask_storage_config c,
           ep_sources = map (\<lambda>s. \<lparr>pi_source_id = bs_id s, pi_name = bs_name s, pi_type = bs_type s,
                                  pi_logical_name = bs_name s, pi_config = bs_config s\<rparr>) srcs\<rparr>)))"

end
