(* ===== verification/Backup_Scripts.thy ===== *)
theory Backup_Scripts
  imports Backup_Store
begin

text \<open>
  The shell scripts of the backup centre: \<open>shellEscape\<close> and \<open>sudoCmd\<close> of \<open>ssh.go\<close>, and
  \<open>renderSourceScript\<close> of \<open>runner.go\<close>. A script is the text that is sent.
\<close>

definition nl :: string where "nl = [CHR 0x0A]"
definition sq :: string where "sq = [CHR 0x27]"
definition dq :: string where "dq = [CHR 0x22]"
definition bsl :: string where "bsl = [CHR 0x5C]"

lemmas punct_defs = nl_def sq_def dq_def bsl_def

definition script_lines :: "string list \<Rightarrow> string" where
  "script_lines ls = concat (map (\<lambda>l. l @ nl) ls)"

definition shell_escape :: "string \<Rightarrow> string" where
  "shell_escape v = (if v = [] then sq @ sq else sq @ replace_all v sq (sq @ dq @ sq @ dq @ sq) @ sq)"

definition sudo_cmd :: "string \<Rightarrow> string \<Rightarrow> bool \<Rightarrow> string" where
  "sudo_cmd cmd pass use_pass =
     (if use_pass \<and> pass \<noteq> []
      then ''echo '' @ shell_escape pass @ '' | sudo -S -p '' @ sq @ sq @ '' bash -lc '' @ go_quote cmd
      else ''sudo -n bash -lc '' @ go_quote cmd)"

record remote =
  rc_sudo_pass :: string
  rc_use_pass :: bool

definition sudo_on :: "remote \<Rightarrow> string \<Rightarrow> string" where
  "sudo_on rc cmd = sudo_cmd cmd (rc_sudo_pass rc) (rc_use_pass rc)"

definition chown_self :: "remote \<Rightarrow> string \<Rightarrow> string" where
  "chown_self rc out = sudo_on rc (''chown $(id -un):$(id -gn) '' @ shell_escape out)"

definition strict_mode :: string where
  "strict_mode = ''set -euo pipefail''"

section \<open>One kind of source each\<close>

definition path_script :: "remote \<Rightarrow> path_config \<Rightarrow> string \<Rightarrow> string" where
  "path_script rc c out =
     replace_all
       (script_lines
         [strict_mode, ''TARGET='' @ shell_escape (pc_path c), ''OUT='' @ shell_escape out,
          ''if [ ! -e '' @ dq @ ''$TARGET'' @ dq @ '' ]; then echo '' @ dq @ ''missing path: $TARGET'' @ dq @ '' >&2; exit 1; fi'',
          sudo_on rc (''tar -czf '' @ shell_escape out @ '' -P '' @ shell_escape (pc_path c)),
          sudo_on rc (''chown '' @ shell_escape ''$USER'' @ '':'' @ shell_escape ''$USER'' @ '' '' @ shell_escape out)])
       ''$USER'' ''$(id -un)''"

definition volume_script :: "remote \<Rightarrow> volume_config \<Rightarrow> string \<Rightarrow> string \<Rightarrow> string \<Rightarrow> string" where
  "volume_script rc c workdir name out =
     script_lines
       [strict_mode, ''OUT='' @ shell_escape out, ''DIR='' @ shell_escape workdir, ''VOL='' @ shell_escape (vc_volume_name c),
        sudo_on rc (''docker run --rm -v '' @ shell_escape (vc_volume_name c) @ '':/source:ro -v '' @ shell_escape workdir @
          '':/out alpine:3.20 sh -lc '' @ shell_escape (''tar -C /source -czf /out/'' @ name @ '' .'')),
        chown_self rc out]"

text \<open>The variable of the database and the one of the container's environment it is read from.\<close>

definition env_lookup :: "string \<Rightarrow> string \<Rightarrow> string" where
  "env_lookup var envname =
     ''  if [ -z '' @ dq @ ''$'' @ var @ dq @ '' ]; then '' @ var @ ''=$(printf '' @ sq @ ''%s'' @ bsl @ ''n'' @ sq @ '' '' @
     dq @ ''$ENVS'' @ dq @ '' | awk -F= '' @ sq @ ''$1=='' @ dq @ envname @ dq @ ''{print substr($0, index($0,'' @ dq @ ''='' @
     dq @ '')+1); exit}'' @ sq @ ''); fi''"

definition pg_container_script :: "remote \<Rightarrow> pg_container_config \<Rightarrow> string \<Rightarrow> string" where
  "pg_container_script rc c out =
     script_lines
       [strict_mode, ''CONTAINER='' @ shell_escape (pgc_container_name c), ''OUT='' @ shell_escape out,
        ''DB_NAME='' @ shell_escape (pgc_db_name c), ''DB_USER='' @ shell_escape (pgc_db_user c),
        ''DB_PASS='' @ shell_escape (pgc_db_password c), ''AUTO='' @ (if pgc_auto_detect c then ''1'' else ''0''),
        ''if [ '' @ dq @ ''$AUTO'' @ dq @ '' = '' @ dq @ ''1'' @ dq @ '' ]; then'',
        ''  ENVS=$('' @ sudo_on rc (''docker inspect --format {{range .Config.Env}}{{println .}}{{end}} '' @
            shell_escape (pgc_container_name c)) @ '')'',
        env_lookup ''DB_NAME'' ''POSTGRES_DB'', env_lookup ''DB_USER'' ''POSTGRES_USER'', env_lookup ''DB_PASS'' ''POSTGRES_PASSWORD'',
        ''fi'',
        ''if [ -z '' @ dq @ ''$DB_NAME'' @ dq @ '' ]; then DB_NAME='' @ dq @ ''$DB_USER'' @ dq @ ''; fi'',
        ''[ -n '' @ dq @ ''$DB_NAME'' @ dq @ '' ]'', ''[ -n '' @ dq @ ''$DB_USER'' @ dq @ '' ]'',
        sudo_on rc (''docker exec -e PGPASSWORD='' @ dq @ ''$DB_PASS'' @ dq @ '' '' @ shell_escape (pgc_container_name c) @
          '' pg_dump -U '' @ dq @ ''$DB_USER'' @ dq @ '' '' @ dq @ ''$DB_NAME'' @ dq @ '' '' @ pgc_dump_args c) @
          '' | gzip -c > '' @ dq @ ''$OUT'' @ dq,
        chown_self rc out]"

definition pg_manual_script :: "pg_manual_config \<Rightarrow> string \<Rightarrow> string" where
  "pg_manual_script c out =
     script_lines
       [strict_mode, ''OUT='' @ shell_escape out,
        ''PGPASSWORD='' @ shell_escape (pgm_db_password c) @ '' pg_dump -h '' @ shell_escape (pgm_host c) @ '' -p '' @
        itoa (pgm_port c) @ '' -U '' @ shell_escape (pgm_db_user c) @ '' '' @ shell_escape (pgm_db_name c) @ '' '' @
        pgm_dump_args c @ '' | gzip -c > '' @ dq @ ''$OUT'' @ dq]"

definition nginx_script :: "remote \<Rightarrow> nginx_config \<Rightarrow> string \<Rightarrow> string" where
  "nginx_script rc c out =
     script_lines [strict_mode, sudo_on rc (nx_command c) @ '' > '' @ shell_escape out, chown_self rc out]"

definition cron_script :: "remote \<Rightarrow> cron_config \<Rightarrow> string \<Rightarrow> string" where
  "cron_script rc c out =
     (let extra = (if cn_include_system c
                   then nl @ ''echo '' @ sq @ nl @ ''## /etc/crontab'' @ sq @ ''; '' @ sudo_on rc ''cat /etc/crontab'' @
                        '' 2>/dev/null || true'' @ nl @ ''echo '' @ sq @ nl @ ''## /etc/cron.d'' @ sq @ ''; '' @
                        sudo_on rc (''find /etc/cron.d -maxdepth 1 -type f -print -exec cat {} '' @ bsl @ '';'') @
                        '' 2>/dev/null || true''
                   else [])
      in script_lines
           [strict_mode, ''{ echo '' @ sq @ ''## user crontab'' @ sq @ ''; crontab -l 2>&1 || true '' @ extra,
            ''} > '' @ shell_escape out])"

definition inventory_script :: "remote \<Rightarrow> string \<Rightarrow> string" where
  "inventory_script rc out =
     script_lines
       [strict_mode,
        ''{ echo '' @ sq @ ''## docker ps -a'' @ sq @ ''; '' @ sudo_on rc ''docker ps -a'' @
        ''; echo '' @ sq @ nl @ ''## docker volume ls'' @ sq @ ''; '' @ sudo_on rc ''docker volume ls'' @
        ''; echo '' @ sq @ nl @ ''## docker network ls'' @ sq @ ''; '' @ sudo_on rc ''docker network ls'' @
        ''; echo '' @ sq @ nl @ ''## docker image ls'' @ sq @ ''; '' @ sudo_on rc ''docker image ls'' @
        ''; echo '' @ sq @ nl @ ''## docker compose ls'' @ sq @ ''; '' @ sudo_on rc ''docker compose ls'' @
        '' || true; } > '' @ shell_escape out]"

definition system_script :: "string \<Rightarrow> string" where
  "system_script out =
     script_lines
       [strict_mode,
        ''{ hostnamectl 2>/dev/null || true; echo; uname -a; echo; ip addr 2>/dev/null || true; echo; '' @
        ''ss -tulpn 2>/dev/null || true; echo; df -h; echo; free -m; } > '' @ shell_escape out]"

definition custom_script :: "custom_config \<Rightarrow> string \<Rightarrow> string" where
  "custom_script c out = script_lines [strict_mode, cu_command c @ '' > '' @ shell_escape out]"

section \<open>The script of a source\<close>

text \<open>The path of the result on the node, the script, and the name of the result.\<close>

definition render_source_script ::
    "bk_svc \<Rightarrow> bk_env \<Rightarrow> instant \<Rightarrow> string \<Rightarrow> bk_source \<Rightarrow> remote \<Rightarrow> (string \<times> string \<times> string) result" where
  "render_source_script svc env started workdir s rc =
     (let stamp = stamp_text started;
          base = make_artifact_name (bs_name s) stamp;
          bad = Inl (ErrMsg (bl_json_text env (bs_config s)));
          tar = base @ ''.tar.gz''; sql = base @ ''.sql.gz'';
          txt = (\<lambda>o1. make_artifact_name o1 stamp @ ''.txt'');
          dest = (\<lambda>o1. path_join [workdir, o1])
      in if bs_type s = src_file \<or> bs_type s = src_dir then
           (case path_config_of (bs_config s) of None \<Rightarrow> bad
            | Some c \<Rightarrow> Inr (dest tar, path_script rc c (dest tar), tar))
         else if bs_type s = src_volume then
           (case volume_config_of (bs_config s) of None \<Rightarrow> bad
            | Some c \<Rightarrow> Inr (dest tar, volume_script rc c workdir tar (dest tar), tar))
         else if bs_type s = src_pg_container then
           (case pg_container_config_of (bs_config s) of None \<Rightarrow> bad
            | Some c \<Rightarrow> Inr (dest sql, pg_container_script rc c (dest sql), sql))
         else if bs_type s = src_pg_manual then
           (case pg_manual_config_of (bs_config s) of None \<Rightarrow> bad
            | Some c \<Rightarrow> Inr (dest sql, pg_manual_script c (dest sql), sql))
         else if bs_type s = src_nginx then
           (case nginx_config_of (bs_config s) of None \<Rightarrow> bad
            | Some c \<Rightarrow> let o1 = txt (nx_output_name c) in Inr (dest o1, nginx_script rc c (dest o1), o1))
         else if bs_type s = src_cron then
           (case cron_config_of (bs_config s) of None \<Rightarrow> bad
            | Some c \<Rightarrow> let o1 = txt (cn_output_name c) in Inr (dest o1, cron_script rc c (dest o1), o1))
         else if bs_type s = src_inventory then
           (case output_name_of (bs_config s) of None \<Rightarrow> bad
            | Some n \<Rightarrow> let o1 = txt n in Inr (dest o1, inventory_script rc (dest o1), o1))
         else if bs_type s = src_system then
           (case output_name_of (bs_config s) of None \<Rightarrow> bad
            | Some n \<Rightarrow> let o1 = txt n in Inr (dest o1, system_script (dest o1), o1))
         else if bs_type s = src_custom then
           (case custom_config_of (bs_config s) of None \<Rightarrow> bad
            | Some c \<Rightarrow>
                if \<not> bsv_allow_unsafe svc then Inl (ErrMsg ''unsafe custom commands are disabled'')
                else let o1 = txt (cu_output_name c) in Inr (dest o1, custom_script c (dest o1), o1))
         else Inl (ErrMsg (''unsupported source type: '' @ bs_type s)))"

end
