(* ===== verification/Backup_Storage.thy ===== *)
theory Backup_Storage
  imports Backup_Store
begin

text \<open>
  The storage adapters, \<open>internal/services/backup/storage\<close>: where an object is put, which objects are listed,
  and which path is removed; and \<open>applyRetention\<close> of \<open>runner.go\<close>, over any adapter.

  A server is a parameter: \<open>server\<close> holds the calls the adapters make on the client libraries. The adapter for
  local directories works on the files of the machine, \<open>disk\<close>: the files by clean path with content and time
  of modification, and the paths on which a call is refused.
\<close>

section \<open>Names of objects\<close>

definition join_remote :: "string list \<Rightarrow> string" where
  "join_remote parts =
     (let clean = filter (\<lambda>p. p \<noteq> []) (map trim_space parts)
      in if clean = [] then ''/''
         else let joined = path_join clean
              in if has_prefix joined ''/'' then joined else ''/'' @ joined)"

definition new_uploader :: "storage_config \<Rightarrow> string \<Rightarrow> (string \<times> storage_config) result" where
  "new_uploader c t =
     (if t \<in> {''ftp'', ''ftps'', ''sftp'', ''webdav'', ''s3'', ''local''} then Inr (t, c)
      else Inl (ErrMsg (''unsupported storage type: '' @ t)))"

section \<open>Servers\<close>

record entry =
  en_path :: string
  en_is_dir :: bool
  en_bytes :: int
  en_time :: instant

record 's server =
  srv_dial :: "'s \<Rightarrow> goerr option"
  srv_mkdirs :: "string \<Rightarrow> 's \<Rightarrow> goerr option \<times> 's"
  srv_store :: "string \<Rightarrow> string \<Rightarrow> 's \<Rightarrow> goerr option \<times> 's"
  srv_walk :: "string \<Rightarrow> 's \<Rightarrow> entry list"
  srv_read_dir :: "string \<Rightarrow> 's \<Rightarrow> entry list result"
  srv_remove :: "string \<Rightarrow> 's \<Rightarrow> goerr option \<times> 's"
  srv_bucket_exists :: "string \<Rightarrow> 's \<Rightarrow> bool result"
  srv_make_bucket :: "string \<Rightarrow> 's \<Rightarrow> goerr option \<times> 's"

definition entry_object :: "entry \<Rightarrow> object_info" where
  "entry_object e =
     \<lparr>oi_path = trim_prefix (en_path e) ''/'', oi_name = path_base (en_path e), oi_bytes = en_bytes e,
      oi_modified = Some (en_time e)\<rparr>"

definition dialled :: "'s server \<Rightarrow> ('s \<Rightarrow> goerr option \<times> 's) \<Rightarrow> 's \<Rightarrow> goerr option \<times> 's" where
  "dialled srv k s = (case srv_dial srv s of Some e \<Rightarrow> (Some e, s) | None \<Rightarrow> k s)"

definition put_object :: "'s server \<Rightarrow> string \<Rightarrow> string \<Rightarrow> string \<Rightarrow> 's \<Rightarrow> goerr option \<times> 's" where
  "put_object srv dir name content s =
     (case srv_mkdirs srv dir s of
        (Some e, s1) \<Rightarrow> (Some e, s1)
      | (None, s1) \<Rightarrow> srv_store srv (path_join [dir, name]) content s1)"

text \<open>SFTP. \<open>done\<close> says that the context is done when it is looked at.\<close>

definition sftp_test :: "'s server \<Rightarrow> storage_config \<Rightarrow> bool \<Rightarrow> 's \<Rightarrow> goerr option \<times> 's" where
  "sftp_test srv c d =
     dialled srv (\<lambda>s. if d then (Some ErrCtxDone, s) else srv_mkdirs srv (join_remote [sc_base_path c]) s)"

definition sftp_upload :: "'s server \<Rightarrow> storage_config \<Rightarrow> bool \<Rightarrow> string \<Rightarrow> string \<Rightarrow> string \<Rightarrow> 's \<Rightarrow> goerr option \<times> 's" where
  "sftp_upload srv c d dir name content =
     dialled srv (\<lambda>s. case put_object srv (join_remote [sc_base_path c, dir]) name content s of
                        (None, s1) \<Rightarrow> (if d then Some ErrCtxDone else None, s1)
                      | (Some e, s1) \<Rightarrow> (Some e, s1))"

definition sftp_list :: "'s server \<Rightarrow> storage_config \<Rightarrow> bool \<Rightarrow> string \<Rightarrow> 's \<Rightarrow> object_info list result \<times> 's" where
  "sftp_list srv c d pre s =
     (case srv_dial srv s of
        Some e \<Rightarrow> (Inl e, s)
      | None \<Rightarrow>
          let es = srv_walk srv (join_remote [sc_base_path c, pre]) s
          in (if d \<and> es \<noteq> [] then Inl ErrCtxDone
              else Inr (map entry_object (filter (\<lambda>e. \<not> en_is_dir e) es)), s))"

definition sftp_delete :: "'s server \<Rightarrow> storage_config \<Rightarrow> bool \<Rightarrow> string \<Rightarrow> 's \<Rightarrow> goerr option \<times> 's" where
  "sftp_delete srv c d p =
     dialled srv (\<lambda>s. if d then (Some ErrCtxDone, s) else srv_remove srv (join_remote [sc_base_path c, p]) s)"

text \<open>WebDAV: one directory is listed, not those below it.\<close>

definition webdav_list :: "'s server \<Rightarrow> storage_config \<Rightarrow> string \<Rightarrow> 's \<Rightarrow> object_info list result \<times> 's" where
  "webdav_list srv c pre s =
     (let dir = join_remote [sc_base_path c, pre]
      in case srv_read_dir srv dir s of
           Inl e \<Rightarrow> (Inl e, s)
         | Inr es \<Rightarrow>
             (Inr (map (\<lambda>e. let name = path_base (en_path e) in entry_object (e\<lparr>en_path := path_join [dir, name]\<rparr>))
                    (filter (\<lambda>e. \<not> en_is_dir e) es)), s))"

definition webdav_test :: "'s server \<Rightarrow> storage_config \<Rightarrow> 's \<Rightarrow> goerr option \<times> 's" where
  "webdav_test srv c = srv_mkdirs srv (join_remote [sc_base_path c])"

definition webdav_upload :: "'s server \<Rightarrow> storage_config \<Rightarrow> string \<Rightarrow> string \<Rightarrow> string \<Rightarrow> 's \<Rightarrow> goerr option \<times> 's" where
  "webdav_upload srv c dir name content = put_object srv (join_remote [sc_base_path c, dir]) name content"

definition webdav_delete :: "'s server \<Rightarrow> storage_config \<Rightarrow> string \<Rightarrow> 's \<Rightarrow> goerr option \<times> 's" where
  "webdav_delete srv c p = srv_remove srv (join_remote [sc_base_path c, p])"

text \<open>S3: the key of an object, without a leading slash.\<close>

definition s3_key :: "storage_config \<Rightarrow> string list \<Rightarrow> string" where
  "s3_key c ps = trim_prefix (path_join (trim_prefix (sc_base_path c) ''/'' # ps)) ''/''"

definition s3_ensure_bucket :: "'s server \<Rightarrow> storage_config \<Rightarrow> 's \<Rightarrow> goerr option \<times> 's" where
  "s3_ensure_bucket srv c s =
     (case srv_bucket_exists srv (sc_bucket c) s of
        Inl e \<Rightarrow> (Some e, s)
      | Inr True \<Rightarrow> (None, s)
      | Inr False \<Rightarrow> srv_make_bucket srv (sc_bucket c) s)"

definition s3_test :: "'s server \<Rightarrow> storage_config \<Rightarrow> 's \<Rightarrow> goerr option \<times> 's" where
  "s3_test srv c = dialled srv (s3_ensure_bucket srv c)"

definition s3_upload :: "'s server \<Rightarrow> storage_config \<Rightarrow> string \<Rightarrow> string \<Rightarrow> string \<Rightarrow> 's \<Rightarrow> goerr option \<times> 's" where
  "s3_upload srv c dir name content =
     dialled srv (\<lambda>s. case s3_ensure_bucket srv c s of
                        (Some e, s1) \<Rightarrow> (Some e, s1)
                      | (None, s1) \<Rightarrow> srv_store srv (s3_key c [dir, name]) content s1)"

definition s3_list :: "'s server \<Rightarrow> storage_config \<Rightarrow> string \<Rightarrow> 's \<Rightarrow> object_info list result \<times> 's" where
  "s3_list srv c pre s =
     (case srv_dial srv s of
        Some e \<Rightarrow> (Inl e, s)
      | None \<Rightarrow>
          (case srv_read_dir srv (s3_key c [pre]) s of
             Inl e \<Rightarrow> (Inl e, s)
           | Inr es \<Rightarrow>
               (Inr (map (\<lambda>e. \<lparr>oi_path = en_path e, oi_name = path_base (en_path e), oi_bytes = en_bytes e,
                                oi_modified = Some (en_time e)\<rparr>) es), s)))"

definition s3_delete :: "'s server \<Rightarrow> storage_config \<Rightarrow> string \<Rightarrow> 's \<Rightarrow> goerr option \<times> 's" where
  "s3_delete srv c p = dialled srv (srv_remove srv (s3_key c [p]))"

text \<open>
  FTP: \<open>walkFTP\<close> descends into directories. A server that lists a directory inside of itself would keep it
  going for ever; \<open>fuel\<close> bounds the depth.
\<close>

fun walk_ftp :: "nat \<Rightarrow> 's server \<Rightarrow> string \<Rightarrow> 's \<Rightarrow> object_info list result option" where
  "walk_ftp 0 srv dir s = None"
| "walk_ftp (Suc n) srv dir s =
     (case srv_read_dir srv dir s of
        Inl e \<Rightarrow> Some (Inl e)
      | Inr es \<Rightarrow>
          foldl (\<lambda>acc e.
            case acc of
              Some (Inr os) \<Rightarrow>
                let name = path_base (en_path e); full = path_join [dir, name]
                in if name = ''.'' \<or> name = ''..'' then acc
                   else if en_is_dir e then
                     (case walk_ftp n srv full s of
                        Some (Inr os1) \<Rightarrow> Some (Inr (os @ os1))
                      | other \<Rightarrow> other)
                   else Some (Inr (os @ [\<lparr>oi_path = trim_prefix full ''/'', oi_name = name, oi_bytes = en_bytes e,
                                           oi_modified = Some (en_time e)\<rparr>]))
            | _ \<Rightarrow> acc) (Some (Inr [])) es)"

definition ftp_list :: "nat \<Rightarrow> 's server \<Rightarrow> storage_config \<Rightarrow> string \<Rightarrow> 's \<Rightarrow> object_info list result option" where
  "ftp_list fuel srv c pre s =
     (case srv_dial srv s of
        Some e \<Rightarrow> Some (Inl e)
      | None \<Rightarrow>
          (case walk_ftp fuel srv (join_remote [sc_base_path c, pre]) s of
             Some (Inl e) \<Rightarrow> Some (if contains (to_lower (err_text e)) ''not found'' then Inr [] else Inl e)
           | other \<Rightarrow> other))"

definition ftp_test :: "'s server \<Rightarrow> storage_config \<Rightarrow> 's \<Rightarrow> goerr option \<times> 's" where
  "ftp_test srv c =
     dialled srv (\<lambda>s. if sc_base_path c \<noteq> ''/'' then (None, snd (srv_mkdirs srv (sc_base_path c) s)) else (None, s))"

text \<open>Every prefix of the directory is made; a refusal is ignored.\<close>

definition ensure_ftp_dir :: "'s server \<Rightarrow> string \<Rightarrow> 's \<Rightarrow> 's" where
  "ensure_ftp_dir srv dir s =
     (if dir = ''/'' then s
      else snd (fold (\<lambda>p (cur, t). (cur @ ''/'' @ p, snd (srv_mkdirs srv (cur @ ''/'' @ p) t)))
                  (split_on CHR ''/'' (trim_prefix dir ''/'')) ([], s)))"

definition ftp_upload :: "'s server \<Rightarrow> storage_config \<Rightarrow> string \<Rightarrow> string \<Rightarrow> string \<Rightarrow> 's \<Rightarrow> goerr option \<times> 's" where
  "ftp_upload srv c dir name content =
     dialled srv (\<lambda>s.
       let d = join_remote [sc_base_path c, dir]
       in srv_store srv (path_join [d, name]) content (ensure_ftp_dir srv d s))"

definition ftp_delete :: "'s server \<Rightarrow> storage_config \<Rightarrow> string \<Rightarrow> 's \<Rightarrow> goerr option \<times> 's" where
  "ftp_delete srv c p = dialled srv (srv_remove srv (join_remote [sc_base_path c, p]))"

section \<open>Local directories\<close>

record disk =
  dk_files :: "(string \<times> string \<times> instant) list"
  dk_denied :: "string \<Rightarrow> bool"
  dk_now :: instant

definition os_error :: "string \<Rightarrow> goerr" where
  "os_error p = ErrMsg (p @ '': permission denied'')"

definition os_missing :: "string \<Rightarrow> goerr" where
  "os_missing p = ErrMsg (p @ '': no such file or directory'')"

definition disk_put :: "string \<Rightarrow> string \<Rightarrow> disk \<Rightarrow> disk" where
  "disk_put p content d =
     d\<lparr>dk_files := filter (\<lambda>(q, _). q \<noteq> p) (dk_files d) @ [(p, content, dk_now d)]\<rparr>"

definition disk_remove :: "string \<Rightarrow> disk \<Rightarrow> goerr option \<times> disk" where
  "disk_remove p d =
     (if dk_denied d p then (Some (os_error p), d)
      else if p \<notin> fst ` set (dk_files d) then (Some (os_missing p), d)
      else (None, d\<lparr>dk_files := filter (\<lambda>(q, _). q \<noteq> p) (dk_files d)\<rparr>))"

text \<open>\<open>filepath.Walk\<close>: the file itself, or the files below the directory.\<close>

definition below_dir :: "string \<Rightarrow> string \<Rightarrow> bool" where
  "below_dir rt p \<longleftrightarrow>
     (if rt = ''/'' then has_prefix p ''/''
      else if rt = ''.'' then \<not> has_prefix p ''/''
      else p = rt \<or> has_prefix p (rt @ ''/''))"

definition disk_walk :: "string \<Rightarrow> disk \<Rightarrow> entry list" where
  "disk_walk rt d =
     map (\<lambda>(p, content, t). \<lparr>en_path = p, en_is_dir = False, en_bytes = int (length content), en_time = t\<rparr>)
       (filter (\<lambda>(p, _). below_dir rt p) (dk_files d))"

text \<open>\<open>filepath.Rel\<close> of a path below a directory.\<close>

definition path_rel :: "string \<Rightarrow> string \<Rightarrow> string" where
  "path_rel base p = (if base = ''.'' then p else trim_prefix (trim_prefix p base) ''/'')"

definition local_at :: "storage_config \<Rightarrow> string \<Rightarrow> string" where
  "local_at c p = path_join [sc_local_path c, trim_prefix p ''/'']"

definition local_test :: "storage_config \<Rightarrow> bool \<Rightarrow> disk \<Rightarrow> goerr option \<times> disk" where
  "local_test c cx_done d =
     (if cx_done then (Some ErrCtxDone, d)
      else if dk_denied d (sc_local_path c) then (Some (os_error (sc_local_path c)), d) else (None, d))"

text \<open>
  The object is written under a name of its own and then renamed; \<open>cx_done\<close> says that the context is done
  while it is copied, \<open>broken\<close> that copying fails.
\<close>

definition local_upload :: "storage_config \<Rightarrow> bool \<Rightarrow> bool \<Rightarrow> string \<Rightarrow> string \<Rightarrow> string \<Rightarrow> disk \<Rightarrow> goerr option \<times> disk" where
  "local_upload c cx_done broken dir name content d =
     (let target_dir = local_at c dir; file = path_join [target_dir, name]; tmp = file @ ''.tmp''
      in if dk_denied d target_dir then (Some (os_error target_dir), d)
         else if dk_denied d tmp then (Some (os_error tmp), d)
         else
           let d1 = disk_put tmp content d
           in if cx_done then (Some ErrCtxDone, snd (disk_remove tmp d1))
              else if broken then (Some (os_error tmp), snd (disk_remove tmp d1))
              else if dk_denied d file then (Some (os_error file), d1)
              else (None, disk_put file content (snd (disk_remove tmp d1))))"

definition local_list :: "storage_config \<Rightarrow> string \<Rightarrow> disk \<Rightarrow> object_info list result \<times> disk" where
  "local_list c pre d =
     (let rt = local_at c pre
      in (if dk_denied d rt then Inl (os_error rt)
          else Inr (map (\<lambda>e. \<lparr>oi_path = path_rel (path_clean (sc_local_path c)) (en_path e), oi_name = path_base (en_path e),
                              oi_bytes = en_bytes e, oi_modified = Some (en_time e)\<rparr>) (disk_walk rt d)), d))"

definition local_delete :: "storage_config \<Rightarrow> bool \<Rightarrow> string \<Rightarrow> disk \<Rightarrow> goerr option \<times> disk" where
  "local_delete c cx_done p d =
     (if cx_done then (Some ErrCtxDone, d) else disk_remove (local_at c p) d)"

section \<open>Retention\<close>

definition day :: duration where
  "day = 86400 * second"

definition expired :: "instant \<Rightarrow> object_info \<Rightarrow> bool" where
  "expired cutoff ob \<longleftrightarrow> (case oi_modified ob of None \<Rightarrow> False | Some t \<Rightarrow> t \<le> cutoff)"

text \<open>Only the first error is logged as one; an object whose removal fails after it is logged as deleted.\<close>

primrec delete_expired ::
    "(string \<Rightarrow> 's \<Rightarrow> goerr option \<times> 's) \<Rightarrow> (string \<Rightarrow> 's \<Rightarrow> 's) \<Rightarrow> instant \<Rightarrow> object_info list \<Rightarrow>
     goerr option \<Rightarrow> 's \<Rightarrow> goerr option \<times> 's" where
  "delete_expired del wr cutoff [] first_err s = (first_err, s)"
| "delete_expired del wr cutoff (ob # obs) first_err s =
     (if \<not> expired cutoff ob then delete_expired del wr cutoff obs first_err s
      else
        let (e, s1) = del (oi_path ob) s
        in if e \<noteq> None \<and> first_err = None
           then delete_expired del wr cutoff obs e
                  (wr (''retention delete failed path='' @ oi_path ob @ '' err='' @ err_text (the e)) s1)
           else delete_expired del wr cutoff obs first_err (wr (''retention deleted path='' @ oi_path ob) s1))"

definition job_prefix :: "(uuid \<Rightarrow> string) \<Rightarrow> bk_job \<Rightarrow> string" where
  "job_prefix txt job = path_join [''org_'' @ txt (bj_org_id job), ''job_'' @ txt (bj_id job)]"

definition apply_retention ::
    "(string \<Rightarrow> 's \<Rightarrow> object_info list result \<times> 's) \<Rightarrow> (string \<Rightarrow> 's \<Rightarrow> goerr option \<times> 's) \<Rightarrow> (string \<Rightarrow> 's \<Rightarrow> 's) \<Rightarrow>
     instant \<Rightarrow> int \<Rightarrow> string \<Rightarrow> 's \<Rightarrow> goerr option \<times> 's" where
  "apply_retention lst del wr now days pre s =
     (if days \<le> 0 then (None, s)
      else case lst pre s of
             (Inl e, s1) \<Rightarrow> (Some e, s1)
           | (Inr obs, s1) \<Rightarrow> delete_expired del wr (now - days * day) obs None s1)"

end
