(* ===== verification/Backup_Runner.thy ===== *)
theory Backup_Runner
  imports Backup_Service Backup_Scripts Backup_Storage
begin

text \<open>
  \<open>internal/services/backup/runner.go\<close>, \<open>ssh.go\<close> and \<open>TestStorageTarget\<close> of \<open>catalog.go\<close>: how runs are triggered,
  retried and cancelled, and the execution of a run. The run and its job are local copies of their rows, handed from
  step to step and written back with \<open>Save\<close>.
\<close>

section \<open>The remote host\<close>

definition run_remote :: "bk_env \<Rightarrow> string \<Rightarrow> bk \<Rightarrow> (string \<times> int \<times> goerr option) \<times> bk" where
  "run_remote env cmd w =
     (case bk_outside env (CallRemote (''bash -lc '' @ go_quote cmd)) w of
        (e, w1) \<Rightarrow> ((be_text env (bk_n w), (case e of None \<Rightarrow> 0 | Some _ \<Rightarrow> be_int env (bk_n w)), e), w1))"

definition remote_ok :: "string \<times> int \<times> goerr option \<Rightarrow> bool" where
  "remote_ok r \<longleftrightarrow> snd (snd r) = None \<and> fst (snd r) = 0"

primrec try_passwords :: "bk_env \<Rightarrow> string list \<Rightarrow> bk \<Rightarrow> remote result \<times> bk" where
  "try_passwords env [] = bk_ret (Inl (ErrMsg ''sudo password required''))"
| "try_passwords env (p # ps) =
     (if trim_space p = [] then try_passwords env ps
      else bk_then (run_remote env (''echo '' @ shell_escape (trim_space p) @ '' | sudo -S -p '' @ sq @ sq @ '' true'')) (\<lambda>r.
        if remote_ok r then bk_ret (Inr \<lparr>rc_sudo_pass = trim_space p, rc_use_pass = True\<rparr>)
        else try_passwords env ps))"

definition detect_sudo :: "bk_env \<Rightarrow> string list \<Rightarrow> bk \<Rightarrow> remote result \<times> bk" where
  "detect_sudo env passwords =
     bk_then (run_remote env ''sudo -n true'') (\<lambda>r.
       if remote_ok r then bk_ret (Inr \<lparr>rc_sudo_pass = [], rc_use_pass = False\<rparr>)
       else try_passwords env passwords)"

text \<open>Decrypting the key, the connection and the SFTP session are one call.\<close>

definition open_remote_client :: "bk_svc \<Rightarrow> bk_env \<Rightarrow> node \<Rightarrow> bk \<Rightarrow> remote result \<times> bk" where
  "open_remote_client svc env n =
     (if \<not> n_ssh_enabled n then bk_ret (Inl (ErrMsg ''ssh is disabled for node''))
      else if \<not> bsv_has_encryptor svc then bk_ret (Inl (ErrMsg ''encryptor is not configured''))
      else bk_check (bk_outside env (CallDial (n_id n))) (detect_sudo env (bsv_sudo_passwords svc)))"

text \<open>A call that returns a text or a number, and nothing when it fails.\<close>

definition read_text :: "bk_env \<Rightarrow> bk_call \<Rightarrow> bk \<Rightarrow> string result \<times> bk" where
  "read_text env c w =
     (case bk_outside env c w of
        (Some e, w1) \<Rightarrow> (Inl e, w1)
      | (None, w1) \<Rightarrow> (Inr (be_text env (bk_n w)), w1))"

definition read_int :: "bk_env \<Rightarrow> bk_call \<Rightarrow> bk \<Rightarrow> int result \<times> bk" where
  "read_int env c w =
     (case bk_outside env c w of
        (Some e, w1) \<Rightarrow> (Inl e, w1)
      | (None, w1) \<Rightarrow> (Inr (be_int env (bk_n w)), w1))"

section \<open>The log of a run\<close>

definition max_tail :: nat where "max_tail = 80"

definition log_line :: "bk_env \<Rightarrow> string \<Rightarrow> bk \<Rightarrow> bk" where
  "log_line env msg w =
     (let ls = bk_log w @ [rfc3339 (be_now env (bk_n w)) @ '' '' @ msg]
      in w\<lparr>bk_log := drop (length ls - max_tail) ls\<rparr>)"

definition writef :: "bk_env \<Rightarrow> string \<Rightarrow> bk \<Rightarrow> unit \<times> bk" where
  "writef env msg w = ((), log_line env msg w)"

definition excerpt :: "bk \<Rightarrow> string" where
  "excerpt w = join nl (bk_log w)"

section \<open>Starting, retrying and cancelling\<close>

definition run_blocks :: "bk_run \<Rightarrow> bool" where
  "run_blocks r \<longleftrightarrow> br_status r = bk_queued \<or> br_status r = bk_running"

definition is_job_running :: "bk_env \<Rightarrow> uuid \<Rightarrow> bk \<Rightarrow> bool \<times> bk" where
  "is_job_running env job =
     bk_then (bk_query env Background (\<lambda>v. length (filter (\<lambda>r. br_job_id r = job \<and> run_blocks r) (bk_runs v)))) (\<lambda>r.
       bk_ret (case r of Inl e \<Rightarrow> False | Inr n \<Rightarrow> 0 < n))"

definition queued_run :: "uuid \<Rightarrow> uuid \<Rightarrow> uuid \<Rightarrow> string \<Rightarrow> uuid option \<Rightarrow> instant \<Rightarrow> bk_run" where
  "queued_run i org job trigger by now =
     \<lparr>br_id = i, br_org_id = org, br_job_id = job, br_status = bk_queued, br_trigger = trigger, br_initiated_by = by,
      br_local_workdir = None, br_remote_workdir = None, br_remote_path = None, br_total_size = 0, br_uploaded_size = 0,
      br_file_count = 0, br_checksum_status = phase_pending, br_cleanup_status = phase_pending, br_error_summary = None,
      br_log_excerpt = None, br_log_path = None, br_started_at = now, br_finished_at = None, br_duration_ms = 0,
      br_cancel_requested_at = None, br_created_at = now\<rparr>"

text \<open>The statement \<open>go s.runAsync(run.ID)\<close>.\<close>

definition go_run :: "uuid \<Rightarrow> bk \<Rightarrow> unit \<times> bk" where
  "go_run i w = ((), w\<lparr>bk_started := bk_started w @ [i]\<rparr>)"

definition trigger_run :: "bk_env \<Rightarrow> uuid \<Rightarrow> uuid \<Rightarrow> string \<Rightarrow> uuid option \<Rightarrow> bk \<Rightarrow> bk_run result \<times> bk" where
  "trigger_run env org job trigger by =
     bk_try (get_backup_job env Background org job) (\<lambda>_.
       bk_then (is_job_running env job) (\<lambda>busy.
         if busy then bk_ret (Inl (ErrMsg ''job already has a queued or running backup''))
         else bk_then (bk_new_uuid env) (\<lambda>u. bk_then (bk_clock env) (\<lambda>now.
           let rn = queued_run u org job trigger by now
           in bk_check (bk_write env Background (put_run rn)) (bk_drop (go_run u) (bk_ret (Inr rn)))))))"

definition retry_run :: "bk_env \<Rightarrow> uuid \<Rightarrow> uuid \<Rightarrow> uuid option \<Rightarrow> bk \<Rightarrow> bk_run result \<times> bk" where
  "retry_run env org i by =
     bk_try (get_run env org i) (\<lambda>(rn, _). trigger_run env org (br_job_id rn) trigger_retry by)"

definition cancel_context :: "uuid \<Rightarrow> bk \<Rightarrow> unit \<times> bk" where
  "cancel_context i w = ((), if i \<in> set (bk_live w) then w\<lparr>bk_stopped := i # bk_stopped w\<rparr> else w)"

definition cancel_run :: "bk_env \<Rightarrow> uuid \<Rightarrow> uuid \<Rightarrow> bk \<Rightarrow> unit result \<times> bk" where
  "cancel_run env org i =
     bk_try (get_run env org i) (\<lambda>(rn, _).
       bk_then (bk_clock env) (\<lambda>now.
         bk_check (bk_write env Background (save_run env (rn\<lparr>br_cancel_requested_at := Some now\<rparr>)))
           (bk_drop (cancel_context (br_id rn)) (bk_ret (Inr ())))))"

section \<open>Small helpers\<close>

definition err_summary :: "goerr option \<Rightarrow> string" where
  "err_summary e = (case e of None \<Rightarrow> [] | Some e \<Rightarrow> trim_space (err_text e))"

fun first_error :: "goerr option list \<Rightarrow> goerr option" where
  "first_error [] = None"
| "first_error (None # es) = first_error es"
| "first_error (Some e # es) = Some e"

definition derive_final_status :: "goerr option \<Rightarrow> goerr option \<Rightarrow> bool \<Rightarrow> string" where
  "derive_final_status exec_err upload_err cancelled =
     (if cancelled then bk_cancelled
      else if exec_err = None \<and> upload_err = None then bk_success
      else if exec_err \<noteq> None \<and> upload_err \<noteq> None then bk_failed
      else bk_partial)"

definition if_done :: "bctx \<Rightarrow> (bk \<Rightarrow> 'a \<times> bk) \<Rightarrow> (bk \<Rightarrow> 'a \<times> bk) \<Rightarrow> bk \<Rightarrow> 'a \<times> bk" where
  "if_done cx yes no w = (if ctx_done cx w then yes w else no w)"

definition finish_run_with_error ::
    "bk_env \<Rightarrow> bctx \<Rightarrow> bk_run \<Rightarrow> bk_job \<Rightarrow> bool \<Rightarrow> string \<Rightarrow> goerr \<Rightarrow> bk \<Rightarrow> goerr option \<times> bk" where
  "finish_run_with_error env cx rn job has_log what e =
     bk_then (bk_clock env) (\<lambda>now.
       let summary = (if what = [] then err_summary (Some e) else what);
           run1 = rn\<lparr>br_status := bk_failed, br_finished_at := Some now,
                      br_duration_ms := duration_ms (time_sub now (br_started_at rn))\<rparr>;
           run2 = (if summary \<noteq> [] then run1\<lparr>br_error_summary := Some summary\<rparr> else run1);
           job1 = (if summary \<noteq> [] then job\<lparr>bj_last_error := Some summary\<rparr> else job)
       in bk_drop (if has_log then writef env (''run failed: '' @ summary @ '' ('' @ err_text e @ '')'') else bk_ret ())
            (\<lambda>w. (let run3 = (if has_log then run2\<lparr>br_log_excerpt := Some (excerpt w)\<rparr> else run2)
                  in bk_drop (bk_write env cx (save_run env run3))
                       (bk_drop (bk_write env cx (save_bk_job env
                            (job1\<lparr>bj_last_run_at := Some now, bj_last_status := br_status run3\<rparr>)))
                          (bk_ret (Some e)))) w))"

section \<open>One source\<close>

record artifact =
  af_item_id :: uuid
  af_type :: string
  af_name :: string
  af_local :: string
  af_object :: string
  af_size :: int
  af_checksum :: string

definition fail_run_item :: "bk_env \<Rightarrow> bctx \<Rightarrow> bk_item \<Rightarrow> goerr \<Rightarrow> bk \<Rightarrow> artifact result \<times> bk" where
  "fail_run_item env cx item e =
     bk_then (bk_clock env) (\<lambda>now.
       bk_drop (bk_write env cx (save_item env
           (item\<lparr>bi_status := bk_failed, bi_error := Some (err_text e), bi_finished_at := Some now\<rparr>)))
         (bk_drop (writef env (''source failed name='' @ bi_logical_name item @ '' err='' @ err_text e)) (bk_ret (Inl e))))"

text \<open>A step of \<open>executeSource\<close> whose failure ends the item with a prefixed error.\<close>

definition item_step ::
    "bk_env \<Rightarrow> bctx \<Rightarrow> bk_item \<Rightarrow> string \<Rightarrow> (bk \<Rightarrow> 'a result \<times> bk) \<Rightarrow> ('a \<Rightarrow> bk \<Rightarrow> artifact result \<times> bk) \<Rightarrow>
     bk \<Rightarrow> artifact result \<times> bk" where
  "item_step env cx item what m k =
     bk_then m (\<lambda>r. case r of Inl e \<Rightarrow> fail_run_item env cx item (wrap_err what e) | Inr x \<Rightarrow> k x)"

definition as_result :: "(bk \<Rightarrow> goerr option \<times> bk) \<Rightarrow> bk \<Rightarrow> unit result \<times> bk" where
  "as_result m = bk_then m (\<lambda>e. bk_ret (case e of None \<Rightarrow> Inr () | Some e \<Rightarrow> Inl e))"

definition new_item :: "uuid \<Rightarrow> uuid \<Rightarrow> bk_source \<Rightarrow> instant \<Rightarrow> bk_item" where
  "new_item u rn s now =
     \<lparr>bi_id = u, bi_run_id = rn, bi_source_id = Some (bs_id s), bi_item_type = bs_type s, bi_logical_name = bs_name s,
      bi_output_name = [], bi_remote_path = None, bi_size = 0, bi_checksum = None, bi_status = bk_running,
      bi_started_at = Some now, bi_finished_at = None, bi_error = None, bi_extra = ''{}''\<rparr>"

text \<open>The script has been written: send it, run it, fetch the result, store the item.\<close>

definition fetch_result ::
    "bk_env \<Rightarrow> bctx \<Rightarrow> bk_run \<Rightarrow> bk_source \<Rightarrow> bk_item \<Rightarrow> string \<times> string \<times> string \<Rightarrow> bk \<Rightarrow> artifact result \<times> bk" where
  "fetch_result env cx rn s item0 scr =
     (let (remote_out, body, out) = scr;
          item = item0\<lparr>bi_output_name := out, bi_remote_path := Some remote_out\<rparr>;
          script_path = path_join [path_dir remote_out, be_uuid_text env (bi_id item) @ ''.sh''];
          local_path = path_join [trim_space (case br_local_workdir rn of None \<Rightarrow> [] | Some d \<Rightarrow> d), out]
      in item_step env cx item ''upload script'' (as_result (bk_outside env (CallPut script_path body))) (\<lambda>_.
           bk_drop (run_remote env (''chmod 700 '' @ shell_escape script_path))
             (bk_then (run_remote env (''bash '' @ shell_escape script_path)) (\<lambda>(output, code, err).
                case err of
                  Some e \<Rightarrow>
                    bk_drop (writef env (''source execution failed name='' @ bs_name s @ '' code='' @ itoa code @
                                         '' output='' @ trim_space output))
                      (fail_run_item env cx item (ErrMsg (trim_space (first_non_empty [output, err_text e]))))
                | None \<Rightarrow>
                    item_step env cx item ''download artifact'' (as_result (bk_outside env (CallFetch remote_out local_path))) (\<lambda>_.
                    item_step env cx item ''remote stat'' (read_int env (CallRemoteStat remote_out)) (\<lambda>sz.
                    item_step env cx item ''checksum'' (read_text env (CallReadFile local_path)) (\<lambda>checksum.
                      bk_then (bk_clock env) (\<lambda>now.
                        let done = item\<lparr>bi_status := bk_success, bi_size := sz, bi_checksum := Some checksum,
                                        bi_finished_at := Some now\<rparr>
                        in bk_check (bk_write env cx (save_item env done))
                             (bk_ret (Inr \<lparr>af_item_id = bi_id done, af_type = bi_item_type done,
                                           af_name = bi_logical_name done, af_local = local_path, af_object = out,
                                           af_size = sz, af_checksum = checksum\<rparr>))))))))))"

definition execute_source ::
    "bk_svc \<Rightarrow> bk_env \<Rightarrow> bctx \<Rightarrow> remote \<Rightarrow> bk_run \<Rightarrow> bk_source \<Rightarrow> bk \<Rightarrow> (artifact result \<times> bk_run) \<times> bk" where
  "execute_source svc env cx rc rn s =
     bk_then (bk_clock env) (\<lambda>now. bk_then (bk_new_uuid env) (\<lambda>u.
       let item = new_item u (br_id rn) s now
       in bk_then (bk_write env cx (put_item item)) (\<lambda>created.
            case created of
              Some e \<Rightarrow> bk_ret (Inl e, rn)
            | None \<Rightarrow>
                bk_drop (writef env (''source started type='' @ bs_type s @ '' name='' @ bs_name s))
                  (case render_source_script svc env (br_started_at rn)
                          (case br_remote_workdir rn of None \<Rightarrow> [] | Some d \<Rightarrow> d) s rc of
                     Inl e \<Rightarrow>
                       bk_then (bk_clock env) (\<lambda>fin.
                         bk_drop (bk_write env cx (save_item env
                             (item\<lparr>bi_status := bk_failed, bi_error := Some (err_text e), bi_finished_at := Some fin\<rparr>)))
                           (bk_drop (writef env (''source failed early name='' @ bs_name s @ '' err='' @ err_text e))
                              (bk_ret (Inl e, rn))))
                   | Inr scr \<Rightarrow>
                       bk_then (fetch_result env cx rn s item scr) (\<lambda>r.
                         case r of
                           Inl e \<Rightarrow> bk_ret (Inl e, rn)
                         | Inr a \<Rightarrow>
                             let run1 = rn\<lparr>br_total_size := wrap64 (br_total_size rn + af_size a)\<rparr>
                             in bk_drop (bk_write env cx (update_run (br_id rn)
                                    (\<lambda>r. r\<lparr>br_total_size := br_total_size run1\<rparr>)))
                                  (bk_drop (writef env (''source finished name='' @ bs_name s @ '' file='' @ af_object a @
                                       '' size='' @ itoa (af_size a)))
                                     (bk_ret (Inr a, run1))))))))"

primrec collect_loop ::
    "bk_svc \<Rightarrow> bk_env \<Rightarrow> bctx \<Rightarrow> remote \<Rightarrow> bk_source list \<Rightarrow> bk_run \<Rightarrow> artifact list \<Rightarrow> goerr option \<Rightarrow> bk \<Rightarrow>
     ((artifact list \<times> goerr option) \<times> bk_run) \<times> bk" where
  "collect_loop svc env cx rc [] rn arts first_err = bk_ret ((arts, first_err), rn)"
| "collect_loop svc env cx rc (s # ss) rn arts first_err =
     (if \<not> bs_enabled s then collect_loop svc env cx rc ss rn arts first_err
      else if_done cx (bk_ret ((arts, Some ErrCtxDone), rn))
             (bk_then (execute_source svc env cx rc rn s) (\<lambda>(r, run1).
                case r of
                  Inl e \<Rightarrow> collect_loop svc env cx rc ss run1 arts (if first_err = None then Some e else first_err)
                | Inr a \<Rightarrow> collect_loop svc env cx rc ss run1 (arts @ [a]) first_err)))"

definition remote_workdir_of :: "bk_env \<Rightarrow> bk_run \<Rightarrow> string" where
  "remote_workdir_of env rn = path_join [''/tmp'', ''agg-backup-'' @ be_uuid_text env (br_id rn)]"

definition collect_artifacts ::
    "bk_svc \<Rightarrow> bk_env \<Rightarrow> bctx \<Rightarrow> bk_run \<Rightarrow> bk_job \<Rightarrow> bk_source list \<Rightarrow> bk \<Rightarrow>
     ((artifact list \<times> goerr option) \<times> bk_run) \<times> bk" where
  "collect_artifacts svc env cx rn job srcs =
     (case bj_node_id job of
        None \<Rightarrow> bk_ret (([], Some (ErrMsg ''backup jobs currently require node_id for real execution'')), rn)
      | Some nid \<Rightarrow>
          if nid = uuid_nil
          then bk_ret (([], Some (ErrMsg ''backup jobs currently require node_id for real execution'')), rn)
          else
            bk_then (bk_first env cx bk_nodes (\<lambda>n. n_id n = nid \<and> n_org_id n = Some (bj_org_id job))) (\<lambda>found.
              case found of
                Inl e \<Rightarrow> bk_ret (([], Some e), rn)
              | Inr n \<Rightarrow>
                  bk_then (open_remote_client svc env n) (\<lambda>opened.
                    case opened of
                      Inl e \<Rightarrow> bk_ret (([], Some e), rn)
                    | Inr rc \<Rightarrow>
                        let dir = remote_workdir_of env rn; run1 = rn\<lparr>br_remote_workdir := Some dir\<rparr>
                        in bk_drop (bk_write env cx (save_run env run1))
                             (bk_then (run_remote env (''mkdir -p '' @ shell_escape dir)) (\<lambda>(_, _, err).
                                case err of
                                  Some e \<Rightarrow> bk_ret (([], Some e), run1)
                                | None \<Rightarrow>
                                    bk_then (collect_loop svc env cx rc srcs run1 [] None) (\<lambda>res.
                                      bk_drop (run_remote env (''rm -rf '' @ shell_escape dir)) (bk_ret res)))))))"

section \<open>The manifest, uploads and old runs\<close>

definition manifest_text :: "artifact list \<Rightarrow> string" where
  "manifest_text arts = join nl (map (\<lambda>a. af_checksum a @ ''  '' @ af_object a) arts) @ nl"

definition write_manifest :: "bk_env \<Rightarrow> artifact list \<Rightarrow> string \<Rightarrow> bk \<Rightarrow> (string \<times> string \<times> int) result \<times> bk" where
  "write_manifest env arts workdir =
     (let p = path_join [workdir, ''SHA256SUMS'']
      in bk_check (bk_outside env (CallWriteFile p (manifest_text arts)))
           (bk_try (read_text env (CallReadFile p)) (\<lambda>checksum.
              bk_try (read_int env (CallStatFile p)) (\<lambda>sz. bk_ret (Inr (p, checksum, sz))))))"

definition keep_first :: "goerr option \<Rightarrow> goerr \<Rightarrow> goerr option" where
  "keep_first first_err e = (if first_err = None then Some e else first_err)"

primrec upload_artifacts ::
    "bk_env \<Rightarrow> bctx \<Rightarrow> string \<Rightarrow> artifact list \<Rightarrow> bk_run \<Rightarrow> goerr option \<Rightarrow> bk \<Rightarrow> (goerr option \<times> bk_run) \<times> bk" where
  "upload_artifacts env cx dir [] rn first_err = bk_ret (first_err, rn)"
| "upload_artifacts env cx dir (a # as) rn first_err =
     if_done cx (bk_ret (Some ErrCtxDone, rn))
       (bk_then (bk_outside env (CallReadFile (af_local a))) (\<lambda>opened.
          case opened of
            Some e \<Rightarrow> upload_artifacts env cx dir as rn (keep_first first_err e)
          | None \<Rightarrow>
              bk_then (bk_outside env (CallUpload dir (af_object a))) (\<lambda>sent.
                case sent of
                  Some e \<Rightarrow>
                    bk_drop (writef env (''upload failed object='' @ af_object a @ '' err='' @ err_text e))
                      (upload_artifacts env cx dir as rn (keep_first first_err e))
                | None \<Rightarrow>
                    let run1 = rn\<lparr>br_uploaded_size := wrap64 (br_uploaded_size rn + af_size a)\<rparr>
                    in bk_drop (bk_write env cx (update_run (br_id rn) (\<lambda>r. r\<lparr>br_uploaded_size := br_uploaded_size run1\<rparr>)))
                         (bk_drop (writef env (''uploaded object='' @ af_object a @ '' size='' @ itoa (af_size a)))
                            (upload_artifacts env cx dir as run1 first_err)))))"

definition list_objects :: "bk_env \<Rightarrow> string \<Rightarrow> bk \<Rightarrow> object_info list result \<times> bk" where
  "list_objects env pre w =
     (case bk_outside env (CallListObjects pre) w of
        (Some e, w1) \<Rightarrow> (Inl e, w1)
      | (None, w1) \<Rightarrow> (Inr (be_objects env (bk_n w)), w1))"

definition delete_object :: "bk_env \<Rightarrow> string \<Rightarrow> bk \<Rightarrow> goerr option \<times> bk" where
  "delete_object env p = bk_outside env (CallDeleteObject p)"

definition run_retention :: "bk_env \<Rightarrow> bk_job \<Rightarrow> bk \<Rightarrow> goerr option \<times> bk" where
  "run_retention env job w =
     apply_retention (list_objects env) (delete_object env) (log_line env) (be_now env (bk_n w)) (bj_retention_days job)
       (job_prefix (be_uuid_text env) job) w"

section \<open>A run\<close>

definition load_run_context ::
    "bk_env \<Rightarrow> bctx \<Rightarrow> uuid \<Rightarrow> bk \<Rightarrow>
     (bk_run \<times> bk_job \<times> bk_source list \<times> bk_target \<times> storage_config) result \<times> bk" where
  "load_run_context env cx i =
     bk_try (bk_first env cx bk_runs (\<lambda>r. br_id r = i)) (\<lambda>rn.
       bk_try (get_backup_job env cx (br_org_id rn) (br_job_id rn)) (\<lambda>(job, srcs).
         bk_try (get_storage_target env cx (br_org_id rn) (bj_target_id job)) (\<lambda>(target, c).
           bk_ret (Inr (rn, job, srcs, target, c)))))"

definition remote_dir_of :: "bk_env \<Rightarrow> bk_run \<Rightarrow> bk_job \<Rightarrow> string" where
  "remote_dir_of env rn job =
     path_join [''org_'' @ be_uuid_text env (bj_org_id job), ''job_'' @ be_uuid_text env (bj_id job),
                stamp_text (br_started_at rn) @ ''-'' @ take 8 (be_uuid_text env (br_id rn))]"

text \<open>After collection: the manifest with its item.\<close>

definition add_manifest ::
    "bk_env \<Rightarrow> bctx \<Rightarrow> string \<Rightarrow> bk_run \<Rightarrow> artifact list \<Rightarrow> bk \<Rightarrow> (bk_run \<times> artifact list) \<times> bk" where
  "add_manifest env cx workdir rn arts =
     bk_then (write_manifest env arts workdir) (\<lambda>m.
       case m of
         Inl e \<Rightarrow>
           bk_drop (writef env (''checksum manifest failed: '' @ err_text e))
             (bk_ret (rn\<lparr>br_checksum_status := phase_failed\<rparr>, arts))
       | Inr (p, checksum, sz) \<Rightarrow>
           bk_then (bk_new_uuid env) (\<lambda>u. bk_then (bk_clock env) (\<lambda>now.
             let item = \<lparr>bi_id = u, bi_run_id = br_id rn, bi_source_id = None, bi_item_type = ''manifest'',
                         bi_logical_name = ''SHA256SUMS'', bi_output_name = ''SHA256SUMS'', bi_remote_path = None,
                         bi_size = sz, bi_checksum = Some checksum, bi_status = bk_success, bi_started_at = Some now,
                         bi_finished_at = Some now, bi_error = None, bi_extra = ''{'' @ dq @ ''generated'' @ dq @ '':true}''\<rparr>
             in bk_drop (bk_write env cx (put_item item))
                  (bk_ret (rn\<lparr>br_checksum_status := phase_done\<rparr>,
                     arts @ [\<lparr>af_item_id = u, af_type = ''manifest'', af_name = ''SHA256SUMS'', af_local = p,
                              af_object = ''SHA256SUMS'', af_size = sz, af_checksum = checksum\<rparr>])))))"

text \<open>The end: the final state of the run, and what the job remembers of it.\<close>

definition close_run ::
    "bk_env \<Rightarrow> bctx \<Rightarrow> bk_run \<Rightarrow> bk_job \<Rightarrow> artifact list \<Rightarrow> goerr option \<Rightarrow> goerr option \<Rightarrow> goerr option \<Rightarrow>
     bk \<Rightarrow> goerr option \<times> bk" where
  "close_run env cx rn job arts exec_err upload_err cleanup_err w =
     (let final = derive_final_status exec_err upload_err (ctx_done cx w);
          now = be_now env (bk_n w);
          run1 = rn\<lparr>br_status := final, br_finished_at := Some now,
                     br_duration_ms := duration_ms (time_sub now (br_started_at rn)),
                     br_log_excerpt := Some (excerpt w), br_file_count := int (length arts)\<rparr>;
          summary = (if exec_err \<noteq> None \<or> upload_err \<noteq> None
                     then first_non_empty [err_summary exec_err, err_summary upload_err, err_summary cleanup_err,
                            err_summary (if ctx_done cx w then Some ErrCtxDone else None)]
                     else []);
          run2 = (if summary \<noteq> [] then run1\<lparr>br_error_summary := Some summary\<rparr> else run1);
          job1 = (if summary \<noteq> [] then job\<lparr>bj_last_error := Some summary\<rparr> else job);
          job2 = (if final = bk_success then job1\<lparr>bj_last_success_at := Some now, bj_last_error := None\<rparr> else job1);
          job3 = job2\<lparr>bj_last_run_at := Some now, bj_last_status := final, bj_last_size := br_total_size run2\<rparr>
      in bk_drop (bk_write env cx (save_run env run2))
           (bk_drop (bk_write env cx (save_bk_job env job3))
              (bk_drop (writef env (''run finished status='' @ final @ '' files='' @ itoa (br_file_count run2) @ '' size='' @
                   itoa (br_total_size run2) @ '' uploaded='' @ itoa (br_uploaded_size run2)))
                 (bk_ret (first_error [exec_err, upload_err, cleanup_err])))) w)"

text \<open>The adapter is ready: collect, upload, clean up, close.\<close>

definition deliver_run ::
    "bk_svc \<Rightarrow> bk_env \<Rightarrow> bctx \<Rightarrow> string \<Rightarrow> storage_config \<Rightarrow> bk_run \<Rightarrow> bk_job \<Rightarrow> bk_source list \<Rightarrow> bk \<Rightarrow>
     goerr option \<times> bk" where
  "deliver_run svc env cx workdir c rn job srcs =
     bk_then (collect_artifacts svc env cx rn job srcs) (\<lambda>((arts, exec_err), run1).
       if exec_err \<noteq> None \<and> arts = []
       then finish_run_with_error env cx run1 job True ''backup collection failed'' (the exec_err)
       else
         bk_then (add_manifest env cx workdir run1 arts) (\<lambda>(run2, arts2).
           let dir = remote_dir_of env run2 job;
               run3 = run2\<lparr>br_remote_path := Some (join_remote [sc_base_path c, dir])\<rparr>
           in bk_then (upload_artifacts env cx dir arts2 run3 None) (\<lambda>(upload_err, run4).
                bk_then (run_retention env job) (\<lambda>cleanup_err.
                  bk_drop (case cleanup_err of
                             Some e \<Rightarrow> writef env (''retention cleanup failed: '' @ err_text e)
                           | None \<Rightarrow> bk_ret ())
                    (close_run env cx
                       (run4\<lparr>br_cleanup_status := (if cleanup_err = None then phase_done else phase_failed)\<rparr>)
                       job arts2 exec_err upload_err cleanup_err)))))"

definition open_log :: "bk_env \<Rightarrow> string \<Rightarrow> bk \<Rightarrow> goerr option \<times> bk" where
  "open_log env p w =
     (case bk_outside env (CallCreateLog p) w of (e, w1) \<Rightarrow> (e, if e = None then w1\<lparr>bk_log := []\<rparr> else w1))"

definition execute_run :: "bk_svc \<Rightarrow> bk_env \<Rightarrow> uuid \<Rightarrow> bk \<Rightarrow> goerr option \<times> bk" where
  "execute_run svc env i =
     (let cx = RunCtx i
      in bk_then (load_run_context env cx i) (\<lambda>loaded.
           case loaded of
             Inl e \<Rightarrow> bk_ret (Some e)
           | Inr (rn, job, srcs, target, c) \<Rightarrow>
               let workdir = path_join [bsv_data_dir svc, ''backup'', ''runs'', be_uuid_text env (br_id rn)];
                   log_path = path_join [workdir, ''run.log'']
               in bk_then (bk_outside env (CallMkdir workdir)) (\<lambda>made.
                    case made of
                      Some e \<Rightarrow> finish_run_with_error env cx rn job False ''failed to create local workdir'' e
                    | None \<Rightarrow>
                        bk_then (open_log env log_path) (\<lambda>opened.
                          case opened of
                            Some e \<Rightarrow> finish_run_with_error env cx rn job False ''failed to create run logger'' e
                          | None \<Rightarrow>
                              bk_then (bk_clock env) (\<lambda>now.
                                let run1 = rn\<lparr>br_local_workdir := Some workdir, br_log_path := Some log_path,
                                               br_status := bk_running, br_started_at := now\<rparr>
                                in bk_then (bk_write env cx (save_run env run1)) (\<lambda>saved.
                                     case saved of
                                       Some e \<Rightarrow> bk_ret (Some e)
                                     | None \<Rightarrow>
                                         bk_drop (writef env (''run started job='' @ bj_name job @ '' trigger='' @ br_trigger run1))
                                           (case new_uploader c (bt_type target) of
                                              Inl e \<Rightarrow> finish_run_with_error env cx run1 job True
                                                         ''storage adapter initialization failed'' e
                                            | Inr _ \<Rightarrow>
                                                bk_then (bk_outside env CallStorageTest) (\<lambda>tested.
                                                  case tested of
                                                    Some e \<Rightarrow> finish_run_with_error env cx run1 job True ''storage test failed'' e
                                                  | None \<Rightarrow>
                                                      bk_drop (writef env (''storage target ready type='' @ bt_type target @
                                                                           '' name='' @ bt_name target))
                                                        (deliver_run svc env cx workdir c run1 job srcs)))))))))"

text \<open>\<open>runAsync\<close>: the run is in the map while it executes; its context is cancelled at the end in any case.\<close>

definition run_async :: "bk_svc \<Rightarrow> bk_env \<Rightarrow> uuid \<Rightarrow> bk \<Rightarrow> bk" where
  "run_async svc env i w =
     (case execute_run svc env i (w\<lparr>bk_live := i # bk_live w\<rparr>) of
        (_, w1) \<Rightarrow> w1\<lparr>bk_live := filter (\<lambda>k. k \<noteq> i) (bk_live w1), bk_stopped := i # bk_stopped w1\<rparr>)"

section \<open>Testing a storage target\<close>

definition test_storage_target :: "bk_env \<Rightarrow> uuid \<Rightarrow> uuid \<Rightarrow> bk \<Rightarrow> (bk_target \<times> goerr option) result \<times> bk" where
  "test_storage_target env org i =
     bk_try (get_storage_target env Background org i) (\<lambda>(target, c).
       bk_lift (new_uploader c (bt_type target)) (\<lambda>_.
         bk_then (bk_outside env CallStorageTest) (\<lambda>err. bk_then (bk_clock env) (\<lambda>now.
           let row = target\<lparr>bt_last_tested_at := Some now,
                            bt_last_test_status := Some (case err of None \<Rightarrow> bk_success | Some _ \<Rightarrow> bk_failed),
                            bt_last_test_error := (case err of None \<Rightarrow> None | Some e \<Rightarrow> Some (trim_space (err_text e)))\<rparr>
           in bk_check (bk_write env Background (save_target env row)) (bk_ret (Inr (row, err)))))))"

end
