(* ===== verification/Backup_Frames.thy ===== *)
theory Backup_Frames
  imports Backup_Runner
begin

text \<open>
  \<open>internal/services/backup/scheduler.go\<close>: which jobs are due, and one tick of the scheduler; and the backup
  centre as a machine: requests, ticks and whole executions in any order, each with its own environment, so
  with any failures and any interference by the others.
\<close>

definition truncate_minute :: "instant \<Rightarrow> instant" where
  "truncate_minute t = t - t mod minute"

definition job_due_at :: "bk_env \<Rightarrow> bk_job \<Rightarrow> instant \<Rightarrow> bool result" where
  "job_due_at env job now =
     (case bl_cron env (bj_cron job) of
        Inl e \<Rightarrow> Inl (ErrMsg e)
      | Inr sched \<Rightarrow>
          let zone = normalize_timezone env (bj_timezone job);
              last_minute = truncate_minute now;
              previous = last_minute - minute
          in Inr (\<not> last_minute < sched zone previous))"

definition schedule_job :: "bk_env \<Rightarrow> instant \<Rightarrow> bk_job \<Rightarrow> bk \<Rightarrow> unit \<times> bk" where
  "schedule_job env now job =
     (if job_due_at env job now \<noteq> Inr True then bk_ret ()
      else bk_then (is_job_running env (bj_id job)) (\<lambda>busy.
        if busy then bk_ret ()
        else if (case bj_last_run_at job of None \<Rightarrow> False | Some t \<Rightarrow> truncate_minute now \<le> t) then bk_ret ()
        else bk_drop (trigger_run env (bj_org_id job) (bj_id job) trigger_scheduled None) (bk_ret ())))"

primrec schedule_jobs :: "bk_env \<Rightarrow> instant \<Rightarrow> bk_job list \<Rightarrow> bk \<Rightarrow> unit \<times> bk" where
  "schedule_jobs env now [] = bk_ret ()"
| "schedule_jobs env now (j # js) = bk_drop (schedule_job env now j) (schedule_jobs env now js)"

definition list_enabled_jobs :: "bk_env \<Rightarrow> bk \<Rightarrow> bk_job list result \<times> bk" where
  "list_enabled_jobs env = bk_query env Background (\<lambda>v. filter bj_enabled (bk_jobs v))"

definition enqueue_scheduled_runs :: "bk_env \<Rightarrow> bk \<Rightarrow> unit result \<times> bk" where
  "enqueue_scheduled_runs env =
     bk_try (list_enabled_jobs env) (\<lambda>jobs.
       bk_then (bk_clock env) (\<lambda>now. bk_drop (schedule_jobs env now jobs) (bk_ret (Inr ()))))"

section \<open>The machine\<close>

datatype bk_event =
    EvTrigger uuid uuid "uuid option"
  | EvRetry uuid uuid "uuid option"
  | EvCancel uuid uuid
  | EvTick
  | EvExecute uuid
  | EvCreateTarget uuid target_input
  | EvUpdateTarget uuid uuid target_input
  | EvDeleteTarget uuid uuid
  | EvTestTarget uuid uuid
  | EvCreateJob uuid job_input
  | EvUpdateJob uuid uuid job_input
  | EvDeleteJob uuid uuid
  | EvEnableJob uuid uuid bool
  | EvAddSource uuid uuid source_input
  | EvUpdateSource uuid uuid source_input
  | EvDeleteSource uuid uuid
  | EvReorder uuid uuid "uuid list"
  | EvFromTemplate uuid uuid job_input

fun bk_step :: "bk_svc \<Rightarrow> bk_event \<times> bk_env \<Rightarrow> bk \<Rightarrow> bk" where
  "bk_step svc (EvTrigger org job by, env) w = snd (trigger_run env org job trigger_manual by w)"
| "bk_step svc (EvRetry org i by, env) w = snd (retry_run env org i by w)"
| "bk_step svc (EvCancel org i, env) w = snd (cancel_run env org i w)"
| "bk_step svc (EvTick, env) w = snd (enqueue_scheduled_runs env w)"
| "bk_step svc (EvExecute i, env) w = run_async svc env i w"
| "bk_step svc (EvCreateTarget org t, env) w = snd (create_storage_target svc env org t w)"
| "bk_step svc (EvUpdateTarget org i t, env) w = snd (update_storage_target env org i t w)"
| "bk_step svc (EvDeleteTarget org i, env) w = snd (delete_storage_target env org i w)"
| "bk_step svc (EvTestTarget org i, env) w = snd (test_storage_target env org i w)"
| "bk_step svc (EvCreateJob org j, env) w = snd (create_backup_job env org j w)"
| "bk_step svc (EvUpdateJob org i j, env) w = snd (update_backup_job env org i j w)"
| "bk_step svc (EvDeleteJob org i, env) w = snd (delete_backup_job env org i w)"
| "bk_step svc (EvEnableJob org i b, env) w = snd (set_job_enabled env org i b w)"
| "bk_step svc (EvAddSource org j s, env) w = snd (add_source svc env org j s w)"
| "bk_step svc (EvUpdateSource org i s, env) w = snd (update_source svc env org i s w)"
| "bk_step svc (EvDeleteSource org i, env) w = snd (delete_source env org i w)"
| "bk_step svc (EvReorder org j is, env) w = snd (reorder_sources env org j is w)"
| "bk_step svc (EvFromTemplate org t j, env) w = snd (create_job_from_template svc env org t j w)"


text \<open>
  How an invariant of the backup centre is carried through its operations. The locale \<open>bk_invariant\<close> is the
  contract of an invariant: it does not look at the bookkeeping of calls. \<open>sound R m\<close> says that \<open>m\<close> keeps it and
  that its value satisfies \<open>R\<close>, and there is one rule per way of composing operations. An environment is
  \<open>polite\<close> when what the others do keeps the invariant too and revives no cancelled context.
\<close>

named_theorems bk_rules

lemmas bk_seq_defs = bk_ret_def bk_then_def bk_try_def bk_check_def bk_drop_def bk_lift_def if_done_def

definition polite_to :: "(bk \<Rightarrow> bool) \<Rightarrow> bk_env \<Rightarrow> bool" where
  "polite_to I env \<longleftrightarrow>
     (\<forall>n w. I w \<longrightarrow> I (be_other env n w) \<and> set (bk_stopped w) \<subseteq> set (bk_stopped (be_other env n w)))"

text \<open>A calm environment: nothing fails and nobody interferes.\<close>

definition calm :: "bk_env \<Rightarrow> bool" where
  "calm env \<longleftrightarrow> (\<forall>n. be_fail env n = None) \<and> (\<forall>n w. be_other env n w = w)"

locale bk_invariant =
  fixes I :: "bk \<Rightarrow> bool"
  assumes calls: "I (w\<lparr>bk_trace := t, bk_log := l, bk_n := n\<rparr>) = I w"
begin

abbreviation polite :: "bk_env \<Rightarrow> bool" where
  "polite \<equiv> polite_to I"

definition sound :: "('a \<Rightarrow> bool) \<Rightarrow> (bk \<Rightarrow> 'a \<times> bk) \<Rightarrow> bool" where
  "sound R m \<longleftrightarrow> (\<forall>w. I w \<longrightarrow> R (fst (m w)) \<and> I (snd (m w)))"

lemma trace_only: "I (w\<lparr>bk_trace := t\<rparr>) = I w" and log_only: "I (w\<lparr>bk_log := l\<rparr>) = I w"
  using calls [where w = w and t = t and l = "bk_log w" and n = "bk_n w"]
    calls [where w = w and t = "bk_trace w" and l = l and n = "bk_n w"] by simp_all

lemma soundI: "(\<And>w. I w \<Longrightarrow> R (fst (m w)) \<and> I (snd (m w))) \<Longrightarrow> sound R m"
  by (simp add: sound_def)

lemma sound_mono: "sound R m \<Longrightarrow> (\<And>x. R x \<Longrightarrow> S x) \<Longrightarrow> sound S m"
  by (simp add: sound_def)

lemma meet: "polite env \<Longrightarrow> I w \<Longrightarrow> I (bk_meet env w)"
  by (simp add: bk_meet_def polite_to_def calls)

lemma meet_stopped: "polite env \<Longrightarrow> I w \<Longrightarrow> ctx_done cx w \<Longrightarrow> ctx_done cx (bk_meet env w)"
  by (auto simp: bk_meet_def polite_to_def ctx_done_def split: bctx.splits)

lemma sound_ret [bk_rules]: "R x \<Longrightarrow> sound R (bk_ret x)"
  by (simp add: sound_def bk_ret_def)

lemma sound_then: "sound S m \<Longrightarrow> (\<And>x. S x \<Longrightarrow> sound R (k x)) \<Longrightarrow> sound R (bk_then m k)"
  by (auto simp: sound_def bk_then_def split: prod.splits)

lemma sound_drop: "sound S m \<Longrightarrow> sound R k \<Longrightarrow> sound R (bk_drop m k)"
  unfolding bk_drop_def by (rule sound_then)

lemma sound_try:
  "sound S m \<Longrightarrow> (\<And>e. S (Inl e) \<Longrightarrow> R (Inl e)) \<Longrightarrow> (\<And>x. S (Inr x) \<Longrightarrow> sound R (k x)) \<Longrightarrow> sound R (bk_try m k)"
  unfolding bk_try_def by (rule sound_then, assumption) (auto split: sum.splits intro: sound_ret)

lemma sound_check:
  "sound S m \<Longrightarrow> (\<And>e. S (Some e) \<Longrightarrow> R (Inl e)) \<Longrightarrow> (S None \<Longrightarrow> sound R k) \<Longrightarrow> sound R (bk_check m k)"
  unfolding bk_check_def by (rule sound_then, assumption) (auto split: option.splits intro: sound_ret)

lemma sound_lift [bk_rules]:
  "(\<And>e. r = Inl e \<Longrightarrow> R (Inl e)) \<Longrightarrow> (\<And>x. r = Inr x \<Longrightarrow> sound R (k x)) \<Longrightarrow> sound R (bk_lift r k)"
  by (auto simp: bk_lift_def sound_def bk_ret_def split: sum.splits)

lemma sound_if_done [bk_rules]: "sound R yes \<Longrightarrow> sound R no \<Longrightarrow> sound R (if_done cx yes no)"
  by (simp add: sound_def if_done_def)

lemma sound_clock [bk_rules]: "(\<And>t. R t) \<Longrightarrow> sound R (bk_clock env)"
  by (simp add: sound_def bk_clock_def)

lemma sound_stmt:
  assumes p: "polite env" and e: "\<And>e. R (Inl e)" and f: "\<And>w. I w \<Longrightarrow> R (fst (f w)) \<and> I (snd (f w))"
  shows "sound R (bk_stmt env cx f)"
proof (rule soundI)
  fix w assume "I w"
  with p have "I (bk_meet env w)" by (rule meet)
  then show "R (fst (bk_stmt env cx f w)) \<and> I (snd (bk_stmt env cx f w))"
    using e f by (simp add: bk_stmt_def Let_def split: option.splits)
qed

lemma sound_query [bk_rules]:
  "polite env \<Longrightarrow> (\<And>e. R (Inl e)) \<Longrightarrow> (\<And>w. I w \<Longrightarrow> R (Inr (g w))) \<Longrightarrow> sound R (bk_query env cx g)"
  unfolding bk_query_def by (rule sound_stmt) auto

lemma sound_first [bk_rules]:
  "polite env \<Longrightarrow> (\<And>e. R (Inl e)) \<Longrightarrow> (\<And>w r. I w \<Longrightarrow> r \<in> set (tab w) \<Longrightarrow> p r \<Longrightarrow> R (Inr r)) \<Longrightarrow> sound R (bk_first env cx tab p)"
  unfolding bk_first_def by (rule sound_stmt) (auto split: option.splits simp: find_Some_iff)

lemma sound_write [bk_rules]:
  assumes "polite env" "\<And>w w1. I w \<Longrightarrow> f w = Inr w1 \<Longrightarrow> I w1" "\<And>e. R e"
  shows "sound R (bk_write env cx f)"
proof -
  have "sound (\<lambda>_. True) (bk_stmt env cx (\<lambda>v. case f v of Inl e \<Rightarrow> (Inl e, v) | Inr v1 \<Rightarrow> (Inr (), v1)))"
    by (rule sound_stmt) (use assms in \<open>auto split: sum.splits\<close>)
  then show ?thesis
    using assms(3) by (auto simp: sound_def bk_write_def split: prod.splits sum.splits)
qed

lemma sound_outside [bk_rules]: "polite env \<Longrightarrow> (\<And>e. R e) \<Longrightarrow> sound R (bk_outside env c)"
  by (simp add: sound_def bk_outside_def Let_def trace_only meet)

lemma sound_writef [bk_rules]: "R () \<Longrightarrow> sound R (writef env msg)"
  by (simp add: sound_def writef_def log_line_def Let_def log_only)

text \<open>A write that fails once its context is done need not keep the invariant then.\<close>

lemma write_when_live:
  assumes "polite env" "I w" "\<And>v v1. I v \<Longrightarrow> \<not> ctx_done cx w \<Longrightarrow> f v = Inr v1 \<Longrightarrow> I v1"
  shows "I (snd (bk_write env cx f w))"
proof -
  have m: "I (bk_meet env w)" using assms(1,2) by (rule meet)
  show ?thesis
  proof (cases "ctx_done cx (bk_meet env w)")
    case True then show ?thesis using m by (simp add: bk_write_def bk_stmt_def Let_def)
  next
    case False
    then have "\<not> ctx_done cx w" using meet_stopped [OF assms(1,2)] by blast
    then show ?thesis
      using m assms(3) [OF m] False
      by (auto simp: bk_write_def bk_stmt_def Let_def split: option.splits sum.splits)
  qed
qed

lemma write_stopped:
  assumes "polite env" "I w" "\<And>v v1. f v = Inr v1 \<Longrightarrow> bk_stopped v1 = bk_stopped v" "ctx_done cx w"
  shows "ctx_done cx (snd (bk_write env cx f w))"
  using meet_stopped [OF assms(1,2,4)]
  by (simp add: bk_write_def bk_stmt_def Let_def)

text \<open>Branches.\<close>

lemma sound_let: "(\<And>x. x = t \<Longrightarrow> sound R (f x)) \<Longrightarrow> sound R (let x = t in f x)"
  by simp

lemma sound_if: "(b \<Longrightarrow> sound R f) \<Longrightarrow> (\<not> b \<Longrightarrow> sound R g) \<Longrightarrow> sound R (if b then f else g)"
  by simp

lemma sound_case_prod: "(\<And>a b. p = (a, b) \<Longrightarrow> sound R (f a b)) \<Longrightarrow> sound R (case p of (a, b) \<Rightarrow> f a b)"
  by (cases p) simp

lemma sound_case_prod_arg:
  "(\<And>a b. p = (a, b) \<Longrightarrow> sound R (f a b x)) \<Longrightarrow> sound R ((case p of (a, b) \<Rightarrow> f a b) x)"
  by (cases p) simp

lemma sound_case_sum:
  "(\<And>e. r = Inl e \<Longrightarrow> sound R (f e)) \<Longrightarrow> (\<And>x. r = Inr x \<Longrightarrow> sound R (g x)) \<Longrightarrow>
   sound R (case r of Inl e \<Rightarrow> f e | Inr x \<Rightarrow> g x)"
  by (cases r) simp_all

lemma sound_case_option:
  "(r = None \<Longrightarrow> sound R f) \<Longrightarrow> (\<And>x. r = Some x \<Longrightarrow> sound R (g x)) \<Longrightarrow>
   sound R (case r of None \<Rightarrow> f | Some x \<Rightarrow> g x)"
  by (cases r) simp_all

lemmas sound_branch = sound_let sound_if sound_case_prod sound_case_prod_arg sound_case_sum sound_case_option

lemma sound_let_state: "(\<And>x. x \<in> range f \<Longrightarrow> sound R (g x)) \<Longrightarrow> sound R (\<lambda>w. (let x = f w in g x) w)"
  by (simp add: sound_def)

text \<open>The values of outside calls are arbitrary.\<close>

lemma sound_run_remote [bk_rules]: "polite env \<Longrightarrow> (\<And>x. R x) \<Longrightarrow> sound R (run_remote env c)"
  using sound_outside [where R = "\<lambda>_. True", of env "CallRemote (''bash -lc '' @ go_quote c)"]
  by (auto simp: sound_def run_remote_def split: prod.splits)

lemma sound_read_text [bk_rules]: "polite env \<Longrightarrow> (\<And>x. R x) \<Longrightarrow> sound R (read_text env c)"
  using sound_outside [where R = "\<lambda>_. True", of env c]
  by (auto simp: sound_def read_text_def split: prod.splits option.splits)

lemma sound_read_int [bk_rules]: "polite env \<Longrightarrow> (\<And>x. R x) \<Longrightarrow> sound R (read_int env c)"
  using sound_outside [where R = "\<lambda>_. True", of env c]
  by (auto simp: sound_def read_int_def split: prod.splits option.splits)

lemma sound_as_result [bk_rules]: "sound (\<lambda>_. True) m \<Longrightarrow> (\<And>x. R x) \<Longrightarrow> sound R (as_result m)"
  unfolding as_result_def by (rule sound_then [where S = "\<lambda>_. True"]) (auto intro: sound_ret split: option.splits)

lemma sound_wrap [bk_rules]: "sound (\<lambda>_. True) m \<Longrightarrow> (\<And>x. R x) \<Longrightarrow> sound R (bk_wrap what m)"
  unfolding bk_wrap_def by (rule sound_then [where S = "\<lambda>_. True"]) (auto intro: sound_ret)

lemma sound_try_passwords: "polite env \<Longrightarrow> sound (\<lambda>_. True) (try_passwords env ps)"
  by (induction ps) (auto intro!: sound_ret sound_then [OF sound_run_remote])

lemma sound_detect_sudo: "polite env \<Longrightarrow> sound (\<lambda>_. True) (detect_sudo env ps)"
  unfolding detect_sudo_def
  by (rule sound_then [OF sound_run_remote [where R = "\<lambda>_. True"]]) (auto intro: sound_ret sound_try_passwords)

lemma sound_open_remote [bk_rules]: "polite env \<Longrightarrow> (\<And>x. R x) \<Longrightarrow> sound R (open_remote_client svc env n)"
  unfolding open_remote_client_def
  by (auto intro!: sound_ret sound_check [OF sound_outside] sound_mono [OF sound_detect_sudo])

lemma outside: "polite env \<Longrightarrow> I w \<Longrightarrow> I (snd (bk_outside env c w))"
  using sound_outside [where R = "\<lambda>_. True"] by (simp add: sound_def)

lemma sound_delete_expired:
  assumes p: "polite env" and "I w"
  shows "I (snd (delete_expired (delete_object env) (log_line env) cutoff obs e w))"
  using assms(2)
proof (induction obs arbitrary: e w)
  case (Cons ob obs)
  have lg: "I (log_line env msg v) = I v" for msg v
    by (simp add: log_line_def Let_def log_only)
  have "I (snd (delete_object env (oi_path ob) w))"
    unfolding delete_object_def using p Cons.prems by (rule outside)
  then show ?case using Cons by (auto simp: lg split: prod.splits)
qed simp

lemma sound_retention:
  assumes "polite env" shows "sound (\<lambda>_. True) (run_retention env job)"
proof (rule soundI)
  fix w assume w: "I w"
  have "I (snd (list_objects env p w))" for p
    using outside [OF assms w] by (simp add: list_objects_def split_beta split: option.splits)
  then show "True \<and> I (snd (run_retention env job w))"
    using sound_delete_expired [OF assms] w
    by (simp add: run_retention_def apply_retention_def split_beta split: sum.splits)
qed

end

text \<open>Most invariants do not look at the identifiers used either.\<close>

locale bk_invariant_ids = bk_invariant I for I +
  assumes ids: "I (w\<lparr>bk_uid := u\<rparr>) = I w"
begin

lemma sound_new_uuid [bk_rules]: "(\<And>u. R u) \<Longrightarrow> sound R (bk_new_uuid env)"
  by (simp add: sound_def bk_new_uuid_def ids)

end

section \<open>The stages of an execution\<close>

text \<open>
  Collecting, the manifest and the uploads hand on the local copy of the run and write it, its sizes and the
  items. The locale \<open>stage_invariant\<close> asks of an invariant that these writes keep it for a copy that is
  \<open>ok\<close>, and shows that the stages keep it and hand on such a copy.
\<close>

locale stage_invariant = bk_invariant_ids I for I +
  fixes cx :: bctx and ok :: "bk_run \<Rightarrow> bool"
  assumes write_run: "polite env \<Longrightarrow> ok r \<Longrightarrow> sound (\<lambda>_. True) (bk_write env cx (save_run env r))"
    and write_total: "polite env \<Longrightarrow> ok r \<Longrightarrow>
      sound (\<lambda>_. True) (bk_write env cx (update_run (br_id r) (\<lambda>r. r\<lparr>br_total_size := n\<rparr>)))"
    and write_uploaded: "polite env \<Longrightarrow> ok r \<Longrightarrow>
      sound (\<lambda>_. True) (bk_write env cx (update_run (br_id r) (\<lambda>r. r\<lparr>br_uploaded_size := n\<rparr>)))"
    and write_items: "polite env \<Longrightarrow> sound (\<lambda>_. True) (bk_write env cx (put_item x))"
      "polite env \<Longrightarrow> sound (\<lambda>_. True) (bk_write env cx (save_item env x))"
    and ok_fields: "ok r \<Longrightarrow> ok (r\<lparr>br_total_size := n\<rparr>)" "ok r \<Longrightarrow> ok (r\<lparr>br_uploaded_size := n\<rparr>)"
      "ok r \<Longrightarrow> ok (r\<lparr>br_remote_workdir := d\<rparr>)" "ok r \<Longrightarrow> ok (r\<lparr>br_remote_path := d\<rparr>)"
      "ok r \<Longrightarrow> ok (r\<lparr>br_checksum_status := c\<rparr>)" "ok r \<Longrightarrow> ok (r\<lparr>br_cleanup_status := c\<rparr>)"
begin

lemmas stage_vcg =
  sound_then sound_drop sound_try sound_check sound_lift sound_if_done sound_branch write_run write_total write_uploaded
  write_items sound_new_uuid [where R = "\<lambda>_. True"] sound_clock [where R = "\<lambda>_. True"]
  sound_query [where R = "\<lambda>_. True"] sound_first [where R = "\<lambda>_. True"] sound_outside [where R = "\<lambda>_. True"]
  sound_writef [where R = "\<lambda>_. True"] sound_run_remote [where R = "\<lambda>_. True"]
  sound_read_text [where R = "\<lambda>_. True"] sound_read_int [where R = "\<lambda>_. True"]
  sound_open_remote [where R = "\<lambda>_. True"] sound_as_result [where R = "\<lambda>_. True"] sound_ret TrueI

lemma sound_fail_item:
  assumes "polite env" shows "sound (\<lambda>_. True) (fail_run_item env cx item e)"
  unfolding fail_run_item_def by (rule stage_vcg assms)+

lemma sound_item_step:
  assumes "polite env" "sound (\<lambda>_. True) m" "\<And>x. sound (\<lambda>_. True) (k x)"
  shows "sound (\<lambda>_. True) (item_step env cx item what m k)"
  unfolding item_step_def by (rule stage_vcg assms sound_fail_item)+

lemma sound_fetch:
  assumes "polite env" shows "sound (\<lambda>_. True) (fetch_result env cx rn s item scr)"
  unfolding fetch_result_def by (rule sound_item_step stage_vcg assms sound_fail_item)+

lemma sound_execute_source:
  assumes "polite env" "ok rn"
  shows "sound (\<lambda>(r, rn1). ok rn1) (execute_source svc env cx rc rn s)"
  unfolding execute_source_def by (rule stage_vcg sound_fetch assms | simp add: assms ok_fields)+

lemma sound_collect_loop:
  assumes "polite env"
  shows "ok rn \<Longrightarrow> sound (\<lambda>(r, rn1). ok rn1) (collect_loop svc env cx rc ss rn arts e)"
proof (induction ss arbitrary: rn arts e)
  case Nil
  then show ?case by (simp add: sound_ret)
next
  case (Cons s ss)
  show ?case
    unfolding collect_loop.simps
    by (rule stage_vcg Cons.IH sound_execute_source assms Cons.prems | simp add: Cons)+
qed

lemma sound_collect:
  assumes "polite env" "ok rn"
  shows "sound (\<lambda>(r, rn1). ok rn1) (collect_artifacts svc env cx rn job srcs)"
  unfolding collect_artifacts_def
  by (rule stage_vcg sound_collect_loop assms | simp add: assms ok_fields)+

lemma sound_write_manifest:
  assumes "polite env" shows "sound (\<lambda>_. True) (write_manifest env arts d)"
  unfolding write_manifest_def by (rule stage_vcg assms)+

lemma sound_add_manifest:
  assumes "polite env" "ok rn"
  shows "sound (\<lambda>(rn1, as). ok rn1) (add_manifest env cx d rn arts)"
  unfolding add_manifest_def by (rule stage_vcg sound_write_manifest assms | simp add: assms ok_fields)+

lemma sound_upload:
  assumes "polite env"
  shows "ok rn \<Longrightarrow> sound (\<lambda>(e, rn1). ok rn1) (upload_artifacts env cx dir arts rn e)"
proof (induction arts arbitrary: rn e)
  case Nil
  then show ?case by (simp add: sound_ret)
next
  case (Cons a as)
  show ?case
    unfolding upload_artifacts.simps by (rule stage_vcg Cons.IH assms | simp add: Cons.prems ok_fields)+
qed

text \<open>All stages up to the last step, given what the last steps do.\<close>

lemma sound_deliver:
  assumes "polite env" "ok rn"
    and fail: "\<And>r e. ok r \<Longrightarrow> sound (\<lambda>_. True) (finish_run_with_error env cx r job True ''backup collection failed'' e)"
    and close: "\<And>r arts ee ue ce. ok r \<Longrightarrow> sound (\<lambda>_. True) (close_run env cx r job arts ee ue ce)"
  shows "sound (\<lambda>_. True) (deliver_run svc env cx d c rn job srcs)"
  unfolding deliver_run_def
  by (rule sound_drop [where S = "\<lambda>_. True"] sound_collect sound_add_manifest sound_upload sound_retention fail close
        stage_vcg assms(1,2) | simp add: ok_fields)+

end

end
