(* ===== verification/Backup_Invariant.thy ===== *)
theory Backup_Invariant
  imports Backup_Frames
begin

text \<open>
  The states that are stored: a run is queued, running, or finished with its time as a success, a failure or a
  partial success; a job remembers no state but these. In particular nothing is ever stored as cancelled.
\<close>

definition run_row_ok :: "bk_run \<Rightarrow> bool" where
  "run_row_ok r \<longleftrightarrow>
     br_status r \<in> {bk_queued, bk_running} \<or>
     br_status r \<in> {bk_success, bk_failed, bk_partial} \<and> br_finished_at r \<noteq> None"

definition job_row_ok :: "bk_job \<Rightarrow> bool" where
  "job_row_ok j \<longleftrightarrow> bj_last_status j \<in> {bk_idle, bk_success, bk_failed, bk_partial}"

definition bk_ok :: "bk \<Rightarrow> bool" where
  "bk_ok w \<longleftrightarrow> (\<forall>r \<in> set (bk_runs w). run_row_ok r) \<and> (\<forall>j \<in> set (bk_jobs w). job_row_ok j)"

interpretation stored: bk_invariant_ids bk_ok
  by unfold_locales (simp_all add: bk_ok_def)

lemma bk_ok_runD: "bk_ok w \<Longrightarrow> r \<in> set (bk_runs w) \<Longrightarrow> run_row_ok r"
  and bk_ok_jobD: "bk_ok w \<Longrightarrow> j \<in> set (bk_jobs w) \<Longrightarrow> job_row_ok j"
  by (simp_all add: bk_ok_def)

lemma set_save_row: "set (save_row env key r rows) \<subseteq> insert r (set rows)"
  by (auto simp: save_row_def set_row_upd)

section \<open>Writes\<close>

lemma save_run_ok: "run_row_ok r \<Longrightarrow> bk_ok v \<Longrightarrow> save_run env r v = Inr v1 \<Longrightarrow> bk_ok v1"
  using set_save_row [of env br_id r "bk_runs v"]
  by (auto simp: save_run_def bk_ok_def split: if_splits)

lemma put_run_ok: "run_row_ok r \<Longrightarrow> bk_ok v \<Longrightarrow> put_run r v = Inr v1 \<Longrightarrow> bk_ok v1"
  by (auto simp: put_run_def bk_ok_def row_put_def split: if_splits)

lemma update_run_ok:
  "(\<And>r. run_row_ok r \<Longrightarrow> run_row_ok (f r)) \<Longrightarrow> bk_ok v \<Longrightarrow> update_run i f v = Inr v1 \<Longrightarrow> bk_ok v1"
  by (auto simp: update_run_def bk_ok_def set_row_upd)

lemma save_job_ok: "job_row_ok r \<Longrightarrow> bk_ok v \<Longrightarrow> save_bk_job env r v = Inr v1 \<Longrightarrow> bk_ok v1"
  using set_save_row [of env bj_id r "bk_jobs v"]
  by (auto simp: save_bk_job_def bk_ok_def split: if_splits)

lemma put_job_ok: "job_row_ok r \<Longrightarrow> bk_ok v \<Longrightarrow> put_job env r v = Inr v1 \<Longrightarrow> bk_ok v1"
  by (auto simp: put_job_def zero_job_defaults_def job_row_ok_def bk_ok_def row_put_def split: if_splits)

lemma delete_job_ok: "bk_ok v \<Longrightarrow> delete_bk_job org i v = Inr v1 \<Longrightarrow> bk_ok v1"
  by (auto simp: delete_bk_job_def bk_ok_def Let_def split: if_splits)

lemma other_tables_ok:
  assumes "bk_ok v"
  shows "put_target env t v = Inr v1 \<Longrightarrow> bk_ok v1" "save_target env t v = Inr v1 \<Longrightarrow> bk_ok v1"
    "delete_target org i v = Inr v1 \<Longrightarrow> bk_ok v1" "put_source env s v = Inr v1 \<Longrightarrow> bk_ok v1"
    "save_source env s v = Inr v1 \<Longrightarrow> bk_ok v1" "put_item x v = Inr v1 \<Longrightarrow> bk_ok v1" "save_item env x v = Inr v1 \<Longrightarrow> bk_ok v1"
  using assms
  by (auto simp: put_target_def save_target_def delete_target_def put_source_def save_source_def put_item_def
      save_item_def bk_ok_def Let_def split: if_splits option.splits)

lemmas writes_ok = save_run_ok put_run_ok save_job_ok put_job_ok delete_job_ok other_tables_ok

section \<open>The operations of the service\<close>

lemma sound_get_job:
  "polite_to bk_ok env \<Longrightarrow> stored.sound (\<lambda>r. \<forall>j s. r = Inr (j, s) \<longrightarrow> job_row_ok j) (get_backup_job env cx org i)"
  unfolding get_backup_job_def
  by (rule stored.sound_try [OF stored.sound_first [where R = "\<lambda>r. \<forall>j. r = Inr j \<longrightarrow> job_row_ok j"]])
     (auto intro!: stored.sound_try [OF stored.sound_query [where R = "\<lambda>_. True"]] stored.sound_ret dest: bk_ok_jobD)

lemma sound_get_run:
  "polite_to bk_ok env \<Longrightarrow> stored.sound (\<lambda>r. \<forall>j s. r = Inr (j, s) \<longrightarrow> run_row_ok j) (get_run env org i)"
  unfolding get_run_def
  by (rule stored.sound_try [OF stored.sound_first [where R = "\<lambda>r. \<forall>j. r = Inr j \<longrightarrow> run_row_ok j"]])
     (auto intro!: stored.sound_try [OF stored.sound_query [where R = "\<lambda>_. True"]] stored.sound_ret dest: bk_ok_runD)

lemma sound_get_target: "polite_to bk_ok env \<Longrightarrow> stored.sound (\<lambda>_. True) (get_storage_target env cx org i)"
  unfolding get_storage_target_def
  by (rule stored.sound_try [OF stored.sound_first [where R = "\<lambda>_. True"]])
     (auto intro!: stored.sound_ret split: prod.splits option.splits)

lemma sound_is_job_running: "polite_to bk_ok env \<Longrightarrow> stored.sound (\<lambda>_. True) (is_job_running env i)"
  unfolding is_job_running_def
  by (rule stored.sound_then [OF stored.sound_query [where R = "\<lambda>_. True"]]) (auto intro!: stored.sound_ret)

lemma sound_metric: "polite_to bk_ok env \<Longrightarrow> stored.sound (\<lambda>_. True) (refresh_job_enabled_metric env)"
  unfolding refresh_job_enabled_metric_def by (rule stored.sound_query) auto

lemma sound_go_run: "stored.sound (\<lambda>_. True) (go_run i)"
  by (simp add: stored.sound_def go_run_def bk_ok_def)

lemma queued_run_ok: "run_row_ok (queued_run u org job trigger by now)"
  by (simp add: run_row_ok_def queued_run_def)

lemma sound_cancel_context: "stored.sound (\<lambda>_. True) (cancel_context i)"
  by (simp add: stored.sound_def cancel_context_def bk_ok_def)

lemma run_row_ok_cancel: "run_row_ok r \<Longrightarrow> run_row_ok (r\<lparr>br_cancel_requested_at := t\<rparr>)"
  by (simp add: run_row_ok_def)

lemma sound_writes:
  assumes "polite_to bk_ok env"
  shows "run_row_ok r \<Longrightarrow> stored.sound (\<lambda>_. True) (bk_write env cx (save_run env r))"
    "run_row_ok r \<Longrightarrow> stored.sound (\<lambda>_. True) (bk_write env cx (put_run r))"
    "job_row_ok j \<Longrightarrow> stored.sound (\<lambda>_. True) (bk_write env cx (save_bk_job env j))"
    "job_row_ok j \<Longrightarrow> stored.sound (\<lambda>_. True) (bk_write env cx (put_job env j))"
    "stored.sound (\<lambda>_. True) (bk_write env cx (delete_bk_job org i))"
    "stored.sound (\<lambda>_. True) (bk_write env cx (put_target env t))"
    "stored.sound (\<lambda>_. True) (bk_write env cx (save_target env t))"
    "stored.sound (\<lambda>_. True) (bk_write env cx (delete_target org i))"
    "stored.sound (\<lambda>_. True) (bk_write env cx (put_source env s))"
    "stored.sound (\<lambda>_. True) (bk_write env cx (save_source env s))"
    "stored.sound (\<lambda>_. True) (bk_write env cx (put_item x))"
    "stored.sound (\<lambda>_. True) (bk_write env cx (save_item env x))"
    "stored.sound (\<lambda>_. True) (bk_write env cx Inr)"
    "stored.sound (\<lambda>_. True) (bk_write env cx (\<lambda>v. Inr (v\<lparr>bk_sources := h v\<rparr>)))"
  by (rule stored.sound_write [OF assms]; (erule (2) writes_ok | erule (1) writes_ok | force simp: bk_ok_def)?)+

lemma sound_update_run:
  "polite_to bk_ok env \<Longrightarrow> (\<And>r. run_row_ok r \<Longrightarrow> run_row_ok (f r)) \<Longrightarrow>
   stored.sound (\<lambda>_. True) (bk_write env cx (update_run i f))"
  by (rule stored.sound_write) (assumption, blast intro: update_run_ok, simp)

text \<open>The rules, from the outside in; the leaves say nothing about their values.\<close>

lemmas bk_vcg =
  stored.sound_then stored.sound_drop stored.sound_try stored.sound_check stored.sound_lift stored.sound_if_done
  stored.sound_branch
  sound_get_job sound_get_run sound_get_target sound_is_job_running sound_metric sound_go_run
  sound_cancel_context sound_writes sound_update_run
  stored.sound_new_uuid [where R = "\<lambda>_. True"] stored.sound_clock [where R = "\<lambda>_. True"]
  stored.sound_query [where R = "\<lambda>_. True"] stored.sound_outside [where R = "\<lambda>_. True"]
  stored.sound_writef [where R = "\<lambda>_. True"] stored.sound_run_remote [where R = "\<lambda>_. True"]
  stored.sound_read_text [where R = "\<lambda>_. True"] stored.sound_read_int [where R = "\<lambda>_. True"]
  stored.sound_open_remote [where R = "\<lambda>_. True"] stored.sound_as_result [where R = "\<lambda>_. True"]
  stored.sound_wrap [where R = "\<lambda>_. True"]
  stored.sound_ret TrueI

lemma sound_trigger_run:
  assumes "polite_to bk_ok env" shows "stored.sound (\<lambda>_. True) (trigger_run env org job trigger by)"
  unfolding trigger_run_def by (rule bk_vcg assms queued_run_ok | simp add: queued_run_ok)+

lemma sound_retry_run:
  assumes "polite_to bk_ok env" shows "stored.sound (\<lambda>_. True) (retry_run env org i by)"
  unfolding retry_run_def by (rule bk_vcg assms sound_trigger_run)+

lemma sound_cancel_run:
  assumes "polite_to bk_ok env" shows "stored.sound (\<lambda>_. True) (cancel_run env org i)"
  unfolding cancel_run_def by (rule bk_vcg assms run_row_ok_cancel | simp)+

lemma sound_targets:
  assumes "polite_to bk_ok env"
  shows "stored.sound (\<lambda>_. True) (create_storage_target svc env org t)"
    "stored.sound (\<lambda>_. True) (update_storage_target env org i t)"
    "stored.sound (\<lambda>_. True) (delete_storage_target env org i)"
    "stored.sound (\<lambda>_. True) (test_storage_target env org i)"
  unfolding create_storage_target_def update_storage_target_def delete_storage_target_def test_storage_target_def
  by (rule bk_vcg assms)+

lemma job_row_ok_simps [simp]:
  "job_row_ok (j\<lparr>bj_last_error := e\<rparr>) = job_row_ok j" "job_row_ok (j\<lparr>bj_enabled := b\<rparr>) = job_row_ok j"
  by (simp_all add: job_row_ok_def)

lemma sound_create_job:
  assumes "polite_to bk_ok env" shows "stored.sound (\<lambda>_. True) (create_backup_job env org j)"
  unfolding create_backup_job_def by (rule bk_vcg assms | simp add: job_row_ok_def)+

lemma sound_update_job:
  assumes "polite_to bk_ok env" shows "stored.sound (\<lambda>_. True) (update_backup_job env org i j)"
  unfolding update_backup_job_def by (rule bk_vcg assms | simp add: job_row_ok_def)+

lemma sound_delete_job:
  assumes "polite_to bk_ok env" shows "stored.sound (\<lambda>_. True) (delete_backup_job env org i)"
  unfolding delete_backup_job_def by (rule bk_vcg assms)+

lemma sound_set_job_enabled:
  assumes "polite_to bk_ok env" shows "stored.sound (\<lambda>_. True) (set_job_enabled env org i b)"
  unfolding set_job_enabled_def by (rule bk_vcg assms | simp add: job_row_ok_def)+

lemma sound_reorder_stmts:
  assumes "polite_to bk_ok env" shows "stored.sound (\<lambda>_. True) (reorder_stmts env is)"
  by (induction "is") (simp_all, (rule bk_vcg assms | assumption)+)

lemma sound_add_source:
  assumes "polite_to bk_ok env" shows "stored.sound (\<lambda>_. True) (add_source svc env org i s)"
  unfolding add_source_def by (rule bk_vcg assms)+

lemma sound_update_source:
  assumes "polite_to bk_ok env" shows "stored.sound (\<lambda>_. True) (update_source svc env org i s)"
  unfolding update_source_def
  by (rule bk_vcg assms stored.sound_stmt [where R = "\<lambda>_. True"] | simp)+

lemma sound_delete_source:
  assumes "polite_to bk_ok env" shows "stored.sound (\<lambda>_. True) (delete_source env org i)"
  unfolding delete_source_def by (rule bk_vcg assms)+

lemma sound_reorder:
  assumes "polite_to bk_ok env" shows "stored.sound (\<lambda>_. True) (reorder_sources env org i is)"
  unfolding reorder_sources_def by (rule bk_vcg assms sound_reorder_stmts)+

lemma sound_template_sources:
  assumes "polite_to bk_ok env" shows "stored.sound (\<lambda>_. True) (add_template_sources svc env org i ts)"
  by (induction ts) (simp_all, (rule bk_vcg assms sound_add_source | assumption)+)

lemma sound_from_template:
  assumes "polite_to bk_ok env" shows "stored.sound (\<lambda>_. True) (create_job_from_template svc env org t i)"
  unfolding create_job_from_template_def
  by (rule bk_vcg assms stored.sound_first [where R = "\<lambda>_. True"] sound_create_job sound_template_sources)+

lemma sound_schedule_job:
  assumes "polite_to bk_ok env" shows "stored.sound (\<lambda>_. True) (schedule_job env now j)"
  unfolding schedule_job_def by (rule bk_vcg assms sound_trigger_run)+

lemma sound_tick:
  assumes "polite_to bk_ok env" shows "stored.sound (\<lambda>_. True) (enqueue_scheduled_runs env)"
proof -
  have jobs: "stored.sound (\<lambda>_. True) (schedule_jobs env now js)" for now js
    by (induction js) (simp_all, (rule bk_vcg assms sound_schedule_job | assumption)+)
  show ?thesis
    unfolding enqueue_scheduled_runs_def list_enabled_jobs_def by (rule bk_vcg assms jobs)+
qed

section \<open>Executions\<close>

text \<open>The local copy of a run on its way: queued or running.\<close>

definition run_open :: "bk_run \<Rightarrow> bool" where
  "run_open r \<longleftrightarrow> br_status r \<in> {bk_queued, bk_running}"

lemma run_open_ok: "run_open r \<Longrightarrow> run_row_ok r"
  by (simp add: run_open_def run_row_ok_def)

lemma run_failed_ok: "br_status r = bk_failed \<Longrightarrow> br_finished_at r \<noteq> None \<Longrightarrow> run_row_ok r"
  by (simp add: run_row_ok_def)

lemma run_sizes_ok [simp]:
  "run_row_ok (r\<lparr>br_total_size := n\<rparr>) = run_row_ok r" "run_row_ok (r\<lparr>br_uploaded_size := n\<rparr>) = run_row_ok r"
  "run_open (r\<lparr>br_total_size := n\<rparr>) = run_open r" "run_open (r\<lparr>br_uploaded_size := n\<rparr>) = run_open r"
  "run_open (r\<lparr>br_remote_workdir := d\<rparr>) = run_open r" "run_open (r\<lparr>br_remote_path := d\<rparr>) = run_open r"
  "run_open (r\<lparr>br_checksum_status := c\<rparr>) = run_open r" "run_open (r\<lparr>br_cleanup_status := c\<rparr>) = run_open r"
  by (simp_all add: run_row_ok_def run_open_def)

lemma sound_finish_with_error:
  assumes "polite_to bk_ok env"
  shows "stored.sound (\<lambda>_. True) (finish_run_with_error env cx rn job has_log what e)"
  unfolding finish_run_with_error_def
  by (rule stored.sound_let_state bk_vcg assms run_failed_ok | force simp: job_row_ok_def)+

interpretation storing: stage_invariant bk_ok cx run_open for cx
  by unfold_locales (auto intro: sound_writes run_open_ok sound_update_run)

text \<open>
  The last step: the state is cancelled only if the context is done, and then the statements that would store it fail.
\<close>

lemma final_status_live:
  "derive_final_status ee ue False \<in> {bk_success, bk_failed, bk_partial}"
  by (simp add: derive_final_status_def)

lemma sound_close_run:
  assumes p: "polite_to bk_ok env"
  shows "stored.sound (\<lambda>_. True) (close_run env cx rn job arts ee ue ce)"
proof (rule stored.soundI)
  fix w assume w: "bk_ok w"
  let ?f = "derive_final_status ee ue (ctx_done cx w)"
  have two: "bk_ok (snd (bk_write env cx (save_bk_job env j) (snd (bk_write env cx (save_run env r) w))))"
    if r: "br_status r = ?f" "br_finished_at r \<noteq> None" and j: "bj_last_status j = ?f" for r j
  proof -
    have ok: "run_row_ok r" "job_row_ok j" if "\<not> ctx_done cx w"
      using final_status_live [of ee ue] that r j by (auto simp: run_row_ok_def job_row_ok_def)
    let ?w1 = "snd (bk_write env cx (save_run env r) w)"
    have w1: "bk_ok ?w1"
      using ok(1) by (intro stored.write_when_live [OF p w]) (blast intro: save_run_ok)
    have "\<not> ctx_done cx w" if "\<not> ctx_done cx ?w1"
      using stored.write_stopped [OF p w, of "save_run env r" cx] that
      by (force simp: save_run_def split: if_splits)
    then show ?thesis
      using ok(2) by (intro stored.write_when_live [OF p w1]) (blast intro: save_job_ok)
  qed
  show "True \<and> bk_ok (snd (close_run env cx rn job arts ee ue ce w))"
    unfolding close_run_def Let_def bk_drop_def bk_then_def bk_ret_def writef_def
    by (simp add: log_line_def Let_def stored.log_only split_beta two)
qed

lemma sound_open_log:
  assumes "polite_to bk_ok env" shows "stored.sound (\<lambda>_. True) (open_log env p)"
proof (rule stored.soundI)
  fix w assume "bk_ok w"
  then have "bk_ok (snd (bk_outside env (CallCreateLog p) w))"
    using stored.sound_outside [OF assms, where R = "\<lambda>_. True"] by (simp add: stored.sound_def)
  then show "True \<and> bk_ok (snd (open_log env p w))"
    by (simp add: open_log_def split_beta stored.log_only)
qed

lemma sound_delivery:
  assumes "polite_to bk_ok env" "run_open rn"
  shows "stored.sound (\<lambda>_. True) (deliver_run svc env cx d c rn job srcs)"
  using assms by (intro storing.sound_deliver sound_finish_with_error sound_close_run)

lemma sound_load:
  assumes "polite_to bk_ok env"
  shows "stored.sound (\<lambda>_. True) (load_run_context env cx i)"
  unfolding load_run_context_def
  by (rule bk_vcg assms stored.sound_first [where R = "\<lambda>_. True"])+

lemma sound_execute:
  assumes "polite_to bk_ok env" shows "stored.sound (\<lambda>_. True) (execute_run svc env i)"
  unfolding execute_run_def
  by (rule sound_load sound_open_log sound_finish_with_error sound_delivery bk_vcg assms
      | simp add: run_open_def run_row_ok_def)+

text \<open>Every step of the machine.\<close>

lemma bk_ok_live: "bk_ok (w\<lparr>bk_live := l\<rparr>) = bk_ok w" "bk_ok (w\<lparr>bk_stopped := l\<rparr>) = bk_ok w"
  by (simp_all add: bk_ok_def)

lemma sound_run_async: "polite_to bk_ok env \<Longrightarrow> bk_ok w \<Longrightarrow> bk_ok (run_async svc env i w)"
  using sound_execute [of env svc i]
  by (simp add: run_async_def stored.sound_def split_beta bk_ok_live)

lemmas sound_ops = sound_trigger_run sound_retry_run sound_cancel_run sound_tick sound_targets sound_create_job
  sound_update_job sound_delete_job sound_set_job_enabled sound_add_source sound_update_source sound_delete_source
  sound_reorder sound_from_template

lemma sound_okD: "stored.sound (\<lambda>_. True) m \<Longrightarrow> bk_ok w \<Longrightarrow> bk_ok (snd (m w))"
  by (simp add: stored.sound_def)

lemma bk_step_ok:
  assumes "polite_to bk_ok (snd e)" "bk_ok w" shows "bk_ok (bk_step svc e w)"
proof -
  obtain ev env where e: "e = (ev, env)" by (cases e)
  have p: "polite_to bk_ok env" using assms(1) e by simp
  show ?thesis
    unfolding e by (cases ev) (simp_all add: sound_run_async p assms(2) sound_okD [OF _ assms(2)] sound_ops)
qed


text \<open>
  What becomes of a run that is cancelled. \<open>open_row i job\<close>: the table has the run \<open>i\<close> of the job as queued or
  running, so the job is busy. \<open>stuck i job\<close>: its context is done besides. Every stage keeps the first while the run
  is not closed, and everything an execution does keeps the second.
\<close>

definition open_row :: "uuid \<Rightarrow> uuid \<Rightarrow> bk \<Rightarrow> bool" where
  "open_row i job w \<longleftrightarrow> (\<exists>r \<in> set (bk_runs w). br_id r = i \<and> br_job_id r = job \<and> run_blocks r)"

definition stuck :: "uuid \<Rightarrow> uuid \<Rightarrow> bk \<Rightarrow> bool" where
  "stuck i job w \<longleftrightarrow> open_row i job w \<and> i \<in> set (bk_stopped w)"

definition is_open :: "uuid \<Rightarrow> uuid \<Rightarrow> bk_run \<Rightarrow> bool" where
  "is_open i job r \<longleftrightarrow> br_id r = i \<and> br_job_id r = job \<and> run_blocks r"

interpretation opened: bk_invariant_ids "open_row i job" for i job
  by unfold_locales (simp_all add: open_row_def)

interpretation stuck: bk_invariant_ids "stuck i job" for i job
  by unfold_locales (simp_all add: stuck_def open_row_def)

text \<open>A write under the context of the run fails, whatever it would do.\<close>

lemma stuck_write:
  assumes "polite_to (stuck i job) env" shows "stuck.sound i job (\<lambda>_. True) (bk_write env (RunCtx i) f)"
proof (rule stuck.soundI)
  fix w assume "stuck i job w"
  then show "True \<and> stuck i job (snd (bk_write env (RunCtx i) f w))"
    using stuck.write_when_live [OF assms, of w "RunCtx i"] by (simp add: stuck_def ctx_done_def)
qed

interpretation stuck_stages: stage_invariant "stuck i job" "RunCtx i" "\<lambda>_. True" for i job
  by unfold_locales (simp_all add: stuck_write)

lemma stuck_finish:
  assumes "polite_to (stuck i job) env"
  shows "stuck.sound i job (\<lambda>_. True) (finish_run_with_error env (RunCtx i) rn j has_log what e)"
  unfolding finish_run_with_error_def
  by (rule stuck.sound_let_state stuck_write stuck_stages.stage_vcg assms)+

lemma stuck_close:
  assumes "polite_to (stuck i job) env"
  shows "stuck.sound i job (\<lambda>_. True) (close_run env (RunCtx i) rn j arts ee ue ce)"
proof (rule stuck.soundI)
  fix w assume w: "stuck i job w"
  have "stuck i job (snd (bk_write env (RunCtx i) g (snd (bk_write env (RunCtx i) f w))))" for f g
    using stuck_write [OF assms] w by (simp add: stuck.sound_def)
  then show "True \<and> stuck i job (snd (close_run env (RunCtx i) rn j arts ee ue ce w))"
    unfolding close_run_def Let_def bk_drop_def bk_then_def bk_ret_def writef_def
    by (simp add: log_line_def Let_def stuck.log_only split_beta)
qed

lemma stuck_deliver:
  assumes "polite_to (stuck i job) env"
  shows "stuck.sound i job (\<lambda>_. True) (deliver_run svc env (RunCtx i) d c rn j srcs)"
  using assms by (intro stuck_stages.sound_deliver stuck_finish stuck_close TrueI)

section \<open>Before the cancellation\<close>

lemma save_open_row: "is_open i job r \<Longrightarrow> open_row i job v \<Longrightarrow> save_run env r v = Inr v1 \<Longrightarrow> open_row i job v1"
  by (force simp: save_run_def open_row_def save_row_def set_row_upd is_open_def split: if_splits)

lemma update_open_row:
  assumes "\<And>r. br_id (f r) = br_id r \<and> br_job_id (f r) = br_job_id r \<and> run_blocks (f r) = run_blocks r"
    and "open_row i job v"
  shows "open_row i job (v\<lparr>bk_runs := row_upd br_id k f (bk_runs v)\<rparr>)"
proof -
  obtain r where r: "r \<in> set (bk_runs v)" "br_id r = i" "br_job_id r = job" "run_blocks r"
    using assms(2) by (auto simp: open_row_def)
  then have "(if br_id r = k then f r else r) \<in> set (row_upd br_id k f (bk_runs v))"
    by (simp add: row_upd_def)
  then show ?thesis
    using r assms(1) [of r] by (auto simp: open_row_def split: if_splits)
qed

lemma opened_writes:
  assumes "polite_to (open_row i job) env"
  shows "is_open i job r \<Longrightarrow> opened.sound i job (\<lambda>_. True) (bk_write env cx (save_run env r))"
    "opened.sound i job (\<lambda>_. True) (bk_write env cx (put_item x))"
    "opened.sound i job (\<lambda>_. True) (bk_write env cx (save_item env x))"
    "opened.sound i job (\<lambda>_. True) (bk_write env cx (update_run k (\<lambda>r. r\<lparr>br_total_size := n\<rparr>)))"
    "opened.sound i job (\<lambda>_. True) (bk_write env cx (update_run k (\<lambda>r. r\<lparr>br_uploaded_size := n\<rparr>)))"
proof -
  show "is_open i job r \<Longrightarrow> opened.sound i job (\<lambda>_. True) (bk_write env cx (save_run env r))"
    by (rule opened.sound_write [OF assms]) (auto intro: save_open_row)
  show "opened.sound i job (\<lambda>_. True) (bk_write env cx (put_item x))"
    by (rule opened.sound_write [OF assms]) (auto simp: put_item_def open_row_def split: if_splits option.splits)
  show "opened.sound i job (\<lambda>_. True) (bk_write env cx (save_item env x))"
    by (rule opened.sound_write [OF assms]) (auto simp: save_item_def open_row_def split: if_splits)
  show "opened.sound i job (\<lambda>_. True) (bk_write env cx (update_run k (\<lambda>r. r\<lparr>br_total_size := n\<rparr>)))"
    by (rule opened.sound_write [OF assms]) (auto simp: update_run_def run_blocks_def intro!: update_open_row)
  show "opened.sound i job (\<lambda>_. True) (bk_write env cx (update_run k (\<lambda>r. r\<lparr>br_uploaded_size := n\<rparr>)))"
    by (rule opened.sound_write [OF assms]) (auto simp: update_run_def run_blocks_def intro!: update_open_row)
qed

interpretation opened_stages: stage_invariant "open_row i job" cx "is_open i job" for i job cx
  by unfold_locales (auto simp: opened_writes is_open_def run_blocks_def)

section \<open>Afterwards\<close>

lemma calm_meet: "calm env \<Longrightarrow> bk_meet env w = w\<lparr>bk_n := Suc (bk_n w)\<rparr>"
  by (simp add: bk_meet_def calm_def)

lemma calm_stmt: "calm env \<Longrightarrow> bk_stmt env Background f w = f (w\<lparr>bk_n := Suc (bk_n w)\<rparr>)"
  by (simp add: bk_stmt_def calm_meet ctx_done_def) (simp add: calm_def)

lemma busy_job_refuses:
  assumes "calm env" "open_row i job w" "\<exists>j \<in> set (bk_jobs w). bj_org_id j = org \<and> bj_id j = job"
  shows "fst (trigger_run env org job trigger by w) = Inl (ErrMsg ''job already has a queued or running backup'')"
proof -
  obtain j where "find (\<lambda>j. bj_org_id j = org \<and> bj_id j = job) (bk_jobs w) = Some j"
    using assms(3) by (metis (mono_tags, lifting) find_None_iff not_None_eq)
  moreover have "filter (\<lambda>r. br_job_id r = job \<and> run_blocks r) (bk_runs w) \<noteq> []"
    using assms(2) by (auto simp: open_row_def filter_empty_conv)
  ultimately show ?thesis
    using assms(1)
    by (simp add: trigger_run_def get_backup_job_def is_job_running_def bk_first_def bk_query_def calm_stmt bk_seq_defs)
qed

end
