(* ===== verification/Backup_Delivery.thy ===== *)
theory Backup_Delivery
  imports Backup_Frames
begin

text \<open>
  What an execution has done when it reports no error. \<open>gives Q m\<close>: whatever others do, \<open>m\<close> adds calls to the
  trace, and \<open>Q\<close> holds of its value and the set of calls it added. One rule per way of composing operations.
\<close>

type_synonym calls = "(bk_call \<times> goerr option) set"

definition gives :: "('a \<Rightarrow> calls \<Rightarrow> bool) \<Rightarrow> (bk \<Rightarrow> 'a \<times> bk) \<Rightarrow> bool" where
  "gives Q m \<longleftrightarrow> (\<forall>w. \<exists>cs. bk_trace (snd (m w)) = bk_trace w @ cs \<and> Q (fst (m w)) (set cs))"

lemma gives_mono: "gives P m \<Longrightarrow> (\<And>x N. P x N \<Longrightarrow> Q x N) \<Longrightarrow> gives Q m"
  unfolding gives_def by blast

lemma gives_ret: "Q x {} \<Longrightarrow> gives Q (bk_ret x)"
  by (simp add: gives_def bk_ret_def)

lemma gives_then:
  assumes "gives P m" "\<And>x N. P x N \<Longrightarrow> gives (\<lambda>y M. Q y (N \<union> M)) (k x)"
  shows "gives Q (bk_then m k)"
  unfolding gives_def
proof
  fix w
  obtain x w1 where m: "m w = (x, w1)" by (cases "m w")
  obtain cs where cs: "bk_trace w1 = bk_trace w @ cs" "P x (set cs)"
    using assms(1) m by (auto simp: gives_def) (metis fst_conv snd_conv)
  obtain ds where ds: "bk_trace (snd (k x w1)) = bk_trace w1 @ ds" "Q (fst (k x w1)) (set cs \<union> set ds)"
    using assms(2) [OF cs(2)] by (auto simp: gives_def)
  then show "\<exists>cs. bk_trace (snd (bk_then m k w)) = bk_trace w @ cs \<and> Q (fst (bk_then m k w)) (set cs)"
    using m cs by (intro exI [of _ "cs @ ds"]) (simp add: bk_then_def)
qed

lemma gives_drop:
  "gives P m \<Longrightarrow> (\<And>x N. P x N \<Longrightarrow> gives (\<lambda>y M. Q y (N \<union> M)) k) \<Longrightarrow> gives Q (bk_drop m k)"
  unfolding bk_drop_def by (rule gives_then)

lemma gives_try:
  assumes "gives P m" "\<And>e N. P (Inl e) N \<Longrightarrow> Q (Inl e) N"
    and "\<And>x N. P (Inr x) N \<Longrightarrow> gives (\<lambda>y M. Q y (N \<union> M)) (k x)"
  shows "gives Q (bk_try m k)"
  unfolding bk_try_def
  by (rule gives_then [OF assms(1)]) (use assms(2,3) in \<open>auto split: sum.splits intro: gives_ret\<close>)

lemma gives_check:
  assumes "gives P m" "\<And>e N. P (Some e) N \<Longrightarrow> Q (Inl e) N"
    and "\<And>N. P None N \<Longrightarrow> gives (\<lambda>y M. Q y (N \<union> M)) k"
  shows "gives Q (bk_check m k)"
  unfolding bk_check_def
  by (rule gives_then [OF assms(1)]) (use assms(2,3) in \<open>auto split: option.splits intro: gives_ret\<close>)

lemma gives_if_done: "gives Q yes \<Longrightarrow> gives Q no \<Longrightarrow> gives Q (if_done cx yes no)"
  by (simp add: gives_def if_done_def)

lemma gives_clock: "gives (\<lambda>_ N. N = {}) (bk_clock env)"
  by (simp add: gives_def bk_clock_def)

lemma gives_uuid: "gives (\<lambda>_ N. N = {}) (bk_new_uuid env)"
  by (simp add: gives_def bk_new_uuid_def)

lemma meet_trace [simp]: "bk_trace (bk_meet env w) = bk_trace w"
  by (simp add: bk_meet_def)

lemma gives_stmt:
  assumes "\<And>w. bk_trace (snd (f w)) = bk_trace w" shows "gives (\<lambda>_ N. N = {}) (bk_stmt env cx f)"
  using assms by (simp add: gives_def bk_stmt_def Let_def split: option.splits)

lemma gives_query: "gives (\<lambda>_ N. N = {}) (bk_query env cx g)"
  unfolding bk_query_def by (rule gives_stmt) simp

lemma gives_first: "gives (\<lambda>_ N. N = {}) (bk_first env cx tab p)"
  unfolding bk_first_def by (rule gives_stmt) simp

text \<open>A write that leaves the trace alone.\<close>

definition keeps_trace :: "(bk \<Rightarrow> goerr + bk) \<Rightarrow> bool" where
  "keeps_trace f \<longleftrightarrow> (\<forall>v v1. f v = Inr v1 \<longrightarrow> bk_trace v1 = bk_trace v)"

lemma gives_write:
  assumes "keeps_trace f" shows "gives (\<lambda>_ N. N = {}) (bk_write env cx f)"
proof -
  have "gives (\<lambda>_ N. N = {}) (bk_stmt env cx (\<lambda>v. case f v of Inl e \<Rightarrow> (Inl e, v) | Inr v1 \<Rightarrow> (Inr (), v1)))"
    by (rule gives_stmt) (use assms in \<open>auto simp: keeps_trace_def split: sum.splits\<close>)
  then show ?thesis by (auto simp: gives_def bk_write_def split_beta split: sum.splits)
qed

lemma keeps_trace_writes:
  "keeps_trace (save_run env r)" "keeps_trace (save_bk_job env j)" "keeps_trace (put_item x)" "keeps_trace (save_item env x)"
  "keeps_trace (update_run i g)"
  by (auto simp: keeps_trace_def save_run_def save_bk_job_def put_item_def save_item_def update_run_def
      split: if_splits option.splits)

lemma gives_writef: "gives (\<lambda>_ N. N = {}) (writef env msg)"
  by (simp add: gives_def writef_def log_line_def Let_def)

lemma gives_outside: "gives (\<lambda>e N. N = {(c, e)}) (bk_outside env c)"
  by (simp add: gives_def bk_outside_def Let_def)

lemma gives_run_remote:
  "gives (\<lambda>r N. N = {(CallRemote (''bash -lc '' @ go_quote cmd), snd (snd r))}) (run_remote env cmd)"
  using gives_outside [of "CallRemote (''bash -lc '' @ go_quote cmd)" env]
  by (auto simp: gives_def run_remote_def split_beta)

lemma gives_read_text: "gives (\<lambda>r N. N = {(c, case r of Inl e \<Rightarrow> Some e | Inr _ \<Rightarrow> None)}) (read_text env c)"
  by (simp add: gives_def read_text_def bk_outside_def Let_def split: option.splits)

lemma gives_read_int: "gives (\<lambda>r N. N = {(c, case r of Inl e \<Rightarrow> Some e | Inr _ \<Rightarrow> None)}) (read_int env c)"
  by (simp add: gives_def read_int_def bk_outside_def Let_def split: option.splits)

lemma gives_as_result:
  "gives P m \<Longrightarrow> gives (\<lambda>r N. P (case r of Inl e \<Rightarrow> Some e | Inr _ \<Rightarrow> None) N) (as_result m)"
  unfolding as_result_def by (rule gives_then, assumption) (auto intro: gives_ret split: option.splits)

text \<open>Branches.\<close>

lemma gives_let: "(\<And>x. x = t \<Longrightarrow> gives Q (f x)) \<Longrightarrow> gives Q (let x = t in f x)"
  by simp

lemma gives_if: "(b \<Longrightarrow> gives Q f) \<Longrightarrow> (\<not> b \<Longrightarrow> gives Q g) \<Longrightarrow> gives Q (if b then f else g)"
  by simp

lemma gives_case_prod: "(\<And>a b. p = (a, b) \<Longrightarrow> gives Q (f a b)) \<Longrightarrow> gives Q (case p of (a, b) \<Rightarrow> f a b)"
  by (cases p) simp

lemma gives_case_prod_arg: "(\<And>a b. p = (a, b) \<Longrightarrow> gives Q (f a b x)) \<Longrightarrow> gives Q ((case p of (a, b) \<Rightarrow> f a b) x)"
  by (cases p) simp

lemma gives_case_sum:
  "(\<And>e. r = Inl e \<Longrightarrow> gives Q (f e)) \<Longrightarrow> (\<And>x. r = Inr x \<Longrightarrow> gives Q (g x)) \<Longrightarrow>
   gives Q (case r of Inl e \<Rightarrow> f e | Inr x \<Rightarrow> g x)"
  by (cases r) simp_all

lemma gives_case_option:
  "(r = None \<Longrightarrow> gives Q f) \<Longrightarrow> (\<And>x. r = Some x \<Longrightarrow> gives Q (g x)) \<Longrightarrow> gives Q (case r of None \<Rightarrow> f | Some x \<Rightarrow> g x)"
  by (cases r) simp_all

lemma gives_let_state: "(\<And>x. x \<in> range f \<Longrightarrow> gives Q (g x)) \<Longrightarrow> gives Q (\<lambda>w. (let x = f w in g x) w)"
  by (simp add: gives_def)

lemmas gives_vcg =
  gives_then gives_drop gives_try gives_check gives_if_done gives_let gives_if gives_case_prod gives_case_prod_arg
  gives_case_sum gives_case_option gives_clock gives_uuid gives_query gives_first gives_write keeps_trace_writes
  gives_writef gives_outside gives_run_remote gives_read_text gives_read_int gives_as_result gives_ret

section \<open>One source\<close>

text \<open>The source was sent as a script, run, and its result fetched.\<close>

definition fetched :: "string \<times> string \<times> string \<Rightarrow> artifact \<Rightarrow> calls \<Rightarrow> bool" where
  "fetched scr a N \<longleftrightarrow>
     af_object a = snd (snd scr) \<and>
     (\<exists>p. (CallPut p (fst (snd scr)), None) \<in> N \<and>
          (CallRemote (''bash -lc '' @ go_quote (''bash '' @ shell_escape p)), None) \<in> N) \<and>
     (CallFetch (fst scr) (af_local a), None) \<in> N"

lemma gives_fail_item: "gives (\<lambda>r N. \<exists>e. r = Inl e) (fail_run_item env cx item e)"
  unfolding fail_run_item_def by (rule gives_vcg | simp)+

lemma gives_item_step:
  assumes "gives P m" "\<And>x N. P (Inr x) N \<Longrightarrow> gives (\<lambda>r M. \<forall>a. r = Inr a \<longrightarrow> Q a (N \<union> M)) (k x)"
  shows "gives (\<lambda>r N. \<forall>a. r = Inr a \<longrightarrow> Q a N) (item_step env cx item what m k)"
  unfolding item_step_def
  by (rule gives_then [OF assms(1)])
     (use assms(2) in \<open>auto split: sum.splits intro: gives_mono [OF gives_fail_item]\<close>)

lemma gives_fetch:
  "gives (\<lambda>r N. \<forall>a. r = Inr a \<longrightarrow> fetched scr a N) (fetch_result env cx rn s item scr)"
  unfolding fetch_result_def
  by (rule gives_item_step gives_mono [OF gives_fail_item] gives_vcg | simp add: fetched_def | force)+

text \<open>What a copy of the run keeps while it is handed on.\<close>

definition same_run :: "bk_run \<Rightarrow> bk_run \<Rightarrow> bool" where
  "same_run r s \<longleftrightarrow> br_id r = br_id s \<and> br_started_at r = br_started_at s \<and> br_remote_workdir r = br_remote_workdir s"

definition workdir_of :: "bk_run \<Rightarrow> string" where
  "workdir_of rn = (case br_remote_workdir rn of None \<Rightarrow> [] | Some d \<Rightarrow> d)"

text \<open>The artifact \<open>a\<close> is that of the source \<open>s\<close>.\<close>

definition made_from :: "bk_svc \<Rightarrow> bk_env \<Rightarrow> bk_run \<Rightarrow> remote \<Rightarrow> bk_source \<Rightarrow> artifact \<Rightarrow> calls \<Rightarrow> bool" where
  "made_from svc env rn rc s a N \<longleftrightarrow>
     (\<exists>scr. render_source_script svc env (br_started_at rn) (workdir_of rn) s rc = Inr scr \<and> fetched scr a N)"

lemma fetched_mono: "fetched scr a N \<Longrightarrow> N \<subseteq> M \<Longrightarrow> fetched scr a M"
  by (auto simp: fetched_def)

lemma made_from_mono: "made_from svc env rn rc s a N \<Longrightarrow> N \<subseteq> M \<Longrightarrow> made_from svc env rn rc s a M"
  by (auto simp: made_from_def intro: fetched_mono)

lemma made_from_same: "same_run rn r1 \<Longrightarrow> made_from svc env r1 rc s a N = made_from svc env rn rc s a N"
  by (simp add: made_from_def same_run_def workdir_of_def)

lemma gives_execute_source:
  "gives (\<lambda>(r, rn1) N. same_run rn rn1 \<and> (\<forall>a. r = Inr a \<longrightarrow> made_from svc env rn rc s a N))
     (execute_source svc env cx rc rn s)"
  unfolding execute_source_def
  by (rule gives_fetch gives_vcg | simp add: same_run_def made_from_def workdir_of_def | blast)+

lemma same_run_trans: "same_run r s \<Longrightarrow> same_run s t \<Longrightarrow> same_run r t"
  by (simp add: same_run_def)

definition collected :: "bk_svc \<Rightarrow> bk_env \<Rightarrow> remote \<Rightarrow> bk_source list \<Rightarrow> bk_run \<Rightarrow> artifact list \<Rightarrow> calls \<Rightarrow> bool" where
  "collected svc env rc ss rn as N \<longleftrightarrow> (\<forall>s \<in> set ss. bs_enabled s \<longrightarrow> (\<exists>a \<in> set as. made_from svc env rn rc s a N))"

lemma collected_mono: "collected svc env rc ss rn as N \<Longrightarrow> set as \<subseteq> set bs \<Longrightarrow> N \<subseteq> M \<Longrightarrow> collected svc env rc ss rn bs M"
  unfolding collected_def by (meson made_from_mono subsetD)

lemma collected_same: "same_run rn r1 \<Longrightarrow> collected svc env rc ss r1 as N = collected svc env rc ss rn as N"
  by (simp add: collected_def made_from_same)

lemma collected_Cons:
  "collected svc env rc (s # ss) rn as N \<longleftrightarrow>
     (bs_enabled s \<longrightarrow> (\<exists>a \<in> set as. made_from svc env rn rc s a N)) \<and> collected svc env rc ss rn as N"
  by (simp add: collected_def)

lemma gives_collect_loop:
  "gives (\<lambda>((as, e), rn1) N. same_run rn rn1 \<and> set arts \<subseteq> set as \<and>
       (e = None \<longrightarrow> e0 = None \<and> collected svc env rc ss rn as N))
     (collect_loop svc env cx rc ss rn arts e0)"
proof (induction ss arbitrary: rn arts e0)
  case Nil
  show ?case by (simp add: gives_ret same_run_def collected_def)
next
  case (Cons s ss)
  let ?Q = "\<lambda>((as, e), rn1) N. same_run rn rn1 \<and> set arts \<subseteq> set as \<and>
       (e = None \<longrightarrow> e0 = None \<and> collected svc env rc (s # ss) rn as N)"
  have step: "gives (\<lambda>y M. ?Q y (N \<union> M))
      (case x of (r, run1) \<Rightarrow>
         (case r of
            Inl e \<Rightarrow> collect_loop svc env cx rc ss run1 arts (if e0 = None then Some e else e0)
          | Inr a \<Rightarrow> collect_loop svc env cx rc ss run1 (arts @ [a]) e0))"
    if x: "case x of (r, rn1) \<Rightarrow> same_run rn rn1 \<and> (\<forall>a. r = Inr a \<longrightarrow> made_from svc env rn rc s a N)" for x N
  proof (cases x)
    case (Pair r r1)
    show ?thesis
    proof (cases r)
      case (Inl e)
      then show ?thesis
        using x Pair Cons.IH [of r1 arts "if e0 = None then Some e else e0"]
        by (auto elim!: gives_mono intro: same_run_trans split: if_splits)
    next
      case (Inr a)
      have "made_from svc env rn rc s a (N \<union> M)" for M
        using x Pair Inr by (auto intro: made_from_mono)
      then show ?thesis
        using x Pair Inr Cons.IH [of r1 "arts @ [a]" e0]
        by (auto elim!: gives_mono intro: same_run_trans collected_mono simp: collected_Cons collected_same)
    qed
  qed
  show ?case
  proof (cases "bs_enabled s")
    case False
    then show ?thesis using Cons.IH [of rn arts e0] by (simp add: collected_Cons)
  next
    case True
    have "gives ?Q (bk_ret ((arts, Some ErrCtxDone), rn))"
      by (simp add: gives_ret same_run_def)
    then show ?thesis
      using True by (simp, intro gives_if_done gives_then [OF gives_execute_source] step) (auto split: prod.splits)
  qed
qed

lemma gives_try_passwords: "gives (\<lambda>_ _. True) (try_passwords env ps)"
  by (induction ps) (auto intro!: gives_ret gives_then [OF gives_run_remote])

lemma gives_open_remote: "gives (\<lambda>_ _. True) (open_remote_client svc env n)"
  unfolding open_remote_client_def detect_sudo_def by (rule gives_try_passwords gives_vcg | simp)+

lemma gives_collect:
  "gives (\<lambda>((as, e), rn1) N. br_id rn1 = br_id rn \<and> br_started_at rn1 = br_started_at rn \<and>
       (e = None \<longrightarrow> workdir_of rn1 = remote_workdir_of env rn \<and> (\<exists>rc. collected svc env rc srcs rn1 as N)))
     (collect_artifacts svc env cx rn job srcs)"
proof -
  let ?r = "rn\<lparr>br_remote_workdir := Some (remote_workdir_of env rn)\<rparr>"
  have loop: "gives (\<lambda>((as, e), rn1) N. br_id rn1 = br_id rn \<and> br_started_at rn1 = br_started_at rn \<and>
       (e = None \<longrightarrow> workdir_of rn1 = remote_workdir_of env rn \<and> collected svc env rc srcs rn1 as N))
     (collect_loop svc env cx rc srcs ?r [] None)" for rc
  proof (rule gives_mono [OF gives_collect_loop], clarsimp)
    fix as e rn1 N
    assume r: "same_run ?r rn1" and c: "e = None \<longrightarrow> collected svc env rc srcs ?r as N"
    have wd: "br_remote_workdir rn1 = Some (remote_workdir_of env rn)"
      using r by (simp add: same_run_def)
    show "br_id rn1 = br_id rn \<and> br_started_at rn1 = br_started_at rn \<and>
        (e = None \<longrightarrow> workdir_of rn1 = remote_workdir_of env rn \<and> collected svc env rc srcs rn1 as N)"
      using collected_same [OF r, of svc env rc srcs as N] c r by (simp add: same_run_def workdir_of_def wd)
  qed
  show ?thesis
    unfolding collect_artifacts_def Let_def
    by (rule gives_open_remote loop gives_vcg | simp | fastforce intro: collected_mono)+
qed

section \<open>Manifest, uploads and the end\<close>

text \<open>The manifest of the artifacts was written and is among those to upload, or one of its three calls failed.\<close>

definition manifest_calls :: "string \<Rightarrow> artifact list \<Rightarrow> bk_call set" where
  "manifest_calls p as = {CallWriteFile p (manifest_text as), CallReadFile p, CallStatFile p}"

definition manifest_done :: "string \<Rightarrow> artifact list \<Rightarrow> artifact list \<Rightarrow> calls \<Rightarrow> bool" where
  "manifest_done p as bs N \<longleftrightarrow>
     (CallWriteFile p (manifest_text as), None) \<in> N \<and> (\<exists>a \<in> set bs. af_object a = ''SHA256SUMS'' \<and> af_local a = p) \<or>
     (\<exists>c \<in> manifest_calls p as. \<exists>e. (c, Some e) \<in> N)"

lemma gives_write_manifest:
  "gives (\<lambda>r N. case r of
        Inl e \<Rightarrow> \<exists>c \<in> manifest_calls (path_join [d, ''SHA256SUMS'']) as. \<exists>e. (c, Some e) \<in> N
      | Inr (p, _) \<Rightarrow> p = path_join [d, ''SHA256SUMS''] \<and> (CallWriteFile p (manifest_text as), None) \<in> N)
     (write_manifest env as d)"
  unfolding write_manifest_def manifest_calls_def by (rule gives_vcg | simp)+

lemma gives_add_manifest:
  "gives (\<lambda>(rn1, bs) N. same_run rn rn1 \<and> set as \<subseteq> set bs \<and> manifest_done (path_join [d, ''SHA256SUMS'']) as bs N)
     (add_manifest env cx d rn as)"
  unfolding add_manifest_def
  by (rule gives_write_manifest gives_vcg | simp add: same_run_def manifest_done_def | blast)+

lemma gives_upload:
  "gives (\<lambda>(e, rn1) N. e = None \<longrightarrow> e0 = None \<and> (\<forall>a \<in> set as. (CallUpload dir (af_object a), None) \<in> N))
     (upload_artifacts env cx dir as rn e0)"
proof (induction "as" arbitrary: rn e0)
  case Nil
  show ?case by (simp add: gives_ret)
next
  case (Cons a as)
  show ?case
    unfolding upload_artifacts.simps keep_first_def
    by (rule gives_mono [OF Cons.IH] gives_vcg | force split: if_splits)+
qed

lemma delete_expired_prefix:
  assumes "\<And>p w. prefix (f w) (f (snd (del p w)))" "\<And>m w. f (wr m w) = f w"
  shows "prefix (f s) (f (snd (delete_expired del wr cutoff obs e s)))"
proof (induction obs arbitrary: e s)
  case (Cons ob obs)
  have "prefix (f s) (f (wr m (snd (del (oi_path ob) s))))" for m
    by (simp add: assms)
  then have "prefix (f s) (f (snd (delete_expired del wr cutoff obs x (wr m (snd (del (oi_path ob) s))))))" for x m
    using Cons.IH prefix_order.trans by blast
  then show ?case using Cons.IH [of s e] by (simp only: delete_expired.simps Let_def split_beta split: if_split) blast
qed simp

lemma gives_retention: "gives (\<lambda>_ _. True) (run_retention env job)"
proof -
  have ext: "prefix (bk_trace w) (bk_trace (snd (delete_expired (delete_object env) (log_line env) cutoff obs e w)))"
    for cutoff obs e w
    by (rule delete_expired_prefix) (simp_all add: delete_object_def bk_outside_def log_line_def Let_def)
  have lst: "prefix (bk_trace w) (bk_trace (snd (list_objects env p w)))" for p w
    by (simp add: list_objects_def bk_outside_def Let_def split: option.splits)
  have "prefix (bk_trace w) (bk_trace (snd (run_retention env job w)))" for w
    using prefix_order.trans [OF lst ext] lst
    by (simp add: run_retention_def apply_retention_def split_beta split: sum.split)
  then show ?thesis by (auto simp: gives_def prefix_def)
qed

lemma gives_finish: "gives (\<lambda>r _. r \<noteq> None) (finish_run_with_error env cx rn j has_log what e)"
  unfolding finish_run_with_error_def
  by (rule gives_let_state gives_vcg | simp)+

lemma gives_close:
  "gives (\<lambda>r _. r = None \<longrightarrow> ee = None \<and> ue = None \<and> ce = None) (close_run env cx rn j as ee ue ce)"
proof -
  have e: "first_error [ee, ue, ce] = None \<Longrightarrow> ee = None \<and> ue = None \<and> ce = None"
    by (cases ee; cases ue; cases ce) simp_all
  have q: "gives (\<lambda>r _. r = None \<longrightarrow> ee = None \<and> ue = None \<and> ce = None)
      (bk_drop (bk_write env cx (save_run env r1)) (bk_drop (bk_write env cx (save_bk_job env j1))
         (bk_drop (writef env t) (bk_ret (first_error [ee, ue, ce])))))" for r1 j1 t
    by (rule gives_vcg | simp | blast dest: e)+
  show ?thesis
    unfolding gives_def
  proof
    fix w
    show "\<exists>cs. bk_trace (snd (close_run env cx rn j as ee ue ce w)) = bk_trace w @ cs \<and>
        (fst (close_run env cx rn j as ee ue ce w) = None \<longrightarrow> ee = None \<and> ue = None \<and> ce = None)"
      unfolding close_run_def Let_def by (rule q [unfolded gives_def, rule_format])
  qed
qed

section \<open>The whole execution\<close>

text \<open>
  Every enabled source was rendered, run and fetched; every artifact, and the manifest unless it could not be
  made, was uploaded to the directory of the run.
\<close>

definition delivered :: "bk_svc \<Rightarrow> bk_env \<Rightarrow> string \<Rightarrow> bk_run \<Rightarrow> bk_job \<Rightarrow> bk_source list \<Rightarrow> calls \<Rightarrow> bool" where
  "delivered svc env d rn job srcs N \<longleftrightarrow>
     (\<exists>rc r1 as bs. br_id r1 = br_id rn \<and> br_started_at r1 = br_started_at rn \<and> workdir_of r1 = remote_workdir_of env rn \<and>
        collected svc env rc srcs r1 as N \<and> set as \<subseteq> set bs \<and> manifest_done (path_join [d, ''SHA256SUMS'']) as bs N \<and>
        (\<forall>a \<in> set bs. (CallUpload (remote_dir_of env rn job) (af_object a), None) \<in> N))"

lemma manifest_done_mono: "manifest_done p as bs N \<Longrightarrow> N \<subseteq> M \<Longrightarrow> manifest_done p as bs M"
  unfolding manifest_done_def by blast

lemma remote_dir_same:
  "br_id r1 = br_id rn \<Longrightarrow> br_started_at r1 = br_started_at rn \<Longrightarrow> remote_dir_of env r1 job = remote_dir_of env rn job"
  by (simp add: remote_dir_of_def)

lemma gives_after_upload:
  "gives (\<lambda>r _. r = None \<longrightarrow> ee = None \<and> ue = None)
     (bk_then (run_retention env job) (\<lambda>ce. bk_drop (case ce of Some e \<Rightarrow> writef env (t e) | None \<Rightarrow> bk_ret ())
        (close_run env cx (f ce) job as ee ue ce)))"
proof (rule gives_then [OF gives_retention])
  fix ce N
  show "gives (\<lambda>y M. y = None \<longrightarrow> ee = None \<and> ue = None)
      (bk_drop (case ce of Some e \<Rightarrow> writef env (t e) | None \<Rightarrow> bk_ret ()) (close_run env cx (f ce) job as ee ue ce))"
    by (rule gives_drop [where P = "\<lambda>_ _. True"])
       (auto split: option.splits intro: gives_ret gives_mono [OF gives_writef] gives_mono [OF gives_close])
qed

lemma gives_deliver:
  "gives (\<lambda>r N. r = None \<longrightarrow> delivered svc env d rn job srcs N) (deliver_run svc env cx d c rn job srcs)"
  unfolding deliver_run_def
proof (rule gives_then [OF gives_collect], simp only: split_paired_all, clarify, rule gives_if)
  fix as e r1 N
  show "gives (\<lambda>y M. y = None \<longrightarrow> delivered svc env d rn job srcs (N \<union> M))
      (finish_run_with_error env cx r1 job True t x)" for t x
    by (rule gives_mono [OF gives_finish]) auto
next
  fix as r1 N and e :: "goerr option"
  assume c: "br_id r1 = br_id rn" "br_started_at r1 = br_started_at rn"
    "e = None \<longrightarrow> workdir_of r1 = remote_workdir_of env rn \<and> (\<exists>rc. collected svc env rc srcs r1 as N)"
  show "gives (\<lambda>y M. y = None \<longrightarrow> delivered svc env d rn job srcs (N \<union> M))
      (bk_then (add_manifest env cx d r1 as) (\<lambda>(run2, arts2).
         let dir = remote_dir_of env run2 job; run3 = run2\<lparr>br_remote_path := Some (join_remote [sc_base_path c, dir])\<rparr>
         in bk_then (upload_artifacts env cx dir arts2 run3 None) (\<lambda>(upload_err, run4).
              bk_then (run_retention env job) (\<lambda>cleanup_err.
                bk_drop (case cleanup_err of None \<Rightarrow> bk_ret () | Some e \<Rightarrow> writef env (''retention cleanup failed: '' @ err_text e))
                  (close_run env cx (run4\<lparr>br_cleanup_status := if cleanup_err = None then phase_done else phase_failed\<rparr>)
                     job arts2 e upload_err cleanup_err)))))"
  proof (rule gives_then [OF gives_add_manifest], simp only: split_paired_all case_prod_conv Let_def, rule gives_then [OF gives_upload],
      simp only: split_paired_all case_prod_conv, rule gives_mono [OF gives_after_upload], rule impI)
    fix r2 bs r3 r and N2 N3 M :: calls and ue :: "goerr option"
    assume m: "same_run r1 r2 \<and> set as \<subseteq> set bs \<and> manifest_done (path_join [d, ''SHA256SUMS'']) as bs N2"
      and u: "ue = None \<longrightarrow> (None :: goerr option) = None \<and>
        (\<forall>a \<in> set bs. (CallUpload (remote_dir_of env r2 job) (af_object a), None) \<in> N3)"
      and fin: "r = None \<longrightarrow> e = None \<and> ue = None" "r = None"
    from fin have ok: "e = None" "ue = None" by auto
    have dir: "remote_dir_of env r2 job = remote_dir_of env rn job"
      using m c(1,2) by (intro remote_dir_same) (simp_all add: same_run_def)
    obtain rc where rc: "collected svc env rc srcs r1 as N" using c(3) ok(1) by blast
    have "collected svc env rc srcs r1 as (N \<union> (N2 \<union> (N3 \<union> M)))" using rc by (rule collected_mono) auto
    moreover have "manifest_done (path_join [d, ''SHA256SUMS'']) as bs (N \<union> (N2 \<union> (N3 \<union> M)))"
      using conjunct2 [OF conjunct2 [OF m]] by (rule manifest_done_mono) auto
    moreover have "\<forall>a \<in> set bs. (CallUpload (remote_dir_of env rn job) (af_object a), None) \<in> N \<union> (N2 \<union> (N3 \<union> M))"
      using u ok(2) by (simp add: dir)
    ultimately show "delivered svc env d rn job srcs (N \<union> (N2 \<union> (N3 \<union> M)))"
      unfolding delivered_def using c ok(1) m by blast
  qed
qed

text \<open>From the loaded context on: what the local copies of the run and the job lead to.\<close>

definition run_copy :: "bk_svc \<Rightarrow> bk_env \<Rightarrow> instant \<Rightarrow> bk_run \<Rightarrow> bk_run" where
  "run_copy svc env now rn =
     rn\<lparr>br_local_workdir := Some (path_join [bsv_data_dir svc, ''backup'', ''runs'', be_uuid_text env (br_id rn)]),
        br_log_path := Some (path_join [path_join [bsv_data_dir svc, ''backup'', ''runs'', be_uuid_text env (br_id rn)], ''run.log'']),
        br_status := bk_running, br_started_at := now\<rparr>"

definition completed :: "bk_svc \<Rightarrow> bk_env \<Rightarrow> bk_run \<Rightarrow> bk_job \<Rightarrow> bk_source list \<Rightarrow> calls \<Rightarrow> bool" where
  "completed svc env rn job srcs N \<longleftrightarrow>
     (CallStorageTest, None) \<in> N \<and>
     (\<exists>now. delivered svc env (path_join [bsv_data_dir svc, ''backup'', ''runs'', be_uuid_text env (br_id rn)])
              (run_copy svc env now rn) job srcs N)"

lemma delivered_mono:
  assumes "delivered svc env d rn job srcs N" "N \<subseteq> M" shows "delivered svc env d rn job srcs M"
proof -
  obtain rc r1 as bs where d: "br_id r1 = br_id rn" "br_started_at r1 = br_started_at rn"
      "workdir_of r1 = remote_workdir_of env rn" "collected svc env rc srcs r1 as N" "set as \<subseteq> set bs"
      "manifest_done (path_join [d, ''SHA256SUMS'']) as bs N"
      "\<forall>a \<in> set bs. (CallUpload (remote_dir_of env rn job) (af_object a), None) \<in> N"
    using assms(1) unfolding delivered_def by blast
  have "collected svc env rc srcs r1 as M" using d(4) order_refl assms(2) by (rule collected_mono)
  moreover have "manifest_done (path_join [d, ''SHA256SUMS'']) as bs M" using d(6) assms(2) by (rule manifest_done_mono)
  moreover have "\<forall>a \<in> set bs. (CallUpload (remote_dir_of env rn job) (af_object a), None) \<in> M"
    using d(7) assms(2) by blast
  ultimately show ?thesis unfolding delivered_def using d(1-3,5) by blast
qed

lemma gives_open_log: "gives (\<lambda>_ _. True) (open_log env p)"
  by (simp add: gives_def open_log_def bk_outside_def Let_def)

text \<open>Loading makes no calls.\<close>

lemma gives_quiet_try:
  "gives (\<lambda>_ N. N = {}) m \<Longrightarrow> (\<And>x. gives (\<lambda>_ N. N = {}) (k x)) \<Longrightarrow> gives (\<lambda>_ N. N = {}) (bk_try m k)"
  by (rule gives_try [where P = "\<lambda>_ N. N = {}"]) auto

lemma gives_load: "gives (\<lambda>_ N. N = {}) (load_run_context env cx i)"
  unfolding load_run_context_def get_backup_job_def get_storage_target_def
  by (rule gives_quiet_try gives_first gives_query gives_ret gives_case_prod gives_case_option refl)+

text \<open>The part of an execution after the context has been loaded.\<close>

lemma gives_started:
  assumes "rn1 = run_copy svc env now rn" "d = path_join [bsv_data_dir svc, ''backup'', ''runs'', be_uuid_text env (br_id rn)]"
  shows "gives (\<lambda>r N. r = None \<longrightarrow> completed svc env rn job srcs N)
    (bk_then (bk_outside env CallStorageTest) (\<lambda>tested.
       case tested of
         Some e \<Rightarrow> finish_run_with_error env cx rn1 job True t e
       | None \<Rightarrow> bk_drop (writef env msg) (deliver_run svc env cx d c rn1 job srcs)))"
proof (rule gives_then [OF gives_outside], rule gives_case_option)
  fix x :: "goerr option" and N e assume "x = Some e"
  show "gives (\<lambda>y M. y = None \<longrightarrow> completed svc env rn job srcs (N \<union> M)) (finish_run_with_error env cx rn1 job True t e)"
    by (rule gives_mono [OF gives_finish]) auto
next
  fix x N assume N: "N = {(CallStorageTest, x)}" "x = (None :: goerr option)"
  show "gives (\<lambda>y M. y = None \<longrightarrow> completed svc env rn job srcs (N \<union> M)) (bk_drop (writef env msg) (deliver_run svc env cx d c rn1 job srcs))"
  proof (rule gives_drop [OF gives_writef], rule gives_mono [OF gives_deliver], rule impI)
    fix y U M assume U: "U = ({} :: calls)" and d: "y = None \<longrightarrow> delivered svc env d rn1 job srcs M" "y = None"
    then have "delivered svc env d rn1 job srcs M" by simp
    then have "delivered svc env d rn1 job srcs (N \<union> (U \<union> M))" by (rule delivered_mono) auto
    then show "completed svc env rn job srcs (N \<union> (U \<union> M))"
      unfolding completed_def using N assms by auto
  qed
qed

lemma gives_finish_any: "gives (\<lambda>r N. r = None \<longrightarrow> Q N) (finish_run_with_error env cx rn j has_log what e)"
  by (rule gives_mono [OF gives_finish]) auto

lemma then_at:
  assumes "gives (\<lambda>_ N. N = {}) m" "gives Q (k (fst (m w)))"
  shows "\<exists>cs. bk_trace (snd (bk_then m k w)) = bk_trace w @ cs \<and> Q (fst (bk_then m k w)) (set cs)"
  using assms(1) [unfolded gives_def, rule_format, of w] assms(2) [unfolded gives_def, rule_format, of "snd (m w)"]
  by (auto simp: bk_then_def split_beta)

text \<open>What an execution that reports no error has done, by what it loaded first.\<close>

definition accomplished :: "bk_svc \<Rightarrow> bk_env \<Rightarrow> (bk_run \<times> bk_job \<times> bk_source list \<times> bk_target \<times> storage_config) result \<Rightarrow> calls \<Rightarrow> bool" where
  "accomplished svc env l N \<longleftrightarrow>
     (case l of Inl e \<Rightarrow> False | Inr (rn, job, srcs, target, c) \<Rightarrow> completed svc env rn job srcs N)"

lemma gives_quiet_drop: "gives (\<lambda>_ N. N = {}) m \<Longrightarrow> gives Q k \<Longrightarrow> gives Q (bk_drop m k)"
  by (rule gives_drop, assumption) simp

lemma completed_mono: "completed svc env rn job srcs N \<Longrightarrow> N \<subseteq> M \<Longrightarrow> completed svc env rn job srcs M"
  unfolding completed_def by (meson delivered_mono subsetD)

lemma execute_run_calls:
  "\<exists>cs. bk_trace (snd (execute_run svc env i w)) = bk_trace w @ cs \<and>
     (fst (execute_run svc env i w) = None \<longrightarrow> accomplished svc env (fst (load_run_context env (RunCtx i) i w)) (set cs))"
  unfolding execute_run_def Let_def
proof (rule then_at [OF gives_load], rule gives_case_sum, goal_cases)
  case (1 e)
  show ?case by (rule gives_ret) simp
next
  case (2 l)
  obtain rn job srcs target c where l: "l = (rn, job, srcs, target, c)" by (cases l)
  show ?case
    unfolding 2 l case_prod_conv accomplished_def sum.case
    apply (rule gives_then [OF gives_outside], rule gives_case_option [rotated], rule gives_finish_any)
    apply (rule gives_then [OF gives_open_log], rule gives_case_option [rotated], rule gives_finish_any)
    apply (rule gives_then [OF gives_clock], rule gives_then [OF gives_write [OF keeps_trace_writes(1)]], rule gives_case_option [rotated])
    apply (rule gives_ret, simp)
    apply (rule gives_quiet_drop [OF gives_writef], rule gives_case_sum, rule gives_finish_any)
    apply (rule gives_mono [OF gives_started [OF run_copy_def [symmetric] refl, simplified]])
    apply (blast intro: completed_mono)
    done
qed

end
