(* ===== verification/Backup_Health.thy ===== *)
theory Backup_Health
  imports Backup_Invariant
begin

text \<open>
  A run in a calm environment. \<open>healthy\<close>: the context of the run \<open>i\<close> is not done, its row, its job and the nodes
  are there, the items \<open>us\<close> are stored, and of the first \<open>L\<close> identifiers at least \<open>q\<close> are left, none of which an
  item has. The stages succeed under it and leave enough identifiers to those that follow.
\<close>

definition healthy :: "bk_env \<Rightarrow> nat \<Rightarrow> nat \<Rightarrow> uuid \<Rightarrow> uuid \<Rightarrow> node list \<Rightarrow> uuid set \<Rightarrow> bk \<Rightarrow> bool" where
  "healthy env L q i j ns us w \<longleftrightarrow>
     i \<notin> set (bk_stopped w) \<and> has_run i w \<and> has_job j w \<and> bk_nodes w = ns \<and> us \<subseteq> bi_id ` set (bk_items w) \<and>
     bk_uid w + q \<le> L \<and> be_uuid env ` {bk_uid w..<L} \<inter> bi_id ` set (bk_items w) = {}"

interpretation healthy: bk_invariant "healthy env L q i j ns us" for env L q i j ns us
  by unfold_locales (simp_all add: healthy_def has_run_def has_job_def)

text \<open>What an operation leads to from a state of which \<open>I\<close> holds.\<close>

definition leads :: "(bk \<Rightarrow> bool) \<Rightarrow> ('a \<Rightarrow> bk \<Rightarrow> bool) \<Rightarrow> (bk \<Rightarrow> 'a \<times> bk) \<Rightarrow> bool" where
  "leads I P f \<longleftrightarrow> (\<forall>w. I w \<longrightarrow> P (fst (f w)) (snd (f w)))"

lemma leads_seq:
  "leads I (\<lambda>x w. S x \<and> J w) f \<Longrightarrow> (\<And>x. S x \<Longrightarrow> leads J P (k x)) \<Longrightarrow> leads I P (bk_then f k)"
  by (auto simp: leads_def bk_then_def split_beta)

lemma leads_then:
  "healthy.sound env L q i j ns us S f \<Longrightarrow> (\<And>x. S x \<Longrightarrow> leads (healthy env L q i j ns us) P (k x)) \<Longrightarrow>
   leads (healthy env L q i j ns us) P (bk_then f k)"
  by (auto simp: leads_def healthy.sound_def bk_then_def split_beta)

lemma leads_drop:
  "healthy.sound env L q i j ns us S f \<Longrightarrow> leads (healthy env L q i j ns us) P k \<Longrightarrow> leads (healthy env L q i j ns us) P (bk_drop f k)"
  unfolding bk_drop_def by (rule leads_then)

lemma leads_ret: "(\<And>w. I w \<Longrightarrow> P x w) \<Longrightarrow> leads I P (bk_ret x)"
  by (simp add: leads_def bk_ret_def)

lemma leads_mono: "leads I P f \<Longrightarrow> (\<And>x w. P x w \<Longrightarrow> Q x w) \<Longrightarrow> leads I Q f"
  by (simp add: leads_def)

lemma leads_from: "leads J P f \<Longrightarrow> (\<And>w. I w \<Longrightarrow> J w) \<Longrightarrow> leads I P f"
  by (simp add: leads_def)

lemma healthy_fewer: "healthy env L q i j ns us w \<Longrightarrow> k \<le> q \<Longrightarrow> vs \<subseteq> us \<Longrightarrow> healthy env L k i j ns vs w"
  by (auto simp: healthy_def)

definition is_ok :: "'a result \<Rightarrow> bool" where
  "is_ok r \<longleftrightarrow> (\<exists>x. r = Inr x)"

lemma is_ok_simps [simp]: "is_ok (Inr x)" "\<not> is_ok (Inl e)"
  by (simp_all add: is_ok_def)

lemma calm_polite: "calm env \<Longrightarrow> polite_to I env"
  by (simp add: calm_def polite_to_def)

lemma healthy_meet: "calm env \<Longrightarrow> healthy env L q i j ns us w \<Longrightarrow> healthy env L q i j ns us (bk_meet env w)"
  by (rule healthy.meet [OF calm_polite])

lemma h_outside: "calm env \<Longrightarrow> healthy.sound env L q i j ns us (\<lambda>e. e = None) (bk_outside env c)"
  using healthy.sound_outside [OF calm_polite, of env "\<lambda>_. True"]
  by (simp add: healthy.sound_def bk_outside_def Let_def) (simp add: calm_def)

lemma h_run_remote:
  "calm env \<Longrightarrow> healthy.sound env L q i j ns us (\<lambda>r. fst (snd r) = 0 \<and> snd (snd r) = None) (run_remote env c)"
  using h_outside [of env L q i j ns us "CallRemote (''bash -lc '' @ go_quote c)"]
  by (simp add: healthy.sound_def run_remote_def split_beta)

lemma h_read:
  assumes "calm env"
  shows "healthy.sound env L q i j ns us is_ok (read_text env c)" "healthy.sound env L q i j ns us is_ok (read_int env c)"
  using h_outside [OF assms, of L q i j ns us c]
  by (auto simp: healthy.sound_def read_text_def read_int_def split_beta split: option.splits)

lemma h_as_result:
  "healthy.sound env L q i j ns us (\<lambda>e. e = None) m \<Longrightarrow> healthy.sound env L q i j ns us is_ok (as_result m)"
  unfolding as_result_def by (rule healthy.sound_then, assumption) (auto intro: healthy.sound_ret)

lemma h_stmt:
  assumes "calm env" "\<And>w. healthy env L q i j ns us w \<Longrightarrow> R (fst (f w)) \<and> healthy env L q i j ns us (snd (f w))"
  shows "healthy.sound env L q i j ns us R (bk_stmt env (RunCtx i) f)"
proof (rule healthy.soundI)
  fix w assume "healthy env L q i j ns us w"
  then have h: "healthy env L q i j ns us (bk_meet env w)" by (rule healthy_meet [OF assms(1)])
  then have "\<not> ctx_done (RunCtx i) (bk_meet env w)" by (simp add: healthy_def ctx_done_def)
  then show "R (fst (bk_stmt env (RunCtx i) f w)) \<and> healthy env L q i j ns us (snd (bk_stmt env (RunCtx i) f w))"
    using assms h by (simp add: bk_stmt_def Let_def) (simp add: calm_def)
qed

lemma h_write:
  assumes "calm env" "\<And>w. healthy env L q i j ns us w \<Longrightarrow> \<exists>w1. f w = Inr w1 \<and> healthy env L q i j ns us w1"
  shows "healthy.sound env L q i j ns us (\<lambda>e. e = None) (bk_write env (RunCtx i) f)"
proof -
  have "healthy.sound env L q i j ns us is_ok (bk_stmt env (RunCtx i) (\<lambda>v. case f v of Inl e \<Rightarrow> (Inl e, v) | Inr v1 \<Rightarrow> (Inr (), v1)))"
    by (rule h_stmt [OF assms(1)]) (use assms(2) in fastforce)
  then show ?thesis
    by (auto simp: healthy.sound_def bk_write_def split_beta is_ok_def split: sum.splits)
qed

lemma upd_keys:
  assumes "\<And>r. key r = k \<Longrightarrow> key (f r) = k" shows "key ` set (row_upd key k f rows) = key ` set rows"
proof -
  have "key (if key r = k then f r else r) = key r" for r using assms by simp
  then have "(\<lambda>r. key (if key r = k then f r else r)) = key" by (rule ext)
  then show ?thesis unfolding row_upd_def set_map image_image by (rule arg_cong)
qed

lemma saved_keys: "key ` set rows \<subseteq> key ` set (save_row env key r rows)"
    "key r \<in> key ` set rows \<Longrightarrow> key ` set (save_row env key r rows) = key ` set rows"
  using upd_keys [of key "key r" "\<lambda>_. r" rows] by (auto simp: save_row_def)

lemma has_run_keys: "has_run i w \<longleftrightarrow> i \<in> br_id ` set (bk_runs w)"
  by (auto simp: has_run_def list_ex_iff)

lemma has_run_kept:
  "has_run i v \<Longrightarrow> has_run i (v\<lparr>bk_runs := save_row env br_id r (bk_runs v)\<rparr>)"
  "(\<And>r. br_id (f r) = br_id r) \<Longrightarrow> has_run i v \<Longrightarrow> has_run i (v\<lparr>bk_runs := row_upd br_id k f (bk_runs v)\<rparr>)"
  using saved_keys(1) [of br_id "bk_runs v" env r] upd_keys [of br_id k f "bk_runs v"] by (auto simp: has_run_keys)

lemma healthy_writes:
  assumes "healthy env L q i j ns us w"
  shows "br_job_id r = j \<Longrightarrow> \<exists>w1. save_run env r w = Inr w1 \<and> healthy env L q i j ns us w1"
    "(\<And>r. br_id (f r) = br_id r) \<Longrightarrow> \<exists>w1. update_run k f w = Inr w1 \<and> healthy env L q i j ns us w1"
    "bi_run_id x = i \<Longrightarrow> bi_id x \<in> us \<Longrightarrow> \<exists>w1. save_item env x w = Inr w1 \<and> healthy env L q i j ns us w1"
proof -
  show "br_job_id r = j \<Longrightarrow> \<exists>w1. save_run env r w = Inr w1 \<and> healthy env L q i j ns us w1"
    using assms has_run_kept(1) [of i w env r] by (simp add: save_run_def healthy_def has_job_def)
  show "(\<And>r. br_id (f r) = br_id r) \<Longrightarrow> \<exists>w1. update_run k f w = Inr w1 \<and> healthy env L q i j ns us w1"
    using assms has_run_kept(2) [of f i w k] by (simp add: update_run_def healthy_def has_job_def)
  show "\<exists>w1. save_item env x w = Inr w1 \<and> healthy env L q i j ns us w1" if "bi_run_id x = i" "bi_id x \<in> us"
  proof -
    have "bi_id x \<in> bi_id ` set (bk_items w)" using assms that(2) by (auto simp: healthy_def)
    from saved_keys(2) [OF this, of env] show ?thesis
      using assms that(1) by (simp add: save_item_def healthy_def has_job_def has_run_def)
  qed
qed

lemma h_save_run:
  "calm env \<Longrightarrow> br_job_id r = j \<Longrightarrow> healthy.sound env L q i j ns us (\<lambda>e. e = None) (bk_write env (RunCtx i) (save_run env r))"
  by (rule h_write) (auto intro: healthy_writes)

lemma h_update_run:
  assumes "calm env" "\<And>r. br_id (f r) = br_id r"
  shows "healthy.sound env L q i j ns us (\<lambda>e. e = None) (bk_write env (RunCtx i) (update_run k f))"
  by (rule h_write [OF assms(1) healthy_writes(2)]) (use assms(2) in auto)

lemma h_save_item:
  "calm env \<Longrightarrow> bi_run_id x = i \<Longrightarrow> bi_id x \<in> us \<Longrightarrow>
   healthy.sound env L q i j ns us (\<lambda>e. e = None) (bk_write env (RunCtx i) (save_item env x))"
  by (rule h_write) (auto intro: healthy_writes)

section \<open>The stages\<close>

lemma h_new_item:
  assumes c: "calm env" and inj: "inj_on (be_uuid env) {..<L}" and it: "\<And>u. bi_id (f u) = u \<and> bi_run_id (f u) = i"
    and k: "\<And>u. leads (healthy env L q i j ns {u}) P (k u None)"
  shows "leads (healthy env L (Suc q) i j ns {}) P
    (bk_then (bk_new_uuid env) (\<lambda>u. bk_then (bk_write env (RunCtx i) (put_item (f u))) (k u)))"
  unfolding leads_def
proof (intro allI impI)
  fix w assume w: "healthy env L (Suc q) i j ns {} w"
  let ?u = "be_uuid env (bk_uid w)" and ?w = "bk_meet env (w\<lparr>bk_uid := Suc (bk_uid w)\<rparr>)"
  have h: "healthy env L (Suc q) i j ns {} (bk_meet env w)" using w by (rule healthy_meet [OF c])
  have same: "bk_items ?w = bk_items w" "bk_runs ?w = bk_runs w" "bk_stopped ?w = bk_stopped w" "bk_uid ?w = Suc (bk_uid w)"
      "bk_jobs ?w = bk_jobs w" "bk_nodes ?w = bk_nodes w"
    using c by (simp_all add: bk_meet_def calm_def)
  have live: "\<not> ctx_done (RunCtx i) ?w" using w same by (simp add: healthy_def ctx_done_def)
  have left: "bk_uid w < L" using w by (simp add: healthy_def)
  then have new: "?u \<notin> bi_id ` set (bk_items ?w)" using w same by (fastforce simp: healthy_def)
  let ?v = "?w\<lparr>bk_items := bk_items ?w @ [f ?u]\<rparr>"
  have ok: "bi_id (f ?u) = ?u" "bi_run_id (f ?u) = i" using it by simp_all
  have e: "has_run i ?w" using w same by (simp add: healthy_def has_run_def)
  have p: "put_item (f ?u) ?w = Inr ?v"
    using new ok e by (simp add: put_item_def row_put_def)
  have "be_fail env n = None" for n using c by (simp add: calm_def)
  then have wr: "bk_write env (RunCtx i) (put_item (f ?u)) (w\<lparr>bk_uid := Suc (bk_uid w)\<rparr>) = (None, ?v)"
    using live p by (simp add: bk_write_def bk_stmt_def Let_def)
  have "?u \<notin> be_uuid env ` {Suc (bk_uid w)..<L}"
  proof
    assume "?u \<in> be_uuid env ` {Suc (bk_uid w)..<L}"
    then obtain k where "?u = be_uuid env k" "Suc (bk_uid w) \<le> k" "k < L" by auto
    then show False using inj_onD [OF inj, of "bk_uid w" k] left by simp
  qed
  moreover have "be_uuid env ` {Suc (bk_uid w)..<L} \<inter> bi_id ` set (bk_items w) = {}"
  proof -
    have "be_uuid env ` {Suc (bk_uid w)..<L} \<subseteq> be_uuid env ` {bk_uid w..<L}" by (rule image_mono) auto
    then show ?thesis using w unfolding healthy_def by blast
  qed
  ultimately have "healthy env L q i j ns {?u} ?v"
    using w ok same by (simp add: healthy_def has_run_def has_job_def)
  then have "P (fst (k ?u None ?v)) (snd (k ?u None ?v))"
    using k by (simp add: leads_def)
  moreover have "bk_then (bk_new_uuid env) (\<lambda>u. bk_then (bk_write env (RunCtx i) (put_item (f u))) (k u)) w = k ?u None ?v"
    by (simp add: bk_then_def bk_new_uuid_def wr)
  ultimately show "P (fst (bk_then (bk_new_uuid env) (\<lambda>u. bk_then (bk_write env (RunCtx i) (put_item (f u))) (k u)) w))
      (snd (bk_then (bk_new_uuid env) (\<lambda>u. bk_then (bk_write env (RunCtx i) (put_item (f u))) (k u)) w))"
    by simp
qed

lemma h_item_step:
  "healthy.sound env L q i j ns us is_ok m \<Longrightarrow> (\<And>x. healthy.sound env L q i j ns us is_ok (k x)) \<Longrightarrow>
   healthy.sound env L q i j ns us is_ok (item_step env cx item what m k)"
  unfolding item_step_def by (rule healthy.sound_then, assumption) (auto simp: is_ok_def)

lemma h_fetch:
  assumes c: "calm env" and it: "bi_run_id item = i" "bi_id item \<in> us"
  shows "healthy.sound env L q i j ns us is_ok (fetch_result env (RunCtx i) rn s item scr)"
proof -
  have save: "healthy.sound env L q i j ns us is_ok (bk_check (bk_write env (RunCtx i) (save_item env x)) (bk_ret (Inr a)))"
    if "bi_run_id x = i" "bi_id x \<in> us" for x and a :: artifact
    by (rule healthy.sound_check [OF h_save_item [OF c]]) (auto simp: that intro: healthy.sound_ret)
  show ?thesis
    unfolding fetch_result_def Let_def
    apply (rule healthy.sound_case_prod h_item_step h_as_result h_outside [OF c])+
    apply (rule healthy.sound_drop [OF h_run_remote [OF c]], rule healthy.sound_then [OF h_run_remote [OF c]])
    apply (clarsimp, intro h_item_step h_as_result h_outside h_read c healthy.sound_then [OF healthy.sound_clock [where R = "\<lambda>_. True"]] TrueI)
    apply (rule save; simp add: it)
    done
qed

text \<open>A source whose script can be rendered.\<close>

definition renders :: "bk_svc \<Rightarrow> bk_env \<Rightarrow> bk_source \<Rightarrow> bool" where
  "renders svc env s \<longleftrightarrow> (\<forall>t d rc. is_ok (render_source_script svc env t d s rc))"

lemma h_execute_source:
  assumes c: "calm env" and inj: "inj_on (be_uuid env) {..<L}" and r: "renders svc env s" and rn: "br_id rn = i" "br_job_id rn = j"
  shows "leads (healthy env L (Suc q) i j ns {})
    (\<lambda>(r, rn1) w. (is_ok r \<and> br_id rn1 = i \<and> br_job_id rn1 = j) \<and> healthy env L q i j ns {} w)
    (execute_source svc env (RunCtx i) rc rn s)"
  unfolding execute_source_def Let_def
  apply (rule leads_then [OF healthy.sound_clock [where R = "\<lambda>_. True"]], rule TrueI)
  apply (rule h_new_item [OF c inj], simp add: new_item_def rn)
  apply (simp, rule leads_drop [OF healthy.sound_writef [where R = "\<lambda>_. True"]], rule TrueI)
  apply (cases "render_source_script svc env (br_started_at rn) (case br_remote_workdir rn of None \<Rightarrow> [] | Some d \<Rightarrow> d) s rc")
  subgoal for now u e using r by (metis is_ok_simps(2) renders_def)
  apply (simp, rule leads_then [OF h_fetch [OF c]], simp add: new_item_def rn, simp add: new_item_def)
  apply (clarsimp simp: is_ok_def, rule leads_drop [OF h_update_run [OF c]], simp)
  apply (rule leads_drop [OF healthy.sound_writef [where R = "\<lambda>_. True"]], rule TrueI)
  apply (rule leads_ret, auto simp: rn elim: healthy_fewer)
  done

lemma h_if_live:
  assumes "healthy.sound env L q i j ns us R no" shows "healthy.sound env L q i j ns us R (if_done (RunCtx i) yes no)"
proof (rule healthy.soundI)
  fix w assume w: "healthy env L q i j ns us w"
  then have "\<not> ctx_done (RunCtx i) w" by (simp add: healthy_def ctx_done_def)
  then show "R (fst (if_done (RunCtx i) yes no w)) \<and> healthy env L q i j ns us (snd (if_done (RunCtx i) yes no w))"
    using assms w by (simp add: if_done_def healthy.sound_def)
qed

lemma leads_if_live:
  assumes "leads (healthy env L q i j ns us) P no" shows "leads (healthy env L q i j ns us) P (if_done (RunCtx i) yes no)"
  using assms by (simp add: leads_def if_done_def healthy_def ctx_done_def)

definition kept :: "uuid \<Rightarrow> uuid \<Rightarrow> goerr option \<Rightarrow> bk_run \<Rightarrow> bool" where
  "kept i j e rn \<longleftrightarrow> e = None \<and> br_id rn = i \<and> br_job_id rn = j"

lemma h_collect_loop:
  assumes c: "calm env" and inj: "inj_on (be_uuid env) {..<L}"
  shows "\<forall>s \<in> set ss. bs_enabled s \<longrightarrow> renders svc env s \<Longrightarrow> kept i j e rn \<Longrightarrow>
    leads (healthy env L (length ss + q) i j ns {}) (\<lambda>r w. kept i j (snd (fst r)) (snd r) \<and> healthy env L q i j ns {} w)
      (collect_loop svc env (RunCtx i) rc ss rn arts e)"
proof (induction ss arbitrary: rn arts e)
  case Nil
  then show ?case by (auto intro: leads_ret)
next
  case (Cons s ss)
  have rest: "leads (healthy env L (length ss + q) i j ns {}) (\<lambda>r w. kept i j (snd (fst r)) (snd r) \<and> healthy env L q i j ns {} w)
      (collect_loop svc env (RunCtx i) rc ss r1 xs e)"
    if "kept i j e r1" for r1 xs using Cons that by simp
  show ?case
  proof (cases "bs_enabled s")
    case True
    then have r: "renders svc env s" and k: "br_id rn = i" "br_job_id rn = j" using Cons.prems by (auto simp: kept_def)
    show ?thesis
      unfolding collect_loop.simps if_not_P [OF not_not [THEN iffD2, OF True]] list.size add_Suc add_Suc_right add_0_right
      by (rule leads_if_live, rule leads_seq [OF h_execute_source [OF c inj r k, of "length ss + q", unfolded split_def] ])
         (use rest Cons.prems(2) in \<open>auto simp: kept_def is_ok_def\<close>)
  next
    case False
    have "healthy env L (length (s # ss) + q) i j ns {} w \<Longrightarrow> healthy env L (length ss + q) i j ns {} w" for w
      by (erule healthy_fewer) simp_all
    from leads_from [OF rest [OF Cons.prems(2)] this] show ?thesis using False by simp
  qed
qed

lemma h_open_remote:
  assumes "calm env" "n_ssh_enabled n" "bsv_has_encryptor svc"
  shows "healthy.sound env L q i j ns us is_ok (open_remote_client svc env n)"
  unfolding open_remote_client_def detect_sudo_def using assms(2,3)
  by (auto intro!: healthy.sound_check [OF h_outside [OF assms(1)]] healthy.sound_then [OF h_run_remote [OF assms(1)]]
      healthy.sound_ret simp: remote_ok_def)

text \<open>The node of the job, as the runner looks it up.\<close>

definition job_node :: "bk_job \<Rightarrow> node list \<Rightarrow> node option" where
  "job_node job ns =
     (case bj_node_id job of
        None \<Rightarrow> None
      | Some k \<Rightarrow> if k = uuid_nil then None else find (\<lambda>n. n_id n = k \<and> n_org_id n = Some (bj_org_id job)) ns)"

definition node_ready :: "bk_job \<Rightarrow> node list \<Rightarrow> bool" where
  "node_ready job ns \<longleftrightarrow> (case job_node job ns of None \<Rightarrow> False | Some n \<Rightarrow> n_ssh_enabled n)"

lemma h_find_node:
  assumes "calm env" "find p ns = Some n"
  shows "healthy.sound env L q i j ns us (\<lambda>r. r = Inr n) (bk_first env (RunCtx i) bk_nodes p)"
  unfolding bk_first_def by (rule h_stmt [OF assms(1)]) (use assms(2) in \<open>simp add: healthy_def\<close>)

lemma h_collect:
  assumes c: "calm env" and inj: "inj_on (be_uuid env) {..<L}" and k: "br_id rn = i" "br_job_id rn = j"
    and n: "node_ready job ns" and e: "bsv_has_encryptor svc" and ss: "\<forall>s \<in> set srcs. bs_enabled s \<longrightarrow> renders svc env s"
  shows "leads (healthy env L (length srcs + q) i j ns {}) (\<lambda>r w. kept i j (snd (fst r)) (snd r) \<and> healthy env L q i j ns {} w)
    (collect_artifacts svc env (RunCtx i) rn job srcs)"
proof -
  obtain nid nd where nd: "bj_node_id job = Some nid" "nid \<noteq> uuid_nil" "n_ssh_enabled nd"
      "find (\<lambda>n. n_id n = nid \<and> n_org_id n = Some (bj_org_id job)) ns = Some nd"
    using n by (auto simp: node_ready_def job_node_def split: option.splits if_splits)
  let ?H = "\<lambda>q. healthy env L q i j ns {}" and ?P = "\<lambda>r w. kept i j (snd (fst r)) (snd r) \<and> healthy env L q i j ns {} w"
  have loop: "leads (?H (length srcs + q)) ?P (collect_loop svc env (RunCtx i) rc srcs (rn\<lparr>br_remote_workdir := d\<rparr>) [] None)" for rc d
    by (rule h_collect_loop [OF c inj ss]) (simp add: kept_def k)
  have any: "healthy.sound env L q i j ns {} (\<lambda>_. True) (run_remote env t)" for t
    by (rule healthy.sound_mono [OF h_run_remote [OF c]]) simp
  have clean: "leads (?H q) ?P (bk_drop (run_remote env rmv) (bk_ret res))" if "kept i j (snd (fst res)) (snd res)" for rmv res
    by (rule leads_drop [OF any leads_ret]) (use that in simp)
  have body: "leads (?H (length srcs + q)) ?P
      (bk_then (run_remote env mk) (\<lambda>(_, _, err). case err of Some e \<Rightarrow> bk_ret (([], Some e), r1)
        | None \<Rightarrow> bk_then (collect_loop svc env (RunCtx i) rc srcs (rn\<lparr>br_remote_workdir := d\<rparr>) [] None)
                   (\<lambda>res. bk_drop (run_remote env rmv) (bk_ret res))))" for mk rc d rmv r1
  proof (rule leads_then [OF h_run_remote [OF c]])
    fix x :: "string \<times> int \<times> goerr option" assume "fst (snd x) = 0 \<and> snd (snd x) = None"
    then have x: "x = (fst x, 0, None)" by (cases x) auto
    show "leads (?H (length srcs + q)) ?P (case x of (_, _, err) \<Rightarrow> case err of Some e \<Rightarrow> bk_ret (([], Some e), r1)
        | None \<Rightarrow> bk_then (collect_loop svc env (RunCtx i) rc srcs (rn\<lparr>br_remote_workdir := d\<rparr>) [] None)
                   (\<lambda>res. bk_drop (run_remote env rmv) (bk_ret res)))"
      by (subst x, simp only: case_prod_conv option.case, rule leads_seq [OF loop clean])
  qed
  have save: "healthy.sound env L m i j ns {} (\<lambda>e. e = None) (bk_write env (RunCtx i) (save_run env (rn\<lparr>br_remote_workdir := d\<rparr>)))" for d m
    by (rule h_save_run [OF c]) (simp add: k)
  have opened: "leads (?H (length srcs + q)) ?P (bk_drop (bk_write env (RunCtx i) (save_run env (rn\<lparr>br_remote_workdir := d\<rparr>)))
      (bk_then (run_remote env mk) (\<lambda>(_, _, err). case err of Some e \<Rightarrow> bk_ret (([], Some e), r1)
        | None \<Rightarrow> bk_then (collect_loop svc env (RunCtx i) rc srcs (rn\<lparr>br_remote_workdir := d\<rparr>) [] None)
                   (\<lambda>res. bk_drop (run_remote env rmv) (bk_ret res)))))" for mk rc d rmv r1
    using save body by (rule leads_drop)
  show ?thesis
    unfolding collect_artifacts_def nd option.case Let_def if_not_P [OF nd(2)]
    apply (rule leads_then [OF h_find_node [OF c nd(4)]], simp only: sum.case)
    apply (rule leads_then [OF h_open_remote [OF c nd(3) e]])
    apply (clarsimp simp only: is_ok_def sum.case, rule opened)
    done
qed

lemma h_manifest:
  assumes "calm env" shows "healthy.sound env L q i j ns us is_ok (write_manifest env as d)"
  unfolding write_manifest_def Let_def
  by (rule healthy.sound_check [OF h_outside [OF assms]], simp, rule healthy.sound_try [OF h_read(1) [OF assms]], simp,
      rule healthy.sound_try [OF h_read(2) [OF assms]]) (auto intro: healthy.sound_ret)

text \<open>Reading the clock and taking an identifier can be swapped.\<close>

lemma uuid_clock:
  "bk_then (bk_new_uuid env) (\<lambda>u. bk_then (bk_clock env) (\<lambda>t. k u t)) = bk_then (bk_clock env) (\<lambda>t. bk_then (bk_new_uuid env) (\<lambda>u. k u t))"
  by (simp add: fun_eq_iff bk_then_def bk_new_uuid_def bk_clock_def)

lemma h_add_manifest:
  assumes c: "calm env" and inj: "inj_on (be_uuid env) {..<L}" and k: "br_id rn = i" "br_job_id rn = j"
  shows "leads (healthy env L (Suc q) i j ns {}) (\<lambda>r w. (br_id (fst r) = i \<and> br_job_id (fst r) = j) \<and> healthy env L q i j ns {} w)
    (add_manifest env (RunCtx i) d rn arts)"
  unfolding add_manifest_def bk_drop_def Let_def uuid_clock
  apply (rule leads_then [OF h_manifest [OF c]], clarsimp simp: is_ok_def)
  apply (rule leads_then [OF healthy.sound_clock [where R = "\<lambda>_. True"]], rule TrueI)
  apply (rule h_new_item [OF c inj], simp add: k, rule leads_ret, auto simp: k elim: healthy_fewer)
  done

lemma h_upload:
  assumes c: "calm env"
  shows "kept i j e rn \<Longrightarrow> healthy.sound env L q i j ns {} (\<lambda>(e, rn1). kept i j e rn1) (upload_artifacts env (RunCtx i) dir arts rn e)"
proof (induction arts arbitrary: rn e)
  case Nil
  then show ?case by (auto intro: healthy.sound_ret)
next
  case (Cons a as)
  have rest: "healthy.sound env L q i j ns {} (\<lambda>(e, rn1). kept i j e rn1)
      (upload_artifacts env (RunCtx i) dir as (rn\<lparr>br_uploaded_size := m\<rparr>) e)" for m
    using Cons by (simp add: kept_def)
  have size: "healthy.sound env L q i j ns {} (\<lambda>e. e = None)
      (bk_write env (RunCtx i) (update_run (br_id rn) (\<lambda>r. r\<lparr>br_uploaded_size := m\<rparr>)))" for m
    by (rule h_update_run [OF c]) simp
  have send: "healthy.sound env L q i j ns {} (\<lambda>(e, rn1). kept i j e rn1)
      (bk_drop (bk_write env (RunCtx i) (update_run (br_id rn) (\<lambda>r. r\<lparr>br_uploaded_size := m\<rparr>)))
         (bk_drop (writef env t) (upload_artifacts env (RunCtx i) dir as (rn\<lparr>br_uploaded_size := m\<rparr>) e)))" for m t
    by (intro healthy.sound_drop [OF size] healthy.sound_drop [OF healthy.sound_writef [where R = "\<lambda>_. True"]] rest TrueI)
  show ?case
    unfolding upload_artifacts.simps Let_def
    by (rule h_if_live, rule healthy.sound_then [OF h_outside [OF c]], simp, rule healthy.sound_then [OF h_outside [OF c]])
       (use send in simp)
qed

lemma delete_expired_calm:
  assumes "calm env" shows "fst (delete_expired (delete_object env) wr cutoff obs None s) = None"
proof -
  have d: "fst (delete_object env p w) = None" for p w
    using assms by (simp add: delete_object_def bk_outside_def Let_def calm_def)
  show ?thesis by (induction obs arbitrary: s) (simp_all add: Let_def split_beta d)
qed

lemma h_retention:
  assumes "calm env" shows "healthy.sound env L q i j ns us (\<lambda>e. e = None) (run_retention env job)"
proof (rule healthy.soundI)
  fix w assume "healthy env L q i j ns us w"
  then have "healthy env L q i j ns us (snd (run_retention env job w))"
    using healthy.sound_retention [OF calm_polite [OF assms]] by (simp add: healthy.sound_def)
  moreover have "fst (run_retention env job w) = None"
    using assms delete_expired_calm [OF assms]
    by (simp add: run_retention_def apply_retention_def list_objects_def bk_outside_def Let_def calm_def split: sum.split)
  ultimately show "fst (run_retention env job w) = None \<and> healthy env L q i j ns us (snd (run_retention env job w))" by simp
qed

section \<open>The end\<close>

text \<open>The run is stored as a success.\<close>

definition stored_as :: "uuid \<Rightarrow> string \<Rightarrow> bk \<Rightarrow> bool" where
  "stored_as i st w \<longleftrightarrow> (\<exists>r \<in> set (bk_runs w). br_id r = i \<and> br_status r = st \<and> br_finished_at r \<noteq> None)"

lemma calm_write_runs:
  assumes "calm env" "\<And>v v1. f v = Inr v1 \<Longrightarrow> bk_runs v1 = bk_runs v"
  shows "bk_runs (snd (bk_write env cx f w)) = bk_runs w"
  using assms by (auto simp: bk_write_def bk_stmt_def Let_def bk_meet_def calm_def split: sum.split)

lemma saved_mem:
  assumes "key r \<in> key ` set rows" shows "r \<in> set (save_row env key r rows)"
proof -
  obtain x where "x \<in> set rows" "key x = key r" using assms by auto
  then have "(\<lambda>x. if key x = key r then r else x) x = r \<and> x \<in> set rows" by simp
  then show ?thesis using assms by (simp add: save_row_def row_upd_def) force
qed

lemma saved_row: "has_run (br_id r) w \<Longrightarrow> save_run env r w = Inr w1 \<Longrightarrow> r \<in> set (bk_runs w1)"
  using saved_mem [of br_id r "bk_runs w" env] by (auto simp: save_run_def has_run_keys split: if_splits)

lemma h_close:
  assumes c: "calm env" and k: "br_id rn = i" "br_job_id rn = j"
  shows "leads (healthy env L q i j ns {}) (\<lambda>r w. r = None \<and> stored_as i bk_success w) (close_run env (RunCtx i) rn job arts None None None)"
  unfolding leads_def
proof (intro allI impI)
  fix w assume w: "healthy env L q i j ns {} w"
  have live: "\<not> ctx_done (RunCtx i) w" using w by (simp add: healthy_def ctx_done_def)
  have st: "stored_as i bk_success (snd (bk_write env (RunCtx i) (save_run env r) w))"
    if r: "br_id r = i" "br_job_id r = j" "br_status r = bk_success" "br_finished_at r \<noteq> None" for r
  proof -
    have m: "healthy env L q i j ns {} (bk_meet env w)" using w by (rule healthy_meet [OF c])
    obtain w1 where w1: "save_run env r (bk_meet env w) = Inr w1" using healthy_writes(1) [OF m r(2)] by blast
    have "r \<in> set (bk_runs w1)" using saved_row [OF _ w1] m r(1) by (simp add: healthy_def)
    moreover have "bk_write env (RunCtx i) (save_run env r) w = (None, w1)"
      using m w1 c by (simp add: bk_write_def bk_stmt_def Let_def healthy_def ctx_done_def) (simp add: calm_def)
    ultimately show ?thesis using r by (auto simp: stored_as_def)
  qed
  have job: "bk_runs (snd (bk_write env cx (save_bk_job env j1) v)) = bk_runs v" for j1 v cx
    by (rule calm_write_runs [OF c]) (auto simp: save_bk_job_def split: if_splits)
  show "fst (close_run env (RunCtx i) rn job arts None None None w) = None \<and>
      stored_as i bk_success (snd (close_run env (RunCtx i) rn job arts None None None w))"
    using st [of "rn\<lparr>br_status := bk_success, br_finished_at := Some (be_now env (bk_n w)),
        br_duration_ms := duration_ms (time_sub (be_now env (bk_n w)) (br_started_at rn)),
        br_log_excerpt := Some (excerpt w), br_file_count := int (length arts)\<rparr>"] k live
    by (simp add: close_run_def Let_def bk_drop_def bk_then_def bk_ret_def writef_def log_line_def stored_as_def job
        derive_final_status_def split_beta)
qed

lemma h_deliver:
  assumes c: "calm env" and inj: "inj_on (be_uuid env) {..<L}" and k: "br_id rn = i" "br_job_id rn = j"
    and n: "node_ready job ns" and e: "bsv_has_encryptor svc" and ss: "\<forall>s \<in> set srcs. bs_enabled s \<longrightarrow> renders svc env s"
  shows "leads (healthy env L (Suc (length srcs)) i j ns {}) (\<lambda>r w. r = None \<and> stored_as i bk_success w)
    (deliver_run svc env (RunCtx i) d sc rn job srcs)"
  unfolding deliver_run_def Let_def
  apply (rule leads_seq [OF h_collect [OF c inj k n e ss, where q = "Suc 0", unfolded add_Suc_right add_0_right]])
  apply (clarsimp simp: kept_def)
  apply (rule leads_seq [OF h_add_manifest [OF c inj refl refl, where q = 0]], clarsimp)
  apply (rule leads_then [OF h_upload [OF c, where e = None]], simp add: kept_def, clarsimp simp: kept_def)
  apply (rule leads_then [OF h_retention [OF c]], simp)
  apply (rule leads_drop [OF healthy.sound_ret [where R = "\<lambda>_. True"]], rule TrueI)
  apply (rule h_close [OF c], simp_all)
  done

lemma h_open_log:
  assumes "calm env" shows "healthy.sound env L q i j ns us (\<lambda>e. e = None) (open_log env p)"
  using h_outside [OF assms, of L q i j ns us "CallCreateLog p"]
  by (simp add: healthy.sound_def open_log_def split_beta healthy.log_only)

lemma h_any_try:
  "healthy.sound env L q i j ns us (\<lambda>_. True) m \<Longrightarrow> (\<And>x. healthy.sound env L q i j ns us (\<lambda>_. True) (k x)) \<Longrightarrow>
   healthy.sound env L q i j ns us (\<lambda>_. True) (bk_try m k)"
  by (rule healthy.sound_try) auto

lemma h_load:
  assumes "calm env" shows "healthy.sound env L q i j ns us (\<lambda>_. True) (load_run_context env cx i)"
  unfolding load_run_context_def get_backup_job_def get_storage_target_def
  by (rule h_any_try healthy.sound_first [where R = "\<lambda>_. True"] healthy.sound_query [where R = "\<lambda>_. True"]
        healthy.sound_case_prod healthy.sound_case_option healthy.sound_ret calm_polite [OF assms] TrueI)+

lemma leads_at:
  assumes "healthy.sound env L q i j ns us (\<lambda>_. True) m" "healthy env L q i j ns us w" "leads (healthy env L q i j ns us) P (k (fst (m w)))"
  shows "P (fst (bk_then m k w)) (snd (bk_then m k w))"
  using assms by (simp add: healthy.sound_def leads_def bk_then_def split_beta)

definition storage_known :: "bk_target \<Rightarrow> bool" where
  "storage_known t \<longleftrightarrow> bt_type t \<in> {''ftp'', ''ftps'', ''sftp'', ''webdav'', ''s3'', ''local''}"

lemma healthy_run_succeeds:
  assumes c: "calm env" and inj: "inj_on (be_uuid env) {..<L}"
    and l: "fst (load_run_context env (RunCtx i) i w) = Inr (rn, job, srcs, target, sc)"
    and k: "br_id rn = i" and w: "healthy env L (Suc (length srcs)) i (br_job_id rn) ns {} w"
    and n: "node_ready job ns" and e: "bsv_has_encryptor svc" and t: "storage_known target"
    and ss: "\<forall>s \<in> set srcs. bs_enabled s \<longrightarrow> renders svc env s"
  shows "fst (execute_run svc env i w) = None \<and> stored_as i bk_success (snd (execute_run svc env i w))"
proof -
  have up: "new_uploader sc (bt_type target) = Inr (bt_type target, sc)"
    using t by (auto simp: new_uploader_def storage_known_def)
  show ?thesis
    unfolding execute_run_def Let_def
    apply (rule leads_at [OF h_load [OF c] w, where P = "\<lambda>r w. r = None \<and> stored_as i bk_success w"])
    apply (simp only: l sum.case case_prod_conv)
    apply (rule leads_then [OF h_outside [OF c]], simp)
    apply (rule leads_then [OF h_open_log [OF c]], simp)
    apply (rule leads_then [OF healthy.sound_clock [where R = "\<lambda>_. True"]], rule TrueI)
    apply (rule leads_then [OF h_save_run [OF c]], simp, simp)
    apply (rule leads_drop [OF healthy.sound_writef [where R = "\<lambda>_. True"]], rule TrueI)
    apply (simp only: up sum.case)
    apply (rule leads_then [OF h_outside [OF c]], simp)
    apply (rule leads_drop [OF healthy.sound_writef [where R = "\<lambda>_. True"]], rule TrueI)
    apply (rule h_deliver [OF c inj _ _ n e ss], simp_all add: k)
    done
qed

end
