(* ===== verification/Backup_Shell.thy ===== *)
theory Backup_Shell
  imports Backup_Service Backup_Scripts
begin

text \<open>
  What a POSIX shell makes of the texts in the scripts. \<open>sh_word\<close> reads one word at the start of a text by the
  rules for quotes: its value without quotes, and the rest after it; or nothing, when the shell would expand something
  in it or a quote is not closed. \<open>shell_escape\<close> is correct for it, and \<open>sudo_cmd\<close>, which puts a whole
  command between double quotes, is not.
\<close>

datatype sh_mode = Plain | Single | Double

text \<open>Characters that stand for themselves outside of quotes, and those that end a word.\<close>

definition sh_plain :: "char \<Rightarrow> bool" where
  "sh_plain c \<longleftrightarrow> is_alnum c \<or> c \<in> set ''-_./@:%+,=''"

definition sh_end :: "char \<Rightarrow> bool" where
  "sh_end c \<longleftrightarrow> c \<in> {CHR '' '', CHR 0x09, CHR 0x0A, CHR '';'', CHR ''&'', CHR ''|'', CHR ''<'', CHR ''>'', CHR ''('', CHR '')''}"

definition sh_active :: "char \<Rightarrow> bool" where
  "sh_active c \<longleftrightarrow> c = CHR ''$'' \<or> c = CHR 0x60"

definition sh_cons :: "char \<Rightarrow> (string \<times> string) option \<Rightarrow> (string \<times> string) option" where
  "sh_cons c = map_option (\<lambda>(w, r). (c # w, r))"

definition sh_prepend :: "string \<Rightarrow> (string \<times> string) option \<Rightarrow> (string \<times> string) option" where
  "sh_prepend v = map_option (\<lambda>(w, r). (v @ w, r))"

fun sh_word :: "sh_mode \<Rightarrow> string \<Rightarrow> (string \<times> string) option" where
  "sh_word Plain [] = Some ([], [])"
| "sh_word Plain (c # cs) =
     (if c = CHR 0x27 then sh_word Single cs
      else if c = CHR 0x22 then sh_word Double cs
      else if sh_plain c then sh_cons c (sh_word Plain cs)
      else if sh_end c then Some ([], c # cs) else None)"
| "sh_word Single [] = None"
| "sh_word Single (c # cs) = (if c = CHR 0x27 then sh_word Plain cs else sh_cons c (sh_word Single cs))"
| "sh_word Double [] = None"
| "sh_word Double (c # cs) =
     (if c = CHR 0x22 then sh_word Plain cs
      else if sh_active c \<or> c = CHR 0x5C then None
      else sh_cons c (sh_word Double cs))"

lemma sh_prepend_simps [simp]:
  "sh_prepend [] x = x" "sh_prepend (c # v) x = sh_cons c (sh_prepend v x)" "sh_prepend v None = None"
  by (cases x; simp add: sh_prepend_def sh_cons_def split_beta)+

section \<open>Escaped values\<close>

lemma replace_char:
  "replace_all s [c] r = concat (map (\<lambda>x. if x = c then r else [x]) s)"
  by (induction s) (simp_all add: replace_all_def)

lemma single_quoted:
  "sh_word Single (concat (map (\<lambda>x. if x = CHR 0x27 then sq @ dq @ sq @ dq @ sq else [x]) v) @ sq @ rest) =
   sh_prepend v (sh_word Plain rest)"
  by (induction v) (auto simp: punct_defs sh_active_def)

lemma shell_escape_word: "sh_word Plain (shell_escape v @ rest) = sh_prepend v (sh_word Plain rest)"
proof (cases "v = []")
  case False
  then show ?thesis
    using single_quoted [of v rest] by (simp add: shell_escape_def punct_defs replace_char cong: if_cong)
qed (simp add: shell_escape_def punct_defs)

section \<open>Quoted commands\<close>

text \<open>Texts that the verb \<open>%q\<close> leaves as they are: printable ASCII characters but for quotes and backslashes.\<close>

definition q_plain :: "string \<Rightarrow> bool" where
  "q_plain s \<longleftrightarrow> list_all (\<lambda>c. quote_char c = [c] \<and> c \<noteq> CHR 0x22 \<and> c \<noteq> CHR 0x5C) s"

lemma q_plain_quote: "q_plain s \<Longrightarrow> concat (map quote_char s) = s"
  by (induction s) (auto simp: q_plain_def)

lemma double_quoted:
  "q_plain s \<Longrightarrow> sh_word Double (s @ CHR 0x22 # rest) =
     (if list_ex sh_active s then None else sh_prepend s (sh_word Plain rest))"
  by (induction s) (auto simp: q_plain_def sh_cons_def)

text \<open>A quoted command is taken as it is only if nothing in it is expanded, however it is quoted inside.\<close>

lemma go_quote_word:
  "q_plain s \<Longrightarrow> sh_word Plain (go_quote s @ rest) = (if list_ex sh_active s then None else sh_prepend s (sh_word Plain rest))"
  by (simp add: go_quote_def q_plain_quote double_quoted)

lemma q_plain_append [simp]: "q_plain (a @ b) \<longleftrightarrow> q_plain a \<and> q_plain b"
  by (simp add: q_plain_def)

lemma q_plain_escape: "q_plain v \<Longrightarrow> CHR 0x27 \<notin> set v \<Longrightarrow> q_plain (shell_escape v)"
proof -
  assume v: "q_plain v" "CHR 0x27 \<notin> set v"
  have "concat (map (\<lambda>x. if x = CHR 0x27 then r else [x]) v) = v" for r
    using v(2) by (induction v) auto
  moreover have "q_plain sq" by (simp add: q_plain_def sq_def quote_char_def)
  ultimately show ?thesis using v(1) by (simp add: shell_escape_def replace_char sq_def [symmetric]) (simp add: sq_def replace_char)
qed

lemma active_escape: "list_ex sh_active (shell_escape v) \<longleftrightarrow> list_ex sh_active v"
proof -
  have "list_ex sh_active (concat (map (\<lambda>x. if x = CHR 0x27 then sq @ dq @ sq @ dq @ sq else [x]) v)) = list_ex sh_active v"
    by (induction v) (auto simp: sh_active_def punct_defs)
  then show ?thesis by (simp add: shell_escape_def punct_defs replace_char sh_active_def cong: if_cong)
qed

section \<open>Paths of sources\<close>

lemma path_char_plain:
  "list_all (\<lambda>c. quote_char c = [c] \<and> c \<noteq> CHR 0x22 \<and> c \<noteq> CHR 0x5C \<and> c \<noteq> CHR 0x27 \<and> \<not> sh_active c)
     (''ABCDEFGHIJKLMNOPQRSTUVWXYZabcdefghijklmnopqrstuvwxyz0123456789'' @ ''-_./@'')"
  by code_simp

text \<open>A text that reaches the inner shell unchanged.\<close>

definition inert :: "string \<Rightarrow> bool" where
  "inert s \<longleftrightarrow> q_plain s \<and> CHR 0x27 \<notin> set s \<and> \<not> list_ex sh_active s"

lemma allowed_path_chars:
  assumes "allowed_source_path s"
  shows "inert s" "rooted s" "CHR 0x5C \<notin> set s"
proof -
  have "\<forall>c \<in> set s. c \<in> set (''ABCDEFGHIJKLMNOPQRSTUVWXYZabcdefghijklmnopqrstuvwxyz0123456789'' @ ''-_./@'')"
    using assms by (auto simp: allowed_source_path_def is_alnum_def list_all_iff split: list.splits)
  then have "\<forall>c \<in> set s. quote_char c = [c] \<and> c \<noteq> CHR 0x22 \<and> c \<noteq> CHR 0x5C \<and> c \<noteq> CHR 0x27 \<and> \<not> sh_active c"
    using path_char_plain unfolding list_all_iff by blast
  then show "inert s" "CHR 0x5C \<notin> set s"
    by (auto simp: inert_def q_plain_def list_all_iff list_ex_iff)
  show "rooted s"
    using assms by (auto simp: allowed_source_path_def slash_def split: list.splits)
qed

lemma replace_absent: "c \<notin> set s \<Longrightarrow> replace_all s [c] r = s"
  by (induction s) (auto simp: replace_char)

lemma validated_path:
  assumes "validate_unix_path v = None"
  shows "inert (trim_space v)" "rooted (trim_space v)" "''..'' \<notin> set (split_on slash (trim_space v))"
proof -
  have a: "allowed_source_path (trim_space v)"
    and d: "''..'' \<notin> set (split_on (CHR ''/'') (replace_all (trim_space v) [CHR 0x5C] ''/''))"
    using assms by (auto simp: validate_unix_path_def Let_def split: if_splits)
  show "inert (trim_space v)" "rooted (trim_space v)" using allowed_path_chars [OF a] by simp_all
  show "''..'' \<notin> set (split_on slash (trim_space v))"
    using d replace_absent [OF allowed_path_chars(3) [OF a]] by (simp add: slash_def)
qed

definition tar_command :: "string \<Rightarrow> string \<Rightarrow> string" where
  "tar_command out p = ''tar -czf '' @ shell_escape out @ '' -P '' @ shell_escape p"

lemma inert_tar:
  assumes "inert out" "inert p"
  shows "sh_word Plain (go_quote (tar_command out p) @ rest) = sh_prepend (tar_command out p) (sh_word Plain rest)"
proof -
  have t: "q_plain ''tar -czf ''" "q_plain '' -P ''" "\<not> list_ex sh_active ''tar -czf ''" "\<not> list_ex sh_active '' -P ''"
    by code_simp+
  have "q_plain (tar_command out p)" "\<not> list_ex sh_active (tar_command out p)"
    using assms t by (simp_all only: inert_def tar_command_def q_plain_append list_ex_append active_escape q_plain_escape simp_thms)
  then show ?thesis by (simp add: go_quote_word)
qed

section \<open>Names of containers\<close>

definition inspect_command :: "string \<Rightarrow> string" where
  "inspect_command c = ''docker inspect --format {{range .Config.Env}}{{println .}}{{end}} '' @ shell_escape c"

lemma contains_append_right: "contains b p \<Longrightarrow> contains (a @ b) p"
  by (induction a) auto

lemma contains_mid: "contains (a @ p @ b) p"
  by (rule contains_append)

lemma script_lines_append: "script_lines (a @ b) = script_lines a @ script_lines b"
  by (simp add: script_lines_def)

lemma contains_line:
  assumes "contains l p" shows "contains (script_lines (a @ l # b)) p"
proof -
  have "contains (x @ y) p" if "contains x p" for x y
    using that
  proof (induction x)
    case Nil then show ?case by (cases y) auto
  next
    case (Cons a x) then show ?case using prefix_prefix [of p "a # x" y] by auto
  qed
  then have "contains (script_lines (l # b)) p" using assms by (simp add: script_lines_def)
  then show ?thesis unfolding script_lines_append by (rule contains_append_right)
qed

lemma inspect_expanded:
  assumes "q_plain c" "CHR 0x27 \<notin> set c" "list_ex sh_active c"
  shows "sh_word Plain (go_quote (inspect_command c) @ rest) = None"
proof -
  have t: "q_plain ''docker inspect --format {{range .Config.Env}}{{println .}}{{end}} ''"
    by code_simp
  have "q_plain (inspect_command c)" "list_ex sh_active (inspect_command c)"
    using assms t by (simp_all only: inspect_command_def q_plain_append list_ex_append active_escape q_plain_escape simp_thms)
  then show ?thesis by (simp add: go_quote_word)
qed

lemma pg_script_inspects: "contains (pg_container_script rc c out) (sudo_on rc (inspect_command (pgc_container_name c)))"
proof -
  let ?l = "''  ENVS=$('' @ sudo_on rc (inspect_command (pgc_container_name c)) @ '')''"
  have "contains ?l (sudo_on rc (inspect_command (pgc_container_name c)))" by (rule contains_mid)
  then have "contains (script_lines ([strict_mode, ''CONTAINER='' @ shell_escape (pgc_container_name c), ''OUT='' @ shell_escape out,
        ''DB_NAME='' @ shell_escape (pgc_db_name c), ''DB_USER='' @ shell_escape (pgc_db_user c),
        ''DB_PASS='' @ shell_escape (pgc_db_password c), ''AUTO='' @ (if pgc_auto_detect c then ''1'' else ''0''),
        ''if [ '' @ dq @ ''$AUTO'' @ dq @ '' = '' @ dq @ ''1'' @ dq @ '' ]; then''] @ ?l # ls))
      (sudo_on rc (inspect_command (pgc_container_name c)))" for ls
    by (rule contains_line)
  then show ?thesis unfolding pg_container_script_def inspect_command_def by (simp only: append_Cons append_Nil append_assoc)
qed

lemma folded_keys:
  "json_fold ''container_name'' = ''container_name''" "json_fold ''auto_detect_from_env'' = ''auto_detect_from_env''"
  "json_fold ''command'' = ''command''" "json_fold ''output_name'' = ''output_name''"
  "json_fold ''allow_untrusted_command'' = ''allow_untrusted_command''"
  by code_simp+

lemma pg_config_auto:
  "pg_container_config_of (RawObj [(''container_name'', JStr c), (''auto_detect_from_env'', JBool True)]) =
     Some \<lparr>pgc_container_name = c, pgc_db_name = [], pgc_db_user = [], pgc_db_password = [], pgc_auto_detect = True, pgc_dump_args = []\<rparr>"
  by (simp add: pg_container_config_of_def unmarshal_def json_struct_def json_str_def json_bool_def folded_keys
      del: json_fold.simps)

section \<open>Commands of nginx sources\<close>

lemma src_nginx_facts:
  "trim_space src_nginx = src_nginx" "is_supported_source_type src_nginx" "src_nginx \<noteq> src_file" "src_nginx \<noteq> src_dir"
  "src_nginx \<noteq> src_volume" "src_nginx \<noteq> src_pg_container" "src_nginx \<noteq> src_pg_manual"
  by code_simp+

lemma src_custom_facts:
  "trim_space src_custom = src_custom" "is_supported_source_type src_custom" "src_custom \<noteq> src_file" "src_custom \<noteq> src_dir"
  "src_custom \<noteq> src_volume" "src_custom \<noteq> src_pg_container" "src_custom \<noteq> src_pg_manual" "src_custom \<noteq> src_nginx"
  "src_custom \<noteq> src_cron" "src_custom \<noteq> src_inventory" "src_custom \<noteq> src_system"
  by code_simp+

lemma src_pg_facts:
  "trim_space src_pg_container = src_pg_container" "is_supported_source_type src_pg_container"
  "src_pg_container \<noteq> src_file" "src_pg_container \<noteq> src_dir" "src_pg_container \<noteq> src_volume"
  by code_simp+

abbreviation nginx_stored :: "string \<Rightarrow> raw_json" where
  "nginx_stored cmd \<equiv> RawObj [(''command'', JStr cmd), (''output_name'', JStr ''nginx-full-config'')]"

lemma nginx_stored_decoded:
  "nginx_config_of (nginx_stored cmd) = Some \<lparr>nx_command = cmd, nx_output_name = ''nginx-full-config''\<rparr>"
  by (simp add: nginx_config_of_def unmarshal_def json_struct_def json_str_def folded_keys del: json_fold.simps)

lemma nginx_source_kept:
  assumes "trim_space cmd \<noteq> []"
  shows "validate_source_config lib src_nginx (RawObj [(''command'', JStr cmd)]) unsafe = Inr (nginx_stored cmd)"
proof -
  have "cmd \<noteq> []" using assms by auto
  moreover have "nginx_config_of (RawObj [(''command'', JStr cmd)]) = Some \<lparr>nx_command = cmd, nx_output_name = []\<rparr>"
    by (simp add: nginx_config_of_def unmarshal_def json_struct_def json_str_def folded_keys del: json_fold.simps)
  ultimately show ?thesis
    using assms src_nginx_facts
    by (simp add: validate_source_config_def validate_nginx_source_def nginx_config_json_def omit_empty_def)
qed

lemma nginx_script_runs: "contains (nginx_script rc c out) (sudo_on rc (nx_command c))"
proof -
  have "contains (script_lines ([strict_mode] @ ([] @ sudo_on rc (nx_command c) @ '' > '' @ shell_escape out) # ls)) (sudo_on rc (nx_command c))" for ls
    by (rule contains_line, rule contains_mid)
  then show ?thesis unfolding nginx_script_def by (simp only: append_Cons append_Nil append_assoc)
qed

lemma custom_refused:
  assumes "trim_space cmd \<noteq> []"
  shows "validate_source_config lib src_custom (RawObj [(''command'', JStr cmd), (''allow_untrusted_command'', JBool b)]) False =
    Inl (ErrMsg ''custom commands require explicit unsafe enablement'')"
proof -
  have "custom_config_of (RawObj [(''command'', JStr cmd), (''allow_untrusted_command'', JBool b)]) =
      Some \<lparr>cu_command = cmd, cu_output_name = [], cu_allow_untrusted = b\<rparr>"
    by (simp add: custom_config_of_def unmarshal_def json_struct_def json_str_def json_bool_def folded_keys del: json_fold.simps)
  then show ?thesis
    using assms src_custom_facts by (simp add: validate_source_config_def validate_custom_source_def)
qed

lemma nginx_source_rendered:
  assumes "bs_type s = src_nginx" "bs_config s = nginx_stored cmd"
  shows "\<exists>p script out. render_source_script svc env t d s rc = Inr (p, script, out) \<and> contains script (sudo_on rc cmd)"
  using assms src_nginx_facts nginx_stored_decoded [of cmd] nginx_script_runs [of rc "\<lparr>nx_command = cmd, nx_output_name = ''nginx-full-config''\<rparr>"]
  by (simp add: render_source_script_def Let_def)

end
