(* ===== verification/Backup_Retention.thy ===== *)
theory Backup_Retention
  imports Backup_Storage
begin

text \<open>
  Removing old objects. The locale \<open>object_store\<close> is what \<open>applyRetention\<close> expects of a storage adapter: the
  paths its list returns are those its delete takes. Under it, exactly the expired objects below the prefix are
  removed. The adapter for local directories meets it; the others do not when the target has a base path, because they
  list paths with the base path and put it in front once more when they delete.
\<close>

section \<open>The contract of an adapter\<close>

locale object_store =
  fixes lst :: "string \<Rightarrow> 's \<Rightarrow> object_info list result \<times> 's"
    and del :: "string \<Rightarrow> 's \<Rightarrow> goerr option \<times> 's"
    and wr :: "string \<Rightarrow> 's \<Rightarrow> 's"
    and ok :: "'s \<Rightarrow> bool"
    and objs :: "'s \<Rightarrow> (string \<times> instant) set"
    and covers :: "string \<Rightarrow> string \<Rightarrow> bool"
    and canon :: "string \<Rightarrow> bool"
    and allowed :: "string \<Rightarrow> bool"
  assumes list_state: "ok s \<Longrightarrow> ok (snd (lst pre s)) \<and> objs (snd (lst pre s)) = objs s"
    and listed: "ok s \<Longrightarrow> allowed pre \<Longrightarrow> fst (lst pre s) = Inr obs \<Longrightarrow> ob \<in> set obs \<Longrightarrow>
      canon (oi_path ob) \<and> covers pre (oi_path ob) \<and> (\<exists>t. oi_modified ob = Some t \<and> (oi_path ob, t) \<in> objs s)"
    and complete: "ok s \<Longrightarrow> allowed pre \<Longrightarrow> fst (lst pre s) = Inr obs \<Longrightarrow> (p, t) \<in> objs s \<Longrightarrow> covers pre p \<Longrightarrow>
      \<exists>ob \<in> set obs. oi_path ob = p \<and> oi_modified ob = Some t"
    and unique: "ok s \<Longrightarrow> (p, t) \<in> objs s \<Longrightarrow> (p, u) \<in> objs s \<Longrightarrow> t = u"
    and deleted: "ok s \<Longrightarrow> canon p \<Longrightarrow> fst (del p s) = None \<Longrightarrow> objs (snd (del p s)) = {x \<in> objs s. fst x \<noteq> p}"
    and refused: "ok s \<Longrightarrow> fst (del p s) = Some e \<Longrightarrow> objs (snd (del p s)) = objs s"
    and delete_ok: "ok s \<Longrightarrow> ok (snd (del p s))"
    and logged: "ok (wr m s) = ok s" "objs (wr m s) = objs s"
begin

text \<open>The objects that the removal may take.\<close>

definition stale :: "string \<Rightarrow> instant \<Rightarrow> 's \<Rightarrow> (string \<times> instant) set" where
  "stale pre cutoff s = {x \<in> objs s. covers pre (fst x) \<and> snd x \<le> cutoff}"

lemma delete_expired_step:
  assumes "ok s" "canon p"
  shows "ok (wr m (snd (del p s)))"
    "objs (wr m (snd (del p s))) = (if fst (del p s) = None then {x \<in> objs s. fst x \<noteq> p} else objs s)"
  using assms deleted refused delete_ok by (auto simp: logged split: if_splits)

lemma delete_expired_removes:
  assumes "ok s" "\<forall>ob \<in> set obs. canon (oi_path ob)"
  shows "ok (snd (delete_expired del wr cutoff obs e s)) \<and>
    objs (snd (delete_expired del wr cutoff obs e s)) \<subseteq> objs s \<and>
    (\<forall>x \<in> objs s. (\<forall>ob \<in> set obs. expired cutoff ob \<longrightarrow> oi_path ob \<noteq> fst x) \<longrightarrow> x \<in> objs (snd (delete_expired del wr cutoff obs e s))) \<and>
    (fst (delete_expired del wr cutoff obs e s) = None \<longrightarrow> e = None \<and>
       (\<forall>x \<in> objs (snd (delete_expired del wr cutoff obs e s)). \<forall>ob \<in> set obs. expired cutoff ob \<longrightarrow> oi_path ob \<noteq> fst x))"
  using assms
proof (induction obs arbitrary: s e)
  case (Cons ob obs)
  show ?case
  proof (cases "expired cutoff ob")
    case False
    then show ?thesis using Cons by simp
  next
    case True
    define err where "err = fst (del (oi_path ob) s)"
    define m e1 where "m = (if err \<noteq> None \<and> e = None
        then ''retention delete failed path='' @ oi_path ob @ '' err='' @ err_text (the err) else ''retention deleted path='' @ oi_path ob)"
      and "e1 = (if err \<noteq> None \<and> e = None then err else e)"
    define s1 where "s1 = wr m (snd (del (oi_path ob) s))"
    have run: "delete_expired del wr cutoff (ob # obs) e s = delete_expired del wr cutoff obs e1 s1"
      using True by (simp add: Let_def split_beta err_def m_def e1_def s1_def)
    have c: "canon (oi_path ob)" using Cons.prems(2) by simp
    have s1: "ok s1" "objs s1 = (if err = None then {x \<in> objs s. fst x \<noteq> oi_path ob} else objs s)"
      unfolding s1_def err_def using delete_expired_step [OF Cons.prems(1) c] by simp_all
    have none: "e1 = None \<longleftrightarrow> e = None \<and> err = None" by (auto simp: e1_def)
    have IH: "ok (snd (delete_expired del wr cutoff obs e1 s1)) \<and>
      objs (snd (delete_expired del wr cutoff obs e1 s1)) \<subseteq> objs s1 \<and>
      (\<forall>x \<in> objs s1. (\<forall>ob \<in> set obs. expired cutoff ob \<longrightarrow> oi_path ob \<noteq> fst x) \<longrightarrow> x \<in> objs (snd (delete_expired del wr cutoff obs e1 s1))) \<and>
      (fst (delete_expired del wr cutoff obs e1 s1) = None \<longrightarrow> e1 = None \<and>
         (\<forall>x \<in> objs (snd (delete_expired del wr cutoff obs e1 s1)). \<forall>ob \<in> set obs. expired cutoff ob \<longrightarrow> oi_path ob \<noteq> fst x))"
      using Cons.IH [OF s1(1)] Cons.prems(2) by simp
    have sub: "objs s1 \<subseteq> objs s" and gone: "err = None \<Longrightarrow> x \<in> objs s1 \<Longrightarrow> fst x \<noteq> oi_path ob"
      and stay: "x \<in> objs s \<Longrightarrow> fst x \<noteq> oi_path ob \<Longrightarrow> x \<in> objs s1" for x
      using s1(2) by (auto split: if_splits)
    show ?thesis
      unfolding run using IH sub gone stay none True by (auto 0 3)
  qed
qed simp

lemma retention_exact:
  assumes "ok s" "allowed pre" "apply_retention lst del wr now days pre s = (e, s1)"
  shows "objs s1 \<subseteq> objs s \<and> objs s - objs s1 \<subseteq> stale pre (now - days * day) s \<and>
    (e = None \<and> 0 < days \<longrightarrow> objs s1 = objs s - stale pre (now - days * day) s)"
proof (cases "days \<le> 0")
  case True
  then show ?thesis using assms(3) by (simp add: apply_retention_def)
next
  case days: False
  let ?c = "now - days * day"
  show ?thesis
  proof (cases "fst (lst pre s)")
    case (Inl x)
    then have "e \<noteq> None \<and> s1 = snd (lst pre s)" using assms(3) days by (auto simp: apply_retention_def split_beta)
    then show ?thesis using list_state [OF assms(1), of pre] by auto
  next
    case (Inr obs)
    let ?s = "snd (lst pre s)"
    have r: "delete_expired del wr ?c obs None ?s = (e, s1)" using assms(3) days Inr by (simp add: apply_retention_def split_beta)
    have s: "ok ?s" "objs ?s = objs s" using list_state [OF assms(1)] by simp_all
    have canon: "\<forall>ob \<in> set obs. canon (oi_path ob)" using listed [OF assms(1,2) Inr] by simp
    have d: "objs s1 \<subseteq> objs s" "\<And>x. x \<in> objs s \<Longrightarrow> x \<notin> objs s1 \<Longrightarrow> \<exists>ob \<in> set obs. expired ?c ob \<and> oi_path ob = fst x"
        "\<And>x ob. e = None \<Longrightarrow> x \<in> objs s1 \<Longrightarrow> ob \<in> set obs \<Longrightarrow> expired ?c ob \<Longrightarrow> oi_path ob \<noteq> fst x"
      using delete_expired_removes [OF s(1) canon, of ?c None] r s(2) by auto
    have old: "x \<in> stale pre ?c s" if x: "x \<in> objs s" and ob: "ob \<in> set obs" "expired ?c ob" "oi_path ob = fst x" for x ob
    proof -
      obtain t where "oi_modified ob = Some t" "(fst x, t) \<in> objs s" "covers pre (fst x)"
        using listed [OF assms(1,2) Inr ob(1)] ob(3) by auto
      moreover from this have "t = snd x" using unique [OF assms(1), of "fst x" t "snd x"] x by simp
      ultimately show ?thesis using ob(2) x by (simp add: stale_def expired_def)
    qed
    have new: "x \<notin> objs s1" if "x \<in> stale pre ?c s" "e = None" for x
    proof -
      have "(fst x, snd x) \<in> objs s" "covers pre (fst x)" using that(1) by (simp_all add: stale_def)
      from complete [OF assms(1,2) Inr this] obtain ob where "ob \<in> set obs" "oi_path ob = fst x" "oi_modified ob = Some (snd x)"
        by blast
      then show ?thesis using d(3) [OF that(2), of x ob] that(1) by (auto simp: stale_def expired_def)
    qed
    show ?thesis using d(1,2) old new by blast
  qed
qed

end

section \<open>Paths below a directory\<close>

lemma join_no_slash: "\<forall>w \<in> set ws. seg_ok w \<Longrightarrow> trim_prefix (join ''/'' ws) ''/'' = join ''/'' ws"
proof (cases ws)
  case (Cons w vs)
  moreover assume "\<forall>w \<in> set ws. seg_ok w"
  ultimately obtain c u where w: "w = c # u" "c \<noteq> slash" by (cases w) (auto simp: seg_ok_def)
  have "join ''/'' ws = c # drop 1 (join ''/'' ws)" using Cons w by (cases vs) auto
  then show ?thesis using w(2) by (metis Cons_prefix_Cons slash_def trim_prefix_def)
qed (simp add: trim_prefix_def)

lemma clean_join:
  assumes "\<forall>w \<in> set ws. seg_ok w" "ws \<noteq> []"
  shows "clean_segs True (l @ slash # join ''/'' ws) = clean_segs True l @ ws"
proof -
  have sp: "split_on slash (l @ slash # join ''/'' ws) = split_on slash l @ ws"
    using assms split_on_join [of ws] by (simp add: split_on_append_sep seg_ok_def)
  have "\<forall>w \<in> set ws. w \<noteq> ''..''" using assms(1) by (auto simp: seg_ok_def)
  moreover have "filter (\<lambda>w. w \<noteq> [] \<and> w \<noteq> ''.'') ws = ws" using assms(1) by (intro filter_True) (auto simp: seg_ok_def)
  ultimately have "fold (\<lambda>w st. clean_step True st w) ws st = rev ws @ st" for st
    using clean_fold_plain [of ws True st] by simp
  then show ?thesis by (simp add: clean_segs_def sp)
qed

lemma path_join_below:
  assumes "rooted l" "\<forall>w \<in> set ws. seg_ok w"
  shows "path_join [l, join ''/'' ws] = root_path (clean_segs True l @ ws)"
proof -
  have l: "l \<noteq> []" using assms(1) by auto
  show ?thesis
  proof (cases ws)
    case Nil
    then show ?thesis using l assms(1) by (simp add: path_join_def path_clean_rooted)
  next
    case (Cons w vs)
    then have ne: "ws \<noteq> []" by simp
    have j: "join ''/'' ws \<noteq> []" using Cons assms(2) by (cases vs) (auto simp: seg_ok_def)
    have "rooted (l @ slash # join ''/'' ws)" using assms(1) by (cases l) auto
    then have "path_clean (l @ slash # join ''/'' ws) = root_path (clean_segs True l @ ws)"
      using clean_join [OF assms(2) ne] by (simp add: path_clean_rooted)
    then show ?thesis using l j by (simp add: path_join_def slash_def)
  qed
qed

lemma below_iff:
  assumes "\<forall>w \<in> set bs. seg_ok w" "\<forall>w \<in> set ps. seg_ok w"
  shows "below_dir (root_path bs) (root_path ps) \<longleftrightarrow> prefix bs ps"
proof (cases "bs = []")
  case True
  then show ?thesis by (simp add: below_dir_def root_path_def slash_def)
next
  case False
  then have "root_path bs \<noteq> ''/''" using assms(1) root_path_eq_slash by blast
  moreover have "root_path bs \<noteq> ''.''" by (simp add: root_path_def slash_def)
  ultimately show ?thesis using under_iff [OF assms False] by (simp add: below_dir_def)
qed

lemma path_rel_below:
  assumes "\<forall>w \<in> set (bs @ ws). seg_ok w"
  shows "path_rel (root_path bs) (root_path (bs @ ws)) = join ''/'' ws"
proof -
  have dot: "root_path bs \<noteq> ''.''" by (simp add: root_path_def slash_def)
  have t: "trim_prefix (join ''/'' ws) ''/'' = join ''/'' ws" using assms by (intro join_no_slash) simp
  have s: "trim_prefix (slash # join ''/'' ws) ''/'' = join ''/'' ws" by (simp add: trim_prefix_def slash_def)
  have self: "trim_prefix a a = []" "trim_prefix (a @ b) a = b" for a b :: string by (simp_all add: trim_prefix_def)
  show ?thesis
  proof (cases "bs = [] \<or> ws = []")
    case True
    then show ?thesis using dot t s self by (auto simp: path_rel_def root_path_def slash_def trim_prefix_def)
  next
    case False
    then have "root_path (bs @ ws) = root_path bs @ slash # join ''/'' ws"
      by (simp add: root_path_append) (simp add: root_path_def)
    then show ?thesis using dot s self by (simp add: path_rel_def)
  qed
qed

section \<open>Local directories\<close>

definition clean_root :: "storage_config \<Rightarrow> string list" where
  "clean_root c = clean_segs True (sc_local_path c)"

lemma clean_root_ok: "\<forall>w \<in> set (clean_root c). seg_ok w"
  by (simp add: clean_root_def clean_segs_ok)

text \<open>The target is an absolute path; the files of the machine have clean absolute paths, each one once.\<close>

definition tidy :: "storage_config \<Rightarrow> disk \<Rightarrow> bool" where
  "tidy c d \<longleftrightarrow> rooted (sc_local_path c) \<and> (\<forall>x \<in> set (dk_files d). rooted (fst x) \<and> path_clean (fst x) = fst x) \<and>
     distinct (map fst (dk_files d))"

text \<open>The objects of a target are the files below its directory, by their path relative to it.\<close>

definition local_objects :: "storage_config \<Rightarrow> disk \<Rightarrow> (string \<times> instant) set" where
  "local_objects c d =
     {(join ''/'' ws, t) | ws content t. (root_path (clean_root c @ ws), content, t) \<in> set (dk_files d) \<and> (\<forall>w \<in> set ws. seg_ok w)}"

definition local_covers :: "storage_config \<Rightarrow> string \<Rightarrow> string \<Rightarrow> bool" where
  "local_covers c pre p \<longleftrightarrow> below_dir (local_at c pre) (local_at c p)"

definition local_canon :: "string \<Rightarrow> bool" where
  "local_canon p \<longleftrightarrow> (\<exists>ws. (\<forall>w \<in> set ws. seg_ok w) \<and> p = join ''/'' ws)"

definition no_dotdot :: "string \<Rightarrow> bool" where
  "no_dotdot s \<longleftrightarrow> ''..'' \<notin> set (split_on slash s)"

lemma tidy_file:
  assumes "tidy c d" "(p, x) \<in> set (dk_files d)"
  obtains ps where "p = root_path ps" "\<forall>w \<in> set ps. seg_ok w"
proof -
  have "rooted p" "path_clean p = p" using assms by (auto simp: tidy_def)
  then have "p = root_path (clean_segs True p)" using path_clean_rooted by metis
  then show ?thesis using clean_segs_ok by (intro that) auto
qed

lemma local_at_join:
  assumes "rooted (sc_local_path c)" "\<forall>w \<in> set ws. seg_ok w"
  shows "local_at c (join ''/'' ws) = root_path (clean_root c @ ws)"
  using assms by (simp add: local_at_def join_no_slash path_join_below clean_root_def)

text \<open>A prefix without \<open>..\<close> leads to a place below the target.\<close>

lemma local_at_below:
  assumes "rooted (sc_local_path c)" "no_dotdot pre"
  obtains us where "\<forall>w \<in> set us. seg_ok w" "local_at c pre = root_path (clean_root c @ us)"
proof -
  let ?t = "trim_prefix pre ''/''" and ?l = "sc_local_path c"
  have l: "?l \<noteq> []" using assms(1) by auto
  have dd: "\<forall>w \<in> set (split_on slash ?t). w \<noteq> ''..''"
  proof (cases "prefix ''/'' pre")
    case True
    then obtain u where "pre = slash # u" by (auto simp: prefix_def slash_def)
    then show ?thesis using assms(2) by (auto simp: no_dotdot_def trim_prefix_def slash_def)
  qed (use assms(2) in \<open>auto simp: no_dotdot_def trim_prefix_def\<close>)
  let ?us = "filter (\<lambda>w. w \<noteq> [] \<and> w \<noteq> ''.'') (split_on slash ?t)"
  have ok: "\<forall>w \<in> set ?us. seg_ok w" using dd split_on_no_sep by (fastforce simp: seg_ok_def)
  have "path_join [?l, ?t] = root_path (clean_root c @ ?us)"
  proof (cases "?t = []")
    case True
    then show ?thesis using l assms(1) by (simp add: path_join_def path_clean_rooted clean_root_def)
  next
    case False
    have "clean_segs True (?l @ slash # ?t) = clean_root c @ ?us"
      using clean_fold_plain [OF dd, of True] by (simp add: clean_segs_def clean_root_def split_on_append_sep)
    moreover have "rooted (?l @ slash # ?t)" using assms(1) by (cases ?l) auto
    ultimately show ?thesis using l False by (simp add: path_join_def path_clean_rooted slash_def)
  qed
  then show ?thesis using that [OF ok] by (simp add: local_at_def)
qed

lemma local_object_file:
  assumes "tidy c d" "(p, t) \<in> local_objects c d"
  obtains content where "(local_at c p, content, t) \<in> set (dk_files d)" "local_canon p"
  using assms local_at_join [of c] by (fastforce simp: local_objects_def tidy_def local_canon_def)

lemma local_canon_iff: "tidy c d \<Longrightarrow> local_canon p \<Longrightarrow> local_canon q \<Longrightarrow> local_at c p = local_at c q \<longleftrightarrow> p = q"
proof
  assume a: "tidy c d" "local_canon p" "local_canon q" "local_at c p = local_at c q"
  then obtain ws vs where w: "p = join ''/'' ws" "q = join ''/'' vs" "\<forall>w \<in> set ws. seg_ok w" "\<forall>w \<in> set vs. seg_ok w"
    by (auto simp: local_canon_def)
  then have "root_path (clean_root c @ ws) = root_path (clean_root c @ vs)"
    using a(1,4) local_at_join [of c ws] local_at_join [of c vs] by (simp add: tidy_def)
  then have "clean_root c @ ws = clean_root c @ vs"
    using w clean_root_ok [of c] root_path_inject [of "clean_root c @ ws" "clean_root c @ vs"] by auto
  then show "p = q" using w by simp
qed simp

lemma local_listed:
  assumes "tidy c d" "no_dotdot pre" "fst (local_list c pre d) = Inr obs" "ob \<in> set obs"
  shows "local_canon (oi_path ob) \<and> local_covers c pre (oi_path ob) \<and>
    (\<exists>t. oi_modified ob = Some t \<and> (oi_path ob, t) \<in> local_objects c d)"
proof -
  have r: "rooted (sc_local_path c)" using assms(1) by (simp add: tidy_def)
  obtain us where us: "\<forall>w \<in> set us. seg_ok w" "local_at c pre = root_path (clean_root c @ us)"
    using local_at_below [OF r assms(2)] by blast
  obtain p content t where f: "(p, content, t) \<in> set (dk_files d)" "below_dir (local_at c pre) p"
      "oi_path ob = path_rel (path_clean (sc_local_path c)) p" "oi_modified ob = Some t"
    using assms(3,4) by (auto simp: local_list_def disk_walk_def Let_def split: if_splits)
  obtain ps where ps: "p = root_path ps" "\<forall>w \<in> set ps. seg_ok w" using tidy_file [OF assms(1) f(1)] by blast
  have "prefix (clean_root c @ us) ps"
    using f(2) us ps clean_root_ok [of c] below_iff [of "clean_root c @ us" ps] by auto
  then obtain ws where ws: "ps = clean_root c @ us @ ws" by (auto simp: prefix_def)
  have ok: "\<forall>w \<in> set (us @ ws). seg_ok w" using ps(2) ws by simp
  have path: "oi_path ob = join ''/'' (us @ ws)"
    using f(3) ps ws r path_rel_below [of "clean_root c" "us @ ws"] by (simp add: path_clean_rooted clean_root_def)
  have at: "local_at c (oi_path ob) = p" using local_at_join [OF r ok] path ps(1) ws by simp
  have "(oi_path ob, t) \<in> local_objects c d"
    using f(1) path ok ps(1) ws by (auto simp: local_objects_def)
  moreover have "local_canon (oi_path ob)" unfolding local_canon_def using path ok by blast
  ultimately show ?thesis using f(2,4) at by (simp add: local_covers_def)
qed

lemma local_complete:
  assumes "tidy c d" "fst (local_list c pre d) = Inr obs" "(p, t) \<in> local_objects c d" "local_covers c pre p"
  shows "\<exists>ob \<in> set obs. oi_path ob = p \<and> oi_modified ob = Some t"
proof -
  have r: "rooted (sc_local_path c)" using assms(1) by (simp add: tidy_def)
  obtain content ws where f: "(root_path (clean_root c @ ws), content, t) \<in> set (dk_files d)" "p = join ''/'' ws" "\<forall>w \<in> set ws. seg_ok w"
    using assms(3) by (auto simp: local_objects_def)
  have at: "local_at c p = root_path (clean_root c @ ws)" using local_at_join [OF r f(3)] f(2) by simp
  have rel: "path_rel (path_clean (sc_local_path c)) (root_path (clean_root c @ ws)) = p"
    using path_rel_below [of "clean_root c" ws] clean_root_ok [of c] f(2,3) r by (auto simp: path_clean_rooted clean_root_def)
  let ?e = "\<lparr>en_path = root_path (clean_root c @ ws), en_is_dir = False, en_bytes = int (length content), en_time = t\<rparr>"
  have "?e \<in> set (disk_walk (local_at c pre) d)"
    using f(1) assms(4) at by (force simp: disk_walk_def local_covers_def)
  then show ?thesis using assms(2) rel by (force simp: local_list_def Let_def split: if_splits)
qed

lemma local_unique:
  assumes "tidy c d" "(p, t) \<in> local_objects c d" "(p, u) \<in> local_objects c d" shows "t = u"
proof -
  obtain x y where "(local_at c p, x, t) \<in> set (dk_files d)" "(local_at c p, y, u) \<in> set (dk_files d)"
    using assms local_object_file by metis
  then show ?thesis using assms(1) eq_key_imp_eq_value [of "dk_files d" "local_at c p" "(x, t)" "(y, u)"] by (simp add: tidy_def)
qed

lemma local_delete_files:
  "fst (local_delete c cx_done p d) = None \<Longrightarrow> dk_files (snd (local_delete c cx_done p d)) = filter (\<lambda>(q, _). q \<noteq> local_at c p) (dk_files d)"
  "fst (local_delete c cx_done p d) = Some e \<Longrightarrow> snd (local_delete c cx_done p d) = d"
  by (auto simp: local_delete_def disk_remove_def split: if_splits)

lemma local_deleted:
  assumes "tidy c d" "local_canon p" "fst (local_delete c cx_done p d) = None"
  shows "local_objects c (snd (local_delete c cx_done p d)) = {x \<in> local_objects c d. fst x \<noteq> p}"
proof -
  have r: "rooted (sc_local_path c)" using assms(1) by (simp add: tidy_def)
  have "root_path (clean_root c @ ws) \<noteq> local_at c p \<longleftrightarrow> join ''/'' ws \<noteq> p" if "\<forall>w \<in> set ws. seg_ok w" for ws
    using local_canon_iff [OF assms(1) _ assms(2), of "join ''/'' ws"] local_at_join [OF r that] that by (auto simp: local_canon_def)
  then show ?thesis
    unfolding local_objects_def local_delete_files(1) [OF assms(3)] by (auto simp: case_prod_beta) blast+
qed

lemma local_tidy_delete: "tidy c d \<Longrightarrow> tidy c (snd (local_delete c cx_done p d))"
  by (cases "fst (local_delete c cx_done p d)")
     (auto simp: tidy_def local_delete_files distinct_map intro: inj_on_subset)

interpretation local: object_store "local_list c" "\<lambda>p d. local_delete c (done_at p d) p d" "\<lambda>m d. d" "tidy c" "local_objects c" "local_covers c"
    local_canon no_dotdot for c done_at
proof unfold_locales
  fix d pre assume "tidy c d"
  then show "tidy c (snd (local_list c pre d)) \<and> local_objects c (snd (local_list c pre d)) = local_objects c d"
    by (simp add: local_list_def Let_def)
qed (use local_listed local_complete local_unique local_deleted local_delete_files(2) local_tidy_delete in \<open>blast | simp\<close>)+

section \<open>Targets with a base path\<close>

lemma join_nonempty: "\<forall>w \<in> set ws. seg_ok w \<Longrightarrow> ws \<noteq> [] \<Longrightarrow> join ''/'' ws \<noteq> []"
  by (cases ws; cases "tl ws") (auto simp: seg_ok_def)

lemma clean_root_path: "\<forall>w \<in> set bs. seg_ok w \<Longrightarrow> clean_segs True (root_path bs) = bs"
  using segs_path_clean [of "root_path bs"] path_clean_root_path [of bs] segs_root_path [of bs] by simp

text \<open>A path that is joined to the base path comes below it.\<close>

lemma join_remote_below:
  assumes "\<forall>w \<in> set (bs @ vs). seg_ok w" "vs \<noteq> []" "trim_space (root_path bs) = root_path bs" "trim_space (join ''/'' vs) = join ''/'' vs"
  shows "join_remote [root_path bs, join ''/'' vs] = root_path (bs @ vs)"
proof -
  have "root_path bs \<noteq> []" "join ''/'' vs \<noteq> []" using assms(1,2) join_nonempty [of vs] by (auto simp: root_path_def)
  moreover have "path_join [root_path bs, join ''/'' vs] = root_path (bs @ vs)"
    using assms(1) path_join_below [of "root_path bs" vs] clean_root_path [of bs] by auto
  moreover have "has_prefix (root_path (bs @ vs)) ''/''" by (simp add: root_path_def slash_def)
  ultimately show ?thesis using assms(3,4) by (simp add: join_remote_def Let_def)
qed

lemma join_append: "vs \<noteq> [] \<Longrightarrow> ws \<noteq> [] \<Longrightarrow> join ''/'' (vs @ ws) = join ''/'' vs @ slash # join ''/'' ws"
  using root_path_append [of vs ws] by (simp add: root_path_def)

lemma clean_relative:
  assumes "\<forall>w \<in> set ws. seg_ok w" "ws \<noteq> []" shows "path_clean (join ''/'' ws) = join ''/'' ws"
proof -
  have nr: "\<not> prefix ''/'' (join ''/'' ws)"
    using join_no_slash [OF assms(1)] join_nonempty [OF assms] by (auto simp: trim_prefix_def prefix_def)
  have "clean_segs False (join ''/'' ws) = filter (\<lambda>w. w \<noteq> [] \<and> w \<noteq> ''.'') (split_on slash (join ''/'' ws))"
    using assms split_on_join [of ws] by (intro clean_segs_plain) (auto simp: seg_ok_def)
  also have "\<dots> = ws" using assms split_on_join [of ws] by (auto simp: seg_ok_def intro: filter_True)
  finally show ?thesis using nr join_nonempty [OF assms] by (simp add: path_clean_def Let_def)
qed

lemma s3_key_below:
  assumes "\<forall>w \<in> set (bs @ vs). seg_ok w" "bs \<noteq> []" "vs \<noteq> []" "sc_base_path c = root_path bs"
  shows "s3_key c [join ''/'' vs] = join ''/'' (bs @ vs)"
proof -
  have b: "trim_prefix (root_path bs) ''/'' = join ''/'' bs" by (simp add: trim_prefix_def root_path_def slash_def)
  have "join ''/'' bs \<noteq> []" "join ''/'' vs \<noteq> []" using assms(1-3) join_nonempty [of bs] join_nonempty [of vs] by auto
  then have "path_join [join ''/'' bs, join ''/'' vs] = path_clean (join ''/'' (bs @ vs))"
    using assms(2,3) by (simp add: path_join_def join_append slash_def)
  then show ?thesis
    using clean_relative [OF assms(1)] join_no_slash [OF assms(1)] assms(2,4) b by (simp add: s3_key_def)
qed

text \<open>What an adapter lists of a file below the base path, and where its delete goes.\<close>

lemma listed_below:
  "en_path e = root_path vs \<Longrightarrow> oi_path (entry_object e) = join ''/'' vs"
  by (simp add: entry_object_def root_path_def trim_prefix_def slash_def)

lemma doubled_differs: "bs \<noteq> [] \<Longrightarrow> \<forall>w \<in> set (bs @ ws). seg_ok w \<Longrightarrow> root_path (bs @ bs @ ws) \<noteq> root_path (bs @ ws)"
  using root_path_inject [of "bs @ bs @ ws" "bs @ ws"] by (auto dest: arg_cong [where f = length])

text \<open>A bucket, whose server answers the removal of a key that is not there as if it had removed it.\<close>

lemma s3_keeps_all:
  assumes srv: "\<And>s. srv_dial srv s = None" "\<And>p s. p \<notin> stored s \<Longrightarrow> srv_remove srv p s = (None, s)"
    and wr: "\<And>m s. stored (wr m s) = stored s"
    and obs: "\<forall>ob \<in> set obs. s3_key c [oi_path ob] \<notin> stored s"
  shows "fst (delete_expired (s3_delete srv c) wr cutoff obs None s) = None \<and>
    stored (snd (delete_expired (s3_delete srv c) wr cutoff obs None s)) = stored s"
  using obs
proof (induction obs arbitrary: s)
  case (Cons ob obs)
  have "s3_key c [oi_path ob] \<notin> stored s" using Cons.prems by auto
  then have "s3_delete srv c (oi_path ob) s = (None, s)" by (simp add: s3_delete_def dialled_def srv)
  then show ?case using Cons.IH [of s] Cons.IH [of "wr m s" for m] Cons.prems by (simp add: wr)
qed simp

end
