(* ===== verification/Backup_Configs.thy ===== *)
theory Backup_Configs
  imports Backup_Runner Backup_Health
begin

text \<open>
  \<open>internal/services/backup/templates.go\<close> and \<open>catalog.go\<close>: the templates that come with the program and how
  they are stored at start; and what the backup centre can look up on a node to propose sources.
\<close>

section \<open>Built-in templates\<close>

record template_seed =
  tm_slug :: string
  tm_name :: string
  tm_description :: string
  tm_sources :: "(string \<times> string \<times> jobj) list"

definition dir_seed :: "string \<Rightarrow> string \<Rightarrow> string \<times> string \<times> jobj" where
  "dir_seed name p = (name, src_dir, path_config_json \<lparr>pc_path = p, pc_archive = True\<rparr>)"

definition pg_seed :: "string \<Rightarrow> string \<Rightarrow> string \<times> string \<times> jobj" where
  "pg_seed name c =
     (name, src_pg_container,
      pg_container_config_json \<lparr>pgc_container_name = c, pgc_db_name = [], pgc_db_user = [], pgc_db_password = [],
                                pgc_auto_detect = True, pgc_dump_args = []\<rparr>)"

definition volume_seed :: "string \<Rightarrow> string \<Rightarrow> string \<times> string \<times> jobj" where
  "volume_seed name v = (name, src_volume, volume_config_json \<lparr>vc_volume_name = v, vc_archive = True\<rparr>)"

definition nginx_seed :: "string \<times> string \<times> jobj" where
  "nginx_seed = (''nginx-full-config'', src_nginx, nginx_config_json \<lparr>nx_command = [], nx_output_name = ''nginx-full-config''\<rparr>)"

definition cron_seed :: "string \<times> string \<times> jobj" where
  "cron_seed = (''cron'', src_cron, cron_config_json \<lparr>cn_include_system = True, cn_output_name = ''cron-snapshot''\<rparr>)"

definition inventory_seed :: "string \<times> string \<times> jobj" where
  "inventory_seed = (''docker-inventory'', src_inventory, omit_empty ''output_name'' ''docker-inventory'')"

definition system_seed :: "string \<times> string \<times> jobj" where
  "system_seed = (''system'', src_system, omit_empty ''output_name'' ''system-snapshot'')"

definition built_in_templates :: "template_seed list" where
  "built_in_templates =
     [\<lparr>tm_slug = ''website-server'', tm_name = ''Website Server'',
       tm_description = ''Nginx, certificates, web roots and system snapshots'',
       tm_sources = [dir_seed ''/etc/nginx'' ''/etc/nginx'', dir_seed ''/etc/nginx/sites-available'' ''/etc/nginx/sites-available'',
                     dir_seed ''/etc/nginx/sites-enabled'' ''/etc/nginx/sites-enabled'', dir_seed ''/etc/letsencrypt'' ''/etc/letsencrypt'',
                     dir_seed ''/root/.acme.sh'' ''/root/.acme.sh'', dir_seed ''/var/www'' ''/var/www'', nginx_seed, cron_seed, system_seed]\<rparr>,
      \<lparr>tm_slug = ''remnawave'', tm_name = ''Remnawave'',
       tm_description = ''Remnawave app, database, volumes and infra snapshots'',
       tm_sources = [dir_seed ''/opt/remnawave'' ''/opt/remnawave'', pg_seed ''remnawave-db'' ''remnawave-db'',
                     volume_seed ''remnawave-db-data'' ''remnawave-db-data'', nginx_seed, inventory_seed, cron_seed]\<rparr>,
      \<lparr>tm_slug = ''aggregator-node'', tm_name = ''Aggregator Node'',
       tm_description = ''Aggregator app, postgres, prometheus and infra configs'',
       tm_sources = [dir_seed ''/opt/3x-ui_aggr'' ''/opt/3x-ui_aggr'', pg_seed ''aggregator-postgres'' ''3x-ui_aggr-postgres-1'',
                     dir_seed ''prometheus-config'' ''/opt/3x-ui_aggr/deploy/prometheus'',
                     volume_seed ''prometheus-data'' ''3x-ui_aggr_prometheus_data'', nginx_seed, inventory_seed, cron_seed]\<rparr>,
      \<lparr>tm_slug = ''vaultwarden'', tm_name = ''Vaultwarden'',
       tm_description = ''Vaultwarden app and data with nginx and cron snapshots'',
       tm_sources = [dir_seed ''/opt/vaultwarden'' ''/opt/vaultwarden'', dir_seed ''/opt/vaultwarden/data'' ''/opt/vaultwarden/data'',
                     nginx_seed, cron_seed]\<rparr>,
      \<lparr>tm_slug = ''docker-postgres-app'', tm_name = ''Docker app + PostgreSQL'',
       tm_description = ''Generic dockerized application with postgres and host snapshots'',
       tm_sources = [dir_seed ''application-root'' ''/opt/app'', pg_seed ''postgres-container'' ''postgres'', inventory_seed, system_seed]\<rparr>,
      \<lparr>tm_slug = ''generic-linux-server'', tm_name = ''Generic Linux server'',
       tm_description = ''Host configuration snapshots with selected paths'',
       tm_sources = [dir_seed ''/etc'' ''/etc'', dir_seed ''/var/www'' ''/var/www'', system_seed, cron_seed]\<rparr>]"

fun template_sources :: "bk_env \<Rightarrow> string \<Rightarrow> nat \<Rightarrow> (string \<times> string \<times> jobj) list \<Rightarrow> tpl_source list result" where
  "template_sources env slug n [] = Inr []"
| "template_sources env slug n ((name, ty, cfg) # ss) =
     (case validate_source_config env ty (RawObj cfg) False of
        Inl e \<Rightarrow> Inl (wrap_err (''template '' @ slug @ '' source '' @ name) e)
      | Inr raw \<Rightarrow>
          (case template_sources env slug (Suc n) ss of
             Inl e \<Rightarrow> Inl e
           | Inr ts \<Rightarrow> Inr (\<lparr>ts_name = trim_space name, ts_type = ty, ts_order = int n, ts_enabled = True, ts_config = raw\<rparr> # ts)))"

definition build_template_definition :: "bk_env \<Rightarrow> template_seed \<Rightarrow> tpl_source list result" where
  "build_template_definition env t = template_sources env (tm_slug t) 0 (tm_sources t)"

definition put_template :: "bk_template \<Rightarrow> bk \<Rightarrow> goerr + bk" where
  "put_template t v =
     (if bp_slug t \<in> bp_slug ` set (bk_templates v) then Inl ErrUnique
      else case row_put bp_id t (bk_templates v) of
             None \<Rightarrow> Inl ErrUnique
           | Some rows \<Rightarrow> Inr (v\<lparr>bk_templates := rows\<rparr>))"

definition save_template :: "bk_env \<Rightarrow> bk_template \<Rightarrow> bk \<Rightarrow> goerr + bk" where
  "save_template env t v =
     (if \<exists>x \<in> set (bk_templates v). bp_slug x = bp_slug t \<and> bp_id x \<noteq> bp_id t then Inl ErrUnique
      else Inr (v\<lparr>bk_templates := save_row env bp_id t (bk_templates v)\<rparr>))"

definition ensure_template :: "bk_env \<Rightarrow> template_seed \<Rightarrow> bk \<Rightarrow> unit result \<times> bk" where
  "ensure_template env t =
     bk_lift (build_template_definition env t) (\<lambda>srcs.
       bk_then (bk_first env Background bk_templates (\<lambda>r. bp_slug r = tm_slug t)) (\<lambda>found.
         case found of
           Inr old \<Rightarrow>
             bk_check (bk_write env Background (save_template env
                 (old\<lparr>bp_name := tm_name t, bp_description := tm_description t, bp_sources := Inr srcs\<rparr>)))
               (bk_ret (Inr ()))
         | Inl e \<Rightarrow>
             if e \<noteq> ErrNotFound then bk_ret (Inl e)
             else bk_then (bk_new_uuid env) (\<lambda>u.
                    bk_check (bk_write env Background (put_template
                        \<lparr>bp_id = u, bp_slug = tm_slug t, bp_name = tm_name t, bp_description = tm_description t,
                         bp_sources = Inr srcs\<rparr>))
                      (bk_ret (Inr ())))))"

primrec ensure_templates :: "bk_env \<Rightarrow> template_seed list \<Rightarrow> bk \<Rightarrow> unit result \<times> bk" where
  "ensure_templates env [] = bk_ret (Inr ())"
| "ensure_templates env (t # ts) = bk_try (ensure_template env t) (\<lambda>_. ensure_templates env ts)"

definition ensure_built_in_templates :: "bk_env \<Rightarrow> bk \<Rightarrow> unit result \<times> bk" where
  "ensure_built_in_templates env = ensure_templates env built_in_templates"

text \<open>\<open>New\<close>: the service, and what it does to the tables at once. Errors are ignored.\<close>

definition start_backup :: "bk_env \<Rightarrow> bool \<Rightarrow> string \<Rightarrow> string list \<Rightarrow> bk \<Rightarrow> bk_svc \<times> bk" where
  "start_backup env has_enc data_dir sudo_passwords =
     bk_drop (ensure_built_in_templates env)
       (bk_drop (refresh_job_enabled_metric env) (bk_ret (new_backup has_enc data_dir sudo_passwords)))"

section \<open>Looking up sources on a node\<close>

record catalog_entry =
  ca_name :: string
  ca_label :: string
  ca_extra :: "(string \<times> string) option"
  ca_row :: "jobj option"

definition plain_entry :: "string \<Rightarrow> catalog_entry" where
  "plain_entry p = \<lparr>ca_name = p, ca_label = p, ca_extra = None, ca_row = None\<rparr>"

definition common_paths :: "catalog_entry list" where
  "common_paths = map plain_entry
     [''/etc/nginx'', ''/etc/nginx/sites-available'', ''/etc/nginx/sites-enabled'', ''/etc/letsencrypt'', ''/root/.acme.sh'',
      ''/opt/remnawave'', ''/opt/3x-ui_aggr'', ''/opt/vaultwarden'', ''/var/www'', ''/srv/www'']"

definition inspect_remote_catalog :: "bk_svc \<Rightarrow> bk_env \<Rightarrow> uuid \<Rightarrow> uuid \<Rightarrow> string \<Rightarrow> bk \<Rightarrow> string list result \<times> bk" where
  "inspect_remote_catalog svc env org node cmd =
     bk_try (bk_first env Background bk_nodes (\<lambda>n. n_id n = node \<and> n_org_id n = Some org)) (\<lambda>n.
       bk_try (open_remote_client svc env n) (\<lambda>_.
         bk_then (run_remote env cmd) (\<lambda>(output, _, err).
           bk_ret (case err of
                     Some e \<Rightarrow> Inl e
                   | None \<Rightarrow> Inr (filter (\<lambda>l. l \<noteq> []) (map trim_space (split_on CHR 0x0A output)))))))"

text \<open>\<open>row[key].(string)\<close>: the last member of this name, or the empty text when it is not a text.\<close>

definition map_text :: "jobj \<Rightarrow> string \<Rightarrow> string" where
  "map_text ms key = (case map_of (rev ms) key of Some (JStr s) \<Rightarrow> s | _ \<Rightarrow> [])"

definition docker_entries :: "bk_env \<Rightarrow> string \<Rightarrow> string \<Rightarrow> string \<Rightarrow> string list \<Rightarrow> catalog_entry list" where
  "docker_entries env name_key info_key info ls =
     map (\<lambda>ms. \<lparr>ca_name = map_text ms name_key, ca_label = map_text ms name_key, ca_extra = Some (info, map_text ms info_key),
               ca_row = Some ms\<rparr>)
       (List.map_filter (be_json env) ls)"

definition list_docker_containers :: "bk_svc \<Rightarrow> bk_env \<Rightarrow> uuid \<Rightarrow> uuid \<Rightarrow> bk \<Rightarrow> catalog_entry list result \<times> bk" where
  "list_docker_containers svc env org node =
     bk_try (inspect_remote_catalog svc env org node (''docker ps -a --format '' @ sq @ ''{{json .}}'' @ sq)) (\<lambda>ls.
       bk_ret (Inr (docker_entries env ''Names'' ''Image'' ''image'' ls)))"

definition list_docker_volumes :: "bk_svc \<Rightarrow> bk_env \<Rightarrow> uuid \<Rightarrow> uuid \<Rightarrow> bk \<Rightarrow> catalog_entry list result \<times> bk" where
  "list_docker_volumes svc env org node =
     bk_try (inspect_remote_catalog svc env org node (''docker volume ls --format '' @ sq @ ''{{json .}}'' @ sq)) (\<lambda>ls.
       bk_ret (Inr (docker_entries env ''Name'' ''Driver'' ''driver'' ls)))"

definition list_postgres_containers :: "bk_svc \<Rightarrow> bk_env \<Rightarrow> uuid \<Rightarrow> uuid \<Rightarrow> bk \<Rightarrow> catalog_entry list result \<times> bk" where
  "list_postgres_containers svc env org node =
     bk_try (list_docker_containers svc env org node) (\<lambda>cs.
       bk_ret (Inr (filter (\<lambda>c. case ca_extra c of None \<Rightarrow> False | Some (_, img) \<Rightarrow> contains (to_lower img) ''postgres'') cs)))"

definition detect_command :: string where
  "detect_command =
     ''for p in /etc/nginx /etc/letsencrypt /root/.acme.sh /opt/remnawave /opt/3x-ui_aggr /opt/vaultwarden /var/www /srv/www; '' @
     ''do [ -e '' @ dq @ ''$p'' @ dq @ '' ] && echo '' @ dq @ ''$p'' @ dq @ ''; done''"

definition detect_system_sources :: "bk_svc \<Rightarrow> bk_env \<Rightarrow> uuid \<Rightarrow> uuid \<Rightarrow> bk \<Rightarrow> catalog_entry list result \<times> bk" where
  "detect_system_sources svc env org node =
     bk_try (inspect_remote_catalog svc env org node detect_command) (\<lambda>ls. bk_ret (Inr (map plain_entry ls)))"


text \<open>
  What \<open>ValidateSourceConfig\<close> stores can be used: the stored configuration is decoded to the one that was
  checked, so the script of an accepted source can be rendered, whatever the run.
\<close>

lemma config_keys:
  "json_fold ''path'' = ''path''" "json_fold ''archive'' = ''archive''" "json_fold ''volume_name'' = ''volume_name''"
  "json_fold ''container_name'' = ''container_name''" "json_fold ''db_name'' = ''db_name''" "json_fold ''db_user'' = ''db_user''"
  "json_fold ''db_password'' = ''db_password''" "json_fold ''auto_detect_from_env'' = ''auto_detect_from_env''"
  "json_fold ''dump_args'' = ''dump_args''" "json_fold ''host'' = ''host''" "json_fold ''port'' = ''port''"
  "json_fold ''command'' = ''command''" "json_fold ''output_name'' = ''output_name''"
  "json_fold ''include_system'' = ''include_system''" "json_fold ''allow_untrusted_command'' = ''allow_untrusted_command''"
  by code_simp+

lemmas decode_defs = unmarshal_def json_struct_def json_str_def json_bool_def json_int_def omit_empty_def config_keys

lemma path_config_stored: "path_config_of (RawObj (path_config_json c)) = Some c"
  by (simp add: path_config_of_def path_config_json_def decode_defs del: json_fold.simps)

lemma volume_config_stored: "volume_config_of (RawObj (volume_config_json c)) = Some c"
  by (simp add: volume_config_of_def volume_config_json_def decode_defs del: json_fold.simps)

lemma cron_config_stored: "cron_config_of (RawObj (cron_config_json c)) = Some c"
  by (simp add: cron_config_of_def cron_config_json_def decode_defs del: json_fold.simps)

lemma nginx_config_stored: "nginx_config_of (RawObj (nginx_config_json c)) = Some c"
  by (simp add: nginx_config_of_def nginx_config_json_def decode_defs del: json_fold.simps)

lemma output_name_stored: "output_name_of (RawObj (omit_empty ''output_name'' n)) = Some n"
  by (simp add: output_name_of_def decode_defs del: json_fold.simps)

lemma pg_container_stored: "pg_container_config_of (RawObj (pg_container_config_json c)) = Some c"
  by (simp add: pg_container_config_of_def pg_container_config_json_def decode_defs del: json_fold.simps)

text \<open>A number that was decoded fits its width.\<close>

definition fits64 :: "int \<Rightarrow> bool" where
  "fits64 i \<longleftrightarrow> - (2 ^ 63) \<le> i \<and> i < 2 ^ 63"

lemma json_int_range: "fits64 (json_int ms k)"
proof -
  define f where "f = (\<lambda>(x, v) acc. if json_fold x = k then (case v of JInt i \<Rightarrow> if fits64 i then i else acc | _ \<Rightarrow> acc) else acc)"
  have step: "fits64 (f x a)" if "fits64 a" for x a
    using that by (cases x) (simp add: f_def split: json.split)
  have "fits64 (fold f ms a)" if "fits64 a" for a
    using that by (induction ms arbitrary: a) (simp_all add: step)
  moreover have "fits64 0" by (simp add: fits64_def)
  ultimately show ?thesis unfolding json_int_def f_def fits64_def [symmetric] by blast
qed

lemma pg_manual_port_range: "pg_manual_config_of raw = Some c \<Longrightarrow> fits64 (pgm_port c)"
  using json_int_range by (cases raw) (auto simp: pg_manual_config_of_def unmarshal_def simp del: json_fold.simps split: if_splits)

lemma pg_manual_stored:
  "fits64 (pgm_port c) \<Longrightarrow> pg_manual_config_of (RawObj (pg_manual_config_json c)) = Some c"
  by (simp add: pg_manual_config_of_def pg_manual_config_json_def decode_defs fits64_def del: json_fold.simps)

text \<open>The configuration of a source fits its type.\<close>

definition config_fits :: "string \<Rightarrow> raw_json \<Rightarrow> bool" where
  "config_fits t cfg \<longleftrightarrow>
     (t = src_file \<or> t = src_dir) \<and> path_config_of cfg \<noteq> None \<or> t = src_volume \<and> volume_config_of cfg \<noteq> None \<or>
     t = src_pg_container \<and> pg_container_config_of cfg \<noteq> None \<or> t = src_pg_manual \<and> pg_manual_config_of cfg \<noteq> None \<or>
     t = src_nginx \<and> nginx_config_of cfg \<noteq> None \<or> t = src_cron \<and> cron_config_of cfg \<noteq> None \<or>
     (t = src_inventory \<or> t = src_system) \<and> output_name_of cfg \<noteq> None"

lemma validated_parts:
  "validate_path_source lib t raw = Inr cfg \<Longrightarrow> path_config_of cfg \<noteq> None"
  "validate_volume_source lib raw = Inr cfg \<Longrightarrow> volume_config_of cfg \<noteq> None"
  "validate_pg_container lib raw = Inr cfg \<Longrightarrow> pg_container_config_of cfg \<noteq> None"
  "validate_nginx_source lib raw = Inr cfg \<Longrightarrow> nginx_config_of cfg \<noteq> None"
  "validate_cron_source lib raw = Inr cfg \<Longrightarrow> cron_config_of cfg \<noteq> None"
  "validate_output_name lib what dflt raw = Inr cfg \<Longrightarrow> output_name_of cfg \<noteq> None"
  by (auto simp: validate_path_source_def validate_volume_source_def validate_pg_container_def validate_nginx_source_def
      validate_cron_source_def validate_output_name_def bad_config_def Let_def path_config_stored volume_config_stored
      pg_container_stored nginx_config_stored cron_config_stored output_name_stored split: option.splits if_splits)

lemma validated_pg_manual:
  assumes "validate_pg_manual lib raw = Inr cfg" shows "pg_manual_config_of cfg \<noteq> None"
proof -
  obtain c where c: "pg_manual_config_of raw = Some c"
    using assms by (auto simp: validate_pg_manual_def bad_config_def split: option.splits)
  have "fits64 5432" by (simp add: fits64_def)
  then show ?thesis
    using assms c pg_manual_port_range [OF c]
    by (auto simp: validate_pg_manual_def Let_def pg_manual_stored split: if_splits)
qed

lemma custom_needs_unsafe: "validate_custom_source lib raw False \<noteq> Inr cfg"
  by (simp add: validate_custom_source_def bad_config_def Let_def split: option.splits)

lemma validated_fits: "validate_source_config lib t raw False = Inr cfg \<Longrightarrow> config_fits (trim_space t) cfg"
  unfolding validate_source_config_def Let_def config_fits_def
  by (simp split: if_split_asm add: custom_needs_unsafe)
     (blast dest: validated_parts validated_pg_manual)+

lemma fitting_renders:
  assumes "config_fits (bs_type s) (bs_config s)" shows "renders svc env s"
  using assms unfolding config_fits_def renders_def
  by (auto simp: render_source_script_def Let_def src_defs)

end
