(* ===== verification/Backup_Properties.thy ===== *)
theory Backup_Properties
  imports Backup_Invariant Backup_Delivery Backup_Health Backup_Shell Backup_Retention Backup_Configs
begin

text \<open>
  A concrete backup centre for the instances of the properties: a node, a local storage target, a job with one
  directory, and an environment in which nothing fails.
\<close>

definition xb_env :: bk_env where
  "xb_env =
     \<lparr>bl_json_text = \<lambda>_. ''json'', bl_cron = \<lambda>_. Inr (\<lambda>z t. t + minute), bl_zone = \<lambda>_. True, be_now = \<lambda>n. 1000 * int n,
      be_fail = \<lambda>_. None, be_text = \<lambda>_. ''sum'', be_int = \<lambda>_. 10, be_objects = \<lambda>_. [], be_other = \<lambda>n w. w,
      be_uuid = \<lambda>n. of_nat (n + 100), be_uuid_text = \<lambda>_. ''0000000100'', be_lower = to_lower, be_rank = length, be_json = \<lambda>_. None, be_marshal = \<lambda>_. ''{}'',
      be_unmarshal = \<lambda>_. (zero_storage\<lparr>sc_base_path := ''/'', sc_local_path := ''/srv''\<rparr>, None), be_encrypt = Inr,
      be_decrypt = Inr, be_upserts = True, be_zero_defaults = True\<rparr>"

definition xb_node :: node where
  "xb_node =
     \<lparr>n_id = 5, n_org_id = Some 1, n_name = ''node'', n_kind = ''host'', n_host = ''h'', n_base_url = [], n_is_sandbox = False,
      n_agent_enabled = False, n_agent_url = None, n_agent_installed = False, n_agent_last_seen = None, n_is_enabled = True,
      n_ssh_enabled = True, n_ssh_host = ''h'', n_ssh_port = 22, n_allowed_roots = [], n_agent_token_enc = None,
      n_agent_version = None, n_service_version = None, n_versions_checked_at = None,
      n_runtime_version = None, n_ssh_user = ''root'', n_ssh_auth_method = ''key'', n_ssh_key_enc = ''k'', n_verify_tls = True\<rparr>"

definition xb_target :: bk_target where
  "xb_target =
     \<lparr>bt_id = 2, bt_org_id = 1, bt_name = ''disk'', bt_type = ''local'', bt_config_enc = ''x'', bt_enabled = True,
      bt_last_tested_at = None, bt_last_test_status = None, bt_last_test_error = None, bt_created_at = 0\<rparr>"

definition xb_job :: bk_job where
  "xb_job =
     \<lparr>bj_id = 3, bj_org_id = 1, bj_node_id = Some 5, bj_name = ''nightly'', bj_description = [], bj_enabled = True,
      bj_timezone = ''UTC'', bj_cron = ''0 3 * * *'', bj_retention_days = 14, bj_target_id = 2, bj_compression_enabled = True,
      bj_compression_level = None, bj_upload_concurrency = 2, bj_last_run_at = None, bj_last_success_at = None,
      bj_last_status = bk_idle, bj_last_error = None, bj_last_size = 0, bj_created_at = 0\<rparr>"

definition xb_source :: bk_source where
  "xb_source =
     \<lparr>bs_id = 4, bs_job_id = 3, bs_type = src_dir, bs_name = ''etc'', bs_enabled = True, bs_order = 0,
      bs_config = RawObj [(''path'', JStr ''/etc''), (''archive'', JBool True)], bs_created_at = 0\<rparr>"

definition xb_bk :: bk where
  "xb_bk =
     \<lparr>bk_nodes = [xb_node], bk_targets = [xb_target], bk_jobs = [xb_job], bk_sources = [xb_source], bk_runs = [],
      bk_items = [], bk_templates = [], bk_live = [], bk_stopped = [], bk_started = [], bk_trace = [], bk_log = [],
      bk_n = 0, bk_uid = 0\<rparr>"

definition xb_svc :: bk_svc where
  "xb_svc = new_backup True ''/data'' []"

text \<open>The same environment, in which the run 100 is cancelled while its script runs.\<close>

definition xb_cancelling :: bk_env where
  "xb_cancelling = xb_env\<lparr>be_other := \<lambda>n w. if n = 20 then w\<lparr>bk_stopped := 100 # bk_stopped w\<rparr> else w\<rparr>"


text \<open>
  What the backup centre guarantees, and where it does not: the states of runs, cancelled runs.
\<close>

lemma bk_runs_ok:
  assumes "\<forall>e \<in> set es. polite_to bk_ok (snd e)" "bk_ok w"
  shows "bk_ok (run (bk_step svc) es w)"
  using assms by (induction es arbitrary: w) (auto intro: bk_step_ok)

lemma polite_calm: "\<forall>n w. be_other env n w = w \<Longrightarrow> polite_to I env"
  by (simp add: polite_to_def)

text \<open>C33: However requests, ticks and executions of backups follow and overlap and whatever fails, every stored
  run is queued or running, or finished with its time as a success, a failure or a partial success, and no job
  remembers another state. The state cancelled, which the code derives, is never stored: the context that tells the
  run of its cancellation also makes the statement fail that would store it.\<close>

theorem no_backup_is_stored_as_cancelled:
  assumes "\<forall>e \<in> set es. polite_to bk_ok (snd e)" "bk_ok w"
  shows "list_all (\<lambda>r. br_status r \<in> {''queued'', ''running''} \<or>
             br_status r \<in> {''success'', ''failed'', ''partial_success''} \<and> br_finished_at r \<noteq> None)
           (bk_runs (run (bk_step svc) es w)) \<and>
         list_all (\<lambda>j. bj_last_status j \<in> {''idle'', ''success'', ''failed'', ''partial_success''})
           (bk_jobs (run (bk_step svc) es w))"
  using bk_runs_ok [OF assms, of svc]
  by (auto simp: bk_ok_def run_row_ok_def job_row_ok_def list_all_iff bk_status_defs)

lemma xb_bk_ok: "bk_ok xb_bk"
  by (simp add: bk_ok_def xb_bk_def job_row_ok_def xb_job_def)

lemma xb_cancelling_polite: "polite_to bk_ok xb_cancelling"
  by (auto simp: polite_to_def bk_ok_def xb_cancelling_def xb_env_def)

lemma no_backup_is_stored_as_cancelled_witness:
  "list_all (\<lambda>r. br_status r \<in> {''queued'', ''running''} \<or>
       br_status r \<in> {''success'', ''failed'', ''partial_success''} \<and> br_finished_at r \<noteq> None)
     (bk_runs (run (bk_step xb_svc) [(EvTrigger 1 3 None, xb_env), (EvExecute 100, xb_cancelling)] xb_bk))"
  by (rule no_backup_is_stored_as_cancelled [THEN conjunct1])
     (simp_all add: xb_bk_ok xb_cancelling_polite polite_calm xb_env_def)

text \<open>A run whose context is done stays queued or running in the table through the collection, the uploads, the
  closing and the handling of errors, whatever fails, as long as the others leave its row alone; and while it is, its
  job accepts no other run. The stages keep the row open before the cancellation too.\<close>

theorem cancelled_run_blocks_its_job:
  assumes "polite_to (stuck i job) env" "polite_to (open_row i job) env" "stuck i job w"
    and "br_id rn = i" "br_job_id rn = job" "br_status rn = ''running''"
    and "calm later" "\<exists>j \<in> set (bk_jobs w). bj_org_id j = org \<and> bj_id j = job"
  shows "stuck i job (snd (deliver_run svc env (RunCtx i) d c rn j srcs w)) \<and>
    stuck i job (snd (close_run env (RunCtx i) rn j arts ee ue ce w)) \<and>
    stuck i job (snd (finish_run_with_error env (RunCtx i) rn j has_log what e w)) \<and>
    (open_row i job v \<longrightarrow> open_row i job (snd (collect_artifacts svc env (RunCtx i) rn j srcs v)) \<and>
      open_row i job (snd (upload_artifacts env (RunCtx i) dir arts rn None v))) \<and>
    fst (trigger_run later org job trigger by w) = Inl (ErrMsg ''job already has a queued or running backup'')"
proof (intro conjI impI)
  show "stuck i job (snd (deliver_run svc env (RunCtx i) d c rn j srcs w))"
    using stuck_deliver [OF assms(1)] assms(3) by (simp add: stuck.sound_def)
  show "stuck i job (snd (close_run env (RunCtx i) rn j arts ee ue ce w))"
    using stuck_close [OF assms(1)] assms(3) by (simp add: stuck.sound_def)
  show "stuck i job (snd (finish_run_with_error env (RunCtx i) rn j has_log what e w))"
    using stuck_finish [OF assms(1)] assms(3) by (simp add: stuck.sound_def)
  have rn: "is_open i job rn"
    using assms(4-6) by (simp add: is_open_def run_blocks_def bk_status_defs)
  show "open_row i job (snd (collect_artifacts svc env (RunCtx i) rn j srcs v))" if "open_row i job v"
    using opened_stages.sound_collect [OF assms(2) rn] that by (simp add: opened.sound_def)
  show "open_row i job (snd (upload_artifacts env (RunCtx i) dir arts rn None v))" if "open_row i job v"
    using opened_stages.sound_upload [OF assms(2) rn] that by (simp add: opened.sound_def)
  show "fst (trigger_run later org job trigger by w) = Inl (ErrMsg ''job already has a queued or running backup'')"
    using assms(3,7,8) by (intro busy_job_refuses) (auto simp: stuck_def)
qed

definition xb_run :: bk_run where
  "xb_run = (queued_run 100 1 3 trigger_manual None 0)\<lparr>br_status := bk_running\<rparr>"

definition xb_stuck :: bk where
  "xb_stuck = xb_bk\<lparr>bk_runs := [xb_run], bk_stopped := [100]\<rparr>"

lemma xb_stuck_sel: "stuck 100 3 xb_stuck" "br_id xb_run = 100" "br_job_id xb_run = 3" "br_status xb_run = ''running''"
    "\<exists>j \<in> set (bk_jobs xb_stuck). bj_org_id j = 1 \<and> bj_id j = 3"
  by (simp_all add: stuck_def open_row_def xb_stuck_def xb_run_def queued_run_def run_blocks_def bk_status_defs
      xb_bk_def xb_job_def)

lemma xb_env_calm: "calm xb_env"
  by (simp add: calm_def xb_env_def)

lemma cancelled_run_blocks_its_job_witness:
  "stuck 100 3 (snd (deliver_run xb_svc xb_env (RunCtx 100) ''/data'' zero_storage xb_run xb_job [xb_source] xb_stuck)) \<and>
   fst (trigger_run xb_env 1 3 ''manual'' None xb_stuck) = Inl (ErrMsg ''job already has a queued or running backup'')"
proof -
  have p: "polite_to I xb_env" for I
    by (rule polite_calm) (simp add: xb_env_def)
  show ?thesis
    using cancelled_run_blocks_its_job [OF p p xb_stuck_sel(1-4) xb_env_calm xb_stuck_sel(5)] by blast
qed

section \<open>Complete backups\<close>

text \<open>C7: An execution that reports no error is complete, whatever others did meanwhile: the storage target answered
  the test; for every enabled source of the job, as it was loaded, the script was sent, run and its result fetched;
  every artifact was uploaded to the directory of the run, and so was the manifest of their checksums, unless writing
  or reading it failed.\<close>

theorem finished_backups_are_complete:
  assumes "fst (execute_run svc env i w) = None"
  shows "\<exists>rn job srcs target c cs. fst (load_run_context env (RunCtx i) i w) = Inr (rn, job, srcs, target, c) \<and>
    bk_trace (snd (execute_run svc env i w)) = bk_trace w @ cs \<and> completed svc env rn job srcs (set cs)"
proof -
  obtain cs where cs: "bk_trace (snd (execute_run svc env i w)) = bk_trace w @ cs"
      "accomplished svc env (fst (load_run_context env (RunCtx i) i w)) (set cs)"
    using execute_run_calls [of svc env i w] assms by blast
  show ?thesis
  proof (cases "fst (load_run_context env (RunCtx i) i w)")
    case (Inl e) then show ?thesis using cs(2) by (simp add: accomplished_def)
  next
    case (Inr l)
    obtain rn job srcs target c where "l = (rn, job, srcs, target, c)" by (cases l)
    then show ?thesis using cs Inr by (auto simp: accomplished_def)
  qed
qed

definition xb_ready :: bk where
  "xb_ready = xb_bk\<lparr>bk_runs := [queued_run 100 1 3 trigger_manual None 0]\<rparr>"

lemma xb_load:
  "fst (load_run_context xb_env (RunCtx 100) 100 xb_ready) =
     Inr (queued_run 100 1 3 trigger_manual None 0, xb_job, [xb_source], xb_target, zero_storage\<lparr>sc_base_path := ''/'', sc_local_path := ''/srv''\<rparr>)"
proof -
  have "trim_space ''x'' = ''x''" by code_simp
  then have dec: "decrypt_storage_config xb_env (bt_config_enc xb_target) = (zero_storage\<lparr>sc_base_path := ''/'', sc_local_path := ''/srv''\<rparr>, None)"
    by (simp add: decrypt_storage_config_def xb_target_def xb_env_def)
  have run: "br_id (queued_run 100 1 3 trigger_manual None 0) = 100" "br_org_id (queued_run 100 1 3 trigger_manual None 0) = 1"
      "br_job_id (queued_run 100 1 3 trigger_manual None 0) = 3"
    by (simp_all add: queued_run_def)
  have rows: "bk_runs xb_ready = [queued_run 100 1 3 trigger_manual None 0]" "bk_jobs xb_ready = [xb_job]"
      "bk_sources xb_ready = [xb_source]" "bk_targets xb_ready = [xb_target]" "bk_stopped xb_ready = []"
    by (simp_all add: xb_ready_def xb_bk_def)
  have cols: "bj_id xb_job = 3" "bj_org_id xb_job = 1" "bj_target_id xb_job = 2" "bt_id xb_target = 2" "bt_org_id xb_target = 1"
      "bs_job_id xb_source = 3"
    by (simp_all add: xb_job_def xb_target_def xb_source_def)
  have calm: "be_fail xb_env n = None" "be_other xb_env n w = w" for n w by (simp_all add: xb_env_def)
  show ?thesis
    by (simp add: load_run_context_def get_backup_job_def get_storage_target_def bk_first_def bk_query_def bk_stmt_def bk_meet_def
        bk_try_def bk_then_def bk_ret_def ctx_done_def Let_def calm rows run cols dec sources_of_def)
qed

lemma xb_renders: "renders xb_svc xb_env xb_source"
proof -
  have "path_config_of (bs_config xb_source) = Some \<lparr>pc_path = ''/etc'', pc_archive = True\<rparr>"
    by code_simp
  then show ?thesis
    by (simp add: renders_def render_source_script_def Let_def) (simp add: xb_source_def)
qed

lemma xb_healthy: "healthy xb_env 2 2 100 3 [xb_node] {} xb_ready"
  by (simp add: healthy_def has_run_def has_job_def xb_ready_def xb_bk_def queued_run_def xb_job_def)

lemma xb_fresh: "inj_on (be_uuid xb_env) {..<2}"
  by (auto simp: xb_env_def inj_on_def numeral_2_eq_2 less_Suc_eq)

lemma xb_node_ready: "node_ready xb_job [xb_node]"
  by (simp add: node_ready_def job_node_def xb_job_def xb_node_def uuid_nil_def)

lemma xb_ready_facts:
  "br_id (queued_run 100 1 3 trigger_manual None 0) = 100"
  "healthy xb_env 2 (Suc (length [xb_source])) 100 (br_job_id (queued_run 100 1 3 trigger_manual None 0)) [xb_node] {} xb_ready"
  "node_ready xb_job [xb_node]" "bsv_has_encryptor xb_svc" "storage_known xb_target"
  "\<forall>s \<in> set [xb_source]. bs_enabled s \<longrightarrow> renders xb_svc xb_env s"
  using xb_healthy xb_node_ready
  by (simp_all add: queued_run_def numeral_2_eq_2 xb_svc_def new_backup_def storage_known_def xb_target_def xb_renders [unfolded xb_svc_def new_backup_def])

lemma xb_succeeds: "fst (execute_run xb_svc xb_env 100 xb_ready) = None"
  by (rule healthy_run_succeeds [OF xb_env_calm xb_fresh xb_load xb_ready_facts, THEN conjunct1])

lemma finished_backups_are_complete_witness:
  "\<exists>rn job srcs target c cs. fst (load_run_context xb_env (RunCtx 100) 100 xb_ready) = Inr (rn, job, srcs, target, c) \<and>
    bk_trace (snd (execute_run xb_svc xb_env 100 xb_ready)) = bk_trace xb_ready @ cs \<and> completed xb_svc xb_env rn job srcs (set cs)"
  by (rule finished_backups_are_complete [OF xb_succeeds])

text \<open>C31: A backup succeeds when nothing stands in its way: nothing fails and nobody interferes, the run, its job
  and a node with SSH are there, the storage type is known, every enabled source can be rendered, and the identifiers
  of the items are new. Then the execution returns no error and the run is stored as a success.\<close>

theorem healthy_backups_succeed:
  assumes "calm env" "inj_on (be_uuid env) {..<L}"
    and "fst (load_run_context env (RunCtx i) i w) = Inr (rn, job, srcs, target, sc)"
    and "br_id rn = i" "healthy env L (Suc (length srcs)) i (br_job_id rn) ns {} w"
    and "node_ready job ns" "bsv_has_encryptor svc" "storage_known target"
    and "\<forall>s \<in> set srcs. bs_enabled s \<longrightarrow> renders svc env s"
  shows "fst (execute_run svc env i w) = None \<and>
    (\<exists>r \<in> set (bk_runs (snd (execute_run svc env i w))). br_id r = i \<and> br_status r = ''success'' \<and> br_finished_at r \<noteq> None)"
  using healthy_run_succeeds [OF assms] by (simp add: stored_as_def bk_success_def)

lemma healthy_backups_succeed_witness: "fst (execute_run xb_svc xb_env 100 xb_ready) = None"
  by (rule healthy_backups_succeed [OF xb_env_calm xb_fresh xb_load xb_ready_facts, THEN conjunct1])

section \<open>What reaches the shell\<close>

text \<open>C34: A source that is accepted can be run. Whatever configuration \<open>ValidateSourceConfig\<close> stores with the unsafe switch
  off, the runner decodes it again and renders a script for it, on every node and for every run.\<close>

theorem validated_sources_render:
  assumes "validate_source_config lib ty raw False = Inr cfg" "bs_type s = trim_space ty" "bs_config s = cfg"
  shows "\<exists>p script out. render_source_script svc env t d s rc = Inr (p, script, out)"
  using fitting_renders [of s svc env] validated_fits [OF assms(1)] assms(2,3) by (auto simp: renders_def is_ok_def)

lemma validated_sources_render_witness:
  "\<exists>p script out. render_source_script xb_svc xb_env 0 ''/tmp/x''
     (xb_source\<lparr>bs_type := trim_space ''system_snapshot'', bs_config := RawObj [(''output_name'', JStr ''system-snapshot'')]\<rparr>) \<lparr>rc_sudo_pass = [], rc_use_pass = False\<rparr> = Inr (p, script, out)"
proof -
  have "validate_source_config xb_env ''system_snapshot'' (RawObj []) False = Inr (RawObj [(''output_name'', JStr ''system-snapshot'')])"
    by code_simp
  then show ?thesis by (rule validated_sources_render) simp_all
qed

text \<open>A path that \<open>ValidateUnixPath\<close> accepts is absolute and has no \<open>..\<close> segment; a shell reads the escaped
  path as exactly this path; and the \<open>tar\<close> command of the script, which \<open>sudoCmd\<close> puts between double quotes for
  another shell, reaches that shell as it was composed.\<close>

theorem validated_paths_stay_literal:
  assumes "validate_unix_path v = None" "inert out"
  shows "rooted (trim_space v) \<and> ''..'' \<notin> set (split_on slash (trim_space v)) \<and>
    sh_word Plain (shell_escape (trim_space v) @ rest) = sh_prepend (trim_space v) (sh_word Plain rest) \<and>
    sudo_cmd (tar_command out (trim_space v)) pass False = ''sudo -n bash -lc '' @ go_quote (tar_command out (trim_space v)) \<and>
    sh_word Plain (go_quote (tar_command out (trim_space v)) @ rest) = sh_prepend (tar_command out (trim_space v)) (sh_word Plain rest)"
  using validated_path [OF assms(1)] shell_escape_word [of "trim_space v" rest] inert_tar [OF assms(2) validated_path(1) [OF assms(1)], of rest]
  unfolding sudo_cmd_def if_False simp_thms by blast

lemma validated_paths_stay_literal_witness:
  "sh_word Plain (shell_escape (trim_space '' /var/lib/app '') @ '';'') = sh_prepend (trim_space '' /var/lib/app '') (sh_word Plain '';'')"
proof -
  have "validate_unix_path '' /var/lib/app '' = None" by code_simp
  moreover have "inert ''/tmp/a.tar.gz''" by code_simp
  ultimately show ?thesis using validated_paths_stay_literal [of "'' /var/lib/app ''" "''/tmp/a.tar.gz''" "'';''"] by blast
qed

text \<open>Container names are expanded by the shell of the node. A source of a PostgreSQL container is accepted with any
  name that is not blank. The script escapes the name, and by itself that is enough; but \<open>sudoCmd\<close> puts the command
  with the escaped name between double quotes, where single quotes do not quote. So a dollar or a backquote in
  the name is active: the shell does not read the command as one literal word.\<close>

theorem container_names_are_expanded:
  assumes "q_plain c" "CHR 0x27 \<notin> set c" "list_ex sh_active c" "trim_space c = c"
  shows "validate_source_config lib src_pg_container
        (RawObj [(''container_name'', JStr c), (''auto_detect_from_env'', JBool True)]) False =
      Inr (RawObj [(''container_name'', JStr c), (''auto_detect_from_env'', JBool True)]) \<and>
    sh_word Plain (shell_escape c @ rest) = sh_prepend c (sh_word Plain rest) \<and>
    (\<forall>k. pgc_container_name k = c \<longrightarrow> contains (pg_container_script rc k out) (sudo_on rc (inspect_command c))) \<and>
    sudo_cmd (inspect_command c) pass False = ''sudo -n bash -lc '' @ go_quote (inspect_command c) \<and>
    sh_word Plain (go_quote (inspect_command c) @ rest) = None"
proof (intro conjI allI impI)
  have "c \<noteq> []" using assms(3) by auto
  then show "validate_source_config lib src_pg_container
        (RawObj [(''container_name'', JStr c), (''auto_detect_from_env'', JBool True)]) False =
      Inr (RawObj [(''container_name'', JStr c), (''auto_detect_from_env'', JBool True)])"
    using assms(4) src_pg_facts
    by (simp add: validate_source_config_def validate_pg_container_def pg_config_auto pg_container_config_json_def omit_empty_def)
  show "contains (pg_container_script rc k out) (sudo_on rc (inspect_command c))" if "pgc_container_name k = c" for k
    using pg_script_inspects [of rc k out] that by simp
  show "sudo_cmd (inspect_command c) pass False = ''sudo -n bash -lc '' @ go_quote (inspect_command c)"
    by (simp only: sudo_cmd_def if_False simp_thms)
qed (rule shell_escape_word inspect_expanded assms)+

lemma container_names_are_expanded_witness:
  "sh_word Plain (shell_escape ''db$(reboot)'' @ []) = sh_prepend ''db$(reboot)'' (sh_word Plain []) \<and>
   sh_word Plain (go_quote (inspect_command ''db$(reboot)'') @ []) = None"
proof -
  have "q_plain ''db$(reboot)''" "CHR 0x27 \<notin> set ''db$(reboot)''" "list_ex sh_active ''db$(reboot)''" "trim_space ''db$(reboot)'' = ''db$(reboot)''"
    by code_simp+
  from container_names_are_expanded [OF this, of xb_env "[]"] show ?thesis by blast
qed

text \<open>The switch for unsafe commands guards one kind of source only. A custom command is refused while the switch is
  off; but the same text is accepted, whatever it is, as the command of an nginx snapshot, and the script of that
  source runs it with \<open>sudo\<close>.\<close>

theorem unsafe_commands_pass_as_nginx:
  assumes "trim_space cmd \<noteq> []"
  shows "validate_source_config lib src_custom (RawObj [(''command'', JStr cmd), (''allow_untrusted_command'', JBool b)]) False =
      Inl (ErrMsg ''custom commands require explicit unsafe enablement'') \<and>
    validate_source_config lib src_nginx (RawObj [(''command'', JStr cmd)]) False = Inr (nginx_stored cmd) \<and>
    (\<exists>p script out. render_source_script svc env t d (s\<lparr>bs_type := src_nginx, bs_config := nginx_stored cmd\<rparr>) rc = Inr (p, script, out) \<and>
       contains script (sudo_on rc cmd))"
proof (intro conjI)
  show "\<exists>p script out. render_source_script svc env t d (s\<lparr>bs_type := src_nginx, bs_config := nginx_stored cmd\<rparr>) rc = Inr (p, script, out) \<and>
      contains script (sudo_on rc cmd)"
    by (rule nginx_source_rendered) simp_all
qed (rule custom_refused nginx_source_kept assms)+

lemma unsafe_commands_pass_as_nginx_witness:
  "validate_source_config xb_env src_nginx (RawObj [(''command'', JStr ''rm -rf /srv'')]) False = Inr (nginx_stored ''rm -rf /srv'')"
proof -
  have "trim_space ''rm -rf /srv'' \<noteq> []" by code_simp
  from unsafe_commands_pass_as_nginx [OF this] show ?thesis by blast
qed

section \<open>Storage\<close>

text \<open>C32: Retention over a local directory: whatever fails, and whenever the context of the run ends (\<open>done_at\<close> says
  before which removals it has ended, and such a removal fails), no object outside of the prefix and none newer than the
  retention period is removed; and when no error is reported, all the others below the prefix are gone.\<close>

theorem local_retention_exact:
  assumes "tidy c d" "no_dotdot pre" 
    "apply_retention (local_list c) (\<lambda>p d. local_delete c (done_at p d) p d) (\<lambda>m d. d) now days pre d = (e, d1)"
  shows "local_objects c d1 \<subseteq> local_objects c d \<and>
    local_objects c d - local_objects c d1 \<subseteq> {x \<in> local_objects c d. local_covers c pre (fst x) \<and> snd x \<le> now - days * day} \<and>
    (e = None \<and> 0 < days \<longrightarrow>
       local_objects c d1 = local_objects c d - {x \<in> local_objects c d. local_covers c pre (fst x) \<and> snd x \<le> now - days * day})"
  by (rule local.retention_exact [OF assms, unfolded local.stale_def])

definition xb_bucket :: "(string list) server" where
  "xb_bucket =
     \<lparr>srv_dial = \<lambda>s. None, srv_mkdirs = \<lambda>p s. (None, s), srv_store = \<lambda>p t s. (None, p # s), srv_walk = \<lambda>p s. [],
      srv_read_dir = \<lambda>p s. Inr (map (\<lambda>k. \<lparr>en_path = k, en_is_dir = False, en_bytes = 1, en_time = 0\<rparr>) (filter (prefix p) s)),
      srv_remove = \<lambda>p s. (None, filter (\<lambda>k. k \<noteq> p) s), srv_bucket_exists = \<lambda>b s. Inr True, srv_make_bucket = \<lambda>b s. (None, s)\<rparr>"

definition xb_local :: storage_config where
  "xb_local = zero_storage\<lparr>sc_local_path := ''/srv/backups''\<rparr>"

definition xb_disk :: disk where
  "xb_disk =
     \<lparr>dk_files = [(''/srv/backups/org_1/job_3/a.tar.gz'', ''old'', 0), (''/srv/backups/org_1/job_3/b.tar.gz'', ''new'', 100 * day),
                 (''/srv/backups/org_1/job_4/a.tar.gz'', ''other'', 0)], dk_denied = \<lambda>_. False, dk_now = 0\<rparr>"

text \<open>The context ends after the first removal: the object that the rest would remove stays, and the error is returned.\<close>

definition xb_full :: disk where
  "xb_full = xb_disk\<lparr>dk_files := (''/srv/backups/org_1/job_3/c.tar.gz'', ''older'', 0) # dk_files xb_disk\<rparr>"

definition xb_done :: "string \<Rightarrow> disk \<Rightarrow> bool" where
  "xb_done p d \<longleftrightarrow> length (dk_files d) < 4"

definition xb_retained :: "(string \<Rightarrow> disk \<Rightarrow> bool) \<Rightarrow> goerr option \<times> disk" where
  "xb_retained cx = apply_retention (local_list xb_local) (\<lambda>p d. local_delete xb_local (cx p d) p d) (\<lambda>m d. d)
     (101 * day) 14 ''org_1/job_3'' xb_full"

lemma local_retention_exact_witness:
  "(fst (xb_retained xb_done) = Some ErrCtxDone \<and> local_objects xb_local (snd (xb_retained xb_done)) \<subseteq> local_objects xb_local xb_full) \<and>
   (fst (xb_retained (\<lambda>p d. False)) = None \<and>
    local_objects xb_local (snd (xb_retained (\<lambda>p d. False))) = local_objects xb_local xb_full -
      {x \<in> local_objects xb_local xb_full. local_covers xb_local ''org_1/job_3'' (fst x) \<and> snd x \<le> 101 * day - 14 * day})"
proof -
  have a: "tidy xb_local xb_full"
    unfolding tidy_def xb_local_def by (simp add: xb_full_def xb_disk_def) code_simp
  have b: "no_dotdot ''org_1/job_3''" by code_simp
  have e: "fst (xb_retained xb_done) = Some ErrCtxDone" "fst (xb_retained (\<lambda>p d. False)) = None" by code_simp+
  note R = local_retention_exact [OF a b, of _ "101 * day" 14, folded xb_retained_def, OF prod.collapse [symmetric]]
  show ?thesis using R [of xb_done] R [of "\<lambda>p d. False"] e by simp
qed

text \<open>Over SFTP, FTP, WebDAV and S3 the paths an adapter lists contain the base path of the target, and its delete puts
  the base path in front again. So a removal of a listed file below a base path other than the root is a
  removal of another path: the base path twice, then the rest.\<close>

theorem remote_deletes_go_elsewhere:
  assumes "\<forall>w \<in> set (bs @ ws). seg_ok w" "bs \<noteq> []" "sc_base_path c = root_path bs" "en_path e = root_path (bs @ ws)"
    and "trim_space (root_path bs) = root_path bs" "trim_space (join ''/'' (bs @ ws)) = join ''/'' (bs @ ws)"
  shows "sftp_delete srv c False (oi_path (entry_object e)) = dialled srv (srv_remove srv (root_path (bs @ bs @ ws))) \<and>
    oi_path (entry_object e) = join ''/'' (bs @ ws) \<and>
    ftp_delete srv c (join ''/'' (bs @ ws)) = dialled srv (srv_remove srv (root_path (bs @ bs @ ws))) \<and>
    webdav_delete srv c (join ''/'' (bs @ ws)) = srv_remove srv (root_path (bs @ bs @ ws)) \<and>
    s3_delete srv c (join ''/'' (bs @ ws)) = dialled srv (srv_remove srv (join ''/'' (bs @ bs @ ws))) \<and>
    root_path (bs @ bs @ ws) \<noteq> en_path e"
proof -
  have ok: "\<forall>w \<in> set (bs @ bs @ ws). seg_ok w" "bs @ ws \<noteq> []" using assms(1,2) by auto
  have j: "join_remote [sc_base_path c, join ''/'' (bs @ ws)] = root_path (bs @ bs @ ws)"
    using join_remote_below [OF ok assms(5,6)] assms(3) by simp
  have l: "oi_path (entry_object e) = join ''/'' (bs @ ws)" by (rule listed_below [OF assms(4)])
  have k: "s3_key c [join ''/'' (bs @ ws)] = join ''/'' (bs @ bs @ ws)"
    by (rule s3_key_below [OF ok(1) assms(2) ok(2) assms(3)])
  show ?thesis
    using doubled_differs [OF assms(2,1)] assms(4)
    by (simp add: sftp_delete_def ftp_delete_def webdav_delete_def s3_delete_def j k l)
qed

lemma remote_deletes_go_elsewhere_witness:
  "sftp_delete xb_bucket (zero_storage\<lparr>sc_base_path := root_path [''backups'']\<rparr>) False
     (oi_path (entry_object \<lparr>en_path = root_path ([''backups''] @ [''a.tar.gz'']), en_is_dir = False, en_bytes = 3, en_time = 0\<rparr>)) =
   dialled xb_bucket (srv_remove xb_bucket (root_path ([''backups''] @ [''backups''] @ [''a.tar.gz''])))"
proof (rule remote_deletes_go_elsewhere [THEN conjunct1])
  show "\<forall>w \<in> set ([''backups''] @ [''a.tar.gz'']). seg_ok w" by (simp add: seg_ok_def slash_def)
  show "trim_space (root_path [''backups'']) = root_path [''backups'']"
      "trim_space (join ''/'' ([''backups''] @ [''a.tar.gz''])) = join ''/'' ([''backups''] @ [''a.tar.gz''])"
    by code_simp+
qed simp_all

text \<open>Retention over S3 with a base path reports success and keeps every object. S3 answers the removal of a key that
  does not exist as if it had removed it, and the keys that the adapter computes from listed keys do not exist.\<close>

theorem s3_retention_deletes_nothing:
  assumes "\<And>s. srv_dial srv s = None" "\<And>p s. p \<notin> stored s \<Longrightarrow> srv_remove srv p s = (None, s)"
    and "\<And>m s. stored (wr m s) = stored s" "srv_read_dir srv (s3_key c [pre]) s = Inr es"
    and "\<forall>e \<in> set es. s3_key c [en_path e] \<notin> stored s"
  shows "fst (apply_retention (s3_list srv c) (s3_delete srv c) wr now days pre s) = None \<and>
    stored (snd (apply_retention (s3_list srv c) (s3_delete srv c) wr now days pre s)) = stored s"
proof (cases "days \<le> 0")
  case False
  let ?obs = "map (\<lambda>e. \<lparr>oi_path = en_path e, oi_name = path_base (en_path e), oi_bytes = en_bytes e, oi_modified = Some (en_time e)\<rparr>) es"
  have obs: "\<forall>ob \<in> set ?obs. s3_key c [oi_path ob] \<notin> stored s" using assms(5) by simp
  show ?thesis
    using s3_keeps_all [where stored = stored, OF assms(1-3) obs] False by (simp add: apply_retention_def s3_list_def assms(1,4))
qed (simp add: apply_retention_def)

lemma s3_retention_deletes_nothing_witness:
  "set (snd (apply_retention (s3_list xb_bucket (zero_storage\<lparr>sc_base_path := ''/b''\<rparr>)) (s3_delete xb_bucket (zero_storage\<lparr>sc_base_path := ''/b''\<rparr>))
     (\<lambda>m s. s) (100 * day) 14 ''org_1'' [''b/org_1/a''])) = {''b/org_1/a''}"
proof -
  have k: "s3_key (zero_storage\<lparr>sc_base_path := ''/b''\<rparr>) [''b/org_1/a''] = ''b/b/org_1/a''" by code_simp
  have "stored = set \<Longrightarrow> p \<notin> stored s \<Longrightarrow> srv_remove xb_bucket p s = (None, s)" for stored and p :: string and s
    by (auto simp: xb_bucket_def intro!: filter_True)
  then show ?thesis
    using s3_retention_deletes_nothing [where stored = set and srv = xb_bucket and wr = "\<lambda>m s. s" and c = "zero_storage\<lparr>sc_base_path := ''/b''\<rparr>"
        and s = "[''b/org_1/a'']" and pre = "''org_1''" and now = "100 * day" and days = 14]
    by (simp add: k xb_bucket_def)
qed

text \<open>The secrets of a storage target. What an answer shows of a configuration depends on its password, private key and
  secret key only by whether they are blank; and an update that leaves them blank keeps the stored ones.\<close>

theorem storage_secrets_stay:
  assumes "trim_space p \<noteq> []" "trim_space k \<noteq> []" "trim_space t \<noteq> []" "trim_space p' \<noteq> []" "trim_space k' \<noteq> []" "trim_space t' \<noteq> []"
    and "trim_space k0 = []" "trim_space t0 = []"
  shows "mask_storage_config (c\<lparr>sc_password := p, sc_private_key_pem := k, sc_secret_key := t\<rparr>) =
      mask_storage_config (c\<lparr>sc_password := p', sc_private_key_pem := k', sc_secret_key := t'\<rparr>) \<and>
    (let m = merge_storage_config c (u\<lparr>sc_password := [], sc_private_key_pem := k0, sc_secret_key := t0\<rparr>)
     in sc_password m = sc_password c \<and> sc_private_key_pem m = sc_private_key_pem c \<and> sc_secret_key m = sc_secret_key c)"
  using assms by (simp add: mask_storage_config_def merge_storage_config_def keep_blank_def)

lemma storage_secrets_stay_witness:
  "mask_storage_config (zero_storage\<lparr>sc_password := ''a'', sc_private_key_pem := ''a'', sc_secret_key := ''a''\<rparr>) =
   mask_storage_config (zero_storage\<lparr>sc_password := ''b'', sc_private_key_pem := ''b'', sc_secret_key := ''b''\<rparr>)"
proof -
  have "trim_space ''a'' \<noteq> []" "trim_space ''b'' \<noteq> []" by code_simp+
  then show ?thesis
    using storage_secrets_stay [of "''a''" "''a''" "''a''" "''b''" "''b''" "''b''" "[]" "[]" zero_storage] by simp
qed

end
