(* ===== verification/Check_Targets.thy ===== *)
theory Check_Targets
  imports Alert_Callbacks Ops_Params
begin

text \<open>
  The world of the workers that watch nodes, services and bots: \<open>internal/services/checks\<close>,
  \<open>internal/services/nodecheck\<close> and \<open>internal/services/metrics\<close>. They read the tables, probe the
  targets, store what they saw, and hand it to the alert service.

  \<^item> \<open>cw\<close>: the world of the alert service, the tables of checks, results, node checks and metrics, the
    probes made so far, and the time of the last pruning.
  \<^item> \<open>chk_env\<close>: the environment of the alert service (its oracle for failing statements and its cipher
    serve the workers too), the clock, and the answers of the network: \<open>ce_tcp\<close>, \<open>ce_http\<close> and
    \<open>ce_ssh\<close> answer the \<open>n\<close>-th probe; \<open>ce_ftp_lines n cmds\<close> is what an FTP server sends after the
    commands \<open>cmds\<close> on the connection opened by the \<open>n\<close>-th probe. Time passes with each statement and
    each probe: \<open>ce_clock k\<close> is the time after \<open>k\<close> of them. While a probe is under way the other
    workers and the handlers go on: \<open>ce_other\<close>.
  \<^item> \<open>chk_svc\<close>: the fields of a worker that do not change.

  Of \<open>net/url\<close>, \<open>ce_url u\<close> is the path, the host name and the port of \<open>u\<close> if it parses, and
  \<open>ce_url_with_path u p\<close> the text of \<open>u\<close> with another path. \<open>ce_parse_float\<close> is
  \<open>strconv.ParseFloat\<close>, and \<open>ce_round\<close> the rounding of a number to a 64-bit float.
\<close>

section \<open>Rows\<close>

record check_result =
  cr_check_id :: uuid
  cr_ts :: instant
  cr_status :: string
  cr_metrics :: "(string \<times> int) list"
  cr_error :: "string option"
  cr_latency_ms :: "int option"

record node_check =
  nc_node_id :: uuid
  nc_ts :: instant
  nc_panel_ok :: bool
  nc_ssh_ok :: bool
  nc_latency_ms :: int
  nc_error :: "string option"
  nc_panel_code :: "string option"
  nc_panel_detail :: "string option"

record node_metric =
  nm_node_id :: uuid
  nm_ts :: instant
  nm_load1 :: "float64 option"
  nm_load5 :: "float64 option"
  nm_load15 :: "float64 option"
  nm_mem_total :: "int option"
  nm_mem_avail :: "int option"
  nm_disk_total :: "int option"
  nm_disk_used :: "int option"
  nm_error :: "string option"

section \<open>Probes\<close>

datatype probe =
    ProbeTcp string duration
  | ProbeHttp string bool "(string \<times> string) list" duration
  | ProbeSsh string int string string string
  | FtpSend string

text \<open>An error of the HTTP client, as far as the code asks about it.\<close>

datatype cert_reason = Expired | NotAuthorized | OtherReason

datatype tls_cause =
    CertInvalid cert_reason
  | HostnameWrong
  | UnknownAuthority
  | TimedOut
  | OtherCause

record http_error =
  he_text :: string
  he_cause :: tls_cause

text \<open>What reading a line from a connection gives: a line, what is left before its end, or an error.\<close>

datatype rd = RdLine string | RdEof string | RdErr string

record cw =
  cw_world :: world
  cw_checks :: "check list"
  cw_results :: "check_result list"
  cw_node_checks :: "node_check list"
  cw_metrics :: "node_metric list"
  cw_last_prune :: instant
  cw_probes :: "probe list"

record url_parts =
  up_path :: string
  up_hostname :: string
  up_port :: string

record chk_env =
  ce_alert :: alert_env
  ce_clock :: "nat \<Rightarrow> instant"
  ce_other :: "nat \<Rightarrow> cw \<Rightarrow> cw"
  ce_tcp :: "nat \<Rightarrow> string \<Rightarrow> string option"
  ce_http :: "nat \<Rightarrow> string \<Rightarrow> http_error + int \<times> int"
  ce_ssh :: "nat \<Rightarrow> string \<Rightarrow> string \<times> string option"
  ce_ftp_lines :: "nat \<Rightarrow> string list \<Rightarrow> rd list"
  ce_ftp_write :: "nat \<Rightarrow> string \<Rightarrow> string option"
  ce_bad_request :: "string \<Rightarrow> string option"
  ce_url :: "string \<Rightarrow> url_parts option"
  ce_url_with_path :: "string \<Rightarrow> string \<Rightarrow> string"
  ce_parse_float :: "string \<Rightarrow> float64 option"
  ce_round :: "rat \<Rightarrow> rat"

record chk_svc =
  kw_has_db :: bool
  kw_alerts :: "alert_svc option"
  kw_has_ssh :: bool
  kw_has_enc :: bool
  kw_interval :: duration
  kw_retention :: duration

section \<open>Time, statements and probes\<close>

definition cw_tick :: "cw \<Rightarrow> nat" where
  "cw_tick w = w_dbn (cw_world w) + length (cw_probes w)"

definition cw_now :: "chk_env \<Rightarrow> cw \<Rightarrow> instant" where
  "cw_now env w = ce_clock env (cw_tick w)"

definition env_at :: "chk_env \<Rightarrow> cw \<Rightarrow> alert_env" where
  "env_at env w = (ce_alert env)\<lparr>e_now := cw_now env w\<rparr>"

definition on_world :: "(world \<Rightarrow> world) \<Rightarrow> cw \<Rightarrow> cw" where
  "on_world f w = w\<lparr>cw_world := f (cw_world w)\<rparr>"

definition cw_fails :: "chk_env \<Rightarrow> cw \<Rightarrow> bool" where
  "cw_fails env w \<longleftrightarrow> e_db_fail (ce_alert env) (w_dbn (cw_world w))"

definition cw_query :: "chk_env \<Rightarrow> (cw \<Rightarrow> 'a) \<Rightarrow> cw \<Rightarrow> 'a result \<times> cw" where
  "cw_query env q w = (if cw_fails env w then Inl (ErrMsg ''database'') else Inr (q w), on_world db_tick w)"

definition cw_first :: "chk_env \<Rightarrow> (cw \<Rightarrow> 'a option) \<Rightarrow> cw \<Rightarrow> 'a result \<times> cw" where
  "cw_first env q w =
     (if cw_fails env w then Inl (ErrMsg ''database'')
      else case q w of None \<Rightarrow> Inl ErrNotFound | Some r \<Rightarrow> Inr r, on_world db_tick w)"

text \<open>A query whose error the code drops: it leaves an empty list.\<close>

definition cw_rows :: "chk_env \<Rightarrow> (cw \<Rightarrow> 'a list) \<Rightarrow> cw \<Rightarrow> 'a list \<times> cw" where
  "cw_rows env q w = (case cw_query env q w of (Inl _, w1) \<Rightarrow> ([], w1) | (Inr rs, w1) \<Rightarrow> (rs, w1))"

definition cw_exec :: "chk_env \<Rightarrow> (cw \<Rightarrow> cw) \<Rightarrow> cw \<Rightarrow> goerr option \<times> cw" where
  "cw_exec env f w =
     (let w1 = on_world db_tick w in if cw_fails env w then (Some (ErrMsg ''database''), w1) else (None, f w1))"

definition cw_probe :: "chk_env \<Rightarrow> probe \<Rightarrow> cw \<Rightarrow> nat \<times> cw" where
  "cw_probe env p w =
     (let n = length (cw_probes w) in (n, ce_other env n (w\<lparr>cw_probes := cw_probes w @ [p]\<rparr>)))"

definition since :: "chk_env \<Rightarrow> instant \<Rightarrow> cw \<Rightarrow> int" where
  "since env start w = duration_ms (time_sub (cw_now env w) start)"


text \<open>
  The pure parts of \<open>internal/services/checks\<close>: when a check is due, how often it is tried, what is probed
  (URLs, host and port), which answers count as good, and when an alert is left to another worker.
\<close>

section \<open>When and how often\<close>

definition is_due :: "instant \<Rightarrow> int \<Rightarrow> check_result option \<Rightarrow> bool" where
  "is_due now interval_sec last_row =
     (let secs = (if interval_sec \<le> 0 then 60 else interval_sec)
      in case last_row of
           None \<Rightarrow> True
         | Some r \<Rightarrow> cr_ts r + dur_mul secs second < now)"

definition retries_for :: "check option \<Rightarrow> int" where
  "retries_for ck =
     (case ck of None \<Rightarrow> 1 | Some c \<Rightarrow> if ck_retries c \<le> 0 then 1 else ck_retries c + 1)"

definition timeout_for :: "check \<Rightarrow> duration" where
  "timeout_for ck = (if ck_timeout_ms ck \<le> 0 then dur_mul 3 second else dur_mul (ck_timeout_ms ck) millisecond)"

text \<open>The newest result of a check: \<open>DISTINCT ON (check_id) ... ORDER BY check_id, ts DESC\<close>.\<close>

fun newest_result :: "check_result list \<Rightarrow> check_result option" where
  "newest_result [] = None"
| "newest_result (r # rs) =
     (case newest_result rs of
        None \<Rightarrow> Some r
      | Some q \<Rightarrow> if cr_ts r < cr_ts q then Some q else Some r)"

definition last_result :: "check_result list \<Rightarrow> uuid \<Rightarrow> check_result option" where
  "last_result rows i = newest_result (filter (\<lambda>r. cr_check_id r = i) rows)"

definition service_check_type :: "string \<Rightarrow> string" where
  "service_check_type kind =
     (let k = to_upper (trim_space kind) in if k = ''CUSTOM_FTP'' \<or> k = ''FTP'' then ''FTP'' else ''HTTP'')"

section \<open>What is probed\<close>

definition value_or_empty :: "string option \<Rightarrow> string" where
  "value_or_empty p = (case p of None \<Rightarrow> [] | Some s \<Rightarrow> s)"

definition rooted_path :: "string \<Rightarrow> string" where
  "rooted_path p = (if has_prefix p ''/'' then p else ''/'' @ p)"

definition node_host :: "node \<Rightarrow> string" where
  "node_host n = (if trim_space (n_host n) = [] then trim_space (n_ssh_host n) else trim_space (n_host n))"

text \<open>A URL with the health path, where the URL has no path of its own.\<close>

definition with_health_path :: "chk_env \<Rightarrow> string \<Rightarrow> string \<Rightarrow> string" where
  "with_health_path env raw path =
     (if path = [] then raw
      else case ce_url env raw of
             None \<Rightarrow> raw
           | Some u \<Rightarrow> if trim_space (up_path u) = [] \<or> up_path u = ''/''
                       then ce_url_with_path env raw (rooted_path path) else raw)"

definition host_or_node :: "string \<Rightarrow> node option \<Rightarrow> string" where
  "host_or_node host n = (if host = [] then (case n of None \<Rightarrow> [] | Some nd \<Rightarrow> node_host nd) else host)"

definition service_url :: "chk_env \<Rightarrow> service option \<Rightarrow> node option \<Rightarrow> string \<Rightarrow> string" where
  "service_url env sv n check_type =
     (case sv of
        None \<Rightarrow> []
      | Some s \<Rightarrow>
          let raw = trim_space (value_or_empty (sv_url s)); path = trim_space (value_or_empty (sv_health_path s))
          in if raw \<noteq> [] then with_health_path env raw path
             else
               let mode = to_lower (trim_space (value_or_empty (sv_tls_mode s)));
                   schema = (if mode = ''https'' \<or> mode = ''tls'' \<or> check_type = ''https'' then ''https'' else ''http'');
                   host = host_or_node (trim_space (value_or_empty (sv_host s))) n;
                   port0 = (case sv_port s of None \<Rightarrow> 0 | Some q \<Rightarrow> q);
                   port = (if port0 \<le> 0 then if schema = ''https'' then 443 else 80 else port0)
               in if host = [] then []
                  else schema @ ''://'' @ host @ '':'' @ itoa port @
                       rooted_path (if path = [] then ''/'' else path))"

definition service_host_port :: "chk_env \<Rightarrow> service option \<Rightarrow> node option \<Rightarrow> string \<Rightarrow> string" where
  "service_host_port env sv n check_type =
     (case sv of
        None \<Rightarrow> []
      | Some s \<Rightarrow>
          let host0 = trim_space (value_or_empty (sv_host s));
              port0 = (case sv_port s of None \<Rightarrow> 0 | Some q \<Rightarrow> q);
              raw = trim_space (value_or_empty (sv_url s));
              (host1, port1) =
                (if raw = [] then (host0, port0)
                 else case ce_url env raw of
                        None \<Rightarrow> (host0, port0)
                      | Some u \<Rightarrow>
                          (if host0 = [] then trim_space (up_hostname u) else host0,
                           if port0 \<le> 0 \<and> trim_space (up_port u) \<noteq> []
                           then (case atoi (up_port u) of None \<Rightarrow> port0 | Some q \<Rightarrow> q) else port0));
              host = host_or_node host1 n;
              ty = to_lower (trim_space check_type);
              port = (if port1 \<le> 0 then if ty = ''ftp'' then 21 else if ty = ''https'' then 443 else 80 else port1)
          in if host = [] then [] else join_host_port host (itoa port))"

definition bot_url :: "chk_env \<Rightarrow> bot option \<Rightarrow> node option \<Rightarrow> string" where
  "bot_url env bt n =
     (case bt of
        None \<Rightarrow> []
      | Some b \<Rightarrow>
          let raw = trim_space (value_or_empty (b_health_url b)); path = trim_space (value_or_empty (b_health_path b))
          in if raw \<noteq> [] then with_health_path env raw path
             else
               let host = host_or_node [] n
               in if host = [] then []
                  else ''http://'' @ host @ rooted_path (if path = [] then ''/'' else path))"

definition service_headers :: "service option \<Rightarrow> (string \<times> string) list" where
  "service_headers sv =
     (case sv of None \<Rightarrow> [] | Some s \<Rightarrow> (case sv_headers s of None \<Rightarrow> [] | Some hs \<Rightarrow> hs))"

section \<open>Good answers\<close>

definition expected_code :: "int list \<Rightarrow> bool \<Rightarrow> int \<Rightarrow> bool" where
  "expected_code codes usual code = (if codes = [] then usual else code \<in> set codes)"

definition is_expected_status :: "service option \<Rightarrow> int \<Rightarrow> bool" where
  "is_expected_status sv code =
     expected_code (case sv of None \<Rightarrow> [] | Some s \<Rightarrow> sv_expected_status s) (200 \<le> code \<and> code < 400) code"

definition is_expected_bot_status :: "bot option \<Rightarrow> int \<Rightarrow> bool" where
  "is_expected_bot_status bt code =
     expected_code (case bt of None \<Rightarrow> [] | Some b \<Rightarrow> b_expected_status b) (200 \<le> code \<and> code < 400) code"

definition is_expected_ftp_code :: "service option \<Rightarrow> int \<Rightarrow> bool \<Rightarrow> bool" where
  "is_expected_ftp_code sv code authenticated =
     expected_code (case sv of None \<Rightarrow> [] | Some s \<Rightarrow> sv_expected_status s)
       (if authenticated then code = 230 else code = 220) code"

definition docker_list_command :: string where
  "docker_list_command = ''docker ps --format '' @ [CHR 0x27] @ ''{{.Names}}'' @ [CHR 0x27]"

definition docker_list_command_sudo :: string where
  "docker_list_command_sudo = ''sudo -n docker ps --format '' @ [CHR 0x27] @ ''{{.Names}}'' @ [CHR 0x27]"

definition parse_docker_ps :: "string \<Rightarrow> string \<Rightarrow> bool \<times> string option" where
  "parse_docker_ps out container =
     (let needle = trim_space container
      in if needle = [] then (False, Some ''container required'')
         else if list_ex (\<lambda>l. trim_space l \<noteq> [] \<and> equal_fold (trim_space l) needle) (split_on (CHR 0x0A) out)
         then (True, None)
         else (False, Some (''container '' @ needle @ '' not running'')))"

definition shell_quote :: "string \<Rightarrow> string" where
  "shell_quote v =
     (let q = [CHR 0x27]; d = [CHR 0x22]
      in if v = [] then q @ q else q @ replace_all v q (q @ d @ q @ d @ q) @ q)"

definition systemd_check_command :: "string \<Rightarrow> string" where
  "systemd_check_command unit_name = ''systemctl is-active '' @ shell_quote unit_name"

section \<open>Alerts that are left to another worker\<close>

definition is_ssh_transport_failure :: "string \<Rightarrow> bool" where
  "is_ssh_transport_failure raw =
     (let msg = to_lower (trim_space raw)
      in msg \<noteq> [] \<and>
         list_ex (contains msg) [''dial tcp'', ''i/o timeout'', ''connection refused'', ''no route to host'',
           ''network is unreachable'', ''host is unreachable''])"

definition min_agent_ttl :: duration where "min_agent_ttl = 90 * second"
definition max_agent_ttl :: duration where "max_agent_ttl = 10 * minute"

text \<open>\<open>agentOnlineTTLForGenericSuppress\<close>, and \<open>agentOnlineTTLForSSHAlert\<close> of nodecheck, which is the same.\<close>

definition agent_online_ttl :: "duration \<Rightarrow> duration" where
  "agent_online_ttl interval =
     (let ttl = (if 0 < interval then dur_mul 3 interval else dur_mul 3 minute)
      in if ttl < min_agent_ttl then min_agent_ttl else if max_agent_ttl < ttl then max_agent_ttl else ttl)"

definition is_agent_online :: "instant option \<Rightarrow> bool \<Rightarrow> duration \<Rightarrow> instant \<Rightarrow> bool" where
  "is_agent_online last_seen installed ttl now =
     (installed \<and>
      (case last_seen of
         None \<Rightarrow> False
       | Some t \<Rightarrow> time_sub now t \<le> (if ttl \<le> 0 then min_agent_ttl else ttl)))"

definition agent_online :: "node \<Rightarrow> instant \<Rightarrow> duration \<Rightarrow> bool" where
  "agent_online n now ttl = is_agent_online (n_agent_last_seen n) (n_agent_enabled n \<or> n_agent_installed n) ttl now"

definition should_suppress_generic :: "node option \<Rightarrow> check option \<Rightarrow> string option \<Rightarrow> instant \<Rightarrow> duration \<Rightarrow> bool" where
  "should_suppress_generic n ck err_msg now ttl =
     (case ck of
        None \<Rightarrow> False
      | Some c \<Rightarrow>
          let ty = to_lower (trim_space (ck_type c))
          in if ty = ''ssh'' then True
             else if ty \<noteq> ''systemd'' \<and> ty \<noteq> ''docker'' then False
             else (case err_msg of
                     None \<Rightarrow> False
                   | Some msg \<Rightarrow>
                       is_ssh_transport_failure msg \<and>
                       (case n of None \<Rightarrow> False | Some nd \<Rightarrow> agent_online nd now ttl)))"


text \<open>
  The FTP probe of \<open>internal/services/checks/worker.go\<close>: the replies of a server, one or many lines, and the
  dialogue \<open>USER\<close>, \<open>PASS\<close>, \<open>QUIT\<close>. A connection has what the server sent and the probe has not read, and
  the commands the probe sent.
\<close>

section \<open>Outcomes and repetition\<close>

record outcome =
  po_ok :: bool
  po_latency :: int
  po_code :: int
  po_bytes :: int
  po_err :: "string option"

definition failed :: "int \<Rightarrow> int \<Rightarrow> string \<Rightarrow> outcome" where
  "failed latency code msg = \<lparr>po_ok = False, po_latency = latency, po_code = code, po_bytes = 0, po_err = Some msg\<rparr>"

definition passed :: "int \<Rightarrow> int \<Rightarrow> outcome" where
  "passed latency code = \<lparr>po_ok = True, po_latency = latency, po_code = code, po_bytes = 0, po_err = None\<rparr>"

definition no_outcome :: outcome where
  "no_outcome = \<lparr>po_ok = False, po_latency = 0, po_code = 0, po_bytes = 0, po_err = None\<rparr>"

text \<open>\<open>for i := 0; i < tries; i++\<close> with a \<open>break\<close> after the first success.\<close>

primrec try_times :: "(cw \<Rightarrow> outcome \<times> cw) \<Rightarrow> nat \<Rightarrow> outcome \<Rightarrow> cw \<Rightarrow> outcome \<times> cw" where
  "try_times m 0 o0 w = (o0, w)"
| "try_times m (Suc k) o0 w = (case m w of (o1, w1) \<Rightarrow> if po_ok o1 then (o1, w1) else try_times m k o1 w1)"

definition tries_of :: "check \<Rightarrow> nat" where
  "tries_of ck = nat (retries_for (Some ck))"

section \<open>Replies\<close>

definition trim_crlf :: "string \<Rightarrow> string" where
  "trim_crlf s = trim_right_cut [CHR 0x0D, CHR 0x0A] s"

text \<open>The remaining lines of a reply of many lines.\<close>

fun ftp_more :: "string \<Rightarrow> rd list \<Rightarrow> string option \<times> rd list" where
  "ftp_more mark [] = (Some ''i/o timeout'', [])"
| "ftp_more mark (RdLine s # rs) = (if has_prefix (trim_crlf s) mark then (None, rs) else ftp_more mark rs)"
| "ftp_more mark (RdEof s # rs) = (None, [RdEof []])"
| "ftp_more mark (RdErr m # rs) = (Some m, rs)"

definition ftp_reply :: "string \<Rightarrow> rd list \<Rightarrow> (string + int) \<times> rd list" where
  "ftp_reply raw rs =
     (let line = trim_crlf raw; bad = Inl (''ftp reply invalid: '' @ go_quote line)
      in if length line < 3 then (bad, rs)
         else case atoi (take 3 line) of
                None \<Rightarrow> (bad, rs)
              | Some code \<Rightarrow>
                  if 4 \<le> length line \<and> line ! 3 = CHR ''-'' then
                    (case ftp_more (take 3 line @ '' '') rs of
                       (Some e, rs1) \<Rightarrow> (Inl e, rs1)
                     | (None, rs1) \<Rightarrow> (Inr code, rs1))
                  else (Inr code, rs))"

definition read_ftp_response :: "rd list \<Rightarrow> (string + int) \<times> rd list" where
  "read_ftp_response unread =
     (case unread of
        [] \<Rightarrow> (Inl ''i/o timeout'', [])
      | RdLine s # rs \<Rightarrow> ftp_reply s rs
      | RdEof s # rs \<Rightarrow> ftp_reply s [RdEof []]
      | RdErr m # rs \<Rightarrow> (Inl m, rs))"

section \<open>The dialogue\<close>

record ftp_conn =
  fc_id :: nat
  fc_sent :: "string list"
  fc_unread :: "rd list"

definition ftp_open :: "chk_env \<Rightarrow> nat \<Rightarrow> ftp_conn" where
  "ftp_open env n = \<lparr>fc_id = n, fc_sent = [], fc_unread = ce_ftp_lines env n []\<rparr>"

definition ftp_send :: "chk_env \<Rightarrow> string \<Rightarrow> ftp_conn \<Rightarrow> cw \<Rightarrow> string option \<times> ftp_conn \<times> cw" where
  "ftp_send env cmd c w =
     (let (n, w1) = cw_probe env (FtpSend cmd) w
      in case ce_ftp_write env n cmd of
           Some e \<Rightarrow> (Some e, c, w1)
         | None \<Rightarrow> (None, c\<lparr>fc_sent := fc_sent c @ [cmd],
                          fc_unread := fc_unread c @ ce_ftp_lines env (fc_id c) (fc_sent c @ [cmd])\<rparr>, w1))"

definition ftp_read :: "ftp_conn \<Rightarrow> (string + int) \<times> ftp_conn" where
  "ftp_read c = (case read_ftp_response (fc_unread c) of (r, rs) \<Rightarrow> (r, c\<lparr>fc_unread := rs\<rparr>))"

definition crlf :: string where
  "crlf = [CHR 0x0D, CHR 0x0A]"

definition sanitize_ftp_arg :: "string \<Rightarrow> string + string" where
  "sanitize_ftp_arg v =
     (let t = trim_space v
      in if t = [] then Inr []
         else if CHR 0x0D \<in> set t \<or> CHR 0x0A \<in> set t then Inl ''ftp credentials contain invalid line breaks''
         else Inr t)"

definition service_password :: "chk_svc \<Rightarrow> chk_env \<Rightarrow> service \<Rightarrow> string + string" where
  "service_password svc env s =
     (if trim_space (value_or_empty (sv_auth_password_enc s)) = [] then Inr []
      else if \<not> kw_has_enc svc then Inl ''encryptor not configured''
      else case e_decrypt (ce_alert env) (trim_space (value_or_empty (sv_auth_password_enc s))) of
             Inl e \<Rightarrow> Inl (err_text e)
           | Inr p \<Rightarrow> Inr p)"

definition bad_reply :: "int \<Rightarrow> int \<Rightarrow> outcome" where
  "bad_reply latency code = failed latency code (''ftp reply code '' @ itoa code)"

text \<open>The last reply decides; a good one is answered with \<open>QUIT\<close>.\<close>

definition ftp_judge :: "chk_env \<Rightarrow> service \<Rightarrow> bool \<Rightarrow> int \<Rightarrow> int \<Rightarrow> ftp_conn \<Rightarrow> cw \<Rightarrow> outcome \<times> cw" where
  "ftp_judge env s authenticated latency code c w =
     (if \<not> is_expected_ftp_code (Some s) code authenticated then (bad_reply latency code, w)
      else case ftp_send env (''QUIT'' @ crlf) c w of (_, _, w1) \<Rightarrow> (passed latency code, w1))"

text \<open>The password, when the server asks for one.\<close>

definition ftp_password :: "chk_svc \<Rightarrow> chk_env \<Rightarrow> service \<Rightarrow> int \<Rightarrow> int \<Rightarrow> ftp_conn \<Rightarrow> cw \<Rightarrow> outcome \<times> cw" where
  "ftp_password svc env s latency code c w =
     (case service_password svc env s of
        Inl e \<Rightarrow> (failed latency code e, w)
      | Inr password \<Rightarrow>
          if trim_space password = [] then (failed latency code ''ftp password missing'', w)
          else case sanitize_ftp_arg password of
                 Inl e \<Rightarrow> (failed latency code e, w)
               | Inr p \<Rightarrow>
                   (case ftp_send env (''PASS '' @ p @ crlf) c w of
                      (Some e, _, w1) \<Rightarrow> (failed latency code e, w1)
                    | (None, c1, w1) \<Rightarrow>
                        (case ftp_read c1 of
                           (Inl e, _) \<Rightarrow> (failed latency code e, w1)
                         | (Inr code1, c2) \<Rightarrow> ftp_judge env s True latency code1 c2 w1)))"

definition ftp_login :: "chk_svc \<Rightarrow> chk_env \<Rightarrow> service \<Rightarrow> string \<Rightarrow> int \<Rightarrow> int \<Rightarrow> ftp_conn \<Rightarrow> cw \<Rightarrow> outcome \<times> cw" where
  "ftp_login svc env s username latency code c w =
     (if code \<noteq> 220 \<and> code \<noteq> 230 then (bad_reply latency code, w)
      else case sanitize_ftp_arg username of
             Inl e \<Rightarrow> (failed latency code e, w)
           | Inr u \<Rightarrow>
               (case ftp_send env (''USER '' @ u @ crlf) c w of
                  (Some e, _, w1) \<Rightarrow> (failed latency code e, w1)
                | (None, c1, w1) \<Rightarrow>
                    (case ftp_read c1 of
                       (Inl e, _) \<Rightarrow> (failed latency code e, w1)
                     | (Inr code1, c2) \<Rightarrow>
                         if code1 = 331 then ftp_password svc env s latency code1 c2 w1
                         else ftp_judge env s True latency code1 c2 w1)))"

definition check_ftp :: "chk_svc \<Rightarrow> chk_env \<Rightarrow> string \<Rightarrow> duration \<Rightarrow> service \<Rightarrow> cw \<Rightarrow> outcome \<times> cw" where
  "check_ftp svc env addr timeout s w =
     (let start = cw_now env w; (n, w1) = cw_probe env (ProbeTcp addr timeout) w; latency = since env start w1
      in case ce_tcp env n addr of
           Some e \<Rightarrow> (failed latency 0 e, w1)
         | None \<Rightarrow>
             (case ftp_read (ftp_open env n) of
                (Inl e, _) \<Rightarrow> (failed latency 0 e, w1)
              | (Inr code, c) \<Rightarrow>
                  let username = trim_space (value_or_empty (sv_auth_username s))
                  in if username = [] then ftp_judge env s False latency code c w1
                     else ftp_login svc env s username latency code c w1))"

end
