(* ===== verification/Check_Worker.thy ===== *)
theory Check_Worker
  imports Check_Targets Alert_Engine
begin

text \<open>
  \<open>internal/services/checks/worker.go\<close>: the probes of services and bots with their repetitions, the result
  that is stored, the alert that is raised or left out, one tick of the worker, the checks that are added
  for targets without one, and \<open>RunNowService\<close> and \<open>RunNowBot\<close>.

  A row is identified by its id; the maps from ids to rows are lookups in the loaded lists. The lines of the
  process log are left out.
\<close>

section \<open>Single probes\<close>

definition check_tcp :: "chk_env \<Rightarrow> string \<Rightarrow> duration \<Rightarrow> cw \<Rightarrow> outcome \<times> cw" where
  "check_tcp env addr timeout w =
     (let start = cw_now env w; (n, w1) = cw_probe env (ProbeTcp addr timeout) w; latency = since env start w1
      in case ce_tcp env n addr of
           Some e \<Rightarrow> (failed latency 0 e, w1)
         | None \<Rightarrow> (passed latency 0, w1))"

text \<open>\<open>good\<close> is the code's test of the status; a request that cannot be built is not sent.\<close>

definition check_http ::
    "chk_env \<Rightarrow> (int \<Rightarrow> bool) \<Rightarrow> string \<Rightarrow> bool \<Rightarrow> (string \<times> string) list \<Rightarrow> duration \<Rightarrow> cw \<Rightarrow> outcome \<times> cw" where
  "check_http env good url verify_tls headers timeout w =
     (case ce_bad_request env url of
        Some e \<Rightarrow> (failed 0 0 e, w)
      | None \<Rightarrow>
          let start = cw_now env w; (n, w1) = cw_probe env (ProbeHttp url verify_tls headers timeout) w;
              latency = since env start w1
          in case ce_http env n url of
               Inl e \<Rightarrow> (failed 0 0 (he_text e), w1)
             | Inr (code, bytes) \<Rightarrow>
                 (\<lparr>po_ok = (0 < code \<and> good code), po_latency = latency, po_code = code, po_bytes = bytes,
                   po_err = None\<rparr>, w1))"

text \<open>\<open>runSSHCommand\<close>: the output, or an error; and how long it took.\<close>

definition run_ssh_command ::
    "chk_svc \<Rightarrow> chk_env \<Rightarrow> node \<Rightarrow> string \<Rightarrow> cw \<Rightarrow> ((string + string) \<times> int) \<times> cw" where
  "run_ssh_command svc env n cmd w =
     (if \<not> kw_has_ssh svc \<or> \<not> kw_has_enc svc then ((Inl ''ssh client not configured'', 0), w)
      else if trim_space (n_ssh_auth_method n) \<noteq> [] \<and> to_lower (n_ssh_auth_method n) \<noteq> ''key''
      then ((Inl ''unsupported ssh auth method'', 0), w)
      else case e_decrypt (ce_alert env) (n_ssh_key_enc n) of
             Inl e \<Rightarrow> ((Inl (err_text e), 0), w)
           | Inr key \<Rightarrow>
               let start = cw_now env w;
                   (k, w1) = cw_probe env (ProbeSsh (n_ssh_host n) (n_ssh_port n) (n_ssh_user n) key cmd) w;
                   latency = since env start w1
               in case ce_ssh env k cmd of
                    (out, None) \<Rightarrow> ((Inr out, latency), w1)
                  | (out, Some e) \<Rightarrow> ((Inl e, latency), w1))"

definition check_ssh :: "chk_svc \<Rightarrow> chk_env \<Rightarrow> node \<Rightarrow> cw \<Rightarrow> outcome \<times> cw" where
  "check_ssh svc env n w =
     (case run_ssh_command svc env n ''true'' w of
        ((Inl e, latency), w1) \<Rightarrow> (failed latency 0 e, w1)
      | ((Inr out, latency), w1) \<Rightarrow> (passed latency 0, w1))"

section \<open>Checks of a service\<close>

definition execute_service_check ::
    "chk_svc \<Rightarrow> chk_env \<Rightarrow> node option \<Rightarrow> service \<Rightarrow> check \<Rightarrow> cw \<Rightarrow> outcome \<times> cw" where
  "execute_service_check svc env n s ck w =
     (let ty0 = to_lower (ck_type ck);
          ty = (if ty0 = [] then to_lower (service_check_type (sv_kind s)) else ty0);
          repeat = (\<lambda>m. try_times m (tries_of ck) no_outcome w)
      in if ty = ''tcp'' then
           let target = service_host_port env (Some s) n ty
           in if target = [] then (failed 0 0 ''service target missing'', w)
              else repeat (check_tcp env target (timeout_for ck))
         else if ty = ''ftp'' then
           let target = service_host_port env (Some s) n ty
           in if target = [] then (failed 0 0 ''service target missing'', w)
              else repeat (check_ftp svc env target (timeout_for ck) s)
         else
           let url = service_url env (Some s) n ty
           in if url = [] then (failed 0 0 ''service url missing'', w)
              else repeat (check_http env (is_expected_status (Some s)) url
                             (case n of None \<Rightarrow> True | Some nd \<Rightarrow> n_verify_tls nd) (service_headers (Some s)) (timeout_for ck)))"

section \<open>Checks of a bot\<close>

definition ssh_state_probe :: "chk_svc \<Rightarrow> chk_env \<Rightarrow> node \<Rightarrow> string \<Rightarrow> string \<Rightarrow> cw \<Rightarrow> outcome \<times> cw" where
  "ssh_state_probe svc env n cmd expected w =
     (case run_ssh_command svc env n cmd w of
        ((Inl e, latency), w1) \<Rightarrow> (failed latency 0 e, w1)
      | ((Inr out, latency), w1) \<Rightarrow>
          if equal_fold (trim_space out) expected then (passed latency 0, w1)
          else (failed latency 0 (''state='' @ trim_space out), w1))"

definition execute_ssh_state_check ::
    "chk_svc \<Rightarrow> chk_env \<Rightarrow> node option \<Rightarrow> string \<Rightarrow> string \<Rightarrow> nat \<Rightarrow> cw \<Rightarrow> outcome \<times> cw" where
  "execute_ssh_state_check svc env n cmd expected tries w =
     (case n of
        None \<Rightarrow> (failed 0 0 ''node missing'', w)
      | Some nd \<Rightarrow>
          if \<not> n_ssh_enabled nd then (failed 0 0 ''ssh disabled'', w)
          else try_times (ssh_state_probe svc env nd cmd expected) tries no_outcome w)"

text \<open>One command that lists the containers, judged.\<close>

definition docker_list :: "chk_svc \<Rightarrow> chk_env \<Rightarrow> node \<Rightarrow> string \<Rightarrow> string \<Rightarrow> cw \<Rightarrow> outcome \<times> cw" where
  "docker_list svc env n container cmd w =
     (case run_ssh_command svc env n cmd w of
        ((Inl e, latency), w1) \<Rightarrow> (failed latency 0 e, w1)
      | ((Inr out, latency), w1) \<Rightarrow>
          (case parse_docker_ps out container of
             (good, err) \<Rightarrow> (\<lparr>po_ok = good, po_latency = latency, po_code = 0, po_bytes = 0, po_err = err\<rparr>, w1)))"

definition docker_probe :: "chk_svc \<Rightarrow> chk_env \<Rightarrow> node \<Rightarrow> string \<Rightarrow> cw \<Rightarrow> outcome \<times> cw" where
  "docker_probe svc env n container w =
     (case docker_list svc env n container docker_list_command w of
        (o1, w1) \<Rightarrow> if po_ok o1 then (o1, w1) else docker_list svc env n container docker_list_command_sudo w1)"

definition execute_docker_check :: "chk_svc \<Rightarrow> chk_env \<Rightarrow> node \<Rightarrow> string \<Rightarrow> nat \<Rightarrow> cw \<Rightarrow> outcome \<times> cw" where
  "execute_docker_check svc env n container tries w =
     (if trim_space container = [] then (failed 0 0 ''container required'', w)
      else try_times (docker_probe svc env n container) tries no_outcome w)"

definition bot_check_type :: "bot \<Rightarrow> check \<Rightarrow> string" where
  "bot_check_type b ck =
     (let ty = to_lower (trim_space (ck_type ck)) in if ty = [] then to_lower (trim_space (b_kind b)) else ty)"

definition execute_bot_check :: "chk_svc \<Rightarrow> chk_env \<Rightarrow> node \<Rightarrow> bot \<Rightarrow> check \<Rightarrow> cw \<Rightarrow> outcome \<times> cw" where
  "execute_bot_check svc env n b ck w =
     (if bot_check_type b ck = ''docker''
      then execute_docker_check svc env n (trim_space (value_or_empty (b_docker_container b))) (tries_of ck) w
      else if bot_check_type b ck = ''systemd''
      then execute_ssh_state_check svc env (Some n)
             (systemd_check_command (trim_space (value_or_empty (b_systemd_unit b)))) ''active'' (tries_of ck) w
      else
        let url = bot_url env (Some b) (Some n)
        in if url = [] then (failed 0 0 ''bot health url missing'', w)
           else try_times (check_http env (is_expected_bot_status (Some b)) url (n_verify_tls n) [] (timeout_for ck))
                  (tries_of ck) no_outcome w)"

section \<open>Results and alerts\<close>

definition status_text :: "bool \<Rightarrow> string" where
  "status_text good = (if good then ''ok'' else ''fail'')"

definition result_row :: "uuid \<Rightarrow> instant \<Rightarrow> outcome \<Rightarrow> (string \<times> int) list \<Rightarrow> check_result" where
  "result_row i now p metrics =
     \<lparr>cr_check_id = i, cr_ts = now, cr_status = status_text (po_ok p), cr_metrics = metrics, cr_error = po_err p,
      cr_latency_ms = (if 0 < po_latency p then Some (po_latency p) else None)\<rparr>"

definition store_result :: "chk_env \<Rightarrow> uuid \<Rightarrow> outcome \<Rightarrow> (string \<times> int) list \<Rightarrow> cw \<Rightarrow> check_result \<times> cw" where
  "store_result env i p metrics w =
     (let row = result_row i (cw_now env w) p metrics
      in (row, snd (cw_exec env (\<lambda>v. v\<lparr>cw_results := cw_results v @ [row]\<rparr>) w)))"

definition suppressed :: "chk_svc \<Rightarrow> chk_env \<Rightarrow> node option \<Rightarrow> check \<Rightarrow> string option \<Rightarrow> cw \<Rightarrow> bool" where
  "suppressed svc env n ck err_msg w =
     should_suppress_generic n (Some ck) err_msg (cw_now env w) (agent_online_ttl (kw_interval svc))"

definition report_generic ::
    "chk_svc \<Rightarrow> chk_env \<Rightarrow> settings option \<Rightarrow> node option \<Rightarrow> service option \<Rightarrow> check \<Rightarrow> outcome \<Rightarrow> cw \<Rightarrow> cw" where
  "report_generic svc env settings n s ck p w =
     (case kw_alerts svc of
        None \<Rightarrow> w
      | Some a \<Rightarrow>
          if suppressed svc env n ck (po_err p) w then w
          else on_world (notify_generic a (env_at env w) settings n s (Some ck) (status_text (po_ok p))
                           (po_latency p) (po_code p) (po_err p)) w)"

definition report_bot ::
    "chk_svc \<Rightarrow> chk_env \<Rightarrow> settings option \<Rightarrow> node \<Rightarrow> bot \<Rightarrow> check \<Rightarrow> outcome \<Rightarrow> cw \<Rightarrow> cw" where
  "report_bot svc env settings n b ck p w =
     (case kw_alerts svc of
        None \<Rightarrow> w
      | Some a \<Rightarrow>
          if suppressed svc env (Some n) ck (po_err p) w then w
          else on_world (notify_generic_bot a (env_at env w) settings (Some n) (Some b) (Some ck) (po_ok p)
                           (po_latency p) (po_code p) (po_err p)) w)"

definition load_alert_settings :: "chk_svc \<Rightarrow> chk_env \<Rightarrow> uuid option \<Rightarrow> cw \<Rightarrow> settings option \<times> cw" where
  "load_alert_settings svc env org w =
     (case kw_alerts svc of
        None \<Rightarrow> (None, w)
      | Some a \<Rightarrow>
          (case load_settings_for_org a (env_at env w) org (cw_world w) of
             (Inl _, v) \<Rightarrow> (None, w\<lparr>cw_world := v\<rparr>)
           | (Inr st, v) \<Rightarrow> (st, w\<lparr>cw_world := v\<rparr>)))"

definition service_metrics :: "outcome \<Rightarrow> (string \<times> int) list" where
  "service_metrics p = [(''status_code'', po_code p), (''bytes'', po_bytes p)]"

definition bot_metrics :: "outcome \<Rightarrow> (string \<times> int) list" where
  "bot_metrics p = (if 0 < po_code p then service_metrics p else [])"

definition run_service_check ::
    "chk_svc \<Rightarrow> chk_env \<Rightarrow> settings option \<Rightarrow> node option \<Rightarrow> service \<Rightarrow> check \<Rightarrow> cw \<Rightarrow> check_result \<times> cw" where
  "run_service_check svc env settings n s ck w =
     (let (p, w1) = execute_service_check svc env n s ck w;
          (row, w2) = store_result env (ck_id ck) p (service_metrics p) w1
      in (row, report_generic svc env settings n (Some s) ck p w2))"

definition run_bot_check ::
    "chk_svc \<Rightarrow> chk_env \<Rightarrow> settings option \<Rightarrow> node \<Rightarrow> bot \<Rightarrow> check \<Rightarrow> cw \<Rightarrow> check_result \<times> cw" where
  "run_bot_check svc env settings n b ck w =
     (let (p, w1) = execute_bot_check svc env n b ck w;
          (row, w2) = store_result env (ck_id ck) p (bot_metrics p) w1
      in (row, report_bot svc env settings n b ck p w2))"

definition run_node_check :: "chk_svc \<Rightarrow> chk_env \<Rightarrow> settings option \<Rightarrow> node \<Rightarrow> check \<Rightarrow> cw \<Rightarrow> cw" where
  "run_node_check svc env settings n ck w =
     (let finish = (\<lambda>m. let (p, w1) = try_times m (tries_of ck) no_outcome w
                        in report_generic svc env settings (Some n) None ck p
                             (snd (store_result env (ck_id ck) p [] w1)))
      in if to_lower (ck_type ck) = ''ssh'' then if n_ssh_enabled n then finish (check_ssh svc env n) else w
         else if to_lower (ck_type ck) = ''tcp''
         then finish (check_tcp env (join_host_port (n_ssh_host n) (itoa (n_ssh_port n))) (timeout_for ck))
         else w)"

section \<open>One tick\<close>

text \<open>\<open>runCheck\<close>; the result says whether the check was executed.\<close>

definition run_check ::
    "chk_svc \<Rightarrow> chk_env \<Rightarrow> node list \<Rightarrow> service list \<Rightarrow> bot list \<Rightarrow> check \<Rightarrow> cw \<Rightarrow> bool \<times> cw" where
  "run_check svc env nodes services bots ck w =
     (let ty = to_lower (ck_target_type ck)
      in if ty = ''node'' then
           (case row_get n_id (ck_target_id ck) nodes of
              None \<Rightarrow> (False, w)
            | Some n \<Rightarrow>
                if \<not> n_is_enabled n then (False, w)
                else case load_alert_settings svc env (n_org_id n) w of
                       (st, w1) \<Rightarrow> (True, run_node_check svc env st n ck w1))
         else if ty = ''service'' then
           (case row_get sv_id (ck_target_id ck) services of
              None \<Rightarrow> (False, w)
            | Some s \<Rightarrow>
                let go = (\<lambda>n. case load_alert_settings svc env (service_org_id (Some s) n) w of
                            (st, w1) \<Rightarrow> (True, snd (run_service_check svc env st n s ck w1)))
                in if \<not> sv_is_enabled s then (False, w)
                   else case sv_node_id s of
                          None \<Rightarrow> go None
                        | Some i \<Rightarrow>
                            if i = uuid_nil then go None
                            else (case row_get n_id i nodes of
                                    None \<Rightarrow> (False, w)
                                  | Some n \<Rightarrow> if n_is_enabled n then go (Some n) else (False, w)))
         else if ty = ''bot'' then
           (case row_get b_id (ck_target_id ck) bots of
              None \<Rightarrow> (False, w)
            | Some b \<Rightarrow>
                if \<not> b_is_enabled b then (False, w)
                else case row_get n_id (b_node_id b) nodes of
                       None \<Rightarrow> (False, w)
                     | Some n \<Rightarrow>
                         if \<not> n_is_enabled n then (False, w)
                         else case load_alert_settings svc env (n_org_id n) w of
                                (st, w1) \<Rightarrow> (True, snd (run_bot_check svc env st n b ck w1)))
         else (False, w))"

primrec run_due ::
    "chk_svc \<Rightarrow> chk_env \<Rightarrow> instant \<Rightarrow> check_result list \<Rightarrow> node list \<Rightarrow> service list \<Rightarrow> bot list \<Rightarrow> check list \<Rightarrow> cw \<Rightarrow> cw" where
  "run_due svc env now results nodes services bots [] w = w"
| "run_due svc env now results nodes services bots (c # cs) w =
     run_due svc env now results nodes services bots cs
       (if is_due now (ck_interval_sec c) (last_result results (ck_id c))
        then snd (run_check svc env nodes services bots c w) else w)"

definition watched_check :: "check \<Rightarrow> bool" where
  "watched_check c \<longleftrightarrow> ck_enabled c \<and> to_lower (ck_target_type c) \<in> {''service'', ''bot''}"

definition checks_run_once :: "chk_svc \<Rightarrow> chk_env \<Rightarrow> cw \<Rightarrow> cw" where
  "checks_run_once svc env w =
     (if \<not> kw_has_db svc then w
      else case cw_query env (\<lambda>v. filter watched_check (cw_checks v)) w of
             (Inl _, w1) \<Rightarrow> w1
           | (Inr cks, w1) \<Rightarrow>
               if cks = [] then w1
               else let (nodes, w2) = cw_rows env (\<lambda>v. w_nodes (cw_world v)) w1;
                        (services, w3) = cw_rows env (\<lambda>v. w_services (cw_world v)) w2;
                        (bots, w4) = cw_rows env (\<lambda>v. w_bots (cw_world v)) w3;
                        (results, w5) = cw_rows env cw_results w4
                    in run_due svc env (cw_now env w5) results nodes services bots cks w5)"

section \<open>Missing checks\<close>

definition new_check :: "uuid \<Rightarrow> string \<Rightarrow> uuid \<Rightarrow> string \<Rightarrow> int \<Rightarrow> instant \<Rightarrow> check" where
  "new_check i target_type target ty interval now =
     \<lparr>ck_id = i, ck_target_type = target_type, ck_target_id = target, ck_type = ty, ck_fail_after_sec = 300,
      ck_recover_after_ok = 2, ck_mute_until = None, ck_enabled = True, ck_interval_sec = interval,
      ck_timeout_ms = 3000, ck_retries = 1, ck_created_at = now\<rparr>"

text \<open>One statement adds a check for every target of a kind that has none; the database makes the ids.\<close>

definition add_check :: "chk_env \<Rightarrow> instant \<Rightarrow> string \<times> uuid \<times> string \<times> int \<Rightarrow> cw \<Rightarrow> cw" where
  "add_check env now t w =
     (case t of (target_type, target, ty, interval) \<Rightarrow>
        (case uuid_new (ce_alert env) (cw_world w) of
           (u, v) \<Rightarrow> w\<lparr>cw_world := v, cw_checks := cw_checks w @ [new_check u target_type target ty interval now]\<rparr>))"

definition has_check :: "string \<Rightarrow> uuid \<Rightarrow> cw \<Rightarrow> bool" where
  "has_check target_type target w \<longleftrightarrow>
     list_ex (\<lambda>c. ck_target_type c = target_type \<and> ck_target_id c = target) (cw_checks w)"

definition sql_service_type :: "string \<Rightarrow> string" where
  "sql_service_type kind = (if to_upper kind \<in> {''CUSTOM_FTP'', ''FTP''} then ''FTP'' else ''HTTP'')"

definition backfill_service_checks :: "chk_svc \<Rightarrow> chk_env \<Rightarrow> cw \<Rightarrow> cw" where
  "backfill_service_checks svc env w =
     (if \<not> kw_has_db svc then w
      else snd (cw_exec env (\<lambda>v. fold (\<lambda>s. add_check env (cw_now env w) (''service'', sv_id s, sql_service_type (sv_kind s), 60))
                               (filter (\<lambda>s. \<not> has_check ''service'' (sv_id s) v) (w_services (cw_world v))) v) w))"

definition backfill_bot_checks :: "chk_svc \<Rightarrow> chk_env \<Rightarrow> cw \<Rightarrow> cw" where
  "backfill_bot_checks svc env w =
     (if \<not> kw_has_db svc then w
      else snd (cw_exec env (\<lambda>v. fold (\<lambda>b. add_check env (cw_now env w) (''bot'', b_id b, to_upper (b_kind b), 30))
                               (filter (\<lambda>b. \<not> has_check ''bot'' (b_id b) v) (w_bots (cw_world v))) v) w))"

section \<open>Running a check at once\<close>

fun newest_check :: "check list \<Rightarrow> check option" where
  "newest_check [] = None"
| "newest_check (c # cs) =
     (case newest_check cs of
        None \<Rightarrow> Some c
      | Some d \<Rightarrow> if ck_created_at c < ck_created_at d then Some d else Some c)"

text \<open>The newest enabled check of the target, or a new one with the given type and interval.\<close>

definition check_for :: "chk_env \<Rightarrow> string \<Rightarrow> uuid \<Rightarrow> string \<Rightarrow> int \<Rightarrow> cw \<Rightarrow> check result \<times> cw" where
  "check_for env target_type target ty interval w =
     (case cw_first env (\<lambda>v. newest_check (filter (\<lambda>c. ck_target_type c = target_type \<and> ck_target_id c = target \<and>
                                             ck_enabled c) (cw_checks v))) w of
        (Inr c, w1) \<Rightarrow> (Inr c, w1)
      | (Inl ErrNotFound, w1) \<Rightarrow>
          (case cw_exec env (add_check env (cw_now env w1) (target_type, target, ty, interval)) w1 of
             (Some e, w2) \<Rightarrow> (Inl e, w2)
           | (None, w2) \<Rightarrow> (Inr (last (cw_checks w2)), w2))
      | (Inl e, w1) \<Rightarrow> (Inl e, w1))"

definition run_now_service :: "chk_svc \<Rightarrow> chk_env \<Rightarrow> uuid \<Rightarrow> cw \<Rightarrow> check_result result \<times> cw" where
  "run_now_service svc env i w =
     (if \<not> kw_has_db svc then (Inl (ErrMsg ''db not configured''), w)
      else case cw_first env (\<lambda>v. row_get sv_id i (w_services (cw_world v))) w of
             (Inl e, w1) \<Rightarrow> (Inl e, w1)
           | (Inr s, w1) \<Rightarrow>
               let go = (\<lambda>n w2.
                     case check_for env ''service'' (sv_id s) (service_check_type (sv_kind s)) 60 w2 of
                       (Inl e, w3) \<Rightarrow> (Inl e, w3)
                     | (Inr ck, w3) \<Rightarrow>
                         (case load_alert_settings svc env (service_org_id (Some s) n) w3 of
                            (st, w4) \<Rightarrow> (case run_service_check svc env st n s ck w4 of (row, w5) \<Rightarrow> (Inr row, w5))))
               in case sv_node_id s of
                    None \<Rightarrow> go None w1
                  | Some k \<Rightarrow>
                      if k = uuid_nil then go None w1
                      else (case cw_first env (\<lambda>v. row_get n_id k (w_nodes (cw_world v))) w1 of
                              (Inl e, w2) \<Rightarrow> (Inl e, w2) | (Inr n, w2) \<Rightarrow> go (Some n) w2))"

definition run_now_bot :: "chk_svc \<Rightarrow> chk_env \<Rightarrow> uuid \<Rightarrow> cw \<Rightarrow> check_result result \<times> cw" where
  "run_now_bot svc env i w =
     (if \<not> kw_has_db svc then (Inl (ErrMsg ''db not configured''), w)
      else case cw_first env (\<lambda>v. row_get b_id i (w_bots (cw_world v))) w of
             (Inl e, w1) \<Rightarrow> (Inl e, w1)
           | (Inr b, w1) \<Rightarrow>
               (case cw_first env (\<lambda>v. row_get n_id (b_node_id b) (w_nodes (cw_world v))) w1 of
                  (Inl e, w2) \<Rightarrow> (Inl e, w2)
                | (Inr n, w2) \<Rightarrow>
                    (case check_for env ''bot'' (b_id b) (to_upper (trim_space (b_kind b))) 30 w2 of
                       (Inl e, w3) \<Rightarrow> (Inl e, w3)
                     | (Inr ck, w3) \<Rightarrow>
                         (case load_alert_settings svc env (n_org_id n) w3 of
                            (st, w4) \<Rightarrow> (case run_bot_check svc env st n b ck w4 of (row, w5) \<Rightarrow> (Inr row, w5))))))"

end
