(* ===== verification/Node_Watch.thy ===== *)
theory Node_Watch
  imports Check_Worker
begin

text \<open>
  \<open>internal/services/nodecheck/worker.go\<close>: the panel and the SSH port of every node are probed, the result is
  stored, and the connection alert is raised from the SSH port; a failing SSH transport does not count
  while the agent of the node reports.
\<close>

definition is_panel_node :: "node option \<Rightarrow> bool" where
  "is_panel_node n =
     (case n of
        None \<Rightarrow> False
      | Some nd \<Rightarrow>
          if trim_space (n_kind nd) = [] then trim_space (n_base_url nd) \<noteq> []
          else equal_fold (n_kind nd) ''PANEL'' \<and> trim_space (n_base_url nd) \<noteq> [])"

text \<open>\<open>classifyTLSError\<close>: a code and the text of the error. The text is that of the whole request, with its URL.\<close>

definition classify_tls_error :: "http_error \<Rightarrow> string \<times> string" where
  "classify_tls_error e =
     (let raw = he_text e
      in (case he_cause e of
            CertInvalid r \<Rightarrow>
              if r = Expired then ''CERT_EXPIRED''
              else if contains (to_lower raw) ''not yet valid'' then ''CERT_NOT_YET_VALID''
              else if r = NotAuthorized then ''UNKNOWN_CA'' else ''HANDSHAKE''
          | HostnameWrong \<Rightarrow> ''HOSTNAME_MISMATCH''
          | UnknownAuthority \<Rightarrow> ''UNKNOWN_CA''
          | TimedOut \<Rightarrow> ''GENERIC_HTTP_ERROR''
          | OtherCause \<Rightarrow> if contains (to_lower raw) ''tls'' then ''HANDSHAKE'' else ''GENERIC_HTTP_ERROR'', raw))"

record panel_result =
  pn_ok :: bool
  pn_latency :: int
  pn_err :: "string option"
  pn_code :: "string option"
  pn_detail :: "string option"

definition panel_good :: "int \<Rightarrow> panel_result" where
  "panel_good latency = \<lparr>pn_ok = True, pn_latency = latency, pn_err = None, pn_code = None, pn_detail = None\<rparr>"

definition panel_bad :: "int \<Rightarrow> string \<Rightarrow> string \<Rightarrow> string \<Rightarrow> panel_result" where
  "panel_bad latency msg code detail =
     \<lparr>pn_ok = False, pn_latency = latency, pn_err = Some msg, pn_code = Some code, pn_detail = Some detail\<rparr>"

primrec panel_attempts :: "chk_env \<Rightarrow> string \<Rightarrow> bool \<Rightarrow> nat \<Rightarrow> http_error option \<Rightarrow> cw \<Rightarrow> panel_result \<times> cw" where
  "panel_attempts env url verify 0 last_err w =
     (case last_err of
        Some e \<Rightarrow> (case classify_tls_error e of (code, detail) \<Rightarrow> (panel_bad 0 (he_text e) code detail, w))
      | None \<Rightarrow> (panel_bad 0 ''panel check failed'' ''GENERIC_HTTP_ERROR'' ''panel check failed'', w))"
| "panel_attempts env url verify (Suc k) last_err w =
     (case ce_bad_request env url of
        Some m \<Rightarrow> (panel_bad 0 m ''GENERIC_HTTP_ERROR'' m, w)
      | None \<Rightarrow>
          let start = cw_now env w; (n, w1) = cw_probe env (ProbeHttp url verify [] (dur_mul 8 second)) w
          in case ce_http env n url of
               Inl e \<Rightarrow> panel_attempts env url verify k (Some e) w1
             | Inr (code, bytes) \<Rightarrow>
                 let latency = since env start w1; msg = ''panel status '' @ itoa code
                 in (if 500 \<le> code then panel_bad latency msg ''GENERIC_HTTP_ERROR'' msg else panel_good latency, w1))"

definition check_panel :: "chk_env \<Rightarrow> string \<Rightarrow> bool \<Rightarrow> cw \<Rightarrow> panel_result \<times> cw" where
  "check_panel env url verify = panel_attempts env url verify 2 None"

definition check_ssh_port :: "chk_env \<Rightarrow> node \<Rightarrow> cw \<Rightarrow> (bool \<times> string option) \<times> cw" where
  "check_ssh_port env n w =
     (if \<not> n_ssh_enabled n then ((True, None), w)
      else let addr = join_host_port (n_ssh_host n) (itoa (n_ssh_port n));
               (k, w1) = cw_probe env (ProbeTcp addr (dur_mul 3 second)) w
           in case ce_tcp env k addr of Some e \<Rightarrow> ((False, Some e), w1) | None \<Rightarrow> ((True, None), w1))"

definition should_suppress_ssh :: "node option \<Rightarrow> string option \<Rightarrow> instant \<Rightarrow> duration \<Rightarrow> bool" where
  "should_suppress_ssh n ssh_err now ttl =
     (case (n, ssh_err) of
        (Some nd, Some msg) \<Rightarrow> agent_online nd now ttl \<and> is_ssh_transport_failure msg
      | _ \<Rightarrow> False)"

definition join_check_errors :: "string option \<Rightarrow> string option \<Rightarrow> string option" where
  "join_check_errors panel_err ssh_err =
     (case (panel_err, ssh_err) of
        (None, None) \<Rightarrow> None
      | (Some p, Some q) \<Rightarrow> Some (''panel: '' @ p @ ''; ssh: '' @ q)
      | (Some p, None) \<Rightarrow> Some (''panel: '' @ p)
      | (None, Some q) \<Rightarrow> Some (''ssh: '' @ q))"

definition watch_node :: "chk_svc \<Rightarrow> chk_env \<Rightarrow> node \<Rightarrow> cw \<Rightarrow> cw" where
  "watch_node svc env n w =
     (let ts = cw_now env w;
          (st, w1) = load_alert_settings svc env (n_org_id n) w;
          (pn, w2) = (if is_panel_node (Some n) then check_panel env (n_base_url n) (n_verify_tls n) w1
                      else (panel_good 0, w1));
          ((ssh_ok, ssh_err), w3) = check_ssh_port env n w2;
          hush = should_suppress_ssh (Some n) ssh_err ts (agent_online_ttl (kw_interval svc));
          entry = \<lparr>nc_node_id = n_id n, nc_ts = ts, nc_panel_ok = pn_ok pn, nc_ssh_ok = ssh_ok,
                   nc_latency_ms = pn_latency pn, nc_error = join_check_errors (pn_err pn) ssh_err,
                   nc_panel_code = pn_code pn, nc_panel_detail = pn_detail pn\<rparr>;
          w4 = snd (cw_exec env (\<lambda>v. v\<lparr>cw_node_checks := cw_node_checks v @ [entry]\<rparr>) w3)
      in case kw_alerts svc of
           None \<Rightarrow> w4
         | Some a \<Rightarrow>
             on_world (notify_connection a (env_at env w4) st (Some n) (pn_ok pn) (if hush then True else ssh_ok)
                         (if hush then None else ssh_err)) w4)"

definition nodes_run_once :: "chk_svc \<Rightarrow> chk_env \<Rightarrow> cw \<Rightarrow> cw" where
  "nodes_run_once svc env w =
     (case cw_query env (\<lambda>v. filter n_is_enabled (w_nodes (cw_world v))) w of
        (Inl _, w1) \<Rightarrow> w1
      | (Inr ns, w1) \<Rightarrow> fold (watch_node svc env) ns w1)"


text \<open>
  \<open>internal/services/metrics/worker.go\<close>: load, memory and disk of a node over SSH, the versions of its
  programs, the alerts on thresholds, and the pruning of old rows.

  The texts are those of \<open>/proc\<close> and \<open>df\<close>, so \<open>strings.Fields\<close> is taken on ASCII white space. Numbers become
  floats by \<open>ce_round\<close>, applied to every operation.
\<close>

section \<open>Parsing\<close>

definition ws_fields :: "string \<Rightarrow> string list" where
  "ws_fields s = fields_func (\<lambda>c. c \<in> set ascii_ws) s"

text \<open>\<open>bufio.Scanner\<close> over lines: a carriage return before the end is dropped, a line that does not fit into
  the buffer of 64 KiB ends the scan.\<close>

definition drop_cr :: "string \<Rightarrow> string" where
  "drop_cr l = (if l \<noteq> [] \<and> last l = CHR 0x0D then butlast l else l)"

definition scan_lines :: "string \<Rightarrow> string list" where
  "scan_lines s =
     (let ls = split_on (CHR 0x0A) s; ls = (if last ls = [] then butlast ls else ls)
      in map drop_cr (takeWhile (\<lambda>l. length l < 65536) ls))"

definition nth_float :: "chk_env \<Rightarrow> string list \<Rightarrow> nat \<Rightarrow> float64 option" where
  "nth_float env fs i = (if i < length fs then ce_parse_float env (fs ! i) else None)"

type_synonym loads = "float64 option \<times> float64 option \<times> float64 option"

definition parse_load :: "chk_env \<Rightarrow> string + string \<Rightarrow> loads \<times> string option" where
  "parse_load env r =
     (case r of
        Inl e \<Rightarrow> ((None, None, None), Some e)
      | Inr out \<Rightarrow>
          let fs = ws_fields (trim_space out)
          in if length fs < 3 then ((None, None, None), Some ''invalid loadavg'')
             else ((nth_float env fs 0, nth_float env fs 1, nth_float env fs 2), None))"

definition parse_mem_line :: "string \<Rightarrow> int option" where
  "parse_mem_line line =
     (let parts = ws_fields line
      in if length parts < 2 then None
         else case atoi (parts ! 1) of None \<Rightarrow> None | Some v \<Rightarrow> Some (wrap64 (v * 1024)))"

text \<open>The last line with the label whose value can be read.\<close>

definition mem_field :: "string \<Rightarrow> string list \<Rightarrow> int option" where
  "mem_field label ls =
     fold (\<lambda>l acc. if has_prefix l label then (case parse_mem_line l of None \<Rightarrow> acc | Some v \<Rightarrow> Some v) else acc) ls None"

definition mem_free :: "string list \<Rightarrow> int option" where
  "mem_free ls = fold (\<lambda>l acc. if has_prefix l ''MemFree:'' then parse_mem_line l else acc) ls None"

definition parse_meminfo :: "string + string \<Rightarrow> (int option \<times> int option) \<times> string option" where
  "parse_meminfo r =
     (case r of
        Inl e \<Rightarrow> ((None, None), Some e)
      | Inr out \<Rightarrow>
          let ls = scan_lines out; tot = mem_field ''MemTotal:'' ls;
              avail0 = mem_field ''MemAvailable:'' ls;
              avail = (if avail0 = None then mem_free ls else avail0)
          in ((tot, avail), if tot = None \<or> avail = None then Some ''invalid meminfo'' else None))"

definition parse_df :: "string + string \<Rightarrow> (int option \<times> int option) \<times> string option" where
  "parse_df r =
     (case r of
        Inl e \<Rightarrow> ((None, None), Some e)
      | Inr out \<Rightarrow>
          let ls = split_on (CHR 0x0A) (trim_space out)
          in if length ls < 2 then ((None, None), Some ''invalid df'')
             else let parts = ws_fields (ls ! 1)
                  in if length parts < 6 then ((None, None), Some ''invalid df columns'')
                     else case (atoi (parts ! 1), atoi (parts ! 2)) of
                            (Some tot, Some used) \<Rightarrow> ((Some tot, Some used), None)
                          | _ \<Rightarrow> ((None, None), Some ''invalid df numbers''))"

definition join_metric_errors :: "string option list \<Rightarrow> string option" where
  "join_metric_errors es =
     (let parts = filter (\<lambda>e. trim_space e \<noteq> []) (map the (filter (\<lambda>e. e \<noteq> None) es))
      in if parts = [] then None else Some (join ''; '' parts))"

text \<open>The escape sequences that set colours: \<open>ESC [ ... m\<close> with digits and semicolons.\<close>

function strip_ansi :: "string \<Rightarrow> string" where
  "strip_ansi [] = []"
| "strip_ansi (c # cs) =
     (if c = CHR 0x1B \<and> cs \<noteq> [] \<and> hd cs = CHR ''['' then
        (case dropWhile (\<lambda>d. d \<in> set ''0123456789;'') (tl cs) of
           [] \<Rightarrow> c # strip_ansi cs
         | d # ds \<Rightarrow> if d = CHR ''m'' then strip_ansi ds else c # strip_ansi cs)
      else c # strip_ansi cs)"
  by pat_completeness auto
termination
proof (relation "measure length")
  fix c :: char and cs ds d
  assume "dropWhile (\<lambda>d. d \<in> set ''0123456789;'') (tl cs) = d # ds"
  then have "length (d # ds) \<le> length (tl cs)" by (metis length_dropWhile_le)
  then show "(ds, c # cs) \<in> measure length" by simp
qed auto

definition nilify_string :: "string \<Rightarrow> string option" where
  "nilify_string s = (if trim_space s = [] then None else Some (trim_space s))"

section \<open>Collecting\<close>

text \<open>A command on a node whose key is known.\<close>

definition metric_command :: "chk_env \<Rightarrow> node \<Rightarrow> string \<Rightarrow> string \<Rightarrow> cw \<Rightarrow> (string + string) \<times> cw" where
  "metric_command env n key cmd w =
     (let (k, w1) = cw_probe env (ProbeSsh (n_ssh_host n) (n_ssh_port n) (n_ssh_user n) key cmd) w
      in case ce_ssh env k cmd of (out, None) \<Rightarrow> (Inr out, w1) | (out, Some e) \<Rightarrow> (Inl e, w1))"

primrec detect_version :: "chk_env \<Rightarrow> node \<Rightarrow> string \<Rightarrow> string list \<Rightarrow> cw \<Rightarrow> string \<times> cw" where
  "detect_version env n key [] w = ([], w)"
| "detect_version env n key (cmd # cmds) w =
     (case metric_command env n key cmd w of
        (Inl _, w1) \<Rightarrow> detect_version env n key cmds w1
      | (Inr out, w1) \<Rightarrow>
          let t = trim_space (strip_ansi out)
          in if t \<noteq> [] then (trim_space (hd (split_on (CHR 0x0A) t)), w1) else detect_version env n key cmds w1)"

definition sh_lc :: "string \<Rightarrow> string" where
  "sh_lc body = ''sh -lc '' @ [CHR 0x27] @ body @ [CHR 0x27]"

definition runtime_version_command :: string where
  "runtime_version_command =
     sh_lc (''if command -v Runtime >/dev/null 2>&1; then Runtime version || Runtime -version; '' @
       ''elif [ -x /usr/local/bin/Runtime ]; then /usr/local/bin/Runtime version || /usr/local/bin/Runtime -version; '' @
       ''elif [ -x /usr/local/service-manager/bin/Runtime-linux-amd64 ]; then '' @
       ''/usr/local/service-manager/bin/Runtime-linux-amd64 -version; fi; true'')"

definition panel_version_command :: string where
  "panel_version_command =
     sh_lc (''if [ -x /usr/local/service-manager/service-manager ]; then /usr/local/service-manager/service-manager -v; '' @
       ''elif command -v service-manager >/dev/null 2>&1; then service-manager -v 2>/dev/null || service-manager version; '' @
       ''elif [ -f /usr/local/service-manager/version ]; then cat /usr/local/service-manager/version; fi; true'')"

definition metric_row :: "uuid \<Rightarrow> instant \<Rightarrow> loads \<Rightarrow> int option \<times> int option \<Rightarrow> int option \<times> int option \<Rightarrow> string option \<Rightarrow> node_metric" where
  "metric_row i now l mem disk err =
     \<lparr>nm_node_id = i, nm_ts = now, nm_load1 = fst l, nm_load5 = fst (snd l), nm_load15 = snd (snd l),
      nm_mem_total = fst mem, nm_mem_avail = snd mem, nm_disk_total = fst disk, nm_disk_used = snd disk, nm_error = err\<rparr>"

definition save_metric ::
    "chk_env \<Rightarrow> uuid \<Rightarrow> loads \<Rightarrow> int option \<times> int option \<Rightarrow> int option \<times> int option \<Rightarrow> string option \<Rightarrow> cw \<Rightarrow> cw" where
  "save_metric env i l mem disk err w =
     snd (cw_exec env (\<lambda>v. v\<lparr>cw_metrics := cw_metrics v @ [metric_row i (cw_now env w) l mem disk err]\<rparr>) w)"

definition no_loads :: loads where
  "no_loads = (None, None, None)"

text \<open>\<open>(float64(part) / float64(tot)) * 100\<close>\<close>

definition percent_of :: "chk_env \<Rightarrow> int \<Rightarrow> int \<Rightarrow> float64" where
  "percent_of env part tot =
     Fin (ce_round env (ce_round env (ce_round env (of_int part) / ce_round env (of_int tot)) * 100))"

definition rest_percent :: "chk_env \<Rightarrow> int option \<times> int option \<Rightarrow> float64 option" where
  "rest_percent env m =
     (case m of
        (Some tot, Some part) \<Rightarrow> if 0 < tot then Some (percent_of env (wrap64 (tot - part)) tot) else None
      | _ \<Rightarrow> None)"

definition notify_metrics ::
    "alert_svc \<Rightarrow> alert_env \<Rightarrow> settings option \<Rightarrow> node \<Rightarrow> float64 option \<Rightarrow> float64 option \<Rightarrow> float64 option \<Rightarrow> world \<Rightarrow> world" where
  "notify_metrics a env st n load1 used_pct free_pct w =
     (if st = None then w
      else
        let w1 = (case load1 of None \<Rightarrow> w | Some x \<Rightarrow> notify_cpu a env st (Some n) x w);
            w2 = (case used_pct of None \<Rightarrow> w1 | Some x \<Rightarrow> notify_memory a env st (Some n) x w1)
        in case free_pct of None \<Rightarrow> w2 | Some x \<Rightarrow> notify_disk a env st (Some n) x w2)"

definition save_versions :: "chk_env \<Rightarrow> uuid \<Rightarrow> string \<Rightarrow> string \<Rightarrow> cw \<Rightarrow> cw" where
  "save_versions env i runtime panel w =
     (let now = cw_now env w
      in snd (cw_exec env (on_world (\<lambda>v. v\<lparr>w_nodes := row_upd n_id i
             (\<lambda>n. n\<lparr>n_runtime_version := nilify_string runtime, n_service_version := nilify_string panel,
                    n_versions_checked_at := Some now\<rparr>) (w_nodes v)\<rparr>)) w))"

definition collect_for_node :: "chk_svc \<Rightarrow> chk_env \<Rightarrow> node \<Rightarrow> cw \<Rightarrow> cw" where
  "collect_for_node svc env n w =
     (let refuse = (\<lambda>msg. save_metric env (n_id n) no_loads (None, None) (None, None) (Some msg) w)
      in if trim_space (n_ssh_auth_method n) \<noteq> [] \<and> to_lower (n_ssh_auth_method n) \<noteq> ''key''
         then refuse ''unsupported ssh auth method''
         else case e_decrypt (ce_alert env) (n_ssh_key_enc n) of
                Inl e \<Rightarrow> refuse (''decrypt key: '' @ err_text e)
              | Inr key \<Rightarrow>
                  let (r1, w1) = metric_command env n key ''cat /proc/loadavg'' w;
                      (l, load_err) = parse_load env r1;
                      (r2, w2) = metric_command env n key ''cat /proc/meminfo'' w1;
                      (mem, mem_err) = parse_meminfo r2;
                      (r3, w3) = metric_command env n key ''df -P -B1 -x tmpfs -x devtmpfs /'' w2;
                      (disk, disk_err) = parse_df r3;
                      w4 = save_metric env (n_id n) l mem disk (join_metric_errors [load_err, mem_err, disk_err]) w3;
                      w5 = (case kw_alerts svc of
                              None \<Rightarrow> w4
                            | Some a \<Rightarrow>
                                (case load_alert_settings svc env (n_org_id n) w4 of
                                   (st, v) \<Rightarrow> on_world (notify_metrics a (env_at env v) st n (fst l)
                                                (rest_percent env mem) (rest_percent env disk)) v));
                      (runtime, w6) = detect_version env n key [runtime_version_command] w5;
                      (panel, w7) = detect_version env n key [panel_version_command] w6
                  in save_versions env (n_id n) runtime panel w7)"

definition day_long :: duration where
  "day_long = 24 * 60 * minute"

definition metrics_run_once :: "chk_svc \<Rightarrow> chk_env \<Rightarrow> cw \<Rightarrow> cw" where
  "metrics_run_once svc env w =
     (case cw_query env (\<lambda>v. filter (\<lambda>n. n_is_enabled n \<and> n_ssh_enabled n) (w_nodes (cw_world v))) w of
        (Inl _, w1) \<Rightarrow> w1
      | (Inr ns, w1) \<Rightarrow>
          let now = cw_now env w1; w2 = fold (collect_for_node svc env) ns w1
          in if 0 < kw_retention svc \<and>
                (cw_last_prune w2 = 0 \<or> day_long < time_sub (cw_now env w2) (cw_last_prune w2))
             then (snd (cw_exec env (\<lambda>v. v\<lparr>cw_metrics := filter (\<lambda>m. \<not> nm_ts m < cw_now env w2 - kw_retention svc) (cw_metrics v)\<rparr>) w2))
                    \<lparr>cw_last_prune := now\<rparr>
             else w2)"

end
