(* ===== verification/Watch_Machine.thy ===== *)
theory Watch_Machine
  imports Node_Watch Alert_Machine
begin

text \<open>
  What the workers leave alone. \<open>calm_net\<close> says that nobody interferes while a probe is under way; then a
  probe changes nothing but the list of probes. \<open>watch_invariant\<close> is the interface of an invariant of the
  workers: it is kept by the others, by each statement and by each call of the alert service, and so by every
  tick and every run of a check.
\<close>

named_theorems cw_simps

section \<open>Selectors\<close>

lemma on_world_sel [simp]:
  "cw_world (on_world f w) = f (cw_world w)" "cw_checks (on_world f w) = cw_checks w"
  "cw_results (on_world f w) = cw_results w" "cw_node_checks (on_world f w) = cw_node_checks w"
  "cw_metrics (on_world f w) = cw_metrics w" "cw_last_prune (on_world f w) = cw_last_prune w"
  "cw_probes (on_world f w) = cw_probes w"
  by (simp_all add: on_world_def)

lemma cw_query_snd [simp]: "snd (cw_query env q w) = on_world db_tick w"
  by (simp add: cw_query_def)

lemma cw_first_snd [simp]: "snd (cw_first env q w) = on_world db_tick w"
  by (simp add: cw_first_def)

lemma cw_rows_snd [simp]: "snd (cw_rows env q w) = on_world db_tick w"
  by (auto simp: cw_rows_def cw_query_def)

definition calm_net :: "chk_env \<Rightarrow> bool" where
  "calm_net env \<longleftrightarrow> (\<forall>n w. ce_other env n w = w)"

definition probed :: "cw \<Rightarrow> probe list \<Rightarrow> cw" where
  "probed w ps = w\<lparr>cw_probes := cw_probes w @ ps\<rparr>"

lemma probed_sel [simp]:
  "cw_world (probed w ps) = cw_world w" "cw_checks (probed w ps) = cw_checks w"
  "cw_results (probed w ps) = cw_results w" "cw_node_checks (probed w ps) = cw_node_checks w"
  "cw_metrics (probed w ps) = cw_metrics w" "cw_last_prune (probed w ps) = cw_last_prune w"
  "cw_probes (probed w ps) = cw_probes w @ ps"
  by (simp_all add: probed_def)

lemma probed_Nil [simp]: "probed w [] = w"
  by (simp add: probed_def)

lemma probed_probed [simp]: "probed (probed w ps) qs = probed w (ps @ qs)"
  by (simp add: probed_def)

lemma cw_probe_calm: "calm_net env \<Longrightarrow> cw_probe env p w = (length (cw_probes w), probed w [p])"
  by (simp add: cw_probe_def calm_net_def probed_def)

section \<open>Laws of probing\<close>

text \<open>An outcome that is good has no error.\<close>

definition fair :: "outcome \<Rightarrow> bool" where
  "fair p \<longleftrightarrow> po_ok p \<longrightarrow> po_err p = None"

lemma fair_simps [simp]: "fair (failed l c e)" "fair (passed l c)" "fair no_outcome"
  "fair \<lparr>po_ok = b, po_latency = l, po_code = c, po_bytes = n, po_err = None\<rparr>"
  by (simp_all add: fair_def failed_def passed_def no_outcome_def)

text \<open>What a single probe keeps is kept by every way of probing that the workers have.\<close>

locale probe_laws =
  fixes env :: chk_env and R :: "cw \<Rightarrow> cw \<Rightarrow> bool"
  assumes same: "R w w"
    and trans: "R w u \<Longrightarrow> R u v \<Longrightarrow> R w v"
    and probe: "R w (snd (cw_probe env p w))"
begin

definition probing :: "(cw \<Rightarrow> outcome \<times> cw) \<Rightarrow> bool" where
  "probing m \<longleftrightarrow> (\<forall>w. R w (snd (m w)) \<and> fair (fst (m w)))"

lemma probingI: "(\<And>w x v. m w = (x, v) \<Longrightarrow> R w v \<and> fair x) \<Longrightarrow> probing m"
  unfolding probing_def by (metis prod.collapse)

lemma probingD: "probing m \<Longrightarrow> m w = (x, v) \<Longrightarrow> R w v \<and> fair x"
  unfolding probing_def by (metis fst_conv snd_conv)

lemma probeD: "cw_probe env p w = (n, v) \<Longrightarrow> R w v"
  using probe [of w p] by simp

lemma probing_ret: "fair x \<Longrightarrow> probing (\<lambda>w. (x, w))"
  by (simp add: probing_def same)

lemma probing_if: "probing f \<Longrightarrow> probing g \<Longrightarrow> probing (\<lambda>w. if b then f w else g w)"
  by (cases b) simp_all

lemma probing_tries: "probing m \<Longrightarrow> fair o0 \<Longrightarrow> probing (try_times m k o0)"
proof (induction k arbitrary: o0)
  case (Suc k)
  show ?case
  proof (rule probingI)
    fix w x v assume r: "try_times m (Suc k) o0 w = (x, v)"
    obtain o1 w1 where m: "m w = (o1, w1)" by fastforce
    have "R w w1" "fair o1" using probingD [OF Suc.prems(1) m] by simp_all
    then show "R w v \<and> fair x"
      using r m probingD [OF Suc.IH [OF Suc.prems(1), of o1]] trans by (auto split: if_splits)
  qed
qed (simp add: probing_def same)

lemma probing_tcp: "probing (check_tcp env addr t)"
  by (rule probingI) (auto simp: check_tcp_def Let_def split: option.splits prod.splits dest: probeD)

lemma probing_http: "probing (check_http env good url v hs t)"
  by (rule probingI)
     (auto simp: check_http_def Let_def same split: option.splits prod.splits sum.splits dest: probeD)

lemma ssh_R: "R w (snd (run_ssh_command svc env n cmd w))"
  by (auto simp: run_ssh_command_def Let_def same split: option.splits prod.splits sum.splits dest: probeD)

lemma sshD: "run_ssh_command svc env n cmd w = (x, v) \<Longrightarrow> R w v"
  using ssh_R [of w svc n cmd] by simp

lemma probing_ssh: "probing (check_ssh svc env n)"
  by (rule probingI) (auto simp: check_ssh_def split: prod.splits sum.splits dest: sshD)

lemma probing_state: "probing (ssh_state_probe svc env n cmd expected)"
  by (rule probingI) (auto simp: ssh_state_probe_def split: prod.splits sum.splits if_splits dest: sshD)

lemma parse_docker_fair: "parse_docker_ps out c = (g, e) \<Longrightarrow> g \<Longrightarrow> e = None"
  by (auto simp: parse_docker_ps_def Let_def split: if_splits)

lemma probing_docker_list: "probing (docker_list svc env n c cmd)"
  by (rule probingI)
     (auto simp: docker_list_def fair_def failed_def split: prod.splits sum.splits dest: sshD parse_docker_fair)

lemma probing_docker: "probing (docker_probe svc env n c)"
proof (rule probingI)
  fix w x v assume r: "docker_probe svc env n c w = (x, v)"
  obtain o1 w1 where m: "docker_list svc env n c docker_list_command w = (o1, w1)" by fastforce
  have 1: "R w w1" "fair o1" using probingD [OF probing_docker_list m] by simp_all
  obtain o2 w2 where m2: "docker_list svc env n c docker_list_command_sudo w1 = (o2, w2)" by fastforce
  have 2: "R w w2" "fair o2" using probingD [OF probing_docker_list m2] trans [OF 1(1)] by simp_all
  show "R w v \<and> fair x"
    using r 1 2 by (auto simp: docker_probe_def m m2 split: if_splits)
qed

lemma send_R: "ftp_send env cmd c w = (e, c1, v) \<Longrightarrow> R w v"
  by (auto simp: ftp_send_def split: prod.splits option.splits dest: probeD)

lemma probing_judge: "probing (ftp_judge env s au l code c)"
  by (rule probingI)
     (auto simp: ftp_judge_def bad_reply_def same split: if_splits prod.splits dest: send_R)

lemma ftp_judgeD: "ftp_judge env s au l code c w = (x, v) \<Longrightarrow> R w v \<and> fair x"
  by (rule probingD [OF probing_judge])

text \<open>A command is sent, its reply read, and the rest decided from the reply.\<close>

lemma probing_exchange:
  assumes k: "\<And>code c1. probing (k code c1)"
    and r: "(case ftp_send env cmd c w of
        (Some e, _, w1) \<Rightarrow> (failed l code0 e, w1)
      | (None, c1, w1) \<Rightarrow>
          (case ftp_read c1 of (Inl e, _) \<Rightarrow> (failed l code0 e, w1) | (Inr code1, c2) \<Rightarrow> k code1 c2 w1)) = (x, v)"
  shows "R w v \<and> fair x"
proof -
  obtain e c1 w1 where s: "ftp_send env cmd c w = (e, c1, w1)" by (metis prod_cases3)
  obtain y c2 where y: "ftp_read c1 = (y, c2)" by fastforce
  have w1: "R w w1" by (rule send_R [OF s])
  show ?thesis
  proof (cases "e = None \<and> \<not> isl y")
    case True
    then obtain code1 where "e = None" "y = Inr code1" by (cases y) auto
    then have "k code1 c2 w1 = (x, v)" using r by (simp add: s y)
    then show ?thesis using probingD [OF k] trans [OF w1] by blast
  next
    case False
    then have "v = w1 \<and> fair x" using r by (auto simp: s y split: option.splits sum.splits)
    then show ?thesis using w1 by simp
  qed
qed

lemma probing_password: "probing (ftp_password svc env s l code c)"
  by (rule probingI)
     (auto simp: ftp_password_def same split: sum.splits if_splits
      dest: probing_exchange [where k = "ftp_judge env s True l", OF probing_judge])

lemma probing_login: "probing (ftp_login svc env s u l code c)"
proof -
  let ?k = "\<lambda>code1 c2 w1. if code1 = 331 then ftp_password svc env s l code1 c2 w1
                         else ftp_judge env s True l code1 c2 w1"
  have k: "probing (?k code1 c2)" for code1 c2
    by (rule probing_if) (rule probing_password probing_judge)+
  show ?thesis
    by (rule probingI)
       (auto simp: ftp_login_def same bad_reply_def split: sum.splits if_splits
        dest: probing_exchange [where k = ?k, OF k])
qed

lemma probing_ftp: "probing (check_ftp svc env addr t s)"
proof (rule probingI)
  fix w x v assume r: "check_ftp svc env addr t s w = (x, v)"
  obtain n w1 where p: "cw_probe env (ProbeTcp addr t) w = (n, w1)" by fastforce
  note w1 = probeD [OF p]
  show "R w v \<and> fair x"
    using r w1 trans [OF w1] probingD [OF probing_judge] probingD [OF probing_login]
    by (auto simp: check_ftp_def p Let_def split: option.splits prod.splits sum.splits if_splits; blast)
qed

section \<open>Checks of services and bots\<close>

lemma probing_service: "probing (execute_service_check svc env n s ck)"
  unfolding execute_service_check_def Let_def
  by (intro probing_if probing_ret probing_tries probing_tcp probing_ftp probing_http fair_simps)

lemma probing_bot: "probing (execute_bot_check svc env n b ck)"
  unfolding execute_bot_check_def execute_docker_check_def execute_ssh_state_check_def Let_def option.case
  by (intro probing_if probing_ret probing_tries probing_docker probing_state probing_http fair_simps)

section \<open>Panel and SSH port of a node\<close>

lemma attempts_R: "panel_attempts env url v k le w = (pn, w1) \<Longrightarrow> R w w1"
proof (induction k arbitrary: le w)
  case 0
  then show ?case by (auto simp: same split: option.splits prod.splits)
next
  case (Suc k)
  obtain n w2 where p: "cw_probe env (ProbeHttp url v [] (dur_mul 8 second)) w = (n, w2)" by fastforce
  note w2 = probeD [OF p]
  have "panel_attempts env url v k e w2 = (pn, w1) \<Longrightarrow> R w w1" for e using Suc.IH trans [OF w2] by blast
  then show ?case
    using Suc.prems w2 same by (auto simp: p Let_def split: option.splits sum.splits prod.splits)
qed

lemma port_R: "check_ssh_port env n w = (r, v) \<Longrightarrow> R w v"
  by (auto simp: check_ssh_port_def Let_def same split: option.splits prod.splits if_splits dest: probeD)

end

section \<open>Nobody interferes\<close>

interpretation calm: probe_laws env "\<lambda>w v. calm_net env \<longrightarrow> (\<exists>ps. v = probed w ps)" for env
proof (unfold_locales, goal_cases)
  case (1 w)
  then show ?case by (metis probed_Nil)
next
  case (2 w u v)
  then show ?case by (metis probed_probed)
next
  case (3 w p)
  then show ?case by (auto simp: cw_probe_calm)
qed

lemma calm_service:
  assumes "calm_net env" and "execute_service_check svc env n s ck w = (p, v)"
  obtains ps where "v = probed w ps" "fair p"
  using calm.probingD [OF calm.probing_service assms(2)] assms(1) by blast

lemma calm_bot:
  assumes "calm_net env" and "execute_bot_check svc env n b ck w = (p, v)"
  obtains ps where "v = probed w ps" "fair p"
  using calm.probingD [OF calm.probing_bot assms(2)] assms(1) by blast

lemma calm_port: "calm_net env \<Longrightarrow> check_ssh_port env n w = (r, v) \<Longrightarrow> \<exists>ps. v = probed w ps"
  using calm.port_R by blast

lemma calm_panel: "calm_net env \<Longrightarrow> check_panel env url vt w = (r, v) \<Longrightarrow> \<exists>ps. v = probed w ps"
  unfolding check_panel_def using calm.attempts_R by blast


text \<open>
  The workers as a machine: ticks of the three workers, checks run at once, missing checks added, and calls of
  the alert service from elsewhere, in any order. \<open>watch_invariant\<close> is the interface of an invariant of this
  machine; \<open>watch_ok\<close> is the one that the tables of the panel have.
\<close>

section \<open>Rows the workers write\<close>

definition result_ok :: "check_result \<Rightarrow> bool" where
  "result_ok r \<longleftrightarrow> cr_status r \<in> {''ok'', ''fail''} \<and> (cr_status r = ''ok'' \<longrightarrow> cr_error r = None) \<and>
     (\<forall>l. cr_latency_ms r = Some l \<longrightarrow> 0 < l)"

definition node_check_ok :: "node_check \<Rightarrow> bool" where
  "node_check_ok c \<longleftrightarrow> (nc_error c = None \<longleftrightarrow> nc_panel_ok c \<and> nc_ssh_ok c) \<and>
     (nc_panel_code c = None \<longleftrightarrow> nc_panel_ok c) \<and> (nc_panel_detail c = None \<longleftrightarrow> nc_panel_ok c)"

text \<open>A row of numbers without an error has those of the memory and of the disk.\<close>

definition metric_ok :: "node_metric \<Rightarrow> bool" where
  "metric_ok m \<longleftrightarrow> nm_error m = None \<longrightarrow>
     nm_mem_total m \<noteq> None \<and> nm_mem_avail m \<noteq> None \<and> nm_disk_total m \<noteq> None \<and> nm_disk_used m \<noteq> None"

text \<open>A failing SSH command has an error text.\<close>

definition errors_have_text :: "chk_env \<Rightarrow> bool" where
  "errors_have_text env \<longleftrightarrow> (\<forall>k cmd out e. ce_ssh env k cmd = (out, Some e) \<longrightarrow> trim_space e \<noteq> [])"

lemma result_row_ok: "fair p \<Longrightarrow> result_ok (result_row i now p ms)"
  by (simp add: result_ok_def result_row_def status_text_def fair_def)

lemma same_data_db_tick: "same_data w (db_tick w)"
  by (simp add: same_data_def db_tick_def)

text \<open>The calls of the workers as steps of the alert service.\<close>

lemma alert_calls:
  "notify_generic a e st n s ck status l c err = alert_step a (e, EvGeneric st n s ck status l c err)"
  "notify_generic_bot a e st n b ck good l c err = alert_step a (e, EvGenericBot st n b ck good l c err)"
  "notify_connection a e st n pok sok err = alert_step a (e, EvConnection st n pok sok err)"
  "notify_cpu a e st n x = alert_step a (e, EvCPU st n x)"
  "notify_memory a e st n x = alert_step a (e, EvMemory st n x)"
  "notify_disk a e st n x = alert_step a (e, EvDisk st n x)"
  by (rule ext, simp)+

section \<open>What every tick keeps\<close>

locale watch_invariant =
  fixes svc :: chk_svc and env :: chk_env and I :: "cw \<Rightarrow> bool"
  assumes one_probe: "I w \<Longrightarrow> I (snd (cw_probe env p w))"
    and reads: "I w \<Longrightarrow> same_data (cw_world w) v \<Longrightarrow> I (w\<lparr>cw_world := v\<rparr>)"
    and alerts: "I w \<Longrightarrow> kw_alerts svc = Some a \<Longrightarrow> I (on_world (alert_step a (e, ev)) w)"
    and result: "I w \<Longrightarrow> result_ok r \<Longrightarrow> I (w\<lparr>cw_results := cw_results w @ [r]\<rparr>)"
    and node_check: "I w \<Longrightarrow> node_check_ok c \<Longrightarrow> I (w\<lparr>cw_node_checks := cw_node_checks w @ [c]\<rparr>)"
    and metric: "I w \<Longrightarrow> metric_ok m \<Longrightarrow> I (w\<lparr>cw_metrics := cw_metrics w @ [m]\<rparr>)"
    and prune: "I w \<Longrightarrow> I (w\<lparr>cw_metrics := filter P (cw_metrics w)\<rparr>)"
    and pruned: "I w \<Longrightarrow> I (w\<lparr>cw_last_prune := t0\<rparr>)"
    and versions: "I w \<Longrightarrow> (\<And>n. n_id (f n) = n_id n) \<Longrightarrow>
      I (on_world (\<lambda>v. v\<lparr>w_nodes := row_upd n_id i f (w_nodes v)\<rparr>) w)"
    and added: "I w \<Longrightarrow> I (add_check env now row w)"
begin

lemma tick: "I w \<Longrightarrow> I (on_world db_tick w)"
  by (simp add: on_world_def reads same_data_db_tick)

lemma exec: "I w \<Longrightarrow> (\<And>v. I v \<Longrightarrow> I (f v)) \<Longrightarrow> I (snd (cw_exec env f w))"
  by (simp add: cw_exec_def Let_def tick)

lemma queryD: "cw_query env q w = (r, v) \<Longrightarrow> I w \<Longrightarrow> I v"
  by (metis cw_query_snd snd_conv tick)

lemma rowsD: "cw_rows env q w = (r, v) \<Longrightarrow> I w \<Longrightarrow> I v"
  by (metis cw_rows_snd snd_conv tick)

lemma firstD: "cw_first env q w = (r, v) \<Longrightarrow> I w \<Longrightarrow> I v"
  by (metis cw_first_snd snd_conv tick)

lemma settingsD:
  assumes "load_alert_settings svc env org w = (st, v)" and "I w" shows "I v"
proof (cases "kw_alerts svc")
  case (Some a)
  obtain r u where l: "load_settings_for_org a (env_at env w) org (cw_world w) = (r, u)" by fastforce
  have "same_data (cw_world w) u"
    using l by (auto simp: load_settings_for_org_def
      split: option.splits prod.splits sum.splits goerr.splits if_splits dest!: db_first_same)
  then show ?thesis using assms reads by (auto simp: load_alert_settings_def Some l split: sum.splits)
qed (use assms in \<open>simp add: load_alert_settings_def\<close>)

sublocale probe_laws env "\<lambda>w v. I w \<longrightarrow> I v"
  by unfold_locales (auto intro: one_probe)

lemma stored: "I w \<Longrightarrow> fair p \<Longrightarrow> store_result env i p ms w = (r, v) \<Longrightarrow> I v"
  by (auto simp: store_result_def Let_def intro!: exec result result_row_ok)

lemma generic: "I w \<Longrightarrow> I (report_generic svc env st n s ck p w)"
  by (simp add: alerts alert_calls report_generic_def split: option.split)

lemma bot_report: "I w \<Longrightarrow> I (report_bot svc env st n b ck p w)"
  by (simp add: alerts alert_calls report_bot_def split: option.split)

lemma keeps_service:
  assumes "I w" shows "I (snd (run_service_check svc env st n s ck w))"
proof -
  obtain p w1 where e: "execute_service_check svc env n s ck w = (p, w1)" by fastforce
  obtain r w2 where r: "store_result env (ck_id ck) p (service_metrics p) w1 = (r, w2)" by fastforce
  have "I w1" "fair p" using probingD [OF probing_service e] assms by simp_all
  then have "I w2" by (rule stored [OF _ _ r])
  then show ?thesis by (simp add: run_service_check_def e r generic)
qed

lemma keeps_bot:
  assumes "I w" shows "I (snd (run_bot_check svc env st n b ck w))"
proof -
  obtain p w1 where e: "execute_bot_check svc env n b ck w = (p, w1)" by fastforce
  obtain r w2 where r: "store_result env (ck_id ck) p (bot_metrics p) w1 = (r, w2)" by fastforce
  have "I w1" "fair p" using probingD [OF probing_bot e] assms by simp_all
  then have "I w2" by (rule stored [OF _ _ r])
  then show ?thesis by (simp add: run_bot_check_def e r bot_report)
qed

lemma keeps_finish:
  assumes "I w" and "probing m"
  shows "I (case try_times m k no_outcome w of (p, w1) \<Rightarrow>
    report_generic svc env st n s ck p (snd (store_result env i p ms w1)))"
proof -
  obtain p w1 where e: "try_times m k no_outcome w = (p, w1)" by fastforce
  have "I w1" "fair p" using probingD [OF probing_tries [OF assms(2) fair_simps(3)] e] assms(1) by simp_all
  then have "I (snd (store_result env i p ms w1))" using stored by (metis prod.collapse)
  then show ?thesis by (simp add: e generic)
qed

lemma keeps_node_check: "I w \<Longrightarrow> I (run_node_check svc env st n ck w)"
  by (simp add: run_node_check_def Let_def keeps_finish probing_ssh probing_tcp)

section \<open>Ticks\<close>

lemma keeps_check:
  assumes "I w" shows "I (snd (run_check svc env ns ss bs c w))"
proof -
  have S: "I (snd (case load_alert_settings svc env org w of (st, w1) \<Rightarrow> (True, f st w1)))"
    if "\<And>st v. I v \<Longrightarrow> I (f st v)" for f org
    using settingsD [OF _ assms] that by (auto split: prod.split)
  show ?thesis
    unfolding run_check_def Let_def
    by (simp add: S assms keeps_node_check keeps_service keeps_bot split: option.split)
qed

lemma keeps_due: "I w \<Longrightarrow> I (run_due svc env now rs ns ss bs cs w)"
  by (induction cs arbitrary: w) (auto intro: keeps_check)

lemma keeps_checks:
  assumes "I w" shows "I (checks_run_once svc env w)"
proof (cases "kw_has_db svc")
  case True
  obtain r w1 where q: "cw_query env (\<lambda>v. filter watched_check (cw_checks v)) w = (r, w1)" by fastforce
  have w1: "I w1" by (rule queryD [OF q assms])
  then show ?thesis
    using True by (auto simp: checks_run_once_def q Let_def split: sum.split prod.split intro!: keeps_due dest!: rowsD)
qed (use assms in \<open>simp add: checks_run_once_def\<close>)

lemma panel_result_ok:
  assumes "panel_attempts env url v k le w = (pn, w1)"
  shows "(pn_err pn = None \<longleftrightarrow> pn_ok pn) \<and> (pn_code pn = None \<longleftrightarrow> pn_ok pn) \<and> (pn_detail pn = None \<longleftrightarrow> pn_ok pn)"
  using assms
  by (induction k arbitrary: le w)
     (auto simp: panel_bad_def panel_good_def classify_tls_error_def Let_def
      split: option.splits prod.splits sum.splits if_splits)

lemma port_ok: "check_ssh_port env n w = ((good, err), v) \<Longrightarrow> err = None \<longleftrightarrow> good"
  by (auto simp: check_ssh_port_def Let_def split: option.splits prod.splits if_splits dest: sym)

lemma keeps_watch_node:
  assumes "I w" shows "I (watch_node svc env n w)"
proof -
  obtain st w1 where l: "load_alert_settings svc env (n_org_id n) w = (st, w1)" by fastforce
  obtain pn w2 where p: "(if is_panel_node (Some n) then check_panel env (n_base_url n) (n_verify_tls n) w1
                      else (panel_good 0, w1)) = (pn, w2)" by fastforce
  obtain good err w3 where q: "check_ssh_port env n w2 = ((good, err), w3)" by (metis prod_cases3 prod.collapse)
  have "I w1" by (rule settingsD [OF l assms])
  then have "I w2" using p attempts_R by (auto simp: check_panel_def split: if_splits)
  then have w3: "I w3" using port_R [OF q] by simp
  have pn: "(pn_err pn = None \<longleftrightarrow> pn_ok pn) \<and> (pn_code pn = None \<longleftrightarrow> pn_ok pn) \<and> (pn_detail pn = None \<longleftrightarrow> pn_ok pn)"
    using p panel_result_ok by (fastforce simp: check_panel_def panel_good_def split: if_splits)
  have entry: "I (snd (cw_exec env (\<lambda>v. v\<lparr>cw_node_checks := cw_node_checks v @ [c]\<rparr>) w3))" if "node_check_ok c" for c
    by (rule exec [OF w3]) (rule node_check [OF _ that])
  show ?thesis
    using pn port_ok [OF q]
    by (auto simp: watch_node_def l p q Let_def alert_calls node_check_ok_def join_check_errors_def
        split: option.splits intro!: alerts entry)
qed

lemma keeps_fold: "(\<And>x v. I v \<Longrightarrow> I (f x v)) \<Longrightarrow> I w \<Longrightarrow> I (fold f xs w)"
  by (induction xs arbitrary: w) auto

lemma keeps_nodes: "I w \<Longrightarrow> I (nodes_run_once svc env w)"
  by (auto simp: nodes_run_once_def split: prod.splits sum.splits intro!: keeps_fold keeps_watch_node dest: queryD)

lemma commandD: "metric_command env n key cmd w = (r, v) \<Longrightarrow> I w \<Longrightarrow> I v"
  by (auto simp: metric_command_def Let_def split: option.splits prod.splits dest: probeD)

lemma keeps_detect: "detect_version env n key cmds w = (r, v) \<Longrightarrow> I w \<Longrightarrow> I v"
proof (induction cmds arbitrary: w)
  case (Cons cmd cmds)
  obtain x u where m: "metric_command env n key cmd w = (x, u)" by fastforce
  have "I u" by (rule commandD [OF m Cons.prems(2)])
  then show ?case using Cons by (auto simp: m Let_def split: sum.splits if_splits)
qed simp

lemma keeps_save_metric: "I w \<Longrightarrow> metric_ok (metric_row i (cw_now env w) l mem disk err) \<Longrightarrow> I (save_metric env i l mem disk err w)"
  unfolding save_metric_def by (rule exec) (simp_all add: metric)

lemma option_call:
  "I w \<Longrightarrow> kw_alerts svc = Some a \<Longrightarrow> I (on_world (\<lambda>v. case x of None \<Rightarrow> v | Some q \<Rightarrow> alert_step a (e, F q) v) w)"
  using alerts by (cases x) (simp_all add: on_world_def)

lemma keeps_metric_alerts:
  assumes w: "I w" and a: "kw_alerts svc = Some a"
  shows "I (on_world (notify_metrics a e st n x y z) w)"
proof (cases st)
  case (Some s)
  have c: "on_world (notify_metrics a e st n x y z) w =
      on_world (\<lambda>v. case z of None \<Rightarrow> v | Some q \<Rightarrow> alert_step a (e, EvDisk st (Some n) q) v)
       (on_world (\<lambda>v. case y of None \<Rightarrow> v | Some q \<Rightarrow> alert_step a (e, EvMemory st (Some n) q) v)
         (on_world (\<lambda>v. case x of None \<Rightarrow> v | Some q \<Rightarrow> alert_step a (e, EvCPU st (Some n) q) v) w))"
    by (cases x; cases y; cases z) (simp_all add: notify_metrics_def on_world_def Let_def Some)
  show ?thesis unfolding c by (rule option_call [OF option_call [OF option_call [OF w a] a] a])
qed (use w in \<open>simp add: notify_metrics_def on_world_def\<close>)

lemma keeps_versions: "I w \<Longrightarrow> I (save_versions env i r p w)"
  unfolding save_versions_def Let_def by (rule exec) (auto intro!: versions)

end

text \<open>A row with no error text comes from readings that were all there.\<close>

lemma parse_mem_None: "parse_meminfo r = ((a, b), None) \<Longrightarrow> a \<noteq> None \<and> b \<noteq> None"
  by (auto simp: parse_meminfo_def Let_def split: sum.splits if_splits)

lemma parse_df_None: "parse_df r = ((a, b), None) \<Longrightarrow> a \<noteq> None \<and> b \<noteq> None"
  by (auto simp: parse_df_def Let_def split: sum.splits if_splits option.splits dest: sym)

definition text_or_none :: "string option \<Rightarrow> bool" where
  "text_or_none e \<longleftrightarrow> (\<forall>t. e = Some t \<longrightarrow> trim_space t \<noteq> [])"

lemma parse_errors_text:
  assumes "\<And>e. r = Inl e \<Longrightarrow> trim_space e \<noteq> []"
  shows "text_or_none (snd (parse_load env r))" "text_or_none (snd (parse_meminfo r))" "text_or_none (snd (parse_df r))"
proof -
  have t: "trim_space ''invalid loadavg'' \<noteq> []" "trim_space ''invalid meminfo'' \<noteq> []" "trim_space ''invalid df'' \<noteq> []"
    "trim_space ''invalid df columns'' \<noteq> []" "trim_space ''invalid df numbers'' \<noteq> []" by code_simp+
  show "text_or_none (snd (parse_load env r))" "text_or_none (snd (parse_meminfo r))" "text_or_none (snd (parse_df r))"
    using assms t
    by (auto simp: text_or_none_def parse_load_def parse_meminfo_def parse_df_def Let_def
        split: sum.splits if_splits option.splits)
qed

lemma joined_none:
  assumes j: "join_metric_errors es = None" and t: "\<And>e. e \<in> set es \<Longrightarrow> text_or_none e" and e: "e \<in> set es"
  shows "e = None"
proof (cases e)
  case (Some x)
  then have "trim_space x \<noteq> []" using t [OF e] by (simp add: text_or_none_def)
  moreover have "x \<in> set (map the (filter (\<lambda>e. e \<noteq> None) es))" using e Some by force
  ultimately have "filter (\<lambda>e. trim_space e \<noteq> []) (map the (filter (\<lambda>e. e \<noteq> None) es)) \<noteq> []"
    by (auto simp only: filter_empty_conv)
  then show ?thesis using j by (simp add: join_metric_errors_def Let_def)
qed simp

context watch_invariant begin

lemma keeps_collect:
  assumes w: "I w" and t: "errors_have_text env"
  shows "I (collect_for_node svc env n w)"
proof -
  have refuse: "I (save_metric env i l m d (Some e) w)" for i l m d e
    by (rule keeps_save_metric [OF w]) (simp add: metric_ok_def metric_row_def)
  have cmd: "(\<forall>e. r = Inl e \<longrightarrow> trim_space e \<noteq> []) \<and> I v" if "metric_command env n key c u = (r, v)" "I u" for key c u r v
    using that t commandD [OF that]
    by (auto simp: metric_command_def errors_have_text_def Let_def split: prod.splits option.splits)
  show ?thesis
  proof (cases "trim_space (n_ssh_auth_method n) \<noteq> [] \<and> to_lower (n_ssh_auth_method n) \<noteq> ''key''")
    case False
    show ?thesis
    proof (cases "e_decrypt (ce_alert env) (n_ssh_key_enc n)")
      case (Inr key)
      obtain r1 w1 where 1: "metric_command env n key ''cat /proc/loadavg'' w = (r1, w1)" by fastforce
      obtain r2 w2 where 2: "metric_command env n key ''cat /proc/meminfo'' w1 = (r2, w2)" by fastforce
      obtain r3 w3 where 3: "metric_command env n key ''df -P -B1 -x tmpfs -x devtmpfs /'' w2 = (r3, w3)" by fastforce
      obtain l le where pl: "parse_load env r1 = (l, le)" by fastforce
      obtain mem me where pm: "parse_meminfo r2 = (mem, me)" by fastforce
      obtain disk de where pd: "parse_df r3 = (disk, de)" by fastforce
      note c1 = cmd [OF 1 w]
      note c2 = cmd [OF 2 conjunct2 [OF c1]]
      note c3 = cmd [OF 3 conjunct2 [OF c2]]
      have told: "text_or_none le" "text_or_none me" "text_or_none de"
        using parse_errors_text(1) [of r1 env] parse_errors_text(2) [of r2] parse_errors_text(3) [of r3] c1 c2 c3
        by (simp_all add: pl pm pd)
      have "metric_ok (metric_row (n_id n) (cw_now env w3) l mem disk (join_metric_errors [le, me, de]))"
      proof -
        have "me = None \<and> de = None" if "join_metric_errors [le, me, de] = None"
          using joined_none [OF that] told by auto
        then show ?thesis
          using pm pd parse_mem_None [of r2] parse_df_None [of r3]
          by (cases mem; cases disk) (auto simp: metric_ok_def metric_row_def)
      qed
      then have w4: "I (save_metric env (n_id n) l mem disk (join_metric_errors [le, me, de]) w3)"
        by (rule keeps_save_metric [OF conjunct2 [OF c3]])
      show ?thesis
        using False w4
        by (auto simp: collect_for_node_def Inr 1 2 3 pl pm pd Let_def split: option.split prod.split
            simp del: detect_version.simps
            intro!: keeps_versions dest!: keeps_detect settingsD intro: keeps_metric_alerts)
    qed (use False refuse in \<open>simp add: collect_for_node_def\<close>)
  qed (use refuse in \<open>simp add: collect_for_node_def\<close>)
qed

lemma keeps_metrics: "I w \<Longrightarrow> errors_have_text env \<Longrightarrow> I (metrics_run_once svc env w)"
  by (auto simp: metrics_run_once_def Let_def split: prod.splits sum.splits
      intro!: pruned exec prune keeps_fold keeps_collect dest: queryD)

section \<open>Checks added and run at once\<close>

lemma keeps_for:
  assumes "check_for env tt i ty n w = (r, v)" and "I w" shows "I v"
proof -
  obtain x w1 where f: "cw_first env (\<lambda>v. newest_check (filter (\<lambda>c. ck_target_type c = tt \<and> ck_target_id c = i \<and>
      ck_enabled c) (cw_checks v))) w = (x, w1)" by fastforce
  obtain e w2 where e: "cw_exec env (add_check env (cw_now env w1) (tt, i, ty, n)) w1 = (e, w2)" by fastforce
  have w1: "I w1" by (rule firstD [OF f assms(2)])
  have "I (snd (cw_exec env (add_check env (cw_now env w1) (tt, i, ty, n)) w1))"
    by (rule exec [OF w1]) (rule added)
  then have "I w2" by (simp add: e)
  then show ?thesis using assms(1) w1 by (auto simp: check_for_def f e split: sum.splits goerr.splits option.splits)
qed

lemma keeps_backfill:
  "I w \<Longrightarrow> I (backfill_service_checks svc env w)" "I w \<Longrightarrow> I (backfill_bot_checks svc env w)"
  by (auto simp: backfill_service_checks_def backfill_bot_checks_def intro!: exec keeps_fold added)

lemma serviceD: "run_service_check svc env st n s ck w = (r, v) \<Longrightarrow> I w \<Longrightarrow> I v"
  using keeps_service by (metis snd_conv)

lemma botD: "run_bot_check svc env st n b ck w = (r, v) \<Longrightarrow> I w \<Longrightarrow> I v"
  using keeps_bot by (metis snd_conv)

lemma keeps_run_now_service: "I w \<Longrightarrow> I (snd (run_now_service svc env i w))"
  by (auto simp: run_now_service_def Let_def split: prod.splits sum.splits option.splits
      dest!: firstD keeps_for settingsD serviceD)

lemma keeps_run_now_bot: "I w \<Longrightarrow> I (snd (run_now_bot svc env i w))"
  by (auto simp: run_now_bot_def Let_def split: prod.splits sum.splits option.splits
      dest!: firstD keeps_for settingsD botD)

end

section \<open>The machine\<close>

datatype watch_event =
    TickChecks
  | TickNodes
  | TickMetrics
  | AddServiceChecks
  | AddBotChecks
  | RunService uuid
  | RunBot uuid
  | AlertCall alert_env alert_event

fun worker_step :: "chk_svc \<Rightarrow> chk_env \<times> watch_event \<Rightarrow> cw \<Rightarrow> cw" where
  "worker_step svc (env, TickChecks) w = checks_run_once svc env w"
| "worker_step svc (env, TickNodes) w = nodes_run_once svc env w"
| "worker_step svc (env, TickMetrics) w = metrics_run_once svc env w"
| "worker_step svc (env, AddServiceChecks) w = backfill_service_checks svc env w"
| "worker_step svc (env, AddBotChecks) w = backfill_bot_checks svc env w"
| "worker_step svc (env, RunService i) w = snd (run_now_service svc env i w)"
| "worker_step svc (env, RunBot i) w = snd (run_now_bot svc env i w)"
| "worker_step svc (env, AlertCall aenv ev) w =
     (case kw_alerts svc of None \<Rightarrow> w | Some a \<Rightarrow> on_world (alert_step a (aenv, ev)) w)"

section \<open>The tables\<close>

definition tables_ok :: "cw \<Rightarrow> bool" where
  "tables_ok w \<longleftrightarrow> store_ok (cw_world w) \<and> list_all result_ok (cw_results w) \<and>
     list_all node_check_ok (cw_node_checks w) \<and> list_all metric_ok (cw_metrics w)"

text \<open>What goes on during a probe keeps the tables.\<close>

definition others_ok :: "chk_env \<Rightarrow> bool" where
  "others_ok env \<longleftrightarrow> errors_have_text env \<and> (\<forall>n w. tables_ok w \<longrightarrow> tables_ok (ce_other env n w))"

lemma add_check_sel [simp]:
  "cw_results (add_check env now r w) = cw_results w" "cw_node_checks (add_check env now r w) = cw_node_checks w"
  "cw_metrics (add_check env now r w) = cw_metrics w"
  "store_ok (cw_world (add_check env now r w)) = store_ok (cw_world w)"
  by (simp_all add: add_check_def uuid_new_def store_ok_def split: prod.split)

lemma tables_okD:
  "tables_ok w \<Longrightarrow> store_ok (cw_world w)" "tables_ok w \<Longrightarrow> list_all result_ok (cw_results w)"
  "tables_ok w \<Longrightarrow> list_all node_check_ok (cw_node_checks w)" "tables_ok w \<Longrightarrow> list_all metric_ok (cw_metrics w)"
  by (simp_all add: tables_ok_def)

lemma tables_ok_world: "tables_ok w \<Longrightarrow> store_ok v \<Longrightarrow> tables_ok (w\<lparr>cw_world := v\<rparr>)"
  by (simp add: tables_ok_def)

lemma tables_ok_rows:
  "tables_ok (w\<lparr>cw_results := cw_results w @ [r]\<rparr>) \<longleftrightarrow> tables_ok w \<and> result_ok r"
  "tables_ok (w\<lparr>cw_node_checks := cw_node_checks w @ [c]\<rparr>) \<longleftrightarrow> tables_ok w \<and> node_check_ok c"
  "tables_ok (w\<lparr>cw_metrics := cw_metrics w @ [m]\<rparr>) \<longleftrightarrow> tables_ok w \<and> metric_ok m"
  "tables_ok (w\<lparr>cw_last_prune := t\<rparr>) \<longleftrightarrow> tables_ok w"
  "tables_ok (add_check env now row w) \<longleftrightarrow> tables_ok w"
  "tables_ok (w\<lparr>cw_probes := ps\<rparr>) \<longleftrightarrow> tables_ok w"
  by (auto simp: tables_ok_def)

lemma tables_ok_prune: "tables_ok w \<Longrightarrow> tables_ok (w\<lparr>cw_metrics := filter P (cw_metrics w)\<rparr>)"
  by (auto simp: tables_ok_def list_all_iff)

lemma store_ok_nodes: "store_ok (w\<lparr>w_nodes := ns\<rparr>) = store_ok w"
  by (simp add: store_ok_def)

interpretation watching: watch_invariant svc env "\<lambda>w. others_ok env \<longrightarrow> tables_ok w" for svc env
proof (unfold_locales, goal_cases)
  case (1 w p)
  then show ?case by (simp add: cw_probe_def Let_def others_ok_def tables_ok_rows)
next
  case (2 w v)
  then show ?case using tables_ok_world same_data_ok tables_okD(1) by blast
next
  case (3 w a e ev)
  then show ?case using tables_ok_world alert_step_ok tables_okD(1) unfolding on_world_def by blast
next
  case (9 w f i)
  then show ?case using tables_ok_world tables_okD(1) store_ok_nodes unfolding on_world_def by blast
qed (simp_all add: tables_ok_rows tables_ok_prune)

lemma worker_step_ok:
  assumes o: "others_ok env" and t: "tables_ok w" shows "tables_ok (worker_step svc (env, e) w)"
proof (cases e)
  case TickMetrics
  then show ?thesis using watching.keeps_metrics o t by (simp add: others_ok_def)
next
  case (AlertCall aenv ev)
  then show ?thesis using watching.alerts o t by (simp split: option.split)
qed (simp_all add: o t watching.keeps_checks watching.keeps_nodes watching.keeps_backfill [rule_format]
    watching.keeps_run_now_service [rule_format] watching.keeps_run_now_bot [rule_format])

end
