(* ===== verification/Watch_Runs.thy ===== *)
theory Watch_Runs
  imports Watch_Machine Alert_Runs
begin

text \<open>
  A service that does not answer, seen from the check worker and the alert service together: each run of the
  check stores a failing result and hands one failing sample to the alert service.
\<close>

section \<open>The sample of a service\<close>

definition service_alert :: "alert_env \<Rightarrow> node option \<Rightarrow> service \<Rightarrow> check \<Rightarrow> string \<Rightarrow> int \<Rightarrow> int \<Rightarrow> string option \<Rightarrow> alert" where
  "service_alert env n s ck status latency status_code err_msg =
     (check_alert env ck status latency status_code err_msg)
       \<lparr>al_org_id := service_org_id (Some s) n,
        al_node_id := (case n of None \<Rightarrow> uuid_nil | Some nd \<Rightarrow> n_id nd),
        al_node_name := (case n of None \<Rightarrow> service_label env (Some s) n | Some nd \<Rightarrow> node_label env n),
        al_target := service_target n (Some s), al_target_type := ''service'',
        al_panel_url := (case n of None \<Rightarrow> [] | Some nd \<Rightarrow> n_base_url nd),
        al_ip := (case n of None \<Rightarrow> [] | Some nd \<Rightarrow> n_ssh_host nd),
        al_service_id := sv_id s, al_service_kind := trim_space (sv_kind s)\<rparr>"

lemma notify_generic_sample:
  "notify_generic a env (Some st) n (Some s) (Some ck) status l c err w =
   maybe_send_alert a env (Some st) (to_lower (trim_space status) \<noteq> ''ok'') (service_alert env n s ck status l c err) w"
  by (simp add: notify_generic_def settings_or_org_def service_alert_def Let_def)

definition outage_fp :: "chk_env \<Rightarrow> node option \<Rightarrow> service \<Rightarrow> check \<Rightarrow> string" where
  "outage_fp env n s ck = fingerprint_for (ce_alert env) (service_alert (ce_alert env) n s ck ''fail'' 0 0 None)"

definition outage_par :: "alert_svc \<Rightarrow> settings \<Rightarrow> chk_env \<Rightarrow> node option \<Rightarrow> service \<Rightarrow> check \<Rightarrow> watch_par" where
  "outage_par a st env n s ck = par_of a st (service_alert (ce_alert env) n s ck ''fail'' 0 0 None)"

lemma service_alert_fp:
  "fingerprint_for (ce_alert env) (service_alert (at_time (ce_alert env) t) n s ck ''fail'' l c e) = outage_fp env n s ck"
  by (simp add: outage_fp_def fingerprint_for_def service_alert_def check_alert_def zero_alert_def Let_def)

lemma service_alert_par:
  "par_of a st (service_alert (at_time (ce_alert env) t) n s ck ''fail'' l c e) = outage_par a st env n s ck"
  by (simp add: outage_par_def par_of_def fail_delay_def recover_after_def service_alert_def check_alert_def
      zero_alert_def Let_def)

section \<open>One run\<close>

text \<open>The time at which a run hands its sample over.\<close>

definition report_at :: "chk_svc \<Rightarrow> chk_env \<Rightarrow> node option \<Rightarrow> service \<Rightarrow> check \<Rightarrow> cw \<Rightarrow> instant" where
  "report_at svc env n s ck w =
     (case execute_service_check svc env n s ck w of
        (p, w1) \<Rightarrow> cw_now env (snd (store_result env (ck_id ck) p (service_metrics p) w1)))"

text \<open>Types whose failures another worker reports.\<close>

definition never_suppressed :: "check \<Rightarrow> bool" where
  "never_suppressed ck \<longleftrightarrow> to_lower (trim_space (ck_type ck)) \<notin> {''ssh'', ''systemd'', ''docker''}"

lemma not_suppressed: "never_suppressed ck \<Longrightarrow> \<not> suppressed svc env n ck err w"
  by (simp add: never_suppressed_def suppressed_def should_suppress_generic_def Let_def)

lemma status_words: "to_lower (trim_space (status_text b)) = status_text b"
  by (cases b) (simp add: status_text_def; code_simp)+

lemma failing_run:
  assumes c: "calm_net env" and a: "kw_alerts svc = Some a" and up: "\<And>n. \<not> e_db_fail (ce_alert env) n"
    and ns: "never_suppressed ck" and dead: "\<And>v. \<not> po_ok (fst (execute_service_check svc env n s ck v))"
  obtains r l k e where
    "cw_world (snd (run_service_check svc env (Some st) n s ck w)) = sample_run a (ce_alert env) st
       [(report_at svc env n s ck w, True, service_alert (at_time (ce_alert env) (report_at svc env n s ck w)) n s ck ''fail'' l k e)]
       (db_tick (cw_world w))"
    "cw_results (snd (run_service_check svc env (Some st) n s ck w)) = cw_results w @ [r]"
    "cr_status r = ''fail''" "cr_check_id r = ck_id ck"
proof -
  obtain p w1 where x: "execute_service_check svc env n s ck w = (p, w1)" by fastforce
  obtain ps where w1: "w1 = probed w ps" using calm_service [OF c x] by blast
  have p: "\<not> po_ok p" using dead [of w] by (simp add: x)
  obtain r w2 where r: "store_result env (ck_id ck) p (service_metrics p) w1 = (r, w2)" by fastforce
  have w2: "cw_world w2 = db_tick (cw_world w)" "cw_results w2 = cw_results w @ [r]" "cr_status r = ''fail''"
    "cr_check_id r = ck_id ck"
    using r up p by (auto simp: store_result_def cw_exec_def cw_fails_def Let_def w1 result_row_def status_text_def)
  have t: "report_at svc env n s ck w = cw_now env w2" by (simp add: report_at_def x r)
  have e: "env_at env w2 = at_time (ce_alert env) (cw_now env w2)" by (simp add: env_at_def at_time_def)
  have go: "snd (run_service_check svc env (Some st) n s ck w) =
      on_world (notify_generic a (env_at env w2) (Some st) n (Some s) (Some ck) ''fail''
                 (po_latency p) (po_code p) (po_err p)) w2"
    by (simp add: run_service_check_def x r report_generic_def a not_suppressed [OF ns] status_text_def p)
  have "to_lower (trim_space ''fail'') \<noteq> ''ok''" by code_simp
  then show ?thesis
    using w2 by (intro that) (simp_all add: go t e notify_generic_sample)
qed

section \<open>Many runs\<close>

definition again :: "chk_svc \<Rightarrow> chk_env \<Rightarrow> settings \<Rightarrow> node option \<Rightarrow> service \<Rightarrow> check \<Rightarrow> nat \<Rightarrow> cw \<Rightarrow> cw" where
  "again svc env st n s ck k w = ((\<lambda>v. snd (run_service_check svc env (Some st) n s ck v)) ^^ k) w"

lemma again_Suc: "again svc env st n s ck (Suc k) w = snd (run_service_check svc env (Some st) n s ck (again svc env st n s ck k w))"
  by (simp add: again_def)

lemma again_0 [simp]: "again svc env st n s ck 0 w = w"
  by (simp add: again_def)

lemma ready_db_tick [simp]: "ready a E fp (db_tick w) = ready a E fp w"
  by (simp add: ready_def table_ok_def fresh_ids_def)

lemma mute_active_db_tick [simp]: "mute_active E fp (db_tick w) = mute_active E fp w"
  by (simp add: mute_active_def)

text \<open>The check is muted at a time.\<close>

definition muted_at :: "check \<Rightarrow> instant \<Rightarrow> bool" where
  "muted_at ck t \<longleftrightarrow> (case ck_mute_until ck of None \<Rightarrow> False | Some u \<Rightarrow> t < u)"

lemma service_alert_loud:
  assumes "\<not> muted_at ck t" and "0 < t"
  shows "loud_fails a (ce_alert env) (outage_fp env n s ck) [(t, True, service_alert (at_time (ce_alert env) t) n s ck ''fail'' l k e)]"
proof -
  have st: "al_status (service_alert E n s ck ''fail'' l k e) = ''fail''" "al_occurrences (service_alert E n s ck ''fail'' l k e) = 0"
    "al_mute_until (service_alert E n s ck ''fail'' l k e) = ck_mute_until ck" for E
    by (simp_all add: service_alert_def check_alert_def zero_alert_def)
  have "to_lower (trim_space ''fail'') = ''fail''" by code_simp
  then have "sample_status True (service_alert E n s ck ''fail'' l k e) = ''fail''" for E
    by (simp add: sample_status_def st Let_def)
  then show ?thesis
    using assms by (simp add: loud_fails_def stream_def plain_sample_def st service_alert_fp check_muted_def muted_at_def split: option.splits)
qed

lemma runs_stored:
  assumes c: "calm_net env" and a: "kw_alerts svc = Some a" and up: "\<And>n. \<not> e_db_fail (ce_alert env) n"
    and ns: "never_suppressed ck" and dead: "\<And>v. \<not> po_ok (fst (execute_service_check svc env n s ck v))"
  shows "\<exists>rs. cw_results (again svc env st n s ck k w) = cw_results w @ rs \<and> length rs = k \<and>
    list_all (\<lambda>r. cr_check_id r = ck_id ck \<and> cr_status r = ''fail'') rs"
proof (induction k)
  case (Suc k)
  then obtain rs where rs: "cw_results (again svc env st n s ck k w) = cw_results w @ rs" "length rs = k"
    "list_all (\<lambda>r. cr_check_id r = ck_id ck \<and> cr_status r = ''fail'') rs" by blast
  obtain row where "cw_results (again svc env st n s ck (Suc k) w) = cw_results (again svc env st n s ck k w) @ [row]"
    "cr_status row = ''fail''" "cr_check_id row = ck_id ck"
    using failing_run [OF c a up ns dead, of st "again svc env st n s ck k w"] unfolding again_Suc by metis
  with rs show ?case by (intro exI [where x = "rs @ [row]"]) simp
qed simp

lemma silent_runs:
  assumes c: "calm_net env" and a: "kw_alerts svc = Some a" and ns: "never_suppressed ck"
    and m: "\<And>i. i < k \<Longrightarrow> \<not> muted_at ck (report_at svc env n s ck (again svc env st n s ck i w))"
    and dead: "\<And>v. \<not> po_ok (fst (execute_service_check svc env n s ck v))" and clock: "\<And>k. 0 < ce_clock env k"
    and r: "ready a (ce_alert env) (outage_fp env n s ck) (cw_world w)"
    and new: "waiting 0 t0 (watch_of (row_get as_fingerprint (outage_fp env n s ck) (w_states (cw_world w))))"
    and t0: "t0 = report_at svc env n s ck w"
    and nd: "\<And>i. i < k \<Longrightarrow> \<not> due (outage_par a st env n s ck) i t0 (report_at svc env n s ck (again svc env st n s ck i w))"
  shows "w_outbox (cw_world (again svc env st n s ck k w)) = w_outbox (cw_world w) \<and>
    waiting k t0 (watch_of (row_get as_fingerprint (outage_fp env n s ck) (w_states (cw_world (again svc env st n s ck k w))))) \<and>
    ready a (ce_alert env) (outage_fp env n s ck) (cw_world (again svc env st n s ck k w))"
  using nd m
proof (induction k)
  case 0
  then show ?case using r new by simp
next
  case (Suc k)
  let ?w = "again svc env st n s ck k w" and ?fp = "outage_fp env n s ck"
  let ?t = "report_at svc env n s ck ?w"
  have IH: "w_outbox (cw_world ?w) = w_outbox (cw_world w)"
    "waiting k t0 (watch_of (row_get as_fingerprint ?fp (w_states (cw_world ?w))))"
    "ready a (ce_alert env) ?fp (cw_world ?w)"
    using Suc.IH Suc.prems by simp_all
  have up: "\<not> e_db_fail (ce_alert env) i" for i using r by (simp add: ready_def db_up_def)
  obtain l c' e where R:
    "cw_world (again svc env st n s ck (Suc k) w) = sample_run a (ce_alert env) st
       [(?t, True, service_alert (at_time (ce_alert env) ?t) n s ck ''fail'' l c' e)] (db_tick (cw_world ?w))"
    using failing_run [OF c a up ns dead, of st ?w] unfolding again_Suc by metis
  have t: "0 < ?t" using clock by (simp add: report_at_def cw_now_def split: prod.split)
  let ?es = "[(?t, True, service_alert (at_time (ce_alert env) ?t) n s ck ''fail'' l c' e)]"
  have lf: "loud_fails a (ce_alert env) ?fp ?es" by (rule service_alert_loud [OF Suc.prems(2) t]) simp
  have Q: "w_outbox (sample_run a (ce_alert env) st ?es (db_tick (cw_world ?w))) = w_outbox (db_tick (cw_world ?w)) \<and>
    waiting (k + length ?es) t0 (watch_of (row_get as_fingerprint ?fp
       (w_states (sample_run a (ce_alert env) st ?es (db_tick (cw_world ?w)))))) \<and>
    ready a (ce_alert env) ?fp (sample_run a (ce_alert env) st ?es (db_tick (cw_world ?w)))"
  proof (rule quiet_run [where P = "outage_par a st env n s ck" and n = k])
    show "same_par a st (outage_par a st env n s ck) ?es" by (simp add: same_par_def service_alert_par)
    show "k = 0 \<Longrightarrow> ?es \<noteq> [] \<Longrightarrow> fst (hd ?es) = t0" by (simp add: t0)
  qed (use IH lf Suc.prems [of k] in simp_all)
  then show ?case using IH(1) unfolding R(1) by simp
qed

lemma first_message:
  assumes c: "calm_net env" and a: "kw_alerts svc = Some a" and ns: "never_suppressed ck" 
    and m: "\<not> muted_at ck (report_at svc env n s ck w)"
    and dead: "\<And>v. \<not> po_ok (fst (execute_service_check svc env n s ck v))" and clock: "\<And>k. 0 < ce_clock env k"
    and r: "ready a (ce_alert env) (outage_fp env n s ck) (cw_world w)"
    and nm: "\<not> mute_active (at_time (ce_alert env) (report_at svc env n s ck w)) (outage_fp env n s ck) (cw_world w)"
    and wt: "waiting k t0 (watch_of (row_get as_fingerprint (outage_fp env n s ck) (w_states (cw_world w))))"
    and t0: "k = 0 \<Longrightarrow> report_at svc env n s ck w = t0"
    and d: "due (outage_par a st env n s ck) k t0 (report_at svc env n s ck w)"
  shows "\<exists>cs. w_outbox (cw_world (snd (run_service_check svc env (Some st) n s ck w))) = w_outbox (cw_world w) @ cs \<and> broadcast st cs"
proof -
  let ?fp = "outage_fp env n s ck" and ?t = "report_at svc env n s ck w"
  have up: "\<not> e_db_fail (ce_alert env) i" for i using r by (simp add: ready_def db_up_def)
  obtain row l c' e where R:
    "cw_world (snd (run_service_check svc env (Some st) n s ck w)) = sample_run a (ce_alert env) st
       [(?t, True, service_alert (at_time (ce_alert env) ?t) n s ck ''fail'' l c' e)] (db_tick (cw_world w))"
    "cw_results (snd (run_service_check svc env (Some st) n s ck w)) = cw_results w @ [row]"
    using failing_run [OF c a up ns dead, of st w] by metis
  have t: "0 < ?t" using clock by (simp add: report_at_def cw_now_def split: prod.split)
  have "\<exists>cs. w_outbox (sample_run a (ce_alert env) st
      [(?t, True, service_alert (at_time (ce_alert env) ?t) n s ck ''fail'' l c' e)] (db_tick (cw_world w))) =
      w_outbox (db_tick (cw_world w)) @ cs \<and> broadcast st cs"
  proof (rule due_sample [OF _ service_alert_loud [OF m t] service_alert_par _ t0 d])
    show "\<not> mute_active (at_time (ce_alert env) ?t) ?fp (db_tick (cw_world w))"
      using nm by simp
  qed (use r wt in simp_all)
  then show ?thesis by (simp add: R)
qed

section \<open>The connection of a node\<close>

definition connection_alert :: "alert_env \<Rightarrow> node \<Rightarrow> bool \<Rightarrow> alert" where
  "connection_alert env n pok =
     (zero_alert AlertConnection SeverityCritical)
       \<lparr>al_node_id := n_id n, al_node_name := node_label env (Some n), al_ts := e_now env, al_panel_ok := pok,
        al_ssh_ok := True, al_panel_url := n_base_url n, al_ip := n_ssh_host n, al_target_type := ''ssh''\<rparr>"

definition connection_fp :: "chk_env \<Rightarrow> node \<Rightarrow> string" where
  "connection_fp env n = fingerprint_for (ce_alert env) (connection_alert (ce_alert env) n True)"

lemma connection_alert_fp:
  "fingerprint_for (ce_alert env) (connection_alert (at_time (ce_alert env) t) n b) = connection_fp env n"
  by (simp add: connection_fp_def fingerprint_for_def connection_alert_def zero_alert_def Let_def)

lemma connection_loud:
  assumes "0 < t"
  shows "loud_oks a (ce_alert env) (connection_fp env n) 3 [(t, False, connection_alert (at_time (ce_alert env) t) n b)]"
proof -
  have st: "al_status (connection_alert E n b) = []" "al_occurrences (connection_alert E n b) = 0"
    "al_mute_until (connection_alert E n b) = None" "recover_after (connection_alert E n b) = 3" for E
    by (simp_all add: connection_alert_def zero_alert_def recover_after_def)
  then have "sample_status False (connection_alert E n b) = ''ok''" for E
    by (simp add: sample_status_def st Let_def)
  then show ?thesis
    using assms by (simp add: loud_oks_def stream_def plain_sample_def st connection_alert_fp check_muted_def)
qed

text \<open>An ok sample of an alert that is not failing is silent.\<close>

lemma ok_stays_silent:
  assumes r: "ready a env fp w" and l: "loud_oks a env fp k [(t, active, al)]"
    and x: "\<not> wt_fail (watch_of (row_get as_fingerprint fp (w_states w)))"
  shows "w_outbox (sample_run a env s [(t, active, al)] w) = w_outbox w \<and>
    \<not> wt_fail (watch_of (row_get as_fingerprint fp (w_states (sample_run a env s [(t, active, al)] w))))"
proof -
  have fp: "fingerprint_for env al = fp" using l by (auto simp: loud_oks_def stream_def)
  let ?w = "maybe_send_alert a (at_time env t) (Some s) active al w"
  obtain cs act x' where S: "w_outbox ?w = w_outbox w @ cs"
    "watch_ok (par_of a s al) (watch_in env al w) = (act, x')"
    "watch_in env al ?w = x'" "action_calls act s (wt_thread (watch_in env al w)) cs"
    using ok_sample_cases [OF r l] by metis
  have "\<not> wt_fail (watch_in env al w)" using x by (simp add: watch_in_def fp)
  then have "act = Silent" "\<not> wt_fail x'" using S(2) by (auto simp: watch_ok_def Let_def)
  then show ?thesis using S(1,3,4) by (auto simp: action_calls_def watch_in_def fp)
qed

text \<open>The state of the SSH port as the alert service gets it.\<close>

definition ssh_taken_as_ok :: "chk_svc \<Rightarrow> chk_env \<Rightarrow> node \<Rightarrow> instant \<Rightarrow> bool \<times> string option \<Rightarrow> bool" where
  "ssh_taken_as_ok svc env n ts r \<longleftrightarrow> fst r \<or> should_suppress_ssh (Some n) (snd r) ts (agent_online_ttl (kw_interval svc))"

lemma settings_tick:
  assumes "load_alert_settings svc env org w = (st, w1)"
  shows "w1 = w \<or> w1 = on_world db_tick w"
proof (cases "kw_alerts svc")
  case (Some a)
  obtain r u where l: "load_settings_for_org a (env_at env w) org (cw_world w) = (r, u)" by fastforce
  have "u = cw_world w \<or> u = db_tick (cw_world w)"
    using l by (auto simp: load_settings_for_org_def db_first_def split: if_splits option.splits sum.splits goerr.splits)
  then show ?thesis using assms by (auto simp: load_alert_settings_def Some l on_world_def split: sum.splits)
qed (use assms in \<open>simp add: load_alert_settings_def\<close>)

lemma settings_probes:
  assumes "load_alert_settings svc env org w = (st, w1)"
  shows "cw_node_checks w1 = cw_node_checks w" "ready a E fp (cw_world w1) = ready a E fp (cw_world w)"
    "w_states (cw_world w1) = w_states (cw_world w)" "w_outbox (cw_world w1) = w_outbox (cw_world w)"
  using settings_tick [OF assms] by auto

lemma on_world_set: "w\<lparr>cw_world := f (cw_world w)\<rparr> = on_world f w"
  by (simp add: on_world_def)

lemma notify_connection_sample:
  "s_alert_connection st \<Longrightarrow> notify_connection a E (Some st) (Some n) pok True None =
     maybe_send_alert a E (Some st) False (connection_alert E n pok)"
  by (rule ext) (simp add: notify_connection_def connection_alert_def opt_trim_def zero_alert_def)

lemma one_sample: "sample_run a E st [(t, b, al)] = maybe_send_alert a (at_time E t) (Some st) b al"
  by (rule ext) simp

text \<open>A node whose SSH port counts as good gives one ok sample, whatever its panel does.\<close>

lemma watch_node_sample:
  assumes c: "calm_net env" and a: "kw_alerts svc = Some a" and up: "\<And>i. \<not> e_db_fail (ce_alert env) i"
    and st: "load_alert_settings svc env (n_org_id n) w = (Some st, w1)" and on: "s_alert_connection st"
    and pn: "(if is_panel_node (Some n) then check_panel env (n_base_url n) (n_verify_tls n) w1 else (panel_good 0, w1)) = (pn, w2)"
    and port: "check_ssh_port env n w2 = (r, w3)" and good: "ssh_taken_as_ok svc env n (cw_now env w) r"
  obtains t where "t = cw_now env (on_world db_tick w3)"
    "cw_world (watch_node svc env n w) = sample_run a (ce_alert env) st
       [(t, False, connection_alert (at_time (ce_alert env) t) n (pn_ok pn))] (db_tick (cw_world w1))"
    "cw_node_checks (watch_node svc env n w) = cw_node_checks w @
       [\<lparr>nc_node_id = n_id n, nc_ts = cw_now env w, nc_panel_ok = pn_ok pn, nc_ssh_ok = fst r, nc_latency_ms = pn_latency pn,
         nc_error = join_check_errors (pn_err pn) (snd r), nc_panel_code = pn_code pn, nc_panel_detail = pn_detail pn\<rparr>]"
proof -
  obtain ps where w2: "w2 = probed w1 ps"
  proof (cases "is_panel_node (Some n)")
    case True
    then show ?thesis using that calm_panel [OF c] pn by (metis (no_types))
  next
    case False
    then show ?thesis using that [of "[]"] pn by auto
  qed
  obtain qs where w3: "w3 = probed w2 qs" using calm_port [OF c port] by blast
  obtain good err where r: "r = (good, err)" by fastforce
  let ?w4 = "\<lambda>x. (on_world db_tick w3)\<lparr>cw_node_checks := cw_node_checks w3 @ [x]\<rparr>"
  let ?t = "cw_now env (on_world db_tick w3)"
  have t: "cw_now env (?w4 x) = ?t" for x by (simp add: cw_now_def cw_tick_def)
  have e: "env_at env (?w4 x) = at_time (ce_alert env) ?t" for x
    by (simp add: env_at_def at_time_def t)
  have err: "err = None \<longleftrightarrow> good" using watching.port_ok port r by blast
  have ex: "snd (cw_exec env (\<lambda>v. v\<lparr>cw_node_checks := cw_node_checks v @ [x]\<rparr>) w3) = ?w4 x" for x
    using up by (simp add: cw_exec_def cw_fails_def Let_def on_world_def)
  have W: "watch_node svc env n w = on_world (sample_run a (ce_alert env) st
       [(?t, False, connection_alert (at_time (ce_alert env) ?t) n (pn_ok pn))])
     (?w4 \<lparr>nc_node_id = n_id n, nc_ts = cw_now env w, nc_panel_ok = pn_ok pn, nc_ssh_ok = fst r, nc_latency_ms = pn_latency pn,
         nc_error = join_check_errors (pn_err pn) (snd r), nc_panel_code = pn_code pn, nc_panel_detail = pn_detail pn\<rparr>)"
    using good port pn err
    by (auto simp: watch_node_def st r Let_def a ex e notify_connection_sample [OF on] one_sample ssh_taken_as_ok_def
        simp del: sample_run.simps)
  show ?thesis
    by (rule that [OF refl]) (simp_all add: W w3 w2 settings_probes [OF st])
qed


text \<open>
  What one tick of the check worker adds to the table of results, and the commands an FTP probe sends.
  \<open>advances N\<close>: no step of the alert service turns the count of statements back, so that times read later are
  not earlier.
\<close>

section \<open>The count of statements\<close>

lemma db_exec_count:
  "(\<And>v v'. f v = Inr v' \<Longrightarrow> w_dbn v' = w_dbn v) \<Longrightarrow> w_dbn (snd (db_exec env f w)) = Suc (w_dbn w)"
  by (auto simp: db_exec_def db_tick_def split: sum.splits)

lemma put_rows_count: "put_state_row r v = Inr v' \<Longrightarrow> w_dbn v' = w_dbn v" "put_incident_row q v = Inr v' \<Longrightarrow> w_dbn v' = w_dbn v"
  by (auto dest!: put_state_rowD put_incident_rowD)

lemma upd_rows_count [simp]: "w_dbn (upd_state_rows fp f v) = w_dbn v" "w_dbn (upd_incident_rows u g v) = w_dbn v"
  by (simp_all add: upd_state_rows_def upd_incident_rows_def)

lemma exec_counts [simp]:
  "w_dbn (snd (db_exec env (put_state_row r) w)) = Suc (w_dbn w)"
  "w_dbn (snd (db_exec env (put_incident_row q) w)) = Suc (w_dbn w)"
  "w_dbn (snd (db_exec env (\<lambda>v. Inr (upd_state_rows fp f v)) w)) = Suc (w_dbn w)"
  "w_dbn (snd (db_exec env (\<lambda>v. Inr (upd_incident_rows u g v)) w)) = Suc (w_dbn w)"
  "w_dbn (snd (db_exec env (\<lambda>v. if b v then Inl e else Inr (upd_state_rows fp f v)) w)) = Suc (w_dbn w)"
  by (rule db_exec_count, auto dest: put_rows_count split: if_splits)+

lemma tick_count [simp]: "w_dbn (db_tick w) = Suc (w_dbn w)"
  by (simp add: db_tick_def)

lemma db_first_count [simp]: "w_dbn (snd (db_first env r w)) = Suc (w_dbn w)"
  by (simp add: db_first_def db_tick_def)

lemma ensure_count: "w_dbn w \<le> w_dbn (snd (ensure_alert_id svc env st w))"
  by (simp add: ensure_alert_id_def Let_def split_beta split: option.split)

lemma update_count: "w_dbn w \<le> w_dbn (update_state svc env a st status notified ids k inc w)"
  by (simp add: update_state_def Let_def split_beta split: option.split)

lemma sync_count: "w_dbn w \<le> w_dbn (snd (sync_incident svc env a status prev w))"
  by (simp add: sync_incident_def Let_def split_beta split: option.split sum.split goerr.split)

lemma muted_count: "w_dbn w \<le> w_dbn (snd (is_muted svc env fp w))"
  by (auto simp: is_muted_def muted_in_db_def db_first_def db_tick_def split: option.split sum.split prod.split)

interpretation counted: sample_invariant svc env fp UNIV "\<lambda>w. N \<le> w_dbn w" for svc env fp N
proof (unfold_locales, goal_cases)
  case (1 w)
  then show ?case by (simp add: db_tick_def)
next
  case (2 w st)
  then show ?case using ensure_count order_trans by blast
next
  case (3 w a status k st notified ids inc)
  then show ?case using update_count order_trans by blast
next
  case (4 w a status prev)
  then show ?case using sync_count order_trans by blast
next
  case (5 w)
  then show ?case using muted_count order_trans by blast
qed simp

lemma sample_count: "w_dbn w \<le> w_dbn (maybe_send_alert svc env s active a w)"
  by (rule counted.keeps_sample [OF order_refl refl]) simp_all

lemma settings_or_org_count: "settings_or_org svc env s org w = (r, v) \<Longrightarrow> w_dbn w \<le> w_dbn v"
  by (auto simp: settings_or_org_def load_settings_for_org_def db_first_def db_tick_def
      split: option.splits sum.splits goerr.splits if_splits prod.splits)

lemma generic_count: "w_dbn w \<le> w_dbn (notify_generic a env st n s ck status l c err w)"
proof -
  obtain s' w1 where l: "settings_or_org a env st (service_org_id s n) w = (s', w1)" by fastforce
  have "w_dbn w \<le> w_dbn w1" by (rule settings_or_org_count [OF l])
  then show ?thesis
    using sample_count order_trans by (fastforce simp: notify_generic_def l Let_def split: option.split)
qed

lemma generic_bot_count: "w_dbn w \<le> w_dbn (notify_generic_bot a env st n b ck good l c err w)"
proof (cases n)
  case (Some nd)
  obtain s' w1 where l: "settings_or_org a env st (n_org_id nd) w = (s', w1)" by fastforce
  have "w_dbn w \<le> w_dbn w1" by (rule settings_or_org_count [OF l])
  then show ?thesis
    using sample_count order_trans by (fastforce simp: notify_generic_bot_def Some l Let_def split: option.split)
qed (simp add: notify_generic_bot_def split: option.split)

section \<open>What a tick adds\<close>

definition healthy_cw :: "chk_env \<Rightarrow> bool" where
  "healthy_cw env \<longleftrightarrow> (\<forall>n. \<not> e_db_fail (ce_alert env) n)"

text \<open>A part of a tick: the checks stay, at most the result of one check is added, time does not go back.\<close>

definition adds :: "chk_env \<Rightarrow> uuid \<Rightarrow> cw \<Rightarrow> cw \<Rightarrow> bool" where
  "adds env i w v \<longleftrightarrow> cw_checks v = cw_checks w \<and> cw_tick w \<le> cw_tick v \<and>
     (\<exists>rs. cw_results v = cw_results w @ rs \<and> length rs \<le> 1 \<and>
        (\<forall>r \<in> set rs. cr_check_id r = i \<and> (\<exists>k. cw_tick w \<le> k \<and> cr_ts r = ce_clock env k)))"

lemma adds_same [simp]: "adds env i w w"
  by (simp add: adds_def)

lemma adds_from:
  "cw_checks u = cw_checks w \<Longrightarrow> cw_results u = cw_results w \<Longrightarrow> cw_tick w \<le> cw_tick u \<Longrightarrow> adds env i u v \<Longrightarrow> adds env i w v"
  unfolding adds_def by (metis order_trans)

lemma adds_settings:
  assumes "load_alert_settings svc env org w = (st, w1)" and "adds env i w1 v" shows "adds env i w v"
  using settings_tick [OF assms(1)] by (auto intro: adds_from [OF _ _ _ assms(2)] simp: cw_tick_def)

lemma adds_report:
  assumes "store_result env i p ms w1 = (r, w2)" and "w1 = probed w ps"
    and "cw_checks v = cw_checks w2" and "cw_results v = cw_results w2" and "cw_probes v = cw_probes w2"
    and "w_dbn (cw_world w2) \<le> w_dbn (cw_world v)" and "healthy_cw env"
  shows "adds env i w v"
proof -
  have w2: "cw_checks w2 = cw_checks w" "cw_results w2 = cw_results w @ [r]" "cw_probes w2 = cw_probes w @ ps"
    "w_dbn (cw_world w2) = Suc (w_dbn (cw_world w))" "cr_check_id r = i" "cr_ts r = ce_clock env (cw_tick w1)"
    using assms(1,7) by (auto simp: store_result_def cw_exec_def cw_fails_def healthy_cw_def Let_def assms(2)
        result_row_def cw_now_def)
  have "cw_tick w \<le> cw_tick w1" by (simp add: cw_tick_def assms(2))
  then have "\<exists>k. cw_tick w \<le> k \<and> cr_ts r = ce_clock env k" using w2(6) by blast
  then show ?thesis
    unfolding adds_def
    using assms(3-6) w2(1-5) by (auto simp: cw_tick_def intro!: exI [where x = "[r]"])
qed

lemma report_frames:
  "cw_checks (report_generic svc env st n s ck p w) = cw_checks w" "cw_results (report_generic svc env st n s ck p w) = cw_results w"
  "cw_probes (report_generic svc env st n s ck p w) = cw_probes w"
  "cw_checks (report_bot svc env st nd b ck p w) = cw_checks w" "cw_results (report_bot svc env st nd b ck p w) = cw_results w"
  "cw_probes (report_bot svc env st nd b ck p w) = cw_probes w"
  by (simp_all add: report_generic_def report_bot_def split: option.split)

lemma report_count:
  "w_dbn (cw_world w) \<le> w_dbn (cw_world (report_generic svc env st n s ck p w))"
  "w_dbn (cw_world w) \<le> w_dbn (cw_world (report_bot svc env st nd b ck p w))"
  by (simp_all add: report_generic_def report_bot_def generic_count generic_bot_count split: option.split)

lemma adds_service:
  assumes "calm_net env" and "healthy_cw env"
  shows "adds env (ck_id ck) w (snd (run_service_check svc env st n s ck w))"
proof -
  obtain p w1 where x: "execute_service_check svc env n s ck w = (p, w1)" by fastforce
  obtain ps where w1: "w1 = probed w ps" using calm_service [OF assms(1) x] by blast
  obtain r w2 where r: "store_result env (ck_id ck) p (service_metrics p) w1 = (r, w2)" by fastforce
  show ?thesis
    by (rule adds_report [OF r w1 _ _ _ _ assms(2)]) (simp_all add: run_service_check_def x r report_frames report_count)
qed

lemma adds_bot:
  assumes "calm_net env" and "healthy_cw env"
  shows "adds env (ck_id ck) w (snd (run_bot_check svc env st n b ck w))"
proof -
  obtain p w1 where x: "execute_bot_check svc env n b ck w = (p, w1)" by fastforce
  obtain ps where w1: "w1 = probed w ps" using calm_bot [OF assms(1) x] by blast
  obtain r w2 where r: "store_result env (ck_id ck) p (bot_metrics p) w1 = (r, w2)" by fastforce
  show ?thesis
    by (rule adds_report [OF r w1 _ _ _ _ assms(2)]) (simp_all add: run_bot_check_def x r report_frames report_count)
qed

lemma adds_check:
  assumes c: "calm_net env" and h: "healthy_cw env" and wc: "watched_check ck"
  shows "adds env (ck_id ck) w (snd (run_check svc env ns ss bs ck w))"
proof -
  have nn: "to_lower (ck_target_type ck) \<noteq> ''node''" using wc by (auto simp: watched_check_def)
  have S: "adds env (ck_id ck) w (snd (case load_alert_settings svc env org w of (st, w1) \<Rightarrow> (True, f st w1)))"
    if "\<And>st v. adds env (ck_id ck) v (f st v)" for f org
    using adds_settings that by (auto split: prod.split)
  show ?thesis
    unfolding run_check_def Let_def
    by (simp add: nn S adds_service [OF c h] adds_bot [OF c h] split: option.split)
qed

section \<open>Results of a check keep their distance\<close>

definition interval_of :: "check \<Rightarrow> duration" where
  "interval_of c = dur_mul (if ck_interval_sec c \<le> 0 then 60 else ck_interval_sec c) second"

definition spaced :: "check list \<Rightarrow> check_result list \<Rightarrow> bool" where
  "spaced cks rs \<longleftrightarrow> sorted_wrt (\<lambda>r q. \<forall>c \<in> set cks.
     cr_check_id r = ck_id c \<longrightarrow> cr_check_id q = ck_id c \<longrightarrow> cr_ts r + interval_of c < cr_ts q) rs"

lemma newest_result_max: "r \<in> set rs \<Longrightarrow> \<exists>q. newest_result rs = Some q \<and> cr_ts r \<le> cr_ts q"
proof (induction rs)
  case (Cons x xs)
  then show ?case by (cases "newest_result xs") (auto split: if_splits)
qed simp

lemma due_after_all:
  assumes "is_due now (ck_interval_sec c) (last_result rs (ck_id c))" and "r \<in> set rs" and "cr_check_id r = ck_id c"
  shows "cr_ts r + interval_of c < now"
proof -
  obtain q where "last_result rs (ck_id c) = Some q" "cr_ts r \<le> cr_ts q"
    using newest_result_max [of r "filter (\<lambda>r. cr_check_id r = ck_id c) rs"] assms(2,3) by (auto simp: last_result_def)
  then show ?thesis using assms(1) by (auto simp: is_due_def interval_of_def Let_def)
qed

lemma due_rows:
  assumes c: "calm_net env" and h: "healthy_cw env" and "list_all watched_check cs" and "distinct (map ck_id cs)"
  shows "cw_checks (run_due svc env now res ns ss bs cs w) = cw_checks w \<and> cw_tick w \<le> cw_tick (run_due svc env now res ns ss bs cs w) \<and>
    (\<exists>rs. cw_results (run_due svc env now res ns ss bs cs w) = cw_results w @ rs \<and> distinct (map cr_check_id rs) \<and>
      (\<forall>r \<in> set rs. (\<exists>c \<in> set cs. cr_check_id r = ck_id c \<and> is_due now (ck_interval_sec c) (last_result res (ck_id c))) \<and>
         (\<exists>k. cw_tick w \<le> k \<and> cr_ts r = ce_clock env k)))"
  using assms(3,4)
proof (induction cs arbitrary: w)
  case (Cons x cs)
  let ?v = "if is_due now (ck_interval_sec x) (last_result res (ck_id x)) then snd (run_check svc env ns ss bs x w) else w"
  let ?u = "run_due svc env now res ns ss bs cs ?v"
  have A: "adds env (ck_id x) w ?v" using adds_check [OF c h] Cons.prems by simp
  obtain rs where rs: "cw_results ?v = cw_results w @ rs" "length rs \<le> 1" "cw_checks ?v = cw_checks w" "cw_tick w \<le> cw_tick ?v"
    "\<forall>r \<in> set rs. cr_check_id r = ck_id x \<and> (\<exists>k. cw_tick w \<le> k \<and> cr_ts r = ce_clock env k)"
    using A by (auto simp: adds_def)
  have due: "rs \<noteq> [] \<Longrightarrow> is_due now (ck_interval_sec x) (last_result res (ck_id x))" using rs(1) by (auto split: if_splits)
  obtain qs where qs: "cw_results ?u = cw_results ?v @ qs" "distinct (map cr_check_id qs)" "cw_checks ?u = cw_checks ?v"
    "cw_tick ?v \<le> cw_tick ?u"
    "\<forall>r \<in> set qs. (\<exists>c \<in> set cs. cr_check_id r = ck_id c \<and> is_due now (ck_interval_sec c) (last_result res (ck_id c))) \<and>
         (\<exists>k. cw_tick ?v \<le> k \<and> cr_ts r = ce_clock env k)"
    using Cons.IH [of ?v] Cons.prems by auto
  have d: "distinct (map cr_check_id (rs @ qs))"
  proof -
    have "distinct (map cr_check_id rs)" using rs(2) by (cases rs) auto
    moreover have "r \<in> set rs \<Longrightarrow> q \<in> set qs \<Longrightarrow> cr_check_id r \<noteq> cr_check_id q" for r q
      using rs(5) qs(5) Cons.prems(2) by force
    ultimately show ?thesis using qs(2) by auto
  qed
  have rows: "\<forall>r \<in> set (rs @ qs). (\<exists>c \<in> set (x # cs). cr_check_id r = ck_id c \<and> is_due now (ck_interval_sec c) (last_result res (ck_id c))) \<and>
         (\<exists>k. cw_tick w \<le> k \<and> cr_ts r = ce_clock env k)"
  proof
    fix r assume "r \<in> set (rs @ qs)"
    then consider "r \<in> set rs" | "r \<in> set qs" by auto
    then show "(\<exists>c \<in> set (x # cs). cr_check_id r = ck_id c \<and> is_due now (ck_interval_sec c) (last_result res (ck_id c))) \<and>
         (\<exists>k. cw_tick w \<le> k \<and> cr_ts r = ce_clock env k)"
    proof cases
      case 1
      then have "rs \<noteq> []" by auto
      then show ?thesis using rs(5) 1 due by auto
    next
      case 2
      then show ?thesis using qs(5) rs(4) by (meson list.set_intros(2) order_trans)
    qed
  qed
  have t: "cw_tick w \<le> cw_tick ?u" using rs(4) qs(4) by simp
  show ?case
    unfolding run_due.simps using rs(1,3) qs(1,3) d rows t by (intro conjI exI [where x = "rs @ qs"]) simp_all
qed simp

lemma distinct_pairs: "distinct (map f xs) \<Longrightarrow> sorted_wrt (\<lambda>x y. f x \<noteq> f y) xs"
  by (induction xs) auto

lemma healthy_rows: "healthy_cw env \<Longrightarrow> cw_rows env q w = (q w, on_world db_tick w)"
  by (simp add: cw_rows_def cw_query_def cw_fails_def healthy_cw_def)

lemma tick_as_due:
  assumes h: "healthy_cw env"
  obtains "checks_run_once svc env w = w" | "checks_run_once svc env w = on_world db_tick w"
  | v ns ss bs where "checks_run_once svc env w = run_due svc env (cw_now env v) (cw_results w) ns ss bs (filter watched_check (cw_checks w)) v"
    "cw_results v = cw_results w" "cw_checks v = cw_checks w"
proof -
  let ?v = "on_world db_tick (on_world db_tick (on_world db_tick (on_world db_tick (on_world db_tick w))))"
  have "cw_query env (\<lambda>v. filter watched_check (cw_checks v)) w = (Inr (filter watched_check (cw_checks w)), on_world db_tick w)"
    using h by (simp add: cw_query_def cw_fails_def healthy_cw_def)
  then have "checks_run_once svc env w = (if \<not> kw_has_db svc then w
      else if filter watched_check (cw_checks w) = [] then on_world db_tick w
      else run_due svc env (cw_now env ?v) (cw_results w) (w_nodes (cw_world (on_world db_tick w)))
        (w_services (cw_world (on_world db_tick (on_world db_tick w))))
        (w_bots (cw_world (on_world db_tick (on_world db_tick (on_world db_tick w))))) (filter watched_check (cw_checks w)) ?v)"
    by (simp add: checks_run_once_def healthy_rows [OF h] Let_def)
  then show ?thesis using that by (auto split: if_splits)
qed

lemma tick_spaced:
  assumes c: "calm_net env" and h: "healthy_cw env" and m: "mono (ce_clock env)"
    and d: "distinct (map ck_id (cw_checks w))" and s: "spaced (cw_checks w) (cw_results w)"
  shows "cw_checks (checks_run_once svc env w) = cw_checks w \<and> spaced (cw_checks w) (cw_results (checks_run_once svc env w))"
proof (cases rule: tick_as_due [OF h, of svc w])
  case (3 v ns ss bs)
  let ?cs = "filter watched_check (cw_checks w)"
  obtain rs where rs: "cw_results (checks_run_once svc env w) = cw_results w @ rs" "distinct (map cr_check_id rs)"
    "cw_checks (checks_run_once svc env w) = cw_checks w"
    "\<forall>r \<in> set rs. (\<exists>c \<in> set ?cs. cr_check_id r = ck_id c \<and> is_due (cw_now env v) (ck_interval_sec c) (last_result (cw_results w) (ck_id c))) \<and>
       (\<exists>k. cw_tick v \<le> k \<and> cr_ts r = ce_clock env k)"
    using due_rows [OF c h, of ?cs svc "cw_now env v" "cw_results w" ns ss bs v] d 3(2,3)
    by (auto simp: 3(1) list_all_iff distinct_map_filter)
  have old: "cr_ts r + interval_of k < cr_ts q"
    if in_old: "r \<in> set (cw_results w)" and in_new: "q \<in> set rs" and k: "k \<in> set (cw_checks w)"
      and ids: "cr_check_id r = ck_id k" "cr_check_id q = ck_id k" for r q k
  proof -
    obtain k' where "k' \<in> set (cw_checks w)" "ck_id k' = ck_id k"
      "is_due (cw_now env v) (ck_interval_sec k') (last_result (cw_results w) (ck_id k'))"
      using bspec [OF rs(4) in_new] ids(2) by auto
    moreover have "k' = k" using d calculation(1,2) k by (meson distinct_map inj_onD)
    ultimately have "cr_ts r + interval_of k < cw_now env v" using due_after_all in_old ids(1) by blast
    moreover have "cw_now env v \<le> cr_ts q" using bspec [OF rs(4) in_new] m by (auto simp: cw_now_def dest: monoD)
    ultimately show ?thesis by simp
  qed
  have "spaced (cw_checks w) rs"
    unfolding spaced_def by (rule sorted_wrt_mono_rel [OF _ distinct_pairs [OF rs(2)]]) auto
  then show ?thesis
    using s old rs(3) unfolding rs(1) spaced_def by (simp add: sorted_wrt_append)
qed (use s in simp_all)

section \<open>Repeated probes\<close>

text \<open>A repetition stops at the first success or after all attempts: \<open>a i\<close> says whether attempt \<open>i\<close> answers.\<close>

lemma tries_stop:
  assumes "\<And>i w. length (cw_probes w) = n + i \<Longrightarrow> \<exists>p. m w = (p, probed w [q]) \<and> po_ok p = a i"
    and "length (cw_probes w) = n + i"
  shows "\<exists>j p. try_times m k o0 w = (p, probed w (replicate j q)) \<and> j \<le> k \<and> (\<forall>x < j - 1. \<not> a (i + x)) \<and>
    (if j = 0 then k = 0 \<and> p = o0 else po_ok p = a (i + (j - 1)) \<and> (\<not> po_ok p \<longrightarrow> j = k))"
  using assms(2)
proof (induction k arbitrary: w i o0)
  case (Suc k)
  obtain p where m: "m w = (p, probed w [q])" "po_ok p = a i" using assms(1) Suc.prems by blast
  show ?case
  proof (cases "po_ok p")
    case True
    then show ?thesis using m by (intro exI [where x = 1] exI [where x = p]) simp
  next
    case False
    obtain j p' where j: "try_times m k p (probed w [q]) = (p', probed (probed w [q]) (replicate j q))" "j \<le> k"
      "\<forall>x < j - 1. \<not> a (Suc i + x)"
      "if j = 0 then k = 0 \<and> p' = p else po_ok p' = a (Suc i + (j - 1)) \<and> (\<not> po_ok p' \<longrightarrow> j = k)"
      using Suc.IH [of "probed w [q]" "Suc i" p] Suc.prems by auto
    have "\<not> a (i + x)" if "x < j" for x
      using that j(3) False m(2) by (cases x) auto
    then show ?thesis
      using j m False by (intro exI [where x = "Suc j"] exI [where x = p']) (cases j; simp)
  qed
qed simp

lemma tcp_attempt:
  assumes "calm_net env" and "length (cw_probes w) = n + i"
  shows "\<exists>p. check_tcp env addr t w = (p, probed w [ProbeTcp addr t]) \<and> po_ok p = (ce_tcp env (n + i) addr = None)"
  using assms by (simp add: check_tcp_def cw_probe_calm Let_def failed_def passed_def split: option.split)

section \<open>The FTP dialogue\<close>

definition quit_line :: string where
  "quit_line = ''QUIT'' @ crlf"

text \<open>One line: no line break but the one at its end.\<close>

definition one_line :: "string \<Rightarrow> bool" where
  "one_line s \<longleftrightarrow> (\<exists>b. s = b @ crlf \<and> CHR 0x0D \<notin> set b \<and> CHR 0x0A \<notin> set b)"

lemma sanitized_one_line: "sanitize_ftp_arg v = Inr u \<Longrightarrow> CHR 0x0D \<notin> set u \<and> CHR 0x0A \<notin> set u"
  by (auto simp: sanitize_ftp_arg_def Let_def split: if_splits)

lemma one_lines:
  "one_line quit_line"
  "sanitize_ftp_arg v = Inr u \<Longrightarrow> one_line (''USER '' @ u @ crlf)"
  "sanitize_ftp_arg v = Inr u \<Longrightarrow> one_line (''PASS '' @ u @ crlf)"
proof -
  show "one_line quit_line"
    unfolding one_line_def quit_line_def by (rule exI [where x = "''QUIT''"]) simp
  show "sanitize_ftp_arg v = Inr u \<Longrightarrow> one_line (''USER '' @ u @ crlf)"
    unfolding one_line_def using sanitized_one_line by (intro exI [where x = "''USER '' @ u"]) auto
  show "sanitize_ftp_arg v = Inr u \<Longrightarrow> one_line (''PASS '' @ u @ crlf)"
    unfolding one_line_def using sanitized_one_line by (intro exI [where x = "''PASS '' @ u"]) auto
qed

lemma send_calm:
  "calm_net env \<Longrightarrow> ftp_send env cmd c w = (e, c1, v) \<Longrightarrow>
   v = probed w [FtpSend cmd] \<and> (e = None \<longrightarrow> c1 = c\<lparr>fc_sent := fc_sent c @ [cmd],
      fc_unread := fc_unread c @ ce_ftp_lines env (fc_id c) (fc_sent c @ [cmd])\<rparr>)"
  by (auto simp: ftp_send_def cw_probe_calm split: option.splits)

text \<open>The lines sent in \<open>v\<close> after \<open>w\<close>: \<open>pre\<close>, and \<open>QUIT\<close> if the outcome is good.\<close>

definition sent_lines :: "string list \<Rightarrow> outcome \<Rightarrow> cw \<Rightarrow> cw \<Rightarrow> bool" where
  "sent_lines pre p w v \<longleftrightarrow> v = probed w (map FtpSend (pre @ (if po_ok p then [quit_line] else [])))"

lemma sent_failed [simp]: "sent_lines pre (failed l c e) w v \<longleftrightarrow> v = probed w (map FtpSend pre)"
  by (simp add: sent_lines_def failed_def)

lemma sent_more: "sent_lines qs p (probed w (map FtpSend ps)) v \<Longrightarrow> sent_lines (ps @ qs) p w v"
  by (simp add: sent_lines_def)

lemma judge_sends:
  assumes "calm_net env" and "ftp_judge env s au l code c w = (p, v)"
  shows "sent_lines [] p w v"
proof (cases "is_expected_ftp_code (Some s) code au")
  case True
  obtain e c1 w1 where q: "ftp_send env quit_line c w = (e, c1, w1)" by (metis prod_cases3)
  then have "w1 = probed w [FtpSend quit_line]" using send_calm [OF assms(1)] by blast
  then show ?thesis using assms(2) q True by (auto simp: ftp_judge_def quit_line_def sent_lines_def passed_def)
qed (use assms in \<open>auto simp: ftp_judge_def bad_reply_def\<close>)

lemma password_sends:
  assumes c: "calm_net env" and r: "ftp_password svc env s l code c w = (p, v)"
  shows "sent_lines [] p w v \<or> (\<exists>pw u. sanitize_ftp_arg pw = Inr u \<and> sent_lines [''PASS '' @ u @ crlf] p w v)"
proof (cases "service_password svc env s")
  case (Inr pw)
  show ?thesis
  proof (cases "trim_space pw = []")
    case False
    show ?thesis
    proof (cases "sanitize_ftp_arg pw")
      case (Inr u)
      obtain e c1 w1 where q: "ftp_send env (''PASS '' @ u @ crlf) c w = (e, c1, w1)" by (metis prod_cases3)
      obtain y c2 where y: "ftp_read c1 = (y, c2)" by fastforce
      have w1: "w1 = probed w (map FtpSend [''PASS '' @ u @ crlf])" using send_calm [OF c q] by simp
      have "sent_lines [''PASS '' @ u @ crlf] p w v"
      proof (cases "e = None \<and> \<not> isl y")
        case True
        then obtain code1 where "ftp_judge env s True l code1 c2 w1 = (p, v)"
          using r \<open>service_password svc env s = Inr pw\<close> False Inr q y by (cases y) (auto simp: ftp_password_def)
        then show ?thesis using sent_more [OF judge_sends [OF c, unfolded w1]] w1 by fastforce
      next
        case False': False
        then show ?thesis
          using r \<open>service_password svc env s = Inr pw\<close> False Inr q y w1
          by (auto simp: ftp_password_def split: option.splits sum.splits)
      qed
      then show ?thesis using Inr by blast
    qed (use r Inr False in \<open>auto simp: ftp_password_def\<close>)
  qed (use r Inr in \<open>auto simp: ftp_password_def\<close>)
qed (use r in \<open>auto simp: ftp_password_def\<close>)

text \<open>The reply to \<open>USER\<close>, on the connection on which the greeting has been read.\<close>

definition asked_for_password :: "chk_env \<Rightarrow> string \<Rightarrow> ftp_conn \<Rightarrow> bool" where
  "asked_for_password env u c \<longleftrightarrow>
     fst (ftp_read (c\<lparr>fc_sent := fc_sent c @ [''USER '' @ u @ crlf],
       fc_unread := fc_unread c @ ce_ftp_lines env (fc_id c) (fc_sent c @ [''USER '' @ u @ crlf])\<rparr>)) = Inr 331"

definition dialogue :: "chk_env \<Rightarrow> ftp_conn \<Rightarrow> string list \<Rightarrow> bool" where
  "dialogue env c pre \<longleftrightarrow> pre = [] \<or> (\<exists>x u. sanitize_ftp_arg x = Inr u \<and>
     (pre = [''USER '' @ u @ crlf] \<or>
      (\<exists>y pw. sanitize_ftp_arg y = Inr pw \<and> pre = [''USER '' @ u @ crlf, ''PASS '' @ pw @ crlf] \<and> asked_for_password env u c)))"

lemma login_sends:
  assumes c: "calm_net env" and r: "ftp_login svc env s name l code cn w = (p, v)"
  shows "\<exists>pre. dialogue env cn pre \<and> sent_lines pre p w v"
proof (cases "(code \<noteq> 220 \<and> code \<noteq> 230) \<or> (\<exists>e. sanitize_ftp_arg name = Inl e)")
  case True
  then show ?thesis
    using r by (intro exI [where x = "[]"]) (auto simp: ftp_login_def bad_reply_def dialogue_def split: sum.splits if_splits)
next
  case False
  then obtain u where u: "sanitize_ftp_arg name = Inr u" "code = 220 \<or> code = 230" by (cases "sanitize_ftp_arg name") auto
  let ?U = "''USER '' @ u @ crlf"
  obtain e c1 w1 where q: "ftp_send env ?U cn w = (e, c1, w1)" by (metis prod_cases3)
  obtain y c2 where y: "ftp_read c1 = (y, c2)" by fastforce
  note Q = send_calm [OF c q]
  have w1: "w1 = probed w (map FtpSend [?U])" using Q by simp
  have one: "dialogue env cn [?U]" unfolding dialogue_def using u(1) by blast
  show ?thesis
  proof (cases "e = None \<and> \<not> isl y")
    case True
    then obtain code1 where y': "y = Inr code1" "e = None" by (cases y) auto
    show ?thesis
    proof (cases "code1 = 331")
      case True
      have "ftp_password svc env s l code1 c2 w1 = (p, v)"
        using r u q y y' True by (auto simp: ftp_login_def)
      then consider "sent_lines [] p w1 v" | x pw where "sanitize_ftp_arg x = Inr pw" "sent_lines [''PASS '' @ pw @ crlf] p w1 v"
        using password_sends [OF c] by blast
      then show ?thesis
      proof cases
        case 1
        then show ?thesis using one sent_more [of "[]" p w "[?U]" v] unfolding w1 by auto
      next
        case 2
        have "asked_for_password env u cn" using Q y y' True by (simp add: asked_for_password_def)
        then have "dialogue env cn ([?U] @ [''PASS '' @ pw @ crlf])" using u(1) 2(1) by (auto simp: dialogue_def)
        then show ?thesis using sent_more 2(2) unfolding w1 by blast
      qed
    next
      case False
      have "ftp_judge env s True l code1 c2 w1 = (p, v)" using r u q y y' False by (auto simp: ftp_login_def)
      then have "sent_lines [] p w1 v" by (rule judge_sends [OF c])
      then show ?thesis using one sent_more [of "[]" p w "[?U]" v] unfolding w1 by auto
    qed
  next
    case False
    then have "sent_lines [?U] p w v"
      using r u q y w1 by (auto simp: ftp_login_def split: option.splits sum.splits)
    then show ?thesis using one by blast
  qed
qed

lemma dialogue_lines: "dialogue env c pre \<Longrightarrow> list_all one_line pre"
  using one_lines(2,3) by (auto simp: dialogue_def)

end
