(* ===== verification/Watch_Properties.thy ===== *)
theory Watch_Properties
  imports Watch_Runs Alert_Examples
begin

text \<open>
  Properties of the workers that watch nodes, services and bots, with their instances: a network in which
  nothing answers, a service that is probed over TCP, a node with an agent.
\<close>

section \<open>An example\<close>

text \<open>Time stands still until the first run of a check has been reported, then a long time passes.\<close>

definition wx_env :: chk_env where
  "wx_env =
     \<lparr>ce_alert = ex_env, ce_clock = \<lambda>k. if k \<le> 2 then 1000 else 10 ^ 15 + int k, ce_other = \<lambda>_ w. w,
      ce_tcp = \<lambda>_ _. Some ''connection refused'',
      ce_http = \<lambda>_ _. Inl \<lparr>he_text = ''no route to host'', he_cause = OtherCause\<rparr>,
      ce_ssh = \<lambda>_ _. ([], Some ''connection refused''), ce_ftp_lines = \<lambda>_ _. [], ce_ftp_write = \<lambda>_ _. None,
      ce_bad_request = \<lambda>_. None, ce_url = \<lambda>_. None, ce_url_with_path = \<lambda>u p. u @ p,
      ce_parse_float = \<lambda>_. None, ce_round = \<lambda>x. x\<rparr>"

definition wx_svc :: chk_svc where
  "wx_svc = \<lparr>kw_has_db = True, kw_alerts = Some ex_svc, kw_has_ssh = True, kw_has_enc = True, kw_interval = minute,
     kw_retention = 0\<rparr>"

definition wx_cw :: cw where
  "wx_cw = \<lparr>cw_world = ex_world, cw_checks = [], cw_results = [], cw_node_checks = [], cw_metrics = [],
     cw_last_prune = 0, cw_probes = []\<rparr>"

definition wx_service :: service where
  "wx_service = \<lparr>sv_id = 3, sv_org_id = 1, sv_node_id = None, sv_name = ''s'', sv_kind = ''http'', sv_url = None,
     sv_host = Some ''h'', sv_port = Some 80, sv_tls_mode = None, sv_health_path = None, sv_expected_status = [],
     sv_headers = None, sv_auth_username = None, sv_auth_password_enc = None, sv_is_enabled = True\<rparr>"

definition wx_check :: check where
  "wx_check = \<lparr>ck_id = 4, ck_target_type = ''service'', ck_target_id = 3, ck_type = ''tcp'', ck_fail_after_sec = 300,
     ck_recover_after_ok = 2, ck_mute_until = None, ck_enabled = True, ck_interval_sec = 60, ck_timeout_ms = 3000,
     ck_retries = 0, ck_created_at = 0\<rparr>"

lemma wx_calm: "calm_net wx_env"
  by (simp add: calm_net_def wx_env_def)

lemma wx_sel [simp]: "kw_alerts wx_svc = Some ex_svc" "ce_alert wx_env = ex_env" "cw_world wx_cw = ex_world"
  "cw_results wx_cw = []" "cw_probes wx_cw = []" "cw_node_checks wx_cw = []" "cw_metrics wx_cw = []"
  "ce_tcp wx_env k addr = Some ''connection refused''" "ck_type wx_check = ''tcp''" "ck_id wx_check = 4"
  "ck_mute_until wx_check = None"
  by (simp_all add: wx_svc_def wx_env_def wx_cw_def wx_check_def)

lemma wx_probe:
  "\<exists>l. execute_service_check wx_svc wx_env None wx_service wx_check w =
     (failed l 0 ''connection refused'', probed w [ProbeTcp (join_host_port ''h'' ''80'') (dur_mul 3000 millisecond)])"
proof -
  have "to_lower ''tcp'' = ''tcp''" "trim_space ''h'' = ''h''" "itoa 80 = ''80''" by code_simp+
  moreover have "service_host_port wx_env (Some wx_service) None ''tcp'' = join_host_port ''h'' ''80''" by code_simp
  moreover have "join_host_port ''h'' ''80'' \<noteq> []" by code_simp
  moreover have "tries_of wx_check = 1" "timeout_for wx_check = dur_mul 3000 millisecond" by code_simp+
  ultimately show ?thesis
    by (simp add: execute_service_check_def Let_def check_tcp_def cw_probe_calm [OF wx_calm])
       (rule exI, rule refl)
qed

section \<open>Outages of services\<close>

text \<open>C8: An outage of a service is reported once, when it is due. The service has no open alert: it was never
  seen, or its last samples were ok and no message is waiting for an edit. Then every probe of it fails. As long as
  the sample a run hands over is not due (too few failures in a row, or the failure is younger than the check's
  delay) the runs of its check send nothing; the first due one sends a message to every chat, if the alert is not
  muted then; every run stores a failing result. This is for checks of a type whose failures no other worker
  reports (not SSH, systemd or docker), while the check is not muted, the database works, and nobody else writes
  between the runs.\<close>
theorem outage_is_reported_when_due:
  assumes "calm_net env" and "kw_alerts svc = Some a" and "never_suppressed ck"
    and "\<And>v. \<not> po_ok (fst (execute_service_check svc env n s ck v))" and "\<And>i. 0 < ce_clock env i"
    and "ready a (ce_alert env) (outage_fp env n s ck) (cw_world w)"
    and "waiting 0 t0 (watch_of (row_get as_fingerprint (outage_fp env n s ck) (w_states (cw_world w))))"
    and "\<forall>i\<le>k. \<not> muted_at ck (report_at svc env n s ck (again svc env st n s ck i w))"
    and "\<not> mute_active (at_time (ce_alert env) (report_at svc env n s ck (again svc env st n s ck k w)))
           (outage_fp env n s ck) (cw_world (again svc env st n s ck k w))"
    and "\<forall>i<k. \<not> due (outage_par a st env n s ck) i (report_at svc env n s ck w)
                    (report_at svc env n s ck (again svc env st n s ck i w))"
    and "due (outage_par a st env n s ck) k (report_at svc env n s ck w)
           (report_at svc env n s ck (again svc env st n s ck k w))"
  shows "(\<forall>i\<le>k. w_outbox (cw_world (again svc env st n s ck i w)) = w_outbox (cw_world w)) \<and>
    (\<exists>cs. w_outbox (cw_world (again svc env st n s ck (Suc k) w)) = w_outbox (cw_world w) @ cs \<and> broadcast st cs) \<and>
    (\<forall>i. \<exists>rs. cw_results (again svc env st n s ck i w) = cw_results w @ rs \<and> length rs = i \<and>
       list_all (\<lambda>r. cr_check_id r = ck_id ck \<and> cr_status r = ''fail'') rs)"
proof -
  have new: "waiting 0 (report_at svc env n s ck w) (watch_of (row_get as_fingerprint (outage_fp env n s ck) (w_states (cw_world w))))"
    using assms(7) by (simp add: waiting_def)
  note Q = silent_runs [OF assms(1-3) _ assms(4-6) new refl]
  have q: "i \<le> k \<Longrightarrow> w_outbox (cw_world (again svc env st n s ck i w)) = w_outbox (cw_world w)" for i
    using Q [of i st] assms(8,10) by simp
  have S: "waiting k (report_at svc env n s ck w) (watch_of (row_get as_fingerprint (outage_fp env n s ck)
      (w_states (cw_world (again svc env st n s ck k w)))))"
    "ready a (ce_alert env) (outage_fp env n s ck) (cw_world (again svc env st n s ck k w))"
    using Q [of k st] assms(8,10) by simp_all
  have "\<exists>cs. w_outbox (cw_world (again svc env st n s ck (Suc k) w)) = w_outbox (cw_world (again svc env st n s ck k w)) @ cs \<and>
      broadcast st cs"
    unfolding again_Suc
    by (rule first_message [OF assms(1-3) _ assms(4,5) S(2) assms(9) S(1) _ assms(11)]) (use assms(8) in simp_all)
  moreover have "\<not> e_db_fail (ce_alert env) i" for i using assms(6) by (simp add: ready_def db_up_def)
  note runs_stored [OF assms(1,2) this assms(3,4), of st]
  ultimately show ?thesis using q [OF order_refl] q by simp
qed

lemma wx_ready: "ready ex_svc ex_env fp ex_world"
  by (simp add: ready_def ex_up ex_codec table_ok_def fresh_ids_def uuid_nil_def)

lemma wx_times:
  "report_at wx_svc wx_env None wx_service wx_check wx_cw = 1000"
  "10 ^ 15 \<le> report_at wx_svc wx_env None wx_service wx_check (again wx_svc wx_env st None wx_service wx_check 1 wx_cw)"
proof -
  have at: "\<exists>u. report_at wx_svc wx_env None wx_service wx_check w = ce_clock wx_env (cw_tick u) \<and>
      cw_tick u = cw_tick w + 2" for w
  proof -
    obtain l where "execute_service_check wx_svc wx_env None wx_service wx_check w =
      (failed l 0 ''connection refused'', probed w [ProbeTcp (join_host_port ''h'' ''80'') (dur_mul 3000 millisecond)])"
      using wx_probe by blast
    then show ?thesis
      by (simp add: report_at_def cw_now_def store_result_def cw_exec_def cw_fails_def Let_def)
         (intro exI [where x = "on_world db_tick (probed w [ProbeTcp (join_host_port ''h'' ''80'') (dur_mul 3000 millisecond)])"],
          simp add: cw_tick_def db_tick_def)
  qed
  show "report_at wx_svc wx_env None wx_service wx_check wx_cw = 1000"
    using at [of wx_cw] by (auto simp: wx_env_def wx_cw_def cw_tick_def ex_world_def)
  have "1 \<le> cw_tick (again wx_svc wx_env st None wx_service wx_check 1 wx_cw)"
  proof -
    obtain l where "execute_service_check wx_svc wx_env None wx_service wx_check wx_cw =
      (failed l 0 ''connection refused'', probed wx_cw [ProbeTcp (join_host_port ''h'' ''80'') (dur_mul 3000 millisecond)])"
      using wx_probe by blast
    then show ?thesis
      by (simp add: again_def run_service_check_def store_result_def cw_exec_def cw_fails_def Let_def report_generic_def cw_tick_def)
  qed
  then show "10 ^ 15 \<le> report_at wx_svc wx_env None wx_service wx_check (again wx_svc wx_env st None wx_service wx_check 1 wx_cw)"
    using at [of "again wx_svc wx_env st None wx_service wx_check 1 wx_cw"] by (auto simp: wx_env_def)
qed

lemma wx_unmuted: "\<not> mute_active E fp (cw_world (again wx_svc wx_env st None wx_service wx_check 1 wx_cw))"
proof (rule never_muted_inactive)
  have dead: "\<And>v. \<not> po_ok (fst (execute_service_check wx_svc wx_env None wx_service wx_check v))"
    using wx_probe by (metis failed_def fst_conv outcome.select_convs(1))
  have ns: "never_suppressed wx_check" unfolding never_suppressed_def by code_simp
  have "\<And>i. \<not> e_db_fail (ce_alert wx_env) i" using ex_up by (simp add: db_up_def)
  note R = failing_run [OF wx_calm wx_sel(1) this ns dead, of st wx_cw]
  have "\<exists>es. cw_world (snd (run_service_check wx_svc wx_env (Some st) None wx_service wx_check wx_cw)) =
      sample_run ex_svc (ce_alert wx_env) st es (db_tick ex_world)"
    by (rule R) (unfold wx_sel(3), rule exI)
  then obtain es where "cw_world (again wx_svc wx_env st None wx_service wx_check 1 wx_cw) =
      sample_run ex_svc (ce_alert wx_env) st es (db_tick ex_world)"
    unfolding One_nat_def again_Suc again_0 by blast
  then show "never_muted (cw_world (again wx_svc wx_env st None wx_service wx_check 1 wx_cw))"
    using never_muted_run [of "db_tick ex_world"] by (simp add: never_muted_def db_tick_def)
qed

lemma outage_is_reported_when_due_witness:
  "w_outbox (cw_world (again wx_svc wx_env ex_settings None wx_service wx_check 1 wx_cw)) = [] \<and>
   (\<exists>cs. w_outbox (cw_world (again wx_svc wx_env ex_settings None wx_service wx_check 2 wx_cw)) = cs \<and> broadcast ex_settings cs)"
proof -
  let ?P = "outage_par ex_svc ex_settings wx_env None wx_service wx_check"
  have P: "wp_min ?P = 2" "wp_delay ?P \<le> 10 ^ 12"
    by (simp_all add: outage_par_def par_of_def service_alert_def check_alert_def zero_alert_def
        min_consecutive_fails_def default_policy_def fail_delay_def wx_check_def dur_mul_def minute_def second_def wrap64_def Let_def)
  have a: "\<And>v. \<not> po_ok (fst (execute_service_check wx_svc wx_env None wx_service wx_check v))"
    using wx_probe by (metis failed_def fst_conv outcome.select_convs(1))
  have b: "\<And>i. 0 < ce_clock wx_env i" by (simp add: wx_env_def)
  have c: "never_suppressed wx_check" unfolding never_suppressed_def by code_simp
  have d: "\<forall>i<1. \<not> due ?P i (report_at wx_svc wx_env None wx_service wx_check wx_cw)
      (report_at wx_svc wx_env None wx_service wx_check (again wx_svc wx_env ex_settings None wx_service wx_check i wx_cw))"
    using P by (simp add: due_def)
  have e: "due ?P 1 (report_at wx_svc wx_env None wx_service wx_check wx_cw)
      (report_at wx_svc wx_env None wx_service wx_check (again wx_svc wx_env ex_settings None wx_service wx_check 1 wx_cw))"
    using P wx_times(2) [of ex_settings] by (simp add: due_def wx_times(1) time_sub_def sat64_def min_def max_def)
  show ?thesis
    using outage_is_reported_when_due [OF wx_calm wx_sel(1) c a b, of wx_cw 0 1 ex_settings] d e wx_unmuted
    by (simp add: wx_ready waiting_def watch_of_def watch0_def muted_at_def wx_sel(11) numeral_2_eq_2)
qed

section \<open>All interleavings\<close>

text \<open>C20: Whatever the order of ticks of the three workers, checks run at once, checks added and calls of the alert
  service, with any failures of the database and any answers of the network: alert states stay unique by
  fingerprint and alert id, incidents by id and fingerprint; a stored result is ok or fail, without error where
  it is ok; a node check has an error exactly when the panel or the SSH port failed; a row of numbers without an
  error has those of memory and disk.\<close>
theorem workers_keep_tables:
  assumes "tables_ok w" and "\<forall>(env, e) \<in> set es. others_ok env"
  shows "tables_ok (run (worker_step svc) es w)"
  using assms
proof (induction es arbitrary: w)
  case (Cons x es)
  obtain env e where x: "x = (env, e)" by fastforce
  then have "tables_ok (worker_step svc x w)" using Cons.prems worker_step_ok by simp
  then show ?case using Cons by simp
qed simp

lemma wx_tables: "tables_ok wx_cw"
  by (simp add: tables_ok_def ex_store)

lemma wx_others: "others_ok wx_env"
proof -
  have "trim_space ''connection refused'' \<noteq> []" by code_simp
  then show ?thesis by (simp add: others_ok_def errors_have_text_def wx_env_def)
qed

lemma workers_keep_tables_witness:
  "tables_ok (run (worker_step wx_svc) [(wx_env, RunService 3), (wx_env, TickChecks), (wx_env, TickNodes), (wx_env, TickMetrics)]
     (wx_cw\<lparr>cw_world := ex_world\<lparr>w_services := [wx_service]\<rparr>, cw_checks := [wx_check]\<rparr>))"
proof (rule workers_keep_tables)
  show "tables_ok (wx_cw\<lparr>cw_world := ex_world\<lparr>w_services := [wx_service]\<rparr>, cw_checks := [wx_check]\<rparr>)"
    using wx_tables by (simp add: tables_ok_def store_ok_def)
qed (simp add: wx_others)

section \<open>An example of a node\<close>

definition wx_node :: node where
  "wx_node =
     \<lparr>n_id = 7, n_org_id = Some 1, n_name = ''node'', n_kind = ''host'', n_host = ''h'', n_base_url = [], n_is_sandbox = False,
      n_agent_enabled = True, n_agent_url = None, n_agent_installed = True, n_agent_last_seen = Some 1000, n_is_enabled = True,
      n_ssh_enabled = True, n_ssh_host = ''h'', n_ssh_port = 22, n_allowed_roots = [], n_agent_token_enc = None,
      n_agent_version = None, n_service_version = None, n_versions_checked_at = None, n_runtime_version = None,
      n_ssh_user = ''root'', n_ssh_auth_method = ''key'', n_ssh_key_enc = ''k'', n_verify_tls = True\<rparr>"

definition wx_row :: telegram_row where
  "wx_row = \<lparr>tr_id = 90, tr_org_id = Some 1, tr_bot_token_enc = ''t'', tr_admin_chat_id = ''11'', tr_alert_connection = True,
     tr_alert_cpu = True, tr_alert_memory = True, tr_alert_disk = True, tr_ack_mute_minutes = 60, tr_mute_minutes = 60,
     tr_created_at = 0, tr_updated_at = 0\<rparr>"

definition wx_st :: settings where
  "wx_st = \<lparr>s_bot_token = ''t'', s_admin_chat_ids = [''11''], s_alert_connection = True, s_alert_cpu = True,
     s_alert_memory = True, s_alert_disk = True, s_ack_mute_minutes = 60, s_mute_minutes = 60\<rparr>"

text \<open>The alert of the node's connection has been sent; two ok samples have followed.\<close>

definition wx_state :: alert_state where
  "wx_state = ex_state\<lparr>as_fingerprint := connection_fp wx_env wx_node, as_ok_streak := 2\<rparr>"

definition wx_down :: cw where
  "wx_down = wx_cw\<lparr>cw_world := ex_world\<lparr>w_settings := [wx_row], w_states := [wx_state]\<rparr>\<rparr>"

definition wx_up :: cw where
  "wx_up = wx_cw\<lparr>cw_world := ex_world\<lparr>w_settings := [wx_row]\<rparr>\<rparr>"

lemma wx_settings:
  "fst (load_alert_settings wx_svc wx_env (Some 1) wx_down) = Some wx_st"
  "fst (load_alert_settings wx_svc wx_env (Some 1) wx_up) = Some wx_st"
proof -
  have "trim_space ''t'' = ''t''" "trim_space ''11'' = ''11''" "split_chat_ids ''11'' = [''11'']"
    "normalize_policy_minutes 60 60 = (60, 60)" by code_simp+
  moreover have "a_has_enc ex_svc" by (simp add: ex_svc_def new_service_def)
  moreover have "e_decrypt ex_env = Inr" by (simp add: ex_env_def)
  ultimately show "fst (load_alert_settings wx_svc wx_env (Some 1) wx_down) = Some wx_st"
    "fst (load_alert_settings wx_svc wx_env (Some 1) wx_up) = Some wx_st"
    by (simp_all add: load_alert_settings_def load_settings_for_org_def db_first_def env_at_def wx_down_def wx_up_def
        wx_row_def settings_from_row_def wx_st_def wx_cw_def wx_env_def wx_svc_def)
qed

lemma wx_load:
  "load_alert_settings wx_svc wx_env (n_org_id wx_node) wx_down = (Some wx_st, snd (load_alert_settings wx_svc wx_env (Some 1) wx_down))"
  "load_alert_settings wx_svc wx_env (n_org_id wx_node) wx_up = (Some wx_st, snd (load_alert_settings wx_svc wx_env (Some 1) wx_up))"
  using wx_settings by (simp_all add: wx_node_def prod_eq_iff)

lemma wx_online: "agent_online wx_node (cw_now wx_env w) (agent_online_ttl (kw_interval wx_svc))" if "cw_tick w \<le> 2" for w
  using that
  by (simp add: agent_online_def is_agent_online_def wx_node_def cw_now_def wx_env_def time_sub_def sat64_def
      min_def max_def agent_online_ttl_def min_agent_ttl_def max_agent_ttl_def wx_svc_def dur_mul_def wrap64_def minute_def
      second_def Let_def)

section \<open>Outages of nodes\<close>

text \<open>C23: While the agent of a node reports, a refused SSH port is stored as an outage and counted as a success: the
  node check has \<open>ssh_ok\<close> false, the alert service gets an ok sample, and if that is the third in a row after a
  reported outage, every chat is told that the connection is back and the alert is settled.\<close>
theorem refused_ssh_is_announced_as_recovered:
  assumes "calm_net env" and "kw_alerts svc = Some a" and "\<And>i. 0 < ce_clock env i"
    and "load_alert_settings svc env (n_org_id n) w = (Some st, w1)" and "s_alert_connection st"
    and "ready a (ce_alert env) (connection_fp env n) (cw_world w)"
    and "n_ssh_enabled n" and "\<And>k addr. ce_tcp env k addr = Some msg" and "is_ssh_transport_failure msg"
    and "agent_online n (cw_now env w) (agent_online_ttl (kw_interval svc))"
    and "recovering 2 (watch_of (row_get as_fingerprint (connection_fp env n) (w_states (cw_world w))))"
  shows "(\<exists>c. cw_node_checks (watch_node svc env n w) = cw_node_checks w @ [c] \<and> \<not> nc_ssh_ok c \<and> nc_error c \<noteq> None) \<and>
    (\<exists>cs. w_outbox (cw_world (watch_node svc env n w)) = w_outbox (cw_world w) @ cs \<and> broadcast st cs) \<and>
    settled (watch_of (row_get as_fingerprint (connection_fp env n) (w_states (cw_world (watch_node svc env n w)))))"
proof -
  have up: "\<not> e_db_fail (ce_alert env) i" for i using assms(6) by (simp add: ready_def db_up_def)
  obtain pn w2 where pn: "(if is_panel_node (Some n) then check_panel env (n_base_url n) (n_verify_tls n) w1
      else (panel_good 0, w1)) = (pn, w2)" by fastforce
  obtain r w3 where port: "check_ssh_port env n w2 = (r, w3)" by fastforce
  have r: "r = (False, Some msg)" using port assms(7,8) by (auto simp: check_ssh_port_def Let_def split: prod.splits)
  have good: "ssh_taken_as_ok svc env n (cw_now env w) r"
    using assms(9,10) by (simp add: ssh_taken_as_ok_def should_suppress_ssh_def r)
  note S = settings_probes [OF assms(4)]
  obtain t where W: "t = cw_now env (on_world db_tick w3)"
    "cw_world (watch_node svc env n w) = sample_run a (ce_alert env) st
       [(t, False, connection_alert (at_time (ce_alert env) t) n (pn_ok pn))] (db_tick (cw_world w1))"
    "\<exists>c. cw_node_checks (watch_node svc env n w) = cw_node_checks w @ [c] \<and> \<not> nc_ssh_ok c \<and> nc_error c \<noteq> None"
    by (rule watch_node_sample [OF assms(1,2) up assms(4,5) pn port good])
       (simp add: r join_check_errors_def split: option.splits)
  have t: "0 < t" using assms(3) by (simp add: W(1) cw_now_def)
  show ?thesis
    using recover_sample [OF _ connection_loud [OF t], where s = st and n = 2 and w = "db_tick (cw_world w1)"] assms(6,11) S W(2,3)
    by simp
qed

lemma refused_ssh_is_announced_as_recovered_witness:
  "\<exists>cs. w_outbox (cw_world (watch_node wx_svc wx_env wx_node wx_down)) = cs \<and> broadcast wx_st cs"
proof -
  have a: "\<And>i. 0 < ce_clock wx_env i" by (simp add: wx_env_def)
  have b: "ready ex_svc ex_env (connection_fp wx_env wx_node) (cw_world wx_down)"
    by (simp add: ready_def ex_up ex_codec table_ok_def row_ok_def norm_row_def wx_down_def wx_state_def ex_state_def)
  have c: "is_ssh_transport_failure ''connection refused''" by code_simp
  have d: "recovering 2 (watch_of (row_get as_fingerprint (connection_fp wx_env wx_node) (w_states (cw_world wx_down))))"
  proof -
    have "trim_space ''11'' = ''11''" "trim_space ''22'' = ''22''" by code_simp+
    then show ?thesis
      by (simp add: wx_down_def wx_state_def recovering_def watch_of_def failing_def message_ids_of_def
          message_ids_from_json_def ex_state_def)
  qed
  have e: "cw_tick wx_down \<le> 2" by (simp add: cw_tick_def wx_down_def wx_cw_def ex_world_def)
  have "n_ssh_enabled wx_node" "s_alert_connection wx_st" by (simp_all add: wx_node_def wx_st_def)
  then show ?thesis
    using refused_ssh_is_announced_as_recovered [OF wx_calm wx_sel(1) a wx_load(1) _ _ _ _ c wx_online [OF e] d] b
    by (simp add: wx_down_def)
qed

text \<open>No message is ever sent for a panel: whatever the panel of a node answers, as long as its SSH port is good or
  counts as good and no connection alert is open, a tick sends nothing and opens no alert; what the panel answered
  is only in the stored node check.\<close>
theorem panel_outages_send_nothing:
  assumes "calm_net env" and "kw_alerts svc = Some a" and "\<And>i. 0 < ce_clock env i"
    and "load_alert_settings svc env (n_org_id n) w = (Some st, w1)" and "s_alert_connection st"
    and "ready a (ce_alert env) (connection_fp env n) (cw_world w)"
    and "(if is_panel_node (Some n) then check_panel env (n_base_url n) (n_verify_tls n) w1 else (panel_good 0, w1)) = (pn, w2)"
    and "check_ssh_port env n w2 = (r, w3)" and "ssh_taken_as_ok svc env n (cw_now env w) r"
    and "\<not> wt_fail (watch_of (row_get as_fingerprint (connection_fp env n) (w_states (cw_world w))))"
  shows "w_outbox (cw_world (watch_node svc env n w)) = w_outbox (cw_world w) \<and>
    \<not> wt_fail (watch_of (row_get as_fingerprint (connection_fp env n) (w_states (cw_world (watch_node svc env n w))))) \<and>
    (\<exists>c. cw_node_checks (watch_node svc env n w) = cw_node_checks w @ [c] \<and> nc_panel_ok c = pn_ok pn)"
proof -
  have up: "\<not> e_db_fail (ce_alert env) i" for i using assms(6) by (simp add: ready_def db_up_def)
  note S = settings_probes [OF assms(4)]
  obtain t where W: "t = cw_now env (on_world db_tick w3)"
    "cw_world (watch_node svc env n w) = sample_run a (ce_alert env) st
       [(t, False, connection_alert (at_time (ce_alert env) t) n (pn_ok pn))] (db_tick (cw_world w1))"
    "\<exists>c. cw_node_checks (watch_node svc env n w) = cw_node_checks w @ [c] \<and> nc_panel_ok c = pn_ok pn"
    by (rule watch_node_sample [OF assms(1,2) up assms(4,5,7,8,9)]) simp
  have t: "0 < t" using assms(3) by (simp add: W(1) cw_now_def)
  show ?thesis
    using ok_stays_silent [OF _ connection_loud [OF t], where s = st and w = "db_tick (cw_world w1)"] assms(6,10) S W(2,3)
    by simp
qed

lemma panel_outages_send_nothing_witness:
  "w_outbox (cw_world (watch_node wx_svc wx_env (wx_node\<lparr>n_base_url := ''https://h'', n_kind := ''PANEL'', n_ssh_enabled := False\<rparr>) wx_up)) = []"
proof -
  let ?n = "wx_node\<lparr>n_base_url := ''https://h'', n_kind := ''PANEL'', n_ssh_enabled := False\<rparr>"
  let ?w1 = "snd (load_alert_settings wx_svc wx_env (Some 1) wx_up)"
  have a: "\<And>i. 0 < ce_clock wx_env i" by (simp add: wx_env_def)
  have l: "load_alert_settings wx_svc wx_env (n_org_id ?n) wx_up = (Some wx_st, ?w1)" using wx_load(2) by simp
  have b: "ready ex_svc ex_env fp (cw_world wx_up)" for fp
    by (simp add: ready_def ex_up ex_codec table_ok_def fresh_ids_def uuid_nil_def wx_up_def)
  obtain pn w2 where p: "(if is_panel_node (Some ?n) then check_panel wx_env (n_base_url ?n) (n_verify_tls ?n) ?w1
      else (panel_good 0, ?w1)) = (pn, w2)" by fastforce
  have q: "check_ssh_port wx_env ?n w2 = ((True, None), w2)" by (simp add: check_ssh_port_def)
  have s: "s_alert_connection wx_st" by (simp add: wx_st_def)
  have g: "ssh_taken_as_ok wx_svc wx_env ?n t (True, None)" for t by (simp add: ssh_taken_as_ok_def)
  have f: "\<not> wt_fail (watch_of (row_get as_fingerprint fp (w_states (cw_world wx_up))))" for fp
    by (simp add: wx_up_def watch_of_def watch0_def)
  have "w_outbox (cw_world (watch_node wx_svc wx_env ?n wx_up)) = w_outbox (cw_world wx_up)"
    using panel_outages_send_nothing [OF wx_calm wx_sel(1) a l s _ p q g f] b by simp
  then show ?thesis by (simp add: wx_up_def)
qed

section \<open>Ticks\<close>

text \<open>C21: A check is not run before its interval is over: while no statement fails and nobody else runs checks, any
  number of ticks leaves two results of the same check, stored one after the other, more than the interval of the
  check apart.\<close>
theorem ticks_space_results:
  assumes "calm_net env" and "healthy_cw env" and "mono (ce_clock env)"
    and "distinct (map ck_id (cw_checks w))" and "spaced (cw_checks w) (cw_results w)"
  shows "cw_checks ((checks_run_once svc env ^^ k) w) = cw_checks w \<and>
    spaced (cw_checks w) (cw_results ((checks_run_once svc env ^^ k) w))"
proof (induction k)
  case (Suc k)
  then show ?case using tick_spaced [OF assms(1-3), of "(checks_run_once svc env ^^ k) w" svc] assms(4) by simp
qed (simp add: assms)

lemma ticks_space_results_witness:
  "spaced [wx_check] (cw_results ((checks_run_once wx_svc wx_env ^^ 3)
     (wx_cw\<lparr>cw_world := ex_world\<lparr>w_services := [wx_service]\<rparr>, cw_checks := [wx_check]\<rparr>)))"
proof -
  let ?w = "wx_cw\<lparr>cw_world := ex_world\<lparr>w_services := [wx_service]\<rparr>, cw_checks := [wx_check]\<rparr>"
  have "mono (ce_clock wx_env)" by (auto simp: wx_env_def mono_def)
  moreover have "healthy_cw wx_env" by (simp add: healthy_cw_def)
  moreover have "distinct (map ck_id (cw_checks ?w))" "spaced (cw_checks ?w) (cw_results ?w)" by (simp_all add: spaced_def)
  ultimately show ?thesis using ticks_space_results [OF wx_calm, of ?w 3 wx_svc] by simp
qed

text \<open>C24: The attempts of a TCP check: it has one attempt, or one more than its retries; they stop at the first that is
  answered, and the outcome is good exactly if that happens.\<close>
theorem tcp_attempts_stop_at_first_answer:
  assumes "calm_net env" and "to_lower (ck_type ck) = ''tcp''" and "service_host_port env (Some s) n ''tcp'' = target"
    and "target \<noteq> []"
  shows "\<exists>j p. execute_service_check svc env n s ck w = (p, probed w (replicate j (ProbeTcp target (timeout_for ck)))) \<and>
    1 \<le> j \<and> int j \<le> (if ck_retries ck \<le> 0 then 1 else ck_retries ck + 1) \<and>
    (\<forall>x < j - 1. ce_tcp env (length (cw_probes w) + x) target \<noteq> None) \<and>
    (po_ok p \<longleftrightarrow> ce_tcp env (length (cw_probes w) + (j - 1)) target = None) \<and>
    (\<not> po_ok p \<longrightarrow> int j = (if ck_retries ck \<le> 0 then 1 else ck_retries ck + 1))"
proof -
  let ?a = "\<lambda>i. ce_tcp env (length (cw_probes w) + i) target = None"
  have k: "int (tries_of ck) = (if ck_retries ck \<le> 0 then 1 else ck_retries ck + 1)"
    by (simp add: tries_of_def retries_for_def)
  obtain j p where j: "try_times (check_tcp env target (timeout_for ck)) (tries_of ck) no_outcome w =
      (p, probed w (replicate j (ProbeTcp target (timeout_for ck))))" "j \<le> tries_of ck" "\<forall>x < j - 1. \<not> ?a (0 + x)"
    "if j = 0 then tries_of ck = 0 \<and> p = no_outcome else po_ok p = ?a (0 + (j - 1)) \<and> (\<not> po_ok p \<longrightarrow> j = tries_of ck)"
    using tries_stop [where n = "length (cw_probes w)" and i = 0 and a = ?a
        and m = "check_tcp env target (timeout_for ck)" and q = "ProbeTcp target (timeout_for ck)",
        OF tcp_attempt [OF assms(1)], of w "tries_of ck" no_outcome] by auto
  have "ck_type ck \<noteq> []" using assms(2) by auto
  then have E: "execute_service_check svc env n s ck w = (p, probed w (replicate j (ProbeTcp target (timeout_for ck))))"
    using assms(2-4) j(1) by (simp add: execute_service_check_def Let_def)
  have "0 < tries_of ck" using k by (simp split: if_splits)
  then have j0: "j \<noteq> 0" using j(4) by (metis less_irrefl)
  note J = j(4) [unfolded if_not_P [OF j0] add_0] and before = j(3) [unfolded add_0]
  have one: "1 \<le> j" using j0 by simp
  show ?thesis
    unfolding k [symmetric] of_nat_le_iff of_nat_eq_iff
    by (intro exI conjI) (rule E, rule one, rule j(2), rule before, rule conjunct1 [OF J], rule conjunct2 [OF J])
qed

lemma tcp_attempts_stop_at_first_answer_witness:
  "\<exists>j p. execute_service_check wx_svc wx_env None wx_service (wx_check\<lparr>ck_retries := 2\<rparr>) wx_cw =
     (p, probed wx_cw (replicate j (ProbeTcp (join_host_port ''h'' ''80'') (timeout_for (wx_check\<lparr>ck_retries := 2\<rparr>))))) \<and>
     \<not> po_ok p \<and> int j = 3"
proof -
  have a: "to_lower (ck_type (wx_check\<lparr>ck_retries := 2\<rparr>)) = ''tcp''" by simp code_simp
  have b: "service_host_port wx_env (Some wx_service) None ''tcp'' = join_host_port ''h'' ''80''" "join_host_port ''h'' ''80'' \<noteq> []"
    by code_simp+
  show ?thesis using tcp_attempts_stop_at_first_answer [OF wx_calm a b, of wx_svc wx_cw] by auto
qed

section \<open>FTP\<close>

text \<open>C22: What an FTP probe sends is single lines, whatever the stored credentials and the replies are: at most
  \<open>USER\<close>, then \<open>PASS\<close> only if the server answered \<open>USER\<close> with 331, and \<open>QUIT\<close> exactly if the outcome is good.\<close>
theorem ftp_probe_sends_single_lines:
  assumes "calm_net env" and "check_ftp svc env addr t s w = (p, v)"
  shows "\<exists>pre. v = probed w (ProbeTcp addr t # map FtpSend (pre @ (if po_ok p then [quit_line] else []))) \<and>
    list_all one_line (pre @ [quit_line]) \<and>
    (pre = [] \<or> (\<exists>code c. ftp_read (ftp_open env (length (cw_probes w))) = (Inr code, c) \<and> dialogue env c pre))"
proof -
  have done0: ?thesis if "\<not> po_ok p" "v = probed w [ProbeTcp addr t]"
    using that one_lines(1) by (intro exI [where x = "[]"]) simp
  let ?w1 = "probed w [ProbeTcp addr t]" and ?n = "length (cw_probes w)"
  show ?thesis
  proof (cases "ce_tcp env ?n addr = None")
    case True
    obtain y c where y: "ftp_read (ftp_open env ?n) = (y, c)" by fastforce
    show ?thesis
    proof (cases y)
      case (Inr code)
      let ?l = "since env (cw_now env w) ?w1" and ?u = "trim_space (value_or_empty (sv_auth_username s))"
      have D: "(if ?u = [] then ftp_judge env s False ?l code c ?w1 else ftp_login svc env s ?u ?l code c ?w1) = (p, v)"
        using assms(2) True y Inr by (simp add: check_ftp_def cw_probe_calm [OF assms(1)] Let_def)
      have "\<exists>pre. (pre = [] \<or> dialogue env c pre) \<and> sent_lines pre p ?w1 v"
      proof (cases "?u = []")
        case True
        then have "sent_lines [] p ?w1 v" using D judge_sends [OF assms(1)] by simp
        then show ?thesis by blast
      next
        case False
        then have L: "ftp_login svc env s ?u ?l code c ?w1 = (p, v)" using D by simp
        show ?thesis using login_sends [OF assms(1) L] by blast
      qed
      then obtain pre where pre: "pre = [] \<or> dialogue env c pre" "sent_lines pre p ?w1 v" by blast
      then have "list_all one_line (pre @ [quit_line])" using dialogue_lines one_lines(1) by auto
      then show ?thesis using pre y Inr by (intro exI [where x = pre]) (auto simp: sent_lines_def)
    next
      case (Inl e)
      have "\<not> po_ok p \<and> v = ?w1"
        using assms(2) True y Inl by (auto simp: check_ftp_def cw_probe_calm [OF assms(1)] Let_def failed_def)
      then show ?thesis using done0 by blast
    qed
  next
    case False
    then obtain e where "ce_tcp env ?n addr = Some e" by auto
    then have "\<not> po_ok p \<and> v = ?w1"
      using assms(2) by (auto simp: check_ftp_def cw_probe_calm [OF assms(1)] Let_def failed_def)
    then show ?thesis using done0 by blast
  qed
qed

text \<open>A server that asks for a password and accepts it.\<close>

definition wx_ftp :: chk_env where
  "wx_ftp = wx_env\<lparr>ce_tcp := \<lambda>_ _. None, ce_ftp_lines := \<lambda>_ cmds.
     [RdLine ((if length cmds = 0 then ''220-hello'' else if length cmds = 1 then ''331 password'' else ''230 in'') @ crlf)] @
     (if cmds = [] then [RdLine (''220 ready'' @ crlf)] else [])\<rparr>"

definition wx_ftp_service :: service where
  "wx_ftp_service = wx_service\<lparr>sv_auth_username := Some ''bob'', sv_auth_password_enc := Some ''secret''\<rparr>"

lemma wx_ftp_run:
  "cw_probes (snd (check_ftp wx_svc wx_ftp ''h:21'' minute wx_ftp_service wx_cw)) =
     [ProbeTcp ''h:21'' minute, FtpSend (''USER bob'' @ crlf), FtpSend (''PASS secret'' @ crlf), FtpSend quit_line]"
  by code_simp

lemma ftp_probe_sends_single_lines_witness:
  "\<exists>pre. cw_probes (snd (check_ftp wx_svc wx_ftp ''h:21'' minute wx_ftp_service wx_cw)) = ProbeTcp ''h:21'' minute # map FtpSend pre \<and>
     length pre = 3 \<and> list_all one_line pre"
proof -
  let ?r = "check_ftp wx_svc wx_ftp ''h:21'' minute wx_ftp_service wx_cw"
  have c: "calm_net wx_ftp" using wx_calm by (simp add: calm_net_def wx_ftp_def)
  have e: "check_ftp wx_svc wx_ftp ''h:21'' minute wx_ftp_service wx_cw = (fst ?r, snd ?r)" by simp
  obtain pre where p: "snd ?r = probed wx_cw (ProbeTcp ''h:21'' minute # map FtpSend (pre @ (if po_ok (fst ?r) then [quit_line] else [])))"
    "list_all one_line (pre @ [quit_line])"
    using ftp_probe_sends_single_lines [OF c e] by blast
  let ?ls = "pre @ (if po_ok (fst ?r) then [quit_line] else [])"
  have q: "cw_probes (snd ?r) = ProbeTcp ''h:21'' minute # map FtpSend ?ls" by (subst p(1)) simp
  have "length ?ls = 3" using arg_cong [OF wx_ftp_run, of length] unfolding q by simp
  moreover have "list_all one_line ?ls" using p(2) by simp
  ultimately show ?thesis using q by blast
qed

end
