(* ===== verification/Alert_Desk.thy ===== *)
theory Alert_Desk
  imports Web_Login Check_Worker
begin

text \<open>
  The handlers of alerts, incidents and Telegram settings: \<open>alerts.go\<close>, \<open>incidents.go\<close>,
  \<open>alert_policy.go\<close>, \<open>telegram.go\<close>, \<open>telegram_send.go\<close> and \<open>telegram_webhook.go\<close> of
  \<open>internal/http\<close>.

  The handlers work on the tables of the web model (who is acting, and which nodes that reaches) and on those
  of the alert service and the check worker. They are one database: \<open>on_web\<close> and \<open>on_cw\<close> run a part on
  its own tables and carry the tables both know (nodes, services, bots, checks) over to the other. \<open>desk_env\<close>
  adds the fields of \<open>Handler\<close> (\<open>None\<close> for a nil service), the message authentication code, and
  what the call that registers a webhook gives. The tables of an answer are whole rows; the answer shows some
  of their columns.
\<close>

datatype hook_reply = HookFailed string | HookUnread string | HookReply int string "string + bool \<times> string"

record desk_env =
  dv_web :: web_env
  dv_chk :: chk_env
  dv_alerts :: "alert_svc option"
  dv_checks :: "chk_svc option"
  dv_hmac :: "string \<Rightarrow> string \<Rightarrow> string"
  dv_legacy_secret :: string
  dv_hook :: "nat \<Rightarrow> string \<times> string \<times> string \<Rightarrow> hook_reply"

record desk =
  dk_web :: web
  dk_cw :: cw
  dk_hooks :: "(string \<times> string \<times> string) list"

definition on_web :: "(web \<Rightarrow> 'a \<times> web) \<Rightarrow> desk \<Rightarrow> 'a \<times> desk" where
  "on_web m d =
     (case m (dk_web d) of
        (r, w) \<Rightarrow>
          (r, d\<lparr>dk_web := w,
                dk_cw := (on_world (\<lambda>v. v\<lparr>w_nodes := wb_nodes w, w_services := wb_services w, w_bots := wb_bots w\<rparr>)
                           (dk_cw d))\<lparr>cw_checks := wb_checks w\<rparr>\<rparr>))"

definition on_cw :: "(cw \<Rightarrow> 'a \<times> cw) \<Rightarrow> desk \<Rightarrow> 'a \<times> desk" where
  "on_cw m d =
     (case m (dk_cw d) of
        (r, k) \<Rightarrow>
          (r, d\<lparr>dk_cw := k,
                dk_web := (dk_web d)\<lparr>wb_nodes := w_nodes (cw_world k), wb_services := w_services (cw_world k),
                             wb_bots := w_bots (cw_world k), wb_checks := cw_checks k\<rparr>\<rparr>))"

text \<open>An operation of the alert service, or a statement, at the current time.\<close>

definition on_alerts :: "desk_env \<Rightarrow> (alert_env \<Rightarrow> world \<Rightarrow> 'a \<times> world) \<Rightarrow> desk \<Rightarrow> 'a \<times> desk" where
  "on_alerts ev m =
     on_cw (\<lambda>k. case m (env_at (dv_chk ev) k) (cw_world k) of (r, v) \<Rightarrow> (r, k\<lparr>cw_world := v\<rparr>))"

definition tab_query :: "alert_env \<Rightarrow> (world \<Rightarrow> 'a) \<Rightarrow> world \<Rightarrow> 'a result \<times> world" where
  "tab_query aenv q w = (if e_db_fail aenv (w_dbn w) then Inl (ErrMsg ''database'') else Inr (q w), db_tick w)"

definition forbidden :: "ctx \<Rightarrow> ctx" where
  "forbidden c = respond_error 403 ''FORBIDDEN'' ''forbidden'' c"

section \<open>Policies of an organisation\<close>

definition http_default_ack_mute_minutes :: int where "http_default_ack_mute_minutes = 24 * 60"
definition http_default_mute_minutes :: int where "http_default_mute_minutes = 60"
definition http_max_policy_minutes :: int where "http_max_policy_minutes = 30 * 24 * 60"

definition normalize_alert_policy_minutes :: "int \<Rightarrow> int \<Rightarrow> int \<times> int" where
  "normalize_alert_policy_minutes ack_minutes minutes =
     (let ack0 = (if ack_minutes \<le> 0 then http_default_ack_mute_minutes else ack_minutes);
          ack = (if http_max_policy_minutes < ack0 then http_max_policy_minutes else ack0);
          mute0 = (if minutes \<le> 0 then http_default_mute_minutes else minutes);
          mute = (if http_max_policy_minutes < mute0 then http_max_policy_minutes else mute0)
      in (ack, mute))"

definition normalize_policy_value :: "int \<Rightarrow> int \<Rightarrow> int" where
  "normalize_policy_value v fallback = (if v \<le> 0 then fallback else v)"

definition alert_policy_for_org :: "alert_env \<Rightarrow> uuid option \<Rightarrow> world \<Rightarrow> (int \<times> int) \<times> world" where
  "alert_policy_for_org aenv org w =
     (if \<not> set_id org then (normalize_alert_policy_minutes 0 0, w)
      else case get_telegram_row aenv (the org) w of
             (Inl e, w1) \<Rightarrow> (normalize_alert_policy_minutes 0 0, w1)
           | (Inr r, w1) \<Rightarrow> (normalize_alert_policy_minutes (tr_ack_mute_minutes r) (tr_mute_minutes r), w1))"

text \<open>The lookups of an organisation: through a node, a service, a bot, an incident.\<close>

definition org_of_service :: "alert_env \<Rightarrow> uuid \<Rightarrow> world \<Rightarrow> uuid option \<times> world" where
  "org_of_service aenv u w =
     (case db_first aenv (row_get sv_id u (w_services w)) w of
        (Inl e, w1) \<Rightarrow> (None, w1)
      | (Inr s, w1) \<Rightarrow>
          if sv_org_id s \<noteq> uuid_nil then (Some (sv_org_id s), w1)
          else case sv_node_id s of None \<Rightarrow> (None, w1) | Some n \<Rightarrow> node_org aenv (Some n) w1)"

definition org_of_bot :: "alert_env \<Rightarrow> uuid \<Rightarrow> world \<Rightarrow> uuid option \<times> world" where
  "org_of_bot aenv u w =
     (case db_first aenv (row_get b_id u (w_bots w)) w of
        (Inl e, w1) \<Rightarrow> (None, w1)
      | (Inr b, w1) \<Rightarrow> node_org aenv (Some (b_node_id b)) w1)"

definition org_of_incident :: "alert_env \<Rightarrow> (incident \<Rightarrow> bool) \<Rightarrow> world \<Rightarrow> uuid option \<times> world" where
  "org_of_incident aenv p w =
     (case db_first aenv (find p (w_incidents w)) w of
        (Inl e, w1) \<Rightarrow> (None, w1)
      | (Inr i, w1) \<Rightarrow> (in_org_id i, w1))"

definition if_some :: "uuid option \<Rightarrow> (uuid \<Rightarrow> world \<Rightarrow> uuid option \<times> world) \<Rightarrow> world \<Rightarrow> uuid option \<times> world" where
  "if_some u f w = (case u of None \<Rightarrow> (None, w) | Some v \<Rightarrow> f v w)"

definition if_set :: "uuid option \<Rightarrow> (uuid \<Rightarrow> world \<Rightarrow> uuid option \<times> world) \<Rightarrow> world \<Rightarrow> uuid option \<times> world" where
  "if_set u f w = (if set_id u then f (the u) w else (None, w))"

definition org_id_for_incident :: "alert_env \<Rightarrow> incident \<Rightarrow> world \<Rightarrow> uuid option \<times> world" where
  "org_id_for_incident aenv r w =
     (if set_id (in_org_id r) then (in_org_id r, w)
      else or_else (or_else
             (if_set (in_node_id r) (\<lambda>u. node_org aenv (Some u)) w)
             (if_set (in_service_id r) (org_of_service aenv)))
             (if_set (in_bot_id r) (org_of_bot aenv)))"

definition org_id_for_alert_state :: "alert_env \<Rightarrow> alert_state \<Rightarrow> world \<Rightarrow> uuid option \<times> world" where
  "org_id_for_alert_state aenv r w =
     (let fp = trim_space (as_fingerprint r)
      in or_else (or_else (or_else (or_else
           (if_set (as_incident_id r) (\<lambda>u. org_of_incident aenv (\<lambda>i. in_id i = u)) w)
           (\<lambda>v. if fp = [] then (None, v) else org_of_incident aenv (\<lambda>i. in_fingerprint i = fp) v))
           (if_set (as_node_id r) (\<lambda>u. node_org aenv (Some u))))
           (if_set (as_service_id r) (org_of_service aenv)))
           (if_set (as_bot_id r) (org_of_bot aenv)))"

definition parse_bool_query :: "string \<Rightarrow> bool" where
  "parse_bool_query raw \<longleftrightarrow> to_lower (trim_space raw) \<in> {''1'', ''true'', ''yes'', ''on''}"

section \<open>What a request reaches\<close>

text \<open>The nodes of the acting user, and the organisation of the request.\<close>

definition desk_scope :: "web_env \<Rightarrow> request \<Rightarrow> ctx \<Rightarrow> web \<Rightarrow> (uuid list \<times> uuid option) result \<times> web" where
  "desk_scope env rq c w =
     (case accessible_node_ids env rq c w of
        (Inl e, w1) \<Rightarrow> (Inl e, w1)
      | (Inr ids, w1) \<Rightarrow>
          (case actor_scope env rq c w1 of
             (Inl e, w2) \<Rightarrow> (Inl e, w2)
           | (Inr sc, w2) \<Rightarrow> (Inr (ids, snd sc), w2)))"

text \<open>The part \<open>alertAllowed\<close> and \<open>incidentAllowed\<close> have in common.\<close>

definition target_allowed ::
    "alert_env \<Rightarrow> uuid list \<Rightarrow> uuid option \<Rightarrow> uuid option \<Rightarrow> uuid option \<Rightarrow> uuid option \<Rightarrow> world \<Rightarrow> bool \<times> world" where
  "target_allowed aenv ids org nd svc bt w =
     (case nd of
        Some n \<Rightarrow> (n \<in> set ids, w)
      | None \<Rightarrow>
          (case svc of
             Some s \<Rightarrow>
               (case db_first aenv (row_get sv_id s (w_services w)) w of
                  (Inl e, w1) \<Rightarrow> (False, w1)
                | (Inr r, w1) \<Rightarrow>
                    if (case sv_node_id r of None \<Rightarrow> False | Some n \<Rightarrow> n \<in> set ids) then (True, w1)
                    else if org \<noteq> None \<and> sv_org_id r \<noteq> uuid_nil then (org = Some (sv_org_id r), w1)
                    else (False, w1))
           | None \<Rightarrow>
               (case bt of
                  Some b \<Rightarrow>
                    (case db_first aenv (row_get b_id b (w_bots w)) w of
                       (Inl e, w1) \<Rightarrow> (False, w1)
                     | (Inr r, w1) \<Rightarrow> (b_node_id r \<in> set ids, w1))
                | None \<Rightarrow> (False, w))))"

definition alert_allowed :: "alert_env \<Rightarrow> uuid list \<Rightarrow> uuid option \<Rightarrow> alert_state \<Rightarrow> world \<Rightarrow> bool \<times> world" where
  "alert_allowed aenv ids org st w = target_allowed aenv ids org (as_node_id st) (as_service_id st) (as_bot_id st) w"

definition incident_allowed :: "alert_env \<Rightarrow> uuid list \<Rightarrow> uuid option \<Rightarrow> incident \<Rightarrow> world \<Rightarrow> bool \<times> world" where
  "incident_allowed aenv ids org i w = target_allowed aenv ids org (in_node_id i) (in_service_id i) (in_bot_id i) w"

definition may_touch ::
    "desk_env \<Rightarrow> request \<Rightarrow> ctx \<Rightarrow> (alert_env \<Rightarrow> uuid list \<Rightarrow> uuid option \<Rightarrow> world \<Rightarrow> bool \<times> world) \<Rightarrow> desk \<Rightarrow>
     bool \<times> desk" where
  "may_touch ev rq c allow d =
     (case on_web (desk_scope (dv_web ev) rq c) d of
        (Inl e, d1) \<Rightarrow> (False, d1)
      | (Inr (ids, org), d1) \<Rightarrow> on_alerts ev (\<lambda>aenv. allow aenv ids org) d1)"

section \<open>Lists\<close>

definition list_limit :: "request \<Rightarrow> nat" where
  "list_limit rq =
     (let v = (case atoi (rq_query rq ''limit'') of None \<Rightarrow> 200 | Some v \<Rightarrow> v)
      in if v < 1 then 1 else if 1000 < v then 1000 else nat v)"

text \<open>\<open>Order("last_seen desc").Limit(n)\<close>; rows seen at the same time keep their order.\<close>

definition newest_rows :: "nat \<Rightarrow> ('r \<Rightarrow> instant) \<Rightarrow> 'r list \<Rightarrow> 'r list" where
  "newest_rows n seen rows = take n (sort_key (\<lambda>r. - seen r) rows)"

fun allowed_rows :: "('r \<Rightarrow> world \<Rightarrow> bool \<times> world) \<Rightarrow> 'r list \<Rightarrow> world \<Rightarrow> 'r list \<times> world" where
  "allowed_rows allow [] w = ([], w)"
| "allowed_rows allow (r # rs) w =
     (case allow r w of
        (ok, w1) \<Rightarrow> (case allowed_rows allow rs w1 of (out, w2) \<Rightarrow> (if ok then r # out else out, w2)))"

text \<open>A filter on a column of identifiers; a value that is none is ignored.\<close>

definition id_filter :: "web_env \<Rightarrow> request \<Rightarrow> string \<Rightarrow> uuid option \<Rightarrow> bool" where
  "id_filter env rq name u \<longleftrightarrow>
     (let raw = trim_space (rq_query rq name)
      in raw = [] \<or> (case we_parse env raw of None \<Rightarrow> True | Some i \<Rightarrow> u = Some i))"

definition alert_filter :: "web_env \<Rightarrow> request \<Rightarrow> alert_state \<Rightarrow> bool" where
  "alert_filter env rq r \<longleftrightarrow>
     (let status = trim_space (rq_query rq ''status''); active = trim_space (rq_query rq ''active'')
      in (status = [] \<or> as_last_status r = Some status) \<and>
         (active \<in> {''true'', ''1''} \<longrightarrow> (case as_last_status r of None \<Rightarrow> False | Some s \<Rightarrow> s \<noteq> ''ok'')) \<and>
         id_filter env rq ''node_id'' (as_node_id r) \<and> id_filter env rq ''service_id'' (as_service_id r) \<and>
         id_filter env rq ''bot_id'' (as_bot_id r))"

definition list_alerts :: "desk_env \<Rightarrow> request \<Rightarrow> desk handler" where
  "list_alerts ev rq c d =
     (case on_web (desk_scope (dv_web ev) rq c) d of
        (Inl e, d1) \<Rightarrow> (forbidden c, d1)
      | (Inr (ids, org), d1) \<Rightarrow>
          (case on_alerts ev (\<lambda>aenv. tab_query aenv (\<lambda>v.
                  newest_rows (list_limit rq) as_last_seen (filter (alert_filter (dv_web ev) rq) (w_states v)))) d1 of
             (Inl e, d2) \<Rightarrow> (respond_error 500 ''DB_LIST'' ''failed to list alerts'' c, d2)
           | (Inr rows, d2) \<Rightarrow>
               (case on_alerts ev (\<lambda>aenv. allowed_rows (alert_allowed aenv ids org) rows) d2 of
                  (out, d3) \<Rightarrow> (respond_status 200 (AAlerts out) c, d3))))"

definition incident_filter :: "request \<Rightarrow> incident \<Rightarrow> bool" where
  "incident_filter rq r \<longleftrightarrow>
     (let status = to_lower (trim_space (rq_query rq ''status'')); active = trim_space (rq_query rq ''active'')
      in (status = [] \<or> in_status r = status) \<and>
         (active = ''1'' \<or> equal_fold active ''true'' \<longrightarrow> in_status r \<in> {''open'', ''acked''}))"

definition list_incidents :: "desk_env \<Rightarrow> request \<Rightarrow> desk handler" where
  "list_incidents ev rq c d =
     (case on_web (desk_scope (dv_web ev) rq c) d of
        (Inl e, d1) \<Rightarrow> (forbidden c, d1)
      | (Inr (ids, org), d1) \<Rightarrow>
          (case on_alerts ev (\<lambda>aenv. tab_query aenv (\<lambda>v.
                  newest_rows (list_limit rq) in_last_seen (filter (incident_filter rq) (w_incidents v)))) d1 of
             (Inl e, d2) \<Rightarrow> (respond_error 500 ''DB_LIST'' ''failed to list incidents'' c, d2)
           | (Inr rows, d2) \<Rightarrow>
               (case on_alerts ev (\<lambda>aenv. allowed_rows (incident_allowed aenv ids org) rows) d2 of
                  (out, d3) \<Rightarrow> (respond_status 200 (AIncidents out) c, d3))))"

section \<open>Acting on an alert or incident\<close>

text \<open>How long a mute lasts: the query, overridden by the body of a request that has one.\<close>

definition mute_seconds :: "request \<Rightarrow> (string + int) option \<Rightarrow> ctx \<Rightarrow> ctx + int" where
  "mute_seconds rq body c =
     (let asked = (case atoi (rq_query rq ''duration'') of None \<Rightarrow> 0 | Some v \<Rightarrow> v)
      in case body of
           None \<Rightarrow> Inr asked
         | Some b \<Rightarrow>
             (case parse_json_body b c of
                Inl c1 \<Rightarrow> Inl c1
              | Inr n \<Rightarrow> Inr (if 0 < n then n else asked)))"

definition mute_default :: "alert_env \<Rightarrow> alert_state \<Rightarrow> int \<Rightarrow> world \<Rightarrow> int \<times> world" where
  "mute_default aenv st secs w =
     (case (if secs \<le> 0
            then (case org_id_for_alert_state aenv st w of
                    (org, w1) \<Rightarrow> (case alert_policy_for_org aenv org w1 of ((_, m), w2) \<Rightarrow> (m * 60, w2)))
            else (secs, w)) of
        (n, w1) \<Rightarrow> (if n \<le> 0 then http_default_mute_minutes * 60 else n, w1))"

definition find_alert :: "alert_env \<Rightarrow> string \<Rightarrow> world \<Rightarrow> alert_state result \<times> world" where
  "find_alert aenv fp w = db_first aenv (row_get as_fingerprint fp (w_states w)) w"

definition mute_alert :: "desk_env \<Rightarrow> request \<Rightarrow> (string + int) option \<Rightarrow> desk handler" where
  "mute_alert ev rq body c d =
     (let fp = trim_space (rq_param rq ''fingerprint'')
      in if fp = [] then (respond_error 400 ''INVALID_FINGERPRINT'' ''fingerprint required'' c, d)
         else case mute_seconds rq body c of
           Inl c1 \<Rightarrow> (c1, d)
         | Inr asked \<Rightarrow>
             (case dv_alerts ev of
                None \<Rightarrow> (respond_error 503 ''ALERTS_DISABLED'' ''alerts service not configured'' c, d)
              | Some svc \<Rightarrow>
                  (case on_alerts ev (\<lambda>aenv. find_alert aenv fp) d of
                     (Inl e, d1) \<Rightarrow> (respond_error 404 ''NOT_FOUND'' ''alert not found'' c, d1)
                   | (Inr st, d1) \<Rightarrow>
                       (case may_touch ev rq c (\<lambda>aenv ids org. alert_allowed aenv ids org st) d1 of
                          (False, d2) \<Rightarrow> (forbidden c, d2)
                        | (True, d2) \<Rightarrow>
                            (case on_alerts ev (\<lambda>aenv. mute_default aenv st asked) d2 of
                               (secs, d3) \<Rightarrow>
                                 (case on_alerts ev (\<lambda>aenv. mute_fingerprint svc aenv fp (dur_mul secs second)) d3 of
                                    (Some e, d4) \<Rightarrow> (respond_error 500 ''MUTE_FAILED'' ''failed to mute alert'' c, d4)
                                  | (None, d4) \<Rightarrow> (respond_status 200 (AMuted secs) c, d4)))))))"

text \<open>The error of a retry: a \<open>retryError\<close> with its status, or an error of the worker.\<close>

definition run_retry ::
    "desk_env \<Rightarrow> string \<Rightarrow> desk \<Rightarrow> (int option \<times> string + check_result) \<times> desk" where
  "run_retry ev fp d =
     (case dv_checks ev of
        None \<Rightarrow> (Inl (Some 503, ''checks worker not configured''), d)
      | Some ks \<Rightarrow>
          (case on_alerts ev (\<lambda>aenv. find_alert aenv fp) d of
             (Inl e, d1) \<Rightarrow> (Inl (Some 404, ''alert not found''), d1)
           | (Inr st, d1) \<Rightarrow>
               (case (as_service_id st, as_bot_id st) of
                  (None, None) \<Rightarrow> (Inl (Some 400, ''alert has no target''), d1)
                | (None, Some b) \<Rightarrow>
                    (case on_cw (run_now_bot ks (dv_chk ev) b) d1 of
                       (Inl e, d2) \<Rightarrow> (Inl (None, err_text e), d2) | (Inr r, d2) \<Rightarrow> (Inr r, d2))
                | (Some s, _) \<Rightarrow>
                    (case on_cw (run_now_service ks (dv_chk ev) s) d1 of
                       (Inl e, d2) \<Rightarrow> (Inl (Some 500, ''failed to run check''), d2) | (Inr r, d2) \<Rightarrow> (Inr r, d2)))))"

definition checked :: "check_result \<Rightarrow> answer" where
  "checked r = AChecked (cr_check_id r) (cr_ts r) (cr_status r) (cr_metrics r) (cr_error r) (cr_latency_ms r)"

definition retry_alert :: "desk_env \<Rightarrow> request \<Rightarrow> desk handler" where
  "retry_alert ev rq c d =
     (let fp = trim_space (rq_param rq ''fingerprint'')
      in if fp = [] then (respond_error 400 ''INVALID_FINGERPRINT'' ''fingerprint required'' c, d)
         else case on_alerts ev (\<lambda>aenv. find_alert aenv fp) d of
           (Inl e, d1) \<Rightarrow> (respond_error 404 ''NOT_FOUND'' ''alert not found'' c, d1)
         | (Inr st, d1) \<Rightarrow>
             (case may_touch ev rq c (\<lambda>aenv ids org. alert_allowed aenv ids org st) d1 of
                (False, d2) \<Rightarrow> (forbidden c, d2)
              | (True, d2) \<Rightarrow>
                  (case run_retry ev fp d2 of
                     (Inl (status, msg), d3) \<Rightarrow>
                       (respond_error (case status of None \<Rightarrow> 400 | Some s \<Rightarrow> s) ''RETRY_FAILED'' msg c, d3)
                   | (Inr r, d3) \<Rightarrow> (respond_status 200 (checked r) c, d3))))"

definition ack_name :: "desk_env \<Rightarrow> ctx \<Rightarrow> desk \<Rightarrow> string \<times> desk" where
  "ack_name ev c d =
     (case on_web (actor_user (dv_web ev) c) d of
        (Inl e, d1) \<Rightarrow> (''ui'', d1)
      | (Inr u, d1) \<Rightarrow> (if trim_space (u_username u) = [] then ''ui'' else trim_space (u_username u), d1))"

definition acked_incident :: "instant \<Rightarrow> string \<Rightarrow> incident \<Rightarrow> incident" where
  "acked_incident now who i =
     i\<lparr>in_status := ''acked'', in_acknowledged_at := Some now, in_acknowledged_by := Some who, in_updated_at := now\<rparr>"

definition mute_incident :: "uuid \<Rightarrow> instant \<Rightarrow> instant \<Rightarrow> world \<Rightarrow> world" where
  "mute_incident u till now v =
     v\<lparr>w_states := map (\<lambda>r. if as_incident_id r = Some u
                             then r\<lparr>as_muted_until := Some till, as_updated_at := now\<rparr> else r) (w_states v)\<rparr>"

text \<open>The writes of \<open>AckIncident\<close>; the failure of the second is ignored.\<close>

definition store_ack ::
    "alert_env \<Rightarrow> incident \<Rightarrow> string \<Rightarrow> world \<Rightarrow> (int \<times> instant) result \<times> world" where
  "store_ack aenv row who w =
     (let now = e_now aenv
      in case org_id_for_incident aenv row w of
           (org, w1) \<Rightarrow>
             (case alert_policy_for_org aenv org w1 of
                ((ack_minutes, _), w2) \<Rightarrow>
                  let till = now + dur_mul ack_minutes minute
                  in case db_exec aenv (\<lambda>v. Inr (upd_incident_rows (in_id row) (acked_incident now who) v)) w2 of
                       (Some e, w3) \<Rightarrow> (Inl e, w3)
                     | (None, w3) \<Rightarrow>
                         (Inr (ack_minutes, till), snd (db_exec aenv (\<lambda>v. Inr (mute_incident (in_id row) till now v)) w3))))"

definition ack_incident :: "desk_env \<Rightarrow> request \<Rightarrow> desk handler" where
  "ack_incident ev rq c d =
     (case we_parse (dv_web ev) (trim_space (rq_param rq ''id'')) of
        None \<Rightarrow> (respond_error 400 ''INVALID_ID'' ''invalid incident id'' c, d)
      | Some i \<Rightarrow>
          (case on_alerts ev (\<lambda>aenv w. db_first aenv (row_get in_id i (w_incidents w)) w) d of
             (Inl e, d1) \<Rightarrow> (respond_error 404 ''NOT_FOUND'' ''incident not found'' c, d1)
           | (Inr row, d1) \<Rightarrow>
               (case may_touch ev rq c (\<lambda>aenv ids org. incident_allowed aenv ids org row) d1 of
                  (False, d2) \<Rightarrow> (forbidden c, d2)
                | (True, d2) \<Rightarrow>
                    (case ack_name ev c d2 of
                       (who, d3) \<Rightarrow>
                         (case on_alerts ev (\<lambda>aenv. store_ack aenv row who) d3 of
                            (Inl e, d4) \<Rightarrow> (respond_error 500 ''DB_UPDATE'' ''failed to acknowledge incident'' c, d4)
                          | (Inr (ack_minutes, till), d4) \<Rightarrow>
                              (respond_status 200 (AAcked ack_minutes till) c, d4))))))"

section \<open>Telegram settings\<close>

definition resolve_org_from_request :: "web_env \<Rightarrow> request \<Rightarrow> bool \<Rightarrow> ctx \<Rightarrow> web \<Rightarrow> uuid result \<times> web" where
  "resolve_org_from_request env rq require_admin c w =
     (case we_parse env (requested_org rq) of
        None \<Rightarrow> (Inl (ErrMsg ''invalid UUID''), w)
      | Some org \<Rightarrow>
          (case actor_user env c w of
             (Inl e, w1) \<Rightarrow> (Inl e, w1)
           | (Inr u, w1) \<Rightarrow>
               (case find_member env org (u_id u) w1 of
                  (Inl e, w2) \<Rightarrow> (Inl e, w2)
                | (Inr m, w2) \<Rightarrow>
                    if require_admin \<and> om_role m \<noteq> ''owner'' \<and> om_role m \<noteq> ''admin''
                    then (Inl ErrNotFound, w2) else (Inr org, w2))))"

definition get_telegram_settings :: "desk_env \<Rightarrow> request \<Rightarrow> desk handler" where
  "get_telegram_settings ev rq c d =
     (case on_web (resolve_org_from_request (dv_web ev) rq False c) d of
        (Inl e, d1) \<Rightarrow> (forbidden c, d1)
      | (Inr org, d1) \<Rightarrow>
          (case on_alerts ev (\<lambda>aenv. get_telegram_row aenv org) d1 of
             (Inl e, d2) \<Rightarrow>
               (respond_status 200 (ATelegram False [] [] False False False False
                  http_default_ack_mute_minutes http_default_mute_minutes False []) c, d2)
           | (Inr r, d2) \<Rightarrow>
               (respond_status 200 (ATelegram (tr_bot_token_enc r \<noteq> []) (tr_admin_chat_id r)
                  (http_split_chat_ids (tr_admin_chat_id r)) (tr_alert_connection r) (tr_alert_cpu r)
                  (tr_alert_memory r) (tr_alert_disk r)
                  (normalize_policy_value (tr_ack_mute_minutes r) http_default_ack_mute_minutes)
                  (normalize_policy_value (tr_mute_minutes r) http_default_mute_minutes) False []) c, d2)))"

record telegram_body =
  tb_bot_token :: string
  tb_admin_chat_id :: string
  tb_admin_chat_ids :: "string list"
  tb_alert_connection :: bool
  tb_alert_cpu :: bool
  tb_alert_memory :: bool
  tb_alert_disk :: bool
  tb_ack_mute_minutes :: int
  tb_mute_minutes :: int

text \<open>What is saved: \<open>Inl\<close> is the answer that ends the request. The plain token goes to the webhook.\<close>

record telegram_draft =
  td_enc :: string
  td_chats :: string
  td_ack :: int
  td_mute :: int

definition draft_settings ::
    "web_env \<Rightarrow> telegram_body \<Rightarrow> telegram_row option \<Rightarrow> ctx \<Rightarrow> web \<Rightarrow> (ctx + string \<times> telegram_draft) \<times> web" where
  "draft_settings env b current c w =
     (let enc0 = (case current of None \<Rightarrow> [] | Some r \<Rightarrow> tr_bot_token_enc r);
          chats0 = (case current of None \<Rightarrow> [] | Some r \<Rightarrow> tr_admin_chat_id r);
          ack0 = (case current of None \<Rightarrow> 0 | Some r \<Rightarrow> tr_ack_mute_minutes r);
          mute0 = (case current of None \<Rightarrow> 0 | Some r \<Rightarrow> tr_mute_minutes r);
          asked = (if tb_admin_chat_ids b \<noteq> [] then join '','' (tb_admin_chat_ids b) else trim_space (tb_admin_chat_id b));
          tok = trim_space (tb_bot_token b)
      in if tok = [] \<and> enc0 = [] then (Inl (respond_error 400 ''TELEGRAM_TOKEN'' ''bot token required'' c), w)
         else if asked = [] \<and> chats0 = []
         then (Inl (respond_error 400 ''TELEGRAM_CHAT'' ''admin chat id required'' c), w)
         else let chats = (if asked = [] then chats0 else asked);
                  policy = normalize_alert_policy_minutes
                    (if tb_ack_mute_minutes b \<le> 0 then ack0 else tb_ack_mute_minutes b)
                    (if tb_mute_minutes b \<le> 0 then mute0 else tb_mute_minutes b);
                  done_with = (\<lambda>token enc. Inr (token, \<lparr>td_enc = enc, td_chats = chats, td_ack = fst policy,
                                             td_mute = snd policy\<rparr>))
              in case (if tok = [] then map_sum id trim_space (decrypt_string (we_gcm env) (we_key env) enc0)
                       else Inr tok) of
                   Inl e \<Rightarrow> (Inl (respond_error 500 ''TELEGRAM_TOKEN'' ''failed to decrypt token'' c), w)
                 | Inr token \<Rightarrow>
                     if token = [] then (done_with token enc0, w)
                     else case encrypt env token w of
                            (Inl e, w1) \<Rightarrow> (Inl (respond_error 500 ''TELEGRAM_TOKEN'' ''failed to encrypt token'' c), w1)
                          | (Inr enc, w1) \<Rightarrow> (done_with token enc, w1))"

text \<open>
  The transaction. \<open>Create\<close> leaves out a column that has a default and is zero in the struct, so that
  PostgreSQL fills in the default: \<open>true\<close> for the four switches. A statement that fails spoils the
  transaction, and the commit reports it.
\<close>

definition undo :: "world \<Rightarrow> world \<Rightarrow> world" where
  "undo w w1 = w\<lparr>w_dbn := w_dbn w1, w_uid := w_uid w1\<rparr>"

definition default_true :: "bool \<Rightarrow> bool" where
  "default_true b = (if b then b else True)"

definition created_settings :: "instant \<Rightarrow> uuid \<Rightarrow> uuid \<Rightarrow> telegram_body \<Rightarrow> telegram_draft \<Rightarrow> telegram_row" where
  "created_settings now i org b t =
     \<lparr>tr_id = i, tr_org_id = Some org, tr_bot_token_enc = td_enc t, tr_admin_chat_id = td_chats t,
      tr_alert_connection = default_true (tb_alert_connection b), tr_alert_cpu = default_true (tb_alert_cpu b),
      tr_alert_memory = default_true (tb_alert_memory b), tr_alert_disk = default_true (tb_alert_disk b),
      tr_ack_mute_minutes = gorm_default 1440 (td_ack t), tr_mute_minutes = gorm_default 60 (td_mute t),
      tr_created_at = now, tr_updated_at = now\<rparr>"

definition updated_settings :: "instant \<Rightarrow> uuid \<Rightarrow> telegram_body \<Rightarrow> telegram_draft \<Rightarrow> telegram_row \<Rightarrow> telegram_row" where
  "updated_settings now org b t r =
     r\<lparr>tr_org_id := Some org, tr_bot_token_enc := td_enc t, tr_admin_chat_id := td_chats t,
       tr_alert_connection := tb_alert_connection b, tr_alert_cpu := tb_alert_cpu b,
       tr_alert_memory := tb_alert_memory b, tr_alert_disk := tb_alert_disk b,
       tr_ack_mute_minutes := td_ack t, tr_mute_minutes := td_mute t, tr_updated_at := now\<rparr>"

definition insert_settings :: "telegram_row \<Rightarrow> world \<Rightarrow> world result" where
  "insert_settings r v =
     (case row_put tr_id r (w_settings v) of None \<Rightarrow> Inl ErrUnique | Some rows \<Rightarrow> Inr (v\<lparr>w_settings := rows\<rparr>))"

definition keep_only :: "uuid \<Rightarrow> uuid \<Rightarrow> world \<Rightarrow> world" where
  "keep_only i org v = v\<lparr>w_settings := filter (\<lambda>r. \<not> (tr_id r \<noteq> i \<and> tr_org_id r = Some org)) (w_settings v)\<rparr>"

definition close_settings :: "alert_env \<Rightarrow> uuid \<Rightarrow> uuid \<Rightarrow> world \<Rightarrow> world \<Rightarrow> goerr option \<times> world" where
  "close_settings aenv i org w0 w =
     (case (if i \<noteq> uuid_nil then db_exec aenv (\<lambda>v. Inr (keep_only i org v)) w else (None, w)) of
        (spoilt, w1) \<Rightarrow>
          if spoilt \<noteq> None \<or> e_db_fail aenv (w_dbn w1) then (Some (ErrMsg ''commit''), undo w0 (db_tick w1))
          else (None, db_tick w1))"

definition store_settings ::
    "alert_env \<Rightarrow> uuid \<Rightarrow> telegram_body \<Rightarrow> telegram_draft \<Rightarrow> world \<Rightarrow> goerr option \<times> world" where
  "store_settings aenv org b t w =
     (let now = e_now aenv
      in if e_db_fail aenv (w_dbn w) then (Some (ErrMsg ''begin''), db_tick w)
         else case get_telegram_row aenv org (db_tick w) of
           (Inr r, w1) \<Rightarrow>
             (case db_exec aenv (\<lambda>v. Inr (v\<lparr>w_settings := row_upd tr_id (tr_id r) (updated_settings now org b t)
                       (w_settings v)\<rparr>)) w1 of
                (Some e, w2) \<Rightarrow> (Some e, undo w w2)
              | (None, w2) \<Rightarrow> close_settings aenv (tr_id r) org w w2)
         | (Inl ErrNotFound, w1) \<Rightarrow>
             (case uuid_new aenv w1 of
                (i, w2) \<Rightarrow>
                  (case db_exec aenv (insert_settings (created_settings now i org b t)) w2 of
                     (Some e, w3) \<Rightarrow> (Some e, undo w w3)
                   | (None, w3) \<Rightarrow> close_settings aenv i org w w3))
         | (Inl e, w1) \<Rightarrow> (Some e, undo w w1))"

section \<open>The webhook\<close>

definition telegram_webhook_secret_for :: "desk_env \<Rightarrow> uuid \<Rightarrow> string \<Rightarrow> string" where
  "telegram_webhook_secret_for ev org bot_token =
     (let salt = trim_space (we_token_salt (dv_web ev)); token = trim_space bot_token
      in if salt = [] \<or> token = [] then []
         else ''tg_'' @ raw_url_encode (dv_hmac ev salt (we_text (dv_web ev) org @ '':'' @ token)))"

definition configure_telegram_webhook :: "desk_env \<Rightarrow> uuid \<Rightarrow> string \<Rightarrow> desk \<Rightarrow> (bool \<times> string) \<times> desk" where
  "configure_telegram_webhook ev org bot_token d =
     (let token = trim_space bot_token;
          base = trim_right_cut ''/'' (trim_space (we_public_base_url (dv_web ev)));
          secret = telegram_webhook_secret_for ev org token;
          endpoint = ''https://api.telegram.org/bot'' @ token @ ''/setWebhook'';
          call = (endpoint, base @ ''/api/telegram/webhook'', secret)
      in if token = [] then ((False, ''bot token missing''), d)
         else if base = [] then ((False, ''PUBLIC_BASE_URL is empty''), d)
         else if secret = [] then ((False, ''failed to generate webhook secret''), d)
         else case ce_bad_request (dv_chk ev) endpoint of
           Some e \<Rightarrow> ((False, ''build webhook request: '' @ e), d)
         | None \<Rightarrow>
             ((case dv_hook ev (length (dk_hooks d)) call of
                 HookFailed e \<Rightarrow> (False, ''telegram setWebhook request failed: '' @ e)
               | HookUnread e \<Rightarrow> (False, ''read setWebhook response: '' @ e)
               | HookReply status raw decoded \<Rightarrow>
                   if status < 200 \<or> 299 < status
                   then (False, ''setWebhook HTTP '' @ itoa status @ '': '' @ trim_space raw)
                   else case decoded of
                          Inl e \<Rightarrow> (False, ''decode setWebhook response: '' @ e)
                        | Inr (ok, description) \<Rightarrow>
                            if \<not> ok then (False, ''setWebhook rejected: '' @ trim_space description) else (True, [])),
              d\<lparr>dk_hooks := dk_hooks d @ [call]\<rparr>))"

definition settings_audit :: "telegram_body \<Rightarrow> telegram_draft \<Rightarrow> bool \<times> string \<Rightarrow> (string \<times> string) list" where
  "settings_audit b t hook =
     [(''admin_chat_id'', td_chats t), (''alert_connection'', bool_text (tb_alert_connection b)),
      (''alert_cpu'', bool_text (tb_alert_cpu b)), (''alert_memory'', bool_text (tb_alert_memory b)),
      (''alert_disk'', bool_text (tb_alert_disk b)), (''ack_mute_minutes'', itoa (td_ack t)),
      (''mute_minutes'', itoa (td_mute t)), (''webhook_configured'', bool_text (fst hook)),
      (''webhook_error'', snd hook)]"

definition update_telegram_settings :: "desk_env \<Rightarrow> request \<Rightarrow> string + telegram_body \<Rightarrow> desk handler" where
  "update_telegram_settings ev rq body c d =
     (case parse_json_body body c of
        Inl c1 \<Rightarrow> (c1, d)
      | Inr b \<Rightarrow>
          (case on_web (resolve_org_from_request (dv_web ev) rq True c) d of
             (Inl e, d1) \<Rightarrow> (forbidden c, d1)
           | (Inr org, d1) \<Rightarrow>
               (case on_alerts ev (\<lambda>aenv. get_telegram_row aenv org) d1 of
                  (cur, d2) \<Rightarrow>
                    if (case cur of Inl e \<Rightarrow> e \<noteq> ErrNotFound | Inr r \<Rightarrow> False)
                    then (respond_error 500 ''TELEGRAM_LOAD'' ''failed to load settings'' c, d2)
                    else case on_web (draft_settings (dv_web ev) b (case cur of Inl e \<Rightarrow> None | Inr r \<Rightarrow> Some r) c) d2 of
                      (Inl c1, d3) \<Rightarrow> (c1, d3)
                    | (Inr (token, t), d3) \<Rightarrow>
                        (case on_alerts ev (\<lambda>aenv. store_settings aenv org b t) d3 of
                           (Some e, d4) \<Rightarrow> (respond_error 500 ''TELEGRAM_SAVE'' ''failed to save settings'' c, d4)
                         | (None, d4) \<Rightarrow>
                             (case configure_telegram_webhook ev org token d4 of
                                (hook, d5) \<Rightarrow>
                                  (case on_web (\<lambda>w. ((), audit_event (dv_web ev) c ''TELEGRAM_SETTINGS_UPDATE'' ''ok''
                                              (settings_audit b t hook) w)) d5 of
                                     (_, d6) \<Rightarrow>
                                       (respond_status 200 (ATelegram (td_enc t \<noteq> []) (td_chats t)
                                          (http_split_chat_ids (td_chats t)) (tb_alert_connection b) (tb_alert_cpu b)
                                          (tb_alert_memory b) (tb_alert_disk b) (td_ack t) (td_mute t)
                                          (fst hook) (snd hook)) c, d6)))))))"

record test_body =
  te_message :: string
  te_chat_ids :: "string list"
  te_bot_token :: string

definition send_telegram_test :: "desk_env \<Rightarrow> request \<Rightarrow> string + test_body \<Rightarrow> desk handler" where
  "send_telegram_test ev rq body c d =
     (case parse_json_body body c of
        Inl c1 \<Rightarrow> (c1, d)
      | Inr b \<Rightarrow>
          (case on_web (resolve_org_from_request (dv_web ev) rq True c) d of
             (Inl e, d1) \<Rightarrow> (forbidden c, d1)
           | (Inr org, d1) \<Rightarrow>
               (case on_alerts ev (\<lambda>aenv. get_telegram_row aenv org) d1 of
                  (cur, d2) \<Rightarrow>
                    let msg = (if trim_space (te_message b) = [] then ''server monitoring Aggregator test message''
                               else trim_space (te_message b));
                        enc = (case cur of Inl e \<Rightarrow> [] | Inr r \<Rightarrow> tr_bot_token_enc r);
                        stored = (case cur of Inl e \<Rightarrow> [] | Inr r \<Rightarrow> http_split_chat_ids (tr_admin_chat_id r));
                        ids = (if te_chat_ids b = [] then stored else te_chat_ids b);
                        tok = trim_space (te_bot_token b)
                    in if ids = [] then (respond_error 400 ''TELEGRAM_SETTINGS'' ''admin chat ids missing'' c, d2)
                       else case (if tok = [] \<and> enc \<noteq> []
                                  then map_sum id trim_space (decrypt_string (we_gcm (dv_web ev)) (we_key (dv_web ev)) enc)
                                  else Inr tok) of
                              Inl e \<Rightarrow> (respond_error 500 ''TELEGRAM_TOKEN'' ''failed to decrypt token'' c, d2)
                            | Inr token \<Rightarrow>
                                if token = [] then (respond_error 400 ''TELEGRAM_SETTINGS'' ''bot token missing'' c, d2)
                                else case on_alerts ev (\<lambda>aenv. send_telegram_message aenv token ids msg) d2 of
                                  (results, d3) \<Rightarrow>
                                    let ok = length (filter sr_ok results)
                                    in (respond_status 200 (ASentTo (ok = length results) ok (length results)
                                          (map (\<lambda>r. (sr_chat_id r, sr_ok r, sr_error r)) results)) c, d3))))"

definition telegram_webhook_authorized :: "desk_env \<Rightarrow> request \<Rightarrow> string \<Rightarrow> bool" where
  "telegram_webhook_authorized ev rq expected_secret \<longleftrightarrow>
     (let header = trim_space (rq_header rq ''X-Telegram-Bot-Api-Secret-Token'');
          expected = trim_space expected_secret; legacy = trim_space (dv_legacy_secret ev)
      in header \<noteq> [] \<and> (expected \<noteq> [] \<and> expected = header \<or> legacy \<noteq> [] \<and> legacy = header))"

definition telegram_chat_allowed :: "string \<Rightarrow> string \<Rightarrow> bool" where
  "telegram_chat_allowed chat_id raw_allowed \<longleftrightarrow>
     (let i = trim_space chat_id
      in i \<noteq> [] \<and> list_ex (\<lambda>a. i = trim_space a) (http_split_chat_ids raw_allowed))"

definition retry_status_message :: "check_result \<Rightarrow> string" where
  "retry_status_message r =
     (let status = (if trim_space (cr_status r) = [] then ''unknown'' else trim_space (cr_status r));
          latency = (case cr_latency_ms r of None \<Rightarrow> ''-'' | Some n \<Rightarrow> itoa n @ ''ms'')
      in case cr_error r of
           None \<Rightarrow> ''Retry result: '' @ status @ '' ('' @ latency @ '')''
         | Some e \<Rightarrow>
             if trim_space e \<noteq> []
             then ''Retry result: '' @ status @ '' ('' @ latency @ '')'' @ nl @ ''Error: '' @ trim_space e
             else ''Retry result: '' @ status @ '' ('' @ latency @ '')'')"

definition lookup_fingerprint_by_alert_id :: "alert_env \<Rightarrow> string \<Rightarrow> world \<Rightarrow> string result \<times> world" where
  "lookup_fingerprint_by_alert_id aenv alert_id w =
     (if trim_space alert_id = [] then (Inr [], w)
      else case e_parse aenv alert_id of
        None \<Rightarrow> (Inl (ErrMsg ''invalid UUID''), w)
      | Some i \<Rightarrow>
          (case db_first aenv (row_get as_alert_id (Some i) (w_states w)) w of
             (Inl e, w1) \<Rightarrow> (Inl e, w1)
           | (Inr st, w1) \<Rightarrow> (Inr (as_fingerprint st), w1)))"

text \<open>\<open>orgIDForAlert\<close>: the organisation a button acts in, if there is one.\<close>

definition org_id_for_alert :: "alert_env \<Rightarrow> string \<Rightarrow> world \<Rightarrow> uuid option \<times> world" where
  "org_id_for_alert aenv data w =
     (case parse_callback_data (trim_space data) of
        (action, alert_id, _) \<Rightarrow>
          if action = [] \<or> alert_id = [] then (None, w)
          else case e_parse aenv alert_id of
            None \<Rightarrow> (None, w)
          | Some i \<Rightarrow>
              (case db_first aenv (row_get as_alert_id (Some i) (w_states w)) w of
                 (Inl e, w1) \<Rightarrow> (None, w1)
               | (Inr st, w1) \<Rightarrow>
                   (case as_node_id st of
                      Some n \<Rightarrow> node_org aenv (Some n) w1
                    | None \<Rightarrow>
                        or_else (or_else (or_else
                          (if_some (as_service_id st) (org_of_service aenv) w1)
                          (if_some (as_bot_id st) (org_of_bot aenv)))
                          (if_some (as_incident_id st) (\<lambda>u. org_of_incident aenv (\<lambda>r. in_id r = u))))
                          (\<lambda>v. if trim_space (as_fingerprint st) = [] then (None, v)
                               else org_of_incident aenv (\<lambda>r. in_fingerprint r = as_fingerprint st) v))))"

text \<open>What a body that can be read holds of the press of a button: its id, its data and the chat of its message.\<close>

record button_press =
  bp_callback_id :: string
  bp_data :: string
  bp_chat :: "int option"

definition press_chat :: "button_press \<Rightarrow> string" where
  "press_chat p = (case bp_chat p of None \<Rightarrow> [] | Some i \<Rightarrow> if i \<noteq> 0 then itoa i else [])"

definition hook_done :: "ctx \<Rightarrow> ctx" where
  "hook_done c = respond_status 200 (AHook True) c"

text \<open>The settings and the token of the organisation an alert belongs to; \<open>None\<close> ends the request.\<close>

definition press_settings ::
    "desk_env \<Rightarrow> button_press \<Rightarrow> desk \<Rightarrow> (uuid \<times> telegram_row \<times> string) option \<times> desk" where
  "press_settings ev p d =
     (case on_alerts ev (\<lambda>aenv. org_id_for_alert aenv (bp_data p)) d of
        (None, d1) \<Rightarrow> (None, d1)
      | (Some org, d1) \<Rightarrow>
          (case on_alerts ev (\<lambda>aenv. get_telegram_row aenv org) d1 of
             (Inl e, d2) \<Rightarrow> (None, d2)
           | (Inr row, d2) \<Rightarrow>
               if trim_space (tr_bot_token_enc row) = [] then (None, d2)
               else case decrypt_string (we_gcm (dv_web ev)) (we_key (dv_web ev)) (trim_space (tr_bot_token_enc row)) of
                      Inl e \<Rightarrow> (None, d2)
                    | Inr token \<Rightarrow>
                        if trim_space token = [] then (None, d2) else (Some (org, row, trim_space token), d2)))"

definition retry_press :: "desk_env \<Rightarrow> alert_svc \<Rightarrow> string \<Rightarrow> string \<Rightarrow> string \<Rightarrow> desk \<Rightarrow> string \<times> desk" where
  "retry_press ev svc token chat alert_id d =
     (case on_alerts ev (\<lambda>aenv. lookup_fingerprint_by_alert_id aenv alert_id) d of
        (found, d1) \<Rightarrow>
          let fp = (case found of Inl e \<Rightarrow> alert_id | Inr s \<Rightarrow> if s \<noteq> [] then s else alert_id)
          in case run_retry ev fp d1 of
               (Inl (status, msg), d2) \<Rightarrow>
                 (''Retry failed'',
                  snd (on_alerts ev (\<lambda>aenv. send_message svc aenv token chat (''Retry failed: '' @ msg)) d2))
             | (Inr r, d2) \<Rightarrow>
                 (''Retry completed'',
                  snd (on_alerts ev (\<lambda>aenv. send_message svc aenv token chat (retry_status_message r)) d2)))"

definition act_press :: "desk_env \<Rightarrow> alert_svc \<Rightarrow> string \<Rightarrow> string \<Rightarrow> string \<Rightarrow> desk \<Rightarrow> string \<times> desk" where
  "act_press ev svc token chat data d =
     (case parse_callback_data data of
        (action, alert_id, _) \<Rightarrow>
          if action = ''retry'' \<and> alert_id \<noteq> [] then retry_press ev svc token chat alert_id d
          else case on_alerts ev (\<lambda>aenv. handle_callback svc aenv data) d of
            ((msg, _), d1) \<Rightarrow>
              (msg, if action = ''ack''
                    then snd (on_alerts ev (\<lambda>aenv. send_message svc aenv token chat ''Alert acknowledged'') d1)
                    else d1))"

definition telegram_webhook :: "desk_env \<Rightarrow> request \<Rightarrow> string + button_press option \<Rightarrow> desk handler" where
  "telegram_webhook ev rq body c d =
     (case (dv_alerts ev, body) of
        (Some svc, Inr (Some p)) \<Rightarrow>
          (case press_settings ev p d of
             (None, d1) \<Rightarrow> (hook_done c, d1)
           | (Some (org, row, token), d1) \<Rightarrow>
               if \<not> telegram_webhook_authorized ev rq (telegram_webhook_secret_for ev org token)
               then (respond_status 401 (AHook False) c, d1)
               else if \<not> telegram_chat_allowed (press_chat p) (tr_admin_chat_id row)
               then (hook_done c,
                     snd (on_alerts ev (\<lambda>aenv. answer_callback svc aenv token (bp_callback_id p) ''forbidden'') d1))
               else case act_press ev svc token (press_chat p) (trim_space (bp_data p)) d1 of
                      (msg, d2) \<Rightarrow>
                        (hook_done c,
                         snd (on_alerts ev (\<lambda>aenv. answer_callback svc aenv token (bp_callback_id p) msg) d2)))
      | _ \<Rightarrow> (hook_done c, d))"

end
