(* ===== verification/Desk_Frames.thy ===== *)
theory Desk_Frames
  imports Alert_Desk Access_Properties Alert_Examples
begin

text \<open>
  What the parts of the desk handlers leave alone, and which organisation an alert is of.
\<close>

section \<open>What the parts leave alone\<close>

text \<open>Everything of the alert service and the check worker but the targets, and the calls that register webhooks.\<close>

definition alerts_of ::
    "desk \<Rightarrow> (alert_state list \<times> incident list \<times> telegram_row list \<times> (string \<Rightarrow> instant option) \<times> tg_call list) \<times>
       (check_result list \<times> node_check list \<times> node_metric list \<times> probe list) \<times> (string \<times> string \<times> string) list" where
  "alerts_of d =
     (let k = dk_cw d; w = cw_world k
      in ((w_states w, w_incidents w, w_settings w, w_muted w, w_outbox w),
          (cw_results k, cw_node_checks k, cw_metrics k, cw_probes k), dk_hooks d))"

definition targets_of :: "desk \<Rightarrow> service list \<times> bot list" where
  "targets_of d = (w_services (cw_world (dk_cw d)), w_bots (cw_world (dk_cw d)))"

text \<open>The two copies of a table hold the same rows.\<close>

definition linked :: "desk \<Rightarrow> bool" where
  "linked d \<longleftrightarrow>
     wb_nodes (dk_web d) = w_nodes (cw_world (dk_cw d)) \<and> wb_services (dk_web d) = w_services (cw_world (dk_cw d)) \<and>
     wb_bots (dk_web d) = w_bots (cw_world (dk_cw d)) \<and> wb_checks (dk_web d) = cw_checks (dk_cw d)"

lemma on_webD:
  assumes "on_web m d = (r, d1)"
  shows "fst (m (dk_web d)) = r" "dk_web d1 = snd (m (dk_web d))" "alerts_of d1 = alerts_of d" "linked d1"
  using assms by (auto simp: on_web_def alerts_of_def linked_def on_world_def Let_def split: prod.splits)

lemma on_cw_linked: "on_cw m d = (r, d1) \<Longrightarrow> linked d1"
  by (auto simp: on_cw_def linked_def split: prod.splits)

lemma on_alerts_linked: "on_alerts ev m d = (r, d1) \<Longrightarrow> linked d1"
  by (simp add: on_alerts_def on_cw_linked)

abbreviation now_env :: "desk_env \<Rightarrow> desk \<Rightarrow> alert_env" where
  "now_env ev d \<equiv> env_at (dv_chk ev) (dk_cw d)"

abbreviation rows_of :: "desk \<Rightarrow> world" where
  "rows_of d \<equiv> cw_world (dk_cw d)"

lemma on_alertsD:
  assumes "on_alerts ev m d = (r, d1)"
  shows "m (now_env ev d) (rows_of d) = (r, rows_of d1)" "dk_hooks d1 = dk_hooks d"
    "cw_results (dk_cw d1) = cw_results (dk_cw d)" "cw_node_checks (dk_cw d1) = cw_node_checks (dk_cw d)"
    "cw_metrics (dk_cw d1) = cw_metrics (dk_cw d)" "cw_probes (dk_cw d1) = cw_probes (dk_cw d)"
    "cw_checks (dk_cw d1) = cw_checks (dk_cw d)"
    "dk_web d1 = (dk_web d)\<lparr>wb_nodes := w_nodes (rows_of d1), wb_services := w_services (rows_of d1),
       wb_bots := w_bots (rows_of d1), wb_checks := cw_checks (dk_cw d)\<rparr>"
  using assms by (auto simp: on_alerts_def on_cw_def split: prod.splits)

text \<open>An operation that only reads changes no table.\<close>

definition reads :: "(alert_env \<Rightarrow> world \<Rightarrow> 'a \<times> world) \<Rightarrow> bool" where
  "reads m \<longleftrightarrow> (\<forall>aenv w. same_data w (snd (m aenv w)))"

lemma readsD: "reads m \<Longrightarrow> m aenv w = (r, v) \<Longrightarrow> same_data w v"
  unfolding reads_def by (metis snd_conv)

lemma on_alerts_reads:
  assumes "on_alerts ev m d = (r, d1)" and "reads m"
  shows "alerts_of d1 = alerts_of d" "targets_of d1 = targets_of d" "same_data (rows_of d) (rows_of d1)"
    "linked d \<Longrightarrow> dk_web d1 = dk_web d"
proof -
  note f = on_alertsD [OF assms(1)]
  show s: "same_data (rows_of d) (rows_of d1)" by (rule readsD [OF assms(2) f(1)])
  show "alerts_of d1 = alerts_of d" using s f by (simp add: alerts_of_def same_data_def Let_def)
  show "targets_of d1 = targets_of d" using s by (simp add: targets_of_def same_data_def)
  show "linked d \<Longrightarrow> dk_web d1 = dk_web d" using s f(8) by (simp add: linked_def same_data_def)
qed

lemma reads_first: "reads (\<lambda>aenv w. db_first aenv (q w) w)"
  by (simp add: reads_def)

lemma reads_telegram: "reads (\<lambda>aenv. get_telegram_row aenv org)"
  by (simp add: reads_def get_telegram_row_def)

lemma reads_find: "reads (\<lambda>aenv. find_alert aenv fp)"
  by (simp add: reads_def find_alert_def)

lemma reads_query: "reads (\<lambda>aenv. tab_query aenv q)"
  by (simp add: reads_def tab_query_def)

lemma reads_lookup: "reads (\<lambda>aenv. lookup_fingerprint_by_alert_id aenv i)"
  by (auto simp: reads_def lookup_fingerprint_by_alert_id_def db_first_def split: option.splits)

lemma org_lookups_same:
  "same_data w (snd (org_of_service aenv u w))" "same_data w (snd (org_of_bot aenv u w))"
  "same_data w (snd (org_of_incident aenv p w))"
  by (auto simp: org_of_service_def org_of_bot_def org_of_incident_def split: prod.splits sum.splits option.splits
      dest!: db_first_same intro: same_data_trans node_org_same)

lemma if_lookups_same:
  "(\<And>v u. same_data v (snd (f u v))) \<Longrightarrow> same_data w (snd (if_some x f w))"
  "(\<And>v u. same_data v (snd (f u v))) \<Longrightarrow> same_data w (snd (if_set x f w))"
  by (auto simp: if_some_def if_set_def split: option.splits)

lemmas lookups_same = or_else_same if_lookups_same org_lookups_same node_org_same

lemma reads_state_org: "reads (\<lambda>aenv. org_id_for_alert_state aenv st)"
  unfolding reads_def org_id_for_alert_state_def Let_def by (auto intro!: lookups_same)

lemma reads_incident_org: "reads (\<lambda>aenv. org_id_for_incident aenv i)"
  unfolding reads_def org_id_for_incident_def by (auto intro!: lookups_same)

lemma reads_policy: "reads (\<lambda>aenv. alert_policy_for_org aenv org)"
  by (auto simp: reads_def alert_policy_for_org_def split: prod.splits sum.splits dest: readsD [OF reads_telegram])

lemma reads_alert_org: "reads (\<lambda>aenv. org_id_for_alert aenv data)"
proof -
  have "same_data w (snd (org_id_for_alert aenv data w))" for aenv w
    unfolding org_id_for_alert_def
    by (auto split: prod.splits option.splits sum.splits dest!: db_first_same
        intro!: lookups_same intro: same_data_trans)
  then show ?thesis by (simp add: reads_def)
qed

lemma reads_mute_default: "reads (\<lambda>aenv. mute_default aenv st secs)"
  unfolding reads_def mute_default_def
  by (auto split: prod.splits dest: readsD [OF reads_state_org] readsD [OF reads_policy] intro: same_data_trans)

lemma reads_target: "reads (\<lambda>aenv. target_allowed aenv ids org nd svc bt)"
  by (auto simp: reads_def target_allowed_def db_first_def split: option.splits)

lemma reads_allowed: "reads (\<lambda>aenv. alert_allowed aenv ids org st)" "reads (\<lambda>aenv. incident_allowed aenv ids org i)"
  using reads_target by (simp_all add: reads_def alert_allowed_def incident_allowed_def)

lemma may_touch_same:
  assumes "may_touch ev rq c chk d = (b, d1)" and "\<And>ids org. reads (\<lambda>aenv. chk aenv ids org)"
  shows "alerts_of d1 = alerts_of d"
  using assms(1) on_alerts_reads(1) [OF _ assms(2)] on_webD(3)
  by (fastforce simp: may_touch_def split: prod.splits sum.splits)

section \<open>Buttons\<close>

text \<open>The organisations an alert is of: through its node, or else its service, its bot or its incident.\<close>

definition node_of_org :: "world \<Rightarrow> uuid \<Rightarrow> uuid \<Rightarrow> bool" where
  "node_of_org v n org \<longleftrightarrow> (\<exists>x \<in> set (w_nodes v). n_id x = n \<and> n_org_id x = Some org)"

definition service_of_org :: "world \<Rightarrow> uuid \<Rightarrow> uuid \<Rightarrow> bool" where
  "service_of_org v s org \<longleftrightarrow>
     (\<exists>x \<in> set (w_services v). sv_id x = s \<and>
        (sv_org_id x = org \<or> sv_org_id x = uuid_nil \<and> (\<exists>n. sv_node_id x = Some n \<and> node_of_org v n org)))"

definition bot_of_org :: "world \<Rightarrow> uuid \<Rightarrow> uuid \<Rightarrow> bool" where
  "bot_of_org v b org \<longleftrightarrow> (\<exists>x \<in> set (w_bots v). b_id x = b \<and> node_of_org v (b_node_id x) org)"

definition incident_of_org :: "world \<Rightarrow> (incident \<Rightarrow> bool) \<Rightarrow> uuid \<Rightarrow> bool" where
  "incident_of_org v p org \<longleftrightarrow> (\<exists>x \<in> set (w_incidents v). p x \<and> in_org_id x = Some org)"

definition alert_of_org :: "world \<Rightarrow> alert_state \<Rightarrow> uuid \<Rightarrow> bool" where
  "alert_of_org v st org \<longleftrightarrow>
     (case as_node_id st of
        Some n \<Rightarrow> node_of_org v n org
      | None \<Rightarrow>
          (\<exists>s. as_service_id st = Some s \<and> service_of_org v s org) \<or>
          (\<exists>b. as_bot_id st = Some b \<and> bot_of_org v b org) \<or>
          incident_of_org v (\<lambda>i. as_incident_id st = Some (in_id i) \<or> in_fingerprint i = as_fingerprint st) org)"

lemma row_get_mem: "row_get key k rows = Some r \<Longrightarrow> r \<in> set rows \<and> key r = k"
  by (auto simp: row_get_def find_Some_iff)

lemma find_mem: "find p rows = Some r \<Longrightarrow> r \<in> set rows \<and> p r"
  by (auto simp: find_Some_iff)

lemma node_orgD: "node_org aenv (Some n) v = (Some org, v') \<Longrightarrow> node_of_org v n org"
  by (auto simp: node_org_def node_of_org_def split: prod.splits sum.splits dest!: db_firstD row_get_mem)

lemma org_of_serviceD: "org_of_service aenv s v = (Some org, v') \<Longrightarrow> service_of_org v s org"
  unfolding org_of_service_def service_of_org_def
  by (auto split: prod.splits sum.splits option.splits if_splits dest!: db_firstD row_get_mem node_orgD simp: node_of_org_def)

lemma org_of_botD: "org_of_bot aenv b v = (Some org, v') \<Longrightarrow> bot_of_org v b org"
  unfolding org_of_bot_def bot_of_org_def
  by (auto split: prod.splits sum.splits option.splits dest!: db_firstD row_get_mem node_orgD simp: node_of_org_def)

lemma org_of_incidentD: "org_of_incident aenv p v = (Some org, v') \<Longrightarrow> incident_of_org v p org"
  unfolding org_of_incident_def incident_of_org_def
  by (auto split: prod.splits sum.splits option.splits dest!: db_firstD find_mem)

lemma or_elseD:
  assumes "or_else r f = (Some u, w)"
  obtains "r = (Some u, w)" | v where "r = (None, v)" "f v = (Some u, w)"
  using assms by (auto simp: or_else_def split: prod.splits option.splits)

lemma same_data_of_org:
  "same_data w v \<Longrightarrow> node_of_org v = node_of_org w \<and> service_of_org v = service_of_org w \<and>
     bot_of_org v = bot_of_org w \<and> incident_of_org v = incident_of_org w"
  by (auto simp: same_data_def node_of_org_def service_of_org_def bot_of_org_def incident_of_org_def fun_eq_iff)

lemma lookup_chainD:
  assumes run: "or_else (or_else (or_else (if_some s (org_of_service aenv) w) (if_some b (org_of_bot aenv)))
      (if_some i (\<lambda>u. org_of_incident aenv (\<lambda>r. in_id r = u)))) (\<lambda>v. if blank then (None, v) else org_of_incident aenv q v)
      = (Some org, w')"
  shows "(\<exists>u. s = Some u \<and> service_of_org w u org) \<or> (\<exists>u. b = Some u \<and> bot_of_org w u org) \<or>
    incident_of_org w (\<lambda>r. i = Some (in_id r) \<or> q r) org"
proof -
  have inc: "incident_of_org v (\<lambda>r. i = Some (in_id r) \<or> q r) org"
    if "incident_of_org v (\<lambda>r. in_id r = u) org \<and> i = Some u \<or> incident_of_org v q org" for u v
    using that by (auto simp: incident_of_org_def)
  have stay: "incident_of_org w p org" if "incident_of_org v p org" "same_data w v" for v p
    using that same_data_of_org by metis
  have first: "same_data w (snd (if_some s (org_of_service aenv) w))" by (rule if_lookups_same) (rule lookups_same)
  have second: "same_data w (snd (or_else (if_some s (org_of_service aenv) w) (if_some b (org_of_bot aenv))))"
    by (intro lookups_same)
  have third: "same_data w (snd (or_else (or_else (if_some s (org_of_service aenv) w) (if_some b (org_of_bot aenv)))
      (if_some i (\<lambda>u. org_of_incident aenv (\<lambda>r. in_id r = u)))))"
    by (intro lookups_same)
  from run show ?thesis
  proof (elim or_elseD)
    assume "if_some s (org_of_service aenv) w = (Some org, w')"
    then show ?thesis by (auto simp: if_some_def split: option.splits dest: org_of_serviceD)
  next
    fix v assume "if_some s (org_of_service aenv) w = (None, v)" "if_some b (org_of_bot aenv) v = (Some org, w')"
    then show ?thesis using first same_data_of_org [of w v]
      by (auto simp: if_some_def split: option.splits dest: org_of_botD)
  next
    fix v assume v: "or_else (if_some s (org_of_service aenv) w) (if_some b (org_of_bot aenv)) = (None, v)"
      "if_some i (\<lambda>u. org_of_incident aenv (\<lambda>r. in_id r = u)) v = (Some org, w')"
    then obtain u where "i = Some u" "incident_of_org v (\<lambda>r. in_id r = u) org"
      by (auto simp: if_some_def split: option.splits dest: org_of_incidentD)
    with stay [OF inc] second v(1) show ?thesis by auto
  next
    fix v assume v: "or_else (or_else (if_some s (org_of_service aenv) w) (if_some b (org_of_bot aenv)))
        (if_some i (\<lambda>u. org_of_incident aenv (\<lambda>r. in_id r = u))) = (None, v)"
      "(if blank then (None, v) else org_of_incident aenv q v) = (Some org, w')"
    then have "incident_of_org v q org" by (auto split: if_splits dest: org_of_incidentD)
    with stay [OF inc] third v(1) show ?thesis by auto
  qed
qed

text \<open>A button that is acted upon names an alert of the organisation.\<close>

lemma org_id_for_alertD:
  assumes "org_id_for_alert aenv data w = (Some org, w1)"
  shows "\<exists>st i. st \<in> set (w_states w) \<and> as_alert_id st = Some i \<and>
    e_parse aenv (fst (snd (parse_callback_data (trim_space data)))) = Some i \<and> alert_of_org w st org"
proof -
  obtain action aid n where p: "parse_callback_data (trim_space data) = (action, aid, n)" by (cases "parse_callback_data (trim_space data)")
  from assms p obtain i where i: "e_parse aenv aid = Some i" "action \<noteq> []" "aid \<noteq> []"
    by (auto simp: org_id_for_alert_def split: if_splits option.splits)
  obtain x v where x: "db_first aenv (row_get as_alert_id (Some i) (w_states w)) w = (x, v)" by fastforce
  from assms p i x obtain st where st: "x = Inr st"
    by (cases x) (auto simp: org_id_for_alert_def)
  have mem: "st \<in> set (w_states w)" "as_alert_id st = Some i"
    using db_firstD [OF x] st by (auto dest: row_get_mem)
  have same: "same_data w v" using db_firstD [OF x] by simp
  note chain = lookup_chainD [where q = "\<lambda>r. in_fingerprint r = as_fingerprint st" and blank = "trim_space (as_fingerprint st) = []"
      and w = v and s = "as_service_id st" and b = "as_bot_id st" and i = "as_incident_id st"]
  have "alert_of_org v st org"
    using assms p i x st
    by (auto simp: org_id_for_alert_def alert_of_org_def split: option.splits dest: node_orgD chain)
  then have "alert_of_org w st org"
    using same_data_of_org [OF same] unfolding alert_of_org_def by (cases "as_node_id st") simp_all
  with mem p i show ?thesis by auto
qed

end
