(* ===== verification/Desk_Properties.thy ===== *)
theory Desk_Properties
  imports Desk_Frames
begin

text \<open>
  What holds of the handlers of alerts, incidents and Telegram settings: who can act on an alert, in the panel and
  from Telegram, what the lists show, and what a save of the settings leaves.
\<close>

section \<open>Buttons\<close>

lemma trim_itoa [simp]: "trim_space (itoa n) = itoa n"
proof (rule trim_space_plain)
  have "list_all (\<lambda>c. c \<in> set plain_chars) ''-0123456789''" by code_simp
  then have "set ''0123456789'' \<subseteq> set plain_chars" "CHR ''-'' \<in> set plain_chars" by (simp_all add: list_all_iff)
  then have "set (nat_text k) \<subseteq> set plain_chars" "CHR ''-'' \<in> set plain_chars" for k
    using subset_trans [OF set_nat_text] by blast+
  then have "set (itoa n) \<subseteq> set plain_chars" by (simp add: itoa_def)
  moreover have "itoa n \<noteq> []" by (simp add: itoa_def)
  ultimately show "itoa n \<noteq> []" "hd (itoa n) \<in> set plain_chars" "last (itoa n) \<in> set plain_chars"
    using hd_in_set [of "itoa n"] last_in_set [of "itoa n"] by blast+
qed

lemma newest_mem: "Alert_Store.newest rows = Some r \<Longrightarrow> r \<in> set rows"
  by (induction rows arbitrary: r) (auto split: option.splits if_splits)

lemma get_telegram_rowD:
  "get_telegram_row aenv org w = (Inr r, w1) \<Longrightarrow> r \<in> set (w_settings w) \<and> tr_org_id r = Some org"
  by (auto simp: get_telegram_row_def dest!: db_firstD newest_mem)

text \<open>The press names an alert of the organisation, whose settings and token these are.\<close>

definition press_of :: "desk_env \<Rightarrow> desk \<Rightarrow> button_press \<Rightarrow> uuid \<Rightarrow> telegram_row \<Rightarrow> string \<Rightarrow> bool" where
  "press_of ev d p org row token \<longleftrightarrow>
     (\<exists>st i. st \<in> set (w_states (rows_of d)) \<and> as_alert_id st = Some i \<and>
        e_parse (ce_alert (dv_chk ev)) (fst (snd (parse_callback_data (trim_space (bp_data p))))) = Some i \<and>
        alert_of_org (rows_of d) st org) \<and>
     row \<in> set (w_settings (rows_of d)) \<and> tr_org_id row = Some org \<and> token \<noteq> [] \<and>
     (\<exists>raw. decrypt_string (we_gcm (dv_web ev)) (we_key (dv_web ev)) (trim_space (tr_bot_token_enc row)) = Inr raw \<and>
        token = trim_space raw)"

lemma press_settingsD:
  assumes "press_settings ev p d = (r, d1)"
  shows "alerts_of d1 = alerts_of d" "r = Some (org, row, token) \<Longrightarrow> press_of ev d p org row token"
proof -
  obtain x v where x: "on_alerts ev (\<lambda>aenv. org_id_for_alert aenv (bp_data p)) d = (x, v)" by fastforce
  note fx = on_alerts_reads [OF x reads_alert_org] on_alertsD(1) [OF x]
  have "alerts_of d1 = alerts_of d \<and> (r = Some (org, row, token) \<longrightarrow> press_of ev d p org row token)"
  proof (cases x)
    case None
    with x assms fx(1) show ?thesis by (simp add: press_settings_def)
  next
    case (Some g)
    obtain y u where y: "on_alerts ev (\<lambda>aenv. get_telegram_row aenv g) v = (y, u)" by fastforce
    note fy = on_alerts_reads [OF y reads_telegram] on_alertsD(1) [OF y]
    have d1: "d1 = u" using assms x y Some by (auto simp: press_settings_def split: sum.splits if_splits)
    have "press_of ev d p org row token" if r: "r = Some (org, row, token)"
    proof -
      have y': "y = Inr row" "g = org" "token \<noteq> []"
        and raw: "\<exists>raw. decrypt_string (we_gcm (dv_web ev)) (we_key (dv_web ev)) (trim_space (tr_bot_token_enc row)) = Inr raw \<and>
          token = trim_space raw"
        using assms x y Some r by (auto simp: press_settings_def split: sum.splits if_splits)
      have "row \<in> set (w_settings (rows_of v)) \<and> tr_org_id row = Some org"
        using get_telegram_rowD fy(5) y' by metis
      moreover have "w_settings (rows_of v) = w_settings (rows_of d)" using fx(3) by (simp add: same_data_def)
      ultimately show ?thesis
        using org_id_for_alertD [of "now_env ev d" "bp_data p" "rows_of d" org "rows_of v"] fx(5) Some y' raw
        unfolding press_of_def by (auto simp: env_at_def)
    qed
    then show ?thesis using fx(1) fy(1) d1 by simp
  qed
  then show "alerts_of d1 = alerts_of d" "r = Some (org, row, token) \<Longrightarrow> press_of ev d p org row token" by blast+
qed

definition with_call :: "tg_call \<Rightarrow> desk \<Rightarrow> desk" where
  "with_call call d = d\<lparr>dk_cw := on_world (\<lambda>w. w\<lparr>w_outbox := w_outbox w @ [call]\<rparr>) (dk_cw d)\<rparr>"

lemma alerts_of_call: "alerts_of d = alerts_of e \<Longrightarrow> alerts_of (with_call call d) = alerts_of (with_call call e)"
  by (simp add: alerts_of_def with_call_def on_world_def Let_def)

lemma answer_callback_alerts:
  "alerts_of (snd (on_alerts ev (\<lambda>aenv. answer_callback svc aenv token i text) d)) \<in>
     {alerts_of d, alerts_of (with_call (TgAnswer token i text) d)}"
  by (auto simp: on_alerts_def on_cw_def answer_callback_def tg_do_def alerts_of_def with_call_def on_world_def Let_def
      split: sum.splits)

definition secret_given :: "desk_env \<Rightarrow> request \<Rightarrow> uuid \<Rightarrow> string \<Rightarrow> bool" where
  "secret_given ev rq org token \<longleftrightarrow>
     (let header = trim_space (rq_header rq ''X-Telegram-Bot-Api-Secret-Token'')
      in header \<noteq> [] \<and> header \<in> {trim_space (telegram_webhook_secret_for ev org token), trim_space (dv_legacy_secret ev)})"

text \<open>C9: Whatever reaches the webhook, the alerts, incidents, mutes, settings, check results and probes stay as they
  are and nothing is sent, unless the press names an alert that is stored, of an organisation whose settings hold a
  token, and carries the secret made from that organisation and token, or the configured one. And unless the button
  was pressed in one of the admin chats of that organisation, all that happens then is the answer "forbidden".\<close>

theorem buttons_need_secret_and_chat:
  "case telegram_webhook ev rq body c d of
     (c1, d1) \<Rightarrow>
       alerts_of d1 = alerts_of d \<or>
       (\<exists>p org row token. body = Inr (Some p) \<and> press_of ev d p org row token \<and> secret_given ev rq org token \<and>
          (press_chat p \<in> set (http_split_chat_ids (tr_admin_chat_id row)) \<or>
           alerts_of d1 = alerts_of (with_call (TgAnswer token (bp_callback_id p) ''forbidden'') d)))"
proof (cases "\<exists>svc p. dv_alerts ev = Some svc \<and> body = Inr (Some p)")
  case False
  then show ?thesis by (auto simp: telegram_webhook_def split: option.splits sum.splits)
next
  case True
  then obtain svc p where b: "dv_alerts ev = Some svc" "body = Inr (Some p)" by blast
  obtain r v where r: "press_settings ev p d = (r, v)" by fastforce
  note f = press_settingsD [OF r]
  show ?thesis
  proof (cases r)
    case None
    with b r f(1) show ?thesis by (simp add: telegram_webhook_def)
  next
    case (Some s)
    obtain org row token where s: "s = (org, row, token)" by (cases s)
    have of_press: "press_of ev d p org row token" using f(2) Some s by simp
    consider (bad) "\<not> telegram_webhook_authorized ev rq (telegram_webhook_secret_for ev org token)"
      | (chat) "telegram_webhook_authorized ev rq (telegram_webhook_secret_for ev org token)"
          "\<not> telegram_chat_allowed (press_chat p) (tr_admin_chat_id row)"
      | (ok) "telegram_webhook_authorized ev rq (telegram_webhook_secret_for ev org token)"
          "telegram_chat_allowed (press_chat p) (tr_admin_chat_id row)" by blast
    then show ?thesis
    proof cases
      case bad
      with b r Some s f(1) show ?thesis by (simp add: telegram_webhook_def)
    next
      case chat
      have "secret_given ev rq org token" using chat(1) by (auto simp: telegram_webhook_authorized_def secret_given_def Let_def)
      with b r Some s f(1) chat of_press
        answer_callback_alerts [of ev svc token "bp_callback_id p" "''forbidden''" v] alerts_of_call [OF f(1)]
      show ?thesis by (auto simp: telegram_webhook_def)
    next
      case ok
      have "secret_given ev rq org token" using ok(1) by (auto simp: telegram_webhook_authorized_def secret_given_def Let_def)
      moreover have "press_chat p \<in> set (http_split_chat_ids (tr_admin_chat_id row))"
        using ok(2) by (auto simp: telegram_chat_allowed_def press_chat_def http_split_chat_ids_def Let_def list_ex_iff
            split: option.splits if_splits)
      ultimately show ?thesis using b of_press by (auto split: prod.splits)
    qed
  qed
qed

section \<open>What a request reaches\<close>

text \<open>A node of an organisation the acting user is a member of, of the organisation asked for when there is one; and
  that organisation itself.\<close>

definition reached_node :: "web_env \<Rightarrow> request \<Rightarrow> ctx \<Rightarrow> web \<Rightarrow> uuid \<Rightarrow> bool" where
  "reached_node env rq c w n \<longleftrightarrow>
     (\<exists>sc. scope_of env rq c w sc \<and> (\<exists>x \<in> set (wb_nodes w). n_id x = n \<and> node_in_scope w sc x))"

definition reached_org :: "web_env \<Rightarrow> request \<Rightarrow> ctx \<Rightarrow> web \<Rightarrow> uuid \<Rightarrow> bool" where
  "reached_org env rq c w g \<longleftrightarrow> (\<exists>sc. scope_of env rq c w sc \<and> snd sc = Some g)"

definition reached ::
    "web_env \<Rightarrow> request \<Rightarrow> ctx \<Rightarrow> web \<Rightarrow> uuid option \<Rightarrow> uuid option \<Rightarrow> uuid option \<Rightarrow> bool" where
  "reached env rq c w nd svc bt \<longleftrightarrow>
     (case nd of
        Some n \<Rightarrow> reached_node env rq c w n
      | None \<Rightarrow>
          (case svc of
             Some s \<Rightarrow>
               (\<exists>x \<in> set (wb_services w). sv_id x = s \<and>
                  ((\<exists>n. sv_node_id x = Some n \<and> reached_node env rq c w n) \<or> reached_org env rq c w (sv_org_id x)))
           | None \<Rightarrow>
               (case bt of
                  Some b \<Rightarrow> (\<exists>x \<in> set (wb_bots w). b_id x = b \<and> reached_node env rq c w (b_node_id x))
                | None \<Rightarrow> False)))"

definition reached_alert :: "web_env \<Rightarrow> request \<Rightarrow> ctx \<Rightarrow> web \<Rightarrow> alert_state \<Rightarrow> bool" where
  "reached_alert env rq c w st = reached env rq c w (as_node_id st) (as_service_id st) (as_bot_id st)"

definition reached_incident :: "web_env \<Rightarrow> request \<Rightarrow> ctx \<Rightarrow> web \<Rightarrow> incident \<Rightarrow> bool" where
  "reached_incident env rq c w i = reached env rq c w (in_node_id i) (in_service_id i) (in_bot_id i)"

text \<open>Once the acting user has a row, to look it up again changes no table.\<close>

lemma actor_user_again:
  assumes "actor_user env c w = (r, w1)" and "u \<in> set (wb_users w)" and "same_username env (get_actor c) u"
  shows "only_counts w w1"
proof -
  obtain x v where x: "db_first_row env wb_users (same_username env (get_actor c)) w = (x, v)" by fastforce
  have v: "v = wb_tick w" using db_first_row_world [of env wb_users "same_username env (get_actor c)" w] x by simp
  have "x \<noteq> Inl ErrNotFound"
    using x assms(2,3) by (auto simp: db_first_row_def db_query_def find_None_iff split: option.splits if_splits)
  then have "w1 = v"
    using assms(1) x by (auto simp: actor_user_def get_actor_def Let_def split: sum.splits if_splits)
  then show ?thesis using v by (simp add: web)
qed

lemma actor_scope_again:
  assumes "actor_scope env rq c w = (r, w1)" and "scope_of env rq c w sc"
  shows "only_counts w w1"
proof -
  obtain u where u: "u \<in> set (wb_users w)" "same_username env (get_actor c) u"
    using assms(2) by (auto simp: scope_of_def)
  obtain x v where x: "actor_user env c w = (x, v)" by fastforce
  have v: "only_counts w v" by (rule actor_user_again [OF x u])
  show ?thesis
    using assms(1) x v org_id_facts(1) only_counts_intros(3)
    by (fastforce simp: actor_scope_def split: sum.splits prod.splits)
qed

lemma scope_counts:
  assumes "only_counts w w1"
  shows "scope_of env rq c w1 = scope_of env rq c w" "node_in_scope w1 = node_in_scope w" "wb_nodes w1 = wb_nodes w"
  using only_counts_tables [OF assms]
  by (auto simp: scope_of_def node_in_scope_def in_scope_def fun_eq_iff split: option.splits)

lemma desk_scopeD:
  assumes "desk_scope env rq c w = (Inr (ids, org), w1)"
  shows "\<forall>n \<in> set ids. reached_node env rq c w1 n" "org = Some g \<Longrightarrow> reached_org env rq c w1 g"
proof -
  obtain sc v where sc: "actor_scope env rq c w = (Inr sc, v)"
    and ids: "ids = map n_id (filter (node_in_scope v sc) (wb_nodes v))"
    and org: "\<exists>sc2. actor_scope env rq c (wb_tick v) = (Inr sc2, w1) \<and> org = snd sc2"
    using assms
    by (auto simp: desk_scope_def accessible_node_ids_def db_query_def split: sum.splits prod.splits if_splits)
  from org obtain sc2 where sc2: "actor_scope env rq c (wb_tick v) = (Inr sc2, w1)" "org = snd sc2" by blast
  have t: "only_counts v (wb_tick v)" by (simp add: web)
  have first: "scope_of env rq c v sc" by (rule actor_scope_of [OF sc])
  have "only_counts (wb_tick v) w1"
    by (rule actor_scope_again [OF sc2(1), of sc]) (simp add: scope_counts [OF t] first)
  note same = scope_counts [OF only_counts_intros(3) [OF t this]]
  show "\<forall>n \<in> set ids. reached_node env rq c w1 n"
    using first ids unfolding reached_node_def same by (intro ballI exI [of _ sc]) auto
  show "org = Some g \<Longrightarrow> reached_org env rq c w1 g"
    using actor_scope_of [OF sc2(1)] sc2(2) unfolding reached_org_def by (intro exI [of _ sc2]) simp
qed

lemma target_allowedD:
  assumes "target_allowed aenv ids org nd svc bt v = (True, v1)"
    and "\<forall>n \<in> set ids. reached_node env rq c w n" and "\<And>g. org = Some g \<Longrightarrow> reached_org env rq c w g"
    and "w_services v = wb_services w" and "w_bots v = wb_bots w"
  shows "reached env rq c w nd svc bt"
  using assms(1)
  by (auto simp: target_allowed_def reached_def assms(2-5) split: option.splits sum.splits prod.splits if_splits
      dest!: db_firstD row_get_mem)

lemma may_touchD:
  assumes "may_touch ev rq c chk d = (b, d1)" and "linked d" and chk: "\<And>ids org. reads (\<lambda>aenv. chk aenv ids org)"
    and "\<And>aenv ids org v. fst (chk aenv ids org v) = fst (target_allowed aenv ids org nd svc bt v)"
  shows "alerts_of d1 = alerts_of d" "linked d1" "dk_web d1 = snd (desk_scope (dv_web ev) rq c (dk_web d))"
    "b \<Longrightarrow> reached (dv_web ev) rq c (dk_web d1) nd svc bt"
proof -
  obtain x v where x: "on_web (desk_scope (dv_web ev) rq c) d = (x, v)" by fastforce
  note fx = on_webD [OF x]
  have "alerts_of d1 = alerts_of d \<and> linked d1 \<and> dk_web d1 = snd (desk_scope (dv_web ev) rq c (dk_web d)) \<and>
    (b \<longrightarrow> reached (dv_web ev) rq c (dk_web d1) nd svc bt)"
  proof (cases x)
    case (Inl e)
    with assms(1) x fx show ?thesis by (auto simp: may_touch_def)
  next
    case (Inr y)
    obtain ids org where y: "y = (ids, org)" by (cases y)
    then have run: "on_alerts ev (\<lambda>aenv. chk aenv ids org) v = (b, d1)" using assms(1) x Inr by (simp add: may_touch_def)
    note fr = on_alerts_reads [OF run chk] on_alertsD(1) [OF run] on_alerts_linked [OF run]
    have web: "dk_web d1 = dk_web v" using fr(4) fx(4) by simp
    have sc: "desk_scope (dv_web ev) rq c (dk_web d) = (Inr (ids, org), dk_web v)"
      using fx(1,2) Inr y by (simp add: prod_eq_iff)
    have "reached (dv_web ev) rq c (dk_web v) nd svc bt" if b
    proof (rule target_allowedD)
      show "target_allowed (now_env ev v) ids org nd svc bt (rows_of v) =
          (True, snd (target_allowed (now_env ev v) ids org nd svc bt (rows_of v)))"
        using fr(5) that assms(4) by (metis fst_conv prod.collapse)
      show "\<forall>n \<in> set ids. reached_node (dv_web ev) rq c (dk_web v) n" by (rule desk_scopeD(1) [OF sc])
      show "reached_org (dv_web ev) rq c (dk_web v) g" if "org = Some g" for g by (rule desk_scopeD(2) [OF sc that])
      show "w_services (rows_of v) = wb_services (dk_web v)" "w_bots (rows_of v) = wb_bots (dk_web v)"
        using fx(4) by (simp_all add: linked_def)
    qed
    then show ?thesis using fr(1,6) fx(2,3) web by simp
  qed
  then show "alerts_of d1 = alerts_of d" "linked d1" "dk_web d1 = snd (desk_scope (dv_web ev) rq c (dk_web d))"
    "b \<Longrightarrow> reached (dv_web ev) rq c (dk_web d1) nd svc bt" by blast+
qed

text \<open>A handler left everything as it was, or acted on a stored alert, or incident, that the request reaches.\<close>

definition acted_on_alert :: "desk_env \<Rightarrow> request \<Rightarrow> ctx \<Rightarrow> desk \<Rightarrow> ctx \<times> desk \<Rightarrow> bool" where
  "acted_on_alert ev rq c d out \<longleftrightarrow>
     alerts_of (snd out) = alerts_of d \<or>
     (\<exists>st \<in> set (w_states (rows_of d)). as_fingerprint st = trim_space (rq_param rq ''fingerprint'') \<and>
        reached_alert (dv_web ev) rq c (snd (desk_scope (dv_web ev) rq c (dk_web d))) st)"

definition acted_on_incident :: "desk_env \<Rightarrow> request \<Rightarrow> ctx \<Rightarrow> desk \<Rightarrow> ctx \<times> desk \<Rightarrow> bool" where
  "acted_on_incident ev rq c d out \<longleftrightarrow>
     alerts_of (snd out) = alerts_of d \<or>
     (\<exists>i \<in> set (w_incidents (rows_of d)). we_parse (dv_web ev) (trim_space (rq_param rq ''id'')) = Some (in_id i) \<and>
        reached_incident (dv_web ev) rq c (snd (desk_scope (dv_web ev) rq c (dk_web d))) i)"

lemma find_alertD: "find_alert aenv fp w = (Inr st, w1) \<Longrightarrow> st \<in> set (w_states w) \<and> as_fingerprint st = fp"
  by (auto simp: find_alert_def dest!: db_firstD row_get_mem)

text \<open>The check both handlers of an alert make first.\<close>

lemma alert_checkD:
  assumes "on_alerts ev (\<lambda>aenv. find_alert aenv fp) d = (x, d1)" and "linked d" and "fp = trim_space (rq_param rq ''fingerprint'')"
  shows "alerts_of d1 = alerts_of d"
    "x = Inr st \<Longrightarrow> may_touch ev rq c (\<lambda>aenv ids org. alert_allowed aenv ids org st) d1 = (b, d2) \<Longrightarrow>
       alerts_of d2 = alerts_of d \<and> (b \<longrightarrow> acted_on_alert ev rq c d out)"
proof -
  note f = on_alerts_reads [OF assms(1) reads_find] on_alertsD(1) [OF assms(1)] on_alerts_linked [OF assms(1)]
  show "alerts_of d1 = alerts_of d" by (rule f(1))
  assume x: "x = Inr st" and m: "may_touch ev rq c (\<lambda>aenv ids org. alert_allowed aenv ids org st) d1 = (b, d2)"
  note g = may_touchD [OF m f(6) reads_allowed(1),
      of "as_node_id st" "as_service_id st" "as_bot_id st", unfolded alert_allowed_def, OF refl]
  show "alerts_of d2 = alerts_of d \<and> (b \<longrightarrow> acted_on_alert ev rq c d out)"
    using g find_alertD f(1,5) f(4) [OF assms(2)] x assms(3) unfolding acted_on_alert_def reached_alert_def by metis
qed

lemma mute_alert_acts: "linked d \<Longrightarrow> acted_on_alert ev rq c d (mute_alert ev rq body c d)"
proof -
  assume l: "linked d"
  define fp where "fp = trim_space (rq_param rq ''fingerprint'')"
  obtain x d1 where x: "on_alerts ev (\<lambda>aenv. find_alert aenv fp) d = (x, d1)" by fastforce
  note f = alert_checkD [OF x l fp_def]
  have stay: "acted_on_alert ev rq c d (c1, d')" if "alerts_of d' = alerts_of d" for c1 d'
    using that by (simp add: acted_on_alert_def)
  consider (early) "fp = [] \<or> (\<exists>c1. mute_seconds rq body c = Inl c1) \<or> dv_alerts ev = None"
    | (run) asked svc where "fp \<noteq> []" "mute_seconds rq body c = Inr asked" "dv_alerts ev = Some svc"
    by (cases "mute_seconds rq body c"; cases "dv_alerts ev") auto
  then show ?thesis
  proof cases
    case early
    then show ?thesis
      by (auto simp: mute_alert_def Let_def fp_def [symmetric] intro!: stay split: sum.splits option.splits)
  next
    case run
    show ?thesis
    proof (cases x)
      case (Inl e)
      with run x f(1) show ?thesis by (auto simp: mute_alert_def Let_def fp_def [symmetric] intro!: stay)
    next
      case (Inr st)
      obtain b d2 where m: "may_touch ev rq c (\<lambda>aenv ids org. alert_allowed aenv ids org st) d1 = (b, d2)" by fastforce
      show ?thesis
      proof (cases b)
        case True
        then show ?thesis using f(2) [OF Inr m] by blast
      next
        case False
        with run x m Inr f(2) [OF Inr m] show ?thesis
          by (auto simp: mute_alert_def Let_def fp_def [symmetric] intro!: stay)
      qed
    qed
  qed
qed

lemma retry_alert_acts: "linked d \<Longrightarrow> acted_on_alert ev rq c d (retry_alert ev rq c d)"
proof -
  assume l: "linked d"
  define fp where "fp = trim_space (rq_param rq ''fingerprint'')"
  obtain x d1 where x: "on_alerts ev (\<lambda>aenv. find_alert aenv fp) d = (x, d1)" by fastforce
  note f = alert_checkD [OF x l fp_def]
  have stay: "acted_on_alert ev rq c d (c1, d')" if "alerts_of d' = alerts_of d" for c1 d'
    using that by (simp add: acted_on_alert_def)
  show ?thesis
  proof (cases x)
    case (Inl e)
    with x f(1) show ?thesis by (auto simp: retry_alert_def Let_def fp_def [symmetric] intro!: stay)
  next
    case (Inr st)
    obtain b d2 where m: "may_touch ev rq c (\<lambda>aenv ids org. alert_allowed aenv ids org st) d1 = (b, d2)" by fastforce
    show ?thesis
    proof (cases b)
      case True
      then show ?thesis using f(2) [OF Inr m] by blast
    next
      case False
      with x m Inr f(2) [OF Inr m] show ?thesis
        by (auto simp: retry_alert_def Let_def fp_def [symmetric] intro!: stay)
    qed
  qed
qed

lemma ack_incident_acts: "linked d \<Longrightarrow> acted_on_incident ev rq c d (ack_incident ev rq c d)"
proof -
  assume l: "linked d"
  have stay: "acted_on_incident ev rq c d (c1, d')" if "alerts_of d' = alerts_of d" for c1 d'
    using that by (simp add: acted_on_incident_def)
  show ?thesis
  proof (cases "we_parse (dv_web ev) (trim_space (rq_param rq ''id''))")
    case None
    then show ?thesis by (simp add: ack_incident_def stay)
  next
    case (Some i)
    obtain x d1 where x: "on_alerts ev (\<lambda>aenv w. db_first aenv (row_get in_id i (w_incidents w)) w) d = (x, d1)" by fastforce
    note f = on_alerts_reads [OF x reads_first] on_alertsD(1) [OF x] on_alerts_linked [OF x]
    show ?thesis
    proof (cases x)
      case (Inl e)
      with x f(1) Some show ?thesis by (simp add: ack_incident_def stay)
    next
      case (Inr row)
      obtain b d2 where m: "may_touch ev rq c (\<lambda>aenv ids org. incident_allowed aenv ids org row) d1 = (b, d2)" by fastforce
      note g = may_touchD [OF m f(6) reads_allowed(2), of "in_node_id row" "in_service_id row" "in_bot_id row",
          unfolded incident_allowed_def, OF refl]
      have row: "row \<in> set (w_incidents (rows_of d))" "in_id row = i"
        using f(5) Inr by (auto dest!: db_firstD row_get_mem)
      show ?thesis
      proof (cases b)
        case True
        then show ?thesis
          using g(3,4) f(4) [OF l] row Some by (auto simp: acted_on_incident_def reached_incident_def)
      next
        case False
        with x m Inr Some g(1) f(1) show ?thesis by (simp add: ack_incident_def stay)
      qed
    qed
  qed
qed

text \<open>C10: Muting an alert, running its check again and acknowledging an incident leave the alerts, incidents, mutes,
  settings, check results and probes as they are and send nothing, unless the alert or incident is stored and its
  target is one the request reaches: a node, service or bot of an organisation the acting user is a member of.\<close>

theorem alert_actions_stay_in_scope:
  assumes "linked d"
  shows "acted_on_alert ev rq c d (mute_alert ev rq body c d) \<and> acted_on_alert ev rq c d (retry_alert ev rq c d) \<and>
    acted_on_incident ev rq c d (ack_incident ev rq c d)"
  using assms mute_alert_acts retry_alert_acts ack_incident_acts by blast

section \<open>Lists\<close>

text \<open>
  A check of rows that only reads the tables: what passes is \<open>ok\<close> in the tables \<open>base\<close>, and, unless the
  database fails, what is \<open>ok\<close> passes.
\<close>

locale row_check =
  fixes chk :: "'r \<Rightarrow> world \<Rightarrow> bool \<times> world"
    and base :: world
    and ok :: "'r \<Rightarrow> bool"
    and broken :: bool
  assumes only_reads: "same_data w (snd (chk r w))"
    and sound: "same_data base w \<Longrightarrow> fst (chk r w) \<Longrightarrow> ok r"
    and complete: "\<not> broken \<Longrightarrow> same_data base w \<Longrightarrow> ok r \<Longrightarrow> fst (chk r w)"
begin

lemma rows_same: "same_data w (snd (allowed_rows chk rs w))"
proof (induction rs arbitrary: w)
  case (Cons r rs)
  obtain b v where b: "chk r w = (b, v)" by fastforce
  have "same_data w v" using only_reads [of w r] b by simp
  then have "same_data w (snd (allowed_rows chk rs v))" using Cons.IH [of v] by (rule same_data_trans)
  then show ?case using b by (simp add: split_beta)
qed simp

lemma rows_subseq: "subseq (fst (allowed_rows chk rs w)) rs"
proof (induction rs arbitrary: w)
  case (Cons r rs)
  obtain b v where b: "chk r w = (b, v)" by fastforce
  then show ?case using Cons.IH [of v] by (auto split: prod.splits intro: list_emb_Cons)
qed simp

lemma rows_ok: "same_data base w \<Longrightarrow> list_all ok (fst (allowed_rows chk rs w))"
proof (induction rs arbitrary: w)
  case (Cons r rs)
  obtain b v where b: "chk r w = (b, v)" by fastforce
  have "same_data base v" using Cons.prems only_reads [of w r] b same_data_trans by simp
  then show ?case using Cons.IH [of v] sound [OF Cons.prems, of r] b by (auto split: prod.splits)
qed simp

lemma rows_exact: "\<not> broken \<Longrightarrow> same_data base w \<Longrightarrow> fst (allowed_rows chk rs w) = filter ok rs"
proof (induction rs arbitrary: w)
  case (Cons r rs)
  obtain b v where b: "chk r w = (b, v)" by fastforce
  have "same_data base v" using Cons.prems only_reads [of w r] b same_data_trans by simp
  moreover have "b = ok r" using sound [OF Cons.prems(2), of r] complete [OF Cons.prems, of r] b by auto
  ultimately show ?case using Cons.IH [of v] Cons.prems(1) b by (auto split: prod.splits)
qed simp

end

text \<open>The check of a target, on the tables alone.\<close>

definition target_in :: "world \<Rightarrow> uuid list \<Rightarrow> uuid option \<Rightarrow> uuid option \<Rightarrow> uuid option \<Rightarrow> uuid option \<Rightarrow> bool" where
  "target_in v ids org nd svc bt \<longleftrightarrow>
     (case nd of
        Some n \<Rightarrow> n \<in> set ids
      | None \<Rightarrow>
          (case svc of
             Some s \<Rightarrow>
               (case row_get sv_id s (w_services v) of
                  None \<Rightarrow> False
                | Some r \<Rightarrow> (\<exists>n. sv_node_id r = Some n \<and> n \<in> set ids) \<or> (sv_org_id r \<noteq> uuid_nil \<and> org = Some (sv_org_id r)))
           | None \<Rightarrow>
               (case bt of
                  Some b \<Rightarrow> (case row_get b_id b (w_bots v) of None \<Rightarrow> False | Some r \<Rightarrow> b_node_id r \<in> set ids)
                | None \<Rightarrow> False)))"

lemma target_allowed_in:
  "target_allowed aenv ids org nd svc bt w = (True, v) \<Longrightarrow> target_in w ids org nd svc bt"
  "\<not> (\<exists>n. e_db_fail aenv n) \<Longrightarrow> fst (target_allowed aenv ids org nd svc bt w) = target_in w ids org nd svc bt"
  by (auto simp: target_allowed_def target_in_def db_first_def split: option.splits sum.splits if_splits)

lemma target_in_same:
  assumes "same_data w v"
  shows "target_in v ids org nd svc bt = target_in w ids org nd svc bt"
proof -
  have "w_services v = w_services w" "w_bots v = w_bots w" using assms by (simp_all add: same_data_def)
  then show ?thesis unfolding target_in_def by (simp cong: option.case_cong)
qed

lemma row_check_target:
  assumes "\<And>r w. chk r w = target_allowed aenv ids org (nd r) (svc r) (bt r) w"
  shows "row_check chk base (\<lambda>r. target_in base ids org (nd r) (svc r) (bt r)) (\<exists>n. e_db_fail aenv n)"
proof
  fix w r
  show "same_data w (snd (chk r w))" using reads_target [unfolded reads_def] assms by simp
next
  fix w r assume "same_data base w" "fst (chk r w)"
  then have "target_in w ids org (nd r) (svc r) (bt r)"
    unfolding assms by (intro target_allowed_in(1)) (rule prod_eqI, simp_all)
  then show "target_in base ids org (nd r) (svc r) (bt r)" by (simp add: target_in_same [OF \<open>same_data base w\<close>])
next
  fix w r assume "\<not> (\<exists>n. e_db_fail aenv n)" "same_data base w" "target_in base ids org (nd r) (svc r) (bt r)"
  then show "fst (chk r w)" using target_allowed_in(2) [of aenv] target_in_same [of base w] by (simp add: assms)
qed

interpretation alert_rows: row_check "alert_allowed aenv ids org" base
  "\<lambda>st. target_in base ids org (as_node_id st) (as_service_id st) (as_bot_id st)" "\<exists>n. e_db_fail aenv n"
  for aenv ids org base
  by (rule row_check_target) (simp add: alert_allowed_def)

interpretation incident_rows: row_check "incident_allowed aenv ids org" base
  "\<lambda>i. target_in base ids org (in_node_id i) (in_service_id i) (in_bot_id i)" "\<exists>n. e_db_fail aenv n"
  for aenv ids org base
  by (rule row_check_target) (simp add: incident_allowed_def)

text \<open>What a list handler does once the scope is known, for either table.\<close>

lemma listedD:
  assumes scope: "on_web (desk_scope (dv_web ev) rq c) d = (Inr (ids, org), d1)"
    and query: "on_alerts ev (\<lambda>aenv. tab_query aenv q) d1 = (Inr rows, d2)"
    and shown: "on_alerts ev (\<lambda>aenv. allowed_rows (chk aenv) rows) d2 = (out, d3)"
    and chk: "\<And>aenv. chk aenv = (\<lambda>r. target_allowed aenv ids org (nd r) (svc r) (bt r))"
  shows "rows = q (rows_of d1)" "subseq out rows"
    "list_all (\<lambda>r. target_in (rows_of d1) ids org (nd r) (svc r) (bt r)) out"
    "\<nexists>n. e_db_fail (ce_alert (dv_chk ev)) n \<Longrightarrow>
       out = filter (\<lambda>r. target_in (rows_of d1) ids org (nd r) (svc r) (bt r)) rows"
proof -
  note fq = on_alerts_reads [OF query reads_query] on_alertsD(1) [OF query]
  note fs = on_alertsD(1) [OF shown]
  have fails: "e_db_fail (now_env ev d2) = e_db_fail (ce_alert (dv_chk ev))" by (simp add: env_at_def)
  have checked: "row_check (chk (now_env ev d2)) (rows_of d1)
      (\<lambda>r. target_in (rows_of d1) ids org (nd r) (svc r) (bt r)) (\<exists>n. e_db_fail (now_env ev d2) n)"
    by (rule row_check_target) (simp add: chk)
  show "rows = q (rows_of d1)" using fq(5) by (auto simp: tab_query_def split: if_splits)
  show "subseq out rows" using row_check.rows_subseq [OF checked, of rows "rows_of d2"] fs by simp
  show "list_all (\<lambda>r. target_in (rows_of d1) ids org (nd r) (svc r) (bt r)) out"
    using row_check.rows_ok [OF checked fq(3), of rows] fs by simp
  show "\<nexists>n. e_db_fail (ce_alert (dv_chk ev)) n \<Longrightarrow>
      out = filter (\<lambda>r. target_in (rows_of d1) ids org (nd r) (svc r) (bt r)) rows"
    using row_check.rows_exact [OF checked _ fq(3), of rows] fs fails by simp
qed

lemma target_in_reached:
  assumes "target_in v ids org nd svc bt" and "\<forall>n \<in> set ids. reached_node env rq c w n"
    and "\<And>g. org = Some g \<Longrightarrow> reached_org env rq c w g"
    and "w_services v = wb_services w" and "w_bots v = wb_bots w"
  shows "reached env rq c w nd svc bt"
  using assms(1)
  by (auto simp: target_in_def reached_def assms(2-5) split: option.splits dest!: row_get_mem)

text \<open>The rows a list is made of, and what the scope lets through.\<close>

definition newest_alerts :: "desk_env \<Rightarrow> request \<Rightarrow> desk \<Rightarrow> alert_state list" where
  "newest_alerts ev rq d =
     newest_rows (list_limit rq) as_last_seen (filter (alert_filter (dv_web ev) rq) (w_states (rows_of d)))"

definition visible_alert :: "desk_env \<Rightarrow> request \<Rightarrow> ctx \<Rightarrow> desk \<Rightarrow> alert_state \<Rightarrow> bool" where
  "visible_alert ev rq c d st \<longleftrightarrow>
     (case on_web (desk_scope (dv_web ev) rq c) d of
        (Inl e, d1) \<Rightarrow> False
      | (Inr (ids, org), d1) \<Rightarrow>
          target_in (rows_of d1) ids org (as_node_id st) (as_service_id st) (as_bot_id st))"

lemma visible_reached:
  assumes "visible_alert ev rq c d st"
  shows "reached_alert (dv_web ev) rq c (snd (desk_scope (dv_web ev) rq c (dk_web d))) st"
proof -
  obtain ids org d1 where sc: "on_web (desk_scope (dv_web ev) rq c) d = (Inr (ids, org), d1)"
    and t: "target_in (rows_of d1) ids org (as_node_id st) (as_service_id st) (as_bot_id st)"
    using assms by (auto simp: visible_alert_def split: prod.splits sum.splits)
  note f = on_webD [OF sc]
  have run: "desk_scope (dv_web ev) rq c (dk_web d) = (Inr (ids, org), dk_web d1)" using f(1,2) by (simp add: prod_eq_iff)
  show ?thesis
    unfolding reached_alert_def
    using target_in_reached [OF t desk_scopeD(1) [OF run] desk_scopeD(2) [OF run]] f(2,4) by (simp add: linked_def)
qed

lemma respond_inject [simp]:
  "respond_status s a c = respond_status t b c \<longleftrightarrow> s = t \<and> a = b"
proof
  assume "respond_status s a c = respond_status t b c"
  then have "cx_out (respond_status s a c) = cx_out (respond_status t b c)" by (rule arg_cong)
  then show "s = t \<and> a = b" by (simp add: respond_status_def)
qed simp

lemma listed_alerts:
  assumes "list_alerts ev rq c d = (respond_status 200 (AAlerts rows) c, d1)"
  shows "subseq rows (newest_alerts ev rq d)" "list_all (visible_alert ev rq c d) rows"
    "\<nexists>n. e_db_fail (ce_alert (dv_chk ev)) n \<Longrightarrow> rows = filter (visible_alert ev rq c d) (newest_alerts ev rq d)"
    "alerts_of d1 = alerts_of d"
proof -
  obtain ids org v where sc: "on_web (desk_scope (dv_web ev) rq c) d = (Inr (ids, org), v)"
    using assms by (auto simp: list_alerts_def forbidden_def respond_error_def split: prod.splits sum.splits)
  define q :: "world \<Rightarrow> alert_state list" where "q = (\<lambda>u. newest_rows (list_limit rq) as_last_seen (filter (alert_filter (dv_web ev) rq) (w_states u)))"
  obtain x u where x: "on_alerts ev (\<lambda>aenv. tab_query aenv q) v = (x, u)" by fastforce
  obtain found where found: "x = Inr found"
    using assms sc x by (cases x) (auto simp: list_alerts_def q_def [symmetric] respond_error_def)
  obtain out u1 where out: "on_alerts ev (\<lambda>aenv. allowed_rows (alert_allowed aenv ids org) found) u = (out, u1)" by fastforce
  have same: "out = rows" "u1 = d1"
    using assms sc x found out by (auto simp: list_alerts_def q_def [symmetric])
  have "alert_allowed aenv ids org =
      (\<lambda>r. target_allowed aenv ids org (as_node_id r) (as_service_id r) (as_bot_id r))" for aenv
    by (simp add: alert_allowed_def fun_eq_iff)
  note f = listedD [OF sc x [unfolded found] out this]
  have vis: "visible_alert ev rq c d = (\<lambda>st. target_in (rows_of v) ids org (as_node_id st) (as_service_id st) (as_bot_id st))"
    using sc by (simp add: visible_alert_def fun_eq_iff)
  have "w_states (rows_of v) = w_states (rows_of d)" using on_webD(3) [OF sc] by (simp add: alerts_of_def Let_def)
  then have found_eq: "found = newest_alerts ev rq d"
    using f(1) by (simp add: q_def newest_alerts_def)
  show "subseq rows (newest_alerts ev rq d)" using f(2) same found_eq by simp
  show "list_all (visible_alert ev rq c d) rows" using f(3) same vis by simp
  show "\<nexists>n. e_db_fail (ce_alert (dv_chk ev)) n \<Longrightarrow> rows = filter (visible_alert ev rq c d) (newest_alerts ev rq d)"
    using f(4) same vis found_eq by simp
  have "reads (\<lambda>aenv. allowed_rows (alert_allowed aenv ids org) found)"
    unfolding reads_def using alert_rows.rows_same by blast
  then show "alerts_of d1 = alerts_of d"
    using on_alerts_reads(1) [OF out] on_alerts_reads(1) [OF x reads_query] on_webD(3) [OF sc] same by simp
qed

text \<open>C19: When no statement fails, the list of alerts shows exactly the visible ones among the newest that meet
  the filters, of all organisations, up to the limit, in their order; all of them are reached by the request, and
  nothing changes. The limit comes first: newer alerts of others take the places of the visible ones.\<close>

theorem lists_show_the_visible_of_the_newest:
  assumes "list_alerts ev rq c d = (respond_status 200 (AAlerts rows) c, d1)" and "\<nexists>n. e_db_fail (ce_alert (dv_chk ev)) n"
  shows "rows = filter (visible_alert ev rq c d) (newest_alerts ev rq d) \<and>
    length (newest_alerts ev rq d) \<le> list_limit rq \<and>
    list_all (reached_alert (dv_web ev) rq c (snd (desk_scope (dv_web ev) rq c (dk_web d)))) rows \<and>
    alerts_of d1 = alerts_of d"
proof (intro conjI)
  show "list_all (reached_alert (dv_web ev) rq c (snd (desk_scope (dv_web ev) rq c (dk_web d)))) rows"
    using listed_alerts(2) [OF assms(1)] by (rule list.pred_mono_strong) (rule visible_reached)
qed (simp_all add: listed_alerts(3,4) [OF assms(1)] assms(2) newest_alerts_def newest_rows_def)

section \<open>An example\<close>

text \<open>The organisation 10 of \<open>ann\<close> with the node 7 and its alert; a second alert, seen later, of a node that is
  not hers.\<close>

definition dx_chk :: chk_env where
  "dx_chk =
     \<lparr>ce_alert = ex_env, ce_clock = \<lambda>k. 1000, ce_other = \<lambda>_ w. w, ce_tcp = \<lambda>_ _. Some ''refused'',
      ce_http = \<lambda>_ _. Inl \<lparr>he_text = ''no route'', he_cause = OtherCause\<rparr>, ce_ssh = \<lambda>_ _. ([], Some ''refused''),
      ce_ftp_lines = \<lambda>_ _. [], ce_ftp_write = \<lambda>_ _. None, ce_bad_request = \<lambda>_. None, ce_url = \<lambda>_. None,
      ce_url_with_path = \<lambda>u p. u @ p, ce_parse_float = \<lambda>_. None, ce_round = \<lambda>x. x\<rparr>"

definition dx_env :: desk_env where
  "dx_env = \<lparr>dv_web = ax_env\<lparr>we_public_base_url := ''https://panel.example''\<rparr>, dv_chk = dx_chk, dv_alerts = Some ex_svc,
     dv_checks = None, dv_hmac = \<lambda>k m. m, dv_legacy_secret = [], dv_hook = \<lambda>n call. HookReply 200 ''ok'' (Inr (True, []))\<rparr>"

definition dx_desk :: desk where
  "dx_desk = \<lparr>dk_web = ax_web,
     dk_cw = \<lparr>cw_world = ex_failing\<lparr>w_nodes := wb_nodes ax_web\<rparr>, cw_checks = wb_checks ax_web, cw_results = [],
       cw_node_checks = [], cw_metrics = [], cw_last_prune = 0, cw_probes = []\<rparr>, dk_hooks = []\<rparr>"

definition dx_alert :: alert_state where
  "dx_alert = ex_state\<lparr>as_alert_id := Some 15, as_fingerprint := ''other'', as_node_id := Some 9, as_last_seen := 30\<rparr>"

definition with_alerts :: "alert_state list \<Rightarrow> desk \<Rightarrow> desk" where
  "with_alerts sts d = d\<lparr>dk_cw := on_world (\<lambda>w. w\<lparr>w_states := sts\<rparr>) (dk_cw d)\<rparr>"

definition dx_request :: "(string \<times> string) list \<Rightarrow> (string \<times> string) list \<Rightarrow> request" where
  "dx_request qs ps = (ax_request ''ann'' [])\<lparr>
     rq_query := (\<lambda>q. case map_of qs q of None \<Rightarrow> [] | Some v \<Rightarrow> v),
     rq_param := (\<lambda>p. case map_of ps p of None \<Rightarrow> [] | Some v \<Rightarrow> v)\<rparr>"

definition dx_ctx :: ctx where
  "dx_ctx = new_ctx\<lparr>cx_actor := ''ann'', cx_role := ''admin''\<rparr>"

lemma dx_linked: "linked dx_desk"
  by (simp add: linked_def dx_desk_def ax_web_def ex_failing_def ex_world_def)

lemma dx_healthy: "\<nexists>n. e_db_fail (ce_alert (dv_chk dx_env)) n"
  by (simp add: dx_env_def dx_chk_def)

lemma dx_hidden:
  "fst (list_alerts dx_env (dx_request [(''limit'', ''1'')] []) dx_ctx (with_alerts [ex_state, dx_alert] dx_desk)) =
     respond_status 200 (AAlerts []) dx_ctx"
  "fst (list_alerts dx_env (dx_request [(''limit'', ''2'')] []) dx_ctx (with_alerts [ex_state, dx_alert] dx_desk)) =
     respond_status 200 (AAlerts [ex_state]) dx_ctx"
  by code_simp+

theorem lists_show_the_visible_of_the_newest_witness:
  "list_alerts dx_env (dx_request [(''limit'', ''1'')] []) dx_ctx (with_alerts [ex_state, dx_alert] dx_desk) =
     (respond_status 200 (AAlerts []) dx_ctx,
      snd (list_alerts dx_env (dx_request [(''limit'', ''1'')] []) dx_ctx (with_alerts [ex_state, dx_alert] dx_desk))) \<and>
   filter (visible_alert dx_env (dx_request [(''limit'', ''1'')] []) dx_ctx (with_alerts [ex_state, dx_alert] dx_desk))
     (newest_alerts dx_env (dx_request [(''limit'', ''1'')] []) (with_alerts [ex_state, dx_alert] dx_desk)) = []"
proof -
  have run: "list_alerts dx_env (dx_request [(''limit'', ''1'')] []) dx_ctx (with_alerts [ex_state, dx_alert] dx_desk) =
     (respond_status 200 (AAlerts []) dx_ctx,
      snd (list_alerts dx_env (dx_request [(''limit'', ''1'')] []) dx_ctx (with_alerts [ex_state, dx_alert] dx_desk)))"
    by (rule prod_eqI) (simp_all add: dx_hidden)
  show ?thesis using run lists_show_the_visible_of_the_newest [OF run dx_healthy] by simp
qed

theorem alert_actions_stay_in_scope_witness:
  "linked dx_desk \<and>
   fst (mute_alert dx_env (dx_request [] [(''fingerprint'', ex_fp)]) None dx_ctx dx_desk) = respond_status 200 (AMuted 3600) dx_ctx \<and>
   acted_on_alert dx_env (dx_request [] [(''fingerprint'', ex_fp)]) dx_ctx dx_desk
     (mute_alert dx_env (dx_request [] [(''fingerprint'', ex_fp)]) None dx_ctx dx_desk)"
proof (intro conjI)
  show "fst (mute_alert dx_env (dx_request [] [(''fingerprint'', ex_fp)]) None dx_ctx dx_desk) =
      respond_status 200 (AMuted 3600) dx_ctx"
    by code_simp
qed (simp_all add: dx_linked alert_actions_stay_in_scope [OF dx_linked])

section \<open>Long mutes and late acknowledgements\<close>

lemma set_mute_until:
  "trim_space fp \<noteq> [] \<Longrightarrow> w_muted (set_mute svc aenv fp dur w) fp = Some (e_now aenv + dur)"
  by (auto simp: set_mute_def Let_def db_exec_def upd_state_rows_def)

lemma mute_alert_muted:
  assumes "mute_alert ev rq body c d = (respond_status 200 (AMuted secs) c, d1)"
  shows "\<exists>n. w_muted (rows_of d1) (trim_space (rq_param rq ''fingerprint'')) =
    Some (ce_clock (dv_chk ev) n + dur_mul secs second)"
proof -
  define fp where "fp = trim_space (rq_param rq ''fingerprint'')"
  obtain asked svc where a: "fp \<noteq> []" "mute_seconds rq body c = Inr asked" "dv_alerts ev = Some svc"
    using assms by (auto simp: mute_alert_def Let_def fp_def [symmetric] mute_seconds_def parse_json_body_def
        respond_error_def split: if_splits sum.splits option.splits)
  obtain x v where x: "on_alerts ev (\<lambda>aenv. find_alert aenv fp) d = (x, v)" by fastforce
  obtain st where st: "x = Inr st"
    using assms a x by (cases x) (auto simp: mute_alert_def Let_def fp_def [symmetric] respond_error_def)
  obtain b v1 where m: "may_touch ev rq c (\<lambda>aenv ids org. alert_allowed aenv ids org st) v = (b, v1)" by fastforce
  have b: "b" using assms a x st m
    by (cases b) (auto simp: mute_alert_def Let_def fp_def [symmetric] respond_error_def forbidden_def)
  obtain n v2 where n: "on_alerts ev (\<lambda>aenv. mute_default aenv st asked) v1 = (n, v2)" by fastforce
  obtain e v3 where e: "on_alerts ev (\<lambda>aenv. mute_fingerprint svc aenv fp (dur_mul n second)) v2 = (e, v3)" by fastforce
  have same: "e = None" "n = secs" "v3 = d1"
    using assms a x st m b n e
    by (auto simp: mute_alert_def Let_def fp_def [symmetric] respond_error_def split: option.splits)
  have "trim_space fp = fp" by (simp add: fp_def)
  then have "w_muted (rows_of d1) fp = Some (e_now (now_env ev v2) + dur_mul secs second)"
    using on_alertsD(1) [OF e] a(1) same set_mute_until [of fp svc "now_env ev v2" "dur_mul secs second" "rows_of v2"]
    by (simp add: mute_fingerprint_def)
  then show ?thesis unfolding fp_def by (auto simp: env_at_def cw_now_def)
qed

text \<open>A mute of the panel ends the given number of seconds later, computed in 64 bits: a request for 9223372037
  seconds up to 18446744073 is answered as accepted and ends before it starts.\<close>

theorem long_mutes_end_before_they_start:
  assumes "mute_alert ev rq body c d = (respond_status 200 (AMuted secs) c, d1)"
    and "9223372036 < secs" and "secs < 18446744074"
  shows "\<exists>n till. w_muted (rows_of d1) (trim_space (rq_param rq ''fingerprint'')) = Some till \<and>
    till = ce_clock (dv_chk ev) n + (secs * 10 ^ 9 - 2 ^ 64) \<and> till < ce_clock (dv_chk ev) n"
proof -
  define x where "x = secs * 10 ^ 9 + 2 ^ 63 - 2 ^ 64"
  have x: "0 \<le> x" "x < 2 ^ 64" using assms(2,3) by (simp_all add: x_def)
  have "(x + 2 ^ 64) mod 2 ^ 64 = x" using x by (simp only: mod_add_self2 mod_pos_pos_trivial)
  then have "dur_mul secs second = secs * 10 ^ 9 - 2 ^ 64"
    by (simp add: x_def dur_mul_def wrap64_def second_def algebra_simps)
  moreover have "secs * 10 ^ 9 - 2 ^ 64 < (0::int)" using assms(3) by simp
  ultimately show ?thesis using mute_alert_muted [OF assms(1)] by auto
qed

theorem long_mutes_end_before_they_start_witness:
  "\<exists>n till. w_muted (rows_of (snd (mute_alert dx_env (dx_request [] [(''fingerprint'', ex_fp)])
      (Some (Inr 9300000000)) dx_ctx dx_desk))) (trim_space ex_fp) = Some till \<and>
    till = ce_clock (dv_chk dx_env) n + (9300000000 * 10 ^ 9 - 2 ^ 64) \<and> till < ce_clock (dv_chk dx_env) n"
proof -
  have "fst (mute_alert dx_env (dx_request [] [(''fingerprint'', ex_fp)]) (Some (Inr 9300000000)) dx_ctx dx_desk) =
      respond_status 200 (AMuted 9300000000) dx_ctx"
    by code_simp
  then have run: "mute_alert dx_env (dx_request [] [(''fingerprint'', ex_fp)]) (Some (Inr 9300000000)) dx_ctx dx_desk =
      (respond_status 200 (AMuted 9300000000) dx_ctx,
       snd (mute_alert dx_env (dx_request [] [(''fingerprint'', ex_fp)]) (Some (Inr 9300000000)) dx_ctx dx_desk))"
    by (intro prod_eqI) simp_all
  have param: "rq_param (dx_request [] [(''fingerprint'', ex_fp)]) ''fingerprint'' = ex_fp"
    by (simp add: dx_request_def)
  show ?thesis using long_mutes_end_before_they_start [OF run] unfolding param by simp
qed

lemma upd_incident_get:
  "row_get in_id u (w_incidents w) = Some r \<Longrightarrow> (\<And>x. in_id (f x) = in_id x) \<Longrightarrow>
     row_get in_id u (w_incidents (upd_incident_rows u f w)) = Some (f r)"
  using row_upd_get [of in_id u f u "w_incidents w"] by (auto simp: upd_incident_rows_def row_get_def find_Some_iff)

lemma store_ackD:
  assumes "store_ack aenv row who w = (Inr (m, till), w1)" and "row_get in_id (in_id row) (w_incidents w) = Some row"
  shows "row_get in_id (in_id row) (w_incidents w1) = Some (acked_incident (e_now aenv) who row)"
    "till = e_now aenv + dur_mul m minute"
proof -
  obtain org w2 where o: "org_id_for_incident aenv row w = (org, w2)" by fastforce
  obtain a b w3 where p: "alert_policy_for_org aenv org w2 = ((a, b), w3)" by (metis prod.collapse)
  define v where "v = upd_incident_rows (in_id row) (acked_incident (e_now aenv) who) (db_tick w3)"
  have "same_data w w3"
    using readsD [OF reads_incident_org o] readsD [OF reads_policy p] by (rule same_data_trans)
  then have get: "row_get in_id (in_id row) (w_incidents v) = Some (acked_incident (e_now aenv) who row)"
    using assms(2) unfolding v_def by (intro upd_incident_get) (simp_all add: same_data_def acked_incident_def)
  have out: "m = a" "till = e_now aenv + dur_mul a minute"
    "w1 = snd (db_exec aenv (\<lambda>u. Inr (mute_incident (in_id row) (e_now aenv + dur_mul a minute) (e_now aenv) u)) v)"
    using assms(1) o p by (auto simp: store_ack_def Let_def db_exec_def [of aenv _ w3] v_def split: if_splits)
  then show "till = e_now aenv + dur_mul m minute" by simp
  have "w_incidents w1 = w_incidents v" unfolding out(3) by (simp add: db_exec_def mute_incident_def)
  with get show "row_get in_id (in_id row) (w_incidents w1) = Some (acked_incident (e_now aenv) who row)" by simp
qed

lemma ack_incidentD:
  assumes "ack_incident ev rq c d = (respond_status 200 (AAcked m till) c, d1)"
  shows "\<exists>i row now who. we_parse (dv_web ev) (trim_space (rq_param rq ''id'')) = Some i \<and>
    row_get in_id i (w_incidents (rows_of d)) = Some row \<and>
    row_get in_id i (w_incidents (rows_of d1)) = Some (acked_incident now who row) \<and> till = now + dur_mul m minute"
proof -
  obtain i where i: "we_parse (dv_web ev) (trim_space (rq_param rq ''id'')) = Some i"
    using assms by (auto simp: ack_incident_def respond_error_def split: option.splits)
  obtain x v where x: "on_alerts ev (\<lambda>aenv w. db_first aenv (row_get in_id i (w_incidents w)) w) d = (x, v)" by fastforce
  note fx = on_alerts_reads [OF x reads_first] on_alertsD(1) [OF x] on_alerts_linked [OF x]
  obtain row where row: "x = Inr row"
    using assms i x by (cases x) (auto simp: ack_incident_def respond_error_def)
  obtain b v1 where m: "may_touch ev rq c (\<lambda>aenv ids org. incident_allowed aenv ids org row) v = (b, v1)" by fastforce
  have b: b using assms i x row m by (cases b) (auto simp: ack_incident_def respond_error_def forbidden_def)
  obtain who v2 where who: "ack_name ev c v1 = (who, v2)" by fastforce
  obtain r v3 where r: "on_alerts ev (\<lambda>aenv. store_ack aenv row who) v2 = (r, v3)" by fastforce
  have out: "r = Inr (m, till)" "v3 = d1"
    using assms i x row m b who r
    by (auto simp: ack_incident_def respond_error_def split: sum.splits prod.splits)
  have "row_get in_id i (w_incidents (rows_of d)) = Some row" using fx(5) row by (auto dest: db_firstD)
  moreover have "in_id row = i" using calculation row_get_mem by metis
  moreover have "alerts_of v1 = alerts_of v" by (rule may_touch_same [OF m]) (rule reads_allowed)
  moreover have "alerts_of v2 = alerts_of v1"
    using who on_webD(3) by (fastforce simp: ack_name_def split: prod.splits sum.splits)
  ultimately have "row_get in_id (in_id row) (w_incidents (rows_of v2)) = Some row" "in_id row = i"
    using fx(1) by (simp_all add: alerts_of_def Let_def)
  with store_ackD [OF _ this(1)] on_alertsD(1) [OF r] out i \<open>row_get in_id i (w_incidents (rows_of d)) = Some row\<close>
  show ?thesis by (metis prod.collapse)
qed

text \<open>Whatever the state of an incident, acknowledging it in the panel makes it an active one: a recovered
  incident turns up among the active incidents again, still with the time of its recovery.\<close>

theorem acknowledged_incidents_are_active:
  assumes "ack_incident ev rq c d = (respond_status 200 (AAcked m till) c, d1)"
  shows "\<exists>i row row1. we_parse (dv_web ev) (trim_space (rq_param rq ''id'')) = Some i \<and>
    row_get in_id i (w_incidents (rows_of d)) = Some row \<and> row_get in_id i (w_incidents (rows_of d1)) = Some row1 \<and>
    in_status row1 = ''acked'' \<and> in_recovered_at row1 = in_recovered_at row \<and>
    incident_filter (dx_request [(''active'', ''1'')] []) row1"
proof -
  have "trim_space ''1'' = ''1''" by code_simp
  then show ?thesis
    using ack_incidentD [OF assms] by (fastforce simp: acked_incident_def incident_filter_def dx_request_def)
qed

definition dx_recovered :: desk where
  "dx_recovered = dx_desk\<lparr>dk_cw := on_world (\<lambda>w. w\<lparr>w_incidents :=
     [ex_incident\<lparr>in_status := ''recovered'', in_recovered_at := Some 500\<rparr>]\<rparr>) (dk_cw dx_desk)\<rparr>"

theorem acknowledged_incidents_are_active_witness:
  "\<exists>row1. row_get in_id 6 (w_incidents (rows_of (snd (ack_incident dx_env (dx_request [] [(''id'', uuid_text 6)]) dx_ctx
      dx_recovered)))) = Some row1 \<and> in_status row1 = ''acked'' \<and> in_recovered_at row1 = Some 500"
proof -
  have "fst (ack_incident dx_env (dx_request [] [(''id'', uuid_text 6)]) dx_ctx dx_recovered) =
      respond_status 200 (AAcked 1440 86400000001000) dx_ctx"
    by code_simp
  then have run: "ack_incident dx_env (dx_request [] [(''id'', uuid_text 6)]) dx_ctx dx_recovered =
      (respond_status 200 (AAcked 1440 86400000001000) dx_ctx,
       snd (ack_incident dx_env (dx_request [] [(''id'', uuid_text 6)]) dx_ctx dx_recovered))"
    by (intro prod_eqI) simp_all
  have "we_parse (dv_web dx_env) (trim_space (rq_param (dx_request [] [(''id'', uuid_text 6)]) ''id'')) = Some 6" by code_simp
  moreover have "row_get in_id 6 (w_incidents (rows_of dx_recovered)) =
      Some (ex_incident\<lparr>in_status := ''recovered'', in_recovered_at := Some 500\<rparr>)" by code_simp
  ultimately show ?thesis using acknowledged_incidents_are_active [OF run] by auto
qed

section \<open>Saving the settings\<close>

text \<open>The primary key of the settings.\<close>

definition settings_keyed :: "world \<Rightarrow> bool" where
  "settings_keyed w \<longleftrightarrow> keyed tr_id (w_settings w) \<and> uuid_nil \<notin> tr_id ` set (w_settings w)"

abbreviation of_org :: "uuid \<Rightarrow> telegram_row list \<Rightarrow> telegram_row list" where
  "of_org org \<equiv> filter (\<lambda>r. tr_org_id r = Some org)"

abbreviation of_others :: "uuid \<Rightarrow> telegram_row list \<Rightarrow> telegram_row list" where
  "of_others org \<equiv> filter (\<lambda>r. tr_org_id r \<noteq> Some org)"

lemma newest_None: "Alert_Store.newest rows = None \<longleftrightarrow> rows = []"
  by (cases rows) (auto split: option.splits)

lemma get_telegram_row_cases:
  assumes "get_telegram_row aenv org w = (x, v)"
  shows "v = db_tick w" "x = Inr r \<Longrightarrow> r \<in> set (w_settings w) \<and> tr_org_id r = Some org"
    "x = Inl ErrNotFound \<Longrightarrow> of_org org (w_settings w) = []"
    "x = Inr r \<Longrightarrow> Alert_Store.newest (of_org org (w_settings w)) = Some r"
proof -
  show "x = Inr r \<Longrightarrow> Alert_Store.newest (of_org org (w_settings w)) = Some r"
    using assms by (auto simp: get_telegram_row_def db_first_def split: option.splits if_splits)
  show "v = db_tick w" using assms by (simp add: get_telegram_row_def db_first_def)
  show "x = Inr r \<Longrightarrow> r \<in> set (w_settings w) \<and> tr_org_id r = Some org"
    using get_telegram_rowD assms by metis
  show "x = Inl ErrNotFound \<Longrightarrow> of_org org (w_settings w) = []"
    using assms newest_None by (auto simp: get_telegram_row_def db_first_def split: option.splits if_splits)
qed

lemma close_settingsD:
  assumes "close_settings aenv i org w0 w = (None, w1)" and "i \<noteq> uuid_nil"
  shows "w_settings w1 = filter (\<lambda>r. \<not> (tr_id r \<noteq> i \<and> tr_org_id r = Some org)) (w_settings w)"
  using assms by (auto simp: close_settings_def db_exec_def keep_only_def db_tick_def split: if_splits)

text \<open>What the transaction leaves: one row of the organisation, new or rewritten, and the rows of the others.\<close>

lemma kept_after_update:
  assumes keyed: "keyed tr_id rows" and r: "r \<in> set rows" "tr_org_id r = Some org"
    and f: "tr_id (f r) = tr_id r" "tr_org_id (f r) = Some org"
    and rows1: "rows1 = filter (\<lambda>x. \<not> (tr_id x \<noteq> tr_id r \<and> tr_org_id x = Some org)) (row_upd tr_id (tr_id r) f rows)"
  shows "of_org org rows1 = [f r]" "of_others org rows1 = of_others org rows"
proof -
  have only: "x = r" if "x \<in> set rows" "tr_id x = tr_id r" for x
    using keyed r(1) that unfolding keyed_def distinct_map by (metis inj_onD)
  define g where "g = (\<lambda>x. if tr_id x = tr_id r then f x else x)"
  have g: "g r = f r" by (simp add: g_def)
  have split: "(tr_org_id (g x) = Some org \<and> \<not> (tr_id (g x) \<noteq> tr_id r \<and> tr_org_id (g x) = Some org)) = (tr_id x = tr_id r)"
    "(tr_org_id (g x) \<noteq> Some org \<and> \<not> (tr_id (g x) \<noteq> tr_id r \<and> tr_org_id (g x) = Some org)) = (tr_org_id x \<noteq> Some org)"
    if "x \<in> set rows" for x
  proof -
    have "x = r \<or> tr_id x \<noteq> tr_id r" using only [OF that] by blast
    then show "(tr_org_id (g x) = Some org \<and> \<not> (tr_id (g x) \<noteq> tr_id r \<and> tr_org_id (g x) = Some org)) = (tr_id x = tr_id r)"
      "(tr_org_id (g x) \<noteq> Some org \<and> \<not> (tr_id (g x) \<noteq> tr_id r \<and> tr_org_id (g x) = Some org)) = (tr_org_id x \<noteq> Some org)"
      by (elim disjE; simp add: g_def f r(2))+
  qed
  have rows1: "rows1 = filter (\<lambda>x. \<not> (tr_id x \<noteq> tr_id r \<and> tr_org_id x = Some org)) (map g rows)"
    unfolding rows1 row_upd_def g_def ..
  have "of_org org rows1 = map g (filter (\<lambda>x. tr_org_id (g x) = Some org \<and>
      \<not> (tr_id (g x) \<noteq> tr_id r \<and> tr_org_id (g x) = Some org)) rows)"
    unfolding rows1 filter_map filter_filter o_def by (simp only: conj_commute)
  also have "\<dots> = map g (filter (\<lambda>x. tr_id x = tr_id r) rows)"
    by (rule arg_cong [where f = "map g"], rule filter_cong [OF refl], rule split(1))
  also have "\<dots> = [f r]" using keyed_filter [OF keyed r(1)] g by simp
  finally show "of_org org rows1 = [f r]" .
  have "of_others org rows1 = map g (filter (\<lambda>x. tr_org_id (g x) \<noteq> Some org \<and>
      \<not> (tr_id (g x) \<noteq> tr_id r \<and> tr_org_id (g x) = Some org)) rows)"
    unfolding rows1 filter_map filter_filter o_def by (simp only: conj_commute)
  also have "\<dots> = map g (of_others org rows)"
    by (rule arg_cong [where f = "map g"], rule filter_cong [OF refl], rule split(2))
  also have "\<dots> = of_others org rows"
    by (rule map_idI) (use only r(2) in \<open>auto simp: g_def\<close>)
  finally show "of_others org rows1 = of_others org rows" .
qed

lemma store_settingsD:
  assumes run: "store_settings aenv org b t w = (None, w1)"
    and keyed: "settings_keyed w" and fresh: "\<And>n. e_uuid aenv n \<noteq> uuid_nil"
  shows "of_others org (w_settings w1) = of_others org (w_settings w)"
    "(\<exists>i. of_org org (w_settings w) = [] \<and> of_org org (w_settings w1) = [created_settings (e_now aenv) i org b t]) \<or>
     (\<exists>r \<in> set (w_settings w). tr_org_id r = Some org \<and>
        of_org org (w_settings w1) = [updated_settings (e_now aenv) org b t r])"
proof -
  have tick: "w_settings (db_tick w) = w_settings w" by (simp add: db_tick_def)
  obtain x v where x: "get_telegram_row aenv org (db_tick w) = (x, v)" by fastforce
  note fx = get_telegram_row_cases [OF x, unfolded tick]
  have v: "w_settings v = w_settings w" using fx(1) by (simp add: db_tick_def)
  consider (upd) r where "x = Inr r" | (new) "x = Inl ErrNotFound" | (bad) e where "x = Inl e" "e \<noteq> ErrNotFound"
    by (cases x) auto
  then have "of_others org (w_settings w1) = of_others org (w_settings w) \<and>
    ((\<exists>i. of_org org (w_settings w) = [] \<and> of_org org (w_settings w1) = [created_settings (e_now aenv) i org b t]) \<or>
     (\<exists>r \<in> set (w_settings w). tr_org_id r = Some org \<and>
        of_org org (w_settings w1) = [updated_settings (e_now aenv) org b t r]))"
  proof cases
    case upd
    note r = fx(2) [OF upd]
    define f where "f = updated_settings (e_now aenv) org b t"
    have nn: "tr_id r \<noteq> uuid_nil" using keyed r unfolding settings_keyed_def by (metis image_eqI)
    define w2 where "w2 = (db_tick v)\<lparr>w_settings := row_upd tr_id (tr_id r) f (w_settings v)\<rparr>"
    have w2: "w_settings w2 = row_upd tr_id (tr_id r) f (w_settings w)" by (simp add: w2_def v)
    have close: "close_settings aenv (tr_id r) org w w2 = (None, w1)"
      using run x upd
      by (auto simp: store_settings_def Let_def db_exec_def f_def w2_def split: if_splits)
    have "tr_id (f r) = tr_id r" "tr_org_id (f r) = Some org" by (simp_all add: f_def updated_settings_def)
    note k = kept_after_update [OF _ _ _ this close_settingsD [OF close nn, unfolded w2]]
    show ?thesis using k r keyed by (auto simp: settings_keyed_def f_def)
  next
    case new
    note none = fx(3) [OF new]
    obtain i v1 where i: "uuid_new aenv v = (i, v1)" by fastforce
    define r where "r = created_settings (e_now aenv) i org b t"
    have i': "i \<noteq> uuid_nil" "w_settings v1 = w_settings w" using i fresh v by (auto simp: uuid_new_def)
    obtain rows where rows: "row_put tr_id r (w_settings w) = Some rows"
      and close: "close_settings aenv i org w ((db_tick v1)\<lparr>w_settings := rows\<rparr>) = (None, w1)"
      using run x new i i'(2)
      by (auto simp: store_settings_def Let_def db_exec_def insert_settings_def r_def
          split: if_splits option.splits)
    define w2 where "w2 = (db_tick v1)\<lparr>w_settings := rows\<rparr>"
    have w2: "row_put tr_id r (w_settings w) = Some (w_settings w2)" "close_settings aenv i org w w2 = (None, w1)"
      using rows close by (simp_all add: w2_def)
    have rows: "w_settings w2 = w_settings w @ [r]" using w2(1) by (auto simp: row_put_def split: if_splits)
    have "tr_id r = i" "tr_org_id r = Some org" by (simp_all add: r_def created_settings_def)
    with close_settingsD [OF w2(2) i'(1)] rows none show ?thesis
      by (auto simp: filter_empty_conv r_def intro!: filter_cong)
  next
    case bad
    with run x show ?thesis by (cases "e") (auto simp: store_settings_def Let_def split: if_splits)
  qed
  then show "of_others org (w_settings w1) = of_others org (w_settings w)"
    "(\<exists>i. of_org org (w_settings w) = [] \<and> of_org org (w_settings w1) = [created_settings (e_now aenv) i org b t]) \<or>
     (\<exists>r \<in> set (w_settings w). tr_org_id r = Some org \<and>
        of_org org (w_settings w1) = [updated_settings (e_now aenv) org b t r])" by blast+
qed

text \<open>Settings are saved by an owner or administrator of the organisation that is asked for.\<close>

definition administers :: "web_env \<Rightarrow> request \<Rightarrow> ctx \<Rightarrow> web \<Rightarrow> uuid \<Rightarrow> bool" where
  "administers env rq c w org \<longleftrightarrow>
     we_parse env (requested_org rq) = Some org \<and>
     (\<exists>u \<in> set (wb_users w). \<exists>m \<in> set (wb_members w). same_username env (get_actor c) u \<and>
        om_user_id m = u_id u \<and> om_org_id m = org \<and> om_role m \<in> {''owner'', ''admin''})"

lemma resolve_orgD:
  assumes "resolve_org_from_request env rq True c w = (Inr org, w1)"
  shows "administers env rq c w1 org"
proof -
  obtain u v m where u: "we_parse env (requested_org rq) = Some org" "actor_user env c w = (Inr u, v)"
    and m: "find_member env org (u_id u) v = (Inr m, w1)" "om_role m \<in> {''owner'', ''admin''}"
    using assms by (auto simp: resolve_org_from_request_def split: option.splits prod.splits sum.splits if_splits)
  note f = find_member_facts [OF m(1)]
  show ?thesis
    using u(1) m(2) actor_user_mem [OF u(2)] f(2) [OF refl] only_counts_tables [OF f(1)]
    unfolding administers_def by (intro conjI) (simp_all, blast)
qed

lemma normalize_bounds:
  "normalize_alert_policy_minutes a m = (x, y) \<Longrightarrow> 1 \<le> x \<and> x \<le> 43200 \<and> 1 \<le> y \<and> y \<le> 43200"
  by (auto simp: normalize_alert_policy_minutes_def Let_def http_default_ack_mute_minutes_def
      http_default_mute_minutes_def http_max_policy_minutes_def)

lemma normalize_same_policy: "normalize_alert_policy_minutes = normalize_policy_minutes"
  by (intro ext) (simp add: normalize_alert_policy_minutes_def normalize_policy_minutes_def Let_def
      http_default_ack_mute_minutes_def http_default_mute_minutes_def http_max_policy_minutes_def
      default_ack_mute_minutes_def default_button_mute_mins_def max_policy_minutes_def)

lemma trimmed_result: "map_sum id trim_space r = Inr s \<Longrightarrow> trim_space s = s"
  by (cases r) auto

lemma draft_settingsD:
  assumes "draft_settings env b cur c w = (Inr (token, t), w1)"
  shows "1 \<le> td_ack t \<and> td_ack t \<le> 43200 \<and> 1 \<le> td_mute t \<and> td_mute t \<le> 43200" "td_chats t \<noteq> []"
    "trim_space token = token" "token \<noteq> [] \<Longrightarrow> \<exists>n. encrypt_string (we_gcm env) (we_key env) (we_nonce env n) token = Inr (td_enc t)"
proof -
  define ack where "ack = (if tb_ack_mute_minutes b \<le> 0 then (case cur of None \<Rightarrow> 0 | Some r \<Rightarrow> tr_ack_mute_minutes r)
    else tb_ack_mute_minutes b)"
  define mute where "mute = (if tb_mute_minutes b \<le> 0 then (case cur of None \<Rightarrow> 0 | Some r \<Rightarrow> tr_mute_minutes r)
    else tb_mute_minutes b)"
  obtain x y where xy: "normalize_alert_policy_minutes ack mute = (x, y)" by fastforce
  have t: "td_ack t = x" "td_mute t = y"
    and rest: "td_chats t \<noteq> []" "trim_space token = token"
      "token \<noteq> [] \<longrightarrow> (\<exists>n. encrypt_string (we_gcm env) (we_key env) (we_nonce env n) token = Inr (td_enc t))"
    using assms xy
    by (auto simp: draft_settings_def Let_def ack_def [symmetric] mute_def [symmetric] encrypt_def
        split: if_splits sum.splits prod.splits dest: trimmed_result)
  show "1 \<le> td_ack t \<and> td_ack t \<le> 43200 \<and> 1 \<le> td_mute t \<and> td_mute t \<le> 43200" using normalize_bounds [OF xy] t by simp
  show "td_chats t \<noteq> []" "trim_space token = token"
    "token \<noteq> [] \<Longrightarrow> \<exists>n. encrypt_string (we_gcm env) (we_key env) (we_nonce env n) token = Inr (td_enc t)"
    using rest by blast+
qed

lemma configure_same:
  "configure_telegram_webhook ev org token d = (hook, d1) \<Longrightarrow>
     dk_cw d1 = dk_cw d \<and> dk_web d1 = dk_web d \<and>
     (dk_hooks d1 = dk_hooks d \<or> trim_space token \<noteq> [] \<and> telegram_webhook_secret_for ev org token \<noteq> [] \<and>
        (\<exists>e u. dk_hooks d1 = dk_hooks d @ [(e, u, telegram_webhook_secret_for ev org token)]))"
  by (auto simp: configure_telegram_webhook_def Let_def telegram_webhook_secret_for_def split: if_splits option.splits)

text \<open>A save that is answered as done went through all its steps.\<close>

definition saved ::
    "desk_env \<Rightarrow> request \<Rightarrow> telegram_body \<Rightarrow> ctx \<Rightarrow> desk \<Rightarrow> uuid \<Rightarrow> string \<Rightarrow> telegram_draft \<Rightarrow> alert_env \<Rightarrow> world \<Rightarrow> world \<Rightarrow> bool"
where
  "saved ev rq b c d org token t aenv w w1 \<longleftrightarrow>
     administers (dv_web ev) rq c (snd (resolve_org_from_request (dv_web ev) rq True c (dk_web d))) org \<and>
     (\<exists>v v1. draft_settings (dv_web ev) b (Alert_Store.newest (of_org org (w_settings w))) c v = (Inr (token, t), v1)) \<and>
     w_settings w = w_settings (rows_of d) \<and> e_uuid aenv = e_uuid (ce_alert (dv_chk ev)) \<and>
     store_settings aenv org b t w = (None, w1)"

lemma update_savedD:
  assumes "update_telegram_settings ev rq body c d = (respond_status 200 a c, d1)"
  shows "\<exists>b org token t aenv w w1 hook. body = Inr b \<and> saved ev rq b c d org token t aenv w w1 \<and>
    w_settings (rows_of d1) = w_settings w1 \<and>
    a = ATelegram (td_enc t \<noteq> []) (td_chats t) (http_split_chat_ids (td_chats t)) (tb_alert_connection b)
          (tb_alert_cpu b) (tb_alert_memory b) (tb_alert_disk b) (td_ack t) (td_mute t) (fst hook) (snd hook) \<and>
    (dk_hooks d1 = dk_hooks d \<or> token \<noteq> [] \<and> telegram_webhook_secret_for ev org token \<noteq> [] \<and>
        (\<exists>e u. dk_hooks d1 = dk_hooks d @ [(e, u, telegram_webhook_secret_for ev org token)]))"
proof -
  obtain b where b: "body = Inr b"
    using assms by (auto simp: update_telegram_settings_def parse_json_body_def respond_error_def split: sum.splits)
  obtain x v0 where x: "on_web (resolve_org_from_request (dv_web ev) rq True c) d = (x, v0)" by fastforce
  obtain org where org: "x = Inr org"
    using assms b x by (cases x) (auto simp: update_telegram_settings_def parse_json_body_def respond_error_def forbidden_def)
  obtain cur v1 where cur: "on_alerts ev (\<lambda>aenv. get_telegram_row aenv org) v0 = (cur, v1)" by fastforce
  define row where "row = (case cur of Inl e \<Rightarrow> None | Inr r \<Rightarrow> Some r)"
  obtain y v2 where y: "on_web (draft_settings (dv_web ev) b row c) v1 = (y, v2)" by fastforce
  note fx = on_webD [OF x] and fc = on_alerts_reads [OF cur reads_telegram] and fy = on_webD [OF y]
  have okay: "\<not> (case cur of Inl e \<Rightarrow> e \<noteq> ErrNotFound | Inr r \<Rightarrow> False)"
    using assms b x org cur by (auto simp: update_telegram_settings_def parse_json_body_def respond_error_def)
  have "\<And>c1. y = Inl c1 \<Longrightarrow> c1 \<noteq> respond_status 200 a c"
    using fy(1) by (auto simp: draft_settings_def Let_def respond_error_def split: if_splits sum.splits prod.splits)
  then obtain token t where t: "y = Inr (token, t)"
    using assms b x org cur y okay by (cases y) (auto simp: update_telegram_settings_def parse_json_body_def row_def [symmetric])
  obtain z v3 where z: "on_alerts ev (\<lambda>aenv. store_settings aenv org b t) v2 = (z, v3)" by fastforce
  have none: "z = None"
    using assms b x org cur y okay t z
    by (cases z) (auto simp: update_telegram_settings_def parse_json_body_def row_def [symmetric] respond_error_def)
  obtain hook v4 where hook: "configure_telegram_webhook ev org token v3 = (hook, v4)" by fastforce
  obtain q v5 where q: "on_web (\<lambda>w. ((), audit_event (dv_web ev) c ''TELEGRAM_SETTINGS_UPDATE'' ''ok''
      (settings_audit b t hook) w)) v4 = (q, v5)"
    using surj_pair by metis
  have out: "v5 = d1" "a = ATelegram (td_enc t \<noteq> []) (td_chats t) (http_split_chat_ids (td_chats t)) (tb_alert_connection b)
      (tb_alert_cpu b) (tb_alert_memory b) (tb_alert_disk b) (td_ack t) (td_mute t) (fst hook) (snd hook)"
    using assms b x org cur y okay t z none hook q
    by (auto simp: update_telegram_settings_def parse_json_body_def row_def [symmetric])
  note fz = on_alertsD [OF z] and fh = configure_same [OF hook] and fq = on_webD(3) [OF q]
  have same: "w_settings (rows_of v2) = w_settings (rows_of d)" "w_settings (rows_of v0) = w_settings (rows_of d)"
    using fx(3) fc(1) fy(3) by (simp_all add: alerts_of_def Let_def)
  have row: "row = Alert_Store.newest (of_org org (w_settings (rows_of v2)))"
  proof (cases cur)
    case (Inl e)
    then have "of_org org (w_settings (rows_of v0)) = []"
      using get_telegram_row_cases(3) [OF on_alertsD(1) [OF cur]] okay by simp
    then show ?thesis using Inl same by (simp add: row_def)
  next
    case (Inr r)
    then show ?thesis using get_telegram_row_cases(4) [OF on_alertsD(1) [OF cur]] same by (simp add: row_def)
  qed
  have draft: "draft_settings (dv_web ev) b row c (dk_web v1) = (Inr (token, t), dk_web v2)"
    using fy(1,2) t by (simp add: prod_eq_iff)
  have "resolve_org_from_request (dv_web ev) rq True c (dk_web d) = (Inr org, dk_web v0)"
    using fx(1,2) org by (simp add: prod_eq_iff)
  then have "administers (dv_web ev) rq c (snd (resolve_org_from_request (dv_web ev) rq True c (dk_web d))) org"
    using resolve_orgD by fastforce
  moreover have "dk_hooks v3 = dk_hooks d"
    using fx(3) fc(1) fy(3) fz(2) by (simp add: alerts_of_def Let_def)
  moreover have "e_uuid (now_env ev v2) = e_uuid (ce_alert (dv_chk ev))" by (simp add: env_at_def)
  ultimately have saved: "saved ev rq b c d org token t (now_env ev v2) (rows_of v2) (rows_of v3)"
    unfolding saved_def using draft [unfolded row] same(1) fz(1) none by blast
  have "w_settings (rows_of d1) = w_settings (rows_of v3)" "dk_hooks d1 = dk_hooks v4"
    using fq fh out(1) by (simp_all add: alerts_of_def Let_def)
  moreover have "trim_space token = token" by (rule draft_settingsD(3) [OF draft])
  ultimately show ?thesis using b saved out(2) fh \<open>dk_hooks v3 = dk_hooks d\<close>
    by (intro exI [of _ b] exI [of _ org] exI [of _ token] exI [of _ t] exI [of _ "now_env ev v2"]
        exI [of _ "rows_of v2"] exI [of _ "rows_of v3"] exI [of _ hook] conjI) simp_all
qed

text \<open>
  What a save asks for, given the newest settings before it: the chats are the list of the request joined
  by commas, else its one chat without outer white space, else the chats stored before; the minutes are
  those of the request, else those stored before, else the default, cut to thirty days; the four switches
  are those of the request, except on the first save, which stores them all as on.
\<close>

definition asked_chats :: "telegram_body \<Rightarrow> string" where
  "asked_chats b = (if tb_admin_chat_ids b \<noteq> [] then join '','' (tb_admin_chat_ids b) else trim_space (tb_admin_chat_id b))"

definition saved_minutes :: "int \<Rightarrow> int \<Rightarrow> int option \<Rightarrow> int" where
  "saved_minutes standard asked before =
     (let kept = (case before of None \<Rightarrow> 0 | Some m \<Rightarrow> m)
      in min 43200 (if 0 < asked then asked else if 0 < kept then kept else standard))"

definition switches :: "telegram_row \<Rightarrow> bool list" where
  "switches r = [tr_alert_connection r, tr_alert_cpu r, tr_alert_memory r, tr_alert_disk r]"

definition asked_switches :: "telegram_body \<Rightarrow> bool list" where
  "asked_switches b = [tb_alert_connection b, tb_alert_cpu b, tb_alert_memory b, tb_alert_disk b]"

definition holds_request :: "telegram_body \<Rightarrow> telegram_row option \<Rightarrow> telegram_row \<Rightarrow> bool" where
  "holds_request b before r \<longleftrightarrow>
     tr_admin_chat_id r = (if asked_chats b \<noteq> [] then asked_chats b else tr_admin_chat_id (the before)) \<and>
     (asked_chats b = [] \<longrightarrow> before \<noteq> None) \<and>
     tr_ack_mute_minutes r = saved_minutes 1440 (tb_ack_mute_minutes b) (map_option tr_ack_mute_minutes before) \<and>
     tr_mute_minutes r = saved_minutes 60 (tb_mute_minutes b) (map_option tr_mute_minutes before) \<and>
     switches r = (if before = None then [True, True, True, True] else asked_switches b)"

lemma draft_holds:
  assumes "draft_settings env b cur c w = (Inr (token, t), w1)"
  shows "td_chats t = (if asked_chats b \<noteq> [] then asked_chats b else tr_admin_chat_id (the cur))"
    "asked_chats b = [] \<longrightarrow> cur \<noteq> None"
    "td_ack t = saved_minutes 1440 (tb_ack_mute_minutes b) (map_option tr_ack_mute_minutes cur)"
    "td_mute t = saved_minutes 60 (tb_mute_minutes b) (map_option tr_mute_minutes cur)"
proof -
  define ack where "ack = (if tb_ack_mute_minutes b \<le> 0 then (case cur of None \<Rightarrow> 0 | Some r \<Rightarrow> tr_ack_mute_minutes r)
    else tb_ack_mute_minutes b)"
  define mute where "mute = (if tb_mute_minutes b \<le> 0 then (case cur of None \<Rightarrow> 0 | Some r \<Rightarrow> tr_mute_minutes r)
    else tb_mute_minutes b)"
  have pol: "normalize_alert_policy_minutes ack mute =
      (saved_minutes 1440 (tb_ack_mute_minutes b) (map_option tr_ack_mute_minutes cur),
       saved_minutes 60 (tb_mute_minutes b) (map_option tr_mute_minutes cur))"
    by (cases cur) (auto simp: normalize_alert_policy_minutes_def saved_minutes_def ack_def mute_def Let_def min_def
        http_default_ack_mute_minutes_def http_default_mute_minutes_def http_max_policy_minutes_def)
  have "td_chats t = (if asked_chats b \<noteq> [] then asked_chats b else tr_admin_chat_id (the cur)) \<and>
    (asked_chats b = [] \<longrightarrow> cur \<noteq> None) \<and> td_ack t = fst (normalize_alert_policy_minutes ack mute) \<and>
    td_mute t = snd (normalize_alert_policy_minutes ack mute)"
    using assms unfolding asked_chats_def
    by (cases cur) (auto simp: draft_settings_def Let_def ack_def mute_def split: if_splits sum.splits prod.splits)
  then show "td_chats t = (if asked_chats b \<noteq> [] then asked_chats b else tr_admin_chat_id (the cur))"
    "asked_chats b = [] \<longrightarrow> cur \<noteq> None"
    "td_ack t = saved_minutes 1440 (tb_ack_mute_minutes b) (map_option tr_ack_mute_minutes cur)"
    "td_mute t = saved_minutes 60 (tb_mute_minutes b) (map_option tr_mute_minutes cur)"
    by (simp_all add: pol)
qed

lemma saved_minutes_range: "0 < standard \<Longrightarrow> 1 \<le> saved_minutes standard asked before \<and> saved_minutes standard asked before \<le> 43200"
  by (simp add: saved_minutes_def Let_def)

text \<open>C17: After a save that is answered as done, the organisation that was asked for, which the caller administers, has
  exactly one row of settings, and it holds what the request asked for: the text of its chats, which is not empty (but
  may name no chat, as \<open>blank_chats_are_saved\<close> shows), its minutes cut to between one and thirty days, and its
  switches, which a first save stores as on; the rows of all other organisations are as before. The rows of settings
  have distinct identifiers and no identifier is nil, generated ones included.\<close>

theorem saved_settings_are_the_only_ones:
  assumes "update_telegram_settings ev rq body c d = (respond_status 200 a c, d1)"
    and "settings_keyed (rows_of d)" and "\<And>n. e_uuid (ce_alert (dv_chk ev)) n \<noteq> uuid_nil"
  shows "\<exists>b org r. body = Inr b \<and>
    administers (dv_web ev) rq c (snd (resolve_org_from_request (dv_web ev) rq True c (dk_web d))) org \<and>
    of_org org (w_settings (rows_of d1)) = [r] \<and>
    of_others org (w_settings (rows_of d1)) = of_others org (w_settings (rows_of d)) \<and>
    holds_request b (Alert_Store.newest (of_org org (w_settings (rows_of d)))) r \<and> tr_admin_chat_id r \<noteq> [] \<and>
    1 \<le> tr_ack_mute_minutes r \<and> tr_ack_mute_minutes r \<le> 43200 \<and> 1 \<le> tr_mute_minutes r \<and> tr_mute_minutes r \<le> 43200"
proof -
  obtain b org token t aenv w w1 where b: "body = Inr b" and s: "saved ev rq b c d org token t aenv w w1"
    and d1: "w_settings (rows_of d1) = w_settings w1"
    using update_savedD [OF assms(1)] by blast
  define before where "before = Alert_Store.newest (of_org org (w_settings w))"
  obtain v v1 where draft: "draft_settings (dv_web ev) b before c v = (Inr (token, t), v1)"
    and w: "w_settings w = w_settings (rows_of d)" and run: "store_settings aenv org b t w = (None, w1)"
    and fresh: "\<And>n. e_uuid aenv n \<noteq> uuid_nil"
    using s assms(3) by (auto simp: saved_def before_def)
  have "settings_keyed w" using assms(2) w by (simp add: settings_keyed_def)
  note st = store_settingsD [OF run this fresh]
  note t = draft_settingsD(1,2) [OF draft] and h = draft_holds [OF draft]
  have g: "gorm_default k (td_ack t) = td_ack t" "gorm_default k (td_mute t) = td_mute t" for k
    using t(1) by (simp_all add: gorm_default_def)
  obtain r where r: "of_org org (w_settings w1) = [r]" "tr_admin_chat_id r = td_chats t"
    "tr_ack_mute_minutes r = td_ack t" "tr_mute_minutes r = td_mute t"
    "switches r = (if before = None then [True, True, True, True] else asked_switches b)"
    using st(2)
  proof (elim disjE exE bexE conjE)
    fix i
    assume "of_org org (w_settings w) = []" "of_org org (w_settings w1) = [created_settings (e_now aenv) i org b t]"
    then show thesis
      by (intro that [of "created_settings (e_now aenv) i org b t"])
        (simp_all add: created_settings_def g switches_def default_true_def before_def)
  next
    fix q
    assume q: "q \<in> set (w_settings w)" "tr_org_id q = Some org"
      and one: "of_org org (w_settings w1) = [updated_settings (e_now aenv) org b t q]"
    have "before \<noteq> None" using q by (auto simp: before_def newest_None filter_empty_conv)
    then show thesis using one
      by (intro that [of "updated_settings (e_now aenv) org b t q"])
        (auto simp: updated_settings_def switches_def asked_switches_def)
  qed
  have "holds_request b before r" unfolding holds_request_def using r h by simp
  then show ?thesis using s st(1) d1 w r t b unfolding saved_def before_def by metis
qed

definition dx_settings :: "string \<Rightarrow> telegram_body" where
  "dx_settings token = \<lparr>tb_bot_token = token, tb_admin_chat_id = ''11'', tb_admin_chat_ids = [], tb_alert_connection = False,
     tb_alert_cpu = False, tb_alert_memory = False, tb_alert_disk = False, tb_ack_mute_minutes = 0, tb_mute_minutes = 0\<rparr>"

definition dx_save :: request where
  "dx_save = dx_request [(''org_id'', uuid_text 10)] []"

definition dx_answer :: answer where
  "dx_answer = ATelegram True ''11'' [''11''] False False False False 1440 60 True []"

definition dx_fresh :: desk_env where
  "dx_fresh = dx_env\<lparr>dv_chk := dx_chk\<lparr>ce_alert := ex_env\<lparr>e_uuid := (\<lambda>n. 91)\<rparr>\<rparr>\<rparr>"

lemma dx_fresh_saved:
  "update_telegram_settings dx_fresh dx_save (Inr (dx_settings ''t'')) dx_ctx dx_desk =
     (respond_status 200 dx_answer dx_ctx,
      snd (update_telegram_settings dx_fresh dx_save (Inr (dx_settings ''t'')) dx_ctx dx_desk))"
proof (rule prod_eqI)
  have "fst (update_telegram_settings dx_fresh dx_save (Inr (dx_settings ''t'')) dx_ctx dx_desk) =
      respond_status 200 dx_answer dx_ctx"
    by code_simp
  then show "fst (update_telegram_settings dx_fresh dx_save (Inr (dx_settings ''t'')) dx_ctx dx_desk) =
      fst (respond_status 200 dx_answer dx_ctx,
        snd (update_telegram_settings dx_fresh dx_save (Inr (dx_settings ''t'')) dx_ctx dx_desk))" by simp
qed simp

lemma dx_fresh_ids: "e_uuid (ce_alert (dv_chk dx_fresh)) n \<noteq> uuid_nil"
  by (simp add: dx_fresh_def uuid_nil_def)

lemma dx_keyed: "settings_keyed (rows_of dx_desk)" "w_settings (rows_of dx_desk) = []"
  by (simp_all add: settings_keyed_def keyed_def dx_desk_def ex_failing_def ex_world_def)

theorem saved_settings_are_the_only_ones_witness:
  "\<exists>org r. of_org org (w_settings (rows_of (snd (update_telegram_settings dx_fresh dx_save (Inr (dx_settings ''t'')) dx_ctx
      dx_desk)))) = [r] \<and> tr_admin_chat_id r = ''11'' \<and> tr_ack_mute_minutes r = 1440 \<and> tr_mute_minutes r = 60 \<and>
      switches r = [True, True, True, True]"
proof -
  have m: "holds_request (dx_settings ''t'') None r \<longleftrightarrow> tr_admin_chat_id r = ''11'' \<and> tr_ack_mute_minutes r = 1440 \<and>
      tr_mute_minutes r = 60 \<and> switches r = [True, True, True, True]" for r
    by (simp add: holds_request_def asked_chats_def saved_minutes_def dx_settings_def, code_simp)
  have n: "Alert_Store.newest (of_org org (w_settings (rows_of dx_desk))) = None" for org by (simp add: dx_keyed(2))
  obtain org r where "of_org org (w_settings (rows_of (snd (update_telegram_settings dx_fresh dx_save
      (Inr (dx_settings ''t'')) dx_ctx dx_desk)))) = [r]" "holds_request (dx_settings ''t'') None r"
    using saved_settings_are_the_only_ones [OF dx_fresh_saved dx_keyed(1) dx_fresh_ids] unfolding n by blast
  then show ?thesis unfolding m by blast
qed

text \<open>A save whose list of chats holds only white space is answered as done, and leaves the organisation with settings
  that name no chat: only the joined text is tested, before it is split and trimmed.\<close>

definition dx_blank :: telegram_body where
  "dx_blank = (dx_settings ''t'')\<lparr>tb_admin_chat_ids := ['' '']\<rparr>"

theorem blank_chats_are_saved:
  "fst (update_telegram_settings dx_fresh dx_save (Inr dx_blank) dx_ctx dx_desk) =
     respond_status 200 (ATelegram True '' '' [] False False False False 1440 60 True []) dx_ctx \<and>
   map (\<lambda>r. (tr_org_id r, http_split_chat_ids (tr_admin_chat_id r)))
     (w_settings (rows_of (snd (update_telegram_settings dx_fresh dx_save (Inr dx_blank) dx_ctx dx_desk)))) = [(Some 10, [])]"
  by code_simp

text \<open>The first save of an organisation stores all four kinds of alert as switched on, whatever was asked for,
  since \<open>Create\<close> leaves a false column to the default of the database; the answer repeats what was asked for.\<close>

theorem first_save_turns_alerts_on:
  assumes "update_telegram_settings ev rq (Inr b) c d = (respond_status 200 a c, d1)"
    and "settings_keyed (rows_of d)" and "\<And>n. e_uuid (ce_alert (dv_chk ev)) n \<noteq> uuid_nil"
    and "we_parse (dv_web ev) (requested_org rq) = Some org" and "of_org org (w_settings (rows_of d)) = []"
  shows "(\<exists>r. of_org org (w_settings (rows_of d1)) = [r] \<and> tr_alert_connection r \<and> tr_alert_cpu r \<and> tr_alert_memory r \<and>
      tr_alert_disk r) \<and>
    (\<exists>s chats ids m n h e. a = ATelegram s chats ids (tb_alert_connection b) (tb_alert_cpu b) (tb_alert_memory b)
      (tb_alert_disk b) m n h e)"
proof -
  obtain g token t aenv w w1 where s: "saved ev rq b c d g token t aenv w w1"
    and d1: "w_settings (rows_of d1) = w_settings w1"
    and a: "\<exists>s chats ids m n h e. a = ATelegram s chats ids (tb_alert_connection b) (tb_alert_cpu b) (tb_alert_memory b)
      (tb_alert_disk b) m n h e"
    using update_savedD [OF assms(1)] by blast
  have w: "w_settings w = w_settings (rows_of d)" and run: "store_settings aenv g b t w = (None, w1)" and g: "g = org"
    and fresh: "\<And>n. e_uuid aenv n \<noteq> uuid_nil"
    using s assms(3,4) by (auto simp: saved_def administers_def)
  have "settings_keyed w" using assms(2) w by (simp add: settings_keyed_def)
  from store_settingsD(2) [OF run this fresh] assms(5) w g
  obtain i where "of_org org (w_settings w1) = [created_settings (e_now aenv) i org b t]"
    by (auto simp: filter_empty_conv)
  with d1 a show ?thesis by (simp add: created_settings_def default_true_def)
qed

theorem first_save_turns_alerts_on_witness:
  "\<exists>r. of_org 10 (w_settings (rows_of (snd (update_telegram_settings dx_fresh dx_save (Inr (dx_settings ''t'')) dx_ctx
      dx_desk)))) = [r] \<and> tr_alert_connection r \<and> tr_alert_disk r \<and> \<not> tb_alert_disk (dx_settings ''t'')"
proof -
  have "we_parse (dv_web dx_fresh) (requested_org dx_save) = Some 10" by code_simp
  then show ?thesis
    using first_save_turns_alerts_on [OF dx_fresh_saved dx_keyed(1) dx_fresh_ids, of 10] dx_keyed(2)
    by (auto simp: dx_settings_def)
qed

section \<open>Registered webhooks\<close>

lemma encoded_plain: "set (enc_prefix @ std_encode s) \<subseteq> set plain_chars" "set (''tg_'' @ raw_url_encode s) \<subseteq> set plain_chars"
proof -
  have "list_all (\<lambda>c. c \<in> set plain_chars) (CHR ''='' # b64_std @ b64_url @ enc_prefix @ ''tg_'')" by code_simp
  then have plain: "set (CHR ''='' # b64_std) \<subseteq> set plain_chars" "set (CHR ''='' # b64_url) \<subseteq> set plain_chars"
    "set enc_prefix \<subseteq> set plain_chars" "set ''tg_'' \<subseteq> set plain_chars"
    by (auto simp: list_all_iff)
  show "set (enc_prefix @ std_encode s) \<subseteq> set plain_chars"
    using set_b64_enc [OF b64_alphabets(1), of True s] plain(1,3) by (auto simp: std_encode_def)
  show "set (''tg_'' @ raw_url_encode s) \<subseteq> set plain_chars"
    using set_b64_enc [OF b64_alphabets(2), of False s] plain(2,4) unfolding raw_url_encode_def set_append by fastforce
qed

lemma trim_plain: "set s \<subseteq> set plain_chars \<Longrightarrow> s \<noteq> [] \<Longrightarrow> trim_space s = s"
  by (rule trim_space_plain) (use hd_in_set last_in_set in blast)+

lemma trim_encrypted: "encrypt_string g key nonce s = Inr enc \<Longrightarrow> trim_space enc = enc \<and> enc \<noteq> []"
  using trim_plain [OF encoded_plain(1)] by (auto simp: encrypt_string_def enc_prefix_def split: option.splits)

lemma trim_secret: "telegram_webhook_secret_for ev org token \<noteq> [] \<Longrightarrow>
    trim_space (telegram_webhook_secret_for ev org token) = telegram_webhook_secret_for ev org token"
  using trim_plain [OF encoded_plain(2)] by (auto simp: telegram_webhook_secret_for_def Let_def)

text \<open>C18: The secret a save registers with Telegram is the one the webhook asks for: as long as the settings stay as they
  were saved and no statement fails, the press of a button of an alert of this organisation that carries the secret
  and comes from one of the saved chats is acted upon, and answered.\<close>

theorem registered_webhooks_are_accepted:
  assumes save: "update_telegram_settings ev rq body c d = (respond_status 200 a c, d1)"
    and tables: "settings_keyed (rows_of d)" "\<And>n. e_uuid (ce_alert (dv_chk ev)) n \<noteq> uuid_nil"
    and cipher: "gcm_opens (we_gcm (dv_web ev))" "\<And>n x. we_nonce (dv_web ev) n = Some x \<Longrightarrow> length x = nonce_size"
    and hook: "dk_hooks d1 = dk_hooks d @ [(endpoint, url, secret)]"
    and org: "we_parse (dv_web ev) (requested_org rq) = Some org"
    and later: "w_settings (rows_of d2) = w_settings (rows_of d1)" "\<nexists>n. e_db_fail (ce_alert (dv_chk ev)) n"
      "dv_alerts ev = Some svc"
    and press: "fst (org_id_for_alert (now_env ev d2) (bp_data p) (rows_of d2)) = Some org"
      "rq_header rq2 ''X-Telegram-Bot-Api-Secret-Token'' = secret"
      "\<forall>r. of_org org (w_settings (rows_of d1)) = [r] \<longrightarrow> press_chat p \<in> set (http_split_chat_ids (tr_admin_chat_id r))"
  shows "\<exists>token v msg v1. alerts_of v = alerts_of d2 \<and> act_press ev svc token (press_chat p) (trim_space (bp_data p)) v = (msg, v1) \<and>
    telegram_webhook ev rq2 (Inr (Some p)) c2 d2 =
      (hook_done c2, snd (on_alerts ev (\<lambda>aenv. answer_callback svc aenv token (bp_callback_id p) msg) v1))"
proof -
  obtain b g token t aenv w w1 where s: "saved ev rq b c d g token t aenv w w1"
    and d1: "w_settings (rows_of d1) = w_settings w1"
    and sec: "dk_hooks d1 = dk_hooks d \<or> token \<noteq> [] \<and> telegram_webhook_secret_for ev g token \<noteq> [] \<and>
        (\<exists>e u. dk_hooks d1 = dk_hooks d @ [(e, u, telegram_webhook_secret_for ev g token)])"
    using update_savedD [OF save] by blast
  have token: "token \<noteq> []" and secret: "secret = telegram_webhook_secret_for ev g token" "secret \<noteq> []"
  proof -
    have "dk_hooks d1 \<noteq> dk_hooks d" unfolding hook by simp
    with sec have *: "token \<noteq> []" "telegram_webhook_secret_for ev g token \<noteq> []"
      "\<exists>e u. dk_hooks d1 = dk_hooks d @ [(e, u, telegram_webhook_secret_for ev g token)]" by blast+
    show "token \<noteq> []" by (rule *(1))
    from *(3) obtain e u where "dk_hooks d @ [(endpoint, url, secret)] = dk_hooks d @ [(e, u, telegram_webhook_secret_for ev g token)]"
      unfolding hook by blast
    then show same: "secret = telegram_webhook_secret_for ev g token" unfolding same_append_eq by blast
    show "secret \<noteq> []" unfolding same by (rule *(2))
  qed
  obtain row v0 v1 where draft: "draft_settings (dv_web ev) b row c v0 = (Inr (token, t), v1)"
    using s unfolding saved_def by blast
  have w: "w_settings w = w_settings (rows_of d)" and run: "store_settings aenv g b t w = (None, w1)"
    and ids: "e_uuid aenv = e_uuid (ce_alert (dv_chk ev))" and g: "g = org"
    using s org unfolding saved_def administers_def by simp_all
  have fresh: "e_uuid aenv n \<noteq> uuid_nil" for n unfolding ids by (rule tables(2))
  have "settings_keyed w" using tables(1) w by (simp add: settings_keyed_def)
  from store_settingsD(2) [OF run this fresh] obtain r where r: "of_org org (w_settings w1) = [r]" "tr_bot_token_enc r = td_enc t"
    unfolding g by (auto simp: created_settings_def updated_settings_def)
  obtain n where enc: "encrypt_string (we_gcm (dv_web ev)) (we_key (dv_web ev)) (we_nonce (dv_web ev) n) token = Inr (td_enc t)"
    using draft_settingsD(4) [OF draft token] by blast
  have dec: "decrypt_string (we_gcm (dv_web ev)) (we_key (dv_web ev)) (td_enc t) = Inr token"
    using decrypt_encrypt [OF cipher(1) enc] cipher(2) by blast
  obtain x u where x: "on_alerts ev (\<lambda>aenv. org_id_for_alert aenv (bp_data p)) d2 = (x, u)" by fastforce
  obtain y u1 where y: "on_alerts ev (\<lambda>aenv. get_telegram_row aenv org) u = (y, u1)" by fastforce
  note fx = on_alerts_reads [OF x reads_alert_org] on_alertsD(1) [OF x]
    and fy = on_alerts_reads [OF y reads_telegram] on_alertsD(1) [OF y]
  have x': "x = Some org" using fx(5) press(1) by simp
  have settings: "w_settings (rows_of u) = w_settings w1" using fx(3) later(1) d1 by (simp add: same_data_def)
  have "\<not> e_db_fail (now_env ev u) k" for k using later(2) by (simp add: env_at_def)
  then have y': "y = Inr r" using fy(5) r(1) by (simp add: get_telegram_row_def db_first_def settings split: option.splits)
  have found: "press_settings ev p d2 = (Some (org, r, token), u1)"
    using x x' y y' r(2) dec trim_encrypted [OF enc] token draft_settingsD(3) [OF draft] by (simp add: press_settings_def)
  have auth: "telegram_webhook_authorized ev rq2 (telegram_webhook_secret_for ev org token)"
    using press(2) secret g trim_secret [of ev org token] by (simp add: telegram_webhook_authorized_def Let_def)
  have known: "press_chat p \<in> set (http_split_chat_ids (tr_admin_chat_id r))" using press(3) r(1) d1 by simp
  then have same: "trim_space (press_chat p) = press_chat p" "press_chat p \<noteq> []"
    by (auto simp: http_split_chat_ids_def)
  then have "\<exists>i \<in> set (http_split_chat_ids (tr_admin_chat_id r)). press_chat p = trim_space i" using known by metis
  then have chat: "telegram_chat_allowed (press_chat p) (tr_admin_chat_id r)"
    using same by (simp add: telegram_chat_allowed_def Let_def list_ex_iff)
  obtain msg v1 where act: "act_press ev svc token (press_chat p) (trim_space (bp_data p)) u1 = (msg, v1)" by fastforce
  have "telegram_webhook ev rq2 (Inr (Some p)) c2 d2 =
      (hook_done c2, snd (on_alerts ev (\<lambda>aenv. answer_callback svc aenv token (bp_callback_id p) msg) v1))"
    using later(3) found auth chat act by (simp add: telegram_webhook_def)
  with act show ?thesis using fx(1) fy(1) by (intro exI conjI) auto
qed

definition dx_after :: desk where
  "dx_after = snd (update_telegram_settings dx_fresh dx_save (Inr (dx_settings ''t'')) dx_ctx dx_desk)"

definition dx_press :: button_press where
  "dx_press = \<lparr>bp_callback_id = ''q'', bp_data = ''a:'' @ uuid_text 5, bp_chat = Some 11\<rparr>"

definition dx_update :: request where
  "dx_update = (ax_request [] [])\<lparr>rq_header := (\<lambda>h. if h = ''X-Telegram-Bot-Api-Secret-Token''
     then telegram_webhook_secret_for dx_fresh 10 ''t'' else [])\<rparr>"

theorem registered_webhooks_are_accepted_witness:
  "\<exists>token v msg v1. alerts_of v = alerts_of dx_after \<and>
    act_press dx_fresh ex_svc token (press_chat dx_press) (trim_space (bp_data dx_press)) v = (msg, v1) \<and>
    telegram_webhook dx_fresh dx_update (Inr (Some dx_press)) new_ctx dx_after =
      (hook_done new_ctx, snd (on_alerts dx_fresh (\<lambda>aenv. answer_callback ex_svc aenv token (bp_callback_id dx_press) msg) v1))"
proof (rule registered_webhooks_are_accepted [where org = 10 and secret = "telegram_webhook_secret_for dx_fresh 10 ''t''"])
  show "update_telegram_settings dx_fresh dx_save (Inr (dx_settings ''t'')) dx_ctx dx_desk = (respond_status 200 dx_answer dx_ctx, dx_after)"
    using dx_fresh_saved by (simp add: dx_after_def)
  show "settings_keyed (rows_of dx_desk)" "e_uuid (ce_alert (dv_chk dx_fresh)) n \<noteq> uuid_nil" for n
    by (rule dx_keyed, rule dx_fresh_ids)
  show "gcm_opens (we_gcm (dv_web dx_fresh))" by (simp add: dx_fresh_def dx_env_def ax_env_def gcm_opens_def)
  show "length x = nonce_size" if "we_nonce (dv_web dx_fresh) n = Some x" for n x
    using that by (auto simp: dx_fresh_def dx_env_def ax_env_def nonce_size_def)
  show "dk_hooks dx_after = dk_hooks dx_desk @ [(''https://api.telegram.org/bott/setWebhook'', ''https://panel.example/api/telegram/webhook'',
      telegram_webhook_secret_for dx_fresh 10 ''t'')]"
    by code_simp
  show "we_parse (dv_web dx_fresh) (requested_org dx_save) = Some 10" by code_simp
  show "w_settings (rows_of dx_after) = w_settings (rows_of dx_after)" by (rule refl)
  show "\<nexists>n. e_db_fail (ce_alert (dv_chk dx_fresh)) n" by (simp add: dx_fresh_def)
  show "dv_alerts dx_fresh = Some ex_svc" by (simp add: dx_fresh_def dx_env_def)
  show "fst (org_id_for_alert (now_env dx_fresh dx_after) (bp_data dx_press) (rows_of dx_after)) = Some 10" by code_simp
  show "rq_header dx_update ''X-Telegram-Bot-Api-Secret-Token'' = telegram_webhook_secret_for dx_fresh 10 ''t''"
    by (simp add: dx_update_def)
  have "map tr_admin_chat_id (of_org 10 (w_settings (rows_of dx_after))) = [''11'']"
    "press_chat dx_press \<in> set (http_split_chat_ids ''11'')" by code_simp+
  then show "\<forall>r. of_org 10 (w_settings (rows_of dx_after)) = [r] \<longrightarrow>
      press_chat dx_press \<in> set (http_split_chat_ids (tr_admin_chat_id r))" by auto
qed

end
