(* ===== verification/Spec2Isabelle.thy ===== *)
theory Spec2Isabelle
  imports Alert_Properties Message_Properties Path_Properties Ops_Limits Session_Properties Login_Properties Backup_Properties Watch_Properties Desk_Properties
begin

text \<open>
Verification of the backend of a control panel for VPN nodes (\<open>src/backend\<close>, Go).

The program. \<open>cmd/api\<close> is the panel: an HTTP API over a PostgreSQL database and a set of background
services. The check workers (\<open>services/checks\<close>, \<open>services/nodecheck\<close>, \<open>services/metrics\<close>)
probe nodes and hand the results to the alert service (\<open>services/alerts\<close>), which decides when a
message is sent to Telegram and keeps alert and incident rows. The operation service
(\<open>services/ops\<close>) queues jobs on nodes, runs their items on executors (SSH, or the agent of the
node) and publishes events to subscribers. \<open>cmd/node-agent\<close> runs on a node; among other things it
serves a file interface with the rules of \<open>internal/agentfs\<close>. The panel reads files over SFTP with
rules of its own (\<open>internal/http/files.go\<close>).

Conventions. A Go struct is a record, a nullable pointer an option, an error a value of a sum or an
option type. Database tables are lists of rows in the state; each statement has a number, and an
oracle in the environment says which statements fail, so a theorem holds for every pattern of failures
unless it says \<open>healthy\<close>. Calls that leave the process (Telegram, executors, operating system) are
answered by functions of the environment and recorded in the order they are made. Times are int,
nanoseconds since 1970; a zero time is 0. Go's int is int here: the values that are added and
multiplied are limited by the code long before 64 bits, except where a theory's header says so.

\<^item> Shared: \<open>Prelude\<close> (association lists, rows with keys, runs of a machine and the locale
  \<open>invariant_machine\<close>, which every state machine below interprets), \<open>Go_Strings\<close> (the functions of
  package strings the code uses; white space is Unicode, case mapping ASCII, and \<open>EqualFold\<close> exact when one side is ASCII), \<open>Go_Time\<close>, \<open>Go_Paths\<close> (package path, and the normal form of clean
  paths as lists of segments), \<open>Uuid_Codec\<close>, \<open>Db_Models\<close> (the rows of \<open>internal/db/models.go\<close>).

\<^item> Alerts, \<open>services/alerts\<close>. \<open>Alert_Types\<close> (alert.go, policies, message ids), \<open>Alert_Render\<close>
  and \<open>Alert_Identity\<close> (renderer.go; messages are well-formed HTML), \<open>Alert_Examples\<close> (dedup.go),
  \<open>Alert_Store\<close> (rows, settings, mutes, incidents of service.go), \<open>Alert_Engine\<close>
  (\<open>maybeSendAlert\<close> and the \<open>Notify...\<close> functions), \<open>Alert_Callbacks\<close> (buttons). The lemmas:
  \<open>Alert_Frames\<close> (what an operation leaves alone), \<open>Alert_Watch\<close> and \<open>Alert_Refine\<close> (an abstract
  alert with five fields, and the simulation that the engine implements it), \<open>Alert_Invariant\<close> and
  \<open>Alert_Machine\<close> (tables stay keyed, under every failure), \<open>Alert_Runs\<close>, \<open>Alert_Buttons\<close>,
  \<open>Alert_Incidents\<close>, \<open>Alert_Identity\<close> (sequences of samples, mutes, incidents, fingerprints).
  \<open>Alert_Properties\<close> and \<open>Message_Properties\<close> state the properties.

\<^item> Paths. \<open>Agent_FS\<close> (agentfs/fsops.go), \<open>Agent_FS_Handlers\<close> (fs_handlers.go of the agent: what
  each handler answers and which calls on paths it makes), \<open>File_Roots\<close> (allowed roots of
  http/files.go, and the equivalence of the code's test with a test on segments).
  \<open>Path_Properties\<close> states the properties.

\<^item> Operation jobs, \<open>services/ops\<close>. \<open>Ops_Types\<close> and \<open>Ops_Params\<close> (job parameters, defaults,
  texts, and agent/agent_url.go), \<open>Ops_Hub\<close> and \<open>Hub_Delivery\<close> (stream.go: channels;
  a publication takes the channels under the lock, and each of its sends and removals is a step of its own; what a
  subscriber then sees), \<open>Ops_Store\<close> (statements, and the published events in their order),
  \<open>Ops_Engine\<close> (deployment, \<open>executeItem\<close>, the queue), \<open>Ops_Create\<close> (\<open>CreateJob\<close>, summaries),
  \<open>Ops_Items\<close> (what the executions leave alone and store), \<open>Ops_Machine\<close> (all
  interleavings of requests, ticks and workers), \<open>Ops_Jobs\<close> (a whole job; and \<open>all_once\<close>, the invariant that ties
  stored rows, events and executor calls to the executions of items, over all interleavings). \<open>Ops_Properties\<close> and
  \<open>Ops_Limits\<close> state the properties.

\<^item> Accounts, organisations and sessions, the handlers of \<open>internal/http\<close>. \<open>Web_Base\<close> (rows, statements,
  transactions, the context of a request), \<open>Web_Roles\<close> (tokens, ranks and the middleware),
  \<open>Web_Scope\<close> (org_scope.go, org_root.go), \<open>Web_Orgs\<close> (orgs.go, users.go), \<open>Web_Tokens\<close>
  (auth_tokens.go, auth_refresh.go, agent_auth.go), \<open>Web_Invites\<close> (invites.go), \<open>Access_Guards\<close> (ops.go),
  \<open>Ssh_Sessions\<close> (services/sshws). The lemmas:
  \<open>Access_Guards\<close> (the locale \<open>guard\<close> of a check that ends a chain, interpreted on each middleware),
  \<open>Access_Routes\<close> (router.go: every route with its guards, chains of guards and what each route asks for), \<open>Access_Accounts\<close> and \<open>Access_Signup\<close> (transactions, sign-ups, the limiter).
  \<open>Access_Properties\<close> and \<open>Session_Properties\<close> state the properties. What gin
  does with a chain of handlers is a parameter, with its documented behaviour (\<open>gin_runs\<close>) as a hypothesis.
  A row that \<open>First\<close> returns is the first in the order of the key where more than one can match.

\<^item> Logins. \<open>Secrets\<close> (base64 with the locale \<open>byte_coding\<close>, interpreted on both encodings, and
  security/crypto.go), \<open>Web_Login\<close> (auth.go, auth_2fa.go: passwords, one-time passwords, recovery codes sent
  through the alert service's client), \<open>Web_Passkeys\<close> (webauthn.go: challenges, registration, the relaxed
  validation of an assertion, the login). bcrypt, one-time passwords, AES and the library go-webauthn are
  parameters; what a theorem needs of them (a hash accepts the password it was made of) is a named hypothesis.
  \<open>Login_Properties\<close> states the properties: what a login has to show, what a challenge and a recovery code
  are good for, and where the second factor is lost.

\<^item> Backups, \<open>services/backup\<close>. \<open>Backup_Validate\<close> (types.go: configurations and their JSON;
  validation.go), \<open>Backup_Store\<close> (rows, statements, the trace of calls), \<open>Backup_Service\<close> (service.go),
  \<open>Backup_Scripts\<close> (ssh.go and the scripts of runner.go), \<open>Backup_Storage\<close> (the adapters of storage/ over a
  server given as a record of functions, the local directory as a disk, retention), \<open>Backup_Runner\<close> (runner.go),
  \<open>Backup_Configs\<close> (templates.go, catalog.go), \<open>Backup_Frames\<close> (scheduler.go, and requests, ticks and whole
  executions as one machine). A run is a long operation among others: before each of its statements and calls the others act
  (\<open>be_other\<close>), and its context may be cancelled by them. The lemmas: \<open>Backup_Frames\<close> (one rule per way of
  composing statements, as locales over an invariant the others respect), \<open>Backup_Invariant\<close>
  (states of rows; cancelled runs), \<open>Backup_Delivery\<close> (which calls a run without error has made), \<open>Backup_Health\<close>
  (when a run succeeds), \<open>Backup_Shell\<close> (a reader of shell words, against which escaping is judged),
  \<open>Backup_Retention\<close> (the locale \<open>object_store\<close>, interpreted on the local directory), \<open>Backup_Configs\<close> (what is
  accepted can be rendered). \<open>Backup_Properties\<close> states the properties.

\<^item> The workers that watch nodes, services and bots. \<open>Check_Targets\<close> (the world of the workers, and what
  services/checks probes, when, and what it takes for good; repetition of probes, the FTP
  dialogue), \<open>Check_Worker\<close> (services/checks/worker.go), \<open>Node_Watch\<close> (services/nodecheck and
  services/metrics). The network answers the \<open>n\<close>-th probe as the environment says, time passes with each
  statement and probe, and while a probe is under way the others act (\<open>ce_other\<close>). A report is a call of the
  alert service, so the properties hold of both together. The lemmas: \<open>Watch_Machine\<close> (the locale
  \<open>probe_laws\<close>: what a single probe keeps, every way of probing keeps; the locale \<open>watch_invariant\<close>: what
  statements, probes and alerts keep, every tick keeps; all events as one machine), \<open>Watch_Runs\<close> (repeated
  runs of a check against the alert service, what a tick adds, the lines an FTP probe sends).
  \<open>Watch_Properties\<close> states the properties.

\<^item> Alerts in the panel and in Telegram. \<open>Alert_Desk\<close> has the handlers of http/alerts.go, incidents.go,
  alert_policy.go, telegram.go, telegram_send.go and telegram_webhook.go. They work on the tables of the web model
  and on those of the alert service and the check worker, which are one database: \<open>on_web\<close> and \<open>on_cw\<close>
  run a part on its own tables and carry the shared ones over. \<open>Desk_Frames\<close> shows what each part leaves
  alone, that the tables stay \<open>linked\<close>, and which organisation an alert is of. \<open>Desk_Properties\<close> states the
  properties: who can act on an alert, what the lists show, what a save of the settings leaves. The locale
  \<open>row_check\<close> is the contract of a list of rows with one scope check per row, interpreted on alerts and incidents.

Interleavings. Goroutines are steps of a machine over the shared state: an operation under a mutex,
or between two waits, is one step. A property of all runs is proved by \<open>invariant_machine\<close>.

Fuel and bounds. The one definition with fuel is \<open>walk_ftp\<close>, as a server may list a directory inside itself. The wait for an agent's first contact is a function whose
termination follows from the limit of 45 seconds and the ticker of one second; the run of a job
terminates by the work that is left. The decimal and octal printers recurse on the quotient.

Not modelled: the JSON of requests and answers, the handlers of nodes, services, bots, checks and
general settings (request parsing around the services) and \<open>CreateOrgNode\<close>, the
executors (network and SSH), the Prometheus exporter (text of rows), the node agent outside of its file interface
(it reads the operating system and starts commands), start-up and configuration, the handlers of backups and
the transport of SSH and SFTP. The dashboard is not modelled: its providers query remote services.
\<close>

end
